(* ===== verification/Prelude.thy ===== *)
theory Prelude
  imports Main "HOL-Library.Word"
begin

text \<open>
  Shared vocabulary of the development: the machine types of \<^verbatim>\<open>utils/common.h\<close>
  (u8, u16, u32 as words of that width, buffers as lists of u8), the collections the component
  theories add their facts to, and generic lemmas on words and lists.
\<close>

unbundle bit_operations_syntax

type_synonym u8 = "8 word"
type_synonym u16 = "16 word"
type_synonym u32 = "32 word"
type_synonym u64 = "64 word"
type_synonym bytes = "u8 list"

text \<open>
  \<open>len_simps\<close> collects the lengths of what the operations return, \<open>frame_simps\<close> the
  fields an operation does not touch, \<open>codec_simps\<close> the round trips.
\<close>

named_theorems len_simps "lengths of results"
named_theorems frame_simps "fields an operation leaves alone"
named_theorems codec_simps "decode after encode"

subsection \<open>Words\<close>

lemma xor_twice [simp]: "(x XOR y) XOR y = (x :: 'a::len word)"
  by (simp add: xor.assoc)

lemma xor_twice_left [simp]: "y XOR (y XOR x) = (x :: 'a::len word)"
  by (simp add: xor.assoc [symmetric])

lemma and_ff: "x AND 0xff = take_bit 8 (x :: 'a::len word)"
proof -
  have eq: "(0xff :: 'a word) = mask 8" by (simp add: mask_numeral)
  show ?thesis unfolding eq by (rule take_bit_eq_mask [symmetric])
qed

text \<open>A word is the disjunction of its shifted bytes, and the bytes are read back from it.\<close>

lemma join_bytes16:
  "push_bit 8 (ucast (ucast (drop_bit 8 v) :: u8)) OR ucast (ucast (v AND 0xff) :: u8) = (v :: u16)"
  by (rule bit_word_eqI) (auto simp: bit_simps and_ff)

lemma join_bytes32:
  "push_bit 24 (ucast (ucast (drop_bit 24 v AND 0xff) :: u8)) OR
   push_bit 16 (ucast (ucast (drop_bit 16 v AND 0xff) :: u8)) OR
   push_bit 8 (ucast (ucast (drop_bit 8 v AND 0xff) :: u8)) OR
   ucast (ucast (v AND 0xff) :: u8) = (v :: u32)"
proof (rule bit_word_eqI, goal_cases)
  case (1 n)
  then show ?case
    by (cases "24 \<le> n"; cases "16 \<le> n"; cases "8 \<le> n") (auto simp: bit_simps and_ff)
qed

lemma split_bytes32:
  fixes a b c d :: u8
  defines "w \<equiv> push_bit 24 (ucast a) OR push_bit 16 (ucast b) OR push_bit 8 (ucast c) OR ucast d :: u32"
  shows "ucast (drop_bit 24 w AND 0xff) = a" "ucast (drop_bit 16 w AND 0xff) = b"
    "ucast (drop_bit 8 w AND 0xff) = c" "ucast (w AND 0xff) = d"
  unfolding w_def
  by (rule bit_word_eqI; auto simp: bit_simps and_ff dest: bit_imp_le_length)+

lemma unat_u8_less [simp]: "unat (x :: u8) < 256"
  using unsigned_less [of x, where 'a=nat] by simp

lemma all_less_4: "(\<forall>i < 4. P i) \<longleftrightarrow> P 0 \<and> P 1 \<and> P 2 \<and> P (3 :: nat)"
  by (auto simp: numeral_eq_Suc less_Suc_eq)

subsection \<open>Lists\<close>

lemma list_update_take_drop:
  "i < length xs \<Longrightarrow> xs[i := v] = take i xs @ v # drop (Suc i) xs"
  by (rule upd_conv_take_nth_drop)

lemma map2_xor_cancel:
  "length xs = length ys \<Longrightarrow> map2 (XOR) (map2 (XOR) xs ys) ys = (xs :: 'a::len word list)"
  by (induction xs ys rule: list_induct2) auto

text \<open>Undoing the steps of a loop in reverse order undoes the loop.\<close>

lemma foldl_preserves:
  "P s \<Longrightarrow> (\<And>s x. P s \<Longrightarrow> x \<in> set xs \<Longrightarrow> P (f s x)) \<Longrightarrow> P (foldl f s xs)"
  by (induction xs arbitrary: s) auto

lemma foldl_rev_inverse:
  assumes "P s" and "\<And>s x. P s \<Longrightarrow> x \<in> set xs \<Longrightarrow> P (f s x) \<and> g (f s x) x = s"
  shows "foldl g (foldl f s xs) (rev xs) = s"
  using assms
proof (induction xs arbitrary: s)
  case (Cons x xs)
  from Cons.prems have "P (f s x)" and "g (f s x) x = s" by auto
  moreover have "foldl g (foldl f (f s x) xs) (rev xs) = f s x"
    by (rule Cons.IH) (use Cons.prems in auto)
  ultimately show ?case by simp
qed simp

end
