(* ===== verification/Common.thy ===== *)
theory Common
  imports Prelude
begin

text \<open>
  \<^verbatim>\<open>utils/common.c\<close> and the byte-order macros of \<^verbatim>\<open>utils/common.h\<close>. A C string is a
  \<^typ>\<open>string\<close> without its terminator; reading at its end reads the NUL. A function that
  returns -1 returns \<^const>\<open>None\<close>; what it has then written to the output buffer is not used by
  any caller and is not part of the result.
\<close>

subsection \<open>Byte order\<close>

definition WPA_GET_BE16 :: "bytes \<Rightarrow> u16" where
  "WPA_GET_BE16 a = push_bit 8 (ucast (a ! 0)) OR ucast (a ! 1)"

definition WPA_PUT_BE16 :: "u16 \<Rightarrow> bytes" where
  "WPA_PUT_BE16 v = [ucast (drop_bit 8 v), ucast (v AND 0xff)]"

definition WPA_GET_LE16 :: "bytes \<Rightarrow> u16" where
  "WPA_GET_LE16 a = push_bit 8 (ucast (a ! 1)) OR ucast (a ! 0)"

definition WPA_PUT_LE16 :: "u16 \<Rightarrow> bytes" where
  "WPA_PUT_LE16 v = [ucast (v AND 0xff), ucast (drop_bit 8 v)]"

definition WPA_GET_BE32 :: "bytes \<Rightarrow> u32" where
  "WPA_GET_BE32 a = push_bit 24 (ucast (a ! 0)) OR push_bit 16 (ucast (a ! 1)) OR
     push_bit 8 (ucast (a ! 2)) OR ucast (a ! 3)"

definition WPA_PUT_BE32 :: "u32 \<Rightarrow> bytes" where
  "WPA_PUT_BE32 v = [ucast (drop_bit 24 v AND 0xff), ucast (drop_bit 16 v AND 0xff),
     ucast (drop_bit 8 v AND 0xff), ucast (v AND 0xff)]"

definition WPA_GET_LE32 :: "bytes \<Rightarrow> u32" where
  "WPA_GET_LE32 a = push_bit 24 (ucast (a ! 3)) OR push_bit 16 (ucast (a ! 2)) OR
     push_bit 8 (ucast (a ! 1)) OR ucast (a ! 0)"

definition WPA_PUT_LE32 :: "u32 \<Rightarrow> bytes" where
  "WPA_PUT_LE32 v = [ucast (v AND 0xff), ucast (drop_bit 8 v AND 0xff),
     ucast (drop_bit 16 v AND 0xff), ucast (drop_bit 24 v AND 0xff)]"

lemmas be_le_defs = WPA_GET_BE16_def WPA_PUT_BE16_def WPA_GET_LE16_def WPA_PUT_LE16_def
  WPA_GET_BE32_def WPA_PUT_BE32_def WPA_GET_LE32_def WPA_PUT_LE32_def

lemma length_put [len_simps]:
  "length (WPA_PUT_BE16 v) = 2" "length (WPA_PUT_LE16 v) = 2"
  "length (WPA_PUT_BE32 w) = 4" "length (WPA_PUT_LE32 w) = 4"
  by (simp_all add: be_le_defs)

lemma get_put_16 [codec_simps]:
  "WPA_GET_BE16 (WPA_PUT_BE16 v @ r) = v" "WPA_GET_LE16 (WPA_PUT_LE16 v @ r) = v"
  by (simp_all add: be_le_defs join_bytes16)

lemma get_put_32 [codec_simps]:
  "WPA_GET_BE32 (WPA_PUT_BE32 w @ r) = w" "WPA_GET_LE32 (WPA_PUT_LE32 w @ r) = w"
  by (simp_all add: be_le_defs join_bytes32)

lemma put_get_be32 [codec_simps]:
  "WPA_PUT_BE32 (WPA_GET_BE32 [a, b, c, d]) = [a, b, c, d]"
  by (simp add: be_le_defs split_bytes32 del: drop_bit_or)

subsection \<open>Hexadecimal text\<close>

abbreviation NUL :: char where
  "NUL \<equiv> CHR 0x00"

definition hex2num :: "char \<Rightarrow> int option" where
  "hex2num c =
     (let v = of_char c :: int in
      if 48 \<le> v \<and> v \<le> 57 then Some (v - 48)
      else if 97 \<le> v \<and> v \<le> 102 then Some (v - 97 + 10)
      else if 65 \<le> v \<and> v \<le> 70 then Some (v - 65 + 10)
      else None)"

text \<open>\<open>*txt\<close> at the start of what is left of a string, and \<open>txt++\<close>.\<close>

definition c_head :: "string \<Rightarrow> char" where
  "c_head txt = (case txt of [] \<Rightarrow> NUL | c # _ \<Rightarrow> c)"

definition hex2byte :: "string \<Rightarrow> int option" where
  "hex2byte hex =
     (case hex2num (c_head hex) of None \<Rightarrow> None
      | Some a \<Rightarrow> (case hex2num (c_head (tl hex)) of None \<Rightarrow> None
                  | Some b \<Rightarrow> Some (push_bit 4 a OR b)))"

text \<open>The loops below count down the octets that are left (6 in the code) instead of \<open>i\<close> up.\<close>

primrec hwaddr_aton_loop :: "nat \<Rightarrow> string \<Rightarrow> bytes option" where
  "hwaddr_aton_loop 0 txt = Some []"
| "hwaddr_aton_loop (Suc n) txt =
     (case hex2num (c_head txt) of None \<Rightarrow> None
      | Some a \<Rightarrow> (case hex2num (c_head (tl txt)) of None \<Rightarrow> None
         | Some b \<Rightarrow>
            (if n \<noteq> 0 \<and> c_head (tl (tl txt)) \<noteq> CHR '':'' then None
             else map_option ((#) (word_of_int (push_bit 4 a OR b)))
                    (hwaddr_aton_loop n (if n \<noteq> 0 then tl (tl (tl txt)) else tl (tl txt))))))"

definition hwaddr_aton :: "string \<Rightarrow> bytes option" where
  "hwaddr_aton txt = hwaddr_aton_loop 6 txt"

primrec hwaddr_compact_aton_loop :: "nat \<Rightarrow> string \<Rightarrow> bytes option" where
  "hwaddr_compact_aton_loop 0 txt = Some []"
| "hwaddr_compact_aton_loop (Suc n) txt =
     (case hex2num (c_head txt) of None \<Rightarrow> None
      | Some a \<Rightarrow> (case hex2num (c_head (tl txt)) of None \<Rightarrow> None
         | Some b \<Rightarrow> map_option ((#) (word_of_int (push_bit 4 a OR b)))
                       (hwaddr_compact_aton_loop n (tl (tl txt)))))"

definition hwaddr_compact_aton :: "string \<Rightarrow> bytes option" where
  "hwaddr_compact_aton txt = hwaddr_compact_aton_loop 6 txt"

definition is_addr_sep :: "char \<Rightarrow> bool" where
  "is_addr_sep c \<longleftrightarrow> c = CHR '':'' \<or> c = CHR ''.'' \<or> c = CHR ''-''"

text \<open>\<open>hwaddr_aton2\<close> also returns the number of characters read.\<close>

primrec hwaddr_aton2_loop :: "nat \<Rightarrow> string \<Rightarrow> (bytes \<times> string) option" where
  "hwaddr_aton2_loop 0 pos = Some ([], pos)"
| "hwaddr_aton2_loop (Suc n) pos =
     (let pos = dropWhile is_addr_sep pos in
      case hex2num (c_head pos) of None \<Rightarrow> None
      | Some a \<Rightarrow> (case hex2num (c_head (tl pos)) of None \<Rightarrow> None
         | Some b \<Rightarrow> map_option (\<lambda>(addr, rest). (word_of_int (push_bit 4 a OR b) # addr, rest))
                       (hwaddr_aton2_loop n (tl (tl pos)))))"

definition hwaddr_aton2 :: "string \<Rightarrow> (bytes \<times> nat) option" where
  "hwaddr_aton2 txt =
     map_option (\<lambda>(addr, rest). (addr, length txt - length rest)) (hwaddr_aton2_loop 6 txt)"

primrec hexstr2bin :: "string \<Rightarrow> nat \<Rightarrow> bytes option" where
  "hexstr2bin hex 0 = Some []"
| "hexstr2bin hex (Suc n) =
     (case hex2byte hex of None \<Rightarrow> None
      | Some a \<Rightarrow> map_option ((#) (word_of_int a)) (hexstr2bin (tl (tl hex)) n))"

subsection \<open>Printing bytes\<close>

definition hex_digit :: "bool \<Rightarrow> nat \<Rightarrow> char" where
  "hex_digit upper d =
     char_of (if d < 10 then 48 + d else (if upper then 65 else 97) + (d - 10))"

text \<open>\<open>%02x\<close> and \<open>%02X\<close> of the standard library's printf.\<close>

definition fmt_02x :: "bool \<Rightarrow> u8 \<Rightarrow> string" where
  "fmt_02x upper d = [hex_digit upper (unat d div 16), hex_digit upper (unat d mod 16)]"

text \<open>
  \<open>os_snprintf(pos, size, ...)\<close> at offset \<open>pos\<close> of a buffer writes at most \<open>size - 1\<close>
  characters of the text and a NUL, and returns the length of the whole text.
\<close>

definition os_snprintf :: "string \<Rightarrow> nat \<Rightarrow> nat \<Rightarrow> string \<Rightarrow> string \<times> nat" where
  "os_snprintf buf pos sz txt =
     (if sz = 0 then buf
      else let w = take (sz - 1) txt @ [NUL]
           in take pos buf @ w @ drop (pos + length w) buf,
      length txt)"

fun snprintf_hex_loop :: "string \<Rightarrow> nat \<Rightarrow> bytes \<Rightarrow> bool \<Rightarrow> string \<times> nat" where
  "snprintf_hex_loop buf pos [] upper = (buf[length buf - 1 := NUL], pos)"
| "snprintf_hex_loop buf pos (d # data) upper =
     (let left = length buf - pos; (buf', ret) = os_snprintf buf pos left (fmt_02x upper d) in
      if ret \<ge> left then (buf'[length buf' - 1 := NUL], pos)
      else snprintf_hex_loop buf' (pos + ret) data upper)"

definition wpa_snprintf_hex_case :: "string \<Rightarrow> bytes \<Rightarrow> bool \<Rightarrow> string \<times> nat" where
  "wpa_snprintf_hex_case buf data upper =
     (if buf = [] then (buf, 0) else snprintf_hex_loop buf 0 data upper)"

definition wpa_snprintf_hex :: "string \<Rightarrow> bytes \<Rightarrow> string \<times> nat" where
  "wpa_snprintf_hex buf data = wpa_snprintf_hex_case buf data False"

definition wpa_snprintf_hex_uppercase :: "string \<Rightarrow> bytes \<Rightarrow> string \<times> nat" where
  "wpa_snprintf_hex_uppercase buf data = wpa_snprintf_hex_case buf data True"

definition wpa_ssid_txt :: "bytes \<Rightarrow> string" where
  "wpa_ssid_txt ssid =
     map (\<lambda>b. if b < 32 \<or> b \<ge> 127 then CHR ''_'' else char_of (unat b))
       (takeWhile (\<lambda>b. b \<noteq> 0) (take 32 ssid))"

subsection \<open>Counters and time\<close>

text \<open>The loop of \<open>inc_byte_array\<close>; its argument is \<open>pos + 1\<close>.\<close>

primrec inc_byte_array_at :: "nat \<Rightarrow> bytes \<Rightarrow> bytes" where
  "inc_byte_array_at 0 counter = counter"
| "inc_byte_array_at (Suc pos) counter =
     (let counter = counter[pos := counter ! pos + 1] in
      if counter ! pos \<noteq> 0 then counter else inc_byte_array_at pos counter)"

definition inc_byte_array :: "bytes \<Rightarrow> nat \<Rightarrow> bytes" where
  "inc_byte_array counter len = inc_byte_array_at len counter"

text \<open>\<open>now\<close> is what \<open>os_get_time\<close> returned: seconds and microseconds.\<close>

definition wpa_get_ntp_timestamp :: "u32 \<times> u32 \<Rightarrow> bytes" where
  "wpa_get_ntp_timestamp now =
     (let sec = fst now + 2208988800; usec = snd now;
          usec = 4295 * usec - drop_bit 5 usec - drop_bit 9 usec
      in WPA_PUT_BE32 sec @ WPA_PUT_BE32 usec)"

text \<open>The number a byte array holds, most significant byte first.\<close>

definition be_val :: "bytes \<Rightarrow> nat" where
  "be_val bs = foldl (\<lambda>v b. 256 * v + unat b) 0 bs"

lemma be_val_Nil [simp]: "be_val [] = 0"
  by (simp add: be_val_def)

lemma be_val_snoc [simp]: "be_val (bs @ [b]) = 256 * be_val bs + unat b"
  by (simp add: be_val_def)

lemma be_val_less: "be_val bs < 256 ^ length bs"
proof (induction bs rule: rev_induct)
  case (snoc b bs)
  then have "be_val bs + 1 \<le> 256 ^ length bs" by simp
  then have "256 * (be_val bs + 1) \<le> 256 * 256 ^ length bs" by (rule mult_le_mono2)
  then show ?case using unat_u8_less [of b] by (simp del: unat_u8_less)
qed simp

lemma unat_u8_inc: "unat (b + 1 :: u8) = (unat b + 1) mod 256"
  by (simp add: unat_word_ariths)

lemma unat_u8_inc_nz: "unat b \<noteq> 255 \<Longrightarrow> unat (b + 1 :: u8) = unat b + 1"
  using unat_u8_less [of b] by (simp add: unat_u8_inc del: unat_u8_less)

lemma u8_inc_zero: "(b + 1 :: u8) = 0 \<longleftrightarrow> unat b = 255"
proof (cases "unat b = 255")
  case True
  then have "unat (b + 1) = 0" by (simp add: unat_u8_inc)
  with True show ?thesis by (simp add: unat_eq_zero)
next
  case False
  then have "unat (b + 1) \<noteq> 0" by (simp add: unat_u8_inc_nz)
  with False show ?thesis by (metis unat_eq_zero)
qed

lemma length_inc_byte_array_at [simp]: "length (inc_byte_array_at n c) = length c"
  by (induction n arbitrary: c) (auto simp: Let_def)

lemma inc_byte_array_at_append:
  "n \<le> length c \<Longrightarrow> inc_byte_array_at n (c @ r) = inc_byte_array_at n c @ r"
proof (induction n arbitrary: c)
  case (Suc n)
  then have "n < length c" by simp
  with Suc.IH show ?case by (simp add: Let_def list_update_append nth_append)
qed simp

lemma inc_byte_array_at_snoc:
  "inc_byte_array_at (Suc (length c)) (c @ [b]) =
     (if b + 1 = 0 then inc_byte_array_at (length c) c @ [0] else c @ [b + 1])"
  by (auto simp: Let_def list_update_append nth_append inc_byte_array_at_append)

lemma length_inc_byte_array [simp, len_simps]: "length (inc_byte_array c n) = length c"
  by (simp add: inc_byte_array_def)

lemma inc_byte_array_val:
  "be_val (inc_byte_array c (length c)) = (be_val c + 1) mod 256 ^ length c"
proof (induction c rule: rev_induct)
  case Nil
  then show ?case by (simp add: inc_byte_array_def)
next
  case (snoc b c)
  show ?case
  proof (cases "b + 1 = 0")
    case True
    then have "unat b = 255" by (simp add: u8_inc_zero)
    with True snoc show ?thesis
      by (simp add: inc_byte_array_def inc_byte_array_at_append mult_mod_right)
  next
    case False
    then have b: "unat (b + 1) = unat b + 1"
      by (simp add: u8_inc_zero unat_u8_inc_nz)
    have "be_val (c @ [b + 1]) < 256 ^ length (c @ [b])" using be_val_less [of "c @ [b + 1]"] by simp
    with False b show ?thesis
      by (simp add: inc_byte_array_def inc_byte_array_at_snoc)
  qed
qed

text \<open>A byte array is determined by its length and the number it holds.\<close>

lemma be_val_inj:
  "length a = length b \<Longrightarrow> be_val a = be_val b \<Longrightarrow> a = b"
proof (induction a arbitrary: b rule: rev_induct)
  case (snoc x xs)
  then obtain y ys where b: "b = ys @ [y]" by (metis length_append_singleton length_0_conv rev_exhaust nat.distinct(1))
  have eq: "256 * be_val xs + unat x = 256 * be_val ys + unat y" using snoc.prems b by simp
  have "unat x = unat y"
    using arg_cong [OF eq, of "\<lambda>n. n mod 256"] by simp
  moreover from this eq have "be_val xs = be_val ys" by simp
  ultimately show ?case using snoc b by (simp add: word_unat_eq_iff)
qed simp

text \<open>
  \<open>inc_byte_array\<close> adds one to the big-endian number the array holds, modulo
  \<open>256 ^ len\<close>: the carry runs through every 0xff octet and an all-0xff counter wraps to zero.
  The authenticator uses it for its replay counters, nonces and group key counter.
\<close>

lemma inc_byte_array_increments:
  "be_val (inc_byte_array c (length c)) = (be_val c + 1) mod 256 ^ length c"
  by (rule inc_byte_array_val)

subsection \<open>Hexadecimal round trip\<close>

lemma hex2num_digit_table:
  "\<forall>d \<in> set [0..<16]. \<forall>up \<in> {True, False}. hex2num (hex_digit up d) = Some (int d)"
  by code_simp

lemma hex2num_digit: "d < 16 \<Longrightarrow> hex2num (hex_digit up d) = Some (int d)"
  using hex2num_digit_table by (cases up) auto

lemma nibbles_join: "word_of_int (push_bit 4 (int (unat b div 16)) OR int (unat b mod 16)) = (b :: u8)"
proof -
  have d: "unat b div 16 = drop_bit 4 (unat b)" "unat b mod 16 = take_bit 4 (unat b)"
    by (simp_all add: drop_bit_eq_div take_bit_eq_mod)
  have "push_bit 4 (drop_bit 4 (unat b)) OR take_bit 4 (unat b) = unat b"
    by (rule bit_eqI) (auto simp: bit_simps)
  then show ?thesis 
    by (simp add: d flip: of_nat_or_eq of_nat_push_bit  )
qed

lemma hex2byte_fmt: "hex2byte (fmt_02x up d @ r) = Some (push_bit 4 (int (unat d div 16)) OR int (unat d mod 16))"
  using unat_u8_less [of d] by (simp add: hex2byte_def fmt_02x_def c_head_def hex2num_digit del: unat_u8_less)

lemma hexstr2bin_fmt: "hexstr2bin (concat (map (fmt_02x up) data) @ r) (length data) = Some data"
proof (induction data)
  case (Cons d data)
  have "tl (tl (fmt_02x up d @ s)) = s" for s by (simp add: fmt_02x_def)
  with Cons show ?case by (simp add: hex2byte_fmt nibbles_join)
qed simp

lemma length_fmt_02x [simp]: "length (fmt_02x up d) = 2"
  by (simp add: fmt_02x_def)

lemma os_snprintf_length:
  "pos + sz \<le> length buf \<Longrightarrow> length (fst (os_snprintf buf pos sz txt)) = length buf"
  by (auto simp: os_snprintf_def Let_def)

lemma os_snprintf_fits:
  "pos + length txt < length buf \<Longrightarrow>
   os_snprintf buf pos (length buf - pos) txt =
     (take pos buf @ txt @ NUL # drop (pos + length txt + 1) buf, length txt)"
  by (simp add: os_snprintf_def Let_def)

lemma length_snprintf_hex_loop:
  "pos \<le> length buf \<Longrightarrow> length (fst (snprintf_hex_loop buf pos data up)) = length buf"
proof (induction buf pos data up rule: snprintf_hex_loop.induct)
  case (2 buf pos d data up)
  have len: "length (fst (os_snprintf buf pos (length buf - pos) (fmt_02x up d))) = length buf"
    using 2 by (simp add: os_snprintf_length)
  with 2 show ?case by (auto simp: Let_def os_snprintf_def split: prod.splits)
qed simp

lemma snprintf_hex_loop_fits:
  assumes "pos + 2 * length data < length buf"
  shows "take (pos + 2 * length data) (fst (snprintf_hex_loop buf pos data up)) =
           take pos buf @ concat (map (fmt_02x up) data) \<and>
         snd (snprintf_hex_loop buf pos data up) = pos + 2 * length data"
  using assms
proof (induction data arbitrary: buf pos)
  case (Cons d data)
  let ?b = "take pos buf @ fmt_02x up d @ NUL # drop (pos + 2 + 1) buf"
  have o: "os_snprintf buf pos (length buf - pos) (fmt_02x up d) = (?b, 2)"
    using Cons.prems by (simp add: os_snprintf_fits numeral_eq_Suc)
  have l: "length ?b = length buf" using Cons.prems by simp
  have "pos + 2 + 2 * length data < length ?b" using Cons.prems l by simp
  from Cons.IH [OF this] have
    "take (pos + 2 + 2 * length data) (fst (snprintf_hex_loop ?b (pos + 2) data up)) =
       take (pos + 2) ?b @ concat (map (fmt_02x up) data)"
    "snd (snprintf_hex_loop ?b (pos + 2) data up) = pos + 2 + 2 * length data" by blast+
  moreover have "take (pos + 2) ?b = take pos buf @ fmt_02x up d"
    using Cons.prems by (simp add: take_Cons')
  moreover have "snprintf_hex_loop buf pos (d # data) up = snprintf_hex_loop ?b (pos + 2) data up"
  proof -
    have "\<not> length buf - pos \<le> 2" using Cons.prems by simp
    with o show ?thesis by (simp only: snprintf_hex_loop.simps Let_def prod.case if_False)
  qed
  ultimately show ?case by (simp add: add.assoc)
qed (auto simp: take_update_cancel)

lemma snprintf_hex_fits:
  assumes "2 * length data < length buf"
  shows "take (2 * length data) (fst (wpa_snprintf_hex_case buf data up)) = concat (map (fmt_02x up) data)"
    and "snd (wpa_snprintf_hex_case buf data up) = 2 * length data"
  using snprintf_hex_loop_fits [of 0 data buf up] assms
  by (auto simp: wpa_snprintf_hex_case_def)

text \<open>
  Whatever bytes \<open>wpa_snprintf_hex\<close> prints into a buffer with room for them,
  \<open>hexstr2bin\<close> reads back, and the returned length counts the two digits of every byte.
  For a buffer of any size nothing is written past its end.
\<close>

lemma hexstr2bin_snprintf_hex:
  "length (fst (wpa_snprintf_hex buf data)) = length buf \<and>
   (2 * length data < length buf \<longrightarrow>
     hexstr2bin (fst (wpa_snprintf_hex buf data)) (length data) = Some data \<and>
     snd (wpa_snprintf_hex buf data) = 2 * length data)"
proof (intro conjI impI)
  show "length (fst (wpa_snprintf_hex buf data)) = length buf"
    by (simp add: wpa_snprintf_hex_def wpa_snprintf_hex_case_def length_snprintf_hex_loop)
next
  assume fits: "2 * length data < length buf"
  let ?r = "wpa_snprintf_hex_case buf data False"
  have "fst ?r = concat (map (fmt_02x False) data) @ drop (2 * length data) (fst ?r)"
    using snprintf_hex_fits(1) [OF fits, of False] by (metis append_take_drop_id)
  then have "hexstr2bin (fst ?r) (length data) = Some data"
    by (metis hexstr2bin_fmt)
  then show "hexstr2bin (fst (wpa_snprintf_hex buf data)) (length data) = Some data"
    by (simp add: wpa_snprintf_hex_def)
  show "snd (wpa_snprintf_hex buf data) = 2 * length data"
    using snprintf_hex_fits(2) [OF fits] by (simp add: wpa_snprintf_hex_def)
qed

theorem hexstr2bin_snprintf_hex_witness:
  "hexstr2bin (fst (wpa_snprintf_hex (replicate 9 NUL) [0xde, 0xad, 0, 0x7f])) 4
     = Some [0xde, 0xad, 0, 0x7f]"
  using hexstr2bin_snprintf_hex [of "replicate 9 NUL" "[0xde, 0xad, 0, 0x7f]"]
  by (simp del: hexstr2bin.simps add: numeral_eq_Suc)

text \<open>
  A colon-separated address that \<open>hwaddr_aton\<close> accepts is accepted by \<open>hwaddr_aton2\<close>.
\<close>

lemma hex2num_no_sep: "hex2num (c_head p) = Some a \<Longrightarrow> dropWhile is_addr_sep p = p \<and> p \<noteq> []"
  by (cases p) (auto simp: c_head_def hex2num_def is_addr_sep_def Let_def)

lemma dropWhile_colon: "c_head p = CHR '':'' \<Longrightarrow> dropWhile is_addr_sep p = dropWhile is_addr_sep (tl p)"
  by (cases p) (auto simp: c_head_def is_addr_sep_def)

lemma c_head_colon_ne: "c_head p = CHR '':'' \<Longrightarrow> length p = Suc (length (tl p))"
  by (cases p) (auto simp: c_head_def)

lemma hwaddr_aton2_loop_sep: 
  "n \<noteq> 0 \<Longrightarrow> hwaddr_aton2_loop n (dropWhile is_addr_sep p) = hwaddr_aton2_loop n p"
  by (cases n) (simp_all add: Let_def)

lemma hwaddr_aton_loop_aton2:
  "hwaddr_aton_loop n s = Some a \<Longrightarrow>
   \<exists>rest. hwaddr_aton2_loop n s = Some (a, rest) \<and> length s = length rest + (3 * n - 1)"
proof (induction n arbitrary: s a)
  case (Suc n)
  then obtain x y b where h: "hex2num (c_head s) = Some x" "hex2num (c_head (tl s)) = Some y"
    and colon: "n \<noteq> 0 \<Longrightarrow> c_head (tl (tl s)) = CHR '':''"
    and b: "hwaddr_aton_loop n (if n \<noteq> 0 then tl (tl (tl s)) else tl (tl s)) = Some b"
    and a: "a = word_of_int (push_bit 4 x OR y) # b"
    by (auto split: option.splits if_splits)
  have l: "length s = 2 + length (tl (tl s))"
    using h by (metis hex2num_no_sep length_Suc_conv list.sel(3) list.exhaust add_2_eq_Suc list.size(4) Suc_eq_plus1)
  from Suc.IH [OF b] obtain rest where r:
    "hwaddr_aton2_loop n (if n \<noteq> 0 then tl (tl (tl s)) else tl (tl s)) = Some (b, rest)"
    "length (if n \<noteq> 0 then tl (tl (tl s)) else tl (tl s)) = length rest + (3 * n - 1)" by blast
  have "hwaddr_aton2_loop n (tl (tl s)) = Some (b, rest)"
    using r(1) colon hwaddr_aton2_loop_sep [of n "tl (tl s)"] hwaddr_aton2_loop_sep [of n "tl (tl (tl s))"]
    by (cases "n = 0") (auto simp: dropWhile_colon)
  moreover have "length s = length rest + (3 * Suc n - 1)"
    using l r(2) c_head_colon_ne [OF colon] by (cases "n = 0") auto
  ultimately show ?case
    using h a hex2num_no_sep [OF h(1)] by (simp add: Let_def)
qed simp


end
