(* ===== verification/EapolAuth.thy ===== *)
theory EapolAuth
  imports Common
begin

text \<open>
  The IEEE 802.1X authenticator of one station (\<^verbatim>\<open>eapol_auth/eapol_auth_sm.c\<close>): the six state
  machines over the shared variables of \<^verbatim>\<open>struct eapol_state_machine\<close>, the port timers, and
  the loop that steps the machines until they are quiet. A callback into the rest of the program
  (the driver, the EAPOL transmitter, the WPA authenticator) is an output, appended to \<open>outputs\<close>
  in the order of the calls. Two parts are parameters: \<open>alive\<close>, the callback
  \<open>sta_entry_alive\<close>, may depend on the outputs so far, since a callback may have removed the
  station; \<open>eap_step\<close> is \<open>eap_server_sm_step\<close>, which works on its own state and on the
  interface variables \<open>eap_if\<close>.
\<close>

subsection \<open>State\<close>

text \<open>
  The structure comes from \<open>os_zalloc\<close>: \<open>portMode\<close> and \<open>authPortStatus\<close> start as 0, which
  is no member of their enumerations and is the constructor \<open>_0\<close> here.
\<close>

datatype PortTypes = ForceUnauthorized | ForceAuthorized | Auto | PortTypes_0
datatype PortState = Unauthorized | Authorized | PortState_0
datatype ControlledDirection = Both | In

datatype auth_pae_st = AUTH_PAE_INITIALIZE | AUTH_PAE_DISCONNECTED | AUTH_PAE_CONNECTING
  | AUTH_PAE_AUTHENTICATING | AUTH_PAE_AUTHENTICATED | AUTH_PAE_ABORTING | AUTH_PAE_HELD
  | AUTH_PAE_FORCE_AUTH | AUTH_PAE_FORCE_UNAUTH | AUTH_PAE_RESTART
datatype be_auth_st = BE_AUTH_REQUEST | BE_AUTH_RESPONSE | BE_AUTH_SUCCESS | BE_AUTH_FAIL
  | BE_AUTH_TIMEOUT | BE_AUTH_IDLE | BE_AUTH_INITIALIZE | BE_AUTH_IGNORE
datatype reauth_timer_st = REAUTH_TIMER_INITIALIZE | REAUTH_TIMER_REAUTHENTICATE
datatype auth_key_tx_st = AUTH_KEY_TX_NO_KEY_TRANSMIT | AUTH_KEY_TX_KEY_TRANSMIT
datatype key_rx_st = KEY_RX_NO_KEY_RECEIVE | KEY_RX_KEY_RECEIVE
datatype ctrl_dir_st = CTRL_DIR_FORCE_BOTH | CTRL_DIR_IN_OR_BOTH

text \<open>The variables shared with the EAP server that the code of this theory uses.\<close>

record eap_eapol_interface =
  eapResp :: bool
  portEnabled :: bool
  retransWhile :: int
  eapRestart :: bool
  eapReq :: bool
  eapNoReq :: bool
  eapSuccess :: bool
  eapFail :: bool
  eapTimeout :: bool
  eapReqData :: "bytes option"
  eapKeyAvailable :: bool
  aaaEapResp :: bool
  aaaEapRespData :: "bytes option"

datatype eapol_event_type = EAPOL_AUTH_SM_CHANGE | EAPOL_AUTH_REAUTHENTICATE

text \<open>
  The calls out: \<open>set_port_authorized\<close>, \<open>eapol_send\<close> of an EAP packet, \<open>abort_auth\<close>,
  \<open>tx_key\<close>, \<open>finished\<close> with its two flags, \<open>eapol_event\<close>, \<open>aaa_send\<close>, and the
  registrations of the step and of the one second tick with the event loop.
\<close>

datatype eapol_out = SetPort bool | EapolSend bytes | AbortAuth | TxKey | Finished bool bool
  | EapolEvent eapol_event_type | AaaSend bytes | RegisterStep | RegisterTick | CancelTick

record eapol_counters =
  authEntersConnecting :: u32
  authEapLogoffsWhileConnecting :: u32
  authAuthSuccessesWhileAuthenticating :: u32
  authAuthTimeoutsWhileAuthenticating :: u32
  authAuthFailWhileAuthenticating :: u32
  authAuthEapStartsWhileAuthenticating :: u32
  authAuthEapLogoffWhileAuthenticating :: u32
  authAuthReauthsWhileAuthenticated :: u32
  authAuthEapStartsWhileAuthenticated :: u32
  authAuthEapLogoffWhileAuthenticated :: u32
  backendResponses :: u32
  backendAccessChallenges :: u32
  backendOtherRequestsToSupplicant :: u32
  backendAuthSuccesses :: u32
  backendAuthFails :: u32
  dot1xAuthEapolFramesTx :: u32
  dot1xAuthEapolReqIdFramesTx :: u32
  dot1xAuthEapolReqFramesTx :: u32

record eapol_state_machine =
  aWhile :: int
  quietWhile :: int
  reAuthWhen :: int
  authAbort :: bool
  authFail :: bool
  authPortStatus :: PortState
  authStart :: bool
  authTimeout :: bool
  authSuccess :: bool
  eapolEap :: bool
  initialize :: bool
  keyDone :: bool
  keyRun :: bool
  keyTxEnabled :: bool
  portControl :: PortTypes
  portValid :: bool
  reAuthenticate :: bool
  auth_pae_state :: auth_pae_st
  eapolLogoff :: bool
  eapolStart :: bool
  portMode :: PortTypes
  reAuthCount :: u32
  quietPeriod :: u32
  reAuthMax :: u32
  be_auth_state :: be_auth_st
  serverTimeout :: u32
  reauth_timer_state :: reauth_timer_st
  reAuthPeriod :: u32
  reAuthEnabled :: bool
  auth_key_tx_state :: auth_key_tx_st
  key_rx_state :: key_rx_st
  rxKey :: bool
  ctrl_dir_state :: ctrl_dir_st
  adminControlledDirections :: ControlledDirection
  operControlledDirections :: ControlledDirection
  operEdge :: bool
  flags :: u32
  last_eap_id :: u8
  eap_if :: eap_eapol_interface
  initializing :: bool
  changed :: bool
  counters :: eapol_counters
  outputs :: "eapol_out list"

type_synonym eapol_sm = eapol_state_machine

definition EAPOL_SM_PREAUTH :: u32 where "EAPOL_SM_PREAUTH = 1"
definition EAPOL_SM_WAIT_START :: u32 where "EAPOL_SM_WAIT_START = 2"
definition EAPOL_SM_USES_WPA :: u32 where "EAPOL_SM_USES_WPA = 4"
definition EAPOL_SM_FROM_PMKSA_CACHE :: u32 where "EAPOL_SM_FROM_PMKSA_CACHE = 8"

definition has_flag :: "eapol_sm \<Rightarrow> u32 \<Rightarrow> bool" where
  "has_flag sm f \<longleftrightarrow> flags sm AND f \<noteq> 0"

definition emit :: "eapol_out \<Rightarrow> eapol_sm \<Rightarrow> eapol_sm" where
  "emit e sm = sm\<lparr>outputs := outputs sm @ [e]\<rparr>"

abbreviation upd_if :: "(eap_eapol_interface \<Rightarrow> eap_eapol_interface) \<Rightarrow> eapol_sm \<Rightarrow> eapol_sm" where
  "upd_if f sm \<equiv> sm\<lparr>eap_if := f (eap_if sm)\<rparr>"

abbreviation count :: "(eapol_counters \<Rightarrow> eapol_counters) \<Rightarrow> eapol_sm \<Rightarrow> eapol_sm" where
  "count f sm \<equiv> sm\<lparr>counters := f (counters sm)\<rparr>"

text \<open>\<open>if (b) sm = f(sm);\<close>\<close>

definition whenb :: "bool \<Rightarrow> ('a \<Rightarrow> 'a) \<Rightarrow> 'a \<Rightarrow> 'a" where
  "whenb b f x = (if b then f x else x)"

subsection \<open>Transmitting EAP packets\<close>

definition eap_get_id :: "bytes \<Rightarrow> u8" where
  "eap_get_id msg = (if length msg < 4 then 0 else msg ! 1)"

definition eap_get_type :: "bytes \<Rightarrow> u8" where
  "eap_get_type msg = (if length msg < 5 then 0 else msg ! 4)"

definition EAP_CODE_SUCCESS :: u8 where "EAP_CODE_SUCCESS = 3"
definition EAP_CODE_FAILURE :: u8 where "EAP_CODE_FAILURE = 4"
definition EAP_TYPE_IDENTITY :: u8 where "EAP_TYPE_IDENTITY = 1"

definition eapol_auth_tx_canned_eap :: "bool \<Rightarrow> eapol_sm \<Rightarrow> eapol_sm" where
  "eapol_auth_tx_canned_eap success sm =
     (let i = last_eap_id sm + 1; sm = sm\<lparr>last_eap_id := i\<rparr>;
          eap = (if success then EAP_CODE_SUCCESS else EAP_CODE_FAILURE) # i # WPA_PUT_BE16 4;
          sm = emit (EapolSend eap) sm
      in count (dot1xAuthEapolFramesTx_update (\<lambda>n. n + 1)) sm)"

definition eapol_auth_tx_req :: "eapol_sm \<Rightarrow> eapol_sm" where
  "eapol_auth_tx_req sm =
     (case eapReqData (eap_if sm) of None \<Rightarrow> sm
      | Some data \<Rightarrow>
          if length data < 4 then sm
          else if has_flag sm EAPOL_SM_WAIT_START then sm
          else let sm = sm\<lparr>last_eap_id := eap_get_id data\<rparr>;
                   sm = emit (EapolSend data) sm;
                   sm = count (dot1xAuthEapolFramesTx_update (\<lambda>n. n + 1)) sm
               in if eap_get_type data = EAP_TYPE_IDENTITY
                  then count (dot1xAuthEapolReqIdFramesTx_update (\<lambda>n. n + 1)) sm
                  else count (dot1xAuthEapolReqFramesTx_update (\<lambda>n. n + 1)) sm)"

subsection \<open>Entering a state\<close>

text \<open>
  \<open>SM_ENTRY_MA(machine, state, data)\<close> for each machine: \<open>changed\<close> is set unless a global rule
  enters the state the machine is in.
\<close>

definition entry_AUTH_PAE :: "auth_pae_st \<Rightarrow> bool \<Rightarrow> eapol_sm \<Rightarrow> eapol_sm" where
  "entry_AUTH_PAE s global sm =
     (let sm = whenb (\<not> global \<or> auth_pae_state sm \<noteq> s) (\<lambda>sm. sm\<lparr>changed := True\<rparr>) sm
      in sm\<lparr>auth_pae_state := s\<rparr>)"

definition entry_BE_AUTH :: "be_auth_st \<Rightarrow> bool \<Rightarrow> eapol_sm \<Rightarrow> eapol_sm" where
  "entry_BE_AUTH s global sm =
     (let sm = whenb (\<not> global \<or> be_auth_state sm \<noteq> s) (\<lambda>sm. sm\<lparr>changed := True\<rparr>) sm
      in sm\<lparr>be_auth_state := s\<rparr>)"

definition entry_REAUTH_TIMER :: "reauth_timer_st \<Rightarrow> bool \<Rightarrow> eapol_sm \<Rightarrow> eapol_sm" where
  "entry_REAUTH_TIMER s global sm =
     (let sm = whenb (\<not> global \<or> reauth_timer_state sm \<noteq> s) (\<lambda>sm. sm\<lparr>changed := True\<rparr>) sm
      in sm\<lparr>reauth_timer_state := s\<rparr>)"

definition entry_AUTH_KEY_TX :: "auth_key_tx_st \<Rightarrow> bool \<Rightarrow> eapol_sm \<Rightarrow> eapol_sm" where
  "entry_AUTH_KEY_TX s global sm =
     (let sm = whenb (\<not> global \<or> auth_key_tx_state sm \<noteq> s) (\<lambda>sm. sm\<lparr>changed := True\<rparr>) sm
      in sm\<lparr>auth_key_tx_state := s\<rparr>)"

definition entry_KEY_RX :: "key_rx_st \<Rightarrow> bool \<Rightarrow> eapol_sm \<Rightarrow> eapol_sm" where
  "entry_KEY_RX s global sm =
     (let sm = whenb (\<not> global \<or> key_rx_state sm \<noteq> s) (\<lambda>sm. sm\<lparr>changed := True\<rparr>) sm
      in sm\<lparr>key_rx_state := s\<rparr>)"

definition entry_CTRL_DIR :: "ctrl_dir_st \<Rightarrow> bool \<Rightarrow> eapol_sm \<Rightarrow> eapol_sm" where
  "entry_CTRL_DIR s global sm =
     (let sm = whenb (\<not> global \<or> ctrl_dir_state sm \<noteq> s) (\<lambda>sm. sm\<lparr>changed := True\<rparr>) sm
      in sm\<lparr>ctrl_dir_state := s\<rparr>)"

subsection \<open>Authenticator PAE\<close>

definition sm_AUTH_PAE_INITIALIZE_Enter :: "bool \<Rightarrow> eapol_sm \<Rightarrow> eapol_sm" where
  "sm_AUTH_PAE_INITIALIZE_Enter global sm =
     (let sm = entry_AUTH_PAE AUTH_PAE_INITIALIZE global sm in sm\<lparr>portMode := Auto\<rparr>)"

definition sm_AUTH_PAE_DISCONNECTED_Enter :: "bool \<Rightarrow> eapol_sm \<Rightarrow> eapol_sm" where
  "sm_AUTH_PAE_DISCONNECTED_Enter global sm =
     (let from_initialize = (auth_pae_state sm = AUTH_PAE_INITIALIZE);
          sm = whenb (eapolLogoff sm)
                 (\<lambda>sm. if auth_pae_state sm = AUTH_PAE_CONNECTING
                        then count (authEapLogoffsWhileConnecting_update (\<lambda>n. n + 1)) sm
                        else if auth_pae_state sm = AUTH_PAE_AUTHENTICATED
                        then count (authAuthEapLogoffWhileAuthenticated_update (\<lambda>n. n + 1)) sm
                        else sm) sm;
          sm = entry_AUTH_PAE AUTH_PAE_DISCONNECTED global sm;
          sm = sm\<lparr>authPortStatus := Unauthorized\<rparr>;
          sm = emit (SetPort False) sm;
          sm = sm\<lparr>reAuthCount := 0, eapolLogoff := False\<rparr>
      in whenb (\<not> from_initialize) (\<lambda>sm. emit (Finished False (has_flag sm EAPOL_SM_PREAUTH)) sm) sm)"

definition sm_AUTH_PAE_RESTART_Enter :: "bool \<Rightarrow> eapol_sm \<Rightarrow> eapol_sm" where
  "sm_AUTH_PAE_RESTART_Enter global sm =
     (let sm = whenb (auth_pae_state sm = AUTH_PAE_AUTHENTICATED)
                 (\<lambda>sm. let sm = whenb (reAuthenticate sm) (count (authAuthReauthsWhileAuthenticated_update (\<lambda>n. n + 1))) sm;
                            sm = whenb (eapolStart sm) (count (authAuthEapStartsWhileAuthenticated_update (\<lambda>n. n + 1))) sm
                        in whenb (eapolLogoff sm) (count (authAuthEapLogoffWhileAuthenticated_update (\<lambda>n. n + 1))) sm) sm;
          sm = entry_AUTH_PAE AUTH_PAE_RESTART global sm
      in upd_if (\<lambda>i. i\<lparr>eapRestart := True\<rparr>) sm)"

definition sm_AUTH_PAE_CONNECTING_Enter :: "bool \<Rightarrow> eapol_sm \<Rightarrow> eapol_sm" where
  "sm_AUTH_PAE_CONNECTING_Enter global sm =
     (let sm = whenb (auth_pae_state sm \<noteq> AUTH_PAE_CONNECTING)
                 (count (authEntersConnecting_update (\<lambda>n. n + 1))) sm;
          sm = entry_AUTH_PAE AUTH_PAE_CONNECTING global sm
      in sm\<lparr>reAuthenticate := False, reAuthCount := reAuthCount sm + 1\<rparr>)"

definition sm_AUTH_PAE_HELD_Enter :: "bool \<Rightarrow> eapol_sm \<Rightarrow> eapol_sm" where
  "sm_AUTH_PAE_HELD_Enter global sm =
     (let sm = whenb (auth_pae_state sm = AUTH_PAE_AUTHENTICATING \<and> authFail sm)
                 (count (authAuthFailWhileAuthenticating_update (\<lambda>n. n + 1))) sm;
          sm = entry_AUTH_PAE AUTH_PAE_HELD global sm;
          sm = sm\<lparr>authPortStatus := Unauthorized\<rparr>;
          sm = emit (SetPort False) sm;
          sm = sm\<lparr>quietWhile := sint (quietPeriod sm), eapolLogoff := False\<rparr>
      in emit (Finished False (has_flag sm EAPOL_SM_PREAUTH)) sm)"

definition sm_AUTH_PAE_AUTHENTICATED_Enter :: "bool \<Rightarrow> eapol_sm \<Rightarrow> eapol_sm" where
  "sm_AUTH_PAE_AUTHENTICATED_Enter global sm =
     (let sm = whenb (auth_pae_state sm = AUTH_PAE_AUTHENTICATING \<and> authSuccess sm)
                 (count (authAuthSuccessesWhileAuthenticating_update (\<lambda>n. n + 1))) sm;
          sm = entry_AUTH_PAE AUTH_PAE_AUTHENTICATED global sm;
          sm = sm\<lparr>authPortStatus := Authorized\<rparr>;
          sm = emit (SetPort True) sm;
          sm = sm\<lparr>reAuthCount := 0\<rparr>
      in emit (Finished True (has_flag sm EAPOL_SM_PREAUTH)) sm)"

definition sm_AUTH_PAE_AUTHENTICATING_Enter :: "bool \<Rightarrow> eapol_sm \<Rightarrow> eapol_sm" where
  "sm_AUTH_PAE_AUTHENTICATING_Enter global sm =
     (let sm = entry_AUTH_PAE AUTH_PAE_AUTHENTICATING global sm
      in sm\<lparr>eapolStart := False, authSuccess := False, authFail := False, authTimeout := False,
             authStart := True, keyRun := False, keyDone := False\<rparr>)"

definition sm_AUTH_PAE_ABORTING_Enter :: "bool \<Rightarrow> eapol_sm \<Rightarrow> eapol_sm" where
  "sm_AUTH_PAE_ABORTING_Enter global sm =
     (let sm = whenb (auth_pae_state sm = AUTH_PAE_AUTHENTICATING)
                 (\<lambda>sm. let sm = whenb (authTimeout sm) (count (authAuthTimeoutsWhileAuthenticating_update (\<lambda>n. n + 1))) sm;
                            sm = whenb (eapolStart sm) (count (authAuthEapStartsWhileAuthenticating_update (\<lambda>n. n + 1))) sm
                        in whenb (eapolLogoff sm) (count (authAuthEapLogoffWhileAuthenticating_update (\<lambda>n. n + 1))) sm) sm;
          sm = entry_AUTH_PAE AUTH_PAE_ABORTING global sm
      in sm\<lparr>authAbort := True, keyRun := False, keyDone := False\<rparr>)"

definition sm_AUTH_PAE_FORCE_AUTH_Enter :: "bool \<Rightarrow> eapol_sm \<Rightarrow> eapol_sm" where
  "sm_AUTH_PAE_FORCE_AUTH_Enter global sm =
     (let sm = entry_AUTH_PAE AUTH_PAE_FORCE_AUTH global sm;
          sm = sm\<lparr>authPortStatus := Authorized\<rparr>;
          sm = emit (SetPort True) sm;
          sm = sm\<lparr>portMode := ForceAuthorized, eapolStart := False\<rparr>
      in eapol_auth_tx_canned_eap True sm)"

definition sm_AUTH_PAE_FORCE_UNAUTH_Enter :: "bool \<Rightarrow> eapol_sm \<Rightarrow> eapol_sm" where
  "sm_AUTH_PAE_FORCE_UNAUTH_Enter global sm =
     (let sm = entry_AUTH_PAE AUTH_PAE_FORCE_UNAUTH global sm;
          sm = sm\<lparr>authPortStatus := Unauthorized\<rparr>;
          sm = emit (SetPort False) sm;
          sm = sm\<lparr>portMode := ForceUnauthorized, eapolStart := False\<rparr>
      in eapol_auth_tx_canned_eap False sm)"

definition sm_AUTH_PAE_Step :: "eapol_sm \<Rightarrow> eapol_sm" where
  "sm_AUTH_PAE_Step sm =
     (if (portControl sm = Auto \<and> portMode sm \<noteq> portControl sm) \<or>
         initialize sm \<or> \<not> portEnabled (eap_if sm)
      then sm_AUTH_PAE_INITIALIZE_Enter True sm
      else if portControl sm = ForceAuthorized \<and> portMode sm \<noteq> portControl sm \<and>
         \<not> (initialize sm \<or> \<not> portEnabled (eap_if sm))
      then sm_AUTH_PAE_FORCE_AUTH_Enter True sm
      else if portControl sm = ForceUnauthorized \<and> portMode sm \<noteq> portControl sm \<and>
         \<not> (initialize sm \<or> \<not> portEnabled (eap_if sm))
      then sm_AUTH_PAE_FORCE_UNAUTH_Enter True sm
      else case auth_pae_state sm of
        AUTH_PAE_INITIALIZE \<Rightarrow> sm_AUTH_PAE_DISCONNECTED_Enter False sm
      | AUTH_PAE_DISCONNECTED \<Rightarrow> sm_AUTH_PAE_RESTART_Enter False sm
      | AUTH_PAE_RESTART \<Rightarrow>
          if \<not> eapRestart (eap_if sm) then sm_AUTH_PAE_CONNECTING_Enter False sm else sm
      | AUTH_PAE_HELD \<Rightarrow>
          if quietWhile sm = 0 then sm_AUTH_PAE_RESTART_Enter False sm else sm
      | AUTH_PAE_CONNECTING \<Rightarrow>
          if eapolLogoff sm \<or> reAuthCount sm > reAuthMax sm
          then sm_AUTH_PAE_DISCONNECTED_Enter False sm
          else if (eapReq (eap_if sm) \<and> reAuthCount sm \<le> reAuthMax sm) \<or>
             eapSuccess (eap_if sm) \<or> eapFail (eap_if sm)
          then sm_AUTH_PAE_AUTHENTICATING_Enter False sm else sm
      | AUTH_PAE_AUTHENTICATED \<Rightarrow>
          if eapolStart sm \<or> reAuthenticate sm then sm_AUTH_PAE_RESTART_Enter False sm
          else if eapolLogoff sm \<or> \<not> portValid sm
          then sm_AUTH_PAE_DISCONNECTED_Enter False sm else sm
      | AUTH_PAE_AUTHENTICATING \<Rightarrow>
          if authSuccess sm \<and> portValid sm then sm_AUTH_PAE_AUTHENTICATED_Enter False sm
          else if authFail sm \<or> (keyDone sm \<and> \<not> portValid sm)
          then sm_AUTH_PAE_HELD_Enter False sm
          else if eapolStart sm \<or> eapolLogoff sm \<or> authTimeout sm
          then sm_AUTH_PAE_ABORTING_Enter False sm else sm
      | AUTH_PAE_ABORTING \<Rightarrow>
          if eapolLogoff sm \<and> \<not> authAbort sm then sm_AUTH_PAE_DISCONNECTED_Enter False sm
          else if \<not> eapolLogoff sm \<and> \<not> authAbort sm then sm_AUTH_PAE_RESTART_Enter False sm
          else sm
      | AUTH_PAE_FORCE_AUTH \<Rightarrow>
          if eapolStart sm then sm_AUTH_PAE_FORCE_AUTH_Enter False sm else sm
      | AUTH_PAE_FORCE_UNAUTH \<Rightarrow>
          if eapolStart sm then sm_AUTH_PAE_FORCE_UNAUTH_Enter False sm else sm)"

subsection \<open>Backend authentication\<close>

text \<open>
  The \<open>abort_auth\<close> callback is an output; that it may clear \<open>portEnabled\<close> at once is left to the
  environment of the machines.
\<close>

definition sm_BE_AUTH_INITIALIZE_Enter :: "bool \<Rightarrow> eapol_sm \<Rightarrow> eapol_sm" where
  "sm_BE_AUTH_INITIALIZE_Enter global sm =
     (let sm = entry_BE_AUTH BE_AUTH_INITIALIZE global sm;
          sm = emit AbortAuth sm;
          sm = upd_if (\<lambda>i. i\<lparr>eapNoReq := False\<rparr>) sm
      in sm\<lparr>authAbort := False\<rparr>)"

definition sm_BE_AUTH_REQUEST_Enter :: "bool \<Rightarrow> eapol_sm \<Rightarrow> eapol_sm" where
  "sm_BE_AUTH_REQUEST_Enter global sm =
     (let sm = entry_BE_AUTH BE_AUTH_REQUEST global sm;
          sm = eapol_auth_tx_req sm;
          sm = upd_if (\<lambda>i. i\<lparr>eapReq := False\<rparr>) sm;
          sm = count (backendOtherRequestsToSupplicant_update (\<lambda>n. n + 1)) sm
      in sm\<lparr>eapolEap := False\<rparr>)"

definition sm_BE_AUTH_RESPONSE_Enter :: "bool \<Rightarrow> eapol_sm \<Rightarrow> eapol_sm" where
  "sm_BE_AUTH_RESPONSE_Enter global sm =
     (let sm = entry_BE_AUTH BE_AUTH_RESPONSE global sm;
          sm = sm\<lparr>authTimeout := False, eapolEap := False\<rparr>;
          sm = upd_if (\<lambda>i. i\<lparr>eapNoReq := False\<rparr>) sm;
          sm = sm\<lparr>aWhile := sint (serverTimeout sm)\<rparr>;
          sm = upd_if (\<lambda>i. i\<lparr>eapResp := True\<rparr>) sm
      in count (backendResponses_update (\<lambda>n. n + 1)) sm)"

definition sm_BE_AUTH_SUCCESS_Enter :: "bool \<Rightarrow> eapol_sm \<Rightarrow> eapol_sm" where
  "sm_BE_AUTH_SUCCESS_Enter global sm =
     (let sm = entry_BE_AUTH BE_AUTH_SUCCESS global sm;
          sm = eapol_auth_tx_req sm
      in sm\<lparr>authSuccess := True, keyRun := True\<rparr>)"

definition sm_BE_AUTH_FAIL_Enter :: "bool \<Rightarrow> eapol_sm \<Rightarrow> eapol_sm" where
  "sm_BE_AUTH_FAIL_Enter global sm =
     (let sm = entry_BE_AUTH BE_AUTH_FAIL global sm;
          sm = eapol_auth_tx_req sm
      in sm\<lparr>authFail := True\<rparr>)"

definition sm_BE_AUTH_TIMEOUT_Enter :: "bool \<Rightarrow> eapol_sm \<Rightarrow> eapol_sm" where
  "sm_BE_AUTH_TIMEOUT_Enter global sm =
     (let sm = entry_BE_AUTH BE_AUTH_TIMEOUT global sm in sm\<lparr>authTimeout := True\<rparr>)"

definition sm_BE_AUTH_IDLE_Enter :: "bool \<Rightarrow> eapol_sm \<Rightarrow> eapol_sm" where
  "sm_BE_AUTH_IDLE_Enter global sm =
     (let sm = entry_BE_AUTH BE_AUTH_IDLE global sm in sm\<lparr>authStart := False\<rparr>)"

definition sm_BE_AUTH_IGNORE_Enter :: "bool \<Rightarrow> eapol_sm \<Rightarrow> eapol_sm" where
  "sm_BE_AUTH_IGNORE_Enter global sm =
     (let sm = entry_BE_AUTH BE_AUTH_IGNORE global sm
      in upd_if (\<lambda>i. i\<lparr>eapNoReq := False\<rparr>) sm)"

definition sm_BE_AUTH_Step :: "eapol_sm \<Rightarrow> eapol_sm" where
  "sm_BE_AUTH_Step sm =
     (if portControl sm \<noteq> Auto \<or> initialize sm \<or> authAbort sm
      then sm_BE_AUTH_INITIALIZE_Enter True sm
      else case be_auth_state sm of
        BE_AUTH_INITIALIZE \<Rightarrow> sm_BE_AUTH_IDLE_Enter False sm
      | BE_AUTH_REQUEST \<Rightarrow>
          if eapolEap sm then sm_BE_AUTH_RESPONSE_Enter False sm
          else if eapReq (eap_if sm) then sm_BE_AUTH_REQUEST_Enter False sm
          else if eapTimeout (eap_if sm) then sm_BE_AUTH_TIMEOUT_Enter False sm else sm
      | BE_AUTH_RESPONSE \<Rightarrow>
          let sm = whenb (eapNoReq (eap_if sm)) (sm_BE_AUTH_IGNORE_Enter False) sm
          in if eapReq (eap_if sm)
             then sm_BE_AUTH_REQUEST_Enter False
                    (count (backendAccessChallenges_update (\<lambda>n. n + 1)) sm)
             else if aWhile sm = 0 then sm_BE_AUTH_TIMEOUT_Enter False sm
             else if eapFail (eap_if sm)
             then sm_BE_AUTH_FAIL_Enter False (count (backendAuthFails_update (\<lambda>n. n + 1)) sm)
             else if eapSuccess (eap_if sm)
             then sm_BE_AUTH_SUCCESS_Enter False
                    (count (backendAuthSuccesses_update (\<lambda>n. n + 1)) sm)
             else sm
      | BE_AUTH_SUCCESS \<Rightarrow> sm_BE_AUTH_IDLE_Enter False sm
      | BE_AUTH_FAIL \<Rightarrow> sm_BE_AUTH_IDLE_Enter False sm
      | BE_AUTH_TIMEOUT \<Rightarrow> sm_BE_AUTH_IDLE_Enter False sm
      | BE_AUTH_IDLE \<Rightarrow>
          if eapFail (eap_if sm) \<and> authStart sm then sm_BE_AUTH_FAIL_Enter False sm
          else if eapReq (eap_if sm) \<and> authStart sm then sm_BE_AUTH_REQUEST_Enter False sm
          else if eapSuccess (eap_if sm) \<and> authStart sm then sm_BE_AUTH_SUCCESS_Enter False sm
          else sm
      | BE_AUTH_IGNORE \<Rightarrow>
          if eapolEap sm then sm_BE_AUTH_RESPONSE_Enter False sm
          else if eapReq (eap_if sm) then sm_BE_AUTH_REQUEST_Enter False sm
          else if eapTimeout (eap_if sm) then sm_BE_AUTH_TIMEOUT_Enter False sm else sm)"

subsection \<open>Reauthentication timer, key transmit, key receive, controlled directions\<close>

definition sm_REAUTH_TIMER_INITIALIZE_Enter :: "bool \<Rightarrow> eapol_sm \<Rightarrow> eapol_sm" where
  "sm_REAUTH_TIMER_INITIALIZE_Enter global sm =
     (let sm = entry_REAUTH_TIMER REAUTH_TIMER_INITIALIZE global sm
      in sm\<lparr>reAuthWhen := sint (reAuthPeriod sm)\<rparr>)"

definition sm_REAUTH_TIMER_REAUTHENTICATE_Enter :: "bool \<Rightarrow> eapol_sm \<Rightarrow> eapol_sm" where
  "sm_REAUTH_TIMER_REAUTHENTICATE_Enter global sm =
     (let sm = entry_REAUTH_TIMER REAUTH_TIMER_REAUTHENTICATE global sm;
          sm = sm\<lparr>reAuthenticate := True\<rparr>
      in emit (EapolEvent EAPOL_AUTH_REAUTHENTICATE) sm)"

definition sm_REAUTH_TIMER_Step :: "eapol_sm \<Rightarrow> eapol_sm" where
  "sm_REAUTH_TIMER_Step sm =
     (if portControl sm \<noteq> Auto \<or> initialize sm \<or> authPortStatus sm = Unauthorized \<or>
         \<not> reAuthEnabled sm
      then sm_REAUTH_TIMER_INITIALIZE_Enter True sm
      else case reauth_timer_state sm of
        REAUTH_TIMER_INITIALIZE \<Rightarrow>
          if reAuthWhen sm = 0 then sm_REAUTH_TIMER_REAUTHENTICATE_Enter False sm else sm
      | REAUTH_TIMER_REAUTHENTICATE \<Rightarrow> sm_REAUTH_TIMER_INITIALIZE_Enter False sm)"

definition sm_AUTH_KEY_TX_NO_KEY_TRANSMIT_Enter :: "bool \<Rightarrow> eapol_sm \<Rightarrow> eapol_sm" where
  "sm_AUTH_KEY_TX_NO_KEY_TRANSMIT_Enter global sm =
     (entry_AUTH_KEY_TX AUTH_KEY_TX_NO_KEY_TRANSMIT global sm)"

definition sm_AUTH_KEY_TX_KEY_TRANSMIT_Enter :: "bool \<Rightarrow> eapol_sm \<Rightarrow> eapol_sm" where
  "sm_AUTH_KEY_TX_KEY_TRANSMIT_Enter global sm =
     (let sm = entry_AUTH_KEY_TX AUTH_KEY_TX_KEY_TRANSMIT global sm;
          sm = emit TxKey sm;
          sm = upd_if (\<lambda>i. i\<lparr>eapKeyAvailable := False\<rparr>) sm
      in sm\<lparr>keyDone := True\<rparr>)"

definition sm_AUTH_KEY_TX_Step :: "eapol_sm \<Rightarrow> eapol_sm" where
  "sm_AUTH_KEY_TX_Step sm =
     (if initialize sm \<or> portControl sm \<noteq> Auto
      then sm_AUTH_KEY_TX_NO_KEY_TRANSMIT_Enter True sm
      else case auth_key_tx_state sm of
        AUTH_KEY_TX_NO_KEY_TRANSMIT \<Rightarrow>
          if keyTxEnabled sm \<and> eapKeyAvailable (eap_if sm) \<and> keyRun sm \<and>
             \<not> has_flag sm EAPOL_SM_USES_WPA
          then sm_AUTH_KEY_TX_KEY_TRANSMIT_Enter False sm else sm
      | AUTH_KEY_TX_KEY_TRANSMIT \<Rightarrow>
          if \<not> keyTxEnabled sm \<or> \<not> keyRun sm
          then sm_AUTH_KEY_TX_NO_KEY_TRANSMIT_Enter False sm
          else if eapKeyAvailable (eap_if sm) then sm_AUTH_KEY_TX_KEY_TRANSMIT_Enter False sm
          else sm)"

definition sm_KEY_RX_NO_KEY_RECEIVE_Enter :: "bool \<Rightarrow> eapol_sm \<Rightarrow> eapol_sm" where
  "sm_KEY_RX_NO_KEY_RECEIVE_Enter global sm =
     (entry_KEY_RX KEY_RX_NO_KEY_RECEIVE global sm)"

definition sm_KEY_RX_KEY_RECEIVE_Enter :: "bool \<Rightarrow> eapol_sm \<Rightarrow> eapol_sm" where
  "sm_KEY_RX_KEY_RECEIVE_Enter global sm =
     (let sm = entry_KEY_RX KEY_RX_KEY_RECEIVE global sm in sm\<lparr>rxKey := False\<rparr>)"

definition sm_KEY_RX_Step :: "eapol_sm \<Rightarrow> eapol_sm" where
  "sm_KEY_RX_Step sm =
     (if initialize sm \<or> \<not> portEnabled (eap_if sm)
      then sm_KEY_RX_NO_KEY_RECEIVE_Enter True sm
      else case key_rx_state sm of
        KEY_RX_NO_KEY_RECEIVE \<Rightarrow> if rxKey sm then sm_KEY_RX_KEY_RECEIVE_Enter False sm else sm
      | KEY_RX_KEY_RECEIVE \<Rightarrow> if rxKey sm then sm_KEY_RX_KEY_RECEIVE_Enter False sm else sm)"

definition sm_CTRL_DIR_FORCE_BOTH_Enter :: "bool \<Rightarrow> eapol_sm \<Rightarrow> eapol_sm" where
  "sm_CTRL_DIR_FORCE_BOTH_Enter global sm =
     (let sm = entry_CTRL_DIR CTRL_DIR_FORCE_BOTH global sm in sm\<lparr>operControlledDirections := Both\<rparr>)"

definition sm_CTRL_DIR_IN_OR_BOTH_Enter :: "bool \<Rightarrow> eapol_sm \<Rightarrow> eapol_sm" where
  "sm_CTRL_DIR_IN_OR_BOTH_Enter global sm =
     (let sm = entry_CTRL_DIR CTRL_DIR_IN_OR_BOTH global sm
      in sm\<lparr>operControlledDirections := adminControlledDirections sm\<rparr>)"

definition sm_CTRL_DIR_Step :: "eapol_sm \<Rightarrow> eapol_sm" where
  "sm_CTRL_DIR_Step sm =
     (if initialize sm then sm_CTRL_DIR_IN_OR_BOTH_Enter True sm
      else case ctrl_dir_state sm of
        CTRL_DIR_FORCE_BOTH \<Rightarrow>
          if portEnabled (eap_if sm) \<and> operEdge sm then sm_CTRL_DIR_IN_OR_BOTH_Enter False sm
          else sm
      | CTRL_DIR_IN_OR_BOTH \<Rightarrow>
          let sm = whenb (operControlledDirections sm \<noteq> adminControlledDirections sm)
                     (sm_CTRL_DIR_IN_OR_BOTH_Enter False) sm
          in if \<not> portEnabled (eap_if sm) \<or> \<not> operEdge sm
             then sm_CTRL_DIR_FORCE_BOTH_Enter False sm else sm)"

subsection \<open>The step loop\<close>

text \<open>
  One pass over the six machines; each but the first runs only while the machines are being
  initialised or the station is still there.
\<close>

definition sm_pass :: "(eapol_out list \<Rightarrow> bool) \<Rightarrow> eapol_sm \<Rightarrow> eapol_sm" where
  "sm_pass alive sm =
     (let run = (\<lambda>sm. initializing sm \<or> alive (outputs sm));
          sm = sm_AUTH_PAE_Step sm;
          sm = whenb (run sm) sm_BE_AUTH_Step sm;
          sm = whenb (run sm) sm_REAUTH_TIMER_Step sm;
          sm = whenb (run sm) sm_AUTH_KEY_TX_Step sm;
          sm = whenb (run sm) sm_KEY_RX_Step sm
      in whenb (run sm) sm_CTRL_DIR_Step sm)"

definition machine_states ::
  "eapol_sm \<Rightarrow> auth_pae_st \<times> be_auth_st \<times> reauth_timer_st \<times> auth_key_tx_st \<times> key_rx_st \<times> ctrl_dir_st"
where
  "machine_states sm = (auth_pae_state sm, be_auth_state sm, reauth_timer_state sm,
     auth_key_tx_state sm, key_rx_state sm, ctrl_dir_state sm)"

text \<open>\<open>eapol_auth_step\<close> registers \<open>eapol_sm_step_cb\<close>, which calls \<open>eapol_sm_step_run\<close>.\<close>

definition eapol_auth_step :: "eapol_sm \<Rightarrow> eapol_sm" where
  "eapol_auth_step sm = emit RegisterStep sm"

text \<open>
  What follows the machines in a round of the loop when no machine changed its state. The
  Boolean says whether to go round again, which \<open>eap_server_sm_step\<close> asks for.
\<close>

definition sm_after_pass ::
  "(eapol_out list \<Rightarrow> bool) \<Rightarrow> ('e \<Rightarrow> eap_eapol_interface \<Rightarrow> 'e \<times> eap_eapol_interface \<times> bool) \<Rightarrow>
   eapol_sm \<Rightarrow> 'e \<Rightarrow> eapol_sm \<times> 'e \<times> bool" where
  "sm_after_pass alive eap_step sm e =
     (let notify = (\<lambda>sm. whenb (alive (outputs sm)) (emit (EapolEvent EAPOL_AUTH_SM_CHANGE)) sm)
      in if alive (outputs sm)
         then let (e, i, again) = eap_step e (eap_if sm); sm = sm\<lparr>eap_if := i\<rparr>
              in if again then (sm, e, True)
                 else if aaaEapResp (eap_if sm)
                 then let sm = upd_if (\<lambda>i. i\<lparr>aaaEapResp := False\<rparr>) sm
                      in case aaaEapRespData (eap_if sm) of
                           None \<Rightarrow> (sm, e, False)
                         | Some data \<Rightarrow> (notify (emit (AaaSend data) sm), e, False)
                 else (notify sm, e, False)
         else (notify sm, e, False))"

text \<open>
  The loop of \<open>eapol_sm_step_run\<close> over the code's \<open>max_steps\<close>, counted down each time the code
  would go to \<open>restart\<close>; when it reaches 0 the step is registered with the event loop instead.
\<close>

primrec step_run_loop ::
  "(eapol_out list \<Rightarrow> bool) \<Rightarrow> ('e \<Rightarrow> eap_eapol_interface \<Rightarrow> 'e \<times> eap_eapol_interface \<times> bool) \<Rightarrow>
   nat \<Rightarrow> eapol_sm \<Rightarrow> 'e \<Rightarrow> eapol_sm \<times> 'e" where
  "step_run_loop alive eap_step 0 sm e = (eapol_auth_step sm, e)"
| "step_run_loop alive eap_step (Suc max_steps) sm e =
     (let sm' = sm_pass alive sm
      in if machine_states sm \<noteq> machine_states sm'
         then step_run_loop alive eap_step max_steps sm' e
         else let (sm', e, again) = sm_after_pass alive eap_step sm' e
              in if again then step_run_loop alive eap_step max_steps sm' e else (sm', e))"

definition eapol_sm_step_run ::
  "(eapol_out list \<Rightarrow> bool) \<Rightarrow> ('e \<Rightarrow> eap_eapol_interface \<Rightarrow> 'e \<times> eap_eapol_interface \<times> bool) \<Rightarrow>
   eapol_sm \<Rightarrow> 'e \<Rightarrow> eapol_sm \<times> 'e" where
  "eapol_sm_step_run alive eap_step sm e = step_run_loop alive eap_step 100 sm e"

text \<open>One second tick of the port timers.\<close>

definition tick_down :: "int \<Rightarrow> int" where
  "tick_down n = (if n > 0 then n - 1 else n)"

definition eapol_port_timers_tick ::
  "(eapol_out list \<Rightarrow> bool) \<Rightarrow> ('e \<Rightarrow> eap_eapol_interface \<Rightarrow> 'e \<times> eap_eapol_interface \<times> bool) \<Rightarrow>
   eapol_sm \<Rightarrow> 'e \<Rightarrow> eapol_sm \<times> 'e" where
  "eapol_port_timers_tick alive eap_step state e =
     (let state = state\<lparr>aWhile := tick_down (aWhile state)\<rparr>;
          state = state\<lparr>quietWhile := tick_down (quietWhile state)\<rparr>;
          state = state\<lparr>reAuthWhen := tick_down (reAuthWhen state)\<rparr>;
          state = upd_if (\<lambda>i. i\<lparr>retransWhile := tick_down (retransWhile i)\<rparr>) state;
          (state, e) = eapol_sm_step_run alive eap_step state e
      in (emit RegisterTick state, e))"

definition eapol_auth_initialize ::
  "(eapol_out list \<Rightarrow> bool) \<Rightarrow> ('e \<Rightarrow> eap_eapol_interface \<Rightarrow> 'e \<times> eap_eapol_interface \<times> bool) \<Rightarrow>
   eapol_sm \<Rightarrow> 'e \<Rightarrow> eapol_sm \<times> 'e" where
  "eapol_auth_initialize alive eap_step sm e =
     (let sm = sm\<lparr>initializing := True\<rparr>;
          sm = sm\<lparr>initialize := True\<rparr>;
          (sm, e) = eapol_sm_step_run alive eap_step sm e;
          sm = sm\<lparr>initialize := False\<rparr>;
          (sm, e) = eapol_sm_step_run alive eap_step sm e;
          sm = sm\<lparr>initializing := False\<rparr>
      in (emit RegisterTick (emit CancelTick sm), e))"

text \<open>
  \<open>eapol_auth_alloc\<close>: the structure after \<open>os_zalloc\<close> and the assignments, then the
  initialisation. \<open>server\<close> is what \<open>eap_server_sm_init\<close> and \<open>eap_get_interface\<close> give,
  \<open>None\<close> when the server cannot be created; the rest of its configuration is not used here.
\<close>

record eapol_auth_config =
  conf_wpa :: bool
  conf_eap_reauth_period :: int
  conf_default_wep_key :: bool
  conf_individual_wep_key_len :: int

definition eapol_sm_new :: "eapol_auth_config \<Rightarrow> u32 \<Rightarrow> eap_eapol_interface \<Rightarrow> eapol_sm" where
  "eapol_sm_new conf fl i =
     \<lparr>aWhile = 0, quietWhile = 0, reAuthWhen = 0, authAbort = False, authFail = False,
      authPortStatus = PortState_0, authStart = False, authTimeout = False, authSuccess = False,
      eapolEap = False, initialize = False, keyDone = False, keyRun = False,
      keyTxEnabled = (\<not> conf_wpa conf \<and>
        (conf_default_wep_key conf \<or> conf_individual_wep_key_len conf > 0)),
      portControl = Auto, portValid = (\<not> conf_wpa conf), reAuthenticate = False,
      auth_pae_state = AUTH_PAE_INITIALIZE, eapolLogoff = False, eapolStart = False,
      portMode = PortTypes_0, reAuthCount = 0, quietPeriod = 60, reAuthMax = 2,
      be_auth_state = BE_AUTH_INITIALIZE, serverTimeout = 30,
      reauth_timer_state = REAUTH_TIMER_INITIALIZE,
      reAuthPeriod = word_of_int (conf_eap_reauth_period conf),
      reAuthEnabled = (conf_eap_reauth_period conf > 0),
      auth_key_tx_state = AUTH_KEY_TX_NO_KEY_TRANSMIT, key_rx_state = KEY_RX_NO_KEY_RECEIVE,
      rxKey = False, ctrl_dir_state = CTRL_DIR_IN_OR_BOTH, adminControlledDirections = Both,
      operControlledDirections = Both, operEdge = False, flags = fl, last_eap_id = 0, eap_if = i,
      initializing = False, changed = False,
      counters = \<lparr>authEntersConnecting = 0, authEapLogoffsWhileConnecting = 0,
        authAuthSuccessesWhileAuthenticating = 0, authAuthTimeoutsWhileAuthenticating = 0,
        authAuthFailWhileAuthenticating = 0, authAuthEapStartsWhileAuthenticating = 0,
        authAuthEapLogoffWhileAuthenticating = 0, authAuthReauthsWhileAuthenticated = 0,
        authAuthEapStartsWhileAuthenticated = 0, authAuthEapLogoffWhileAuthenticated = 0,
        backendResponses = 0, backendAccessChallenges = 0, backendOtherRequestsToSupplicant = 0,
        backendAuthSuccesses = 0, backendAuthFails = 0, dot1xAuthEapolFramesTx = 0,
        dot1xAuthEapolReqIdFramesTx = 0, dot1xAuthEapolReqFramesTx = 0\<rparr>,
      outputs = []\<rparr>"

definition eapol_auth_alloc ::
  "(eapol_out list \<Rightarrow> bool) \<Rightarrow> ('e \<Rightarrow> eap_eapol_interface \<Rightarrow> 'e \<times> eap_eapol_interface \<times> bool) \<Rightarrow>
   eapol_auth_config \<Rightarrow> u32 \<Rightarrow> ('e \<times> eap_eapol_interface) option \<Rightarrow> (eapol_sm \<times> 'e) option" where
  "eapol_auth_alloc alive eap_step conf fl server =
     (case server of None \<Rightarrow> None
      | Some (e, i) \<Rightarrow> Some (eapol_auth_initialize alive eap_step (eapol_sm_new conf fl i) e))"

end
