(* ===== verification/EapolFrame.thy ===== *)
theory EapolFrame
  imports EapolAuth
begin

text \<open>
  The EAPOL state machines as relations: what each field is after entering a state (the
  collection \<open>frame_simps\<close>), and the transitions of the authenticator PAE and of the backend with
  their conditions. The proofs about the machines go by cases on these relations.
\<close>

subsection \<open>What entering a state changes\<close>

text \<open>The EAP packets that a transmission puts out.\<close>

definition canned_eap :: "bool \<Rightarrow> eapol_sm \<Rightarrow> bytes" where
  "canned_eap success sm =
     (if success then EAP_CODE_SUCCESS else EAP_CODE_FAILURE) # (last_eap_id sm + 1) # WPA_PUT_BE16 4"

definition tx_req_out :: "eapol_sm \<Rightarrow> eapol_out list" where
  "tx_req_out sm =
     (case eapReqData (eap_if sm) of None \<Rightarrow> []
      | Some data \<Rightarrow> if length data < 4 \<or> has_flag sm EAPOL_SM_WAIT_START then [] else [EapolSend data])"

lemmas tx_defs = eapol_auth_tx_canned_eap_def eapol_auth_tx_req_def tx_req_out_def canned_eap_def

lemmas entry_defs = entry_AUTH_PAE_def entry_BE_AUTH_def entry_REAUTH_TIMER_def
  entry_AUTH_KEY_TX_def entry_KEY_RX_def entry_CTRL_DIR_def emit_def whenb_def Let_def has_flag_def

lemma tx_req_frame [frame_simps]:
  "aWhile (eapol_auth_tx_req sm) = aWhile sm"
  "quietWhile (eapol_auth_tx_req sm) = quietWhile sm"
  "reAuthWhen (eapol_auth_tx_req sm) = reAuthWhen sm"
  "authAbort (eapol_auth_tx_req sm) = authAbort sm"
  "authFail (eapol_auth_tx_req sm) = authFail sm"
  "authPortStatus (eapol_auth_tx_req sm) = authPortStatus sm"
  "authStart (eapol_auth_tx_req sm) = authStart sm"
  "authTimeout (eapol_auth_tx_req sm) = authTimeout sm"
  "authSuccess (eapol_auth_tx_req sm) = authSuccess sm"
  "eapolEap (eapol_auth_tx_req sm) = eapolEap sm"
  "initialize (eapol_auth_tx_req sm) = initialize sm"
  "keyDone (eapol_auth_tx_req sm) = keyDone sm"
  "keyRun (eapol_auth_tx_req sm) = keyRun sm"
  "keyTxEnabled (eapol_auth_tx_req sm) = keyTxEnabled sm"
  "portControl (eapol_auth_tx_req sm) = portControl sm"
  "portValid (eapol_auth_tx_req sm) = portValid sm"
  "reAuthenticate (eapol_auth_tx_req sm) = reAuthenticate sm"
  "auth_pae_state (eapol_auth_tx_req sm) = auth_pae_state sm"
  "eapolLogoff (eapol_auth_tx_req sm) = eapolLogoff sm"
  "eapolStart (eapol_auth_tx_req sm) = eapolStart sm"
  "portMode (eapol_auth_tx_req sm) = portMode sm"
  "reAuthCount (eapol_auth_tx_req sm) = reAuthCount sm"
  "quietPeriod (eapol_auth_tx_req sm) = quietPeriod sm"
  "reAuthMax (eapol_auth_tx_req sm) = reAuthMax sm"
  "be_auth_state (eapol_auth_tx_req sm) = be_auth_state sm"
  "serverTimeout (eapol_auth_tx_req sm) = serverTimeout sm"
  "reauth_timer_state (eapol_auth_tx_req sm) = reauth_timer_state sm"
  "reAuthPeriod (eapol_auth_tx_req sm) = reAuthPeriod sm"
  "reAuthEnabled (eapol_auth_tx_req sm) = reAuthEnabled sm"
  "auth_key_tx_state (eapol_auth_tx_req sm) = auth_key_tx_state sm"
  "key_rx_state (eapol_auth_tx_req sm) = key_rx_state sm"
  "rxKey (eapol_auth_tx_req sm) = rxKey sm"
  "ctrl_dir_state (eapol_auth_tx_req sm) = ctrl_dir_state sm"
  "operEdge (eapol_auth_tx_req sm) = operEdge sm"
  "flags (eapol_auth_tx_req sm) = flags sm"
  "eap_if (eapol_auth_tx_req sm) = eap_if sm"
  "initializing (eapol_auth_tx_req sm) = initializing sm"
  "outputs (eapol_auth_tx_req sm) = outputs sm @ tx_req_out sm"
  by (simp_all add: tx_defs emit_def Let_def split: option.split)

lemma AUTH_PAE_INITIALIZE_frame [frame_simps]:
  "aWhile (sm_AUTH_PAE_INITIALIZE_Enter g sm) = aWhile sm"
  "quietWhile (sm_AUTH_PAE_INITIALIZE_Enter g sm) = quietWhile sm"
  "reAuthWhen (sm_AUTH_PAE_INITIALIZE_Enter g sm) = reAuthWhen sm"
  "authAbort (sm_AUTH_PAE_INITIALIZE_Enter g sm) = authAbort sm"
  "authFail (sm_AUTH_PAE_INITIALIZE_Enter g sm) = authFail sm"
  "authPortStatus (sm_AUTH_PAE_INITIALIZE_Enter g sm) = authPortStatus sm"
  "authStart (sm_AUTH_PAE_INITIALIZE_Enter g sm) = authStart sm"
  "authTimeout (sm_AUTH_PAE_INITIALIZE_Enter g sm) = authTimeout sm"
  "authSuccess (sm_AUTH_PAE_INITIALIZE_Enter g sm) = authSuccess sm"
  "eapolEap (sm_AUTH_PAE_INITIALIZE_Enter g sm) = eapolEap sm"
  "initialize (sm_AUTH_PAE_INITIALIZE_Enter g sm) = initialize sm"
  "keyDone (sm_AUTH_PAE_INITIALIZE_Enter g sm) = keyDone sm"
  "keyRun (sm_AUTH_PAE_INITIALIZE_Enter g sm) = keyRun sm"
  "keyTxEnabled (sm_AUTH_PAE_INITIALIZE_Enter g sm) = keyTxEnabled sm"
  "portControl (sm_AUTH_PAE_INITIALIZE_Enter g sm) = portControl sm"
  "portValid (sm_AUTH_PAE_INITIALIZE_Enter g sm) = portValid sm"
  "reAuthenticate (sm_AUTH_PAE_INITIALIZE_Enter g sm) = reAuthenticate sm"
  "auth_pae_state (sm_AUTH_PAE_INITIALIZE_Enter g sm) = AUTH_PAE_INITIALIZE"
  "eapolLogoff (sm_AUTH_PAE_INITIALIZE_Enter g sm) = eapolLogoff sm"
  "eapolStart (sm_AUTH_PAE_INITIALIZE_Enter g sm) = eapolStart sm"
  "portMode (sm_AUTH_PAE_INITIALIZE_Enter g sm) = Auto"
  "reAuthCount (sm_AUTH_PAE_INITIALIZE_Enter g sm) = reAuthCount sm"
  "quietPeriod (sm_AUTH_PAE_INITIALIZE_Enter g sm) = quietPeriod sm"
  "reAuthMax (sm_AUTH_PAE_INITIALIZE_Enter g sm) = reAuthMax sm"
  "be_auth_state (sm_AUTH_PAE_INITIALIZE_Enter g sm) = be_auth_state sm"
  "serverTimeout (sm_AUTH_PAE_INITIALIZE_Enter g sm) = serverTimeout sm"
  "reauth_timer_state (sm_AUTH_PAE_INITIALIZE_Enter g sm) = reauth_timer_state sm"
  "reAuthPeriod (sm_AUTH_PAE_INITIALIZE_Enter g sm) = reAuthPeriod sm"
  "reAuthEnabled (sm_AUTH_PAE_INITIALIZE_Enter g sm) = reAuthEnabled sm"
  "auth_key_tx_state (sm_AUTH_PAE_INITIALIZE_Enter g sm) = auth_key_tx_state sm"
  "key_rx_state (sm_AUTH_PAE_INITIALIZE_Enter g sm) = key_rx_state sm"
  "rxKey (sm_AUTH_PAE_INITIALIZE_Enter g sm) = rxKey sm"
  "ctrl_dir_state (sm_AUTH_PAE_INITIALIZE_Enter g sm) = ctrl_dir_state sm"
  "operEdge (sm_AUTH_PAE_INITIALIZE_Enter g sm) = operEdge sm"
  "flags (sm_AUTH_PAE_INITIALIZE_Enter g sm) = flags sm"
  "eap_if (sm_AUTH_PAE_INITIALIZE_Enter g sm) = eap_if sm"
  "initializing (sm_AUTH_PAE_INITIALIZE_Enter g sm) = initializing sm"
  "outputs (sm_AUTH_PAE_INITIALIZE_Enter g sm) = outputs sm"
  by (simp_all add: sm_AUTH_PAE_INITIALIZE_Enter_def entry_defs tx_defs)

lemma AUTH_PAE_DISCONNECTED_frame [frame_simps]:
  "aWhile (sm_AUTH_PAE_DISCONNECTED_Enter g sm) = aWhile sm"
  "quietWhile (sm_AUTH_PAE_DISCONNECTED_Enter g sm) = quietWhile sm"
  "reAuthWhen (sm_AUTH_PAE_DISCONNECTED_Enter g sm) = reAuthWhen sm"
  "authAbort (sm_AUTH_PAE_DISCONNECTED_Enter g sm) = authAbort sm"
  "authFail (sm_AUTH_PAE_DISCONNECTED_Enter g sm) = authFail sm"
  "authPortStatus (sm_AUTH_PAE_DISCONNECTED_Enter g sm) = Unauthorized"
  "authStart (sm_AUTH_PAE_DISCONNECTED_Enter g sm) = authStart sm"
  "authTimeout (sm_AUTH_PAE_DISCONNECTED_Enter g sm) = authTimeout sm"
  "authSuccess (sm_AUTH_PAE_DISCONNECTED_Enter g sm) = authSuccess sm"
  "eapolEap (sm_AUTH_PAE_DISCONNECTED_Enter g sm) = eapolEap sm"
  "initialize (sm_AUTH_PAE_DISCONNECTED_Enter g sm) = initialize sm"
  "keyDone (sm_AUTH_PAE_DISCONNECTED_Enter g sm) = keyDone sm"
  "keyRun (sm_AUTH_PAE_DISCONNECTED_Enter g sm) = keyRun sm"
  "keyTxEnabled (sm_AUTH_PAE_DISCONNECTED_Enter g sm) = keyTxEnabled sm"
  "portControl (sm_AUTH_PAE_DISCONNECTED_Enter g sm) = portControl sm"
  "portValid (sm_AUTH_PAE_DISCONNECTED_Enter g sm) = portValid sm"
  "reAuthenticate (sm_AUTH_PAE_DISCONNECTED_Enter g sm) = reAuthenticate sm"
  "auth_pae_state (sm_AUTH_PAE_DISCONNECTED_Enter g sm) = AUTH_PAE_DISCONNECTED"
  "eapolLogoff (sm_AUTH_PAE_DISCONNECTED_Enter g sm) = False"
  "eapolStart (sm_AUTH_PAE_DISCONNECTED_Enter g sm) = eapolStart sm"
  "portMode (sm_AUTH_PAE_DISCONNECTED_Enter g sm) = portMode sm"
  "reAuthCount (sm_AUTH_PAE_DISCONNECTED_Enter g sm) = 0"
  "quietPeriod (sm_AUTH_PAE_DISCONNECTED_Enter g sm) = quietPeriod sm"
  "reAuthMax (sm_AUTH_PAE_DISCONNECTED_Enter g sm) = reAuthMax sm"
  "be_auth_state (sm_AUTH_PAE_DISCONNECTED_Enter g sm) = be_auth_state sm"
  "serverTimeout (sm_AUTH_PAE_DISCONNECTED_Enter g sm) = serverTimeout sm"
  "reauth_timer_state (sm_AUTH_PAE_DISCONNECTED_Enter g sm) = reauth_timer_state sm"
  "reAuthPeriod (sm_AUTH_PAE_DISCONNECTED_Enter g sm) = reAuthPeriod sm"
  "reAuthEnabled (sm_AUTH_PAE_DISCONNECTED_Enter g sm) = reAuthEnabled sm"
  "auth_key_tx_state (sm_AUTH_PAE_DISCONNECTED_Enter g sm) = auth_key_tx_state sm"
  "key_rx_state (sm_AUTH_PAE_DISCONNECTED_Enter g sm) = key_rx_state sm"
  "rxKey (sm_AUTH_PAE_DISCONNECTED_Enter g sm) = rxKey sm"
  "ctrl_dir_state (sm_AUTH_PAE_DISCONNECTED_Enter g sm) = ctrl_dir_state sm"
  "operEdge (sm_AUTH_PAE_DISCONNECTED_Enter g sm) = operEdge sm"
  "flags (sm_AUTH_PAE_DISCONNECTED_Enter g sm) = flags sm"
  "eap_if (sm_AUTH_PAE_DISCONNECTED_Enter g sm) = eap_if sm"
  "initializing (sm_AUTH_PAE_DISCONNECTED_Enter g sm) = initializing sm"
  "outputs (sm_AUTH_PAE_DISCONNECTED_Enter g sm) = outputs sm @ SetPort False # (if auth_pae_state sm = AUTH_PAE_INITIALIZE then [] else [Finished False (has_flag sm EAPOL_SM_PREAUTH)])"
  by (simp_all add: sm_AUTH_PAE_DISCONNECTED_Enter_def entry_defs tx_defs)

lemma AUTH_PAE_RESTART_frame [frame_simps]:
  "aWhile (sm_AUTH_PAE_RESTART_Enter g sm) = aWhile sm"
  "quietWhile (sm_AUTH_PAE_RESTART_Enter g sm) = quietWhile sm"
  "reAuthWhen (sm_AUTH_PAE_RESTART_Enter g sm) = reAuthWhen sm"
  "authAbort (sm_AUTH_PAE_RESTART_Enter g sm) = authAbort sm"
  "authFail (sm_AUTH_PAE_RESTART_Enter g sm) = authFail sm"
  "authPortStatus (sm_AUTH_PAE_RESTART_Enter g sm) = authPortStatus sm"
  "authStart (sm_AUTH_PAE_RESTART_Enter g sm) = authStart sm"
  "authTimeout (sm_AUTH_PAE_RESTART_Enter g sm) = authTimeout sm"
  "authSuccess (sm_AUTH_PAE_RESTART_Enter g sm) = authSuccess sm"
  "eapolEap (sm_AUTH_PAE_RESTART_Enter g sm) = eapolEap sm"
  "initialize (sm_AUTH_PAE_RESTART_Enter g sm) = initialize sm"
  "keyDone (sm_AUTH_PAE_RESTART_Enter g sm) = keyDone sm"
  "keyRun (sm_AUTH_PAE_RESTART_Enter g sm) = keyRun sm"
  "keyTxEnabled (sm_AUTH_PAE_RESTART_Enter g sm) = keyTxEnabled sm"
  "portControl (sm_AUTH_PAE_RESTART_Enter g sm) = portControl sm"
  "portValid (sm_AUTH_PAE_RESTART_Enter g sm) = portValid sm"
  "reAuthenticate (sm_AUTH_PAE_RESTART_Enter g sm) = reAuthenticate sm"
  "auth_pae_state (sm_AUTH_PAE_RESTART_Enter g sm) = AUTH_PAE_RESTART"
  "eapolLogoff (sm_AUTH_PAE_RESTART_Enter g sm) = eapolLogoff sm"
  "eapolStart (sm_AUTH_PAE_RESTART_Enter g sm) = eapolStart sm"
  "portMode (sm_AUTH_PAE_RESTART_Enter g sm) = portMode sm"
  "reAuthCount (sm_AUTH_PAE_RESTART_Enter g sm) = reAuthCount sm"
  "quietPeriod (sm_AUTH_PAE_RESTART_Enter g sm) = quietPeriod sm"
  "reAuthMax (sm_AUTH_PAE_RESTART_Enter g sm) = reAuthMax sm"
  "be_auth_state (sm_AUTH_PAE_RESTART_Enter g sm) = be_auth_state sm"
  "serverTimeout (sm_AUTH_PAE_RESTART_Enter g sm) = serverTimeout sm"
  "reauth_timer_state (sm_AUTH_PAE_RESTART_Enter g sm) = reauth_timer_state sm"
  "reAuthPeriod (sm_AUTH_PAE_RESTART_Enter g sm) = reAuthPeriod sm"
  "reAuthEnabled (sm_AUTH_PAE_RESTART_Enter g sm) = reAuthEnabled sm"
  "auth_key_tx_state (sm_AUTH_PAE_RESTART_Enter g sm) = auth_key_tx_state sm"
  "key_rx_state (sm_AUTH_PAE_RESTART_Enter g sm) = key_rx_state sm"
  "rxKey (sm_AUTH_PAE_RESTART_Enter g sm) = rxKey sm"
  "ctrl_dir_state (sm_AUTH_PAE_RESTART_Enter g sm) = ctrl_dir_state sm"
  "operEdge (sm_AUTH_PAE_RESTART_Enter g sm) = operEdge sm"
  "flags (sm_AUTH_PAE_RESTART_Enter g sm) = flags sm"
  "eap_if (sm_AUTH_PAE_RESTART_Enter g sm) = (eap_if sm)\<lparr>eapRestart := True\<rparr>"
  "initializing (sm_AUTH_PAE_RESTART_Enter g sm) = initializing sm"
  "outputs (sm_AUTH_PAE_RESTART_Enter g sm) = outputs sm"
  by (simp_all add: sm_AUTH_PAE_RESTART_Enter_def entry_defs tx_defs)

lemma AUTH_PAE_CONNECTING_frame [frame_simps]:
  "aWhile (sm_AUTH_PAE_CONNECTING_Enter g sm) = aWhile sm"
  "quietWhile (sm_AUTH_PAE_CONNECTING_Enter g sm) = quietWhile sm"
  "reAuthWhen (sm_AUTH_PAE_CONNECTING_Enter g sm) = reAuthWhen sm"
  "authAbort (sm_AUTH_PAE_CONNECTING_Enter g sm) = authAbort sm"
  "authFail (sm_AUTH_PAE_CONNECTING_Enter g sm) = authFail sm"
  "authPortStatus (sm_AUTH_PAE_CONNECTING_Enter g sm) = authPortStatus sm"
  "authStart (sm_AUTH_PAE_CONNECTING_Enter g sm) = authStart sm"
  "authTimeout (sm_AUTH_PAE_CONNECTING_Enter g sm) = authTimeout sm"
  "authSuccess (sm_AUTH_PAE_CONNECTING_Enter g sm) = authSuccess sm"
  "eapolEap (sm_AUTH_PAE_CONNECTING_Enter g sm) = eapolEap sm"
  "initialize (sm_AUTH_PAE_CONNECTING_Enter g sm) = initialize sm"
  "keyDone (sm_AUTH_PAE_CONNECTING_Enter g sm) = keyDone sm"
  "keyRun (sm_AUTH_PAE_CONNECTING_Enter g sm) = keyRun sm"
  "keyTxEnabled (sm_AUTH_PAE_CONNECTING_Enter g sm) = keyTxEnabled sm"
  "portControl (sm_AUTH_PAE_CONNECTING_Enter g sm) = portControl sm"
  "portValid (sm_AUTH_PAE_CONNECTING_Enter g sm) = portValid sm"
  "reAuthenticate (sm_AUTH_PAE_CONNECTING_Enter g sm) = False"
  "auth_pae_state (sm_AUTH_PAE_CONNECTING_Enter g sm) = AUTH_PAE_CONNECTING"
  "eapolLogoff (sm_AUTH_PAE_CONNECTING_Enter g sm) = eapolLogoff sm"
  "eapolStart (sm_AUTH_PAE_CONNECTING_Enter g sm) = eapolStart sm"
  "portMode (sm_AUTH_PAE_CONNECTING_Enter g sm) = portMode sm"
  "reAuthCount (sm_AUTH_PAE_CONNECTING_Enter g sm) = reAuthCount sm + 1"
  "quietPeriod (sm_AUTH_PAE_CONNECTING_Enter g sm) = quietPeriod sm"
  "reAuthMax (sm_AUTH_PAE_CONNECTING_Enter g sm) = reAuthMax sm"
  "be_auth_state (sm_AUTH_PAE_CONNECTING_Enter g sm) = be_auth_state sm"
  "serverTimeout (sm_AUTH_PAE_CONNECTING_Enter g sm) = serverTimeout sm"
  "reauth_timer_state (sm_AUTH_PAE_CONNECTING_Enter g sm) = reauth_timer_state sm"
  "reAuthPeriod (sm_AUTH_PAE_CONNECTING_Enter g sm) = reAuthPeriod sm"
  "reAuthEnabled (sm_AUTH_PAE_CONNECTING_Enter g sm) = reAuthEnabled sm"
  "auth_key_tx_state (sm_AUTH_PAE_CONNECTING_Enter g sm) = auth_key_tx_state sm"
  "key_rx_state (sm_AUTH_PAE_CONNECTING_Enter g sm) = key_rx_state sm"
  "rxKey (sm_AUTH_PAE_CONNECTING_Enter g sm) = rxKey sm"
  "ctrl_dir_state (sm_AUTH_PAE_CONNECTING_Enter g sm) = ctrl_dir_state sm"
  "operEdge (sm_AUTH_PAE_CONNECTING_Enter g sm) = operEdge sm"
  "flags (sm_AUTH_PAE_CONNECTING_Enter g sm) = flags sm"
  "eap_if (sm_AUTH_PAE_CONNECTING_Enter g sm) = eap_if sm"
  "initializing (sm_AUTH_PAE_CONNECTING_Enter g sm) = initializing sm"
  "outputs (sm_AUTH_PAE_CONNECTING_Enter g sm) = outputs sm"
  by (simp_all add: sm_AUTH_PAE_CONNECTING_Enter_def entry_defs tx_defs)

lemma AUTH_PAE_HELD_frame [frame_simps]:
  "aWhile (sm_AUTH_PAE_HELD_Enter g sm) = aWhile sm"
  "quietWhile (sm_AUTH_PAE_HELD_Enter g sm) = sint (quietPeriod sm)"
  "reAuthWhen (sm_AUTH_PAE_HELD_Enter g sm) = reAuthWhen sm"
  "authAbort (sm_AUTH_PAE_HELD_Enter g sm) = authAbort sm"
  "authFail (sm_AUTH_PAE_HELD_Enter g sm) = authFail sm"
  "authPortStatus (sm_AUTH_PAE_HELD_Enter g sm) = Unauthorized"
  "authStart (sm_AUTH_PAE_HELD_Enter g sm) = authStart sm"
  "authTimeout (sm_AUTH_PAE_HELD_Enter g sm) = authTimeout sm"
  "authSuccess (sm_AUTH_PAE_HELD_Enter g sm) = authSuccess sm"
  "eapolEap (sm_AUTH_PAE_HELD_Enter g sm) = eapolEap sm"
  "initialize (sm_AUTH_PAE_HELD_Enter g sm) = initialize sm"
  "keyDone (sm_AUTH_PAE_HELD_Enter g sm) = keyDone sm"
  "keyRun (sm_AUTH_PAE_HELD_Enter g sm) = keyRun sm"
  "keyTxEnabled (sm_AUTH_PAE_HELD_Enter g sm) = keyTxEnabled sm"
  "portControl (sm_AUTH_PAE_HELD_Enter g sm) = portControl sm"
  "portValid (sm_AUTH_PAE_HELD_Enter g sm) = portValid sm"
  "reAuthenticate (sm_AUTH_PAE_HELD_Enter g sm) = reAuthenticate sm"
  "auth_pae_state (sm_AUTH_PAE_HELD_Enter g sm) = AUTH_PAE_HELD"
  "eapolLogoff (sm_AUTH_PAE_HELD_Enter g sm) = False"
  "eapolStart (sm_AUTH_PAE_HELD_Enter g sm) = eapolStart sm"
  "portMode (sm_AUTH_PAE_HELD_Enter g sm) = portMode sm"
  "reAuthCount (sm_AUTH_PAE_HELD_Enter g sm) = reAuthCount sm"
  "quietPeriod (sm_AUTH_PAE_HELD_Enter g sm) = quietPeriod sm"
  "reAuthMax (sm_AUTH_PAE_HELD_Enter g sm) = reAuthMax sm"
  "be_auth_state (sm_AUTH_PAE_HELD_Enter g sm) = be_auth_state sm"
  "serverTimeout (sm_AUTH_PAE_HELD_Enter g sm) = serverTimeout sm"
  "reauth_timer_state (sm_AUTH_PAE_HELD_Enter g sm) = reauth_timer_state sm"
  "reAuthPeriod (sm_AUTH_PAE_HELD_Enter g sm) = reAuthPeriod sm"
  "reAuthEnabled (sm_AUTH_PAE_HELD_Enter g sm) = reAuthEnabled sm"
  "auth_key_tx_state (sm_AUTH_PAE_HELD_Enter g sm) = auth_key_tx_state sm"
  "key_rx_state (sm_AUTH_PAE_HELD_Enter g sm) = key_rx_state sm"
  "rxKey (sm_AUTH_PAE_HELD_Enter g sm) = rxKey sm"
  "ctrl_dir_state (sm_AUTH_PAE_HELD_Enter g sm) = ctrl_dir_state sm"
  "operEdge (sm_AUTH_PAE_HELD_Enter g sm) = operEdge sm"
  "flags (sm_AUTH_PAE_HELD_Enter g sm) = flags sm"
  "eap_if (sm_AUTH_PAE_HELD_Enter g sm) = eap_if sm"
  "initializing (sm_AUTH_PAE_HELD_Enter g sm) = initializing sm"
  "outputs (sm_AUTH_PAE_HELD_Enter g sm) = outputs sm @ [SetPort False, Finished False (has_flag sm EAPOL_SM_PREAUTH)]"
  by (simp_all add: sm_AUTH_PAE_HELD_Enter_def entry_defs tx_defs)

lemma AUTH_PAE_AUTHENTICATED_frame [frame_simps]:
  "aWhile (sm_AUTH_PAE_AUTHENTICATED_Enter g sm) = aWhile sm"
  "quietWhile (sm_AUTH_PAE_AUTHENTICATED_Enter g sm) = quietWhile sm"
  "reAuthWhen (sm_AUTH_PAE_AUTHENTICATED_Enter g sm) = reAuthWhen sm"
  "authAbort (sm_AUTH_PAE_AUTHENTICATED_Enter g sm) = authAbort sm"
  "authFail (sm_AUTH_PAE_AUTHENTICATED_Enter g sm) = authFail sm"
  "authPortStatus (sm_AUTH_PAE_AUTHENTICATED_Enter g sm) = Authorized"
  "authStart (sm_AUTH_PAE_AUTHENTICATED_Enter g sm) = authStart sm"
  "authTimeout (sm_AUTH_PAE_AUTHENTICATED_Enter g sm) = authTimeout sm"
  "authSuccess (sm_AUTH_PAE_AUTHENTICATED_Enter g sm) = authSuccess sm"
  "eapolEap (sm_AUTH_PAE_AUTHENTICATED_Enter g sm) = eapolEap sm"
  "initialize (sm_AUTH_PAE_AUTHENTICATED_Enter g sm) = initialize sm"
  "keyDone (sm_AUTH_PAE_AUTHENTICATED_Enter g sm) = keyDone sm"
  "keyRun (sm_AUTH_PAE_AUTHENTICATED_Enter g sm) = keyRun sm"
  "keyTxEnabled (sm_AUTH_PAE_AUTHENTICATED_Enter g sm) = keyTxEnabled sm"
  "portControl (sm_AUTH_PAE_AUTHENTICATED_Enter g sm) = portControl sm"
  "portValid (sm_AUTH_PAE_AUTHENTICATED_Enter g sm) = portValid sm"
  "reAuthenticate (sm_AUTH_PAE_AUTHENTICATED_Enter g sm) = reAuthenticate sm"
  "auth_pae_state (sm_AUTH_PAE_AUTHENTICATED_Enter g sm) = AUTH_PAE_AUTHENTICATED"
  "eapolLogoff (sm_AUTH_PAE_AUTHENTICATED_Enter g sm) = eapolLogoff sm"
  "eapolStart (sm_AUTH_PAE_AUTHENTICATED_Enter g sm) = eapolStart sm"
  "portMode (sm_AUTH_PAE_AUTHENTICATED_Enter g sm) = portMode sm"
  "reAuthCount (sm_AUTH_PAE_AUTHENTICATED_Enter g sm) = 0"
  "quietPeriod (sm_AUTH_PAE_AUTHENTICATED_Enter g sm) = quietPeriod sm"
  "reAuthMax (sm_AUTH_PAE_AUTHENTICATED_Enter g sm) = reAuthMax sm"
  "be_auth_state (sm_AUTH_PAE_AUTHENTICATED_Enter g sm) = be_auth_state sm"
  "serverTimeout (sm_AUTH_PAE_AUTHENTICATED_Enter g sm) = serverTimeout sm"
  "reauth_timer_state (sm_AUTH_PAE_AUTHENTICATED_Enter g sm) = reauth_timer_state sm"
  "reAuthPeriod (sm_AUTH_PAE_AUTHENTICATED_Enter g sm) = reAuthPeriod sm"
  "reAuthEnabled (sm_AUTH_PAE_AUTHENTICATED_Enter g sm) = reAuthEnabled sm"
  "auth_key_tx_state (sm_AUTH_PAE_AUTHENTICATED_Enter g sm) = auth_key_tx_state sm"
  "key_rx_state (sm_AUTH_PAE_AUTHENTICATED_Enter g sm) = key_rx_state sm"
  "rxKey (sm_AUTH_PAE_AUTHENTICATED_Enter g sm) = rxKey sm"
  "ctrl_dir_state (sm_AUTH_PAE_AUTHENTICATED_Enter g sm) = ctrl_dir_state sm"
  "operEdge (sm_AUTH_PAE_AUTHENTICATED_Enter g sm) = operEdge sm"
  "flags (sm_AUTH_PAE_AUTHENTICATED_Enter g sm) = flags sm"
  "eap_if (sm_AUTH_PAE_AUTHENTICATED_Enter g sm) = eap_if sm"
  "initializing (sm_AUTH_PAE_AUTHENTICATED_Enter g sm) = initializing sm"
  "outputs (sm_AUTH_PAE_AUTHENTICATED_Enter g sm) = outputs sm @ [SetPort True, Finished True (has_flag sm EAPOL_SM_PREAUTH)]"
  by (simp_all add: sm_AUTH_PAE_AUTHENTICATED_Enter_def entry_defs tx_defs)

lemma AUTH_PAE_AUTHENTICATING_frame [frame_simps]:
  "aWhile (sm_AUTH_PAE_AUTHENTICATING_Enter g sm) = aWhile sm"
  "quietWhile (sm_AUTH_PAE_AUTHENTICATING_Enter g sm) = quietWhile sm"
  "reAuthWhen (sm_AUTH_PAE_AUTHENTICATING_Enter g sm) = reAuthWhen sm"
  "authAbort (sm_AUTH_PAE_AUTHENTICATING_Enter g sm) = authAbort sm"
  "authFail (sm_AUTH_PAE_AUTHENTICATING_Enter g sm) = False"
  "authPortStatus (sm_AUTH_PAE_AUTHENTICATING_Enter g sm) = authPortStatus sm"
  "authStart (sm_AUTH_PAE_AUTHENTICATING_Enter g sm) = True"
  "authTimeout (sm_AUTH_PAE_AUTHENTICATING_Enter g sm) = False"
  "authSuccess (sm_AUTH_PAE_AUTHENTICATING_Enter g sm) = False"
  "eapolEap (sm_AUTH_PAE_AUTHENTICATING_Enter g sm) = eapolEap sm"
  "initialize (sm_AUTH_PAE_AUTHENTICATING_Enter g sm) = initialize sm"
  "keyDone (sm_AUTH_PAE_AUTHENTICATING_Enter g sm) = False"
  "keyRun (sm_AUTH_PAE_AUTHENTICATING_Enter g sm) = False"
  "keyTxEnabled (sm_AUTH_PAE_AUTHENTICATING_Enter g sm) = keyTxEnabled sm"
  "portControl (sm_AUTH_PAE_AUTHENTICATING_Enter g sm) = portControl sm"
  "portValid (sm_AUTH_PAE_AUTHENTICATING_Enter g sm) = portValid sm"
  "reAuthenticate (sm_AUTH_PAE_AUTHENTICATING_Enter g sm) = reAuthenticate sm"
  "auth_pae_state (sm_AUTH_PAE_AUTHENTICATING_Enter g sm) = AUTH_PAE_AUTHENTICATING"
  "eapolLogoff (sm_AUTH_PAE_AUTHENTICATING_Enter g sm) = eapolLogoff sm"
  "eapolStart (sm_AUTH_PAE_AUTHENTICATING_Enter g sm) = False"
  "portMode (sm_AUTH_PAE_AUTHENTICATING_Enter g sm) = portMode sm"
  "reAuthCount (sm_AUTH_PAE_AUTHENTICATING_Enter g sm) = reAuthCount sm"
  "quietPeriod (sm_AUTH_PAE_AUTHENTICATING_Enter g sm) = quietPeriod sm"
  "reAuthMax (sm_AUTH_PAE_AUTHENTICATING_Enter g sm) = reAuthMax sm"
  "be_auth_state (sm_AUTH_PAE_AUTHENTICATING_Enter g sm) = be_auth_state sm"
  "serverTimeout (sm_AUTH_PAE_AUTHENTICATING_Enter g sm) = serverTimeout sm"
  "reauth_timer_state (sm_AUTH_PAE_AUTHENTICATING_Enter g sm) = reauth_timer_state sm"
  "reAuthPeriod (sm_AUTH_PAE_AUTHENTICATING_Enter g sm) = reAuthPeriod sm"
  "reAuthEnabled (sm_AUTH_PAE_AUTHENTICATING_Enter g sm) = reAuthEnabled sm"
  "auth_key_tx_state (sm_AUTH_PAE_AUTHENTICATING_Enter g sm) = auth_key_tx_state sm"
  "key_rx_state (sm_AUTH_PAE_AUTHENTICATING_Enter g sm) = key_rx_state sm"
  "rxKey (sm_AUTH_PAE_AUTHENTICATING_Enter g sm) = rxKey sm"
  "ctrl_dir_state (sm_AUTH_PAE_AUTHENTICATING_Enter g sm) = ctrl_dir_state sm"
  "operEdge (sm_AUTH_PAE_AUTHENTICATING_Enter g sm) = operEdge sm"
  "flags (sm_AUTH_PAE_AUTHENTICATING_Enter g sm) = flags sm"
  "eap_if (sm_AUTH_PAE_AUTHENTICATING_Enter g sm) = eap_if sm"
  "initializing (sm_AUTH_PAE_AUTHENTICATING_Enter g sm) = initializing sm"
  "outputs (sm_AUTH_PAE_AUTHENTICATING_Enter g sm) = outputs sm"
  by (simp_all add: sm_AUTH_PAE_AUTHENTICATING_Enter_def entry_defs tx_defs)

lemma AUTH_PAE_ABORTING_frame [frame_simps]:
  "aWhile (sm_AUTH_PAE_ABORTING_Enter g sm) = aWhile sm"
  "quietWhile (sm_AUTH_PAE_ABORTING_Enter g sm) = quietWhile sm"
  "reAuthWhen (sm_AUTH_PAE_ABORTING_Enter g sm) = reAuthWhen sm"
  "authAbort (sm_AUTH_PAE_ABORTING_Enter g sm) = True"
  "authFail (sm_AUTH_PAE_ABORTING_Enter g sm) = authFail sm"
  "authPortStatus (sm_AUTH_PAE_ABORTING_Enter g sm) = authPortStatus sm"
  "authStart (sm_AUTH_PAE_ABORTING_Enter g sm) = authStart sm"
  "authTimeout (sm_AUTH_PAE_ABORTING_Enter g sm) = authTimeout sm"
  "authSuccess (sm_AUTH_PAE_ABORTING_Enter g sm) = authSuccess sm"
  "eapolEap (sm_AUTH_PAE_ABORTING_Enter g sm) = eapolEap sm"
  "initialize (sm_AUTH_PAE_ABORTING_Enter g sm) = initialize sm"
  "keyDone (sm_AUTH_PAE_ABORTING_Enter g sm) = False"
  "keyRun (sm_AUTH_PAE_ABORTING_Enter g sm) = False"
  "keyTxEnabled (sm_AUTH_PAE_ABORTING_Enter g sm) = keyTxEnabled sm"
  "portControl (sm_AUTH_PAE_ABORTING_Enter g sm) = portControl sm"
  "portValid (sm_AUTH_PAE_ABORTING_Enter g sm) = portValid sm"
  "reAuthenticate (sm_AUTH_PAE_ABORTING_Enter g sm) = reAuthenticate sm"
  "auth_pae_state (sm_AUTH_PAE_ABORTING_Enter g sm) = AUTH_PAE_ABORTING"
  "eapolLogoff (sm_AUTH_PAE_ABORTING_Enter g sm) = eapolLogoff sm"
  "eapolStart (sm_AUTH_PAE_ABORTING_Enter g sm) = eapolStart sm"
  "portMode (sm_AUTH_PAE_ABORTING_Enter g sm) = portMode sm"
  "reAuthCount (sm_AUTH_PAE_ABORTING_Enter g sm) = reAuthCount sm"
  "quietPeriod (sm_AUTH_PAE_ABORTING_Enter g sm) = quietPeriod sm"
  "reAuthMax (sm_AUTH_PAE_ABORTING_Enter g sm) = reAuthMax sm"
  "be_auth_state (sm_AUTH_PAE_ABORTING_Enter g sm) = be_auth_state sm"
  "serverTimeout (sm_AUTH_PAE_ABORTING_Enter g sm) = serverTimeout sm"
  "reauth_timer_state (sm_AUTH_PAE_ABORTING_Enter g sm) = reauth_timer_state sm"
  "reAuthPeriod (sm_AUTH_PAE_ABORTING_Enter g sm) = reAuthPeriod sm"
  "reAuthEnabled (sm_AUTH_PAE_ABORTING_Enter g sm) = reAuthEnabled sm"
  "auth_key_tx_state (sm_AUTH_PAE_ABORTING_Enter g sm) = auth_key_tx_state sm"
  "key_rx_state (sm_AUTH_PAE_ABORTING_Enter g sm) = key_rx_state sm"
  "rxKey (sm_AUTH_PAE_ABORTING_Enter g sm) = rxKey sm"
  "ctrl_dir_state (sm_AUTH_PAE_ABORTING_Enter g sm) = ctrl_dir_state sm"
  "operEdge (sm_AUTH_PAE_ABORTING_Enter g sm) = operEdge sm"
  "flags (sm_AUTH_PAE_ABORTING_Enter g sm) = flags sm"
  "eap_if (sm_AUTH_PAE_ABORTING_Enter g sm) = eap_if sm"
  "initializing (sm_AUTH_PAE_ABORTING_Enter g sm) = initializing sm"
  "outputs (sm_AUTH_PAE_ABORTING_Enter g sm) = outputs sm"
  by (simp_all add: sm_AUTH_PAE_ABORTING_Enter_def entry_defs tx_defs)

lemma AUTH_PAE_FORCE_AUTH_frame [frame_simps]:
  "aWhile (sm_AUTH_PAE_FORCE_AUTH_Enter g sm) = aWhile sm"
  "quietWhile (sm_AUTH_PAE_FORCE_AUTH_Enter g sm) = quietWhile sm"
  "reAuthWhen (sm_AUTH_PAE_FORCE_AUTH_Enter g sm) = reAuthWhen sm"
  "authAbort (sm_AUTH_PAE_FORCE_AUTH_Enter g sm) = authAbort sm"
  "authFail (sm_AUTH_PAE_FORCE_AUTH_Enter g sm) = authFail sm"
  "authPortStatus (sm_AUTH_PAE_FORCE_AUTH_Enter g sm) = Authorized"
  "authStart (sm_AUTH_PAE_FORCE_AUTH_Enter g sm) = authStart sm"
  "authTimeout (sm_AUTH_PAE_FORCE_AUTH_Enter g sm) = authTimeout sm"
  "authSuccess (sm_AUTH_PAE_FORCE_AUTH_Enter g sm) = authSuccess sm"
  "eapolEap (sm_AUTH_PAE_FORCE_AUTH_Enter g sm) = eapolEap sm"
  "initialize (sm_AUTH_PAE_FORCE_AUTH_Enter g sm) = initialize sm"
  "keyDone (sm_AUTH_PAE_FORCE_AUTH_Enter g sm) = keyDone sm"
  "keyRun (sm_AUTH_PAE_FORCE_AUTH_Enter g sm) = keyRun sm"
  "keyTxEnabled (sm_AUTH_PAE_FORCE_AUTH_Enter g sm) = keyTxEnabled sm"
  "portControl (sm_AUTH_PAE_FORCE_AUTH_Enter g sm) = portControl sm"
  "portValid (sm_AUTH_PAE_FORCE_AUTH_Enter g sm) = portValid sm"
  "reAuthenticate (sm_AUTH_PAE_FORCE_AUTH_Enter g sm) = reAuthenticate sm"
  "auth_pae_state (sm_AUTH_PAE_FORCE_AUTH_Enter g sm) = AUTH_PAE_FORCE_AUTH"
  "eapolLogoff (sm_AUTH_PAE_FORCE_AUTH_Enter g sm) = eapolLogoff sm"
  "eapolStart (sm_AUTH_PAE_FORCE_AUTH_Enter g sm) = False"
  "portMode (sm_AUTH_PAE_FORCE_AUTH_Enter g sm) = ForceAuthorized"
  "reAuthCount (sm_AUTH_PAE_FORCE_AUTH_Enter g sm) = reAuthCount sm"
  "quietPeriod (sm_AUTH_PAE_FORCE_AUTH_Enter g sm) = quietPeriod sm"
  "reAuthMax (sm_AUTH_PAE_FORCE_AUTH_Enter g sm) = reAuthMax sm"
  "be_auth_state (sm_AUTH_PAE_FORCE_AUTH_Enter g sm) = be_auth_state sm"
  "serverTimeout (sm_AUTH_PAE_FORCE_AUTH_Enter g sm) = serverTimeout sm"
  "reauth_timer_state (sm_AUTH_PAE_FORCE_AUTH_Enter g sm) = reauth_timer_state sm"
  "reAuthPeriod (sm_AUTH_PAE_FORCE_AUTH_Enter g sm) = reAuthPeriod sm"
  "reAuthEnabled (sm_AUTH_PAE_FORCE_AUTH_Enter g sm) = reAuthEnabled sm"
  "auth_key_tx_state (sm_AUTH_PAE_FORCE_AUTH_Enter g sm) = auth_key_tx_state sm"
  "key_rx_state (sm_AUTH_PAE_FORCE_AUTH_Enter g sm) = key_rx_state sm"
  "rxKey (sm_AUTH_PAE_FORCE_AUTH_Enter g sm) = rxKey sm"
  "ctrl_dir_state (sm_AUTH_PAE_FORCE_AUTH_Enter g sm) = ctrl_dir_state sm"
  "operEdge (sm_AUTH_PAE_FORCE_AUTH_Enter g sm) = operEdge sm"
  "flags (sm_AUTH_PAE_FORCE_AUTH_Enter g sm) = flags sm"
  "eap_if (sm_AUTH_PAE_FORCE_AUTH_Enter g sm) = eap_if sm"
  "initializing (sm_AUTH_PAE_FORCE_AUTH_Enter g sm) = initializing sm"
  "outputs (sm_AUTH_PAE_FORCE_AUTH_Enter g sm) = outputs sm @ [SetPort True, EapolSend (canned_eap True sm)]"
  by (simp_all add: sm_AUTH_PAE_FORCE_AUTH_Enter_def entry_defs tx_defs)

lemma AUTH_PAE_FORCE_UNAUTH_frame [frame_simps]:
  "aWhile (sm_AUTH_PAE_FORCE_UNAUTH_Enter g sm) = aWhile sm"
  "quietWhile (sm_AUTH_PAE_FORCE_UNAUTH_Enter g sm) = quietWhile sm"
  "reAuthWhen (sm_AUTH_PAE_FORCE_UNAUTH_Enter g sm) = reAuthWhen sm"
  "authAbort (sm_AUTH_PAE_FORCE_UNAUTH_Enter g sm) = authAbort sm"
  "authFail (sm_AUTH_PAE_FORCE_UNAUTH_Enter g sm) = authFail sm"
  "authPortStatus (sm_AUTH_PAE_FORCE_UNAUTH_Enter g sm) = Unauthorized"
  "authStart (sm_AUTH_PAE_FORCE_UNAUTH_Enter g sm) = authStart sm"
  "authTimeout (sm_AUTH_PAE_FORCE_UNAUTH_Enter g sm) = authTimeout sm"
  "authSuccess (sm_AUTH_PAE_FORCE_UNAUTH_Enter g sm) = authSuccess sm"
  "eapolEap (sm_AUTH_PAE_FORCE_UNAUTH_Enter g sm) = eapolEap sm"
  "initialize (sm_AUTH_PAE_FORCE_UNAUTH_Enter g sm) = initialize sm"
  "keyDone (sm_AUTH_PAE_FORCE_UNAUTH_Enter g sm) = keyDone sm"
  "keyRun (sm_AUTH_PAE_FORCE_UNAUTH_Enter g sm) = keyRun sm"
  "keyTxEnabled (sm_AUTH_PAE_FORCE_UNAUTH_Enter g sm) = keyTxEnabled sm"
  "portControl (sm_AUTH_PAE_FORCE_UNAUTH_Enter g sm) = portControl sm"
  "portValid (sm_AUTH_PAE_FORCE_UNAUTH_Enter g sm) = portValid sm"
  "reAuthenticate (sm_AUTH_PAE_FORCE_UNAUTH_Enter g sm) = reAuthenticate sm"
  "auth_pae_state (sm_AUTH_PAE_FORCE_UNAUTH_Enter g sm) = AUTH_PAE_FORCE_UNAUTH"
  "eapolLogoff (sm_AUTH_PAE_FORCE_UNAUTH_Enter g sm) = eapolLogoff sm"
  "eapolStart (sm_AUTH_PAE_FORCE_UNAUTH_Enter g sm) = False"
  "portMode (sm_AUTH_PAE_FORCE_UNAUTH_Enter g sm) = ForceUnauthorized"
  "reAuthCount (sm_AUTH_PAE_FORCE_UNAUTH_Enter g sm) = reAuthCount sm"
  "quietPeriod (sm_AUTH_PAE_FORCE_UNAUTH_Enter g sm) = quietPeriod sm"
  "reAuthMax (sm_AUTH_PAE_FORCE_UNAUTH_Enter g sm) = reAuthMax sm"
  "be_auth_state (sm_AUTH_PAE_FORCE_UNAUTH_Enter g sm) = be_auth_state sm"
  "serverTimeout (sm_AUTH_PAE_FORCE_UNAUTH_Enter g sm) = serverTimeout sm"
  "reauth_timer_state (sm_AUTH_PAE_FORCE_UNAUTH_Enter g sm) = reauth_timer_state sm"
  "reAuthPeriod (sm_AUTH_PAE_FORCE_UNAUTH_Enter g sm) = reAuthPeriod sm"
  "reAuthEnabled (sm_AUTH_PAE_FORCE_UNAUTH_Enter g sm) = reAuthEnabled sm"
  "auth_key_tx_state (sm_AUTH_PAE_FORCE_UNAUTH_Enter g sm) = auth_key_tx_state sm"
  "key_rx_state (sm_AUTH_PAE_FORCE_UNAUTH_Enter g sm) = key_rx_state sm"
  "rxKey (sm_AUTH_PAE_FORCE_UNAUTH_Enter g sm) = rxKey sm"
  "ctrl_dir_state (sm_AUTH_PAE_FORCE_UNAUTH_Enter g sm) = ctrl_dir_state sm"
  "operEdge (sm_AUTH_PAE_FORCE_UNAUTH_Enter g sm) = operEdge sm"
  "flags (sm_AUTH_PAE_FORCE_UNAUTH_Enter g sm) = flags sm"
  "eap_if (sm_AUTH_PAE_FORCE_UNAUTH_Enter g sm) = eap_if sm"
  "initializing (sm_AUTH_PAE_FORCE_UNAUTH_Enter g sm) = initializing sm"
  "outputs (sm_AUTH_PAE_FORCE_UNAUTH_Enter g sm) = outputs sm @ [SetPort False, EapolSend (canned_eap False sm)]"
  by (simp_all add: sm_AUTH_PAE_FORCE_UNAUTH_Enter_def entry_defs tx_defs)

lemma BE_AUTH_INITIALIZE_frame [frame_simps]:
  "aWhile (sm_BE_AUTH_INITIALIZE_Enter g sm) = aWhile sm"
  "quietWhile (sm_BE_AUTH_INITIALIZE_Enter g sm) = quietWhile sm"
  "reAuthWhen (sm_BE_AUTH_INITIALIZE_Enter g sm) = reAuthWhen sm"
  "authAbort (sm_BE_AUTH_INITIALIZE_Enter g sm) = False"
  "authFail (sm_BE_AUTH_INITIALIZE_Enter g sm) = authFail sm"
  "authPortStatus (sm_BE_AUTH_INITIALIZE_Enter g sm) = authPortStatus sm"
  "authStart (sm_BE_AUTH_INITIALIZE_Enter g sm) = authStart sm"
  "authTimeout (sm_BE_AUTH_INITIALIZE_Enter g sm) = authTimeout sm"
  "authSuccess (sm_BE_AUTH_INITIALIZE_Enter g sm) = authSuccess sm"
  "eapolEap (sm_BE_AUTH_INITIALIZE_Enter g sm) = eapolEap sm"
  "initialize (sm_BE_AUTH_INITIALIZE_Enter g sm) = initialize sm"
  "keyDone (sm_BE_AUTH_INITIALIZE_Enter g sm) = keyDone sm"
  "keyRun (sm_BE_AUTH_INITIALIZE_Enter g sm) = keyRun sm"
  "keyTxEnabled (sm_BE_AUTH_INITIALIZE_Enter g sm) = keyTxEnabled sm"
  "portControl (sm_BE_AUTH_INITIALIZE_Enter g sm) = portControl sm"
  "portValid (sm_BE_AUTH_INITIALIZE_Enter g sm) = portValid sm"
  "reAuthenticate (sm_BE_AUTH_INITIALIZE_Enter g sm) = reAuthenticate sm"
  "auth_pae_state (sm_BE_AUTH_INITIALIZE_Enter g sm) = auth_pae_state sm"
  "eapolLogoff (sm_BE_AUTH_INITIALIZE_Enter g sm) = eapolLogoff sm"
  "eapolStart (sm_BE_AUTH_INITIALIZE_Enter g sm) = eapolStart sm"
  "portMode (sm_BE_AUTH_INITIALIZE_Enter g sm) = portMode sm"
  "reAuthCount (sm_BE_AUTH_INITIALIZE_Enter g sm) = reAuthCount sm"
  "quietPeriod (sm_BE_AUTH_INITIALIZE_Enter g sm) = quietPeriod sm"
  "reAuthMax (sm_BE_AUTH_INITIALIZE_Enter g sm) = reAuthMax sm"
  "be_auth_state (sm_BE_AUTH_INITIALIZE_Enter g sm) = BE_AUTH_INITIALIZE"
  "serverTimeout (sm_BE_AUTH_INITIALIZE_Enter g sm) = serverTimeout sm"
  "reauth_timer_state (sm_BE_AUTH_INITIALIZE_Enter g sm) = reauth_timer_state sm"
  "reAuthPeriod (sm_BE_AUTH_INITIALIZE_Enter g sm) = reAuthPeriod sm"
  "reAuthEnabled (sm_BE_AUTH_INITIALIZE_Enter g sm) = reAuthEnabled sm"
  "auth_key_tx_state (sm_BE_AUTH_INITIALIZE_Enter g sm) = auth_key_tx_state sm"
  "key_rx_state (sm_BE_AUTH_INITIALIZE_Enter g sm) = key_rx_state sm"
  "rxKey (sm_BE_AUTH_INITIALIZE_Enter g sm) = rxKey sm"
  "ctrl_dir_state (sm_BE_AUTH_INITIALIZE_Enter g sm) = ctrl_dir_state sm"
  "operEdge (sm_BE_AUTH_INITIALIZE_Enter g sm) = operEdge sm"
  "flags (sm_BE_AUTH_INITIALIZE_Enter g sm) = flags sm"
  "eap_if (sm_BE_AUTH_INITIALIZE_Enter g sm) = (eap_if sm)\<lparr>eapNoReq := False\<rparr>"
  "initializing (sm_BE_AUTH_INITIALIZE_Enter g sm) = initializing sm"
  "outputs (sm_BE_AUTH_INITIALIZE_Enter g sm) = outputs sm @ [AbortAuth]"
  by (simp_all add: sm_BE_AUTH_INITIALIZE_Enter_def entry_defs tx_defs)

lemma BE_AUTH_REQUEST_frame [frame_simps]:
  "aWhile (sm_BE_AUTH_REQUEST_Enter g sm) = aWhile sm"
  "quietWhile (sm_BE_AUTH_REQUEST_Enter g sm) = quietWhile sm"
  "reAuthWhen (sm_BE_AUTH_REQUEST_Enter g sm) = reAuthWhen sm"
  "authAbort (sm_BE_AUTH_REQUEST_Enter g sm) = authAbort sm"
  "authFail (sm_BE_AUTH_REQUEST_Enter g sm) = authFail sm"
  "authPortStatus (sm_BE_AUTH_REQUEST_Enter g sm) = authPortStatus sm"
  "authStart (sm_BE_AUTH_REQUEST_Enter g sm) = authStart sm"
  "authTimeout (sm_BE_AUTH_REQUEST_Enter g sm) = authTimeout sm"
  "authSuccess (sm_BE_AUTH_REQUEST_Enter g sm) = authSuccess sm"
  "eapolEap (sm_BE_AUTH_REQUEST_Enter g sm) = False"
  "initialize (sm_BE_AUTH_REQUEST_Enter g sm) = initialize sm"
  "keyDone (sm_BE_AUTH_REQUEST_Enter g sm) = keyDone sm"
  "keyRun (sm_BE_AUTH_REQUEST_Enter g sm) = keyRun sm"
  "keyTxEnabled (sm_BE_AUTH_REQUEST_Enter g sm) = keyTxEnabled sm"
  "portControl (sm_BE_AUTH_REQUEST_Enter g sm) = portControl sm"
  "portValid (sm_BE_AUTH_REQUEST_Enter g sm) = portValid sm"
  "reAuthenticate (sm_BE_AUTH_REQUEST_Enter g sm) = reAuthenticate sm"
  "auth_pae_state (sm_BE_AUTH_REQUEST_Enter g sm) = auth_pae_state sm"
  "eapolLogoff (sm_BE_AUTH_REQUEST_Enter g sm) = eapolLogoff sm"
  "eapolStart (sm_BE_AUTH_REQUEST_Enter g sm) = eapolStart sm"
  "portMode (sm_BE_AUTH_REQUEST_Enter g sm) = portMode sm"
  "reAuthCount (sm_BE_AUTH_REQUEST_Enter g sm) = reAuthCount sm"
  "quietPeriod (sm_BE_AUTH_REQUEST_Enter g sm) = quietPeriod sm"
  "reAuthMax (sm_BE_AUTH_REQUEST_Enter g sm) = reAuthMax sm"
  "be_auth_state (sm_BE_AUTH_REQUEST_Enter g sm) = BE_AUTH_REQUEST"
  "serverTimeout (sm_BE_AUTH_REQUEST_Enter g sm) = serverTimeout sm"
  "reauth_timer_state (sm_BE_AUTH_REQUEST_Enter g sm) = reauth_timer_state sm"
  "reAuthPeriod (sm_BE_AUTH_REQUEST_Enter g sm) = reAuthPeriod sm"
  "reAuthEnabled (sm_BE_AUTH_REQUEST_Enter g sm) = reAuthEnabled sm"
  "auth_key_tx_state (sm_BE_AUTH_REQUEST_Enter g sm) = auth_key_tx_state sm"
  "key_rx_state (sm_BE_AUTH_REQUEST_Enter g sm) = key_rx_state sm"
  "rxKey (sm_BE_AUTH_REQUEST_Enter g sm) = rxKey sm"
  "ctrl_dir_state (sm_BE_AUTH_REQUEST_Enter g sm) = ctrl_dir_state sm"
  "operEdge (sm_BE_AUTH_REQUEST_Enter g sm) = operEdge sm"
  "flags (sm_BE_AUTH_REQUEST_Enter g sm) = flags sm"
  "eap_if (sm_BE_AUTH_REQUEST_Enter g sm) = (eap_if sm)\<lparr>eapReq := False\<rparr>"
  "initializing (sm_BE_AUTH_REQUEST_Enter g sm) = initializing sm"
  "outputs (sm_BE_AUTH_REQUEST_Enter g sm) = outputs sm @ tx_req_out sm"
  by (simp_all add: sm_BE_AUTH_REQUEST_Enter_def entry_defs tx_req_frame tx_req_out_def split: option.split)

lemma BE_AUTH_RESPONSE_frame [frame_simps]:
  "aWhile (sm_BE_AUTH_RESPONSE_Enter g sm) = sint (serverTimeout sm)"
  "quietWhile (sm_BE_AUTH_RESPONSE_Enter g sm) = quietWhile sm"
  "reAuthWhen (sm_BE_AUTH_RESPONSE_Enter g sm) = reAuthWhen sm"
  "authAbort (sm_BE_AUTH_RESPONSE_Enter g sm) = authAbort sm"
  "authFail (sm_BE_AUTH_RESPONSE_Enter g sm) = authFail sm"
  "authPortStatus (sm_BE_AUTH_RESPONSE_Enter g sm) = authPortStatus sm"
  "authStart (sm_BE_AUTH_RESPONSE_Enter g sm) = authStart sm"
  "authTimeout (sm_BE_AUTH_RESPONSE_Enter g sm) = False"
  "authSuccess (sm_BE_AUTH_RESPONSE_Enter g sm) = authSuccess sm"
  "eapolEap (sm_BE_AUTH_RESPONSE_Enter g sm) = False"
  "initialize (sm_BE_AUTH_RESPONSE_Enter g sm) = initialize sm"
  "keyDone (sm_BE_AUTH_RESPONSE_Enter g sm) = keyDone sm"
  "keyRun (sm_BE_AUTH_RESPONSE_Enter g sm) = keyRun sm"
  "keyTxEnabled (sm_BE_AUTH_RESPONSE_Enter g sm) = keyTxEnabled sm"
  "portControl (sm_BE_AUTH_RESPONSE_Enter g sm) = portControl sm"
  "portValid (sm_BE_AUTH_RESPONSE_Enter g sm) = portValid sm"
  "reAuthenticate (sm_BE_AUTH_RESPONSE_Enter g sm) = reAuthenticate sm"
  "auth_pae_state (sm_BE_AUTH_RESPONSE_Enter g sm) = auth_pae_state sm"
  "eapolLogoff (sm_BE_AUTH_RESPONSE_Enter g sm) = eapolLogoff sm"
  "eapolStart (sm_BE_AUTH_RESPONSE_Enter g sm) = eapolStart sm"
  "portMode (sm_BE_AUTH_RESPONSE_Enter g sm) = portMode sm"
  "reAuthCount (sm_BE_AUTH_RESPONSE_Enter g sm) = reAuthCount sm"
  "quietPeriod (sm_BE_AUTH_RESPONSE_Enter g sm) = quietPeriod sm"
  "reAuthMax (sm_BE_AUTH_RESPONSE_Enter g sm) = reAuthMax sm"
  "be_auth_state (sm_BE_AUTH_RESPONSE_Enter g sm) = BE_AUTH_RESPONSE"
  "serverTimeout (sm_BE_AUTH_RESPONSE_Enter g sm) = serverTimeout sm"
  "reauth_timer_state (sm_BE_AUTH_RESPONSE_Enter g sm) = reauth_timer_state sm"
  "reAuthPeriod (sm_BE_AUTH_RESPONSE_Enter g sm) = reAuthPeriod sm"
  "reAuthEnabled (sm_BE_AUTH_RESPONSE_Enter g sm) = reAuthEnabled sm"
  "auth_key_tx_state (sm_BE_AUTH_RESPONSE_Enter g sm) = auth_key_tx_state sm"
  "key_rx_state (sm_BE_AUTH_RESPONSE_Enter g sm) = key_rx_state sm"
  "rxKey (sm_BE_AUTH_RESPONSE_Enter g sm) = rxKey sm"
  "ctrl_dir_state (sm_BE_AUTH_RESPONSE_Enter g sm) = ctrl_dir_state sm"
  "operEdge (sm_BE_AUTH_RESPONSE_Enter g sm) = operEdge sm"
  "flags (sm_BE_AUTH_RESPONSE_Enter g sm) = flags sm"
  "eap_if (sm_BE_AUTH_RESPONSE_Enter g sm) = (eap_if sm)\<lparr>eapNoReq := False, eapResp := True\<rparr>"
  "initializing (sm_BE_AUTH_RESPONSE_Enter g sm) = initializing sm"
  "outputs (sm_BE_AUTH_RESPONSE_Enter g sm) = outputs sm"
  by (simp_all add: sm_BE_AUTH_RESPONSE_Enter_def entry_defs tx_defs)

lemma BE_AUTH_SUCCESS_frame [frame_simps]:
  "aWhile (sm_BE_AUTH_SUCCESS_Enter g sm) = aWhile sm"
  "quietWhile (sm_BE_AUTH_SUCCESS_Enter g sm) = quietWhile sm"
  "reAuthWhen (sm_BE_AUTH_SUCCESS_Enter g sm) = reAuthWhen sm"
  "authAbort (sm_BE_AUTH_SUCCESS_Enter g sm) = authAbort sm"
  "authFail (sm_BE_AUTH_SUCCESS_Enter g sm) = authFail sm"
  "authPortStatus (sm_BE_AUTH_SUCCESS_Enter g sm) = authPortStatus sm"
  "authStart (sm_BE_AUTH_SUCCESS_Enter g sm) = authStart sm"
  "authTimeout (sm_BE_AUTH_SUCCESS_Enter g sm) = authTimeout sm"
  "authSuccess (sm_BE_AUTH_SUCCESS_Enter g sm) = True"
  "eapolEap (sm_BE_AUTH_SUCCESS_Enter g sm) = eapolEap sm"
  "initialize (sm_BE_AUTH_SUCCESS_Enter g sm) = initialize sm"
  "keyDone (sm_BE_AUTH_SUCCESS_Enter g sm) = keyDone sm"
  "keyRun (sm_BE_AUTH_SUCCESS_Enter g sm) = True"
  "keyTxEnabled (sm_BE_AUTH_SUCCESS_Enter g sm) = keyTxEnabled sm"
  "portControl (sm_BE_AUTH_SUCCESS_Enter g sm) = portControl sm"
  "portValid (sm_BE_AUTH_SUCCESS_Enter g sm) = portValid sm"
  "reAuthenticate (sm_BE_AUTH_SUCCESS_Enter g sm) = reAuthenticate sm"
  "auth_pae_state (sm_BE_AUTH_SUCCESS_Enter g sm) = auth_pae_state sm"
  "eapolLogoff (sm_BE_AUTH_SUCCESS_Enter g sm) = eapolLogoff sm"
  "eapolStart (sm_BE_AUTH_SUCCESS_Enter g sm) = eapolStart sm"
  "portMode (sm_BE_AUTH_SUCCESS_Enter g sm) = portMode sm"
  "reAuthCount (sm_BE_AUTH_SUCCESS_Enter g sm) = reAuthCount sm"
  "quietPeriod (sm_BE_AUTH_SUCCESS_Enter g sm) = quietPeriod sm"
  "reAuthMax (sm_BE_AUTH_SUCCESS_Enter g sm) = reAuthMax sm"
  "be_auth_state (sm_BE_AUTH_SUCCESS_Enter g sm) = BE_AUTH_SUCCESS"
  "serverTimeout (sm_BE_AUTH_SUCCESS_Enter g sm) = serverTimeout sm"
  "reauth_timer_state (sm_BE_AUTH_SUCCESS_Enter g sm) = reauth_timer_state sm"
  "reAuthPeriod (sm_BE_AUTH_SUCCESS_Enter g sm) = reAuthPeriod sm"
  "reAuthEnabled (sm_BE_AUTH_SUCCESS_Enter g sm) = reAuthEnabled sm"
  "auth_key_tx_state (sm_BE_AUTH_SUCCESS_Enter g sm) = auth_key_tx_state sm"
  "key_rx_state (sm_BE_AUTH_SUCCESS_Enter g sm) = key_rx_state sm"
  "rxKey (sm_BE_AUTH_SUCCESS_Enter g sm) = rxKey sm"
  "ctrl_dir_state (sm_BE_AUTH_SUCCESS_Enter g sm) = ctrl_dir_state sm"
  "operEdge (sm_BE_AUTH_SUCCESS_Enter g sm) = operEdge sm"
  "flags (sm_BE_AUTH_SUCCESS_Enter g sm) = flags sm"
  "eap_if (sm_BE_AUTH_SUCCESS_Enter g sm) = eap_if sm"
  "initializing (sm_BE_AUTH_SUCCESS_Enter g sm) = initializing sm"
  "outputs (sm_BE_AUTH_SUCCESS_Enter g sm) = outputs sm @ tx_req_out sm"
  by (simp_all add: sm_BE_AUTH_SUCCESS_Enter_def entry_defs tx_req_frame tx_req_out_def split: option.split)

lemma BE_AUTH_FAIL_frame [frame_simps]:
  "aWhile (sm_BE_AUTH_FAIL_Enter g sm) = aWhile sm"
  "quietWhile (sm_BE_AUTH_FAIL_Enter g sm) = quietWhile sm"
  "reAuthWhen (sm_BE_AUTH_FAIL_Enter g sm) = reAuthWhen sm"
  "authAbort (sm_BE_AUTH_FAIL_Enter g sm) = authAbort sm"
  "authFail (sm_BE_AUTH_FAIL_Enter g sm) = True"
  "authPortStatus (sm_BE_AUTH_FAIL_Enter g sm) = authPortStatus sm"
  "authStart (sm_BE_AUTH_FAIL_Enter g sm) = authStart sm"
  "authTimeout (sm_BE_AUTH_FAIL_Enter g sm) = authTimeout sm"
  "authSuccess (sm_BE_AUTH_FAIL_Enter g sm) = authSuccess sm"
  "eapolEap (sm_BE_AUTH_FAIL_Enter g sm) = eapolEap sm"
  "initialize (sm_BE_AUTH_FAIL_Enter g sm) = initialize sm"
  "keyDone (sm_BE_AUTH_FAIL_Enter g sm) = keyDone sm"
  "keyRun (sm_BE_AUTH_FAIL_Enter g sm) = keyRun sm"
  "keyTxEnabled (sm_BE_AUTH_FAIL_Enter g sm) = keyTxEnabled sm"
  "portControl (sm_BE_AUTH_FAIL_Enter g sm) = portControl sm"
  "portValid (sm_BE_AUTH_FAIL_Enter g sm) = portValid sm"
  "reAuthenticate (sm_BE_AUTH_FAIL_Enter g sm) = reAuthenticate sm"
  "auth_pae_state (sm_BE_AUTH_FAIL_Enter g sm) = auth_pae_state sm"
  "eapolLogoff (sm_BE_AUTH_FAIL_Enter g sm) = eapolLogoff sm"
  "eapolStart (sm_BE_AUTH_FAIL_Enter g sm) = eapolStart sm"
  "portMode (sm_BE_AUTH_FAIL_Enter g sm) = portMode sm"
  "reAuthCount (sm_BE_AUTH_FAIL_Enter g sm) = reAuthCount sm"
  "quietPeriod (sm_BE_AUTH_FAIL_Enter g sm) = quietPeriod sm"
  "reAuthMax (sm_BE_AUTH_FAIL_Enter g sm) = reAuthMax sm"
  "be_auth_state (sm_BE_AUTH_FAIL_Enter g sm) = BE_AUTH_FAIL"
  "serverTimeout (sm_BE_AUTH_FAIL_Enter g sm) = serverTimeout sm"
  "reauth_timer_state (sm_BE_AUTH_FAIL_Enter g sm) = reauth_timer_state sm"
  "reAuthPeriod (sm_BE_AUTH_FAIL_Enter g sm) = reAuthPeriod sm"
  "reAuthEnabled (sm_BE_AUTH_FAIL_Enter g sm) = reAuthEnabled sm"
  "auth_key_tx_state (sm_BE_AUTH_FAIL_Enter g sm) = auth_key_tx_state sm"
  "key_rx_state (sm_BE_AUTH_FAIL_Enter g sm) = key_rx_state sm"
  "rxKey (sm_BE_AUTH_FAIL_Enter g sm) = rxKey sm"
  "ctrl_dir_state (sm_BE_AUTH_FAIL_Enter g sm) = ctrl_dir_state sm"
  "operEdge (sm_BE_AUTH_FAIL_Enter g sm) = operEdge sm"
  "flags (sm_BE_AUTH_FAIL_Enter g sm) = flags sm" "eap_if (sm_BE_AUTH_FAIL_Enter g sm) = eap_if sm"
  "initializing (sm_BE_AUTH_FAIL_Enter g sm) = initializing sm"
  "outputs (sm_BE_AUTH_FAIL_Enter g sm) = outputs sm @ tx_req_out sm"
  by (simp_all add: sm_BE_AUTH_FAIL_Enter_def entry_defs tx_req_frame tx_req_out_def split: option.split)

lemma BE_AUTH_TIMEOUT_frame [frame_simps]:
  "aWhile (sm_BE_AUTH_TIMEOUT_Enter g sm) = aWhile sm"
  "quietWhile (sm_BE_AUTH_TIMEOUT_Enter g sm) = quietWhile sm"
  "reAuthWhen (sm_BE_AUTH_TIMEOUT_Enter g sm) = reAuthWhen sm"
  "authAbort (sm_BE_AUTH_TIMEOUT_Enter g sm) = authAbort sm"
  "authFail (sm_BE_AUTH_TIMEOUT_Enter g sm) = authFail sm"
  "authPortStatus (sm_BE_AUTH_TIMEOUT_Enter g sm) = authPortStatus sm"
  "authStart (sm_BE_AUTH_TIMEOUT_Enter g sm) = authStart sm"
  "authTimeout (sm_BE_AUTH_TIMEOUT_Enter g sm) = True"
  "authSuccess (sm_BE_AUTH_TIMEOUT_Enter g sm) = authSuccess sm"
  "eapolEap (sm_BE_AUTH_TIMEOUT_Enter g sm) = eapolEap sm"
  "initialize (sm_BE_AUTH_TIMEOUT_Enter g sm) = initialize sm"
  "keyDone (sm_BE_AUTH_TIMEOUT_Enter g sm) = keyDone sm"
  "keyRun (sm_BE_AUTH_TIMEOUT_Enter g sm) = keyRun sm"
  "keyTxEnabled (sm_BE_AUTH_TIMEOUT_Enter g sm) = keyTxEnabled sm"
  "portControl (sm_BE_AUTH_TIMEOUT_Enter g sm) = portControl sm"
  "portValid (sm_BE_AUTH_TIMEOUT_Enter g sm) = portValid sm"
  "reAuthenticate (sm_BE_AUTH_TIMEOUT_Enter g sm) = reAuthenticate sm"
  "auth_pae_state (sm_BE_AUTH_TIMEOUT_Enter g sm) = auth_pae_state sm"
  "eapolLogoff (sm_BE_AUTH_TIMEOUT_Enter g sm) = eapolLogoff sm"
  "eapolStart (sm_BE_AUTH_TIMEOUT_Enter g sm) = eapolStart sm"
  "portMode (sm_BE_AUTH_TIMEOUT_Enter g sm) = portMode sm"
  "reAuthCount (sm_BE_AUTH_TIMEOUT_Enter g sm) = reAuthCount sm"
  "quietPeriod (sm_BE_AUTH_TIMEOUT_Enter g sm) = quietPeriod sm"
  "reAuthMax (sm_BE_AUTH_TIMEOUT_Enter g sm) = reAuthMax sm"
  "be_auth_state (sm_BE_AUTH_TIMEOUT_Enter g sm) = BE_AUTH_TIMEOUT"
  "serverTimeout (sm_BE_AUTH_TIMEOUT_Enter g sm) = serverTimeout sm"
  "reauth_timer_state (sm_BE_AUTH_TIMEOUT_Enter g sm) = reauth_timer_state sm"
  "reAuthPeriod (sm_BE_AUTH_TIMEOUT_Enter g sm) = reAuthPeriod sm"
  "reAuthEnabled (sm_BE_AUTH_TIMEOUT_Enter g sm) = reAuthEnabled sm"
  "auth_key_tx_state (sm_BE_AUTH_TIMEOUT_Enter g sm) = auth_key_tx_state sm"
  "key_rx_state (sm_BE_AUTH_TIMEOUT_Enter g sm) = key_rx_state sm"
  "rxKey (sm_BE_AUTH_TIMEOUT_Enter g sm) = rxKey sm"
  "ctrl_dir_state (sm_BE_AUTH_TIMEOUT_Enter g sm) = ctrl_dir_state sm"
  "operEdge (sm_BE_AUTH_TIMEOUT_Enter g sm) = operEdge sm"
  "flags (sm_BE_AUTH_TIMEOUT_Enter g sm) = flags sm"
  "eap_if (sm_BE_AUTH_TIMEOUT_Enter g sm) = eap_if sm"
  "initializing (sm_BE_AUTH_TIMEOUT_Enter g sm) = initializing sm"
  "outputs (sm_BE_AUTH_TIMEOUT_Enter g sm) = outputs sm"
  by (simp_all add: sm_BE_AUTH_TIMEOUT_Enter_def entry_defs tx_defs)

lemma BE_AUTH_IDLE_frame [frame_simps]:
  "aWhile (sm_BE_AUTH_IDLE_Enter g sm) = aWhile sm"
  "quietWhile (sm_BE_AUTH_IDLE_Enter g sm) = quietWhile sm"
  "reAuthWhen (sm_BE_AUTH_IDLE_Enter g sm) = reAuthWhen sm"
  "authAbort (sm_BE_AUTH_IDLE_Enter g sm) = authAbort sm"
  "authFail (sm_BE_AUTH_IDLE_Enter g sm) = authFail sm"
  "authPortStatus (sm_BE_AUTH_IDLE_Enter g sm) = authPortStatus sm"
  "authStart (sm_BE_AUTH_IDLE_Enter g sm) = False"
  "authTimeout (sm_BE_AUTH_IDLE_Enter g sm) = authTimeout sm"
  "authSuccess (sm_BE_AUTH_IDLE_Enter g sm) = authSuccess sm"
  "eapolEap (sm_BE_AUTH_IDLE_Enter g sm) = eapolEap sm"
  "initialize (sm_BE_AUTH_IDLE_Enter g sm) = initialize sm"
  "keyDone (sm_BE_AUTH_IDLE_Enter g sm) = keyDone sm"
  "keyRun (sm_BE_AUTH_IDLE_Enter g sm) = keyRun sm"
  "keyTxEnabled (sm_BE_AUTH_IDLE_Enter g sm) = keyTxEnabled sm"
  "portControl (sm_BE_AUTH_IDLE_Enter g sm) = portControl sm"
  "portValid (sm_BE_AUTH_IDLE_Enter g sm) = portValid sm"
  "reAuthenticate (sm_BE_AUTH_IDLE_Enter g sm) = reAuthenticate sm"
  "auth_pae_state (sm_BE_AUTH_IDLE_Enter g sm) = auth_pae_state sm"
  "eapolLogoff (sm_BE_AUTH_IDLE_Enter g sm) = eapolLogoff sm"
  "eapolStart (sm_BE_AUTH_IDLE_Enter g sm) = eapolStart sm"
  "portMode (sm_BE_AUTH_IDLE_Enter g sm) = portMode sm"
  "reAuthCount (sm_BE_AUTH_IDLE_Enter g sm) = reAuthCount sm"
  "quietPeriod (sm_BE_AUTH_IDLE_Enter g sm) = quietPeriod sm"
  "reAuthMax (sm_BE_AUTH_IDLE_Enter g sm) = reAuthMax sm"
  "be_auth_state (sm_BE_AUTH_IDLE_Enter g sm) = BE_AUTH_IDLE"
  "serverTimeout (sm_BE_AUTH_IDLE_Enter g sm) = serverTimeout sm"
  "reauth_timer_state (sm_BE_AUTH_IDLE_Enter g sm) = reauth_timer_state sm"
  "reAuthPeriod (sm_BE_AUTH_IDLE_Enter g sm) = reAuthPeriod sm"
  "reAuthEnabled (sm_BE_AUTH_IDLE_Enter g sm) = reAuthEnabled sm"
  "auth_key_tx_state (sm_BE_AUTH_IDLE_Enter g sm) = auth_key_tx_state sm"
  "key_rx_state (sm_BE_AUTH_IDLE_Enter g sm) = key_rx_state sm"
  "rxKey (sm_BE_AUTH_IDLE_Enter g sm) = rxKey sm"
  "ctrl_dir_state (sm_BE_AUTH_IDLE_Enter g sm) = ctrl_dir_state sm"
  "operEdge (sm_BE_AUTH_IDLE_Enter g sm) = operEdge sm"
  "flags (sm_BE_AUTH_IDLE_Enter g sm) = flags sm" "eap_if (sm_BE_AUTH_IDLE_Enter g sm) = eap_if sm"
  "initializing (sm_BE_AUTH_IDLE_Enter g sm) = initializing sm"
  "outputs (sm_BE_AUTH_IDLE_Enter g sm) = outputs sm"
  by (simp_all add: sm_BE_AUTH_IDLE_Enter_def entry_defs tx_defs)

lemma BE_AUTH_IGNORE_frame [frame_simps]:
  "aWhile (sm_BE_AUTH_IGNORE_Enter g sm) = aWhile sm"
  "quietWhile (sm_BE_AUTH_IGNORE_Enter g sm) = quietWhile sm"
  "reAuthWhen (sm_BE_AUTH_IGNORE_Enter g sm) = reAuthWhen sm"
  "authAbort (sm_BE_AUTH_IGNORE_Enter g sm) = authAbort sm"
  "authFail (sm_BE_AUTH_IGNORE_Enter g sm) = authFail sm"
  "authPortStatus (sm_BE_AUTH_IGNORE_Enter g sm) = authPortStatus sm"
  "authStart (sm_BE_AUTH_IGNORE_Enter g sm) = authStart sm"
  "authTimeout (sm_BE_AUTH_IGNORE_Enter g sm) = authTimeout sm"
  "authSuccess (sm_BE_AUTH_IGNORE_Enter g sm) = authSuccess sm"
  "eapolEap (sm_BE_AUTH_IGNORE_Enter g sm) = eapolEap sm"
  "initialize (sm_BE_AUTH_IGNORE_Enter g sm) = initialize sm"
  "keyDone (sm_BE_AUTH_IGNORE_Enter g sm) = keyDone sm"
  "keyRun (sm_BE_AUTH_IGNORE_Enter g sm) = keyRun sm"
  "keyTxEnabled (sm_BE_AUTH_IGNORE_Enter g sm) = keyTxEnabled sm"
  "portControl (sm_BE_AUTH_IGNORE_Enter g sm) = portControl sm"
  "portValid (sm_BE_AUTH_IGNORE_Enter g sm) = portValid sm"
  "reAuthenticate (sm_BE_AUTH_IGNORE_Enter g sm) = reAuthenticate sm"
  "auth_pae_state (sm_BE_AUTH_IGNORE_Enter g sm) = auth_pae_state sm"
  "eapolLogoff (sm_BE_AUTH_IGNORE_Enter g sm) = eapolLogoff sm"
  "eapolStart (sm_BE_AUTH_IGNORE_Enter g sm) = eapolStart sm"
  "portMode (sm_BE_AUTH_IGNORE_Enter g sm) = portMode sm"
  "reAuthCount (sm_BE_AUTH_IGNORE_Enter g sm) = reAuthCount sm"
  "quietPeriod (sm_BE_AUTH_IGNORE_Enter g sm) = quietPeriod sm"
  "reAuthMax (sm_BE_AUTH_IGNORE_Enter g sm) = reAuthMax sm"
  "be_auth_state (sm_BE_AUTH_IGNORE_Enter g sm) = BE_AUTH_IGNORE"
  "serverTimeout (sm_BE_AUTH_IGNORE_Enter g sm) = serverTimeout sm"
  "reauth_timer_state (sm_BE_AUTH_IGNORE_Enter g sm) = reauth_timer_state sm"
  "reAuthPeriod (sm_BE_AUTH_IGNORE_Enter g sm) = reAuthPeriod sm"
  "reAuthEnabled (sm_BE_AUTH_IGNORE_Enter g sm) = reAuthEnabled sm"
  "auth_key_tx_state (sm_BE_AUTH_IGNORE_Enter g sm) = auth_key_tx_state sm"
  "key_rx_state (sm_BE_AUTH_IGNORE_Enter g sm) = key_rx_state sm"
  "rxKey (sm_BE_AUTH_IGNORE_Enter g sm) = rxKey sm"
  "ctrl_dir_state (sm_BE_AUTH_IGNORE_Enter g sm) = ctrl_dir_state sm"
  "operEdge (sm_BE_AUTH_IGNORE_Enter g sm) = operEdge sm"
  "flags (sm_BE_AUTH_IGNORE_Enter g sm) = flags sm"
  "eap_if (sm_BE_AUTH_IGNORE_Enter g sm) = (eap_if sm)\<lparr>eapNoReq := False\<rparr>"
  "initializing (sm_BE_AUTH_IGNORE_Enter g sm) = initializing sm"
  "outputs (sm_BE_AUTH_IGNORE_Enter g sm) = outputs sm"
  by (simp_all add: sm_BE_AUTH_IGNORE_Enter_def entry_defs tx_defs)

lemma REAUTH_TIMER_INITIALIZE_frame [frame_simps]:
  "aWhile (sm_REAUTH_TIMER_INITIALIZE_Enter g sm) = aWhile sm"
  "quietWhile (sm_REAUTH_TIMER_INITIALIZE_Enter g sm) = quietWhile sm"
  "reAuthWhen (sm_REAUTH_TIMER_INITIALIZE_Enter g sm) = sint (reAuthPeriod sm)"
  "authAbort (sm_REAUTH_TIMER_INITIALIZE_Enter g sm) = authAbort sm"
  "authFail (sm_REAUTH_TIMER_INITIALIZE_Enter g sm) = authFail sm"
  "authPortStatus (sm_REAUTH_TIMER_INITIALIZE_Enter g sm) = authPortStatus sm"
  "authStart (sm_REAUTH_TIMER_INITIALIZE_Enter g sm) = authStart sm"
  "authTimeout (sm_REAUTH_TIMER_INITIALIZE_Enter g sm) = authTimeout sm"
  "authSuccess (sm_REAUTH_TIMER_INITIALIZE_Enter g sm) = authSuccess sm"
  "eapolEap (sm_REAUTH_TIMER_INITIALIZE_Enter g sm) = eapolEap sm"
  "initialize (sm_REAUTH_TIMER_INITIALIZE_Enter g sm) = initialize sm"
  "keyDone (sm_REAUTH_TIMER_INITIALIZE_Enter g sm) = keyDone sm"
  "keyRun (sm_REAUTH_TIMER_INITIALIZE_Enter g sm) = keyRun sm"
  "keyTxEnabled (sm_REAUTH_TIMER_INITIALIZE_Enter g sm) = keyTxEnabled sm"
  "portControl (sm_REAUTH_TIMER_INITIALIZE_Enter g sm) = portControl sm"
  "portValid (sm_REAUTH_TIMER_INITIALIZE_Enter g sm) = portValid sm"
  "reAuthenticate (sm_REAUTH_TIMER_INITIALIZE_Enter g sm) = reAuthenticate sm"
  "auth_pae_state (sm_REAUTH_TIMER_INITIALIZE_Enter g sm) = auth_pae_state sm"
  "eapolLogoff (sm_REAUTH_TIMER_INITIALIZE_Enter g sm) = eapolLogoff sm"
  "eapolStart (sm_REAUTH_TIMER_INITIALIZE_Enter g sm) = eapolStart sm"
  "portMode (sm_REAUTH_TIMER_INITIALIZE_Enter g sm) = portMode sm"
  "reAuthCount (sm_REAUTH_TIMER_INITIALIZE_Enter g sm) = reAuthCount sm"
  "quietPeriod (sm_REAUTH_TIMER_INITIALIZE_Enter g sm) = quietPeriod sm"
  "reAuthMax (sm_REAUTH_TIMER_INITIALIZE_Enter g sm) = reAuthMax sm"
  "be_auth_state (sm_REAUTH_TIMER_INITIALIZE_Enter g sm) = be_auth_state sm"
  "serverTimeout (sm_REAUTH_TIMER_INITIALIZE_Enter g sm) = serverTimeout sm"
  "reauth_timer_state (sm_REAUTH_TIMER_INITIALIZE_Enter g sm) = REAUTH_TIMER_INITIALIZE"
  "reAuthPeriod (sm_REAUTH_TIMER_INITIALIZE_Enter g sm) = reAuthPeriod sm"
  "reAuthEnabled (sm_REAUTH_TIMER_INITIALIZE_Enter g sm) = reAuthEnabled sm"
  "auth_key_tx_state (sm_REAUTH_TIMER_INITIALIZE_Enter g sm) = auth_key_tx_state sm"
  "key_rx_state (sm_REAUTH_TIMER_INITIALIZE_Enter g sm) = key_rx_state sm"
  "rxKey (sm_REAUTH_TIMER_INITIALIZE_Enter g sm) = rxKey sm"
  "ctrl_dir_state (sm_REAUTH_TIMER_INITIALIZE_Enter g sm) = ctrl_dir_state sm"
  "operEdge (sm_REAUTH_TIMER_INITIALIZE_Enter g sm) = operEdge sm"
  "flags (sm_REAUTH_TIMER_INITIALIZE_Enter g sm) = flags sm"
  "eap_if (sm_REAUTH_TIMER_INITIALIZE_Enter g sm) = eap_if sm"
  "initializing (sm_REAUTH_TIMER_INITIALIZE_Enter g sm) = initializing sm"
  "outputs (sm_REAUTH_TIMER_INITIALIZE_Enter g sm) = outputs sm"
  by (simp_all add: sm_REAUTH_TIMER_INITIALIZE_Enter_def entry_defs tx_defs)

lemma REAUTH_TIMER_REAUTHENTICATE_frame [frame_simps]:
  "aWhile (sm_REAUTH_TIMER_REAUTHENTICATE_Enter g sm) = aWhile sm"
  "quietWhile (sm_REAUTH_TIMER_REAUTHENTICATE_Enter g sm) = quietWhile sm"
  "reAuthWhen (sm_REAUTH_TIMER_REAUTHENTICATE_Enter g sm) = reAuthWhen sm"
  "authAbort (sm_REAUTH_TIMER_REAUTHENTICATE_Enter g sm) = authAbort sm"
  "authFail (sm_REAUTH_TIMER_REAUTHENTICATE_Enter g sm) = authFail sm"
  "authPortStatus (sm_REAUTH_TIMER_REAUTHENTICATE_Enter g sm) = authPortStatus sm"
  "authStart (sm_REAUTH_TIMER_REAUTHENTICATE_Enter g sm) = authStart sm"
  "authTimeout (sm_REAUTH_TIMER_REAUTHENTICATE_Enter g sm) = authTimeout sm"
  "authSuccess (sm_REAUTH_TIMER_REAUTHENTICATE_Enter g sm) = authSuccess sm"
  "eapolEap (sm_REAUTH_TIMER_REAUTHENTICATE_Enter g sm) = eapolEap sm"
  "initialize (sm_REAUTH_TIMER_REAUTHENTICATE_Enter g sm) = initialize sm"
  "keyDone (sm_REAUTH_TIMER_REAUTHENTICATE_Enter g sm) = keyDone sm"
  "keyRun (sm_REAUTH_TIMER_REAUTHENTICATE_Enter g sm) = keyRun sm"
  "keyTxEnabled (sm_REAUTH_TIMER_REAUTHENTICATE_Enter g sm) = keyTxEnabled sm"
  "portControl (sm_REAUTH_TIMER_REAUTHENTICATE_Enter g sm) = portControl sm"
  "portValid (sm_REAUTH_TIMER_REAUTHENTICATE_Enter g sm) = portValid sm"
  "reAuthenticate (sm_REAUTH_TIMER_REAUTHENTICATE_Enter g sm) = True"
  "auth_pae_state (sm_REAUTH_TIMER_REAUTHENTICATE_Enter g sm) = auth_pae_state sm"
  "eapolLogoff (sm_REAUTH_TIMER_REAUTHENTICATE_Enter g sm) = eapolLogoff sm"
  "eapolStart (sm_REAUTH_TIMER_REAUTHENTICATE_Enter g sm) = eapolStart sm"
  "portMode (sm_REAUTH_TIMER_REAUTHENTICATE_Enter g sm) = portMode sm"
  "reAuthCount (sm_REAUTH_TIMER_REAUTHENTICATE_Enter g sm) = reAuthCount sm"
  "quietPeriod (sm_REAUTH_TIMER_REAUTHENTICATE_Enter g sm) = quietPeriod sm"
  "reAuthMax (sm_REAUTH_TIMER_REAUTHENTICATE_Enter g sm) = reAuthMax sm"
  "be_auth_state (sm_REAUTH_TIMER_REAUTHENTICATE_Enter g sm) = be_auth_state sm"
  "serverTimeout (sm_REAUTH_TIMER_REAUTHENTICATE_Enter g sm) = serverTimeout sm"
  "reauth_timer_state (sm_REAUTH_TIMER_REAUTHENTICATE_Enter g sm) = REAUTH_TIMER_REAUTHENTICATE"
  "reAuthPeriod (sm_REAUTH_TIMER_REAUTHENTICATE_Enter g sm) = reAuthPeriod sm"
  "reAuthEnabled (sm_REAUTH_TIMER_REAUTHENTICATE_Enter g sm) = reAuthEnabled sm"
  "auth_key_tx_state (sm_REAUTH_TIMER_REAUTHENTICATE_Enter g sm) = auth_key_tx_state sm"
  "key_rx_state (sm_REAUTH_TIMER_REAUTHENTICATE_Enter g sm) = key_rx_state sm"
  "rxKey (sm_REAUTH_TIMER_REAUTHENTICATE_Enter g sm) = rxKey sm"
  "ctrl_dir_state (sm_REAUTH_TIMER_REAUTHENTICATE_Enter g sm) = ctrl_dir_state sm"
  "operEdge (sm_REAUTH_TIMER_REAUTHENTICATE_Enter g sm) = operEdge sm"
  "flags (sm_REAUTH_TIMER_REAUTHENTICATE_Enter g sm) = flags sm"
  "eap_if (sm_REAUTH_TIMER_REAUTHENTICATE_Enter g sm) = eap_if sm"
  "initializing (sm_REAUTH_TIMER_REAUTHENTICATE_Enter g sm) = initializing sm"
  "outputs (sm_REAUTH_TIMER_REAUTHENTICATE_Enter g sm) = outputs sm @ [EapolEvent EAPOL_AUTH_REAUTHENTICATE]"
  by (simp_all add: sm_REAUTH_TIMER_REAUTHENTICATE_Enter_def entry_defs tx_defs)

lemma AUTH_KEY_TX_NO_KEY_TRANSMIT_frame [frame_simps]:
  "aWhile (sm_AUTH_KEY_TX_NO_KEY_TRANSMIT_Enter g sm) = aWhile sm"
  "quietWhile (sm_AUTH_KEY_TX_NO_KEY_TRANSMIT_Enter g sm) = quietWhile sm"
  "reAuthWhen (sm_AUTH_KEY_TX_NO_KEY_TRANSMIT_Enter g sm) = reAuthWhen sm"
  "authAbort (sm_AUTH_KEY_TX_NO_KEY_TRANSMIT_Enter g sm) = authAbort sm"
  "authFail (sm_AUTH_KEY_TX_NO_KEY_TRANSMIT_Enter g sm) = authFail sm"
  "authPortStatus (sm_AUTH_KEY_TX_NO_KEY_TRANSMIT_Enter g sm) = authPortStatus sm"
  "authStart (sm_AUTH_KEY_TX_NO_KEY_TRANSMIT_Enter g sm) = authStart sm"
  "authTimeout (sm_AUTH_KEY_TX_NO_KEY_TRANSMIT_Enter g sm) = authTimeout sm"
  "authSuccess (sm_AUTH_KEY_TX_NO_KEY_TRANSMIT_Enter g sm) = authSuccess sm"
  "eapolEap (sm_AUTH_KEY_TX_NO_KEY_TRANSMIT_Enter g sm) = eapolEap sm"
  "initialize (sm_AUTH_KEY_TX_NO_KEY_TRANSMIT_Enter g sm) = initialize sm"
  "keyDone (sm_AUTH_KEY_TX_NO_KEY_TRANSMIT_Enter g sm) = keyDone sm"
  "keyRun (sm_AUTH_KEY_TX_NO_KEY_TRANSMIT_Enter g sm) = keyRun sm"
  "keyTxEnabled (sm_AUTH_KEY_TX_NO_KEY_TRANSMIT_Enter g sm) = keyTxEnabled sm"
  "portControl (sm_AUTH_KEY_TX_NO_KEY_TRANSMIT_Enter g sm) = portControl sm"
  "portValid (sm_AUTH_KEY_TX_NO_KEY_TRANSMIT_Enter g sm) = portValid sm"
  "reAuthenticate (sm_AUTH_KEY_TX_NO_KEY_TRANSMIT_Enter g sm) = reAuthenticate sm"
  "auth_pae_state (sm_AUTH_KEY_TX_NO_KEY_TRANSMIT_Enter g sm) = auth_pae_state sm"
  "eapolLogoff (sm_AUTH_KEY_TX_NO_KEY_TRANSMIT_Enter g sm) = eapolLogoff sm"
  "eapolStart (sm_AUTH_KEY_TX_NO_KEY_TRANSMIT_Enter g sm) = eapolStart sm"
  "portMode (sm_AUTH_KEY_TX_NO_KEY_TRANSMIT_Enter g sm) = portMode sm"
  "reAuthCount (sm_AUTH_KEY_TX_NO_KEY_TRANSMIT_Enter g sm) = reAuthCount sm"
  "quietPeriod (sm_AUTH_KEY_TX_NO_KEY_TRANSMIT_Enter g sm) = quietPeriod sm"
  "reAuthMax (sm_AUTH_KEY_TX_NO_KEY_TRANSMIT_Enter g sm) = reAuthMax sm"
  "be_auth_state (sm_AUTH_KEY_TX_NO_KEY_TRANSMIT_Enter g sm) = be_auth_state sm"
  "serverTimeout (sm_AUTH_KEY_TX_NO_KEY_TRANSMIT_Enter g sm) = serverTimeout sm"
  "reauth_timer_state (sm_AUTH_KEY_TX_NO_KEY_TRANSMIT_Enter g sm) = reauth_timer_state sm"
  "reAuthPeriod (sm_AUTH_KEY_TX_NO_KEY_TRANSMIT_Enter g sm) = reAuthPeriod sm"
  "reAuthEnabled (sm_AUTH_KEY_TX_NO_KEY_TRANSMIT_Enter g sm) = reAuthEnabled sm"
  "auth_key_tx_state (sm_AUTH_KEY_TX_NO_KEY_TRANSMIT_Enter g sm) = AUTH_KEY_TX_NO_KEY_TRANSMIT"
  "key_rx_state (sm_AUTH_KEY_TX_NO_KEY_TRANSMIT_Enter g sm) = key_rx_state sm"
  "rxKey (sm_AUTH_KEY_TX_NO_KEY_TRANSMIT_Enter g sm) = rxKey sm"
  "ctrl_dir_state (sm_AUTH_KEY_TX_NO_KEY_TRANSMIT_Enter g sm) = ctrl_dir_state sm"
  "operEdge (sm_AUTH_KEY_TX_NO_KEY_TRANSMIT_Enter g sm) = operEdge sm"
  "flags (sm_AUTH_KEY_TX_NO_KEY_TRANSMIT_Enter g sm) = flags sm"
  "eap_if (sm_AUTH_KEY_TX_NO_KEY_TRANSMIT_Enter g sm) = eap_if sm"
  "initializing (sm_AUTH_KEY_TX_NO_KEY_TRANSMIT_Enter g sm) = initializing sm"
  "outputs (sm_AUTH_KEY_TX_NO_KEY_TRANSMIT_Enter g sm) = outputs sm"
  by (simp_all add: sm_AUTH_KEY_TX_NO_KEY_TRANSMIT_Enter_def entry_defs tx_defs)

lemma AUTH_KEY_TX_KEY_TRANSMIT_frame [frame_simps]:
  "aWhile (sm_AUTH_KEY_TX_KEY_TRANSMIT_Enter g sm) = aWhile sm"
  "quietWhile (sm_AUTH_KEY_TX_KEY_TRANSMIT_Enter g sm) = quietWhile sm"
  "reAuthWhen (sm_AUTH_KEY_TX_KEY_TRANSMIT_Enter g sm) = reAuthWhen sm"
  "authAbort (sm_AUTH_KEY_TX_KEY_TRANSMIT_Enter g sm) = authAbort sm"
  "authFail (sm_AUTH_KEY_TX_KEY_TRANSMIT_Enter g sm) = authFail sm"
  "authPortStatus (sm_AUTH_KEY_TX_KEY_TRANSMIT_Enter g sm) = authPortStatus sm"
  "authStart (sm_AUTH_KEY_TX_KEY_TRANSMIT_Enter g sm) = authStart sm"
  "authTimeout (sm_AUTH_KEY_TX_KEY_TRANSMIT_Enter g sm) = authTimeout sm"
  "authSuccess (sm_AUTH_KEY_TX_KEY_TRANSMIT_Enter g sm) = authSuccess sm"
  "eapolEap (sm_AUTH_KEY_TX_KEY_TRANSMIT_Enter g sm) = eapolEap sm"
  "initialize (sm_AUTH_KEY_TX_KEY_TRANSMIT_Enter g sm) = initialize sm"
  "keyDone (sm_AUTH_KEY_TX_KEY_TRANSMIT_Enter g sm) = True"
  "keyRun (sm_AUTH_KEY_TX_KEY_TRANSMIT_Enter g sm) = keyRun sm"
  "keyTxEnabled (sm_AUTH_KEY_TX_KEY_TRANSMIT_Enter g sm) = keyTxEnabled sm"
  "portControl (sm_AUTH_KEY_TX_KEY_TRANSMIT_Enter g sm) = portControl sm"
  "portValid (sm_AUTH_KEY_TX_KEY_TRANSMIT_Enter g sm) = portValid sm"
  "reAuthenticate (sm_AUTH_KEY_TX_KEY_TRANSMIT_Enter g sm) = reAuthenticate sm"
  "auth_pae_state (sm_AUTH_KEY_TX_KEY_TRANSMIT_Enter g sm) = auth_pae_state sm"
  "eapolLogoff (sm_AUTH_KEY_TX_KEY_TRANSMIT_Enter g sm) = eapolLogoff sm"
  "eapolStart (sm_AUTH_KEY_TX_KEY_TRANSMIT_Enter g sm) = eapolStart sm"
  "portMode (sm_AUTH_KEY_TX_KEY_TRANSMIT_Enter g sm) = portMode sm"
  "reAuthCount (sm_AUTH_KEY_TX_KEY_TRANSMIT_Enter g sm) = reAuthCount sm"
  "quietPeriod (sm_AUTH_KEY_TX_KEY_TRANSMIT_Enter g sm) = quietPeriod sm"
  "reAuthMax (sm_AUTH_KEY_TX_KEY_TRANSMIT_Enter g sm) = reAuthMax sm"
  "be_auth_state (sm_AUTH_KEY_TX_KEY_TRANSMIT_Enter g sm) = be_auth_state sm"
  "serverTimeout (sm_AUTH_KEY_TX_KEY_TRANSMIT_Enter g sm) = serverTimeout sm"
  "reauth_timer_state (sm_AUTH_KEY_TX_KEY_TRANSMIT_Enter g sm) = reauth_timer_state sm"
  "reAuthPeriod (sm_AUTH_KEY_TX_KEY_TRANSMIT_Enter g sm) = reAuthPeriod sm"
  "reAuthEnabled (sm_AUTH_KEY_TX_KEY_TRANSMIT_Enter g sm) = reAuthEnabled sm"
  "auth_key_tx_state (sm_AUTH_KEY_TX_KEY_TRANSMIT_Enter g sm) = AUTH_KEY_TX_KEY_TRANSMIT"
  "key_rx_state (sm_AUTH_KEY_TX_KEY_TRANSMIT_Enter g sm) = key_rx_state sm"
  "rxKey (sm_AUTH_KEY_TX_KEY_TRANSMIT_Enter g sm) = rxKey sm"
  "ctrl_dir_state (sm_AUTH_KEY_TX_KEY_TRANSMIT_Enter g sm) = ctrl_dir_state sm"
  "operEdge (sm_AUTH_KEY_TX_KEY_TRANSMIT_Enter g sm) = operEdge sm"
  "flags (sm_AUTH_KEY_TX_KEY_TRANSMIT_Enter g sm) = flags sm"
  "eap_if (sm_AUTH_KEY_TX_KEY_TRANSMIT_Enter g sm) = (eap_if sm)\<lparr>eapKeyAvailable := False\<rparr>"
  "initializing (sm_AUTH_KEY_TX_KEY_TRANSMIT_Enter g sm) = initializing sm"
  "outputs (sm_AUTH_KEY_TX_KEY_TRANSMIT_Enter g sm) = outputs sm @ [TxKey]"
  by (simp_all add: sm_AUTH_KEY_TX_KEY_TRANSMIT_Enter_def entry_defs tx_defs)

lemma KEY_RX_NO_KEY_RECEIVE_frame [frame_simps]:
  "aWhile (sm_KEY_RX_NO_KEY_RECEIVE_Enter g sm) = aWhile sm"
  "quietWhile (sm_KEY_RX_NO_KEY_RECEIVE_Enter g sm) = quietWhile sm"
  "reAuthWhen (sm_KEY_RX_NO_KEY_RECEIVE_Enter g sm) = reAuthWhen sm"
  "authAbort (sm_KEY_RX_NO_KEY_RECEIVE_Enter g sm) = authAbort sm"
  "authFail (sm_KEY_RX_NO_KEY_RECEIVE_Enter g sm) = authFail sm"
  "authPortStatus (sm_KEY_RX_NO_KEY_RECEIVE_Enter g sm) = authPortStatus sm"
  "authStart (sm_KEY_RX_NO_KEY_RECEIVE_Enter g sm) = authStart sm"
  "authTimeout (sm_KEY_RX_NO_KEY_RECEIVE_Enter g sm) = authTimeout sm"
  "authSuccess (sm_KEY_RX_NO_KEY_RECEIVE_Enter g sm) = authSuccess sm"
  "eapolEap (sm_KEY_RX_NO_KEY_RECEIVE_Enter g sm) = eapolEap sm"
  "initialize (sm_KEY_RX_NO_KEY_RECEIVE_Enter g sm) = initialize sm"
  "keyDone (sm_KEY_RX_NO_KEY_RECEIVE_Enter g sm) = keyDone sm"
  "keyRun (sm_KEY_RX_NO_KEY_RECEIVE_Enter g sm) = keyRun sm"
  "keyTxEnabled (sm_KEY_RX_NO_KEY_RECEIVE_Enter g sm) = keyTxEnabled sm"
  "portControl (sm_KEY_RX_NO_KEY_RECEIVE_Enter g sm) = portControl sm"
  "portValid (sm_KEY_RX_NO_KEY_RECEIVE_Enter g sm) = portValid sm"
  "reAuthenticate (sm_KEY_RX_NO_KEY_RECEIVE_Enter g sm) = reAuthenticate sm"
  "auth_pae_state (sm_KEY_RX_NO_KEY_RECEIVE_Enter g sm) = auth_pae_state sm"
  "eapolLogoff (sm_KEY_RX_NO_KEY_RECEIVE_Enter g sm) = eapolLogoff sm"
  "eapolStart (sm_KEY_RX_NO_KEY_RECEIVE_Enter g sm) = eapolStart sm"
  "portMode (sm_KEY_RX_NO_KEY_RECEIVE_Enter g sm) = portMode sm"
  "reAuthCount (sm_KEY_RX_NO_KEY_RECEIVE_Enter g sm) = reAuthCount sm"
  "quietPeriod (sm_KEY_RX_NO_KEY_RECEIVE_Enter g sm) = quietPeriod sm"
  "reAuthMax (sm_KEY_RX_NO_KEY_RECEIVE_Enter g sm) = reAuthMax sm"
  "be_auth_state (sm_KEY_RX_NO_KEY_RECEIVE_Enter g sm) = be_auth_state sm"
  "serverTimeout (sm_KEY_RX_NO_KEY_RECEIVE_Enter g sm) = serverTimeout sm"
  "reauth_timer_state (sm_KEY_RX_NO_KEY_RECEIVE_Enter g sm) = reauth_timer_state sm"
  "reAuthPeriod (sm_KEY_RX_NO_KEY_RECEIVE_Enter g sm) = reAuthPeriod sm"
  "reAuthEnabled (sm_KEY_RX_NO_KEY_RECEIVE_Enter g sm) = reAuthEnabled sm"
  "auth_key_tx_state (sm_KEY_RX_NO_KEY_RECEIVE_Enter g sm) = auth_key_tx_state sm"
  "key_rx_state (sm_KEY_RX_NO_KEY_RECEIVE_Enter g sm) = KEY_RX_NO_KEY_RECEIVE"
  "rxKey (sm_KEY_RX_NO_KEY_RECEIVE_Enter g sm) = rxKey sm"
  "ctrl_dir_state (sm_KEY_RX_NO_KEY_RECEIVE_Enter g sm) = ctrl_dir_state sm"
  "operEdge (sm_KEY_RX_NO_KEY_RECEIVE_Enter g sm) = operEdge sm"
  "flags (sm_KEY_RX_NO_KEY_RECEIVE_Enter g sm) = flags sm"
  "eap_if (sm_KEY_RX_NO_KEY_RECEIVE_Enter g sm) = eap_if sm"
  "initializing (sm_KEY_RX_NO_KEY_RECEIVE_Enter g sm) = initializing sm"
  "outputs (sm_KEY_RX_NO_KEY_RECEIVE_Enter g sm) = outputs sm"
  by (simp_all add: sm_KEY_RX_NO_KEY_RECEIVE_Enter_def entry_defs tx_defs)

lemma KEY_RX_KEY_RECEIVE_frame [frame_simps]:
  "aWhile (sm_KEY_RX_KEY_RECEIVE_Enter g sm) = aWhile sm"
  "quietWhile (sm_KEY_RX_KEY_RECEIVE_Enter g sm) = quietWhile sm"
  "reAuthWhen (sm_KEY_RX_KEY_RECEIVE_Enter g sm) = reAuthWhen sm"
  "authAbort (sm_KEY_RX_KEY_RECEIVE_Enter g sm) = authAbort sm"
  "authFail (sm_KEY_RX_KEY_RECEIVE_Enter g sm) = authFail sm"
  "authPortStatus (sm_KEY_RX_KEY_RECEIVE_Enter g sm) = authPortStatus sm"
  "authStart (sm_KEY_RX_KEY_RECEIVE_Enter g sm) = authStart sm"
  "authTimeout (sm_KEY_RX_KEY_RECEIVE_Enter g sm) = authTimeout sm"
  "authSuccess (sm_KEY_RX_KEY_RECEIVE_Enter g sm) = authSuccess sm"
  "eapolEap (sm_KEY_RX_KEY_RECEIVE_Enter g sm) = eapolEap sm"
  "initialize (sm_KEY_RX_KEY_RECEIVE_Enter g sm) = initialize sm"
  "keyDone (sm_KEY_RX_KEY_RECEIVE_Enter g sm) = keyDone sm"
  "keyRun (sm_KEY_RX_KEY_RECEIVE_Enter g sm) = keyRun sm"
  "keyTxEnabled (sm_KEY_RX_KEY_RECEIVE_Enter g sm) = keyTxEnabled sm"
  "portControl (sm_KEY_RX_KEY_RECEIVE_Enter g sm) = portControl sm"
  "portValid (sm_KEY_RX_KEY_RECEIVE_Enter g sm) = portValid sm"
  "reAuthenticate (sm_KEY_RX_KEY_RECEIVE_Enter g sm) = reAuthenticate sm"
  "auth_pae_state (sm_KEY_RX_KEY_RECEIVE_Enter g sm) = auth_pae_state sm"
  "eapolLogoff (sm_KEY_RX_KEY_RECEIVE_Enter g sm) = eapolLogoff sm"
  "eapolStart (sm_KEY_RX_KEY_RECEIVE_Enter g sm) = eapolStart sm"
  "portMode (sm_KEY_RX_KEY_RECEIVE_Enter g sm) = portMode sm"
  "reAuthCount (sm_KEY_RX_KEY_RECEIVE_Enter g sm) = reAuthCount sm"
  "quietPeriod (sm_KEY_RX_KEY_RECEIVE_Enter g sm) = quietPeriod sm"
  "reAuthMax (sm_KEY_RX_KEY_RECEIVE_Enter g sm) = reAuthMax sm"
  "be_auth_state (sm_KEY_RX_KEY_RECEIVE_Enter g sm) = be_auth_state sm"
  "serverTimeout (sm_KEY_RX_KEY_RECEIVE_Enter g sm) = serverTimeout sm"
  "reauth_timer_state (sm_KEY_RX_KEY_RECEIVE_Enter g sm) = reauth_timer_state sm"
  "reAuthPeriod (sm_KEY_RX_KEY_RECEIVE_Enter g sm) = reAuthPeriod sm"
  "reAuthEnabled (sm_KEY_RX_KEY_RECEIVE_Enter g sm) = reAuthEnabled sm"
  "auth_key_tx_state (sm_KEY_RX_KEY_RECEIVE_Enter g sm) = auth_key_tx_state sm"
  "key_rx_state (sm_KEY_RX_KEY_RECEIVE_Enter g sm) = KEY_RX_KEY_RECEIVE"
  "rxKey (sm_KEY_RX_KEY_RECEIVE_Enter g sm) = False"
  "ctrl_dir_state (sm_KEY_RX_KEY_RECEIVE_Enter g sm) = ctrl_dir_state sm"
  "operEdge (sm_KEY_RX_KEY_RECEIVE_Enter g sm) = operEdge sm"
  "flags (sm_KEY_RX_KEY_RECEIVE_Enter g sm) = flags sm"
  "eap_if (sm_KEY_RX_KEY_RECEIVE_Enter g sm) = eap_if sm"
  "initializing (sm_KEY_RX_KEY_RECEIVE_Enter g sm) = initializing sm"
  "outputs (sm_KEY_RX_KEY_RECEIVE_Enter g sm) = outputs sm"
  by (simp_all add: sm_KEY_RX_KEY_RECEIVE_Enter_def entry_defs tx_defs)

lemma CTRL_DIR_FORCE_BOTH_frame [frame_simps]:
  "aWhile (sm_CTRL_DIR_FORCE_BOTH_Enter g sm) = aWhile sm"
  "quietWhile (sm_CTRL_DIR_FORCE_BOTH_Enter g sm) = quietWhile sm"
  "reAuthWhen (sm_CTRL_DIR_FORCE_BOTH_Enter g sm) = reAuthWhen sm"
  "authAbort (sm_CTRL_DIR_FORCE_BOTH_Enter g sm) = authAbort sm"
  "authFail (sm_CTRL_DIR_FORCE_BOTH_Enter g sm) = authFail sm"
  "authPortStatus (sm_CTRL_DIR_FORCE_BOTH_Enter g sm) = authPortStatus sm"
  "authStart (sm_CTRL_DIR_FORCE_BOTH_Enter g sm) = authStart sm"
  "authTimeout (sm_CTRL_DIR_FORCE_BOTH_Enter g sm) = authTimeout sm"
  "authSuccess (sm_CTRL_DIR_FORCE_BOTH_Enter g sm) = authSuccess sm"
  "eapolEap (sm_CTRL_DIR_FORCE_BOTH_Enter g sm) = eapolEap sm"
  "initialize (sm_CTRL_DIR_FORCE_BOTH_Enter g sm) = initialize sm"
  "keyDone (sm_CTRL_DIR_FORCE_BOTH_Enter g sm) = keyDone sm"
  "keyRun (sm_CTRL_DIR_FORCE_BOTH_Enter g sm) = keyRun sm"
  "keyTxEnabled (sm_CTRL_DIR_FORCE_BOTH_Enter g sm) = keyTxEnabled sm"
  "portControl (sm_CTRL_DIR_FORCE_BOTH_Enter g sm) = portControl sm"
  "portValid (sm_CTRL_DIR_FORCE_BOTH_Enter g sm) = portValid sm"
  "reAuthenticate (sm_CTRL_DIR_FORCE_BOTH_Enter g sm) = reAuthenticate sm"
  "auth_pae_state (sm_CTRL_DIR_FORCE_BOTH_Enter g sm) = auth_pae_state sm"
  "eapolLogoff (sm_CTRL_DIR_FORCE_BOTH_Enter g sm) = eapolLogoff sm"
  "eapolStart (sm_CTRL_DIR_FORCE_BOTH_Enter g sm) = eapolStart sm"
  "portMode (sm_CTRL_DIR_FORCE_BOTH_Enter g sm) = portMode sm"
  "reAuthCount (sm_CTRL_DIR_FORCE_BOTH_Enter g sm) = reAuthCount sm"
  "quietPeriod (sm_CTRL_DIR_FORCE_BOTH_Enter g sm) = quietPeriod sm"
  "reAuthMax (sm_CTRL_DIR_FORCE_BOTH_Enter g sm) = reAuthMax sm"
  "be_auth_state (sm_CTRL_DIR_FORCE_BOTH_Enter g sm) = be_auth_state sm"
  "serverTimeout (sm_CTRL_DIR_FORCE_BOTH_Enter g sm) = serverTimeout sm"
  "reauth_timer_state (sm_CTRL_DIR_FORCE_BOTH_Enter g sm) = reauth_timer_state sm"
  "reAuthPeriod (sm_CTRL_DIR_FORCE_BOTH_Enter g sm) = reAuthPeriod sm"
  "reAuthEnabled (sm_CTRL_DIR_FORCE_BOTH_Enter g sm) = reAuthEnabled sm"
  "auth_key_tx_state (sm_CTRL_DIR_FORCE_BOTH_Enter g sm) = auth_key_tx_state sm"
  "key_rx_state (sm_CTRL_DIR_FORCE_BOTH_Enter g sm) = key_rx_state sm"
  "rxKey (sm_CTRL_DIR_FORCE_BOTH_Enter g sm) = rxKey sm"
  "ctrl_dir_state (sm_CTRL_DIR_FORCE_BOTH_Enter g sm) = CTRL_DIR_FORCE_BOTH"
  "operEdge (sm_CTRL_DIR_FORCE_BOTH_Enter g sm) = operEdge sm"
  "flags (sm_CTRL_DIR_FORCE_BOTH_Enter g sm) = flags sm"
  "eap_if (sm_CTRL_DIR_FORCE_BOTH_Enter g sm) = eap_if sm"
  "initializing (sm_CTRL_DIR_FORCE_BOTH_Enter g sm) = initializing sm"
  "outputs (sm_CTRL_DIR_FORCE_BOTH_Enter g sm) = outputs sm"
  by (simp_all add: sm_CTRL_DIR_FORCE_BOTH_Enter_def entry_defs tx_defs)

lemma CTRL_DIR_IN_OR_BOTH_frame [frame_simps]:
  "aWhile (sm_CTRL_DIR_IN_OR_BOTH_Enter g sm) = aWhile sm"
  "quietWhile (sm_CTRL_DIR_IN_OR_BOTH_Enter g sm) = quietWhile sm"
  "reAuthWhen (sm_CTRL_DIR_IN_OR_BOTH_Enter g sm) = reAuthWhen sm"
  "authAbort (sm_CTRL_DIR_IN_OR_BOTH_Enter g sm) = authAbort sm"
  "authFail (sm_CTRL_DIR_IN_OR_BOTH_Enter g sm) = authFail sm"
  "authPortStatus (sm_CTRL_DIR_IN_OR_BOTH_Enter g sm) = authPortStatus sm"
  "authStart (sm_CTRL_DIR_IN_OR_BOTH_Enter g sm) = authStart sm"
  "authTimeout (sm_CTRL_DIR_IN_OR_BOTH_Enter g sm) = authTimeout sm"
  "authSuccess (sm_CTRL_DIR_IN_OR_BOTH_Enter g sm) = authSuccess sm"
  "eapolEap (sm_CTRL_DIR_IN_OR_BOTH_Enter g sm) = eapolEap sm"
  "initialize (sm_CTRL_DIR_IN_OR_BOTH_Enter g sm) = initialize sm"
  "keyDone (sm_CTRL_DIR_IN_OR_BOTH_Enter g sm) = keyDone sm"
  "keyRun (sm_CTRL_DIR_IN_OR_BOTH_Enter g sm) = keyRun sm"
  "keyTxEnabled (sm_CTRL_DIR_IN_OR_BOTH_Enter g sm) = keyTxEnabled sm"
  "portControl (sm_CTRL_DIR_IN_OR_BOTH_Enter g sm) = portControl sm"
  "portValid (sm_CTRL_DIR_IN_OR_BOTH_Enter g sm) = portValid sm"
  "reAuthenticate (sm_CTRL_DIR_IN_OR_BOTH_Enter g sm) = reAuthenticate sm"
  "auth_pae_state (sm_CTRL_DIR_IN_OR_BOTH_Enter g sm) = auth_pae_state sm"
  "eapolLogoff (sm_CTRL_DIR_IN_OR_BOTH_Enter g sm) = eapolLogoff sm"
  "eapolStart (sm_CTRL_DIR_IN_OR_BOTH_Enter g sm) = eapolStart sm"
  "portMode (sm_CTRL_DIR_IN_OR_BOTH_Enter g sm) = portMode sm"
  "reAuthCount (sm_CTRL_DIR_IN_OR_BOTH_Enter g sm) = reAuthCount sm"
  "quietPeriod (sm_CTRL_DIR_IN_OR_BOTH_Enter g sm) = quietPeriod sm"
  "reAuthMax (sm_CTRL_DIR_IN_OR_BOTH_Enter g sm) = reAuthMax sm"
  "be_auth_state (sm_CTRL_DIR_IN_OR_BOTH_Enter g sm) = be_auth_state sm"
  "serverTimeout (sm_CTRL_DIR_IN_OR_BOTH_Enter g sm) = serverTimeout sm"
  "reauth_timer_state (sm_CTRL_DIR_IN_OR_BOTH_Enter g sm) = reauth_timer_state sm"
  "reAuthPeriod (sm_CTRL_DIR_IN_OR_BOTH_Enter g sm) = reAuthPeriod sm"
  "reAuthEnabled (sm_CTRL_DIR_IN_OR_BOTH_Enter g sm) = reAuthEnabled sm"
  "auth_key_tx_state (sm_CTRL_DIR_IN_OR_BOTH_Enter g sm) = auth_key_tx_state sm"
  "key_rx_state (sm_CTRL_DIR_IN_OR_BOTH_Enter g sm) = key_rx_state sm"
  "rxKey (sm_CTRL_DIR_IN_OR_BOTH_Enter g sm) = rxKey sm"
  "ctrl_dir_state (sm_CTRL_DIR_IN_OR_BOTH_Enter g sm) = CTRL_DIR_IN_OR_BOTH"
  "operEdge (sm_CTRL_DIR_IN_OR_BOTH_Enter g sm) = operEdge sm"
  "flags (sm_CTRL_DIR_IN_OR_BOTH_Enter g sm) = flags sm"
  "eap_if (sm_CTRL_DIR_IN_OR_BOTH_Enter g sm) = eap_if sm"
  "initializing (sm_CTRL_DIR_IN_OR_BOTH_Enter g sm) = initializing sm"
  "outputs (sm_CTRL_DIR_IN_OR_BOTH_Enter g sm) = outputs sm"
  by (simp_all add: sm_CTRL_DIR_IN_OR_BOTH_Enter_def entry_defs tx_defs)

lemma whenb_field: "f (whenb b g x) = (if b then f (g x) else f x)"
  by (simp add: whenb_def)

lemmas whenb_fields [frame_simps] =
  whenb_field [of aWhile] whenb_field [of quietWhile] whenb_field [of reAuthWhen]
  whenb_field [of authAbort] whenb_field [of authFail] whenb_field [of authPortStatus]
  whenb_field [of authStart] whenb_field [of authTimeout] whenb_field [of authSuccess]
  whenb_field [of eapolEap] whenb_field [of initialize] whenb_field [of keyDone]
  whenb_field [of keyRun] whenb_field [of keyTxEnabled] whenb_field [of portControl]
  whenb_field [of portValid] whenb_field [of reAuthenticate] whenb_field [of auth_pae_state]
  whenb_field [of eapolLogoff] whenb_field [of eapolStart] whenb_field [of portMode]
  whenb_field [of reAuthCount] whenb_field [of quietPeriod] whenb_field [of reAuthMax]
  whenb_field [of be_auth_state] whenb_field [of serverTimeout]
  whenb_field [of reauth_timer_state] whenb_field [of reAuthPeriod]
  whenb_field [of reAuthEnabled] whenb_field [of auth_key_tx_state] whenb_field [of key_rx_state]
  whenb_field [of rxKey] whenb_field [of ctrl_dir_state] whenb_field [of operEdge]
  whenb_field [of flags] whenb_field [of eap_if] whenb_field [of initializing]
  whenb_field [of outputs]

subsection \<open>Transitions\<close>

text \<open>
  The transitions of the authenticator PAE as a relation: what it enters, whether by a global
  rule, and when.
\<close>

definition pae_global :: "eapol_sm \<Rightarrow> bool" where
  "pae_global sm \<longleftrightarrow> initialize sm \<or> \<not> portEnabled (eap_if sm) \<or>
     portMode sm \<noteq> portControl sm \<and> portControl sm \<in> {Auto, ForceAuthorized, ForceUnauthorized}"

inductive pae_trans :: "eapol_sm \<Rightarrow> eapol_sm \<Rightarrow> bool" where
  pae_init: "initialize sm \<or> \<not> portEnabled (eap_if sm) \<or> portControl sm = Auto \<and> portMode sm \<noteq> Auto \<Longrightarrow>
    pae_trans sm (sm_AUTH_PAE_INITIALIZE_Enter True sm)"
| pae_force_auth: "\<not> initialize sm \<Longrightarrow> portEnabled (eap_if sm) \<Longrightarrow> portControl sm = ForceAuthorized \<Longrightarrow>
    portMode sm \<noteq> ForceAuthorized \<Longrightarrow> pae_trans sm (sm_AUTH_PAE_FORCE_AUTH_Enter True sm)"
| pae_force_unauth: "\<not> initialize sm \<Longrightarrow> portEnabled (eap_if sm) \<Longrightarrow> portControl sm = ForceUnauthorized \<Longrightarrow>
    portMode sm \<noteq> ForceUnauthorized \<Longrightarrow> pae_trans sm (sm_AUTH_PAE_FORCE_UNAUTH_Enter True sm)"
| pae_stay: "\<not> pae_global sm \<Longrightarrow> pae_trans sm sm"
| pae_initialize_disconnected: "\<not> pae_global sm \<Longrightarrow> auth_pae_state sm = AUTH_PAE_INITIALIZE \<Longrightarrow>
    pae_trans sm (sm_AUTH_PAE_DISCONNECTED_Enter False sm)"
| pae_disconnected_restart: "\<not> pae_global sm \<Longrightarrow> auth_pae_state sm = AUTH_PAE_DISCONNECTED \<Longrightarrow>
    pae_trans sm (sm_AUTH_PAE_RESTART_Enter False sm)"
| pae_restart_connecting: "\<not> pae_global sm \<Longrightarrow> auth_pae_state sm = AUTH_PAE_RESTART \<Longrightarrow>
    \<not> eapRestart (eap_if sm) \<Longrightarrow>
    pae_trans sm (sm_AUTH_PAE_CONNECTING_Enter False sm)"
| pae_held_restart: "\<not> pae_global sm \<Longrightarrow> auth_pae_state sm = AUTH_PAE_HELD \<Longrightarrow>
    quietWhile sm = 0 \<Longrightarrow>
    pae_trans sm (sm_AUTH_PAE_RESTART_Enter False sm)"
| pae_connecting_disconnected: "\<not> pae_global sm \<Longrightarrow> auth_pae_state sm = AUTH_PAE_CONNECTING \<Longrightarrow>
    eapolLogoff sm \<or> reAuthCount sm > reAuthMax sm \<Longrightarrow>
    pae_trans sm (sm_AUTH_PAE_DISCONNECTED_Enter False sm)"
| pae_connecting_authenticating: "\<not> pae_global sm \<Longrightarrow> auth_pae_state sm = AUTH_PAE_CONNECTING \<Longrightarrow>
    \<not> eapolLogoff sm \<and> reAuthCount sm \<le> reAuthMax sm \<and> (eapReq (eap_if sm) \<or> eapSuccess (eap_if sm) \<or> eapFail (eap_if sm)) \<Longrightarrow>
    pae_trans sm (sm_AUTH_PAE_AUTHENTICATING_Enter False sm)"
| pae_authenticated_restart: "\<not> pae_global sm \<Longrightarrow> auth_pae_state sm = AUTH_PAE_AUTHENTICATED \<Longrightarrow>
    eapolStart sm \<or> reAuthenticate sm \<Longrightarrow>
    pae_trans sm (sm_AUTH_PAE_RESTART_Enter False sm)"
| pae_authenticated_disconnected: "\<not> pae_global sm \<Longrightarrow> auth_pae_state sm = AUTH_PAE_AUTHENTICATED \<Longrightarrow>
    \<not> eapolStart sm \<and> \<not> reAuthenticate sm \<and> (eapolLogoff sm \<or> \<not> portValid sm) \<Longrightarrow>
    pae_trans sm (sm_AUTH_PAE_DISCONNECTED_Enter False sm)"
| pae_authenticating_authenticated: "\<not> pae_global sm \<Longrightarrow> auth_pae_state sm = AUTH_PAE_AUTHENTICATING \<Longrightarrow>
    authSuccess sm \<and> portValid sm \<Longrightarrow>
    pae_trans sm (sm_AUTH_PAE_AUTHENTICATED_Enter False sm)"
| pae_authenticating_held: "\<not> pae_global sm \<Longrightarrow> auth_pae_state sm = AUTH_PAE_AUTHENTICATING \<Longrightarrow>
    \<not> (authSuccess sm \<and> portValid sm) \<and> (authFail sm \<or> keyDone sm \<and> \<not> portValid sm) \<Longrightarrow>
    pae_trans sm (sm_AUTH_PAE_HELD_Enter False sm)"
| pae_authenticating_aborting: "\<not> pae_global sm \<Longrightarrow> auth_pae_state sm = AUTH_PAE_AUTHENTICATING \<Longrightarrow>
    \<not> (authSuccess sm \<and> portValid sm) \<and> \<not> authFail sm \<and> (eapolStart sm \<or> eapolLogoff sm \<or> authTimeout sm) \<Longrightarrow>
    pae_trans sm (sm_AUTH_PAE_ABORTING_Enter False sm)"
| pae_aborting_disconnected: "\<not> pae_global sm \<Longrightarrow> auth_pae_state sm = AUTH_PAE_ABORTING \<Longrightarrow>
    eapolLogoff sm \<and> \<not> authAbort sm \<Longrightarrow>
    pae_trans sm (sm_AUTH_PAE_DISCONNECTED_Enter False sm)"
| pae_aborting_restart: "\<not> pae_global sm \<Longrightarrow> auth_pae_state sm = AUTH_PAE_ABORTING \<Longrightarrow>
    \<not> eapolLogoff sm \<and> \<not> authAbort sm \<Longrightarrow>
    pae_trans sm (sm_AUTH_PAE_RESTART_Enter False sm)"
| pae_force_auth_force_auth: "\<not> pae_global sm \<Longrightarrow> auth_pae_state sm = AUTH_PAE_FORCE_AUTH \<Longrightarrow>
    eapolStart sm \<Longrightarrow>
    pae_trans sm (sm_AUTH_PAE_FORCE_AUTH_Enter False sm)"
| pae_force_unauth_force_unauth: "\<not> pae_global sm \<Longrightarrow> auth_pae_state sm = AUTH_PAE_FORCE_UNAUTH \<Longrightarrow>
    eapolStart sm \<Longrightarrow>
    pae_trans sm (sm_AUTH_PAE_FORCE_UNAUTH_Enter False sm)"

lemma pae_step_trans: "pae_trans sm (sm_AUTH_PAE_Step sm)"
proof -
  let ?g1 = "(portControl sm = Auto \<and> portMode sm \<noteq> portControl sm) \<or> initialize sm \<or>
    \<not> portEnabled (eap_if sm)"
  let ?g2 = "portControl sm = ForceAuthorized \<and> portMode sm \<noteq> portControl sm \<and>
    \<not> (initialize sm \<or> \<not> portEnabled (eap_if sm))"
  let ?g3 = "portControl sm = ForceUnauthorized \<and> portMode sm \<noteq> portControl sm \<and>
    \<not> (initialize sm \<or> \<not> portEnabled (eap_if sm))"
  consider ?g1 | "\<not> ?g1" ?g2 | "\<not> ?g1" "\<not> ?g2" ?g3 | "\<not> ?g1" "\<not> ?g2" "\<not> ?g3" by argo
  then show ?thesis
  proof cases
    case 1
    show ?thesis unfolding sm_AUTH_PAE_Step_def if_P [OF 1] using 1 by (auto intro: pae_init)
  next
    case 2
    show ?thesis
      unfolding sm_AUTH_PAE_Step_def if_not_P [OF 2(1)] if_P [OF 2(2)] using 2 by (auto intro: pae_force_auth)
  next
    case 3
    show ?thesis
      unfolding sm_AUTH_PAE_Step_def if_not_P [OF 3(1)] if_not_P [OF 3(2)] if_P [OF 3(3)]
      using 3 by (auto intro: pae_force_unauth)
  next
    case 4
    then have g: "\<not> pae_global sm" unfolding pae_global_def by auto
    show ?thesis
      unfolding sm_AUTH_PAE_Step_def if_not_P [OF 4(1)] if_not_P [OF 4(2)] if_not_P [OF 4(3)]
      using g by (cases "auth_pae_state sm") (auto intro: pae_trans.intros)
  qed
qed

text \<open>The transitions of the backend in the same form.\<close>

definition be_global :: "eapol_sm \<Rightarrow> bool" where
  "be_global sm \<longleftrightarrow> portControl sm \<noteq> Auto \<or> initialize sm \<or> authAbort sm"

definition be_response :: "eapol_sm \<Rightarrow> eapol_sm" where
  "be_response sm = whenb (eapNoReq (eap_if sm)) (sm_BE_AUTH_IGNORE_Enter False) sm"

inductive be_trans :: "eapol_sm \<Rightarrow> eapol_sm \<Rightarrow> bool" where
  be_init: "be_global sm \<Longrightarrow> be_trans sm (sm_BE_AUTH_INITIALIZE_Enter True sm)"
| be_stay: "\<not> be_global sm \<Longrightarrow> be_auth_state sm \<noteq> BE_AUTH_RESPONSE \<Longrightarrow> be_trans sm sm"
| be_idle: "\<not> be_global sm \<Longrightarrow>
    be_auth_state sm \<in> {BE_AUTH_INITIALIZE, BE_AUTH_SUCCESS, BE_AUTH_FAIL, BE_AUTH_TIMEOUT} \<Longrightarrow>
    be_trans sm (sm_BE_AUTH_IDLE_Enter False sm)"
| be_respond: "\<not> be_global sm \<Longrightarrow> be_auth_state sm \<in> {BE_AUTH_REQUEST, BE_AUTH_IGNORE} \<Longrightarrow> eapolEap sm \<Longrightarrow>
    be_trans sm (sm_BE_AUTH_RESPONSE_Enter False sm)"
| be_request: "\<not> be_global sm \<Longrightarrow> be_auth_state sm \<in> {BE_AUTH_REQUEST, BE_AUTH_IGNORE} \<Longrightarrow>
    \<not> eapolEap sm \<Longrightarrow> eapReq (eap_if sm) \<Longrightarrow> be_trans sm (sm_BE_AUTH_REQUEST_Enter False sm)"
| be_timeout: "\<not> be_global sm \<Longrightarrow> be_auth_state sm \<in> {BE_AUTH_REQUEST, BE_AUTH_IGNORE} \<Longrightarrow>
    \<not> eapolEap sm \<Longrightarrow> \<not> eapReq (eap_if sm) \<Longrightarrow> be_trans sm (sm_BE_AUTH_TIMEOUT_Enter False sm)"
| be_start_fail: "\<not> be_global sm \<Longrightarrow> be_auth_state sm = BE_AUTH_IDLE \<Longrightarrow> authStart sm \<Longrightarrow>
    eapFail (eap_if sm) \<Longrightarrow> be_trans sm (sm_BE_AUTH_FAIL_Enter False sm)"
| be_start_request: "\<not> be_global sm \<Longrightarrow> be_auth_state sm = BE_AUTH_IDLE \<Longrightarrow> authStart sm \<Longrightarrow>
    eapReq (eap_if sm) \<Longrightarrow> be_trans sm (sm_BE_AUTH_REQUEST_Enter False sm)"
| be_start_success: "\<not> be_global sm \<Longrightarrow> be_auth_state sm = BE_AUTH_IDLE \<Longrightarrow> authStart sm \<Longrightarrow>
    eapSuccess (eap_if sm) \<Longrightarrow> be_trans sm (sm_BE_AUTH_SUCCESS_Enter False sm)"
| be_resp_request: "\<not> be_global sm \<Longrightarrow> be_auth_state sm = BE_AUTH_RESPONSE \<Longrightarrow> eapReq (eap_if sm) \<Longrightarrow>
    be_trans sm (sm_BE_AUTH_REQUEST_Enter False
      (count (backendAccessChallenges_update (\<lambda>n. n + 1)) (be_response sm)))"
| be_resp_timeout: "\<not> be_global sm \<Longrightarrow> be_auth_state sm = BE_AUTH_RESPONSE \<Longrightarrow>
    \<not> eapReq (eap_if sm) \<Longrightarrow> be_trans sm (sm_BE_AUTH_TIMEOUT_Enter False (be_response sm))"
| be_resp_fail: "\<not> be_global sm \<Longrightarrow> be_auth_state sm = BE_AUTH_RESPONSE \<Longrightarrow>
    \<not> eapReq (eap_if sm) \<Longrightarrow> be_trans sm (sm_BE_AUTH_FAIL_Enter False
      (count (backendAuthFails_update (\<lambda>n. n + 1)) (be_response sm)))"
| be_resp_success: "\<not> be_global sm \<Longrightarrow> be_auth_state sm = BE_AUTH_RESPONSE \<Longrightarrow>
    \<not> eapReq (eap_if sm) \<Longrightarrow> eapSuccess (eap_if sm) \<Longrightarrow> be_trans sm (sm_BE_AUTH_SUCCESS_Enter False
      (count (backendAuthSuccesses_update (\<lambda>n. n + 1)) (be_response sm)))"
| be_resp_stay: "\<not> be_global sm \<Longrightarrow> be_auth_state sm = BE_AUTH_RESPONSE \<Longrightarrow>
    \<not> eapReq (eap_if sm) \<Longrightarrow> be_trans sm (be_response sm)"

lemma be_response_frame [frame_simps]:
  "eap_if (be_response sm) =
     (if eapNoReq (eap_if sm) then (eap_if sm)\<lparr>eapNoReq := False\<rparr> else eap_if sm)"
  "aWhile (be_response sm) = aWhile sm"
  by (simp_all add: be_response_def frame_simps)

lemma be_step_trans: "be_trans sm (sm_BE_AUTH_Step sm)"
proof (cases "be_global sm")
  case True
  then have g: "portControl sm \<noteq> Auto \<or> initialize sm \<or> authAbort sm" by (simp add: be_global_def)
  show ?thesis unfolding sm_BE_AUTH_Step_def if_P [OF g] by (rule be_init [OF True])
next
  case False
  then have g: "\<not> (portControl sm \<noteq> Auto \<or> initialize sm \<or> authAbort sm)" by (simp add: be_global_def)
  show ?thesis
    unfolding sm_BE_AUTH_Step_def if_not_P [OF g] be_response_def [symmetric] Let_def
    using False by (cases "be_auth_state sm") (auto intro: be_trans.intros simp: frame_simps)
qed

text \<open>What a step of the four small machines can be.\<close>

lemma reauth_step_forms:
  "sm_REAUTH_TIMER_Step sm \<in> {sm, sm_REAUTH_TIMER_INITIALIZE_Enter True sm,
     sm_REAUTH_TIMER_INITIALIZE_Enter False sm, sm_REAUTH_TIMER_REAUTHENTICATE_Enter False sm}"
  by (simp add: sm_REAUTH_TIMER_Step_def split: reauth_timer_st.split)

lemma key_tx_step_forms:
  "sm_AUTH_KEY_TX_Step sm \<in> {sm, sm_AUTH_KEY_TX_NO_KEY_TRANSMIT_Enter True sm,
     sm_AUTH_KEY_TX_NO_KEY_TRANSMIT_Enter False sm, sm_AUTH_KEY_TX_KEY_TRANSMIT_Enter False sm}"
  by (simp add: sm_AUTH_KEY_TX_Step_def split: auth_key_tx_st.split)

lemma key_rx_step_forms:
  "sm_KEY_RX_Step sm \<in> {sm, sm_KEY_RX_NO_KEY_RECEIVE_Enter True sm,
     sm_KEY_RX_KEY_RECEIVE_Enter False sm}"
  by (simp add: sm_KEY_RX_Step_def split: key_rx_st.split)

lemma ctrl_dir_step_forms:
  "sm_CTRL_DIR_Step sm \<in> {sm, sm_CTRL_DIR_IN_OR_BOTH_Enter True sm,
     sm_CTRL_DIR_IN_OR_BOTH_Enter False sm, sm_CTRL_DIR_FORCE_BOTH_Enter False sm,
     sm_CTRL_DIR_FORCE_BOTH_Enter False (sm_CTRL_DIR_IN_OR_BOTH_Enter False sm)}"
  by (simp add: sm_CTRL_DIR_Step_def Let_def whenb_def split: ctrl_dir_st.split)


end
