(* ===== verification/EapolLoop.thy ===== *)
theory EapolLoop
  imports EapolFrame
begin

text \<open>
  The loop of \<open>eapol_sm_step_run\<close> comes to rest within its hundred rounds. Each machine has a rank
  that bounds how often it can still change its state; the ranks, weighted so that a change of
  the authenticator PAE pays for what it starts in the backend, sum to at most 48.
\<close>

subsection \<open>The loop comes to rest\<close>

text \<open>
  A rank for each machine: how many more times it can change its state while nothing outside
  happens. \<open>resources\<close> are the flags that the backend consumes.
\<close>

definition pae_rank :: "eapol_sm \<Rightarrow> nat" where
  "pae_rank sm =
     (if initialize sm \<or> \<not> portEnabled (eap_if sm)
      then (if auth_pae_state sm = AUTH_PAE_INITIALIZE then 0 else 1)
      else if portControl sm = Auto \<and> portMode sm \<noteq> Auto then 3
      else if portControl sm \<in> {ForceAuthorized, ForceUnauthorized} \<and> portMode sm \<noteq> portControl sm
      then 1
      else case auth_pae_state sm of
        AUTH_PAE_INITIALIZE \<Rightarrow> 2 | AUTH_PAE_DISCONNECTED \<Rightarrow> 1
      | AUTH_PAE_RESTART \<Rightarrow> if eapRestart (eap_if sm) then 0 else 5
      | AUTH_PAE_CONNECTING \<Rightarrow> 4 | AUTH_PAE_AUTHENTICATING \<Rightarrow> 3 | AUTH_PAE_AUTHENTICATED \<Rightarrow> 2
      | AUTH_PAE_ABORTING \<Rightarrow> 2 | AUTH_PAE_HELD \<Rightarrow> 1
      | AUTH_PAE_FORCE_AUTH \<Rightarrow> if portMode sm = ForceAuthorized then 0 else 4
      | AUTH_PAE_FORCE_UNAUTH \<Rightarrow> if portMode sm = ForceUnauthorized then 0 else 4)"

definition resources :: "eapol_sm \<Rightarrow> nat" where
  "resources sm = of_bool (eapolEap sm) + of_bool (eapReq (eap_if sm)) + of_bool (eapNoReq (eap_if sm))"

definition be_rank :: "eapol_sm \<Rightarrow> nat" where
  "be_rank sm =
     (if portControl sm \<noteq> Auto \<or> initialize sm
      then (if be_auth_state sm = BE_AUTH_INITIALIZE then 0 else 1)
      else if authAbort sm then 2
      else case be_auth_state sm of
        BE_AUTH_IDLE \<Rightarrow> if authStart sm then 3 + resources sm else 0
      | BE_AUTH_REQUEST \<Rightarrow> 2 + resources sm | BE_AUTH_RESPONSE \<Rightarrow> 2 + resources sm
      | BE_AUTH_IGNORE \<Rightarrow> 2 + resources sm
      | _ \<Rightarrow> 1)"

definition reauth_rank :: "eapol_sm \<Rightarrow> nat" where
  "reauth_rank sm =
     (if reauth_timer_state sm = REAUTH_TIMER_REAUTHENTICATE then 1
      else if reAuthEnabled sm \<and> reAuthWhen sm = 0 then 2 else 0)"

definition key_tx_rank :: "eapol_sm \<Rightarrow> nat" where
  "key_tx_rank sm = of_bool (auth_key_tx_state sm = AUTH_KEY_TX_KEY_TRANSMIT) +
     2 * of_bool (eapKeyAvailable (eap_if sm))"

definition key_rx_rank :: "eapol_sm \<Rightarrow> nat" where
  "key_rx_rank sm = of_bool ((key_rx_state sm = KEY_RX_KEY_RECEIVE) =
     (initialize sm \<or> \<not> portEnabled (eap_if sm)))"

definition ctrl_dir_rank :: "eapol_sm \<Rightarrow> nat" where
  "ctrl_dir_rank sm = of_bool ((ctrl_dir_state sm = CTRL_DIR_FORCE_BOTH) =
     (initialize sm \<or> portEnabled (eap_if sm) \<and> operEdge sm))"

definition rank :: "eapol_sm \<Rightarrow> nat" where
  "rank sm = 7 * pae_rank sm + be_rank sm + reauth_rank sm + key_tx_rank sm + key_rx_rank sm +
     ctrl_dir_rank sm"

lemmas rank_defs = pae_rank_def be_rank_def resources_def reauth_rank_def key_tx_rank_def
  key_rx_rank_def ctrl_dir_rank_def

lemma rank_le: "rank sm \<le> 48"
proof -
  have "pae_rank sm \<le> 5" "be_rank sm \<le> 6" "reauth_rank sm \<le> 2" "key_tx_rank sm \<le> 3"
    "key_rx_rank sm \<le> 1" "ctrl_dir_rank sm \<le> 1"
    by (auto simp: rank_defs of_bool_def split: auth_pae_st.split be_auth_st.split)
  then show ?thesis by (simp add: rank_def)
qed

lemma be_rank_bound: "be_rank sm \<le> 6"
  by (auto simp: rank_defs of_bool_def split: be_auth_st.split)

text \<open>The authenticator PAE.\<close>

lemma pae_step_rank:
  "pae_rank (sm_AUTH_PAE_Step sm) \<le> pae_rank sm \<and>
   (auth_pae_state (sm_AUTH_PAE_Step sm) \<noteq> auth_pae_state sm \<longrightarrow>
    pae_rank (sm_AUTH_PAE_Step sm) < pae_rank sm)"
  using pae_step_trans [of sm]
  by (cases rule: pae_trans.cases) (auto simp: pae_rank_def pae_global_def frame_simps)

lemma be_rank_cong:
  "portControl s = portControl t \<Longrightarrow> initialize s = initialize t \<Longrightarrow> authAbort s = authAbort t \<Longrightarrow>
   be_auth_state s = be_auth_state t \<Longrightarrow> authStart s = authStart t \<Longrightarrow> eapolEap s = eapolEap t \<Longrightarrow>
   eapReq (eap_if s) = eapReq (eap_if t) \<Longrightarrow> eapNoReq (eap_if s) = eapNoReq (eap_if t) \<Longrightarrow>
   be_rank s = be_rank t"
  by (cases "be_auth_state t") (simp_all add: be_rank_def resources_def)

lemma pae_step_others:
  "reauth_rank (sm_AUTH_PAE_Step sm) = reauth_rank sm"
  "key_tx_rank (sm_AUTH_PAE_Step sm) = key_tx_rank sm"
  "key_rx_rank (sm_AUTH_PAE_Step sm) = key_rx_rank sm"
  "ctrl_dir_rank (sm_AUTH_PAE_Step sm) = ctrl_dir_rank sm"
proof -
  note trans = pae_step_trans [of sm]
  show "reauth_rank (sm_AUTH_PAE_Step sm) = reauth_rank sm"
    using trans by (cases rule: pae_trans.cases) (simp_all add: reauth_rank_def frame_simps)
  show "key_tx_rank (sm_AUTH_PAE_Step sm) = key_tx_rank sm"
    using trans by (cases rule: pae_trans.cases) (simp_all add: key_tx_rank_def frame_simps)
  show "key_rx_rank (sm_AUTH_PAE_Step sm) = key_rx_rank sm"
    using trans by (cases rule: pae_trans.cases) (simp_all add: key_rx_rank_def frame_simps)
  show "ctrl_dir_rank (sm_AUTH_PAE_Step sm) = ctrl_dir_rank sm"
    using trans by (cases rule: pae_trans.cases) (simp_all add: ctrl_dir_rank_def frame_simps)
qed

lemma pae_step_be_rank:
  assumes "auth_pae_state (sm_AUTH_PAE_Step sm) = auth_pae_state sm"
  shows "be_rank (sm_AUTH_PAE_Step sm) = be_rank sm"
  using pae_step_trans [of sm] assms
  by (cases rule: pae_trans.cases) (auto simp: frame_simps intro!: be_rank_cong)

text \<open>The backend: it leaves the rank of the others alone.\<close>

lemma be_response_more [frame_simps]:
  "portControl (be_response sm) = portControl sm" "initialize (be_response sm) = initialize sm"
  "authAbort (be_response sm) = authAbort sm" "authStart (be_response sm) = authStart sm"
  "eapolEap (be_response sm) = eapolEap sm" "portMode (be_response sm) = portMode sm"
  "auth_pae_state (be_response sm) = auth_pae_state sm"
  "reauth_timer_state (be_response sm) = reauth_timer_state sm"
  "reAuthEnabled (be_response sm) = reAuthEnabled sm" "reAuthWhen (be_response sm) = reAuthWhen sm"
  "auth_key_tx_state (be_response sm) = auth_key_tx_state sm"
  "key_rx_state (be_response sm) = key_rx_state sm" "ctrl_dir_state (be_response sm) = ctrl_dir_state sm"
  "operEdge (be_response sm) = operEdge sm"
  "be_auth_state (be_response sm) =
     (if eapNoReq (eap_if sm) then BE_AUTH_IGNORE else be_auth_state sm)"
  by (simp_all add: be_response_def frame_simps)

lemma be_step_rank:
  "be_rank (sm_BE_AUTH_Step sm) \<le> be_rank sm \<and>
   (be_auth_state (sm_BE_AUTH_Step sm) \<noteq> be_auth_state sm \<longrightarrow>
    be_rank (sm_BE_AUTH_Step sm) < be_rank sm)"
  using be_step_trans [of sm]
  by (cases rule: be_trans.cases) (auto simp: be_rank_def resources_def be_global_def frame_simps)

lemma be_step_others:
  "reauth_rank (sm_BE_AUTH_Step sm) = reauth_rank sm"
  "key_tx_rank (sm_BE_AUTH_Step sm) = key_tx_rank sm"
  "key_rx_rank (sm_BE_AUTH_Step sm) = key_rx_rank sm"
  "ctrl_dir_rank (sm_BE_AUTH_Step sm) = ctrl_dir_rank sm"
  "pae_rank (sm_BE_AUTH_Step sm) = pae_rank sm"
proof -
  note trans = be_step_trans [of sm]
  show "reauth_rank (sm_BE_AUTH_Step sm) = reauth_rank sm"
    using trans by (cases rule: be_trans.cases) (simp_all add: reauth_rank_def frame_simps)
  show "key_tx_rank (sm_BE_AUTH_Step sm) = key_tx_rank sm"
    using trans by (cases rule: be_trans.cases) (simp_all add: key_tx_rank_def frame_simps)
  show "key_rx_rank (sm_BE_AUTH_Step sm) = key_rx_rank sm"
    using trans by (cases rule: be_trans.cases) (simp_all add: key_rx_rank_def frame_simps)
  show "ctrl_dir_rank (sm_BE_AUTH_Step sm) = ctrl_dir_rank sm"
    using trans by (cases rule: be_trans.cases) (simp_all add: ctrl_dir_rank_def frame_simps)
  show "pae_rank (sm_BE_AUTH_Step sm) = pae_rank sm"
    using trans by (cases rule: be_trans.cases) (simp_all add: pae_rank_def frame_simps)
qed

text \<open>
  The other machines. The reauthentication timer needs a period: with a period of 0 it would go
  round between its two states for ever.
\<close>

definition reauth_period_ok :: "eapol_sm \<Rightarrow> bool" where
  "reauth_period_ok sm \<longleftrightarrow> (reAuthEnabled sm \<longrightarrow> sint (reAuthPeriod sm) \<noteq> 0)"

lemmas small_steps = sm_REAUTH_TIMER_Step_def sm_AUTH_KEY_TX_Step_def sm_KEY_RX_Step_def
  sm_CTRL_DIR_Step_def

lemma reauth_step_rank:
  assumes "reauth_period_ok sm"
  shows "reauth_rank (sm_REAUTH_TIMER_Step sm) \<le> reauth_rank sm \<and>
    (reauth_timer_state (sm_REAUTH_TIMER_Step sm) \<noteq> reauth_timer_state sm \<longrightarrow>
     reauth_rank (sm_REAUTH_TIMER_Step sm) < reauth_rank sm)"
  using assms
  by (cases "reauth_timer_state sm")
    (auto simp: sm_REAUTH_TIMER_Step_def reauth_rank_def reauth_period_ok_def frame_simps)

lemma key_tx_step_rank:
  "key_tx_rank (sm_AUTH_KEY_TX_Step sm) \<le> key_tx_rank sm \<and>
   (auth_key_tx_state (sm_AUTH_KEY_TX_Step sm) \<noteq> auth_key_tx_state sm \<longrightarrow>
    key_tx_rank (sm_AUTH_KEY_TX_Step sm) < key_tx_rank sm)"
  by (cases "auth_key_tx_state sm") (auto simp: sm_AUTH_KEY_TX_Step_def key_tx_rank_def frame_simps)

lemma key_rx_step_rank:
  "key_rx_rank (sm_KEY_RX_Step sm) \<le> key_rx_rank sm \<and>
   (key_rx_state (sm_KEY_RX_Step sm) \<noteq> key_rx_state sm \<longrightarrow>
    key_rx_rank (sm_KEY_RX_Step sm) < key_rx_rank sm)"
  by (cases "key_rx_state sm") (auto simp: sm_KEY_RX_Step_def key_rx_rank_def frame_simps)

lemma ctrl_dir_step_rank:
  "ctrl_dir_rank (sm_CTRL_DIR_Step sm) \<le> ctrl_dir_rank sm \<and>
   (ctrl_dir_state (sm_CTRL_DIR_Step sm) \<noteq> ctrl_dir_state sm \<longrightarrow>
    ctrl_dir_rank (sm_CTRL_DIR_Step sm) < ctrl_dir_rank sm)"
  by (cases "ctrl_dir_state sm")
    (auto simp: sm_CTRL_DIR_Step_def ctrl_dir_rank_def Let_def frame_simps)

text \<open>
  A machine step never raises the whole rank, and lowers it when it changes a state; it keeps the
  configuration of the reauthentication timer and registers nothing with the event loop.
\<close>

definition quiet :: "eapol_sm \<Rightarrow> eapol_sm \<Rightarrow> bool" where
  "quiet s t \<longleftrightarrow> rank t \<le> rank s \<and> (machine_states t \<noteq> machine_states s \<longrightarrow> rank t < rank s) \<and>
     reAuthEnabled t = reAuthEnabled s \<and> reAuthPeriod t = reAuthPeriod s \<and>
     count_list (outputs t) RegisterStep = count_list (outputs s) RegisterStep"

lemma quiet_none: "quiet s s"
  by (simp add: quiet_def)

lemma quiet_then:
  assumes "quiet s t" and "quiet t u"
  shows "quiet s u"
proof -
  have "rank u < rank s" if "machine_states u \<noteq> machine_states s"
    using assms that unfolding quiet_def by (cases "machine_states t = machine_states s") auto
  then show ?thesis using assms by (simp add: quiet_def)
qed

lemma quiet_whenb: "(b \<Longrightarrow> quiet s (f s)) \<Longrightarrow> quiet s (whenb b f s)"
  by (simp add: whenb_def quiet_none)

lemma tx_req_count [simp]: "count_list (tx_req_out sm) RegisterStep = 0"
  by (simp add: tx_req_out_def split: option.split)

lemma pae_step_frame:
  "be_auth_state (sm_AUTH_PAE_Step sm) = be_auth_state sm"
  "reauth_timer_state (sm_AUTH_PAE_Step sm) = reauth_timer_state sm"
  "auth_key_tx_state (sm_AUTH_PAE_Step sm) = auth_key_tx_state sm"
  "key_rx_state (sm_AUTH_PAE_Step sm) = key_rx_state sm"
  "ctrl_dir_state (sm_AUTH_PAE_Step sm) = ctrl_dir_state sm"
  "reAuthEnabled (sm_AUTH_PAE_Step sm) = reAuthEnabled sm"
  "reAuthPeriod (sm_AUTH_PAE_Step sm) = reAuthPeriod sm"
  "count_list (outputs (sm_AUTH_PAE_Step sm)) RegisterStep = count_list (outputs sm) RegisterStep"
  using pae_step_trans [of sm] by (cases rule: pae_trans.cases; simp add: frame_simps)+

lemma quiet_pae: "quiet sm (sm_AUTH_PAE_Step sm)"
proof -
  let ?t = "sm_AUTH_PAE_Step sm"
  have "be_rank ?t \<le> be_rank sm + 6" using be_rank_bound [of ?t] by simp
  moreover have "be_rank ?t = be_rank sm" if "auth_pae_state ?t = auth_pae_state sm"
    using that by (rule pae_step_be_rank)
  ultimately show ?thesis
    using pae_step_rank [of sm]
    by (cases "auth_pae_state ?t = auth_pae_state sm")
      (auto simp: quiet_def rank_def machine_states_def pae_step_others pae_step_frame)
qed

lemma be_step_frame:
  "auth_pae_state (sm_BE_AUTH_Step sm) = auth_pae_state sm"
  "reauth_timer_state (sm_BE_AUTH_Step sm) = reauth_timer_state sm"
  "auth_key_tx_state (sm_BE_AUTH_Step sm) = auth_key_tx_state sm"
  "key_rx_state (sm_BE_AUTH_Step sm) = key_rx_state sm"
  "ctrl_dir_state (sm_BE_AUTH_Step sm) = ctrl_dir_state sm"
  "reAuthEnabled (sm_BE_AUTH_Step sm) = reAuthEnabled sm"
  "reAuthPeriod (sm_BE_AUTH_Step sm) = reAuthPeriod sm"
  "count_list (outputs (sm_BE_AUTH_Step sm)) RegisterStep = count_list (outputs sm) RegisterStep"
  using be_step_trans [of sm]
  by (cases rule: be_trans.cases; simp add: frame_simps be_response_def tx_req_count)+

lemma quiet_be: "quiet sm (sm_BE_AUTH_Step sm)"
  using be_step_rank [of sm]
  by (auto simp: quiet_def rank_def machine_states_def be_step_others be_step_frame)

lemma pae_rank_cong:
  "initialize s = initialize t \<Longrightarrow> portEnabled (eap_if s) = portEnabled (eap_if t) \<Longrightarrow>
   eapRestart (eap_if s) = eapRestart (eap_if t) \<Longrightarrow> portControl s = portControl t \<Longrightarrow>
   portMode s = portMode t \<Longrightarrow> auth_pae_state s = auth_pae_state t \<Longrightarrow> pae_rank s = pae_rank t"
  by (simp add: pae_rank_def)

lemmas small_rank_defs = reauth_rank_def key_tx_rank_def key_rx_rank_def ctrl_dir_rank_def

lemma reauth_step_fields:
  "initialize (sm_REAUTH_TIMER_Step sm) = initialize sm"
  "portControl (sm_REAUTH_TIMER_Step sm) = portControl sm"
  "portMode (sm_REAUTH_TIMER_Step sm) = portMode sm"
  "auth_pae_state (sm_REAUTH_TIMER_Step sm) = auth_pae_state sm"
  "authAbort (sm_REAUTH_TIMER_Step sm) = authAbort sm"
  "be_auth_state (sm_REAUTH_TIMER_Step sm) = be_auth_state sm"
  "authStart (sm_REAUTH_TIMER_Step sm) = authStart sm"
  "eapolEap (sm_REAUTH_TIMER_Step sm) = eapolEap sm"
  "reAuthEnabled (sm_REAUTH_TIMER_Step sm) = reAuthEnabled sm"
  "reAuthPeriod (sm_REAUTH_TIMER_Step sm) = reAuthPeriod sm"
  "operEdge (sm_REAUTH_TIMER_Step sm) = operEdge sm"
  "auth_key_tx_state (sm_REAUTH_TIMER_Step sm) = auth_key_tx_state sm"
  "key_rx_state (sm_REAUTH_TIMER_Step sm) = key_rx_state sm"
  "ctrl_dir_state (sm_REAUTH_TIMER_Step sm) = ctrl_dir_state sm"
  "portEnabled (eap_if (sm_REAUTH_TIMER_Step sm)) = portEnabled (eap_if sm)"
  "eapRestart (eap_if (sm_REAUTH_TIMER_Step sm)) = eapRestart (eap_if sm)"
  "eapReq (eap_if (sm_REAUTH_TIMER_Step sm)) = eapReq (eap_if sm)"
  "eapNoReq (eap_if (sm_REAUTH_TIMER_Step sm)) = eapNoReq (eap_if sm)"
  "eapKeyAvailable (eap_if (sm_REAUTH_TIMER_Step sm)) = eapKeyAvailable (eap_if sm)"
  "count_list (outputs (sm_REAUTH_TIMER_Step sm)) RegisterStep = count_list (outputs sm) RegisterStep"
  using reauth_step_forms [of sm] by (auto simp: frame_simps)

lemma key_tx_step_fields:
  "initialize (sm_AUTH_KEY_TX_Step sm) = initialize sm"
  "portControl (sm_AUTH_KEY_TX_Step sm) = portControl sm"
  "portMode (sm_AUTH_KEY_TX_Step sm) = portMode sm"
  "auth_pae_state (sm_AUTH_KEY_TX_Step sm) = auth_pae_state sm"
  "authAbort (sm_AUTH_KEY_TX_Step sm) = authAbort sm"
  "be_auth_state (sm_AUTH_KEY_TX_Step sm) = be_auth_state sm"
  "authStart (sm_AUTH_KEY_TX_Step sm) = authStart sm"
  "eapolEap (sm_AUTH_KEY_TX_Step sm) = eapolEap sm"
  "reAuthEnabled (sm_AUTH_KEY_TX_Step sm) = reAuthEnabled sm"
  "reAuthPeriod (sm_AUTH_KEY_TX_Step sm) = reAuthPeriod sm"
  "operEdge (sm_AUTH_KEY_TX_Step sm) = operEdge sm"
  "reauth_timer_state (sm_AUTH_KEY_TX_Step sm) = reauth_timer_state sm"
  "reAuthWhen (sm_AUTH_KEY_TX_Step sm) = reAuthWhen sm"
  "key_rx_state (sm_AUTH_KEY_TX_Step sm) = key_rx_state sm"
  "ctrl_dir_state (sm_AUTH_KEY_TX_Step sm) = ctrl_dir_state sm"
  "portEnabled (eap_if (sm_AUTH_KEY_TX_Step sm)) = portEnabled (eap_if sm)"
  "eapRestart (eap_if (sm_AUTH_KEY_TX_Step sm)) = eapRestart (eap_if sm)"
  "eapReq (eap_if (sm_AUTH_KEY_TX_Step sm)) = eapReq (eap_if sm)"
  "eapNoReq (eap_if (sm_AUTH_KEY_TX_Step sm)) = eapNoReq (eap_if sm)"
  "count_list (outputs (sm_AUTH_KEY_TX_Step sm)) RegisterStep = count_list (outputs sm) RegisterStep"
  using key_tx_step_forms [of sm] by (auto simp: frame_simps)

lemma key_rx_step_fields:
  "initialize (sm_KEY_RX_Step sm) = initialize sm"
  "portControl (sm_KEY_RX_Step sm) = portControl sm" "portMode (sm_KEY_RX_Step sm) = portMode sm"
  "auth_pae_state (sm_KEY_RX_Step sm) = auth_pae_state sm"
  "authAbort (sm_KEY_RX_Step sm) = authAbort sm"
  "be_auth_state (sm_KEY_RX_Step sm) = be_auth_state sm"
  "authStart (sm_KEY_RX_Step sm) = authStart sm" "eapolEap (sm_KEY_RX_Step sm) = eapolEap sm"
  "reAuthEnabled (sm_KEY_RX_Step sm) = reAuthEnabled sm"
  "reAuthPeriod (sm_KEY_RX_Step sm) = reAuthPeriod sm" "operEdge (sm_KEY_RX_Step sm) = operEdge sm"
  "reauth_timer_state (sm_KEY_RX_Step sm) = reauth_timer_state sm"
  "reAuthWhen (sm_KEY_RX_Step sm) = reAuthWhen sm"
  "auth_key_tx_state (sm_KEY_RX_Step sm) = auth_key_tx_state sm"
  "ctrl_dir_state (sm_KEY_RX_Step sm) = ctrl_dir_state sm"
  "portEnabled (eap_if (sm_KEY_RX_Step sm)) = portEnabled (eap_if sm)"
  "eapRestart (eap_if (sm_KEY_RX_Step sm)) = eapRestart (eap_if sm)"
  "eapReq (eap_if (sm_KEY_RX_Step sm)) = eapReq (eap_if sm)"
  "eapNoReq (eap_if (sm_KEY_RX_Step sm)) = eapNoReq (eap_if sm)"
  "eapKeyAvailable (eap_if (sm_KEY_RX_Step sm)) = eapKeyAvailable (eap_if sm)"
  "count_list (outputs (sm_KEY_RX_Step sm)) RegisterStep = count_list (outputs sm) RegisterStep"
  using key_rx_step_forms [of sm] by (auto simp: frame_simps)

lemma ctrl_dir_step_fields:
  "initialize (sm_CTRL_DIR_Step sm) = initialize sm"
  "portControl (sm_CTRL_DIR_Step sm) = portControl sm"
  "portMode (sm_CTRL_DIR_Step sm) = portMode sm"
  "auth_pae_state (sm_CTRL_DIR_Step sm) = auth_pae_state sm"
  "authAbort (sm_CTRL_DIR_Step sm) = authAbort sm"
  "be_auth_state (sm_CTRL_DIR_Step sm) = be_auth_state sm"
  "authStart (sm_CTRL_DIR_Step sm) = authStart sm" "eapolEap (sm_CTRL_DIR_Step sm) = eapolEap sm"
  "reAuthEnabled (sm_CTRL_DIR_Step sm) = reAuthEnabled sm"
  "reAuthPeriod (sm_CTRL_DIR_Step sm) = reAuthPeriod sm"
  "operEdge (sm_CTRL_DIR_Step sm) = operEdge sm"
  "reauth_timer_state (sm_CTRL_DIR_Step sm) = reauth_timer_state sm"
  "reAuthWhen (sm_CTRL_DIR_Step sm) = reAuthWhen sm"
  "auth_key_tx_state (sm_CTRL_DIR_Step sm) = auth_key_tx_state sm"
  "key_rx_state (sm_CTRL_DIR_Step sm) = key_rx_state sm"
  "portEnabled (eap_if (sm_CTRL_DIR_Step sm)) = portEnabled (eap_if sm)"
  "eapRestart (eap_if (sm_CTRL_DIR_Step sm)) = eapRestart (eap_if sm)"
  "eapReq (eap_if (sm_CTRL_DIR_Step sm)) = eapReq (eap_if sm)"
  "eapNoReq (eap_if (sm_CTRL_DIR_Step sm)) = eapNoReq (eap_if sm)"
  "eapKeyAvailable (eap_if (sm_CTRL_DIR_Step sm)) = eapKeyAvailable (eap_if sm)"
  "count_list (outputs (sm_CTRL_DIR_Step sm)) RegisterStep = count_list (outputs sm) RegisterStep"
  using ctrl_dir_step_forms [of sm] by (auto simp: frame_simps)

lemma quiet_small:
  "reauth_period_ok sm \<Longrightarrow> quiet sm (sm_REAUTH_TIMER_Step sm)"
  "quiet sm (sm_AUTH_KEY_TX_Step sm)"
  "quiet sm (sm_KEY_RX_Step sm)"
  "quiet sm (sm_CTRL_DIR_Step sm)"
proof -
  let ?t = "sm_REAUTH_TIMER_Step sm"
  have "pae_rank ?t = pae_rank sm" "be_rank ?t = be_rank sm"
    by (auto intro!: pae_rank_cong be_rank_cong simp: reauth_step_fields)
  then show "reauth_period_ok sm \<Longrightarrow> quiet sm ?t"
    using reauth_step_rank [of sm]
    by (auto simp: quiet_def rank_def machine_states_def reauth_step_fields
        key_tx_rank_def key_rx_rank_def ctrl_dir_rank_def)
next
  let ?t = "sm_AUTH_KEY_TX_Step sm"
  have "pae_rank ?t = pae_rank sm" "be_rank ?t = be_rank sm"
    by (auto intro!: pae_rank_cong be_rank_cong simp: key_tx_step_fields)
  then show "quiet sm ?t"
    using key_tx_step_rank [of sm]
    by (auto simp: quiet_def rank_def machine_states_def key_tx_step_fields
        reauth_rank_def key_rx_rank_def ctrl_dir_rank_def)
next
  let ?t = "sm_KEY_RX_Step sm"
  have "pae_rank ?t = pae_rank sm" "be_rank ?t = be_rank sm"
    by (auto intro!: pae_rank_cong be_rank_cong simp: key_rx_step_fields)
  then show "quiet sm ?t"
    using key_rx_step_rank [of sm]
    by (auto simp: quiet_def rank_def machine_states_def key_rx_step_fields
        reauth_rank_def key_tx_rank_def ctrl_dir_rank_def)
next
  let ?t = "sm_CTRL_DIR_Step sm"
  have "pae_rank ?t = pae_rank sm" "be_rank ?t = be_rank sm"
    by (auto intro!: pae_rank_cong be_rank_cong simp: ctrl_dir_step_fields)
  then show "quiet sm ?t"
    using ctrl_dir_step_rank [of sm]
    by (auto simp: quiet_def rank_def machine_states_def ctrl_dir_step_fields
        reauth_rank_def key_tx_rank_def key_rx_rank_def)
qed

lemma quiet_period: "quiet s t \<Longrightarrow> reauth_period_ok t = reauth_period_ok s"
  by (simp add: quiet_def reauth_period_ok_def)

lemma quiet_pass:
  assumes "reauth_period_ok sm"
  shows "quiet sm (sm_pass alive sm)"
proof -
  have step: "quiet sm (whenb b f s)"
    if "quiet sm s" "\<And>s. reauth_period_ok s \<Longrightarrow> quiet s (f s)" for b f s
    using that assms by (metis quiet_period quiet_then quiet_whenb)
  show ?thesis
    unfolding sm_pass_def Let_def
    by (intro step quiet_pae) (auto intro: quiet_pae quiet_be quiet_small)
qed

text \<open>The server asked nothing more of the machines.\<close>

lemma after_pass_quiet:
  assumes "\<And>e i. \<not> snd (snd (eap_step e i))"
    and "sm_after_pass alive eap_step sm e = (sm', e', again)"
  shows "\<not> again \<and> count_list (outputs sm') RegisterStep = count_list (outputs sm) RegisterStep"
proof -
  obtain e1 i1 b where s: "eap_step e (eap_if sm) = (e1, i1, b)" by (cases "eap_step e (eap_if sm)")
  with assms(1) [of e "eap_if sm"] have "\<not> b" by simp
  then show ?thesis
    using assms(2) s
    by (auto simp: sm_after_pass_def emit_def whenb_def Let_def split: if_splits option.splits)
qed

lemma step_run_loop_rest:
  assumes idle: "\<And>e i. \<not> snd (snd (eap_step e i))"
  shows "reauth_period_ok sm \<Longrightarrow> rank sm < n \<Longrightarrow>
    count_list (outputs (fst (step_run_loop alive eap_step n sm e))) RegisterStep =
    count_list (outputs sm) RegisterStep"
proof (induction n arbitrary: sm e)
  case (Suc n)
  have q: "quiet sm (sm_pass alive sm)" by (rule quiet_pass [OF Suc.prems(1)])
  obtain sm' e' b where a: "sm_after_pass alive eap_step (sm_pass alive sm) e = (sm', e', b)"
    by (cases "sm_after_pass alive eap_step (sm_pass alive sm) e")
  note after = after_pass_quiet [OF idle a]
  show ?case
  proof (cases "machine_states sm = machine_states (sm_pass alive sm)")
    case True
    then show ?thesis using after q a by (simp add: quiet_def)
  next
    case False
    then have "rank (sm_pass alive sm) < n" using q Suc.prems(2) by (auto simp: quiet_def)
    then show ?thesis
      using False Suc.IH [of "sm_pass alive sm"] q Suc.prems(1) quiet_period [OF q]
      by (simp add: quiet_def Let_def)
  qed
qed simp

text \<open>
  C26: The loop over the machines comes to rest. Whatever the state, the callbacks and the
  interface variables, when the EAP server asks for no further round, \<open>eapol_sm_step_run\<close> stops by
  itself: it never uses up its hundred rounds, so it never registers itself with the event loop.
  The reauthentication timer must not be enabled with a period of 0, which no allocation does.
\<close>

theorem eapol_sm_step_run_rests:
  assumes "\<And>e i. \<not> snd (snd (eap_step e i))"
    and "reAuthEnabled sm \<longrightarrow> sint (reAuthPeriod sm) \<noteq> 0"
  shows "count_list (outputs (fst (eapol_sm_step_run alive eap_step sm e))) RegisterStep =
    count_list (outputs sm) RegisterStep"
proof -
  have "rank sm < 100" using rank_le [of sm] by simp
  then show ?thesis
    unfolding eapol_sm_step_run_def
    using assms step_run_loop_rest [of eap_step sm 100 alive e] by (simp add: reauth_period_ok_def)
qed

theorem eapol_sm_step_run_rests_witness:
  "\<forall>i. count_list (outputs (fst (eapol_sm_step_run (\<lambda>_. True) (\<lambda>e i. (e, i, False))
     (eapol_sm_new \<lparr>conf_wpa = True, conf_eap_reauth_period = 3600, conf_default_wep_key = False,
        conf_individual_wep_key_len = 0\<rparr> 4 i) ()))) RegisterStep = 0"
  by (subst eapol_sm_step_run_rests) (simp_all add: eapol_sm_new_def)

end
