(* ===== verification/HashBase.thy ===== *)
theory HashBase
  imports Common
begin

text \<open>
  What the two hash functions of the firmware share: cutting a message into 64-octet blocks,
  the interface of a hash over a vector of buffers, and the HMAC and chunking facts that follow
  from it. SHA-1 and MD5 provide the interface.
\<close>

subsection \<open>Blocks\<close>

function chunks64 :: "bytes \<Rightarrow> bytes list" where
  "chunks64 bs = (if length bs < 64 then [] else take 64 bs # chunks64 (drop 64 bs))"
  by pat_completeness auto
termination
  by (relation "measure length") auto

declare chunks64.simps [simp del]

lemma chunks64_short [simp]: "length bs < 64 \<Longrightarrow> chunks64 bs = []"
  by (simp add: chunks64.simps)

lemma chunks64_block: "length b = 64 \<Longrightarrow> chunks64 (b @ bs) = b # chunks64 bs"
  by (subst chunks64.simps) simp

lemma chunks64_append: "length a mod 64 = 0 \<Longrightarrow> chunks64 (a @ b) = chunks64 a @ chunks64 b"
proof (induction a rule: chunks64.induct)
  case (1 a)
  show ?case
  proof (cases "length a < 64")
    case True
    with 1(2) show ?thesis by simp
  next
    case False
    then have l: "length (take 64 a) = 64" and m: "length (drop 64 a) mod 64 = 0"
      using 1(2) by (auto simp: le_mod_geq)
    have "chunks64 (take 64 a @ drop 64 a @ b) = take 64 a # chunks64 (drop 64 a @ b)"
      by (rule chunks64_block [OF l])
    moreover have "chunks64 a = take 64 a # chunks64 (drop 64 a)"
      using False by (subst chunks64.simps) simp
    ultimately show ?thesis
      using 1(1) [OF False m] by (metis append.assoc append_Cons append_take_drop_id)
  qed
qed

lemma chunks64_append_block:
  "length a mod 64 = 0 \<Longrightarrow> length b = 64 \<Longrightarrow> chunks64 (a @ b) = chunks64 a @ [b]"
  using chunks64_block [of b "[]"] by (simp add: chunks64_append)

text \<open>The octets of a message after its last full block, and the full blocks.\<close>

definition tail64 :: "bytes \<Rightarrow> bytes" where
  "tail64 m = drop (64 * (length m div 64)) m"

definition full64 :: "bytes \<Rightarrow> bytes" where
  "full64 m = take (64 * (length m div 64)) m"

lemma full_tail: "m = full64 m @ tail64 m"
  by (simp add: full64_def tail64_def)

lemma length_tail64 [simp]: "length (tail64 m) = length m mod 64"
  by (simp add: tail64_def minus_mult_div_eq_mod)

lemma length_full64 [simp]: "length (full64 m) = 64 * (length m div 64)"
  by (simp add: full64_def)

lemma full_tail_unique:
  assumes "m = a @ t" and "length a mod 64 = 0" and "length t < 64"
  shows "full64 m = a" "tail64 m = t"
proof -
  have "64 * ((length a + length t) div 64) = length a"
    using assms(2,3) by (metis add.right_neutral div_less div_mult_self3 div_plus_div_distrib_dvd_left
        dvd_eq_mod_eq_0 dvd_mult_div_cancel)
  then show "full64 m = a" "tail64 m = t"
    by (simp_all add: assms(1) full64_def tail64_def)
qed

lemma chunks64_full: "chunks64 m = chunks64 (full64 m)"
proof -
  have "length (full64 m) mod 64 = 0" by simp
  then have "chunks64 (full64 m @ tail64 m) = chunks64 (full64 m) @ chunks64 (tail64 m)"
    by (rule chunks64_append)
  then show ?thesis by (simp add: full_tail [symmetric])
qed

text \<open>The 64-bit count of bits that a context keeps in two words.\<close>

definition bit_count_lo :: "bytes \<Rightarrow> u32" where
  "bit_count_lo m = of_nat (8 * length m)"

definition bit_count_hi :: "bytes \<Rightarrow> u32" where
  "bit_count_hi m = of_nat (8 * length m div 2 ^ 32)"

lemma bit_count_pos: "unat (drop_bit 3 (bit_count_lo m) AND 63) = length m mod 64"
proof -
  have eq: "(63 :: u32) = mask 6" by (simp add: mask_numeral)
  have "unat (drop_bit 3 (bit_count_lo m) AND 63) = take_bit 6 (drop_bit 3 (take_bit 32 (8 * length m)))"
    unfolding eq take_bit_eq_mask [symmetric]
    by (simp add: bit_count_lo_def unsigned_take_bit_eq unsigned_drop_bit_eq unsigned_of_nat
        del: of_nat_mult)
  also have "drop_bit 3 (take_bit 32 (8 * length m)) = take_bit 29 (length m)"
  proof -
    have eight: "8 * length m = push_bit 3 (length m)" by (simp add: push_bit_eq_mult)
    show ?thesis unfolding eight by (rule bit_eqI) (auto simp: bit_simps)
  qed
  finally have "unat (drop_bit 3 (bit_count_lo m) AND 63) = take_bit 6 (length m)" by simp
  then show ?thesis by (simp add: take_bit_eq_mod)
qed

lemma word_carry:
  fixes x y :: u32
  shows "x + y < y \<longleftrightarrow> 2 ^ 32 \<le> unat x + unat y" "x + y < x \<longleftrightarrow> 2 ^ 32 \<le> unat x + unat y"
proof -
  have b: "unat x < 2 ^ 32" "unat y < 2 ^ 32"
    using unsigned_less [of x, where 'a = nat] unsigned_less [of y, where 'a = nat] by simp_all
  have s: "unat (x + y) = (if 2 ^ 32 \<le> unat x + unat y then unat x + unat y - 2 ^ 32 else unat x + unat y)"
    using b by (simp add: unat_word_ariths le_mod_geq)
  show "x + y < y \<longleftrightarrow> 2 ^ 32 \<le> unat x + unat y" "x + y < x \<longleftrightarrow> 2 ^ 32 \<le> unat x + unat y"
    using b unfolding word_less_nat_alt s by auto
qed

lemma bit_count_lo_append:
  "bit_count_lo (m @ d) = bit_count_lo m + push_bit 3 (of_nat (length d))"
  by (simp add: bit_count_lo_def push_bit_eq_mult algebra_simps)

lemma bit_count_hi_append:
  fixes d :: bytes
  defines "len \<equiv> of_nat (length d) :: u32"
  assumes "length d < 2 ^ 32"
  shows "bit_count_hi (m @ d) =
    bit_count_hi m +
    (if 2 ^ 32 \<le> unat (bit_count_lo m) + unat (push_bit 3 len) then 1 else 0) + drop_bit 29 len"
proof -
  let ?A = "8 * length m" and ?L = "length d"
  have lo: "unat (bit_count_lo m) = ?A mod 2 ^ 32"
    by (simp add: bit_count_lo_def unsigned_of_nat take_bit_eq_mod del: of_nat_mult)
  have sh: "push_bit 3 len = of_nat (8 * ?L)"
    by (simp add: len_def push_bit_eq_mult)
  have lL: "unat (push_bit 3 len) = 8 * ?L mod 2 ^ 32"
    unfolding sh by (simp add: unsigned_of_nat take_bit_eq_mod del: of_nat_mult)
  have hi: "drop_bit 29 len = of_nat (8 * ?L div 2 ^ 32)"
  proof -
    have "unat (drop_bit 29 len) = ?L div 2 ^ 29"
      using assms(2) by (simp add: len_def unsigned_drop_bit_eq unsigned_of_nat take_bit_nat_eq_self)
        (simp add: drop_bit_eq_div)
    then have "of_nat (unat (drop_bit 29 len)) = (of_nat (?L div 2 ^ 29) :: u32)" by simp
    then show ?thesis by simp
  qed
  have "8 * length (m @ d) div 2 ^ 32 =
    ?A div 2 ^ 32 + 8 * ?L div 2 ^ 32 + (?A mod 2 ^ 32 + 8 * ?L mod 2 ^ 32) div 2 ^ 32"
    using div_add1_eq [of ?A "8 * ?L" "2 ^ 32"] by (simp add: algebra_simps)
  moreover have "(?A mod 2 ^ 32 + 8 * ?L mod 2 ^ 32) div 2 ^ 32 =
    (if 2 ^ 32 \<le> ?A mod 2 ^ 32 + 8 * ?L mod 2 ^ 32 then 1 else 0)"
  proof -
    have "x < k \<Longrightarrow> y < k \<Longrightarrow> (x + y) div k = (if k \<le> x + y then 1 else 0)" for x y k :: nat
      by (auto simp: div_if)
    then show ?thesis by simp
  qed
  ultimately show ?thesis
    unfolding bit_count_hi_def lo lL hi by simp
qed

text \<open>Feeding octets to a message: the full blocks grow and the rest becomes the new tail.\<close>

lemma feed_small:
  assumes "length m mod 64 + length d < 64"
  shows "chunks64 (m @ d) = chunks64 m" "tail64 (m @ d) = tail64 m @ d"
proof -
  have "m @ d = full64 m @ (tail64 m @ d)" using full_tail [of m] by simp
  from full_tail_unique [OF this] assms
  have *: "full64 (m @ d) = full64 m" "tail64 (m @ d) = tail64 m @ d" by simp_all
  show "tail64 (m @ d) = tail64 m @ d" by (rule *)
  show "chunks64 (m @ d) = chunks64 m"
    using chunks64_full [of "m @ d"] chunks64_full [of m] * by simp
qed

lemma feed_large:
  assumes "64 \<le> length m mod 64 + length d"
  defines "i \<equiv> 64 - length m mod 64"
  shows "chunks64 (m @ d) = chunks64 m @ (tail64 m @ take i d) # chunks64 (drop i d)"
    and "tail64 (m @ d) = tail64 (drop i d)"
proof -
  have i: "i \<le> length d" "i + length m mod 64 = 64" using assms by (auto simp: i_def)
  let ?b = "tail64 m @ take i d"
  have b: "length ?b = 64" using i by simp
  have eq: "m @ d = full64 m @ ?b @ drop i d"
    using full_tail [of m] by (metis append.assoc append_take_drop_id)
  have "chunks64 (m @ d) = chunks64 (full64 m) @ chunks64 (?b @ drop i d)"
    unfolding eq by (rule chunks64_append) simp
  also have "chunks64 (?b @ drop i d) = ?b # chunks64 (drop i d)" by (rule chunks64_block [OF b])
  finally show "chunks64 (m @ d) = chunks64 m @ ?b # chunks64 (drop i d)"
    by (simp add: chunks64_full [symmetric])
  have eq': "m @ d = (full64 m @ ?b @ full64 (drop i d)) @ tail64 (drop i d)"
    using eq full_tail [of "drop i d"] by simp
  show "tail64 (m @ d) = tail64 (drop i d)"
  proof (rule full_tail_unique(2) [OF eq'])
    show "length (full64 m @ ?b @ full64 (drop i d)) mod 64 = 0"
      unfolding length_append [of "full64 m"] length_append [of ?b] b length_full64 by simp
  qed simp
qed

text \<open>
  What the fields of a context hold when it stands for the message \<open>m\<close>: the state is the
  compression of the full blocks, the count is the number of bits, the buffer starts with the
  tail.
\<close>

definition fields_rep :: "('s \<Rightarrow> bytes \<Rightarrow> 's) \<Rightarrow> 's \<Rightarrow> bytes \<Rightarrow> 's \<Rightarrow> u32 \<Rightarrow> u32 \<Rightarrow> bytes \<Rightarrow> bool" where
  "fields_rep compress iv m st lo hi buf \<longleftrightarrow>
     st = foldl compress iv (chunks64 m) \<and> lo = bit_count_lo m \<and> hi = bit_count_hi m \<and>
     length buf = 64 \<and> take (length m mod 64) buf = tail64 m"

text \<open>\<open>os_memcpy(&buf[j], data, length data)\<close>.\<close>

definition memcpy_at :: "bytes \<Rightarrow> nat \<Rightarrow> bytes \<Rightarrow> bytes" where
  "memcpy_at buf j data = take j buf @ data @ drop (j + length data) buf"

lemma length_memcpy_at [len_simps]:
  "j + length data \<le> length buf \<Longrightarrow> length (memcpy_at buf j data) = length buf"
  by (simp add: memcpy_at_def)

lemma take_memcpy_at:
  "j \<le> length buf \<Longrightarrow> take (j + length data) (memcpy_at buf j data) = take j buf @ data"
  by (simp add: memcpy_at_def)

lemma memcpy_at_nil [simp]: "memcpy_at buf j [] = buf"
  by (simp add: memcpy_at_def)

text \<open>The message padded to whole blocks: a one bit, zeros, and the length in \<open>n\<close>.\<close>

definition pad_zeros :: "nat \<Rightarrow> nat" where
  "pad_zeros len = (119 - len mod 64) mod 64"

lemma pad_mod: "(len + 1 + z) mod 64 = (len mod 64 + 1 + z) mod (64 :: nat)"
  using mod_add_left_eq [of len 64 "1 + z"] by simp

lemma pad_zeros_fit: "(len + 1 + pad_zeros len) mod 64 = 56"
proof -
  have "(len + 1 + pad_zeros len) mod 64 = (len mod 64 + 1 + (119 - len mod 64) mod 64) mod 64"
    unfolding pad_zeros_def by (rule pad_mod)
  also have "\<dots> = (len mod 64 + 1 + (119 - len mod 64)) mod 64"
    by (rule mod_add_right_eq)
  also have "len mod 64 + 1 + (119 - len mod 64) = 120"
    using mod_less_divisor [of 64 len] by linarith
  finally show ?thesis by simp
qed

lemma pad_zeros_least: "z < pad_zeros len \<Longrightarrow> (len + 1 + z) mod 64 \<noteq> 56"
proof -
  assume z: "z < pad_zeros len"
  define r where "r = len mod 64"
  have r: "r < 64" by (simp add: r_def)
  have "(r + 1 + z) mod 64 \<noteq> 56"
  proof (cases "r \<le> 55")
    case True
    then have "(119 - r) mod 64 = 55 - r" using le_mod_geq [of 64 "119 - r"] by simp
    then have "r + 1 + z < 56" using z True by (simp add: pad_zeros_def r_def)
    then show ?thesis by simp
  next
    case False
    then have "(119 - r) mod 64 = 119 - r" by simp
    then have "r + 1 + z < 120" using z r by (simp add: pad_zeros_def r_def)
    then show ?thesis
      using False le_mod_geq [of 64 "r + 1 + z"] by (cases "r + 1 + z < 64") simp_all
  qed
  then show ?thesis unfolding pad_mod [of len z] r_def .
qed

subsection \<open>Words and offsets\<close>

definition rol :: "u32 \<Rightarrow> nat \<Rightarrow> u32" where
  "rol value bits = push_bit bits value OR drop_bit (32 - bits) value"

lemma rol_rotl: "0 < n \<Longrightarrow> n < 32 \<Longrightarrow> rol x n = word_rotl n x"
proof (rule bit_word_eqI)
  fix k assume n: "0 < n" "n < 32" and "k < LENGTH(32)"
  then have k: "k < 32" by simp
  have "bit (rol x n) k \<longleftrightarrow> (if k < n then bit x (k + (32 - n)) else bit x (k - n))"
    using n k by (auto simp: rol_def bit_push_bit_iff bit_drop_bit_eq bit_or_iff add.commute
        dest: bit_imp_le_length)
  moreover have "(k + (32 - n)) mod 32 = (if k < n then k + (32 - n) else k - n)"
    using n k le_mod_geq [of 32 "k + (32 - n)"] by auto
  ultimately show "bit (rol x n) k \<longleftrightarrow> bit (word_rotl n x) k"
    using n k by (simp add: bit_word_rotl_iff)
qed

text \<open>
  The sixteen words of a block of 64 octets, in the byte order of the little-endian target.
\<close>

definition load_words :: "bytes \<Rightarrow> u32 list" where
  "load_words buffer = map (\<lambda>i. WPA_GET_LE32 (drop (4 * i) buffer)) [0..<16]"

lemma length_load_words [simp]: "length (load_words b) = 16"
  by (simp add: load_words_def)

lemma pos_eq: "unat (drop_bit 3 (c :: u32) AND 63) = unat c div 8 mod 64"
proof -
  have eq: "(63 :: u32) = mask 6" by (simp add: mask_numeral)
  have "unat c < 2 ^ 32" using unsigned_less [of c, where 'a = nat] by simp
  then show ?thesis
    unfolding eq take_bit_eq_mask [symmetric]
    by (simp add: unsigned_take_bit_eq unsigned_drop_bit_eq)
      (simp add: take_bit_eq_mod drop_bit_eq_div)
qed

lemma pos_less: "unat (drop_bit 3 (c :: u32) AND 63) < 64"
  by (simp add: pos_eq)

lemma pos_add8: "unat (drop_bit 3 (c + 8 :: u32) AND 63) = (unat (drop_bit 3 c AND 63) + 1) mod 64"
proof -
  have "(unat c + 8) mod 2 ^ 32 div 8 mod 64 = (unat c + 8) div 8 mod 64"
  proof -
    have "take_bit 6 (drop_bit 3 (take_bit 32 n)) = take_bit 6 (drop_bit 3 n)" for n :: nat
      by (simp add: drop_bit_take_bit)
    from this [of "unat c + 8"] show ?thesis unfolding take_bit_eq_mod drop_bit_eq_div by simp
  qed
  also have "\<dots> = (unat c div 8 mod 64 + 1) mod 64" by (simp add: mod_Suc_eq div_add_self2 [of 8])
  finally have "(unat c + 8) mod 2 ^ 32 div 8 mod 64 = (unat c div 8 mod 64 + 1) mod 64" .
  then show ?thesis by (simp add: pos_eq unat_word_ariths)
qed

lemma drop_length_drop: "drop (length d - length (drop k d)) d = drop k d"
  by (cases "k \<le> length d") simp_all

subsection \<open>Interfaces\<close>

text \<open>
  A hash context: \<open>rep m c\<close> says that context \<open>c\<close> stands for the message \<open>m\<close> fed so far.
  One call feeds fewer than \<open>limit\<close> octets.
\<close>

locale hash_context =
  fixes init :: 'c and update :: "'c \<Rightarrow> bytes \<Rightarrow> 'c" and final :: "'c \<Rightarrow> bytes"
    and rep :: "bytes \<Rightarrow> 'c \<Rightarrow> bool" and digest :: "bytes \<Rightarrow> bytes" and limit :: nat
  assumes rep_init: "rep [] init"
    and rep_update: "rep m c \<Longrightarrow> length d < limit \<Longrightarrow> rep (m @ d) (update c d)"
    and rep_final: "rep m c \<Longrightarrow> final c = digest m"
begin

lemma rep_foldl:
  "rep m c \<Longrightarrow> \<forall>d \<in> set ds. length d < limit \<Longrightarrow> rep (m @ concat ds) (foldl update c ds)"
proof (induction ds arbitrary: m c)
  case (Cons d ds)
  then have "rep (m @ d) (update c d)" by (simp add: rep_update)
  from Cons.IH [OF this] Cons.prems show ?case by simp
qed simp

lemma vector_digest:
  "\<forall>d \<in> set ds. length d < limit \<Longrightarrow> final (foldl update init ds) = digest (concat ds)"
  using rep_foldl [OF rep_init] by (auto intro: rep_final)

end

text \<open>HMAC as RFC 2104 states it.\<close>

definition hmac_key_block :: "(bytes \<Rightarrow> bytes) \<Rightarrow> bytes \<Rightarrow> bytes" where
  "hmac_key_block H key =
     (let k = (if length key > 64 then H key else key) in k @ replicate (64 - length k) 0)"

definition rfc2104_hmac :: "(bytes \<Rightarrow> bytes) \<Rightarrow> bytes \<Rightarrow> bytes \<Rightarrow> bytes" where
  "rfc2104_hmac H key t =
     (let k = hmac_key_block H key
      in H (map (\<lambda>b. b XOR 0x5c) k @ H (map (\<lambda>b. b XOR 0x36) k @ t)))"

text \<open>
  HMAC as the code computes it over a hash of a vector of buffers: \<open>hmac_sha1_vector\<close> and
  \<open>hmac_md5_vector\<close> are the same text but for the hash.
\<close>

definition hmac_vector :: "(bytes list \<Rightarrow> bytes) \<Rightarrow> bytes \<Rightarrow> bytes list \<Rightarrow> bytes option" where
  "hmac_vector hash key addr =
     (if length addr > 5 then None
      else let key = (if length key > 64 then hash [key] else key);
               k_pad = map (\<lambda>b. b XOR 0x36) (key @ replicate (64 - length key) 0);
               mac = hash (k_pad # addr);
               k_pad = map (\<lambda>b. b XOR 0x5c) (key @ replicate (64 - length key) 0)
           in Some (hash [k_pad, mac]))"

locale hash_vector =
  fixes hash :: "bytes list \<Rightarrow> bytes" and H :: "bytes \<Rightarrow> bytes" and L limit :: nat
  assumes hash_concat: "\<forall>d \<in> set ds. length d < limit \<Longrightarrow> hash ds = H (concat ds)"
    and H_length: "length (H m) = L" and L_small: "L \<le> 64" and limit_large: "64 < limit"
begin

lemma hmac_vector_eq:
  assumes "length ds \<le> 5" and "\<forall>d \<in> set ds. length d < limit" and "length key < limit"
  shows "hmac_vector hash key ds = Some (rfc2104_hmac H key (concat ds))"
proof -
  have "length (map f (k @ replicate (64 - length k) 0)) < limit"
    if "length k \<le> 64" for k :: bytes and f :: "u8 \<Rightarrow> u8"
    using that limit_large by simp
  moreover have "length (if length key > 64 then H key else key) \<le> 64"
    using H_length L_small by simp
  ultimately show ?thesis
    using assms H_length L_small limit_large
    by (auto simp: hmac_vector_def rfc2104_hmac_def hmac_key_block_def hash_concat Let_def)
qed

lemma hmac_too_many: "length ds > 5 \<Longrightarrow> hmac_vector hash key ds = None"
  by (simp add: hmac_vector_def)

lemma length_hmac: "length (rfc2104_hmac H key t) = L"
  by (simp add: rfc2104_hmac_def H_length Let_def)

end

end
