(* ===== verification/Sha1.thy ===== *)
theory Sha1
  imports HashBase
begin


text \<open>
  SHA-1 (\<^verbatim>\<open>crypto/sha1-internal.c\<close>) with the HMAC, PRF and PBKDF2 built on it
  (\<^verbatim>\<open>crypto/sha1.c\<close>, \<^verbatim>\<open>crypto/sha1-pbkdf2.c\<close>), and the FIPS 180 hash it implements. The
  lengths of the code are u32 and size_t; a single buffer of \<open>2 ^ 32 - 64\<close> octets or more, for
  which \<open>j + len\<close> would wrap, is outside the statements.
\<close>

subsection \<open>The compression function\<close>

text \<open>
  The two ways the rounds read the sixteen words \<open>block->l\<close>: \<open>blk0\<close> swaps a word in place,
  \<open>blk\<close> replaces it by the next word of the schedule.
\<close>

definition blk0 :: "u32 list \<Rightarrow> nat \<Rightarrow> u32" where
  "blk0 l i = (rol (l ! i) 24 AND 0xFF00FF00) OR (rol (l ! i) 8 AND 0x00FF00FF)"

definition blk :: "u32 list \<Rightarrow> nat \<Rightarrow> u32" where
  "blk l i = rol (l ! ((i + 13) mod 16) XOR l ! ((i + 8) mod 16) XOR l ! ((i + 2) mod 16) XOR
     l ! (i mod 16)) 1"

text \<open>
  The macros \<open>R0\<close> to \<open>R4\<close>. The code calls them with the registers rotated by one place each
  time; here the registers are a tuple whose order is the arguments of the next call. After 80
  rounds the order is the first one again.
\<close>

type_synonym sha1_regs = "u32 \<times> u32 \<times> u32 \<times> u32 \<times> u32"

definition sha1_f :: "nat \<Rightarrow> u32 \<Rightarrow> u32 \<Rightarrow> u32 \<Rightarrow> u32" where
  "sha1_f i w x y =
     (if i < 20 then (w AND (x XOR y)) XOR y
      else if i < 40 then w XOR x XOR y
      else if i < 60 then ((w OR x) AND y) OR (w AND x)
      else w XOR x XOR y)"

definition sha1_k :: "nat \<Rightarrow> u32" where
  "sha1_k i =
     (if i < 20 then 0x5A827999 else if i < 40 then 0x6ED9EBA1
      else if i < 60 then 0x8F1BBCDC else 0xCA62C1D6)"

definition sha1_R :: "sha1_regs \<times> u32 list \<Rightarrow> nat \<Rightarrow> sha1_regs \<times> u32 list" where
  "sha1_R st i =
     (case st of ((v, w, x, y, z), l) \<Rightarrow>
        let b = (if i < 16 then blk0 l i else blk l i);
            l = (if i < 16 then l[i := b] else l[i mod 16 := b]);
            z = z + (sha1_f i w x y + b + sha1_k i + rol v 5);
            w = rol w 30
        in ((z, v, w, x, y), l))"

definition SHA1Transform :: "sha1_regs \<Rightarrow> bytes \<Rightarrow> sha1_regs" where
  "SHA1Transform state buffer =
     (let ((a, b, c, d, e), l) = foldl sha1_R (state, load_words buffer) [0..<80]
      in case state of (s0, s1, s2, s3, s4) \<Rightarrow> (s0 + a, s1 + b, s2 + c, s3 + d, s4 + e))"

subsection \<open>Contexts\<close>

record SHA1_CTX =
  sha1_state :: sha1_regs
  sha1_count :: "u32 \<times> u32"
  sha1_buffer :: bytes

text \<open>
  \<open>SHA1Init\<close> leaves the buffer as it is: the context is a local variable whose buffer holds
  whatever the stack held, given by \<open>stack\<close>.
\<close>

definition SHA1Init :: "bytes \<Rightarrow> SHA1_CTX" where
  "SHA1Init stack =
     \<lparr>sha1_state = (0x67452301, 0xEFCDAB89, 0x98BADCFE, 0x10325476, 0xC3D2E1F0),
      sha1_count = (0, 0), sha1_buffer = stack\<rparr>"

text \<open>The loop over the whole blocks of the data from offset \<open>i\<close> on.\<close>

function sha1_blocks :: "sha1_regs \<Rightarrow> bytes \<Rightarrow> nat \<Rightarrow> sha1_regs \<times> nat" where
  "sha1_blocks state data i =
     (if i + 63 < length data
      then sha1_blocks (SHA1Transform state (take 64 (drop i data))) data (i + 64)
      else (state, i))"
  by pat_completeness auto
termination
  by (relation "measure (\<lambda>(state, data, i). length data - i)") auto

declare sha1_blocks.simps [simp del]

definition SHA1Update :: "SHA1_CTX \<Rightarrow> bytes \<Rightarrow> SHA1_CTX" where
  "SHA1Update context data =
     (let len = of_nat (length data) :: u32;
          (c0, c1) = sha1_count context;
          j = unat (drop_bit 3 c0 AND 63);
          c0' = c0 + push_bit 3 len;
          c1' = (if c0' < push_bit 3 len then c1 + 1 else c1) + drop_bit 29 len;
          (state, buffer, j, i) =
            (if j + length data > 63
             then let i = 64 - j; buffer = memcpy_at (sha1_buffer context) j (take i data);
                      (state, i) = sha1_blocks (SHA1Transform (sha1_state context) buffer) data i
                  in (state, buffer, 0, i)
             else (sha1_state context, sha1_buffer context, j, 0))
      in \<lparr>sha1_state = state, sha1_count = (c0', c1'),
          sha1_buffer = memcpy_at buffer j (drop i data)\<rparr>)"

subsection \<open>FIPS 180\<close>

lemma length_sha1_R: "length (snd (sha1_R (r, l) i)) = length l"
  by (auto simp: sha1_R_def Let_def split: prod.splits)

text \<open>The hash of FIPS 180: its functions, constants, message schedule and rounds.\<close>

definition fips_f :: "nat \<Rightarrow> u32 \<Rightarrow> u32 \<Rightarrow> u32 \<Rightarrow> u32" where
  "fips_f t x y z =
     (if t < 20 then (x AND y) XOR (NOT x AND z)
      else if t < 40 then x XOR y XOR z
      else if t < 60 then (x AND y) XOR (x AND z) XOR (y AND z)
      else x XOR y XOR z)"

fun fips_W :: "bytes \<Rightarrow> nat \<Rightarrow> u32" where
  "fips_W M t =
     (if t < 16 then WPA_GET_BE32 (drop (4 * t) M)
      else word_rotl 1 (fips_W M (t - 3) XOR fips_W M (t - 8) XOR fips_W M (t - 14) XOR
                        fips_W M (t - 16)))"

declare fips_W.simps [simp del]

definition fips_round :: "bytes \<Rightarrow> sha1_regs \<Rightarrow> nat \<Rightarrow> sha1_regs" where
  "fips_round M st t =
     (case st of (a, b, c, d, e) \<Rightarrow>
        (word_rotl 5 a + fips_f t b c d + e + sha1_k t + fips_W M t, a, word_rotl 30 b, c, d))"

definition fips_compress :: "sha1_regs \<Rightarrow> bytes \<Rightarrow> sha1_regs" where
  "fips_compress H M =
     (let (a, b, c, d, e) = foldl (fips_round M) H [0..<80]
      in case H of (h0, h1, h2, h3, h4) \<Rightarrow> (h0 + a, h1 + b, h2 + c, h3 + d, h4 + e))"

lemma sha1_f_fips: "sha1_f i x y z = fips_f i x y z"
  by (rule bit_word_eqI) (auto simp: sha1_f_def fips_f_def bit_simps)

lemma not_bit_u8: "8 \<le> n \<Longrightarrow> \<not> bit (x :: u8) n"
  using bit_imp_le_length [of x n] by auto

lemma blk0_load:
  assumes "i < 16"
  shows "blk0 (load_words M) i = WPA_GET_BE32 (drop (4 * i) M)"
proof -
  have "\<forall>n \<in> set [0..<32]. bit ((rol (WPA_GET_LE32 b) 24 AND 0xFF00FF00) OR
      (rol (WPA_GET_LE32 b) 8 AND 0x00FF00FF)) n = bit (WPA_GET_BE32 b) n" for b
    by (simp add: upt_rec rol_def WPA_GET_LE32_def WPA_GET_BE32_def bit_simps not_bit_u8)
  then have eq: "(rol (WPA_GET_LE32 b) 24 AND 0xFF00FF00) OR (rol (WPA_GET_LE32 b) 8 AND 0x00FF00FF) =
    WPA_GET_BE32 b" for b
    by (intro bit_word_eqI) simp
  have "load_words M ! i = WPA_GET_LE32 (drop (4 * i) M)"
    using assms by (simp add: load_words_def)
  then show ?thesis by (simp add: blk0_def eq)
qed

text \<open>
  After \<open>t\<close> rounds the registers are those of FIPS 180 and the sixteen words hold the last
  sixteen words of the schedule, at their index modulo 16.
\<close>

definition sha1_ring :: "bytes \<Rightarrow> nat \<Rightarrow> u32 list \<Rightarrow> bool" where
  "sha1_ring M t l \<longleftrightarrow> length l = 16 \<and>
     (\<forall>k < 16. if t \<le> k then l ! k = load_words M ! k
              else \<forall>n < t. t \<le> n + 16 \<longrightarrow> n mod 16 = k \<longrightarrow> l ! k = fips_W M n)"

lemma sha1_ringD: "sha1_ring M t l \<Longrightarrow> n < t \<Longrightarrow> t \<le> n + 16 \<Longrightarrow> l ! (n mod 16) = fips_W M n"
proof -
  assume ring: "sha1_ring M t l" and n: "n < t" "t \<le> n + 16"
  have "\<not> t \<le> n mod 16" using n mod_less_eq_dividend [of n 16] by linarith
  moreover have "n mod 16 < 16" by simp
  ultimately show ?thesis using ring n unfolding sha1_ring_def by metis
qed

lemma mod16_apart:
  assumes "n < t" "t < n + 16"
  shows "n mod 16 \<noteq> t mod (16 :: nat)"
proof
  assume "n mod 16 = t mod 16"
  then have "16 dvd t - n" using assms by (metis less_imp_le_nat mod_eq_dvd_iff_nat)
  with assms show False by (auto dest: dvd_imp_le)
qed

lemma sha1_R_step:
  assumes "sha1_ring M t l"
  shows "\<exists>l'. sha1_R (regs, l) t = (fips_round M regs t, l') \<and> sha1_ring M (Suc t) l'"
proof -
  obtain v w x y z where regs: "regs = (v, w, x, y, z)" by (cases regs) auto
  let ?b = "if t < 16 then blk0 l t else blk l t"
  have len: "length l = 16" using assms by (simp add: sha1_ring_def)
  have b: "?b = fips_W M t"
  proof (cases "t < 16")
    case True
    then have "l ! t = load_words M ! t" using assms by (simp add: sha1_ring_def)
    then have "blk0 l t = blk0 (load_words M) t" by (simp add: blk0_def)
    with True show ?thesis by (simp add: blk0_load fips_W.simps)
  next
    case False
    have i: "(t + 13) mod 16 = (t - 3) mod 16" "(t + 8) mod 16 = (t - 8) mod 16"
      "(t + 2) mod 16 = (t - 14) mod 16" "t mod 16 = (t - 16) mod 16"
      using False mod_add_self2 [of "t - 3" 16] mod_add_self2 [of "t - 8" 16]
        mod_add_self2 [of "t - 14" 16] mod_add_self2 [of "t - 16" 16] by (simp_all add: algebra_simps)
    have "blk l t = word_rotl 1 (fips_W M (t - 3) XOR fips_W M (t - 8) XOR fips_W M (t - 14) XOR
        fips_W M (t - 16))"
      unfolding blk_def i using False by (simp add: sha1_ringD [OF assms] rol_rotl)
    with False show ?thesis by (subst fips_W.simps) simp
  qed
  let ?l = "l[t mod 16 := fips_W M t]"
  have "sha1_R (regs, l) t = (fips_round M regs t, ?l)"
    using b unfolding regs
    by (cases "t < 16")
      (simp_all add: sha1_R_def fips_round_def sha1_f_fips rol_rotl Let_def algebra_simps)
  moreover have "sha1_ring M (Suc t) ?l"
    unfolding sha1_ring_def
  proof (intro conjI allI impI)
    fix k :: nat assume k: "k < 16"
    show "if Suc t \<le> k then ?l ! k = load_words M ! k
        else \<forall>n < Suc t. Suc t \<le> n + 16 \<longrightarrow> n mod 16 = k \<longrightarrow> ?l ! k = fips_W M n"
    proof (cases "Suc t \<le> k")
      case True
      then show ?thesis using assms k by (simp add: sha1_ring_def)
    next
      case False
      have "?l ! k = fips_W M n" if n: "n < Suc t" "Suc t \<le> n + 16" "n mod 16 = k" for n
      proof (cases "n = t")
        case True
        then show ?thesis using n len by simp
      next
        case False
        then have "n mod 16 \<noteq> t mod 16" using n by (intro mod16_apart) auto
        then show ?thesis using n False sha1_ringD [OF assms, of n] by auto
      qed
      with False show ?thesis by simp
    qed
  qed (use len in simp)
  ultimately show ?thesis by blast
qed


lemma sha1_rounds:
  "t \<le> 80 \<Longrightarrow> \<exists>l'. foldl sha1_R (regs, load_words M) [0..<t] = (foldl (fips_round M) regs [0..<t], l') \<and>
     sha1_ring M t l'"
proof (induction t)
  case 0
  show ?case by (simp add: sha1_ring_def)
next
  case (Suc t)
  then obtain l where "foldl sha1_R (regs, load_words M) [0..<t] = (foldl (fips_round M) regs [0..<t], l)"
    and ring: "sha1_ring M t l" by auto
  then show ?case
    using sha1_R_step [OF ring, of "foldl (fips_round M) regs [0..<t]"] by simp
qed

lemma SHA1Transform_fips: "SHA1Transform state M = fips_compress state M"
  using sha1_rounds [of 80 state M] by (auto simp: SHA1Transform_def fips_compress_def split: prod.split)

subsection \<open>Finishing, and the hash of a vector\<close>

text \<open>The loop that feeds zero octets until 8 octets are left in the block.\<close>

definition sha1_pos :: "SHA1_CTX \<Rightarrow> nat" where
  "sha1_pos context = unat (drop_bit 3 (fst (sha1_count context)) AND 63)"

lemma pad_test: "(c :: u32) AND 504 = 448 \<longleftrightarrow> unat (drop_bit 3 c AND 63) = 56"
proof -
  have "c AND 504 = push_bit 3 (drop_bit 3 c AND 63)"
  proof (rule bit_word_eqI)
    have m: "(504 :: int) = push_bit 3 (mask 6)" "(63 :: int) = mask 6" by (simp_all add: mask_numeral)
    fix n assume "n < LENGTH(32)"
    then show "bit (c AND 504) n = bit (push_bit 3 (drop_bit 3 c AND 63)) n"
      by (auto simp: bit_simps m)
  qed
  moreover have "unat (push_bit 3 (drop_bit 3 c AND 63)) = 8 * unat (drop_bit 3 c AND 63)"
    using pos_less [of c] by (simp add: push_bit_eq_mult unat_word_ariths)
  ultimately have "unat (c AND 504) = 8 * unat (drop_bit 3 c AND 63)" by simp
  then show ?thesis by (auto simp: word_unat_eq_iff)
qed

lemma pad_step:
  assumes "p < 64" "p \<noteq> 56"
  shows "(120 - (p + 1) mod 64) mod 64 < (120 - p) mod (64 :: nat)"
proof (cases "p < 56")
  case True
  then have "120 - p = 64 + (56 - p)" "120 - (p + 1) mod 64 = 64 + (55 - p)" by simp_all
  then show ?thesis using True by (simp only: mod_add_self1) simp
next
  case False
  then show ?thesis using assms by (cases "p = 63") simp_all
qed

lemma sha1_pos_Update:
  "sha1_pos (SHA1Update context [b]) = (sha1_pos context + 1) mod 64"
  by (simp add: sha1_pos_def SHA1Update_def Let_def pos_add8 split: prod.split)

lemma sha1_pos_less: "sha1_pos context < 64"
  by (simp add: sha1_pos_def pos_less)

lemma sha1_pad_test:
  "fst (sha1_count context) AND 504 = 448 \<longleftrightarrow> sha1_pos context = 56"
  by (simp add: sha1_pos_def pad_test)

function sha1_pad :: "SHA1_CTX \<Rightarrow> SHA1_CTX" where
  "sha1_pad context =
     (if fst (sha1_count context) AND 504 \<noteq> 448 then sha1_pad (SHA1Update context [0]) else context)"
  by pat_completeness auto
termination
proof (relation "measure (\<lambda>context. (120 - sha1_pos context) mod 64)")
  fix ctx :: SHA1_CTX
  assume "fst (sha1_count ctx) AND 504 \<noteq> 448"
  then have "sha1_pos ctx \<noteq> 56" by (simp add: sha1_pad_test)
  then show "(SHA1Update ctx [0], ctx) \<in> measure (\<lambda>context. (120 - sha1_pos context) mod 64)"
    using pad_step [of "sha1_pos ctx"] by (simp add: sha1_pos_Update sha1_pos_less)
qed simp

declare sha1_pad.simps [simp del]

definition SHA1Final :: "SHA1_CTX \<Rightarrow> bytes" where
  "SHA1Final context =
     (let (c0, c1) = sha1_count context;
          finalcount = WPA_PUT_BE32 c1 @ WPA_PUT_BE32 c0;
          context = SHA1Update (sha1_pad (SHA1Update context [0x80])) finalcount
      in case sha1_state context of
           (a, b, c, d, e) \<Rightarrow> concat (map WPA_PUT_BE32 [a, b, c, d, e]))"

definition sha1_vector :: "bytes list \<Rightarrow> bytes" where
  "sha1_vector addr = SHA1Final (foldl SHA1Update (SHA1Init (replicate 64 0)) addr)"

text \<open>The padded message and the hash of FIPS 180.\<close>

definition fips_pad :: "bytes \<Rightarrow> bytes" where
  "fips_pad m = m @ [0x80] @ replicate (pad_zeros (length m)) 0 @
     WPA_PUT_BE32 (bit_count_hi m) @ WPA_PUT_BE32 (bit_count_lo m)"

definition fips_sha1 :: "bytes \<Rightarrow> bytes" where
  "fips_sha1 m =
     (case foldl fips_compress (0x67452301, 0xEFCDAB89, 0x98BADCFE, 0x10325476, 0xC3D2E1F0)
         (chunks64 (fips_pad m)) of
       (a, b, c, d, e) \<Rightarrow> concat (map WPA_PUT_BE32 [a, b, c, d, e]))"


subsection \<open>The code computes FIPS 180\<close>

abbreviation sha1_iv :: sha1_regs where
  "sha1_iv \<equiv> (0x67452301, 0xEFCDAB89, 0x98BADCFE, 0x10325476, 0xC3D2E1F0)"

definition sha1_rep :: "bytes \<Rightarrow> SHA1_CTX \<Rightarrow> bool" where
  "sha1_rep m c \<longleftrightarrow> fields_rep fips_compress sha1_iv m (sha1_state c) (fst (sha1_count c))
     (snd (sha1_count c)) (sha1_buffer c)"

lemma sha1_rep_pos: "sha1_rep m c \<Longrightarrow> sha1_pos c = length m mod 64"
  by (simp add: sha1_rep_def fields_rep_def sha1_pos_def bit_count_pos)

lemma sha1_blocks_eq:
  "i \<le> length data \<Longrightarrow> sha1_blocks st data i =
     (foldl fips_compress st (chunks64 (drop i data)), length data - length (tail64 (drop i data)))"
proof (induction st data i rule: sha1_blocks.induct)
  case (1 st data i)
  show ?case
  proof (cases "i + 63 < length data")
    case True
    have "chunks64 (drop i data) = take 64 (drop i data) # chunks64 (drop (i + 64) data)"
      using True by (subst chunks64.simps) (simp add: add.commute)
    moreover have "length (drop i data) mod 64 = length (drop (i + 64) data) mod 64"
      using True le_mod_geq [of 64 "length data - i"] by simp
    ultimately show ?thesis
      using 1 True by (subst sha1_blocks.simps) (simp add: SHA1Transform_fips)
  next
    case False
    then show ?thesis using 1(2) by (subst sha1_blocks.simps) simp
  qed
qed

lemma sha1_rep_init: "length stack = 64 \<Longrightarrow> sha1_rep [] (SHA1Init stack)"
  by (simp add: sha1_rep_def fields_rep_def SHA1Init_def bit_count_lo_def bit_count_hi_def tail64_def)

lemma sha1_rep_update:
  assumes rep: "sha1_rep m c" and small: "length d < 2 ^ 32 - 64"
  shows "sha1_rep (m @ d) (SHA1Update c d)"
proof -
  let ?len = "of_nat (length d) :: u32"
  have cnt: "sha1_count c = (bit_count_lo m, bit_count_hi m)"
    using rep by (cases "sha1_count c") (simp add: sha1_rep_def fields_rep_def)
  have f: "sha1_state c = foldl fips_compress sha1_iv (chunks64 m)"
    "length (sha1_buffer c) = 64" "take (length m mod 64) (sha1_buffer c) = tail64 m"
    using rep by (auto simp: sha1_rep_def fields_rep_def)
  have hi: "bit_count_hi (m @ d) =
      (if bit_count_lo m + push_bit 3 ?len < push_bit 3 ?len then bit_count_hi m + 1 else bit_count_hi m) +
      drop_bit 29 ?len"
    using bit_count_hi_append [of d m] small by (simp add: word_carry)
  note counts = cnt hi bit_count_lo_append bit_count_pos
  let ?j = "length m mod 64"
  show ?thesis
  proof (cases "?j + length d > 63")
    case False
    then have fs: "chunks64 (m @ d) = chunks64 m" "tail64 (m @ d) = tail64 m @ d"
      by (simp_all add: feed_small)
    have "length (m @ d) mod 64 = ?j + length d"
      using False by (metis fs(2) length_append length_tail64)
    then show ?thesis
      using False f fs take_memcpy_at [of ?j "sha1_buffer c" d]
      by (simp add: sha1_rep_def fields_rep_def SHA1Update_def counts Let_def length_memcpy_at)
  next
    case True
    let ?i = "64 - ?j" and ?r = "tail64 (drop (64 - ?j) d)"
    let ?buf = "memcpy_at (sha1_buffer c) ?j (take ?i d)"
    have i: "?i \<le> length d" "?j \<le> 64" using True mod_less_divisor [of 64 "length m"] by simp_all
    have fl: "chunks64 (m @ d) = chunks64 m @ (tail64 m @ take ?i d) # chunks64 (drop ?i d)"
      "tail64 (m @ d) = ?r"
      using True feed_large [of m d] by simp_all
    have lbuf: "length ?buf = 64" using i f by (simp add: length_memcpy_at)
    have "take (?j + length (take ?i d)) ?buf = tail64 m @ take ?i d"
      using f i by (subst take_memcpy_at) simp_all
    then have buf: "?buf = tail64 m @ take ?i d" using i lbuf by (simp add: take_all)
    have r: "drop (length d - length ?r) d = ?r"
      unfolding tail64_def drop_drop by (rule drop_length_drop)
    have "length (m @ d) mod 64 = length ?r" by (metis fl(2) length_tail64)
    moreover have "take (length ?r) (memcpy_at ?buf 0 ?r) = ?r"
      using take_memcpy_at [of 0 ?buf ?r] by simp
    moreover have "length (memcpy_at ?buf 0 ?r) = 64"
      using lbuf by (simp add: length_memcpy_at less_imp_le)
    moreover have "SHA1Update c d =
        \<lparr>sha1_state = foldl fips_compress (fips_compress (sha1_state c) ?buf) (chunks64 (drop ?i d)),
         sha1_count = (bit_count_lo (m @ d), bit_count_hi (m @ d)),
         sha1_buffer = memcpy_at ?buf 0 ?r\<rparr>"
      using True unfolding SHA1Update_def cnt bit_count_pos Let_def prod.case hi bit_count_lo_append
      by (simp only: if_True sha1_blocks_eq [OF i(1)] SHA1Transform_fips prod.case r)
    ultimately show ?thesis
      unfolding sha1_rep_def fields_rep_def fl by (simp add: f(1) buf)
  qed
qed

lemma sha1_rep_pad:
  "sha1_rep m c \<Longrightarrow> \<exists>z. sha1_rep (m @ replicate z 0) (sha1_pad c) \<and> (length m + z) mod 64 = 56 \<and>
     (\<forall>y < z. (length m + y) mod 64 \<noteq> 56)"
proof (induction c arbitrary: m rule: sha1_pad.induct)
  case (1 c)
  show ?case
  proof (cases "sha1_pos c = 56")
    case True
    then show ?thesis
      using 1(2) sha1_rep_pos [OF 1(2)] by (subst sha1_pad.simps) (auto simp: sha1_pad_test intro!: exI [of _ 0])
  next
    case False
    then have ne: "fst (sha1_count c) AND 504 \<noteq> 448" and p: "length m mod 64 \<noteq> 56"
      using sha1_rep_pos [OF 1(2)] by (simp_all add: sha1_pad_test)
    have "sha1_rep (m @ [0]) (SHA1Update c [0])" by (rule sha1_rep_update [OF 1(2)]) simp
    from 1(1) [OF ne this] obtain z where
      z: "sha1_rep (m @ replicate (Suc z) 0) (sha1_pad (SHA1Update c [0]))"
      "(length m + Suc z) mod 64 = 56" "\<forall>y < z. (length m + Suc y) mod 64 \<noteq> 56" by auto
    moreover have "\<forall>y < Suc z. (length m + y) mod 64 \<noteq> 56"
      using z(3) p by (auto simp: less_Suc_eq_0_disj)
    ultimately show ?thesis using ne by (subst sha1_pad.simps) (auto intro!: exI [of _ "Suc z"])
  qed
qed

lemma sha1_rep_padded:
  assumes "sha1_rep m c"
  shows "sha1_rep (m @ 0x80 # replicate (pad_zeros (length m)) 0) (sha1_pad (SHA1Update c [0x80]))"
proof -
  have "sha1_rep (m @ [0x80]) (SHA1Update c [0x80])" by (rule sha1_rep_update [OF assms]) simp
  from sha1_rep_pad [OF this] obtain z where
    z: "sha1_rep (m @ 0x80 # replicate z 0) (sha1_pad (SHA1Update c [0x80]))"
    "(length m + 1 + z) mod 64 = 56" "\<forall>y < z. (length m + 1 + y) mod 64 \<noteq> 56" by auto
  have "z = pad_zeros (length m)"
    using z(2,3) pad_zeros_fit [of "length m"] pad_zeros_least [of _ "length m"]
    by (metis linorder_neqE_nat)
  with z(1) show ?thesis by simp
qed

lemma sha1_final: "sha1_rep m c \<Longrightarrow> SHA1Final c = fips_sha1 m"
proof -
  assume rep: "sha1_rep m c"
  let ?f = "WPA_PUT_BE32 (bit_count_hi m) @ WPA_PUT_BE32 (bit_count_lo m)"
  have "sha1_rep ((m @ 0x80 # replicate (pad_zeros (length m)) 0) @ ?f)
      (SHA1Update (sha1_pad (SHA1Update c [0x80])) ?f)"
    by (rule sha1_rep_update [OF sha1_rep_padded [OF rep]]) (simp add: len_simps)
  moreover have "sha1_count c = (bit_count_lo m, bit_count_hi m)"
    using rep by (cases "sha1_count c") (simp add: sha1_rep_def fields_rep_def)
  ultimately show ?thesis
    by (simp add: SHA1Final_def fips_sha1_def fips_pad_def sha1_rep_def fields_rep_def)
qed

lemma length_fips_sha1: "length (fips_sha1 m) = 20"
  by (simp add: fips_sha1_def len_simps split: prod.split)

interpretation sha1_ctx: hash_context "SHA1Init (replicate 64 0)" SHA1Update SHA1Final sha1_rep
    fips_sha1 "2 ^ 32 - 64"
  by unfold_locales (simp_all add: sha1_rep_init sha1_rep_update sha1_final)

interpretation sha1: hash_vector sha1_vector fips_sha1 20 "2 ^ 32 - 64"
  by unfold_locales (simp_all add: sha1_vector_def sha1_ctx.vector_digest length_fips_sha1)

text \<open>
  SHA-1 is FIPS 180. For any vector of buffers, and whatever the stack held in the context's
  buffer, \<open>sha1_vector\<close> returns the FIPS 180 hash of the buffers' concatenation.
\<close>

lemma sha1_vector_fips:
  assumes "\<forall>d \<in> set addr. length d < 2 ^ 32 - 64" and "length stack = 64"
  shows "SHA1Final (foldl SHA1Update (SHA1Init stack) addr) = fips_sha1 (concat addr) \<and>
    sha1_vector addr = fips_sha1 (concat addr)"
  using sha1_ctx.rep_foldl [OF sha1_rep_init [OF assms(2)] assms(1)] sha1.hash_concat [OF assms(1)]
  by (simp add: sha1_final)

theorem sha1_vector_fips_witness:
  "sha1_vector [[0x61], [0x62, 0x63]] = fips_sha1 [0x61, 0x62, 0x63]"
  using sha1_vector_fips [of "[[0x61], [0x62, 0x63]]" "replicate 64 0"] by simp

subsection \<open>HMAC, PRF and PBKDF2\<close>

definition hmac_sha1_vector :: "bytes \<Rightarrow> bytes list \<Rightarrow> bytes option" where
  "hmac_sha1_vector key addr = hmac_vector sha1_vector key addr"

definition hmac_sha1 :: "bytes \<Rightarrow> bytes \<Rightarrow> bytes option" where
  "hmac_sha1 key data = hmac_sha1_vector key [data]"

text \<open>
  \<open>sha1_prf\<close>: a C string is its octets without the final NUL, which \<open>label_len\<close> counts in. The
  loop writes whole MACs into the output and the last one through \<open>hash\<close>.
\<close>

function sha1_prf_loop :: "bytes \<Rightarrow> bytes \<Rightarrow> bytes \<Rightarrow> u8 \<Rightarrow> bytes \<Rightarrow> nat \<Rightarrow> bytes option" where
  "sha1_prf_loop key label data counter buf left =
     (if left = 0 then Some buf
      else case hmac_sha1_vector key [label @ [0], data, [counter]] of
             None \<Rightarrow> None
           | Some mac \<Rightarrow>
               if left \<ge> 20 then sha1_prf_loop key label data (counter + 1) (buf @ mac) (left - 20)
               else Some (buf @ take left mac))"
  by pat_completeness auto
termination
  by (relation "measure (\<lambda>(key, label, data, counter, buf, left). left)") auto

declare sha1_prf_loop.simps [simp del]

definition sha1_prf :: "bytes \<Rightarrow> bytes \<Rightarrow> bytes \<Rightarrow> nat \<Rightarrow> bytes option" where
  "sha1_prf key label data buf_len = sha1_prf_loop key label data 0 [] buf_len"

text \<open>
  \<open>pbkdf2_sha1_f\<close>: the loop from \<open>i = 1\<close> below \<open>iterations\<close>, as the number of its rounds.
\<close>

primrec pbkdf2_loop :: "bytes \<Rightarrow> nat \<Rightarrow> bytes \<Rightarrow> bytes \<Rightarrow> bytes option" where
  "pbkdf2_loop passphrase 0 tmp digest = Some digest"
| "pbkdf2_loop passphrase (Suc n) tmp digest =
     (case hmac_sha1 passphrase tmp of
        None \<Rightarrow> None
      | Some tmp2 \<Rightarrow> pbkdf2_loop passphrase n tmp2 (map2 (XOR) digest tmp2))"

definition pbkdf2_sha1_f :: "bytes \<Rightarrow> bytes \<Rightarrow> int \<Rightarrow> u32 \<Rightarrow> bytes option" where
  "pbkdf2_sha1_f passphrase ssid iterations count =
     (case hmac_sha1_vector passphrase [ssid, WPA_PUT_BE32 count] of
        None \<Rightarrow> None
      | Some tmp \<Rightarrow> pbkdf2_loop passphrase (nat (iterations - 1)) tmp tmp)"

function pbkdf2_sha1_loop :: "bytes \<Rightarrow> bytes \<Rightarrow> int \<Rightarrow> u32 \<Rightarrow> bytes \<Rightarrow> nat \<Rightarrow> bytes option" where
  "pbkdf2_sha1_loop passphrase ssid iterations count buf left =
     (if left = 0 then Some buf
      else case pbkdf2_sha1_f passphrase ssid iterations (count + 1) of
             None \<Rightarrow> None
           | Some digest \<Rightarrow>
               let plen = (if left > 20 then 20 else left)
               in pbkdf2_sha1_loop passphrase ssid iterations (count + 1) (buf @ take plen digest)
                    (left - plen))"
  by pat_completeness auto
termination
  by (relation "measure (\<lambda>(passphrase, ssid, iterations, count, buf, left). left)") auto

declare pbkdf2_sha1_loop.simps [simp del]

definition pbkdf2_sha1 :: "bytes \<Rightarrow> bytes \<Rightarrow> int \<Rightarrow> nat \<Rightarrow> bytes option" where
  "pbkdf2_sha1 passphrase ssid iterations buflen =
     pbkdf2_sha1_loop passphrase ssid iterations 0 [] buflen"

text \<open>The output of a generator of 20-octet blocks, cut to \<open>n\<close> octets.\<close>

definition blocks_take :: "(nat \<Rightarrow> bytes) \<Rightarrow> nat \<Rightarrow> nat \<Rightarrow> bytes" where
  "blocks_take f k n = take n (concat (map f [k..<k + (n + 19) div 20]))"

lemma blocks_take_0 [simp]: "blocks_take f k 0 = []"
  by (simp add: blocks_take_def)

lemma blocks_take_more:
  assumes "length (f k) = 20" and "20 \<le> n"
  shows "blocks_take f k n = f k @ blocks_take f (Suc k) (n - 20)"
proof -
  have "(n + 19) div 20 = Suc ((n - 20 + 19) div 20)" using assms(2) by (simp add: le_div_geq)
  then have "[k..<k + (n + 19) div 20] = k # [Suc k..<Suc k + (n - 20 + 19) div 20]"
    by (simp add: upt_rec)
  then show ?thesis using assms by (simp add: blocks_take_def)
qed

lemma blocks_take_last:
  assumes "length (f k) = 20" and "0 < n" and "n \<le> 20"
  shows "blocks_take f k n = take n (f k)"
proof -
  have "(n + 19) div 20 = 1" using assms(2,3) by (simp add: div_eq_dividend_iff le_div_geq)
  then show ?thesis using assms by (simp add: blocks_take_def)
qed

lemma length_blocks_take: "(\<And>i. length (f i) = 20) \<Longrightarrow> length (blocks_take f k n) = n"
proof (induction n arbitrary: k rule: less_induct)
  case (less n)
  show ?case
  proof (cases "20 \<le> n")
    case True
    then show ?thesis using less by (simp add: blocks_take_more)
  next
    case False
    then show ?thesis using less by (cases "n = 0") (simp_all add: blocks_take_last)
  qed
qed

text \<open>The PRF of IEEE 802.11i (8.5.1.1) and the PBKDF2 of PKCS #5.\<close>

abbreviation HMAC_SHA1 :: "bytes \<Rightarrow> bytes \<Rightarrow> bytes" where
  "HMAC_SHA1 \<equiv> rfc2104_hmac fips_sha1"

definition ieee_prf :: "bytes \<Rightarrow> bytes \<Rightarrow> bytes \<Rightarrow> nat \<Rightarrow> bytes" where
  "ieee_prf K A B len = blocks_take (\<lambda>i. HMAC_SHA1 K (A @ [0] @ B @ [of_nat i])) 0 len"

primrec pkcs5_U :: "bytes \<Rightarrow> bytes \<Rightarrow> nat \<Rightarrow> bytes" where
  "pkcs5_U P S0 0 = HMAC_SHA1 P S0"
| "pkcs5_U P S0 (Suc n) = HMAC_SHA1 P (pkcs5_U P S0 n)"

primrec pkcs5_F :: "bytes \<Rightarrow> bytes \<Rightarrow> nat \<Rightarrow> bytes" where
  "pkcs5_F P S0 0 = pkcs5_U P S0 0"
| "pkcs5_F P S0 (Suc n) = map2 (XOR) (pkcs5_F P S0 n) (pkcs5_U P S0 (Suc n))"

definition pkcs5_pbkdf2 :: "bytes \<Rightarrow> bytes \<Rightarrow> nat \<Rightarrow> nat \<Rightarrow> bytes" where
  "pkcs5_pbkdf2 P S c dkLen =
     blocks_take (\<lambda>i. pkcs5_F P (S @ WPA_PUT_BE32 (of_nat i)) (c - 1)) 1 dkLen"

lemma hmac_sha1_vector_eq:
  "length addr \<le> 5 \<Longrightarrow> \<forall>d \<in> set addr. length d < 2 ^ 32 - 64 \<Longrightarrow> length key < 2 ^ 32 - 64 \<Longrightarrow>
   hmac_sha1_vector key addr = Some (HMAC_SHA1 key (concat addr))"
  unfolding hmac_sha1_vector_def by (rule sha1.hmac_vector_eq)

lemma sha1_prf_loop_eq:
  assumes "length key < 2 ^ 32 - 64" "length label < 2 ^ 32 - 65" "length data < 2 ^ 32 - 64"
  shows "sha1_prf_loop key label data (of_nat k) buf left =
    Some (buf @ blocks_take (\<lambda>i. HMAC_SHA1 key (label @ [0] @ data @ [of_nat i])) k left)"
proof (induction left arbitrary: k buf rule: less_induct)
  case (less left)
  let ?f = "\<lambda>i. HMAC_SHA1 key (label @ [0] @ data @ [of_nat i])"
  have mac: "hmac_sha1_vector key [label @ [0], data, [of_nat k]] = Some (?f k)"
    using assms by (simp add: hmac_sha1_vector_eq)
  have len: "length (?f k) = 20" by (rule sha1.length_hmac)
  consider "left = 0" | "0 < left" "left < 20" | "20 \<le> left" by linarith
  then show ?case
  proof cases
    case 1
    then show ?thesis by (simp add: sha1_prf_loop.simps)
  next
    case 2
    then show ?thesis
      using len by (subst sha1_prf_loop.simps) (simp add: mac blocks_take_last)
  next
    case 3
    then have "sha1_prf_loop key label data (of_nat k) buf left =
      sha1_prf_loop key label data (of_nat (Suc k)) (buf @ ?f k) (left - 20)"
      by (subst sha1_prf_loop.simps) (simp add: mac add.commute)
    also have "\<dots> = Some ((buf @ ?f k) @ blocks_take ?f (Suc k) (left - 20))"
      using 3 by (intro less) simp
    finally show ?thesis using len 3 by (simp only: blocks_take_more append_assoc)
  qed
qed

lemma length_pkcs5_U [simp]: "length (pkcs5_U P S0 n) = 20"
  by (cases n) (simp_all add: sha1.length_hmac)

lemma length_pkcs5_F [simp]: "length (pkcs5_F P S0 n) = 20"
  by (induction n) (simp_all del: pkcs5_U.simps)

lemma pbkdf2_loop_eq:
  assumes "length P < 2 ^ 32 - 64"
  shows "pbkdf2_loop P n (pkcs5_U P S0 k) (pkcs5_F P S0 k) = Some (pkcs5_F P S0 (k + n))"
proof (induction n arbitrary: k)
  case (Suc n)
  have "hmac_sha1 P (pkcs5_U P S0 k) = Some (pkcs5_U P S0 (Suc k))"
    using assms by (simp add: hmac_sha1_def hmac_sha1_vector_eq)
  then show ?case using Suc [of "Suc k"] by simp
qed simp

lemma pbkdf2_sha1_f_eq:
  assumes "length P < 2 ^ 32 - 64" "length S < 2 ^ 32 - 64"
  shows "pbkdf2_sha1_f P S c i = Some (pkcs5_F P (S @ WPA_PUT_BE32 i) (nat c - 1))"
proof -
  have "hmac_sha1_vector P [S, WPA_PUT_BE32 i] = Some (pkcs5_U P (S @ WPA_PUT_BE32 i) 0)"
    using assms by (simp add: hmac_sha1_vector_eq len_simps)
  moreover have "nat (c - 1) = nat c - 1" by simp
  ultimately show ?thesis
    using pbkdf2_loop_eq [OF assms(1), of "nat c - 1" "S @ WPA_PUT_BE32 i" 0]
    by (simp add: pbkdf2_sha1_f_def)
qed

lemma sha1_prf_eq:
  "length key < 2 ^ 32 - 64 \<Longrightarrow> length label < 2 ^ 32 - 65 \<Longrightarrow> length data < 2 ^ 32 - 64 \<Longrightarrow>
   sha1_prf key label data n = Some (ieee_prf key label data n)"
  using sha1_prf_loop_eq [of key label data 0] by (simp add: sha1_prf_def ieee_prf_def)

lemma length_ieee_prf [len_simps]: "length (ieee_prf key label data n) = n"
  unfolding ieee_prf_def by (rule length_blocks_take) (rule sha1.length_hmac)

lemma pbkdf2_sha1_loop_eq:
  assumes "length P < 2 ^ 32 - 64" "length S < 2 ^ 32 - 64"
  shows "pbkdf2_sha1_loop P S c (of_nat k) buf left =
    Some (buf @ blocks_take (\<lambda>i. pkcs5_F P (S @ WPA_PUT_BE32 (of_nat i)) (nat c - 1)) (Suc k) left)"
proof (induction left arbitrary: k buf rule: less_induct)
  case (less left)
  let ?f = "\<lambda>i. pkcs5_F P (S @ WPA_PUT_BE32 (of_nat i)) (nat c - 1)"
  have f: "pbkdf2_sha1_f P S c (of_nat k + 1) = Some (?f (Suc k))"
    "pbkdf2_sha1_f P S c (1 + of_nat k) = Some (?f (Suc k))"
    using assms by (simp_all add: pbkdf2_sha1_f_eq add.commute)
  consider "left = 0" | "0 < left" "left \<le> 20" | "20 < left" by linarith
  then show ?case
  proof cases
    case 1
    then show ?thesis by (simp add: pbkdf2_sha1_loop.simps)
  next
    case 2
    then have "pbkdf2_sha1_loop P S c (of_nat k) buf left =
      pbkdf2_sha1_loop P S c (of_nat k + 1) (buf @ take left (?f (Suc k))) 0"
      by (subst pbkdf2_sha1_loop.simps) (simp add: f Let_def)
    then show ?thesis
      using 2 by (simp add: blocks_take_last pbkdf2_sha1_loop.simps [of _ _ _ _ _ 0])
  next
    case 3
    then have "pbkdf2_sha1_loop P S c (of_nat k) buf left =
      pbkdf2_sha1_loop P S c (of_nat (Suc k)) (buf @ ?f (Suc k)) (left - 20)"
      by (subst pbkdf2_sha1_loop.simps) (simp add: f Let_def add.commute)
    also have "\<dots> = Some ((buf @ ?f (Suc k)) @ blocks_take ?f (Suc (Suc k)) (left - 20))"
      using 3 by (intro less) simp
    finally show ?thesis using 3 by (simp add: blocks_take_more)
  qed
qed

text \<open>
  C36: Key derivation. \<open>hmac_sha1_vector\<close> is the HMAC of RFC 2104 over FIPS 180 SHA-1 for at most
  five buffers and fails for more; \<open>sha1_prf\<close> is the PRF of IEEE 802.11i for every output length;
  \<open>pbkdf2_sha1\<close> is the PBKDF2 of PKCS #5 and returns \<open>buflen\<close> octets. They do not fail.
\<close>

theorem key_derivation_correct:
  assumes "length key < 2 ^ 32 - 64" "length label < 2 ^ 32 - 65" "length data < 2 ^ 32 - 64"
    and "\<forall>d \<in> set addr. length d < 2 ^ 32 - 64"
  shows "hmac_sha1_vector key addr =
      (if length addr \<le> 5 then Some (HMAC_SHA1 key (concat addr)) else None) \<and>
    sha1_prf key label data n = Some (ieee_prf key label data n) \<and>
    length (ieee_prf key label data n) = n \<and>
    pbkdf2_sha1 key data c n = Some (pkcs5_pbkdf2 key data (nat c) n) \<and>
    length (pkcs5_pbkdf2 key data (nat c) n) = n"
proof (intro conjI)
  show "hmac_sha1_vector key addr =
      (if length addr \<le> 5 then Some (HMAC_SHA1 key (concat addr)) else None)"
    using assms hmac_sha1_vector_eq [of addr key] sha1.hmac_too_many [of addr key]
    by (simp add: hmac_sha1_vector_def)
  show "sha1_prf key label data n = Some (ieee_prf key label data n)"
    by (rule sha1_prf_eq [OF assms(1-3)])
  show "length (ieee_prf key label data n) = n" by (rule length_ieee_prf)
  show "pbkdf2_sha1 key data c n = Some (pkcs5_pbkdf2 key data (nat c) n)"
    using pbkdf2_sha1_loop_eq [OF assms(1,3), of c 0] by (simp add: pbkdf2_sha1_def pkcs5_pbkdf2_def)
  show "length (pkcs5_pbkdf2 key data (nat c) n) = n"
    unfolding pkcs5_pbkdf2_def by (rule length_blocks_take) simp
qed

theorem key_derivation_correct_witness:
  "\<exists>key. sha1_prf [1, 2] [65] [3] 45 = Some key \<and> length key = 45"
  using key_derivation_correct [of "[1, 2]" "[65]" "[3]" "[]" 45 1] by simp

end
