(* ===== verification/Md5.thy ===== *)
theory Md5
  imports HashBase
begin


text \<open>
  MD5 (\<^verbatim>\<open>crypto/md5-internal.c\<close>) with the HMAC built on it (\<^verbatim>\<open>crypto/md5.c\<close>), and the hash of
  RFC 1321 that it implements. The build is little-endian, so \<open>byteReverse\<close> is empty. A single
  buffer of \<open>2 ^ 32\<close> octets or more does not fit the \<open>unsigned len\<close> of \<open>MD5Update\<close> and is
  outside the statements.
\<close>

subsection \<open>The compression function\<close>

definition F1 :: "u32 \<Rightarrow> u32 \<Rightarrow> u32 \<Rightarrow> u32" where
  "F1 x y z = z XOR (x AND (y XOR z))"

definition F2 :: "u32 \<Rightarrow> u32 \<Rightarrow> u32 \<Rightarrow> u32" where
  "F2 x y z = F1 z x y"

definition F3 :: "u32 \<Rightarrow> u32 \<Rightarrow> u32 \<Rightarrow> u32" where
  "F3 x y z = x XOR y XOR z"

definition F4 :: "u32 \<Rightarrow> u32 \<Rightarrow> u32 \<Rightarrow> u32" where
  "F4 x y z = y XOR (x OR NOT z)"

text \<open>
  The step. The code calls it with the registers rotated by one place each time; here the
  registers are a tuple whose order is the arguments of the next call. After 64 steps the order
  is the first one again.
\<close>

type_synonym md5_regs = "u32 \<times> u32 \<times> u32 \<times> u32"

definition MD5STEP ::
  "u32 list \<Rightarrow> md5_regs \<Rightarrow> (u32 \<Rightarrow> u32 \<Rightarrow> u32 \<Rightarrow> u32) \<times> nat \<times> u32 \<times> nat \<Rightarrow> md5_regs" where
  "MD5STEP inw regs st =
     (case regs of (w, x, y, z) \<Rightarrow> case st of (f, k, c, s) \<Rightarrow>
        let w = w + (f x y z + (inw ! k + c));
            w = rol w s;
            w = w + x
        in (z, w, x, y))"

definition md5_steps :: "((u32 \<Rightarrow> u32 \<Rightarrow> u32 \<Rightarrow> u32) \<times> nat \<times> u32 \<times> nat) list" where
  "md5_steps =
    [(F1, 0, 0xd76aa478, 7), (F1, 1, 0xe8c7b756, 12),
     (F1, 2, 0x242070db, 17), (F1, 3, 0xc1bdceee, 22),
     (F1, 4, 0xf57c0faf, 7), (F1, 5, 0x4787c62a, 12),
     (F1, 6, 0xa8304613, 17), (F1, 7, 0xfd469501, 22),
     (F1, 8, 0x698098d8, 7), (F1, 9, 0x8b44f7af, 12),
     (F1, 10, 0xffff5bb1, 17), (F1, 11, 0x895cd7be, 22),
     (F1, 12, 0x6b901122, 7), (F1, 13, 0xfd987193, 12),
     (F1, 14, 0xa679438e, 17), (F1, 15, 0x49b40821, 22),
     (F2, 1, 0xf61e2562, 5), (F2, 6, 0xc040b340, 9),
     (F2, 11, 0x265e5a51, 14), (F2, 0, 0xe9b6c7aa, 20),
     (F2, 5, 0xd62f105d, 5), (F2, 10, 0x02441453, 9),
     (F2, 15, 0xd8a1e681, 14), (F2, 4, 0xe7d3fbc8, 20),
     (F2, 9, 0x21e1cde6, 5), (F2, 14, 0xc33707d6, 9),
     (F2, 3, 0xf4d50d87, 14), (F2, 8, 0x455a14ed, 20),
     (F2, 13, 0xa9e3e905, 5), (F2, 2, 0xfcefa3f8, 9),
     (F2, 7, 0x676f02d9, 14), (F2, 12, 0x8d2a4c8a, 20),
     (F3, 5, 0xfffa3942, 4), (F3, 8, 0x8771f681, 11),
     (F3, 11, 0x6d9d6122, 16), (F3, 14, 0xfde5380c, 23),
     (F3, 1, 0xa4beea44, 4), (F3, 4, 0x4bdecfa9, 11),
     (F3, 7, 0xf6bb4b60, 16), (F3, 10, 0xbebfbc70, 23),
     (F3, 13, 0x289b7ec6, 4), (F3, 0, 0xeaa127fa, 11),
     (F3, 3, 0xd4ef3085, 16), (F3, 6, 0x04881d05, 23),
     (F3, 9, 0xd9d4d039, 4), (F3, 12, 0xe6db99e5, 11),
     (F3, 15, 0x1fa27cf8, 16), (F3, 2, 0xc4ac5665, 23),
     (F4, 0, 0xf4292244, 6), (F4, 7, 0x432aff97, 10),
     (F4, 14, 0xab9423a7, 15), (F4, 5, 0xfc93a039, 21),
     (F4, 12, 0x655b59c3, 6), (F4, 3, 0x8f0ccc92, 10),
     (F4, 10, 0xffeff47d, 15), (F4, 1, 0x85845dd1, 21),
     (F4, 8, 0x6fa87e4f, 6), (F4, 15, 0xfe2ce6e0, 10),
     (F4, 6, 0xa3014314, 15), (F4, 13, 0x4e0811a1, 21),
     (F4, 4, 0xf7537e82, 6), (F4, 11, 0xbd3af235, 10),
     (F4, 2, 0x2ad7d2bb, 15), (F4, 9, 0xeb86d391, 21)]"

definition MD5Transform :: "md5_regs \<Rightarrow> u32 list \<Rightarrow> md5_regs" where
  "MD5Transform buf inw =
     (let (a, b, c, d) = foldl (MD5STEP inw) buf md5_steps
      in case buf of (b0, b1, b2, b3) \<Rightarrow> (b0 + a, b1 + b, b2 + c, b3 + d))"

text \<open>RFC 1321: the functions, the table T, and the order of the words and shifts.\<close>

definition rfc_T :: "u32 list" where
  "rfc_T =
    [0xd76aa478, 0xe8c7b756, 0x242070db, 0xc1bdceee, 0xf57c0faf, 0x4787c62a,
     0xa8304613, 0xfd469501, 0x698098d8, 0x8b44f7af, 0xffff5bb1, 0x895cd7be,
     0x6b901122, 0xfd987193, 0xa679438e, 0x49b40821, 0xf61e2562, 0xc040b340,
     0x265e5a51, 0xe9b6c7aa, 0xd62f105d, 0x02441453, 0xd8a1e681, 0xe7d3fbc8,
     0x21e1cde6, 0xc33707d6, 0xf4d50d87, 0x455a14ed, 0xa9e3e905, 0xfcefa3f8,
     0x676f02d9, 0x8d2a4c8a, 0xfffa3942, 0x8771f681, 0x6d9d6122, 0xfde5380c,
     0xa4beea44, 0x4bdecfa9, 0xf6bb4b60, 0xbebfbc70, 0x289b7ec6, 0xeaa127fa,
     0xd4ef3085, 0x04881d05, 0xd9d4d039, 0xe6db99e5, 0x1fa27cf8, 0xc4ac5665,
     0xf4292244, 0x432aff97, 0xab9423a7, 0xfc93a039, 0x655b59c3, 0x8f0ccc92,
     0xffeff47d, 0x85845dd1, 0x6fa87e4f, 0xfe2ce6e0, 0xa3014314, 0x4e0811a1,
     0xf7537e82, 0xbd3af235, 0x2ad7d2bb, 0xeb86d391]"

definition rfc_fun :: "nat \<Rightarrow> u32 \<Rightarrow> u32 \<Rightarrow> u32 \<Rightarrow> u32" where
  "rfc_fun i x y z =
     (if i < 16 then (x AND y) OR (NOT x AND z)
      else if i < 32 then (x AND z) OR (y AND NOT z)
      else if i < 48 then x XOR y XOR z
      else y XOR (x OR NOT z))"

definition rfc_k :: "nat \<Rightarrow> nat" where
  "rfc_k i =
     (if i < 16 then i else if i < 32 then (5 * i + 1) mod 16
      else if i < 48 then (3 * i + 5) mod 16 else 7 * i mod 16)"

definition rfc_s :: "nat \<Rightarrow> nat" where
  "rfc_s i =
     (if i < 16 then [7, 12, 17, 22] else if i < 32 then [5, 9, 14, 20]
      else if i < 48 then [4, 11, 16, 23] else [6, 10, 15, 21]) ! (i mod 4)"

definition rfc_op :: "u32 list \<Rightarrow> md5_regs \<Rightarrow> nat \<Rightarrow> md5_regs" where
  "rfc_op X regs i =
     (case regs of (a, b, c, d) \<Rightarrow>
        (d, b + word_rotl (rfc_s i) (a + rfc_fun i b c d + X ! rfc_k i + rfc_T ! i), b, c))"

definition rfc_compress :: "md5_regs \<Rightarrow> bytes \<Rightarrow> md5_regs" where
  "rfc_compress st M =
     (let (a, b, c, d) = foldl (rfc_op (load_words M)) st [0..<64]
      in case st of (aa, bb, cc, dd) \<Rightarrow> (aa + a, bb + b, cc + c, dd + d))"

lemma md5_fun_rfc:
  "F1 = rfc_fun 0" "F2 = rfc_fun 16" "F3 = rfc_fun 32" "F4 = rfc_fun 48"
  by (intro ext bit_word_eqI, auto simp: F1_def F2_def F3_def F4_def rfc_fun_def bit_simps)+

lemma rfc_fun_round: "i < 64 \<Longrightarrow> rfc_fun i = rfc_fun (16 * (i div 16))"
  by (intro ext) (auto simp: rfc_fun_def)

definition rfc_steps :: "((u32 \<Rightarrow> u32 \<Rightarrow> u32 \<Rightarrow> u32) \<times> nat \<times> u32 \<times> nat) list" where
  "rfc_steps = map (\<lambda>i. ([F1, F2, F3, F4] ! (i div 16), rfc_k i, rfc_T ! i, rfc_s i)) [0..<64]"

lemma md5_steps_rfc: "md5_steps = rfc_steps"
  by (simp add: md5_steps_def rfc_steps_def rfc_T_def rfc_k_def rfc_s_def upt_rec)

lemma rfc_s_range: "i < 64 \<Longrightarrow> 0 < rfc_s i \<and> rfc_s i < 32"
proof -
  have "\<forall>j < 4. 0 < l ! j \<and> l ! j < 32"
    if "l \<in> {[7, 12, 17, 22], [5, 9, 14, 20], [4, 11, 16, 23], [6, 10, 15, 21]}" for l :: "nat list"
    using that by (auto simp: all_less_4)
  moreover have "i mod 4 < 4" by simp
  ultimately show ?thesis unfolding rfc_s_def by simp
qed

lemma md5_op_rfc:
  assumes "i < 64"
  shows "MD5STEP X regs ([F1, F2, F3, F4] ! (i div 16), rfc_k i, rfc_T ! i, rfc_s i) = rfc_op X regs i"
proof -
  have "\<forall>j < 4. [F1, F2, F3, F4] ! j = rfc_fun (16 * j)"
    by (simp add: all_less_4 md5_fun_rfc)
  then have "[F1, F2, F3, F4] ! (i div 16) = rfc_fun (16 * (i div 16))"
    using assms by simp
  also have "\<dots> = rfc_fun i" using assms by (rule rfc_fun_round [symmetric])
  finally show ?thesis
    using rfc_s_range [OF assms]
    by (simp add: MD5STEP_def rfc_op_def Let_def rol_rotl add.commute add.left_commute split: prod.split)
qed

lemma MD5Transform_rfc: "MD5Transform st (load_words M) = rfc_compress st M"
proof -
  have "foldl (MD5STEP X) st rfc_steps = foldl (rfc_op X) st [0..<64]" for X
    unfolding rfc_steps_def foldl_map by (rule foldl_cong) (simp_all add: md5_op_rfc)
  then show ?thesis by (simp add: MD5Transform_def rfc_compress_def md5_steps_rfc)
qed

subsection \<open>Contexts\<close>

record MD5_CTX =
  md5_buf :: md5_regs
  md5_bits :: "u32 \<times> u32"
  md5_in :: bytes

definition MD5Init :: "bytes \<Rightarrow> MD5_CTX" where
  "MD5Init stack =
     \<lparr>md5_buf = (0x67452301, 0xefcdab89, 0x98badcfe, 0x10325476), md5_bits = (0, 0), md5_in = stack\<rparr>"

text \<open>
  The loop over 64-octet chunks, each copied into \<open>ctx->in\<close>; it returns the registers, the buffer
  and the octets left.
\<close>

function md5_blocks :: "md5_regs \<Rightarrow> bytes \<Rightarrow> bytes \<Rightarrow> md5_regs \<times> bytes \<times> bytes" where
  "md5_blocks buf inb data =
     (if length data \<ge> 64
      then let inb = memcpy_at inb 0 (take 64 data)
           in md5_blocks (MD5Transform buf (load_words inb)) inb (drop 64 data)
      else (buf, inb, data))"
  by pat_completeness auto
termination
  by (relation "measure (\<lambda>(buf, inb, data). length data)") auto

declare md5_blocks.simps [simp del]

definition MD5Update :: "MD5_CTX \<Rightarrow> bytes \<Rightarrow> MD5_CTX" where
  "MD5Update ctx data =
     (let len = of_nat (length data) :: u32;
          (lo, hi) = md5_bits ctx;
          lo' = lo + push_bit 3 len;
          hi' = (if lo' < lo then hi + 1 else hi) + drop_bit 29 len;
          t = unat (drop_bit 3 lo AND 0x3f);
          ctx = ctx\<lparr>md5_bits := (lo', hi')\<rparr>
      in if t \<noteq> 0 \<and> length data < 64 - t
         then ctx\<lparr>md5_in := memcpy_at (md5_in ctx) t data\<rparr>
         else let (buf, inb, data) =
                    (if t \<noteq> 0
                     then let inb = memcpy_at (md5_in ctx) t (take (64 - t) data)
                          in (MD5Transform (md5_buf ctx) (load_words inb), inb, drop (64 - t) data)
                     else (md5_buf ctx, md5_in ctx, data));
                  (buf, inb, data) = md5_blocks buf inb data
              in ctx\<lparr>md5_buf := buf, md5_in := memcpy_at inb 0 data\<rparr>)"

text \<open>
  The two words at \<open>in[14]\<close> and \<open>in[15]\<close> are stored little-endian. The final \<open>os_memset\<close> wipes
  only \<open>sizeof(ctx)\<close> octets, the size of the pointer; it has no part in the digest.
\<close>

definition MD5Final :: "MD5_CTX \<Rightarrow> bytes" where
  "MD5Final ctx =
     (let (lo, hi) = md5_bits ctx;
          count = unat (drop_bit 3 lo AND 0x3F);
          inb = memcpy_at (md5_in ctx) count [0x80];
          p = count + 1;
          count = 64 - 1 - count;
          (buf, inb) =
            (if count < 8
             then let inb = memcpy_at inb p (replicate count 0)
                  in (MD5Transform (md5_buf ctx) (load_words inb), memcpy_at inb 0 (replicate 56 0))
             else (md5_buf ctx, memcpy_at inb p (replicate (count - 8) 0)));
          inb = memcpy_at inb 56 (WPA_PUT_LE32 lo @ WPA_PUT_LE32 hi)
      in case MD5Transform buf (load_words inb) of
           (a, b, c, d) \<Rightarrow> concat (map WPA_PUT_LE32 [a, b, c, d]))"

definition md5_vector :: "bytes list \<Rightarrow> bytes" where
  "md5_vector addr = MD5Final (foldl MD5Update (MD5Init (replicate 64 0)) addr)"

text \<open>The padding and the hash of RFC 1321.\<close>

definition rfc_pad :: "bytes \<Rightarrow> bytes" where
  "rfc_pad m = m @ [0x80] @ replicate (pad_zeros (length m)) 0 @
     WPA_PUT_LE32 (bit_count_lo m) @ WPA_PUT_LE32 (bit_count_hi m)"

definition rfc1321_md5 :: "bytes \<Rightarrow> bytes" where
  "rfc1321_md5 m =
     (case foldl rfc_compress (0x67452301, 0xefcdab89, 0x98badcfe, 0x10325476)
         (chunks64 (rfc_pad m)) of
       (a, b, c, d) \<Rightarrow> concat (map WPA_PUT_LE32 [a, b, c, d]))"

subsection \<open>The code computes RFC 1321\<close>

definition md5_rep :: "bytes \<Rightarrow> MD5_CTX \<Rightarrow> bool" where
  "md5_rep m c \<longleftrightarrow> fields_rep rfc_compress (0x67452301, 0xefcdab89, 0x98badcfe, 0x10325476) m
     (md5_buf c) (fst (md5_bits c)) (snd (md5_bits c)) (md5_in c)"

lemma memcpy_at_all: "length d = length b \<Longrightarrow> memcpy_at b 0 d = d"
  by (simp add: memcpy_at_def)

lemma md5_blocks_eq:
  "length inb = 64 \<Longrightarrow> \<exists>inb'. length inb' = 64 \<and> md5_blocks buf inb data =
     (foldl rfc_compress buf (chunks64 data), inb', tail64 data)"
proof (induction buf inb data rule: md5_blocks.induct)
  case (1 buf inb data)
  show ?case
  proof (cases "length data \<ge> 64")
    case True
    have "chunks64 data = take 64 data # chunks64 (drop 64 data)"
      using True by (subst chunks64.simps) simp
    moreover have "tail64 data = tail64 (drop 64 data)"
      using True feed_large(2) [of "[]" data] by simp
    moreover have "memcpy_at inb 0 (take 64 data) = take 64 data"
      using True 1(2) by (simp add: memcpy_at_all)
    ultimately show ?thesis
      using 1(1) [OF True refl] 1(2) True
      by (subst md5_blocks.simps) (simp add: MD5Transform_rfc Let_def)
  next
    case False
    then show ?thesis using 1(2) by (subst md5_blocks.simps) (auto simp: tail64_def)
  qed
qed

lemma md5_rep_init: "length stack = 64 \<Longrightarrow> md5_rep [] (MD5Init stack)"
  by (simp add: md5_rep_def fields_rep_def MD5Init_def bit_count_lo_def bit_count_hi_def tail64_def)

lemma md5_repD:
  assumes "md5_rep m c"
  shows "md5_buf c = foldl rfc_compress (0x67452301, 0xefcdab89, 0x98badcfe, 0x10325476) (chunks64 m)"
    and "md5_bits c = (bit_count_lo m, bit_count_hi m)" and "length (md5_in c) = 64"
    and "take (length m mod 64) (md5_in c) = tail64 m"
  using assms by (cases "md5_bits c", simp add: md5_rep_def fields_rep_def)+

lemma md5_repI:
  assumes "md5_buf c = foldl rfc_compress (0x67452301, 0xefcdab89, 0x98badcfe, 0x10325476) (chunks64 m)"
    and "md5_bits c = (bit_count_lo m, bit_count_hi m)" and "length (md5_in c) = 64"
    and "take (length (tail64 m)) (md5_in c) = tail64 m"
  shows "md5_rep m c"
  using assms by (simp add: md5_rep_def fields_rep_def)

lemma md5_blocks_in:
  assumes "length inb = 64" and "md5_blocks buf inb data = (buf', inb', data')"
  shows "buf' = foldl rfc_compress buf (chunks64 data)" "length (memcpy_at inb' 0 data') = 64"
    "take (length (tail64 data)) (memcpy_at inb' 0 data') = tail64 data"
proof -
  have b: "buf' = foldl rfc_compress buf (chunks64 data)" "length inb' = 64" "data' = tail64 data"
    using md5_blocks_eq [OF assms(1), of buf data] assms(2) by auto
  show "buf' = foldl rfc_compress buf (chunks64 data)" by (rule b)
  show "length (memcpy_at inb' 0 data') = 64" using b by (simp add: length_memcpy_at less_imp_le)
  show "take (length (tail64 data)) (memcpy_at inb' 0 data') = tail64 data"
    using take_memcpy_at [of 0 inb' data'] b by simp
qed

lemma md5_rep_update:
  assumes rep: "md5_rep m c" and small: "length d < 2 ^ 32"
  shows "md5_rep (m @ d) (MD5Update c d)"
proof -
  note f = md5_repD [OF rep]
  let ?len = "of_nat (length d) :: u32"
  let ?t = "length m mod 64" and ?bits = "(bit_count_lo (m @ d), bit_count_hi (m @ d))"
  have bits: "(bit_count_lo m + push_bit 3 ?len,
      (if bit_count_lo m + push_bit 3 ?len < bit_count_lo m then bit_count_hi m + 1
       else bit_count_hi m) + drop_bit 29 ?len) = ?bits"
    using bit_count_hi_append [OF small, of m] by (simp add: word_carry bit_count_lo_append)
  consider (short) "?t \<noteq> 0" "length d < 64 - ?t" | (fill) "?t \<noteq> 0" "64 - ?t \<le> length d" | (aligned) "?t = 0"
    by linarith
  then show ?thesis
  proof cases
    case short
    then have fs: "chunks64 (m @ d) = chunks64 m" "tail64 (m @ d) = tail64 m @ d"
      by (simp_all add: feed_small)
    have "MD5Update c d = c\<lparr>md5_bits := ?bits, md5_in := memcpy_at (md5_in c) ?t d\<rparr>"
      unfolding bits [symmetric] using short
      by (simp add: MD5Update_def f(2) bit_count_pos Let_def)
    then show ?thesis
      using f short fs take_memcpy_at [of ?t "md5_in c" d]
      by (intro md5_repI) (simp_all add: length_memcpy_at)
  next
    case fill
    let ?i = "64 - ?t" and ?inb = "memcpy_at (md5_in c) ?t (take (64 - ?t) d)"
    have i: "?t \<le> 64" by (simp add: less_imp_le)
    have l: "length ?inb = 64" using fill f i by (simp add: length_memcpy_at)
    have "take (?t + length (take ?i d)) ?inb = tail64 m @ take ?i d"
      using f i by (subst take_memcpy_at) simp_all
    then have inb: "?inb = tail64 m @ take ?i d" using fill l i by (simp add: take_all)
    have fl: "chunks64 (m @ d) = chunks64 m @ ?inb # chunks64 (drop ?i d)"
      "tail64 (m @ d) = tail64 (drop ?i d)"
      using fill feed_large [of m d] inb by auto
    obtain buf inb' data where
      bl: "md5_blocks (rfc_compress (md5_buf c) ?inb) ?inb (drop ?i d) = (buf, inb', data)"
      by (cases "md5_blocks (rfc_compress (md5_buf c) ?inb) ?inb (drop ?i d)") auto
    have "MD5Update c d = c\<lparr>md5_buf := buf, md5_bits := ?bits, md5_in := memcpy_at inb' 0 data\<rparr>"
      unfolding bits [symmetric] using fill bl
      by (simp add: MD5Update_def f(2) bit_count_pos Let_def MD5Transform_rfc)
    then show ?thesis
      using md5_blocks_in [OF l bl] f(1) unfolding fl(2) [symmetric] by (intro md5_repI) (simp_all add: fl(1))
  next
    case aligned
    then have m: "chunks64 (m @ d) = chunks64 m @ chunks64 d" "tail64 (m @ d) = tail64 d"
      using full_tail_unique(2) [of "m @ d" "m @ full64 d" "tail64 d"] full_tail [of d]
        chunks64_append [of m d] by (auto simp: mod_add_left_eq)
    obtain buf inb' data where bl: "md5_blocks (md5_buf c) (md5_in c) d = (buf, inb', data)"
      by (cases "md5_blocks (md5_buf c) (md5_in c) d") auto
    have "MD5Update c d = c\<lparr>md5_buf := buf, md5_bits := ?bits, md5_in := memcpy_at inb' 0 data\<rparr>"
      unfolding bits [symmetric] using aligned bl
      by (simp add: MD5Update_def f(2) bit_count_pos Let_def)
    then show ?thesis
      using md5_blocks_in [OF f(3) bl] f(1) unfolding m(2) [symmetric] by (intro md5_repI) (simp_all add: m(1))
  qed
qed

lemma memcpy_at_end: "j + length d = length b \<Longrightarrow> memcpy_at b j d = take j b @ d"
  by (simp add: memcpy_at_def)

lemma rfc_pad_blocks:
  "chunks64 (rfc_pad m) = chunks64 m @ chunks64 (tail64 m @ 0x80 # replicate (pad_zeros (length m)) 0 @
     WPA_PUT_LE32 (bit_count_lo m) @ WPA_PUT_LE32 (bit_count_hi m))"
proof -
  let ?x = "0x80 # replicate (pad_zeros (length m)) 0 @
     WPA_PUT_LE32 (bit_count_lo m) @ WPA_PUT_LE32 (bit_count_hi m)"
  have "rfc_pad m = full64 m @ (tail64 m @ ?x)"
    using full_tail [of m] by (simp add: rfc_pad_def)
  then show ?thesis by (simp add: chunks64_append chunks64_full [of m])
qed

lemma md5_final:
  assumes rep: "md5_rep m c"
  shows "MD5Final c = rfc1321_md5 m"
proof -
  note f = md5_repD [OF rep]
  let ?r = "length m mod 64"
  let ?cnt = "WPA_PUT_LE32 (bit_count_lo m) @ WPA_PUT_LE32 (bit_count_hi m)"
  let ?in1 = "memcpy_at (md5_in c) ?r [0x80]"
  have r: "?r < 64" and cnt: "length ?cnt = 8" by (simp_all add: len_simps)
  have in1: "length ?in1 = 64" "take (?r + 1) ?in1 = tail64 m @ [0x80]"
    using f r take_memcpy_at [of ?r "md5_in c" "[0x80]"] by (simp_all add: length_memcpy_at)
  show ?thesis
  proof (cases "64 - 1 - ?r < 8")
    case True
    let ?z = "replicate (64 - 1 - ?r) (0 :: u8)"
    let ?in2 = "memcpy_at ?in1 (?r + 1) ?z"
    have in2: "?in2 = tail64 m @ 0x80 # ?z" "length ?in2 = 64"
      using in1 r by (simp_all add: memcpy_at_end length_memcpy_at)
    have in3: "memcpy_at (memcpy_at ?in2 0 (replicate 56 0)) 56 ?cnt = replicate 56 0 @ ?cnt"
      using in2(2) cnt take_memcpy_at [of 0 ?in2 "replicate 56 0"]
      by (subst memcpy_at_end) (simp_all add: length_memcpy_at)
    have "pad_zeros (length m) = (64 - 1 - ?r) + 56"
      using True r by (simp add: pad_zeros_def)
    then have "chunks64 (rfc_pad m) = chunks64 m @ chunks64 (?in2 @ replicate 56 0 @ ?cnt)"
      by (simp only: rfc_pad_blocks in2(1) replicate_add append.simps append_assoc)
    also have "\<dots> = chunks64 m @ [?in2, replicate 56 0 @ ?cnt]"
      using chunks64_block [OF in2(2), of "replicate 56 0 @ ?cnt"]
        chunks64_block [of "replicate 56 0 @ ?cnt" "[]"] cnt by simp
    finally have ch: "chunks64 (rfc_pad m) = chunks64 m @ [?in2, replicate 56 0 @ ?cnt]" .
    show ?thesis
      using True unfolding MD5Final_def f(2) Let_def prod.case bit_count_pos in3
      by (simp only: if_True prod.case in3 MD5Transform_rfc f(1) rfc1321_md5_def ch foldl_append
          foldl.simps)
  next
    case False
    let ?z = "replicate (64 - 1 - ?r - 8) (0 :: u8)"
    let ?in2 = "memcpy_at ?in1 (?r + 1) ?z"
    have "length ?in2 = 64" using in1 r False by (simp add: length_memcpy_at)
    moreover have "take 56 ?in2 = tail64 m @ 0x80 # ?z"
      using take_memcpy_at [of "?r + 1" ?in1 ?z] in1 r False by simp
    ultimately have in3: "memcpy_at ?in2 56 ?cnt = tail64 m @ 0x80 # ?z @ ?cnt"
      using cnt by (simp add: memcpy_at_end)
    have "pad_zeros (length m) = 64 - 1 - ?r - 8"
      using False le_mod_geq [of 64 "119 - ?r"] by (simp add: pad_zeros_def)
    then have "chunks64 (rfc_pad m) = chunks64 m @ chunks64 (tail64 m @ 0x80 # ?z @ ?cnt)"
      by (simp only: rfc_pad_blocks)
    also have "\<dots> = chunks64 m @ [tail64 m @ 0x80 # ?z @ ?cnt]"
      using chunks64_block [of "tail64 m @ 0x80 # ?z @ ?cnt" "[]"] cnt False r by simp
    finally have ch: "chunks64 (rfc_pad m) = chunks64 m @ [tail64 m @ 0x80 # ?z @ ?cnt]" .
    show ?thesis
      using False unfolding MD5Final_def f(2) Let_def prod.case bit_count_pos
      by (simp only: if_False prod.case in3 MD5Transform_rfc f(1) rfc1321_md5_def ch foldl_append
          foldl.simps)
  qed
qed

lemma length_rfc1321_md5: "length (rfc1321_md5 m) = 16"
  by (simp add: rfc1321_md5_def len_simps split: prod.split)

lemma length_md5_vector: "length (md5_vector addr) = 16"
  by (simp add: md5_vector_def MD5Final_def Let_def len_simps split: prod.split)

interpretation md5_ctx: hash_context "MD5Init (replicate 64 0)" MD5Update MD5Final md5_rep
    rfc1321_md5 "2 ^ 32"
  by unfold_locales (simp_all add: md5_rep_init md5_rep_update md5_final)

interpretation md5: hash_vector md5_vector rfc1321_md5 16 "2 ^ 32"
  by unfold_locales (simp_all add: md5_vector_def md5_ctx.vector_digest length_rfc1321_md5)

subsection \<open>HMAC-MD5\<close>

definition hmac_md5_vector :: "bytes \<Rightarrow> bytes list \<Rightarrow> bytes option" where
  "hmac_md5_vector key addr = hmac_vector md5_vector key addr"

definition hmac_md5 :: "bytes \<Rightarrow> bytes \<Rightarrow> bytes option" where
  "hmac_md5 key data = hmac_md5_vector key [data]"

lemma hmac_md5_eq:
  "length data < 2 ^ 32 \<Longrightarrow> length key < 2 ^ 32 \<Longrightarrow>
   hmac_md5 key data = Some (rfc2104_hmac rfc1321_md5 key data)"
  using md5.hmac_vector_eq [of "[data]" key] by (simp add: hmac_md5_def hmac_md5_vector_def)

text \<open>
  C37: MD5 and HMAC-MD5. For any vector of buffers, and whatever the stack held in the context's
  buffer, \<open>md5_vector\<close> returns the RFC 1321 hash of the buffers' concatenation, and
  \<open>hmac_md5_vector\<close> the RFC 2104 HMAC over it for at most five buffers, failing for more.
\<close>

theorem md5_hmac_correct:
  assumes "\<forall>d \<in> set addr. length d < 2 ^ 32" and "length stack = 64" and "length key < 2 ^ 32"
  shows "MD5Final (foldl MD5Update (MD5Init stack) addr) = rfc1321_md5 (concat addr) \<and>
    md5_vector addr = rfc1321_md5 (concat addr) \<and>
    hmac_md5_vector key addr =
      (if length addr \<le> 5 then Some (rfc2104_hmac rfc1321_md5 key (concat addr)) else None)"
  using md5_ctx.rep_foldl [OF md5_rep_init [OF assms(2)] assms(1)] md5.hash_concat [OF assms(1)]
    md5.hmac_vector_eq [OF _ assms(1,3)] md5.hmac_too_many [of addr key]
  by (simp add: md5_final hmac_md5_vector_def)

theorem md5_hmac_correct_witness:
  "md5_vector [[0x61], [0x62, 0x63]] = rfc1321_md5 [0x61, 0x62, 0x63]"
  using md5_hmac_correct [of "[[0x61], [0x62, 0x63]]" "replicate 64 0" "[]"] by simp

end
