(* ===== verification/WpaCommon.thy ===== *)
theory WpaCommon
  imports Sha1 Md5
begin

text \<open>
  The parts of WPA that the authenticator and its helpers share: the constants of
  \<^verbatim>\<open>common/defs.h\<close> and \<^verbatim>\<open>common/wpa_common.h\<close>, the key derivations of
  \<^verbatim>\<open>common/wpa_common.c\<close> and the layout of an EAPOL-Key frame. The build has neither
  802.11r nor 802.11w, so the branches under those options are absent. A C \<open>int\<close> that holds a
  set of bits is a word of 32 bits.
\<close>

unbundle bit_operations_syntax

subsection \<open>Constants\<close>

definition BIT :: "nat \<Rightarrow> u32" where
  "BIT n = push_bit n 1"

text \<open>Bits of \<^verbatim>\<open>enum\<close> values in \<^verbatim>\<open>common/defs.h\<close>.\<close>

definition WPA_CIPHER_NONE :: u32 where "WPA_CIPHER_NONE = BIT 0"
definition WPA_CIPHER_WEP40 :: u32 where "WPA_CIPHER_WEP40 = BIT 1"
definition WPA_CIPHER_WEP104 :: u32 where "WPA_CIPHER_WEP104 = BIT 2"
definition WPA_CIPHER_TKIP :: u32 where "WPA_CIPHER_TKIP = BIT 3"
definition WPA_CIPHER_CCMP :: u32 where "WPA_CIPHER_CCMP = BIT 4"

definition WPA_KEY_MGMT_IEEE8021X :: u32 where "WPA_KEY_MGMT_IEEE8021X = BIT 0"
definition WPA_KEY_MGMT_PSK :: u32 where "WPA_KEY_MGMT_PSK = BIT 1"
definition WPA_KEY_MGMT_WPA_NONE :: u32 where "WPA_KEY_MGMT_WPA_NONE = BIT 4"
definition WPA_KEY_MGMT_FT_IEEE8021X :: u32 where "WPA_KEY_MGMT_FT_IEEE8021X = BIT 5"
definition WPA_KEY_MGMT_FT_PSK :: u32 where "WPA_KEY_MGMT_FT_PSK = BIT 6"
definition WPA_KEY_MGMT_IEEE8021X_SHA256 :: u32 where "WPA_KEY_MGMT_IEEE8021X_SHA256 = BIT 7"
definition WPA_KEY_MGMT_PSK_SHA256 :: u32 where "WPA_KEY_MGMT_PSK_SHA256 = BIT 8"

definition WPA_PROTO_WPA :: u32 where "WPA_PROTO_WPA = BIT 0"
definition WPA_PROTO_RSN :: u32 where "WPA_PROTO_RSN = BIT 1"

lemmas cipher_defs = WPA_CIPHER_NONE_def WPA_CIPHER_WEP40_def WPA_CIPHER_WEP104_def
  WPA_CIPHER_TKIP_def WPA_CIPHER_CCMP_def
lemmas akm_defs = WPA_KEY_MGMT_IEEE8021X_def WPA_KEY_MGMT_PSK_def WPA_KEY_MGMT_WPA_NONE_def
  WPA_KEY_MGMT_FT_IEEE8021X_def WPA_KEY_MGMT_FT_PSK_def WPA_KEY_MGMT_IEEE8021X_SHA256_def
  WPA_KEY_MGMT_PSK_SHA256_def
lemmas proto_defs = WPA_PROTO_WPA_def WPA_PROTO_RSN_def

definition wpa_key_mgmt_wpa_ieee8021x :: "u32 \<Rightarrow> bool" where
  "wpa_key_mgmt_wpa_ieee8021x akm \<longleftrightarrow>
     akm AND (WPA_KEY_MGMT_IEEE8021X OR WPA_KEY_MGMT_FT_IEEE8021X OR WPA_KEY_MGMT_IEEE8021X_SHA256) \<noteq> 0"

definition wpa_key_mgmt_wpa_psk :: "u32 \<Rightarrow> bool" where
  "wpa_key_mgmt_wpa_psk akm \<longleftrightarrow>
     akm AND (WPA_KEY_MGMT_PSK OR WPA_KEY_MGMT_FT_PSK OR WPA_KEY_MGMT_PSK_SHA256) \<noteq> 0"

definition wpa_key_mgmt_ft :: "u32 \<Rightarrow> bool" where
  "wpa_key_mgmt_ft akm \<longleftrightarrow> akm AND (WPA_KEY_MGMT_FT_PSK OR WPA_KEY_MGMT_FT_IEEE8021X) \<noteq> 0"

definition wpa_key_mgmt_sha256 :: "u32 \<Rightarrow> bool" where
  "wpa_key_mgmt_sha256 akm \<longleftrightarrow>
     akm AND (WPA_KEY_MGMT_PSK_SHA256 OR WPA_KEY_MGMT_IEEE8021X_SHA256) \<noteq> 0"

definition wpa_key_mgmt_wpa :: "u32 \<Rightarrow> bool" where
  "wpa_key_mgmt_wpa akm \<longleftrightarrow> wpa_key_mgmt_wpa_ieee8021x akm \<or> wpa_key_mgmt_wpa_psk akm"

text \<open>The bits of the Key Information field of an EAPOL-Key frame.\<close>

definition WPA_KEY_INFO_TYPE_MASK :: u32 where "WPA_KEY_INFO_TYPE_MASK = BIT 0 OR BIT 1 OR BIT 2"
definition WPA_KEY_INFO_TYPE_HMAC_MD5_RC4 :: u32 where "WPA_KEY_INFO_TYPE_HMAC_MD5_RC4 = BIT 0"
definition WPA_KEY_INFO_TYPE_HMAC_SHA1_AES :: u32 where "WPA_KEY_INFO_TYPE_HMAC_SHA1_AES = BIT 1"
definition WPA_KEY_INFO_TYPE_AES_128_CMAC :: u32 where "WPA_KEY_INFO_TYPE_AES_128_CMAC = 3"
definition WPA_KEY_INFO_KEY_TYPE :: u32 where "WPA_KEY_INFO_KEY_TYPE = BIT 3"
definition WPA_KEY_INFO_KEY_INDEX_SHIFT :: nat where "WPA_KEY_INFO_KEY_INDEX_SHIFT = 4"
definition WPA_KEY_INFO_INSTALL :: u32 where "WPA_KEY_INFO_INSTALL = BIT 6"
definition WPA_KEY_INFO_ACK :: u32 where "WPA_KEY_INFO_ACK = BIT 7"
definition WPA_KEY_INFO_MIC :: u32 where "WPA_KEY_INFO_MIC = BIT 8"
definition WPA_KEY_INFO_SECURE :: u32 where "WPA_KEY_INFO_SECURE = BIT 9"
definition WPA_KEY_INFO_ERROR :: u32 where "WPA_KEY_INFO_ERROR = BIT 10"
definition WPA_KEY_INFO_REQUEST :: u32 where "WPA_KEY_INFO_REQUEST = BIT 11"
definition WPA_KEY_INFO_ENCR_KEY_DATA :: u32 where "WPA_KEY_INFO_ENCR_KEY_DATA = BIT 12"
definition WPA_KEY_INFO_SMK_MESSAGE :: u32 where "WPA_KEY_INFO_SMK_MESSAGE = BIT 13"

lemmas key_info_defs = WPA_KEY_INFO_TYPE_MASK_def WPA_KEY_INFO_TYPE_HMAC_MD5_RC4_def
  WPA_KEY_INFO_TYPE_HMAC_SHA1_AES_def WPA_KEY_INFO_TYPE_AES_128_CMAC_def WPA_KEY_INFO_KEY_TYPE_def
  WPA_KEY_INFO_KEY_INDEX_SHIFT_def WPA_KEY_INFO_INSTALL_def WPA_KEY_INFO_ACK_def
  WPA_KEY_INFO_MIC_def WPA_KEY_INFO_SECURE_def WPA_KEY_INFO_ERROR_def WPA_KEY_INFO_REQUEST_def
  WPA_KEY_INFO_ENCR_KEY_DATA_def WPA_KEY_INFO_SMK_MESSAGE_def

subsection \<open>Key derivation and MIC\<close>

text \<open>The octets of a C string, without the NUL.\<close>

definition c_str :: "string \<Rightarrow> bytes" where
  "c_str s = map of_char s"

text \<open>\<open>memcmp\<close> on buffers of the same length: the sign of the first difference.\<close>

fun memcmp :: "bytes \<Rightarrow> bytes \<Rightarrow> int" where
  "memcmp (a # as) (b # bs) = (if a = b then memcmp as bs else uint a - uint b)"
| "memcmp _ _ = 0"

definition os_memcmp :: "bytes \<Rightarrow> bytes \<Rightarrow> nat \<Rightarrow> int" where
  "os_memcmp a b n = memcmp (take n a) (take n b)"

text \<open>\<open>None\<close> is the return value -1.\<close>

definition wpa_eapol_key_mic :: "bytes \<Rightarrow> u32 \<Rightarrow> bytes \<Rightarrow> bytes option" where
  "wpa_eapol_key_mic key ver buf =
     (if ver = WPA_KEY_INFO_TYPE_HMAC_MD5_RC4 then hmac_md5 (take 16 key) buf
      else if ver = WPA_KEY_INFO_TYPE_HMAC_SHA1_AES then
        (case hmac_sha1 (take 16 key) buf of None \<Rightarrow> None | Some hash \<Rightarrow> Some (take 16 hash))
      else None)"

definition ptk_data :: "bytes \<Rightarrow> bytes \<Rightarrow> bytes \<Rightarrow> bytes \<Rightarrow> bytes" where
  "ptk_data addr1 addr2 nonce1 nonce2 =
     (if os_memcmp addr1 addr2 6 < 0 then take 6 addr1 @ take 6 addr2
      else take 6 addr2 @ take 6 addr1) @
     (if os_memcmp nonce1 nonce2 32 < 0 then take 32 nonce1 @ take 32 nonce2
      else take 32 nonce2 @ take 32 nonce1)"

text \<open>The failure of \<open>sha1_prf\<close>, which the code ignores, leaves the buffer as it was: here \<open>None\<close>.\<close>

definition wpa_pmk_to_ptk ::
  "bytes \<Rightarrow> string \<Rightarrow> bytes \<Rightarrow> bytes \<Rightarrow> bytes \<Rightarrow> bytes \<Rightarrow> nat \<Rightarrow> bytes option" where
  "wpa_pmk_to_ptk pmk label addr1 addr2 nonce1 nonce2 ptk_len =
     sha1_prf pmk (c_str label) (ptk_data addr1 addr2 nonce1 nonce2) ptk_len"

definition rsn_pmkid :: "bytes \<Rightarrow> bytes \<Rightarrow> bytes \<Rightarrow> bytes option" where
  "rsn_pmkid pmk aa spa =
     (case hmac_sha1_vector pmk [c_str ''PMK Name'', take 6 aa, take 6 spa] of
        None \<Rightarrow> None | Some hash \<Rightarrow> Some (take 16 hash))"

text \<open>Without 802.11r the first argument has no effect. \<open>None\<close> is a NULL pointer.\<close>

definition wpa_compare_rsn_ie :: "bool \<Rightarrow> bytes option \<Rightarrow> bytes option \<Rightarrow> int" where
  "wpa_compare_rsn_ie ft_initial_assoc ie1 ie2 =
     (case (ie1, ie2) of
        (Some i1, Some i2) \<Rightarrow> if length i1 = length i2 \<and> i1 = i2 then 0 else -1
      | _ \<Rightarrow> -1)"

definition wpa_cipher_txt :: "u32 \<Rightarrow> string" where
  "wpa_cipher_txt cipher =
     (if cipher = WPA_CIPHER_NONE then ''NONE''
      else if cipher = WPA_CIPHER_WEP40 then ''WEP-40''
      else if cipher = WPA_CIPHER_WEP104 then ''WEP-104''
      else if cipher = WPA_CIPHER_TKIP then ''TKIP''
      else if cipher = WPA_CIPHER_CCMP then ''CCMP''
      else if cipher = WPA_CIPHER_CCMP OR WPA_CIPHER_TKIP then ''CCMP+TKIP''
      else ''UNKNOWN'')"

lemma length_c_str [simp]: "length (c_str s) = length s"
  by (simp add: c_str_def)

subsection \<open>The EAPOL-Key frame\<close>

text \<open>
  A frame is the four octets of \<^verbatim>\<open>struct ieee802_1x_hdr\<close>, the 95 of
  \<^verbatim>\<open>struct wpa_eapol_key\<close> and the key data. Both structures are packed, so a field is at a fixed
  offset of the frame; these are the fields the code reads or writes.
\<close>

definition EAPOL_HDR_LEN :: nat where "EAPOL_HDR_LEN = 4"
definition EAPOL_KEY_LEN :: nat where "EAPOL_KEY_LEN = 95"
definition EAPOL_KEY_TYPE_RSN :: u8 where "EAPOL_KEY_TYPE_RSN = 2"
definition EAPOL_KEY_TYPE_WPA :: u8 where "EAPOL_KEY_TYPE_WPA = 254"
definition IEEE802_1X_TYPE_EAPOL_KEY :: u8 where "IEEE802_1X_TYPE_EAPOL_KEY = 3"

lemmas eapol_key_defs = EAPOL_HDR_LEN_def EAPOL_KEY_LEN_def EAPOL_KEY_TYPE_RSN_def
  EAPOL_KEY_TYPE_WPA_def IEEE802_1X_TYPE_EAPOL_KEY_def

definition key_type_of :: "bytes \<Rightarrow> u8" where "key_type_of data = data ! 4"
definition key_info_of :: "bytes \<Rightarrow> u32" where
  "key_info_of data = ucast (WPA_GET_BE16 (drop 5 data))"
definition replay_counter_of :: "bytes \<Rightarrow> bytes" where
  "replay_counter_of data = take 8 (drop 9 data)"
definition key_nonce_of :: "bytes \<Rightarrow> bytes" where "key_nonce_of data = take 32 (drop 17 data)"
definition key_mic_of :: "bytes \<Rightarrow> bytes" where "key_mic_of data = take 16 (drop 81 data)"
definition key_data_length_of :: "bytes \<Rightarrow> nat" where
  "key_data_length_of data = unat (WPA_GET_BE16 (drop 97 data))"
definition key_data_of :: "bytes \<Rightarrow> bytes" where "key_data_of data = drop 99 data"

text \<open>Writing \<open>key->key_mic\<close>.\<close>

definition set_key_mic :: "bytes \<Rightarrow> bytes \<Rightarrow> bytes" where
  "set_key_mic mic data = take 81 data @ take 16 mic @ drop 97 data"

record eapol_key =
  key_type :: u8
  key_info :: u32
  key_length :: u16
  replay_counter :: bytes
  key_nonce :: bytes
  key_iv :: bytes
  key_rsc :: bytes
  key_mic :: bytes
  key_data_length :: u16

definition eapol_frame :: "u8 \<Rightarrow> eapol_key \<Rightarrow> bytes \<Rightarrow> bytes" where
  "eapol_frame version k key_data =
     [version, IEEE802_1X_TYPE_EAPOL_KEY] @ WPA_PUT_BE16 (of_nat (EAPOL_KEY_LEN + length key_data)) @
     [key_type k] @ WPA_PUT_BE16 (ucast (key_info k)) @ WPA_PUT_BE16 (key_length k) @
     replay_counter k @ key_nonce k @ key_iv k @ key_rsc k @ replicate 8 0 @ key_mic k @
     WPA_PUT_BE16 (key_data_length k) @ key_data"

text \<open>0 when the MIC of the frame is right, -1 otherwise.\<close>

definition wpa_verify_key_mic :: "bytes \<Rightarrow> bytes \<Rightarrow> int" where
  "wpa_verify_key_mic kck data =
     (if length data < EAPOL_HDR_LEN + EAPOL_KEY_LEN then -1
      else case wpa_eapol_key_mic kck (key_info_of data AND WPA_KEY_INFO_TYPE_MASK)
                  (set_key_mic (replicate 16 0) data) of
             None \<Rightarrow> -1
           | Some mic \<Rightarrow> if key_mic_of data = take 16 mic then 0 else -1)"

subsection \<open>Both ends derive the same keys\<close>

lemma memcmp_swap: "length a = length b \<Longrightarrow> memcmp b a = - memcmp a b"
  by (induction a b rule: list_induct2) auto

lemma memcmp_zero: "length a = length b \<Longrightarrow> memcmp a b = 0 \<longleftrightarrow> a = b"
  by (induction a b rule: list_induct2) (auto simp: word_uint_eq_iff)

lemma os_memcmp_swap: "length a = length b \<Longrightarrow> os_memcmp b a n = - os_memcmp a b n"
  unfolding os_memcmp_def by (rule memcmp_swap) simp

lemma os_memcmp_zero: "length a = length b \<Longrightarrow> os_memcmp a b n = 0 \<longleftrightarrow> take n a = take n b"
  unfolding os_memcmp_def by (rule memcmp_zero) simp

text \<open>The order the two ends are named in does not matter: each pair is sorted.\<close>

lemma sorted_pair_swap:
  "length a = length b \<Longrightarrow>
   (if os_memcmp a b n < 0 then take n a @ take n b else take n b @ take n a) =
   (if os_memcmp b a n < 0 then take n b @ take n a else take n a @ take n b)"
  using os_memcmp_swap [of a b n] os_memcmp_zero [of a b n]
  by (cases "os_memcmp a b n" "0 :: int" rule: linorder_cases) simp_all

lemma ptk_data_swap:
  "length a1 = length a2 \<Longrightarrow> length n1 = length n2 \<Longrightarrow> ptk_data a2 a1 n2 n1 = ptk_data a1 a2 n1 n2"
  unfolding ptk_data_def by (simp only: sorted_pair_swap [of a1 a2 6] sorted_pair_swap [of n1 n2 32])

lemma length_ptk_data [len_simps]:
  "length a1 = 6 \<Longrightarrow> length a2 = 6 \<Longrightarrow> length n1 = 32 \<Longrightarrow> length n2 = 32 \<Longrightarrow>
   length (ptk_data a1 a2 n1 n2) = 76"
  by (simp add: ptk_data_def)

text \<open>The derivation binds both addresses and both nonces: the data hashed determines the pairs.\<close>

lemma sorted_pair_inj:
  assumes "length a = n" "length b = n" "length c = n" "length d = n"
    and "(if os_memcmp a b n < 0 then take n a @ take n b else take n b @ take n a) =
         (if os_memcmp c d n < 0 then take n c @ take n d else take n d @ take n c)"
  shows "{a, b} = {c, d}"
  using assms by (auto split: if_splits)

lemma length_sorted_pair:
  "length a = n \<Longrightarrow> length b = n \<Longrightarrow>
   length (if os_memcmp a b n < 0 then take n a @ take n b else take n b @ take n a) = 2 * n"
  by simp

lemma ptk_data_inj:
  assumes "length a1 = 6" "length a2 = 6" "length b1 = 6" "length b2 = 6"
    and "length n1 = 32" "length n2 = 32" "length m1 = 32" "length m2 = 32"
    and "ptk_data a1 a2 n1 n2 = ptk_data b1 b2 m1 m2"
  shows "{a1, a2} = {b1, b2} \<and> {n1, n2} = {m1, m2}"
proof -
  have "length (if os_memcmp a1 a2 6 < 0 then take 6 a1 @ take 6 a2 else take 6 a2 @ take 6 a1) =
    length (if os_memcmp b1 b2 6 < 0 then take 6 b1 @ take 6 b2 else take 6 b2 @ take 6 b1)"
    using assms(1-4) by (simp only: length_sorted_pair)
  from assms(9) [unfolded ptk_data_def append_eq_append_conv [OF disjI1, OF this]]
  show ?thesis using sorted_pair_inj [of a1 6 a2 b1 b2] sorted_pair_inj [of n1 32 n2 m1 m2] assms
    by blast
qed

text \<open>
  C27: The pairwise key. \<open>wpa_pmk_to_ptk\<close> never fails on well-formed arguments, returns exactly
  \<open>ptk_len\<close> octets, and is the PRF of IEEE 802.11i over the PMK and the two sorted pairs; the
  authenticator and the supplicant, which name themselves in the opposite order, derive the same
  key; and the data hashed determines both the pair of addresses and the pair of nonces, so a key
  is never derived twice from the same input for different ends or nonces.
\<close>

theorem wpa_pmk_to_ptk_agrees:
  assumes "length aa = 6" "length spa = 6" "length anonce = 32" "length snonce = 32"
    and "length pmk < 2 ^ 32 - 64" "length label < 2 ^ 32 - 65"
  shows "(\<exists>ptk. wpa_pmk_to_ptk pmk label aa spa anonce snonce n = Some ptk \<and> length ptk = n \<and>
      wpa_pmk_to_ptk pmk label spa aa snonce anonce n = Some ptk \<and>
      ptk = ieee_prf pmk (c_str label) (ptk_data aa spa anonce snonce) n) \<and>
    (\<forall>aa' spa' anonce' snonce'. length aa' = 6 \<longrightarrow> length spa' = 6 \<longrightarrow> length anonce' = 32 \<longrightarrow>
      length snonce' = 32 \<longrightarrow> ptk_data aa spa anonce snonce = ptk_data aa' spa' anonce' snonce' \<longrightarrow>
      {aa, spa} = {aa', spa'} \<and> {anonce, snonce} = {anonce', snonce'})"
proof -
  have len: "length (ptk_data aa spa anonce snonce) = 76" using assms by (simp add: len_simps)
  have prf_eq: "sha1_prf pmk (c_str label) (ptk_data aa spa anonce snonce) n =
      Some (ieee_prf pmk (c_str label) (ptk_data aa spa anonce snonce) n)"
    using assms len by (intro sha1_prf_eq) simp_all
  have swap: "ptk_data spa aa snonce anonce = ptk_data aa spa anonce snonce"
    using assms by (intro ptk_data_swap) simp_all
  have "{aa, spa} = {aa', spa'} \<and> {anonce, snonce} = {anonce', snonce'}"
    if "length aa' = 6" "length spa' = 6" "length anonce' = 32" "length snonce' = 32"
      "ptk_data aa spa anonce snonce = ptk_data aa' spa' anonce' snonce'" for aa' spa' anonce' snonce'
    by (rule ptk_data_inj [OF assms(1,2) that(1,2) assms(3,4) that(3,4,5)])
  then show ?thesis
    unfolding wpa_pmk_to_ptk_def swap prf_eq by (simp add: length_ieee_prf)
qed

theorem wpa_pmk_to_ptk_agrees_witness:
  "\<exists>ptk. wpa_pmk_to_ptk (replicate 32 7) ''Pairwise key expansion'' (replicate 6 1) (replicate 6 2)
     (replicate 32 3) (replicate 32 4) 48 = Some ptk \<and> length ptk = 48"
  using wpa_pmk_to_ptk_agrees [of "replicate 6 1" "replicate 6 2" "replicate 32 3" "replicate 32 4"
    "replicate 32 7" "''Pairwise key expansion''" 48] by auto

subsection \<open>Message integrity of EAPOL-Key frames\<close>

lemma length_set_key_mic [len_simps]:
  "99 \<le> length data \<Longrightarrow> length mic = 16 \<Longrightarrow> length (set_key_mic mic data) = length data"
  by (simp add: set_key_mic_def)

lemma key_mic_of_set:
  "99 \<le> length data \<Longrightarrow> length mic = 16 \<Longrightarrow> key_mic_of (set_key_mic mic data) = mic"
  by (simp add: set_key_mic_def key_mic_of_def)

lemma set_key_mic_set:
  "99 \<le> length data \<Longrightarrow> length mic = 16 \<Longrightarrow> length mic' = 16 \<Longrightarrow>
   set_key_mic mic' (set_key_mic mic data) = set_key_mic mic' data"
  by (simp add: set_key_mic_def)

lemma set_key_mic_other:
  "99 \<le> length data \<Longrightarrow> key_info_of (set_key_mic mic data) = key_info_of data"
  by (simp add: set_key_mic_def key_info_of_def WPA_GET_BE16_def nth_append)

text \<open>The MIC function of a descriptor version, over the standards' hashes.\<close>

definition spec_mic :: "bytes \<Rightarrow> u32 \<Rightarrow> bytes \<Rightarrow> bytes" where
  "spec_mic kck ver frame =
     (if ver = WPA_KEY_INFO_TYPE_HMAC_MD5_RC4 then rfc2104_hmac rfc1321_md5 kck frame
      else take 16 (HMAC_SHA1 kck frame))"

lemma length_spec_mic [len_simps]: "length (spec_mic kck ver frame) = 16"
  by (simp add: spec_mic_def md5.length_hmac sha1.length_hmac)

lemma wpa_eapol_key_mic_eq:
  assumes "length kck = 16" "length frame < 2 ^ 32 - 64"
  shows "wpa_eapol_key_mic kck ver frame =
    (if ver = WPA_KEY_INFO_TYPE_HMAC_MD5_RC4 \<or> ver = WPA_KEY_INFO_TYPE_HMAC_SHA1_AES
     then Some (spec_mic kck ver frame) else None)"
  using assms hmac_sha1_vector_eq [of "[frame]" kck]
  by (auto simp: wpa_eapol_key_mic_def spec_mic_def hmac_md5_eq hmac_sha1_def key_info_defs BIT_def)

text \<open>
  C28: Which EAPOL-Key frames pass. For a key confirmation key of 16 octets \<open>wpa_verify_key_mic\<close>
  returns 0 for exactly the frames that hold the whole header, name one of the two built MIC
  functions in their key information and whose MIC field is that function of the frame with the
  field cleared. Any frame can be completed to one that passes, in exactly one way: by the MIC the
  sender computes with \<open>wpa_eapol_key_mic\<close> under the same key.
\<close>

theorem wpa_verify_key_mic_exact:
  assumes "length kck = 16" "length data < 2 ^ 32 - 64"
  shows "(wpa_verify_key_mic kck data = 0 \<longleftrightarrow>
      99 \<le> length data \<and>
      (key_info_of data AND WPA_KEY_INFO_TYPE_MASK) \<in>
        {WPA_KEY_INFO_TYPE_HMAC_MD5_RC4, WPA_KEY_INFO_TYPE_HMAC_SHA1_AES} \<and>
      key_mic_of data = spec_mic kck (key_info_of data AND WPA_KEY_INFO_TYPE_MASK)
        (set_key_mic (replicate 16 0) data)) \<and>
    (99 \<le> length data \<longrightarrow> length mic = 16 \<longrightarrow>
      wpa_eapol_key_mic kck (key_info_of data AND WPA_KEY_INFO_TYPE_MASK)
        (set_key_mic (replicate 16 0) data) = Some mac \<longrightarrow>
      (wpa_verify_key_mic kck (set_key_mic mic data) = 0 \<longleftrightarrow> mic = mac))"
proof (cases "99 \<le> length data")
  case True
  let ?v = "key_info_of data AND WPA_KEY_INFO_TYPE_MASK" and ?z = "set_key_mic (replicate 16 0) data"
  have "length ?z < 2 ^ 32 - 64" using assms True by (simp add: len_simps)
  note mic = wpa_eapol_key_mic_eq [OF assms(1) this, of ?v]
  show ?thesis
    using True by (auto simp: wpa_verify_key_mic_def eapol_key_defs mic len_simps key_mic_of_set
        set_key_mic_set set_key_mic_other split: if_splits)
next
  case False
  then show ?thesis by (simp add: wpa_verify_key_mic_def eapol_key_defs)
qed

theorem wpa_verify_key_mic_exact_witness:
  "\<exists>mic. wpa_verify_key_mic (replicate 16 1)
     (set_key_mic mic (replicate 5 0 @ [0, 1] @ replicate 92 0)) = 0"
proof -
  let ?d = "replicate 5 0 @ [0, 1] @ replicate 92 0 :: bytes" and ?k = "replicate 16 1 :: bytes"
  have v: "key_info_of ?d AND WPA_KEY_INFO_TYPE_MASK = WPA_KEY_INFO_TYPE_HMAC_MD5_RC4"
    by (simp add: key_info_of_def WPA_GET_BE16_def key_info_defs BIT_def)
  let ?m = "spec_mic ?k WPA_KEY_INFO_TYPE_HMAC_MD5_RC4 (set_key_mic (replicate 16 0) ?d)"
  have "wpa_verify_key_mic ?k (set_key_mic ?m ?d) = 0"
    using wpa_verify_key_mic_exact [of ?k ?d ?m ?m] v
    by (simp add: wpa_eapol_key_mic_eq len_simps)
  then show ?thesis by blast
qed

end
