(* ===== verification/PmksaCache.thy ===== *)
theory PmksaCache
  imports WpaCommon
begin

text \<open>
  The cache of pairwise master keys (\<^verbatim>\<open>ap/pmksa_cache_auth.c\<close>). The linked list \<open>pmksa\<close>, in the
  order of expiration, and the 128 hash chains \<open>pmkid\<close> are lists of entries; an entry carries its
  address, by which the code compares pointers. The answer of \<open>os_zalloc\<close> and the clock are
  arguments. \<open>freed\<close> logs the addresses passed to \<open>free_cb\<close>, \<open>timer\<close> is the pending timeout of
  \<open>pmksa_cache_expire\<close>. The copies of an identity and of the RADIUS class are assumed to find memory.
\<close>

unbundle bit_operations_syntax

subsection \<open>Data\<close>

record rsn_pmksa_cache_entry =
  entry_addr :: nat
  entry_pmkid :: bytes
  entry_pmk :: bytes
  expiration :: int
  akmp :: u32
  entry_spa :: bytes
  identity :: "bytes option"
  radius_class :: "bytes list"
  eap_type_authsrv :: u8
  vlan_id :: int
  opportunistic :: bool

record rsn_pmksa_cache =
  pmkid_chains :: "nat \<Rightarrow> rsn_pmksa_cache_entry list"
  pmksa_list :: "rsn_pmksa_cache_entry list"
  pmksa_count :: int
  freed :: "nat list"
  timer :: "int option"

text \<open>The fields of the EAPOL state machine and of the station that an entry keeps.\<close>

record eapol_data =
  eapol_identity :: "bytes option"
  eapol_class :: "bytes list"
  eapol_type :: u8
  eapol_vlan :: int

definition pmksa_cache_max_entries :: int where "pmksa_cache_max_entries = 1024"
definition dot11RSNAConfigPMKLifetime :: int where "dot11RSNAConfigPMKLifetime = 43200"
definition PMK_LEN :: nat where "PMK_LEN = 32"

definition PMKID_HASH :: "bytes \<Rightarrow> nat" where
  "PMKID_HASH pmkid = unat (pmkid ! 0 AND 0x7f)"

subsection \<open>Operations\<close>

text \<open>Unlinking: the first list element that is the entry.\<close>

definition unlink :: "nat \<Rightarrow> rsn_pmksa_cache_entry list \<Rightarrow> rsn_pmksa_cache_entry list" where
  "unlink a es =
     takeWhile (\<lambda>e. entry_addr e \<noteq> a) es @ drop 1 (dropWhile (\<lambda>e. entry_addr e \<noteq> a) es)"

definition pmksa_cache_free_entry ::
  "rsn_pmksa_cache \<Rightarrow> rsn_pmksa_cache_entry \<Rightarrow> rsn_pmksa_cache" where
  "pmksa_cache_free_entry c entry =
     (let h = PMKID_HASH (entry_pmkid entry) in
      c\<lparr>pmksa_count := pmksa_count c - 1,
        freed := freed c @ [entry_addr entry],
        pmkid_chains := (pmkid_chains c)(h := unlink (entry_addr entry) (pmkid_chains c h)),
        pmksa_list := unlink (entry_addr entry) (pmksa_list c)\<rparr>)"

definition pmksa_cache_set_expiration :: "int \<Rightarrow> rsn_pmksa_cache \<Rightarrow> rsn_pmksa_cache" where
  "pmksa_cache_set_expiration now c =
     (case pmksa_list c of
        [] \<Rightarrow> c\<lparr>timer := None\<rparr>
      | e # _ \<Rightarrow>
          let sec = expiration e - now; sec = (if sec < 0 then 0 else sec)
          in c\<lparr>timer := Some (sec + 1)\<rparr>)"

lemma length_unlink: "length (unlink a es) \<le> length es"
  by (induction es) (auto simp: unlink_def)

function expire_loop :: "int \<Rightarrow> rsn_pmksa_cache \<Rightarrow> rsn_pmksa_cache" where
  "expire_loop now c =
     (case pmksa_list c of
        [] \<Rightarrow> c
      | e # es \<Rightarrow>
          if expiration e \<le> now
          then expire_loop now (pmksa_cache_free_entry (c\<lparr>pmksa_list := es\<rparr>) e) else c)"
  by pat_completeness auto
termination
  by (relation "measure (\<lambda>(now, c). length (pmksa_list c))")
     (auto simp: pmksa_cache_free_entry_def Let_def intro: le_less_trans [OF length_unlink])

declare expire_loop.simps [simp del]

definition pmksa_cache_expire :: "int \<Rightarrow> rsn_pmksa_cache \<Rightarrow> rsn_pmksa_cache" where
  "pmksa_cache_expire now c = pmksa_cache_set_expiration now (expire_loop now c)"

definition pmksa_cache_from_eapol_data ::
  "rsn_pmksa_cache_entry \<Rightarrow> eapol_data option \<Rightarrow> rsn_pmksa_cache_entry" where
  "pmksa_cache_from_eapol_data entry eapol =
     (case eapol of
        None \<Rightarrow> entry
      | Some d \<Rightarrow>
          let entry = (case eapol_identity d of None \<Rightarrow> entry | Some i \<Rightarrow> entry\<lparr>identity := Some i\<rparr>)
          in entry\<lparr>radius_class := eapol_class d, eap_type_authsrv := eapol_type d,
                   vlan_id := eapol_vlan d\<rparr>)"

definition pmksa_cache_to_eapol_data ::
  "rsn_pmksa_cache_entry option \<Rightarrow> eapol_data option \<Rightarrow> eapol_data option" where
  "pmksa_cache_to_eapol_data entry eapol =
     (case (entry, eapol) of
        (Some entry, Some d) \<Rightarrow>
          let d = (case identity entry of None \<Rightarrow> d | Some i \<Rightarrow> d\<lparr>eapol_identity := Some i\<rparr>)
          in Some (d\<lparr>eapol_class := radius_class entry, eapol_type := eap_type_authsrv entry,
                     eapol_vlan := vlan_id entry\<rparr>)
      | _ \<Rightarrow> eapol)"

text \<open>The list position: after every entry that does not expire later.\<close>

fun insert_by_expiration ::
  "rsn_pmksa_cache_entry \<Rightarrow> rsn_pmksa_cache_entry list \<Rightarrow> rsn_pmksa_cache_entry list" where
  "insert_by_expiration entry [] = [entry]"
| "insert_by_expiration entry (pos # es) =
     (if expiration pos > expiration entry then entry # pos # es
      else pos # insert_by_expiration entry es)"

definition pmksa_cache_link_entry ::
  "rsn_pmksa_cache \<Rightarrow> rsn_pmksa_cache_entry \<Rightarrow> rsn_pmksa_cache" where
  "pmksa_cache_link_entry c entry =
     (let h = PMKID_HASH (entry_pmkid entry) in
      c\<lparr>pmksa_list := insert_by_expiration entry (pmksa_list c),
        pmkid_chains := (pmkid_chains c)(h := entry # pmkid_chains c h),
        pmksa_count := pmksa_count c + 1\<rparr>)"

text \<open>\<open>None\<close> for a NULL argument matches any.\<close>

definition pmksa_cache_auth_get ::
  "rsn_pmksa_cache \<Rightarrow> bytes option \<Rightarrow> bytes option \<Rightarrow> rsn_pmksa_cache_entry option" where
  "pmksa_cache_auth_get c spa pmkid =
     List.find
       (\<lambda>e. (case spa of None \<Rightarrow> True | Some a \<Rightarrow> os_memcmp (entry_spa e) a 6 = 0) \<and>
            (case pmkid of None \<Rightarrow> True | Some p \<Rightarrow> os_memcmp (entry_pmkid e) p 16 = 0))
       (case pmkid of None \<Rightarrow> pmksa_list c | Some p \<Rightarrow> pmkid_chains c (PMKID_HASH p))"

definition zero_entry :: "nat \<Rightarrow> rsn_pmksa_cache_entry" where
  "zero_entry a =
     \<lparr>entry_addr = a, entry_pmkid = replicate 16 0, entry_pmk = [], expiration = 0, akmp = 0,
      entry_spa = replicate 6 0, identity = None, radius_class = [], eap_type_authsrv = 0,
      vlan_id = 0, opportunistic = False\<rparr>"

definition new_entry ::
  "int \<Rightarrow> nat \<Rightarrow> bytes \<Rightarrow> bytes \<Rightarrow> bytes \<Rightarrow> int \<Rightarrow> eapol_data option \<Rightarrow> u32 \<Rightarrow> rsn_pmksa_cache_entry" where
  "new_entry now a pmk aa spa session_timeout eapol ak =
     pmksa_cache_from_eapol_data
       ((zero_entry a)\<lparr>entry_pmk := pmk,
          entry_pmkid := (case rsn_pmkid pmk aa spa of Some p \<Rightarrow> p | None \<Rightarrow> replicate 16 0),
          expiration := now + (if session_timeout > 0 then session_timeout
                               else dot11RSNAConfigPMKLifetime),
          akmp := ak, entry_spa := take 6 spa\<rparr>) eapol"

definition drop_same_sta :: "rsn_pmksa_cache \<Rightarrow> bytes \<Rightarrow> rsn_pmksa_cache" where
  "drop_same_sta c spa =
     (case pmksa_cache_auth_get c (Some spa) None of
        None \<Rightarrow> c | Some pos \<Rightarrow> pmksa_cache_free_entry c pos)"

definition drop_oldest :: "rsn_pmksa_cache \<Rightarrow> rsn_pmksa_cache" where
  "drop_oldest c =
     (case pmksa_list c of
        e # _ \<Rightarrow> if pmksa_count c \<ge> pmksa_cache_max_entries then pmksa_cache_free_entry c e else c
      | [] \<Rightarrow> c)"

text \<open>\<open>alloc\<close> is what \<open>os_zalloc\<close> returned.\<close>

definition pmksa_cache_auth_add ::
  "int \<Rightarrow> nat option \<Rightarrow> rsn_pmksa_cache \<Rightarrow> bytes \<Rightarrow> bytes \<Rightarrow> bytes \<Rightarrow> int \<Rightarrow> eapol_data option \<Rightarrow> u32 \<Rightarrow>
   rsn_pmksa_cache_entry option \<times> rsn_pmksa_cache" where
  "pmksa_cache_auth_add now alloc c pmk aa spa session_timeout eapol ak =
     (if length pmk > PMK_LEN then (None, c)
      else case alloc of
             None \<Rightarrow> (None, c)
           | Some a \<Rightarrow>
               let entry = new_entry now a pmk aa spa session_timeout eapol ak
               in (Some entry, pmksa_cache_link_entry (drop_oldest (drop_same_sta c spa)) entry))"

definition pmksa_cache_add_okc ::
  "nat option \<Rightarrow> rsn_pmksa_cache \<Rightarrow> rsn_pmksa_cache_entry \<Rightarrow> bytes \<Rightarrow>
   rsn_pmksa_cache_entry option \<times> rsn_pmksa_cache" where
  "pmksa_cache_add_okc alloc c old_entry pmkid =
     (case alloc of
        None \<Rightarrow> (None, c)
      | Some a \<Rightarrow>
          let entry = (zero_entry a)\<lparr>entry_pmkid := take 16 pmkid, entry_pmk := entry_pmk old_entry,
                expiration := expiration old_entry, akmp := akmp old_entry,
                entry_spa := entry_spa old_entry, opportunistic := True,
                identity := identity old_entry, radius_class := radius_class old_entry,
                eap_type_authsrv := eap_type_authsrv old_entry, vlan_id := vlan_id old_entry\<rparr>
          in (Some entry, pmksa_cache_link_entry c entry))"

text \<open>
  \<open>pmksa_cache_get_okc\<close> walks the list, but its \<open>continue\<close> does not advance: on an entry of
  another station the loop tests the same entry again. \<open>None\<close> is a loop that does not end.
\<close>

partial_function (option) okc_loop ::
  "rsn_pmksa_cache_entry list \<Rightarrow> bytes \<Rightarrow> bytes \<Rightarrow> bytes \<Rightarrow> rsn_pmksa_cache_entry option option" where
  "okc_loop es aa spa pmkid =
     (case es of
        [] \<Rightarrow> Some None
      | e # rest \<Rightarrow>
          if os_memcmp (entry_spa e) spa 6 \<noteq> 0 then okc_loop es aa spa pmkid
          else if (case rsn_pmkid (entry_pmk e) aa spa of
                     Some new_pmkid \<Rightarrow> os_memcmp new_pmkid pmkid 16 = 0 | None \<Rightarrow> False)
          then Some (Some e)
          else okc_loop rest aa spa pmkid)"

definition pmksa_cache_get_okc ::
  "rsn_pmksa_cache \<Rightarrow> bytes \<Rightarrow> bytes \<Rightarrow> bytes \<Rightarrow> rsn_pmksa_cache_entry option option" where
  "pmksa_cache_get_okc c aa spa pmkid = okc_loop (pmksa_list c) aa spa pmkid"

definition pmksa_cache_auth_init :: rsn_pmksa_cache where
  "pmksa_cache_auth_init =
     \<lparr>pmkid_chains = (\<lambda>_. []), pmksa_list = [], pmksa_count = 0, freed = [], timer = None\<rparr>"

subsection \<open>Well-formed caches\<close>

text \<open>
  The two views agree: the list is sorted by expiration, no address occurs twice, every hash chain
  holds exactly the entries of that hash, and the count is the length of the list.
\<close>

definition pmksa_wf :: "rsn_pmksa_cache \<Rightarrow> bool" where
  "pmksa_wf c \<longleftrightarrow>
     distinct (map entry_addr (pmksa_list c)) \<and>
     sorted (map expiration (pmksa_list c)) \<and>
     pmksa_count c = int (length (pmksa_list c)) \<and>
     (\<forall>e \<in> set (pmksa_list c). length (entry_spa e) = 6 \<and> length (entry_pmkid e) = 16) \<and>
     (\<forall>h. distinct (map entry_addr (pmkid_chains c h)) \<and>
          set (pmkid_chains c h) = {e \<in> set (pmksa_list c). PMKID_HASH (entry_pmkid e) = h})"

definition pmksa_addrs :: "rsn_pmksa_cache \<Rightarrow> nat set" where
  "pmksa_addrs c = entry_addr ` set (pmksa_list c)"

lemma unlink_filter: "distinct (map entry_addr es) \<Longrightarrow> unlink a es = filter (\<lambda>e. entry_addr e \<noteq> a) es"
proof (induction es)
  case (Cons e es)
  then show ?case
  proof (cases "entry_addr e = a")
    case True
    with Cons.prems have "filter (\<lambda>e. entry_addr e \<noteq> a) es = es"
      by (intro filter_True) (auto simp: image_iff)
    with True show ?thesis by (simp add: unlink_def)
  qed (simp add: unlink_def)
qed (simp add: unlink_def)

lemma distinct_map_filter_addr:
  "distinct (map entry_addr es) \<Longrightarrow> distinct (map entry_addr (filter P es))"
  by (rule distinct_map_filter)

lemma free_entry_list:
  "pmksa_wf c \<Longrightarrow>
   pmksa_list (pmksa_cache_free_entry c e) = filter (\<lambda>x. entry_addr x \<noteq> entry_addr e) (pmksa_list c)"
  by (simp add: pmksa_cache_free_entry_def Let_def pmksa_wf_def unlink_filter)

lemma length_filter_addr:
  "distinct (map entry_addr es) \<Longrightarrow> e \<in> set es \<Longrightarrow>
   length es = Suc (length (filter (\<lambda>x. entry_addr x \<noteq> entry_addr e) es))"
proof (induction es)
  case (Cons x es)
  then show ?case
  proof (cases "entry_addr x = entry_addr e")
    case True
    with Cons.prems have "filter (\<lambda>x. entry_addr x \<noteq> entry_addr e) es = es"
      by (intro filter_True) (auto simp: image_iff)
    with True show ?thesis by simp
  qed auto
qed simp

lemma same_addr_same_entry:
  "distinct (map entry_addr es) \<Longrightarrow> x \<in> set es \<Longrightarrow> y \<in> set es \<Longrightarrow> entry_addr x = entry_addr y \<Longrightarrow> x = y"
  by (auto simp: distinct_map dest: inj_onD)

lemma free_entry_wf:
  assumes wf: "pmksa_wf c" and e: "e \<in> set (pmksa_list c)"
  shows "pmksa_wf (pmksa_cache_free_entry c e)"
proof -
  let ?c = "pmksa_cache_free_entry c e"
  have list: "pmksa_list ?c = filter (\<lambda>x. entry_addr x \<noteq> entry_addr e) (pmksa_list c)"
    by (rule free_entry_list [OF wf])
  have d: "distinct (map entry_addr (pmksa_list c))" using wf by (simp add: pmksa_wf_def)
  have "pmksa_count ?c = int (length (pmksa_list ?c))"
    using wf length_filter_addr [OF d e]
    by (simp add: list pmksa_wf_def) (simp add: pmksa_cache_free_entry_def Let_def)
  moreover have "distinct (map entry_addr (pmkid_chains ?c h)) \<and>
      set (pmkid_chains ?c h) = {x \<in> set (pmksa_list ?c). PMKID_HASH (entry_pmkid x) = h}" for h
    using wf same_addr_same_entry [OF d _ e]
    by (auto simp: list pmksa_cache_free_entry_def Let_def pmksa_wf_def unlink_filter
        distinct_map_filter_addr)
  ultimately show ?thesis
    using wf by (simp add: pmksa_wf_def list distinct_map_filter_addr sorted_filter)
qed

lemma set_insert_by_expiration [simp]: "set (insert_by_expiration e es) = insert e (set es)"
  by (induction e es rule: insert_by_expiration.induct) auto

lemma length_insert_by_expiration [simp]:
  "length (insert_by_expiration e es) = Suc (length es)"
  by (induction e es rule: insert_by_expiration.induct) auto

lemma sorted_insert_by_expiration:
  "sorted (map expiration es) \<Longrightarrow> sorted (map expiration (insert_by_expiration e es))"
  by (induction e es rule: insert_by_expiration.induct) fastforce+

lemma distinct_insert_by_expiration:
  "distinct (map f (insert_by_expiration e es)) \<longleftrightarrow> f e \<notin> f ` set es \<and> distinct (map f es)"
  by (induction e es rule: insert_by_expiration.induct) auto

lemma link_entry_wf:
  assumes "pmksa_wf c" and "entry_addr e \<notin> pmksa_addrs c"
    and "length (entry_spa e) = 6" and "length (entry_pmkid e) = 16"
  shows "pmksa_wf (pmksa_cache_link_entry c e)"
  using assms unfolding pmksa_wf_def pmksa_addrs_def
  by (auto simp: pmksa_cache_link_entry_def Let_def distinct_insert_by_expiration
      sorted_insert_by_expiration)

lemma init_wf: "pmksa_wf pmksa_cache_auth_init"
  by (simp add: pmksa_wf_def pmksa_cache_auth_init_def)

subsection \<open>Lookup\<close>

lemma os_memcmp_full: "length a = n \<Longrightarrow> length b = n \<Longrightarrow> os_memcmp a b n = 0 \<longleftrightarrow> a = b"
  by (simp add: os_memcmp_zero)

text \<open>What a client of the cache relies on: a lookup is sound and complete for the entries.\<close>

locale key_cache =
  fixes wf :: "'c \<Rightarrow> bool"
    and entries :: "'c \<Rightarrow> rsn_pmksa_cache_entry set"
    and lookup :: "'c \<Rightarrow> bytes option \<Rightarrow> bytes option \<Rightarrow> rsn_pmksa_cache_entry option"
  assumes lookup_sound: "wf c \<Longrightarrow> length s = 6 \<Longrightarrow> length p = 16 \<Longrightarrow>
      lookup c (Some s) (Some p) = Some e \<Longrightarrow> e \<in> entries c \<and> entry_spa e = s \<and> entry_pmkid e = p"
    and lookup_complete: "wf c \<Longrightarrow> length s = 6 \<Longrightarrow> length p = 16 \<Longrightarrow>
      lookup c (Some s) (Some p) = None \<Longrightarrow> e \<in> entries c \<Longrightarrow> entry_spa e = s \<Longrightarrow> entry_pmkid e \<noteq> p"
begin

lemma found_iff:
  "wf c \<Longrightarrow> length s = 6 \<Longrightarrow> length p = 16 \<Longrightarrow>
   lookup c (Some s) (Some p) \<noteq> None \<longleftrightarrow> (\<exists>e \<in> entries c. entry_spa e = s \<and> entry_pmkid e = p)"
  using lookup_sound lookup_complete by blast

text \<open>The first hit in a list of requested identifiers.\<close>

lemma first_hit_sound:
  assumes "wf c" "length s = 6" "\<forall>p \<in> set ps. length p = 16"
    and "List.find (\<lambda>p. lookup c (Some s) (Some p) \<noteq> None) ps = Some q"
  shows "\<exists>e \<in> entries c. lookup c (Some s) (Some q) = Some e \<and> entry_spa e = s \<and> entry_pmkid e = q \<and>
    q \<in> set ps"
proof -
  from assms(4) have q: "q \<in> set ps" "lookup c (Some s) (Some q) \<noteq> None"
    by (auto simp: find_Some_iff)
  then obtain e where "lookup c (Some s) (Some q) = Some e" by blast
  with q assms lookup_sound [of c s q e] show ?thesis by auto
qed

end

lemma find_SomeD: "List.find P xs = Some x \<Longrightarrow> x \<in> set xs \<and> P x"
  by (auto simp: find_Some_iff)

lemma find_None_conv: "List.find P xs = None \<longleftrightarrow> (\<forall>x \<in> set xs. \<not> P x)"
  by (auto simp: find_None_iff)

lemma get_cases:
  assumes "pmksa_wf c" "length s = 6" "length p = 16"
  shows "(pmksa_cache_auth_get c (Some s) (Some p) = Some e \<longrightarrow>
      e \<in> set (pmksa_list c) \<and> entry_spa e = s \<and> entry_pmkid e = p) \<and>
    (pmksa_cache_auth_get c (Some s) (Some p) = None \<longrightarrow> e \<in> set (pmksa_list c) \<longrightarrow>
      entry_spa e = s \<longrightarrow> entry_pmkid e \<noteq> p)"
proof -
  have chain: "x \<in> set (pmkid_chains c (PMKID_HASH p)) \<longleftrightarrow>
      x \<in> set (pmksa_list c) \<and> PMKID_HASH (entry_pmkid x) = PMKID_HASH p" for x
    using assms(1) by (simp add: pmksa_wf_def)
  have cmp: "os_memcmp (entry_spa x) s 6 = 0 \<longleftrightarrow> entry_spa x = s"
    "os_memcmp (entry_pmkid x) p 16 = 0 \<longleftrightarrow> entry_pmkid x = p" if "x \<in> set (pmksa_list c)" for x
    using that assms by (auto simp: pmksa_wf_def os_memcmp_full)
  show ?thesis
    unfolding pmksa_cache_auth_get_def
    using chain cmp by (auto simp: find_None_conv dest!: find_SomeD)
qed


interpretation pmksa: key_cache pmksa_wf "\<lambda>c. set (pmksa_list c)" pmksa_cache_auth_get
  by unfold_locales (use get_cases in blast)+

subsection \<open>The cache as a map from stations to keys\<close>

text \<open>
  The specification of a cache filled by \<open>pmksa_cache_auth_add\<close> alone: a finite map from a
  station's address to its entry.
\<close>

definition abs_pmksa :: "rsn_pmksa_cache \<Rightarrow> bytes \<Rightarrow> rsn_pmksa_cache_entry option" where
  "abs_pmksa c s = List.find (\<lambda>e. entry_spa e = s) (pmksa_list c)"

definition one_per_sta :: "rsn_pmksa_cache \<Rightarrow> bool" where
  "one_per_sta c \<longleftrightarrow> distinct (map entry_spa (pmksa_list c))"

lemma find_distinct:
  "distinct (map f es) \<Longrightarrow> List.find (\<lambda>e. f e = k) es = Some e \<longleftrightarrow> e \<in> set es \<and> f e = k"
proof (induction es)
  case (Cons x es)
  then show ?case by (auto simp: image_iff)
qed simp

lemma abs_Some: "one_per_sta c \<Longrightarrow> abs_pmksa c s = Some e \<longleftrightarrow> e \<in> set (pmksa_list c) \<and> entry_spa e = s"
  by (simp add: abs_pmksa_def one_per_sta_def find_distinct)

lemma abs_None: "abs_pmksa c s = None \<longleftrightarrow> (\<forall>e \<in> set (pmksa_list c). entry_spa e \<noteq> s)"
  by (auto simp: abs_pmksa_def find_None_conv)

lemma abs_eqI:
  assumes "one_per_sta c" "one_per_sta d"
    and "\<And>e. entry_spa e = s \<Longrightarrow> e \<in> set (pmksa_list c) \<longleftrightarrow> e \<in> set (pmksa_list d)"
  shows "abs_pmksa c s = abs_pmksa d s"
  by (metis abs_Some [OF assms(1)] abs_Some [OF assms(2)] assms(3) option.exhaust)

lemma get_any: "pmksa_wf c \<Longrightarrow> length s = 6 \<Longrightarrow> pmksa_cache_auth_get c (Some s) None = abs_pmksa c s"
proof -
  assume wf: "pmksa_wf c" and s: "length s = 6"
  have "List.find (\<lambda>e. os_memcmp (entry_spa e) s 6 = 0 \<and> True) es = List.find (\<lambda>e. entry_spa e = s) es"
    if "\<forall>e \<in> set es. length (entry_spa e) = 6" for es
    using that s by (induction es) (auto simp: os_memcmp_full)
  from this [of "pmksa_list c"] wf show ?thesis
    by (simp add: pmksa_cache_auth_get_def abs_pmksa_def pmksa_wf_def)
qed

lemma free_entry_set:
  "pmksa_wf c \<Longrightarrow> e \<in> set (pmksa_list c) \<Longrightarrow>
   set (pmksa_list (pmksa_cache_free_entry c e)) = set (pmksa_list c) - {e}"
  by (auto simp: free_entry_list pmksa_wf_def dest: same_addr_same_entry)

lemma free_entry_one: "pmksa_wf c \<Longrightarrow> one_per_sta c \<Longrightarrow> one_per_sta (pmksa_cache_free_entry c e)"
  by (simp add: one_per_sta_def free_entry_list distinct_map_filter)

lemma drop_same_sta_facts:
  assumes "pmksa_wf c" "one_per_sta c" "length s = 6"
  shows "pmksa_wf (drop_same_sta c s) \<and> one_per_sta (drop_same_sta c s) \<and>
    set (pmksa_list (drop_same_sta c s)) = {e \<in> set (pmksa_list c). entry_spa e \<noteq> s}"
proof (cases "abs_pmksa c s")
  case None
  then have "drop_same_sta c s = c" using assms by (simp add: drop_same_sta_def get_any)
  with None assms show ?thesis by (auto simp: abs_None)
next
  case (Some e)
  then have e: "e \<in> set (pmksa_list c)" "entry_spa e = s" using abs_Some [OF assms(2)] by auto
  have uniq: "x = e" if "x \<in> set (pmksa_list c)" "entry_spa x = s" for x
    using that e abs_Some [OF assms(2), of s] Some by (metis option.inject)
  have "drop_same_sta c s = pmksa_cache_free_entry c e"
    using assms Some by (simp add: drop_same_sta_def get_any)
  moreover have "set (pmksa_list c) - {e} = {x \<in> set (pmksa_list c). entry_spa x \<noteq> s}"
    using uniq e by blast
  ultimately show ?thesis
    using free_entry_set [OF assms(1) e(1)] free_entry_wf [OF assms(1) e(1)]
      free_entry_one [OF assms(1,2), of e] by simp
qed

lemma drop_same_sta_count:
  assumes "pmksa_wf c" "one_per_sta c" "length s = 6"
  shows "pmksa_count (drop_same_sta c s) = pmksa_count c - (if abs_pmksa c s = None then 0 else 1)"
  using assms by (auto simp: drop_same_sta_def get_any pmksa_cache_free_entry_def Let_def split: option.split)

text \<open>What the eviction removes: the entry that expires first, exactly when the cache is full.\<close>

lemma drop_oldest_facts:
  assumes "pmksa_wf c" "one_per_sta c"
  shows "pmksa_wf (drop_oldest c) \<and> one_per_sta (drop_oldest c) \<and>
    (pmksa_count c \<le> 1024 \<longrightarrow> pmksa_count (drop_oldest c) < 1024) \<and>
    (pmksa_count c < 1024 \<longrightarrow> drop_oldest c = c) \<and>
    (1024 \<le> pmksa_count c \<longrightarrow>
     (\<exists>old. old \<in> set (pmksa_list c) \<and>
        (\<forall>x \<in> set (pmksa_list c). expiration old \<le> expiration x) \<and>
        set (pmksa_list (drop_oldest c)) = set (pmksa_list c) - {old}))"
proof (cases "pmksa_list c")
  case Nil
  then show ?thesis using assms by (simp add: drop_oldest_def pmksa_wf_def)
next
  case (Cons e es)
  then have e: "e \<in> set (pmksa_list c)" by simp
  have first: "\<forall>x \<in> set (pmksa_list c). expiration e \<le> expiration x"
    using assms(1) Cons by (auto simp: pmksa_wf_def)
  show ?thesis
    using assms Cons e first free_entry_wf [OF assms(1) e] free_entry_set [OF assms(1) e]
      free_entry_one [OF assms]
    by (auto simp: drop_oldest_def pmksa_cache_max_entries_def pmksa_cache_free_entry_def Let_def)
qed

text \<open>Two caches with the same entries but for one station and the new entry.\<close>

lemma abs_updated:
  assumes one: "one_per_sta c" "one_per_sta c'" and e: "entry_spa e = spa" "abs_pmksa c spa = None \<or> gone = {}"
    and gone: "\<forall>x \<in> gone. x \<in> set (pmksa_list c)"
    and set': "set (pmksa_list c') = insert e ({x \<in> set (pmksa_list c). entry_spa x \<noteq> spa} - gone)"
  shows "abs_pmksa c' = (\<lambda>s. if s \<in> entry_spa ` gone then None else abs_pmksa c s)(spa \<mapsto> e)"
proof
  fix s
  show "abs_pmksa c' s = ((\<lambda>s. if s \<in> entry_spa ` gone then None else abs_pmksa c s)(spa \<mapsto> e)) s"
  proof (cases "s = spa")
    case True
    then show ?thesis using abs_Some [OF one(2), of spa e] e set' by simp
  next
    case ne: False
    show ?thesis
    proof (cases "s \<in> entry_spa ` gone")
      case True
      then obtain old where old: "old \<in> gone" "entry_spa old = s" by auto
      have "x = old" if "x \<in> set (pmksa_list c)" "entry_spa x = s" for x
        using that old gone abs_Some [OF one(1), of s] by (metis option.inject)
      then have "abs_pmksa c' s = None" unfolding abs_None set' using old e(1) ne by blast
      then show ?thesis using True ne by simp
    next
      case False
      then have "abs_pmksa c' s = abs_pmksa c s"
        by (intro abs_eqI one) (use set' e(1) ne in auto)
      then show ?thesis using False ne by simp
    qed
  qed
qed

lemma new_entry_fields:
  "entry_addr (new_entry now a pmk aa spa t eapol ak) = a"
  "entry_spa (new_entry now a pmk aa spa t eapol ak) = take 6 spa"
  "entry_pmk (new_entry now a pmk aa spa t eapol ak) = pmk"
  "expiration (new_entry now a pmk aa spa t eapol ak) = now + (if t > 0 then t else 43200)"
  "entry_pmkid (new_entry now a pmk aa spa t eapol ak) =
     (case rsn_pmkid pmk aa spa of Some p \<Rightarrow> p | None \<Rightarrow> replicate 16 0)"
  by (auto simp: new_entry_def pmksa_cache_from_eapol_data_def zero_entry_def
      dot11RSNAConfigPMKLifetime_def split: option.splits)

lemma rsn_pmkid_eq:
  assumes "length pmk < 2 ^ 32 - 64"
  shows "rsn_pmkid pmk aa spa =
    Some (take 16 (HMAC_SHA1 pmk (c_str ''PMK Name'' @ take 6 aa @ take 6 spa)))"
proof -
  have "length (take 6 x) < 2 ^ 32 - 64" for x :: bytes by (rule le_less_trans [of _ 6]) auto
  with assms show ?thesis
    unfolding rsn_pmkid_def by (subst hmac_sha1_vector_eq) simp_all
qed

lemma link_entry_set: "set (pmksa_list (pmksa_cache_link_entry c e)) = insert e (set (pmksa_list c))"
  by (simp add: pmksa_cache_link_entry_def Let_def)

lemma link_entry_one:
  "one_per_sta c \<Longrightarrow> entry_spa e \<notin> entry_spa ` set (pmksa_list c) \<Longrightarrow>
   one_per_sta (pmksa_cache_link_entry c e)"
  by (simp add: one_per_sta_def pmksa_cache_link_entry_def Let_def distinct_insert_by_expiration)

lemma get_by_pmkid:
  assumes "pmksa_wf c" "one_per_sta c" "length s = 6" "length p = 16"
  shows "pmksa_cache_auth_get c (Some s) (Some p) =
    (case abs_pmksa c s of Some e \<Rightarrow> if entry_pmkid e = p then Some e else None | None \<Rightarrow> None)"
proof (cases "pmksa_cache_auth_get c (Some s) (Some p)")
  case None
  with abs_Some [OF assms(2), of s] get_cases [OF assms(1,3,4)] show ?thesis
    by (auto split: option.splits)
next
  case (Some e)
  with get_cases [OF assms(1,3,4), of e] abs_Some [OF assms(2), of s e] show ?thesis by simp
qed

text \<open>
  C30: Adding a key. \<open>pmksa_cache_auth_add\<close> keeps the two views of the cache in agreement and one
  entry per station, never exceeds 1024 entries, and is the update of the abstract map at the station
  with the new entry, whose identifier is the PMKID of the standard. No other station changes, except
  that a full cache gives up exactly one entry when the station had none: one that expires no later than any
  other. A lookup by identifier then answers from the abstract map. A key longer than
  32 octets and a failed allocation change nothing.
\<close>

theorem pmksa_add_refines_map:
  assumes "pmksa_wf c" "one_per_sta c" "pmksa_count c \<le> 1024" "length spa = 6"
    and "a \<notin> pmksa_addrs c" "length pmk \<le> 32" "length p = 16" "length s = 6"
    and add: "pmksa_cache_auth_add now (Some a) c pmk aa spa t eapol ak = (r, c')"
  shows "pmksa_wf c' \<and> one_per_sta c' \<and> pmksa_count c' \<le> 1024 \<and>
    (\<exists>e. r = Some e \<and> entry_pmk e = pmk \<and>
       entry_pmkid e = take 16 (HMAC_SHA1 pmk (c_str ''PMK Name'' @ take 6 aa @ spa)) \<and>
       expiration e = now + (if t > 0 then t else 43200) \<and>
       (if abs_pmksa c spa = None \<and> pmksa_count c = 1024
        then \<exists>sta old. abs_pmksa c sta = Some old \<and>
               (\<forall>x \<in> set (pmksa_list c). expiration old \<le> expiration x) \<and>
               abs_pmksa c' = (abs_pmksa c)(sta := None, spa \<mapsto> e)
        else abs_pmksa c' = (abs_pmksa c)(spa \<mapsto> e))) \<and>
    pmksa_cache_auth_get c' (Some s) (Some p) =
      (case abs_pmksa c' s of
         Some e \<Rightarrow> if entry_pmkid e = p then Some e else None | None \<Rightarrow> None) \<and>
    pmksa_cache_auth_add now None c pmk aa spa t eapol ak = (None, c)"
proof -
  define e where "e = new_entry now a pmk aa spa t eapol ak"
  define c1 where "c1 = drop_same_sta c spa"
  define c2 where "c2 = drop_oldest c1"
  have c': "c' = pmksa_cache_link_entry c2 e" "r = Some e"
    using add assms(6) by (auto simp: pmksa_cache_auth_add_def PMK_LEN_def Let_def e_def c1_def c2_def)
  note f1 = drop_same_sta_facts [OF assms(1,2,4), folded c1_def]
  have wf1: "pmksa_wf c1" and one1: "one_per_sta c1" using f1 by auto
  note cnt1 = drop_same_sta_count [OF assms(1,2,4), folded c1_def]
  note f2 = drop_oldest_facts [OF wf1 one1, folded c2_def]
  have e: "entry_spa e = spa" "length (entry_spa e) = 6" "entry_addr e = a" "entry_pmk e = pmk"
      "expiration e = now + (if t > 0 then t else 43200)"
    using assms(4) by (simp_all add: e_def new_entry_fields)
  have pmkid: "entry_pmkid e = take 16 (HMAC_SHA1 pmk (c_str ''PMK Name'' @ take 6 aa @ spa))"
    using assms(4,6) by (simp add: e_def new_entry_fields rsn_pmkid_eq)
  have set': "set (pmksa_list c') = insert e (set (pmksa_list c2))" by (simp add: c' link_entry_set)
  consider (kept) "\<not> (abs_pmksa c spa = None \<and> pmksa_count c = 1024)" "c2 = c1"
    | (full) old where "abs_pmksa c spa = None" "pmksa_count c = 1024" "old \<in> set (pmksa_list c1)"
        "\<forall>x \<in> set (pmksa_list c1). expiration old \<le> expiration x"
        "set (pmksa_list c2) = set (pmksa_list c1) - {old}"
    using f2 cnt1 assms(3) by (cases "abs_pmksa c spa = None"; cases "pmksa_count c = 1024") auto
  note cases = this
  have sub: "set (pmksa_list c2) \<subseteq> {x \<in> set (pmksa_list c). entry_spa x \<noteq> spa}"
    using cases by cases (use f1 in auto)
  have wf': "pmksa_wf c'"
    unfolding c' by (rule link_entry_wf)
      (use f2 sub assms(5) e pmkid in \<open>auto simp: pmksa_addrs_def sha1.length_hmac\<close>)
  have one': "one_per_sta c'"
    unfolding c' by (rule link_entry_one) (use f2 sub e in auto)
  have cnt': "pmksa_count c' \<le> 1024"
    using f2 cnt1 assms(3) by (simp add: c' pmksa_cache_link_entry_def Let_def split: if_splits)
  have abs': "if abs_pmksa c spa = None \<and> pmksa_count c = 1024
      then \<exists>sta old. abs_pmksa c sta = Some old \<and> (\<forall>x \<in> set (pmksa_list c). expiration old \<le> expiration x) \<and>
             abs_pmksa c' = (abs_pmksa c)(sta := None, spa \<mapsto> e)
      else abs_pmksa c' = (abs_pmksa c)(spa \<mapsto> e)"
    using cases
  proof cases
    case kept
    have "abs_pmksa c' = (abs_pmksa c)(spa \<mapsto> e)"
      using abs_updated [OF assms(2) one' e(1), of "{}"] f1 kept(2) set' by simp
    then show ?thesis using kept(1) by (simp only: if_False simp_thms)
  next
    case (full old)
    have all: "set (pmksa_list c1) = set (pmksa_list c)" using f1 full(1) by (auto simp: abs_None)
    then have "abs_pmksa c' = (\<lambda>s. if s \<in> entry_spa ` {old} then None else abs_pmksa c s)(spa \<mapsto> e)"
      using f1 full set' by (intro abs_updated [OF assms(2) one' e(1)]) auto
    then have "abs_pmksa c' = (abs_pmksa c)(entry_spa old := None, spa \<mapsto> e)" by (auto simp: fun_eq_iff)
    moreover have "abs_pmksa c (entry_spa old) = Some old" using abs_Some [OF assms(2)] full(3) all by simp
    ultimately show ?thesis using full(1,2,4) all by auto
  qed
  have "pmksa_cache_auth_get c' (Some s) (Some p) =
      (case abs_pmksa c' s of Some e \<Rightarrow> if entry_pmkid e = p then Some e else None | None \<Rightarrow> None)"
    by (rule get_by_pmkid [OF wf' one' assms(8,7)])
  moreover have "pmksa_cache_auth_add now None c pmk aa spa t eapol ak = (None, c)"
    using assms(6) by (simp add: pmksa_cache_auth_add_def PMK_LEN_def)
  ultimately show ?thesis
    using wf' one' cnt' e(4,5) pmkid c'(2) abs' by blast
qed

theorem pmksa_add_refines_map_witness:
  "\<exists>e c'. pmksa_cache_auth_add 100 (Some 7) pmksa_cache_auth_init (replicate 32 1) (replicate 6 2)
      (replicate 6 3) 60 None 1 = (Some e, c') \<and> pmksa_wf c' \<and> abs_pmksa c' (replicate 6 3) = Some e \<and>
    expiration e = 160"
proof -
  obtain r c' where add: "pmksa_cache_auth_add 100 (Some 7) pmksa_cache_auth_init (replicate 32 1)
      (replicate 6 2) (replicate 6 3) 60 None 1 = (r, c')" by (metis surj_pair)
  have "one_per_sta pmksa_cache_auth_init" "pmksa_count pmksa_cache_auth_init = 0"
    "pmksa_addrs pmksa_cache_auth_init = {}"
    by (simp_all add: one_per_sta_def pmksa_cache_auth_init_def pmksa_addrs_def)
  then show ?thesis
    using pmksa_add_refines_map [OF init_wf _ _ _ _ _ _ _ add, of "replicate 16 0" "replicate 6 0"] add
    by auto
qed

subsection \<open>Expiration\<close>

lemma unlink_same: "a \<notin> entry_addr ` set es \<Longrightarrow> unlink a es = es"
  by (induction es) (auto simp: unlink_def)

lemma expire_free_eq:
  assumes "pmksa_wf c" "pmksa_list c = e # es"
  shows "pmksa_cache_free_entry (c\<lparr>pmksa_list := es\<rparr>) e = pmksa_cache_free_entry c e"
proof -
  have "unlink (entry_addr e) es = es" "unlink (entry_addr e) (e # es) = es"
    using assms by (auto simp: pmksa_wf_def unlink_same) (simp add: unlink_def)
  with assms(2) show ?thesis by (simp add: pmksa_cache_free_entry_def Let_def)
qed

lemma expire_loop_exact:
  "pmksa_wf c \<Longrightarrow>
   pmksa_wf (expire_loop now c) \<and>
   pmksa_list (expire_loop now c) = filter (\<lambda>e. now < expiration e) (pmksa_list c) \<and>
   freed (expire_loop now c) =
     freed c @ map entry_addr (filter (\<lambda>e. expiration e \<le> now) (pmksa_list c))"
proof (induction "pmksa_list c" arbitrary: c)
  case Nil
  then show ?case by (simp add: expire_loop.simps flip: Nil(1))
next
  case (Cons e es)
  have list: "pmksa_list c = e # es" using Cons.hyps(2) by simp
  show ?case
  proof (cases "expiration e \<le> now")
    case True
    let ?c = "pmksa_cache_free_entry c e"
    have step: "expire_loop now c = expire_loop now ?c"
      using True list by (subst expire_loop.simps) (simp add: expire_free_eq [OF Cons.prems list])
    have "pmksa_list ?c = es"
      using Cons.prems list by (auto simp: pmksa_cache_free_entry_def Let_def unlink_def)
    moreover have "pmksa_wf ?c" using Cons.prems list by (intro free_entry_wf) simp_all
    ultimately have "pmksa_wf (expire_loop now ?c) \<and>
      pmksa_list (expire_loop now ?c) = filter (\<lambda>e. now < expiration e) es \<and>
      freed (expire_loop now ?c) = freed ?c @ map entry_addr (filter (\<lambda>e. expiration e \<le> now) es)"
      using Cons.hyps(1) [of ?c] by simp
    then show ?thesis
      using True list step by (simp add: pmksa_cache_free_entry_def Let_def)
  next
    case False
    have "\<forall>x \<in> set es. now < expiration x"
      using False Cons.prems list by (auto simp: pmksa_wf_def)
    moreover have "expire_loop now c = c" using False list by (subst expire_loop.simps) simp
    ultimately show ?thesis using False list Cons.prems by (auto intro!: filter_True [symmetric] filter_False)
  qed
qed

text \<open>
  C33: Expiration, when the timeout runs. \<open>pmksa_cache_expire\<close> ends, keeps the cache well formed,
  removes exactly the entries whose lifetime is over, reports each of them once to \<open>free_cb\<close> in the
  order of expiration, and arms itself again for the second after the next one, or not at all when
  the cache is empty.
\<close>

theorem pmksa_expire_exact:
  assumes "pmksa_wf c"
  shows "pmksa_wf (pmksa_cache_expire now c) \<and>
    pmksa_list (pmksa_cache_expire now c) = filter (\<lambda>e. now < expiration e) (pmksa_list c) \<and>
    freed (pmksa_cache_expire now c) =
      freed c @ map entry_addr (filter (\<lambda>e. expiration e \<le> now) (pmksa_list c)) \<and>
    timer (pmksa_cache_expire now c) =
      (case pmksa_list (pmksa_cache_expire now c) of
         [] \<Rightarrow> None | e # _ \<Rightarrow> Some (expiration e - now + 1))"
proof -
  have t: "pmksa_list (pmksa_cache_expire now c) = pmksa_list (expire_loop now c)"
    "freed (pmksa_cache_expire now c) = freed (expire_loop now c)"
    "pmksa_wf (pmksa_cache_expire now c) = pmksa_wf (expire_loop now c)"
    by (auto simp: pmksa_cache_expire_def pmksa_cache_set_expiration_def pmksa_wf_def Let_def
        split: list.splits)
  note ex = expire_loop_exact [OF assms, of now]
  have "now < expiration e" if "pmksa_list (expire_loop now c) = e # es" for e es
  proof -
    have "e \<in> set (filter (\<lambda>e. now < expiration e) (pmksa_list c))"
      using ex that by (metis list.set_intros(1))
    then show ?thesis by simp
  qed
  then have "timer (pmksa_cache_expire now c) =
      (case pmksa_list (expire_loop now c) of [] \<Rightarrow> None | e # _ \<Rightarrow> Some (expiration e - now + 1))"
    by (auto simp: pmksa_cache_expire_def pmksa_cache_set_expiration_def Let_def split: list.splits)
  with ex t show ?thesis by simp
qed

theorem pmksa_expire_exact_witness:
  "pmksa_list (pmksa_cache_expire 5 pmksa_cache_auth_init) = [] \<and>
   timer (pmksa_cache_expire 5 pmksa_cache_auth_init) = None"
  using pmksa_expire_exact [OF init_wf, of 5] by (simp add: pmksa_cache_auth_init_def)

text \<open>
  How the cache is used: the operations in any order, the timeout only when it is armed.
\<close>

inductive pmksa_reach :: "rsn_pmksa_cache \<Rightarrow> bool" where
  reach_init: "pmksa_reach pmksa_cache_auth_init"
| reach_add: "pmksa_reach c \<Longrightarrow>
    pmksa_reach (snd (pmksa_cache_auth_add now alloc c pmk aa spa t eapol ak))"
| reach_okc: "pmksa_reach c \<Longrightarrow> pmksa_reach (snd (pmksa_cache_add_okc alloc c old p))"
| reach_expire: "pmksa_reach c \<Longrightarrow> timer c = Some sec \<Longrightarrow> pmksa_reach (pmksa_cache_expire now c)"

lemma free_entry_timer [frame_simps]: "timer (pmksa_cache_free_entry c e) = timer c"
  by (simp add: pmksa_cache_free_entry_def Let_def)

lemma drop_timer [frame_simps]:
  "timer (drop_same_sta c s) = timer c" "timer (drop_oldest c) = timer c"
  by (simp_all add: drop_same_sta_def drop_oldest_def frame_simps split: option.splits list.splits)

lemma link_entry_timer [frame_simps]: "timer (pmksa_cache_link_entry c e) = timer c"
  by (simp add: pmksa_cache_link_entry_def Let_def)

lemma add_timer [frame_simps]:
  "timer (snd (pmksa_cache_auth_add now alloc c pmk aa spa t eapol ak)) = timer c"
  "timer (snd (pmksa_cache_add_okc alloc c old p)) = timer c"
  by (simp_all add: pmksa_cache_auth_add_def pmksa_cache_add_okc_def Let_def frame_simps
      split: option.splits)

text \<open>
  C31: The lifetime of a key is not enforced. Nothing but the timeout itself arms the timeout, so in
  every state the cache reaches it is not armed; an entry is dropped only when a newer one replaces
  it or the cache is full, and a lookup, which does not look at the clock, still returns a key
  whose lifetime is over.
\<close>

theorem pmksa_timer_never_armed:
  assumes "pmksa_reach c"
  shows "timer c = None \<and> \<not> (\<exists>sec now. timer c = Some sec \<and> pmksa_reach (pmksa_cache_expire now c)) \<and>
    (pmksa_wf c \<longrightarrow> e \<in> set (pmksa_list c) \<longrightarrow> expiration e < now \<longrightarrow>
       (\<exists>f. pmksa_cache_auth_get c (Some (entry_spa e)) (Some (entry_pmkid e)) = Some f))"
proof -
  have "timer c = None"
    using assms by induction (simp_all add: frame_simps pmksa_cache_auth_init_def)
  moreover have "pmksa_cache_auth_get c (Some (entry_spa e)) (Some (entry_pmkid e)) \<noteq> None"
    if "pmksa_wf c" "e \<in> set (pmksa_list c)"
    using that pmksa.found_iff [of c "entry_spa e" "entry_pmkid e"] by (auto simp: pmksa_wf_def)
  ultimately show ?thesis by auto
qed

theorem pmksa_timer_never_armed_witness:
  "timer (snd (pmksa_cache_auth_add 0 (Some 1) pmksa_cache_auth_init [] [] [] 60 None 0)) = None"
  using pmksa_timer_never_armed [OF reach_add [OF reach_init, of 0 "Some 1" "[]" "[]" "[]" 60 None 0]]
  by simp

subsection \<open>Opportunistic key caching\<close>

text \<open>When the walk ends: it meets a match before any entry of another station.\<close>

fun okc_ends :: "rsn_pmksa_cache_entry list \<Rightarrow> bytes \<Rightarrow> bytes \<Rightarrow> bytes \<Rightarrow> bool" where
  "okc_ends [] aa spa pmkid = True"
| "okc_ends (e # es) aa spa pmkid =
     (os_memcmp (entry_spa e) spa 6 = 0 \<and>
      ((case rsn_pmkid (entry_pmk e) aa spa of
          Some q \<Rightarrow> os_memcmp q pmkid 16 = 0 | None \<Rightarrow> False) \<or> okc_ends es aa spa pmkid))"

lemma okc_step:
  assumes IH: "\<And>es aa spa pmkid r. loop es aa spa pmkid = Some r \<Longrightarrow> okc_ends es aa spa pmkid"
    and body: "(case es of
        [] \<Rightarrow> Some None
      | e # rest \<Rightarrow>
          if os_memcmp (entry_spa e) spa 6 \<noteq> 0 then loop es aa spa pmkid
          else if (case rsn_pmkid (entry_pmk e) aa spa of
                     Some q \<Rightarrow> os_memcmp q pmkid 16 = 0 | None \<Rightarrow> False)
          then Some (Some e) else loop rest aa spa pmkid) = Some r"
  shows "okc_ends es aa spa pmkid"
proof (cases es)
  case (Cons e rest)
  show ?thesis
  proof (cases "os_memcmp (entry_spa e) spa 6 \<noteq> 0")
    case True
    with body Cons have "loop es aa spa pmkid = Some r" by simp
    then show ?thesis by (rule IH)
  next
    case False
    with body Cons show ?thesis using IH [of rest aa spa pmkid r] by (auto split: if_splits option.splits)
  qed
qed simp

lemma okc_loop_Some: "okc_loop es aa spa pmkid = Some r \<Longrightarrow> okc_ends es aa spa pmkid"
  by (rule okc_loop.raw_induct [where P = "\<lambda>es aa spa pmkid r. okc_ends es aa spa pmkid"])
     (rule okc_step, assumption+)

lemma okc_ends_Some: "okc_ends es aa spa pmkid \<Longrightarrow> \<exists>r. okc_loop es aa spa pmkid = Some r"
proof (induction es)
  case Nil
  then show ?case by (simp add: okc_loop.simps)
next
  case (Cons e es)
  then show ?case by (subst okc_loop.simps) auto
qed

text \<open>
  C32: The walk of \<open>pmksa_cache_get_okc\<close> does not end as soon as it meets an entry of another
  station: it returns exactly when a matching entry of the requested station comes first or when
  there is no entry of another station in front of the end. So with opportunistic key caching on,
  one cached station makes the lookup for any other station hang.
\<close>

theorem pmksa_get_okc_hangs:
  "(pmksa_cache_get_okc c aa spa pmkid = None \<longleftrightarrow> \<not> okc_ends (pmksa_list c) aa spa pmkid) \<and>
   (pmksa_list c = e # es \<longrightarrow> length (entry_spa e) = 6 \<longrightarrow> length spa = 6 \<longrightarrow> entry_spa e \<noteq> spa \<longrightarrow>
      pmksa_cache_get_okc c aa spa pmkid = None)"
proof -
  have iff: "pmksa_cache_get_okc c aa spa pmkid = None \<longleftrightarrow> \<not> okc_ends (pmksa_list c) aa spa pmkid"
    using okc_loop_Some [of "pmksa_list c" aa spa pmkid] okc_ends_Some [of "pmksa_list c" aa spa pmkid]
    by (cases "okc_loop (pmksa_list c) aa spa pmkid") (auto simp: pmksa_cache_get_okc_def)
  then show ?thesis by (auto simp: os_memcmp_full)
qed

theorem pmksa_get_okc_hangs_witness:
  "pmksa_cache_get_okc (snd (pmksa_cache_add_okc (Some 1) pmksa_cache_auth_init (zero_entry 0)
     (replicate 16 0))) [] (replicate 6 1) [] = None"
proof -
  let ?c = "snd (pmksa_cache_add_okc (Some 1) pmksa_cache_auth_init (zero_entry 0) (replicate 16 0))"
  have "\<exists>e. pmksa_list ?c = [e] \<and> entry_spa e = replicate 6 0"
    by (simp add: pmksa_cache_add_okc_def pmksa_cache_link_entry_def pmksa_cache_auth_init_def
        zero_entry_def Let_def)
  then obtain e where "pmksa_list ?c = [e]" "entry_spa e = replicate 6 0" by blast
  then show ?thesis
    using pmksa_get_okc_hangs [of ?c "[]" "replicate 6 1" "[]" e "[]"] by simp
qed

end
