(* ===== verification/WpaTypes.thy ===== *)
theory WpaTypes
  imports PmksaCache
begin

text \<open>
  The data of the WPA authenticator: \<^verbatim>\<open>ap/wpa_auth.h\<close> and \<^verbatim>\<open>ap/wpa_auth_i.h\<close> without the
  members of options that are not built. There is one group, the one of the authenticator (VLAN 0).
  The pairwise transient key is its octets; \<open>pmksa\<close> of a station is the cache entry it points to.
\<close>

record wpa_auth_config =
  conf_wpa :: u32
  conf_wpa_key_mgmt :: u32
  conf_wpa_pairwise :: u32
  conf_wpa_group :: u32
  conf_wpa_group_rekey :: int
  conf_wpa_strict_rekey :: bool
  conf_wpa_gmk_rekey :: int
  conf_wpa_ptk_rekey :: int
  conf_rsn_pairwise :: u32
  conf_rsn_preauth :: bool
  conf_eapol_version :: u8
  conf_peerkey :: bool
  conf_wmm_enabled :: bool
  conf_okc :: bool
  conf_tx_status :: bool

datatype wpa_ptk_st =
  WPA_PTK_INITIALIZE | WPA_PTK_DISCONNECT | WPA_PTK_DISCONNECTED | WPA_PTK_AUTHENTICATION
  | WPA_PTK_AUTHENTICATION2 | WPA_PTK_INITPMK | WPA_PTK_INITPSK | WPA_PTK_PTKSTART
  | WPA_PTK_PTKCALCNEGOTIATING | WPA_PTK_PTKCALCNEGOTIATING2 | WPA_PTK_PTKINITNEGOTIATING
  | WPA_PTK_PTKINITDONE

datatype wpa_ptk_group_st =
  WPA_PTK_GROUP_IDLE | WPA_PTK_GROUP_REKEYNEGOTIATING | WPA_PTK_GROUP_REKEYESTABLISHED
  | WPA_PTK_GROUP_KEYERROR

datatype wpa_group_st = WPA_GROUP_GTK_INIT | WPA_GROUP_SETKEYS | WPA_GROUP_SETKEYSDONE

datatype wpa_version = WPA_VERSION_NO_WPA | WPA_VERSION_WPA | WPA_VERSION_WPA2

record key_replay_slot =
  counter :: bytes
  valid :: bool

record wpa_state_machine =
  addr :: bytes
  wpa_ptk_state :: wpa_ptk_st
  wpa_ptk_group_state :: wpa_ptk_group_st
  Init :: bool
  DeauthenticationRequest :: bool
  AuthenticationRequest :: bool
  ReAuthenticationRequest :: bool
  Disconnect :: bool
  TimeoutCtr :: int
  GTimeoutCtr :: int
  TimeoutEvt :: bool
  EAPOLKeyReceived :: bool
  EAPOLKeyPairwise :: bool
  EAPOLKeyRequest :: bool
  MICVerified :: bool
  GUpdateStationKeys :: bool
  ANonce :: bytes
  SNonce :: bytes
  PMK :: bytes
  PTK :: bytes
  PTK_valid :: bool
  pairwise_set :: bool
  keycount :: int
  Pair :: bool
  key_replay :: "key_replay_slot list"
  PInitAKeys :: bool
  PTKRequest :: bool
  has_GTK :: bool
  PtkGroupInit :: bool
  last_rx_eapol_key :: bytes
  sm_changed :: bool
  in_step_loop :: bool
  pending_deinit :: bool
  started :: bool
  req_replay_counter :: bytes
  req_replay_counter_used :: bool
  sm_wpa_ie :: "bytes option"
  sm_wpa :: wpa_version
  pairwise :: u32
  sm_wpa_key_mgmt :: u32
  sm_pmksa :: "rsn_pmksa_cache_entry option"
  RemoteMICFailures :: u32
  pending_1_of_4_timeout :: bool

record wpa_group =
  GInit :: bool
  GKeyDoneStations :: int
  GTKReKey :: bool
  GTK_len :: nat
  GN :: nat
  GM :: nat
  GTKAuthenticator :: bool
  Counter :: bytes
  wpa_group_state :: wpa_group_st
  GMK :: bytes
  GTK :: "bytes list"
  GNonce :: bytes
  group_changed :: bool
  first_sta_seen :: bool
  reject_4way_hs_for_entropy :: bool

record wpa_authenticator =
  auth_TKIPRemoteMICFailures :: u32
  dot11RSNAAuthenticationSuiteSelected :: u32
  dot11RSNAPairwiseCipherSelected :: u32
  dot11RSNAGroupCipherSelected :: u32
  dot11RSNAPMKIDUsed :: bytes
  dot11RSNA4WayHandshakeFailures :: u32
  conf :: wpa_auth_config
  auth_wpa_ie :: bytes
  auth_addr :: bytes
  auth_pmksa :: rsn_pmksa_cache

definition RSNA_MAX_EAPOL_RETRIES :: nat where "RSNA_MAX_EAPOL_RETRIES = 4"

text \<open>The parts of a pairwise transient key (\<^verbatim>\<open>struct wpa_ptk\<close>).\<close>

definition ptk_kck :: "bytes \<Rightarrow> bytes" where "ptk_kck p = take 16 p"
definition ptk_kek :: "bytes \<Rightarrow> bytes" where "ptk_kek p = take 16 (drop 16 p)"
definition ptk_tk1 :: "bytes \<Rightarrow> nat \<Rightarrow> bytes" where "ptk_tk1 p klen = take klen (drop 32 p)"

text \<open>A new state machine is zeroed memory with the address.\<close>

definition wpa_auth_sta_init :: "bytes \<Rightarrow> wpa_state_machine" where
  "wpa_auth_sta_init a =
     \<lparr>addr = take 6 a, wpa_ptk_state = WPA_PTK_INITIALIZE, wpa_ptk_group_state = WPA_PTK_GROUP_IDLE,
      Init = False, DeauthenticationRequest = False, AuthenticationRequest = False,
      ReAuthenticationRequest = False, Disconnect = False, TimeoutCtr = 0, GTimeoutCtr = 0,
      TimeoutEvt = False, EAPOLKeyReceived = False, EAPOLKeyPairwise = False,
      EAPOLKeyRequest = False, MICVerified = False, GUpdateStationKeys = False,
      ANonce = replicate 32 0, SNonce = replicate 32 0, PMK = replicate 32 0, PTK = replicate 64 0,
      PTK_valid = False, pairwise_set = False, keycount = 0, Pair = False,
      key_replay = replicate 4 \<lparr>counter = replicate 8 0, valid = False\<rparr>, PInitAKeys = False,
      PTKRequest = False, has_GTK = False, PtkGroupInit = False, last_rx_eapol_key = [],
      sm_changed = False, in_step_loop = False, pending_deinit = False, started = False,
      req_replay_counter = replicate 8 0, req_replay_counter_used = False, sm_wpa_ie = None,
      sm_wpa = WPA_VERSION_NO_WPA, pairwise = 0, sm_wpa_key_mgmt = 0, sm_pmksa = None,
      RemoteMICFailures = 0, pending_1_of_4_timeout = False\<rparr>"

end
