(* ===== verification/WpaIe.thy ===== *)
theory WpaIe
  imports WpaTypes
begin

text \<open>
  Information elements and key data elements: writing the RSN and WPA elements of the access point,
  parsing those of a station and negotiating with it (\<^verbatim>\<open>ap/wpa_auth_ie.c\<close> and the parsers of
  \<^verbatim>\<open>common/wpa_common.c\<close>). A position and the octets left are the rest of the buffer; a pointer
  into a buffer is the octets from there on.
\<close>

unbundle bit_operations_syntax

subsection \<open>Selectors\<close>

definition RSN_SELECTOR :: "u32 \<Rightarrow> u32 \<Rightarrow> u32 \<Rightarrow> u32 \<Rightarrow> u32" where
  "RSN_SELECTOR a b c d = push_bit 24 a OR push_bit 16 b OR push_bit 8 c OR d"

definition WPA_AUTH_KEY_MGMT_NONE :: u32 where
  "WPA_AUTH_KEY_MGMT_NONE = RSN_SELECTOR 0 0x50 0xf2 0"
definition WPA_AUTH_KEY_MGMT_UNSPEC_802_1X :: u32 where
  "WPA_AUTH_KEY_MGMT_UNSPEC_802_1X = RSN_SELECTOR 0 0x50 0xf2 1"
definition WPA_AUTH_KEY_MGMT_PSK_OVER_802_1X :: u32 where
  "WPA_AUTH_KEY_MGMT_PSK_OVER_802_1X = RSN_SELECTOR 0 0x50 0xf2 2"
definition WPA_CIPHER_SUITE_NONE :: u32 where "WPA_CIPHER_SUITE_NONE = RSN_SELECTOR 0 0x50 0xf2 0"
definition WPA_CIPHER_SUITE_WEP40 :: u32 where "WPA_CIPHER_SUITE_WEP40 = RSN_SELECTOR 0 0x50 0xf2 1"
definition WPA_CIPHER_SUITE_TKIP :: u32 where "WPA_CIPHER_SUITE_TKIP = RSN_SELECTOR 0 0x50 0xf2 2"
definition WPA_CIPHER_SUITE_CCMP :: u32 where "WPA_CIPHER_SUITE_CCMP = RSN_SELECTOR 0 0x50 0xf2 4"
definition WPA_CIPHER_SUITE_WEP104 :: u32 where "WPA_CIPHER_SUITE_WEP104 = RSN_SELECTOR 0 0x50 0xf2 5"
definition RSN_AUTH_KEY_MGMT_UNSPEC_802_1X :: u32 where
  "RSN_AUTH_KEY_MGMT_UNSPEC_802_1X = RSN_SELECTOR 0 0x0f 0xac 1"
definition RSN_AUTH_KEY_MGMT_PSK_OVER_802_1X :: u32 where
  "RSN_AUTH_KEY_MGMT_PSK_OVER_802_1X = RSN_SELECTOR 0 0x0f 0xac 2"
definition RSN_CIPHER_SUITE_NONE :: u32 where "RSN_CIPHER_SUITE_NONE = RSN_SELECTOR 0 0x0f 0xac 0"
definition RSN_CIPHER_SUITE_WEP40 :: u32 where "RSN_CIPHER_SUITE_WEP40 = RSN_SELECTOR 0 0x0f 0xac 1"
definition RSN_CIPHER_SUITE_TKIP :: u32 where "RSN_CIPHER_SUITE_TKIP = RSN_SELECTOR 0 0x0f 0xac 2"
definition RSN_CIPHER_SUITE_CCMP :: u32 where "RSN_CIPHER_SUITE_CCMP = RSN_SELECTOR 0 0x0f 0xac 4"
definition RSN_CIPHER_SUITE_WEP104 :: u32 where "RSN_CIPHER_SUITE_WEP104 = RSN_SELECTOR 0 0x0f 0xac 5"
definition RSN_KEY_DATA_GROUPKEY :: u32 where "RSN_KEY_DATA_GROUPKEY = RSN_SELECTOR 0 0x0f 0xac 1"
definition RSN_KEY_DATA_MAC_ADDR :: u32 where "RSN_KEY_DATA_MAC_ADDR = RSN_SELECTOR 0 0x0f 0xac 3"
definition RSN_KEY_DATA_PMKID :: u32 where "RSN_KEY_DATA_PMKID = RSN_SELECTOR 0 0x0f 0xac 4"
definition WPA_OUI_TYPE :: u32 where "WPA_OUI_TYPE = RSN_SELECTOR 0 0x50 0xf2 1"

lemmas selector_defs = RSN_SELECTOR_def WPA_AUTH_KEY_MGMT_NONE_def
  WPA_AUTH_KEY_MGMT_UNSPEC_802_1X_def WPA_AUTH_KEY_MGMT_PSK_OVER_802_1X_def
  WPA_CIPHER_SUITE_NONE_def WPA_CIPHER_SUITE_WEP40_def WPA_CIPHER_SUITE_TKIP_def
  WPA_CIPHER_SUITE_CCMP_def WPA_CIPHER_SUITE_WEP104_def RSN_AUTH_KEY_MGMT_UNSPEC_802_1X_def
  RSN_AUTH_KEY_MGMT_PSK_OVER_802_1X_def RSN_CIPHER_SUITE_NONE_def RSN_CIPHER_SUITE_WEP40_def
  RSN_CIPHER_SUITE_TKIP_def RSN_CIPHER_SUITE_CCMP_def RSN_CIPHER_SUITE_WEP104_def
  RSN_KEY_DATA_GROUPKEY_def RSN_KEY_DATA_MAC_ADDR_def RSN_KEY_DATA_PMKID_def WPA_OUI_TYPE_def

definition WLAN_EID_RSN :: u8 where "WLAN_EID_RSN = 48"
definition WLAN_EID_VENDOR_SPECIFIC :: u8 where "WLAN_EID_VENDOR_SPECIFIC = 221"

definition rsn_selector_to_bitfield :: "bytes \<Rightarrow> u32" where
  "rsn_selector_to_bitfield s =
     (let v = WPA_GET_BE32 s in
      if v = RSN_CIPHER_SUITE_NONE then WPA_CIPHER_NONE
      else if v = RSN_CIPHER_SUITE_WEP40 then WPA_CIPHER_WEP40
      else if v = RSN_CIPHER_SUITE_TKIP then WPA_CIPHER_TKIP
      else if v = RSN_CIPHER_SUITE_CCMP then WPA_CIPHER_CCMP
      else if v = RSN_CIPHER_SUITE_WEP104 then WPA_CIPHER_WEP104 else 0)"

definition rsn_key_mgmt_to_bitfield :: "bytes \<Rightarrow> u32" where
  "rsn_key_mgmt_to_bitfield s =
     (let v = WPA_GET_BE32 s in
      if v = RSN_AUTH_KEY_MGMT_UNSPEC_802_1X then WPA_KEY_MGMT_IEEE8021X
      else if v = RSN_AUTH_KEY_MGMT_PSK_OVER_802_1X then WPA_KEY_MGMT_PSK else 0)"

definition wpa_selector_to_bitfield :: "bytes \<Rightarrow> u32" where
  "wpa_selector_to_bitfield s =
     (let v = WPA_GET_BE32 s in
      if v = WPA_CIPHER_SUITE_NONE then WPA_CIPHER_NONE
      else if v = WPA_CIPHER_SUITE_WEP40 then WPA_CIPHER_WEP40
      else if v = WPA_CIPHER_SUITE_TKIP then WPA_CIPHER_TKIP
      else if v = WPA_CIPHER_SUITE_CCMP then WPA_CIPHER_CCMP
      else if v = WPA_CIPHER_SUITE_WEP104 then WPA_CIPHER_WEP104 else 0)"

definition wpa_key_mgmt_to_bitfield :: "bytes \<Rightarrow> u32" where
  "wpa_key_mgmt_to_bitfield s =
     (let v = WPA_GET_BE32 s in
      if v = WPA_AUTH_KEY_MGMT_UNSPEC_802_1X then WPA_KEY_MGMT_IEEE8021X
      else if v = WPA_AUTH_KEY_MGMT_PSK_OVER_802_1X then WPA_KEY_MGMT_PSK
      else if v = WPA_AUTH_KEY_MGMT_NONE then WPA_KEY_MGMT_WPA_NONE else 0)"

subsection \<open>Parsing\<close>

record wpa_ie_data =
  ie_proto :: u32
  ie_pairwise_cipher :: u32
  ie_group_cipher :: u32
  ie_key_mgmt :: u32
  ie_capabilities :: u16
  ie_num_pmkid :: nat
  ie_pmkid :: "bytes option"

text \<open>
  The two parsers have the same shape. A stage returns the C return code, 0 to go on, with what it
  stored and the rest of the buffer: the group suite; a counted list of suites (whose error codes
  for a bad count and for a single octet are arguments); and the capabilities.
\<close>

definition parse_group :: "(bytes \<Rightarrow> u32) \<Rightarrow> u32 \<Rightarrow> bytes \<Rightarrow> int \<times> u32 \<times> bytes" where
  "parse_group bitfield old left =
     (if length left \<ge> 4 then (0, bitfield left, drop 4 left)
      else if length left > 0 then (-3, old, left) else (0, old, left))"

primrec suite_loop :: "(bytes \<Rightarrow> u32) \<Rightarrow> nat \<Rightarrow> u32 \<Rightarrow> bytes \<Rightarrow> u32 \<times> bytes" where
  "suite_loop bitfield 0 acc pos = (acc, pos)"
| "suite_loop bitfield (Suc n) acc pos = suite_loop bitfield n (acc OR bitfield pos) (drop 4 pos)"

definition parse_suites :: "(bytes \<Rightarrow> u32) \<Rightarrow> int \<Rightarrow> int \<Rightarrow> u32 \<Rightarrow> bytes \<Rightarrow> int \<times> u32 \<times> bytes" where
  "parse_suites bitfield botch short old left =
     (if length left \<ge> 2 then
        let count = unat (WPA_GET_LE16 left); left = drop 2 left in
        if count = 0 \<or> length left < count * 4 then (botch, 0, left)
        else let (v, rest) = suite_loop bitfield count 0 left in (0, v, rest)
      else if length left = 1 then (short, old, left) else (0, old, left))"

definition parse_capabilities :: "bytes \<Rightarrow> u16 \<times> bytes" where
  "parse_capabilities left =
     (if length left \<ge> 2 then (WPA_GET_LE16 left, drop 2 left) else (0, left))"

definition wpa_parse_wpa_ie_rsn :: "bytes \<Rightarrow> int \<times> wpa_ie_data" where
  "wpa_parse_wpa_ie_rsn ie =
     (let d = \<lparr>ie_proto = WPA_PROTO_RSN, ie_pairwise_cipher = WPA_CIPHER_CCMP,
               ie_group_cipher = WPA_CIPHER_CCMP, ie_key_mgmt = WPA_KEY_MGMT_IEEE8021X,
               ie_capabilities = 0, ie_num_pmkid = 0, ie_pmkid = None\<rparr> in
      if length ie = 0 then (-1, d)
      else if length ie < 4 then (-1, d)
      else if ie ! 0 \<noteq> WLAN_EID_RSN \<or> int (unat (ie ! 1)) \<noteq> int (length ie) - 2 \<or>
              WPA_GET_LE16 (drop 2 ie) \<noteq> 1 then (-2, d)
      else
        let (r, g, left) = parse_group rsn_selector_to_bitfield (ie_group_cipher d) (drop 4 ie);
            d = d\<lparr>ie_group_cipher := g\<rparr> in
        if r \<noteq> 0 then (r, d)
        else
          let (r, p, left) = parse_suites rsn_selector_to_bitfield (-4) (-5) (ie_pairwise_cipher d) left;
              d = d\<lparr>ie_pairwise_cipher := p\<rparr> in
          if r \<noteq> 0 then (r, d)
          else
            let (r, k, left) = parse_suites rsn_key_mgmt_to_bitfield (-6) (-7) (ie_key_mgmt d) left;
                d = d\<lparr>ie_key_mgmt := k\<rparr> in
            if r \<noteq> 0 then (r, d)
            else
              let (cap, left) = parse_capabilities left; d = d\<lparr>ie_capabilities := cap\<rparr> in
              if length left \<ge> 2 then
                let n = unat (WPA_GET_LE16 left); left = drop 2 left in
                if length left < n * 16 then (-9, d)
                else (0, d\<lparr>ie_num_pmkid := n, ie_pmkid := Some left\<rparr>)
              else (0, d))"

definition wpa_parse_wpa_ie_wpa :: "bytes \<Rightarrow> int \<times> wpa_ie_data" where
  "wpa_parse_wpa_ie_wpa ie =
     (let d = \<lparr>ie_proto = WPA_PROTO_WPA, ie_pairwise_cipher = WPA_CIPHER_TKIP,
               ie_group_cipher = WPA_CIPHER_TKIP, ie_key_mgmt = WPA_KEY_MGMT_IEEE8021X,
               ie_capabilities = 0, ie_num_pmkid = 0, ie_pmkid = None\<rparr> in
      if length ie = 0 then (-1, d)
      else if length ie < 8 then (-1, d)
      else if ie ! 0 \<noteq> WLAN_EID_VENDOR_SPECIFIC \<or> int (unat (ie ! 1)) \<noteq> int (length ie) - 2 \<or>
              WPA_GET_BE32 (drop 2 ie) \<noteq> WPA_OUI_TYPE \<or> WPA_GET_LE16 (drop 6 ie) \<noteq> 1 then (-2, d)
      else
        let (r, g, left) = parse_group wpa_selector_to_bitfield (ie_group_cipher d) (drop 8 ie);
            d = d\<lparr>ie_group_cipher := g\<rparr> in
        if r \<noteq> 0 then (r, d)
        else
          let (r, p, left) = parse_suites wpa_selector_to_bitfield (-4) (-5) (ie_pairwise_cipher d) left;
              d = d\<lparr>ie_pairwise_cipher := p\<rparr> in
          if r \<noteq> 0 then (r, d)
          else
            let (r, k, left) = parse_suites wpa_key_mgmt_to_bitfield (-6) (-7) (ie_key_mgmt d) left;
                d = d\<lparr>ie_key_mgmt := k\<rparr> in
            if r \<noteq> 0 then (r, d)
            else (0, d\<lparr>ie_capabilities := fst (parse_capabilities left)\<rparr>))"

subsection \<open>Writing\<close>

definition suite_list :: "(u32 \<times> u32) list \<Rightarrow> u32 \<Rightarrow> u32 list" where
  "suite_list table bits = map snd (filter (\<lambda>(b, _). bits AND b \<noteq> 0) table)"

definition suites_bytes :: "u32 list \<Rightarrow> bytes" where
  "suites_bytes suites = WPA_PUT_LE16 (of_nat (length suites)) @ concat (map WPA_PUT_BE32 suites)"

definition wpa_group_suite :: "u32 \<Rightarrow> u32 option" where
  "wpa_group_suite g =
     (if g = WPA_CIPHER_CCMP then Some WPA_CIPHER_SUITE_CCMP
      else if g = WPA_CIPHER_TKIP then Some WPA_CIPHER_SUITE_TKIP
      else if g = WPA_CIPHER_WEP104 then Some WPA_CIPHER_SUITE_WEP104
      else if g = WPA_CIPHER_WEP40 then Some WPA_CIPHER_SUITE_WEP40 else None)"

definition rsn_group_suite :: "u32 \<Rightarrow> u32 option" where
  "rsn_group_suite g =
     (if g = WPA_CIPHER_CCMP then Some RSN_CIPHER_SUITE_CCMP
      else if g = WPA_CIPHER_TKIP then Some RSN_CIPHER_SUITE_TKIP
      else if g = WPA_CIPHER_WEP104 then Some RSN_CIPHER_SUITE_WEP104
      else if g = WPA_CIPHER_WEP40 then Some RSN_CIPHER_SUITE_WEP40 else None)"

definition wpa_write_wpa_ie :: "wpa_auth_config \<Rightarrow> int + bytes" where
  "wpa_write_wpa_ie cf =
     (let pw = suite_list [(WPA_CIPHER_CCMP, WPA_CIPHER_SUITE_CCMP),
                 (WPA_CIPHER_TKIP, WPA_CIPHER_SUITE_TKIP), (WPA_CIPHER_NONE, WPA_CIPHER_SUITE_NONE)]
                 (conf_wpa_pairwise cf);
          km = suite_list [(WPA_KEY_MGMT_IEEE8021X, WPA_AUTH_KEY_MGMT_UNSPEC_802_1X),
                 (WPA_KEY_MGMT_PSK, WPA_AUTH_KEY_MGMT_PSK_OVER_802_1X)] (conf_wpa_key_mgmt cf) in
      case wpa_group_suite (conf_wpa_group cf) of
        None \<Rightarrow> Inl (-1)
      | Some gs \<Rightarrow>
          if pw = [] then Inl (-1) else if km = [] then Inl (-1)
          else let body = WPA_PUT_BE32 WPA_OUI_TYPE @ WPA_PUT_LE16 1 @ WPA_PUT_BE32 gs @
                     suites_bytes pw @ suites_bytes km
               in Inr (WLAN_EID_VENDOR_SPECIFIC # of_nat (length body) # body))"

text \<open>\<open>len\<close> is the room in the buffer; only the optional PMKID is checked against it.\<close>

definition wpa_write_rsn_ie :: "wpa_auth_config \<Rightarrow> nat \<Rightarrow> bytes option \<Rightarrow> int + bytes" where
  "wpa_write_rsn_ie cf len pmkid =
     (let pw = suite_list [(WPA_CIPHER_CCMP, RSN_CIPHER_SUITE_CCMP),
                 (WPA_CIPHER_TKIP, RSN_CIPHER_SUITE_TKIP), (WPA_CIPHER_NONE, RSN_CIPHER_SUITE_NONE)]
                 (conf_rsn_pairwise cf);
          km = suite_list [(WPA_KEY_MGMT_IEEE8021X, RSN_AUTH_KEY_MGMT_UNSPEC_802_1X),
                 (WPA_KEY_MGMT_PSK, RSN_AUTH_KEY_MGMT_PSK_OVER_802_1X)] (conf_wpa_key_mgmt cf);
          capab = (if conf_rsn_preauth cf then 1 else 0) OR
                  (if conf_peerkey cf then push_bit 9 1 else 0) OR
                  (if conf_wmm_enabled cf then push_bit 2 3 else 0) in
      case rsn_group_suite (conf_wpa_group cf) of
        None \<Rightarrow> Inl (-1)
      | Some gs \<Rightarrow>
          if pw = [] then Inl (-1) else if km = [] then Inl (-1)
          else let body = WPA_PUT_LE16 1 @ WPA_PUT_BE32 gs @ suites_bytes pw @ suites_bytes km @
                     WPA_PUT_LE16 capab in
               case pmkid of
                 None \<Rightarrow> Inr (WLAN_EID_RSN # of_nat (length body) # body)
               | Some p \<Rightarrow>
                   if 2 + length body + 2 + 16 > len then Inl (-1)
                   else let body = body @ WPA_PUT_LE16 1 @ take 16 p
                        in Inr (WLAN_EID_RSN # of_nat (length body) # body))"

text \<open>The element is built in a buffer of 128 octets. The result is the new \<open>wpa_ie\<close>.\<close>

definition wpa_auth_gen_wpa_ie :: "wpa_auth_config \<Rightarrow> int + bytes" where
  "wpa_auth_gen_wpa_ie cf =
     (case (if conf_wpa cf AND WPA_PROTO_RSN \<noteq> 0 then wpa_write_rsn_ie cf 128 None else Inr []) of
        Inl r \<Rightarrow> Inl r
      | Inr rsn \<Rightarrow>
          (case (if conf_wpa cf AND WPA_PROTO_WPA \<noteq> 0 then wpa_write_wpa_ie cf else Inr []) of
             Inl r \<Rightarrow> Inl r
           | Inr wpa \<Rightarrow> Inr (rsn @ wpa)))"

definition wpa_add_kde :: "u32 \<Rightarrow> bytes \<Rightarrow> bytes option \<Rightarrow> bytes" where
  "wpa_add_kde kde data data2 =
     (let d2 = (case data2 of None \<Rightarrow> [] | Some d \<Rightarrow> d) in
      WLAN_EID_VENDOR_SPECIFIC # of_nat (4 + length data + length d2) # WPA_PUT_BE32 kde @ data @ d2)"

subsection \<open>Key data\<close>

text \<open>An element found is the octets of the buffer from its pointer, cut to its length.\<close>

record wpa_eapol_ie_parse =
  kde_wpa_ie :: "bytes option"
  kde_rsn_ie :: "bytes option"
  kde_pmkid :: "bytes option"
  kde_gtk :: "bytes option"
  kde_mac_addr :: "bytes option"

definition no_kde :: wpa_eapol_ie_parse where
  "no_kde = \<lparr>kde_wpa_ie = None, kde_rsn_ie = None, kde_pmkid = None, kde_gtk = None,
     kde_mac_addr = None\<rparr>"

text \<open>\<open>pos\<close> is the buffer from the element to \<open>end\<close>; the result is the return code 0 or 1.\<close>

definition wpa_parse_generic :: "bytes \<Rightarrow> wpa_eapol_ie_parse \<Rightarrow> int \<times> wpa_eapol_ie_parse" where
  "wpa_parse_generic pos ie =
     (let n = unat (pos ! 1) in
      if n = 0 then (1, ie)
      else if n \<ge> 6 \<and> WPA_GET_BE32 (drop 2 pos) = WPA_OUI_TYPE \<and> pos ! 6 = 1 \<and> pos ! 7 = 0
      then (0, ie\<lparr>kde_wpa_ie := Some (take (n + 2) pos)\<rparr>)
      else if length pos > 5 \<and> n \<ge> 20 \<and> WPA_GET_BE32 (drop 2 pos) = RSN_KEY_DATA_PMKID
      then (0, ie\<lparr>kde_pmkid := Some (take 16 (drop 6 pos))\<rparr>)
      else if n > 6 \<and> WPA_GET_BE32 (drop 2 pos) = RSN_KEY_DATA_GROUPKEY
      then (0, ie\<lparr>kde_gtk := Some (take (n - 4) (drop 6 pos))\<rparr>)
      else if n > 6 \<and> WPA_GET_BE32 (drop 2 pos) = RSN_KEY_DATA_MAC_ADDR
      then (0, ie\<lparr>kde_mac_addr := Some (take (n - 4) (drop 6 pos))\<rparr>)
      else (0, ie))"

text \<open>
  The loop over the elements. The test for padding also asks whether \<open>pos == buf + len - 1\<close>, which
  the loop condition excludes.
\<close>

function parse_kde_loop :: "bytes \<Rightarrow> wpa_eapol_ie_parse \<Rightarrow> int \<times> wpa_eapol_ie_parse" where
  "parse_kde_loop pos ie =
     (if length pos < 2 then (0, ie)
      else if pos ! 0 = 0xdd \<and> pos ! 1 = 0 then (0, ie)
      else let n = unat (pos ! 1) in
        if 2 + n > length pos then (-1, ie)
        else if pos ! 0 = WLAN_EID_RSN
        then parse_kde_loop (drop (2 + n) pos) (ie\<lparr>kde_rsn_ie := Some (take (n + 2) pos)\<rparr>)
        else if pos ! 0 = WLAN_EID_VENDOR_SPECIFIC
        then (let (ret, ie) = wpa_parse_generic pos ie in
              if ret > 0 then (0, ie) else parse_kde_loop (drop (2 + n) pos) ie)
        else parse_kde_loop (drop (2 + n) pos) ie)"
  by pat_completeness auto
termination
  by (relation "measure (\<lambda>(pos, ie). length pos)") auto

declare parse_kde_loop.simps [simp del]

definition wpa_parse_kde_ies :: "bytes \<Rightarrow> int \<times> wpa_eapol_ie_parse" where
  "wpa_parse_kde_ies buf = parse_kde_loop buf no_kde"

subsection \<open>Negotiation\<close>

datatype wpa_validate_result =
  WPA_IE_OK | WPA_INVALID_IE | WPA_INVALID_GROUP | WPA_INVALID_PAIRWISE | WPA_INVALID_AKMP
  | WPA_NOT_ENABLED | WPA_ALLOC_FAIL | WPA_INVALID_PROTO

text \<open>The cascade that picks the selector of the first known cipher; the default comes last.\<close>

fun first_selector :: "(u32 \<times> u32) list \<Rightarrow> u32 \<Rightarrow> u32 \<Rightarrow> u32" where
  "first_selector [] dflt bits = dflt"
| "first_selector ((b, sel) # rest) dflt bits =
     (if bits AND b \<noteq> 0 then sel else first_selector rest dflt bits)"

definition rsn_cipher_selectors :: "(u32 \<times> u32) list" where
  "rsn_cipher_selectors =
     [(WPA_CIPHER_CCMP, RSN_CIPHER_SUITE_CCMP), (WPA_CIPHER_TKIP, RSN_CIPHER_SUITE_TKIP),
      (WPA_CIPHER_WEP104, RSN_CIPHER_SUITE_WEP104), (WPA_CIPHER_WEP40, RSN_CIPHER_SUITE_WEP40),
      (WPA_CIPHER_NONE, RSN_CIPHER_SUITE_NONE)]"

definition wpa_cipher_selectors :: "(u32 \<times> u32) list" where
  "wpa_cipher_selectors =
     [(WPA_CIPHER_CCMP, WPA_CIPHER_SUITE_CCMP), (WPA_CIPHER_TKIP, WPA_CIPHER_SUITE_TKIP),
      (WPA_CIPHER_WEP104, WPA_CIPHER_SUITE_WEP104), (WPA_CIPHER_WEP40, WPA_CIPHER_SUITE_WEP40),
      (WPA_CIPHER_NONE, WPA_CIPHER_SUITE_NONE)]"

definition note_selected :: "u32 \<Rightarrow> wpa_ie_data \<Rightarrow> wpa_authenticator \<Rightarrow> wpa_authenticator" where
  "note_selected version d auth =
     (if version = WPA_PROTO_RSN then
        auth\<lparr>dot11RSNAAuthenticationSuiteSelected :=
               first_selector [(WPA_KEY_MGMT_IEEE8021X, RSN_AUTH_KEY_MGMT_UNSPEC_802_1X),
                 (WPA_KEY_MGMT_PSK, RSN_AUTH_KEY_MGMT_PSK_OVER_802_1X)]
                 RSN_AUTH_KEY_MGMT_UNSPEC_802_1X (ie_key_mgmt d),
             dot11RSNAPairwiseCipherSelected :=
               first_selector rsn_cipher_selectors RSN_CIPHER_SUITE_CCMP (ie_pairwise_cipher d),
             dot11RSNAGroupCipherSelected :=
               first_selector rsn_cipher_selectors RSN_CIPHER_SUITE_CCMP (ie_group_cipher d)\<rparr>
      else
        auth\<lparr>dot11RSNAAuthenticationSuiteSelected :=
               first_selector [(WPA_KEY_MGMT_IEEE8021X, WPA_AUTH_KEY_MGMT_UNSPEC_802_1X),
                 (WPA_KEY_MGMT_PSK, WPA_AUTH_KEY_MGMT_PSK_OVER_802_1X)]
                 WPA_AUTH_KEY_MGMT_UNSPEC_802_1X (ie_key_mgmt d),
             dot11RSNAPairwiseCipherSelected :=
               first_selector wpa_cipher_selectors WPA_CIPHER_SUITE_TKIP (ie_pairwise_cipher d),
             dot11RSNAGroupCipherSelected :=
               first_selector wpa_cipher_selectors WPA_CIPHER_SUITE_TKIP (ie_group_cipher d)\<rparr>)"

text \<open>The identifiers the station sent.\<close>

definition sent_pmkids :: "wpa_ie_data \<Rightarrow> bytes list" where
  "sent_pmkids d =
     map (\<lambda>i. take 16 (drop (i * 16) (case ie_pmkid d of None \<Rightarrow> [] | Some b \<Rightarrow> b)))
       [0..<ie_num_pmkid d]"

text \<open>
  \<open>wpa_auth_for_each_auth\<close> with \<open>wpa_auth_okc_iter\<close>: the caches of all authenticators, in order,
  until one has an entry. \<open>None\<close>: one of the walks does not end.
\<close>

primrec okc_each_auth ::
  "rsn_pmksa_cache list \<Rightarrow> bytes \<Rightarrow> bytes \<Rightarrow> bytes \<Rightarrow> rsn_pmksa_cache_entry option option" where
  "okc_each_auth [] aa spa pmkid = Some None"
| "okc_each_auth (c # cs) aa spa pmkid =
     (case pmksa_cache_get_okc c aa spa pmkid of
        None \<Rightarrow> None
      | Some None \<Rightarrow> okc_each_auth cs aa spa pmkid
      | Some (Some e) \<Rightarrow> Some (Some e))"

primrec okc_search ::
  "rsn_pmksa_cache list \<Rightarrow> bytes \<Rightarrow> bytes \<Rightarrow> bytes list \<Rightarrow> (rsn_pmksa_cache_entry \<times> bytes) option option" where
  "okc_search caches aa spa [] = Some None"
| "okc_search caches aa spa (p # ps) =
     (case okc_each_auth caches aa spa p of
        None \<Rightarrow> None
      | Some (Some e) \<Rightarrow> Some (Some (e, p))
      | Some None \<Rightarrow> okc_search caches aa spa ps)"

text \<open>
  The choice of a cached key. \<open>alloc\<close> answers the allocation in \<open>pmksa_cache_add_okc\<close>; the result is
  the entry, the PMKID used and the cache.
\<close>

definition choose_pmksa ::
  "nat option \<Rightarrow> rsn_pmksa_cache list \<Rightarrow> wpa_authenticator \<Rightarrow> bytes \<Rightarrow> wpa_ie_data \<Rightarrow>
   (rsn_pmksa_cache_entry option \<times> bytes \<times> rsn_pmksa_cache) option" where
  "choose_pmksa alloc caches auth spa d =
     (case List.find (\<lambda>p. pmksa_cache_auth_get (auth_pmksa auth) (Some spa) (Some p) \<noteq> None)
             (sent_pmkids d) of
        Some p \<Rightarrow>
          let e = pmksa_cache_auth_get (auth_pmksa auth) (Some spa) (Some p)
          in Some (e, (case e of Some e \<Rightarrow> entry_pmkid e | None \<Rightarrow> []), auth_pmksa auth)
      | None \<Rightarrow>
          if conf_okc (conf auth) then
            (case okc_search caches (auth_addr auth) spa (sent_pmkids d) of
               None \<Rightarrow> None
             | Some None \<Rightarrow> Some (None, [], auth_pmksa auth)
             | Some (Some (e, p)) \<Rightarrow>
                 (case pmksa_cache_add_okc alloc (auth_pmksa auth) e p of
                    (e', c) \<Rightarrow> Some (e', p, c)))
          else Some (None, [], auth_pmksa auth))"

text \<open>
  \<open>wpa_validate_wpa_ie\<close>: the answer, the station and the authenticator. \<open>malloc_ok\<close> answers the
  allocation of the station's copy of the element, which is made when the old one is too short;
  \<open>caches\<close> are those of all authenticators. \<open>None\<close>: it does not return.
\<close>

definition wpa_validate_wpa_ie ::
  "nat option \<Rightarrow> bool \<Rightarrow> rsn_pmksa_cache list \<Rightarrow> wpa_authenticator \<Rightarrow> wpa_state_machine option \<Rightarrow>
   bytes option \<Rightarrow> (wpa_validate_result \<times> wpa_state_machine option \<times> wpa_authenticator) option" where
  "wpa_validate_wpa_ie alloc malloc_ok caches auth sm_opt ie_opt =
     (case (sm_opt, ie_opt) of
        (None, _) \<Rightarrow> Some (WPA_NOT_ENABLED, None, auth)
      | (Some sm, None) \<Rightarrow> Some (WPA_INVALID_IE, Some sm, auth)
      | (Some sm, Some ie) \<Rightarrow>
          if length ie < 1 then Some (WPA_INVALID_IE, Some sm, auth)
          else
            let version = (if ie ! 0 = WLAN_EID_RSN then WPA_PROTO_RSN else WPA_PROTO_WPA) in
            if conf_wpa (conf auth) AND version = 0 then Some (WPA_INVALID_PROTO, Some sm, auth)
            else
              let (res, d) = (if version = WPA_PROTO_RSN then wpa_parse_wpa_ie_rsn ie
                              else wpa_parse_wpa_ie_wpa ie);
                  auth = note_selected version d auth in
              if res \<noteq> 0 then Some (WPA_INVALID_IE, Some sm, auth)
              else if ie_group_cipher d \<noteq> conf_wpa_group (conf auth)
              then Some (WPA_INVALID_GROUP, Some sm, auth)
              else
                let key_mgmt = ie_key_mgmt d AND conf_wpa_key_mgmt (conf auth) in
                if key_mgmt = 0 then Some (WPA_INVALID_AKMP, Some sm, auth)
                else
                  let sm = sm\<lparr>sm_wpa_key_mgmt := (if key_mgmt AND WPA_KEY_MGMT_IEEE8021X \<noteq> 0
                              then WPA_KEY_MGMT_IEEE8021X else WPA_KEY_MGMT_PSK)\<rparr>;
                      ciphers = ie_pairwise_cipher d AND
                        (if version = WPA_PROTO_RSN then conf_rsn_pairwise (conf auth)
                         else conf_wpa_pairwise (conf auth)) in
                  if ciphers = 0 then Some (WPA_INVALID_PAIRWISE, Some sm, auth)
                  else
                    let sm = sm\<lparr>pairwise := (if ciphers AND WPA_CIPHER_CCMP \<noteq> 0
                                  then WPA_CIPHER_CCMP else WPA_CIPHER_TKIP),
                               sm_wpa := (if ie ! 0 = WLAN_EID_RSN then WPA_VERSION_WPA2
                                  else WPA_VERSION_WPA)\<rparr> in
                    case choose_pmksa alloc caches auth (addr sm) d of
                      None \<Rightarrow> None
                    | Some (e, pmkid, cache) \<Rightarrow>
                        let sm = sm\<lparr>sm_pmksa := e\<rparr>;
                            auth = auth\<lparr>auth_pmksa := cache\<rparr>;
                            auth = (if e = None then auth
                                    else auth\<lparr>dot11RSNAPMKIDUsed := take 16 pmkid\<rparr>);
                            fits = (case sm_wpa_ie sm of None \<Rightarrow> False
                                    | Some old \<Rightarrow> \<not> length old < length ie) in
                        if \<not> fits \<and> \<not> malloc_ok
                        then Some (WPA_ALLOC_FAIL, Some (sm\<lparr>sm_wpa_ie := None\<rparr>), auth)
                        else Some (WPA_IE_OK, Some (sm\<lparr>sm_wpa_ie := Some ie\<rparr>), auth))"

subsection \<open>Round trips\<close>

lemma get_put_alone [codec_simps]:
  "WPA_GET_BE32 (WPA_PUT_BE32 w) = w" "WPA_GET_LE16 (WPA_PUT_LE16 v) = v"
  using get_put_32(1) [of w "[]"] get_put_16(2) [of v "[]"] by simp_all

lemma drop_put [codec_simps]:
  "drop 4 (WPA_PUT_BE32 v @ r) = r" "drop 2 (WPA_PUT_LE16 w @ r) = r"
  by (simp_all add: len_simps)

lemma bitfield_put:
  "rsn_selector_to_bitfield (WPA_PUT_BE32 v @ r) = rsn_selector_to_bitfield (WPA_PUT_BE32 v)"
  "rsn_key_mgmt_to_bitfield (WPA_PUT_BE32 v @ r) = rsn_key_mgmt_to_bitfield (WPA_PUT_BE32 v)"
  "wpa_selector_to_bitfield (WPA_PUT_BE32 v @ r) = wpa_selector_to_bitfield (WPA_PUT_BE32 v)"
  "wpa_key_mgmt_to_bitfield (WPA_PUT_BE32 v @ r) = wpa_key_mgmt_to_bitfield (WPA_PUT_BE32 v)"
  by (simp_all add: rsn_selector_to_bitfield_def rsn_key_mgmt_to_bitfield_def
      wpa_selector_to_bitfield_def wpa_key_mgmt_to_bitfield_def codec_simps Let_def)

text \<open>The four table readers as an interface: what they return depends on the selector alone.\<close>

locale selector_reader =
  fixes rd :: "bytes \<Rightarrow> u32"
  assumes rd_put: "rd (WPA_PUT_BE32 v @ r) = rd (WPA_PUT_BE32 v)"
begin

lemma suite_loop_put:
  "suite_loop rd (length ss) acc (concat (map WPA_PUT_BE32 ss) @ r) =
     (foldl (\<lambda>a v. a OR rd (WPA_PUT_BE32 v)) acc ss, r)"
proof (induction ss arbitrary: acc)
  case (Cons v ss)
  then show ?case by (simp add: rd_put codec_simps len_simps)
qed simp

lemma length_concat_put: "length (concat (map WPA_PUT_BE32 ss)) = length ss * 4"
  by (induction ss) (simp_all add: len_simps)

lemma parse_suites_put:
  assumes "ss \<noteq> []" "length ss < 2 ^ 16"
  shows "parse_suites rd botch short old (suites_bytes ss @ r) =
    (0, foldl (\<lambda>a v. a OR rd (WPA_PUT_BE32 v)) 0 ss, r)"
proof -
  have "unat (of_nat (length ss) :: u16) = length ss" using assms(2) by (simp add: unsigned_of_nat take_bit_nat_eq_self)
  then show ?thesis
    using assms(1)
    by (simp add: parse_suites_def suites_bytes_def codec_simps len_simps length_concat_put
        suite_loop_put)
qed

lemma parse_group_put: "parse_group rd old (WPA_PUT_BE32 v @ r) = (0, rd (WPA_PUT_BE32 v), r)"
  by (simp add: parse_group_def len_simps codec_simps rd_put)

end

interpretation rsn_cipher: selector_reader rsn_selector_to_bitfield
  by unfold_locales (rule bitfield_put)
interpretation rsn_akm: selector_reader rsn_key_mgmt_to_bitfield
  by unfold_locales (rule bitfield_put)
interpretation wpa_cipher: selector_reader wpa_selector_to_bitfield
  by unfold_locales (rule bitfield_put)
interpretation wpa_akm: selector_reader wpa_key_mgmt_to_bitfield
  by unfold_locales (rule bitfield_put)

lemma length_suites_bytes [len_simps]: "length (suites_bytes ss) = 2 + 4 * length ss"
  by (simp add: suites_bytes_def len_simps rsn_cipher.length_concat_put)

lemma length_suite_list: "length (suite_list table bits) \<le> length table"
  by (simp add: suite_list_def)

lemma and_BIT: "w AND BIT n = (if bit w n then BIT n else 0)"
  by (rule bit_word_eqI) (auto simp: BIT_def bit_simps)

lemma BIT_nonzero: "n < 32 \<Longrightarrow> BIT n \<noteq> 0"
  by (auto simp: BIT_def bit_eq_iff bit_simps)

lemma and_BIT_zero: "n < 32 \<Longrightarrow> w AND BIT n = 0 \<longleftrightarrow> \<not> bit w n"
  by (auto simp: and_BIT BIT_nonzero)

lemma selector_values:
  "rsn_selector_to_bitfield (WPA_PUT_BE32 RSN_CIPHER_SUITE_CCMP) = BIT 4"
  "rsn_selector_to_bitfield (WPA_PUT_BE32 RSN_CIPHER_SUITE_TKIP) = BIT 3"
  "rsn_selector_to_bitfield (WPA_PUT_BE32 RSN_CIPHER_SUITE_WEP104) = BIT 2"
  "rsn_selector_to_bitfield (WPA_PUT_BE32 RSN_CIPHER_SUITE_WEP40) = BIT 1"
  "rsn_selector_to_bitfield (WPA_PUT_BE32 RSN_CIPHER_SUITE_NONE) = BIT 0"
  "rsn_key_mgmt_to_bitfield (WPA_PUT_BE32 RSN_AUTH_KEY_MGMT_UNSPEC_802_1X) = BIT 0"
  "rsn_key_mgmt_to_bitfield (WPA_PUT_BE32 RSN_AUTH_KEY_MGMT_PSK_OVER_802_1X) = BIT 1"
  "wpa_selector_to_bitfield (WPA_PUT_BE32 WPA_CIPHER_SUITE_CCMP) = BIT 4"
  "wpa_selector_to_bitfield (WPA_PUT_BE32 WPA_CIPHER_SUITE_TKIP) = BIT 3"
  "wpa_selector_to_bitfield (WPA_PUT_BE32 WPA_CIPHER_SUITE_WEP104) = BIT 2"
  "wpa_selector_to_bitfield (WPA_PUT_BE32 WPA_CIPHER_SUITE_WEP40) = BIT 1"
  "wpa_selector_to_bitfield (WPA_PUT_BE32 WPA_CIPHER_SUITE_NONE) = BIT 0"
  "wpa_key_mgmt_to_bitfield (WPA_PUT_BE32 WPA_AUTH_KEY_MGMT_UNSPEC_802_1X) = BIT 0"
  "wpa_key_mgmt_to_bitfield (WPA_PUT_BE32 WPA_AUTH_KEY_MGMT_PSK_OVER_802_1X) = BIT 1"
  by (simp_all add: rsn_selector_to_bitfield_def rsn_key_mgmt_to_bitfield_def
      wpa_selector_to_bitfield_def wpa_key_mgmt_to_bitfield_def codec_simps selector_defs cipher_defs
      akm_defs Let_def)

lemma group_suite_value:
  "rsn_group_suite g = Some gs \<Longrightarrow> rsn_selector_to_bitfield (WPA_PUT_BE32 gs) = g"
  "wpa_group_suite g = Some gs \<Longrightarrow> wpa_selector_to_bitfield (WPA_PUT_BE32 gs) = g"
  by (auto simp: rsn_group_suite_def wpa_group_suite_def cipher_defs selector_values split: if_splits)

definition rsn_capab :: "wpa_auth_config \<Rightarrow> u16" where
  "rsn_capab cf = (if conf_rsn_preauth cf then 1 else 0) OR
     (if conf_peerkey cf then push_bit 9 1 else 0) OR (if conf_wmm_enabled cf then push_bit 2 3 else 0)"

text \<open>A header of the right length is accepted and leaves the body to the stages.\<close>

lemma header_length:
  "length body < 254 \<Longrightarrow> uint (of_nat (length body) :: u8) = int (length body)"
  by (simp add: unsigned_of_nat take_bit_nat_eq_self)

lemma rsn_parse_body:
  fixes gs :: u32 and cap :: u16
  assumes "length (suites_bytes pw @ suites_bytes km) < 200"
    and "pw \<noteq> []" "km \<noteq> []"
  defines "body \<equiv> WPA_PUT_LE16 1 @ WPA_PUT_BE32 gs @ suites_bytes pw @ suites_bytes km @ WPA_PUT_LE16 cap"
  shows "wpa_parse_wpa_ie_rsn (WLAN_EID_RSN # of_nat (length body) # body) =
    (0, \<lparr>ie_proto = WPA_PROTO_RSN,
         ie_pairwise_cipher = foldl (\<lambda>a v. a OR rsn_selector_to_bitfield (WPA_PUT_BE32 v)) 0 pw,
         ie_group_cipher = rsn_selector_to_bitfield (WPA_PUT_BE32 gs),
         ie_key_mgmt = foldl (\<lambda>a v. a OR rsn_key_mgmt_to_bitfield (WPA_PUT_BE32 v)) 0 km,
         ie_capabilities = cap, ie_num_pmkid = 0, ie_pmkid = None\<rparr>)"
proof -
  have len: "length body < 254" "4 \<le> length body" using assms(1) by (simp_all add: body_def len_simps)
  have small: "length pw < 2 ^ 16" "length km < 2 ^ 16" using assms(1) by (simp_all add: len_simps)
  have v: "WPA_GET_LE16 body = 1" "drop 2 body = WPA_PUT_BE32 gs @ suites_bytes pw @ suites_bytes km @ WPA_PUT_LE16 cap"
    by (simp_all add: body_def codec_simps len_simps)
  show ?thesis
    using len
    by (simp add: wpa_parse_wpa_ie_rsn_def Let_def header_length v rsn_cipher.parse_group_put
        rsn_cipher.parse_suites_put [OF assms(2) small(1)] rsn_akm.parse_suites_put [OF assms(3) small(2)]
        parse_capabilities_def codec_simps len_simps)
qed

lemma wpa_parse_body:
  fixes gs :: u32
  assumes "length (suites_bytes pw @ suites_bytes km) < 200"
    and "pw \<noteq> []" "km \<noteq> []"
  defines "body \<equiv> WPA_PUT_BE32 WPA_OUI_TYPE @ WPA_PUT_LE16 1 @ WPA_PUT_BE32 gs @ suites_bytes pw @ suites_bytes km"
  shows "wpa_parse_wpa_ie_wpa (WLAN_EID_VENDOR_SPECIFIC # of_nat (length body) # body) =
    (0, \<lparr>ie_proto = WPA_PROTO_WPA,
         ie_pairwise_cipher = foldl (\<lambda>a v. a OR wpa_selector_to_bitfield (WPA_PUT_BE32 v)) 0 pw,
         ie_group_cipher = wpa_selector_to_bitfield (WPA_PUT_BE32 gs),
         ie_key_mgmt = foldl (\<lambda>a v. a OR wpa_key_mgmt_to_bitfield (WPA_PUT_BE32 v)) 0 km,
         ie_capabilities = 0, ie_num_pmkid = 0, ie_pmkid = None\<rparr>)"
proof -
  have len: "length body < 254" "8 \<le> length body" using assms(1) by (simp_all add: body_def len_simps)
  have small: "length pw < 2 ^ 16" "length km < 2 ^ 16" using assms(1) by (simp_all add: len_simps)
  have v: "WPA_GET_BE32 body = WPA_OUI_TYPE" "WPA_GET_LE16 (drop 4 body) = 1"
      "drop 6 body = WPA_PUT_BE32 gs @ suites_bytes pw @ suites_bytes km"
    by (simp_all add: body_def codec_simps len_simps)
  have end_km: "parse_suites wpa_key_mgmt_to_bitfield (-6) (-7) old (suites_bytes km) =
      (0, foldl (\<lambda>a v. a OR wpa_key_mgmt_to_bitfield (WPA_PUT_BE32 v)) 0 km, [])" for old
    using wpa_akm.parse_suites_put [OF assms(3) small(2), of _ _ old "[]"] by simp
  show ?thesis
    using len
    by (simp add: wpa_parse_wpa_ie_wpa_def Let_def header_length v wpa_cipher.parse_group_put
        wpa_cipher.parse_suites_put [OF assms(2) small(1)] end_km
        parse_capabilities_def codec_simps len_simps)
qed

lemma foldl_three:
  "foldl (\<lambda>a v. a OR f v) (0 :: u32)
     (suite_list [(BIT i, s1), (BIT j, s2), (BIT k, s3)] w) = w AND (BIT i OR BIT j OR BIT k)"
  if "f s1 = BIT i" "f s2 = BIT j" "f s3 = BIT k" "i < 32" "j < 32" "k < 32"
  using that
  by (cases "bit w i"; cases "bit w j"; cases "bit w k")
     (simp_all add: suite_list_def and_BIT_zero bit.conj_disj_distrib and_BIT or.assoc)

lemma foldl_two:
  "foldl (\<lambda>a v. a OR f v) (0 :: u32) (suite_list [(BIT i, s1), (BIT j, s2)] w) = w AND (BIT i OR BIT j)"
  if "f s1 = BIT i" "f s2 = BIT j" "i < 32" "j < 32"
  using that
  by (cases "bit w i"; cases "bit w j")
     (simp_all add: suite_list_def and_BIT_zero bit.conj_disj_distrib and_BIT)

definition sample_conf :: wpa_auth_config where
  "sample_conf =
     \<lparr>conf_wpa = WPA_PROTO_RSN, conf_wpa_key_mgmt = WPA_KEY_MGMT_PSK, conf_wpa_pairwise = 0,
      conf_wpa_group = WPA_CIPHER_CCMP, conf_wpa_group_rekey = 600, conf_wpa_strict_rekey = False,
      conf_wpa_gmk_rekey = 86400, conf_wpa_ptk_rekey = 0, conf_rsn_pairwise = WPA_CIPHER_CCMP,
      conf_rsn_preauth = False, conf_eapol_version = 2, conf_peerkey = False,
      conf_wmm_enabled = False, conf_okc = False, conf_tx_status = False\<rparr>"

text \<open>
  C34: The elements of the access point. Whenever \<open>wpa_write_rsn_ie\<close> or \<open>wpa_write_wpa_ie\<close>
  produces an element it fits (34 and 36 octets; both together in the 128 octets of
  \<open>wpa_auth_gen_wpa_ie\<close>) and the parser for the stations' elements accepts it and reads back the
  configured group cipher, pairwise ciphers, key management suites and capabilities, cut to the
  values that have a selector.
\<close>

theorem wpa_ie_roundtrip:
  "(wpa_write_rsn_ie cf len None = Inr ie \<longrightarrow>
     wpa_parse_wpa_ie_rsn ie =
       (0, \<lparr>ie_proto = WPA_PROTO_RSN,
            ie_pairwise_cipher =
              conf_rsn_pairwise cf AND (WPA_CIPHER_CCMP OR WPA_CIPHER_TKIP OR WPA_CIPHER_NONE),
            ie_group_cipher = conf_wpa_group cf,
            ie_key_mgmt = conf_wpa_key_mgmt cf AND (WPA_KEY_MGMT_IEEE8021X OR WPA_KEY_MGMT_PSK),
            ie_capabilities = rsn_capab cf, ie_num_pmkid = 0, ie_pmkid = None\<rparr>) \<and>
     length ie \<le> 34) \<and>
   (wpa_write_wpa_ie cf = Inr ie \<longrightarrow>
     wpa_parse_wpa_ie_wpa ie =
       (0, \<lparr>ie_proto = WPA_PROTO_WPA,
            ie_pairwise_cipher =
              conf_wpa_pairwise cf AND (WPA_CIPHER_CCMP OR WPA_CIPHER_TKIP OR WPA_CIPHER_NONE),
            ie_group_cipher = conf_wpa_group cf,
            ie_key_mgmt = conf_wpa_key_mgmt cf AND (WPA_KEY_MGMT_IEEE8021X OR WPA_KEY_MGMT_PSK),
            ie_capabilities = 0, ie_num_pmkid = 0, ie_pmkid = None\<rparr>) \<and>
     length ie \<le> 36) \<and>
   (wpa_auth_gen_wpa_ie cf = Inr both \<longrightarrow> length both \<le> 128)"
proof -
  have rsn: "wpa_parse_wpa_ie_rsn x =
       (0, \<lparr>ie_proto = WPA_PROTO_RSN,
            ie_pairwise_cipher =
              conf_rsn_pairwise cf AND (WPA_CIPHER_CCMP OR WPA_CIPHER_TKIP OR WPA_CIPHER_NONE),
            ie_group_cipher = conf_wpa_group cf,
            ie_key_mgmt = conf_wpa_key_mgmt cf AND (WPA_KEY_MGMT_IEEE8021X OR WPA_KEY_MGMT_PSK),
            ie_capabilities = rsn_capab cf, ie_num_pmkid = 0, ie_pmkid = None\<rparr>) \<and> length x \<le> 34"
    if w: "wpa_write_rsn_ie cf n None = Inr x" for x n
  proof -
    define pw where "pw = suite_list [(WPA_CIPHER_CCMP, RSN_CIPHER_SUITE_CCMP),
        (WPA_CIPHER_TKIP, RSN_CIPHER_SUITE_TKIP), (WPA_CIPHER_NONE, RSN_CIPHER_SUITE_NONE)]
        (conf_rsn_pairwise cf)"
    define km where "km = suite_list [(WPA_KEY_MGMT_IEEE8021X, RSN_AUTH_KEY_MGMT_UNSPEC_802_1X),
        (WPA_KEY_MGMT_PSK, RSN_AUTH_KEY_MGMT_PSK_OVER_802_1X)] (conf_wpa_key_mgmt cf)"
    have len: "length pw \<le> 3" "length km \<le> 2"
      unfolding pw_def km_def by (rule order_trans [OF length_suite_list], simp)+
    obtain gs where suite: "rsn_group_suite (conf_wpa_group cf) = Some gs"
      and ne: "pw \<noteq> []" "km \<noteq> []"
      and x: "x = WLAN_EID_RSN # of_nat (length (WPA_PUT_LE16 1 @ WPA_PUT_BE32 gs @ suites_bytes pw @
          suites_bytes km @ WPA_PUT_LE16 (rsn_capab cf))) # WPA_PUT_LE16 1 @ WPA_PUT_BE32 gs @
          suites_bytes pw @ suites_bytes km @ WPA_PUT_LE16 (rsn_capab cf)"
      using w unfolding wpa_write_rsn_ie_def Let_def pw_def [symmetric] km_def [symmetric]
        rsn_capab_def [symmetric]
      by (auto split: if_splits option.splits)
    note gs = group_suite_value(1) [OF suite]
    show ?thesis
      unfolding x using len
      by (subst rsn_parse_body [OF _ ne])
         (simp_all add: len_simps gs pw_def km_def cipher_defs akm_defs foldl_three foldl_two
            selector_values [unfolded cipher_defs])
  qed
  have wpa: "wpa_parse_wpa_ie_wpa x =
       (0, \<lparr>ie_proto = WPA_PROTO_WPA,
            ie_pairwise_cipher =
              conf_wpa_pairwise cf AND (WPA_CIPHER_CCMP OR WPA_CIPHER_TKIP OR WPA_CIPHER_NONE),
            ie_group_cipher = conf_wpa_group cf,
            ie_key_mgmt = conf_wpa_key_mgmt cf AND (WPA_KEY_MGMT_IEEE8021X OR WPA_KEY_MGMT_PSK),
            ie_capabilities = 0, ie_num_pmkid = 0, ie_pmkid = None\<rparr>) \<and> length x \<le> 36"
    if w: "wpa_write_wpa_ie cf = Inr x" for x
  proof -
    define pw where "pw = suite_list [(WPA_CIPHER_CCMP, WPA_CIPHER_SUITE_CCMP),
        (WPA_CIPHER_TKIP, WPA_CIPHER_SUITE_TKIP), (WPA_CIPHER_NONE, WPA_CIPHER_SUITE_NONE)]
        (conf_wpa_pairwise cf)"
    define km where "km = suite_list [(WPA_KEY_MGMT_IEEE8021X, WPA_AUTH_KEY_MGMT_UNSPEC_802_1X),
        (WPA_KEY_MGMT_PSK, WPA_AUTH_KEY_MGMT_PSK_OVER_802_1X)] (conf_wpa_key_mgmt cf)"
    have len: "length pw \<le> 3" "length km \<le> 2"
      unfolding pw_def km_def by (rule order_trans [OF length_suite_list], simp)+
    obtain gs where suite: "wpa_group_suite (conf_wpa_group cf) = Some gs"
      and ne: "pw \<noteq> []" "km \<noteq> []"
      and x: "x = WLAN_EID_VENDOR_SPECIFIC # of_nat (length (WPA_PUT_BE32 WPA_OUI_TYPE @
          WPA_PUT_LE16 1 @ WPA_PUT_BE32 gs @ suites_bytes pw @ suites_bytes km)) #
          WPA_PUT_BE32 WPA_OUI_TYPE @ WPA_PUT_LE16 1 @ WPA_PUT_BE32 gs @ suites_bytes pw @
          suites_bytes km"
      using w unfolding wpa_write_wpa_ie_def Let_def pw_def [symmetric] km_def [symmetric]
      by (auto split: if_splits option.splits)
    note gs = group_suite_value(2) [OF suite]
    show ?thesis
      unfolding x using len
      by (subst wpa_parse_body [OF _ ne])
         (simp_all add: len_simps gs pw_def km_def cipher_defs akm_defs foldl_three foldl_two
            selector_values [unfolded cipher_defs])
  qed
  have "length both \<le> 128" if "wpa_auth_gen_wpa_ie cf = Inr both"
    using that rsn [of 128] wpa
    by (fastforce simp: wpa_auth_gen_wpa_ie_def split: sum.splits if_splits)
  with rsn wpa show ?thesis by blast
qed

theorem wpa_ie_roundtrip_witness:
  "\<exists>ie. wpa_write_rsn_ie sample_conf 128 None = Inr ie \<and>
     ie_pairwise_cipher (snd (wpa_parse_wpa_ie_rsn ie)) = WPA_CIPHER_CCMP"
proof -
  have "\<exists>ie. wpa_write_rsn_ie sample_conf 128 None = Inr ie"
    by (simp add: wpa_write_rsn_ie_def sample_conf_def rsn_group_suite_def suite_list_def Let_def
        cipher_defs akm_defs BIT_def)
  then obtain ie where ie: "wpa_write_rsn_ie sample_conf 128 None = Inr ie" by blast
  then show ?thesis
    using wpa_ie_roundtrip [of sample_conf 128 ie] by (simp add: sample_conf_def cipher_defs BIT_def)
qed

subsection \<open>Key data\<close>

lemma put_nth:
  "n < 4 \<Longrightarrow> (WPA_PUT_BE32 v @ r) ! n = WPA_PUT_BE32 v ! n"
  by (simp add: nth_append len_simps)

lemma kde_not_wpa:
  "WPA_GET_BE32 (WPA_PUT_BE32 v @ r) = WPA_OUI_TYPE \<longleftrightarrow> v = WPA_OUI_TYPE"
  by (simp add: codec_simps)

lemma kde_selectors_differ:
  "RSN_KEY_DATA_GROUPKEY \<noteq> WPA_OUI_TYPE" "RSN_KEY_DATA_GROUPKEY \<noteq> RSN_KEY_DATA_PMKID"
  "RSN_KEY_DATA_MAC_ADDR \<noteq> WPA_OUI_TYPE" "RSN_KEY_DATA_MAC_ADDR \<noteq> RSN_KEY_DATA_PMKID"
  "RSN_KEY_DATA_MAC_ADDR \<noteq> RSN_KEY_DATA_GROUPKEY" "RSN_KEY_DATA_PMKID \<noteq> WPA_OUI_TYPE"
  by (simp_all add: selector_defs)

lemma drop_kde: "drop (6 + length d) (a # b # WPA_PUT_BE32 v @ d @ r) = r"
proof -
  have "6 + length d = Suc (Suc (4 + length d))" by simp
  then show ?thesis by (simp only: drop_Suc_Cons) (simp add: len_simps)
qed

text \<open>An element of the data that the access point builds moves the parser past it.\<close>

lemma parse_kde_add:
  assumes "2 < length d" "length d < 252"
  shows "parse_kde_loop (wpa_add_kde RSN_KEY_DATA_GROUPKEY d None @ r) ie =
      parse_kde_loop r (ie\<lparr>kde_gtk := Some d\<rparr>)"
    and "parse_kde_loop (wpa_add_kde RSN_KEY_DATA_MAC_ADDR d None @ r) ie =
      parse_kde_loop r (ie\<lparr>kde_mac_addr := Some d\<rparr>)"
    and "length d = 16 \<Longrightarrow> parse_kde_loop (wpa_add_kde RSN_KEY_DATA_PMKID d None @ r) ie =
      parse_kde_loop r (ie\<lparr>kde_pmkid := Some d\<rparr>)"
proof -
  have n: "unat (4 + of_nat (length d) :: u8) = 4 + length d"
    using assms(2) unat_of_nat [where 'a = 8, of "4 + length d"] by simp
  have nz: "(4 + of_nat (length d) :: u8) \<noteq> 0"
    using n by (metis add_is_0 unat_0 zero_neq_numeral)
  show "parse_kde_loop (wpa_add_kde RSN_KEY_DATA_GROUPKEY d None @ r) ie =
      parse_kde_loop r (ie\<lparr>kde_gtk := Some d\<rparr>)"
    using assms by (subst parse_kde_loop.simps)
      (simp add: wpa_add_kde_def Let_def n nz len_simps wpa_parse_generic_def kde_not_wpa codec_simps drop_kde
        kde_selectors_differ WLAN_EID_RSN_def WLAN_EID_VENDOR_SPECIFIC_def)
  show "parse_kde_loop (wpa_add_kde RSN_KEY_DATA_MAC_ADDR d None @ r) ie =
      parse_kde_loop r (ie\<lparr>kde_mac_addr := Some d\<rparr>)"
    using assms by (subst parse_kde_loop.simps)
      (simp add: wpa_add_kde_def Let_def n nz len_simps wpa_parse_generic_def kde_not_wpa codec_simps drop_kde
        kde_selectors_differ WLAN_EID_RSN_def WLAN_EID_VENDOR_SPECIFIC_def)
  show "parse_kde_loop (wpa_add_kde RSN_KEY_DATA_PMKID d None @ r) ie =
      parse_kde_loop r (ie\<lparr>kde_pmkid := Some d\<rparr>)" if "length d = 16"
    using that n nz drop_kde [of d] by (subst parse_kde_loop.simps)
      (simp add: wpa_add_kde_def Let_def len_simps wpa_parse_generic_def kde_not_wpa codec_simps drop_kde
        kde_selectors_differ WLAN_EID_RSN_def WLAN_EID_VENDOR_SPECIFIC_def)
qed

lemma parse_kde_rsn:
  assumes "length body < 256"
  shows "parse_kde_loop (WLAN_EID_RSN # of_nat (length body) # body @ r) ie =
    parse_kde_loop r (ie\<lparr>kde_rsn_ie := Some (WLAN_EID_RSN # of_nat (length body) # body)\<rparr>)"
proof -
  have n: "unat (of_nat (length body) :: u8) = length body"
    using assms unat_of_nat [where 'a = 8, of "length body"] by simp
  show ?thesis
    by (subst parse_kde_loop.simps) (simp add: n WLAN_EID_RSN_def)
qed

text \<open>Padding ends the parse: nothing, one 0xdd, or 0xdd and zeros.\<close>

lemma parse_kde_padding:
  "parse_kde_loop [] ie = (0, ie)" "parse_kde_loop (0xdd # replicate n 0) ie = (0, ie)"
  by (subst parse_kde_loop.simps, simp)
     (subst parse_kde_loop.simps, cases n, simp_all)

text \<open>
  The key data of message 3/4. A station that parses what the access point sends, its RSN
  element, the group key element made by \<open>wpa_add_kde\<close> and the padding added before wrapping,
  gets back exactly the RSN element, the key id octets and the group key, and nothing else.
\<close>

lemma kde_roundtrip:
  assumes "length body < 256" "0 < length gtk" "length gtk \<le> 32"
    and "pad = [] \<or> (\<exists>n. pad = 0xdd # replicate n 0)"
  shows "wpa_parse_kde_ies ((WLAN_EID_RSN # of_nat (length body) # body) @
       wpa_add_kde RSN_KEY_DATA_GROUPKEY [keyid, 0] (Some gtk) @ pad) =
    (0, no_kde\<lparr>kde_rsn_ie := Some (WLAN_EID_RSN # of_nat (length body) # body),
               kde_gtk := Some ([keyid, 0] @ gtk)\<rparr>)"
proof -
  have "wpa_add_kde RSN_KEY_DATA_GROUPKEY [keyid, 0] (Some gtk) =
      wpa_add_kde RSN_KEY_DATA_GROUPKEY ([keyid, 0] @ gtk) None"
    by (simp add: wpa_add_kde_def)
  moreover have "parse_kde_loop (wpa_add_kde RSN_KEY_DATA_GROUPKEY ([keyid, 0] @ gtk) None @ pad) ie =
      parse_kde_loop pad (ie\<lparr>kde_gtk := Some ([keyid, 0] @ gtk)\<rparr>)" for ie
    using assms(2,3) by (intro parse_kde_add(1)) simp_all
  moreover have "parse_kde_loop pad ie = (0, ie)" for ie
    using assms(4) parse_kde_padding by auto
  ultimately show ?thesis
    using parse_kde_rsn [OF assms(1)] by (simp add: wpa_parse_kde_ies_def)
qed

theorem kde_roundtrip_witness:
  "kde_gtk (snd (wpa_parse_kde_ies ([WLAN_EID_RSN, 2, 1, 0] @
     wpa_add_kde RSN_KEY_DATA_GROUPKEY [1, 0] (Some (replicate 16 7)) @ [0xdd, 0, 0]))) =
   Some ([1, 0] @ replicate 16 7)"
proof -
  have pad: "\<exists>n. [0xdd, 0, 0 :: u8] = 0xdd # replicate n 0"
    by (rule exI [of _ 2]) (simp add: numeral_2_eq_2)
  show ?thesis
    using kde_roundtrip [OF _ _ _ disjI2 [OF pad], of "[1, 0]" "replicate 16 7" 1] by simp
qed

text \<open>
  An element as it is written: its id, its length and its octets. \<open>elem_of buf i body\<close>: an element
  with this id and exactly these octets stands whole in the buffer, after other whole elements.
\<close>

definition key_data_elem :: "u8 \<Rightarrow> bytes \<Rightarrow> bytes" where
  "key_data_elem i body = i # of_nat (length body) # body"

definition elem_of :: "bytes \<Rightarrow> u8 \<Rightarrow> bytes \<Rightarrow> bool" where
  "elem_of buf i body \<longleftrightarrow> length body < 256 \<and>
     (\<exists>es rest. (\<forall>e \<in> set es. length (snd e) < 256) \<and>
        buf = concat (map (\<lambda>(i, b). key_data_elem i b) es) @ key_data_elem i body @ rest)"

text \<open>What the parser sets, and the elements of the buffer that it points into.\<close>

definition kde_inside :: "bytes \<Rightarrow> wpa_eapol_ie_parse \<Rightarrow> bool" where
  "kde_inside buf ie \<longleftrightarrow>
     (\<forall>b. kde_rsn_ie ie = Some b \<longrightarrow>
        (\<exists>body. elem_of buf WLAN_EID_RSN body \<and> b = key_data_elem WLAN_EID_RSN body)) \<and>
     (\<forall>b. kde_wpa_ie ie = Some b \<longrightarrow>
        (\<exists>body. elem_of buf WLAN_EID_VENDOR_SPECIFIC body \<and> b = key_data_elem WLAN_EID_VENDOR_SPECIFIC body \<and>
           WPA_GET_BE32 body = WPA_OUI_TYPE \<and> 6 \<le> length body)) \<and>
     (\<forall>b. kde_pmkid ie = Some b \<longrightarrow>
        (\<exists>body. elem_of buf WLAN_EID_VENDOR_SPECIFIC body \<and> WPA_GET_BE32 body = RSN_KEY_DATA_PMKID \<and>
           b = take 16 (drop 4 body) \<and> length b = 16)) \<and>
     (\<forall>b. kde_gtk ie = Some b \<longrightarrow>
        (\<exists>body. elem_of buf WLAN_EID_VENDOR_SPECIFIC body \<and> WPA_GET_BE32 body = RSN_KEY_DATA_GROUPKEY \<and>
           b = drop 4 body \<and> 2 < length b)) \<and>
     (\<forall>b. kde_mac_addr ie = Some b \<longrightarrow>
        (\<exists>body. elem_of buf WLAN_EID_VENDOR_SPECIFIC body \<and> WPA_GET_BE32 body = RSN_KEY_DATA_MAC_ADDR \<and>
           b = drop 4 body \<and> 2 < length b))"

text \<open>\<open>whole_before buf pos\<close>: the loop stands at \<open>pos\<close>, behind whole elements.\<close>

definition whole_before :: "bytes \<Rightarrow> bytes \<Rightarrow> bool" where
  "whole_before buf pos \<longleftrightarrow> (\<exists>es. (\<forall>e \<in> set es. length (snd e) < 256) \<and>
     buf = concat (map (\<lambda>(i, b). key_data_elem i b) es) @ pos)"

lemma next_elem:
  assumes "whole_before buf pos" and "2 + unat (pos ! 1) \<le> length pos"
  shows "elem_of buf (pos ! 0) (take (unat (pos ! 1)) (drop 2 pos))"
    and "key_data_elem (pos ! 0) (take (unat (pos ! 1)) (drop 2 pos)) = take (unat (pos ! 1) + 2) pos"
    and "whole_before buf (drop (2 + unat (pos ! 1)) pos)"
proof -
  let ?n = "unat (pos ! 1)" and ?body = "take (unat (pos ! 1)) (drop 2 pos)"
  obtain i l rest where pos: "pos = i # l # rest"
    using assms(2) by (cases pos; cases "tl pos") auto
  have n: "?n < 256" using unsigned_less [of "pos ! 1"] by simp
  have l: "length ?body = ?n" using assms(2) by simp
  have elem: "key_data_elem (pos ! 0) ?body = take (?n + 2) pos"
    using assms(2) by (simp add: key_data_elem_def pos)
  obtain es where es: "\<forall>e \<in> set es. length (snd e) < 256"
      "buf = concat (map (\<lambda>(i, b). key_data_elem i b) es) @ pos"
    using assms(1) by (auto simp: whole_before_def)
  have split: "pos = key_data_elem (pos ! 0) ?body @ drop (2 + ?n) pos"
    unfolding elem add.commute [of 2] by simp
  show "elem_of buf (pos ! 0) ?body"
    unfolding elem_of_def using es n l split by (intro conjI exI [of _ es] exI [of _ "drop (2 + ?n) pos"]) simp_all
  show "key_data_elem (pos ! 0) ?body = take (?n + 2) pos" by (rule elem)
  show "whole_before buf (drop (2 + ?n) pos)"
    unfolding whole_before_def using es n l split
    by (intro exI [of _ "es @ [(pos ! 0, ?body)]"]) auto
qed

lemma selector_of_body:
  assumes "4 \<le> n" and "2 + n \<le> length pos"
  shows "WPA_GET_BE32 (take n (drop 2 pos)) = WPA_GET_BE32 (drop 2 pos)"
  using assms by (simp add: WPA_GET_BE32_def)

text \<open>What one vendor specific element sets.\<close>

lemma generic_forms:
  "snd (wpa_parse_generic pos ie) = ie \<or>
   6 \<le> unat (pos ! 1) \<and> WPA_GET_BE32 (drop 2 pos) = WPA_OUI_TYPE \<and>
     snd (wpa_parse_generic pos ie) = ie\<lparr>kde_wpa_ie := Some (take (unat (pos ! 1) + 2) pos)\<rparr> \<or>
   20 \<le> unat (pos ! 1) \<and> WPA_GET_BE32 (drop 2 pos) = RSN_KEY_DATA_PMKID \<and>
     snd (wpa_parse_generic pos ie) = ie\<lparr>kde_pmkid := Some (take 16 (drop 6 pos))\<rparr> \<or>
   6 < unat (pos ! 1) \<and> WPA_GET_BE32 (drop 2 pos) = RSN_KEY_DATA_GROUPKEY \<and>
     snd (wpa_parse_generic pos ie) = ie\<lparr>kde_gtk := Some (take (unat (pos ! 1) - 4) (drop 6 pos))\<rparr> \<or>
   6 < unat (pos ! 1) \<and> WPA_GET_BE32 (drop 2 pos) = RSN_KEY_DATA_MAC_ADDR \<and>
     snd (wpa_parse_generic pos ie) = ie\<lparr>kde_mac_addr := Some (take (unat (pos ! 1) - 4) (drop 6 pos))\<rparr>"
  by (simp add: wpa_parse_generic_def Let_def)

lemma inside_update:
  assumes "kde_inside buf ie"
  shows "elem_of buf WLAN_EID_RSN body \<Longrightarrow>
      kde_inside buf (ie\<lparr>kde_rsn_ie := Some (key_data_elem WLAN_EID_RSN body)\<rparr>)"
    and "elem_of buf WLAN_EID_VENDOR_SPECIFIC body \<Longrightarrow> WPA_GET_BE32 body = WPA_OUI_TYPE \<Longrightarrow> 6 \<le> length body \<Longrightarrow>
      kde_inside buf (ie\<lparr>kde_wpa_ie := Some (key_data_elem WLAN_EID_VENDOR_SPECIFIC body)\<rparr>)"
    and "elem_of buf WLAN_EID_VENDOR_SPECIFIC body \<Longrightarrow> WPA_GET_BE32 body = RSN_KEY_DATA_PMKID \<Longrightarrow> 20 \<le> length body \<Longrightarrow>
      kde_inside buf (ie\<lparr>kde_pmkid := Some (take 16 (drop 4 body))\<rparr>)"
    and "elem_of buf WLAN_EID_VENDOR_SPECIFIC body \<Longrightarrow> WPA_GET_BE32 body = RSN_KEY_DATA_GROUPKEY \<Longrightarrow> 6 < length body \<Longrightarrow>
      kde_inside buf (ie\<lparr>kde_gtk := Some (drop 4 body)\<rparr>)"
    and "elem_of buf WLAN_EID_VENDOR_SPECIFIC body \<Longrightarrow> WPA_GET_BE32 body = RSN_KEY_DATA_MAC_ADDR \<Longrightarrow> 6 < length body \<Longrightarrow>
      kde_inside buf (ie\<lparr>kde_mac_addr := Some (drop 4 body)\<rparr>)"
  using assms by (simp_all add: kde_inside_def) (rule exI [of _ body], simp)+

lemma generic_inside:
  assumes "kde_inside buf ie" and "whole_before buf pos" and "2 + unat (pos ! 1) \<le> length pos"
    and "pos ! 0 = WLAN_EID_VENDOR_SPECIFIC"
  shows "kde_inside buf (snd (wpa_parse_generic pos ie))"
proof -
  let ?n = "unat (pos ! 1)" and ?body = "take (unat (pos ! 1)) (drop 2 pos)"
  note elem = next_elem(1,2) [OF assms(2,3), unfolded assms(4)]
  note update = inside_update [OF assms(1), of ?body]
  have sel: "WPA_GET_BE32 ?body = WPA_GET_BE32 (drop 2 pos)" if "4 \<le> ?n"
    using selector_of_body [OF that assms(3)] .
  have body: "take (?n - 4) (drop 6 pos) = drop 4 ?body" by (simp add: drop_take add.commute)
  have pmkid: "take 16 (drop 6 pos) = take 16 (drop 4 ?body)" if "20 \<le> ?n"
    using that unfolding body [symmetric] by (simp add: min_def)
  have len: "length ?body = ?n" using assms(3) by simp
  from generic_forms [of pos ie] show ?thesis
  proof (elim disjE conjE)
    assume g: "snd (wpa_parse_generic pos ie) = ie"
    show ?thesis unfolding g by (rule assms(1))
  next
    assume s: "6 \<le> ?n" "WPA_GET_BE32 (drop 2 pos) = WPA_OUI_TYPE"
      and g: "snd (wpa_parse_generic pos ie) = ie\<lparr>kde_wpa_ie := Some (take (?n + 2) pos)\<rparr>"
    have four: "4 \<le> ?n" using s(1) by simp
    show ?thesis unfolding g elem(2) [symmetric]
      by (rule update(2) [OF elem(1)]) (simp_all only: sel [OF four] s len)
  next
    assume s: "20 \<le> ?n" "WPA_GET_BE32 (drop 2 pos) = RSN_KEY_DATA_PMKID"
      and g: "snd (wpa_parse_generic pos ie) = ie\<lparr>kde_pmkid := Some (take 16 (drop 6 pos))\<rparr>"
    have four: "4 \<le> ?n" using s(1) by simp
    show ?thesis unfolding g pmkid [OF s(1)]
      by (rule update(3) [OF elem(1)]) (simp_all only: sel [OF four] s len)
  next
    assume s: "6 < ?n" "WPA_GET_BE32 (drop 2 pos) = RSN_KEY_DATA_GROUPKEY"
      and g: "snd (wpa_parse_generic pos ie) = ie\<lparr>kde_gtk := Some (take (?n - 4) (drop 6 pos))\<rparr>"
    have four: "4 \<le> ?n" using s(1) by simp
    show ?thesis unfolding g body
      by (rule update(4) [OF elem(1)]) (simp_all only: sel [OF four] s len)
  next
    assume s: "6 < ?n" "WPA_GET_BE32 (drop 2 pos) = RSN_KEY_DATA_MAC_ADDR"
      and g: "snd (wpa_parse_generic pos ie) = ie\<lparr>kde_mac_addr := Some (take (?n - 4) (drop 6 pos))\<rparr>"
    have four: "4 \<le> ?n" using s(1) by simp
    show ?thesis unfolding g body
      by (rule update(5) [OF elem(1)]) (simp_all only: sel [OF four] s len)
  qed
qed

lemma parse_kde_loop_inside:
  "kde_inside buf ie \<Longrightarrow> whole_before buf pos \<Longrightarrow> kde_inside buf (snd (parse_kde_loop pos ie))"
proof (induction pos ie rule: parse_kde_loop.induct)
  case (1 pos ie)
  let ?n = "unat (pos ! 1)"
  consider "length pos < 2 \<or> pos ! 0 = 0xdd \<and> pos ! 1 = 0 \<or> 2 + ?n > length pos"
    | "2 \<le> length pos" "\<not> (pos ! 0 = 0xdd \<and> pos ! 1 = 0)" "2 + ?n \<le> length pos" by linarith
  then show ?case
  proof cases
    case 1
    then show ?thesis using "1.prems" by (subst parse_kde_loop.simps) (auto simp: Let_def)
  next
    case 2
    note rest = next_elem(3) [OF 1(5) 2(3)]
    have gen: "kde_inside buf (snd (wpa_parse_generic pos ie))" if "pos ! 0 = WLAN_EID_VENDOR_SPECIFIC"
      by (rule generic_inside [OF 1(4,5) 2(3) that])
    have rsn: "kde_inside buf (ie\<lparr>kde_rsn_ie := Some (take (?n + 2) pos)\<rparr>)" if "pos ! 0 = WLAN_EID_RSN"
      using 1(4) next_elem(1,2) [OF 1(5) 2(3)] unfolding that kde_inside_def by auto
    obtain ret ie' where g: "wpa_parse_generic pos ie = (ret, ie')" by (metis surj_pair)
    show ?thesis
      using 2 gen rsn rest 1(1) [OF _ _ refl _ _ _ rest] 1(3) [OF _ _ refl _ _ _ 1(4) rest]
        1(2) [OF _ _ refl _ _ _ g [symmetric] refl _ _ rest] g 1(4)
      by (subst parse_kde_loop.simps) (auto simp: Let_def not_less)
  qed
qed

text \<open>
  C35: Safety of the key data parser on any input. \<open>wpa_parse_kde_ies\<close> ends with 0 or -1, and what it
  sets is in elements that stand whole in the buffer, behind other whole elements: an RSN or WPA
  element from its id to its last octet, a PMKID the 16 octets after the selector of its element, a group key or an
  address all octets after the selector up to the end of its element and no other, more than two.
\<close>

theorem kde_parse_inside:
  "kde_inside buf (snd (wpa_parse_kde_ies buf)) \<and> fst (wpa_parse_kde_ies buf) \<in> {0, -1}"
proof -
  have "kde_inside buf no_kde" by (simp add: kde_inside_def no_kde_def)
  moreover have "whole_before buf buf" unfolding whole_before_def by (rule exI [of _ "[]"]) simp
  ultimately have "kde_inside buf (snd (parse_kde_loop buf no_kde))" by (rule parse_kde_loop_inside)
  moreover have "fst (parse_kde_loop pos ie) \<in> {0, -1}" for pos ie
  proof (induction pos ie rule: parse_kde_loop.induct)
    case (1 pos ie)
    then show ?case by (subst parse_kde_loop.simps) (auto simp: Let_def split: prod.splits)
  qed
  ultimately show ?thesis by (simp add: wpa_parse_kde_ies_def)
qed

subsection \<open>Soundness of the negotiation\<close>

lemma left_of_two:
  "i < 32 \<Longrightarrow> j < 32 \<Longrightarrow> w \<noteq> 0 \<Longrightarrow> w AND NOT (BIT i OR BIT j) = 0 \<Longrightarrow> w AND BIT i = 0 \<Longrightarrow> w AND BIT j \<noteq> 0"
proof
  assume "w AND NOT (BIT i OR BIT j) = 0" "w AND BIT i = 0" "w AND BIT j = 0" and nz: "w \<noteq> 0"
  moreover have "w = (w AND NOT (BIT i OR BIT j)) OR (w AND BIT i) OR (w AND BIT j)"
    by (rule bit_word_eqI) (auto simp: bit_simps)
  ultimately show False by simp
qed

lemma and_sub: "b AND x = 0 \<Longrightarrow> (a AND b) AND x = (0 :: u32)"
  by (simp add: and.assoc)

lemma and_both: "(a AND b) AND x \<noteq> 0 \<Longrightarrow> a AND x \<noteq> 0 \<and> b AND x \<noteq> (0 :: u32)"
  by (metis and.assoc and.commute and_zero_eq)

lemma sent_pmkids_length:
  "wpa_parse_wpa_ie_rsn ie = (0, d) \<Longrightarrow> p \<in> set (sent_pmkids d) \<Longrightarrow> length p = 16"
  "wpa_parse_wpa_ie_wpa ie = (0, d) \<Longrightarrow> p \<in> set (sent_pmkids d) \<Longrightarrow> length p = 16"
proof -
  have "16 \<le> length (drop (i * 16) b)" if "i < n" "n * 16 \<le> length b" for i n and b :: bytes
    using that by simp
  then show "wpa_parse_wpa_ie_rsn ie = (0, d) \<Longrightarrow> p \<in> set (sent_pmkids d) \<Longrightarrow> length p = 16"
    by (auto simp: wpa_parse_wpa_ie_rsn_def Let_def sent_pmkids_def min_def
        split: prod.splits if_splits)
  show "wpa_parse_wpa_ie_wpa ie = (0, d) \<Longrightarrow> p \<in> set (sent_pmkids d) \<Longrightarrow> length p = 16"
    by (auto simp: wpa_parse_wpa_ie_wpa_def Let_def sent_pmkids_def split: prod.splits if_splits)
qed

definition parse_station_ie :: "bytes \<Rightarrow> int \<times> wpa_ie_data" where
  "parse_station_ie ie =
     (if ie ! 0 = WLAN_EID_RSN then wpa_parse_wpa_ie_rsn ie else wpa_parse_wpa_ie_wpa ie)"

definition conf_ciphers_for :: "bytes \<Rightarrow> wpa_auth_config \<Rightarrow> u32" where
  "conf_ciphers_for ie cf =
     (if ie ! 0 = WLAN_EID_RSN then conf_rsn_pairwise cf else conf_wpa_pairwise cf)"

text \<open>What an answer \<open>WPA_IE_OK\<close> means, read off the code.\<close>

lemma validate_ok_facts:
  assumes run: "wpa_validate_wpa_ie alloc malloc_ok caches auth (Some sm) (Some ie) =
      Some (WPA_IE_OK, Some sm', auth')"
    and parse: "parse_station_ie ie = (r, d)"
  obtains e pmkid c where
    "choose_pmksa alloc caches (note_selected
        (if ie ! 0 = WLAN_EID_RSN then WPA_PROTO_RSN else WPA_PROTO_WPA) d auth) (addr sm) d =
        Some (e, pmkid, c)"
    "r = 0" "ie_group_cipher d = conf_wpa_group (conf auth)"
    "ie_key_mgmt d AND conf_wpa_key_mgmt (conf auth) \<noteq> 0"
    "ie_pairwise_cipher d AND conf_ciphers_for ie (conf auth) \<noteq> 0"
    "conf_wpa (conf auth) AND (if ie ! 0 = WLAN_EID_RSN then WPA_PROTO_RSN else WPA_PROTO_WPA) \<noteq> 0"
    "sm_wpa_key_mgmt sm' =
       (if (ie_key_mgmt d AND conf_wpa_key_mgmt (conf auth)) AND WPA_KEY_MGMT_IEEE8021X \<noteq> 0
        then WPA_KEY_MGMT_IEEE8021X else WPA_KEY_MGMT_PSK)"
    "pairwise sm' =
       (if (ie_pairwise_cipher d AND conf_ciphers_for ie (conf auth)) AND WPA_CIPHER_CCMP \<noteq> 0
        then WPA_CIPHER_CCMP else WPA_CIPHER_TKIP)"
    "sm_wpa sm' = (if ie ! 0 = WLAN_EID_RSN then WPA_VERSION_WPA2 else WPA_VERSION_WPA)"
    "sm_pmksa sm' = e" "sm_wpa_ie sm' = Some ie" "addr sm' = addr sm"
proof -
  have noted: "conf (note_selected v x auth) = conf auth" for v x by (simp add: note_selected_def)
  have "WPA_PROTO_WPA \<noteq> WPA_PROTO_RSN" by (simp add: proto_defs BIT_def)
  then show ?thesis
    using run parse that unfolding wpa_validate_wpa_ie_def parse_station_ie_def conf_ciphers_for_def
    by (cases "ie ! 0 = WLAN_EID_RSN")
       (auto simp: Let_def noted split: if_splits option.splits prod.splits)
qed

text \<open>
  C29: The negotiation selects only what both sides allow. When \<open>wpa_validate_wpa_ie\<close> answers
  \<open>WPA_IE_OK\<close>, the element parses, its protocol is enabled, its group cipher is the configured one,
  the station's new key management suite and pairwise cipher are both offered in the element and
  configured, and the station keeps a copy of the element for
  message 2/4. A PMKSA it is given (without opportunistic caching) is a cached entry of this very
  station whose identifier the station sent. The configuration is assumed to list only suites of
  the two kinds that can be selected.
\<close>

theorem wpa_negotiation_sound:
  assumes run: "wpa_validate_wpa_ie alloc malloc_ok caches auth (Some sm) (Some ie) =
      Some (WPA_IE_OK, Some sm', auth')"
    and akms: "conf_wpa_key_mgmt (conf auth) AND NOT (WPA_KEY_MGMT_IEEE8021X OR WPA_KEY_MGMT_PSK) = 0"
    and ciphers: "conf_ciphers_for ie (conf auth) AND NOT (WPA_CIPHER_CCMP OR WPA_CIPHER_TKIP) = 0"
    and cache: "pmksa_wf (auth_pmksa auth)" "length (addr sm) = 6" "\<not> conf_okc (conf auth)"
    and d: "d = snd (parse_station_ie ie)"
  shows "fst (parse_station_ie ie) = 0 \<and> ie_group_cipher d = conf_wpa_group (conf auth) \<and>
    conf_wpa (conf auth) AND (if ie ! 0 = WLAN_EID_RSN then WPA_PROTO_RSN else WPA_PROTO_WPA) \<noteq> 0 \<and>
    sm_wpa sm' = (if ie ! 0 = WLAN_EID_RSN then WPA_VERSION_WPA2 else WPA_VERSION_WPA) \<and>
    sm_wpa_key_mgmt sm' \<in> {WPA_KEY_MGMT_IEEE8021X, WPA_KEY_MGMT_PSK} \<and>
    ie_key_mgmt d AND sm_wpa_key_mgmt sm' \<noteq> 0 \<and>
    conf_wpa_key_mgmt (conf auth) AND sm_wpa_key_mgmt sm' \<noteq> 0 \<and>
    pairwise sm' \<in> {WPA_CIPHER_CCMP, WPA_CIPHER_TKIP} \<and>
    ie_pairwise_cipher d AND pairwise sm' \<noteq> 0 \<and>
    conf_ciphers_for ie (conf auth) AND pairwise sm' \<noteq> 0 \<and>
    sm_wpa_ie sm' = Some ie \<and> addr sm' = addr sm \<and>
    (\<forall>e. sm_pmksa sm' = Some e \<longrightarrow> e \<in> set (pmksa_list (auth_pmksa auth)) \<and>
       entry_spa e = addr sm \<and> entry_pmkid e \<in> set (sent_pmkids d))"
proof -
  obtain r where parse: "parse_station_ie ie = (r, d)" using d by (metis prod.collapse)
  let ?km = "ie_key_mgmt d AND conf_wpa_key_mgmt (conf auth)"
  let ?cs = "ie_pairwise_cipher d AND conf_ciphers_for ie (conf auth)"
  have conf_noted: "conf (note_selected v x auth) = conf auth"
      "auth_pmksa (note_selected v x auth) = auth_pmksa auth" for v x
    by (simp_all add: note_selected_def)
  obtain e pmkid c where pick: "choose_pmksa alloc caches (note_selected
        (if ie ! 0 = WLAN_EID_RSN then WPA_PROTO_RSN else WPA_PROTO_WPA) d auth) (addr sm) d =
        Some (e, pmkid, c)"
    and ok: "r = 0" "ie_group_cipher d = conf_wpa_group (conf auth)" "?km \<noteq> 0" "?cs \<noteq> 0"
      "conf_wpa (conf auth) AND (if ie ! 0 = WLAN_EID_RSN then WPA_PROTO_RSN else WPA_PROTO_WPA) \<noteq> 0"
    and sm': "sm_wpa_key_mgmt sm' = (if ?km AND WPA_KEY_MGMT_IEEE8021X \<noteq> 0
          then WPA_KEY_MGMT_IEEE8021X else WPA_KEY_MGMT_PSK)"
      "pairwise sm' = (if ?cs AND WPA_CIPHER_CCMP \<noteq> 0 then WPA_CIPHER_CCMP else WPA_CIPHER_TKIP)"
      "sm_wpa sm' = (if ie ! 0 = WLAN_EID_RSN then WPA_VERSION_WPA2 else WPA_VERSION_WPA)"
      "sm_pmksa sm' = e" "sm_wpa_ie sm' = Some ie" "addr sm' = addr sm"
    by (rule validate_ok_facts [OF run parse])
  have km: "ie_key_mgmt d AND sm_wpa_key_mgmt sm' \<noteq> 0 \<and>
      conf_wpa_key_mgmt (conf auth) AND sm_wpa_key_mgmt sm' \<noteq> 0"
    using and_both [of "ie_key_mgmt d"] left_of_two [of 0 1 ?km] ok(3)
      and_sub [OF akms, of "ie_key_mgmt d"] by (auto simp: sm'(1) akm_defs)
  have cs: "ie_pairwise_cipher d AND pairwise sm' \<noteq> 0 \<and>
      conf_ciphers_for ie (conf auth) AND pairwise sm' \<noteq> 0"
    using and_both [of "ie_pairwise_cipher d"] left_of_two [of 4 3 ?cs] ok(4)
      and_sub [OF ciphers, of "ie_pairwise_cipher d"] by (auto simp: sm'(2) cipher_defs)
  have len: "\<forall>p \<in> set (sent_pmkids d). length p = 16"
    using parse ok(1) sent_pmkids_length by (auto simp: parse_station_ie_def split: if_splits)
  have "x \<in> set (pmksa_list (auth_pmksa auth)) \<and> entry_spa x = addr sm \<and>
      entry_pmkid x \<in> set (sent_pmkids d)" if "e = Some x" for x
    using pick that cache(3) pmksa.first_hit_sound [OF cache(1,2) len]
    by (fastforce simp: choose_pmksa_def conf_noted split: option.splits if_splits)
  with km cs ok sm' parse show ?thesis by simp
qed

definition sample_auth :: wpa_authenticator where
  "sample_auth =
     \<lparr>auth_TKIPRemoteMICFailures = 0, dot11RSNAAuthenticationSuiteSelected = 0,
      dot11RSNAPairwiseCipherSelected = 0, dot11RSNAGroupCipherSelected = 0,
      dot11RSNAPMKIDUsed = replicate 16 0, dot11RSNA4WayHandshakeFailures = 0, conf = sample_conf,
      auth_wpa_ie = [], auth_addr = replicate 6 1, auth_pmksa = pmksa_cache_auth_init\<rparr>"

definition sample_station_ie :: bytes where
  "sample_station_ie =
     [48, 20, 1, 0, 0, 0x0f, 0xac, 4, 1, 0, 0, 0x0f, 0xac, 4, 1, 0, 0, 0x0f, 0xac, 2, 0, 0]"

lemma sample_validates:
  "\<exists>sm' auth'. wpa_validate_wpa_ie None True [] sample_auth
     (Some (wpa_auth_sta_init (replicate 6 2))) (Some sample_station_ie) =
   Some (WPA_IE_OK, Some sm', auth')"
  by (simp add: wpa_validate_wpa_ie_def sample_station_ie_def sample_auth_def sample_conf_def
      proto_defs cipher_defs akm_defs BIT_def WLAN_EID_RSN_def wpa_parse_wpa_ie_rsn_def
      parse_group_def parse_suites_def parse_capabilities_def be_le_defs rsn_selector_to_bitfield_def
      rsn_key_mgmt_to_bitfield_def selector_defs note_selected_def choose_pmksa_def sent_pmkids_def
      wpa_auth_sta_init_def Let_def)

theorem wpa_negotiation_sound_witness:
  "\<exists>sm' auth'. wpa_validate_wpa_ie None True [] sample_auth
     (Some (wpa_auth_sta_init (replicate 6 2))) (Some sample_station_ie) =
     Some (WPA_IE_OK, Some sm', auth') \<and> sm_wpa sm' = WPA_VERSION_WPA2"
proof -
  obtain sm' auth' where run: "wpa_validate_wpa_ie None True [] sample_auth
     (Some (wpa_auth_sta_init (replicate 6 2))) (Some sample_station_ie) =
     Some (WPA_IE_OK, Some sm', auth')" using sample_validates by blast
  have "pmksa_wf (auth_pmksa sample_auth)" by (simp add: sample_auth_def init_wf)
  then show ?thesis
    using wpa_negotiation_sound [OF run _ _ _ _ _ refl] run
    by (simp add: sample_auth_def sample_conf_def conf_ciphers_for_def sample_station_ie_def
        WLAN_EID_RSN_def cipher_defs akm_defs BIT_def wpa_auth_sta_init_def)
qed

end
