(* ===== verification/WpaGroup.thy ===== *)
theory WpaGroup
  imports WpaIe
begin

text \<open>
  The group key of the WPA authenticator and its calls out (\<^verbatim>\<open>ap/wpa_auth.c\<close>,
  \<^verbatim>\<open>ap/wpa_auth_glue.c\<close>, \<open>hostapd_get_psk\<close> of \<^verbatim>\<open>ap/ap_config.c\<close>). Every call into
  the rest of the program that changes something is an output, appended in the order of the calls;
  a call that returns something is answered by the environment, which may look at the outputs so
  far. No callback calls back into the state machine: a disconnection is carried out later by the
  event loop. Memory allocations succeed.
\<close>

unbundle bit_operations_syntax

subsection \<open>Outputs and environment\<close>

datatype wpa_eapol_variable = WPA_EAPOL_portEnabled | WPA_EAPOL_portValid | WPA_EAPOL_authorized
  | WPA_EAPOL_portControl_Auto | WPA_EAPOL_keyRun | WPA_EAPOL_keyAvailable | WPA_EAPOL_keyDone
  | WPA_EAPOL_inc_EapolFramesTx

datatype wpa_alg = WPA_ALG_NONE | WPA_ALG_WEP | WPA_ALG_TKIP | WPA_ALG_CCMP | WPA_ALG_IGTK
  | WPA_ALG_PMK

text \<open>The timers of the event loop, by their handler and the station they are for.\<close>

datatype wpa_timer = Timer_send_eapol bytes | Timer_rekey_gmk | Timer_rekey_gtk
  | Timer_rekey_ptk bytes | Timer_call_step bytes

datatype wpa_out = SetEapol bytes wpa_eapol_variable int | StaDisconnect bytes
  | SetKey wpa_alg bytes nat bytes | SendEapol bytes bytes bool | MicFailureReport bytes
  | RegisterTimeout int int wpa_timer | CancelTimeout wpa_timer
  | RandomBytes nat | AddRandomness bytes | MarkPoolReady

record hostapd_wpa_psk =
  psk_group :: bool
  psk_psk :: bytes
  psk_addr :: bytes

text \<open>
  \<open>env_random\<close> is \<open>random_get_bytes\<close>: the octets of the buffer afterwards and whether it
  succeeded. \<open>env_get_seqnum\<close> and \<open>env_get_msk\<close> are \<open>None\<close> when the call fails.
  \<open>env_group_ptr\<close> are the octets of the address of the group, \<open>env_uninit\<close> those of a local
  buffer that was not written.
\<close>

record wpa_env =
  env_random :: "wpa_out list \<Rightarrow> nat \<Rightarrow> bytes \<times> bool"
  env_pool_ready :: "wpa_out list \<Rightarrow> int"
  env_time :: "wpa_out list \<Rightarrow> u32 \<times> u32"
  env_get_eapol :: "wpa_out list \<Rightarrow> bytes \<Rightarrow> wpa_eapol_variable \<Rightarrow> int"
  env_psk :: "hostapd_wpa_psk list"
  env_get_msk :: "wpa_out list \<Rightarrow> bytes \<Rightarrow> bytes option"
  env_set_key :: "wpa_out list \<Rightarrow> wpa_alg \<Rightarrow> bytes \<Rightarrow> int"
  env_get_seqnum :: "wpa_out list \<Rightarrow> nat \<Rightarrow> bytes option"
  env_group_ptr :: bytes
  env_uninit :: bytes

text \<open>What every function of the authenticator can reach.\<close>

record wpa_base =
  group :: wpa_group
  auth :: wpa_authenticator
  out :: "wpa_out list"

definition emit :: "wpa_out \<Rightarrow> 'a wpa_base_scheme \<Rightarrow> 'a wpa_base_scheme" where
  "emit ev w = w\<lparr>out := out w @ [ev]\<rparr>"

definition wpa_auth_set_eapol ::
  "bytes \<Rightarrow> wpa_eapol_variable \<Rightarrow> int \<Rightarrow> 'a wpa_base_scheme \<Rightarrow> 'a wpa_base_scheme" where
  "wpa_auth_set_eapol a var n w = emit (SetEapol a var n) w"

definition wpa_auth_get_eapol :: "wpa_env \<Rightarrow> bytes \<Rightarrow> wpa_eapol_variable \<Rightarrow> 'a wpa_base_scheme \<Rightarrow> int" where
  "wpa_auth_get_eapol env a var w = env_get_eapol env (out w) a var"

definition wpa_sta_disconnect :: "bytes \<Rightarrow> 'a wpa_base_scheme \<Rightarrow> 'a wpa_base_scheme" where
  "wpa_sta_disconnect a w = emit (StaDisconnect a) w"

definition wpa_auth_mic_failure_report :: "bytes \<Rightarrow> 'a wpa_base_scheme \<Rightarrow> 'a wpa_base_scheme" where
  "wpa_auth_mic_failure_report a w = emit (MicFailureReport a) w"

definition wpa_auth_set_key ::
  "wpa_env \<Rightarrow> wpa_alg \<Rightarrow> bytes \<Rightarrow> nat \<Rightarrow> bytes \<Rightarrow> 'a wpa_base_scheme \<Rightarrow> int \<times> 'a wpa_base_scheme" where
  "wpa_auth_set_key env alg a idx key w =
     (env_set_key env (out w) alg a, emit (SetKey alg a idx key) w)"

definition wpa_auth_get_seqnum :: "wpa_env \<Rightarrow> nat \<Rightarrow> 'a wpa_base_scheme \<Rightarrow> bytes \<Rightarrow> bytes" where
  "wpa_auth_get_seqnum env idx w seq =
     (case env_get_seqnum env (out w) idx of None \<Rightarrow> seq | Some s \<Rightarrow> s)"

definition wpa_auth_send_eapol ::
  "bytes \<Rightarrow> bytes \<Rightarrow> bool \<Rightarrow> 'a wpa_base_scheme \<Rightarrow> 'a wpa_base_scheme" where
  "wpa_auth_send_eapol a data encrypt w = emit (SendEapol a data encrypt) w"

definition eloop_register_timeout ::
  "int \<Rightarrow> int \<Rightarrow> wpa_timer \<Rightarrow> 'a wpa_base_scheme \<Rightarrow> 'a wpa_base_scheme" where
  "eloop_register_timeout secs usecs t w = emit (RegisterTimeout secs usecs t) w"

definition eloop_cancel_timeout :: "wpa_timer \<Rightarrow> 'a wpa_base_scheme \<Rightarrow> 'a wpa_base_scheme" where
  "eloop_cancel_timeout t w = emit (CancelTimeout t) w"

definition random_get_bytes ::
  "wpa_env \<Rightarrow> nat \<Rightarrow> 'a wpa_base_scheme \<Rightarrow> bytes \<times> bool \<times> 'a wpa_base_scheme" where
  "random_get_bytes env n w =
     (let (buf, ok) = env_random env (out w) n in (buf, ok, emit (RandomBytes n) w))"

lemmas call_defs = emit_def wpa_auth_set_eapol_def wpa_sta_disconnect_def
  wpa_auth_mic_failure_report_def wpa_auth_set_key_def wpa_auth_send_eapol_def
  eloop_register_timeout_def eloop_cancel_timeout_def random_get_bytes_def

text \<open>
  The configured keys are a list; a pointer into one of them is its index. The search starts after
  \<open>prev_psk\<close>, or at the head when that is NULL.
\<close>

fun get_psk_loop :: "hostapd_wpa_psk list \<Rightarrow> nat \<Rightarrow> bytes \<Rightarrow> nat option \<Rightarrow> bool \<Rightarrow> nat option" where
  "get_psk_loop [] i a prev_psk next_ok = None"
| "get_psk_loop (p # ps) i a prev_psk next_ok =
     (if next_ok \<and> (psk_group p \<or> os_memcmp (psk_addr p) a 6 = 0) then Some i
      else get_psk_loop ps (Suc i) a prev_psk (next_ok \<or> prev_psk = Some i))"

definition hostapd_get_psk :: "hostapd_wpa_psk list \<Rightarrow> bytes \<Rightarrow> nat option \<Rightarrow> nat option" where
  "hostapd_get_psk psks a prev_psk = get_psk_loop psks 0 a prev_psk (prev_psk = None)"

subsection \<open>Group key\<close>

definition WPA_NONCE_LEN :: nat where "WPA_NONCE_LEN = 32"
definition WPA_GMK_LEN :: nat where "WPA_GMK_LEN = 32"
definition WPA_KEY_RSC_LEN :: nat where "WPA_KEY_RSC_LEN = 8"

lemmas wpa_len_defs = WPA_NONCE_LEN_def WPA_GMK_LEN_def WPA_KEY_RSC_LEN_def

definition wpa_alg_enum :: "u32 \<Rightarrow> wpa_alg" where
  "wpa_alg_enum alg =
     (if alg = WPA_CIPHER_CCMP then WPA_ALG_CCMP
      else if alg = WPA_CIPHER_TKIP then WPA_ALG_TKIP
      else if alg = WPA_CIPHER_WEP104 \<or> alg = WPA_CIPHER_WEP40 then WPA_ALG_WEP
      else WPA_ALG_NONE)"

definition broadcast_ether_addr :: bytes where
  "broadcast_ether_addr = replicate 6 255"

definition wpa_group_set_key_len :: "u32 \<Rightarrow> wpa_group \<Rightarrow> wpa_group" where
  "wpa_group_set_key_len cipher g =
     (if cipher = WPA_CIPHER_CCMP then g\<lparr>GTK_len := 16\<rparr>
      else if cipher = WPA_CIPHER_TKIP then g\<lparr>GTK_len := 32\<rparr>
      else if cipher = WPA_CIPHER_WEP104 then g\<lparr>GTK_len := 13\<rparr>
      else if cipher = WPA_CIPHER_WEP40 then g\<lparr>GTK_len := 5\<rparr>
      else g)"

definition wpa_group_init_gmk_and_counter ::
  "wpa_env \<Rightarrow> 'a wpa_base_scheme \<Rightarrow> int \<times> 'a wpa_base_scheme" where
  "wpa_group_init_gmk_and_counter env w =
     (let (gmk, ok, w) = random_get_bytes env WPA_GMK_LEN w;
          w = w\<lparr>group := (group w)\<lparr>GMK := gmk\<rparr>\<rparr>
      in if \<not> ok then (-1, w)
         else let buf = auth_addr (auth w) @ wpa_get_ntp_timestamp (env_time env (out w)) @ env_group_ptr env;
                  (rkey, ok, w) = random_get_bytes env 32 w
              in if \<not> ok then (-1, w)
                 else case sha1_prf rkey (c_str ''Init Counter'') buf WPA_NONCE_LEN of
                        None \<Rightarrow> (-1, w)
                      | Some c \<Rightarrow> (0, w\<lparr>group := (group w)\<lparr>Counter := c\<rparr>\<rparr>))"

text \<open>The key, \<open>None\<close> when it was not written, and the return value.\<close>

definition wpa_gmk_to_gtk ::
  "wpa_env \<Rightarrow> bytes \<Rightarrow> string \<Rightarrow> bytes \<Rightarrow> bytes \<Rightarrow> nat \<Rightarrow> 'a wpa_base_scheme \<Rightarrow>
   bytes option \<times> int \<times> 'a wpa_base_scheme" where
  "wpa_gmk_to_gtk env gmk label a gnonce gtk_len w =
     (let time = wpa_get_ntp_timestamp (env_time env (out w));
          (rnd, ok, w) = random_get_bytes env 16 w;
          ret = (if ok then 0 else -1)
      in case sha1_prf gmk (c_str label) (a @ gnonce @ time @ rnd) gtk_len of
           None \<Rightarrow> (None, -1, w)
         | Some gtk \<Rightarrow> (Some gtk, ret, w))"

text \<open>\<open>GTK[n]\<close> has room for the longest key; a shorter one leaves the octets after it.\<close>

definition write_gtk :: "nat \<Rightarrow> bytes option \<Rightarrow> wpa_group \<Rightarrow> wpa_group" where
  "write_gtk i key g =
     (case key of None \<Rightarrow> g
      | Some k \<Rightarrow> g\<lparr>GTK := (GTK g)[i := k @ drop (length k) (GTK g ! i)]\<rparr>)"

definition wpa_gtk_update :: "wpa_env \<Rightarrow> 'a wpa_base_scheme \<Rightarrow> int \<times> 'a wpa_base_scheme" where
  "wpa_gtk_update env w =
     (let g = group w;
          g = g\<lparr>GNonce := Counter g, Counter := inc_byte_array (Counter g) WPA_NONCE_LEN\<rparr>;
          w = w\<lparr>group := g\<rparr>;
          (key, ret, w) = wpa_gmk_to_gtk env (GMK g) ''Group key expansion'' (auth_addr (auth w))
            (GNonce g) (GTK_len g) w
      in (ret, w\<lparr>group := write_gtk (GN g - 1) key (group w)\<rparr>))"

definition wpa_group_gtk_init :: "wpa_env \<Rightarrow> 'a wpa_base_scheme \<Rightarrow> 'a wpa_base_scheme" where
  "wpa_group_gtk_init env w =
     (let w = w\<lparr>group := (group w)\<lparr>group_changed := False, wpa_group_state := WPA_GROUP_GTK_INIT,
            GTK := [replicate 32 0, replicate 32 0], GN := 1, GM := 2\<rparr>\<rparr>
      in snd (wpa_gtk_update env w))"

definition gtk_now :: "wpa_group \<Rightarrow> bytes" where
  "gtk_now g = take (GTK_len g) (GTK g ! (GN g - 1))"

definition wpa_group_config_group_keys :: "wpa_env \<Rightarrow> 'a wpa_base_scheme \<Rightarrow> int \<times> 'a wpa_base_scheme" where
  "wpa_group_config_group_keys env w =
     (let g = group w;
          (r, w) = wpa_auth_set_key env (wpa_alg_enum (conf_wpa_group (conf (auth w))))
            broadcast_ether_addr (GN g) (gtk_now g) w
      in (if r < 0 then -1 else 0, w))"

definition wpa_group_setkeysdone :: "wpa_env \<Rightarrow> 'a wpa_base_scheme \<Rightarrow> int \<times> 'a wpa_base_scheme" where
  "wpa_group_setkeysdone env w =
     (let w = w\<lparr>group := (group w)\<lparr>group_changed := True, wpa_group_state := WPA_GROUP_SETKEYSDONE\<rparr>\<rparr>;
          (r, w) = wpa_group_config_group_keys env w
      in (if r < 0 then -1 else 0, w))"

definition wpa_group_first_station :: "wpa_env \<Rightarrow> 'a wpa_base_scheme \<Rightarrow> 'a wpa_base_scheme" where
  "wpa_group_first_station env w =
     (let w = (if env_pool_ready env (out w) \<noteq> 1
               then w\<lparr>group := (group w)\<lparr>reject_4way_hs_for_entropy := True\<rparr>\<rparr> else w);
          w = snd (wpa_group_init_gmk_and_counter env w);
          w = snd (wpa_gtk_update env w)
      in snd (wpa_group_config_group_keys env w))"

text \<open>The two indices swap and the new current key is computed.\<close>

definition swap_gn_gm :: "wpa_group \<Rightarrow> wpa_group" where
  "swap_gn_gm g = g\<lparr>GM := GN g, GN := GM g\<rparr>"

primrec gtk_rekey_loop :: "nat \<Rightarrow> wpa_env \<Rightarrow> 'a wpa_base_scheme \<Rightarrow> 'a wpa_base_scheme" where
  "gtk_rekey_loop 0 env w = w"
| "gtk_rekey_loop (Suc n) env w =
     gtk_rekey_loop n env (snd (wpa_gtk_update env (w\<lparr>group := swap_gn_gm (group w)\<rparr>)))"

definition wpa_gtk_rekey :: "wpa_env \<Rightarrow> 'a wpa_base_scheme \<Rightarrow> 'a wpa_base_scheme" where
  "wpa_gtk_rekey env w = gtk_rekey_loop 2 env w"

text \<open>The timer that renews the group master key.\<close>

definition wpa_rekey_gmk :: "wpa_env \<Rightarrow> 'a wpa_base_scheme \<Rightarrow> 'a wpa_base_scheme" where
  "wpa_rekey_gmk env w =
     (let (gmk, ok, w) = random_get_bytes env WPA_GMK_LEN w;
          w = w\<lparr>group := (group w)\<lparr>GMK := gmk\<rparr>\<rparr>
      in if conf_wpa_gmk_rekey (conf (auth w)) \<noteq> 0
         then eloop_register_timeout (conf_wpa_gmk_rekey (conf (auth w))) 0 Timer_rekey_gmk w
         else w)"

end
