(* ===== verification/Rc4.thy ===== *)
theory Rc4
  imports Common "HOL-Library.Multiset"
begin

text \<open>
  \<^verbatim>\<open>crypto/rc4.c\<close>: the RC4 stream cipher with a number of skipped keystream octets, which
  encrypts the key data of EAPOL-Key frames under HMAC-MD5-RC4. The state is the array \<open>S\<close> and
  the two indices; every index is masked with 0xff as in the code.
\<close>

record rc4_state =
  S_box :: bytes
  rc4_i :: u32
  rc4_j :: u32

definition S_SWAP :: "bytes \<Rightarrow> u32 \<Rightarrow> u32 \<Rightarrow> bytes" where
  "S_SWAP S a b = (let t = S ! unat a; S = S[unat a := S ! unat b] in S[unat b := t])"

text \<open>The key schedule: one round of the second loop, then all 256.\<close>

definition rc4_setup_step :: "bytes \<Rightarrow> nat \<Rightarrow> bytes \<times> u32 \<times> nat \<Rightarrow> nat \<Rightarrow> bytes \<times> u32 \<times> nat" where
  "rc4_setup_step key keylen st i =
     (case st of (S, j, kpos) \<Rightarrow>
        let j = (j + ucast (S ! i) + ucast (key ! kpos)) AND 0xff;
            kpos = kpos + 1; kpos = (if kpos \<ge> keylen then 0 else kpos)
        in (S_SWAP S (of_nat i) j, j, kpos))"

definition rc4_setup :: "bytes \<Rightarrow> nat \<Rightarrow> bytes" where
  "rc4_setup key keylen =
     fst (foldl (rc4_setup_step key keylen) (map of_nat [0..<256], 0, 0) [0..<256])"

text \<open>The body that the skip loop and the data loop share.\<close>

definition rc4_next :: "rc4_state \<Rightarrow> rc4_state" where
  "rc4_next st =
     (let i = (rc4_i st + 1) AND 0xff;
          j = (rc4_j st + ucast (S_box st ! unat i)) AND 0xff
      in \<lparr>S_box = S_SWAP (S_box st) i j, rc4_i = i, rc4_j = j\<rparr>)"

definition rc4_output :: "rc4_state \<Rightarrow> u8" where
  "rc4_output st =
     (let S = S_box st
      in S ! unat ((ucast (S ! unat (rc4_i st)) + ucast (S ! unat (rc4_j st)) :: u32) AND 0xff))"

primrec rc4_data :: "rc4_state \<Rightarrow> bytes \<Rightarrow> bytes" where
  "rc4_data st [] = []"
| "rc4_data st (b # data) =
     (let st = rc4_next st in (b XOR rc4_output st) # rc4_data st data)"

definition rc4_start :: "bytes \<Rightarrow> nat \<Rightarrow> nat \<Rightarrow> rc4_state" where
  "rc4_start key keylen skip =
     (rc4_next ^^ skip) \<lparr>S_box = rc4_setup key keylen, rc4_i = 0, rc4_j = 0\<rparr>"

definition rc4_skip :: "bytes \<Rightarrow> nat \<Rightarrow> nat \<Rightarrow> bytes \<Rightarrow> bytes" where
  "rc4_skip key keylen skip data = rc4_data (rc4_start key keylen skip) data"

subsection \<open>The state stays a permutation\<close>

definition rc4_ok :: "bytes \<Rightarrow> bool" where
  "rc4_ok S \<longleftrightarrow> mset S = mset (map of_nat [0..<256])"

definition rc4_state_ok :: "rc4_state \<Rightarrow> bool" where
  "rc4_state_ok st \<longleftrightarrow> rc4_ok (S_box st) \<and> unat (rc4_i st) < 256 \<and> unat (rc4_j st) < 256"

lemma rc4_ok_length: "rc4_ok S \<Longrightarrow> length S = 256"
  using mset_eq_length [of S "map of_nat [0..<256]"] by (simp add: rc4_ok_def)

lemma unat_and_ff: "unat (x AND 0xff :: u32) < 256"
  using take_bit_nat_less_exp [of 8 "unat x"] by (simp add: and_ff unsigned_take_bit_eq)

lemma rc4_ok_swap:
  "rc4_ok S \<Longrightarrow> unat a < 256 \<Longrightarrow> unat b < 256 \<Longrightarrow> rc4_ok (S_SWAP S a b)"
  by (simp add: rc4_ok_def S_SWAP_def Let_def mset_swap rc4_ok_length [unfolded rc4_ok_def]
      nth_list_update)

lemma rc4_next_ok: "rc4_state_ok st \<Longrightarrow> rc4_state_ok (rc4_next st)"
  by (simp add: rc4_state_ok_def rc4_next_def Let_def rc4_ok_swap unat_and_ff)

lemma rc4_setup_step_ok:
  "rc4_ok S \<Longrightarrow> i < 256 \<Longrightarrow> rc4_ok (fst (rc4_setup_step key keylen (S, j, kpos) i))"
  by (simp add: rc4_setup_step_def Let_def rc4_ok_swap unat_and_ff unsigned_of_nat take_bit_nat_eq_self)

lemma rc4_setup_fold_ok:
  "rc4_ok (fst st) \<Longrightarrow> \<forall>i \<in> set is. i < 256 \<Longrightarrow>
   rc4_ok (fst (foldl (rc4_setup_step key keylen) st is))"
proof (induction "is" arbitrary: st)
  case (Cons i "is")
  obtain S j kpos where st: "st = (S, j, kpos)" by (cases st)
  have "rc4_ok (fst (rc4_setup_step key keylen st i))"
    unfolding st using Cons.prems by (intro rc4_setup_step_ok) (auto simp: st)
  with Cons show ?case by simp
qed simp

lemma rc4_setup_ok: "rc4_ok (rc4_setup key keylen)"
  unfolding rc4_setup_def by (rule rc4_setup_fold_ok) (auto simp: rc4_ok_def)

lemma rc4_start_ok: "rc4_state_ok (rc4_start key keylen skip)"
proof (induction skip)
  case 0
  show ?case by (simp add: rc4_start_def rc4_state_ok_def rc4_setup_ok)
next
  case (Suc n)
  have "rc4_start key keylen (Suc n) = rc4_next (rc4_start key keylen n)"
    by (simp add: rc4_start_def)
  with Suc show ?case by (simp add: rc4_next_ok)
qed

subsection \<open>The cipher\<close>

lemma length_rc4_data [len_simps]: "length (rc4_data st data) = length data"
  by (induction data arbitrary: st) (auto simp: Let_def)

lemma rc4_data_twice: "rc4_data st (rc4_data st data) = data"
  by (induction data arbitrary: st) (auto simp: Let_def)

lemma rc4_data_append:
  "rc4_data st (xs @ ys) = rc4_data st xs @ rc4_data ((rc4_next ^^ length xs) st) ys"
  by (induction xs arbitrary: st) (auto simp: Let_def funpow_swap1)

text \<open>
  RC4 with the same key and skip undoes itself, and it is a stream: encrypting a
  concatenation is encrypting the parts, the second with the skip advanced by the length of
  the first.
\<close>

lemma rc4_skip_involution_and_stream:
  "rc4_skip key keylen skip (rc4_skip key keylen skip data) = data \<and>
   rc4_skip key keylen skip (xs @ ys) =
     rc4_skip key keylen skip xs @ rc4_skip key keylen (skip + length xs) ys"
proof -
  have "rc4_start key keylen (skip + n) = (rc4_next ^^ n) (rc4_start key keylen skip)" for n
    by (simp add: rc4_start_def add.commute [of skip] funpow_add)
  then show ?thesis
    by (simp add: rc4_skip_def rc4_data_twice rc4_data_append)
qed

text \<open>
  Every state the cipher runs through holds a permutation of the 256 octets with both
  indices below 256, so no read or write of \<open>S\<close> leaves the array.
\<close>

lemma rc4_state_permutation:
  "mset (S_box (rc4_start key keylen n)) = mset (map of_nat [0..<256]) \<and>
   length (S_box (rc4_start key keylen n)) = 256 \<and>
   unat (rc4_i (rc4_start key keylen n)) < 256 \<and> unat (rc4_j (rc4_start key keylen n)) < 256"
  using rc4_start_ok [of key keylen n] by (auto simp: rc4_state_ok_def rc4_ok_length) (simp add: rc4_ok_def)

subsection \<open>The cipher is RC4\<close>

text \<open>
  The cipher as it is published: a permutation of the numbers below 256, as a function, and the
  number \<open>j\<close>. \<open>rc4_ksa key i\<close> is the key schedule after \<open>i\<close> of its 256 rounds, \<open>rc4_prga key n\<close> the
  generator after \<open>n\<close> octets, and \<open>rc4_keystream key n\<close> the octet of the stream that comes after the
  first \<open>n\<close>.
\<close>

primrec rc4_ksa :: "bytes \<Rightarrow> nat \<Rightarrow> (nat \<Rightarrow> nat) \<times> nat" where
  "rc4_ksa key 0 = (id, 0)"
| "rc4_ksa key (Suc i) =
     (let (f, j) = rc4_ksa key i; j = (j + f i + unat (key ! (i mod length key))) mod 256
      in (f(i := f j, j := f i), j))"

primrec rc4_prga :: "bytes \<Rightarrow> nat \<Rightarrow> (nat \<Rightarrow> nat) \<times> nat" where
  "rc4_prga key 0 = (fst (rc4_ksa key 256), 0)"
| "rc4_prga key (Suc n) =
     (let (f, j) = rc4_prga key n; i = Suc n mod 256; j = (j + f i) mod 256
      in (f(i := f j, j := f i), j))"

definition rc4_keystream :: "bytes \<Rightarrow> nat \<Rightarrow> u8" where
  "rc4_keystream key n =
     (let (f, j) = rc4_prga key (Suc n) in of_nat (f ((f (Suc n mod 256) + f j) mod 256)))"

text \<open>The array holds the permutation, the two words hold the two numbers.\<close>

definition holds_perm :: "bytes \<Rightarrow> (nat \<Rightarrow> nat) \<Rightarrow> bool" where
  "holds_perm S f \<longleftrightarrow> length S = 256 \<and> (\<forall>k < 256. unat (S ! k) = f k)"

lemma unat_ff: "unat (x AND 0xff :: u32) = unat x mod 256"
  unfolding and_ff unsigned_take_bit_eq by (simp add: take_bit_eq_mod)

lemma unat_add_mod_256: "unat (a + b :: u32) mod 256 = (unat a + unat b) mod 256"
  by (simp add: unat_word_ariths mod_mod_cancel)

lemma unat_sum_ff: "unat ((a + b) AND 0xff :: u32) = (unat a + unat b) mod 256"
  by (simp add: unat_ff unat_add_mod_256)

lemma unat_sum3_ff: "unat ((a + b + c) AND 0xff :: u32) = (unat a + unat b + unat c) mod 256"
  by (simp add: unat_ff unat_add_mod_256) (metis mod_add_left_eq unat_add_mod_256)

lemma unat_byte: "unat (ucast (b :: u8) :: u32) = unat b"
  by (simp add: unsigned_ucast_eq take_bit_nat_eq_self unsigned_less [THEN order_less_le_trans])

lemma holds_swap:
  assumes "holds_perm S f" and "unat a < 256" and "unat b < 256"
  shows "holds_perm (S_SWAP S a b) (f(unat a := f (unat b), unat b := f (unat a)))"
  using assms by (auto simp: holds_perm_def S_SWAP_def Let_def nth_list_update)

lemma setup_refines:
  assumes "0 < keylen" and "keylen \<le> length key" and "i \<le> 256"
  shows "\<exists>S j. foldl (rc4_setup_step key keylen) (map of_nat [0..<256], 0, 0) [0..<i] = (S, j, i mod keylen) \<and>
    holds_perm S (fst (rc4_ksa (take keylen key) i)) \<and> unat j = snd (rc4_ksa (take keylen key) i) \<and> unat j < 256"
  using assms(3)
proof (induction i)
  case 0
  show ?case by (auto simp: holds_perm_def unsigned_of_nat take_bit_nat_eq_self)
next
  case (Suc i)
  let ?key = "take keylen key"
  obtain S j where f: "foldl (rc4_setup_step key keylen) (map of_nat [0..<256], 0, 0) [0..<i] = (S, j, i mod keylen)"
    and S: "holds_perm S (fst (rc4_ksa ?key i))" and j: "unat j = snd (rc4_ksa ?key i)" and i: "i < 256"
    using Suc by auto
  obtain g m where k: "rc4_ksa ?key i = (g, m)" by fastforce
  define j' where "j' = (j + ucast (S ! i) + ucast (key ! (i mod keylen))) AND 0xff"
  obtain p where p: "i mod keylen = p" "p < keylen" using assms(1) by simp
  then have "(if Suc (i mod keylen) \<ge> keylen then 0 else Suc (i mod keylen)) = Suc i mod keylen"
    by (auto simp: mod_Suc)
  then have step: "foldl (rc4_setup_step key keylen) (map of_nat [0..<256], 0, 0) [0..<Suc i] =
      (S_SWAP S (of_nat i) j', j', Suc i mod keylen)"
    by (simp add: f rc4_setup_step_def Let_def j'_def)
  have "i mod keylen < keylen" using assms(1) by simp
  then have "unat j' = (m + g i + unat (?key ! (i mod length ?key))) mod 256"
    using S j i assms(2) by (simp add: j'_def unat_sum3_ff unat_byte holds_perm_def k)
  moreover have "unat (of_nat i :: u32) = i" using i by (simp add: unsigned_of_nat take_bit_nat_eq_self)
  moreover have "unat j' < 256" by (simp add: j'_def unat_and_ff)
  ultimately show ?case
    using holds_swap [OF S, of "of_nat i" j'] i unfolding step by (simp add: k Let_def fun_upd_def)
qed

lemma start_refines:
  assumes "0 < keylen" and "keylen \<le> length key"
  shows "holds_perm (S_box (rc4_start key keylen n)) (fst (rc4_prga (take keylen key) n)) \<and>
    unat (rc4_i (rc4_start key keylen n)) = n mod 256 \<and>
    unat (rc4_j (rc4_start key keylen n)) = snd (rc4_prga (take keylen key) n)"
proof (induction n)
  case 0
  show ?case using setup_refines [OF assms order_refl] by (auto simp: rc4_start_def rc4_setup_def)
next
  case (Suc n)
  let ?st = "rc4_start key keylen n"
  obtain g m where k: "rc4_prga (take keylen key) n = (g, m)" by fastforce
  have next_st: "rc4_start key keylen (Suc n) = rc4_next ?st" by (simp add: rc4_start_def)
  define i where "i = (rc4_i ?st + 1) AND 0xff"
  define j where "j = (rc4_j ?st + ucast (S_box ?st ! unat i)) AND 0xff"
  have i: "unat i = Suc n mod 256" using Suc by (simp add: i_def unat_sum_ff mod_Suc_eq)
  moreover have "unat j = (m + g (Suc n mod 256)) mod 256"
    using Suc i by (simp add: j_def unat_sum_ff unat_byte holds_perm_def k)
  moreover have "unat i < 256" "unat j < 256" by (simp_all add: i_def j_def unat_and_ff)
  ultimately show ?case
    using holds_swap [of "S_box ?st" g i j] Suc
    unfolding next_st rc4_next_def Let_def i_def [symmetric] j_def [symmetric] by (simp add: k Let_def fun_upd_def)
qed

lemma output_refines:
  assumes "0 < keylen" and "keylen \<le> length key"
  shows "rc4_output (rc4_start key keylen (Suc n)) = rc4_keystream (take keylen key) n"
proof -
  let ?st = "rc4_start key keylen (Suc n)"
  obtain g m where k: "rc4_prga (take keylen key) (Suc n) = (g, m)" by fastforce
  have st: "holds_perm (S_box ?st) g" "unat (rc4_i ?st) = Suc n mod 256" "unat (rc4_j ?st) = m"
    using start_refines [OF assms, of "Suc n"] by (simp_all add: k del: rc4_prga.simps)
  have m: "m < 256" using rc4_start_ok [of key keylen "Suc n"] st(3) by (simp add: rc4_state_ok_def)
  let ?i = "(g (Suc n mod 256) + g m) mod 256"
  have "rc4_output ?st = S_box ?st ! ?i"
    using st m by (simp add: rc4_output_def unat_sum_ff unat_byte holds_perm_def)
  moreover have g: "g ?i = unat (S_box ?st ! ?i)" using st(1) by (simp add: holds_perm_def)
  have "of_nat (g ?i) = S_box ?st ! ?i" unfolding g by simp
  ultimately show ?thesis by (simp add: rc4_keystream_def k del: rc4_prga.simps)
qed

text \<open>
  C40: The cipher is RC4. With a key of at least one octet, \<open>rc4_skip\<close> combines each octet of the
  data by exclusive or with the octet of the RC4 keystream that follows the skipped ones, for any number
  of skipped octets and any data.
\<close>

theorem rc4_skip_is_rc4:
  assumes "0 < keylen" and "keylen \<le> length key"
  shows "rc4_skip key keylen skip data =
    map (\<lambda>t. data ! t XOR rc4_keystream (take keylen key) (skip + t)) [0..<length data]"
proof -
  have "rc4_data (rc4_start key keylen n) data =
    map (\<lambda>t. data ! t XOR rc4_keystream (take keylen key) (n + t)) [0..<length data]" for n
  proof (induction data arbitrary: n)
    case (Cons b data)
    have "rc4_next (rc4_start key keylen n) = rc4_start key keylen (Suc n)" by (simp add: rc4_start_def)
    then show ?case
      using Cons [of "Suc n"] output_refines [OF assms, of n]
      by (simp add: Let_def upt_conv_Cons map_Suc_upt [symmetric] o_def del: upt_Suc)
  qed simp
  then show ?thesis by (simp add: rc4_skip_def)
qed

text \<open>
  A key of 256 octets that makes every swap of the key schedule exchange an octet with itself, so that
  the stream starts from the identity: its first octets are 2, 5 and 7.
\<close>

definition sample_rc4_key :: bytes where
  "sample_rc4_key = 0 # map (\<lambda>i. 1 - of_nat i) [1..<256]"

lemma sample_key_schedule: "i \<le> 256 \<Longrightarrow> rc4_ksa sample_rc4_key i = (id, i - 1)"
proof (induction i)
  case (Suc i)
  have "unat (1 - of_nat i :: u8) = 257 - i" if "1 < i" "i < 256" for i
    using that by (simp add: unat_sub_if' unsigned_of_nat take_bit_nat_eq_self word_le_nat_alt)
  then have "(i - 1 + i + unat (sample_rc4_key ! i)) mod 256 = i"
    using Suc.prems by (cases "i \<le> 1") (auto simp: sample_rc4_key_def nth_Cons' le_Suc_eq)
  moreover have "length sample_rc4_key = 256" by (simp add: sample_rc4_key_def)
  ultimately show ?case using Suc by (simp add: Let_def fun_eq_iff)
qed simp

theorem rc4_skip_is_rc4_witness:
  "rc4_skip sample_rc4_key 256 0 [0, 0, 0x50] = [2, 5, 0x57] \<and> rc4_skip sample_rc4_key 256 2 [0] = [7]"
proof -
  have "length sample_rc4_key = 256" by (simp add: sample_rc4_key_def)
  moreover have "[rc4_keystream sample_rc4_key 0, rc4_keystream sample_rc4_key 1, rc4_keystream sample_rc4_key 2] = [2, 5, 7]"
    by (simp add: rc4_keystream_def sample_key_schedule Let_def numeral_2_eq_2)
  then have "rc4_keystream sample_rc4_key 0 = 2" "rc4_keystream sample_rc4_key (Suc 0) = 5"
    "rc4_keystream sample_rc4_key (Suc (Suc 0)) = 7" by (simp_all add: numeral_2_eq_2)
  ultimately show ?thesis
    using rc4_skip_is_rc4 [of 256 sample_rc4_key 0 "[0, 0, 0x50]"] rc4_skip_is_rc4 [of 256 sample_rc4_key 2 "[0]"]
    by (simp add: upt_rec)
qed

end
