(* ===== verification/Aes.thy ===== *)
theory Aes
  imports Common Aes_Tables
begin

text \<open>
  AES-128 as compiled into the firmware: the key schedules and the block functions of
  \<^verbatim>\<open>crypto/aes-internal.c\<close>, \<^verbatim>\<open>crypto/aes-internal-enc.c\<close> and
  \<^verbatim>\<open>crypto/aes-internal-dec.c\<close>, over the macros of \<^verbatim>\<open>crypto/aes_i.h\<close>. The round loops are
  kept as loops that advance the key schedule pointer. The result is that
  \<open>rijndaelDecrypt\<close> under the decryption schedule inverts \<open>rijndaelEncrypt\<close> under the
  encryption schedule, for every key and block. Memory for the schedule is always found.
\<close>

subsection \<open>Macros\<close>

definition GETU32 :: "bytes \<Rightarrow> u32" where
  "GETU32 pt = push_bit 24 (ucast (pt ! 0)) XOR push_bit 16 (ucast (pt ! 1)) XOR
     push_bit 8 (ucast (pt ! 2)) XOR ucast (pt ! 3)"

definition PUTU32 :: "u32 \<Rightarrow> bytes" where
  "PUTU32 st = [ucast (drop_bit 24 st), ucast (drop_bit 16 st), ucast (drop_bit 8 st), ucast st]"

definition rotr :: "u32 \<Rightarrow> nat \<Rightarrow> u32" where
  "rotr val bits = drop_bit bits val OR push_bit (32 - bits) val"

definition RCON :: "nat \<Rightarrow> u32" where "RCON i = push_bit 24 (ucast (rcons ! i))"

definition TE0 :: "u32 \<Rightarrow> u32" where "TE0 i = Te0 ! unat (drop_bit 24 i AND 0xff)"
definition TE1 :: "u32 \<Rightarrow> u32" where "TE1 i = rotr (Te0 ! unat (drop_bit 16 i AND 0xff)) 8"
definition TE2 :: "u32 \<Rightarrow> u32" where "TE2 i = rotr (Te0 ! unat (drop_bit 8 i AND 0xff)) 16"
definition TE3 :: "u32 \<Rightarrow> u32" where "TE3 i = rotr (Te0 ! unat (i AND 0xff)) 24"
definition TE41 :: "u32 \<Rightarrow> u32" where
  "TE41 i = push_bit 8 (Te0 ! unat (drop_bit 24 i AND 0xff)) AND 0xff000000"
definition TE42 :: "u32 \<Rightarrow> u32" where
  "TE42 i = Te0 ! unat (drop_bit 16 i AND 0xff) AND 0x00ff0000"
definition TE43 :: "u32 \<Rightarrow> u32" where
  "TE43 i = Te0 ! unat (drop_bit 8 i AND 0xff) AND 0x0000ff00"
definition TE44 :: "u32 \<Rightarrow> u32" where
  "TE44 i = drop_bit 8 (Te0 ! unat (i AND 0xff)) AND 0x000000ff"
definition TE421 :: "u32 \<Rightarrow> u32" where
  "TE421 i = push_bit 8 (Te0 ! unat (drop_bit 16 i AND 0xff)) AND 0xff000000"
definition TE432 :: "u32 \<Rightarrow> u32" where
  "TE432 i = Te0 ! unat (drop_bit 8 i AND 0xff) AND 0x00ff0000"
definition TE443 :: "u32 \<Rightarrow> u32" where
  "TE443 i = Te0 ! unat (i AND 0xff) AND 0x0000ff00"
definition TE414 :: "u32 \<Rightarrow> u32" where
  "TE414 i = drop_bit 8 (Te0 ! unat (drop_bit 24 i AND 0xff)) AND 0x000000ff"
definition TE4 :: "u32 \<Rightarrow> u32" where
  "TE4 i = drop_bit 8 (Te0 ! unat i) AND 0x000000ff"

definition TD0 :: "u32 \<Rightarrow> u32" where "TD0 i = Td0 ! unat (drop_bit 24 i AND 0xff)"
definition TD1 :: "u32 \<Rightarrow> u32" where "TD1 i = rotr (Td0 ! unat (drop_bit 16 i AND 0xff)) 8"
definition TD2 :: "u32 \<Rightarrow> u32" where "TD2 i = rotr (Td0 ! unat (drop_bit 8 i AND 0xff)) 16"
definition TD3 :: "u32 \<Rightarrow> u32" where "TD3 i = rotr (Td0 ! unat (i AND 0xff)) 24"
definition TD41 :: "u32 \<Rightarrow> u32" where
  "TD41 i = push_bit 24 (ucast (Td4s ! unat (drop_bit 24 i AND 0xff)))"
definition TD42 :: "u32 \<Rightarrow> u32" where
  "TD42 i = push_bit 16 (ucast (Td4s ! unat (drop_bit 16 i AND 0xff)))"
definition TD43 :: "u32 \<Rightarrow> u32" where
  "TD43 i = push_bit 8 (ucast (Td4s ! unat (drop_bit 8 i AND 0xff)))"
definition TD44 :: "u32 \<Rightarrow> u32" where
  "TD44 i = ucast (Td4s ! unat (i AND 0xff))"
definition TD0_lo :: "u32 \<Rightarrow> u32" where "TD0_lo i = Td0 ! unat (i AND 0xff)"
definition TD1_lo :: "u32 \<Rightarrow> u32" where "TD1_lo i = rotr (Td0 ! unat (i AND 0xff)) 8"
definition TD2_lo :: "u32 \<Rightarrow> u32" where "TD2_lo i = rotr (Td0 ! unat (i AND 0xff)) 16"
definition TD3_lo :: "u32 \<Rightarrow> u32" where "TD3_lo i = rotr (Td0 ! unat (i AND 0xff)) 24"

subsection \<open>Key schedules\<close>

text \<open>
  One turn of the loop in \<open>rijndaelKeySetupEnc\<close>: the pointer \<open>rk\<close> is at word \<open>4 * i\<close> of the
  schedule, and the four words after its window are appended.
\<close>

definition key_setup_step :: "u32 list \<Rightarrow> nat \<Rightarrow> u32 list" where
  "key_setup_step rk i =
     (let p = 4 * i; temp = rk ! (p + 3);
          r4 = rk ! p XOR TE421 temp XOR TE432 temp XOR TE443 temp XOR TE414 temp XOR RCON i;
          r5 = rk ! (p + 1) XOR r4; r6 = rk ! (p + 2) XOR r5; r7 = rk ! (p + 3) XOR r6
      in rk @ [r4, r5, r6, r7])"

definition rijndaelKeySetupEnc :: "bytes \<Rightarrow> u32 list" where
  "rijndaelKeySetupEnc cipherKey =
     foldl key_setup_step
       [GETU32 cipherKey, GETU32 (drop 4 cipherKey), GETU32 (drop 8 cipherKey),
        GETU32 (drop 12 cipherKey)] [0..<10]"

definition swap_words :: "u32 list \<Rightarrow> nat \<Rightarrow> nat \<Rightarrow> u32 list" where
  "swap_words rk i j = (let temp = rk ! i; rk = rk[i := rk ! j] in rk[j := temp])"

text \<open>The loop that inverts the order of the round keys; \<open>j\<close> starts at 40 and \<open>i\<close> at 0.\<close>

function invert_key_order :: "nat \<Rightarrow> nat \<Rightarrow> u32 list \<Rightarrow> u32 list" where
  "invert_key_order i j rk =
     (if i < j
      then invert_key_order (i + 4) (j - 4)
             (swap_words (swap_words (swap_words (swap_words rk i j) (i + 1) (j + 1))
                (i + 2) (j + 2)) (i + 3) (j + 3))
      else rk)"
  by pat_completeness auto
termination
  by (relation "measure (\<lambda>(i, j, rk). j - i)") auto

declare invert_key_order.simps [simp del]

definition inv_mix_word :: "u32 \<Rightarrow> u32" where
  "inv_mix_word r =
     TD0_lo (TE4 (drop_bit 24 r)) XOR TD1_lo (TE4 (drop_bit 16 r AND 0xff)) XOR
     TD2_lo (TE4 (drop_bit 8 r AND 0xff)) XOR TD3_lo (TE4 (r AND 0xff))"

definition rijndaelKeySetupDec :: "bytes \<Rightarrow> u32 list" where
  "rijndaelKeySetupDec cipherKey =
     (let rk = invert_key_order 0 40 (rijndaelKeySetupEnc cipherKey)
      in foldl (\<lambda>rk i. foldl (\<lambda>rk j. rk[4 * i + j := inv_mix_word (rk ! (4 * i + j))]) rk [0..<4])
           rk [1..<10])"

subsection \<open>Block functions\<close>

type_synonym aes_state = "u32 \<times> u32 \<times> u32 \<times> u32"

text \<open>\<open>ROUND(i, d, s)\<close>; \<open>p\<close> is where \<open>rk + 4 * i\<close> points in the schedule.\<close>

definition enc_ROUND :: "u32 list \<Rightarrow> nat \<Rightarrow> aes_state \<Rightarrow> aes_state" where
  "enc_ROUND rk p s =
     (case s of (s0, s1, s2, s3) \<Rightarrow>
       (TE0 s0 XOR TE1 s1 XOR TE2 s2 XOR TE3 s3 XOR rk ! p,
        TE0 s1 XOR TE1 s2 XOR TE2 s3 XOR TE3 s0 XOR rk ! (p + 1),
        TE0 s2 XOR TE1 s3 XOR TE2 s0 XOR TE3 s1 XOR rk ! (p + 2),
        TE0 s3 XOR TE1 s0 XOR TE2 s1 XOR TE3 s2 XOR rk ! (p + 3)))"

definition dec_ROUND :: "u32 list \<Rightarrow> nat \<Rightarrow> aes_state \<Rightarrow> aes_state" where
  "dec_ROUND rk p s =
     (case s of (s0, s1, s2, s3) \<Rightarrow>
       (TD0 s0 XOR TD1 s3 XOR TD2 s2 XOR TD3 s1 XOR rk ! p,
        TD0 s1 XOR TD1 s0 XOR TD2 s3 XOR TD3 s2 XOR rk ! (p + 1),
        TD0 s2 XOR TD1 s1 XOR TD2 s0 XOR TD3 s3 XOR rk ! (p + 2),
        TD0 s3 XOR TD1 s2 XOR TD2 s1 XOR TD3 s0 XOR rk ! (p + 3)))"

text \<open>
  The loop of the \<open>Nr - 1\<close> full rounds, entered with \<open>r = Nr >> 1\<close>; \<open>p\<close> is where \<open>rk\<close>
  points. It leaves with the state in the \<open>t\<close> variables. It is never entered with \<open>r = 0\<close>.
\<close>

primrec rounds_loop :: "(nat \<Rightarrow> aes_state \<Rightarrow> aes_state) \<Rightarrow> nat \<Rightarrow> nat \<Rightarrow> aes_state \<Rightarrow> aes_state \<times> nat" where
  "rounds_loop ROUND 0 p s = (s, p)"
| "rounds_loop ROUND (Suc r) p s =
     (let t = ROUND (p + 4) s; p = p + 8
      in if r = 0 then (t, p) else rounds_loop ROUND r p (ROUND p t))"

definition rijndaelEncrypt :: "u32 list \<Rightarrow> bytes \<Rightarrow> bytes" where
  "rijndaelEncrypt rk pt =
     (let s0 = GETU32 pt XOR rk ! 0; s1 = GETU32 (drop 4 pt) XOR rk ! 1;
          s2 = GETU32 (drop 8 pt) XOR rk ! 2; s3 = GETU32 (drop 12 pt) XOR rk ! 3;
          ((t0, t1, t2, t3), p) = rounds_loop (enc_ROUND rk) 5 0 (s0, s1, s2, s3)
      in PUTU32 (TE41 t0 XOR TE42 t1 XOR TE43 t2 XOR TE44 t3 XOR rk ! p) @
         PUTU32 (TE41 t1 XOR TE42 t2 XOR TE43 t3 XOR TE44 t0 XOR rk ! (p + 1)) @
         PUTU32 (TE41 t2 XOR TE42 t3 XOR TE43 t0 XOR TE44 t1 XOR rk ! (p + 2)) @
         PUTU32 (TE41 t3 XOR TE42 t0 XOR TE43 t1 XOR TE44 t2 XOR rk ! (p + 3)))"

definition rijndaelDecrypt :: "u32 list \<Rightarrow> bytes \<Rightarrow> bytes" where
  "rijndaelDecrypt rk ct =
     (let s0 = GETU32 ct XOR rk ! 0; s1 = GETU32 (drop 4 ct) XOR rk ! 1;
          s2 = GETU32 (drop 8 ct) XOR rk ! 2; s3 = GETU32 (drop 12 ct) XOR rk ! 3;
          ((t0, t1, t2, t3), p) = rounds_loop (dec_ROUND rk) 5 0 (s0, s1, s2, s3)
      in PUTU32 (TD41 t0 XOR TD42 t3 XOR TD43 t2 XOR TD44 t1 XOR rk ! p) @
         PUTU32 (TD41 t1 XOR TD42 t0 XOR TD43 t3 XOR TD44 t2 XOR rk ! (p + 1)) @
         PUTU32 (TD41 t2 XOR TD42 t1 XOR TD43 t0 XOR TD44 t3 XOR rk ! (p + 2)) @
         PUTU32 (TD41 t3 XOR TD42 t2 XOR TD43 t1 XOR TD44 t0 XOR rk ! (p + 3)))"

definition aes_encrypt_init :: "bytes \<Rightarrow> u32 list option" where
  "aes_encrypt_init key = (if length key \<noteq> 16 then None else Some (rijndaelKeySetupEnc key))"

definition aes_encrypt :: "u32 list \<Rightarrow> bytes \<Rightarrow> bytes" where
  "aes_encrypt ctx plain = rijndaelEncrypt ctx plain"

definition aes_decrypt_init :: "bytes \<Rightarrow> u32 list option" where
  "aes_decrypt_init key = (if length key \<noteq> 16 then None else Some (rijndaelKeySetupDec key))"

definition aes_decrypt :: "u32 list \<Rightarrow> bytes \<Rightarrow> bytes" where
  "aes_decrypt ctx crypt = rijndaelDecrypt ctx crypt"

subsection \<open>Words and their bytes\<close>

definition byte3 :: "u32 \<Rightarrow> u8" where "byte3 w = ucast (drop_bit 24 w)"
definition byte2 :: "u32 \<Rightarrow> u8" where "byte2 w = ucast (drop_bit 16 w)"
definition byte1 :: "u32 \<Rightarrow> u8" where "byte1 w = ucast (drop_bit 8 w)"
definition byte0 :: "u32 \<Rightarrow> u8" where "byte0 w = ucast w"

lemmas byte_defs = byte3_def byte2_def byte1_def byte0_def

lemma bytes_pack [simp]:
  "byte3 (pack a b c d) = a" "byte2 (pack a b c d) = b"
  "byte1 (pack a b c d) = c" "byte0 (pack a b c d) = d"
  unfolding byte_defs pack_def
  by (rule bit_word_eqI; auto simp: bit_simps dest: bit_imp_le_length)+

lemma pack_bytes [simp]: "pack (byte3 w) (byte2 w) (byte1 w) (byte0 w) = w"
proof (rule bit_word_eqI, goal_cases)
  case (1 n)
  then show ?case unfolding byte_defs pack_def
    by (cases "24 \<le> n"; cases "16 \<le> n"; cases "8 \<le> n") (auto simp: bit_simps)
qed

lemma bytes_xor [simp]:
  "byte3 (v XOR w) = byte3 v XOR byte3 w" "byte2 (v XOR w) = byte2 v XOR byte2 w"
  "byte1 (v XOR w) = byte1 v XOR byte1 w" "byte0 (v XOR w) = byte0 v XOR byte0 w"
  unfolding byte_defs by (rule bit_word_eqI; simp add: bit_simps)+

lemma word_bytes_eqI:
  "byte3 v = byte3 w \<Longrightarrow> byte2 v = byte2 w \<Longrightarrow> byte1 v = byte1 w \<Longrightarrow> byte0 v = byte0 w \<Longrightarrow> v = w"
  by (metis pack_bytes)

lemma pack_xor: "pack a b c d XOR pack a' b' c' d' = pack (a XOR a') (b XOR b') (c XOR c') (d XOR d')"
  by (rule word_bytes_eqI) simp_all

lemma bytes_rotr8:
  "byte3 (rotr w 8) = byte0 w" "byte2 (rotr w 8) = byte3 w"
  "byte1 (rotr w 8) = byte2 w" "byte0 (rotr w 8) = byte1 w"
  unfolding byte_defs rotr_def
  by (rule bit_word_eqI; auto simp: bit_simps dest: bit_imp_le_length)+

lemma bytes_rotr16:
  "byte3 (rotr w 16) = byte1 w" "byte2 (rotr w 16) = byte0 w"
  "byte1 (rotr w 16) = byte3 w" "byte0 (rotr w 16) = byte2 w"
  unfolding byte_defs rotr_def
  by (rule bit_word_eqI; auto simp: bit_simps dest: bit_imp_le_length)+

lemma bytes_rotr24:
  "byte3 (rotr w 24) = byte2 w" "byte2 (rotr w 24) = byte1 w"
  "byte1 (rotr w 24) = byte0 w" "byte0 (rotr w 24) = byte3 w"
  unfolding byte_defs rotr_def
  by (rule bit_word_eqI; auto simp: bit_simps dest: bit_imp_le_length)+

lemma rotr_pack:
  "rotr (pack a b c d) 8 = pack d a b c" "rotr (pack a b c d) 16 = pack c d a b"
  "rotr (pack a b c d) 24 = pack b c d a"
  by (rule word_bytes_eqI; simp add: bytes_rotr8 bytes_rotr16 bytes_rotr24)+

lemma xtime_xor [simp]: "xtime (a XOR b) = xtime a XOR xtime b"
  by (simp add: xtime_def bit_xor_iff ac_simps)

text \<open>The columns of MixColumns and its inverse, with the additions written out.\<close>

definition MC :: "u8 \<Rightarrow> u8 \<Rightarrow> u8 \<Rightarrow> u8 \<Rightarrow> u32" where
  "MC a b c d = T0_col a XOR rotr (T0_col b) 8 XOR rotr (T0_col c) 16 XOR rotr (T0_col d) 24"

definition IMC :: "u8 \<Rightarrow> u8 \<Rightarrow> u8 \<Rightarrow> u8 \<Rightarrow> u32" where
  "IMC a b c d = U0_col a XOR rotr (U0_col b) 8 XOR rotr (U0_col c) 16 XOR rotr (U0_col d) 24"

definition IMC_word :: "u32 \<Rightarrow> u32" where
  "IMC_word w = IMC (byte3 w) (byte2 w) (byte1 w) (byte0 w)"

lemmas mul_defs = mul9_def mulb_def muld_def mule_def

lemma MC_pack: "MC a b c d =
  pack (xtime a XOR (xtime b XOR b) XOR c XOR d) (a XOR xtime b XOR (xtime c XOR c) XOR d)
       (a XOR b XOR xtime c XOR (xtime d XOR d)) ((xtime a XOR a) XOR b XOR c XOR xtime d)"
  by (simp add: MC_def T0_col_def rotr_pack pack_xor ac_simps)

lemma IMC_pack: "IMC a b c d =
  pack (mule a XOR mulb b XOR muld c XOR mul9 d) (mul9 a XOR mule b XOR mulb c XOR muld d)
       (muld a XOR mul9 b XOR mule c XOR mulb d) (mulb a XOR muld b XOR mul9 c XOR mule d)"
  by (simp add: IMC_def U0_col_def rotr_pack pack_xor ac_simps)

lemma IMC_word_xor: "IMC_word (v XOR w) = IMC_word v XOR IMC_word w"
  by (rule word_bytes_eqI) (simp_all add: IMC_word_def IMC_pack mul_defs ac_simps)

lemma IMC_word_MC: "IMC_word (MC a b c d) = pack a b c d"
  by (rule word_bytes_eqI) (simp_all add: IMC_word_def MC_pack IMC_pack mul_defs ac_simps)


subsection \<open>Table lookups\<close>

definition sb :: "u8 \<Rightarrow> u8" where "sb x = sbox ! unat x"
definition si :: "u8 \<Rightarrow> u8" where "si x = Td4s ! unat x"

lemma Te0_nth: "Te0 ! unat (x :: u8) = T0_col (sb x)"
  unfolding sb_def by (subst Te0_columns [symmetric]) (simp add: len_simps)

lemma Td0_nth: "Td0 ! unat (x :: u8) = U0_col (si x)"
  unfolding si_def by (subst Td0_columns [symmetric]) (simp add: len_simps)

lemma si_sb [simp]: "si (sb x) = x"
proof -
  have "map (\<lambda>s. Td4s ! unat s) sbox ! unat x = map of_nat [0..<256] ! unat x"
    by (simp only: sbox_inverse)
  then show ?thesis by (simp add: si_def sb_def len_simps)
qed

lemma byte_index:
  "unat (drop_bit 24 w AND 0xff :: u32) = unat (byte3 w)" "unat (drop_bit 16 w AND 0xff :: u32) = unat (byte2 w)"
  "unat (drop_bit 8 w AND 0xff :: u32) = unat (byte1 w)" "unat (w AND 0xff :: u32) = unat (byte0 w)"
  by (simp_all add: byte_defs and_ff unsigned_take_bit_eq unsigned_ucast_eq)

lemma mask_bytes:
  "w AND 0xff000000 = pack (byte3 w) 0 0 0" "w AND 0x00ff0000 = pack 0 (byte2 w) 0 0"
  "w AND 0x0000ff00 = pack 0 0 (byte1 w) 0" "w AND 0x000000ff = pack 0 0 0 (byte0 w)"
proof -
  have m: "(0xff000000 :: int) = push_bit 24 (mask 8)" "(0x00ff0000 :: int) = push_bit 16 (mask 8)"
    "(0x0000ff00 :: int) = push_bit 8 (mask 8)" "(0xff :: int) = mask 8"
    by (simp_all add: mask_numeral)
  have m: "bit (0xff000000 :: int) n \<longleftrightarrow> 24 \<le> n \<and> n < 32"
    "bit (0x00ff0000 :: int) n \<longleftrightarrow> 16 \<le> n \<and> n < 24"
    "bit (0x0000ff00 :: int) n \<longleftrightarrow> 8 \<le> n \<and> n < 16" "bit (0xff :: int) n \<longleftrightarrow> n < 8" for n
    unfolding m by (auto simp: bit_simps)
  show "w AND 0xff000000 = pack (byte3 w) 0 0 0" unfolding pack_def byte_defs
    by (rule bit_word_eqI) (auto simp: bit_simps m)
  show "w AND 0x00ff0000 = pack 0 (byte2 w) 0 0" unfolding pack_def byte_defs
    by (rule bit_word_eqI) (auto simp: bit_simps m)
  show "w AND 0x0000ff00 = pack 0 0 (byte1 w) 0" unfolding pack_def byte_defs
    by (rule bit_word_eqI) (auto simp: bit_simps m)
  show "w AND 0x000000ff = pack 0 0 0 (byte0 w)" unfolding pack_def byte_defs
    by (rule bit_word_eqI) (auto simp: bit_simps m)
qed

lemma shift_bytes:
  "byte3 (push_bit 8 w) = byte2 w" "byte0 (drop_bit 8 w) = byte1 w"
  "byte0 (drop_bit 16 w) = byte2 w" "byte0 (drop_bit 24 w) = byte3 w"
  unfolding byte_defs by (rule bit_word_eqI; auto simp: bit_simps)+

lemma T0_col_bytes [simp]: "byte2 (T0_col s) = s" "byte1 (T0_col s) = s"
  by (simp_all add: T0_col_def)

lemma TE_col:
  "TE0 w = T0_col (sb (byte3 w))" "TE1 w = rotr (T0_col (sb (byte2 w))) 8"
  "TE2 w = rotr (T0_col (sb (byte1 w))) 16" "TE3 w = rotr (T0_col (sb (byte0 w))) 24"
  by (simp_all only: TE0_def TE1_def TE2_def TE3_def byte_index Te0_nth shift_bytes)

lemma TE4x_byte:
  "TE41 w = pack (sb (byte3 w)) 0 0 0" "TE42 w = pack 0 (sb (byte2 w)) 0 0"
  "TE43 w = pack 0 0 (sb (byte1 w)) 0" "TE44 w = pack 0 0 0 (sb (byte0 w))"
  unfolding TE41_def TE42_def TE43_def TE44_def byte_index Te0_nth
  unfolding mask_bytes shift_bytes T0_col_bytes by (rule refl)+

lemma TD_col:
  "TD0 w = U0_col (si (byte3 w))" "TD1 w = rotr (U0_col (si (byte2 w))) 8"
  "TD2 w = rotr (U0_col (si (byte1 w))) 16" "TD3 w = rotr (U0_col (si (byte0 w))) 24"
  by (simp_all only: TD0_def TD1_def TD2_def TD3_def byte_index Td0_nth shift_bytes)

lemma TD4x_byte:
  "TD41 w = pack (si (byte3 w)) 0 0 0" "TD42 w = pack 0 (si (byte2 w)) 0 0"
  "TD43 w = pack 0 0 (si (byte1 w)) 0" "TD44 w = pack 0 0 0 (si (byte0 w))"
  unfolding TD41_def TD42_def TD43_def TD44_def byte_index shift_bytes si_def [symmetric]
  by (simp_all add: pack_def)

lemma TE4_byte: "TE4 (drop_bit 24 w) = ucast (sb (byte3 w))" "TE4 (w AND 0xff) = ucast (sb (byte0 w))"
  "TE4 (drop_bit 16 w AND 0xff) = ucast (sb (byte2 w))" "TE4 (drop_bit 8 w AND 0xff) = ucast (sb (byte1 w))"
proof -
  have "drop_bit 24 w AND 0xff = drop_bit 24 w"
    by (rule bit_word_eqI) (auto simp: bit_simps and_ff dest: bit_imp_le_length)
  then have i: "unat (drop_bit 24 w) = unat (byte3 w)" by (metis byte_index(1))
  show "TE4 (drop_bit 24 w) = ucast (sb (byte3 w))" "TE4 (w AND 0xff) = ucast (sb (byte0 w))"
    "TE4 (drop_bit 16 w AND 0xff) = ucast (sb (byte2 w))" "TE4 (drop_bit 8 w AND 0xff) = ucast (sb (byte1 w))"
    unfolding TE4_def i byte_index Te0_nth
    unfolding mask_bytes shift_bytes T0_col_bytes by (simp_all add: pack_def)
qed

lemma TD_lo_ucast:
  "TD0_lo (ucast x) = U0_col (si x)" "TD1_lo (ucast x) = rotr (U0_col (si x)) 8"
  "TD2_lo (ucast x) = rotr (U0_col (si x)) 16" "TD3_lo (ucast x) = rotr (U0_col (si x)) 24"
proof -
  have "byte0 (ucast x) = x" by (rule bit_word_eqI) (auto simp: byte0_def bit_simps)
  then show "TD0_lo (ucast x) = U0_col (si x)" "TD1_lo (ucast x) = rotr (U0_col (si x)) 8"
    "TD2_lo (ucast x) = rotr (U0_col (si x)) 16" "TD3_lo (ucast x) = rotr (U0_col (si x)) 24"
    by (simp_all only: TD0_lo_def TD1_lo_def TD2_lo_def TD3_lo_def byte_index Td0_nth shift_bytes)
qed

lemma inv_mix_word_IMC: "inv_mix_word w = IMC_word w"
  by (simp add: inv_mix_word_def TE4_byte TD_lo_ucast IMC_word_def IMC_def shift_bytes)


subsection \<open>Rounds\<close>

text \<open>SubBytes with ShiftRows on the state, and the inverse of both.\<close>

definition sub_shift :: "aes_state \<Rightarrow> aes_state" where
  "sub_shift s = (case s of (s0, s1, s2, s3) \<Rightarrow>
     (pack (sb (byte3 s0)) (sb (byte2 s1)) (sb (byte1 s2)) (sb (byte0 s3)),
      pack (sb (byte3 s1)) (sb (byte2 s2)) (sb (byte1 s3)) (sb (byte0 s0)),
      pack (sb (byte3 s2)) (sb (byte2 s3)) (sb (byte1 s0)) (sb (byte0 s1)),
      pack (sb (byte3 s3)) (sb (byte2 s0)) (sb (byte1 s1)) (sb (byte0 s2))))"

definition inv_sub_shift :: "aes_state \<Rightarrow> aes_state" where
  "inv_sub_shift s = (case s of (s0, s1, s2, s3) \<Rightarrow>
     (pack (si (byte3 s0)) (si (byte2 s3)) (si (byte1 s2)) (si (byte0 s1)),
      pack (si (byte3 s1)) (si (byte2 s0)) (si (byte1 s3)) (si (byte0 s2)),
      pack (si (byte3 s2)) (si (byte2 s1)) (si (byte1 s0)) (si (byte0 s3)),
      pack (si (byte3 s3)) (si (byte2 s2)) (si (byte1 s1)) (si (byte0 s0))))"

definition add_key :: "u32 list \<Rightarrow> nat \<Rightarrow> aes_state \<Rightarrow> aes_state" where
  "add_key rk p s = (case s of (s0, s1, s2, s3) \<Rightarrow>
     (s0 XOR rk ! p, s1 XOR rk ! (p + 1), s2 XOR rk ! (p + 2), s3 XOR rk ! (p + 3)))"

definition mix_cols :: "(u32 \<Rightarrow> u32) \<Rightarrow> aes_state \<Rightarrow> aes_state" where
  "mix_cols f s = (case s of (s0, s1, s2, s3) \<Rightarrow> (f s0, f s1, f s2, f s3))"

definition MC_word :: "u32 \<Rightarrow> u32" where
  "MC_word w = MC (byte3 w) (byte2 w) (byte1 w) (byte0 w)"

lemma IMC_MC_word [simp]: "IMC_word (MC_word w) = w"
  by (simp add: MC_word_def IMC_word_MC)

lemma inv_sub_shift [simp]: "inv_sub_shift (sub_shift s) = s"
  by (cases s) (simp add: sub_shift_def inv_sub_shift_def)

lemma add_key_twice [simp]: "add_key rk p (add_key rk p s) = s"
  by (cases s) (simp add: add_key_def)

lemma enc_ROUND_eq: "enc_ROUND rk p s = add_key rk p (mix_cols MC_word (sub_shift s))"
  by (cases s) (simp add: enc_ROUND_def add_key_def mix_cols_def sub_shift_def MC_word_def MC_def
      TE_col xor.assoc)

lemma dec_ROUND_eq: "dec_ROUND rk p s = add_key rk p (mix_cols IMC_word (inv_sub_shift s))"
  by (cases s) (simp add: dec_ROUND_def add_key_def mix_cols_def inv_sub_shift_def IMC_word_def
      IMC_def TD_col xor.assoc)

text \<open>One decryption round undoes one encryption round when its key is the mixed round key.\<close>

definition mixed_key :: "u32 list \<Rightarrow> nat \<Rightarrow> u32 list \<Rightarrow> nat \<Rightarrow> bool" where
  "mixed_key dk q ek p \<longleftrightarrow> (\<forall>i < 4. dk ! (q + i) = IMC_word (ek ! (p + i)))"

lemma dec_enc_ROUND:
  assumes "mixed_key dk q ek p"
  shows "dec_ROUND dk q (sub_shift (enc_ROUND ek p s)) = sub_shift s"
proof -
  have k: "dk ! q = IMC_word (ek ! p)" "dk ! (q + 1) = IMC_word (ek ! (p + 1))"
    "dk ! (q + 2) = IMC_word (ek ! (p + 2))" "dk ! (q + 3) = IMC_word (ek ! (p + 3))"
    using assms unfolding mixed_key_def all_less_4 by auto
  obtain t0 t1 t2 t3 where t: "sub_shift s = (t0, t1, t2, t3)" by (metis prod_cases4)
  show ?thesis
    unfolding dec_ROUND_eq enc_ROUND_eq inv_sub_shift t
    by (simp add: add_key_def mix_cols_def IMC_word_xor k [simplified] xor.assoc)
qed

text \<open>The loop runs nine rounds, at words 4, 8 and so on up to 36, and leaves the pointer at 40.\<close>

lemma rounds_loop_5:
  "rounds_loop R 5 0 s = (foldl (\<lambda>s p. R p s) s [4, 8, 12, 16, 20, 24, 28, 32, 36], 40)"
  by (simp add: numeral_eq_Suc Let_def)

definition get_state :: "bytes \<Rightarrow> aes_state" where
  "get_state b = (GETU32 b, GETU32 (drop 4 b), GETU32 (drop 8 b), GETU32 (drop 12 b))"

definition put_state :: "aes_state \<Rightarrow> bytes" where
  "put_state s = (case s of (s0, s1, s2, s3) \<Rightarrow> PUTU32 s0 @ PUTU32 s1 @ PUTU32 s2 @ PUTU32 s3)"

abbreviation round_ptrs :: "nat list" where
  "round_ptrs \<equiv> [4, 8, 12, 16, 20, 24, 28, 32, 36]"

lemma init_state:
  "(GETU32 b XOR rk ! 0, GETU32 (drop 4 b) XOR rk ! 1, GETU32 (drop 8 b) XOR rk ! 2,
    GETU32 (drop 12 b) XOR rk ! 3) = add_key rk 0 (get_state b)"
  by (simp add: add_key_def get_state_def numeral_2_eq_2)

lemma rijndaelEncrypt_eq:
  "rijndaelEncrypt rk pt = put_state (add_key rk 40 (sub_shift
     (foldl (\<lambda>s p. enc_ROUND rk p s) (add_key rk 0 (get_state pt)) round_ptrs)))"
proof -
  define t where "t = foldl (\<lambda>s p. enc_ROUND rk p s) (add_key rk 0 (get_state pt)) round_ptrs"
  obtain t0 t1 t2 t3 where t: "t = (t0, t1, t2, t3)" by (metis prod_cases4)
  show ?thesis
    unfolding rijndaelEncrypt_def Let_def init_state rounds_loop_5 t_def [symmetric] t
    by (simp add: put_state_def add_key_def sub_shift_def TE4x_byte pack_xor xor.assoc [symmetric])
qed

lemma rijndaelDecrypt_eq:
  "rijndaelDecrypt rk ct = put_state (add_key rk 40 (inv_sub_shift
     (foldl (\<lambda>s p. dec_ROUND rk p s) (add_key rk 0 (get_state ct)) round_ptrs)))"
proof -
  define t where "t = foldl (\<lambda>s p. dec_ROUND rk p s) (add_key rk 0 (get_state ct)) round_ptrs"
  obtain t0 t1 t2 t3 where t: "t = (t0, t1, t2, t3)" by (metis prod_cases4)
  show ?thesis
    unfolding rijndaelDecrypt_def Let_def init_state rounds_loop_5 t_def [symmetric] t
    by (simp add: put_state_def add_key_def inv_sub_shift_def TD4x_byte pack_xor xor.assoc [symmetric])
qed

lemma GETU32_PUTU32 [codec_simps]: "GETU32 (PUTU32 w @ r) = w"
  using pack_bytes [of w] by (simp add: GETU32_def PUTU32_def pack_def byte_defs)

lemma PUTU32_GETU32: "length b \<ge> 4 \<Longrightarrow> PUTU32 (GETU32 b) = take 4 b"
proof -
  assume "length b \<ge> 4"
  then have b: "take 4 b = [b ! 0, b ! 1, b ! 2, b ! 3]"
    by (simp add: list_eq_iff_nth_eq nth_Cons' numeral_eq_Suc less_Suc_eq)
  have "GETU32 b = pack (b ! 0) (b ! 1) (b ! 2) (b ! 3)"
    by (simp add: GETU32_def pack_def)
  then show ?thesis
    unfolding b PUTU32_def using bytes_pack [of "b ! 0" "b ! 1" "b ! 2" "b ! 3"]
    by (simp add: byte_defs)
qed

lemma length_PUTU32 [len_simps]: "length (PUTU32 w) = 4"
  by (simp add: PUTU32_def)

text \<open>Decryption under the schedule that mirrors the encryption schedule.\<close>

definition dec_schedule :: "u32 list \<Rightarrow> u32 list \<Rightarrow> bool" where
  "dec_schedule dk ek \<longleftrightarrow>
     (\<forall>i < 4. dk ! i = ek ! (40 + i) \<and> dk ! (40 + i) = ek ! i) \<and>
     (\<forall>r \<in> {1..9}. mixed_key dk (4 * r) ek (40 - 4 * r))"

lemma get_put_state: "get_state (put_state s) = s"
proof (cases s)
  case (fields a b c d)
  then show ?thesis
    using GETU32_PUTU32 [of d "[]"]
    by (simp add: get_state_def put_state_def GETU32_PUTU32 length_PUTU32)
qed

lemma put_get_state: "length b = 16 \<Longrightarrow> put_state (get_state b) = b"
proof -
  assume "length b = 16"
  then have "put_state (get_state b) = take 4 b @ take 4 (drop 4 b) @ take 4 (drop 8 b) @ take 4 (drop 12 b)"
    by (simp add: put_state_def get_state_def PUTU32_GETU32)
  also have "\<dots> = take (4 + (4 + (4 + 4))) b"
    unfolding take_add by (simp add: add.commute)
  finally show ?thesis using \<open>length b = 16\<close> by simp
qed

lemma add_key_same:
  "\<forall>i < 4. dk ! (q + i) = ek ! (p + i) \<Longrightarrow> add_key dk q s = add_key ek p s"
  unfolding all_less_4 by (cases s) (simp add: add_key_def)

lemma decrypt_encrypt:
  assumes "dec_schedule dk ek" and "length pt = 16"
  shows "rijndaelDecrypt dk (rijndaelEncrypt ek pt) = pt"
proof -
  have outer: "add_key dk 0 s = add_key ek 40 s" "add_key dk 40 s = add_key ek 0 s" for s
    using assms(1) by (auto simp: dec_schedule_def intro!: add_key_same)
  have "\<forall>r \<in> {1..9}. mixed_key dk (4 * r) ek (40 - 4 * r)"
    using assms(1) by (simp add: dec_schedule_def)
  then have inner: "mixed_key dk 4 ek 36" "mixed_key dk 8 ek 32" "mixed_key dk 12 ek 28"
    "mixed_key dk 16 ek 24" "mixed_key dk 20 ek 20" "mixed_key dk 24 ek 16"
    "mixed_key dk 28 ek 12" "mixed_key dk 32 ek 8" "mixed_key dk 36 ek 4"
    by (simp_all add: atLeastAtMost_insertL [symmetric])
  note step = inner [THEN dec_enc_ROUND]
  show ?thesis
    unfolding rijndaelEncrypt_eq rijndaelDecrypt_eq get_put_state outer
    by (simp add: step outer put_get_state assms(2))
qed


subsection \<open>The decryption key schedule mirrors the encryption schedule\<close>

lemma length_key_setup: "length (foldl key_setup_step rk is) = length rk + 4 * length is"
  by (induction "is" arbitrary: rk) (simp_all add: key_setup_step_def Let_def)

lemma length_rijndaelKeySetupEnc: "length (rijndaelKeySetupEnc key) = 44"
  by (simp add: rijndaelKeySetupEnc_def length_key_setup)

lemma length_swap_words [simp]: "length (swap_words rk i j) = length rk"
  by (simp add: swap_words_def Let_def)

lemma nth_swap_words:
  "i < length rk \<Longrightarrow> j < length rk \<Longrightarrow>
   swap_words rk i j ! k = (if k = j then rk ! i else if k = i then rk ! j else rk ! k)"
  by (simp add: swap_words_def Let_def nth_list_update)

lemma length_invert_key_order [simp]: "length (invert_key_order i j rk) = length rk"
  by (induction i j rk rule: invert_key_order.induct) (subst invert_key_order.simps, simp)

lemma nth_invert_key_order:
  assumes "length rk = 44"
  shows "\<forall>r \<in> set [0..<11]. \<forall>i \<in> set [0..<4].
    invert_key_order 0 40 rk ! (4 * r + i) = rk ! (40 - 4 * r + i)"
proof -
  have u: "invert_key_order 0 40 rk =
    swap_words (swap_words (swap_words (swap_words (
    swap_words (swap_words (swap_words (swap_words (
    swap_words (swap_words (swap_words (swap_words (
    swap_words (swap_words (swap_words (swap_words (
    swap_words (swap_words (swap_words (swap_words rk
      0 40) 1 41) 2 42) 3 43) 4 36) 5 37) 6 38) 7 39) 8 32) 9 33) 10 34) 11 35)
      12 28) 13 29) 14 30) 15 31) 16 24) 17 25) 18 26) 19 27"
    by (simp add: invert_key_order.simps numeral_2_eq_2)
  show ?thesis unfolding u
    by (simp add: upt_rec nth_swap_words assms numeral_eq_Suc)
qed


lemma foldl_update_nth:
  "distinct ks \<Longrightarrow> m < length rk \<Longrightarrow>
   foldl (\<lambda>rk k. rk[k := f (rk ! k)]) rk ks ! m = (if m \<in> set ks then f (rk ! m) else rk ! m)"
proof (induction ks arbitrary: rk)
  case (Cons k ks)
  have "k \<noteq> m \<Longrightarrow> rk[k := f (rk ! k)] ! m = rk ! m" by simp
  with Cons show ?case by (cases "k = m") auto
qed simp

lemma foldl_nested:
  "foldl (\<lambda>a i. foldl (\<lambda>a j. h a (g i j)) a js) a is =
   foldl h a (concat (map (\<lambda>i. map (g i) js) is))"
  by (induction "is" arbitrary: a) (simp_all add: foldl_map)

lemma inner_indices: "concat (map (\<lambda>i. map (\<lambda>j. 4 * i + j) [0..<4]) [1..<10]) = [4..<40]"
  by (simp add: upt_rec)

lemma nth_rijndaelKeySetupDec:
  assumes "m < 44"
  shows "rijndaelKeySetupDec key ! m =
    (let rk = invert_key_order 0 40 (rijndaelKeySetupEnc key)
     in if 4 \<le> m \<and> m < 40 then IMC_word (rk ! m) else rk ! m)"
proof -
  let ?h = "\<lambda>rk k. rk[k := inv_mix_word (rk ! k)]"
  define ks where "ks = [4..<40]"
  have "rijndaelKeySetupDec key = foldl ?h (invert_key_order 0 40 (rijndaelKeySetupEnc key)) ks"
    unfolding ks_def rijndaelKeySetupDec_def Let_def
    using foldl_nested [of ?h "\<lambda>i j. 4 * i + j" "[0..<4]" _ "[1..<10]"]
    by (simp only: inner_indices)
  moreover have "distinct ks" unfolding ks_def by (rule distinct_upt)
  moreover have "m \<in> set ks \<longleftrightarrow> 4 \<le> m \<and> m < 40"
    unfolding ks_def set_upt by (rule atLeastLessThan_iff)
  ultimately show ?thesis
    using assms by (simp add: foldl_update_nth length_rijndaelKeySetupEnc inv_mix_word_IMC Let_def)
qed

lemma dec_schedule_key: "dec_schedule (rijndaelKeySetupDec key) (rijndaelKeySetupEnc key)"
proof -
  let ?ek = "rijndaelKeySetupEnc key"
  have inv: "invert_key_order 0 40 ?ek ! (4 * r + i) = ?ek ! (40 - 4 * r + i)" if "r < 11" "i < 4" for r i
    using nth_invert_key_order [OF length_rijndaelKeySetupEnc, of key] that by simp
  show ?thesis unfolding dec_schedule_def mixed_key_def
  proof (intro conjI allI ballI impI)
    fix i :: nat assume i: "i < 4"
    show "rijndaelKeySetupDec key ! i = ?ek ! (40 + i)"
      using i inv [of 0 i] by (simp add: nth_rijndaelKeySetupDec Let_def)
    show "rijndaelKeySetupDec key ! (40 + i) = ?ek ! i"
      using i inv [of 10 i] by (simp add: nth_rijndaelKeySetupDec Let_def)
    fix r :: nat assume r: "r \<in> {1..9}"
    then have "4 \<le> 4 * r + i \<and> 4 * r + i < 40" using i by auto
    with i r inv [of r i] show "rijndaelKeySetupDec key ! (4 * r + i) = IMC_word (?ek ! (40 - 4 * r + i))"
      by (simp add: nth_rijndaelKeySetupDec Let_def)
  qed
qed

lemma aes_encrypt_length: "length (aes_encrypt ek block) = 16"
proof -
  have "length (put_state s) = 16" for s
    by (cases s) (simp add: put_state_def length_PUTU32)
  then show ?thesis by (simp add: aes_encrypt_def rijndaelEncrypt_eq)
qed

lemma aes_inverse:
  "length block = 16 \<Longrightarrow>
   aes_decrypt (rijndaelKeySetupDec key) (aes_encrypt (rijndaelKeySetupEnc key) block) = block"
  by (simp add: aes_decrypt_def aes_encrypt_def decrypt_encrypt dec_schedule_key)

text \<open>
  C38: the table-driven decryption with the decryption key schedule (round keys in inverted
  order, the inner ones through the inverse MixColumns) inverts the encryption with the
  encryption key schedule, for every key and every 16-octet block.
\<close>

theorem aes_decrypt_encrypt:
  assumes "aes_encrypt_init key = Some ek" and "aes_decrypt_init key = Some dk"
    and "length block = 16"
  shows "aes_decrypt dk (aes_encrypt ek block) = block \<and> length (aes_encrypt ek block) = 16"
  using assms
  by (auto simp: aes_encrypt_init_def aes_decrypt_init_def aes_inverse aes_encrypt_length split: if_splits)

theorem aes_decrypt_encrypt_witness:
  "aes_decrypt (rijndaelKeySetupDec (replicate 16 0)) (aes_encrypt (rijndaelKeySetupEnc (replicate 16 0))
     (replicate 16 7)) = replicate 16 7"
  using aes_decrypt_encrypt [of "replicate 16 0" _ _ "replicate 16 7"]
  by (simp add: aes_encrypt_init_def aes_decrypt_init_def del: replicate.simps)

end
