(* ===== verification/AesWrap.thy ===== *)
theory AesWrap
  imports Aes
begin

text \<open>
  AES key wrap (\<^verbatim>\<open>crypto/aes-wrap.c\<close>, \<^verbatim>\<open>crypto/aes-unwrap.c\<close>), which encrypts the key data of
  EAPOL-Key frames under HMAC-SHA1-AES. The loops are over the block function of the cipher;
  what they need of it is the interface \<open>block_cipher\<close>, which the AES model provides.
\<close>

subsection \<open>The loops\<close>

text \<open>
  One turn of the inner loop of \<open>aes_wrap\<close>: \<open>a\<close> and \<open>r\<close> are the two parts of the output
  buffer and the pointer into \<open>r\<close> is at octet \<open>8 * (i - 1)\<close>. The counter is added to the
  last octet of \<open>a\<close> only.
\<close>

definition wrap_step :: "(bytes \<Rightarrow> bytes) \<Rightarrow> nat \<Rightarrow> bytes \<times> bytes \<Rightarrow> nat \<times> nat \<Rightarrow> bytes \<times> bytes" where
  "wrap_step enc n st ji =
     (case st of (a, r) \<Rightarrow> case ji of (j, i) \<Rightarrow>
        let p = 8 * (i - 1); b = enc (a @ take 8 (drop p r)); a = take 8 b;
            a = a[7 := a ! 7 XOR of_nat (n * j + i)]
        in (a, take p r @ drop 8 b @ drop (p + 8) r))"

definition unwrap_step :: "(bytes \<Rightarrow> bytes) \<Rightarrow> nat \<Rightarrow> bytes \<times> bytes \<Rightarrow> nat \<times> nat \<Rightarrow> bytes \<times> bytes" where
  "unwrap_step dec n st ji =
     (case st of (a, r) \<Rightarrow> case ji of (j, i) \<Rightarrow>
        let p = 8 * (i - 1); b = a[7 := a ! 7 XOR of_nat (n * j + i)];
            b = dec (b @ take 8 (drop p r))
        in (take 8 b, take p r @ drop 8 b @ drop (p + 8) r))"

text \<open>The values of \<open>(j, i)\<close> in the order of the loops of \<open>aes_wrap\<close> and of \<open>aes_unwrap\<close>.\<close>

definition wrap_indices :: "nat \<Rightarrow> (nat \<times> nat) list" where
  "wrap_indices n = concat (map (\<lambda>j. map (\<lambda>i. (j, i)) [1..<n + 1]) [0..<6])"

definition unwrap_indices :: "nat \<Rightarrow> (nat \<times> nat) list" where
  "unwrap_indices n = concat (map (\<lambda>j. map (\<lambda>i. (j, i)) (rev [1..<n + 1])) (rev [0..<6]))"

definition aes_wrap :: "bytes \<Rightarrow> nat \<Rightarrow> bytes \<Rightarrow> bytes option" where
  "aes_wrap kek n plain =
     (case aes_encrypt_init kek of None \<Rightarrow> None
      | Some ctx \<Rightarrow>
          let (a, r) = foldl (wrap_step (aes_encrypt ctx) n)
                (replicate 8 0xa6, take (8 * n) plain) (wrap_indices n)
          in Some (a @ r))"

definition aes_unwrap :: "bytes \<Rightarrow> nat \<Rightarrow> bytes \<Rightarrow> bytes option" where
  "aes_unwrap kek n cipher =
     (case aes_decrypt_init kek of None \<Rightarrow> None
      | Some ctx \<Rightarrow>
          let (a, r) = foldl (unwrap_step (aes_decrypt ctx) n)
                (take 8 cipher, take (8 * n) (drop 8 cipher)) (unwrap_indices n)
          in if \<exists>i \<in> set [0..<8]. a ! i \<noteq> 0xa6 then None else Some r)"

subsection \<open>The interface to the block cipher\<close>

locale block_cipher =
  fixes enc dec :: "bytes \<Rightarrow> bytes"
  assumes enc_length: "length b = 16 \<Longrightarrow> length (enc b) = 16"
    and dec_enc: "length b = 16 \<Longrightarrow> dec (enc b) = b"
begin

definition wf :: "nat \<Rightarrow> bytes \<times> bytes \<Rightarrow> bool" where
  "wf n st \<longleftrightarrow> length (fst st) = 8 \<and> length (snd st) = 8 * n"

lemma step_inverse:
  assumes "wf n st" and "1 \<le> i" and "i \<le> n"
  shows "wf n (wrap_step enc n st (j, i)) \<and> unwrap_step dec n (wrap_step enc n st (j, i)) (j, i) = st"
proof -
  obtain a r where st: "st = (a, r)" by (cases st)
  define p where "p = 8 * (i - 1)"
  define blk where "blk = take 8 (drop p r)"
  from assms have p: "p + 8 \<le> length r" and a: "length a = 8" and r: "length r = 8 * n"
    by (auto simp: wf_def st p_def)
  have r_split: "r = take p r @ blk @ drop (p + 8) r"
    unfolding blk_def by (metis append_take_drop_id drop_drop add.commute)
  have blk: "length blk = 8" using p by (simp add: blk_def)
  have ab: "length (a @ blk) = 16" using a blk by simp
  define b where "b = enc (a @ blk)"
  have b: "length b = 16" "dec b = a @ blk" using enc_length [OF ab] dec_enc [OF ab] by (auto simp: b_def)
  define a1 where "a1 = (take 8 b)[7 := take 8 b ! 7 XOR of_nat (n * j + i)]"
  have w: "wrap_step enc n st (j, i) = (a1, take p r @ drop 8 b @ drop (p + 8) r)"
    unfolding wrap_step_def st prod.case Let_def p_def [symmetric] blk_def [symmetric]
      b_def [symmetric] a1_def [symmetric] ..
  have undo: "a1[7 := a1 ! 7 XOR of_nat (n * j + i)] = take 8 b"
    using b(1) list_update_id [of "take 8 b" 7] by (simp add: a1_def)
  have "unwrap_step dec n (a1, take p r @ drop 8 b @ drop (p + 8) r) (j, i) = (a, r)"
    using p b a blk
    unfolding unwrap_step_def prod.case Let_def p_def [symmetric] undo
    by (simp add: r_split [symmetric])
  moreover have "wf n (a1, take p r @ drop 8 b @ drop (p + 8) r)"
    using p b r by (simp add: wf_def a1_def)
  ultimately show ?thesis by (simp add: w [unfolded st] st)
qed

lemma loop_inverse:
  assumes "wf n st"
  shows "foldl (unwrap_step dec n) (foldl (wrap_step enc n) st (wrap_indices n)) (unwrap_indices n) = st \<and>
    wf n (foldl (wrap_step enc n) st (wrap_indices n))"
proof -
  have rev: "unwrap_indices n = rev (wrap_indices n)"
    by (simp add: unwrap_indices_def wrap_indices_def rev_concat rev_map comp_def del: upt_Suc)
  have step: "wf n (wrap_step enc n s x) \<and> unwrap_step dec n (wrap_step enc n s x) x = s"
    if "wf n s" "x \<in> set (wrap_indices n)" for s x
    using that step_inverse [of n s "snd x" "fst x"] by (auto simp: wrap_indices_def)
  have "foldl (unwrap_step dec n) (foldl (wrap_step enc n) st (wrap_indices n)) (rev (wrap_indices n)) = st"
    using assms step by (rule foldl_rev_inverse)
  moreover have "wf n (foldl (wrap_step enc n) st (wrap_indices n))"
    using assms by (rule foldl_preserves) (use step in blast)
  ultimately show ?thesis by (simp add: rev)
qed

end

interpretation aes: block_cipher "aes_encrypt (rijndaelKeySetupEnc key)" "aes_decrypt (rijndaelKeySetupDec key)"
  for key
  by unfold_locales (simp_all add: aes_inverse aes_encrypt_length)

lemma unwrap_wrap:
  assumes "length kek = 16" and "length plain = 8 * n"
  shows "\<exists>c. aes_wrap kek n plain = Some c \<and> length c = 8 * (n + 1) \<and> aes_unwrap kek n c = Some plain"
proof -
  let ?st = "(replicate 8 0xa6, plain) :: bytes \<times> bytes"
  obtain a r where w: "foldl (wrap_step (aes_encrypt (rijndaelKeySetupEnc kek)) n) ?st (wrap_indices n) = (a, r)"
    by fastforce
  have "aes.wf n ?st" using assms by (simp add: aes.wf_def)
  from aes.loop_inverse [OF this, of kek] have
    "foldl (unwrap_step (aes_decrypt (rijndaelKeySetupDec kek)) n) (a, r) (unwrap_indices n) = ?st"
    and "length a = 8" "length r = 8 * n"
    by (auto simp: w aes.wf_def)
  with w assms show ?thesis
    by (simp add: aes_wrap_def aes_unwrap_def aes_encrypt_init_def aes_decrypt_init_def Let_def)
qed

text \<open>
  C39: unwrapping what \<open>aes_wrap\<close> produced under the same 128-bit key returns the plaintext,
  and the wrapped data is 8 octets longer.
\<close>

theorem aes_unwrap_wrap:
  assumes "length kek = 16" and "length plain = 8 * n"
  shows "\<exists>c. aes_wrap kek n plain = Some c \<and> length c = 8 * (n + 1) \<and> aes_unwrap kek n c = Some plain"
  using assms by (rule unwrap_wrap)

theorem aes_unwrap_wrap_witness:
  "\<exists>c. aes_wrap (replicate 16 1) 2 (replicate 16 5) = Some c \<and> length c = 24 \<and>
     aes_unwrap (replicate 16 1) 2 c = Some (replicate 16 5)"
  using aes_unwrap_wrap [of "replicate 16 1" "replicate 16 5" 2] by simp

end
