(* ===== verification/WpaSend.thy ===== *)
theory WpaSend
  imports WpaGroup Rc4 AesWrap
begin

text \<open>
  Sending EAPOL-Key frames and the replay counters they use: \<open>__wpa_send_eapol\<close>,
  \<open>wpa_send_eapol\<close>, \<open>wpa_remove_ptk\<close> and \<open>wpa_replay_counter_valid\<close> of
  \<^verbatim>\<open>ap/wpa_auth.c\<close>.
\<close>

unbundle bit_operations_syntax

text \<open>What a function that works for one station can reach: the base and its state machine.\<close>

record wpa_ctx = wpa_base +
  sm :: wpa_state_machine

definition upd_sm :: "(wpa_state_machine \<Rightarrow> wpa_state_machine) \<Rightarrow> wpa_ctx \<Rightarrow> wpa_ctx" where
  "upd_sm f c = c\<lparr>sm := f (sm c)\<rparr>"

definition upd_group :: "(wpa_group \<Rightarrow> wpa_group) \<Rightarrow> wpa_ctx \<Rightarrow> wpa_ctx" where
  "upd_group f c = c\<lparr>group := f (group c)\<rparr>"

definition upd_auth :: "(wpa_authenticator \<Rightarrow> wpa_authenticator) \<Rightarrow> wpa_ctx \<Rightarrow> wpa_ctx" where
  "upd_auth f c = c\<lparr>auth := f (auth c)\<rparr>"

lemmas upd_defs = upd_sm_def upd_group_def upd_auth_def

subsection \<open>Replay counters\<close>

fun replay_counter_in :: "key_replay_slot list \<Rightarrow> bytes \<Rightarrow> bool" where
  "replay_counter_in [] rc = False"
| "replay_counter_in (s # ss) rc =
     (if \<not> valid s then False else if os_memcmp rc (counter s) 8 = 0 then True
      else replay_counter_in ss rc)"

definition wpa_replay_counter_valid :: "wpa_state_machine \<Rightarrow> bytes \<Rightarrow> bool" where
  "wpa_replay_counter_valid s rc = replay_counter_in (take RSNA_MAX_EAPOL_RETRIES (key_replay s)) rc"

text \<open>The slots move up by one and the first holds the next counter.\<close>

definition next_replay :: "key_replay_slot list \<Rightarrow> key_replay_slot list" where
  "next_replay slots =
     \<lparr>counter = inc_byte_array (counter (hd slots)) 8, valid = True\<rparr> #
     take (RSNA_MAX_EAPOL_RETRIES - 1) slots"

subsection \<open>Building a frame\<close>

text \<open>The build has no key management that uses AES-CMAC.\<close>

definition wpa_use_aes_cmac :: "wpa_state_machine \<Rightarrow> bool" where
  "wpa_use_aes_cmac s = False"

definition key_descriptor_version :: "wpa_state_machine \<Rightarrow> u32 \<Rightarrow> u32" where
  "key_descriptor_version s force_version =
     (if force_version \<noteq> 0 then force_version
      else if wpa_use_aes_cmac s then WPA_KEY_INFO_TYPE_AES_128_CMAC
      else if pairwise s = WPA_CIPHER_CCMP then WPA_KEY_INFO_TYPE_HMAC_SHA1_AES
      else WPA_KEY_INFO_TYPE_HMAC_MD5_RC4)"

definition version_wraps :: "u32 \<Rightarrow> bool" where
  "version_wraps version \<longleftrightarrow>
     version = WPA_KEY_INFO_TYPE_HMAC_SHA1_AES \<or> version = WPA_KEY_INFO_TYPE_AES_128_CMAC"

definition key_length_for :: "u32 \<Rightarrow> u16" where
  "key_length_for alg =
     (if alg = WPA_CIPHER_CCMP then 16 else if alg = WPA_CIPHER_TKIP then 32
      else if alg = WPA_CIPHER_WEP40 then 5 else if alg = WPA_CIPHER_WEP104 then 13 else 0)"

text \<open>The key data padded to whole blocks of 8 octets, with room for the wrapping.\<close>

definition pad_key_data :: "bytes \<Rightarrow> bytes" where
  "pad_key_data kde =
     (let pad_len = (8 - length kde mod 8) mod 8
      in if pad_len = 0 then kde else kde @ [0xdd] @ replicate (pad_len - 1) 0)"

text \<open>The key data of the frame and the key IV. The RC4 form takes the IV from the key counter.\<close>

definition encrypt_key_data ::
  "u32 \<Rightarrow> bytes \<Rightarrow> wpa_ctx \<Rightarrow> (bytes \<times> bytes) option \<times> wpa_ctx" where
  "encrypt_key_data version kde c =
     (if version_wraps version
      then (case aes_wrap (ptk_kek (PTK (sm c))) (length (pad_key_data kde) div 8) (pad_key_data kde) of
              None \<Rightarrow> (None, c)
            | Some wrapped \<Rightarrow> (Some (wrapped, replicate 16 0), c))
      else let iv = take 16 (drop (WPA_NONCE_LEN - 16) (Counter (group c)));
               c = upd_group (\<lambda>g. g\<lparr>Counter := inc_byte_array (Counter g) WPA_NONCE_LEN\<rparr>) c;
               ek = iv @ ptk_kek (PTK (sm c))
           in (Some (rc4_skip ek 32 256 kde, iv), c))"

definition frame_key_info :: "wpa_state_machine \<Rightarrow> u32 \<Rightarrow> u32 \<Rightarrow> nat \<Rightarrow> bool \<Rightarrow> u32" where
  "frame_key_info s info version keyidx encr =
     (let info = info OR version;
          info = (if encr \<and> sm_wpa s = WPA_VERSION_WPA2 then info OR WPA_KEY_INFO_ENCR_KEY_DATA else info)
      in if sm_wpa s \<noteq> WPA_VERSION_WPA2
         then info OR push_bit WPA_KEY_INFO_KEY_INDEX_SHIFT (of_nat keyidx) else info)"

text \<open>The fields of the frame that do not depend on the key data. \<open>None\<close> is a NULL pointer.\<close>

definition frame_key :: "u32 \<Rightarrow> u32 \<Rightarrow> bytes option \<Rightarrow> bytes option \<Rightarrow> wpa_ctx \<Rightarrow> eapol_key" where
  "frame_key alg info rsc nonce c =
     \<lparr>key_type = (if sm_wpa (sm c) = WPA_VERSION_WPA2 then EAPOL_KEY_TYPE_RSN else EAPOL_KEY_TYPE_WPA),
      key_info = info,
      key_length = (if info AND WPA_KEY_INFO_SMK_MESSAGE \<noteq> 0 then 0 else key_length_for alg),
      replay_counter = counter (hd (key_replay (sm c))),
      key_nonce = (case nonce of None \<Rightarrow> replicate 32 0 | Some n \<Rightarrow> take 32 n),
      key_iv = replicate 16 0,
      key_rsc = (case rsc of None \<Rightarrow> replicate 8 0 | Some r \<Rightarrow> take 8 r),
      key_mic = replicate 16 0, key_data_length = 0\<rparr>"

text \<open>The key data and the key IV, \<open>None\<close> when the wrapping failed.\<close>

definition frame_body ::
  "u32 \<Rightarrow> bytes option \<Rightarrow> bool \<Rightarrow> wpa_ctx \<Rightarrow> (bytes \<times> bytes) option \<times> wpa_ctx" where
  "frame_body version kde encr c =
     (case kde of
        None \<Rightarrow> (Some (if encr \<and> version_wraps version then replicate 8 0 else [], replicate 16 0), c)
      | Some d \<Rightarrow> if \<not> encr then (Some (d, replicate 16 0), c) else encrypt_key_data version d c)"

text \<open>The MIC, when the key information asks for it.\<close>

definition seal_frame :: "u32 \<Rightarrow> u32 \<Rightarrow> bytes \<Rightarrow> wpa_ctx \<Rightarrow> bytes" where
  "seal_frame version info frame c =
     (if info AND WPA_KEY_INFO_MIC \<noteq> 0
      then case wpa_eapol_key_mic (ptk_kck (PTK (sm c))) version frame of
             None \<Rightarrow> frame | Some mic \<Rightarrow> set_key_mic mic frame
      else frame)"

text \<open>The frame is not sent when it cannot be protected; the replay counter is used all the same.\<close>

definition wpa_send_eapol_frame ::
  "u32 \<Rightarrow> bytes option \<Rightarrow> bytes option \<Rightarrow> bytes option \<Rightarrow> nat \<Rightarrow> bool \<Rightarrow> u32 \<Rightarrow> wpa_ctx \<Rightarrow> wpa_ctx" where
  "wpa_send_eapol_frame info rsc nonce kde keyidx encr force_version c =
     (let version = key_descriptor_version (sm c) force_version;
          is_pairwise = info AND WPA_KEY_INFO_KEY_TYPE \<noteq> 0;
          info = frame_key_info (sm c) info version keyidx encr;
          alg = (if is_pairwise then pairwise (sm c) else conf_wpa_group (conf (auth c)));
          c = upd_sm (\<lambda>s. s\<lparr>key_replay := next_replay (key_replay s)\<rparr>) c;
          key = frame_key alg info rsc nonce c;
          (body, c) = frame_body version kde encr c
      in case body of
           None \<Rightarrow> c
         | Some (key_data, iv) \<Rightarrow>
             let key = key\<lparr>key_iv := iv, key_data_length := (if kde = None then 0 else of_nat (length key_data))\<rparr>;
                 frame = eapol_frame (conf_eapol_version (conf (auth c))) key key_data
             in if info AND WPA_KEY_INFO_MIC \<noteq> 0 \<and> \<not> PTK_valid (sm c) then c
                else wpa_auth_send_eapol (addr (sm c)) (seal_frame version info frame c) (pairwise_set (sm c))
                       (wpa_auth_set_eapol (addr (sm c)) WPA_EAPOL_inc_EapolFramesTx 1 c))"

definition eapol_key_timeout_first :: int where "eapol_key_timeout_first = 500"
definition eapol_key_timeout_subseq :: int where "eapol_key_timeout_subseq = 1000"

definition wpa_send_eapol ::
  "u32 \<Rightarrow> bytes option \<Rightarrow> bytes option \<Rightarrow> bytes option \<Rightarrow> nat \<Rightarrow> bool \<Rightarrow> wpa_ctx \<Rightarrow> wpa_ctx" where
  "wpa_send_eapol info rsc nonce kde keyidx encr c =
     (let is_pairwise = info AND WPA_KEY_INFO_KEY_TYPE \<noteq> 0;
          c = wpa_send_eapol_frame info rsc nonce kde keyidx encr 0 c;
          ctr = (if is_pairwise then TimeoutCtr (sm c) else GTimeoutCtr (sm c));
          timeout_ms = (if ctr = 1 \<and> conf_tx_status (conf (auth c))
                        then eapol_key_timeout_first else eapol_key_timeout_subseq);
          c = (if is_pairwise \<and> ctr = 1 \<and> info AND WPA_KEY_INFO_MIC = 0
               then upd_sm (\<lambda>s. s\<lparr>pending_1_of_4_timeout := True\<rparr>) c else c)
      in eloop_register_timeout (timeout_ms div 1000) (timeout_ms mod 1000 * 1000)
           (Timer_send_eapol (addr (sm c))) c)"

subsection \<open>Keys of one station\<close>

definition wpa_remove_ptk :: "wpa_env \<Rightarrow> wpa_ctx \<Rightarrow> wpa_ctx" where
  "wpa_remove_ptk env c =
     (let c = upd_sm (\<lambda>s. s\<lparr>PTK_valid := False, PTK := replicate 64 0\<rparr>) c;
          c = snd (wpa_auth_set_key env WPA_ALG_NONE (addr (sm c)) 0 [] c);
          c = upd_sm (\<lambda>s. s\<lparr>pairwise_set := False\<rparr>) c
      in eloop_cancel_timeout (Timer_rekey_ptk (addr (sm c))) c)"

definition wpa_request_new_ptk :: "wpa_state_machine \<Rightarrow> wpa_state_machine" where
  "wpa_request_new_ptk s = s\<lparr>PTKRequest := True, PTK_valid := False\<rparr>"

definition wpa_derive_ptk :: "wpa_env \<Rightarrow> wpa_ctx \<Rightarrow> bytes \<Rightarrow> bytes" where
  "wpa_derive_ptk env c pmk =
     (let ptk_len = (if pairwise (sm c) = WPA_CIPHER_CCMP then 48 else 64)
      in case wpa_pmk_to_ptk (take PMK_LEN pmk) ''Pairwise key expansion'' (auth_addr (auth c))
            (addr (sm c)) (ANonce (sm c)) (SNonce (sm c)) ptk_len of
           None \<Rightarrow> take 64 (env_uninit env)
         | Some ptk \<Rightarrow> ptk @ drop ptk_len (take 64 (env_uninit env)))"

text \<open>The station acknowledged message 1/4: the short first timeout is extended.\<close>

definition wpa_auth_eapol_key_tx_status :: "bool \<Rightarrow> wpa_ctx \<Rightarrow> wpa_ctx" where
  "wpa_auth_eapol_key_tx_status ack c =
     (if pending_1_of_4_timeout (sm c) \<and> ack
      then eloop_register_timeout (eapol_key_timeout_subseq div 1000)
             (eapol_key_timeout_subseq mod 1000 * 1000) (Timer_send_eapol (addr (sm c)))
             (eloop_cancel_timeout (Timer_send_eapol (addr (sm c))) c)
      else c)"

end
