(* ===== verification/WpaPtk.thy ===== *)
theory WpaPtk
  imports WpaSend
begin

text \<open>
  The two state machines of one station: the 4-Way Handshake (\<open>WPA_PTK\<close>) and the Group Key
  Handshake (\<open>WPA_PTK_GROUP\<close>) of \<^verbatim>\<open>ap/wpa_auth.c\<close>. Each \<open>SM_STATE\<close> body is one
  \<open>_Enter\<close> function and each \<open>SM_STEP\<close> one \<open>_Step\<close>. The code enters every state with
  \<open>SM_ENTER\<close>, so an entry always marks the machine as changed.
\<close>

unbundle bit_operations_syntax

subsection \<open>4-Way Handshake\<close>

definition dot11RSNAConfigGroupUpdateCount :: int where "dot11RSNAConfigGroupUpdateCount = 4"
definition dot11RSNAConfigPairwiseUpdateCount :: int where "dot11RSNAConfigPairwiseUpdateCount = 4"

definition entry_WPA_PTK :: "wpa_ptk_st \<Rightarrow> wpa_state_machine \<Rightarrow> wpa_state_machine" where
  "entry_WPA_PTK st s = s\<lparr>sm_changed := True, wpa_ptk_state := st\<rparr>"

definition entry_WPA_PTK_GROUP :: "wpa_ptk_group_st \<Rightarrow> wpa_state_machine \<Rightarrow> wpa_state_machine" where
  "entry_WPA_PTK_GROUP st s = s\<lparr>sm_changed := True, wpa_ptk_group_state := st\<rparr>"

text \<open>\<open>if (sm->GUpdateStationKeys) group->GKeyDoneStations--; sm->GUpdateStationKeys = FALSE;\<close>\<close>

definition drop_group_update :: "wpa_ctx \<Rightarrow> wpa_ctx" where
  "drop_group_update c =
     (let c = (if GUpdateStationKeys (sm c)
               then upd_group (\<lambda>g. g\<lparr>GKeyDoneStations := GKeyDoneStations g - 1\<rparr>) c else c)
      in upd_sm (\<lambda>s. s\<lparr>GUpdateStationKeys := False\<rparr>) c)"

definition sm_WPA_PTK_INITIALIZE_Enter :: "wpa_env \<Rightarrow> wpa_ctx \<Rightarrow> wpa_ctx" where
  "sm_WPA_PTK_INITIALIZE_Enter env c =
     (let c = upd_sm (entry_WPA_PTK WPA_PTK_INITIALIZE) c;
          c = (if Init (sm c) then upd_sm (\<lambda>s. s\<lparr>sm_changed := False\<rparr>) c else c);
          c = upd_sm (\<lambda>s. s\<lparr>keycount := 0\<rparr>) c;
          c = drop_group_update c;
          c = (if sm_wpa (sm c) = WPA_VERSION_WPA then upd_sm (\<lambda>s. s\<lparr>PInitAKeys := False\<rparr>) c else c);
          c = upd_sm (\<lambda>s. s\<lparr>Pair := True\<rparr>) c;
          c = wpa_auth_set_eapol (addr (sm c)) WPA_EAPOL_portEnabled 0 c;
          c = wpa_remove_ptk env c;
          c = wpa_auth_set_eapol (addr (sm c)) WPA_EAPOL_portValid 0 c;
          c = upd_sm (\<lambda>s. s\<lparr>TimeoutCtr := 0\<rparr>) c
      in if wpa_key_mgmt_wpa_psk (sm_wpa_key_mgmt (sm c))
         then wpa_auth_set_eapol (addr (sm c)) WPA_EAPOL_authorized 0 c else c)"

definition sm_WPA_PTK_DISCONNECT_Enter :: "wpa_env \<Rightarrow> wpa_ctx \<Rightarrow> wpa_ctx" where
  "sm_WPA_PTK_DISCONNECT_Enter env c =
     (let c = upd_sm (entry_WPA_PTK WPA_PTK_DISCONNECT) c;
          c = upd_sm (\<lambda>s. s\<lparr>Disconnect := False\<rparr>) c
      in wpa_sta_disconnect (addr (sm c)) c)"

definition sm_WPA_PTK_DISCONNECTED_Enter :: "wpa_env \<Rightarrow> wpa_ctx \<Rightarrow> wpa_ctx" where
  "sm_WPA_PTK_DISCONNECTED_Enter env c =
     (let c = upd_sm (entry_WPA_PTK WPA_PTK_DISCONNECTED) c
      in upd_sm (\<lambda>s. s\<lparr>DeauthenticationRequest := False\<rparr>) c)"

definition sm_WPA_PTK_AUTHENTICATION_Enter :: "wpa_env \<Rightarrow> wpa_ctx \<Rightarrow> wpa_ctx" where
  "sm_WPA_PTK_AUTHENTICATION_Enter env c =
     (let c = upd_sm (entry_WPA_PTK WPA_PTK_AUTHENTICATION) c;
          c = upd_sm (\<lambda>s. s\<lparr>PTK := replicate 64 0, PTK_valid := False\<rparr>) c;
          c = wpa_auth_set_eapol (addr (sm c)) WPA_EAPOL_portControl_Auto 1 c;
          c = wpa_auth_set_eapol (addr (sm c)) WPA_EAPOL_portEnabled 1 c
      in upd_sm (\<lambda>s. s\<lparr>AuthenticationRequest := False\<rparr>) c)"

definition sm_WPA_PTK_AUTHENTICATION2_Enter :: "wpa_env \<Rightarrow> wpa_ctx \<Rightarrow> wpa_ctx" where
  "sm_WPA_PTK_AUTHENTICATION2_Enter env c =
     (let c = upd_sm (entry_WPA_PTK WPA_PTK_AUTHENTICATION2) c;
          c = (if \<not> first_sta_seen (group c)
               then upd_group (\<lambda>g. g\<lparr>first_sta_seen := True\<rparr>) (wpa_group_first_station env c) else c);
          c = upd_sm (\<lambda>s. s\<lparr>ANonce := Counter (group c)\<rparr>) c;
          c = upd_group (\<lambda>g. g\<lparr>Counter := inc_byte_array (Counter g) WPA_NONCE_LEN\<rparr>) c
      in upd_sm (\<lambda>s. s\<lparr>ReAuthenticationRequest := False, TimeoutCtr := 0\<rparr>) c)"

definition sm_WPA_PTK_INITPMK_Enter :: "wpa_env \<Rightarrow> wpa_ctx \<Rightarrow> wpa_ctx" where
  "sm_WPA_PTK_INITPMK_Enter env c =
     (let c = upd_sm (entry_WPA_PTK WPA_PTK_INITPMK) c;
          c = (case sm_pmksa (sm c) of
                 Some e \<Rightarrow> upd_sm (\<lambda>s. s\<lparr>PMK := take PMK_LEN (entry_pmk e)\<rparr>) c
               | None \<Rightarrow>
                   (case env_get_msk env (out c) (addr (sm c)) of
                      Some msk \<Rightarrow> upd_sm (\<lambda>s. s\<lparr>PMK := take PMK_LEN (msk @ env_uninit env)\<rparr>) c
                    | None \<Rightarrow> c));
          c = upd_sm (\<lambda>s. s\<lparr>req_replay_counter_used := False\<rparr>) c
      in wpa_auth_set_eapol (addr (sm c)) WPA_EAPOL_keyRun 0 c)"

definition sm_WPA_PTK_INITPSK_Enter :: "wpa_env \<Rightarrow> wpa_ctx \<Rightarrow> wpa_ctx" where
  "sm_WPA_PTK_INITPSK_Enter env c =
     (let c = upd_sm (entry_WPA_PTK WPA_PTK_INITPSK) c;
          c = (case hostapd_get_psk (env_psk env) (addr (sm c)) None of
                 None \<Rightarrow> c
               | Some i \<Rightarrow> upd_sm (\<lambda>s. s\<lparr>PMK := take PMK_LEN (psk_psk (env_psk env ! i))\<rparr>) c)
      in upd_sm (\<lambda>s. s\<lparr>req_replay_counter_used := False\<rparr>) c)"

definition pmkid_kde :: "wpa_env \<Rightarrow> wpa_ctx \<Rightarrow> bytes option" where
  "pmkid_kde env c =
     (if sm_wpa (sm c) = WPA_VERSION_WPA2 \<and> wpa_key_mgmt_wpa_ieee8021x (sm_wpa_key_mgmt (sm c))
      then Some ([WLAN_EID_VENDOR_SPECIFIC, 20] @ WPA_PUT_BE32 RSN_KEY_DATA_PMKID @
             (case sm_pmksa (sm c) of
                Some e \<Rightarrow> entry_pmkid e
              | None \<Rightarrow>
                  (case rsn_pmkid (PMK (sm c)) (auth_addr (auth c)) (addr (sm c)) of
                     Some pmkid \<Rightarrow> pmkid | None \<Rightarrow> take 16 (env_uninit env))))
      else None)"

definition sm_WPA_PTK_PTKSTART_Enter :: "wpa_env \<Rightarrow> wpa_ctx \<Rightarrow> wpa_ctx" where
  "sm_WPA_PTK_PTKSTART_Enter env c =
     (let c = upd_sm (entry_WPA_PTK WPA_PTK_PTKSTART) c;
          c = upd_sm (\<lambda>s. s\<lparr>PTKRequest := False, TimeoutEvt := False, TimeoutCtr := TimeoutCtr s + 1\<rparr>) c
      in if TimeoutCtr (sm c) > dot11RSNAConfigPairwiseUpdateCount then c
         else wpa_send_eapol (WPA_KEY_INFO_ACK OR WPA_KEY_INFO_KEY_TYPE) None (Some (ANonce (sm c)))
                (pmkid_kde env c) 0 False c)"

lemma get_psk_loop_after:
  assumes "get_psk_loop psks i a prev ok = Some j"
  shows "j < i + length psks \<and> (ok \<or> (\<exists>k. prev = Some k \<and> k < j))"
  using assms
proof (induction psks i a prev ok rule: get_psk_loop.induct)
  case (2 p ps i a prev ok)
  show ?case
  proof (cases "ok \<and> (psk_group p \<or> os_memcmp (psk_addr p) a 6 = 0)")
    case False
    then have rest: "get_psk_loop ps (Suc i) a prev (ok \<or> prev = Some i) = Some j"
      using "2.prems" by auto
    have "j \<ge> i" if "get_psk_loop qs i a prev b = Some j" for qs i b
      using that by (induction qs arbitrary: i b) (auto split: if_splits dest: Suc_leD)
    then show ?thesis using "2.IH" [OF False rest] rest by fastforce
  qed (use "2.prems" in auto)
qed simp

lemma hostapd_get_psk_after:
  "hostapd_get_psk psks a prev = Some j \<Longrightarrow>
   j < length psks \<and> (case prev of None \<Rightarrow> True | Some k \<Rightarrow> k < j)"
  using get_psk_loop_after [of psks 0 a prev "prev = None" j]
  by (auto simp: hostapd_get_psk_def split: option.splits)

text \<open>
  The search for the key that message 2/4 was protected with: with a pre-shared key every
  configured one in turn, otherwise the one PMK.
\<close>

function ptk_search :: "wpa_env \<Rightarrow> wpa_ctx \<Rightarrow> nat option \<Rightarrow> (bytes \<times> bytes) option" where
  "ptk_search env c prev =
     (if wpa_key_mgmt_wpa_psk (sm_wpa_key_mgmt (sm c))
      then (case hostapd_get_psk (env_psk env) (addr (sm c)) prev of
              None \<Rightarrow> None
            | Some i \<Rightarrow>
                let pmk = psk_psk (env_psk env ! i); ptk = wpa_derive_ptk env c pmk
                in if wpa_verify_key_mic (ptk_kck ptk) (last_rx_eapol_key (sm c)) = 0
                   then Some (pmk, ptk) else ptk_search env c (Some i))
      else let pmk = PMK (sm c); ptk = wpa_derive_ptk env c pmk
           in if wpa_verify_key_mic (ptk_kck ptk) (last_rx_eapol_key (sm c)) = 0
              then Some (pmk, ptk) else None)"
  by pat_completeness auto

termination
  by (relation "measure (\<lambda>(env, c, prev).
        length (env_psk env) - (case prev of None \<Rightarrow> 0 | Some i \<Rightarrow> Suc i))")
     (auto dest!: hostapd_get_psk_after split: option.splits)

declare ptk_search.simps [simp del]

definition sm_WPA_PTK_PTKCALCNEGOTIATING_Enter :: "wpa_env \<Rightarrow> wpa_ctx \<Rightarrow> wpa_ctx" where
  "sm_WPA_PTK_PTKCALCNEGOTIATING_Enter env c =
     (let c = upd_sm (entry_WPA_PTK WPA_PTK_PTKCALCNEGOTIATING) c;
          c = upd_sm (\<lambda>s. s\<lparr>EAPOLKeyReceived := False\<rparr>) c
      in case ptk_search env c None of
           None \<Rightarrow> c
         | Some (pmk, ptk) \<Rightarrow>
             let c = upd_sm (\<lambda>s. s\<lparr>pending_1_of_4_timeout := False\<rparr>) c;
                 c = eloop_cancel_timeout (Timer_send_eapol (addr (sm c))) c;
                 c = (if wpa_key_mgmt_wpa_psk (sm_wpa_key_mgmt (sm c))
                      then upd_sm (\<lambda>s. s\<lparr>PMK := take PMK_LEN pmk\<rparr>) c else c)
             in upd_sm (\<lambda>s. s\<lparr>MICVerified := True, PTK := ptk, PTK_valid := True\<rparr>) c)"

definition sm_WPA_PTK_PTKCALCNEGOTIATING2_Enter :: "wpa_env \<Rightarrow> wpa_ctx \<Rightarrow> wpa_ctx" where
  "sm_WPA_PTK_PTKCALCNEGOTIATING2_Enter env c =
     (let c = upd_sm (entry_WPA_PTK WPA_PTK_PTKCALCNEGOTIATING2) c
      in upd_sm (\<lambda>s. s\<lparr>TimeoutCtr := 0\<rparr>) c)"

text \<open>The element of the authenticator for message 3/4: without the RSN element for a WPA station.\<close>

definition handshake_ie :: "wpa_ctx \<Rightarrow> bytes" where
  "handshake_ie c =
     (let ie = auth_wpa_ie (auth c); skip = unat (ie ! 1) + 2
      in if sm_wpa (sm c) = WPA_VERSION_WPA \<and> conf_wpa (conf (auth c)) AND WPA_PROTO_RSN \<noteq> 0 \<and>
            length ie > skip \<and> ie ! 0 = WLAN_EID_RSN
         then let ie = drop skip ie in take (unat (ie ! 1) + 2) ie
         else ie)"

definition gtk_kde :: "wpa_group \<Rightarrow> bytes" where
  "gtk_kde g = wpa_add_kde RSN_KEY_DATA_GROUPKEY [of_nat (GN g) AND 3, 0] (Some (gtk_now g))"

definition sm_WPA_PTK_PTKINITNEGOTIATING_Enter :: "wpa_env \<Rightarrow> wpa_ctx \<Rightarrow> wpa_ctx" where
  "sm_WPA_PTK_PTKINITNEGOTIATING_Enter env c =
     (let c = upd_sm (entry_WPA_PTK WPA_PTK_PTKINITNEGOTIATING) c;
          c = upd_sm (\<lambda>s. s\<lparr>TimeoutEvt := False, TimeoutCtr := TimeoutCtr s + 1\<rparr>) c
      in if TimeoutCtr (sm c) > dot11RSNAConfigPairwiseUpdateCount then c
         else let rsc = wpa_auth_get_seqnum env (GN (group c)) c (replicate WPA_KEY_RSC_LEN 0);
                  wpa2 = (sm_wpa (sm c) = WPA_VERSION_WPA2);
                  kde = handshake_ie c @ (if wpa2 then gtk_kde (group c) else [])
              in wpa_send_eapol
                   ((if wpa2 then WPA_KEY_INFO_SECURE else 0) OR WPA_KEY_INFO_MIC OR WPA_KEY_INFO_ACK OR
                    WPA_KEY_INFO_INSTALL OR WPA_KEY_INFO_KEY_TYPE)
                   (if wpa2 then Some rsc else None) (Some (ANonce (sm c))) (Some kde)
                   (if wpa2 then GN (group c) else 0) wpa2 c)"

definition pairwise_alg :: "u32 \<Rightarrow> wpa_alg \<times> nat" where
  "pairwise_alg cipher =
     (if cipher = WPA_CIPHER_TKIP then (WPA_ALG_TKIP, 32) else (WPA_ALG_CCMP, 16))"

definition ptkinitdone_ports :: "wpa_ctx \<Rightarrow> wpa_ctx" where
  "ptkinitdone_ports c =
     (let c = wpa_auth_set_eapol (addr (sm c)) WPA_EAPOL_portValid 1 c;
          c = wpa_auth_set_eapol (addr (sm c)) WPA_EAPOL_keyAvailable 0 c;
          c = wpa_auth_set_eapol (addr (sm c)) WPA_EAPOL_keyDone 1 c
      in if sm_wpa (sm c) = WPA_VERSION_WPA then upd_sm (\<lambda>s. s\<lparr>PInitAKeys := True\<rparr>) c
         else upd_sm (\<lambda>s. s\<lparr>has_GTK := True\<rparr>) c)"

definition sm_WPA_PTK_PTKINITDONE_Enter :: "wpa_env \<Rightarrow> wpa_ctx \<Rightarrow> wpa_ctx" where
  "sm_WPA_PTK_PTKINITDONE_Enter env c =
     (let c = upd_sm (entry_WPA_PTK WPA_PTK_PTKINITDONE) c;
          c = upd_sm (\<lambda>s. s\<lparr>EAPOLKeyReceived := False\<rparr>) c
      in if \<not> Pair (sm c) then ptkinitdone_ports c
         else let (alg, klen) = pairwise_alg (pairwise (sm c));
                  (r, c) = wpa_auth_set_key env alg (addr (sm c)) 0 (ptk_tk1 (PTK (sm c)) klen) c
              in if r \<noteq> 0 then wpa_sta_disconnect (addr (sm c)) c
                 else let c = upd_sm (\<lambda>s. s\<lparr>pairwise_set := True\<rparr>) c;
                          c = (if conf_wpa_ptk_rekey (conf (auth c)) \<noteq> 0
                               then eloop_register_timeout (conf_wpa_ptk_rekey (conf (auth c))) 0
                                      (Timer_rekey_ptk (addr (sm c)))
                                      (eloop_cancel_timeout (Timer_rekey_ptk (addr (sm c))) c)
                               else c);
                          c = (if wpa_key_mgmt_wpa_psk (sm_wpa_key_mgmt (sm c))
                               then wpa_auth_set_eapol (addr (sm c)) WPA_EAPOL_authorized 1 c else c)
                      in ptkinitdone_ports c)"

definition count_failure :: "wpa_ctx \<Rightarrow> wpa_ctx" where
  "count_failure c =
     upd_auth (\<lambda>a. a\<lparr>dot11RSNA4WayHandshakeFailures := dot11RSNA4WayHandshakeFailures a + 1\<rparr>) c"

definition pairwise_reply :: "wpa_state_machine \<Rightarrow> bool" where
  "pairwise_reply s \<longleftrightarrow> EAPOLKeyReceived s \<and> \<not> EAPOLKeyRequest s \<and> EAPOLKeyPairwise s"

definition sm_WPA_PTK_Step :: "wpa_env \<Rightarrow> wpa_ctx \<Rightarrow> wpa_ctx" where
  "sm_WPA_PTK_Step env c =
     (if Init (sm c) then sm_WPA_PTK_INITIALIZE_Enter env c
      else if Disconnect (sm c) then sm_WPA_PTK_DISCONNECT_Enter env c
      else if DeauthenticationRequest (sm c) then sm_WPA_PTK_DISCONNECTED_Enter env c
      else if AuthenticationRequest (sm c) then sm_WPA_PTK_AUTHENTICATION_Enter env c
      else if ReAuthenticationRequest (sm c) then sm_WPA_PTK_AUTHENTICATION2_Enter env c
      else if PTKRequest (sm c) then sm_WPA_PTK_PTKSTART_Enter env c
      else case wpa_ptk_state (sm c) of
        WPA_PTK_INITIALIZE \<Rightarrow> c
      | WPA_PTK_DISCONNECT \<Rightarrow> sm_WPA_PTK_DISCONNECTED_Enter env c
      | WPA_PTK_DISCONNECTED \<Rightarrow> sm_WPA_PTK_INITIALIZE_Enter env c
      | WPA_PTK_AUTHENTICATION \<Rightarrow> sm_WPA_PTK_AUTHENTICATION2_Enter env c
      | WPA_PTK_AUTHENTICATION2 \<Rightarrow>
          if wpa_key_mgmt_wpa_ieee8021x (sm_wpa_key_mgmt (sm c)) \<and>
             wpa_auth_get_eapol env (addr (sm c)) WPA_EAPOL_keyRun c > 0
          then sm_WPA_PTK_INITPMK_Enter env c
          else if wpa_key_mgmt_wpa_psk (sm_wpa_key_mgmt (sm c))
          then sm_WPA_PTK_INITPSK_Enter env c else c
      | WPA_PTK_INITPMK \<Rightarrow>
          if wpa_auth_get_eapol env (addr (sm c)) WPA_EAPOL_keyAvailable c > 0
          then sm_WPA_PTK_PTKSTART_Enter env c
          else sm_WPA_PTK_DISCONNECT_Enter env (count_failure c)
      | WPA_PTK_INITPSK \<Rightarrow>
          if hostapd_get_psk (env_psk env) (addr (sm c)) None \<noteq> None
          then sm_WPA_PTK_PTKSTART_Enter env c
          else sm_WPA_PTK_DISCONNECT_Enter env (count_failure c)
      | WPA_PTK_PTKSTART \<Rightarrow>
          if pairwise_reply (sm c) then sm_WPA_PTK_PTKCALCNEGOTIATING_Enter env c
          else if TimeoutCtr (sm c) > dot11RSNAConfigPairwiseUpdateCount
          then sm_WPA_PTK_DISCONNECT_Enter env (count_failure c)
          else if TimeoutEvt (sm c) then sm_WPA_PTK_PTKSTART_Enter env c else c
      | WPA_PTK_PTKCALCNEGOTIATING \<Rightarrow>
          if MICVerified (sm c) then sm_WPA_PTK_PTKCALCNEGOTIATING2_Enter env c
          else if pairwise_reply (sm c) then sm_WPA_PTK_PTKCALCNEGOTIATING_Enter env c
          else if TimeoutEvt (sm c) then sm_WPA_PTK_PTKSTART_Enter env c else c
      | WPA_PTK_PTKCALCNEGOTIATING2 \<Rightarrow> sm_WPA_PTK_PTKINITNEGOTIATING_Enter env c
      | WPA_PTK_PTKINITNEGOTIATING \<Rightarrow>
          if pairwise_reply (sm c) \<and> MICVerified (sm c) then sm_WPA_PTK_PTKINITDONE_Enter env c
          else if TimeoutCtr (sm c) > dot11RSNAConfigPairwiseUpdateCount
          then sm_WPA_PTK_DISCONNECT_Enter env (count_failure c)
          else if TimeoutEvt (sm c) then sm_WPA_PTK_PTKINITNEGOTIATING_Enter env c else c
      | WPA_PTK_PTKINITDONE \<Rightarrow> c)"

subsection \<open>Group Key Handshake\<close>

definition sm_WPA_PTK_GROUP_IDLE_Enter :: "wpa_env \<Rightarrow> wpa_ctx \<Rightarrow> wpa_ctx" where
  "sm_WPA_PTK_GROUP_IDLE_Enter env c =
     (let c = upd_sm (entry_WPA_PTK_GROUP WPA_PTK_GROUP_IDLE) c;
          c = (if Init (sm c) then upd_sm (\<lambda>s. s\<lparr>sm_changed := False\<rparr>) c else c)
      in upd_sm (\<lambda>s. s\<lparr>GTimeoutCtr := 0\<rparr>) c)"

definition sm_WPA_PTK_GROUP_REKEYNEGOTIATING_Enter :: "wpa_env \<Rightarrow> wpa_ctx \<Rightarrow> wpa_ctx" where
  "sm_WPA_PTK_GROUP_REKEYNEGOTIATING_Enter env c =
     (let c = upd_sm (entry_WPA_PTK_GROUP WPA_PTK_GROUP_REKEYNEGOTIATING) c;
          c = upd_sm (\<lambda>s. s\<lparr>GTimeoutCtr := GTimeoutCtr s + 1\<rparr>) c
      in if GTimeoutCtr (sm c) > dot11RSNAConfigGroupUpdateCount then c
         else let c = (if sm_wpa (sm c) = WPA_VERSION_WPA then upd_sm (\<lambda>s. s\<lparr>PInitAKeys := False\<rparr>) c else c);
                  c = upd_sm (\<lambda>s. s\<lparr>TimeoutEvt := False\<rparr>) c;
                  rsc = (if wpa_group_state (group c) = WPA_GROUP_SETKEYSDONE
                         then wpa_auth_get_seqnum env (GN (group c)) c (replicate WPA_KEY_RSC_LEN 0)
                         else replicate WPA_KEY_RSC_LEN 0);
                  kde = (if sm_wpa (sm c) = WPA_VERSION_WPA2 then gtk_kde (group c) else gtk_now (group c))
              in wpa_send_eapol
                   (WPA_KEY_INFO_SECURE OR WPA_KEY_INFO_MIC OR WPA_KEY_INFO_ACK OR
                    (if \<not> Pair (sm c) then WPA_KEY_INFO_INSTALL else 0))
                   (Some rsc) (Some (GNonce (group c))) (Some kde) (GN (group c)) True c)"

definition sm_WPA_PTK_GROUP_REKEYESTABLISHED_Enter :: "wpa_env \<Rightarrow> wpa_ctx \<Rightarrow> wpa_ctx" where
  "sm_WPA_PTK_GROUP_REKEYESTABLISHED_Enter env c =
     (let c = upd_sm (entry_WPA_PTK_GROUP WPA_PTK_GROUP_REKEYESTABLISHED) c;
          c = upd_sm (\<lambda>s. s\<lparr>EAPOLKeyReceived := False\<rparr>) c;
          c = drop_group_update c
      in upd_sm (\<lambda>s. s\<lparr>GTimeoutCtr := 0, has_GTK := True\<rparr>) c)"

definition sm_WPA_PTK_GROUP_KEYERROR_Enter :: "wpa_env \<Rightarrow> wpa_ctx \<Rightarrow> wpa_ctx" where
  "sm_WPA_PTK_GROUP_KEYERROR_Enter env c =
     (let c = upd_sm (entry_WPA_PTK_GROUP WPA_PTK_GROUP_KEYERROR) c;
          c = drop_group_update c
      in upd_sm (\<lambda>s. s\<lparr>Disconnect := True\<rparr>) c)"

definition sm_WPA_PTK_GROUP_Step :: "wpa_env \<Rightarrow> wpa_ctx \<Rightarrow> wpa_ctx" where
  "sm_WPA_PTK_GROUP_Step env c =
     (if Init (sm c) \<or> PtkGroupInit (sm c)
      then upd_sm (\<lambda>s. s\<lparr>PtkGroupInit := False\<rparr>) (sm_WPA_PTK_GROUP_IDLE_Enter env c)
      else case wpa_ptk_group_state (sm c) of
        WPA_PTK_GROUP_IDLE \<Rightarrow>
          if GUpdateStationKeys (sm c) \<or> (sm_wpa (sm c) = WPA_VERSION_WPA \<and> PInitAKeys (sm c))
          then sm_WPA_PTK_GROUP_REKEYNEGOTIATING_Enter env c else c
      | WPA_PTK_GROUP_REKEYNEGOTIATING \<Rightarrow>
          if EAPOLKeyReceived (sm c) \<and> \<not> EAPOLKeyRequest (sm c) \<and> \<not> EAPOLKeyPairwise (sm c) \<and>
             MICVerified (sm c)
          then sm_WPA_PTK_GROUP_REKEYESTABLISHED_Enter env c
          else if GTimeoutCtr (sm c) > dot11RSNAConfigGroupUpdateCount
          then sm_WPA_PTK_GROUP_KEYERROR_Enter env c
          else if TimeoutEvt (sm c) then sm_WPA_PTK_GROUP_REKEYNEGOTIATING_Enter env c else c
      | WPA_PTK_GROUP_KEYERROR \<Rightarrow> sm_WPA_PTK_GROUP_IDLE_Enter env c
      | WPA_PTK_GROUP_REKEYESTABLISHED \<Rightarrow> sm_WPA_PTK_GROUP_IDLE_Enter env c)"

end
