(* ===== verification/WpaLoop.thy ===== *)
theory WpaLoop
  imports WpaPtk
begin

text \<open>
  The authenticator with all its stations: the group state machine, the loop that steps a station
  until nothing changes, and the entry points of \<^verbatim>\<open>ap/wpa_auth.c\<close> that the rest of the
  program and the event loop call. The stations are the entries of the list of
  \<open>wpa_auth_for_each_sta\<close>; a free entry has no state machine. All stations use the group of the
  authenticator. The loops take a number of rounds; \<open>None\<close> is a loop that has not ended by then.
\<close>

unbundle bit_operations_syntax

record wpa_world = wpa_base +
  stas :: "wpa_state_machine option list"

definition sta_of :: "nat \<Rightarrow> wpa_world \<Rightarrow> wpa_state_machine option" where
  "sta_of i w = (if i < length (stas w) then stas w ! i else None)"

definition ctx_of :: "wpa_world \<Rightarrow> wpa_state_machine \<Rightarrow> wpa_ctx" where
  "ctx_of w s = \<lparr>group = group w, auth = auth w, out = out w, sm = s\<rparr>"

definition put_ctx :: "nat \<Rightarrow> wpa_ctx \<Rightarrow> wpa_world \<Rightarrow> wpa_world" where
  "put_ctx i c w = \<lparr>group = group c, auth = auth c, out = out c, stas = (stas w)[i := Some (sm c)]\<rparr>"

definition with_sta :: "nat \<Rightarrow> (wpa_ctx \<Rightarrow> wpa_ctx) \<Rightarrow> wpa_world \<Rightarrow> wpa_world" where
  "with_sta i f w = (case sta_of i w of None \<Rightarrow> w | Some s \<Rightarrow> put_ctx i (f (ctx_of w s)) w)"

definition on_sm :: "nat \<Rightarrow> (wpa_state_machine \<Rightarrow> wpa_state_machine) \<Rightarrow> wpa_world \<Rightarrow> wpa_world" where
  "on_sm i f w = with_sta i (upd_sm f) w"

definition sta_is :: "(wpa_state_machine \<Rightarrow> bool) \<Rightarrow> nat \<Rightarrow> wpa_world \<Rightarrow> bool" where
  "sta_is P i w = (case sta_of i w of None \<Rightarrow> False | Some s \<Rightarrow> P s)"

subsection \<open>Group state machine\<close>

text \<open>\<open>step\<close> is \<open>wpa_sm_step\<close>; the callback of the iteration always returns 0.\<close>

definition wpa_group_update_sta ::
  "(nat \<Rightarrow> wpa_world \<Rightarrow> wpa_world option) \<Rightarrow> nat \<Rightarrow> wpa_world \<Rightarrow> wpa_world option" where
  "wpa_group_update_sta step i w =
     (case sta_of i w of
        None \<Rightarrow> Some w
      | Some s \<Rightarrow>
          if wpa_ptk_state s \<noteq> WPA_PTK_PTKINITDONE
          then Some (on_sm i (\<lambda>s. s\<lparr>GUpdateStationKeys := False\<rparr>) w)
          else let w = w\<lparr>group := (group w)\<lparr>GKeyDoneStations := GKeyDoneStations (group w) + 1\<rparr>\<rparr>;
                   w = on_sm i (\<lambda>s. s\<lparr>GUpdateStationKeys := True\<rparr>) w
               in step i w)"

primrec wpa_auth_for_each_sta ::
  "(nat \<Rightarrow> wpa_world \<Rightarrow> wpa_world option) \<Rightarrow> nat list \<Rightarrow> wpa_world \<Rightarrow> wpa_world option" where
  "wpa_auth_for_each_sta cb [] w = Some w"
| "wpa_auth_for_each_sta cb (i # is) w =
     (case cb i w of None \<Rightarrow> None | Some w \<Rightarrow> wpa_auth_for_each_sta cb is w)"

definition start_setkeys :: "wpa_env \<Rightarrow> wpa_world \<Rightarrow> wpa_world" where
  "start_setkeys env w =
     (let w = w\<lparr>group := (swap_gn_gm (group w))\<lparr>group_changed := True,
            wpa_group_state := WPA_GROUP_SETKEYS, GTKReKey := False\<rparr>\<rparr>;
          w = snd (wpa_gtk_update env w)
      in w\<lparr>group := (group w)\<lparr>GKeyDoneStations := 0\<rparr>\<rparr>)"

definition wpa_group_setkeys ::
  "wpa_env \<Rightarrow> (nat \<Rightarrow> wpa_world \<Rightarrow> wpa_world option) \<Rightarrow> wpa_world \<Rightarrow> wpa_world option" where
  "wpa_group_setkeys env step w =
     wpa_auth_for_each_sta (wpa_group_update_sta step) [0..<length (stas w)] (start_setkeys env w)"

definition wpa_group_sm_step ::
  "wpa_env \<Rightarrow> (nat \<Rightarrow> wpa_world \<Rightarrow> wpa_world option) \<Rightarrow> wpa_world \<Rightarrow> wpa_world option" where
  "wpa_group_sm_step env step w =
     (let g = group w in
      if GInit g then Some (wpa_group_gtk_init env w)
      else if wpa_group_state g = WPA_GROUP_GTK_INIT \<and> GTKAuthenticator g
      then Some (snd (wpa_group_setkeysdone env w))
      else if wpa_group_state g = WPA_GROUP_SETKEYSDONE \<and> GTKReKey g
      then wpa_group_setkeys env step w
      else if wpa_group_state g = WPA_GROUP_SETKEYS
      then (if GKeyDoneStations g = 0 then Some (snd (wpa_group_setkeysdone env w))
            else if GTKReKey g then wpa_group_setkeys env step w
            else Some w)
      else Some w)"

subsection \<open>The step loop\<close>

definition clear_changed :: "nat \<Rightarrow> wpa_world \<Rightarrow> wpa_world" where
  "clear_changed i w =
     (let w = on_sm i (\<lambda>s. s\<lparr>sm_changed := False\<rparr>) w
      in w\<lparr>group := (group w)\<lparr>group_changed := False\<rparr>\<rparr>)"

definition wpa_free_sta_sm :: "nat \<Rightarrow> wpa_world \<Rightarrow> wpa_world" where
  "wpa_free_sta_sm i w =
     (let w = with_sta i drop_group_update w in w\<lparr>stas := (stas w)[i := None]\<rparr>)"

text \<open>\<open>wpa_sm_step\<close> around its loop; the result is its return value.\<close>

definition sm_step_around ::
  "(nat \<Rightarrow> wpa_world \<Rightarrow> wpa_world option) \<Rightarrow> nat \<Rightarrow> wpa_world \<Rightarrow> (int \<times> wpa_world) option" where
  "sm_step_around loop i w =
     (case sta_of i w of
        None \<Rightarrow> Some (0, w)
      | Some s \<Rightarrow>
          if in_step_loop s then Some (0, w)
          else case loop i (on_sm i (\<lambda>s. s\<lparr>in_step_loop := True\<rparr>) w) of
                 None \<Rightarrow> None
               | Some w \<Rightarrow>
                   let w = on_sm i (\<lambda>s. s\<lparr>in_step_loop := False\<rparr>) w
                   in Some (if sta_is pending_deinit i w then (1, wpa_free_sta_sm i w) else (0, w)))"

text \<open>One round is the two machines of the station and the group machine.\<close>

primrec wpa_sm_loop :: "nat \<Rightarrow> wpa_env \<Rightarrow> nat \<Rightarrow> wpa_world \<Rightarrow> wpa_world option" where
  "wpa_sm_loop 0 env i w = None"
| "wpa_sm_loop (Suc n) env i w =
     (if sta_is pending_deinit i w then Some w
      else let w = with_sta i (sm_WPA_PTK_Step env) (clear_changed i w)
           in if sta_is pending_deinit i w then Some w
              else let w = with_sta i (sm_WPA_PTK_GROUP_Step env) w
                   in if sta_is pending_deinit i w then Some w
                      else case wpa_group_sm_step env
                             (\<lambda>j w. map_option snd (sm_step_around (wpa_sm_loop n env) j w)) w of
                             None \<Rightarrow> None
                           | Some w \<Rightarrow>
                               if sta_is sm_changed i w \<or> group_changed (group w)
                               then wpa_sm_loop n env i w else Some w)"

definition wpa_sm_step :: "nat \<Rightarrow> wpa_env \<Rightarrow> nat \<Rightarrow> wpa_world \<Rightarrow> (int \<times> wpa_world) option" where
  "wpa_sm_step n env i w = sm_step_around (wpa_sm_loop n env) i w"

definition sm_step_world :: "nat \<Rightarrow> wpa_env \<Rightarrow> nat \<Rightarrow> wpa_world \<Rightarrow> wpa_world option" where
  "sm_step_world n env i w = map_option snd (wpa_sm_step n env i w)"

definition wpa_sm_call_step :: "nat \<Rightarrow> wpa_env \<Rightarrow> nat \<Rightarrow> wpa_world \<Rightarrow> wpa_world option" where
  "wpa_sm_call_step n env i w = sm_step_world n env i w"

definition wpa_auth_sm_notify :: "nat \<Rightarrow> wpa_world \<Rightarrow> wpa_world" where
  "wpa_auth_sm_notify i w =
     with_sta i (\<lambda>c. eloop_register_timeout 0 0 (Timer_call_step (addr (sm c))) c) w"

subsection \<open>Timers\<close>

primrec group_rekey_loop :: "nat \<Rightarrow> nat \<Rightarrow> wpa_env \<Rightarrow> wpa_world \<Rightarrow> wpa_world option" where
  "group_rekey_loop 0 n env w = None"
| "group_rekey_loop (Suc m) n env w =
     (case wpa_group_sm_step env (sm_step_world n env)
             (w\<lparr>group := (group w)\<lparr>group_changed := False\<rparr>\<rparr>) of
        None \<Rightarrow> None
      | Some w \<Rightarrow> if group_changed (group w) then group_rekey_loop m n env w else Some w)"

definition wpa_rekey_gtk :: "nat \<Rightarrow> wpa_env \<Rightarrow> wpa_world \<Rightarrow> wpa_world option" where
  "wpa_rekey_gtk n env w =
     (case group_rekey_loop n n env (w\<lparr>group := (group w)\<lparr>GTKReKey := True\<rparr>\<rparr>) of
        None \<Rightarrow> None
      | Some w \<Rightarrow>
          Some (if conf_wpa_group_rekey (conf (auth w)) \<noteq> 0
                then eloop_register_timeout (conf_wpa_group_rekey (conf (auth w))) 0 Timer_rekey_gtk w
                else w))"

definition wpa_rekey_ptk :: "nat \<Rightarrow> wpa_env \<Rightarrow> nat \<Rightarrow> wpa_world \<Rightarrow> wpa_world option" where
  "wpa_rekey_ptk n env i w = sm_step_world n env i (on_sm i wpa_request_new_ptk w)"

definition wpa_send_eapol_timeout :: "nat \<Rightarrow> wpa_env \<Rightarrow> nat \<Rightarrow> wpa_world \<Rightarrow> wpa_world option" where
  "wpa_send_eapol_timeout n env i w =
     sm_step_world n env i (on_sm i (\<lambda>s. s\<lparr>pending_1_of_4_timeout := False, TimeoutEvt := True\<rparr>) w)"

subsection \<open>Stations come and go\<close>

text \<open>The rest of the program puts the new state machine into an entry of its list.\<close>

definition add_sta :: "bytes \<Rightarrow> wpa_world \<Rightarrow> wpa_world" where
  "add_sta a w = w\<lparr>stas := stas w @ [Some (wpa_auth_sta_init a)]\<rparr>"

definition wpa_auth_sta_associated :: "nat \<Rightarrow> wpa_env \<Rightarrow> nat \<Rightarrow> wpa_world \<Rightarrow> (int \<times> wpa_world) option" where
  "wpa_auth_sta_associated n env i w =
     (if conf_wpa (conf (auth w)) = 0 then Some (-1, w)
      else case sta_of i w of
        None \<Rightarrow> Some (-1, w)
      | Some s \<Rightarrow>
          if started s
          then wpa_sm_step n env i (on_sm i (\<lambda>s. s\<lparr>
                 key_replay := replicate RSNA_MAX_EAPOL_RETRIES \<lparr>counter = replicate 8 0, valid = False\<rparr>,
                 ReAuthenticationRequest := True\<rparr>) w)
          else case wpa_sm_step n env i (on_sm i (\<lambda>s. s\<lparr>started := True, Init := True\<rparr>) w) of
                 None \<Rightarrow> None
               | Some (r, w) \<Rightarrow>
                   if r = 1 then Some (1, w)
                   else wpa_sm_step n env i
                          (on_sm i (\<lambda>s. s\<lparr>Init := False, AuthenticationRequest := True\<rparr>) w))"

definition wpa_auth_sta_no_wpa :: "nat \<Rightarrow> wpa_world \<Rightarrow> wpa_world" where
  "wpa_auth_sta_no_wpa i w = on_sm i (\<lambda>s. s\<lparr>sm_wpa_key_mgmt := 0\<rparr>) w"

definition deinit_sta :: "wpa_ctx \<Rightarrow> wpa_ctx" where
  "deinit_sta c =
     (let c = (if conf_wpa_strict_rekey (conf (auth c)) \<and> has_GTK (sm c)
               then eloop_register_timeout 0 500000 Timer_rekey_gtk (eloop_cancel_timeout Timer_rekey_gtk c)
               else c);
          c = eloop_cancel_timeout (Timer_send_eapol (addr (sm c))) c;
          c = upd_sm (\<lambda>s. s\<lparr>pending_1_of_4_timeout := False\<rparr>) c;
          c = eloop_cancel_timeout (Timer_call_step (addr (sm c))) c
      in eloop_cancel_timeout (Timer_rekey_ptk (addr (sm c))) c)"

definition wpa_auth_sta_deinit :: "nat \<Rightarrow> wpa_world \<Rightarrow> wpa_world" where
  "wpa_auth_sta_deinit i w =
     (case sta_of i w of
        None \<Rightarrow> w
      | Some s \<Rightarrow>
          let w = with_sta i deinit_sta w
          in if in_step_loop s then on_sm i (\<lambda>s. s\<lparr>pending_deinit := True\<rparr>) w else wpa_free_sta_sm i w)"

datatype wpa_event = WPA_AUTH | WPA_ASSOC | WPA_DISASSOC | WPA_DEAUTH | WPA_REAUTH
  | WPA_REAUTH_EAPOL | WPA_ASSOC_FT

text \<open>The end of \<open>wpa_auth_sm_event\<close>: the pairwise key goes, then the machines step.\<close>

definition event_remove_ptk :: "wpa_env \<Rightarrow> wpa_event \<Rightarrow> wpa_ctx \<Rightarrow> wpa_ctx" where
  "event_remove_ptk env event c =
     (let c = upd_sm (\<lambda>s. s\<lparr>PTK_valid := False, PTK := replicate 64 0\<rparr>) c
      in if event \<noteq> WPA_REAUTH_EAPOL then wpa_remove_ptk env c else c)"

definition cancel_group_update :: "wpa_ctx \<Rightarrow> wpa_ctx" where
  "cancel_group_update c =
     (if GUpdateStationKeys (sm c)
      then upd_sm (\<lambda>s. s\<lparr>PtkGroupInit := True\<rparr>) (drop_group_update c) else c)"

definition wpa_auth_sm_event ::
  "nat \<Rightarrow> wpa_env \<Rightarrow> nat \<Rightarrow> wpa_event \<Rightarrow> wpa_world \<Rightarrow> (int \<times> wpa_world) option" where
  "wpa_auth_sm_event n env i event w =
     (case sta_of i w of
        None \<Rightarrow> Some (-1, w)
      | Some s \<Rightarrow>
          let finish = (\<lambda>w. wpa_sm_step n env i (with_sta i (event_remove_ptk env event) w))
          in if event = WPA_DEAUTH \<or> event = WPA_DISASSOC
             then finish (on_sm i (\<lambda>s. s\<lparr>DeauthenticationRequest := True\<rparr>) w)
             else if event = WPA_REAUTH \<or> event = WPA_REAUTH_EAPOL
             then (if \<not> started s
                   then (case wpa_sm_step n env i (on_sm i (\<lambda>s. s\<lparr>started := True, Init := True\<rparr>) w) of
                           None \<Rightarrow> None
                         | Some (r, w) \<Rightarrow>
                             if r = 1 then Some (1, w)
                             else finish (on_sm i (\<lambda>s. s\<lparr>Init := False, AuthenticationRequest := True\<rparr>) w))
                   else finish (on_sm i (\<lambda>s. s\<lparr>ReAuthenticationRequest := True\<rparr>)
                          (with_sta i cancel_group_update w)))
             else finish w)"

subsection \<open>The authenticator\<close>

definition wpa_group_new :: wpa_group where
  "wpa_group_new =
     \<lparr>GInit = False, GKeyDoneStations = 0, GTKReKey = False, GTK_len = 0, GN = 0, GM = 0,
      GTKAuthenticator = True, Counter = replicate 32 0, wpa_group_state = WPA_GROUP_GTK_INIT,
      GMK = replicate 32 0, GTK = [replicate 32 0, replicate 32 0], GNonce = replicate 32 0,
      group_changed = False, first_sta_seen = False, reject_4way_hs_for_entropy = False\<rparr>"

text \<open>
  The two steps of the group machine when it is initialised. Neither looks at the stations, so
  their step is not run.
\<close>

definition run_group_init :: "wpa_env \<Rightarrow> wpa_world \<Rightarrow> wpa_world option" where
  "run_group_init env w =
     (case wpa_group_sm_step env (\<lambda>j w. None) (w\<lparr>group := (group w)\<lparr>GInit := True\<rparr>\<rparr>) of
        None \<Rightarrow> None
      | Some w \<Rightarrow> wpa_group_sm_step env (\<lambda>j w. None) (w\<lparr>group := (group w)\<lparr>GInit := False\<rparr>\<rparr>))"

text \<open>\<open>Inl\<close> is the NULL that is returned when there are no random octets.\<close>

definition wpa_group_init :: "wpa_env \<Rightarrow> wpa_world \<Rightarrow> (unit + wpa_world) option" where
  "wpa_group_init env w =
     (let w = w\<lparr>group := wpa_group_set_key_len (conf_wpa_group (conf (auth w))) wpa_group_new\<rparr>;
          (r, w) = wpa_group_init_gmk_and_counter env w
      in if r < 0 then Some (Inl ()) else map_option Inr (run_group_init env w))"

definition wpa_auth_new :: "bytes \<Rightarrow> wpa_auth_config \<Rightarrow> wpa_authenticator" where
  "wpa_auth_new a cf =
     \<lparr>auth_TKIPRemoteMICFailures = 0, dot11RSNAAuthenticationSuiteSelected = 0,
      dot11RSNAPairwiseCipherSelected = 0, dot11RSNAGroupCipherSelected = 0,
      dot11RSNAPMKIDUsed = replicate 16 0, dot11RSNA4WayHandshakeFailures = 0, conf = cf,
      auth_wpa_ie = [], auth_addr = take 6 a, auth_pmksa = pmksa_cache_auth_init\<rparr>"

definition wpa_init :: "wpa_env \<Rightarrow> bytes \<Rightarrow> wpa_auth_config \<Rightarrow> (unit + wpa_world) option" where
  "wpa_init env a cf =
     (case wpa_auth_gen_wpa_ie cf of
        Inl _ \<Rightarrow> Some (Inl ())
      | Inr ie \<Rightarrow>
          (case wpa_group_init env \<lparr>group = wpa_group_new,
                  auth = (wpa_auth_new a cf)\<lparr>auth_wpa_ie := ie\<rparr>, out = [], stas = []\<rparr> of
             None \<Rightarrow> None
           | Some (Inl _) \<Rightarrow> Some (Inl ())
           | Some (Inr w) \<Rightarrow>
               let w = (if conf_wpa_gmk_rekey cf \<noteq> 0
                        then eloop_register_timeout (conf_wpa_gmk_rekey cf) 0 Timer_rekey_gmk w else w)
               in Some (Inr (if conf_wpa_group_rekey cf \<noteq> 0
                             then eloop_register_timeout (conf_wpa_group_rekey cf) 0 Timer_rekey_gtk w
                             else w))))"

definition wpa_reconfig :: "wpa_env \<Rightarrow> wpa_auth_config \<Rightarrow> wpa_world \<Rightarrow> (int \<times> wpa_world) option" where
  "wpa_reconfig env cf w =
     (let w = w\<lparr>auth := (auth w)\<lparr>conf := cf\<rparr>\<rparr>
      in case wpa_auth_gen_wpa_ie cf of
           Inl _ \<Rightarrow> Some (-1, w)
         | Inr ie \<Rightarrow>
             map_option (\<lambda>w. (0, w)) (run_group_init env
               (w\<lparr>auth := (auth w)\<lparr>auth_wpa_ie := ie\<rparr>,
                  group := wpa_group_set_key_len (conf_wpa_group cf) (group w)\<rparr>)))"

subsection \<open>PMKSA cache of the authenticator\<close>

text \<open>When an entry is freed no station may keep its address.\<close>

definition wpa_auth_pmksa_clear_cb :: "nat \<Rightarrow> wpa_state_machine \<Rightarrow> wpa_state_machine" where
  "wpa_auth_pmksa_clear_cb a s =
     (case sm_pmksa s of
        None \<Rightarrow> s
      | Some e \<Rightarrow> if entry_addr e = a then s\<lparr>sm_pmksa := None\<rparr> else s)"

definition wpa_auth_pmksa_free_cb :: "nat \<Rightarrow> wpa_world \<Rightarrow> wpa_world" where
  "wpa_auth_pmksa_free_cb a w = w\<lparr>stas := map (map_option (wpa_auth_pmksa_clear_cb a)) (stas w)\<rparr>"

text \<open>The cache after an operation on it, with the callback run for the entries it freed.\<close>

definition use_cache :: "rsn_pmksa_cache \<Rightarrow> wpa_world \<Rightarrow> wpa_world" where
  "use_cache cache w =
     foldl (\<lambda>w a. wpa_auth_pmksa_free_cb a w) (w\<lparr>auth := (auth w)\<lparr>auth_pmksa := cache\<rparr>\<rparr>)
       (drop (length (freed (auth_pmksa (auth w)))) (freed cache))"

definition wpa_auth_pmksa_add ::
  "int \<Rightarrow> nat option \<Rightarrow> nat \<Rightarrow> bytes \<Rightarrow> int \<Rightarrow> eapol_data option \<Rightarrow> wpa_world \<Rightarrow> int \<times> wpa_world" where
  "wpa_auth_pmksa_add now alloc i pmk session_timeout eapol w =
     (case sta_of i w of
        None \<Rightarrow> (-1, w)
      | Some s \<Rightarrow>
          if sm_wpa s \<noteq> WPA_VERSION_WPA2 then (-1, w)
          else let (r, cache) = pmksa_cache_auth_add now alloc (auth_pmksa (auth w)) (take PMK_LEN pmk)
                     (auth_addr (auth w)) (addr s) session_timeout eapol (sm_wpa_key_mgmt s)
               in (if r = None then -1 else 0, use_cache cache w))"

definition wpa_auth_pmksa_add_preauth ::
  "int \<Rightarrow> nat option \<Rightarrow> bytes \<Rightarrow> bytes \<Rightarrow> int \<Rightarrow> eapol_data option \<Rightarrow> wpa_world \<Rightarrow> int \<times> wpa_world" where
  "wpa_auth_pmksa_add_preauth now alloc pmk sta_addr session_timeout eapol w =
     (let (r, cache) = pmksa_cache_auth_add now alloc (auth_pmksa (auth w)) pmk
            (auth_addr (auth w)) sta_addr session_timeout eapol WPA_KEY_MGMT_IEEE8021X
      in (if r = None then -1 else 0, use_cache cache w))"

end
