(* ===== verification/WpaReceive.thy ===== *)
theory WpaReceive
  imports WpaLoop
begin

text \<open>
  A received EAPOL-Key frame: \<open>wpa_receive\<close> of \<^verbatim>\<open>ap/wpa_auth.c\<close>. Its first part looks at
  the frame and at the state and decides whether to go on (\<open>receive_check\<close>, with the changes it
  makes on the way); the second part checks the MIC (\<open>receive_mic\<close>); the third acts on a request
  or uses up the replay counter, stores the frame and steps the machines.
\<close>

unbundle bit_operations_syntax

datatype eapol_msg = PAIRWISE_2 | PAIRWISE_4 | GROUP_2 | REQUEST | SMK_M1 | SMK_M3 | SMK_ERROR

definition classify_msg :: "u32 \<Rightarrow> nat \<Rightarrow> eapol_msg" where
  "classify_msg info key_data_len =
     (if info AND (WPA_KEY_INFO_SMK_MESSAGE OR WPA_KEY_INFO_REQUEST) =
           (WPA_KEY_INFO_SMK_MESSAGE OR WPA_KEY_INFO_REQUEST)
      then (if info AND WPA_KEY_INFO_ERROR \<noteq> 0 then SMK_ERROR else SMK_M1)
      else if info AND WPA_KEY_INFO_SMK_MESSAGE \<noteq> 0 then SMK_M3
      else if info AND WPA_KEY_INFO_REQUEST \<noteq> 0 then REQUEST
      else if info AND WPA_KEY_INFO_KEY_TYPE = 0 then GROUP_2
      else if key_data_len = 0 then PAIRWISE_4 else PAIRWISE_2)"

text \<open>The checks that only read: sizes, descriptor type, descriptor version and replay counters.\<close>

definition frame_fits :: "wpa_state_machine \<Rightarrow> bytes \<Rightarrow> bool" where
  "frame_fits s data \<longleftrightarrow>
     length data \<ge> EAPOL_HDR_LEN + EAPOL_KEY_LEN \<and>
     key_data_length_of data \<le> length data - EAPOL_HDR_LEN - EAPOL_KEY_LEN \<and>
     key_type_of data = (if sm_wpa s = WPA_VERSION_WPA2 then EAPOL_KEY_TYPE_RSN else EAPOL_KEY_TYPE_WPA)"

definition version_ok :: "wpa_state_machine \<Rightarrow> eapol_msg \<Rightarrow> u32 \<Rightarrow> bool" where
  "version_ok s msg info \<longleftrightarrow>
     (msg \<in> {REQUEST, PAIRWISE_2, PAIRWISE_4, GROUP_2} \<and> pairwise s = WPA_CIPHER_CCMP \<longrightarrow>
      (let ver = info AND WPA_KEY_INFO_TYPE_MASK in
       if wpa_use_aes_cmac s then ver = WPA_KEY_INFO_TYPE_AES_128_CMAC
       else ver = WPA_KEY_INFO_TYPE_HMAC_SHA1_AES))"

definition counter_ok :: "wpa_state_machine \<Rightarrow> bytes \<Rightarrow> bool" where
  "counter_ok s data \<longleftrightarrow>
     (if key_info_of data AND WPA_KEY_INFO_REQUEST \<noteq> 0
      then \<not> (req_replay_counter_used s \<and>
              os_memcmp (replay_counter_of data) (req_replay_counter s) 8 \<le> 0)
      else wpa_replay_counter_valid s (replay_counter_of data))"

definition key_data :: "bytes \<Rightarrow> bytes" where
  "key_data data = take (key_data_length_of data) (key_data_of data)"

text \<open>Message 2/4 must come in the right state and repeat the element of the association.\<close>

definition check_pairwise_2 :: "bytes \<Rightarrow> wpa_ctx \<Rightarrow> bool \<times> wpa_ctx" where
  "check_pairwise_2 data c =
     (if wpa_ptk_state (sm c) \<noteq> WPA_PTK_PTKSTART \<and> wpa_ptk_state (sm c) \<noteq> WPA_PTK_PTKCALCNEGOTIATING
      then (False, c)
      else let c = emit (AddRandomness (key_nonce_of data)) c in
        if reject_4way_hs_for_entropy (group c)
        then let c = upd_group (\<lambda>g. g\<lparr>reject_4way_hs_for_entropy := False\<rparr>) c;
                 c = emit MarkPoolReady c;
                 c = upd_group (\<lambda>g. g\<lparr>first_sta_seen := False\<rparr>) c
             in (False, wpa_sta_disconnect (addr (sm c)) c)
        else let (r, kde) = wpa_parse_kde_ies (key_data data) in
          if r < 0 then (False, c)
          else let ie = (case kde_rsn_ie kde of Some e \<Rightarrow> Some e | None \<Rightarrow> kde_wpa_ie kde);
                   ft = (sm_wpa (sm c) = WPA_VERSION_WPA2 \<and> wpa_key_mgmt_ft (sm_wpa_key_mgmt (sm c)))
               in if sm_wpa_ie (sm c) = None \<or> wpa_compare_rsn_ie ft (sm_wpa_ie (sm c)) ie \<noteq> 0
                  then (False, wpa_sta_disconnect (addr (sm c)) c)
                  else (True, c))"

definition check_state :: "eapol_msg \<Rightarrow> bytes \<Rightarrow> wpa_ctx \<Rightarrow> bool \<times> wpa_ctx" where
  "check_state msg data c =
     (case msg of
        PAIRWISE_2 \<Rightarrow> check_pairwise_2 data c
      | PAIRWISE_4 \<Rightarrow> (wpa_ptk_state (sm c) = WPA_PTK_PTKINITNEGOTIATING \<and> PTK_valid (sm c), c)
      | GROUP_2 \<Rightarrow> (wpa_ptk_group_state (sm c) = WPA_PTK_GROUP_REKEYNEGOTIATING \<and> PTK_valid (sm c), c)
      | REQUEST \<Rightarrow> (True, c)
      | _ \<Rightarrow> (False, c))"

definition receive_check :: "bytes \<Rightarrow> wpa_ctx \<Rightarrow> bool \<times> wpa_ctx" where
  "receive_check data c =
     (let info = key_info_of data; msg = classify_msg info (key_data_length_of data) in
      if \<not> frame_fits (sm c) data \<or> \<not> version_ok (sm c) msg info \<or> \<not> counter_ok (sm c) data
      then (False, c)
      else let (go, c) = check_state msg data c in
        (go \<and> info AND WPA_KEY_INFO_ACK = 0 \<and> info AND WPA_KEY_INFO_MIC \<noteq> 0, c))"

definition receive_mic :: "bytes \<Rightarrow> wpa_ctx \<Rightarrow> bool \<times> wpa_ctx" where
  "receive_mic data c =
     (let c = upd_sm (\<lambda>s. s\<lparr>MICVerified := False\<rparr>) c in
      if \<not> PTK_valid (sm c) then (True, c)
      else if wpa_verify_key_mic (ptk_kck (PTK (sm c))) data \<noteq> 0 then (False, c)
      else let c = upd_sm (\<lambda>s. s\<lparr>MICVerified := True\<rparr>) c;
               c = eloop_cancel_timeout (Timer_send_eapol (addr (sm c))) c
           in (True, upd_sm (\<lambda>s. s\<lparr>pending_1_of_4_timeout := False\<rparr>) c))"

text \<open>The request kinds; the last needs the group, so it is left to the caller.\<close>

datatype request_kind = ErrorReport | NewHandshake | StationKey | GroupRekey

definition request_kind_of :: "bytes \<Rightarrow> request_kind" where
  "request_kind_of data =
     (let info = key_info_of data in
      if info AND WPA_KEY_INFO_ERROR \<noteq> 0 then ErrorReport
      else if info AND WPA_KEY_INFO_KEY_TYPE \<noteq> 0 then NewHandshake
      else if key_data_length_of data > 0 \<and> fst (wpa_parse_kde_ies (key_data data)) = 0 \<and>
              kde_mac_addr (snd (wpa_parse_kde_ies (key_data data))) \<noteq> None
      then StationKey else GroupRekey)"

definition report_error :: "wpa_ctx \<Rightarrow> wpa_ctx" where
  "report_error c =
     (let c = wpa_auth_mic_failure_report (addr (sm c)) c;
          c = upd_sm (\<lambda>s. s\<lparr>RemoteMICFailures := RemoteMICFailures s + 1\<rparr>) c;
          c = upd_auth (\<lambda>a. a\<lparr>auth_TKIPRemoteMICFailures := auth_TKIPRemoteMICFailures a + 1\<rparr>) c
      in upd_sm wpa_request_new_ptk c)"

definition note_request :: "bytes \<Rightarrow> wpa_ctx \<Rightarrow> wpa_ctx" where
  "note_request data c =
     upd_sm (\<lambda>s. s\<lparr>req_replay_counter_used := True, req_replay_counter := replay_counter_of data\<rparr>) c"

definition handle_request :: "nat \<Rightarrow> wpa_env \<Rightarrow> nat \<Rightarrow> bytes \<Rightarrow> wpa_world \<Rightarrow> wpa_world option" where
  "handle_request n env i data w =
     (case request_kind_of data of
        ErrorReport \<Rightarrow> Some (with_sta i report_error w)
      | NewHandshake \<Rightarrow> Some (on_sm i wpa_request_new_ptk w)
      | StationKey \<Rightarrow> Some w
      | GroupRekey \<Rightarrow> wpa_rekey_gtk n env (eloop_cancel_timeout Timer_rekey_gtk w))"

definition invalidate_replay :: "wpa_state_machine \<Rightarrow> wpa_state_machine" where
  "invalidate_replay s = s\<lparr>key_replay := (key_replay s)[0 := (key_replay s ! 0)\<lparr>valid := False\<rparr>]\<rparr>"

definition note_frame :: "bytes \<Rightarrow> wpa_state_machine \<Rightarrow> wpa_state_machine" where
  "note_frame data s =
     s\<lparr>last_rx_eapol_key := data, EAPOLKeyReceived := True,
       EAPOLKeyPairwise := (key_info_of data AND WPA_KEY_INFO_KEY_TYPE \<noteq> 0),
       EAPOLKeyRequest := (key_info_of data AND WPA_KEY_INFO_REQUEST \<noteq> 0),
       SNonce := key_nonce_of data\<rparr>"

definition accept_frame :: "nat \<Rightarrow> wpa_env \<Rightarrow> nat \<Rightarrow> bytes \<Rightarrow> wpa_world \<Rightarrow> wpa_world option" where
  "accept_frame n env i data w =
     (if key_info_of data AND WPA_KEY_INFO_REQUEST \<noteq> 0
      then (if \<not> sta_is MICVerified i w then Some w
            else case handle_request n env i data (with_sta i (note_request data) w) of
                   None \<Rightarrow> None
                 | Some w \<Rightarrow> sm_step_world n env i (on_sm i (note_frame data) w))
      else sm_step_world n env i (on_sm i (note_frame data) (on_sm i invalidate_replay w)))"

definition wpa_receive :: "nat \<Rightarrow> wpa_env \<Rightarrow> nat \<Rightarrow> bytes \<Rightarrow> wpa_world \<Rightarrow> wpa_world option" where
  "wpa_receive n env i data w =
     (if conf_wpa (conf (auth w)) = 0 then Some w
      else case sta_of i w of
        None \<Rightarrow> Some w
      | Some s \<Rightarrow>
          let (go, c) = receive_check data (ctx_of w s); w = put_ctx i c w in
          if \<not> go then Some w
          else let (go, c) = receive_mic data c; w = put_ctx i c w in
            if \<not> go then Some w else accept_frame n env i data w)"

end
