(* ===== verification/WpaFrame.thy ===== *)
theory WpaFrame
  imports WpaReceive
begin

text \<open>
  What each operation of the WPA authenticator changes and what it leaves alone: the state machine
  of the station as an update of the one before, the parts of the group that only key computations
  touch, and the outputs by kind. The proofs about the machines rest on these equations
  (\<open>step_simps\<close>) and not on the definitions.
\<close>

unbundle bit_operations_syntax

named_theorems step_simps

subsection \<open>What the calls and the group operations leave alone\<close>

lemma call_frame [step_simps]:
  "group (emit ev w) = group w" "auth (emit ev w) = auth w" "out (emit ev w) = out w @ [ev]"
  by (simp_all add: emit_def)

lemma call_frame_sm [step_simps]: "sm (emit ev c) = sm c"
  by (simp add: emit_def)

lemma call_frame_stas [step_simps]: "stas (emit ev w) = stas w"
  by (simp add: emit_def)

lemmas calls_emit [step_simps] = wpa_auth_set_eapol_def wpa_sta_disconnect_def
  wpa_auth_mic_failure_report_def wpa_auth_set_key_def wpa_auth_send_eapol_def
  eloop_register_timeout_def eloop_cancel_timeout_def

text \<open>The parts of the group that only key computations change.\<close>

definition group_frame :: "wpa_group \<Rightarrow> wpa_group \<Rightarrow> bool" where
  "group_frame g g' \<longleftrightarrow>
     GInit g' = GInit g \<and> GKeyDoneStations g' = GKeyDoneStations g \<and> GTKReKey g' = GTKReKey g \<and>
     GTK_len g' = GTK_len g \<and> GN g' = GN g \<and> GM g' = GM g \<and>
     GTKAuthenticator g' = GTKAuthenticator g \<and> wpa_group_state g' = wpa_group_state g \<and>
     group_changed g' = group_changed g \<and> first_sta_seen g' = first_sta_seen g"

lemma group_frame_refl [simp]: "group_frame g g"
  by (simp add: group_frame_def)

lemma group_frame_trans: "group_frame g h \<Longrightarrow> group_frame h k \<Longrightarrow> group_frame g k"
  by (simp add: group_frame_def)

lemma group_frame_upds [simp]:
  "group_frame g (g\<lparr>GMK := x\<rparr>)" "group_frame g (g\<lparr>Counter := y\<rparr>)" "group_frame g (g\<lparr>GNonce := z\<rparr>)"
  "group_frame g (g\<lparr>GTK := t\<rparr>)" "group_frame g (g\<lparr>reject_4way_hs_for_entropy := b\<rparr>)"
  "group_frame g (g\<lparr>GNonce := z, Counter := y\<rparr>)"
  by (simp_all add: group_frame_def)

lemma write_gtk_frame [simp]: "group_frame g (write_gtk i key g)"
  by (simp add: write_gtk_def split: option.splits)

text \<open>A computation on the group: the frame, the authenticator, and outputs of one kind only.\<close>

definition only_random :: "wpa_out list \<Rightarrow> bool" where
  "only_random es \<longleftrightarrow> (\<forall>e \<in> set es. \<exists>n. e = RandomBytes n)"

lemma only_random_simps [simp]:
  "only_random []" "only_random (e # es) \<longleftrightarrow> (\<exists>n. e = RandomBytes n) \<and> only_random es"
  "only_random (es @ fs) \<longleftrightarrow> only_random es \<and> only_random fs"
  by (auto simp: only_random_def)

definition group_op :: "'a wpa_base_scheme \<Rightarrow> 'a wpa_base_scheme \<Rightarrow> bool" where
  "group_op w w' \<longleftrightarrow>
     group_frame (group w) (group w') \<and> auth w' = auth w \<and> wpa_base.more w' = wpa_base.more w \<and>
     (\<exists>es. out w' = out w @ es \<and> only_random es)"

lemma group_op_refl [simp]: "group_op w w"
  by (simp add: group_op_def exI [of _ "[]"])

lemma group_op_trans: "group_op w v \<Longrightarrow> group_op v u \<Longrightarrow> group_op w u"
  unfolding group_op_def using group_frame_trans by fastforce

lemma group_op_upd: "group_frame (group w) g \<Longrightarrow> group_op w (w\<lparr>group := g\<rparr>)"
  by (simp add: group_op_def)

lemma group_op_random:
  "random_get_bytes env n w = (buf, ok, w') \<Longrightarrow> group_op w w'"
  by (auto simp: random_get_bytes_def emit_def group_op_def split: prod.splits)

lemma group_op_gmk_to_gtk:
  "wpa_gmk_to_gtk env gmk label a gnonce n w = (key, ret, w') \<Longrightarrow> group_op w w'"
  by (auto simp: wpa_gmk_to_gtk_def Let_def split: prod.splits option.splits dest!: group_op_random)

lemma group_op_gtk_update: "group_op w (snd (wpa_gtk_update env w))"
proof -
  let ?g = "(group w)\<lparr>GNonce := Counter (group w),
    Counter := inc_byte_array (Counter (group w)) WPA_NONCE_LEN\<rparr>"
  let ?w = "w\<lparr>group := ?g\<rparr>"
  obtain key ret v where v: "wpa_gmk_to_gtk env (GMK ?g) ''Group key expansion'' (auth_addr (auth w))
      (GNonce ?g) (GTK_len ?g) ?w = (key, ret, v)"
    by (cases "wpa_gmk_to_gtk env (GMK ?g) ''Group key expansion'' (auth_addr (auth w))
      (GNonce ?g) (GTK_len ?g) ?w") auto
  have "group_op w ?w" by (rule group_op_upd) simp
  moreover have "group_op ?w v" by (rule group_op_gmk_to_gtk [OF v])
  moreover have "group_op v (v\<lparr>group := write_gtk (GN ?g - 1) key (group v)\<rparr>)"
    by (rule group_op_upd) simp
  ultimately have "group_op w (v\<lparr>group := write_gtk (GN ?g - 1) key (group v)\<rparr>)"
    using group_op_trans by blast
  then show ?thesis using v by (simp add: wpa_gtk_update_def Let_def)
qed

lemma group_op_init_gmk: "group_op w (snd (wpa_group_init_gmk_and_counter env w))"
proof -
  obtain gmk ok v where v: "random_get_bytes env WPA_GMK_LEN w = (gmk, ok, v)"
    by (cases "random_get_bytes env WPA_GMK_LEN w") auto
  let ?v = "v\<lparr>group := (group v)\<lparr>GMK := gmk\<rparr>\<rparr>"
  obtain rkey ok' u where u: "random_get_bytes env 32 ?v = (rkey, ok', u)"
    by (cases "random_get_bytes env 32 ?v") auto
  have wv: "group_op w ?v"
    by (rule group_op_trans [OF group_op_random [OF v] group_op_upd]) simp
  have wu: "group_op w u" by (rule group_op_trans [OF wv group_op_random [OF u]])
  have wc: "group_op w (u\<lparr>group := (group u)\<lparr>Counter := x\<rparr>\<rparr>)" for x
    by (rule group_op_trans [OF wu group_op_upd]) simp
  show ?thesis
    using wv wu wc v u by (simp add: wpa_group_init_gmk_and_counter_def Let_def split: option.split)
qed

lemma group_op_fields:
  assumes "group_op w w'"
  shows "auth w' = auth w" "group_frame (group w) (group w')" "\<exists>es. out w' = out w @ es \<and> only_random es"
  using assms by (auto simp: group_op_def)

lemma group_op_sm: "group_op c c' \<Longrightarrow> sm c' = sm c"
  by (cases c; cases c') (simp add: group_op_def)

lemma group_op_stas: "group_op w w' \<Longrightarrow> stas w' = stas w"
  by (cases w; cases w') (simp add: group_op_def)

subsection \<open>What an operation on a station changes\<close>

text \<open>
  For every operation: the state machine afterwards as an update of the one before, and the group
  up to key computations. The outputs are listed by kind further down.
\<close>

lemma encrypt_frame:
  "encrypt_key_data v kde c = (b, c') \<Longrightarrow> sm c' = sm c \<and> auth c' = auth c \<and> out c' = out c \<and>
   group_frame (group c) (group c')"
  by (auto simp: encrypt_key_data_def upd_defs Let_def split: if_splits option.splits)

lemma frame_body_frame:
  "frame_body v kde encr c = (b, c') \<Longrightarrow> sm c' = sm c \<and> auth c' = auth c \<and> out c' = out c \<and>
   group_frame (group c) (group c')"
  unfolding frame_body_def
  by (cases kde) (auto split: if_splits dest: encrypt_frame)

text \<open>Outputs that neither install a key nor touch the port.\<close>

definition frame_out :: "wpa_out list \<Rightarrow> bool" where
  "frame_out es \<longleftrightarrow> (\<forall>e \<in> set es. \<exists>a d b. e = SetEapol a WPA_EAPOL_inc_EapolFramesTx 1 \<or>
     e = SendEapol a d b \<or> e = RegisterTimeout 1 0 (Timer_send_eapol a) \<or>
     e = RegisterTimeout 0 500000 (Timer_send_eapol a))"

lemma frame_out_simps [simp]:
  "frame_out []" "frame_out (es @ fs) \<longleftrightarrow> frame_out es \<and> frame_out fs"
  "frame_out (SendEapol a d b # es) \<longleftrightarrow> frame_out es"
  "frame_out (SetEapol a WPA_EAPOL_inc_EapolFramesTx 1 # es) \<longleftrightarrow> frame_out es"
  by (auto simp: frame_out_def)

lemma send_frame_frame:
  fixes c :: wpa_ctx
  shows "sm (wpa_send_eapol_frame i rsc nonce kde k encr f c) =
      (sm c)\<lparr>key_replay := next_replay (key_replay (sm c))\<rparr>"
    and "auth (wpa_send_eapol_frame i rsc nonce kde k encr f c) = auth c"
    and "group_frame (group c) (group (wpa_send_eapol_frame i rsc nonce kde k encr f c))"
    and "\<exists>es. out (wpa_send_eapol_frame i rsc nonce kde k encr f c) = out c @ es \<and> frame_out es"
proof -
  let ?v = "key_descriptor_version (sm c) f"
  let ?c = "c\<lparr>sm := (sm c)\<lparr>key_replay := next_replay (key_replay (sm c))\<rparr>\<rparr>"
  obtain b d where b: "frame_body ?v kde encr ?c = (b, d)"
    by (cases "frame_body ?v kde encr ?c") auto
  note fb = frame_body_frame [OF b]
  note defs = wpa_send_eapol_frame_def Let_def b calls_emit
  show "sm (wpa_send_eapol_frame i rsc nonce kde k encr f c) =
      (sm c)\<lparr>key_replay := next_replay (key_replay (sm c))\<rparr>"
    using fb by (simp add: defs step_simps upd_defs split: option.split)
  show "auth (wpa_send_eapol_frame i rsc nonce kde k encr f c) = auth c"
    using fb by (simp add: defs step_simps upd_defs split: option.split)
  show "group_frame (group c) (group (wpa_send_eapol_frame i rsc nonce kde k encr f c))"
    using fb by (simp add: defs step_simps upd_defs split: option.split)
  show "\<exists>es. out (wpa_send_eapol_frame i rsc nonce kde k encr f c) = out c @ es \<and> frame_out es"
    using fb by (simp add: defs step_simps upd_defs split: option.split)
qed

definition first_of_4 :: "u32 \<Rightarrow> wpa_state_machine \<Rightarrow> bool" where
  "first_of_4 info s \<longleftrightarrow>
     info AND WPA_KEY_INFO_KEY_TYPE \<noteq> 0 \<and> TimeoutCtr s = 1 \<and> info AND WPA_KEY_INFO_MIC = 0"

definition sent :: "u32 \<Rightarrow> wpa_state_machine \<Rightarrow> wpa_state_machine" where
  "sent info s =
     (let s' = s\<lparr>key_replay := next_replay (key_replay s)\<rparr>
      in if first_of_4 info s then s'\<lparr>pending_1_of_4_timeout := True\<rparr> else s')"

lemma send_eapol_frame:
  fixes c :: wpa_ctx
  shows "sm (wpa_send_eapol i rsc nonce kde k encr c) = sent i (sm c)"
    and "auth (wpa_send_eapol i rsc nonce kde k encr c) = auth c"
    and "group_frame (group c) (group (wpa_send_eapol i rsc nonce kde k encr c))"
    and "\<exists>es. out (wpa_send_eapol i rsc nonce kde k encr c) = out c @ es \<and> frame_out es"
proof -
  let ?c = "wpa_send_eapol_frame i rsc nonce kde k encr 0 c"
  obtain es where es: "out ?c = out c @ es" "frame_out es" using send_frame_frame(4) by blast
  note defs = wpa_send_eapol_def Let_def calls_emit upd_defs first_of_4_def step_simps
    send_frame_frame(1,2,3) es(1)
  show "sm (wpa_send_eapol i rsc nonce kde k encr c) = sent i (sm c)"
    by (simp add: defs sent_def)
  show "auth (wpa_send_eapol i rsc nonce kde k encr c) = auth c"
    by (simp add: defs)
  show "group_frame (group c) (group (wpa_send_eapol i rsc nonce kde k encr c))"
    by (simp add: defs)
  show "\<exists>es. out (wpa_send_eapol i rsc nonce kde k encr c) = out c @ es \<and> frame_out es"
    using es(2) by (auto simp: defs frame_out_def eapol_key_timeout_first_def eapol_key_timeout_subseq_def)
qed

lemma sent_fields [step_simps]:
  "addr (sent info s) = addr s" "wpa_ptk_state (sent info s) = wpa_ptk_state s"
  "wpa_ptk_group_state (sent info s) = wpa_ptk_group_state s" "Init (sent info s) = Init s"
  "DeauthenticationRequest (sent info s) = DeauthenticationRequest s"
  "AuthenticationRequest (sent info s) = AuthenticationRequest s"
  "ReAuthenticationRequest (sent info s) = ReAuthenticationRequest s"
  "Disconnect (sent info s) = Disconnect s" "TimeoutCtr (sent info s) = TimeoutCtr s"
  "GTimeoutCtr (sent info s) = GTimeoutCtr s" "TimeoutEvt (sent info s) = TimeoutEvt s"
  "EAPOLKeyReceived (sent info s) = EAPOLKeyReceived s"
  "EAPOLKeyPairwise (sent info s) = EAPOLKeyPairwise s"
  "EAPOLKeyRequest (sent info s) = EAPOLKeyRequest s" "MICVerified (sent info s) = MICVerified s"
  "GUpdateStationKeys (sent info s) = GUpdateStationKeys s" "ANonce (sent info s) = ANonce s"
  "SNonce (sent info s) = SNonce s" "PMK (sent info s) = PMK s" "PTK (sent info s) = PTK s"
  "PTK_valid (sent info s) = PTK_valid s" "pairwise_set (sent info s) = pairwise_set s"
  "keycount (sent info s) = keycount s" "Pair (sent info s) = Pair s"
  "PInitAKeys (sent info s) = PInitAKeys s" "PTKRequest (sent info s) = PTKRequest s"
  "has_GTK (sent info s) = has_GTK s" "PtkGroupInit (sent info s) = PtkGroupInit s"
  "last_rx_eapol_key (sent info s) = last_rx_eapol_key s" "sm_changed (sent info s) = sm_changed s"
  "in_step_loop (sent info s) = in_step_loop s" "pending_deinit (sent info s) = pending_deinit s"
  "started (sent info s) = started s" "req_replay_counter (sent info s) = req_replay_counter s"
  "req_replay_counter_used (sent info s) = req_replay_counter_used s"
  "sm_wpa_ie (sent info s) = sm_wpa_ie s" "sm_wpa (sent info s) = sm_wpa s"
  "pairwise (sent info s) = pairwise s" "sm_wpa_key_mgmt (sent info s) = sm_wpa_key_mgmt s"
  "sm_pmksa (sent info s) = sm_pmksa s" "RemoteMICFailures (sent info s) = RemoteMICFailures s"
  "key_replay (sent info s) = next_replay (key_replay s)"
  by (simp_all add: sent_def Let_def)

lemmas sent_frames [step_simps] = send_eapol_frame(1,2)

text \<open>
  Outputs that open something for the station: a pairwise key other than none, a valid port, an
  authorisation. An operation is quiet when it has none of them.
\<close>

definition opens :: "wpa_out \<Rightarrow> bool" where
  "opens e \<longleftrightarrow>
     (case e of
        SetKey alg a idx k \<Rightarrow> idx = 0 \<and> alg \<noteq> WPA_ALG_NONE
      | SetEapol a var n \<Rightarrow> (var = WPA_EAPOL_portValid \<or> var = WPA_EAPOL_authorized) \<and> n \<noteq> 0
      | _ \<Rightarrow> False)"

lemma opens_simps [simp]:
  "opens (SetEapol a var n) \<longleftrightarrow> (var = WPA_EAPOL_portValid \<or> var = WPA_EAPOL_authorized) \<and> n \<noteq> 0"
  "\<not> opens (StaDisconnect a)" "opens (SetKey alg a idx k) \<longleftrightarrow> idx = 0 \<and> alg \<noteq> WPA_ALG_NONE"
  "\<not> opens (SendEapol a d b)" "\<not> opens (MicFailureReport a)" "\<not> opens (RegisterTimeout x y t)"
  "\<not> opens (CancelTimeout t)" "\<not> opens (RandomBytes m)" "\<not> opens (AddRandomness d)"
  "\<not> opens MarkPoolReady"
  by (simp_all add: opens_def)

definition quiet :: "'a wpa_base_scheme \<Rightarrow> 'b wpa_base_scheme \<Rightarrow> bool" where
  "quiet w w' \<longleftrightarrow> (\<exists>es. out w' = out w @ es \<and> (\<forall>e \<in> set es. \<not> opens e))"

lemma quiet_refl [simp]: "quiet w w"
  by (simp add: quiet_def)

lemma quiet_add:
  assumes "quiet w v" "out u = out v @ es" "\<forall>e \<in> set es. \<not> opens e"
  shows "quiet w u"
proof -
  obtain fs where "out v = out w @ fs" "\<forall>e \<in> set fs. \<not> opens e"
    using assms(1) by (auto simp: quiet_def)
  with assms(2,3) show ?thesis by (auto simp: quiet_def)
qed

lemma quiet_trans:
  assumes "quiet w v" "quiet v u"
  shows "quiet w u"
proof -
  obtain es where "out u = out v @ es" "\<forall>e \<in> set es. \<not> opens e"
    using assms(2) by (auto simp: quiet_def)
  then show ?thesis by (rule quiet_add [OF assms(1)])
qed

lemma quiet_same: "out w' = out w \<Longrightarrow> quiet w w'"
  by (simp add: quiet_def)


lemma frame_out_not_opens:
  assumes "frame_out es" "e \<in> set es"
  shows "\<not> opens e"
proof -
  obtain a d b where "e = SetEapol a WPA_EAPOL_inc_EapolFramesTx 1 \<or>
      e = SendEapol a d b \<or> e = RegisterTimeout 1 0 (Timer_send_eapol a) \<or>
      e = RegisterTimeout 0 500000 (Timer_send_eapol a)"
    using assms unfolding frame_out_def by blast
  then show ?thesis by (elim disjE) simp_all
qed

lemma quiet_send: "quiet c (wpa_send_eapol i rsc nonce kde k encr c)"
proof -
  obtain es where "out (wpa_send_eapol i rsc nonce kde k encr c) = out c @ es" "frame_out es"
    using send_eapol_frame(4) by blast
  then show ?thesis
    by (intro quiet_add [OF quiet_refl]) (assumption, metis frame_out_not_opens)
qed

lemma quiet_group_op: "group_op w w' \<Longrightarrow> quiet w w'"
proof -
  assume "group_op w w'"
  then obtain es where "out w' = out w @ es" "only_random es" using group_op_fields(3) by blast
  then show ?thesis by (intro quiet_add [OF quiet_refl]) (auto simp: only_random_def)
qed

lemma remove_ptk_frame [step_simps]:
  "sm (wpa_remove_ptk env c) = (sm c)\<lparr>PTK_valid := False, PTK := replicate 64 0, pairwise_set := False\<rparr>"
  "auth (wpa_remove_ptk env c) = auth c" "group (wpa_remove_ptk env c) = group c"
  "out (wpa_remove_ptk env c) = out c @
     [SetKey WPA_ALG_NONE (addr (sm c)) 0 [], CancelTimeout (Timer_rekey_ptk (addr (sm c)))]"
  by (simp_all add: wpa_remove_ptk_def step_simps upd_defs Let_def)

lemma drop_group_update_frame [step_simps]:
  "sm (drop_group_update c) = (sm c)\<lparr>GUpdateStationKeys := False\<rparr>"
  "auth (drop_group_update c) = auth c" "out (drop_group_update c) = out c"
  "group (drop_group_update c) =
     (if GUpdateStationKeys (sm c)
      then (group c)\<lparr>GKeyDoneStations := GKeyDoneStations (group c) - 1\<rparr> else group c)"
  by (simp_all add: drop_group_update_def upd_defs Let_def)

lemma upd_frame [step_simps]:
  "sm (upd_sm f c) = f (sm c)" "group (upd_sm f c) = group c" "auth (upd_sm f c) = auth c"
  "out (upd_sm f c) = out c"
  "sm (upd_group g c) = sm c" "group (upd_group g c) = g (group c)" "auth (upd_group g c) = auth c"
  "out (upd_group g c) = out c"
  "sm (upd_auth h c) = sm c" "group (upd_auth h c) = group c" "auth (upd_auth h c) = h (auth c)"
  "out (upd_auth h c) = out c"
  by (simp_all add: upd_defs)

lemma count_failure_frame [step_simps]:
  "sm (count_failure c) = sm c" "group (count_failure c) = group c" "out (count_failure c) = out c"
  by (simp_all add: count_failure_def step_simps)

lemma INITIALIZE_frame [step_simps]:
  "sm (sm_WPA_PTK_INITIALIZE_Enter env c) = (sm c)\<lparr>
     sm_changed := \<not> Init (sm c), wpa_ptk_state := WPA_PTK_INITIALIZE, keycount := 0,
     GUpdateStationKeys := False,
     PInitAKeys := (if sm_wpa (sm c) = WPA_VERSION_WPA then False else PInitAKeys (sm c)),
     Pair := True, PTK_valid := False, PTK := replicate 64 0, pairwise_set := False, TimeoutCtr := 0\<rparr>"
  "group (sm_WPA_PTK_INITIALIZE_Enter env c) = group (drop_group_update c)"
  "auth (sm_WPA_PTK_INITIALIZE_Enter env c) = auth c"
  by (simp_all add: sm_WPA_PTK_INITIALIZE_Enter_def entry_WPA_PTK_def step_simps Let_def)

lemma DISCONNECT_frame [step_simps]:
  "sm (sm_WPA_PTK_DISCONNECT_Enter env c) =
     (sm c)\<lparr>sm_changed := True, wpa_ptk_state := WPA_PTK_DISCONNECT, Disconnect := False\<rparr>"
  "group (sm_WPA_PTK_DISCONNECT_Enter env c) = group c"
  "auth (sm_WPA_PTK_DISCONNECT_Enter env c) = auth c"
  by (simp_all add: sm_WPA_PTK_DISCONNECT_Enter_def entry_WPA_PTK_def step_simps Let_def)

lemma DISCONNECTED_frame [step_simps]:
  "sm (sm_WPA_PTK_DISCONNECTED_Enter env c) =
     (sm c)\<lparr>sm_changed := True, wpa_ptk_state := WPA_PTK_DISCONNECTED, DeauthenticationRequest := False\<rparr>"
  "group (sm_WPA_PTK_DISCONNECTED_Enter env c) = group c"
  "auth (sm_WPA_PTK_DISCONNECTED_Enter env c) = auth c"
  by (simp_all add: sm_WPA_PTK_DISCONNECTED_Enter_def entry_WPA_PTK_def step_simps Let_def)

lemma AUTHENTICATION_frame [step_simps]:
  "sm (sm_WPA_PTK_AUTHENTICATION_Enter env c) =
     (sm c)\<lparr>sm_changed := True, wpa_ptk_state := WPA_PTK_AUTHENTICATION, PTK := replicate 64 0,
       PTK_valid := False, AuthenticationRequest := False\<rparr>"
  "group (sm_WPA_PTK_AUTHENTICATION_Enter env c) = group c"
  "auth (sm_WPA_PTK_AUTHENTICATION_Enter env c) = auth c"
  by (simp_all add: sm_WPA_PTK_AUTHENTICATION_Enter_def entry_WPA_PTK_def step_simps Let_def)

text \<open>A group key is configured under the index \<open>GN\<close>, which is never 0.\<close>

lemma config_group_keys_frame:
  "group (snd (wpa_group_config_group_keys env w)) = group w"
  "auth (snd (wpa_group_config_group_keys env w)) = auth w"
  "out (snd (wpa_group_config_group_keys env w)) = out w @
     [SetKey (wpa_alg_enum (conf_wpa_group (conf (auth w)))) broadcast_ether_addr (GN (group w))
       (gtk_now (group w))]"
  by (simp_all add: wpa_group_config_group_keys_def step_simps Let_def)

lemma config_group_keys_sm: "sm (snd (wpa_group_config_group_keys env c)) = sm c"
  by (simp add: wpa_group_config_group_keys_def step_simps Let_def)

lemma config_group_keys_stas: "stas (snd (wpa_group_config_group_keys env w)) = stas w"
  by (simp add: wpa_group_config_group_keys_def step_simps Let_def)

definition reject_ctx :: "wpa_env \<Rightarrow> wpa_ctx \<Rightarrow> wpa_ctx" where
  "reject_ctx env c =
     (if env_pool_ready env (out c) \<noteq> 1
      then c\<lparr>group := (group c)\<lparr>reject_4way_hs_for_entropy := True\<rparr>\<rparr> else c)"

lemma first_station_frame:
  fixes c :: wpa_ctx
  shows "sm (wpa_group_first_station env c) = sm c"
    and "auth (wpa_group_first_station env c) = auth c"
    and "group_frame (group c) (group (wpa_group_first_station env c))"
    and "GN (group c) \<noteq> 0 \<Longrightarrow> quiet c (wpa_group_first_station env c)"
proof -
  let ?r = "reject_ctx env c"
  let ?u = "snd (wpa_gtk_update env (snd (wpa_group_init_gmk_and_counter env ?r)))"
  have r: "group_op c ?r" by (auto simp: reject_ctx_def intro: group_op_upd)
  have u: "group_op c ?u"
    by (rule group_op_trans [OF r group_op_trans [OF group_op_init_gmk group_op_gtk_update]])
  have eq: "wpa_group_first_station env c = snd (wpa_group_config_group_keys env ?u)"
    by (simp add: wpa_group_first_station_def reject_ctx_def Let_def)
  show "sm (wpa_group_first_station env c) = sm c"
    using group_op_sm [OF u] by (simp add: eq config_group_keys_sm)
  show "auth (wpa_group_first_station env c) = auth c"
    using group_op_fields(1) [OF u] by (simp add: eq config_group_keys_frame)
  show fr: "group_frame (group c) (group (wpa_group_first_station env c))"
    using group_op_fields(2) [OF u] by (simp add: eq config_group_keys_frame)
  assume gn: "GN (group c) \<noteq> 0"
  have "GN (group ?u) = GN (group c)" using group_op_fields(2) [OF u] by (simp add: group_frame_def)
  with gn show "quiet c (wpa_group_first_station env c)"
    unfolding eq by (intro quiet_add [OF quiet_group_op [OF u] config_group_keys_frame(3)]) simp
qed

lemmas first_station_simps [step_simps] = first_station_frame(1,2)

text \<open>The group when the nonce is taken.\<close>

definition auth2_ctx :: "wpa_env \<Rightarrow> wpa_ctx \<Rightarrow> wpa_ctx" where
  "auth2_ctx env c =
     (let c = upd_sm (entry_WPA_PTK WPA_PTK_AUTHENTICATION2) c in
      if \<not> first_sta_seen (group c)
      then upd_group (\<lambda>g. g\<lparr>first_sta_seen := True\<rparr>) (wpa_group_first_station env c) else c)"

lemma AUTHENTICATION2_frame [step_simps]:
  "sm (sm_WPA_PTK_AUTHENTICATION2_Enter env c) = (sm c)\<lparr>sm_changed := True,
     wpa_ptk_state := WPA_PTK_AUTHENTICATION2, ANonce := Counter (group (auth2_ctx env c)),
     ReAuthenticationRequest := False, TimeoutCtr := 0\<rparr>"
  "auth (sm_WPA_PTK_AUTHENTICATION2_Enter env c) = auth c"
  by (simp_all add: sm_WPA_PTK_AUTHENTICATION2_Enter_def auth2_ctx_def entry_WPA_PTK_def step_simps Let_def)

text \<open>The parts of the group that matter to the group machine.\<close>

definition group_same :: "wpa_group \<Rightarrow> wpa_group \<Rightarrow> bool" where
  "group_same g g' \<longleftrightarrow>
     GInit g' = GInit g \<and> GKeyDoneStations g' = GKeyDoneStations g \<and> GTKReKey g' = GTKReKey g \<and>
     GTK_len g' = GTK_len g \<and> GN g' = GN g \<and> GM g' = GM g \<and>
     GTKAuthenticator g' = GTKAuthenticator g \<and> wpa_group_state g' = wpa_group_state g \<and>
     group_changed g' = group_changed g"

lemma group_frame_same: "group_frame g g' \<Longrightarrow> group_same g g'"
  by (simp add: group_frame_def group_same_def)

lemma group_same_refl [simp]: "group_same g g"
  by (simp add: group_same_def)

lemma AUTHENTICATION2_group:
  "group_same (group c) (group (sm_WPA_PTK_AUTHENTICATION2_Enter env c))"
  using first_station_frame(3) [of "upd_sm (entry_WPA_PTK WPA_PTK_AUTHENTICATION2) c" env]
  by (simp add: sm_WPA_PTK_AUTHENTICATION2_Enter_def step_simps Let_def group_frame_def group_same_def)

lemma AUTHENTICATION2_quiet:
  assumes "GN (group c) \<noteq> 0"
  shows "quiet c (sm_WPA_PTK_AUTHENTICATION2_Enter env c)"
proof -
  let ?c = "upd_sm (entry_WPA_PTK WPA_PTK_AUTHENTICATION2) c"
  have "quiet ?c (wpa_group_first_station env ?c)"
    using assms by (intro first_station_frame(4)) (simp add: step_simps)
  then show ?thesis
    by (simp add: sm_WPA_PTK_AUTHENTICATION2_Enter_def step_simps Let_def quiet_def)
qed

lemma INITPMK_frame [step_simps]:
  "sm (sm_WPA_PTK_INITPMK_Enter env c) = (sm c)\<lparr>sm_changed := True, wpa_ptk_state := WPA_PTK_INITPMK,
     PMK := (case sm_pmksa (sm c) of
       Some e \<Rightarrow> take PMK_LEN (entry_pmk e)
     | None \<Rightarrow> (case env_get_msk env (out c) (addr (sm c)) of
          Some msk \<Rightarrow> take PMK_LEN (msk @ env_uninit env) | None \<Rightarrow> PMK (sm c))),
     req_replay_counter_used := False\<rparr>"
  "group (sm_WPA_PTK_INITPMK_Enter env c) = group c"
  "auth (sm_WPA_PTK_INITPMK_Enter env c) = auth c"
  by (simp_all add: sm_WPA_PTK_INITPMK_Enter_def entry_WPA_PTK_def step_simps Let_def split: option.split)

lemma INITPSK_frame [step_simps]:
  "sm (sm_WPA_PTK_INITPSK_Enter env c) = (sm c)\<lparr>sm_changed := True, wpa_ptk_state := WPA_PTK_INITPSK,
     PMK := (case hostapd_get_psk (env_psk env) (addr (sm c)) None of
       Some i \<Rightarrow> take PMK_LEN (psk_psk (env_psk env ! i)) | None \<Rightarrow> PMK (sm c)),
     req_replay_counter_used := False\<rparr>"
  "group (sm_WPA_PTK_INITPSK_Enter env c) = group c"
  "auth (sm_WPA_PTK_INITPSK_Enter env c) = auth c"
  "out (sm_WPA_PTK_INITPSK_Enter env c) = out c"
  by (simp_all add: sm_WPA_PTK_INITPSK_Enter_def entry_WPA_PTK_def step_simps Let_def split: option.split)

abbreviation "msg1_info \<equiv> WPA_KEY_INFO_ACK OR WPA_KEY_INFO_KEY_TYPE"

lemma PTKSTART_frame [step_simps]:
  "sm (sm_WPA_PTK_PTKSTART_Enter env c) =
     (let s = (sm c)\<lparr>sm_changed := True, wpa_ptk_state := WPA_PTK_PTKSTART, PTKRequest := False,
            TimeoutEvt := False, TimeoutCtr := TimeoutCtr (sm c) + 1\<rparr>
      in if TimeoutCtr s > 4 then s else sent msg1_info s)"
  "auth (sm_WPA_PTK_PTKSTART_Enter env c) = auth c"
  by (simp_all add: sm_WPA_PTK_PTKSTART_Enter_def entry_WPA_PTK_def step_simps Let_def
      dot11RSNAConfigPairwiseUpdateCount_def)

lemma PTKSTART_group: "group_frame (group c) (group (sm_WPA_PTK_PTKSTART_Enter env c))"
proof -
  let ?c = "upd_sm (\<lambda>s. s\<lparr>PTKRequest := False, TimeoutEvt := False, TimeoutCtr := TimeoutCtr s + 1\<rparr>)
    (upd_sm (entry_WPA_PTK WPA_PTK_PTKSTART) c)"
  have "group_frame (group ?c) (group (wpa_send_eapol msg1_info None (Some (ANonce (sm ?c)))
      (pmkid_kde env ?c) 0 False ?c))"
    by (rule send_eapol_frame(3))
  then show ?thesis by (simp add: sm_WPA_PTK_PTKSTART_Enter_def Let_def step_simps)
qed

lemma PTKSTART_quiet: "quiet c (sm_WPA_PTK_PTKSTART_Enter env c)"
proof -
  let ?c = "upd_sm (\<lambda>s. s\<lparr>PTKRequest := False, TimeoutEvt := False, TimeoutCtr := TimeoutCtr s + 1\<rparr>)
    (upd_sm (entry_WPA_PTK WPA_PTK_PTKSTART) c)"
  have "quiet ?c (wpa_send_eapol msg1_info None (Some (ANonce (sm ?c))) (pmkid_kde env ?c) 0 False ?c)"
    by (rule quiet_send)
  then show ?thesis by (simp add: sm_WPA_PTK_PTKSTART_Enter_def Let_def step_simps quiet_def)
qed

definition calc_ctx :: "wpa_ctx \<Rightarrow> wpa_ctx" where
  "calc_ctx c = upd_sm (\<lambda>s. s\<lparr>EAPOLKeyReceived := False\<rparr>)
     (upd_sm (entry_WPA_PTK WPA_PTK_PTKCALCNEGOTIATING) c)"

lemma PTKCALCNEGOTIATING_frame [step_simps]:
  "sm (sm_WPA_PTK_PTKCALCNEGOTIATING_Enter env c) =
     (let s = (sm c)\<lparr>sm_changed := True, wpa_ptk_state := WPA_PTK_PTKCALCNEGOTIATING,
            EAPOLKeyReceived := False\<rparr>
      in case ptk_search env (calc_ctx c) None of
           None \<Rightarrow> s
         | Some (pmk, ptk) \<Rightarrow> s\<lparr>pending_1_of_4_timeout := False,
             PMK := (if wpa_key_mgmt_wpa_psk (sm_wpa_key_mgmt (sm c)) then take PMK_LEN pmk else PMK (sm c)),
             MICVerified := True, PTK := ptk, PTK_valid := True\<rparr>)"
  "auth (sm_WPA_PTK_PTKCALCNEGOTIATING_Enter env c) = auth c"
  "group (sm_WPA_PTK_PTKCALCNEGOTIATING_Enter env c) = group c"
  by (simp_all add: sm_WPA_PTK_PTKCALCNEGOTIATING_Enter_def calc_ctx_def [symmetric] Let_def step_simps
      split: option.split)
     (simp_all add: calc_ctx_def step_simps entry_WPA_PTK_def)

lemma PTKCALCNEGOTIATING_quiet: "quiet c (sm_WPA_PTK_PTKCALCNEGOTIATING_Enter env c)"
  by (auto simp: sm_WPA_PTK_PTKCALCNEGOTIATING_Enter_def calc_ctx_def [symmetric] Let_def step_simps quiet_def
      split: option.split)
     (simp_all add: calc_ctx_def step_simps entry_WPA_PTK_def)

lemma PTKCALCNEGOTIATING2_frame [step_simps]:
  "sm (sm_WPA_PTK_PTKCALCNEGOTIATING2_Enter env c) =
     (sm c)\<lparr>sm_changed := True, wpa_ptk_state := WPA_PTK_PTKCALCNEGOTIATING2, TimeoutCtr := 0\<rparr>"
  "auth (sm_WPA_PTK_PTKCALCNEGOTIATING2_Enter env c) = auth c"
  "group (sm_WPA_PTK_PTKCALCNEGOTIATING2_Enter env c) = group c"
  "out (sm_WPA_PTK_PTKCALCNEGOTIATING2_Enter env c) = out c"
  by (simp_all add: sm_WPA_PTK_PTKCALCNEGOTIATING2_Enter_def entry_WPA_PTK_def step_simps Let_def)

definition msg3_info :: "wpa_state_machine \<Rightarrow> u32" where
  "msg3_info s = (if sm_wpa s = WPA_VERSION_WPA2 then WPA_KEY_INFO_SECURE else 0) OR WPA_KEY_INFO_MIC OR
     WPA_KEY_INFO_ACK OR WPA_KEY_INFO_INSTALL OR WPA_KEY_INFO_KEY_TYPE"

lemma PTKINITNEGOTIATING_frame [step_simps]:
  "sm (sm_WPA_PTK_PTKINITNEGOTIATING_Enter env c) =
     (let s = (sm c)\<lparr>sm_changed := True, wpa_ptk_state := WPA_PTK_PTKINITNEGOTIATING,
            TimeoutEvt := False, TimeoutCtr := TimeoutCtr (sm c) + 1\<rparr>
      in if TimeoutCtr s > 4 then s else sent (msg3_info (sm c)) s)"
  "auth (sm_WPA_PTK_PTKINITNEGOTIATING_Enter env c) = auth c"
  by (simp_all add: sm_WPA_PTK_PTKINITNEGOTIATING_Enter_def entry_WPA_PTK_def step_simps Let_def
      msg3_info_def dot11RSNAConfigPairwiseUpdateCount_def)

lemma PTKINITNEGOTIATING_group: "group_frame (group c) (group (sm_WPA_PTK_PTKINITNEGOTIATING_Enter env c))"
  using send_eapol_frame(3) [where c = "upd_sm (\<lambda>s. s\<lparr>TimeoutEvt := False, TimeoutCtr := TimeoutCtr s + 1\<rparr>)
    (upd_sm (entry_WPA_PTK WPA_PTK_PTKINITNEGOTIATING) c)"]
  by (simp add: sm_WPA_PTK_PTKINITNEGOTIATING_Enter_def Let_def step_simps)

lemma PTKINITNEGOTIATING_quiet: "quiet c (sm_WPA_PTK_PTKINITNEGOTIATING_Enter env c)"
  using quiet_send [where c = "upd_sm (\<lambda>s. s\<lparr>TimeoutEvt := False, TimeoutCtr := TimeoutCtr s + 1\<rparr>)
    (upd_sm (entry_WPA_PTK WPA_PTK_PTKINITNEGOTIATING) c)"]
  by (simp add: sm_WPA_PTK_PTKINITNEGOTIATING_Enter_def Let_def step_simps quiet_def)

text \<open>Whether the driver takes the pairwise key.\<close>

definition key_taken :: "wpa_env \<Rightarrow> wpa_ctx \<Rightarrow> bool" where
  "key_taken env c \<longleftrightarrow>
     Pair (sm c) \<longrightarrow> env_set_key env (out c) (fst (pairwise_alg (pairwise (sm c)))) (addr (sm c)) = 0"

lemma PTKINITDONE_frame [step_simps]:
  "sm (sm_WPA_PTK_PTKINITDONE_Enter env c) =
     (let s = (sm c)\<lparr>sm_changed := True, wpa_ptk_state := WPA_PTK_PTKINITDONE, EAPOLKeyReceived := False\<rparr>;
          s = (if Pair s \<and> key_taken env c then s\<lparr>pairwise_set := True\<rparr> else s)
      in if \<not> key_taken env c then s
         else if sm_wpa s = WPA_VERSION_WPA then s\<lparr>PInitAKeys := True\<rparr> else s\<lparr>has_GTK := True\<rparr>)"
  "auth (sm_WPA_PTK_PTKINITDONE_Enter env c) = auth c"
  "group (sm_WPA_PTK_PTKINITDONE_Enter env c) = group c"
  by (simp_all add: sm_WPA_PTK_PTKINITDONE_Enter_def ptkinitdone_ports_def entry_WPA_PTK_def step_simps
      key_taken_def Let_def split: prod.split)

lemma IDLE_frame [step_simps]:
  "sm (sm_WPA_PTK_GROUP_IDLE_Enter env c) = (sm c)\<lparr>sm_changed := \<not> Init (sm c),
     wpa_ptk_group_state := WPA_PTK_GROUP_IDLE, GTimeoutCtr := 0\<rparr>"
  "auth (sm_WPA_PTK_GROUP_IDLE_Enter env c) = auth c"
  "group (sm_WPA_PTK_GROUP_IDLE_Enter env c) = group c"
  "out (sm_WPA_PTK_GROUP_IDLE_Enter env c) = out c"
  by (simp_all add: sm_WPA_PTK_GROUP_IDLE_Enter_def entry_WPA_PTK_GROUP_def step_simps Let_def)

definition group1_info :: "wpa_state_machine \<Rightarrow> u32" where
  "group1_info s = WPA_KEY_INFO_SECURE OR WPA_KEY_INFO_MIC OR WPA_KEY_INFO_ACK OR
     (if \<not> Pair s then WPA_KEY_INFO_INSTALL else 0)"

lemma REKEYNEGOTIATING_frame [step_simps]:
  "sm (sm_WPA_PTK_GROUP_REKEYNEGOTIATING_Enter env c) =
     (let s = (sm c)\<lparr>sm_changed := True, wpa_ptk_group_state := WPA_PTK_GROUP_REKEYNEGOTIATING,
            GTimeoutCtr := GTimeoutCtr (sm c) + 1\<rparr>
      in if GTimeoutCtr s > 4 then s
         else sent (group1_info (sm c)) (s\<lparr>
           PInitAKeys := (if sm_wpa (sm c) = WPA_VERSION_WPA then False else PInitAKeys (sm c)),
           TimeoutEvt := False\<rparr>))"
  "auth (sm_WPA_PTK_GROUP_REKEYNEGOTIATING_Enter env c) = auth c"
  by (simp_all add: sm_WPA_PTK_GROUP_REKEYNEGOTIATING_Enter_def entry_WPA_PTK_GROUP_def step_simps Let_def
      group1_info_def dot11RSNAConfigGroupUpdateCount_def)

lemma REKEYNEGOTIATING_group:
  "group_frame (group c) (group (sm_WPA_PTK_GROUP_REKEYNEGOTIATING_Enter env c))"
  using send_eapol_frame(3) unfolding group_frame_def
  by (simp add: sm_WPA_PTK_GROUP_REKEYNEGOTIATING_Enter_def Let_def step_simps)

lemma REKEYNEGOTIATING_quiet: "quiet c (sm_WPA_PTK_GROUP_REKEYNEGOTIATING_Enter env c)"
  by (simp add: sm_WPA_PTK_GROUP_REKEYNEGOTIATING_Enter_def Let_def step_simps quiet_same)
     (auto intro!: quiet_trans [OF quiet_same quiet_send] simp: step_simps)

lemma REKEYESTABLISHED_frame [step_simps]:
  "sm (sm_WPA_PTK_GROUP_REKEYESTABLISHED_Enter env c) = (sm c)\<lparr>sm_changed := True,
     wpa_ptk_group_state := WPA_PTK_GROUP_REKEYESTABLISHED, EAPOLKeyReceived := False,
     GUpdateStationKeys := False, GTimeoutCtr := 0, has_GTK := True\<rparr>"
  "auth (sm_WPA_PTK_GROUP_REKEYESTABLISHED_Enter env c) = auth c"
  "out (sm_WPA_PTK_GROUP_REKEYESTABLISHED_Enter env c) = out c"
  "group (sm_WPA_PTK_GROUP_REKEYESTABLISHED_Enter env c) = group (drop_group_update c)"
  by (simp_all add: sm_WPA_PTK_GROUP_REKEYESTABLISHED_Enter_def entry_WPA_PTK_GROUP_def step_simps Let_def)

lemma KEYERROR_frame [step_simps]:
  "sm (sm_WPA_PTK_GROUP_KEYERROR_Enter env c) = (sm c)\<lparr>sm_changed := True,
     wpa_ptk_group_state := WPA_PTK_GROUP_KEYERROR, GUpdateStationKeys := False, Disconnect := True\<rparr>"
  "auth (sm_WPA_PTK_GROUP_KEYERROR_Enter env c) = auth c"
  "out (sm_WPA_PTK_GROUP_KEYERROR_Enter env c) = out c"
  "group (sm_WPA_PTK_GROUP_KEYERROR_Enter env c) = group (drop_group_update c)"
  by (simp_all add: sm_WPA_PTK_GROUP_KEYERROR_Enter_def entry_WPA_PTK_GROUP_def step_simps Let_def)

subsection \<open>Steps\<close>

lemma simple_quiet:
  "quiet c (sm_WPA_PTK_INITIALIZE_Enter env c)" "quiet c (sm_WPA_PTK_DISCONNECT_Enter env c)"
  "quiet c (sm_WPA_PTK_DISCONNECTED_Enter env c)" "quiet c (sm_WPA_PTK_AUTHENTICATION_Enter env c)"
  "quiet c (sm_WPA_PTK_INITPMK_Enter env c)" "quiet c (sm_WPA_PTK_INITPSK_Enter env c)"
  "quiet c (sm_WPA_PTK_PTKCALCNEGOTIATING2_Enter env c)" "quiet c (count_failure c)"
  "quiet c (sm_WPA_PTK_GROUP_IDLE_Enter env c)" "quiet c (sm_WPA_PTK_GROUP_REKEYESTABLISHED_Enter env c)"
  "quiet c (sm_WPA_PTK_GROUP_KEYERROR_Enter env c)"
  by (simp_all add: sm_WPA_PTK_INITIALIZE_Enter_def sm_WPA_PTK_DISCONNECT_Enter_def
      sm_WPA_PTK_DISCONNECTED_Enter_def sm_WPA_PTK_AUTHENTICATION_Enter_def sm_WPA_PTK_INITPMK_Enter_def
      step_simps quiet_def Let_def split: option.split)

lemma DISCONNECT_failure_quiet: "quiet c (sm_WPA_PTK_DISCONNECT_Enter env (count_failure c))"
  by (rule quiet_trans [OF simple_quiet(8,2)])

text \<open>The only step that opens anything is the entry into \<open>PTKINITDONE\<close>.\<close>

lemma PTK_step_quiet:
  assumes "GN (group c) \<noteq> 0"
    and "wpa_ptk_state (sm c) = WPA_PTK_PTKINITNEGOTIATING \<Longrightarrow> \<not> (pairwise_reply (sm c) \<and> MICVerified (sm c))"
  shows "quiet c (sm_WPA_PTK_Step env c)"
  using assms(2)
  unfolding sm_WPA_PTK_Step_def
  by (auto simp: simple_quiet DISCONNECT_failure_quiet AUTHENTICATION2_quiet [OF assms(1)] PTKSTART_quiet
      PTKCALCNEGOTIATING_quiet PTKINITNEGOTIATING_quiet split: wpa_ptk_st.split)

lemma GROUP_step_quiet: "quiet c (sm_WPA_PTK_GROUP_Step env c)"
proof -
  have "quiet c (upd_sm f (sm_WPA_PTK_GROUP_IDLE_Enter env c))" for f
    by (simp add: quiet_same step_simps)
  then show ?thesis
    by (auto simp: sm_WPA_PTK_GROUP_Step_def simple_quiet REKEYNEGOTIATING_quiet split: wpa_ptk_group_st.split)
qed

text \<open>Neither machine changes the authenticator except for the count of failures.\<close>

lemma group_same_frames:
  "group_same (group c) (group (sm_WPA_PTK_PTKSTART_Enter env c))"
  "group_same (group c) (group (sm_WPA_PTK_PTKINITNEGOTIATING_Enter env c))"
  "group_same (group c) (group (sm_WPA_PTK_GROUP_REKEYNEGOTIATING_Enter env c))"
  using PTKSTART_group PTKINITNEGOTIATING_group REKEYNEGOTIATING_group
  by (auto intro: group_frame_same)

text \<open>The group after a step of a station, with the count of stations that wait for a group key.\<close>

definition counted :: "wpa_ctx \<Rightarrow> int" where
  "counted c = GKeyDoneStations (group c) - (if GUpdateStationKeys (sm c) then 1 else 0)"

definition group_kept :: "wpa_ctx \<Rightarrow> wpa_ctx \<Rightarrow> bool" where
  "group_kept c c' \<longleftrightarrow>
     GInit (group c') = GInit (group c) \<and> GTKReKey (group c') = GTKReKey (group c) \<and>
     GTK_len (group c') = GTK_len (group c) \<and> GN (group c') = GN (group c) \<and> GM (group c') = GM (group c) \<and>
     GTKAuthenticator (group c') = GTKAuthenticator (group c) \<and>
     wpa_group_state (group c') = wpa_group_state (group c) \<and>
     group_changed (group c') = group_changed (group c) \<and> counted c' = counted c"

lemma group_kept_refl [simp]: "group_kept c c"
  by (simp add: group_kept_def)

lemma group_kept_trans: "group_kept c d \<Longrightarrow> group_kept d e \<Longrightarrow> group_kept c e"
  by (simp add: group_kept_def)

lemma group_kept_same:
  "group_same (group c) (group c') \<Longrightarrow> GUpdateStationKeys (sm c') = GUpdateStationKeys (sm c) \<Longrightarrow>
   group_kept c c'"
  by (simp add: group_same_def group_kept_def counted_def)

lemma group_kept_drop:
  "group c' = group (drop_group_update c) \<Longrightarrow> \<not> GUpdateStationKeys (sm c') \<Longrightarrow> group_kept c c'"
  by (simp add: group_kept_def counted_def step_simps)

lemma start_GU: "GUpdateStationKeys (sm (sm_WPA_PTK_PTKSTART_Enter env c)) = GUpdateStationKeys (sm c)"
  by (simp add: step_simps Let_def)

lemma calc_GU: "GUpdateStationKeys (sm (sm_WPA_PTK_PTKCALCNEGOTIATING_Enter env c)) = GUpdateStationKeys (sm c)"
  by (simp add: step_simps Let_def split: option.split)

lemma initneg_GU: "GUpdateStationKeys (sm (sm_WPA_PTK_PTKINITNEGOTIATING_Enter env c)) = GUpdateStationKeys (sm c)"
  by (simp add: step_simps Let_def)

lemma done_GU: "GUpdateStationKeys (sm (sm_WPA_PTK_PTKINITDONE_Enter env c)) = GUpdateStationKeys (sm c)"
  by (simp add: step_simps Let_def)

lemma rekeyneg_GU:
  "GUpdateStationKeys (sm (sm_WPA_PTK_GROUP_REKEYNEGOTIATING_Enter env c)) = GUpdateStationKeys (sm c)"
  by (simp add: step_simps Let_def)

lemma enter_kept:
  "group_kept c (sm_WPA_PTK_INITIALIZE_Enter env c)" "group_kept c (sm_WPA_PTK_DISCONNECT_Enter env c)"
  "group_kept c (sm_WPA_PTK_DISCONNECTED_Enter env c)" "group_kept c (sm_WPA_PTK_AUTHENTICATION_Enter env c)"
  "group_kept c (sm_WPA_PTK_AUTHENTICATION2_Enter env c)" "group_kept c (sm_WPA_PTK_INITPMK_Enter env c)"
  "group_kept c (sm_WPA_PTK_INITPSK_Enter env c)" "group_kept c (sm_WPA_PTK_PTKSTART_Enter env c)"
  "group_kept c (sm_WPA_PTK_PTKCALCNEGOTIATING_Enter env c)"
  "group_kept c (sm_WPA_PTK_PTKCALCNEGOTIATING2_Enter env c)"
  "group_kept c (sm_WPA_PTK_PTKINITNEGOTIATING_Enter env c)" "group_kept c (sm_WPA_PTK_PTKINITDONE_Enter env c)"
  "group_kept c (sm_WPA_PTK_GROUP_IDLE_Enter env c)"
  "group_kept c (sm_WPA_PTK_GROUP_REKEYNEGOTIATING_Enter env c)"
  "group_kept c (sm_WPA_PTK_GROUP_REKEYESTABLISHED_Enter env c)"
  "group_kept c (sm_WPA_PTK_GROUP_KEYERROR_Enter env c)" "group_kept c (count_failure c)"
proof -
  show "group_kept c (sm_WPA_PTK_INITIALIZE_Enter env c)" by (rule group_kept_drop) (simp_all add: step_simps)
  show "group_kept c (sm_WPA_PTK_DISCONNECT_Enter env c)" by (rule group_kept_same) (simp_all add: step_simps)
  show "group_kept c (sm_WPA_PTK_DISCONNECTED_Enter env c)" by (rule group_kept_same) (simp_all add: step_simps)
  show "group_kept c (sm_WPA_PTK_AUTHENTICATION_Enter env c)" by (rule group_kept_same) (simp_all add: step_simps)
  show "group_kept c (sm_WPA_PTK_AUTHENTICATION2_Enter env c)"
    by (rule group_kept_same [OF AUTHENTICATION2_group]) (simp add: step_simps)
  show "group_kept c (sm_WPA_PTK_INITPMK_Enter env c)" by (rule group_kept_same) (simp_all add: step_simps)
  show "group_kept c (sm_WPA_PTK_INITPSK_Enter env c)" by (rule group_kept_same) (simp_all add: step_simps)
  show "group_kept c (sm_WPA_PTK_PTKSTART_Enter env c)"
    by (rule group_kept_same [OF group_same_frames(1) start_GU])
  show "group_kept c (sm_WPA_PTK_PTKCALCNEGOTIATING_Enter env c)"
    by (rule group_kept_same [OF _ calc_GU]) (simp add: step_simps)
  show "group_kept c (sm_WPA_PTK_PTKCALCNEGOTIATING2_Enter env c)"
    by (rule group_kept_same) (simp_all add: step_simps)
  show "group_kept c (sm_WPA_PTK_PTKINITNEGOTIATING_Enter env c)"
    by (rule group_kept_same [OF group_same_frames(2) initneg_GU])
  show "group_kept c (sm_WPA_PTK_PTKINITDONE_Enter env c)"
    by (rule group_kept_same [OF _ done_GU]) (simp add: step_simps)
  show "group_kept c (sm_WPA_PTK_GROUP_IDLE_Enter env c)" by (rule group_kept_same) (simp_all add: step_simps)
  show "group_kept c (sm_WPA_PTK_GROUP_REKEYNEGOTIATING_Enter env c)"
    by (rule group_kept_same [OF group_same_frames(3) rekeyneg_GU])
  show "group_kept c (sm_WPA_PTK_GROUP_REKEYESTABLISHED_Enter env c)"
    by (rule group_kept_drop) (simp_all add: step_simps)
  show "group_kept c (sm_WPA_PTK_GROUP_KEYERROR_Enter env c)"
    by (rule group_kept_drop) (simp_all add: step_simps)
  show "group_kept c (count_failure c)" by (rule group_kept_same) (simp_all add: step_simps)
qed

lemma failure_kept: "group_kept c (sm_WPA_PTK_DISCONNECT_Enter env (count_failure c))"
  by (rule group_kept_trans [OF enter_kept(17) enter_kept(2)])

lemma PTK_step_kept: "group_kept c (sm_WPA_PTK_Step env c)"
  unfolding sm_WPA_PTK_Step_def
  by (simp add: enter_kept failure_kept split: wpa_ptk_st.split)

lemma GROUP_step_kept: "group_kept c (sm_WPA_PTK_GROUP_Step env c)"
proof -
  have "group_kept c (upd_sm (\<lambda>s. s\<lparr>PtkGroupInit := False\<rparr>) (sm_WPA_PTK_GROUP_IDLE_Enter env c))"
    by (rule group_kept_same) (simp_all add: step_simps)
  then show ?thesis
    unfolding sm_WPA_PTK_GROUP_Step_def by (simp add: enter_kept split: wpa_ptk_group_st.split)
qed

end
