(* ===== verification/WpaCalm.thy ===== *)
theory WpaCalm
  imports WpaFrame
begin

text \<open>
  The loop of one station. While no group rekeying is pending the group machine does not visit the
  stations, so \<open>wpa_sm_step\<close> is a loop over the station, the group and the outputs
  (\<open>loop_ctx\<close>). A rank shows that it ends, and what holds of a station at rest.
\<close>

unbundle bit_operations_syntax

subsection \<open>The loop of one station\<close>

text \<open>
  While no group rekeying is asked for, the group machine never visits the stations: one round of
  the loop is a function of the station, the group and the outputs.
\<close>

definition calm :: "wpa_group \<Rightarrow> bool" where
  "calm g \<longleftrightarrow> \<not> GInit g \<and> \<not> GTKReKey g \<and> GTKAuthenticator g"

definition group_quick :: "wpa_env \<Rightarrow> 'a wpa_base_scheme \<Rightarrow> 'a wpa_base_scheme" where
  "group_quick env w =
     (if wpa_group_state (group w) = WPA_GROUP_GTK_INIT \<or>
         wpa_group_state (group w) = WPA_GROUP_SETKEYS \<and> GKeyDoneStations (group w) = 0
      then snd (wpa_group_setkeysdone env w) else w)"

lemma group_step_calm:
  "calm (group w) \<Longrightarrow> wpa_group_sm_step env step w = Some (group_quick env w)"
  by (cases "wpa_group_state (group w)") (auto simp: wpa_group_sm_step_def group_quick_def calm_def Let_def)

lemma setkeysdone_frame [step_simps]:
  "group (snd (wpa_group_setkeysdone env w)) =
     (group w)\<lparr>group_changed := True, wpa_group_state := WPA_GROUP_SETKEYSDONE\<rparr>"
  "auth (snd (wpa_group_setkeysdone env w)) = auth w"
  "out (snd (wpa_group_setkeysdone env w)) = out w @
     [SetKey (wpa_alg_enum (conf_wpa_group (conf (auth w)))) broadcast_ether_addr (GN (group w))
       (gtk_now (group w))]"
  by (simp_all add: wpa_group_setkeysdone_def wpa_group_config_group_keys_def step_simps Let_def gtk_now_def)

lemma setkeysdone_sm: "sm (snd (wpa_group_setkeysdone env c)) = sm c"
  by (simp add: wpa_group_setkeysdone_def wpa_group_config_group_keys_def step_simps Let_def)

lemma setkeysdone_stas: "stas (snd (wpa_group_setkeysdone env w)) = stas w"
  by (simp add: wpa_group_setkeysdone_def wpa_group_config_group_keys_def step_simps Let_def)

lemma group_quick_sm [simp]: "sm (group_quick env c) = sm c"
  by (simp add: group_quick_def setkeysdone_sm)

lemma group_quick_stas [simp]: "stas (group_quick env w) = stas w"
  by (simp add: group_quick_def setkeysdone_stas)

lemma group_quick_auth [simp]: "auth (group_quick env w) = auth w"
  by (simp add: group_quick_def step_simps)

lemma group_quick_quiet: "GN (group w) \<noteq> 0 \<Longrightarrow> quiet w (group_quick env w)"
  by (auto simp: group_quick_def intro!: quiet_add [OF quiet_refl setkeysdone_frame(3)])

text \<open>Two views with the same base take the same step.\<close>

lemma group_quick_base:
  fixes w :: "'a wpa_base_scheme" and v :: "'b wpa_base_scheme"
  assumes "group w = group v" "auth w = auth v" "out w = out v"
  shows "group (group_quick env w) = group (group_quick env v)"
    and "out (group_quick env w) = out (group_quick env v)"
  using assms by (simp_all add: group_quick_def step_simps)

definition round_ctx :: "wpa_env \<Rightarrow> wpa_ctx \<Rightarrow> wpa_ctx" where
  "round_ctx env c =
     (let c = upd_group (\<lambda>g. g\<lparr>group_changed := False\<rparr>) (upd_sm (\<lambda>s. s\<lparr>sm_changed := False\<rparr>) c)
      in group_quick env (sm_WPA_PTK_GROUP_Step env (sm_WPA_PTK_Step env c)))"

definition ctx_changed :: "wpa_ctx \<Rightarrow> bool" where
  "ctx_changed c \<longleftrightarrow> sm_changed (sm c) \<or> group_changed (group c)"

primrec loop_ctx :: "nat \<Rightarrow> wpa_env \<Rightarrow> wpa_ctx \<Rightarrow> wpa_ctx option" where
  "loop_ctx 0 env c = None"
| "loop_ctx (Suc n) env c =
     (let c = round_ctx env c in if ctx_changed c then loop_ctx n env c else Some c)"

text \<open>No step of the machines touches these fields of the station.\<close>

definition sm_kept :: "wpa_state_machine \<Rightarrow> wpa_state_machine \<Rightarrow> bool" where
  "sm_kept s s' \<longleftrightarrow>
     addr s' = addr s \<and> Init s' = Init s \<and> in_step_loop s' = in_step_loop s \<and>
     pending_deinit s' = pending_deinit s \<and> started s' = started s \<and> sm_wpa s' = sm_wpa s \<and>
     EAPOLKeyPairwise s' = EAPOLKeyPairwise s \<and> EAPOLKeyRequest s' = EAPOLKeyRequest s \<and>
     SNonce s' = SNonce s \<and> last_rx_eapol_key s' = last_rx_eapol_key s \<and>
     pairwise s' = pairwise s \<and> sm_wpa_key_mgmt s' = sm_wpa_key_mgmt s \<and> sm_wpa_ie s' = sm_wpa_ie s"

lemma sm_kept_refl [simp]: "sm_kept s s"
  by (simp add: sm_kept_def)

lemma sm_kept_trans: "sm_kept s t \<Longrightarrow> sm_kept t u \<Longrightarrow> sm_kept s u"
  by (simp add: sm_kept_def)

lemma enter_sm_kept:
  "sm_kept (sm c) (sm (sm_WPA_PTK_INITIALIZE_Enter env c))"
  "sm_kept (sm c) (sm (sm_WPA_PTK_DISCONNECT_Enter env c))"
  "sm_kept (sm c) (sm (sm_WPA_PTK_DISCONNECTED_Enter env c))"
  "sm_kept (sm c) (sm (sm_WPA_PTK_AUTHENTICATION_Enter env c))"
  "sm_kept (sm c) (sm (sm_WPA_PTK_AUTHENTICATION2_Enter env c))"
  "sm_kept (sm c) (sm (sm_WPA_PTK_INITPMK_Enter env c))"
  "sm_kept (sm c) (sm (sm_WPA_PTK_INITPSK_Enter env c))"
  "sm_kept (sm c) (sm (sm_WPA_PTK_PTKCALCNEGOTIATING2_Enter env c))"
  "sm_kept (sm c) (sm (sm_WPA_PTK_GROUP_IDLE_Enter env c))"
  "sm_kept (sm c) (sm (sm_WPA_PTK_GROUP_REKEYESTABLISHED_Enter env c))"
  "sm_kept (sm c) (sm (sm_WPA_PTK_GROUP_KEYERROR_Enter env c))"
  "sm_kept (sm c) (sm (sm_WPA_PTK_PTKSTART_Enter env c))"
  "sm_kept (sm c) (sm (sm_WPA_PTK_PTKINITNEGOTIATING_Enter env c))"
  "sm_kept (sm c) (sm (sm_WPA_PTK_GROUP_REKEYNEGOTIATING_Enter env c))"
  "sm_kept (sm c) (sm (sm_WPA_PTK_PTKINITDONE_Enter env c))"
  by (simp_all add: sm_kept_def step_simps Let_def)

lemma calc_sm_kept: "sm_kept (sm c) (sm (sm_WPA_PTK_PTKCALCNEGOTIATING_Enter env c))"
  by (simp add: sm_kept_def step_simps Let_def split: option.split)

lemma failure_sm_kept: "sm_kept (sm c) (sm (sm_WPA_PTK_DISCONNECT_Enter env (count_failure c)))"
  by (simp add: sm_kept_def step_simps)

lemma PTK_step_sm_kept: "sm_kept (sm c) (sm (sm_WPA_PTK_Step env c))"
  unfolding sm_WPA_PTK_Step_def
  by (simp add: enter_sm_kept calc_sm_kept failure_sm_kept split: wpa_ptk_st.split)

lemma GROUP_step_sm_kept: "sm_kept (sm c) (sm (sm_WPA_PTK_GROUP_Step env c))"
proof -
  have "sm_kept (sm c) (sm (upd_sm (\<lambda>s. s\<lparr>PtkGroupInit := False\<rparr>) (sm_WPA_PTK_GROUP_IDLE_Enter env c)))"
    by (simp add: sm_kept_def step_simps)
  then show ?thesis
    unfolding sm_WPA_PTK_GROUP_Step_def by (simp add: enter_sm_kept split: wpa_ptk_group_st.split)
qed

subsection \<open>From the world to the station\<close>

lemma sta_of_bound: "sta_of i w = Some s \<Longrightarrow> i < length (stas w)"
  by (simp add: sta_of_def split: if_splits)

lemma put_ctx_simps [step_simps]:
  "group (put_ctx i c w) = group c" "auth (put_ctx i c w) = auth c" "out (put_ctx i c w) = out c"
  "stas (put_ctx i c w) = (stas w)[i := Some (sm c)]"
  by (simp_all add: put_ctx_def)

lemma ctx_of_simps [step_simps]:
  "group (ctx_of w s) = group w" "auth (ctx_of w s) = auth w" "out (ctx_of w s) = out w"
  "sm (ctx_of w s) = s"
  by (simp_all add: ctx_of_def)

lemma sta_of_put: "i < length (stas w) \<Longrightarrow> sta_of i (put_ctx i c w) = Some (sm c)"
  by (simp add: sta_of_def step_simps)

lemma sta_of_put_other: "j \<noteq> i \<Longrightarrow> sta_of j (put_ctx i c w) = sta_of j w"
  by (simp add: sta_of_def step_simps)

lemma ctx_of_put: "ctx_of (put_ctx i c w) (sm c) = c"
  by (cases c) (simp add: ctx_of_def put_ctx_def)

lemma put_put: "put_ctx i d (put_ctx i c w) = put_ctx i d w"
  by (simp add: put_ctx_def)

lemma with_sta_put: "i < length (stas w) \<Longrightarrow> with_sta i f (put_ctx i c w) = put_ctx i (f c) w"
  by (simp add: with_sta_def sta_of_put ctx_of_put put_put)

lemma with_sta_some: "sta_of i w = Some s \<Longrightarrow> with_sta i f w = put_ctx i (f (ctx_of w s)) w"
  by (simp add: with_sta_def)

lemma put_self: "sta_of i w = Some s \<Longrightarrow> put_ctx i (ctx_of w s) w = w"
  by (cases w) (auto simp: put_ctx_def ctx_of_def sta_of_def list_update_same_conv split: if_splits)

lemma wpa_world_eqI:
  "group w = group v \<Longrightarrow> auth w = auth v \<Longrightarrow> out w = out v \<Longrightarrow> stas w = stas v \<Longrightarrow> w = (v :: wpa_world)"
  by (cases w; cases v) simp

lemma group_quick_put: "group_quick env (put_ctx i c w) = put_ctx i (group_quick env c) w"
  by (rule wpa_world_eqI)
     (simp_all add: group_quick_base [of "put_ctx i c w" c] step_simps)

lemma clear_changed_put:
  "sta_of i w = Some s \<Longrightarrow> clear_changed i w =
     put_ctx i (upd_group (\<lambda>g. g\<lparr>group_changed := False\<rparr>) (upd_sm (\<lambda>s. s\<lparr>sm_changed := False\<rparr>) (ctx_of w s))) w"
  by (rule wpa_world_eqI)
     (simp_all add: clear_changed_def on_sm_def with_sta_some Let_def step_simps)

lemma round_group_calm:
  "calm (group c) \<Longrightarrow> calm (group (sm_WPA_PTK_GROUP_Step env (sm_WPA_PTK_Step env c)))"
  using group_kept_trans [OF PTK_step_kept GROUP_step_kept, of c env env]
  by (simp add: group_kept_def calm_def)

lemma round_sm_kept: "sm_kept (sm c) (sm (round_ctx env c))"
proof -
  let ?c = "upd_group (\<lambda>g. g\<lparr>group_changed := False\<rparr>) (upd_sm (\<lambda>s. s\<lparr>sm_changed := False\<rparr>) c)"
  have "sm_kept (sm c) (sm ?c)" by (simp add: sm_kept_def step_simps)
  then have "sm_kept (sm c) (sm (sm_WPA_PTK_GROUP_Step env (sm_WPA_PTK_Step env ?c)))"
    using sm_kept_trans PTK_step_sm_kept GROUP_step_sm_kept by blast
  then show ?thesis by (simp add: round_ctx_def Let_def)
qed

lemma group_quick_calm: "calm (group c) \<Longrightarrow> calm (group (group_quick env c))"
  by (simp add: group_quick_def step_simps calm_def)

lemma round_calm:
  assumes "calm (group c)"
  shows "calm (group (round_ctx env c))"
proof -
  let ?c = "upd_group (\<lambda>g. g\<lparr>group_changed := False\<rparr>) (upd_sm (\<lambda>s. s\<lparr>sm_changed := False\<rparr>) c)"
  have "calm (group ?c)" using assms by (simp add: calm_def step_simps)
  then show ?thesis by (simp add: round_ctx_def Let_def round_group_calm group_quick_calm)
qed

lemma sm_loop_ctx:
  assumes "sta_of i w = Some s" "\<not> pending_deinit s" "calm (group w)"
  shows "wpa_sm_loop n env i w = map_option (\<lambda>c. put_ctx i c w) (loop_ctx n env (ctx_of w s))"
  using assms
proof (induction n arbitrary: w s)
  case (Suc n)
  let ?c0 = "upd_group (\<lambda>g. g\<lparr>group_changed := False\<rparr>) (upd_sm (\<lambda>s. s\<lparr>sm_changed := False\<rparr>) (ctx_of w s))"
  let ?c1 = "sm_WPA_PTK_Step env ?c0" and ?c2 = "sm_WPA_PTK_GROUP_Step env (sm_WPA_PTK_Step env ?c0)"
  let ?c3 = "round_ctx env (ctx_of w s)"
  have i: "i < length (stas w)" by (rule sta_of_bound [OF Suc.prems(1)])
  have c3: "?c3 = group_quick env ?c2" by (simp add: round_ctx_def Let_def)
  have p1: "\<not> pending_deinit (sm ?c1)"
    using PTK_step_sm_kept [of ?c0 env] Suc.prems(2) by (simp add: sm_kept_def step_simps)
  have p2: "\<not> pending_deinit (sm ?c2)"
    using GROUP_step_sm_kept [of ?c1 env] p1 by (simp add: sm_kept_def)
  have p3: "\<not> pending_deinit (sm ?c3)" using p2 by (simp add: c3)
  have calm2: "calm (group ?c2)"
    using Suc.prems(3) by (intro round_group_calm) (simp add: calm_def step_simps)
  have calm3: "calm (group ?c3)" unfolding c3 by (rule group_quick_calm [OF calm2])
  have gstep: "wpa_group_sm_step env st (put_ctx i ?c2 w) = Some (put_ctx i ?c3 w)" for st
    using calm2 by (simp add: group_step_calm step_simps group_quick_put c3)
  have is3: "sta_is sm_changed i (put_ctx i ?c3 w) = sm_changed (sm ?c3)"
    using i by (simp add: sta_is_def sta_of_put)
  have IH: "wpa_sm_loop n env i (put_ctx i ?c3 w) =
      map_option (\<lambda>c. put_ctx i c (put_ctx i ?c3 w)) (loop_ctx n env (ctx_of (put_ctx i ?c3 w) (sm ?c3)))"
    by (rule Suc.IH) (use i p3 calm3 in \<open>simp_all add: sta_of_put step_simps\<close>)
  have nopend: "sta_is pending_deinit i w = False" "sta_is pending_deinit i (put_ctx i ?c1 w) = False"
    "sta_is pending_deinit i (put_ctx i ?c2 w) = False"
    using i p1 p2 Suc.prems(1,2) by (simp_all add: sta_is_def sta_of_put)
  show ?case
    unfolding wpa_sm_loop.simps loop_ctx.simps nopend(1) if_False clear_changed_put [OF Suc.prems(1)]
      with_sta_put [OF i] Let_def nopend(2,3) gstep option.case is3
    by (simp add: IH ctx_of_put put_put ctx_changed_def step_simps)
qed simp

lemma sm_step_ctx:
  assumes "sta_of i w = Some s" "\<not> pending_deinit s" "\<not> in_step_loop s" "calm (group w)"
    and kept: "\<And>c. loop_ctx n env (ctx_of w (s\<lparr>in_step_loop := True\<rparr>)) = Some c \<Longrightarrow> \<not> pending_deinit (sm c)"
  shows "wpa_sm_step n env i w = map_option (\<lambda>c. (0, put_ctx i (upd_sm (\<lambda>s. s\<lparr>in_step_loop := False\<rparr>) c) w))
    (loop_ctx n env (ctx_of w (s\<lparr>in_step_loop := True\<rparr>)))"
proof -
  let ?s = "s\<lparr>in_step_loop := True\<rparr>"
  let ?w = "put_ctx i (ctx_of w ?s) w"
  have i: "i < length (stas w)" by (rule sta_of_bound [OF assms(1)])
  have enter: "on_sm i (\<lambda>s. s\<lparr>in_step_loop := True\<rparr>) w = ?w"
    using assms(1) by (simp add: on_sm_def with_sta_some upd_sm_def ctx_of_def)
  have sm: "sta_of i ?w = Some ?s" using i by (simp add: sta_of_put step_simps)
  have ctx: "ctx_of ?w ?s = ctx_of w ?s" using ctx_of_put [of i "ctx_of w ?s" w] by (simp add: step_simps)
  have loop: "wpa_sm_loop n env i ?w = map_option (\<lambda>c. put_ctx i c w) (loop_ctx n env (ctx_of w ?s))"
    using sm_loop_ctx [OF sm, of n env] assms(2,4) by (simp add: step_simps ctx put_put)
  show ?thesis
  proof (cases "loop_ctx n env (ctx_of w ?s)")
    case None
    then show ?thesis using assms(1,3) by (simp add: wpa_sm_step_def sm_step_around_def enter loop)
  next
    case (Some c)
    then show ?thesis using assms(1,3) kept [OF Some] i
      by (simp add: wpa_sm_step_def sm_step_around_def enter [unfolded on_sm_def] loop on_sm_def with_sta_put sta_is_def sta_of_put
          step_simps)
  qed
qed

subsection \<open>The loop ends\<close>

text \<open>
  Every entry into a state uses up something: a request, a received frame, a timeout, or it moves
  towards a state of rest. The weights are chosen so that what an entry sets costs less than what
  it uses up.
\<close>

primrec ptk_weight :: "wpa_ptk_st \<Rightarrow> nat" where
  "ptk_weight WPA_PTK_INITIALIZE = 0"
| "ptk_weight WPA_PTK_DISCONNECT = 2"
| "ptk_weight WPA_PTK_DISCONNECTED = 1"
| "ptk_weight WPA_PTK_AUTHENTICATION = 6"
| "ptk_weight WPA_PTK_AUTHENTICATION2 = 5"
| "ptk_weight WPA_PTK_INITPMK = 4"
| "ptk_weight WPA_PTK_INITPSK = 4"
| "ptk_weight WPA_PTK_PTKSTART = 3"
| "ptk_weight WPA_PTK_PTKCALCNEGOTIATING = 5"
| "ptk_weight WPA_PTK_PTKCALCNEGOTIATING2 = 4"
| "ptk_weight WPA_PTK_PTKINITNEGOTIATING = 3"
| "ptk_weight WPA_PTK_PTKINITDONE = 0"

definition wt :: "nat \<Rightarrow> bool \<Rightarrow> nat" where
  "wt n b = (if b then n else 0)"

lemma wt_simps [simp]: "wt n True = n" "wt n False = 0"
  by (simp_all add: wt_def)

lemma wt_bound: "wt n b \<le> n"
  by (simp add: wt_def)

definition group_weight :: "wpa_state_machine \<Rightarrow> nat" where
  "group_weight s =
     (case wpa_ptk_group_state s of
        WPA_PTK_GROUP_IDLE \<Rightarrow> wt 7 (GUpdateStationKeys s)
      | WPA_PTK_GROUP_REKEYNEGOTIATING \<Rightarrow> 5 + wt 1 (GTimeoutCtr s \<le> 4)
      | _ \<Rightarrow> 1 + wt 7 (GUpdateStationKeys s))"

definition flag_weight :: "wpa_state_machine \<Rightarrow> nat" where
  "flag_weight s = wt 3 (Disconnect s) + wt 2 (DeauthenticationRequest s) +
     wt 7 (AuthenticationRequest s) + wt 6 (ReAuthenticationRequest s) + wt 4 (PTKRequest s) +
     wt 1 (TimeoutEvt s) + wt 8 (EAPOLKeyReceived s) + wt 8 (PtkGroupInit s) +
     wt 7 (sm_wpa s = WPA_VERSION_WPA \<and> PInitAKeys s)"

definition rank :: "wpa_state_machine \<Rightarrow> nat" where
  "rank s = ptk_weight (wpa_ptk_state s) + flag_weight s + group_weight s"

lemma rank_bound: "rank s \<le> 60"
proof -
  have "ptk_weight (wpa_ptk_state s) \<le> 6" by (cases "wpa_ptk_state s") simp_all
  moreover have "flag_weight s \<le> 3 + 2 + 7 + 6 + 4 + 1 + 8 + 8 + 7"
    unfolding flag_weight_def by (intro add_mono wt_bound)
  moreover have "group_weight s \<le> 8"
    by (simp add: group_weight_def wt_def split: wpa_ptk_group_st.split)
  ultimately show ?thesis by (simp add: rank_def)
qed

lemmas rank_defs = rank_def flag_weight_def group_weight_def

definition idle_zero :: "wpa_state_machine \<Rightarrow> bool" where
  "idle_zero s \<longleftrightarrow> (wpa_ptk_group_state s = WPA_PTK_GROUP_IDLE \<longrightarrow> GTimeoutCtr s = 0)"

text \<open>An entry of the pairwise machine: it is marked, the group machine is as it was, and the rank drops.\<close>

definition entered :: "wpa_state_machine \<Rightarrow> wpa_state_machine \<Rightarrow> bool" where
  "entered s s' \<longleftrightarrow> sm_changed s' \<and> rank s' < rank s \<and> (idle_zero s \<longrightarrow> idle_zero s')"

lemma group_weight_cong:
  "wpa_ptk_group_state s' = wpa_ptk_group_state s \<Longrightarrow> GUpdateStationKeys s' = GUpdateStationKeys s \<Longrightarrow>
   GTimeoutCtr s' = GTimeoutCtr s \<Longrightarrow> group_weight s' = group_weight s"
  by (simp add: group_weight_def split: wpa_ptk_group_st.split)

lemma sent_rank [simp]: "rank (sent i s) = rank s"
proof -
  have "group_weight (sent i s) = group_weight s" by (rule group_weight_cong) (simp_all add: step_simps)
  then show ?thesis by (simp add: rank_def flag_weight_def step_simps)
qed

lemma sent_entered [simp]: "entered s (sent i s') \<longleftrightarrow> entered s s'"
  by (simp add: entered_def idle_zero_def step_simps)

text \<open>An entry that leaves the group machine alone.\<close>

lemma enteredI:
  assumes "sm_changed s'" "wpa_ptk_group_state s' = wpa_ptk_group_state s"
    and "GUpdateStationKeys s' = GUpdateStationKeys s" "GTimeoutCtr s' = GTimeoutCtr s"
    and "ptk_weight (wpa_ptk_state s') + flag_weight s' < ptk_weight (wpa_ptk_state s) + flag_weight s"
  shows "entered s s'"
  using assms group_weight_cong [of s' s] by (simp add: entered_def idle_zero_def rank_def)

lemma entered_DISCONNECT:
  "Disconnect (sm c) \<or> ptk_weight (wpa_ptk_state (sm c)) \<ge> 3 \<Longrightarrow>
   entered (sm c) (sm (sm_WPA_PTK_DISCONNECT_Enter env c))"
  by (rule enteredI) (auto simp: flag_weight_def step_simps)

lemma entered_failure:
  "ptk_weight (wpa_ptk_state (sm c)) \<ge> 3 \<Longrightarrow>
   entered (sm c) (sm (sm_WPA_PTK_DISCONNECT_Enter env (count_failure c)))"
  using entered_DISCONNECT [of "count_failure c" env] by (simp add: step_simps)

lemma entered_DISCONNECTED:
  "DeauthenticationRequest (sm c) \<or> ptk_weight (wpa_ptk_state (sm c)) \<ge> 2 \<Longrightarrow>
   entered (sm c) (sm (sm_WPA_PTK_DISCONNECTED_Enter env c))"
  by (rule enteredI) (auto simp: flag_weight_def step_simps)

lemma group_weight_drop:
  "wpa_ptk_group_state s' = wpa_ptk_group_state s \<Longrightarrow> \<not> GUpdateStationKeys s' \<Longrightarrow>
   GTimeoutCtr s' = GTimeoutCtr s \<Longrightarrow> group_weight s' \<le> group_weight s"
  by (simp add: group_weight_def split: wpa_ptk_group_st.split)

lemma INITIALIZE_weights:
  "group_weight (sm (sm_WPA_PTK_INITIALIZE_Enter env c)) \<le> group_weight (sm c)"
  "flag_weight (sm (sm_WPA_PTK_INITIALIZE_Enter env c)) \<le> flag_weight (sm c)"
  by (rule group_weight_drop) (simp_all add: flag_weight_def wt_def step_simps)

lemma entered_INITIALIZE:
  "\<not> Init (sm c) \<Longrightarrow> ptk_weight (wpa_ptk_state (sm c)) \<ge> 1 \<Longrightarrow>
   entered (sm c) (sm (sm_WPA_PTK_INITIALIZE_Enter env c))"
  using INITIALIZE_weights [of env c] by (simp add: entered_def idle_zero_def rank_def step_simps)

lemma entered_AUTHENTICATION:
  "AuthenticationRequest (sm c) \<Longrightarrow> entered (sm c) (sm (sm_WPA_PTK_AUTHENTICATION_Enter env c))"
  by (rule enteredI) (auto simp: flag_weight_def step_simps)

lemma entered_AUTHENTICATION2:
  "ReAuthenticationRequest (sm c) \<or> ptk_weight (wpa_ptk_state (sm c)) \<ge> 6 \<Longrightarrow>
   entered (sm c) (sm (sm_WPA_PTK_AUTHENTICATION2_Enter env c))"
  by (rule enteredI) (auto simp: flag_weight_def step_simps)

lemma entered_INITPMK:
  "ptk_weight (wpa_ptk_state (sm c)) \<ge> 5 \<Longrightarrow> entered (sm c) (sm (sm_WPA_PTK_INITPMK_Enter env c))"
  by (rule enteredI) (auto simp: flag_weight_def step_simps)

lemma entered_INITPSK:
  "ptk_weight (wpa_ptk_state (sm c)) \<ge> 5 \<Longrightarrow> entered (sm c) (sm (sm_WPA_PTK_INITPSK_Enter env c))"
  by (rule enteredI) (auto simp: flag_weight_def step_simps)

lemma entered_PTKSTART:
  assumes "PTKRequest (sm c) \<or> ptk_weight (wpa_ptk_state (sm c)) \<ge> 4 \<or>
    ptk_weight (wpa_ptk_state (sm c)) = 3 \<and> TimeoutEvt (sm c)"
  shows "entered (sm c) (sm (sm_WPA_PTK_PTKSTART_Enter env c))"
proof -
  let ?s = "(sm c)\<lparr>sm_changed := True, wpa_ptk_state := WPA_PTK_PTKSTART, PTKRequest := False,
    TimeoutEvt := False, TimeoutCtr := TimeoutCtr (sm c) + 1\<rparr>"
  have "entered (sm c) ?s" by (rule enteredI) (use assms in \<open>auto simp: flag_weight_def\<close>)
  then show ?thesis by (simp add: PTKSTART_frame Let_def)
qed

lemma entered_PTKCALCNEGOTIATING:
  assumes "EAPOLKeyReceived (sm c)" "ptk_weight (wpa_ptk_state (sm c)) \<ge> 3"
  shows "entered (sm c) (sm (sm_WPA_PTK_PTKCALCNEGOTIATING_Enter env c))"
  using assms
  by (cases "ptk_search env (calc_ctx c) None")
     (auto intro!: enteredI simp: flag_weight_def PTKCALCNEGOTIATING_frame Let_def)

lemma entered_PTKCALCNEGOTIATING2:
  "ptk_weight (wpa_ptk_state (sm c)) \<ge> 5 \<Longrightarrow> entered (sm c) (sm (sm_WPA_PTK_PTKCALCNEGOTIATING2_Enter env c))"
  by (rule enteredI) (auto simp: flag_weight_def step_simps)

lemma entered_PTKINITNEGOTIATING:
  assumes "ptk_weight (wpa_ptk_state (sm c)) \<ge> 4 \<or> ptk_weight (wpa_ptk_state (sm c)) = 3 \<and> TimeoutEvt (sm c)"
  shows "entered (sm c) (sm (sm_WPA_PTK_PTKINITNEGOTIATING_Enter env c))"
proof -
  let ?s = "(sm c)\<lparr>sm_changed := True, wpa_ptk_state := WPA_PTK_PTKINITNEGOTIATING,
    TimeoutEvt := False, TimeoutCtr := TimeoutCtr (sm c) + 1\<rparr>"
  have "entered (sm c) ?s" by (rule enteredI) (use assms in \<open>auto simp: flag_weight_def\<close>)
  then show ?thesis by (simp add: PTKINITNEGOTIATING_frame Let_def)
qed

lemma entered_PTKINITDONE:
  assumes "EAPOLKeyReceived (sm c)"
  shows "entered (sm c) (sm (sm_WPA_PTK_PTKINITDONE_Enter env c))"
proof (rule enteredI)
  show "ptk_weight (wpa_ptk_state (sm (sm_WPA_PTK_PTKINITDONE_Enter env c))) +
      flag_weight (sm (sm_WPA_PTK_PTKINITDONE_Enter env c)) <
    ptk_weight (wpa_ptk_state (sm c)) + flag_weight (sm c)"
    using assms wt_bound [of 7 "sm_wpa (sm c) = WPA_VERSION_WPA \<and> PInitAKeys (sm c)"]
    by (cases "key_taken env c"; cases "sm_wpa (sm c) = WPA_VERSION_WPA"; cases "Pair (sm c)")
       (simp_all add: flag_weight_def PTKINITDONE_frame Let_def)
qed (simp_all add: PTKINITDONE_frame Let_def)

text \<open>A step of the pairwise machine does nothing or enters a state.\<close>

definition no_requests :: "wpa_state_machine \<Rightarrow> bool" where
  "no_requests s \<longleftrightarrow> \<not> Disconnect s \<and> \<not> DeauthenticationRequest s \<and> \<not> AuthenticationRequest s \<and>
     \<not> ReAuthenticationRequest s \<and> \<not> PTKRequest s"

lemmas enter_lemmas = entered_DISCONNECT entered_failure entered_DISCONNECTED entered_INITIALIZE
  entered_AUTHENTICATION entered_AUTHENTICATION2 entered_INITPMK entered_INITPSK entered_PTKSTART
  entered_PTKCALCNEGOTIATING entered_PTKCALCNEGOTIATING2 entered_PTKINITNEGOTIATING
  entered_PTKINITDONE

lemma PTK_step_request:
  assumes "\<not> Init (sm c)" "\<not> no_requests (sm c)"
  shows "entered (sm c) (sm (sm_WPA_PTK_Step env c))"
proof -
  consider (d) "Disconnect (sm c)" | (e) "\<not> Disconnect (sm c)" "DeauthenticationRequest (sm c)"
    | (a) "\<not> Disconnect (sm c)" "\<not> DeauthenticationRequest (sm c)" "AuthenticationRequest (sm c)"
    | (r) "\<not> Disconnect (sm c)" "\<not> DeauthenticationRequest (sm c)" "\<not> AuthenticationRequest (sm c)"
      "ReAuthenticationRequest (sm c)"
    | (p) "\<not> Disconnect (sm c)" "\<not> DeauthenticationRequest (sm c)" "\<not> AuthenticationRequest (sm c)"
      "\<not> ReAuthenticationRequest (sm c)" "PTKRequest (sm c)"
    using assms(2) unfolding no_requests_def by blast
  then show ?thesis
    by cases (simp_all add: sm_WPA_PTK_Step_def assms(1) entered_DISCONNECT entered_DISCONNECTED
        entered_AUTHENTICATION entered_AUTHENTICATION2 entered_PTKSTART)
qed

lemma PTK_step_plain:
  assumes "\<not> Init (sm c)" "no_requests (sm c)"
  shows "sm_WPA_PTK_Step env c =
     (case wpa_ptk_state (sm c) of
        WPA_PTK_INITIALIZE \<Rightarrow> c
      | WPA_PTK_DISCONNECT \<Rightarrow> sm_WPA_PTK_DISCONNECTED_Enter env c
      | WPA_PTK_DISCONNECTED \<Rightarrow> sm_WPA_PTK_INITIALIZE_Enter env c
      | WPA_PTK_AUTHENTICATION \<Rightarrow> sm_WPA_PTK_AUTHENTICATION2_Enter env c
      | WPA_PTK_AUTHENTICATION2 \<Rightarrow>
          if wpa_key_mgmt_wpa_ieee8021x (sm_wpa_key_mgmt (sm c)) \<and>
             wpa_auth_get_eapol env (addr (sm c)) WPA_EAPOL_keyRun c > 0
          then sm_WPA_PTK_INITPMK_Enter env c
          else if wpa_key_mgmt_wpa_psk (sm_wpa_key_mgmt (sm c))
          then sm_WPA_PTK_INITPSK_Enter env c else c
      | WPA_PTK_INITPMK \<Rightarrow>
          if wpa_auth_get_eapol env (addr (sm c)) WPA_EAPOL_keyAvailable c > 0
          then sm_WPA_PTK_PTKSTART_Enter env c
          else sm_WPA_PTK_DISCONNECT_Enter env (count_failure c)
      | WPA_PTK_INITPSK \<Rightarrow>
          if hostapd_get_psk (env_psk env) (addr (sm c)) None \<noteq> None
          then sm_WPA_PTK_PTKSTART_Enter env c
          else sm_WPA_PTK_DISCONNECT_Enter env (count_failure c)
      | WPA_PTK_PTKSTART \<Rightarrow>
          if pairwise_reply (sm c) then sm_WPA_PTK_PTKCALCNEGOTIATING_Enter env c
          else if TimeoutCtr (sm c) > 4 then sm_WPA_PTK_DISCONNECT_Enter env (count_failure c)
          else if TimeoutEvt (sm c) then sm_WPA_PTK_PTKSTART_Enter env c else c
      | WPA_PTK_PTKCALCNEGOTIATING \<Rightarrow>
          if MICVerified (sm c) then sm_WPA_PTK_PTKCALCNEGOTIATING2_Enter env c
          else if pairwise_reply (sm c) then sm_WPA_PTK_PTKCALCNEGOTIATING_Enter env c
          else if TimeoutEvt (sm c) then sm_WPA_PTK_PTKSTART_Enter env c else c
      | WPA_PTK_PTKCALCNEGOTIATING2 \<Rightarrow> sm_WPA_PTK_PTKINITNEGOTIATING_Enter env c
      | WPA_PTK_PTKINITNEGOTIATING \<Rightarrow>
          if pairwise_reply (sm c) \<and> MICVerified (sm c) then sm_WPA_PTK_PTKINITDONE_Enter env c
          else if TimeoutCtr (sm c) > 4 then sm_WPA_PTK_DISCONNECT_Enter env (count_failure c)
          else if TimeoutEvt (sm c) then sm_WPA_PTK_PTKINITNEGOTIATING_Enter env c else c
      | WPA_PTK_PTKINITDONE \<Rightarrow> c)"
proof -
  have flags: "Init (sm c) = False" "Disconnect (sm c) = False" "DeauthenticationRequest (sm c) = False"
    "AuthenticationRequest (sm c) = False" "ReAuthenticationRequest (sm c) = False"
    "PTKRequest (sm c) = False"
    using assms by (simp_all add: no_requests_def)
  show ?thesis
    by (simp only: sm_WPA_PTK_Step_def flags if_False dot11RSNAConfigPairwiseUpdateCount_def)
qed

lemma PTK_step_entered:
  assumes "\<not> Init (sm c)"
  shows "sm_WPA_PTK_Step env c = c \<or> entered (sm c) (sm (sm_WPA_PTK_Step env c))"
proof (cases "no_requests (sm c)")
  case False
  then show ?thesis using PTK_step_request [OF assms] by blast
next
  case True
  note plain = PTK_step_plain [OF assms True]
  have reply: "pairwise_reply (sm c) \<Longrightarrow> EAPOLKeyReceived (sm c)" by (simp add: pairwise_reply_def)
  show ?thesis
    by (cases "wpa_ptk_state (sm c)") (simp_all add: plain enter_lemmas reply assms)
qed

text \<open>The same for the group machine; from \<open>IDLE\<close> the retry counter starts at 0.\<close>

lemma group_enteredI:
  assumes "sm_changed s'" "wpa_ptk_state s' = wpa_ptk_state s" "idle_zero s'"
    and "flag_weight s' + group_weight s' < flag_weight s + group_weight s"
  shows "entered s s'"
  using assms by (simp add: entered_def rank_def)

lemma entered_IDLE_init:
  assumes "PtkGroupInit (sm c)" "\<not> Init (sm c)"
  shows "entered (sm c) (sm (upd_sm (\<lambda>s. s\<lparr>PtkGroupInit := False\<rparr>) (sm_WPA_PTK_GROUP_IDLE_Enter env c)))"
proof (rule group_enteredI)
  let ?s = "sm (upd_sm (\<lambda>s. s\<lparr>PtkGroupInit := False\<rparr>) (sm_WPA_PTK_GROUP_IDLE_Enter env c))"
  have "group_weight ?s \<le> 7" by (simp add: group_weight_def wt_bound step_simps)
  moreover have "flag_weight ?s + 8 = flag_weight (sm c)" using assms(1) by (simp add: flag_weight_def step_simps)
  ultimately show "flag_weight ?s + group_weight ?s < flag_weight (sm c) + group_weight (sm c)" by linarith
qed (use assms(2) in \<open>simp_all add: idle_zero_def step_simps\<close>)

lemma entered_IDLE:
  assumes "wpa_ptk_group_state (sm c) \<in> {WPA_PTK_GROUP_KEYERROR, WPA_PTK_GROUP_REKEYESTABLISHED}" "\<not> Init (sm c)"
  shows "entered (sm c) (sm (sm_WPA_PTK_GROUP_IDLE_Enter env c))"
  by (rule group_enteredI) (use assms in \<open>auto simp: idle_zero_def flag_weight_def group_weight_def step_simps\<close>)

lemma entered_REKEY_first:
  assumes "wpa_ptk_group_state (sm c) = WPA_PTK_GROUP_IDLE" "idle_zero (sm c)"
    and "GUpdateStationKeys (sm c) \<or> sm_wpa (sm c) = WPA_VERSION_WPA \<and> PInitAKeys (sm c)"
  shows "entered (sm c) (sm (sm_WPA_PTK_GROUP_REKEYNEGOTIATING_Enter env c))"
proof -
  let ?s = "(sm c)\<lparr>sm_changed := True, wpa_ptk_group_state := WPA_PTK_GROUP_REKEYNEGOTIATING,
    GTimeoutCtr := GTimeoutCtr (sm c) + 1,
    PInitAKeys := (if sm_wpa (sm c) = WPA_VERSION_WPA then False else PInitAKeys (sm c)), TimeoutEvt := False\<rparr>"
  have zero: "GTimeoutCtr (sm c) = 0" using assms(1,2) by (simp add: idle_zero_def)
  have "entered (sm c) ?s"
    by (rule group_enteredI)
       (use assms zero in \<open>auto simp: idle_zero_def flag_weight_def group_weight_def\<close>)
  then show ?thesis using zero by (simp add: REKEYNEGOTIATING_frame Let_def)
qed

lemma entered_REKEY_again:
  assumes "wpa_ptk_group_state (sm c) = WPA_PTK_GROUP_REKEYNEGOTIATING" "TimeoutEvt (sm c)" "GTimeoutCtr (sm c) \<le> 4"
  shows "entered (sm c) (sm (sm_WPA_PTK_GROUP_REKEYNEGOTIATING_Enter env c))"
proof (cases "GTimeoutCtr (sm c) = 4")
  case True
  then show ?thesis
    by (intro group_enteredI)
       (use assms in \<open>simp_all add: idle_zero_def flag_weight_def group_weight_def REKEYNEGOTIATING_frame\<close>)
next
  case False
  let ?s = "(sm c)\<lparr>sm_changed := True, wpa_ptk_group_state := WPA_PTK_GROUP_REKEYNEGOTIATING,
    GTimeoutCtr := GTimeoutCtr (sm c) + 1,
    PInitAKeys := (if sm_wpa (sm c) = WPA_VERSION_WPA then False else PInitAKeys (sm c)), TimeoutEvt := False\<rparr>"
  have le: "GTimeoutCtr (sm c) \<le> 3" using False assms(3) by linarith
  have "entered (sm c) ?s"
    by (rule group_enteredI)
       (use assms le in \<open>auto simp: idle_zero_def flag_weight_def group_weight_def\<close>)
  then show ?thesis using le by (simp add: REKEYNEGOTIATING_frame Let_def)
qed

lemma entered_REKEYESTABLISHED:
  assumes "wpa_ptk_group_state (sm c) = WPA_PTK_GROUP_REKEYNEGOTIATING" "EAPOLKeyReceived (sm c)"
  shows "entered (sm c) (sm (sm_WPA_PTK_GROUP_REKEYESTABLISHED_Enter env c))"
  by (rule group_enteredI) (use assms in \<open>simp_all add: idle_zero_def flag_weight_def group_weight_def step_simps\<close>)

lemma entered_KEYERROR:
  assumes "wpa_ptk_group_state (sm c) = WPA_PTK_GROUP_REKEYNEGOTIATING"
  shows "entered (sm c) (sm (sm_WPA_PTK_GROUP_KEYERROR_Enter env c))"
proof (rule group_enteredI)
  show "flag_weight (sm (sm_WPA_PTK_GROUP_KEYERROR_Enter env c)) +
      group_weight (sm (sm_WPA_PTK_GROUP_KEYERROR_Enter env c)) < flag_weight (sm c) + group_weight (sm c)"
    using assms by (cases "Disconnect (sm c)") (simp_all add: flag_weight_def group_weight_def step_simps)
qed (simp_all add: idle_zero_def step_simps)

definition group_reply :: "wpa_state_machine \<Rightarrow> bool" where
  "group_reply s \<longleftrightarrow> EAPOLKeyReceived s \<and> \<not> EAPOLKeyRequest s \<and> \<not> EAPOLKeyPairwise s \<and> MICVerified s"

lemma GROUP_step_plain:
  assumes "\<not> Init (sm c)" "\<not> PtkGroupInit (sm c)"
  shows "sm_WPA_PTK_GROUP_Step env c =
     (case wpa_ptk_group_state (sm c) of
        WPA_PTK_GROUP_IDLE \<Rightarrow>
          if GUpdateStationKeys (sm c) \<or> (sm_wpa (sm c) = WPA_VERSION_WPA \<and> PInitAKeys (sm c))
          then sm_WPA_PTK_GROUP_REKEYNEGOTIATING_Enter env c else c
      | WPA_PTK_GROUP_REKEYNEGOTIATING \<Rightarrow>
          if group_reply (sm c) then sm_WPA_PTK_GROUP_REKEYESTABLISHED_Enter env c
          else if GTimeoutCtr (sm c) > 4 then sm_WPA_PTK_GROUP_KEYERROR_Enter env c
          else if TimeoutEvt (sm c) then sm_WPA_PTK_GROUP_REKEYNEGOTIATING_Enter env c else c
      | WPA_PTK_GROUP_KEYERROR \<Rightarrow> sm_WPA_PTK_GROUP_IDLE_Enter env c
      | WPA_PTK_GROUP_REKEYESTABLISHED \<Rightarrow> sm_WPA_PTK_GROUP_IDLE_Enter env c)"
proof -
  have flags: "Init (sm c) = False" "PtkGroupInit (sm c) = False" using assms by simp_all
  show ?thesis
    by (simp only: sm_WPA_PTK_GROUP_Step_def flags simp_thms if_False dot11RSNAConfigGroupUpdateCount_def
        group_reply_def)
qed

lemma GROUP_step_entered:
  assumes "\<not> Init (sm c)" "idle_zero (sm c)"
  shows "sm_WPA_PTK_GROUP_Step env c = c \<or> entered (sm c) (sm (sm_WPA_PTK_GROUP_Step env c))"
proof (cases "PtkGroupInit (sm c)")
  case True
  then show ?thesis using entered_IDLE_init [OF True assms(1)] by (simp add: sm_WPA_PTK_GROUP_Step_def)
next
  case False
  note plain = GROUP_step_plain [OF assms(1) False]
  have reply: "group_reply (sm c) \<Longrightarrow> EAPOLKeyReceived (sm c)" by (simp add: group_reply_def)
  show ?thesis
    by (cases "wpa_ptk_group_state (sm c)")
       (simp_all add: plain entered_IDLE entered_REKEY_first entered_REKEY_again entered_REKEYESTABLISHED
         entered_KEYERROR reply assms)
qed

subsection \<open>Rounds\<close>

lemma INITIALIZE_rank: "rank (sm (sm_WPA_PTK_INITIALIZE_Enter env c)) \<le> rank (sm c)"
  using INITIALIZE_weights [of env c] by (simp add: rank_def step_simps)

definition cleared :: "wpa_ctx \<Rightarrow> wpa_ctx" where
  "cleared c = upd_group (\<lambda>g. g\<lparr>group_changed := False\<rparr>) (upd_sm (\<lambda>s. s\<lparr>sm_changed := False\<rparr>) c)"

lemma cleared_simps [step_simps]:
  "sm (cleared c) = (sm c)\<lparr>sm_changed := False\<rparr>" "group (cleared c) = (group c)\<lparr>group_changed := False\<rparr>"
  "auth (cleared c) = auth c" "out (cleared c) = out c"
  by (simp_all add: cleared_def step_simps)

lemma round_ctx_eq: "round_ctx env c = group_quick env (sm_WPA_PTK_GROUP_Step env (sm_WPA_PTK_Step env (cleared c)))"
  by (simp add: round_ctx_def cleared_def Let_def)

lemma rank_cleared [simp]: "rank (s\<lparr>sm_changed := b\<rparr>) = rank s"
  by (simp add: rank_def flag_weight_def group_weight_cong [of "s\<lparr>sm_changed := b\<rparr>" s])

lemma idle_zero_cleared [simp]: "idle_zero (s\<lparr>sm_changed := b\<rparr>) = idle_zero s"
  by (simp add: idle_zero_def)

text \<open>The two machine steps of a round: nothing happened, or the rank dropped, or initialisation.\<close>

definition machines :: "wpa_env \<Rightarrow> wpa_ctx \<Rightarrow> wpa_ctx" where
  "machines env c = sm_WPA_PTK_GROUP_Step env (sm_WPA_PTK_Step env (cleared c))"

lemma machines_init:
  assumes "Init (sm c)"
  shows "\<not> sm_changed (sm (machines env c))" "rank (sm (machines env c)) \<le> rank (sm c)"
    "idle_zero (sm (machines env c))"
proof -
  have eq: "machines env c = upd_sm (\<lambda>s. s\<lparr>PtkGroupInit := False\<rparr>)
      (sm_WPA_PTK_GROUP_IDLE_Enter env (sm_WPA_PTK_INITIALIZE_Enter env (cleared c)))"
    using assms by (simp add: machines_def sm_WPA_PTK_Step_def sm_WPA_PTK_GROUP_Step_def step_simps)
  show "\<not> sm_changed (sm (machines env c))" "idle_zero (sm (machines env c))"
    using assms by (simp_all add: eq step_simps idle_zero_def)
  let ?d = "sm_WPA_PTK_INITIALIZE_Enter env (cleared c)"
  have "group_weight (sm (machines env c)) = 0" by (simp add: eq group_weight_def step_simps)
  moreover have "flag_weight (sm (machines env c)) \<le> flag_weight (sm ?d)"
    by (simp add: eq flag_weight_def IDLE_frame upd_frame)
  moreover have "ptk_weight (wpa_ptk_state (sm (machines env c))) = ptk_weight (wpa_ptk_state (sm ?d))"
    by (simp add: eq IDLE_frame upd_frame)
  ultimately have "rank (sm (machines env c)) \<le> rank (sm ?d)" by (simp add: rank_def)
  also have "\<dots> \<le> rank (sm (cleared c))" by (rule INITIALIZE_rank)
  finally show "rank (sm (machines env c)) \<le> rank (sm c)" by (simp add: step_simps)
qed

lemma machines_run:
  assumes "\<not> Init (sm c)" "idle_zero (sm c)"
  shows "(machines env c = cleared c \<and> sm_WPA_PTK_Step env (cleared c) = cleared c) \<or>
    entered (sm c) (sm (machines env c))"
proof -
  let ?c = "cleared c" and ?d = "sm_WPA_PTK_Step env (cleared c)"
  have ni: "\<not> Init (sm ?c)" and z: "idle_zero (sm ?c)" and r: "rank (sm ?c) = rank (sm c)"
    using assms by (simp_all add: step_simps)
  have nd: "\<not> Init (sm ?d)" using PTK_step_sm_kept [of ?c env] ni by (simp add: sm_kept_def)
  from PTK_step_entered [OF ni, of env] show ?thesis
  proof
    assume d: "?d = ?c"
    then show ?thesis
      using GROUP_step_entered [OF ni z, of env] z r by (auto simp: machines_def entered_def)
  next
    assume d: "entered (sm ?c) (sm ?d)"
    then have "idle_zero (sm ?d)" using z by (simp add: entered_def)
    from GROUP_step_entered [OF nd this, of env] d show ?thesis
      using r z assms(2) by (auto simp: machines_def entered_def)
  qed
qed

definition group_rank :: "wpa_group \<Rightarrow> nat" where
  "group_rank g = (if wpa_group_state g = WPA_GROUP_SETKEYSDONE then 0 else 1)"

definition total_rank :: "wpa_ctx \<Rightarrow> nat" where
  "total_rank c = rank (sm c) + group_rank (group c)"

lemma machines_group:
  "group_rank (group (machines env c)) = group_rank (group c)" "\<not> group_changed (group (machines env c))"
proof -
  have "group_kept (cleared c) (machines env c)"
    unfolding machines_def by (rule group_kept_trans [OF PTK_step_kept GROUP_step_kept])
  then show "group_rank (group (machines env c)) = group_rank (group c)"
    "\<not> group_changed (group (machines env c))"
    by (simp_all add: group_kept_def group_rank_def step_simps)
qed

lemma round_sm: "sm (round_ctx env c) = sm (machines env c)"
  by (simp add: round_ctx_eq machines_def)

lemma round_group_rank:
  "group_rank (group (round_ctx env c)) \<le> group_rank (group c)"
  "group_changed (group (round_ctx env c)) \<Longrightarrow> group_rank (group (round_ctx env c)) < group_rank (group c)"
proof -
  have eq: "round_ctx env c = group_quick env (machines env c)" by (simp add: round_ctx_eq machines_def)
  note mg = machines_group [of env c]
  show "group_rank (group (round_ctx env c)) \<le> group_rank (group c)"
    using mg by (simp add: eq group_quick_def step_simps) (simp add: group_rank_def)
  assume "group_changed (group (round_ctx env c))"
  then show "group_rank (group (round_ctx env c)) < group_rank (group c)"
    using mg by (auto simp: eq group_quick_def step_simps group_rank_def split: if_splits)
qed

lemma round_idle_zero: "idle_zero (sm c) \<Longrightarrow> idle_zero (sm (round_ctx env c))"
  using machines_init(3) [of c env] machines_run [of c env]
  by (cases "Init (sm c)") (auto simp: round_sm entered_def step_simps)

lemma round_rank:
  assumes "idle_zero (sm c)" "ctx_changed (round_ctx env c)"
  shows "total_rank (round_ctx env c) < total_rank c"
proof (cases "sm_changed (sm (round_ctx env c))")
  case True
  then have "\<not> Init (sm c)" using machines_init(1) [of c env] by (auto simp: round_sm)
  with True machines_run [OF _ assms(1), of env] have "rank (sm (round_ctx env c)) < rank (sm c)"
    by (auto simp: round_sm entered_def step_simps)
  then show ?thesis using round_group_rank(1) [of env c] by (simp add: total_rank_def)
next
  case False
  then have "group_changed (group (round_ctx env c))" using assms(2) by (simp add: ctx_changed_def)
  note less = round_group_rank(2) [OF this]
  have "rank (sm (round_ctx env c)) \<le> rank (sm c)"
    using machines_init(2) [of c env] machines_run [OF _ assms(1), of env]
    by (cases "Init (sm c)") (auto simp: round_sm entered_def step_simps)
  with less show ?thesis by (simp add: total_rank_def)
qed

lemma loop_ctx_ends:
  "idle_zero (sm c) \<Longrightarrow> total_rank c < n \<Longrightarrow> \<exists>d. loop_ctx n env c = Some d"
proof (induction n arbitrary: c)
  case (Suc n)
  then show ?case
    using round_rank [OF Suc.prems(1), of env] round_idle_zero [OF Suc.prems(1), of env]
      Suc.IH [of "round_ctx env c"] by (auto simp: Let_def)
qed simp

lemma total_rank_bound: "total_rank c \<le> 61"
  using rank_bound [of "sm c"] by (simp add: total_rank_def group_rank_def)

definition STEP_ROUNDS :: nat where "STEP_ROUNDS = 62"

lemma loop_ctx_total:
  assumes "idle_zero (sm c)" "n \<ge> STEP_ROUNDS"
  obtains d where "loop_ctx n env c = Some d"
  using loop_ctx_ends [OF assms(1), of n env] total_rank_bound [of c] assms(2)
  by (auto simp: STEP_ROUNDS_def)

text \<open>Induction over the rounds of a loop that ended.\<close>

lemma loop_ctx_induct [consumes 2, case_names round]:
  assumes "loop_ctx n env c = Some d" "P c"
    and "\<And>c. P c \<Longrightarrow> P (round_ctx env c)"
  shows "P d"
  using assms(1,2)
proof (induction n arbitrary: c)
  case (Suc n)
  then show ?case using assms(3) [OF Suc.prems(2)] by (auto simp: Let_def split: if_splits)
qed simp

lemma loop_ctx_last:
  assumes "loop_ctx n env c = Some d" "P c" "\<And>c. P c \<Longrightarrow> P (round_ctx env c)"
  obtains e where "P e" "d = round_ctx env e" "\<not> ctx_changed d"
  using assms(1,2)
proof (induction n arbitrary: c thesis)
  case (Suc n)
  then show ?case using assms(3) [OF Suc.prems(3)] by (auto simp: Let_def split: if_splits)
qed simp

subsection \<open>At rest\<close>

definition ptk_rest :: "wpa_state_machine \<Rightarrow> bool" where
  "ptk_rest s \<longleftrightarrow> no_requests s \<and>
     (case wpa_ptk_state s of
        WPA_PTK_INITIALIZE \<Rightarrow> True
      | WPA_PTK_AUTHENTICATION2 \<Rightarrow> True
      | WPA_PTK_PTKSTART \<Rightarrow> \<not> pairwise_reply s \<and> TimeoutCtr s \<le> 4 \<and> \<not> TimeoutEvt s
      | WPA_PTK_PTKCALCNEGOTIATING \<Rightarrow> \<not> MICVerified s \<and> \<not> pairwise_reply s \<and> \<not> TimeoutEvt s
      | WPA_PTK_PTKINITNEGOTIATING \<Rightarrow>
          \<not> (pairwise_reply s \<and> MICVerified s) \<and> TimeoutCtr s \<le> 4 \<and> \<not> TimeoutEvt s
      | WPA_PTK_PTKINITDONE \<Rightarrow> True
      | _ \<Rightarrow> False)"

definition group_rest :: "wpa_state_machine \<Rightarrow> bool" where
  "group_rest s \<longleftrightarrow> \<not> PtkGroupInit s \<and>
     (case wpa_ptk_group_state s of
        WPA_PTK_GROUP_IDLE \<Rightarrow> \<not> GUpdateStationKeys s \<and> \<not> (sm_wpa s = WPA_VERSION_WPA \<and> PInitAKeys s)
      | WPA_PTK_GROUP_REKEYNEGOTIATING \<Rightarrow> \<not> group_reply s \<and> GTimeoutCtr s \<le> 4 \<and> \<not> TimeoutEvt s
      | _ \<Rightarrow> False)"

lemma PTK_step_rest:
  assumes "\<not> Init (sm c)" "\<not> sm_changed (sm c)" "sm_WPA_PTK_Step env c = c"
  shows "ptk_rest (sm c)"
proof -
  have no: "\<not> entered (sm c) (sm (sm_WPA_PTK_Step env c))" using assms(2,3) by (simp add: entered_def)
  have req: "no_requests (sm c)" using PTK_step_request [OF assms(1)] no by blast
  note plain = PTK_step_plain [OF assms(1) req]
  have reply: "pairwise_reply (sm c) \<Longrightarrow> EAPOLKeyReceived (sm c)" by (simp add: pairwise_reply_def)
  show ?thesis
    using no req unfolding ptk_rest_def
    by (cases "wpa_ptk_state (sm c)") (auto simp: plain enter_lemmas reply assms(1) split: if_splits)
qed

lemma GROUP_step_rest:
  assumes "\<not> Init (sm c)" "idle_zero (sm c)" "\<not> sm_changed (sm c)" "sm_WPA_PTK_GROUP_Step env c = c"
  shows "group_rest (sm c)"
proof -
  have no: "\<not> entered (sm c) (sm (sm_WPA_PTK_GROUP_Step env c))" using assms(3,4) by (simp add: entered_def)
  have pgi: "\<not> PtkGroupInit (sm c)"
    using no entered_IDLE_init [OF _ assms(1), of env] by (auto simp: sm_WPA_PTK_GROUP_Step_def)
  note plain = GROUP_step_plain [OF assms(1) pgi]
  have reply: "group_reply (sm c) \<Longrightarrow> EAPOLKeyReceived (sm c)" by (simp add: group_reply_def)
  show ?thesis
    using no pgi unfolding group_rest_def
    by (cases "wpa_ptk_group_state (sm c)")
       (auto simp: plain entered_IDLE entered_REKEY_first entered_REKEY_again entered_REKEYESTABLISHED
         entered_KEYERROR reply assms(1,2) split: if_splits)
qed

lemma round_rest:
  assumes "\<not> Init (sm c)" "idle_zero (sm c)" "\<not> ctx_changed (round_ctx env c)"
  shows "ptk_rest (sm (round_ctx env c))" "group_rest (sm (round_ctx env c))"
proof -
  have nc: "\<not> sm_changed (sm (machines env c))"
    using assms(3) by (simp add: ctx_changed_def round_sm)
  with machines_run [OF assms(1,2), of env] have m: "machines env c = cleared c"
    and p: "sm_WPA_PTK_Step env (cleared c) = cleared c" by (auto simp: entered_def)
  then have g: "sm_WPA_PTK_GROUP_Step env (cleared c) = cleared c" by (simp add: machines_def)
  have i: "\<not> Init (sm (cleared c))" "\<not> sm_changed (sm (cleared c))" "idle_zero (sm (cleared c))"
    using assms(1,2) by (simp_all add: step_simps)
  show "ptk_rest (sm (round_ctx env c))" using PTK_step_rest [OF i(1,2) p] by (simp add: round_sm m)
  show "group_rest (sm (round_ctx env c))" using GROUP_step_rest [OF i(1,3,2) g] by (simp add: round_sm m)
qed

lemma loop_ctx_rest:
  assumes "loop_ctx n env c = Some d" "\<not> Init (sm c)" "idle_zero (sm c)"
  shows "ptk_rest (sm d)" "group_rest (sm d)"
proof -
  let ?P = "\<lambda>c. \<not> Init (sm c) \<and> idle_zero (sm c)"
  have step: "?P (round_ctx env c)" if "?P c" for c
    using that round_sm_kept [of c env] round_idle_zero [of c env] by (simp add: sm_kept_def)
  obtain e where "?P e" "d = round_ctx env e" "\<not> ctx_changed d"
    using assms step by (elim loop_ctx_last [where P = ?P]) auto
  then show "ptk_rest (sm d)" "group_rest (sm d)" using round_rest [of e env] by auto
qed

end
