(* ===== verification/WpaGood.thy ===== *)
theory WpaGood
  imports WpaCalm
begin

text \<open>
  The invariant of the authenticator with all its stations and the effect of one call of
  \<open>wpa_sm_step\<close>: it ends, keeps the invariant, and opens a port or installs a pairwise key only
  for a station that has just received message 4/4.
\<close>

unbundle bit_operations_syntax

subsection \<open>What a station may do\<close>

text \<open>
  A received reply is pending only where the next step of the machine takes it; a station that
  waits in \<open>PTKCALCNEGOTIATING\<close> has no key that a frame was not verified with.
\<close>

definition reply_ok :: "wpa_state_machine \<Rightarrow> bool" where
  "reply_ok s \<longleftrightarrow> (pairwise_reply s \<longrightarrow> \<not> Init s \<and> no_requests s \<and>
     (wpa_ptk_state s = WPA_PTK_PTKSTART \<or>
      wpa_ptk_state s = WPA_PTK_PTKCALCNEGOTIATING \<and> \<not> MICVerified s \<or>
      wpa_ptk_state s = WPA_PTK_PTKINITNEGOTIATING \<and> MICVerified s))"

definition calc_ok :: "wpa_state_machine \<Rightarrow> bool" where
  "calc_ok s \<longleftrightarrow> (pairwise_reply s \<or> wpa_ptk_state s = WPA_PTK_PTKCALCNEGOTIATING \<longrightarrow>
     PTK_valid s \<longrightarrow> MICVerified s)"

definition shrinks :: "wpa_state_machine \<Rightarrow> wpa_state_machine \<Rightarrow> bool" where
  "shrinks s s' \<longleftrightarrow> (EAPOLKeyReceived s' \<longrightarrow> EAPOLKeyReceived s) \<and> (PTK_valid s' \<longrightarrow> PTK_valid s) \<and>
     MICVerified s' = MICVerified s \<and>
     (wpa_ptk_state s' = WPA_PTK_PTKCALCNEGOTIATING \<longrightarrow> wpa_ptk_state s = WPA_PTK_PTKCALCNEGOTIATING) \<and>
     EAPOLKeyPairwise s' = EAPOLKeyPairwise s \<and> EAPOLKeyRequest s' = EAPOLKeyRequest s"

lemma shrinks_refl [simp]: "shrinks s s"
  by (simp add: shrinks_def)

lemma shrinks_reply: "shrinks s s' \<Longrightarrow> pairwise_reply s' \<Longrightarrow> pairwise_reply s"
  by (simp add: shrinks_def pairwise_reply_def)

lemma shrinks_calc_ok: "shrinks s s' \<Longrightarrow> calc_ok s \<Longrightarrow> calc_ok s'"
  by (auto simp: calc_ok_def shrinks_def pairwise_reply_def)

lemma enter_shrinks:
  "shrinks (sm c) (sm (sm_WPA_PTK_INITIALIZE_Enter env c))"
  "shrinks (sm c) (sm (sm_WPA_PTK_DISCONNECT_Enter env c))"
  "shrinks (sm c) (sm (sm_WPA_PTK_DISCONNECT_Enter env (count_failure c)))"
  "shrinks (sm c) (sm (sm_WPA_PTK_DISCONNECTED_Enter env c))"
  "shrinks (sm c) (sm (sm_WPA_PTK_AUTHENTICATION_Enter env c))"
  "shrinks (sm c) (sm (sm_WPA_PTK_AUTHENTICATION2_Enter env c))"
  "shrinks (sm c) (sm (sm_WPA_PTK_INITPMK_Enter env c))"
  "shrinks (sm c) (sm (sm_WPA_PTK_INITPSK_Enter env c))"
  "shrinks (sm c) (sm (sm_WPA_PTK_PTKSTART_Enter env c))"
  "shrinks (sm c) (sm (sm_WPA_PTK_PTKCALCNEGOTIATING2_Enter env c))"
  "shrinks (sm c) (sm (sm_WPA_PTK_PTKINITNEGOTIATING_Enter env c))"
  "shrinks (sm c) (sm (sm_WPA_PTK_PTKINITDONE_Enter env c))"
  "shrinks (sm c) (sm (sm_WPA_PTK_GROUP_IDLE_Enter env c))"
  "shrinks (sm c) (sm (sm_WPA_PTK_GROUP_REKEYNEGOTIATING_Enter env c))"
  "shrinks (sm c) (sm (sm_WPA_PTK_GROUP_REKEYESTABLISHED_Enter env c))"
  "shrinks (sm c) (sm (sm_WPA_PTK_GROUP_KEYERROR_Enter env c))"
  by (simp_all add: shrinks_def step_simps Let_def)

lemma enter_takes_reply:
  "\<not> pairwise_reply (sm (sm_WPA_PTK_PTKCALCNEGOTIATING_Enter env c))"
  "\<not> pairwise_reply (sm (sm_WPA_PTK_PTKINITDONE_Enter env c))"
  by (simp_all add: pairwise_reply_def step_simps Let_def split: option.split)

lemma calc_calc_ok:
  "calc_ok (sm c) \<Longrightarrow> pairwise_reply (sm c) \<Longrightarrow> calc_ok (sm (sm_WPA_PTK_PTKCALCNEGOTIATING_Enter env c))"
  by (simp add: calc_ok_def pairwise_reply_def step_simps Let_def split: option.split)

text \<open>Without a pending reply every step of the pairwise machine only shrinks.\<close>

lemma PTK_step_shrinks:
  assumes "\<not> pairwise_reply (sm c)"
  shows "shrinks (sm c) (sm (sm_WPA_PTK_Step env c))"
  using assms unfolding sm_WPA_PTK_Step_def
  by (simp add: enter_shrinks split: wpa_ptk_st.split)

lemma PTK_step_takes_reply:
  assumes "reply_ok (sm c)" "pairwise_reply (sm c)"
  shows "\<not> pairwise_reply (sm (sm_WPA_PTK_Step env c))"
    and "calc_ok (sm c) \<Longrightarrow> calc_ok (sm (sm_WPA_PTK_Step env c))"
proof -
  have ni: "\<not> Init (sm c)" and nr: "no_requests (sm c)"
    and st: "wpa_ptk_state (sm c) = WPA_PTK_PTKSTART \<or>
      wpa_ptk_state (sm c) = WPA_PTK_PTKCALCNEGOTIATING \<and> \<not> MICVerified (sm c) \<or>
      wpa_ptk_state (sm c) = WPA_PTK_PTKINITNEGOTIATING \<and> MICVerified (sm c)"
    using assms by (auto simp: reply_ok_def)
  note plain = PTK_step_plain [OF ni nr]
  show "\<not> pairwise_reply (sm (sm_WPA_PTK_Step env c))"
    using st by (elim disjE conjE) (simp_all add: plain assms(2) enter_takes_reply)
  assume "calc_ok (sm c)"
  then show "calc_ok (sm (sm_WPA_PTK_Step env c))"
    using st by (elim disjE conjE)
      (simp_all add: plain assms(2) calc_calc_ok shrinks_calc_ok [OF enter_shrinks(12)])
qed

lemma GROUP_step_shrinks: "shrinks (sm c) (sm (sm_WPA_PTK_GROUP_Step env c))"
proof -
  have "shrinks (sm c) (sm (upd_sm (\<lambda>s. s\<lparr>PtkGroupInit := False\<rparr>) (sm_WPA_PTK_GROUP_IDLE_Enter env c)))"
    by (simp add: shrinks_def step_simps)
  then show ?thesis
    unfolding sm_WPA_PTK_GROUP_Step_def by (simp add: enter_shrinks split: wpa_ptk_group_st.split)
qed

lemma cleared_ok:
  "reply_ok (sm (cleared c)) = reply_ok (sm c)" "calc_ok (sm (cleared c)) = calc_ok (sm c)"
  "pairwise_reply (sm (cleared c)) = pairwise_reply (sm c)"
  by (simp_all add: reply_ok_def calc_ok_def pairwise_reply_def no_requests_def step_simps)

lemma round_reply:
  assumes "reply_ok (sm c)"
  shows "\<not> pairwise_reply (sm (round_ctx env c))"
    and "calc_ok (sm c) \<Longrightarrow> calc_ok (sm (round_ctx env c))"
proof -
  have r: "reply_ok (sm (cleared c))" using assms by (simp add: cleared_ok)
  let ?d = "sm_WPA_PTK_Step env (cleared c)"
  have d: "\<not> pairwise_reply (sm ?d)"
    using PTK_step_takes_reply(1) [OF r, of env] PTK_step_shrinks [of "cleared c" env, THEN shrinks_reply]
    by blast
  then show "\<not> pairwise_reply (sm (round_ctx env c))"
    using shrinks_reply [OF GROUP_step_shrinks] by (auto simp: round_ctx_eq)
  assume "calc_ok (sm c)"
  then have "calc_ok (sm (cleared c))" by (simp add: cleared_ok)
  then have "calc_ok (sm ?d)"
    using PTK_step_takes_reply(2) [OF r, of env] PTK_step_shrinks [of "cleared c" env, THEN shrinks_calc_ok]
    by blast
  then show "calc_ok (sm (round_ctx env c))"
    using shrinks_calc_ok [OF GROUP_step_shrinks] by (simp add: round_ctx_eq)
qed

subsection \<open>What a station may open\<close>

definition within :: "(wpa_out \<Rightarrow> bool) \<Rightarrow> 'a wpa_base_scheme \<Rightarrow> 'b wpa_base_scheme \<Rightarrow> bool" where
  "within A w w' \<longleftrightarrow> (\<exists>es. out w' = out w @ es \<and> (\<forall>e \<in> set es. opens e \<longrightarrow> A e))"

lemma quiet_within: "quiet w w' \<Longrightarrow> within A w w'"
  by (auto simp: quiet_def within_def)

lemma within_refl [simp]: "within A w w"
  by (simp add: within_def)

lemma within_none: "within (\<lambda>_. False) w w' \<longleftrightarrow> quiet w w'"
  by (simp add: within_def quiet_def)

lemma within_trans:
  assumes "within A w v" "within A v u"
  shows "within A w u"
proof -
  obtain es where es: "out v = out w @ es" "\<forall>e \<in> set es. opens e \<longrightarrow> A e"
    using assms(1) by (auto simp: within_def)
  obtain fs where fs: "out u = out v @ fs" "\<forall>e \<in> set fs. opens e \<longrightarrow> A e"
    using assms(2) by (auto simp: within_def)
  have "out u = out w @ (es @ fs)" using es(1) fs(1) by simp
  moreover have "\<forall>e \<in> set (es @ fs). opens e \<longrightarrow> A e" using es(2) fs(2) by auto
  ultimately show ?thesis unfolding within_def by blast
qed

text \<open>The pairwise key and the ports that belong to a station.\<close>

definition own_opening :: "wpa_state_machine \<Rightarrow> wpa_out \<Rightarrow> bool" where
  "own_opening s e \<longleftrightarrow>
     e = SetEapol (addr s) WPA_EAPOL_portValid 1 \<or> e = SetEapol (addr s) WPA_EAPOL_authorized 1 \<or>
     e = SetKey (fst (pairwise_alg (pairwise s))) (addr s) 0
           (ptk_tk1 (PTK s) (snd (pairwise_alg (pairwise s))))"

lemma PTKINITDONE_within: "within (own_opening (sm c)) c (sm_WPA_PTK_PTKINITDONE_Enter env c)"
  by (simp add: within_def sm_WPA_PTK_PTKINITDONE_Enter_def ptkinitdone_ports_def entry_WPA_PTK_def step_simps
      Let_def own_opening_def split: prod.split)

definition may_open :: "wpa_state_machine \<Rightarrow> wpa_out \<Rightarrow> bool" where
  "may_open s e \<longleftrightarrow> pairwise_reply s \<and> wpa_ptk_state s = WPA_PTK_PTKINITNEGOTIATING \<and> own_opening s e"

lemma PTK_step_within:
  assumes "reply_ok (sm c)" "GN (group c) \<noteq> 0"
  shows "within (may_open (sm c)) c (sm_WPA_PTK_Step env c)"
proof (cases "wpa_ptk_state (sm c) = WPA_PTK_PTKINITNEGOTIATING \<and> pairwise_reply (sm c) \<and> MICVerified (sm c)")
  case True
  then have "\<not> Init (sm c)" "no_requests (sm c)" using assms(1) by (auto simp: reply_ok_def)
  then have "sm_WPA_PTK_Step env c = sm_WPA_PTK_PTKINITDONE_Enter env c"
    using True by (simp add: PTK_step_plain)
  moreover have "may_open (sm c) = own_opening (sm c)" using True by (auto simp: may_open_def fun_eq_iff)
  ultimately show ?thesis using PTKINITDONE_within by simp
next
  case False
  then show ?thesis by (intro quiet_within PTK_step_quiet assms(2)) auto
qed

subsection \<open>What the loop keeps\<close>

definition base_kept :: "wpa_group \<Rightarrow> wpa_group \<Rightarrow> bool" where
  "base_kept g g' \<longleftrightarrow> GInit g' = GInit g \<and> GTKReKey g' = GTKReKey g \<and> GTK_len g' = GTK_len g \<and>
     GN g' = GN g \<and> GM g' = GM g \<and> GTKAuthenticator g' = GTKAuthenticator g"

lemma base_kept_refl [simp]: "base_kept g g"
  by (simp add: base_kept_def)

lemma base_kept_trans: "base_kept g h \<Longrightarrow> base_kept h k \<Longrightarrow> base_kept g k"
  by (simp add: base_kept_def)

lemma base_kept_calm: "base_kept g g' \<Longrightarrow> calm g \<Longrightarrow> calm g'"
  by (simp add: base_kept_def calm_def)

lemma round_kept: "base_kept (group c) (group (round_ctx env c)) \<and> counted (round_ctx env c) = counted c"
proof -
  have "group_kept (cleared c) (machines env c)"
    unfolding machines_def by (rule group_kept_trans [OF PTK_step_kept GROUP_step_kept])
  moreover have "round_ctx env c = group_quick env (machines env c)" by (simp add: round_ctx_eq machines_def)
  ultimately show ?thesis
    by (simp add: group_kept_def base_kept_def counted_def group_quick_def setkeysdone_sm step_simps)
qed

lemma round_within:
  assumes "reply_ok (sm c)" "GN (group c) \<noteq> 0"
  shows "within (may_open (sm c)) c (round_ctx env c)"
proof -
  let ?d = "sm_WPA_PTK_Step env (cleared c)" and ?e = "machines env c"
  have c: "within (may_open (sm c)) c (cleared c)"
    by (rule quiet_within [OF quiet_same]) (simp add: step_simps)
  have same: "may_open (sm (cleared c)) = may_open (sm c)"
    by (simp add: fun_eq_iff may_open_def own_opening_def pairwise_reply_def step_simps)
  have d: "within (may_open (sm c)) (cleared c) ?d"
  proof -
    have r: "reply_ok (sm (cleared c))" using assms(1) by (simp only: cleared_ok)
    have g: "GN (group (cleared c)) \<noteq> 0" using assms(2) by (simp add: step_simps)
    show ?thesis by (rule PTK_step_within [OF r g, of env, unfolded same])
  qed
  have e: "within (may_open (sm c)) ?d ?e"
    unfolding machines_def by (rule quiet_within [OF GROUP_step_quiet])
  have "group_kept (cleared c) ?e"
    unfolding machines_def by (rule group_kept_trans [OF PTK_step_kept GROUP_step_kept])
  then have "GN (group ?e) \<noteq> 0" using assms(2) by (simp add: group_kept_def step_simps)
  then have "within (may_open (sm c)) ?e (group_quick env ?e)"
    by (intro quiet_within group_quick_quiet)
  then show ?thesis
    using c d e within_trans by (metis machines_def round_ctx_eq)
qed

lemma loop_facts:
  assumes loop: "loop_ctx n env c = Some d"
    and c: "idle_zero (sm c)" "reply_ok (sm c)" "calc_ok (sm c)" "GN (group c) \<noteq> 0"
  shows "sm_kept (sm c) (sm d)" "base_kept (group c) (group d)" "counted d = counted c"
    "idle_zero (sm d)" "\<not> pairwise_reply (sm d)" "calc_ok (sm d)" "within (may_open (sm c)) c d"
proof -
  let ?P = "\<lambda>x. sm_kept (sm c) (sm x) \<and> base_kept (group c) (group x) \<and> counted x = counted c \<and>
    idle_zero (sm x) \<and> reply_ok (sm x) \<and> calc_ok (sm x) \<and> within (may_open (sm c)) c x \<and>
    (pairwise_reply (sm x) \<longrightarrow> x = c)"
  have step: "?P (round_ctx env x) \<and> \<not> pairwise_reply (sm (round_ctx env x))" if P: "?P x" for x
  proof -
    have gn: "GN (group x) \<noteq> 0" using P c(4) by (simp add: base_kept_def)
    have "within (may_open (sm c)) x (round_ctx env x)"
    proof (cases "pairwise_reply (sm x)")
      case True
      then show ?thesis using P round_within [OF _ gn, of env] by auto
    next
      case False
      then have "may_open (sm x) = (\<lambda>_. False)" by (simp add: may_open_def fun_eq_iff)
      then show ?thesis using P round_within [OF _ gn, of env] by (auto simp: within_none intro: quiet_within)
    qed
    then have w: "within (may_open (sm c)) c (round_ctx env x)" using P within_trans by blast
    have nr: "\<not> pairwise_reply (sm (round_ctx env x))" using P round_reply(1) by blast
    show ?thesis
      using P w nr round_kept [of x env] round_sm_kept [of x env] round_idle_zero [of x env]
        round_reply(2) [of x env] sm_kept_trans base_kept_trans
      by (auto simp: reply_ok_def)
  qed
  obtain x where "?P x" "d = round_ctx env x"
    using loop step c by (elim loop_ctx_last [where P = ?P]) auto
  with step [of x] show "sm_kept (sm c) (sm d)" "base_kept (group c) (group d)" "counted d = counted c"
    "idle_zero (sm d)" "\<not> pairwise_reply (sm d)" "calc_ok (sm d)" "within (may_open (sm c)) c d"
    by auto
qed

subsection \<open>The invariant\<close>

definition flag_of :: "wpa_state_machine option \<Rightarrow> int" where
  "flag_of s = (case s of None \<Rightarrow> 0 | Some s \<Rightarrow> if GUpdateStationKeys s then 1 else 0)"

lemma flag_of_simps [simp]:
  "flag_of None = 0" "flag_of (Some s) = (if GUpdateStationKeys s then 1 else 0)"
  by (simp_all add: flag_of_def)

text \<open>The number of stations that have not confirmed the current group key.\<close>

definition waiting :: "wpa_state_machine option list \<Rightarrow> int" where
  "waiting ss = sum_list (map flag_of ss)"

lemma waiting_update:
  "i < length ss \<Longrightarrow> waiting (ss[i := x]) = waiting ss + flag_of x - flag_of (ss ! i)"
proof (induction ss arbitrary: i)
  case (Cons s ss)
  then show ?case by (cases i) (simp_all add: waiting_def)
qed simp

lemma waiting_nonneg: "0 \<le> waiting ss"
  unfolding waiting_def by (induction ss) (auto simp: flag_of_def split: option.split)

lemma waiting_count: "waiting ss = int (length (filter (\<lambda>s. \<exists>t. s = Some t \<and> GUpdateStationKeys t) ss))"
  unfolding waiting_def by (induction ss) (auto simp: flag_of_def split: option.split)

text \<open>
  While the stations are being marked for a new group key, \<open>k\<close> of them are not counted yet; at all
  other times \<open>k\<close> is 0.
\<close>

definition base_good :: "int \<Rightarrow> wpa_world \<Rightarrow> bool" where
  "base_good k w \<longleftrightarrow> calm (group w) \<and> (GN (group w), GM (group w)) \<in> {(1, 2), (2, 1)} \<and>
     GKeyDoneStations (group w) + k = waiting (stas w)"

definition sta_ok :: "wpa_state_machine \<Rightarrow> bool" where
  "sta_ok s \<longleftrightarrow> \<not> Init s \<and> \<not> in_step_loop s \<and> \<not> pending_deinit s \<and> idle_zero s \<and> ptk_rest s \<and>
     \<not> pairwise_reply s \<and> (wpa_ptk_state s = WPA_PTK_PTKCALCNEGOTIATING \<longrightarrow> \<not> PTK_valid s)"

definition good_at :: "int \<Rightarrow> wpa_world \<Rightarrow> bool" where
  "good_at k w \<longleftrightarrow> base_good k w \<and> (\<forall>i s. sta_of i w = Some s \<longrightarrow> sta_ok s)"

text \<open>A station that is about to be stepped; the others are at rest.\<close>

definition steppable :: "wpa_state_machine \<Rightarrow> bool" where
  "steppable s \<longleftrightarrow> \<not> in_step_loop s \<and> \<not> pending_deinit s \<and> idle_zero s \<and> reply_ok s \<and> calc_ok s"

definition good_but :: "int \<Rightarrow> nat \<Rightarrow> wpa_world \<Rightarrow> bool" where
  "good_but k i w \<longleftrightarrow> base_good k w \<and> (\<forall>j s. j \<noteq> i \<longrightarrow> sta_of j w = Some s \<longrightarrow> sta_ok s) \<and>
     (\<forall>s. sta_of i w = Some s \<longrightarrow> steppable s)"

lemma sta_ok_steppable: "sta_ok s \<Longrightarrow> steppable s"
  by (auto simp: sta_ok_def steppable_def reply_ok_def calc_ok_def)

lemma good_good_but: "good_at k w \<Longrightarrow> good_but k i w"
  by (auto simp: good_at_def good_but_def sta_ok_steppable)

lemma sta_of_stas: "sta_of i w = Some s \<Longrightarrow> stas w ! i = Some s"
  by (simp add: sta_of_def split: if_splits)

text \<open>Replacing a station keeps the count when the counts of both sides agree.\<close>

lemma base_good_put:
  assumes "base_good k w" "sta_of i w = Some s" "base_kept (group w) (group c)"
    and "counted c = counted (ctx_of w s)"
  shows "base_good k (put_ctx i c w)"
proof -
  have "waiting ((stas w)[i := Some (sm c)]) = waiting (stas w) + flag_of (Some (sm c)) - flag_of (Some s)"
    using waiting_update [OF sta_of_bound [OF assms(2)]] sta_of_stas [OF assms(2)] by simp
  then show ?thesis
    using assms(1,3,4) by (simp add: base_good_def base_kept_def calm_def counted_def step_simps)
qed

lemma good_but_put:
  assumes "good_but k i w" "sta_of i w = Some s" "base_kept (group w) (group c)"
    "counted c = counted (ctx_of w s)" "steppable (sm c)"
  shows "good_but k i (put_ctx i c w)"
  using assms base_good_put [OF _ assms(2-4)] sta_of_bound [OF assms(2)]
  by (auto simp: good_but_def sta_of_put sta_of_put_other)

lemma good_put:
  assumes "good_but k i w" "sta_of i w = Some s" "base_kept (group w) (group c)"
    "counted c = counted (ctx_of w s)" "sta_ok (sm c)"
  shows "good_at k (put_ctx i c w)"
proof -
  have "sta_ok t" if "sta_of j (put_ctx i c w) = Some t" for j t
    using that assms(1,5) sta_of_bound [OF assms(2)]
    by (cases "j = i") (auto simp: good_but_def sta_of_put sta_of_put_other)
  then show ?thesis
    using base_good_put [OF _ assms(2-4)] assms(1) by (auto simp: good_at_def good_but_def)
qed

text \<open>What a station may open in the world it is in.\<close>

definition sta_opens :: "nat \<Rightarrow> wpa_world \<Rightarrow> wpa_out \<Rightarrow> bool" where
  "sta_opens i w e \<longleftrightarrow> (\<exists>s. sta_of i w = Some s \<and> may_open s e)"

definition others_kept :: "nat \<Rightarrow> wpa_world \<Rightarrow> wpa_world \<Rightarrow> bool" where
  "others_kept i w w' \<longleftrightarrow> length (stas w') = length (stas w) \<and> (\<forall>j. j \<noteq> i \<longrightarrow> sta_of j w' = sta_of j w)"

lemma others_kept_put: "others_kept i w (put_ctx i c w)"
  by (simp add: others_kept_def sta_of_put_other step_simps)

lemma ptk_rest_cong:
  assumes "wpa_ptk_state s' = wpa_ptk_state s" "no_requests s' = no_requests s"
    and "pairwise_reply s' = pairwise_reply s" "TimeoutCtr s' = TimeoutCtr s"
    and "TimeoutEvt s' = TimeoutEvt s" "MICVerified s' = MICVerified s"
  shows "ptk_rest s' = ptk_rest s"
  using assms by (cases "wpa_ptk_state s") (simp_all add: ptk_rest_def)

lemma ptk_rest_step_flag [simp]: "ptk_rest (s\<lparr>in_step_loop := b\<rparr>) = ptk_rest s"
  by (rule ptk_rest_cong) (simp_all add: no_requests_def pairwise_reply_def)

text \<open>The effect of \<open>wpa_sm_step\<close>.\<close>

lemma sm_step_good:
  assumes gb: "good_but k i w" and n: "n \<ge> STEP_ROUNDS"
  obtains w' where "wpa_sm_step n env i w = Some (0, w')"
    and "within (sta_opens i w) w w'" "others_kept i w w'" "good_but k i w'"
    and "base_kept (group w) (group w')"
    and "\<And>s. sta_of i w = Some s \<Longrightarrow> \<exists>s'. sta_of i w' = Some s' \<and> sm_kept s s' \<and> \<not> pairwise_reply s'"
    and "(\<And>s. sta_of i w = Some s \<Longrightarrow> \<not> Init s) \<Longrightarrow> good_at k w'"
proof (cases "sta_of i w")
  case None
  then have "wpa_sm_step n env i w = Some (0, w)" by (simp add: wpa_sm_step_def sm_step_around_def)
  moreover have "good_at k w" using gb None unfolding good_at_def good_but_def by (metis option.distinct(1))
  ultimately show ?thesis
    using that [of w] gb None by (simp add: others_kept_def)
next
  case (Some s)
  let ?s = "s\<lparr>in_step_loop := True\<rparr>"
  let ?c = "ctx_of w ?s"
  have st: "steppable s" using gb Some by (simp add: good_but_def)
  have bg: "base_good k w" using gb by (simp add: good_but_def)
  have z: "idle_zero (sm ?c)" and r: "reply_ok (sm ?c)" and ck: "calc_ok (sm ?c)"
    using st by (simp_all add: steppable_def idle_zero_def reply_ok_def calc_ok_def pairwise_reply_def
        no_requests_def step_simps)
  have gn: "GN (group ?c) \<noteq> 0" using bg by (auto simp: base_good_def step_simps)
  obtain d where d: "loop_ctx n env ?c = Some d" using loop_ctx_total [OF z n] by blast
  note f = loop_facts [OF d z r ck gn]
  let ?d = "upd_sm (\<lambda>s. s\<lparr>in_step_loop := False\<rparr>) d"
  let ?w = "put_ctx i ?d w"
  have step: "wpa_sm_step n env i w = Some (0, ?w)"
    using sm_step_ctx [OF Some, of n env] st bg f(1) d
    by (simp add: steppable_def base_good_def sm_kept_def step_simps)
  have same: "may_open (sm ?c) = may_open s"
    by (simp add: fun_eq_iff may_open_def own_opening_def pairwise_reply_def step_simps)
  have w: "within (sta_opens i w) w ?w"
    using f(7) Some unfolding same by (simp add: within_def sta_opens_def step_simps)
  have bk: "base_kept (group w) (group ?d)" using f(2) by (simp add: step_simps)
  have cnt: "counted ?d = counted (ctx_of w s)" using f(3) by (simp add: counted_def step_simps)
  have sd: "steppable (sm ?d)"
    using st f(1,4,5,6) by (auto simp: steppable_def sm_kept_def idle_zero_def reply_ok_def calc_ok_def
        pairwise_reply_def step_simps)
  have gw: "good_but k i ?w" by (rule good_but_put [OF gb Some bk cnt sd])
  have kept: "sm_kept s (sm ?d)" "\<not> pairwise_reply (sm ?d)"
    using f(1,5) st by (simp_all add: sm_kept_def pairwise_reply_def steppable_def step_simps)
  have g: "good_at k ?w" if ni: "\<not> Init s"
  proof (rule good_put [OF gb Some bk cnt])
    have "ptk_rest (sm d)" using loop_ctx_rest(1) [OF d _ z] ni by (simp add: step_simps)
    then have rest: "ptk_rest (sm ?d)" by (simp add: step_simps)
    then show "sta_ok (sm ?d)"
      using sd kept ni
      by (auto simp: sta_ok_def steppable_def sm_kept_def calc_ok_def ptk_rest_def)
  qed
  show ?thesis
    using that [OF step w others_kept_put gw] bk kept g Some sta_of_bound [OF Some]
    by (simp add: sta_of_put step_simps)
qed

definition good :: "wpa_world \<Rightarrow> bool" where
  "good w \<longleftrightarrow> good_at 0 w"

subsection \<open>Changing a station at rest\<close>

lemma on_sm_some: "sta_of i w = Some s \<Longrightarrow> on_sm i f w = put_ctx i (upd_sm f (ctx_of w s)) w"
  by (simp add: on_sm_def with_sta_some)

lemma on_sm_none: "sta_of i w = None \<Longrightarrow> on_sm i f w = w"
  by (simp add: on_sm_def with_sta_def)

lemma on_sm_quiet: "quiet w (on_sm i f w)"
  by (cases "sta_of i w") (simp_all add: on_sm_none on_sm_some quiet_same step_simps)

lemma on_sm_frame [step_simps]: "group (on_sm i f w) = group w" "auth (on_sm i f w) = auth w"
  "out (on_sm i f w) = out w" "length (stas (on_sm i f w)) = length (stas w)"
  by (cases "sta_of i w"; simp add: on_sm_none on_sm_some step_simps)+

lemma on_sm_others: "others_kept i w (on_sm i f w)"
  by (cases "sta_of i w") (simp_all add: on_sm_none on_sm_some others_kept_put, simp add: others_kept_def)

lemma sta_of_on_sm: "sta_of i (on_sm i f w) = map_option f (sta_of i w)"
  by (cases "sta_of i w") (simp_all add: on_sm_none on_sm_some sta_of_bound sta_of_put step_simps)

lemma on_sm_good_but:
  assumes "good_but k i w"
    and "\<And>s. sta_of i w = Some s \<Longrightarrow> steppable (f s) \<and> GUpdateStationKeys (f s) = GUpdateStationKeys s"
  shows "good_but k i (on_sm i f w)"
proof (cases "sta_of i w")
  case (Some s)
  have "good_but k i (put_ctx i (upd_sm f (ctx_of w s)) w)"
    by (rule good_but_put [OF assms(1) Some])
       (use assms(2) [OF Some] in \<open>simp_all add: counted_def step_simps\<close>)
  then show ?thesis by (simp add: on_sm_some [OF Some])
qed (use assms(1) in \<open>simp add: on_sm_none\<close>)

lemma on_sm_good:
  assumes "good_at k w"
    and "\<And>s. sta_of i w = Some s \<Longrightarrow> sta_ok (f s) \<and> GUpdateStationKeys (f s) = GUpdateStationKeys s"
  shows "good_at k (on_sm i f w)"
proof (cases "sta_of i w")
  case (Some s)
  have "good_at k (put_ctx i (upd_sm f (ctx_of w s)) w)"
    by (rule good_put [OF good_good_but [OF assms(1)] Some])
       (use assms(2) [OF Some] in \<open>simp_all add: counted_def step_simps\<close>)
  then show ?thesis by (simp add: on_sm_some [OF Some])
qed (use assms(1) in \<open>simp add: on_sm_none\<close>)

text \<open>The world step as a total operation on a world at rest.\<close>

lemma sm_step_world_good:
  assumes "good_but k i w" "n \<ge> STEP_ROUNDS" "\<And>s. sta_of i w = Some s \<Longrightarrow> \<not> Init s"
  obtains w' where "sm_step_world n env i w = Some w'" "good_at k w'" "within (sta_opens i w) w w'"
    "others_kept i w w'" "base_kept (group w) (group w')"
  using sm_step_good [OF assms(1,2), where env = env] assms(3)
  by (auto simp: sm_step_world_def) metis

lemma sta_opens_none: "(\<And>s. sta_of i w = Some s \<Longrightarrow> \<not> pairwise_reply s) \<Longrightarrow> sta_opens i w = (\<lambda>_. False)"
  by (auto simp: sta_opens_def may_open_def fun_eq_iff)

subsection \<open>A new group key\<close>

definition gu :: "bool \<Rightarrow> wpa_state_machine \<Rightarrow> wpa_state_machine" where
  "gu b s = s\<lparr>GUpdateStationKeys := b\<rparr>"

lemma sta_ok_gu [simp]: "sta_ok (gu b s) = sta_ok s"
proof -
  have "ptk_rest (gu b s) = ptk_rest s"
    by (rule ptk_rest_cong) (simp_all add: gu_def no_requests_def pairwise_reply_def)
  then show ?thesis by (simp add: sta_ok_def gu_def idle_zero_def pairwise_reply_def)
qed

lemma drop_stas: "others_kept i w w' \<Longrightarrow> drop (Suc i) (stas w') = drop (Suc i) (stas w)"
proof (rule nth_equalityI)
  fix j assume o: "others_kept i w w'" and j: "j < length (drop (Suc i) (stas w'))"
  then have "sta_of (Suc i + j) w' = sta_of (Suc i + j) w" by (simp add: others_kept_def)
  moreover have "Suc i + j < length (stas w)" "length (stas w') = length (stas w)"
    using o j by (auto simp: others_kept_def)
  ultimately show "drop (Suc i) (stas w') ! j = drop (Suc i) (stas w) ! j"
    by (simp add: sta_of_def)
qed (simp add: others_kept_def)

text \<open>Marking one station and stepping it: one station less is left to count.\<close>

lemma update_sta_good:
  assumes g: "good_at (waiting (drop i (stas w))) w" and n: "n \<ge> STEP_ROUNDS" and i: "i < length (stas w)"
  obtains w' where "wpa_group_update_sta (sm_step_world n env) i w = Some w'"
    "good_at (waiting (drop (Suc i) (stas w'))) w'" "quiet w w'" "length (stas w') = length (stas w)"
    "base_kept (group w) (group w')"
proof -
  let ?k = "waiting (drop i (stas w))" and ?k' = "waiting (drop (Suc i) (stas w))"
  have k: "?k = flag_of (stas w ! i) + ?k'"
    using i by (simp add: waiting_def flip: Cons_nth_drop_Suc)
  show ?thesis
  proof (cases "sta_of i w")
    case None
    then have "stas w ! i = None" using i by (simp add: sta_of_def)
    then have "good_at ?k' w" using g k by simp
    then show ?thesis using that [of w] None by (simp add: wpa_group_update_sta_def)
  next
    case (Some s)
    have s: "stas w ! i = Some s" and ok: "sta_ok s"
      using Some g by (simp_all add: sta_of_stas good_at_def)
    have bg: "base_good ?k w" and all: "\<And>j t. sta_of j w = Some t \<Longrightarrow> sta_ok t"
      using g by (auto simp: good_at_def)
    have upd: "waiting (stas (on_sm i (gu b) w)) = waiting (stas w) + (if b then 1 else 0) - flag_of (Some s)" for b
      using waiting_update [OF i, of "Some (gu b s)"] s by (simp add: on_sm_some [OF Some] step_simps gu_def)
    have all': "sta_ok t" if "sta_of j (on_sm i (gu b) w) = Some t" for j t b
      using that all ok on_sm_others [of i w "gu b"]
      by (cases "j = i") (auto simp: sta_of_on_sm Some others_kept_def)
    have rest: "drop (Suc i) (stas (on_sm i (gu b) w)) = drop (Suc i) (stas w)" for b
      by (rule drop_stas [OF on_sm_others])
    show ?thesis
    proof (cases "wpa_ptk_state s = WPA_PTK_PTKINITDONE")
      case False
      let ?w = "on_sm i (gu False) w"
      have "good_at ?k' ?w"
        using bg all' k upd [of False] s by (auto simp: good_at_def base_good_def step_simps)
      then show ?thesis
        using that [of ?w] Some False rest [of False] on_sm_quiet
        by (simp add: wpa_group_update_sta_def gu_def [abs_def] step_simps)
    next
      case True
      let ?v = "on_sm i (gu True) (w\<lparr>group := (group w)\<lparr>GKeyDoneStations := GKeyDoneStations (group w) + 1\<rparr>\<rparr>)"
      let ?u = "on_sm i (gu True) w"
      have v: "?v = ?u\<lparr>group := (group w)\<lparr>GKeyDoneStations := GKeyDoneStations (group w) + 1\<rparr>\<rparr>"
      proof -
        have "sta_of i (w\<lparr>group := g\<rparr>) = Some s" for g using Some by (auto simp: sta_of_def split: if_splits)
        note sw = on_sm_some [OF this, of "gu True"]
        show ?thesis by (rule wpa_world_eqI) (simp_all add: sw on_sm_some [OF Some] step_simps)
      qed
      have sv: "sta_of j ?v = sta_of j ?u" for j by (simp add: v sta_of_def)
      have gv: "good_at ?k' ?v"
        using bg all' [of _ True] k upd [of True] s unfolding good_at_def sv
        by (auto simp: v base_good_def calm_def)
      obtain w' where w': "sm_step_world n env i ?v = Some w'" "good_at ?k' w'"
        "within (sta_opens i ?v) ?v w'" "others_kept i ?v w'" "base_kept (group ?v) (group w')"
        by (rule sm_step_world_good [OF good_good_but [OF gv] n, where env = env])
           (use gv in \<open>auto simp: good_at_def sta_ok_def\<close>)
      have "sta_opens i ?v = (\<lambda>_. False)"
        by (rule sta_opens_none) (use gv in \<open>auto simp: good_at_def sta_ok_def\<close>)
      then have "quiet w w'" using w'(3) by (simp add: within_none quiet_def v step_simps)
      moreover have "drop (Suc i) (stas w') = drop (Suc i) (stas w)"
        using drop_stas [OF w'(4)] rest [of True] by (simp add: v)
      moreover have "length (stas w') = length (stas w)"
        using w'(4) by (simp add: others_kept_def v step_simps)
      moreover have "base_kept (group w) (group w')" using w'(5) by (simp add: v base_kept_def)
      ultimately show ?thesis
        using that [of w'] w'(1,2) Some True
        by (simp add: wpa_group_update_sta_def gu_def [abs_def] Let_def)
    qed
  qed
qed

lemma sta_of_cong: "stas v = stas w \<Longrightarrow> sta_of i v = sta_of i w"
  by (simp add: sta_of_def)

lemma sta_of_upds [simp]:
  "sta_of i (w\<lparr>group := g\<rparr>) = sta_of i w" "sta_of i (w\<lparr>auth := a\<rparr>) = sta_of i w"
  "sta_of i (emit e w) = sta_of i w" "sta_of i (snd (wpa_group_setkeysdone env w)) = sta_of i w"
  by (rule sta_of_cong, simp add: setkeysdone_stas step_simps)+

lemma for_each_good:
  assumes "good_at (waiting (drop m (stas w))) w" "n \<ge> STEP_ROUNDS" "m \<le> length (stas w)"
  obtains w' where
    "wpa_auth_for_each_sta (wpa_group_update_sta (sm_step_world n env)) [m..<length (stas w)] w = Some w'"
    "good w'" "quiet w w'" "length (stas w') = length (stas w)"
  using assms
proof (induction "length (stas w) - m" arbitrary: m w thesis)
  case 0
  then have "drop m (stas w) = []" "[m..<length (stas w)] = []" by simp_all
  with 0 show ?case by (simp add: good_def waiting_def)
next
  case (Suc k)
  then have m: "m < length (stas w)" by simp
  obtain v where v: "wpa_group_update_sta (sm_step_world n env) m w = Some v"
    "good_at (waiting (drop (Suc m) (stas v))) v" "quiet w v" "length (stas v) = length (stas w)"
    by (rule update_sta_good [OF Suc.prems(2,3) m, where env = env])
  obtain u where u:
    "wpa_auth_for_each_sta (wpa_group_update_sta (sm_step_world n env)) [Suc m..<length (stas v)] v = Some u"
    "good u" "quiet v u" "length (stas u) = length (stas v)"
    by (rule Suc.hyps(1) [of v "Suc m"]) (use Suc.hyps(2) v m Suc.prems(3) in simp_all)
  show ?case
    by (rule Suc.prems(1) [of u]) (use u v m quiet_trans [OF v(3) u(3)] in \<open>simp_all add: upt_conv_Cons\<close>)
qed

text \<open>The group while a new key is asked for.\<close>

definition group_ok :: "wpa_group \<Rightarrow> bool" where
  "group_ok g \<longleftrightarrow> \<not> GInit g \<and> GTKAuthenticator g \<and> (GN g, GM g) \<in> {(1, 2), (2, 1)}"

definition rekeying :: "wpa_world \<Rightarrow> bool" where
  "rekeying w \<longleftrightarrow> group_ok (group w) \<and> GTKReKey (group w) \<and> (\<forall>i s. sta_of i w = Some s \<longrightarrow> sta_ok s)"

lemma start_setkeys_good:
  assumes "rekeying w"
  shows "good_at (waiting (stas w)) (start_setkeys env w)" "quiet w (start_setkeys env w)"
    "stas (start_setkeys env w) = stas w"
proof -
  let ?v = "w\<lparr>group := (swap_gn_gm (group w))\<lparr>group_changed := True,
    wpa_group_state := WPA_GROUP_SETKEYS, GTKReKey := False\<rparr>\<rparr>"
  let ?u = "snd (wpa_gtk_update env ?v)"
  have eq: "start_setkeys env w = ?u\<lparr>group := (group ?u)\<lparr>GKeyDoneStations := 0\<rparr>\<rparr>"
    by (simp add: start_setkeys_def Let_def)
  have op: "group_op ?v ?u" by (rule group_op_gtk_update)
  show st: "stas (start_setkeys env w) = stas w" using group_op_stas [OF op] by (simp add: eq)
  have "group_frame (group ?v) (group ?u)" by (rule group_op_fields(2) [OF op])
  then have "calm (group (start_setkeys env w))"
    "(GN (group (start_setkeys env w)), GM (group (start_setkeys env w))) \<in> {(1, 2), (2, 1)}"
    using assms by (auto simp: eq rekeying_def group_ok_def group_frame_def calm_def swap_gn_gm_def)
  moreover have "sta_of i (start_setkeys env w) = sta_of i w" for i by (rule sta_of_cong [OF st])
  ultimately show "good_at (waiting (stas w)) (start_setkeys env w)"
    using assms unfolding good_at_def base_good_def rekeying_def by (auto simp: st) (simp_all add: eq)
  have "quiet ?v ?u" by (rule quiet_group_op [OF op])
  then show "quiet w (start_setkeys env w)" by (simp add: eq quiet_def)
qed

lemma setkeys_good:
  assumes "rekeying w" "n \<ge> STEP_ROUNDS"
  obtains w' where "wpa_group_setkeys env (sm_step_world n env) w = Some w'" "good w'" "quiet w w'"
    "length (stas w') = length (stas w)"
proof -
  note s = start_setkeys_good [OF assms(1), of env]
  have "good_at (waiting (drop 0 (stas (start_setkeys env w)))) (start_setkeys env w)" using s by simp
  then obtain w' where "wpa_auth_for_each_sta (wpa_group_update_sta (sm_step_world n env))
      [0..<length (stas (start_setkeys env w))] (start_setkeys env w) = Some w'"
    "good w'" "quiet (start_setkeys env w) w'" "length (stas w') = length (stas (start_setkeys env w))"
    by (rule for_each_good [OF _ assms(2), where env = env]) simp
  then show ?thesis
    using that [of w'] quiet_trans [OF s(2), of w'] by (simp add: wpa_group_setkeys_def s(3))
qed

text \<open>Once the key is new the group machine comes to rest.\<close>

lemma group_quick_good:
  assumes "good w"
  shows "good (group_quick env w)" "quiet w (group_quick env w)"
proof -
  have b: "base_good 0 w" and all: "\<And>i s. sta_of i w = Some s \<Longrightarrow> sta_ok s"
    using assms by (auto simp: good_def good_at_def)
  have "sta_of i (group_quick env w) = sta_of i w" for i by (rule sta_of_cong) simp
  moreover have "base_good 0 (group_quick env w)"
    using b by (auto simp: base_good_def group_quick_def calm_def setkeysdone_stas step_simps)
  ultimately show "good (group_quick env w)" using all by (simp add: good_def good_at_def)
  show "quiet w (group_quick env w)"
    using b by (intro group_quick_quiet) (auto simp: base_good_def)
qed

lemma good_unchanged: "good w \<Longrightarrow> good (w\<lparr>group := (group w)\<lparr>group_changed := b\<rparr>\<rparr>)"
  by (simp add: good_def good_at_def base_good_def calm_def)

lemma calm_rekey_loop:
  assumes "good w" "m > group_rank (group w)"
  obtains w' where "group_rekey_loop m n env w = Some w'" "good w'" "quiet w w'"
    "length (stas w') = length (stas w)"
  using assms
proof (induction m arbitrary: w thesis)
  case (Suc m)
  let ?w = "w\<lparr>group := (group w)\<lparr>group_changed := False\<rparr>\<rparr>"
  let ?v = "group_quick env ?w"
  have gw: "good ?w" by (rule good_unchanged [OF Suc.prems(2)])
  have "calm (group ?w)" using gw by (simp add: good_def good_at_def base_good_def)
  then have step: "wpa_group_sm_step env (sm_step_world n env) ?w = Some ?v" by (rule group_step_calm)
  note gv = group_quick_good [OF gw, of env]
  have q: "quiet w ?v" using gv(2) by (simp add: quiet_def)
  show ?case
  proof (cases "group_changed (group ?v)")
    case False
    then show ?thesis using Suc.prems(1) [of ?v] step gv(1) q by simp
  next
    case True
    then have "group_rank (group ?v) < group_rank (group w)"
      by (auto simp: group_quick_def group_rank_def step_simps split: if_splits)
    then have "group_rank (group ?v) < m" using Suc.prems(3) by simp
    then obtain u where "group_rekey_loop m n env ?v = Some u" "good u" "quiet ?v u"
      "length (stas u) = length (stas ?v)" using Suc.IH [OF _ gv(1)] by blast
    moreover from this have "quiet w u" using quiet_trans [OF q] by blast
    ultimately show ?thesis using Suc.prems(1) [of u] step True by simp
  qed
qed simp

text \<open>The group machine with a pending request: one more round at most before the new key.\<close>

lemma setkeysdone_rekeying:
  assumes "rekeying w"
  shows "rekeying (snd (wpa_group_setkeysdone env w))" "quiet w (snd (wpa_group_setkeysdone env w))"
    "group_changed (group (snd (wpa_group_setkeysdone env w)))"
    "wpa_group_state (group (snd (wpa_group_setkeysdone env w))) = WPA_GROUP_SETKEYSDONE"
    "stas (snd (wpa_group_setkeysdone env w)) = stas w"
  using assms
  by (auto simp: rekeying_def group_ok_def step_simps setkeysdone_stas
      intro!: quiet_add [OF quiet_refl setkeysdone_frame(3)])

definition sets_keys :: "wpa_group \<Rightarrow> bool" where
  "sets_keys g \<longleftrightarrow> wpa_group_state g = WPA_GROUP_SETKEYSDONE \<or>
     wpa_group_state g = WPA_GROUP_SETKEYS \<and> GKeyDoneStations g \<noteq> 0"

lemma group_step_rekeying:
  "rekeying w \<Longrightarrow> wpa_group_sm_step env step w =
     (if sets_keys (group w) then wpa_group_setkeys env step w else Some (snd (wpa_group_setkeysdone env w)))"
  by (cases "wpa_group_state (group w)")
     (auto simp: wpa_group_sm_step_def rekeying_def group_ok_def sets_keys_def Let_def)

lemma rekey_loop_sets:
  assumes "rekeying w" "sets_keys (group w)" "n \<ge> STEP_ROUNDS" "m \<ge> 3"
  obtains w' where "group_rekey_loop m n env w = Some w'" "good w'" "quiet w w'"
    "length (stas w') = length (stas w)"
proof -
  obtain m' where m: "m = Suc m'" "m' \<ge> 2" using assms(4) by (cases m) auto
  let ?w = "w\<lparr>group := (group w)\<lparr>group_changed := False\<rparr>\<rparr>"
  have r: "rekeying ?w" using assms(1) by (simp add: rekeying_def group_ok_def)
  have sk: "sets_keys (group ?w)" using assms(2) by (simp add: sets_keys_def)
  obtain v where v: "wpa_group_setkeys env (sm_step_world n env) ?w = Some v" "good v" "quiet ?w v"
    "length (stas v) = length (stas ?w)" by (rule setkeys_good [OF r assms(3)])
  have q: "quiet w v" using v(3) by (simp add: quiet_def)
  have "group_rank (group v) < m'" using m(2) by (simp add: group_rank_def)
  then obtain u where u: "group_rekey_loop m' n env v = Some u" "good u" "quiet v u"
    "length (stas u) = length (stas v)" by (rule calm_rekey_loop [OF v(2)])
  have step: "wpa_group_sm_step env (sm_step_world n env) ?w = Some v"
    using group_step_rekeying [OF r, of env "sm_step_world n env"] sk v(1) by simp
  have "group_rekey_loop m n env w = Some (if group_changed (group v) then u else v)"
    using step u(1) m(1) by simp
  then show ?thesis
    using that [of "if group_changed (group v) then u else v"] u v(2,4) q quiet_trans [OF q u(3)] by simp
qed

lemma rekey_loop_good:
  assumes "rekeying w" "n \<ge> STEP_ROUNDS" "m \<ge> 4"
  obtains w' where "group_rekey_loop m n env w = Some w'" "good w'" "quiet w w'"
    "length (stas w') = length (stas w)"
proof (cases "sets_keys (group w)")
  case True
  then show ?thesis using rekey_loop_sets [OF assms(1) _ assms(2), of m env] assms(3) that by auto
next
  case False
  obtain m' where m: "m = Suc m'" "m' \<ge> 3" using assms(3) by (cases m) auto
  let ?w = "w\<lparr>group := (group w)\<lparr>group_changed := False\<rparr>\<rparr>"
  let ?v = "snd (wpa_group_setkeysdone env ?w)"
  have r: "rekeying ?w" using assms(1) by (simp add: rekeying_def group_ok_def)
  have nsk: "\<not> sets_keys (group ?w)" using False by (simp add: sets_keys_def)
  note v = setkeysdone_rekeying [OF r, of env]
  have "sets_keys (group ?v)" using v(4) by (simp add: sets_keys_def)
  then obtain u where u: "group_rekey_loop m' n env ?v = Some u" "good u" "quiet ?v u"
    "length (stas u) = length (stas ?v)" by (rule rekey_loop_sets [OF v(1) _ assms(2) m(2)])
  have "quiet w ?v" using v(2) by (simp add: quiet_def)
  then have "quiet w u" using u(3) by (rule quiet_trans)
  moreover have "wpa_group_sm_step env (sm_step_world n env) ?w = Some ?v"
    using group_step_rekeying [OF r, of env "sm_step_world n env"] nsk by simp
  ultimately show ?thesis using that [of u] u m(1) v(3,5) by simp
qed

lemma rekey_gtk_good:
  assumes "good w" "n \<ge> STEP_ROUNDS"
  obtains w' where "wpa_rekey_gtk n env w = Some w'" "good w'" "quiet w w'"
    "length (stas w') = length (stas w)"
proof -
  let ?w = "w\<lparr>group := (group w)\<lparr>GTKReKey := True\<rparr>\<rparr>"
  have r: "rekeying ?w"
    using assms(1) by (auto simp: rekeying_def group_ok_def good_def good_at_def base_good_def calm_def)
  have "n \<ge> 4" using assms(2) by (simp add: STEP_ROUNDS_def)
  then obtain v where v: "group_rekey_loop n n env ?w = Some v" "good v" "quiet ?w v"
    "length (stas v) = length (stas ?w)" by (rule rekey_loop_good [OF r assms(2)])
  let ?u = "if conf_wpa_group_rekey (conf (auth v)) \<noteq> 0
    then eloop_register_timeout (conf_wpa_group_rekey (conf (auth v))) 0 Timer_rekey_gtk v else v"
  have "good ?u"
    using v(2) by (simp add: good_def good_at_def base_good_def step_simps)
  moreover have "quiet v ?u" by (simp add: quiet_def step_simps)
  moreover have "quiet w v" using v(3) by (simp add: quiet_def)
  moreover have "stas ?u = stas v" by (simp add: step_simps)
  ultimately show ?thesis
    using that [of ?u] v(1,4) quiet_trans [of w v ?u] by (simp add: wpa_rekey_gtk_def)
qed

end
