(* ===== verification/WpaEvents.thy ===== *)
theory WpaEvents
  imports WpaGood
begin

text \<open>
  Everything that can happen to the authenticator: the events its entry points stand for, how each
  keeps the invariant, and what it may open. The first part follows a received frame.
\<close>

unbundle bit_operations_syntax

subsection \<open>A received frame\<close>

lemma check_frame:
  "receive_check data c = (go, c') \<Longrightarrow>
   sm c' = sm c \<and> auth c' = auth c \<and> base_kept (group c) (group c') \<and>
   GKeyDoneStations (group c') = GKeyDoneStations (group c) \<and> quiet c c'"
  by (auto simp: receive_check_def check_state_def check_pairwise_2_def Let_def step_simps base_kept_def quiet_def
      split: if_splits prod.splits eapol_msg.splits)

text \<open>What must hold of a frame that passes the first checks.\<close>

definition state_takes :: "eapol_msg \<Rightarrow> wpa_state_machine \<Rightarrow> bool" where
  "state_takes msg s \<longleftrightarrow>
     (case msg of
        PAIRWISE_2 \<Rightarrow> wpa_ptk_state s \<in> {WPA_PTK_PTKSTART, WPA_PTK_PTKCALCNEGOTIATING}
      | PAIRWISE_4 \<Rightarrow> wpa_ptk_state s = WPA_PTK_PTKINITNEGOTIATING \<and> PTK_valid s
      | GROUP_2 \<Rightarrow> wpa_ptk_group_state s = WPA_PTK_GROUP_REKEYNEGOTIATING \<and> PTK_valid s
      | REQUEST \<Rightarrow> True
      | _ \<Rightarrow> False)"

definition msg_of :: "bytes \<Rightarrow> eapol_msg" where
  "msg_of data = classify_msg (key_info_of data) (key_data_length_of data)"

lemma check_passes:
  "receive_check data c = (True, c') \<Longrightarrow>
   frame_fits (sm c) data \<and> version_ok (sm c) (msg_of data) (key_info_of data) \<and> counter_ok (sm c) data \<and>
   state_takes (msg_of data) (sm c) \<and>
   key_info_of data AND WPA_KEY_INFO_ACK = 0 \<and> key_info_of data AND WPA_KEY_INFO_MIC \<noteq> 0"
  by (auto simp: receive_check_def check_state_def check_pairwise_2_def msg_of_def state_takes_def Let_def
      split: if_splits prod.splits eapol_msg.splits)

definition mic_good :: "wpa_state_machine \<Rightarrow> bytes \<Rightarrow> bool" where
  "mic_good s data \<longleftrightarrow> PTK_valid s \<and> wpa_verify_key_mic (ptk_kck (PTK s)) data = 0"

lemma mic_frame:
  "receive_mic data c = (go, c') \<Longrightarrow>
   sm c' = (sm c)\<lparr>MICVerified := mic_good (sm c) data,
     pending_1_of_4_timeout := (if mic_good (sm c) data then False else pending_1_of_4_timeout (sm c))\<rparr> \<and>
   (go \<longrightarrow> mic_good (sm c) data = PTK_valid (sm c)) \<and>
   auth c' = auth c \<and> group c' = group c \<and> quiet c c'"
  by (auto simp: receive_mic_def mic_good_def Let_def step_simps quiet_def split: if_splits)

lemma msg_request: "key_info_of data AND WPA_KEY_INFO_REQUEST \<noteq> 0 \<Longrightarrow> msg_of data \<notin> {PAIRWISE_2, PAIRWISE_4, GROUP_2}"
  by (auto simp: msg_of_def classify_msg_def)

lemma msg_pairwise:
  "msg_of data \<in> {PAIRWISE_2, PAIRWISE_4} \<Longrightarrow> key_info_of data AND WPA_KEY_INFO_KEY_TYPE \<noteq> 0 \<and>
     key_info_of data AND WPA_KEY_INFO_REQUEST = 0"
  by (auto simp: msg_of_def classify_msg_def split: if_splits)

lemma msg_group:
  "msg_of data = GROUP_2 \<Longrightarrow> key_info_of data AND WPA_KEY_INFO_KEY_TYPE = 0 \<and>
     key_info_of data AND WPA_KEY_INFO_REQUEST = 0"
  by (auto simp: msg_of_def classify_msg_def split: if_splits)

text \<open>A station at rest that has just been given the verdict on the MIC is still at rest.\<close>

lemma sta_ok_mic:
  assumes "sta_ok s" "b \<longrightarrow> PTK_valid s"
  shows "sta_ok (s\<lparr>MICVerified := b, pending_1_of_4_timeout := p\<rparr>)"
proof -
  have "ptk_rest (s\<lparr>MICVerified := b, pending_1_of_4_timeout := p\<rparr>)"
    using assms unfolding sta_ok_def ptk_rest_def
    by (cases "wpa_ptk_state s") (auto simp: no_requests_def pairwise_reply_def)
  then show ?thesis using assms(1) by (simp add: sta_ok_def idle_zero_def pairwise_reply_def)
qed

lemma mic_upds [simp]:
  "idle_zero (s\<lparr>MICVerified := b, pending_1_of_4_timeout := p\<rparr>) = idle_zero s"
  "no_requests (s\<lparr>MICVerified := b, pending_1_of_4_timeout := p\<rparr>) = no_requests s"
  "idle_zero (wpa_request_new_ptk s) = idle_zero s"
  by (simp_all add: idle_zero_def no_requests_def wpa_request_new_ptk_def)

lemma note_frame_fields [simp]:
  "Init (note_frame d s) = Init s" "in_step_loop (note_frame d s) = in_step_loop s"
  "pending_deinit (note_frame d s) = pending_deinit s" "wpa_ptk_state (note_frame d s) = wpa_ptk_state s"
  "MICVerified (note_frame d s) = MICVerified s" "PTK_valid (note_frame d s) = PTK_valid s"
  "PTK (note_frame d s) = PTK s" "addr (note_frame d s) = addr s" "pairwise (note_frame d s) = pairwise s"
  "GUpdateStationKeys (note_frame d s) = GUpdateStationKeys s"
  "idle_zero (note_frame d s) = idle_zero s" "no_requests (note_frame d s) = no_requests s"
  "pairwise_reply (note_frame d s) \<longleftrightarrow> key_info_of d AND WPA_KEY_INFO_REQUEST = 0 \<and>
     key_info_of d AND WPA_KEY_INFO_KEY_TYPE \<noteq> 0"
  by (auto simp: note_frame_def idle_zero_def no_requests_def pairwise_reply_def)

lemma invalidate_fields [simp]:
  "Init (invalidate_replay s) = Init s" "in_step_loop (invalidate_replay s) = in_step_loop s"
  "pending_deinit (invalidate_replay s) = pending_deinit s" "wpa_ptk_state (invalidate_replay s) = wpa_ptk_state s"
  "MICVerified (invalidate_replay s) = MICVerified s" "PTK_valid (invalidate_replay s) = PTK_valid s"
  "PTK (invalidate_replay s) = PTK s" "addr (invalidate_replay s) = addr s"
  "pairwise (invalidate_replay s) = pairwise s"
  "GUpdateStationKeys (invalidate_replay s) = GUpdateStationKeys s"
  "idle_zero (invalidate_replay s) = idle_zero s" "no_requests (invalidate_replay s) = no_requests s"
  by (simp_all add: invalidate_replay_def idle_zero_def no_requests_def)

text \<open>The station after an accepted reply can be stepped.\<close>

lemma noted_reply_steppable:
  assumes "sta_ok s" "state_takes (msg_of data) s" "key_info_of data AND WPA_KEY_INFO_REQUEST = 0"
    and "b = PTK_valid s"
  shows "steppable (note_frame data (invalidate_replay (s\<lparr>MICVerified := b, pending_1_of_4_timeout := p\<rparr>)))"
proof -
  let ?t = "note_frame data (invalidate_replay (s\<lparr>MICVerified := b, pending_1_of_4_timeout := p\<rparr>))"
  have nr: "no_requests s" using assms(1) by (simp add: sta_ok_def ptk_rest_def)
  have base: "\<not> in_step_loop ?t" "\<not> pending_deinit ?t" "idle_zero ?t" "\<not> Init ?t" "no_requests ?t"
    using assms(1) nr by (simp_all add: sta_ok_def)
  consider (p) "msg_of data \<in> {PAIRWISE_2, PAIRWISE_4}" | (g) "msg_of data = GROUP_2" | (r) "msg_of data = REQUEST"
    using assms(2) by (auto simp: state_takes_def split: eapol_msg.splits)
  then show ?thesis
  proof cases
    case p
    then show ?thesis
      using assms base by (auto simp: steppable_def reply_ok_def calc_ok_def state_takes_def sta_ok_def)
  next
    case g
    then show ?thesis
      using assms base msg_group [OF g] by (auto simp: steppable_def reply_ok_def calc_ok_def sta_ok_def)
  next
    case r
    then show ?thesis using assms(3) by (simp add: msg_of_def classify_msg_def split: if_splits)
  qed
qed

lemma noted_request_steppable:
  assumes "sta_ok s" "key_info_of data AND WPA_KEY_INFO_REQUEST \<noteq> 0"
  shows "steppable (note_frame data s)"
  using assms by (auto simp: steppable_def reply_ok_def calc_ok_def sta_ok_def)

lemma noted_new_steppable:
  assumes "sta_ok s" "key_info_of data AND WPA_KEY_INFO_REQUEST \<noteq> 0"
  shows "steppable (note_frame data (wpa_request_new_ptk s))"
proof -
  have "\<not> PTK_valid (wpa_request_new_ptk s)" "in_step_loop (wpa_request_new_ptk s) = in_step_loop s"
    "pending_deinit (wpa_request_new_ptk s) = pending_deinit s"
    by (simp_all add: wpa_request_new_ptk_def)
  then show ?thesis using assms by (auto simp: steppable_def reply_ok_def calc_ok_def sta_ok_def)
qed

definition receive_opens :: "nat \<Rightarrow> bytes \<Rightarrow> wpa_world \<Rightarrow> wpa_out \<Rightarrow> bool" where
  "receive_opens i data w e \<longleftrightarrow> (\<exists>s. sta_of i w = Some s \<and> msg_of data = PAIRWISE_4 \<and>
     wpa_ptk_state s = WPA_PTK_PTKINITNEGOTIATING \<and> frame_fits s data \<and>
     wpa_replay_counter_valid s (replay_counter_of data) \<and> mic_good s data \<and> own_opening s e)"

text \<open>The two calls of the check part leave a world at rest.\<close>

lemma good_put_rest:
  assumes "good w" "sta_of i w = Some s" "base_kept (group w) (group c)"
    and "GKeyDoneStations (group c) = GKeyDoneStations (group w)"
    and "GUpdateStationKeys (sm c) = GUpdateStationKeys s" "sta_ok (sm c)"
  shows "good (put_ctx i c w)"
  unfolding good_def
  by (rule good_put [OF good_good_but assms(2,3) _ assms(6)])
     (use assms in \<open>simp_all add: good_def counted_def step_simps\<close>)

lemma within_quiet_left: "quiet w v \<Longrightarrow> within A v u \<Longrightarrow> within A w u"
  by (rule within_trans [OF quiet_within])

lemma step_noted:
  assumes "good_but 0 i w" "n \<ge> STEP_ROUNDS" "\<And>s. sta_of i w = Some s \<Longrightarrow> \<not> Init s"
  obtains w' where "sm_step_world n env i w = Some w'" "good w'" "within (sta_opens i w) w w'"
  using sm_step_world_good [OF assms(1,2), where env = env] assms(3) by (auto simp: good_def)

lemma accept_reply_good:
  assumes g: "good w" and n: "n \<ge> STEP_ROUNDS" and s: "sta_of i w = Some s"
    and c: "sm c = s\<lparr>MICVerified := PTK_valid s, pending_1_of_4_timeout := p\<rparr>"
    and b: "base_kept (group w) (group c)" "GKeyDoneStations (group c) = GKeyDoneStations (group w)"
    and m: "state_takes (msg_of data) s" "key_info_of data AND WPA_KEY_INFO_REQUEST = 0"
  obtains w' where "accept_frame n env i data (put_ctx i c w) = Some w'" "good w'"
    "within (\<lambda>e. msg_of data = PAIRWISE_4 \<and> own_opening s e) (put_ctx i c w) w'"
proof -
  let ?d = "upd_sm (note_frame data) (upd_sm invalidate_replay c)"
  have i: "i < length (stas w)" by (rule sta_of_bound [OF s])
  have ok: "sta_ok s" using g s by (auto simp: good_def good_at_def)
  have eq: "on_sm i (note_frame data) (on_sm i invalidate_replay (put_ctx i c w)) = put_ctx i ?d w"
    using i by (simp add: on_sm_def with_sta_put)
  have st: "steppable (sm ?d)"
    using noted_reply_steppable [OF ok m refl, of p] by (simp add: step_simps c)
  have gb: "good_but 0 i (put_ctx i ?d w)"
    by (rule good_but_put [OF good_good_but s _ _ st])
       (use g b in \<open>simp_all add: good_def counted_def step_simps c\<close>)
  have ni: "\<not> Init t" if "sta_of i (put_ctx i ?d w) = Some t" for t
    using that ok i by (auto simp: sta_of_put c sta_ok_def step_simps)
  obtain w' where w': "sm_step_world n env i (put_ctx i ?d w) = Some w'" "good w'"
    "within (sta_opens i (put_ctx i ?d w)) (put_ctx i ?d w) w'"
    by (rule step_noted [OF gb n ni])
  have "accept_frame n env i data (put_ctx i c w) = Some w'"
    using m(2) w'(1) by (simp add: accept_frame_def eq)
  moreover have "within (\<lambda>e. msg_of data = PAIRWISE_4 \<and> own_opening s e) (put_ctx i c w) w'"
  proof -
    have "msg_of data = PAIRWISE_4 \<and> own_opening s e" if "sta_opens i (put_ctx i ?d w) e" for e
    proof -
      have mo: "may_open (sm ?d) e" using that i by (simp add: sta_opens_def sta_of_put)
      then have "wpa_ptk_state s = WPA_PTK_PTKINITNEGOTIATING"
        and kt: "key_info_of data AND WPA_KEY_INFO_KEY_TYPE \<noteq> 0"
        by (auto simp: may_open_def step_simps c)
      with m(1) have "msg_of data = PAIRWISE_4"
        using msg_group [of data] m(2)
        by (auto simp: state_takes_def split: eapol_msg.splits)
           (simp add: msg_of_def classify_msg_def split: if_splits)
      moreover have "own_opening s e" using mo by (simp add: may_open_def own_opening_def step_simps c)
      ultimately show ?thesis by blast
    qed
    then show ?thesis using w'(3) by (auto simp: within_def step_simps)
  qed
  ultimately show ?thesis using that w'(2) by blast
qed

lemma note_request_ok:
  assumes "sta_ok s"
  shows "sta_ok (s\<lparr>req_replay_counter_used := True, req_replay_counter := rc\<rparr>)"
proof -
  have "ptk_rest (s\<lparr>req_replay_counter_used := True, req_replay_counter := rc\<rparr>) = ptk_rest s"
    by (rule ptk_rest_cong) (simp_all add: no_requests_def pairwise_reply_def)
  then show ?thesis using assms by (simp add: sta_ok_def idle_zero_def pairwise_reply_def)
qed

text \<open>After the request itself has been handled the frame is noted and the station stepped.\<close>

lemma request_step:
  assumes gb: "good_but 0 i v" and n: "n \<ge> STEP_ROUNDS" and r: "key_info_of data AND WPA_KEY_INFO_REQUEST \<noteq> 0"
    and t: "\<And>t. sta_of i v = Some t \<Longrightarrow> \<not> Init t \<and> steppable (note_frame data t)"
  obtains w' where "sm_step_world n env i (on_sm i (note_frame data) v) = Some w'" "good w'" "quiet v w'"
proof -
  let ?v = "on_sm i (note_frame data) v"
  have g: "good_but 0 i ?v" by (rule on_sm_good_but [OF gb]) (use t in auto)
  have ni: "\<not> Init t" if "sta_of i ?v = Some t" for t using that t by (auto simp: sta_of_on_sm)
  obtain w' where w': "sm_step_world n env i ?v = Some w'" "good w'" "within (sta_opens i ?v) ?v w'"
    by (rule step_noted [OF g n ni])
  have "sta_opens i ?v = (\<lambda>_. False)"
    by (rule sta_opens_none) (use r in \<open>auto simp: sta_of_on_sm\<close>)
  then have "quiet v w'" using w'(3) on_sm_quiet quiet_trans by (simp add: within_none) blast
  then show ?thesis using that w'(1,2) by blast
qed

lemma handle_request_good:
  assumes g: "good w" and n: "n \<ge> STEP_ROUNDS" and r: "key_info_of data AND WPA_KEY_INFO_REQUEST \<noteq> 0"
  obtains v where "handle_request n env i data w = Some v" "quiet w v" "good_but 0 i v"
    "\<And>t. sta_of i v = Some t \<Longrightarrow> \<not> Init t \<and> steppable (note_frame data t)"
proof -
  have ok: "sta_ok s" if "sta_of i w = Some s" for s using g that by (auto simp: good_def good_at_def)
  have rest: "good_but 0 i v \<and> (\<forall>t. sta_of i v = Some t \<longrightarrow> \<not> Init t \<and> steppable (note_frame data t))"
    if "good v" for v
    using that r by (auto simp: good_def good_at_def sta_ok_def good_good_but noted_request_steppable)
  have new: "good_but 0 i (with_sta i (\<lambda>c. upd_sm wpa_request_new_ptk (f c)) w) \<and>
      (\<forall>t. sta_of i (with_sta i (\<lambda>c. upd_sm wpa_request_new_ptk (f c)) w) = Some t \<longrightarrow>
        \<not> Init t \<and> steppable (note_frame data t)) \<and> quiet w (with_sta i (\<lambda>c. upd_sm wpa_request_new_ptk (f c)) w)"
    if f: "\<And>c. group (f c) = group c \<and> quiet c (f c) \<and> (\<exists>m. sm (f c) = (sm c)\<lparr>RemoteMICFailures := m\<rparr>)" for f
  proof (cases "sta_of i w")
    case None
    then show ?thesis using good_good_but g by (simp add: with_sta_def good_def)
  next
    case (Some s)
    let ?c = "upd_sm wpa_request_new_ptk (f (ctx_of w s))"
    obtain m where m: "sm (f (ctx_of w s)) = s\<lparr>RemoteMICFailures := m\<rparr>" using f [of "ctx_of w s"] by (auto simp: step_simps)
    have okm: "sta_ok (s\<lparr>RemoteMICFailures := m\<rparr>)"
    proof -
      have "ptk_rest (s\<lparr>RemoteMICFailures := m\<rparr>) = ptk_rest s"
        by (rule ptk_rest_cong) (simp_all add: no_requests_def pairwise_reply_def)
      then show ?thesis using ok [OF Some] by (simp add: sta_ok_def idle_zero_def pairwise_reply_def)
    qed
    have nt: "steppable (note_frame data (sm ?c))"
      using noted_new_steppable [OF okm r] by (simp add: step_simps m)
    have "steppable (sm ?c)"
    proof -
      have "\<not> pairwise_reply (wpa_request_new_ptk (s\<lparr>RemoteMICFailures := m\<rparr>))"
        "\<not> PTK_valid (wpa_request_new_ptk (s\<lparr>RemoteMICFailures := m\<rparr>))"
        "in_step_loop (wpa_request_new_ptk (s\<lparr>RemoteMICFailures := m\<rparr>)) = in_step_loop s"
        "pending_deinit (wpa_request_new_ptk (s\<lparr>RemoteMICFailures := m\<rparr>)) = pending_deinit s"
        using okm by (simp_all add: wpa_request_new_ptk_def pairwise_reply_def sta_ok_def)
      then show ?thesis using okm by (simp add: steppable_def reply_ok_def calc_ok_def sta_ok_def step_simps m)
    qed
    then have "good_but 0 i (put_ctx i ?c w)"
      by (intro good_but_put [OF good_good_but Some])
         (use g f [of "ctx_of w s"] in \<open>simp_all add: good_def counted_def step_simps m wpa_request_new_ptk_def\<close>)
    moreover have "\<not> Init (sm ?c)" using okm by (simp add: step_simps m wpa_request_new_ptk_def sta_ok_def)
    moreover have "quiet w (put_ctx i ?c w)"
      using f [of "ctx_of w s"] by (simp add: quiet_def step_simps)
    ultimately show ?thesis
      using nt sta_of_bound [OF Some] by (simp add: with_sta_some [OF Some] sta_of_put)
  qed
  show ?thesis
  proof (cases "request_kind_of data")
    case ErrorReport
    let ?f = "\<lambda>c. upd_auth (\<lambda>a. a\<lparr>auth_TKIPRemoteMICFailures := auth_TKIPRemoteMICFailures a + 1\<rparr>)
      (upd_sm (\<lambda>s. s\<lparr>RemoteMICFailures := RemoteMICFailures s + 1\<rparr>) (wpa_auth_mic_failure_report (addr (sm c)) c))"
    have eq: "report_error = (\<lambda>c. upd_sm wpa_request_new_ptk (?f c))"
      by (simp add: fun_eq_iff report_error_def Let_def)
    have "group (?f c) = group c \<and> quiet c (?f c) \<and> (\<exists>m. sm (?f c) = (sm c)\<lparr>RemoteMICFailures := m\<rparr>)" for c
      by (auto simp: step_simps quiet_def)
    from new [of ?f, OF this] show ?thesis
      using that [of "with_sta i report_error w"] ErrorReport by (simp add: handle_request_def eq)
  next
    case NewHandshake
    have "group c = group c \<and> quiet c c \<and> (\<exists>m. sm c = (sm c)\<lparr>RemoteMICFailures := m\<rparr>)" for c :: wpa_ctx
      by (auto intro: exI [of _ "RemoteMICFailures (sm c)"])
    from new [of "\<lambda>c. c", OF this] show ?thesis
      using that [of "on_sm i wpa_request_new_ptk w"] NewHandshake
      by (simp add: handle_request_def on_sm_def [abs_def])
  next
    case StationKey
    then show ?thesis using that [of w] rest [OF g] by (simp add: handle_request_def)
  next
    case GroupRekey
    let ?w = "eloop_cancel_timeout Timer_rekey_gtk w"
    have "good ?w" using g by (simp add: good_def good_at_def base_good_def step_simps)
    then obtain v where v: "wpa_rekey_gtk n env ?w = Some v" "good v" "quiet ?w v"
      by (rule rekey_gtk_good [OF _ n, where env = env])
    have "quiet w ?w" by (simp add: quiet_def step_simps)
    then have "quiet w v" using v(3) by (rule quiet_trans)
    then show ?thesis using that [of v] v rest [OF v(2)] GroupRekey by (simp add: handle_request_def)
  qed
qed

lemma receive_good:
  assumes g: "good w" and n: "n \<ge> STEP_ROUNDS"
  obtains w' where "wpa_receive n env i data w = Some w'" "good w'" "within (receive_opens i data w) w w'"
proof (cases "conf_wpa (conf (auth w)) = 0 \<or> sta_of i w = None")
  case True
  then show ?thesis using that [of w] g by (auto simp: wpa_receive_def split: option.split)
next
  case False
  then obtain s where s: "sta_of i w = Some s" and wpa: "conf_wpa (conf (auth w)) \<noteq> 0" by auto
  have ok: "sta_ok s" using g s by (auto simp: good_def good_at_def)
  obtain go c where c: "receive_check data (ctx_of w s) = (go, c)" by (cases "receive_check data (ctx_of w s)")
  obtain go' d where d: "receive_mic data c = (go', d)" by (cases "receive_mic data c")
  note cf = check_frame [OF c] and df = mic_frame [OF d]
  have smc: "sm c = s" using cf by (simp add: step_simps)
  let ?w1 = "put_ctx i c w" and ?w2 = "put_ctx i d w"
  have g1: "good ?w1"
    by (rule good_put_rest [OF g s]) (use cf ok in \<open>simp_all add: step_simps\<close>)
  have b2: "base_kept (group w) (group d)" "GKeyDoneStations (group d) = GKeyDoneStations (group w)"
    using cf df by (simp_all add: step_simps)
  have okd: "sta_ok (sm d)"
    using df sta_ok_mic [OF ok, of "mic_good s data"] by (simp add: smc mic_good_def)
  have gu2: "GUpdateStationKeys (sm d) = GUpdateStationKeys s" using df by (simp add: smc)
  have g2: "good ?w2" by (rule good_put_rest [OF g s b2 gu2 okd])
  have q1: "quiet w ?w1" using cf by (simp add: quiet_def step_simps)
  have "quiet (ctx_of w s) d" using cf df quiet_trans by blast
  then have q2: "quiet w ?w2" by (simp add: quiet_def step_simps)
  have put2: "put_ctx i d ?w1 = ?w2" by (rule put_put)
  have recv: "wpa_receive n env i data w =
      (if \<not> go then Some ?w1 else if \<not> go' then Some ?w2 else accept_frame n env i data ?w2)"
    using wpa s c d put2 by (simp add: wpa_receive_def Let_def)
  show ?thesis
  proof (cases "go \<and> go'")
    case False
    then show ?thesis
      using that [of ?w1] that [of ?w2] recv g1 g2 quiet_within [OF q1] quiet_within [OF q2] by (cases go) auto
  next
    case True
    then have recv': "wpa_receive n env i data w = accept_frame n env i data ?w2" using recv by simp
    have c': "receive_check data (ctx_of w s) = (True, c)" using c True by simp
    note pass = check_passes [OF c', unfolded ctx_of_simps]
    have mg: "mic_good s data = PTK_valid s" using df True by (simp add: smc)
    have smd: "sm d = s\<lparr>MICVerified := PTK_valid s,
        pending_1_of_4_timeout := (if PTK_valid s then False else pending_1_of_4_timeout s)\<rparr>"
      using df by (simp add: smc mg)
    show ?thesis
    proof (cases "key_info_of data AND WPA_KEY_INFO_REQUEST = 0")
      case rep: True
      obtain w' where w': "accept_frame n env i data ?w2 = Some w'" "good w'"
        "within (\<lambda>e. msg_of data = PAIRWISE_4 \<and> own_opening s e) ?w2 w'"
        using accept_reply_good [OF g n s smd b2 _ rep] pass by blast
      have "within (\<lambda>e. msg_of data = PAIRWISE_4 \<and> own_opening s e) w w'"
        by (rule within_quiet_left [OF q2 w'(3)])
      moreover have "receive_opens i data w e" if "msg_of data = PAIRWISE_4 \<and> own_opening s e" for e
        using that pass s rep mg by (auto simp: receive_opens_def state_takes_def counter_ok_def)
      ultimately have "within (receive_opens i data w) w w'" by (auto simp: within_def)
      then show ?thesis using that w'(1,2) recv' by simp
    next
      case req: False
      have i: "i < length (stas w)" by (rule sta_of_bound [OF s])
      have mv: "sta_is MICVerified i ?w2 = PTK_valid s" using i by (simp add: sta_is_def sta_of_put smd)
      show ?thesis
      proof (cases "PTK_valid s")
        case False
        then have "accept_frame n env i data ?w2 = Some ?w2" using req mv by (simp add: accept_frame_def)
        then show ?thesis using that [of ?w2] recv' g2 quiet_within [OF q2] by simp
      next
        case pv: True
        let ?d = "note_request data d"
        have w3: "with_sta i (note_request data) ?w2 = put_ctx i ?d w" using i by (simp add: with_sta_put)
        have "sta_ok (sm ?d)" using note_request_ok [OF okd] by (simp add: note_request_def step_simps)
        then have g3: "good (put_ctx i ?d w)"
          by (intro good_put_rest [OF g s]) (use b2 gu2 in \<open>simp_all add: note_request_def step_simps\<close>)
        obtain v where v: "handle_request n env i data (put_ctx i ?d w) = Some v" "quiet (put_ctx i ?d w) v"
          "good_but 0 i v" "\<And>t. sta_of i v = Some t \<Longrightarrow> \<not> Init t \<and> steppable (note_frame data t)"
          by (rule handle_request_good [OF g3 n req, where env = env and i = i]) blast
        obtain w' where w': "sm_step_world n env i (on_sm i (note_frame data) v) = Some w'" "good w'" "quiet v w'"
          by (rule request_step [OF v(3) n req v(4)]) blast
        have acc: "accept_frame n env i data ?w2 = Some w'"
          using req mv pv w3 v(1) w'(1) by (simp add: accept_frame_def)
        have "quiet w (put_ctx i ?d w)" using q2 by (simp add: quiet_def note_request_def step_simps)
        then have "quiet w w'" using v(2) w'(3) quiet_trans by blast
        then show ?thesis using that w'(2) acc recv' quiet_within by metis
      qed
    qed
  qed
qed

subsection \<open>The other entry points\<close>

text \<open>Two changes of a station that keep it steppable, and one step after a change.\<close>

lemma step_after:
  assumes "good_but 0 i w" "n \<ge> STEP_ROUNDS" "\<And>s. sta_of i w = Some s \<Longrightarrow> \<not> Init s \<and> \<not> pairwise_reply s"
  obtains w' where "wpa_sm_step n env i w = Some (0, w')" "good w'" "quiet w w'"
proof -
  have "sta_opens i w = (\<lambda>_. False)" by (rule sta_opens_none) (use assms(3) in blast)
  then show ?thesis
    using sm_step_good [OF assms(1,2), where env = env] assms(3) that
    by (metis good_def within_none)
qed

lemma steppable_upd:
  assumes "steppable s" "\<not> pairwise_reply s"
    and "in_step_loop s' = in_step_loop s" "pending_deinit s' = pending_deinit s" "idle_zero s'"
    and "\<not> pairwise_reply s'" "wpa_ptk_state s' = wpa_ptk_state s" "PTK_valid s' \<longrightarrow> PTK_valid s"
    and "MICVerified s' = MICVerified s"
  shows "steppable s'"
  using assms by (auto simp: steppable_def reply_ok_def calc_ok_def)

lemma sta_ok_upd:
  assumes "sta_ok s" "Init s' = Init s" "in_step_loop s' = in_step_loop s" "pending_deinit s' = pending_deinit s"
    and "wpa_ptk_group_state s' = wpa_ptk_group_state s" "GTimeoutCtr s' = GTimeoutCtr s"
    and "no_requests s' = no_requests s" "pairwise_reply s' = pairwise_reply s"
    and "wpa_ptk_state s' = wpa_ptk_state s" "PTK_valid s' = PTK_valid s" "MICVerified s' = MICVerified s"
    and "TimeoutCtr s' = TimeoutCtr s" "TimeoutEvt s' = TimeoutEvt s"
  shows "sta_ok s'"
  using assms ptk_rest_cong [of s' s] by (simp add: sta_ok_def idle_zero_def)

lemma sta_ok_steps:
  "sta_ok s \<Longrightarrow> steppable s \<and> \<not> Init s \<and> \<not> pairwise_reply s \<and> idle_zero s"
  by (simp add: sta_ok_steppable sta_ok_def)

lemma good_sta: "good w \<Longrightarrow> sta_of i w = Some s \<Longrightarrow> sta_ok s"
  by (auto simp: good_def good_at_def)

lemma good_but_good: "good w \<Longrightarrow> good_but 0 i w"
  by (simp add: good_def good_good_but)

text \<open>A request flag is set and the station stepped.\<close>

lemma flagged_step:
  assumes g: "good w" and n: "n \<ge> STEP_ROUNDS"
    and f: "\<And>s. sta_ok s \<Longrightarrow> \<not> Init (f s) \<and> \<not> pairwise_reply (f s) \<and> steppable (f s) \<and>
      GUpdateStationKeys (f s) = GUpdateStationKeys s"
  obtains w' where "wpa_sm_step n env i (on_sm i f w) = Some (0, w')" "good w'" "quiet w w'"
proof -
  have gb: "good_but 0 i (on_sm i f w)"
    by (rule on_sm_good_but [OF good_but_good [OF g]]) (use f good_sta [OF g] in blast)
  obtain w' where "wpa_sm_step n env i (on_sm i f w) = Some (0, w')" "good w'" "quiet (on_sm i f w) w'"
    by (rule step_after [OF gb n, where env = env]) (use f good_sta [OF g] in \<open>auto simp: sta_of_on_sm\<close>)
  then show ?thesis using that quiet_trans [OF on_sm_quiet] by blast
qed

lemma flag_steppable:
  assumes "sta_ok s"
  shows "steppable (s\<lparr>pending_1_of_4_timeout := p, TimeoutEvt := b\<rparr>)" "steppable (wpa_request_new_ptk s)"
    "steppable (s\<lparr>key_replay := kr, ReAuthenticationRequest := b\<rparr>)" "steppable (s\<lparr>started := b, Init := b'\<rparr>)"
    "steppable (s\<lparr>DeauthenticationRequest := b\<rparr>)" "steppable (s\<lparr>ReAuthenticationRequest := b\<rparr>)"
  by (rule steppable_upd [of s]; use sta_ok_steps [OF assms] in
      \<open>simp add: idle_zero_def pairwise_reply_def wpa_request_new_ptk_def\<close>)+

lemma timeout_good:
  assumes "good w" "n \<ge> STEP_ROUNDS"
  obtains w' where "wpa_send_eapol_timeout n env i w = Some w'" "good w'" "quiet w w'"
  by (rule flagged_step [OF assms, of "\<lambda>s. s\<lparr>pending_1_of_4_timeout := False, TimeoutEvt := True\<rparr>" env i])
     (use that sta_ok_steps flag_steppable(1) in
       \<open>auto simp: wpa_send_eapol_timeout_def sm_step_world_def pairwise_reply_def\<close>)

lemma rekey_ptk_good:
  assumes "good w" "n \<ge> STEP_ROUNDS"
  obtains w' where "wpa_rekey_ptk n env i w = Some w'" "good w'" "quiet w w'"
  by (rule flagged_step [OF assms, of wpa_request_new_ptk env i])
     (use that sta_ok_steps flag_steppable(2) in
       \<open>auto simp: wpa_rekey_ptk_def sm_step_world_def pairwise_reply_def wpa_request_new_ptk_def\<close>)

lemma call_step_good:
  assumes "good w" "n \<ge> STEP_ROUNDS"
  obtains w' where "wpa_sm_call_step n env i w = Some w'" "good w'" "quiet w w'"
  by (rule step_after [OF good_but_good [OF assms(1)] assms(2), where env = env and i = i])
     (use that good_sta [OF assms(1)] sta_ok_steps in
       \<open>auto simp: wpa_sm_call_step_def sm_step_world_def\<close>)

text \<open>The first step of a station that was not started, and the request that follows it.\<close>

lemma start_step:
  assumes g: "good w" and n: "n \<ge> STEP_ROUNDS"
  obtains v where "wpa_sm_step n env i (on_sm i (\<lambda>s. s\<lparr>started := True, Init := True\<rparr>) w) = Some (0, v)"
    "quiet w v" "good_but 0 i (on_sm i (\<lambda>s. s\<lparr>Init := False, AuthenticationRequest := True\<rparr>) v)"
    "\<And>s. sta_of i (on_sm i (\<lambda>s. s\<lparr>Init := False, AuthenticationRequest := True\<rparr>) v) = Some s \<Longrightarrow>
      \<not> Init s \<and> \<not> pairwise_reply s"
proof -
  let ?w = "on_sm i (\<lambda>s. s\<lparr>started := True, Init := True\<rparr>) w"
  have gb: "good_but 0 i ?w"
    by (rule on_sm_good_but [OF good_but_good [OF g]]) (use flag_steppable(4) good_sta [OF g] in auto)
  have nr: "\<not> pairwise_reply s" if "sta_of i ?w = Some s" for s
    using that good_sta [OF g, of i] by (auto simp: sta_of_on_sm sta_ok_def pairwise_reply_def)
  obtain v where v: "wpa_sm_step n env i ?w = Some (0, v)" "within (sta_opens i ?w) ?w v" "good_but 0 i v"
    and vs: "\<And>s. sta_of i ?w = Some s \<Longrightarrow> \<exists>s'. sta_of i v = Some s' \<and> sm_kept s s' \<and> \<not> pairwise_reply s'"
    and vo: "others_kept i ?w v"
    by (rule sm_step_good [OF gb n, where env = env]) blast
  have "sta_opens i ?w = (\<lambda>_. False)" by (rule sta_opens_none) (rule nr)
  then have q: "quiet w v" using v(2) on_sm_quiet quiet_trans by (simp add: within_none) blast
  have nrv: "\<not> pairwise_reply s" if "sta_of i v = Some s" for s
  proof -
    have "i < length (stas ?w)" using sta_of_bound [OF that] vo by (simp add: others_kept_def)
    show ?thesis
    proof (cases "sta_of i ?w")
      case (Some t)
      then show ?thesis using vs [OF Some] that by auto
    next
      case None
      then have "wpa_sm_step n env i ?w = Some (0, ?w)" by (simp add: wpa_sm_step_def sm_step_around_def)
      then show ?thesis using v(1) None that by simp
    qed
  qed
  have st: "steppable (s\<lparr>Init := False, AuthenticationRequest := True\<rparr>)" if "sta_of i v = Some s" for s
  proof (rule steppable_upd)
    show "steppable s" using v(3) that by (simp add: good_but_def)
    then show "idle_zero (s\<lparr>Init := False, AuthenticationRequest := True\<rparr>)" by (simp add: steppable_def idle_zero_def)
    show "\<not> pairwise_reply s" using nrv [OF that] .
    then show "\<not> pairwise_reply (s\<lparr>Init := False, AuthenticationRequest := True\<rparr>)" by (simp add: pairwise_reply_def)
  qed simp_all
  have "good_but 0 i (on_sm i (\<lambda>s. s\<lparr>Init := False, AuthenticationRequest := True\<rparr>) v)"
    by (rule on_sm_good_but [OF v(3)]) (use st in simp)
  moreover have "\<not> Init s \<and> \<not> pairwise_reply s"
    if s: "sta_of i (on_sm i (\<lambda>s. s\<lparr>Init := False, AuthenticationRequest := True\<rparr>) v) = Some s" for s
  proof -
    obtain z where "sta_of i v = Some z" "s = z\<lparr>Init := False, AuthenticationRequest := True\<rparr>"
      using s by (auto simp: sta_of_on_sm)
    then show ?thesis using nrv [of z] by (simp add: pairwise_reply_def)
  qed
  ultimately show ?thesis using that [OF v(1) q] by blast
qed

lemma associated_good:
  assumes g: "good w" and n: "n \<ge> STEP_ROUNDS"
  obtains r w' where "wpa_auth_sta_associated n env i w = Some (r, w')" "good w'" "quiet w w'"
proof (cases "conf_wpa (conf (auth w)) = 0 \<or> sta_of i w = None")
  case True
  then show ?thesis using that [of "-1" w] g by (auto simp: wpa_auth_sta_associated_def)
next
  case False
  then obtain s where s: "sta_of i w = Some s" "conf_wpa (conf (auth w)) \<noteq> 0" by auto
  show ?thesis
  proof (cases "started s")
    case True
    let ?f = "\<lambda>s. s\<lparr>key_replay := replicate RSNA_MAX_EAPOL_RETRIES \<lparr>counter = replicate 8 0, valid = False\<rparr>,
      ReAuthenticationRequest := True\<rparr>"
    obtain w' where "wpa_sm_step n env i (on_sm i ?f w) = Some (0, w')" "good w'" "quiet w w'"
      by (rule flagged_step [OF g n, of ?f env i])
         (use sta_ok_steps flag_steppable(3) in \<open>auto simp: pairwise_reply_def\<close>)
    then show ?thesis using that s True by (simp add: wpa_auth_sta_associated_def)
  next
    case False
    obtain v where v: "wpa_sm_step n env i (on_sm i (\<lambda>s. s\<lparr>started := True, Init := True\<rparr>) w) = Some (0, v)"
      "quiet w v" "good_but 0 i (on_sm i (\<lambda>s. s\<lparr>Init := False, AuthenticationRequest := True\<rparr>) v)"
      "\<And>s. sta_of i (on_sm i (\<lambda>s. s\<lparr>Init := False, AuthenticationRequest := True\<rparr>) v) = Some s \<Longrightarrow>
        \<not> Init s \<and> \<not> pairwise_reply s"
      by (rule start_step [OF g n, where env = env and i = i]) blast
    let ?v = "on_sm i (\<lambda>s. s\<lparr>Init := False, AuthenticationRequest := True\<rparr>) v"
    obtain w' where w': "wpa_sm_step n env i ?v = Some (0, w')" "good w'" "quiet ?v w'"
      by (rule step_after [OF v(3) n v(4), where env = env]) blast
    have "quiet w w'" using v(2) on_sm_quiet w'(3) quiet_trans by blast
    then show ?thesis using that w'(1,2) v(1) s False by (simp add: wpa_auth_sta_associated_def)
  qed
qed

lemma remove_ptk_good_but:
  assumes gb: "good_but 0 i w" and s: "\<And>s. sta_of i w = Some s \<Longrightarrow> \<not> Init s \<and> \<not> pairwise_reply s"
  shows "good_but 0 i (with_sta i (event_remove_ptk env ev) w)" "quiet w (with_sta i (event_remove_ptk env ev) w)"
    "\<And>s. sta_of i (with_sta i (event_remove_ptk env ev) w) = Some s \<Longrightarrow> \<not> Init s \<and> \<not> pairwise_reply s"
proof -
  have f: "group (event_remove_ptk env ev c) = group c \<and> quiet c (event_remove_ptk env ev c) \<and>
      sm (event_remove_ptk env ev c) = (sm c)\<lparr>PTK_valid := False, PTK := replicate 64 0,
        pairwise_set := (if ev = WPA_REAUTH_EAPOL then pairwise_set (sm c) else False)\<rparr>" for c
    by (auto simp: event_remove_ptk_def Let_def step_simps quiet_def)
  have all: "good_but 0 i (with_sta i (event_remove_ptk env ev) w) \<and>
    quiet w (with_sta i (event_remove_ptk env ev) w) \<and>
    (\<forall>s. sta_of i (with_sta i (event_remove_ptk env ev) w) = Some s \<longrightarrow> \<not> Init s \<and> \<not> pairwise_reply s)"
  proof (cases "sta_of i w")
    case None
    then show ?thesis using gb by (simp add: with_sta_def)
  next
    case (Some t)
    let ?c = "event_remove_ptk env ev (ctx_of w t)"
    note ft = f [of "ctx_of w t", unfolded ctx_of_simps]
    have t: "steppable t" using gb Some by (simp add: good_but_def)
    have "steppable (sm ?c)"
      by (rule steppable_upd [OF t]) (use t s [OF Some] ft in \<open>simp_all add: steppable_def idle_zero_def pairwise_reply_def\<close>)
    then have "good_but 0 i (put_ctx i ?c w)"
      by (intro good_but_put [OF gb Some]) (use ft in \<open>simp_all add: counted_def step_simps\<close>)
    moreover have "quiet w (put_ctx i ?c w)" using ft by (simp add: quiet_def step_simps)
    moreover have "\<not> Init (sm ?c) \<and> \<not> pairwise_reply (sm ?c)" using ft s [OF Some] by (simp add: pairwise_reply_def)
    ultimately show ?thesis using sta_of_bound [OF Some] by (simp add: with_sta_some [OF Some] sta_of_put)
  qed
  then show "good_but 0 i (with_sta i (event_remove_ptk env ev) w)" "quiet w (with_sta i (event_remove_ptk env ev) w)"
    "\<And>s. sta_of i (with_sta i (event_remove_ptk env ev) w) = Some s \<Longrightarrow> \<not> Init s \<and> \<not> pairwise_reply s"
    by auto
qed

lemma event_finish:
  assumes "good_but 0 i w" "n \<ge> STEP_ROUNDS" "\<And>s. sta_of i w = Some s \<Longrightarrow> \<not> Init s \<and> \<not> pairwise_reply s"
  obtains w' where "wpa_sm_step n env i (with_sta i (event_remove_ptk env ev) w) = Some (0, w')" "good w'" "quiet w w'"
proof -
  note r = remove_ptk_good_but [OF assms(1,3), of env ev]
  show ?thesis
    by (rule step_after [OF r(1) assms(2) r(3), where env = env]) (use that quiet_trans [OF r(2)] in blast)+
qed

lemma cancel_update_good:
  assumes "good w"
  shows "good_but 0 i (with_sta i cancel_group_update w)" "quiet w (with_sta i cancel_group_update w)"
    "\<And>s. sta_of i (with_sta i cancel_group_update w) = Some s \<Longrightarrow>
      \<not> Init s \<and> \<not> pairwise_reply s \<and> steppable (s\<lparr>ReAuthenticationRequest := True\<rparr>)"
proof -
  have all: "good_but 0 i (with_sta i cancel_group_update w) \<and> quiet w (with_sta i cancel_group_update w) \<and>
    (\<forall>s. sta_of i (with_sta i cancel_group_update w) = Some s \<longrightarrow>
      \<not> Init s \<and> \<not> pairwise_reply s \<and> steppable (s\<lparr>ReAuthenticationRequest := True\<rparr>))"
  proof (cases "sta_of i w")
    case None
    then show ?thesis using good_but_good [OF assms] by (simp add: with_sta_def)
  next
    case (Some t)
    let ?c = "cancel_group_update (ctx_of w t)"
    have ok: "sta_ok t" by (rule good_sta [OF assms Some])
    have sm: "sm ?c = (if GUpdateStationKeys t then t\<lparr>GUpdateStationKeys := False, PtkGroupInit := True\<rparr> else t)"
      by (simp add: cancel_group_update_def step_simps)
    have kept: "base_kept (group w) (group ?c)" "counted ?c = counted (ctx_of w t)" "quiet w ?c"
      by (simp_all add: cancel_group_update_def counted_def base_kept_def quiet_def step_simps)
    have st: "steppable (sm ?c)" "steppable ((sm ?c)\<lparr>ReAuthenticationRequest := True\<rparr>)"
      by (rule steppable_upd [of t];
          use sta_ok_steps [OF ok] in \<open>simp add: sm idle_zero_def pairwise_reply_def\<close>)+
    have "\<not> Init (sm ?c) \<and> \<not> pairwise_reply (sm ?c)"
      using sta_ok_steps [OF ok] by (simp add: sm pairwise_reply_def)
    moreover have "good_but 0 i (put_ctx i ?c w)"
      by (rule good_but_put [OF good_but_good [OF assms] Some kept(1,2) st(1)])
    moreover have "quiet w (put_ctx i ?c w)" using kept(3) by (simp add: quiet_def step_simps)
    ultimately show ?thesis
      using st(2) sta_of_bound [OF Some] by (simp add: with_sta_some [OF Some] sta_of_put)
  qed
  then show "good_but 0 i (with_sta i cancel_group_update w)" "quiet w (with_sta i cancel_group_update w)"
    "\<And>s. sta_of i (with_sta i cancel_group_update w) = Some s \<Longrightarrow>
      \<not> Init s \<and> \<not> pairwise_reply s \<and> steppable (s\<lparr>ReAuthenticationRequest := True\<rparr>)"
    by auto
qed

lemma sm_event_good:
  assumes g: "good w" and n: "n \<ge> STEP_ROUNDS"
  obtains r w' where "wpa_auth_sm_event n env i ev w = Some (r, w')" "good w'" "quiet w w'"
proof (cases "sta_of i w")
  case None
  then show ?thesis using that [of "-1" w] g by (simp add: wpa_auth_sm_event_def)
next
  case (Some s)
  note gs = good_sta [OF g]
  let ?finish = "\<lambda>w. wpa_sm_step n env i (with_sta i (event_remove_ptk env ev) w)"
  let ?r = "\<lambda>s. s\<lparr>ReAuthenticationRequest := True\<rparr>"
  consider (d) "ev = WPA_DEAUTH \<or> ev = WPA_DISASSOC" | (new) "ev = WPA_REAUTH \<or> ev = WPA_REAUTH_EAPOL" "\<not> started s"
    | (again) "ev = WPA_REAUTH \<or> ev = WPA_REAUTH_EAPOL" "started s"
    | (o) "ev \<notin> {WPA_DEAUTH, WPA_DISASSOC, WPA_REAUTH, WPA_REAUTH_EAPOL}" by auto
  then show ?thesis
  proof cases
    case d
    let ?w = "on_sm i (\<lambda>s. s\<lparr>DeauthenticationRequest := True\<rparr>) w"
    have gb: "good_but 0 i ?w"
      by (rule on_sm_good_but [OF good_but_good [OF g]]) (use flag_steppable(5) gs in simp)
    obtain w' where w': "?finish ?w = Some (0, w')" "good w'" "quiet ?w w'"
      by (rule event_finish [OF gb n, where env = env and ev = ev])
         (use gs [of i] in \<open>auto simp: sta_of_on_sm sta_ok_def pairwise_reply_def\<close>)
    have "quiet w w'" by (rule quiet_trans [OF on_sm_quiet w'(3)])
    moreover have "wpa_auth_sm_event n env i ev w = Some (0, w')"
      using Some d w'(1) by (auto simp: wpa_auth_sm_event_def)
    ultimately show ?thesis using that w'(2) by blast
  next
    case new
    obtain v where v: "wpa_sm_step n env i (on_sm i (\<lambda>s. s\<lparr>started := True, Init := True\<rparr>) w) = Some (0, v)"
      "quiet w v" "good_but 0 i (on_sm i (\<lambda>s. s\<lparr>Init := False, AuthenticationRequest := True\<rparr>) v)"
      "\<And>s. sta_of i (on_sm i (\<lambda>s. s\<lparr>Init := False, AuthenticationRequest := True\<rparr>) v) = Some s \<Longrightarrow>
        \<not> Init s \<and> \<not> pairwise_reply s"
      by (rule start_step [OF g n, where env = env and i = i]) blast
    let ?v = "on_sm i (\<lambda>s. s\<lparr>Init := False, AuthenticationRequest := True\<rparr>) v"
    obtain w' where w': "?finish ?v = Some (0, w')" "good w'" "quiet ?v w'"
      by (rule event_finish [OF v(3) n v(4), where env = env and ev = ev]) blast
    have "quiet w w'" by (rule quiet_trans [OF quiet_trans [OF v(2) on_sm_quiet] w'(3)])
    moreover have "wpa_auth_sm_event n env i ev w = Some (0, w')"
      using Some new v(1) w'(1) by (auto simp: wpa_auth_sm_event_def)
    ultimately show ?thesis using that w'(2) by blast
  next
    case again
    let ?w = "with_sta i cancel_group_update w"
    note c = cancel_update_good [OF g, of i]
    have gb: "good_but 0 i (on_sm i ?r ?w)"
      by (rule on_sm_good_but [OF c(1)]) (use c(3) in simp)
    obtain w' where w': "?finish (on_sm i ?r ?w) = Some (0, w')" "good w'" "quiet (on_sm i ?r ?w) w'"
      by (rule event_finish [OF gb n, where env = env and ev = ev])
         (use c(3) in \<open>auto simp: sta_of_on_sm pairwise_reply_def\<close>)
    have "quiet w w'" by (rule quiet_trans [OF quiet_trans [OF c(2) on_sm_quiet] w'(3)])
    moreover have "wpa_auth_sm_event n env i ev w = Some (0, w')"
      using Some again w'(1) by (auto simp: wpa_auth_sm_event_def)
    ultimately show ?thesis using that w'(2) by blast
  next
    case o
    obtain w' where w': "?finish w = Some (0, w')" "good w'" "quiet w w'"
      by (rule event_finish [OF good_but_good [OF g] n, where env = env and ev = ev])
         (use gs sta_ok_steps in blast)
    moreover have "wpa_auth_sm_event n env i ev w = Some (0, w')"
      using Some o w'(1) by (auto simp: wpa_auth_sm_event_def)
    ultimately show ?thesis using that by blast
  qed
qed

text \<open>Operations that change only one station, or only the outputs and the authenticator.\<close>

lemma good_cong:
  assumes "good w" "group w' = group w" "stas w' = stas w"
  shows "good w'"
proof -
  have "sta_of i w' = sta_of i w" for i by (rule sta_of_cong [OF assms(3)])
  then show ?thesis using assms by (simp add: good_def good_at_def base_good_def)
qed

lemma add_sta_good:
  assumes "good w"
  shows "good (add_sta a w)" "quiet w (add_sta a w)"
proof -
  have ok: "sta_ok (wpa_auth_sta_init a)"
    by (simp add: sta_ok_def wpa_auth_sta_init_def idle_zero_def ptk_rest_def no_requests_def pairwise_reply_def)
  have "sta_ok s" if "sta_of j (add_sta a w) = Some s" for j s
    using that ok good_sta [OF assms, of j]
    by (auto simp: add_sta_def sta_of_def nth_append split: if_splits)
  moreover have "waiting (stas (add_sta a w)) = waiting (stas w)"
    by (simp add: add_sta_def waiting_def) (simp add: wpa_auth_sta_init_def)
  ultimately show "good (add_sta a w)"
    using assms by (auto simp: good_def good_at_def base_good_def) (simp_all add: add_sta_def)
  show "quiet w (add_sta a w)" by (simp add: quiet_same add_sta_def)
qed

lemma no_wpa_good:
  assumes "good w"
  shows "good (wpa_auth_sta_no_wpa i w)" "quiet w (wpa_auth_sta_no_wpa i w)"
proof -
  have "sta_ok (s\<lparr>sm_wpa_key_mgmt := 0\<rparr>)" if "sta_ok s" for s
    by (rule sta_ok_upd [OF that]) (simp_all add: no_requests_def pairwise_reply_def)
  then show "good (wpa_auth_sta_no_wpa i w)"
    using good_sta [OF assms] assms unfolding wpa_auth_sta_no_wpa_def good_def
    by (intro on_sm_good) (auto simp: good_def)
  show "quiet w (wpa_auth_sta_no_wpa i w)" by (simp add: wpa_auth_sta_no_wpa_def on_sm_quiet)
qed

lemma out_only_good:
  assumes "good w" and f: "\<And>c. group (f c) = group c \<and> sm (f c) = sm c \<and> quiet c (f c)"
  shows "good (with_sta i f w)" "quiet w (with_sta i f w)"
proof -
  have "good (with_sta i f w) \<and> quiet w (with_sta i f w)"
  proof (cases "sta_of i w")
    case None
    then show ?thesis using assms(1) by (simp add: with_sta_def)
  next
    case (Some s)
    note fs = f [of "ctx_of w s", unfolded ctx_of_simps]
    have "good (put_ctx i (f (ctx_of w s)) w)"
      by (rule good_put_rest [OF assms(1) Some]) (use fs good_sta [OF assms(1) Some] in simp_all)
    moreover have "quiet w (put_ctx i (f (ctx_of w s)) w)" using fs by (simp add: quiet_def step_simps)
    ultimately show ?thesis by (simp add: with_sta_some [OF Some])
  qed
  then show "good (with_sta i f w)" "quiet w (with_sta i f w)" by auto
qed

lemma notify_good:
  assumes "good w"
  shows "good (wpa_auth_sm_notify i w)" "quiet w (wpa_auth_sm_notify i w)"
    "good (with_sta i (wpa_auth_eapol_key_tx_status ack) w)"
    "quiet w (with_sta i (wpa_auth_eapol_key_tx_status ack) w)"
  unfolding wpa_auth_sm_notify_def
  by (rule out_only_good [OF assms];
      simp add: wpa_auth_eapol_key_tx_status_def step_simps quiet_def)+

lemma group_op_good:
  assumes "good w" "group_op w w'"
  shows "good w'" "quiet w w'"
proof -
  have st: "stas w' = stas w" by (rule group_op_stas [OF assms(2)])
  have "sta_of i w' = sta_of i w" for i by (rule sta_of_cong [OF st])
  then show "good w'"
    using assms(1) group_op_fields(2) [OF assms(2)] st
    by (simp add: good_def good_at_def base_good_def calm_def group_frame_def)
  show "quiet w w'" by (rule quiet_group_op [OF assms(2)])
qed

lemma deinit_good:
  assumes g: "good w"
  shows "good (wpa_auth_sta_deinit i w)" "quiet w (wpa_auth_sta_deinit i w)"
proof -
  have "good (wpa_auth_sta_deinit i w) \<and> quiet w (wpa_auth_sta_deinit i w)"
  proof (cases "sta_of i w")
    case None
    then show ?thesis using g by (simp add: wpa_auth_sta_deinit_def)
  next
    case (Some s)
    have ok: "sta_ok s" by (rule good_sta [OF g Some])
    have i: "i < length (stas w)" and si: "stas w ! i = Some s"
      using sta_of_bound [OF Some] sta_of_stas [OF Some] .
    let ?c = "deinit_sta (ctx_of w s)"
    have c: "group ?c = group w" "sm ?c = s\<lparr>pending_1_of_4_timeout := False\<rparr>" "quiet w ?c" "auth ?c = auth w"
      by (auto simp: deinit_sta_def Let_def step_simps quiet_def)
    let ?d = "drop_group_update ?c"
    have d: "auth ?d = auth w" "out ?d = out ?c" "base_kept (group w) (group ?d)"
      "GKeyDoneStations (group ?d) = GKeyDoneStations (group w) - flag_of (Some s)"
      by (simp_all add: drop_group_update_def c base_kept_def step_simps)
    have w: "wpa_auth_sta_deinit i w = (put_ctx i ?d w)\<lparr>stas := (stas w)[i := None]\<rparr>"
      using ok i by (simp add: wpa_auth_sta_deinit_def Some with_sta_some with_sta_put sta_ok_def
          wpa_free_sta_sm_def Let_def put_ctx_simps)
    have "waiting ((stas w)[i := None]) = waiting (stas w) - flag_of (Some s)"
      using waiting_update [OF i, of None] si by simp
    moreover have "sta_of j ((put_ctx i ?d w)\<lparr>stas := (stas w)[i := None]\<rparr>) = (if j = i then None else sta_of j w)" for j
      using i by (simp add: sta_of_def)
    ultimately have "good (wpa_auth_sta_deinit i w)"
      using g d(3,4) unfolding w good_def good_at_def base_good_def
      by (auto simp: base_kept_def calm_def put_ctx_simps split: if_splits)
    moreover have "quiet w (wpa_auth_sta_deinit i w)" using c(3) d(2) by (simp add: w quiet_def put_ctx_simps)
    ultimately show ?thesis ..
  qed
  then show "good (wpa_auth_sta_deinit i w)" "quiet w (wpa_auth_sta_deinit i w)" by auto
qed

lemma rekey_gmk_good:
  assumes "good w"
  shows "good (wpa_rekey_gmk env w)" "quiet w (wpa_rekey_gmk env w)"
proof -
  obtain gmk ok v where v: "random_get_bytes env WPA_GMK_LEN w = (gmk, ok, v)"
    by (cases "random_get_bytes env WPA_GMK_LEN w") auto
  let ?v = "v\<lparr>group := (group v)\<lparr>GMK := gmk\<rparr>\<rparr>"
  have op: "group_op w ?v" by (rule group_op_trans [OF group_op_random [OF v] group_op_upd]) simp
  note gv = group_op_good [OF assms op]
  show "good (wpa_rekey_gmk env w)"
    by (rule good_cong [OF gv(1)]) (simp_all add: wpa_rekey_gmk_def v Let_def step_simps)
  show "quiet w (wpa_rekey_gmk env w)"
    using gv(2) by (auto simp: wpa_rekey_gmk_def v Let_def step_simps quiet_def)
qed

lemma group_op_swap:
  "group_op (w\<lparr>group := swap_gn_gm (group w)\<rparr>) v \<Longrightarrow> group_op (v\<lparr>group := swap_gn_gm (group v)\<rparr>) u \<Longrightarrow> group_op w u"
proof -
  assume v: "group_op (w\<lparr>group := swap_gn_gm (group w)\<rparr>) v" and u: "group_op (v\<lparr>group := swap_gn_gm (group v)\<rparr>) u"
  have "group_frame (group w) (group u)"
    using group_op_fields(2) [OF v] group_op_fields(2) [OF u] by (simp add: group_frame_def swap_gn_gm_def)
  then show "group_op w u" using v u by (fastforce simp: group_op_def)
qed

lemma gtk_rekey_good:
  assumes "good w"
  shows "good (wpa_gtk_rekey env w)" "quiet w (wpa_gtk_rekey env w)"
proof -
  have "group_op w (wpa_gtk_rekey env w)"
    unfolding wpa_gtk_rekey_def numeral_2_eq_2 gtk_rekey_loop.simps
    by (rule group_op_swap [OF group_op_gtk_update group_op_gtk_update])
  then show "good (wpa_gtk_rekey env w)" "quiet w (wpa_gtk_rekey env w)"
    using group_op_good [OF assms] by auto
qed

lemma run_group_init_good:
  assumes "GTKAuthenticator (group w)" "\<not> GTKReKey (group w)"
    "GKeyDoneStations (group w) = waiting (stas w)" "\<And>i s. sta_of i w = Some s \<Longrightarrow> sta_ok s"
  obtains w' where "run_group_init env w = Some w'" "good w'" "quiet w w'" "stas w' = stas w"
proof -
  let ?v = "w\<lparr>group := (group w)\<lparr>GInit := True, group_changed := False,
    wpa_group_state := WPA_GROUP_GTK_INIT, GTK := [replicate 32 0, replicate 32 0], GN := 1, GM := 2\<rparr>\<rparr>"
  let ?u = "snd (wpa_gtk_update env ?v)"
  have op: "group_op ?v ?u" by (rule group_op_gtk_update)
  have gi: "wpa_group_gtk_init env (w\<lparr>group := (group w)\<lparr>GInit := True\<rparr>\<rparr>) = ?u"
    by (simp add: wpa_group_gtk_init_def Let_def)
  have f: "group_frame (group ?v) (group ?u)" by (rule group_op_fields(2) [OF op])
  let ?x = "?u\<lparr>group := (group ?u)\<lparr>GInit := False\<rparr>\<rparr>"
  have st: "stas ?x = stas w" using group_op_stas [OF op] by simp
  have "sta_of i ?x = sta_of i w" for i by (rule sta_of_cong [OF st])
  then have gx: "good ?x" and cx: "calm (group ?x)"
    using assms f st unfolding good_def good_at_def base_good_def
    by (auto simp: calm_def group_frame_def)
  have "quiet ?v ?u" by (rule quiet_group_op [OF op])
  then have qx: "quiet w ?x" by (simp add: quiet_def)
  have s: "wpa_group_sm_step env f (w\<lparr>group := (group w)\<lparr>GInit := True\<rparr>\<rparr>) = Some ?u" for f
    unfolding gi [symmetric] by (simp add: wpa_group_sm_step_def Let_def)
  have "run_group_init env w = Some (group_quick env ?x)"
    unfolding run_group_init_def s option.case by (rule group_step_calm [OF cx])
  moreover have "stas (group_quick env ?x) = stas w" using st by (simp only: group_quick_stas)
  ultimately show ?thesis
    by (rule that [OF _ group_quick_good(1) [OF gx] quiet_trans [OF qx group_quick_good(2) [OF gx]]])
qed

lemma reconfig_good:
  assumes g: "good w"
  obtains r w' where "wpa_reconfig env cf w = Some (r, w')" "good w'" "quiet w w'"
proof (cases "wpa_auth_gen_wpa_ie cf")
  case (Inl u)
  have "good (w\<lparr>auth := (auth w)\<lparr>conf := cf\<rparr>\<rparr>)" by (rule good_cong [OF g]) simp_all
  then show ?thesis using that [of "-1"] Inl by (simp add: wpa_reconfig_def quiet_same)
next
  case (Inr ie)
  let ?w = "w\<lparr>auth := (auth w)\<lparr>conf := cf, auth_wpa_ie := ie\<rparr>,
    group := wpa_group_set_key_len (conf_wpa_group cf) (group w)\<rparr>"
  have "sta_of i ?w = sta_of i w" for i by (rule sta_of_cong) simp
  then obtain w' where "run_group_init env ?w = Some w'" "good w'" "quiet ?w w'"
    by (rule_tac run_group_init_good [of ?w env])
       (use g in \<open>auto simp: good_def good_at_def base_good_def calm_def wpa_group_set_key_len_def\<close>)
  then show ?thesis using that [of 0 w'] Inr by (simp add: wpa_reconfig_def quiet_def)
qed

text \<open>A new authenticator is at rest.\<close>

lemma init_good:
  assumes "wpa_init env a cf = Some (Inr w)"
  shows "good w" "stas w = []"
proof -
  obtain ie where ie: "wpa_auth_gen_wpa_ie cf = Inr ie"
    using assms by (auto simp: wpa_init_def split: sum.splits)
  define v0 where "v0 = \<lparr>group = wpa_group_set_key_len (conf_wpa_group cf) wpa_group_new,
    auth = (wpa_auth_new a cf)\<lparr>auth_wpa_ie := ie\<rparr>, out = [], stas = [] :: wpa_state_machine option list\<rparr>"
  define u where "u = snd (wpa_group_init_gmk_and_counter env v0)"
  have cf: "conf (wpa_auth_new a cf) = cf" by (simp add: wpa_auth_new_def)
  have op: "group_op v0 u" unfolding u_def by (rule group_op_init_gmk)
  have st: "stas u = []" using group_op_stas [OF op] by (simp add: v0_def)
  have f: "group_frame (group v0) (group u)" by (rule group_op_fields(2) [OF op])
  have "GTKAuthenticator (group u)" "\<not> GTKReKey (group u)" "GKeyDoneStations (group u) = waiting (stas u)"
    using f by (simp_all add: group_frame_def v0_def wpa_group_set_key_len_def wpa_group_new_def st waiting_def)
  moreover have "\<And>i s. sta_of i u = Some s \<Longrightarrow> sta_ok s" by (simp add: sta_of_def st)
  ultimately obtain v where v: "run_group_init env u = Some v" "good v" "stas v = stas u"
    using run_group_init_good by blast
  have "wpa_group_init env \<lparr>group = wpa_group_new, auth = (wpa_auth_new a cf)\<lparr>auth_wpa_ie := ie\<rparr>, out = [], stas = []\<rparr> =
      (if fst (wpa_group_init_gmk_and_counter env v0) < 0 then Some (Inl ()) else Some (Inr v))"
    using v(1) by (auto simp: wpa_group_init_def cf v0_def u_def split: prod.split)
  then have w: "group w = group v \<and> stas w = stas v"
    using assms by (auto simp: wpa_init_def ie Let_def step_simps split: if_splits)
  then have "good w" by (metis good_cong v(2))
  then show "good w" "stas w = []" using w v(3) st by auto
qed

subsection \<open>The PMKSA cache and the stations\<close>

lemma waiting_cong: "map flag_of ss = map flag_of ss' \<Longrightarrow> waiting ss = waiting ss'"
  by (simp add: waiting_def)

lemma stas_map_good:
  assumes "good w" "group w' = group w" "stas w' = map (map_option f) (stas w)"
    and "\<And>s. sta_ok s \<Longrightarrow> sta_ok (f s)" "\<And>s. GUpdateStationKeys (f s) = GUpdateStationKeys s"
  shows "good w'"
proof -
  have "flag_of (map_option f s) = flag_of s" for s by (cases s) (simp_all add: assms(5))
  then have "waiting (stas w') = waiting (stas w)" by (simp add: assms(3) waiting_def comp_def)
  moreover have "sta_of i w' = map_option f (sta_of i w)" for i by (simp add: sta_of_def assms(3))
  ultimately show ?thesis
    using assms by (auto simp: good_def good_at_def base_good_def)
qed

lemma sta_ok_pmksa: "sta_ok s \<Longrightarrow> sta_ok (s\<lparr>sm_pmksa := e\<rparr>)"
  by (erule sta_ok_upd) (simp_all add: no_requests_def pairwise_reply_def)

lemma free_cb_good:
  assumes "good w"
  shows "good (wpa_auth_pmksa_free_cb a w)" "out (wpa_auth_pmksa_free_cb a w) = out w"
proof -
  show "good (wpa_auth_pmksa_free_cb a w)"
    by (rule stas_map_good [OF assms, where f = "wpa_auth_pmksa_clear_cb a"])
       (simp_all add: wpa_auth_pmksa_free_cb_def wpa_auth_pmksa_clear_cb_def sta_ok_pmksa split: option.split)
qed (simp add: wpa_auth_pmksa_free_cb_def)

lemma use_cache_good:
  assumes "good w"
  shows "good (use_cache c w)" "quiet w (use_cache c w)"
proof -
  have "good (foldl (\<lambda>w a. wpa_auth_pmksa_free_cb a w) v as) \<and>
      out (foldl (\<lambda>w a. wpa_auth_pmksa_free_cb a w) v as) = out v" if "good v" for v as
    using that by (induction as arbitrary: v) (simp_all add: free_cb_good)
  moreover have "good (w\<lparr>auth := (auth w)\<lparr>auth_pmksa := c\<rparr>\<rparr>)" by (rule good_cong [OF assms]) simp_all
  ultimately show "good (use_cache c w)" "quiet w (use_cache c w)"
    unfolding use_cache_def by (simp_all add: quiet_same)
qed

text \<open>
  \<open>wpa_validate_wpa_ie\<close> for a station of the list. An entry that makes room for a new one is freed
  before the station gets its own.
\<close>

definition validate_sta ::
  "nat option \<Rightarrow> bool \<Rightarrow> rsn_pmksa_cache list \<Rightarrow> nat \<Rightarrow> bytes option \<Rightarrow> wpa_world \<Rightarrow>
   (wpa_validate_result \<times> wpa_world) option" where
  "validate_sta alloc malloc_ok caches i ie w =
     (case wpa_validate_wpa_ie alloc malloc_ok caches (auth w) (sta_of i w) ie of
        None \<Rightarrow> None
      | Some (r, s, a) \<Rightarrow>
          let w = use_cache (auth_pmksa a) w
          in Some (r, w\<lparr>auth := a, stas := (case s of None \<Rightarrow> stas w | Some s \<Rightarrow> (stas w)[i := Some s])\<rparr>))"

lemma validate_frame:
  assumes "wpa_validate_wpa_ie alloc malloc_ok caches a s ie = Some (r, s', a')"
  shows "s = None \<longrightarrow> s' = None"
    "s = Some t \<longrightarrow> (\<exists>t'. s' = Some t' \<and> GUpdateStationKeys t' = GUpdateStationKeys t \<and> (sta_ok t \<longrightarrow> sta_ok t'))"
proof -
  have ok: "sta_ok (t\<lparr>sm_wpa_key_mgmt := k\<rparr>)" "sta_ok (t\<lparr>sm_wpa_key_mgmt := k, pairwise := p, sm_wpa := v,
      sm_pmksa := e, sm_wpa_ie := i\<rparr>)" if "sta_ok t" for t k p v e i
    by (rule sta_ok_upd [OF that]; simp add: no_requests_def pairwise_reply_def)+
  show "s = None \<longrightarrow> s' = None" using assms by (auto simp: wpa_validate_wpa_ie_def)
  show "s = Some t \<longrightarrow> (\<exists>t'. s' = Some t' \<and> GUpdateStationKeys t' = GUpdateStationKeys t \<and> (sta_ok t \<longrightarrow> sta_ok t'))"
    using assms unfolding wpa_validate_wpa_ie_def Let_def
    by (auto simp: ok split: option.splits if_splits prod.splits)
qed

lemma use_cache_sta:
  "length (stas (use_cache c w)) = length (stas w)"
  "group (use_cache c w) = group w"
  "map flag_of (stas (use_cache c w)) = map flag_of (stas w)"
proof -
  let ?f = "foldl (\<lambda>w a. wpa_auth_pmksa_free_cb a w)"
  have cb: "flag_of (map_option (wpa_auth_pmksa_clear_cb a) s) = flag_of s" for a s
    by (cases s) (simp_all add: wpa_auth_pmksa_clear_cb_def split: option.split)
  have "length (stas (?f v as)) = length (stas v) \<and> group (?f v as) = group v \<and>
      map flag_of (stas (?f v as)) = map flag_of (stas v)" for v as
    by (induction as arbitrary: v) (simp_all add: wpa_auth_pmksa_free_cb_def cb)
  then show "length (stas (use_cache c w)) = length (stas w)" "group (use_cache c w) = group w"
    "map flag_of (stas (use_cache c w)) = map flag_of (stas w)"
    unfolding use_cache_def by simp_all
qed

lemma good_put_sta:
  assumes "good w" "i < length (stas w)" "flag_of (Some s) = flag_of (stas w ! i)" "sta_ok s"
  shows "good (w\<lparr>stas := (stas w)[i := Some s]\<rparr>)"
proof -
  have "waiting ((stas w)[i := Some s]) = waiting (stas w)"
    using waiting_update [OF assms(2), of "Some s"] assms(3) by simp
  moreover have "sta_of j (w\<lparr>stas := (stas w)[i := Some s]\<rparr>) = (if j = i then Some s else sta_of j w)" for j
    using assms(2) by (simp add: sta_of_def)
  ultimately show ?thesis using assms(1,4) by (auto simp: good_def good_at_def base_good_def split: if_splits)
qed

lemma validate_good:
  assumes g: "good w" and run: "validate_sta alloc malloc_ok caches i ie w = Some (r, w')"
  shows "good w'" "quiet w w'"
proof -
  obtain s' a where v: "wpa_validate_wpa_ie alloc malloc_ok caches (auth w) (sta_of i w) ie = Some (r, s', a)"
    and w': "w' = (use_cache (auth_pmksa a) w)\<lparr>auth := a, stas := (case s' of None \<Rightarrow> stas (use_cache (auth_pmksa a) w)
      | Some s \<Rightarrow> (stas (use_cache (auth_pmksa a) w))[i := Some s])\<rparr>"
    using run by (auto simp: validate_sta_def Let_def split: option.splits)
  let ?u = "use_cache (auth_pmksa a) w"
  note u = use_cache_good [OF g, of "auth_pmksa a"] and us = use_cache_sta [of "auth_pmksa a" w]
  show "quiet w w'" using u(2) by (simp add: w' quiet_def)
  show "good w'"
  proof (cases "sta_of i w")
    case None
    then have "s' = None" using validate_frame(1) [OF v] by simp
    then show ?thesis by (intro good_cong [OF u(1)]) (simp_all add: w')
  next
    case (Some t)
    then obtain t' where t': "s' = Some t'" "GUpdateStationKeys t' = GUpdateStationKeys t" "sta_ok t'"
      using validate_frame(2) [OF v, of t] good_sta [OF g Some] by auto
    have i: "i < length (stas w)" by (rule sta_of_bound [OF Some])
    have "flag_of (stas ?u ! i) = flag_of (stas w ! i)"
      using us(1,3) i by (metis nth_map)
    then have "flag_of (Some t') = flag_of (stas ?u ! i)" using sta_of_stas [OF Some] t'(2) by simp
    then have "good (?u\<lparr>stas := (stas ?u)[i := Some t']\<rparr>)"
      using good_put_sta [OF u(1)] i us(1) t'(3) by simp
    then show ?thesis by (rule good_cong) (simp_all add: w' t'(1))
  qed
qed

lemma pmksa_add_good:
  assumes "good w"
  shows "good (snd (wpa_auth_pmksa_add now alloc i pmk t e w))" "quiet w (snd (wpa_auth_pmksa_add now alloc i pmk t e w))"
    "good (snd (wpa_auth_pmksa_add_preauth now alloc pmk a t e w))"
    "quiet w (snd (wpa_auth_pmksa_add_preauth now alloc pmk a t e w))"
  using assms use_cache_good [OF assms]
  by (simp_all add: wpa_auth_pmksa_add_def wpa_auth_pmksa_add_preauth_def split: option.split prod.split)

end
