(* ===== verification/WpaRun.thy ===== *)
theory WpaRun
  imports WpaEvents
begin

text \<open>
  Runs of the authenticator: \<open>wpa_init\<close> followed by any sequence of the calls and timers that
  \<^verbatim>\<open>ap/wpa_auth.h\<close> offers to the rest of the program, and what holds in every run.
\<close>

unbundle bit_operations_syntax

subsection \<open>Events\<close>

text \<open>
  One call from the rest of the program or one timer that fires. The answers of the caller's side
  (the clock, an allocation, the caches of the other authenticators) are part of the event.
\<close>

datatype wpa_ev =
  Received nat bytes
  | EapolTimeout nat
  | RekeyPtkTimer nat
  | RekeyGtkTimer
  | RekeyGmkTimer
  | CallStep nat
  | Associated nat
  | NoWpa nat
  | SmEvent nat wpa_event
  | Notify nat
  | TxStatus nat bool
  | AddSta bytes
  | DeinitSta nat
  | Validate "nat option" bool "rsn_pmksa_cache list" nat "bytes option"
  | Reconfig wpa_auth_config
  | GtkRekey
  | PmksaAdd int "nat option" nat bytes int "eapol_data option"
  | PmksaAddPreauth int "nat option" bytes bytes int "eapol_data option"

fun run_ev :: "nat \<Rightarrow> wpa_env \<Rightarrow> wpa_ev \<Rightarrow> wpa_world \<Rightarrow> wpa_world option" where
  "run_ev n env (Received i data) w = wpa_receive n env i data w"
| "run_ev n env (EapolTimeout i) w = wpa_send_eapol_timeout n env i w"
| "run_ev n env (RekeyPtkTimer i) w = wpa_rekey_ptk n env i w"
| "run_ev n env RekeyGtkTimer w = wpa_rekey_gtk n env w"
| "run_ev n env RekeyGmkTimer w = Some (wpa_rekey_gmk env w)"
| "run_ev n env (CallStep i) w = wpa_sm_call_step n env i w"
| "run_ev n env (Associated i) w = map_option snd (wpa_auth_sta_associated n env i w)"
| "run_ev n env (NoWpa i) w = Some (wpa_auth_sta_no_wpa i w)"
| "run_ev n env (SmEvent i ev) w = map_option snd (wpa_auth_sm_event n env i ev w)"
| "run_ev n env (Notify i) w = Some (wpa_auth_sm_notify i w)"
| "run_ev n env (TxStatus i ack) w = Some (with_sta i (wpa_auth_eapol_key_tx_status ack) w)"
| "run_ev n env (AddSta a) w = Some (add_sta a w)"
| "run_ev n env (DeinitSta i) w = Some (wpa_auth_sta_deinit i w)"
| "run_ev n env (Validate alloc ok caches i ie) w = map_option snd (validate_sta alloc ok caches i ie w)"
| "run_ev n env (Reconfig cf) w = map_option snd (wpa_reconfig env cf w)"
| "run_ev n env GtkRekey w = Some (wpa_gtk_rekey env w)"
| "run_ev n env (PmksaAdd now alloc i pmk t e) w = Some (snd (wpa_auth_pmksa_add now alloc i pmk t e w))"
| "run_ev n env (PmksaAddPreauth now alloc pmk a t e) w =
     Some (snd (wpa_auth_pmksa_add_preauth now alloc pmk a t e w))"

definition ev_opens :: "wpa_ev \<Rightarrow> wpa_world \<Rightarrow> wpa_out \<Rightarrow> bool" where
  "ev_opens ev w e = (case ev of Received i data \<Rightarrow> receive_opens i data w e | _ \<Rightarrow> False)"

lemma validate_returns:
  assumes "\<not> conf_okc (conf (auth w))"
  obtains r w' where "validate_sta alloc ok caches i ie w = Some (r, w')"
proof -
  have "choose_pmksa alloc caches (note_selected v x (auth w)) a d \<noteq> None" for v x a d
    using assms by (simp add: choose_pmksa_def note_selected_def Let_def split: option.split)
  moreover have "\<exists>v x a d. choose_pmksa alloc caches (note_selected v x (auth w)) a d = None"
    if "wpa_validate_wpa_ie alloc ok caches (auth w) (sta_of i w) ie = None"
    using that unfolding wpa_validate_wpa_ie_def Let_def by (auto split: option.splits if_splits prod.splits)
  ultimately have "wpa_validate_wpa_ie alloc ok caches (auth w) (sta_of i w) ie \<noteq> None" by blast
  then show ?thesis using that by (fastforce simp: validate_sta_def Let_def)
qed

text \<open>Every event returns, leaves the world at rest and opens at most what a verified frame allows.\<close>

lemma run_ev_good:
  assumes g: "good w" and n: "n \<ge> STEP_ROUNDS"
  shows "(\<forall>alloc ok caches i ie. ev \<noteq> Validate alloc ok caches i ie) \<or> \<not> conf_okc (conf (auth w)) \<Longrightarrow>
      \<exists>w'. run_ev n env ev w = Some w'"
    and "run_ev n env ev w = Some w' \<Longrightarrow> good w' \<and> within (ev_opens ev w) w w'"
proof -
  let ?R = "\<lambda>x. (\<exists>w'. x = Some w') \<and> (\<forall>w'. x = Some w' \<longrightarrow> good w' \<and> within (ev_opens ev w) w w')"
  have out: "?R x" if "x = Some v" "good v" "quiet w v" for x v
    using that quiet_within by auto
  have "(((\<forall>alloc ok caches i ie. ev \<noteq> Validate alloc ok caches i ie) \<or> \<not> conf_okc (conf (auth w))) \<longrightarrow>
      (\<exists>w'. run_ev n env ev w = Some w')) \<and>
    (\<forall>w'. run_ev n env ev w = Some w' \<longrightarrow> good w' \<and> within (ev_opens ev w) w w')" (is "?G")
  proof (cases ev)
    case (Received i data)
    obtain w' where "wpa_receive n env i data w = Some w'" "good w'" "within (receive_opens i data w) w w'"
      by (rule receive_good [OF g n])
    moreover have "ev_opens ev w = receive_opens i data w" by (simp add: ev_opens_def Received fun_eq_iff)
    ultimately show ?thesis by (simp add: Received)
  next
    case (Validate alloc ok caches i ie)
    have v: "good v \<and> quiet w v" if "validate_sta alloc ok caches i ie w = Some (r, v)" for r v
      using validate_good [OF g that] by simp
    have "\<exists>r v. validate_sta alloc ok caches i ie w = Some (r, v)" if "\<not> conf_okc (conf (auth w))"
      using validate_returns [OF that] by blast
    then show ?thesis using v quiet_within by (fastforce simp: Validate)
  next
    case (EapolTimeout i)
    have "?R (run_ev n env ev w)"
      by (rule timeout_good [OF g n, where env = env and i = i]) (rule out, simp add: EapolTimeout)
    then show ?thesis by blast
  next
    case (RekeyPtkTimer i)
    have "?R (run_ev n env ev w)"
      by (rule rekey_ptk_good [OF g n, where env = env and i = i]) (rule out, simp add: RekeyPtkTimer)
    then show ?thesis by blast
  next
    case RekeyGtkTimer
    have "?R (run_ev n env ev w)"
      by (rule rekey_gtk_good [OF g n, where env = env]) (rule out, simp add: RekeyGtkTimer)
    then show ?thesis by blast
  next
    case (CallStep i)
    have "?R (run_ev n env ev w)"
      by (rule call_step_good [OF g n, where env = env and i = i]) (rule out, simp add: CallStep)
    then show ?thesis by blast
  next
    case (Associated i)
    have "?R (run_ev n env ev w)"
      by (rule associated_good [OF g n, where env = env and i = i]) (rule out, simp add: Associated)
    then show ?thesis by blast
  next
    case (SmEvent i e)
    have "?R (run_ev n env ev w)"
      by (rule sm_event_good [OF g n, where env = env and i = i and ev = e]) (rule out, simp add: SmEvent)
    then show ?thesis by blast
  next
    case (Reconfig cf)
    have "?R (run_ev n env ev w)"
      by (rule reconfig_good [OF g, where env = env and cf = cf]) (rule out, simp add: Reconfig)
    then show ?thesis by blast
  next
    case RekeyGmkTimer
    have "?R (run_ev n env ev w)" by (rule out [OF _ rekey_gmk_good [OF g]]) (simp add: RekeyGmkTimer)
    then show ?thesis by blast
  next
    case (NoWpa i)
    have "?R (run_ev n env ev w)" by (rule out [OF _ no_wpa_good [OF g]]) (simp add: NoWpa)
    then show ?thesis by blast
  next
    case (Notify i)
    have "?R (run_ev n env ev w)" by (rule out [OF _ notify_good(1,2) [OF g]]) (simp add: Notify)
    then show ?thesis by blast
  next
    case (TxStatus i ack)
    have "?R (run_ev n env ev w)" by (rule out [OF _ notify_good(3,4) [OF g]]) (simp add: TxStatus)
    then show ?thesis by blast
  next
    case (AddSta a)
    have "?R (run_ev n env ev w)" by (rule out [OF _ add_sta_good [OF g]]) (simp add: AddSta)
    then show ?thesis by blast
  next
    case (DeinitSta i)
    have "?R (run_ev n env ev w)" by (rule out [OF _ deinit_good [OF g]]) (simp add: DeinitSta)
    then show ?thesis by blast
  next
    case GtkRekey
    have "?R (run_ev n env ev w)" by (rule out [OF _ gtk_rekey_good [OF g]]) (simp add: GtkRekey)
    then show ?thesis by blast
  next
    case (PmksaAdd now alloc i pmk t e)
    have "?R (run_ev n env ev w)" by (rule out [OF _ pmksa_add_good(1,2) [OF g]]) (simp add: PmksaAdd)
    then show ?thesis by blast
  next
    case (PmksaAddPreauth now alloc pmk a t e)
    have "?R (run_ev n env ev w)" by (rule out [OF _ pmksa_add_good(3,4) [OF g]]) (simp add: PmksaAddPreauth)
    then show ?thesis by blast
  qed
  then show "(\<forall>alloc ok caches i ie. ev \<noteq> Validate alloc ok caches i ie) \<or> \<not> conf_okc (conf (auth w)) \<Longrightarrow>
      \<exists>w'. run_ev n env ev w = Some w'"
    "run_ev n env ev w = Some w' \<Longrightarrow> good w' \<and> within (ev_opens ev w) w w'" by auto
qed

text \<open>The worlds that can be reached: the answers of the environment may differ from call to call.\<close>

inductive wpa_reach :: "nat \<Rightarrow> wpa_world \<Rightarrow> bool" for n :: nat where
  start: "wpa_init env a cf = Some (Inr w) \<Longrightarrow> wpa_reach n w"
| event: "wpa_reach n w \<Longrightarrow> run_ev n env ev w = Some w' \<Longrightarrow> wpa_reach n w'"

lemma reach_good: "wpa_reach n w \<Longrightarrow> n \<ge> STEP_ROUNDS \<Longrightarrow> good w"
  by (induction rule: wpa_reach.induct) (simp add: init_good(1), metis run_ev_good(2))

subsection \<open>A new authenticator\<close>

text \<open>
  \<open>wpa_init\<close> gives an authenticator whenever the configuration can be written as an element and
  there are random octets.
\<close>

definition env_gives_random :: "wpa_env \<Rightarrow> bool" where
  "env_gives_random env \<longleftrightarrow> (\<forall>es n. length (fst (env_random env es n)) = n \<and> snd (env_random env es n))"

lemma ntp_length: "length (wpa_get_ntp_timestamp t) = 8"
  by (simp add: wpa_get_ntp_timestamp_def len_simps Let_def split: prod.split)

lemma init_gmk_returns:
  assumes "env_gives_random env" "length (env_group_ptr env) < 2 ^ 31" "length (auth_addr (auth w)) = 6"
  obtains w' where "wpa_group_init_gmk_and_counter env w = (0, w')"
proof -
  have r: "\<exists>buf v. random_get_bytes env n u = (buf, True, v) \<and> length buf = n" for n u
    using assms(1) unfolding random_get_bytes_def env_gives_random_def
    by (metis (mono_tags, lifting) case_prod_beta)
  obtain gmk v where v: "random_get_bytes env WPA_GMK_LEN w = (gmk, True, v)" using r by blast
  let ?v = "v\<lparr>group := (group v)\<lparr>GMK := gmk\<rparr>\<rparr>"
  obtain rk u where u: "random_get_bytes env 32 ?v = (rk, True, u)" "length rk = 32" using r by blast
  have a: "auth v = auth w" using group_op_fields(1) [OF group_op_random [OF v]] .
  let ?b = "auth_addr (auth w) @ wpa_get_ntp_timestamp (env_time env (out ?v)) @ env_group_ptr env"
  have "sha1_prf rk (c_str ''Init Counter'') ?b WPA_NONCE_LEN = Some (ieee_prf rk (c_str ''Init Counter'') ?b WPA_NONCE_LEN)"
    using assms(2,3) u(2) by (intro sha1_prf_eq) (simp_all add: ntp_length)
  then show ?thesis
    using that by (simp add: wpa_group_init_gmk_and_counter_def v u(1) a Let_def)
qed

lemma group_init_exact:
  assumes "GTKAuthenticator (group w)" "\<not> GTKReKey (group w)"
  obtains v where "run_group_init env w = Some (snd (wpa_group_setkeysdone env v))"
    "GN (group v) = 1" "GM (group v) = 2" "stas v = stas w" "auth v = auth w" "GTK_len (group v) = GTK_len (group w)"
proof -
  let ?v = "w\<lparr>group := (group w)\<lparr>GInit := True, group_changed := False,
    wpa_group_state := WPA_GROUP_GTK_INIT, GTK := [replicate 32 0, replicate 32 0], GN := 1, GM := 2\<rparr>\<rparr>"
  let ?u = "snd (wpa_gtk_update env ?v)"
  have op: "group_op ?v ?u" by (rule group_op_gtk_update)
  have f: "group_frame (group ?v) (group ?u)" by (rule group_op_fields(2) [OF op])
  have s: "wpa_group_sm_step env h (w\<lparr>group := (group w)\<lparr>GInit := True\<rparr>\<rparr>) = Some ?u" for h
    by (simp add: wpa_group_sm_step_def wpa_group_gtk_init_def Let_def)
  let ?x = "?u\<lparr>group := (group ?u)\<lparr>GInit := False\<rparr>\<rparr>"
  have "wpa_group_state (group ?x) = WPA_GROUP_GTK_INIT" "GTKAuthenticator (group ?x)"
    using f assms by (simp_all add: group_frame_def)
  then have "wpa_group_sm_step env h ?x = Some (snd (wpa_group_setkeysdone env ?x))" for h
    unfolding wpa_group_sm_step_def Let_def by simp
  then have "run_group_init env w = Some (snd (wpa_group_setkeysdone env ?x))"
    unfolding run_group_init_def s option.case by blast
  then show ?thesis
  proof (rule that)
    show "GN (group ?x) = 1" "GM (group ?x) = 2" "GTK_len (group ?x) = GTK_len (group w)"
      using f by (simp_all add: group_frame_def)
    show "stas ?x = stas w" using group_op_stas [OF op] by simp
    show "auth ?x = auth w" using group_op_fields(1) [OF op] by simp
  qed
qed

lemma wpa_init_returns:
  assumes "env_gives_random env" "length (env_group_ptr env) < 2 ^ 31" "6 \<le> length a"
  shows "(\<forall>r. wpa_auth_gen_wpa_ie cf = Inl r \<longrightarrow> wpa_init env a cf = Some (Inl ())) \<and>
    (\<forall>ie. wpa_auth_gen_wpa_ie cf = Inr ie \<longrightarrow>
      (\<exists>w es fs. wpa_init env a cf = Some (Inr w) \<and> stas w = [] \<and> auth_wpa_ie (auth w) = ie \<and>
        conf (auth w) = cf \<and> auth_addr (auth w) = take 6 a \<and>
        GN (group w) = 1 \<and> GM (group w) = 2 \<and> wpa_group_state (group w) = WPA_GROUP_SETKEYSDONE \<and>
        GTK_len (group w) = GTK_len (wpa_group_set_key_len (conf_wpa_group cf) wpa_group_new) \<and>
        out w = es @ [SetKey (wpa_alg_enum (conf_wpa_group cf)) broadcast_ether_addr 1 (gtk_now (group w))] @ fs))"
proof -
  have "\<exists>w es fs. wpa_init env a cf = Some (Inr w) \<and> stas w = [] \<and> auth_wpa_ie (auth w) = ie \<and>
        conf (auth w) = cf \<and> auth_addr (auth w) = take 6 a \<and>
        GN (group w) = 1 \<and> GM (group w) = 2 \<and> wpa_group_state (group w) = WPA_GROUP_SETKEYSDONE \<and>
        GTK_len (group w) = GTK_len (wpa_group_set_key_len (conf_wpa_group cf) wpa_group_new) \<and>
        out w = es @ [SetKey (wpa_alg_enum (conf_wpa_group cf)) broadcast_ether_addr 1 (gtk_now (group w))] @ fs"
    if ie: "wpa_auth_gen_wpa_ie cf = Inr ie" for ie
  proof -
    define v0 where "v0 = \<lparr>group = wpa_group_set_key_len (conf_wpa_group cf) wpa_group_new,
      auth = (wpa_auth_new a cf)\<lparr>auth_wpa_ie := ie\<rparr>, out = [], stas = [] :: wpa_state_machine option list\<rparr>"
    have cf: "conf (wpa_auth_new a cf) = cf" "auth_addr (wpa_auth_new a cf) = take 6 a"
      by (simp_all add: wpa_auth_new_def)
    have "length (auth_addr (auth v0)) = 6" using assms(3) by (simp add: v0_def cf)
    then obtain u where u: "wpa_group_init_gmk_and_counter env v0 = (0, u)"
      by (rule init_gmk_returns [OF assms(1,2)])
    have op: "group_op v0 u" using group_op_init_gmk [of v0 env] u by simp
    have uf: "auth u = auth v0" "stas u = []" "group_frame (group v0) (group u)"
      using group_op_fields(1,2) [OF op] group_op_stas [OF op] by (simp_all add: v0_def)
    have "GTKAuthenticator (group u)" "\<not> GTKReKey (group u)"
      using uf(3) by (simp_all add: group_frame_def v0_def wpa_group_set_key_len_def wpa_group_new_def)
    then obtain v where v: "run_group_init env u = Some (snd (wpa_group_setkeysdone env v))"
      "GN (group v) = 1" "GM (group v) = 2" "stas v = stas u" "auth v = auth u" "GTK_len (group v) = GTK_len (group u)"
      by (rule group_init_exact)
    let ?v = "snd (wpa_group_setkeysdone env v)"
    have gi: "wpa_group_init env \<lparr>group = wpa_group_new, auth = (wpa_auth_new a cf)\<lparr>auth_wpa_ie := ie\<rparr>, out = [], stas = []\<rparr> =
        Some (Inr ?v)"
      using u v(1) by (simp add: wpa_group_init_def cf v0_def)
    obtain w fs where w: "wpa_init env a cf = Some (Inr w)" "group w = group ?v" "auth w = auth ?v"
      "stas w = stas ?v" "out w = out ?v @ fs"
    proof (rule that)
      let ?w = "if conf_wpa_gmk_rekey cf \<noteq> 0 then eloop_register_timeout (conf_wpa_gmk_rekey cf) 0 Timer_rekey_gmk ?v else ?v"
      let ?u = "if conf_wpa_group_rekey cf \<noteq> 0 then eloop_register_timeout (conf_wpa_group_rekey cf) 0 Timer_rekey_gtk ?w else ?w"
      show "wpa_init env a cf = Some (Inr ?u)" using gi by (simp add: wpa_init_def ie Let_def)
      show "out ?u = out ?v @ ((if conf_wpa_gmk_rekey cf \<noteq> 0 then [RegisterTimeout (conf_wpa_gmk_rekey cf) 0 Timer_rekey_gmk] else []) @
          (if conf_wpa_group_rekey cf \<noteq> 0 then [RegisterTimeout (conf_wpa_group_rekey cf) 0 Timer_rekey_gtk] else []))"
        by (simp add: step_simps)
    qed (simp_all add: step_simps)
    have len: "GTK_len (group v) = GTK_len (wpa_group_set_key_len (conf_wpa_group cf) wpa_group_new)"
      using v(6) uf(3) by (simp add: group_frame_def v0_def)
    show ?thesis
      by (rule exI [of _ w], rule exI [of _ "out v"], rule exI [of _ fs])
         (use w v(2-5) uf(1,2) len in \<open>simp add: step_simps setkeysdone_stas v0_def cf gtk_now_def\<close>)
  qed
  then show ?thesis by (simp add: wpa_init_def)
qed

text \<open>
  C17: A new authenticator. When the configuration can be written as an element and random octets are
  there, \<open>wpa_init\<close> gives an authenticator with no station, with that element, with the two group
  key slots 1 and 2, and with the first group key handed to the driver for the broadcast address
  under index 1, cut to the key length of the group cipher. When the configuration cannot be written
  \<open>wpa_init\<close> fails.
\<close>

theorem wpa_init_ready:
  assumes "env_gives_random env" "length (env_group_ptr env) < 2 ^ 31" "6 \<le> length a"
  shows "(\<forall>r. wpa_auth_gen_wpa_ie cf = Inl r \<longrightarrow> wpa_init env a cf = Some (Inl ())) \<and>
    (\<forall>ie. wpa_auth_gen_wpa_ie cf = Inr ie \<longrightarrow>
      (\<exists>w es fs. wpa_init env a cf = Some (Inr w) \<and> stas w = [] \<and> auth_wpa_ie (auth w) = ie \<and>
        conf (auth w) = cf \<and> auth_addr (auth w) = take 6 a \<and>
        GN (group w) = 1 \<and> GM (group w) = 2 \<and> wpa_group_state (group w) = WPA_GROUP_SETKEYSDONE \<and>
        GTK_len (group w) = GTK_len (wpa_group_set_key_len (conf_wpa_group cf) wpa_group_new) \<and>
        out w = es @ [SetKey (wpa_alg_enum (conf_wpa_group cf)) broadcast_ether_addr 1 (gtk_now (group w))] @ fs))"
  by (rule wpa_init_returns [OF assms])

text \<open>An environment for the examples: random octets and a driver that takes every key.\<close>

definition sample_env :: wpa_env where
  "sample_env = \<lparr>env_random = (\<lambda>_ n. (replicate n 7, True)), env_pool_ready = (\<lambda>_. 1),
     env_time = (\<lambda>_. (0, 0)), env_get_eapol = (\<lambda>_ _ _. 0), env_psk = [\<lparr>psk_group = True,
     psk_psk = replicate 32 1, psk_addr = replicate 6 0\<rparr>], env_get_msk = (\<lambda>_ _. None),
     env_set_key = (\<lambda>_ _ _. 0), env_get_seqnum = (\<lambda>_ _. None), env_group_ptr = replicate 4 0,
     env_uninit = replicate 64 0\<rparr>"

lemma sample_env_random: "env_gives_random sample_env" "length (env_group_ptr sample_env) < 2 ^ 31"
  by (simp_all add: env_gives_random_def sample_env_def)

lemma sample_conf_ie: "\<exists>ie. wpa_auth_gen_wpa_ie sample_conf = Inr ie"
  by (simp add: sample_conf_def wpa_auth_gen_wpa_ie_def wpa_write_rsn_ie_def Let_def proto_defs cipher_defs
      akm_defs BIT_def rsn_group_suite_def suite_list_def)

theorem wpa_init_ready_witness:
  "\<exists>w es fs. wpa_init sample_env (replicate 6 2) sample_conf = Some (Inr w) \<and> stas w = [] \<and>
     out w = es @ [SetKey WPA_ALG_CCMP broadcast_ether_addr 1 (gtk_now (group w))] @ fs"
proof -
  have a: "wpa_alg_enum (conf_wpa_group sample_conf) = WPA_ALG_CCMP"
    by (simp add: wpa_alg_enum_def sample_conf_def cipher_defs)
  obtain ie where "wpa_auth_gen_wpa_ie sample_conf = Inr ie" using sample_conf_ie by blast
  then show ?thesis
    using wpa_init_ready [OF sample_env_random, of "replicate 6 2" sample_conf] unfolding a by simp blast
qed

subsection \<open>What holds of every run\<close>

lemma sample_reach: "\<exists>w. wpa_reach n w \<and> stas w = [] \<and> conf (auth w) = sample_conf"
proof -
  obtain ie where "wpa_auth_gen_wpa_ie sample_conf = Inr ie" using sample_conf_ie by blast
  then obtain w where "wpa_init sample_env (replicate 6 2) sample_conf = Some (Inr w)" "stas w = []"
    "conf (auth w) = sample_conf"
    using wpa_init_returns [OF sample_env_random, of "replicate 6 2" sample_conf] by auto
  then show ?thesis using wpa_reach.start by blast
qed

text \<open>
  C1: Nothing opens without the handshake. In every run of the authenticator, whatever the stations
  send, the timers and the rest of the program do and the environment answers, a call that hands a
  pairwise key to the driver, declares a port valid or authorizes a station is made only while a
  frame received from that station is processed, and only when the frame is message 4/4 of a
  handshake in its last state, fits its buffer, carries a replay counter that was sent and not used
  up, and has a right MIC under the key confirmation key of the station's pairwise key. What is
  opened belongs to that station: its ports, and its own temporal key under its own address.
\<close>

theorem wpa_opens_only_after_handshake:
  assumes "wpa_reach n w" "n \<ge> STEP_ROUNDS" "run_ev n env ev w = Some w'"
  shows "\<exists>es. out w' = out w @ es \<and>
    (\<forall>e \<in> set es. opens e \<longrightarrow>
      (\<exists>i data s. ev = Received i data \<and> sta_of i w = Some s \<and> msg_of data = PAIRWISE_4 \<and>
         wpa_ptk_state s = WPA_PTK_PTKINITNEGOTIATING \<and> frame_fits s data \<and>
         wpa_replay_counter_valid s (replay_counter_of data) \<and>
         PTK_valid s \<and> wpa_verify_key_mic (ptk_kck (PTK s)) data = 0 \<and>
         (e = SetEapol (addr s) WPA_EAPOL_portValid 1 \<or> e = SetEapol (addr s) WPA_EAPOL_authorized 1 \<or>
          e = SetKey (fst (pairwise_alg (pairwise s))) (addr s) 0
                (ptk_tk1 (PTK s) (snd (pairwise_alg (pairwise s)))))))"
proof -
  have "within (ev_opens ev w) w w'"
    using run_ev_good(2) [OF reach_good assms(2,3)] assms(1,2) by blast
  then obtain es where es: "out w' = out w @ es" "\<forall>e \<in> set es. opens e \<longrightarrow> ev_opens ev w e"
    by (auto simp: within_def)
  have "ev_opens ev w e \<Longrightarrow> \<exists>i data. ev = Received i data \<and> receive_opens i data w e" for e
    by (cases ev) (simp_all add: ev_opens_def)
  then show ?thesis
    using es unfolding receive_opens_def mic_good_def own_opening_def by metis
qed

theorem wpa_opens_only_after_handshake_witness:
  "\<exists>w w' es. wpa_reach 62 w \<and> run_ev 62 sample_env (AddSta (replicate 6 3)) w = Some w' \<and>
     out w' = out w @ es \<and> (\<forall>e \<in> set es. \<not> opens e)"
proof -
  obtain w where w: "wpa_reach 62 w" using sample_reach by blast
  let ?w = "add_sta (replicate 6 3) w"
  have "run_ev 62 sample_env (AddSta (replicate 6 3)) w = Some ?w" by simp
  then show ?thesis
    using wpa_opens_only_after_handshake [OF w, of sample_env "AddSta (replicate 6 3)" ?w] w
    by (simp add: STEP_ROUNDS_def) metis
qed

text \<open>
  C7: Every call returns. With 62 rounds for its loop each event of a run has a result: the two
  machines of a station and the group machine, and the nested steps of a group rekeying, always
  settle. The one exception is the validation of an element when opportunistic key caching is
  configured, whose cache lookup may not return.
\<close>

theorem wpa_events_return:
  assumes "wpa_reach n w" "n \<ge> STEP_ROUNDS"
    and "conf_okc (conf (auth w)) \<Longrightarrow> \<forall>alloc ok caches i ie. ev \<noteq> Validate alloc ok caches i ie"
  shows "\<exists>w'. run_ev n env ev w = Some w' \<and> wpa_reach n w'"
proof -
  have "\<exists>w'. run_ev n env ev w = Some w'"
    using run_ev_good(1) [OF reach_good [OF assms(1,2)] assms(2)] assms(3) by blast
  then show ?thesis using wpa_reach.event [OF assms(1)] by blast
qed

theorem wpa_events_return_witness:
  "\<exists>w w'. wpa_reach 62 w \<and> run_ev 62 sample_env RekeyGtkTimer w = Some w' \<and> wpa_reach 62 w'"
proof -
  obtain w where "wpa_reach 62 w" using sample_reach by blast
  then show ?thesis using wpa_events_return [of 62 w RekeyGtkTimer sample_env] by (auto simp: STEP_ROUNDS_def)
qed

text \<open>
  C9: Between two events every station is at rest. None is inside the step loop or waiting to be
  freed, no request is pending and no reply is left unprocessed; its pairwise machine is in one of
  the six states that wait for something from outside, with no timeout unhandled and at most four
  attempts made while it waits for a reply; and a handshake that has not verified a MIC yet has no
  valid key.
\<close>

theorem wpa_stations_rest:
  assumes "wpa_reach n w" "n \<ge> STEP_ROUNDS" "sta_of i w = Some s"
  shows "\<not> Init s \<and> \<not> in_step_loop s \<and> \<not> pending_deinit s \<and> \<not> Disconnect s \<and>
    \<not> DeauthenticationRequest s \<and> \<not> AuthenticationRequest s \<and> \<not> ReAuthenticationRequest s \<and>
    \<not> PTKRequest s \<and> \<not> (EAPOLKeyReceived s \<and> \<not> EAPOLKeyRequest s \<and> EAPOLKeyPairwise s) \<and>
    wpa_ptk_state s \<in> {WPA_PTK_INITIALIZE, WPA_PTK_AUTHENTICATION2, WPA_PTK_PTKSTART,
      WPA_PTK_PTKCALCNEGOTIATING, WPA_PTK_PTKINITNEGOTIATING, WPA_PTK_PTKINITDONE} \<and>
    (wpa_ptk_state s \<in> {WPA_PTK_PTKSTART, WPA_PTK_PTKINITNEGOTIATING} \<longrightarrow>
       TimeoutCtr s \<le> 4 \<and> \<not> TimeoutEvt s) \<and>
    (wpa_ptk_state s = WPA_PTK_PTKCALCNEGOTIATING \<longrightarrow> \<not> MICVerified s \<and> \<not> PTK_valid s \<and> \<not> TimeoutEvt s)"
proof -
  have "sta_ok s" using good_sta [OF reach_good [OF assms(1,2)] assms(3)] .
  then show ?thesis
    by (cases "wpa_ptk_state s") (auto simp: sta_ok_def ptk_rest_def no_requests_def pairwise_reply_def)
qed

theorem wpa_stations_rest_witness:
  "\<exists>w s. wpa_reach 62 w \<and> sta_of 0 w = Some s \<and> wpa_ptk_state s = WPA_PTK_INITIALIZE \<and> \<not> PTKRequest s"
proof -
  obtain w where w: "wpa_reach 62 w" "stas w = []" using sample_reach by blast
  let ?w = "add_sta (replicate 6 3) w" and ?s = "wpa_auth_sta_init (replicate 6 3)"
  have r: "wpa_reach 62 ?w" by (rule wpa_reach.event [OF w(1), where ev = "AddSta (replicate 6 3)"]) simp
  have s: "sta_of 0 ?w = Some ?s" using w(2) by (simp add: sta_of_def add_sta_def)
  have "62 \<ge> STEP_ROUNDS" by (simp add: STEP_ROUNDS_def)
  then have "\<not> PTKRequest ?s" using wpa_stations_rest [OF r _ s] by blast
  moreover have "wpa_ptk_state ?s = WPA_PTK_INITIALIZE" by (simp add: wpa_auth_sta_init_def)
  ultimately show ?thesis using r s by blast
qed

text \<open>
  C16: The bookkeeping of a group key change. Between two events the counter of the group is exactly
  the number of stations that still have to confirm the current group key, so the group machine
  leaves its waiting state when and only when the last of them has confirmed or left; and the two
  key slots are 1 and 2 in some order, so the key in use and the key of the last change never share
  a slot.
\<close>

theorem wpa_group_waits_for_all:
  assumes "wpa_reach n w" "n \<ge> STEP_ROUNDS"
  shows "GKeyDoneStations (group w) =
      int (length (filter (\<lambda>s. \<exists>t. s = Some t \<and> GUpdateStationKeys t) (stas w))) \<and>
    {GN (group w), GM (group w)} = {1, 2} \<and> \<not> GInit (group w) \<and> \<not> GTKReKey (group w)"
proof -
  have "base_good 0 w" using reach_good [OF assms] by (simp add: good_def good_at_def)
  then show ?thesis by (auto simp: base_good_def waiting_count calm_def)
qed

theorem wpa_group_waits_for_all_witness:
  "\<exists>w. wpa_reach 62 w \<and> GKeyDoneStations (group w) = 0 \<and> {GN (group w), GM (group w)} = {1, 2}"
proof -
  obtain w where w: "wpa_reach 62 w" "stas w = []" using sample_reach by blast
  then show ?thesis using wpa_group_waits_for_all [OF w(1)] by (intro exI [of _ w]) (simp add: STEP_ROUNDS_def)
qed

end
