(* ===== verification/WpaHandshake.thy ===== *)
theory WpaHandshake
  imports WpaRun
begin

text \<open>
  The steps of a handshake one by one: the replay counters as a window, frames that are turned
  away, the key that message 2/4 selects, what message 4/4 opens, how a station is given up,
  and what a station can do with a frame that was sent to it.
\<close>

unbundle bit_operations_syntax

subsection \<open>The replay counters as a window\<close>

text \<open>
  What the slots stand for: \<open>v\<close> is the number of the last counter sent and \<open>k\<close> of the last
  counters, at most four, may still be answered.
\<close>

definition replay_abs :: "key_replay_slot list \<Rightarrow> nat \<Rightarrow> nat \<Rightarrow> bool" where
  "replay_abs slots v k \<longleftrightarrow>
     length slots = 4 \<and> (\<forall>s \<in> set slots. length (counter s) = 8) \<and> v < 2 ^ 64 \<and> k \<le> 4 \<and>
     be_val (counter (slots ! 0)) = v \<and>
     (\<forall>j < k. valid (slots ! j) \<and> be_val (counter (slots ! j)) = (v + 2 ^ 64 - j) mod 2 ^ 64) \<and>
     (k < 4 \<longrightarrow> \<not> valid (slots ! k))"

lemma replay_in_prefix:
  assumes "\<forall>s \<in> set ss. length (counter s) = 8" "length rc = 8" "k \<le> length ss"
    and "\<forall>j < k. valid (ss ! j)" "k < length ss \<longrightarrow> \<not> valid (ss ! k)"
  shows "replay_counter_in ss rc \<longleftrightarrow> (\<exists>j < k. counter (ss ! j) = rc)"
  using assms
proof (induction ss arbitrary: k)
  case (Cons s ss)
  show ?case
  proof (cases k)
    case 0
    then show ?thesis using Cons.prems(5) by simp
  next
    case (Suc k')
    have v: "valid s" using Cons.prems(4) Suc by (metis nth_Cons_0 zero_less_Suc)
    have ih: "replay_counter_in ss rc \<longleftrightarrow> (\<exists>j < k'. counter (ss ! j) = rc)"
      by (rule Cons.IH) (use Cons.prems Suc in \<open>auto simp: All_less_Suc2\<close>)
    have "os_memcmp rc (counter s) 8 = 0 \<longleftrightarrow> counter s = rc"
      using os_memcmp_zero [of rc "counter s" 8] Cons.prems(1,2) by auto
    then show ?thesis using v ih by (auto simp: Suc Ex_less_Suc2)
  qed
qed simp

lemma replay_abs_valid:
  assumes "replay_abs (key_replay s) v k" "length rc = 8"
  shows "wpa_replay_counter_valid s rc \<longleftrightarrow> (\<exists>j < k. be_val rc = (v + 2 ^ 64 - j) mod 2 ^ 64)"
proof -
  let ?ss = "key_replay s"
  have len: "length ?ss = 4" "\<forall>s \<in> set ?ss. length (counter s) = 8" "k \<le> 4"
    and win: "\<forall>j < k. valid (?ss ! j) \<and> be_val (counter (?ss ! j)) = (v + 2 ^ 64 - j) mod 2 ^ 64"
    and stop: "k < 4 \<longrightarrow> \<not> valid (?ss ! k)"
    using assms(1) by (simp_all add: replay_abs_def)
  have "wpa_replay_counter_valid s rc \<longleftrightarrow> (\<exists>j < k. counter (?ss ! j) = rc)"
    unfolding wpa_replay_counter_valid_def
    using len win stop assms(2) by (simp add: RSNA_MAX_EAPOL_RETRIES_def replay_in_prefix)
  moreover have "counter (?ss ! j) = rc \<longleftrightarrow> be_val rc = (v + 2 ^ 64 - j) mod 2 ^ 64" if "j < k" for j
  proof -
    have "length (counter (?ss ! j)) = length rc" using len that assms(2) by simp
    then show ?thesis using win that be_val_inj by metis
  qed
  ultimately show ?thesis by blast
qed

lemma four_slots:
  assumes "length slots = 4"
  obtains a b c d where "slots = [a, b, c, d]"
proof -
  obtain a as where "slots = a # as" "length as = 3" using assms by (cases slots) simp_all
  moreover obtain b bs where "as = b # bs" "length bs = 2" using calculation(2) by (cases as) simp_all
  moreover obtain c cs where "bs = c # cs" "length cs = 1" using calculation(4) by (cases bs) simp_all
  moreover obtain d where "cs = [d]" using calculation(6) by (cases cs) simp_all
  ultimately show ?thesis using that by simp
qed

lemma replay_abs_next:
  assumes "replay_abs slots v k"
  shows "replay_abs (next_replay slots) ((v + 1) mod 2 ^ 64) (min 4 (k + 1))"
proof -
  have len: "length slots = 4" "\<forall>s \<in> set slots. length (counter s) = 8" "k \<le> 4" "v < 2 ^ 64"
    and v: "be_val (counter (slots ! 0)) = v"
    and win: "\<forall>j < k. valid (slots ! j) \<and> be_val (counter (slots ! j)) = (v + 2 ^ 64 - j) mod 2 ^ 64"
    and stop: "k < 4 \<longrightarrow> \<not> valid (slots ! k)"
    using assms by (simp_all add: replay_abs_def)
  obtain a b c d where s: "slots = [a, b, c, d]" by (rule four_slots [OF len(1)])
  let ?n = "\<lparr>counter = inc_byte_array (counter a) 8, valid = True\<rparr>"
  have nx: "next_replay slots = [?n, a, b, c]" by (simp add: next_replay_def s RSNA_MAX_EAPOL_RETRIES_def)
  have nv: "be_val (counter ?n) = (v + 1) mod 2 ^ 64"
    using inc_byte_array_val [of "counter a"] len(2) v by (simp add: s)
  have shift: "((v + 1) mod 2 ^ 64 + 2 ^ 64 - Suc j) mod 2 ^ 64 = (v + 2 ^ 64 - j) mod 2 ^ 64" if "j < 4" for j
    using len(4) that by (cases "v + 1 = 2 ^ 64") (auto simp: mod_if)
  have "valid ([?n, a, b, c] ! j) \<and> be_val (counter ([?n, a, b, c] ! j)) =
      ((v + 1) mod 2 ^ 64 + 2 ^ 64 - j) mod 2 ^ 64" if "j < min 4 (k + 1)" for j
  proof (cases j)
    case 0
    then show ?thesis using nv len(4) by (auto simp: mod_if)
  next
    case (Suc i)
    then have i: "i < 3" "i < k" using that by auto
    then have "[?n, a, b, c] ! j = slots ! i" by (auto simp: Suc s nth_Cons' numeral_3_eq_3 less_Suc_eq)
    then show ?thesis using win i shift [of i] by (simp add: Suc)
  qed
  moreover have "\<not> valid ([?n, a, b, c] ! (k + 1))" if "k + 1 < 4"
  proof -
    have "[?n, a, b, c] ! (k + 1) = slots ! k" using that by (auto simp: s nth_Cons' numeral_eq_Suc less_Suc_eq)
    then show ?thesis using stop that by simp
  qed
  ultimately show ?thesis
    using len(2) nv unfolding replay_abs_def nx by (auto simp: s min_def)
qed

lemma replay_abs_invalidate:
  assumes "replay_abs (key_replay s) v k"
  shows "replay_abs (key_replay (invalidate_replay s)) v 0"
proof -
  have "length (key_replay s) = 4" using assms by (simp add: replay_abs_def)
  then obtain a b c d where "key_replay s = [a, b, c, d]" by (rule four_slots)
  then show ?thesis using assms by (simp add: replay_abs_def invalidate_replay_def)
qed

lemma replay_abs_init: "replay_abs (key_replay (wpa_auth_sta_init a)) 0 0"
proof -
  have "be_val (replicate n 0) = 0" for n by (induction n) (simp_all add: be_val_def)
  then show ?thesis by (simp add: replay_abs_def wpa_auth_sta_init_def)
qed

text \<open>
  C10: The replay counters refine a window. The four slots of a station stand for the number of the
  last counter sent and for how many of the last counters may be answered. A frame's counter is
  taken exactly when it is one of those. Sending moves to the next number, modulo \<open>2 ^ 64\<close>, and
  opens the window by one, to four at most; an accepted reply closes the window, so no counter sent
  so far is ever taken again; and an association starts with counter 0 and a closed window.
\<close>

theorem replay_window_refines:
  assumes "replay_abs (key_replay s) v k"
  shows "(length rc = 8 \<longrightarrow>
      (wpa_replay_counter_valid s rc \<longleftrightarrow> (\<exists>j < k. be_val rc = (v + 2 ^ 64 - j) mod 2 ^ 64))) \<and>
    replay_abs (key_replay (s\<lparr>key_replay := next_replay (key_replay s)\<rparr>)) ((v + 1) mod 2 ^ 64) (min 4 (k + 1)) \<and>
    replay_abs (key_replay (invalidate_replay s)) v 0 \<and>
    \<not> wpa_replay_counter_valid (invalidate_replay s) rc \<and>
    replay_abs (key_replay (wpa_auth_sta_init a)) 0 0"
proof -
  have "\<not> wpa_replay_counter_valid (invalidate_replay s) rc"
  proof -
    have "length (key_replay s) = 4" using assms by (simp add: replay_abs_def)
    then obtain a b c d where "key_replay s = [a, b, c, d]" by (rule four_slots)
    then show ?thesis
      by (simp add: wpa_replay_counter_valid_def invalidate_replay_def RSNA_MAX_EAPOL_RETRIES_def)
  qed
  moreover have "replay_abs (key_replay (wpa_auth_sta_init a)) 0 0"
    by (rule replay_abs_init)
  moreover have "key_replay (s\<lparr>key_replay := next_replay (key_replay s)\<rparr>) = next_replay (key_replay s)"
    by simp
  ultimately show ?thesis
    using replay_abs_valid [OF assms] replay_abs_next [OF assms] replay_abs_invalidate [OF assms] by metis
qed

theorem replay_window_refines_witness:
  "let s = (wpa_auth_sta_init (replicate 6 1))\<lparr>key_replay :=
       next_replay (key_replay (wpa_auth_sta_init (replicate 6 1)))\<rparr> in
     wpa_replay_counter_valid s [0, 0, 0, 0, 0, 0, 0, 1] \<and>
     \<not> wpa_replay_counter_valid s [0, 0, 0, 0, 0, 0, 0, 2] \<and>
     \<not> wpa_replay_counter_valid (invalidate_replay s) [0, 0, 0, 0, 0, 0, 0, 1]"
proof -
  let ?i = "wpa_auth_sta_init (replicate 6 1)"
  let ?s = "?i\<lparr>key_replay := next_replay (key_replay ?i)\<rparr>"
  have "replay_abs (key_replay ?i) 0 0"
    by (rule replay_abs_init)
  then have "replay_abs (next_replay (key_replay ?i)) 1 1" using replay_abs_next by fastforce
  then have s: "replay_abs (key_replay ?s) 1 1" by simp
  have r: "wpa_replay_counter_valid ?s [0, 0, 0, 0, 0, 0, 0, b] \<longleftrightarrow> unat b = 1"
    "\<not> wpa_replay_counter_valid (invalidate_replay ?s) [0, 0, 0, 0, 0, 0, 0, b]" for b
    using replay_window_refines [OF s, of "[0, 0, 0, 0, 0, 0, 0, b]"] by (simp_all add: be_val_def)
  show ?thesis unfolding Let_def using r(1) [of 1] r(1) [of 2] r(2) [of 1] by simp
qed

subsection \<open>Frames that are turned away\<close>

lemma put_same: "sta_of i w = Some s \<Longrightarrow> put_ctx i (ctx_of w s) w = w"
  by (rule wpa_world_eqI) (auto simp: step_simps sta_of_def list_update_same_conv split: if_splits)

lemma check_state_reads:
  "msg \<noteq> PAIRWISE_2 \<Longrightarrow> check_state msg data c = (state_takes msg (sm c), c)"
  by (cases msg) (simp_all add: check_state_def state_takes_def)

lemma receive_check_reads:
  assumes "msg_of data \<noteq> PAIRWISE_2"
  shows "receive_check data c = (frame_fits (sm c) data \<and> version_ok (sm c) (msg_of data) (key_info_of data) \<and>
    counter_ok (sm c) data \<and> state_takes (msg_of data) (sm c) \<and>
    key_info_of data AND WPA_KEY_INFO_ACK = 0 \<and> key_info_of data AND WPA_KEY_INFO_MIC \<noteq> 0, c)"
  using assms check_state_reads [of "msg_of data" data c]
  by (auto simp: receive_check_def msg_of_def Let_def)





subsection \<open>The pairwise key of a handshake\<close>

text \<open>The keys a station may hold: those configured for it, or the one of its authentication.\<close>

definition psk_for :: "bytes \<Rightarrow> hostapd_wpa_psk \<Rightarrow> bool" where
  "psk_for a p \<longleftrightarrow> psk_group p \<or> os_memcmp (psk_addr p) a 6 = 0"

definition pmk_candidates :: "wpa_env \<Rightarrow> wpa_state_machine \<Rightarrow> bytes list" where
  "pmk_candidates env s =
     (if wpa_key_mgmt_wpa_psk (sm_wpa_key_mgmt s)
      then map psk_psk (filter (psk_for (addr s)) (env_psk env)) else [PMK s])"

text \<open>\<open>hostapd_get_psk\<close> gives the next key for the address; the rest of the list is what follows it.\<close>

lemma get_psk_loop_first:
  "get_psk_loop ps i a prev True = None \<Longrightarrow> filter (psk_for a) ps = []"
  "get_psk_loop ps i a prev True = Some j \<Longrightarrow>
     i \<le> j \<and> j < i + length ps \<and> filter (psk_for a) ps = ps ! (j - i) # filter (psk_for a) (drop (Suc (j - i)) ps)"
proof (induction ps arbitrary: i)
  case (Cons p ps)
  { case 1 then show ?case using Cons.IH(1) [of "Suc i"] by (auto simp: psk_for_def split: if_splits) }
  { case 2
    show ?case
    proof (cases "psk_for a p")
      case True
      then show ?thesis using 2 by (auto simp: psk_for_def)
    next
      case False
      then have "get_psk_loop ps (Suc i) a prev True = Some j" using 2 by (auto simp: psk_for_def)
      note ih = Cons.IH(2) [OF this]
      then have "Suc i \<le> j" by simp
      then have "j - i = Suc (j - Suc i)" by simp
      then show ?thesis using ih False by simp
    qed }
qed simp_all

lemma get_psk_loop_skip:
  "i \<le> k \<Longrightarrow> get_psk_loop ps i a (Some k) False = get_psk_loop (drop (Suc k - i) ps) (Suc k) a (Some k) True"
proof (induction ps arbitrary: i)
  case (Cons p ps)
  show ?case
  proof (cases "i = k")
    case True
    then show ?thesis by simp
  next
    case False
    then have "i < k" using Cons.prems by simp
    then show ?thesis using Cons.IH [of "Suc i"] by (simp add: Suc_diff_le)
  qed
qed simp

definition psks_after :: "nat option \<Rightarrow> hostapd_wpa_psk list \<Rightarrow> hostapd_wpa_psk list" where
  "psks_after prev ps = (case prev of None \<Rightarrow> ps | Some k \<Rightarrow> drop (Suc k) ps)"

lemma get_psk_next:
  "hostapd_get_psk ps a prev = None \<Longrightarrow> filter (psk_for a) (psks_after prev ps) = []"
  "hostapd_get_psk ps a prev = Some j \<Longrightarrow>
     filter (psk_for a) (psks_after prev ps) = ps ! j # filter (psk_for a) (psks_after (Some j) ps)"
proof -
  show "filter (psk_for a) (psks_after prev ps) = []" if "hostapd_get_psk ps a prev = None"
    using that get_psk_loop_first(1)
    by (cases prev) (auto simp: hostapd_get_psk_def psks_after_def get_psk_loop_skip)
  show "filter (psk_for a) (psks_after prev ps) = ps ! j # filter (psk_for a) (psks_after (Some j) ps)"
    if r: "hostapd_get_psk ps a prev = Some j"
  proof (cases prev)
    case None
    then show ?thesis using r get_psk_loop_first(2) [of ps 0 a None j]
      by (simp add: hostapd_get_psk_def psks_after_def)
  next
    case (Some k)
    have l: "get_psk_loop (drop (Suc k) ps) (Suc k) a (Some k) True = Some j"
      using r Some get_psk_loop_skip [of 0 k ps a] by (simp add: hostapd_get_psk_def)
    note f = get_psk_loop_first(2) [OF l]
    then have "drop (Suc k) ps ! (j - Suc k) = ps ! j" "drop (Suc (j - Suc k)) (drop (Suc k) ps) = drop (Suc j) ps"
      by auto
    then show ?thesis using f by (simp add: Some psks_after_def)
  qed
qed

definition key_fits :: "wpa_env \<Rightarrow> wpa_ctx \<Rightarrow> bytes \<Rightarrow> bool" where
  "key_fits env c pmk \<longleftrightarrow>
     wpa_verify_key_mic (ptk_kck (wpa_derive_ptk env c pmk)) (last_rx_eapol_key (sm c)) = 0"

lemma ptk_search_from:
  "ptk_search env c prev = map_option (\<lambda>pmk. (pmk, wpa_derive_ptk env c pmk))
     (List.find (key_fits env c)
       (if wpa_key_mgmt_wpa_psk (sm_wpa_key_mgmt (sm c))
        then map psk_psk (filter (psk_for (addr (sm c))) (psks_after prev (env_psk env))) else [PMK (sm c)]))"
proof (induction env c prev rule: ptk_search.induct)
  case (1 env c prev)
  show ?case
  proof (cases "wpa_key_mgmt_wpa_psk (sm_wpa_key_mgmt (sm c))")
    case False
    then show ?thesis by (subst ptk_search.simps) (simp add: key_fits_def Let_def)
  next
    case psk: True
    show ?thesis
    proof (cases "hostapd_get_psk (env_psk env) (addr (sm c)) prev")
      case None
      then show ?thesis using psk get_psk_next(1) [OF None] by (subst ptk_search.simps) simp
    next
      case (Some j)
      note ih = 1 [OF psk Some refl refl]
      let ?p = "psk_psk (env_psk env ! j)"
      have step: "ptk_search env c prev =
          (if key_fits env c ?p then Some (?p, wpa_derive_ptk env c ?p) else ptk_search env c (Some j))"
        using psk Some by (subst ptk_search.simps) (simp add: key_fits_def Let_def)
      show ?thesis
      proof (cases "key_fits env c ?p")
        case True
        then show ?thesis using psk get_psk_next(2) [OF Some] by (simp add: step)
      next
        case False
        then show ?thesis using psk get_psk_next(2) [OF Some] ih by (simp add: step key_fits_def [symmetric])
      qed
    qed
  qed
qed

lemma calc_ctx_fields:
  "sm_wpa_key_mgmt (sm (calc_ctx c)) = sm_wpa_key_mgmt (sm c)" "addr (sm (calc_ctx c)) = addr (sm c)"
  "PMK (sm (calc_ctx c)) = PMK (sm c)" "wpa_derive_ptk env (calc_ctx c) pmk = wpa_derive_ptk env c pmk"
  "key_fits env (calc_ctx c) pmk = key_fits env c pmk"
  by (simp_all add: calc_ctx_def key_fits_def wpa_derive_ptk_def entry_WPA_PTK_def step_simps)

text \<open>
  C12: Where a pairwise key comes from. Entering \<open>PTKCALCNEGOTIATING\<close> tries exactly the keys that
  are configured for the station, in their order (or the one PMK of its authentication), and takes
  the first under which the MIC of the received frame verifies with the pairwise key derived from
  it: then that pairwise key becomes the valid one and the MIC counts as verified. When the frame
  verifies under none of them the station's key, its validity and the verdict stay as they were.
\<close>

theorem ptk_from_verified_pmk:
  "let s = sm c; s' = sm (sm_WPA_PTK_PTKCALCNEGOTIATING_Enter env c);
       fits = (\<lambda>pmk. wpa_verify_key_mic (ptk_kck (wpa_derive_ptk env c pmk)) (last_rx_eapol_key s) = 0) in
   wpa_ptk_state s' = WPA_PTK_PTKCALCNEGOTIATING \<and> \<not> EAPOLKeyReceived s' \<and>
   (case List.find fits (pmk_candidates env s) of
      None \<Rightarrow> PTK s' = PTK s \<and> PTK_valid s' = PTK_valid s \<and> MICVerified s' = MICVerified s \<and> PMK s' = PMK s
    | Some pmk \<Rightarrow> PTK s' = wpa_derive_ptk env c pmk \<and> PTK_valid s' \<and> MICVerified s' \<and>
        \<not> pending_1_of_4_timeout s' \<and>
        PMK s' = (if wpa_key_mgmt_wpa_psk (sm_wpa_key_mgmt s) then take PMK_LEN pmk else PMK s))"
proof -
  have find: "ptk_search env (calc_ctx c) None =
      map_option (\<lambda>pmk. (pmk, wpa_derive_ptk env c pmk)) (List.find (key_fits env c) (pmk_candidates env (sm c)))"
  proof -
    have fits: "key_fits env (calc_ctx c) = key_fits env c" by (simp add: fun_eq_iff calc_ctx_fields)
    show ?thesis
      unfolding ptk_search_from fits calc_ctx_fields pmk_candidates_def psks_after_def option.case ..
  qed
  have fits: "(\<lambda>pmk. wpa_verify_key_mic (ptk_kck (wpa_derive_ptk env c pmk)) (last_rx_eapol_key (sm c)) = 0) = key_fits env c"
    by (simp add: fun_eq_iff key_fits_def)
  show ?thesis
    unfolding Let_def fits PTKCALCNEGOTIATING_frame find
    by (cases "List.find (key_fits env c) (pmk_candidates env (sm c))") simp_all
qed

subsection \<open>Message 4/4 completes the handshake\<close>

text \<open>The first round of the loop and all later ones only append outputs.\<close>

lemma loop_after_round:
  assumes "loop_ctx (Suc n) env c = Some d"
    and c: "idle_zero (sm c)" "reply_ok (sm c)" "calc_ok (sm c)" "GN (group c) \<noteq> 0"
  shows "\<exists>es. out d = out (round_ctx env c) @ es"
proof (cases "ctx_changed (round_ctx env c)")
  case False
  then show ?thesis using assms(1) by (simp add: Let_def)
next
  case True
  let ?r = "round_ctx env c"
  have l: "loop_ctx n env ?r = Some d" using assms(1) True by (simp add: Let_def)
  have nr: "\<not> pairwise_reply (sm ?r)" by (rule round_reply(1) [OF c(2)])
  have "within (may_open (sm ?r)) ?r d"
  proof (rule loop_facts(7) [OF l])
    show "idle_zero (sm ?r)" by (rule round_idle_zero [OF c(1)])
    show "reply_ok (sm ?r)" using nr by (simp add: reply_ok_def)
    show "calc_ok (sm ?r)" by (rule round_reply(2) [OF c(2,3)])
    show "GN (group ?r) \<noteq> 0" using round_kept [of c env] c(4) by (simp add: base_kept_def)
  qed
  then show ?thesis by (auto simp: within_def)
qed

lemma round_outputs:
  assumes "GN (group c) \<noteq> 0"
  shows "\<exists>es. out (round_ctx env c) = out (sm_WPA_PTK_Step env (cleared c)) @ es"
proof -
  let ?d = "sm_WPA_PTK_Step env (cleared c)"
  have k: "group_kept (cleared c) ?d" by (rule PTK_step_kept)
  have k': "group_kept ?d (sm_WPA_PTK_GROUP_Step env ?d)" by (rule GROUP_step_kept)
  have "GN (group (sm_WPA_PTK_GROUP_Step env ?d)) \<noteq> 0"
    using k k' assms by (simp add: group_kept_def step_simps)
  then have "quiet ?d (round_ctx env c)"
    unfolding round_ctx_eq using quiet_trans [OF GROUP_step_quiet group_quick_quiet] by blast
  then show ?thesis by (auto simp: quiet_def)
qed

lemma INITDONE_opens:
  assumes "Pair (sm c)" "env_set_key env (out c) (fst (pairwise_alg (pairwise (sm c)))) (addr (sm c)) = 0"
  shows "\<exists>es. out (sm_WPA_PTK_PTKINITDONE_Enter env c) = out c @
      SetKey (fst (pairwise_alg (pairwise (sm c)))) (addr (sm c)) 0
        (ptk_tk1 (PTK (sm c)) (snd (pairwise_alg (pairwise (sm c))))) # es \<and>
    SetEapol (addr (sm c)) WPA_EAPOL_portValid 1 \<in> set es \<and>
    (wpa_key_mgmt_wpa_psk (sm_wpa_key_mgmt (sm c)) \<longrightarrow> SetEapol (addr (sm c)) WPA_EAPOL_authorized 1 \<in> set es)"
  using assms
  by (cases "pairwise_alg (pairwise (sm c))") (simp add: sm_WPA_PTK_PTKINITDONE_Enter_def ptkinitdone_ports_def entry_WPA_PTK_def step_simps Let_def)

lemma step_completes:
  assumes s: "sta_of i w = Some s" and g: "calm (group w)" "GN (group w) \<noteq> 0" and n: "n \<ge> STEP_ROUNDS"
    and st: "steppable s" "\<not> Init s" "no_requests s" "pairwise_reply s"
    and p: "wpa_ptk_state s = WPA_PTK_PTKINITNEGOTIATING" "MICVerified s" "Pair s"
    and key: "env_set_key env (out w) (fst (pairwise_alg (pairwise s))) (addr s) = 0"
    and run: "sm_step_world n env i w = Some w'"
  shows "\<exists>es. out w' = out w @ SetKey (fst (pairwise_alg (pairwise s))) (addr s) 0
        (ptk_tk1 (PTK s) (snd (pairwise_alg (pairwise s)))) # es \<and>
    SetEapol (addr s) WPA_EAPOL_portValid 1 \<in> set es \<and>
    (wpa_key_mgmt_wpa_psk (sm_wpa_key_mgmt s) \<longrightarrow> SetEapol (addr s) WPA_EAPOL_authorized 1 \<in> set es)"
proof -
  let ?s = "s\<lparr>in_step_loop := True\<rparr>"
  let ?c = "ctx_of w ?s"
  have z: "idle_zero (sm ?c)" and r: "reply_ok (sm ?c)" and ck: "calc_ok (sm ?c)"
    using st(1) by (simp_all add: steppable_def idle_zero_def reply_ok_def calc_ok_def pairwise_reply_def
        no_requests_def step_simps)
  have gn: "GN (group ?c) \<noteq> 0" using g(2) by (simp add: step_simps)
  have pend: "\<not> pending_deinit s" "\<not> in_step_loop s" using st(1) by (simp_all add: steppable_def)
  obtain d where d: "loop_ctx n env ?c = Some d" using loop_ctx_total [OF z n] by blast
  have kept: "\<not> pending_deinit (sm d')" if "loop_ctx n env ?c = Some d'" for d'
    using loop_facts(1) [OF that z r ck gn] pend by (simp add: sm_kept_def step_simps)
  have w': "out w' = out d"
    using run sm_step_ctx [OF s pend g(1), of n env, OF kept] d by (auto simp: sm_step_world_def step_simps)
  obtain m where m: "n = Suc m" using n by (cases n) (auto simp: STEP_ROUNDS_def)
  obtain fs where fs: "out d = out (round_ctx env ?c) @ fs"
    using loop_after_round [OF d [unfolded m] z r ck gn] by blast
  obtain gs where gs: "out (round_ctx env ?c) = out (sm_WPA_PTK_Step env (cleared ?c)) @ gs"
    using round_outputs [OF gn] by blast
  have flags: "\<not> Init (sm (cleared ?c))" "no_requests (sm (cleared ?c))" "pairwise_reply (sm (cleared ?c))"
    "wpa_ptk_state (sm (cleared ?c)) = WPA_PTK_PTKINITNEGOTIATING" "MICVerified (sm (cleared ?c))"
    using st p by (simp_all add: step_simps no_requests_def pairwise_reply_def)
  have step: "sm_WPA_PTK_Step env (cleared ?c) = sm_WPA_PTK_PTKINITDONE_Enter env (cleared ?c)"
    using flags PTK_step_plain [OF flags(1,2), of env] by simp
  obtain es where es: "out (sm_WPA_PTK_PTKINITDONE_Enter env (cleared ?c)) = out w @
      SetKey (fst (pairwise_alg (pairwise s))) (addr s) 0
        (ptk_tk1 (PTK s) (snd (pairwise_alg (pairwise s)))) # es"
    "SetEapol (addr s) WPA_EAPOL_portValid 1 \<in> set es"
    "wpa_key_mgmt_wpa_psk (sm_wpa_key_mgmt s) \<longrightarrow> SetEapol (addr s) WPA_EAPOL_authorized 1 \<in> set es"
    using INITDONE_opens [of "cleared ?c" env] p(3) key by (auto simp: step_simps)
  have "out w' = out w @ SetKey (fst (pairwise_alg (pairwise s))) (addr s) 0
        (ptk_tk1 (PTK s) (snd (pairwise_alg (pairwise s)))) # (es @ gs @ fs)"
    using w' fs gs step es(1) by simp
  then show ?thesis using es(2,3) by (intro exI [of _ "es @ gs @ fs"]) auto
qed

lemma receive_completes:
  assumes g: "good w" and n: "n \<ge> STEP_ROUNDS"
    and wpa: "conf_wpa (conf (auth w)) \<noteq> 0" and s: "sta_of i w = Some s"
    and state: "wpa_ptk_state s = WPA_PTK_PTKINITNEGOTIATING" "PTK_valid s" "Pair s"
    and msg: "msg_of data = PAIRWISE_4" "frame_fits s data" "version_ok s (msg_of data) (key_info_of data)"
      "counter_ok s data" "key_info_of data AND WPA_KEY_INFO_ACK = 0" "key_info_of data AND WPA_KEY_INFO_MIC \<noteq> 0"
    and mic: "wpa_verify_key_mic (ptk_kck (PTK s)) data = 0"
    and key: "env_set_key env (out w @ [CancelTimeout (Timer_send_eapol (addr s))])
      (fst (pairwise_alg (pairwise s))) (addr s) = 0"
  obtains w' es where "wpa_receive n env i data w = Some w'" "good w'"
    "out w' = out w @ CancelTimeout (Timer_send_eapol (addr s)) #
      SetKey (fst (pairwise_alg (pairwise s))) (addr s) 0
        (ptk_tk1 (PTK s) (snd (pairwise_alg (pairwise s)))) # es"
    "SetEapol (addr s) WPA_EAPOL_portValid 1 \<in> set es"
    "wpa_key_mgmt_wpa_psk (sm_wpa_key_mgmt s) \<Longrightarrow> SetEapol (addr s) WPA_EAPOL_authorized 1 \<in> set es"
proof -
  have i: "i < length (stas w)" by (rule sta_of_bound [OF s])
  have ok: "sta_ok s" by (rule good_sta [OF g s])
  let ?t = "s\<lparr>MICVerified := True, pending_1_of_4_timeout := False\<rparr>"
  let ?d = "\<lparr>group = group w, auth = auth w, out = out w @ [CancelTimeout (Timer_send_eapol (addr s))], sm = ?t\<rparr>"
  let ?e = "upd_sm (note_frame data) (upd_sm invalidate_replay ?d)"
  let ?v = "put_ctx i ?e w"
  have takes: "state_takes (msg_of data) s" using msg(1) state by (simp add: state_takes_def)
  have info: "key_info_of data AND WPA_KEY_INFO_REQUEST = 0" "key_info_of data AND WPA_KEY_INFO_KEY_TYPE \<noteq> 0"
    using msg_pairwise [of data] msg(1) by auto
  have chk: "receive_check data (ctx_of w s) = (True, ctx_of w s)"
    using receive_check_reads [of data "ctx_of w s"] msg takes by (simp add: step_simps)
  have rmic: "receive_mic data (ctx_of w s) = (True, ?d)"
    using mic state(2) by (simp add: receive_mic_def Let_def upd_sm_def ctx_of_def emit_def eloop_cancel_timeout_def)
  have recv: "wpa_receive n env i data w = sm_step_world n env i ?v"
    using wpa s chk rmic put_same [OF s] info(1) i
    by (simp add: wpa_receive_def accept_frame_def on_sm_def with_sta_put Let_def)
  have sv: "sta_of i ?v = Some (sm ?e)" using i by (simp add: sta_of_put)
  have f: "wpa_ptk_state (sm ?e) = WPA_PTK_PTKINITNEGOTIATING" "MICVerified (sm ?e)" "Pair (sm ?e)"
    "pairwise_reply (sm ?e)" "no_requests (sm ?e)" "\<not> Init (sm ?e)" "addr (sm ?e) = addr s" "PTK (sm ?e) = PTK s"
    "pairwise (sm ?e) = pairwise s" "sm_wpa_key_mgmt (sm ?e) = sm_wpa_key_mgmt s"
    using ok state info by (simp_all add: upd_sm_def sta_ok_def ptk_rest_def) (simp_all add: note_frame_def invalidate_replay_def)
  have st: "steppable (sm ?e)"
    using noted_reply_steppable [OF ok takes info(1), of True False] state(2) by (simp add: upd_sm_def)
  have c: "calm (group ?v)" "GN (group ?v) \<noteq> 0"
    using g by (auto simp: good_def good_at_def base_good_def step_simps)
  have gb: "good_but 0 i ?v"
    by (rule good_but_put [OF good_but_good [OF g] s _ _ st]) (simp_all add: counted_def step_simps note_frame_def invalidate_replay_def)
  obtain w' where w': "sm_step_world n env i ?v = Some w'" "good w'"
    by (rule step_noted [OF gb n, where env = env]) (use sv f(6) in auto)
  have ov: "out ?v = out w @ [CancelTimeout (Timer_send_eapol (addr s))]" by (simp add: step_simps)
  obtain es where "out w' = out ?v @ SetKey (fst (pairwise_alg (pairwise s))) (addr s) 0
        (ptk_tk1 (PTK s) (snd (pairwise_alg (pairwise s)))) # es"
    "SetEapol (addr s) WPA_EAPOL_portValid 1 \<in> set es"
    "wpa_key_mgmt_wpa_psk (sm_wpa_key_mgmt s) \<longrightarrow> SetEapol (addr s) WPA_EAPOL_authorized 1 \<in> set es"
    using step_completes [OF sv c n st f(6,5,4,1,2,3) _ w'(1)] key f(7-10) ov by auto
  then show ?thesis using that [of w' es] recv w' ov by simp
qed

text \<open>
  C2: The last message of a handshake is answered. When a station waits for message 4/4 with a
  valid key and the frame passes the checks with a right MIC, and the driver takes the key, the
  call returns with the retransmission timer stopped and then, in this order, the pairwise key
  installed for the station's address and its port declared valid; with a pre-shared key the
  station is also authorized. This holds in every world that satisfies the invariant, so in every
  world of a run.
\<close>

theorem handshake_completes:
  assumes "good w" "n \<ge> STEP_ROUNDS" "conf_wpa (conf (auth w)) \<noteq> 0" "sta_of i w = Some s"
    and "wpa_ptk_state s = WPA_PTK_PTKINITNEGOTIATING" "PTK_valid s" "Pair s"
    and "msg_of data = PAIRWISE_4" "frame_fits s data" "version_ok s (msg_of data) (key_info_of data)"
      "counter_ok s data" "key_info_of data AND WPA_KEY_INFO_ACK = 0" "key_info_of data AND WPA_KEY_INFO_MIC \<noteq> 0"
    and "wpa_verify_key_mic (ptk_kck (PTK s)) data = 0"
    and "env_set_key env (out w @ [CancelTimeout (Timer_send_eapol (addr s))])
      (fst (pairwise_alg (pairwise s))) (addr s) = 0"
  shows "\<exists>w' es. wpa_receive n env i data w = Some w' \<and> good w' \<and>
    out w' = out w @ CancelTimeout (Timer_send_eapol (addr s)) #
      SetKey (fst (pairwise_alg (pairwise s))) (addr s) 0
        (ptk_tk1 (PTK s) (snd (pairwise_alg (pairwise s)))) # es \<and>
    SetEapol (addr s) WPA_EAPOL_portValid 1 \<in> set es \<and>
    (wpa_key_mgmt_wpa_psk (sm_wpa_key_mgmt s) \<longrightarrow> SetEapol (addr s) WPA_EAPOL_authorized 1 \<in> set es)"
  by (rule receive_completes [OF assms]) blast

text \<open>A station that waits for message 4/4, and the message.\<close>

definition sample_sta :: wpa_state_machine where
  "sample_sta = (wpa_auth_sta_init (replicate 6 3))\<lparr>wpa_ptk_state := WPA_PTK_PTKINITNEGOTIATING,
     Pair := True, PTK := replicate 64 1, PTK_valid := True, TimeoutCtr := 1, started := True,
     key_replay := [\<lparr>counter = [0, 0, 0, 0, 0, 0, 0, 2], valid = True\<rparr>,
       \<lparr>counter = [0, 0, 0, 0, 0, 0, 0, 1], valid = False\<rparr>, \<lparr>counter = replicate 8 0, valid = False\<rparr>,
       \<lparr>counter = replicate 8 0, valid = False\<rparr>],
     sm_wpa := WPA_VERSION_WPA2, pairwise := WPA_CIPHER_CCMP, sm_wpa_key_mgmt := WPA_KEY_MGMT_PSK\<rparr>"

definition sample_world :: wpa_world where
  "sample_world = \<lparr>group = wpa_group_new\<lparr>GN := 1, GM := 2, GTK_len := 16, wpa_group_state := WPA_GROUP_SETKEYSDONE\<rparr>,
     auth = wpa_auth_new (replicate 6 2) sample_conf, out = [], stas = [Some sample_sta]\<rparr>"

definition sample_msg4 :: bytes where
  "sample_msg4 = [2, 3, 0, 95, 2, 3, 10, 0, 0, 0, 0, 0, 0, 0, 0, 0, 2] @ replicate 82 0"

definition sealed_msg4 :: bytes where
  "sealed_msg4 = set_key_mic (spec_mic (replicate 16 1) WPA_KEY_INFO_TYPE_HMAC_SHA1_AES sample_msg4) sample_msg4"

lemma sample_world_good: "good sample_world" "sta_of 0 sample_world = Some sample_sta"
proof -
  have "sta_ok sample_sta"
    by (simp add: sta_ok_def sample_sta_def wpa_auth_sta_init_def idle_zero_def ptk_rest_def no_requests_def
        pairwise_reply_def)
  moreover have "sta_of i sample_world = (if i = 0 then Some sample_sta else None)" for i
    by (simp add: sta_of_def sample_world_def)
  moreover have "waiting (stas sample_world) = 0"
    by (simp add: waiting_def sample_world_def sample_sta_def wpa_auth_sta_init_def)
  ultimately show "good sample_world" "sta_of 0 sample_world = Some sample_sta"
    by (auto simp: good_def good_at_def base_good_def split: if_splits)
       (simp_all add: sample_world_def calm_def wpa_group_new_def)
qed

lemma sealed_msg4_mic: "wpa_verify_key_mic (ptk_kck (PTK sample_sta)) sealed_msg4 = 0"
proof -
  have len: "length sample_msg4 = 99" by (simp add: sample_msg4_def)
  have kck: "ptk_kck (PTK sample_sta) = replicate 16 1" by (simp add: sample_sta_def ptk_kck_def)
  have info: "key_info_of sample_msg4 AND WPA_KEY_INFO_TYPE_MASK = WPA_KEY_INFO_TYPE_HMAC_SHA1_AES"
    by (simp add: sample_msg4_def key_info_of_def WPA_GET_BE16_def key_info_defs BIT_def)
  have z: "set_key_mic (replicate 16 0) sample_msg4 = sample_msg4"
  proof -
    have "sample_msg4 = take 81 sample_msg4 @ replicate 16 0 @ drop 97 sample_msg4"
      by (simp add: sample_msg4_def flip: replicate_add)
    then show ?thesis by (simp add: set_key_mic_def)
  qed
  have "wpa_eapol_key_mic (replicate 16 1) WPA_KEY_INFO_TYPE_HMAC_SHA1_AES sample_msg4 =
      Some (spec_mic (replicate 16 1) WPA_KEY_INFO_TYPE_HMAC_SHA1_AES sample_msg4)"
    using wpa_eapol_key_mic_eq [of "replicate 16 1" sample_msg4] len by simp
  then show ?thesis
    by (simp add: wpa_verify_key_mic_def sealed_msg4_def kck len eapol_key_defs set_key_mic_other info
        set_key_mic_set key_mic_of_set len_simps z)
qed

lemma sealed_msg4_fields:
  "length sealed_msg4 = 99" "key_info_of sealed_msg4 = 0x30a" "key_type_of sealed_msg4 = 2"
  "replay_counter_of sealed_msg4 = [0, 0, 0, 0, 0, 0, 0, 2]" "key_data_length_of sealed_msg4 = 0"
proof -
  have len: "length sample_msg4 = 99" by (simp add: sample_msg4_def)
  then show "length sealed_msg4 = 99" by (simp add: sealed_msg4_def len_simps)
  have "key_info_of sealed_msg4 = key_info_of sample_msg4" using len by (simp add: sealed_msg4_def set_key_mic_other)
  then show "key_info_of sealed_msg4 = 0x30a"
    by (simp add: sample_msg4_def key_info_of_def WPA_GET_BE16_def)
  show "key_type_of sealed_msg4 = 2" "replay_counter_of sealed_msg4 = [0, 0, 0, 0, 0, 0, 0, 2]"
    by (simp_all add: sealed_msg4_def set_key_mic_def key_type_of_def replay_counter_of_def sample_msg4_def nth_append)
  have "drop 97 sealed_msg4 = [0, 0]"
    using len by (simp add: sealed_msg4_def set_key_mic_def len_simps sample_msg4_def numeral_2_eq_2)
  then show "key_data_length_of sealed_msg4 = 0" by (simp add: key_data_length_of_def WPA_GET_BE16_def)
qed

theorem handshake_completes_witness:
  "\<exists>w' es. wpa_receive 62 sample_env 0 sealed_msg4 sample_world = Some w' \<and>
     out w' = CancelTimeout (Timer_send_eapol (replicate 6 3)) #
       SetKey WPA_ALG_CCMP (replicate 6 3) 0 (replicate 16 1) # es \<and>
     SetEapol (replicate 6 3) WPA_EAPOL_portValid 1 \<in> set es \<and>
     SetEapol (replicate 6 3) WPA_EAPOL_authorized 1 \<in> set es"
proof -
  note f = sealed_msg4_fields
  have info: "(0x30a :: u32) AND WPA_KEY_INFO_ACK = 0" "(0x30a :: u32) AND WPA_KEY_INFO_MIC \<noteq> 0"
    "(0x30a :: u32) AND WPA_KEY_INFO_TYPE_MASK = WPA_KEY_INFO_TYPE_HMAC_SHA1_AES"
    "(0x30a :: u32) AND WPA_KEY_INFO_REQUEST = 0"
    by (simp_all add: key_info_defs BIT_def)
  have msg: "msg_of sealed_msg4 = PAIRWISE_4"
    by (simp add: msg_of_def classify_msg_def f key_info_defs BIT_def)
  have sta: "sm_wpa sample_sta = WPA_VERSION_WPA2" "addr sample_sta = replicate 6 3"
    "pairwise sample_sta = WPA_CIPHER_CCMP" "wpa_ptk_state sample_sta = WPA_PTK_PTKINITNEGOTIATING"
    "PTK_valid sample_sta" "Pair sample_sta" "sm_wpa_key_mgmt sample_sta = WPA_KEY_MGMT_PSK"
    "PTK sample_sta = replicate 64 1"
    by (simp_all add: sample_sta_def wpa_auth_sta_init_def)
  have fits: "frame_fits sample_sta sealed_msg4" by (simp add: frame_fits_def f sta eapol_key_defs)
  have ver: "version_ok sample_sta (msg_of sealed_msg4) (key_info_of sealed_msg4)"
    by (simp add: version_ok_def f info wpa_use_aes_cmac_def)
  have ctr: "counter_ok sample_sta sealed_msg4"
    by (simp add: counter_ok_def f info wpa_replay_counter_valid_def sample_sta_def RSNA_MAX_EAPOL_RETRIES_def
        os_memcmp_def)
  have alg: "pairwise_alg WPA_CIPHER_CCMP = (WPA_ALG_CCMP, 16)" by (simp add: pairwise_alg_def cipher_defs BIT_def)
  have psk: "wpa_key_mgmt_wpa_psk WPA_KEY_MGMT_PSK" by (simp add: wpa_key_mgmt_wpa_psk_def akm_defs BIT_def)
  have wpa: "conf_wpa (conf (auth sample_world)) \<noteq> 0" "out sample_world = []"
    by (simp_all add: sample_world_def wpa_auth_new_def sample_conf_def proto_defs BIT_def)
  have key: "env_set_key sample_env es a b = 0" for es a b by (simp add: sample_env_def)
  have "62 \<ge> STEP_ROUNDS" by (simp add: STEP_ROUNDS_def)
  from handshake_completes [OF sample_world_good(1) this wpa(1) sample_world_good(2) sta(4,5,6) msg fits ver ctr
      _ _ sealed_msg4_mic, of sample_env]
  show ?thesis by (simp add: f info sta alg psk wpa(2) ptk_tk1_def key) blast
qed

subsection \<open>A station that is given up\<close>

definition group_leaves :: "wpa_state_machine \<Rightarrow> wpa_state_machine \<Rightarrow> bool" where
  "group_leaves s s' \<longleftrightarrow> wpa_ptk_state s' = wpa_ptk_state s \<and> TimeoutCtr s' = TimeoutCtr s \<and> PTK s' = PTK s \<and>
     PTK_valid s' = PTK_valid s \<and> pairwise_set s' = pairwise_set s \<and> addr s' = addr s \<and> Init s' = Init s \<and>
     DeauthenticationRequest s' = DeauthenticationRequest s \<and> AuthenticationRequest s' = AuthenticationRequest s \<and>
     ReAuthenticationRequest s' = ReAuthenticationRequest s \<and> PTKRequest s' = PTKRequest s"

lemma GROUP_step_leaves: "group_leaves (sm c) (sm (sm_WPA_PTK_GROUP_Step env c))"
proof -
  have "group_leaves (sm c) (sm (sm_WPA_PTK_GROUP_IDLE_Enter env c))"
    "group_leaves (sm c) (sm (upd_sm (\<lambda>s. s\<lparr>PtkGroupInit := False\<rparr>) (sm_WPA_PTK_GROUP_IDLE_Enter env c)))"
    "group_leaves (sm c) (sm (sm_WPA_PTK_GROUP_REKEYNEGOTIATING_Enter env c))"
    "group_leaves (sm c) (sm (sm_WPA_PTK_GROUP_REKEYESTABLISHED_Enter env c))"
    "group_leaves (sm c) (sm (sm_WPA_PTK_GROUP_KEYERROR_Enter env c))" "group_leaves (sm c) (sm c)"
    by (simp_all add: group_leaves_def step_simps Let_def)
  then show ?thesis unfolding sm_WPA_PTK_GROUP_Step_def by (simp split: wpa_ptk_group_st.split)
qed

text \<open>
  A station on its way down: every path ends in \<open>INITIALIZE\<close>, where its key is gone and its port
  closed. \<open>es\<close> are the outputs so far; with \<open>b\<close> a disconnection has been asked for on the way.
\<close>

definition wiped :: "wpa_out list \<Rightarrow> wpa_state_machine \<Rightarrow> bool" where
  "wiped es s \<longleftrightarrow> PTK s = replicate 64 0 \<and> \<not> PTK_valid s \<and> \<not> pairwise_set s \<and>
     SetEapol (addr s) WPA_EAPOL_portValid 0 \<in> set es \<and> SetKey WPA_ALG_NONE (addr s) 0 [] \<in> set es"

definition down_state :: "wpa_out list \<Rightarrow> wpa_state_machine \<Rightarrow> bool" where
  "down_state es s \<longleftrightarrow> wpa_ptk_state s \<in> {WPA_PTK_DISCONNECT, WPA_PTK_DISCONNECTED} \<or>
     wpa_ptk_state s = WPA_PTK_INITIALIZE \<and> wiped es s"

definition going_down :: "bool \<Rightarrow> wpa_out list \<Rightarrow> wpa_state_machine \<Rightarrow> bool" where
  "going_down b es s \<longleftrightarrow>
     \<not> Init s \<and> \<not> AuthenticationRequest s \<and> \<not> ReAuthenticationRequest s \<and> \<not> PTKRequest s \<and> \<not> pairwise_reply s \<and>
     (if b then \<not> DeauthenticationRequest s \<and>
        (wpa_ptk_state s \<in> {WPA_PTK_PTKSTART, WPA_PTK_PTKINITNEGOTIATING} \<and> TimeoutCtr s > 4 \<or>
         down_state es s \<and> StaDisconnect (addr s) \<in> set es)
      else DeauthenticationRequest s \<or> down_state es s)"

text \<open>The last timeout of a handshake, or a new one asked for when all attempts are used up.\<close>

definition worn_out :: "wpa_state_machine \<Rightarrow> bool" where
  "worn_out s \<longleftrightarrow> \<not> Init s \<and> \<not> Disconnect s \<and> \<not> DeauthenticationRequest s \<and> \<not> AuthenticationRequest s \<and>
     \<not> ReAuthenticationRequest s \<and> \<not> pairwise_reply s \<and> TimeoutCtr s = 4 \<and>
     (PTKRequest s \<or> wpa_ptk_state s \<in> {WPA_PTK_PTKSTART, WPA_PTK_PTKINITNEGOTIATING} \<and> TimeoutEvt s)"

lemma INITIALIZE_out:
  "\<exists>es. out (sm_WPA_PTK_INITIALIZE_Enter env c) = out c @ es \<and>
     SetEapol (addr (sm c)) WPA_EAPOL_portValid 0 \<in> set es \<and> SetKey WPA_ALG_NONE (addr (sm c)) 0 [] \<in> set es"
  by (simp add: sm_WPA_PTK_INITIALIZE_Enter_def entry_WPA_PTK_def drop_group_update_def step_simps Let_def)

lemma DISCONNECT_out:
  "out (sm_WPA_PTK_DISCONNECT_Enter env c) = out c @ [StaDisconnect (addr (sm c))]"
  "out (sm_WPA_PTK_DISCONNECT_Enter env (count_failure c)) = out c @ [StaDisconnect (addr (sm c))]"
  by (simp_all add: sm_WPA_PTK_DISCONNECT_Enter_def entry_WPA_PTK_def count_failure_def step_simps Let_def)

lemma PTKSTART_tired:
  assumes "TimeoutCtr (sm c) = 4"
  shows "sm (sm_WPA_PTK_PTKSTART_Enter env c) = (sm c)\<lparr>sm_changed := True, wpa_ptk_state := WPA_PTK_PTKSTART,
      PTKRequest := False, TimeoutEvt := False, TimeoutCtr := 5\<rparr>"
    "out (sm_WPA_PTK_PTKSTART_Enter env c) = out c"
    "sm (sm_WPA_PTK_PTKINITNEGOTIATING_Enter env c) = (sm c)\<lparr>sm_changed := True,
      wpa_ptk_state := WPA_PTK_PTKINITNEGOTIATING, TimeoutEvt := False, TimeoutCtr := 5\<rparr>"
    "out (sm_WPA_PTK_PTKINITNEGOTIATING_Enter env c) = out c"
  using assms by (simp_all add: sm_WPA_PTK_PTKSTART_Enter_def sm_WPA_PTK_PTKINITNEGOTIATING_Enter_def Let_def
      entry_WPA_PTK_def step_simps dot11RSNAConfigPairwiseUpdateCount_def)

lemma worn_out_step:
  assumes "worn_out (sm c)"
  shows "out (sm_WPA_PTK_Step env c) = out c" "going_down True es (sm (sm_WPA_PTK_Step env c))"
proof -
  have t: "TimeoutCtr (sm c) = 4" using assms by (simp add: worn_out_def)
  have "out (sm_WPA_PTK_Step env c) = out c \<and> going_down True es (sm (sm_WPA_PTK_Step env c))"
  proof (cases "PTKRequest (sm c)")
    case True
    then have "sm_WPA_PTK_Step env c = sm_WPA_PTK_PTKSTART_Enter env c"
      using assms by (simp add: sm_WPA_PTK_Step_def worn_out_def)
    then show ?thesis using assms by (simp add: PTKSTART_tired [OF t] going_down_def worn_out_def pairwise_reply_def)
  next
    case False
    then have n: "\<not> Init (sm c)" "no_requests (sm c)" using assms by (auto simp: worn_out_def no_requests_def)
    have nr: "\<not> pairwise_reply (sm c)" and te: "TimeoutEvt (sm c)" using False assms by (auto simp: worn_out_def)
    have "wpa_ptk_state (sm c) = WPA_PTK_PTKSTART \<or> wpa_ptk_state (sm c) = WPA_PTK_PTKINITNEGOTIATING"
      using False assms by (auto simp: worn_out_def)
    then have "sm_WPA_PTK_Step env c = sm_WPA_PTK_PTKSTART_Enter env c \<or>
        sm_WPA_PTK_Step env c = sm_WPA_PTK_PTKINITNEGOTIATING_Enter env c \<and>
        wpa_ptk_state (sm c) = WPA_PTK_PTKINITNEGOTIATING"
      by (elim disjE) (simp_all add: PTK_step_plain [OF n] nr te t)
    moreover have "going_down True es ((sm c)\<lparr>sm_changed := True, wpa_ptk_state := WPA_PTK_PTKSTART,
        PTKRequest := False, TimeoutEvt := False, TimeoutCtr := 5\<rparr>)"
      using n nr by (simp add: going_down_def no_requests_def pairwise_reply_def)
    moreover have "going_down True es ((sm c)\<lparr>sm_changed := True, wpa_ptk_state := WPA_PTK_PTKINITNEGOTIATING,
        TimeoutEvt := False, TimeoutCtr := 5\<rparr>)"
      using n nr by (simp add: going_down_def no_requests_def pairwise_reply_def)
    ultimately show ?thesis by (elim disjE conjE) (simp_all add: PTKSTART_tired [OF t])
  qed
  then show "out (sm_WPA_PTK_Step env c) = out c" "going_down True es (sm (sm_WPA_PTK_Step env c))" by auto
qed

lemma going_down_step:
  assumes g: "going_down b es (sm c)"
  shows "\<exists>fs. out (sm_WPA_PTK_Step env c) = out c @ fs \<and> going_down b (es @ fs) (sm (sm_WPA_PTK_Step env c)) \<and>
    addr (sm (sm_WPA_PTK_Step env c)) = addr (sm c)"
proof -
  have ni: "\<not> Init (sm c)" using g by (simp add: going_down_def)
  consider (dc) "Disconnect (sm c)" | (da) "\<not> Disconnect (sm c)" "DeauthenticationRequest (sm c)"
    | (p) "no_requests (sm c)" using g by (auto simp: going_down_def no_requests_def)
  then show ?thesis
  proof cases
    case dc
    then have "sm_WPA_PTK_Step env c = sm_WPA_PTK_DISCONNECT_Enter env c" using ni by (simp add: sm_WPA_PTK_Step_def)
    then show ?thesis
      using g by (auto simp: DISCONNECT_out going_down_def down_state_def pairwise_reply_def step_simps split: if_splits)
  next
    case da
    then have "sm_WPA_PTK_Step env c = sm_WPA_PTK_DISCONNECTED_Enter env c" using ni by (simp add: sm_WPA_PTK_Step_def)
    then show ?thesis
      using g da by (auto simp: going_down_def down_state_def pairwise_reply_def step_simps
          sm_WPA_PTK_DISCONNECTED_Enter_def entry_WPA_PTK_def split: if_splits)
  next
    case p
    note plain = PTK_step_plain [OF ni p]
    have nd: "\<not> DeauthenticationRequest (sm c)" and nr: "\<not> pairwise_reply (sm c)"
      using p g by (simp_all add: no_requests_def going_down_def)
    consider (t) "b" "wpa_ptk_state (sm c) \<in> {WPA_PTK_PTKSTART, WPA_PTK_PTKINITNEGOTIATING}" "TimeoutCtr (sm c) > 4"
      | (d) "wpa_ptk_state (sm c) = WPA_PTK_DISCONNECT" | (dd) "wpa_ptk_state (sm c) = WPA_PTK_DISCONNECTED"
      | (i) "wpa_ptk_state (sm c) = WPA_PTK_INITIALIZE"
      using g nd by (auto simp: going_down_def down_state_def split: if_splits)
    then show ?thesis
    proof cases
      case t
      then have "sm_WPA_PTK_Step env c = sm_WPA_PTK_DISCONNECT_Enter env (count_failure c)" 
        using nr by (elim insertE; simp add: plain)
      then show ?thesis
        using g t by (auto simp: DISCONNECT_out going_down_def down_state_def pairwise_reply_def step_simps)
    next
      case d
      then have "sm_WPA_PTK_Step env c = sm_WPA_PTK_DISCONNECTED_Enter env c" by (simp add: plain)
      then show ?thesis
        using g d by (auto simp: going_down_def down_state_def pairwise_reply_def step_simps
            sm_WPA_PTK_DISCONNECTED_Enter_def entry_WPA_PTK_def split: if_splits)
    next
      case dd
      then have step: "sm_WPA_PTK_Step env c = sm_WPA_PTK_INITIALIZE_Enter env c" by (simp add: plain)
      obtain fs where "out (sm_WPA_PTK_INITIALIZE_Enter env c) = out c @ fs"
        "SetEapol (addr (sm c)) WPA_EAPOL_portValid 0 \<in> set fs" "SetKey WPA_ALG_NONE (addr (sm c)) 0 [] \<in> set fs"
        using INITIALIZE_out by blast
      then show ?thesis
        using g dd unfolding step
        by (intro exI [of _ fs]) (auto simp: going_down_def down_state_def wiped_def pairwise_reply_def step_simps
            split: if_splits)
    next
      case i
      then have "sm_WPA_PTK_Step env c = c" by (simp add: plain)
      then show ?thesis using g by (intro exI [of _ "[]"]) simp
    qed
  qed
qed

lemma going_down_mono:
  assumes "going_down b es s" "group_leaves s s'" "pairwise_reply s' \<Longrightarrow> pairwise_reply s" "set es \<subseteq> set es'"
  shows "going_down b es' s'"
  using assms by (auto simp: going_down_def group_leaves_def down_state_def wiped_def split: if_splits)

text \<open>One round of the loop once the pairwise machine has stepped.\<close>

definition sinking :: "bool \<Rightarrow> wpa_out list \<Rightarrow> wpa_ctx \<Rightarrow> wpa_ctx \<Rightarrow> bool" where
  "sinking b es0 c d \<longleftrightarrow> (\<exists>es. out d = out c @ es \<and> going_down b (es0 @ es) (sm d)) \<and> addr (sm d) = addr (sm c)"

lemma sinking_round:
  assumes "GN (group c) \<noteq> 0" "sinking b es0 x (sm_WPA_PTK_Step env (cleared c))"
  shows "sinking b es0 x (round_ctx env c)"
proof -
  let ?d = "sm_WPA_PTK_Step env (cleared c)"
  obtain es where es: "out ?d = out x @ es" "going_down b (es0 @ es) (sm ?d)" and a: "addr (sm ?d) = addr (sm x)"
    using assms(2) by (auto simp: sinking_def)
  obtain fs where fs: "out (round_ctx env c) = out ?d @ fs" using round_outputs [OF assms(1)] by blast
  have sm: "sm (round_ctx env c) = sm (sm_WPA_PTK_GROUP_Step env ?d)" by (simp add: round_ctx_eq)
  have l: "group_leaves (sm ?d) (sm (sm_WPA_PTK_GROUP_Step env ?d))" by (rule GROUP_step_leaves)
  have "going_down b (es0 @ es @ fs) (sm (round_ctx env c))"
    unfolding sm
    by (rule going_down_mono [OF es(2) l]) (use shrinks_reply [OF GROUP_step_shrinks] in auto)
  then show ?thesis using es(1) fs a l by (auto simp: sinking_def sm group_leaves_def)
qed

lemma going_down_cleared: "going_down b es (sm (cleared c)) = going_down b es (sm c)"
  by (simp add: going_down_def down_state_def wiped_def pairwise_reply_def step_simps)

lemma sinking_next:
  assumes "sinking b es0 x c" "GN (group c) \<noteq> 0"
  shows "sinking b es0 x (round_ctx env c)"
proof (rule sinking_round [OF assms(2)])
  obtain es where es: "out c = out x @ es" "going_down b (es0 @ es) (sm (cleared c))" "addr (sm c) = addr (sm x)"
    using assms(1) unfolding sinking_def going_down_cleared by blast
  then show "sinking b es0 x (sm_WPA_PTK_Step env (cleared c))"
    using going_down_step [OF es(2), of env] by (fastforce simp: sinking_def step_simps)
qed

lemma loop_sinks:
  assumes loop: "loop_ctx (Suc n) env c = Some d" and gn: "GN (group c) \<noteq> 0"
    and first: "sinking b es0 c (round_ctx env c)"
  shows "sinking b es0 c d"
proof (cases "ctx_changed (round_ctx env c)")
  case False
  then show ?thesis using loop first by (simp add: Let_def)
next
  case True
  let ?r = "round_ctx env c"
  let ?P = "\<lambda>x. sinking b es0 c x \<and> GN (group x) \<noteq> 0"
  have gr: "GN (group (round_ctx env x)) = GN (group x)" for x using round_kept [of x env] by (simp add: base_kept_def)
  have step: "?P (round_ctx env x)" if "?P x" for x using that sinking_next gr by simp
  have l: "loop_ctx n env ?r = Some d" using loop True by (simp add: Let_def)
  have "?P ?r" using first gn gr by simp
  then obtain x where "?P x" "d = round_ctx env x" using l step by (elim loop_ctx_last [where P = ?P]) auto
  then show ?thesis using step by blast
qed

text \<open>The step of a station that is given up.\<close>

lemma step_gives_up:
  assumes s: "sta_of i w = Some s" and gb: "good_but 0 i w" and n: "n \<ge> STEP_ROUNDS"
    and down: "going_down b es0 s \<or> b \<and> worn_out s"
  obtains w' s' es where "wpa_sm_step n env i w = Some (0, w')" "good w'" "sta_of i w' = Some s'"
    "out w' = out w @ es" "wpa_ptk_state s' = WPA_PTK_INITIALIZE" "addr s' = addr s"
    "wiped (es0 @ es) s'" "b \<Longrightarrow> StaDisconnect (addr s) \<in> set (es0 @ es)"
proof -
  let ?s = "s\<lparr>in_step_loop := True\<rparr>"
  let ?c = "ctx_of w ?s"
  have st: "steppable s" and bg: "base_good 0 w" using gb s by (simp_all add: good_but_def)
  have ni: "\<not> Init s" using down by (auto simp: going_down_def worn_out_def)
  have z: "idle_zero (sm ?c)" and r: "reply_ok (sm ?c)" and ck: "calc_ok (sm ?c)"
    using st by (simp_all add: steppable_def idle_zero_def reply_ok_def calc_ok_def pairwise_reply_def
        no_requests_def step_simps)
  have gn: "GN (group ?c) \<noteq> 0" using bg by (auto simp: base_good_def step_simps)
  have pend: "\<not> pending_deinit s" "\<not> in_step_loop s" using st by (simp_all add: steppable_def)
  obtain d where d: "loop_ctx n env ?c = Some d" using loop_ctx_total [OF z n] by blast
  note f = loop_facts [OF d z r ck gn]
  have kept: "\<not> pending_deinit (sm d')" if "loop_ctx n env ?c = Some d'" for d'
    using loop_facts(1) [OF that z r ck gn] pend by (simp add: sm_kept_def step_simps)
  let ?d = "upd_sm (\<lambda>s. s\<lparr>in_step_loop := False\<rparr>) d"
  have calm: "calm (group w)" using bg by (simp add: base_good_def)
  have run: "wpa_sm_step n env i w = Some (0, put_ctx i ?d w)"
    using sm_step_ctx [OF s pend calm, of n env, OF kept] d by simp
  have g: "good (put_ctx i ?d w)"
    by (rule sm_step_good [OF gb n, where env = env]) (use run s ni in \<open>auto simp: good_def\<close>)
  obtain m where m: "n = Suc m" using n by (cases n) (auto simp: STEP_ROUNDS_def)
  have c0: "going_down b es0 (sm (cleared ?c)) \<or> b \<and> worn_out (sm (cleared ?c))"
  proof -
    have "going_down b es0 (s\<lparr>in_step_loop := x, sm_changed := y\<rparr>) = going_down b es0 s"
      "worn_out (s\<lparr>in_step_loop := x, sm_changed := y\<rparr>) = worn_out s" for x y
      by (simp_all add: going_down_def down_state_def wiped_def worn_out_def pairwise_reply_def)
    then show ?thesis using down by (simp add: step_simps)
  qed
  have "sinking b es0 ?c (sm_WPA_PTK_Step env (cleared ?c))"
    using c0
  proof
    assume "going_down b es0 (sm (cleared ?c))"
    then show ?thesis using going_down_step [where c = "cleared ?c" and env = env] by (auto simp: sinking_def step_simps)
  next
    assume wo: "b \<and> worn_out (sm (cleared ?c))"
    then have "going_down True (es0 @ []) (sm (sm_WPA_PTK_Step env (cleared ?c)))"
      "out (sm_WPA_PTK_Step env (cleared ?c)) = out ?c @ []"
      using worn_out_step [where c = "cleared ?c" and env = env] by (simp_all add: step_simps)
    moreover have "addr (sm (sm_WPA_PTK_Step env (cleared ?c))) = addr (sm ?c)"
      using PTK_step_sm_kept [of "cleared ?c" env] by (simp add: sm_kept_def step_simps)
    ultimately show ?thesis using wo by (auto simp: sinking_def)
  qed
  then have "sinking b es0 ?c d" by (rule loop_sinks [OF d [unfolded m] gn sinking_round [OF gn]])
  then obtain es where es: "out d = out w @ es" "going_down b (es0 @ es) (sm d)" "addr (sm d) = addr s"
    by (auto simp: sinking_def step_simps)
  have rest: "ptk_rest (sm d)" using loop_ctx_rest(1) [OF d _ z] ni by (simp add: step_simps)
  have "\<not> DeauthenticationRequest (sm d)" using rest by (simp add: ptk_rest_def no_requests_def)
  then have fin: "wpa_ptk_state (sm d) = WPA_PTK_INITIALIZE" "wiped (es0 @ es) (sm d)"
    "b \<Longrightarrow> StaDisconnect (addr s) \<in> set (es0 @ es)"
    using es(2,3) rest by (auto simp: going_down_def down_state_def ptk_rest_def split: if_splits)
  have i: "i < length (stas w)" by (rule sta_of_bound [OF s])
  have s': "sta_of i (put_ctx i ?d w) = Some (sm ?d)" by (rule sta_of_put [OF i])
  have ow: "out (put_ctx i ?d w) = out w @ es" using es(1) by (simp add: step_simps)
  show ?thesis
    by (rule that [OF run g s' ow]) (use es(3) fin in \<open>simp_all add: step_simps wiped_def\<close>)
qed

lemma deauth_out:
  assumes s: "sta_of i w = Some s" and ev: "ev \<noteq> WPA_REAUTH_EAPOL"
  shows "\<exists>t es. sta_of i (with_sta i (event_remove_ptk env ev) w) = Some t \<and>
      t = s\<lparr>PTK_valid := False, PTK := replicate 64 0, pairwise_set := False\<rparr> \<and>
      out (with_sta i (event_remove_ptk env ev) w) = out w @ es \<and> SetKey WPA_ALG_NONE (addr s) 0 [] \<in> set es"
  using ev sta_of_bound [OF s]
  by (simp add: with_sta_some [OF s] sta_of_put event_remove_ptk_def wpa_remove_ptk_def Let_def step_simps)

lemma deauth_wipes:
  assumes g: "good w" and n: "n \<ge> STEP_ROUNDS" and s: "sta_of i w = Some s"
    and ev: "ev = WPA_DEAUTH \<or> ev = WPA_DISASSOC"
  obtains w' s' es where "wpa_auth_sm_event n env i ev w = Some (0, w')" "good w'" "sta_of i w' = Some s'"
    "out w' = out w @ es" "wpa_ptk_state s' = WPA_PTK_INITIALIZE" "addr s' = addr s" "wiped es s'"
proof -
  let ?f = "\<lambda>s. s\<lparr>DeauthenticationRequest := True\<rparr>"
  let ?w = "on_sm i ?f w"
  have ok: "sta_ok s" by (rule good_sta [OF g s])
  have s1: "sta_of i ?w = Some (?f s)" using s by (simp add: sta_of_on_sm)
  have gb: "good_but 0 i ?w"
    by (rule on_sm_good_but [OF good_but_good [OF g]]) (use flag_steppable(5) good_sta [OF g] in simp)
  have nr: "\<not> Init t \<and> \<not> pairwise_reply t" if "sta_of i ?w = Some t" for t
    using that s1 ok by (auto simp: sta_ok_def pairwise_reply_def)
  have "ev \<noteq> WPA_REAUTH_EAPOL" using ev by auto
  from deauth_out [OF s1 this, of env] obtain t es0 where
    t: "sta_of i (with_sta i (event_remove_ptk env ev) ?w) = Some t"
      "t = (?f s)\<lparr>PTK_valid := False, PTK := replicate 64 0, pairwise_set := False\<rparr>"
    and o0: "out (with_sta i (event_remove_ptk env ev) ?w) = out ?w @ es0" by blast
  let ?v = "with_sta i (event_remove_ptk env ev) ?w"
  have gv: "good_but 0 i ?v" by (rule remove_ptk_good_but(1) [OF gb nr])
  have "going_down False es0 t"
    using ok by (simp add: t(2) going_down_def sta_ok_def ptk_rest_def no_requests_def pairwise_reply_def)
  then obtain w' s' es where r: "wpa_sm_step n env i ?v = Some (0, w')" "good w'" "sta_of i w' = Some s'"
    "out w' = out ?v @ es" "wpa_ptk_state s' = WPA_PTK_INITIALIZE" "addr s' = addr t" "wiped (es0 @ es) s'"
    by (rule step_gives_up [OF t(1) gv n, of False es0, OF disjI1]) blast
  show ?thesis
  proof (rule that [OF _ r(2,3) _ r(5)])
    show "wpa_auth_sm_event n env i ev w = Some (0, w')" using s ev r(1) by (auto simp: wpa_auth_sm_event_def)
    show "out w' = out w @ es0 @ es" using r(4) o0 by (simp add: step_simps)
  qed (use r(6,7) t(2) in simp_all)
qed

text \<open>
  C13: Deauthentication takes the keys away. When a station is deauthenticated or disassociated, in
  whatever state its machines are, the call ends with its pairwise machine in \<open>INITIALIZE\<close>, its
  pairwise key zeroed and invalid; on the way the key was removed from the driver and the port of
  the station declared invalid.
\<close>

theorem wpa_deauth_wipes_keys:
  assumes "good w" "n \<ge> STEP_ROUNDS" "sta_of i w = Some s" "ev = WPA_DEAUTH \<or> ev = WPA_DISASSOC"
  shows "\<exists>w' s' es. wpa_auth_sm_event n env i ev w = Some (0, w') \<and> good w' \<and> sta_of i w' = Some s' \<and>
    wpa_ptk_state s' = WPA_PTK_INITIALIZE \<and> PTK s' = replicate 64 0 \<and> \<not> PTK_valid s' \<and> \<not> pairwise_set s' \<and>
    out w' = out w @ es \<and> SetKey WPA_ALG_NONE (addr s) 0 [] \<in> set es \<and>
    SetEapol (addr s) WPA_EAPOL_portValid 0 \<in> set es"
  by (rule deauth_wipes [OF assms, where env = env]) (auto simp: wiped_def)

theorem wpa_deauth_wipes_keys_witness:
  "\<exists>w' s'. wpa_auth_sm_event 62 sample_env 0 WPA_DEAUTH sample_world = Some (0, w') \<and>
     PTK_valid sample_sta \<and> sta_of 0 w' = Some s' \<and> \<not> PTK_valid s' \<and> PTK s' = replicate 64 0"
proof -
  have "PTK_valid sample_sta" by (simp add: sample_sta_def)
  moreover have "62 \<ge> STEP_ROUNDS" by (simp add: STEP_ROUNDS_def)
  ultimately show ?thesis
    using wpa_deauth_wipes_keys [OF sample_world_good(1) _ sample_world_good(2), of 62 WPA_DEAUTH sample_env] by blast
qed

text \<open>
  The world after a step of a station with no attempt left: the station is told to leave and its
  key is gone.
\<close>

lemma worn_out_leaves:
  assumes g: "good w" and n: "n \<ge> STEP_ROUNDS" and s: "sta_of i w = Some s"
    and f: "worn_out (f s)" "steppable (f s)" "GUpdateStationKeys (f s) = GUpdateStationKeys s" "addr (f s) = addr s"
  shows "\<exists>w' s' es. sm_step_world n env i (on_sm i f w) = Some w' \<and> good w' \<and> sta_of i w' = Some s' \<and>
    wpa_ptk_state s' = WPA_PTK_INITIALIZE \<and> \<not> PTK_valid s' \<and> PTK s' = replicate 64 0 \<and>
    out w' = out w @ es \<and> StaDisconnect (addr s) \<in> set es"
proof -
  have s1: "sta_of i (on_sm i f w) = Some (f s)" using s by (simp add: sta_of_on_sm)
  have gb: "good_but 0 i (on_sm i f w)"
    by (rule on_sm_good_but [OF good_but_good [OF g]]) (use f s in auto)
  have "going_down True [] (f s) \<or> True \<and> worn_out (f s)" using f(1) by blast
  then obtain w' s' es where r: "wpa_sm_step n env i (on_sm i f w) = Some (0, w')" "good w'" "sta_of i w' = Some s'"
    "out w' = out (on_sm i f w) @ es" "wpa_ptk_state s' = WPA_PTK_INITIALIZE" "wiped ([] @ es) s'"
    "StaDisconnect (addr (f s)) \<in> set ([] @ es)"
    by (rule step_gives_up [OF s1 gb n]) blast
  then show ?thesis using f(4) by (auto simp: sm_step_world_def wiped_def step_simps)
qed

text \<open>
  C14: Four attempts, then the station has to leave. When the retransmission timer fires for a
  station whose message 1/4 or 3/4 was sent four times, the station is
  disconnected, its machine goes back to \<open>INITIALIZE\<close> and its key is erased. The attempts are never
  counted anew once the handshake is done, so the same happens when the pairwise key of a
  station is to be renewed whose message 3/4 was answered on the fourth attempt only: it is
  disconnected instead.
\<close>

theorem wpa_gives_up_after_four:
  assumes "good w" "n \<ge> STEP_ROUNDS" "sta_of i w = Some s" "TimeoutCtr s = 4"
    and "run = wpa_send_eapol_timeout n env i \<and> wpa_ptk_state s \<in> {WPA_PTK_PTKSTART, WPA_PTK_PTKINITNEGOTIATING} \<or>
      run = wpa_rekey_ptk n env i \<and> wpa_ptk_state s = WPA_PTK_PTKINITDONE"
  shows "\<exists>w' s' es. run w = Some w' \<and> good w' \<and> sta_of i w' = Some s' \<and>
    wpa_ptk_state s' = WPA_PTK_INITIALIZE \<and> \<not> PTK_valid s' \<and> PTK s' = replicate 64 0 \<and>
    out w' = out w @ es \<and> StaDisconnect (addr s) \<in> set es"
proof -
  have ok: "sta_ok s" by (rule good_sta [OF assms(1,3)])
  have flags: "\<not> Init s" "no_requests s" "\<not> pairwise_reply s" using ok by (simp_all add: sta_ok_def ptk_rest_def)
  from assms(5) show ?thesis
  proof
    assume r: "run = wpa_send_eapol_timeout n env i \<and> wpa_ptk_state s \<in> {WPA_PTK_PTKSTART, WPA_PTK_PTKINITNEGOTIATING}"
    let ?f = "\<lambda>s. s\<lparr>pending_1_of_4_timeout := False, TimeoutEvt := True\<rparr>"
    have "worn_out (?f s)" using flags assms(4) r by (simp add: worn_out_def no_requests_def pairwise_reply_def)
    then show ?thesis
      using worn_out_leaves [OF assms(1-3), of ?f env] flag_steppable(1) [OF ok] r
      by (simp add: wpa_send_eapol_timeout_def)
  next
    assume r: "run = wpa_rekey_ptk n env i \<and> wpa_ptk_state s = WPA_PTK_PTKINITDONE"
    have "worn_out (wpa_request_new_ptk s)"
      using flags assms(4) by (simp add: worn_out_def no_requests_def pairwise_reply_def wpa_request_new_ptk_def)
    then show ?thesis
      using worn_out_leaves [OF assms(1-3), of wpa_request_new_ptk env] flag_steppable(2) [OF ok] r
      by (simp add: wpa_rekey_ptk_def wpa_request_new_ptk_def)
  qed
qed

definition tired_world :: wpa_world where
  "tired_world = sample_world\<lparr>stas := [Some (sample_sta\<lparr>TimeoutCtr := 4\<rparr>)]\<rparr>"

lemma tired_world_good: "good tired_world" "sta_of 0 tired_world = Some (sample_sta\<lparr>TimeoutCtr := 4\<rparr>)"
proof -
  have "sta_ok (sample_sta\<lparr>TimeoutCtr := 4\<rparr>)"
    by (simp add: sta_ok_def sample_sta_def wpa_auth_sta_init_def idle_zero_def ptk_rest_def no_requests_def
        pairwise_reply_def)
  then have "good (sample_world\<lparr>stas := (stas sample_world)[0 := Some (sample_sta\<lparr>TimeoutCtr := 4\<rparr>)]\<rparr>)"
    by (intro good_put_sta [OF sample_world_good(1)]) (simp_all add: sample_world_def)
  then show "good tired_world" by (simp add: tired_world_def sample_world_def)
  show "sta_of 0 tired_world = Some (sample_sta\<lparr>TimeoutCtr := 4\<rparr>)" by (simp add: tired_world_def sta_of_def)
qed

theorem wpa_gives_up_after_four_witness:
  "\<exists>w' es. wpa_send_eapol_timeout 62 sample_env 0 tired_world = Some w' \<and>
     out w' = es \<and> StaDisconnect (replicate 6 3) \<in> set es"
proof -
  have n: "62 \<ge> STEP_ROUNDS" by (simp add: STEP_ROUNDS_def)
  have s: "TimeoutCtr (sample_sta\<lparr>TimeoutCtr := 4\<rparr>) = 4"
    "wpa_ptk_state (sample_sta\<lparr>TimeoutCtr := 4\<rparr>) = WPA_PTK_PTKINITNEGOTIATING"
    "addr (sample_sta\<lparr>TimeoutCtr := 4\<rparr>) = replicate 6 3" "out tired_world = []"
    by (simp_all add: sample_sta_def wpa_auth_sta_init_def tired_world_def sample_world_def)
  show ?thesis
    using wpa_gives_up_after_four [OF tired_world_good(1) n tired_world_good(2) s(1),
      of "wpa_send_eapol_timeout 62 sample_env 0" sample_env] by (auto simp: s)
qed

subsection \<open>What the station can do with a frame\<close>

definition key_wf :: "eapol_key \<Rightarrow> bool" where
  "key_wf k \<longleftrightarrow> length (replay_counter k) = 8 \<and> length (key_nonce k) = 32 \<and> length (key_iv k) = 16 \<and>
     length (key_rsc k) = 8 \<and> length (key_mic k) = 16"

text \<open>The fields of a frame, read back at their offsets.\<close>

lemma eapol_frame_fields:
  assumes "key_wf k"
  shows "length (eapol_frame v k d) = 99 + length d"
    "replay_counter_of (eapol_frame v k d) = replay_counter k"
    "key_nonce_of (eapol_frame v k d) = key_nonce k"
    "take 16 (drop 49 (eapol_frame v k d)) = key_iv k"
    "key_mic_of (eapol_frame v k d) = key_mic k"
    "key_data_length_of (eapol_frame v k d) = unat (key_data_length k)"
    "key_data_of (eapol_frame v k d) = d"
    "key_info_of (eapol_frame v k d) = ucast (ucast (key_info k) :: u16)"
    "key_type_of (eapol_frame v k d) = key_type k"
  using assms
  by (simp_all add: key_wf_def eapol_frame_def len_simps replay_counter_of_def key_nonce_of_def key_mic_of_def
      key_data_length_of_def key_data_of_def key_info_of_def key_type_of_def nth_append codec_simps)

lemma clear_mic_same:
  assumes "key_wf k" "key_mic k = replicate 16 0"
  shows "set_key_mic (replicate 16 0) (eapol_frame v k d) = eapol_frame v k d"
proof -
  let ?f = "eapol_frame v k d"
  have "take 16 (drop 81 ?f) = replicate 16 0" using eapol_frame_fields(5) [OF assms(1)] assms(2) by (simp add: key_mic_of_def)
  then have "?f = take 81 ?f @ replicate 16 0 @ drop 97 ?f"
    by (metis append_take_drop_id drop_drop numeral_plus_numeral semiring_norm(2,3,4,5,6,7,8))
  then show ?thesis by (simp add: set_key_mic_def)
qed

text \<open>A sealed frame passes the check of the other side.\<close>

lemma type_mask: "WPA_KEY_INFO_TYPE_MASK = mask 3"
  by (simp add: WPA_KEY_INFO_TYPE_MASK_def BIT_def mask_eq_exp_minus_1)

lemma sealed_verifies:
  assumes k: "key_wf k" "key_mic k = replicate 16 0" and len: "length d < 2 ^ 31"
    and kck: "16 \<le> length (PTK (sm c))"
    and info: "info AND WPA_KEY_INFO_MIC \<noteq> 0" "key_info k AND WPA_KEY_INFO_TYPE_MASK = version"
    and ver: "version \<in> {WPA_KEY_INFO_TYPE_HMAC_MD5_RC4, WPA_KEY_INFO_TYPE_HMAC_SHA1_AES}"
  shows "\<exists>mic. length mic = 16 \<and> seal_frame version info (eapol_frame v k d) c = set_key_mic mic (eapol_frame v k d) \<and>
    wpa_verify_key_mic (ptk_kck (PTK (sm c))) (set_key_mic mic (eapol_frame v k d)) = 0"
proof -
  let ?f = "eapol_frame v k d" and ?kck = "ptk_kck (PTK (sm c))"
  let ?mic = "spec_mic ?kck version ?f"
  have l: "length ?f = 99 + length d" by (rule eapol_frame_fields(1) [OF k(1)])
  have kl: "length ?kck = 16" using kck by (simp add: ptk_kck_def)
  have mic: "wpa_eapol_key_mic ?kck version ?f = Some ?mic"
    using wpa_eapol_key_mic_eq [OF kl, of ?f version] l len ver by auto
  have "key_info_of ?f AND WPA_KEY_INFO_TYPE_MASK = key_info k AND WPA_KEY_INFO_TYPE_MASK"
    unfolding eapol_frame_fields(8) [OF k(1)]
    unfolding type_mask by (intro bit_eqI) (auto simp: bit_simps)
  then have "key_info_of (set_key_mic ?mic ?f) AND WPA_KEY_INFO_TYPE_MASK = version"
    using l info(2) by (simp add: set_key_mic_other)
  then have "wpa_verify_key_mic ?kck (set_key_mic ?mic ?f) = 0"
    using l mic clear_mic_same [OF k, of v d]
    by (simp add: wpa_verify_key_mic_def eapol_key_defs len_simps set_key_mic_set key_mic_of_set)
  then show ?thesis
    using info(1) mic by (intro exI [of _ ?mic]) (simp add: seal_frame_def len_simps)
qed

lemma set_mic_fields:
  assumes "99 \<le> length data" "length mic = 16"
  shows "replay_counter_of (set_key_mic mic data) = replay_counter_of data"
    "key_nonce_of (set_key_mic mic data) = key_nonce_of data"
    "take 16 (drop 49 (set_key_mic mic data)) = take 16 (drop 49 data)"
    "key_data_length_of (set_key_mic mic data) = key_data_length_of data"
    "key_data_of (set_key_mic mic data) = key_data_of data"
proof -
  let ?a = "take 81 data" and ?m = "take 16 (drop 81 data)" and ?z = "drop 97 data"
  have "drop 81 data = ?m @ ?z" using append_take_drop_id [of 16 "drop 81 data"] by simp
  then have d: "data = ?a @ ?m @ ?z" using append_take_drop_id [of 81 data] by simp
  have l: "length ?a = 81" "length ?m = 16" using assms(1) by simp_all
  obtain a m z where data: "data = a @ m @ z" "length a = 81" "length m = 16"
    by (rule that [OF d l])
  have eq: "set_key_mic mic data = a @ mic @ z" using data assms(2) by (simp add: set_key_mic_def)
  show "replay_counter_of (set_key_mic mic data) = replay_counter_of data"
    "key_nonce_of (set_key_mic mic data) = key_nonce_of data"
    "take 16 (drop 49 (set_key_mic mic data)) = take 16 (drop 49 data)"
    "key_data_length_of (set_key_mic mic data) = key_data_length_of data"
    "key_data_of (set_key_mic mic data) = key_data_of data"
    unfolding eq
    using data assms(2)
    by (simp_all add: replay_counter_of_def key_nonce_of_def key_data_length_of_def key_data_of_def)
qed

lemma frame_info_bits:
  assumes "info AND WPA_KEY_INFO_TYPE_MASK = 0" "info AND WPA_KEY_INFO_MIC \<noteq> 0"
    "version AND WPA_KEY_INFO_TYPE_MASK = version"
  shows "frame_key_info s info version i e AND WPA_KEY_INFO_TYPE_MASK = version"
    "frame_key_info s info version i e AND WPA_KEY_INFO_MIC \<noteq> 0"
proof -
  have e: "WPA_KEY_INFO_ENCR_KEY_DATA AND WPA_KEY_INFO_TYPE_MASK = 0" by (simp add: key_info_defs BIT_def)
  have p: "push_bit WPA_KEY_INFO_KEY_INDEX_SHIFT (of_nat i) AND WPA_KEY_INFO_TYPE_MASK = 0"
    unfolding type_mask WPA_KEY_INFO_KEY_INDEX_SHIFT_def by (intro bit_eqI) (auto simp: bit_simps)
  show "frame_key_info s info version i e AND WPA_KEY_INFO_TYPE_MASK = version"
    using assms(1,3) e p by (simp add: frame_key_info_def Let_def bit.conj_disj_distrib2)
  show "frame_key_info s info version i e AND WPA_KEY_INFO_MIC \<noteq> 0"
    using assms(2) by (simp add: frame_key_info_def Let_def bit.conj_disj_distrib2 or_eq_0_iff)
qed

lemma pad_sum: "(n + (8 - n mod 8) mod 8) mod 8 = (0 :: nat)"
proof -
  have "8 * q + r + (8 - r) = 8 * (q + 1)" if "r < 8" for q r :: nat using that by simp
  from this [of "n mod 8" "n div 8"] have "n + (8 - n mod 8) = 8 * (n div 8 + 1)" by simp
  then have "(n + (8 - n mod 8)) mod 8 = 0" by (metis mod_mult_self1_is_0)
  then show ?thesis by (simp add: mod_add_right_eq)
qed

lemma pad_length: "length (pad_key_data d) = 8 * (length (pad_key_data d) div 8) \<and>
    length (pad_key_data d) < length d + 8"
proof -
  let ?p = "(8 - length d mod 8) mod 8"
  have "length (pad_key_data d) = length d + ?p" by (simp add: pad_key_data_def Let_def)
  moreover have "(length d + ?p) mod 8 = 0" by (rule pad_sum)
  ultimately show ?thesis by (simp add: minus_mod_eq_mult_div [symmetric])
qed

text \<open>What the key data of a sent frame is, for the one who has the keys.\<close>

definition key_data_opens :: "u32 \<Rightarrow> bool \<Rightarrow> bytes \<Rightarrow> bytes \<Rightarrow> bytes \<Rightarrow> bytes \<Rightarrow> bool" where
  "key_data_opens cipher encr kek iv kd d \<longleftrightarrow>
     (if \<not> encr then kd = d
      else if cipher = WPA_CIPHER_CCMP
      then aes_unwrap kek (length (pad_key_data d) div 8) kd = Some (pad_key_data d)
      else rc4_skip (iv @ kek) 32 256 kd = d)"

lemma frame_body_opens:
  assumes "length (PTK (sm c)) = 64" "length (Counter (group c)) = 32"
    and v: "v = key_descriptor_version (sm c) 0"
  obtains kd iv c' where "frame_body v (Some d) encr c = (Some (kd, iv), c')" "length iv = 16"
    "length kd \<le> length d + 16" "sm c' = sm c" "auth c' = auth c" "out c' = out c"
    "key_data_opens (pairwise (sm c)) encr (ptk_kek (PTK (sm c))) iv kd d"
proof (cases encr)
  case False
  then show ?thesis using that by (simp add: frame_body_def key_data_opens_def)
next
  case enc: True
  have kek: "length (ptk_kek (PTK (sm c))) = 16" using assms(1) by (simp add: ptk_kek_def)
  show ?thesis
  proof (cases "pairwise (sm c) = WPA_CIPHER_CCMP")
    case True
    have "version_wraps v" using True by (simp add: v key_descriptor_version_def wpa_use_aes_cmac_def version_wraps_def)
    moreover obtain kd where kd: "aes_wrap (ptk_kek (PTK (sm c))) (length (pad_key_data d) div 8) (pad_key_data d) = Some kd"
      "length kd = 8 * (length (pad_key_data d) div 8 + 1)"
      "aes_unwrap (ptk_kek (PTK (sm c))) (length (pad_key_data d) div 8) kd = Some (pad_key_data d)"
      using unwrap_wrap [OF kek, of "pad_key_data d"] pad_length [of d] by blast
    ultimately show ?thesis
      using that [of kd "replicate 16 0" c] enc True pad_length [of d]
      by (simp add: frame_body_def encrypt_key_data_def key_data_opens_def)
  next
    case False
    have "\<not> version_wraps v" using False
      by (simp add: v key_descriptor_version_def wpa_use_aes_cmac_def version_wraps_def key_info_defs BIT_def)
    then show ?thesis
      using that enc False assms(2)
      by (simp add: frame_body_def encrypt_key_data_def key_data_opens_def Let_def WPA_NONCE_LEN_def rc4_skip_def
          rc4_data_twice length_rc4_data step_simps)
  qed
qed

lemma sent_frame_opens:
  assumes keys: "PTK_valid (sm c)" "length (PTK (sm c)) = 64" "length (Counter (group c)) = 32"
    and rep: "replay_abs (key_replay (sm c)) v k" and d: "length d < 2 ^ 15"
    and info: "info AND WPA_KEY_INFO_TYPE_MASK = 0" "info AND WPA_KEY_INFO_MIC \<noteq> 0"
    and fields: "length nonce = 32" "\<And>r. rsc = Some r \<Longrightarrow> length r = 8"
  shows "\<exists>frame. out (wpa_send_eapol_frame info rsc (Some nonce) (Some d) keyidx encr 0 c) = out c @
      [SetEapol (addr (sm c)) WPA_EAPOL_inc_EapolFramesTx 1, SendEapol (addr (sm c)) frame (pairwise_set (sm c))] \<and>
    wpa_verify_key_mic (ptk_kck (PTK (sm c))) frame = 0 \<and> key_nonce_of frame = nonce \<and>
    be_val (replay_counter_of frame) = (v + 1) mod 2 ^ 64 \<and>
    wpa_replay_counter_valid (sm (wpa_send_eapol_frame info rsc (Some nonce) (Some d) keyidx encr 0 c))
      (replay_counter_of frame) \<and>
    key_data_length_of frame = length (key_data_of frame) \<and>
    key_data_opens (pairwise (sm c)) encr (ptk_kek (PTK (sm c))) (take 16 (drop 49 frame)) (key_data_of frame) d"
proof -
  let ?ver = "key_descriptor_version (sm c) 0"
  let ?info = "frame_key_info (sm c) info ?ver keyidx encr"
  let ?c = "upd_sm (\<lambda>s. s\<lparr>key_replay := next_replay (key_replay s)\<rparr>) c"
  let ?alg = "if info AND WPA_KEY_INFO_KEY_TYPE \<noteq> 0 then pairwise (sm c) else conf_wpa_group (conf (auth c))"
  have smc: "sm ?c = (sm c)\<lparr>key_replay := next_replay (key_replay (sm c))\<rparr>" "group ?c = group c" "auth ?c = auth c" "out ?c = out c"
    by (simp_all add: upd_sm_def)
  have c: "length (PTK (sm ?c)) = 64" "length (Counter (group ?c)) = 32" "?ver = key_descriptor_version (sm ?c) 0"
    using keys by (simp_all add: smc key_descriptor_version_def wpa_use_aes_cmac_def)
  obtain kd iv c' where body: "frame_body ?ver (Some d) encr ?c = (Some (kd, iv), c')" "length iv = 16"
    "length kd \<le> length d + 16" "sm c' = sm ?c" "auth c' = auth ?c" "out c' = out ?c"
    "key_data_opens (pairwise (sm ?c)) encr (ptk_kek (PTK (sm ?c))) iv kd d"
    by (rule frame_body_opens [OF c])
  let ?key = "(frame_key ?alg ?info rsc (Some nonce) ?c)\<lparr>key_iv := iv, key_data_length := of_nat (length kd)\<rparr>"
  let ?e = "conf_eapol_version (conf (auth c))"
  let ?f = "eapol_frame ?e ?key kd"
  have abs: "replay_abs (next_replay (key_replay (sm c))) ((v + 1) mod 2 ^ 64) (min 4 (k + 1))"
    by (rule replay_abs_next [OF rep])
  have hd: "hd (next_replay (key_replay (sm c))) = next_replay (key_replay (sm c)) ! 0"
    by (simp add: next_replay_def)
  have ctr: "length (counter (hd (next_replay (key_replay (sm c))))) = 8"
    "be_val (counter (hd (next_replay (key_replay (sm c))))) = (v + 1) mod 2 ^ 64"
    using abs unfolding hd by (auto simp: replay_abs_def intro: nth_mem)
  have wf: "key_wf ?key" "key_mic ?key = replicate 16 0"
    using body(2) fields ctr(1) by (auto simp: key_wf_def frame_key_def smc split: option.split)
  have ver: "?ver \<in> {WPA_KEY_INFO_TYPE_HMAC_MD5_RC4, WPA_KEY_INFO_TYPE_HMAC_SHA1_AES}"
    "?ver AND WPA_KEY_INFO_TYPE_MASK = ?ver"
    by (auto simp: key_descriptor_version_def wpa_use_aes_cmac_def key_info_defs BIT_def)
  note bits = frame_info_bits [OF info ver(2), of "sm c" keyidx encr]
  have kdl: "length kd < 2 ^ 16" using body(3) d by simp
  then have "length kd < 2 ^ 31" by simp
  have "16 \<le> length (PTK (sm c'))" using c(1) body(4) by simp
  moreover have "key_info ?key AND WPA_KEY_INFO_TYPE_MASK = ?ver" using bits(1) by (simp add: frame_key_def)
  ultimately obtain mic where mic: "length mic = 16" "seal_frame ?ver ?info ?f c' = set_key_mic mic ?f"
    "wpa_verify_key_mic (ptk_kck (PTK (sm c'))) (set_key_mic mic ?f) = 0"
    using sealed_verifies [OF wf \<open>length kd < 2 ^ 31\<close> _ bits(2) _ ver(1)] by blast
  let ?frame = "set_key_mic mic ?f"
  have send: "wpa_send_eapol_frame info rsc (Some nonce) (Some d) keyidx encr 0 c =
      wpa_auth_send_eapol (addr (sm c)) ?frame (pairwise_set (sm c))
        (wpa_auth_set_eapol (addr (sm c)) WPA_EAPOL_inc_EapolFramesTx 1 c')"
    using keys(1) mic(2) body(1,4,5) by (simp add: wpa_send_eapol_frame_def Let_def smc)
  have l: "99 \<le> length ?f" using eapol_frame_fields(1) [OF wf(1), of ?e kd] by simp
  note f = eapol_frame_fields [OF wf(1), of ?e kd] and m = set_mic_fields [OF l mic(1)]
  have rc: "replay_counter_of ?frame = counter (hd (next_replay (key_replay (sm c))))"
    unfolding m(1) f(2) by (simp add: frame_key_def smc)
  have smx: "sm (wpa_send_eapol_frame info rsc (Some nonce) (Some d) keyidx encr 0 c) =
      (sm c)\<lparr>key_replay := next_replay (key_replay (sm c))\<rparr>" by (rule send_frame_frame(1))
  have abs': "replay_abs (key_replay ((sm c)\<lparr>key_replay := next_replay (key_replay (sm c))\<rparr>))
      ((v + 1) mod 2 ^ 64) (min 4 (k + 1))" using abs by simp
  have valid: "wpa_replay_counter_valid ((sm c)\<lparr>key_replay := next_replay (key_replay (sm c))\<rparr>) (replay_counter_of ?frame)"
    unfolding rc replay_abs_valid [OF abs' ctr(1)] using ctr(2) by (intro exI [of _ 0]) simp
  have iv: "take 16 (drop 49 ?frame) = iv" "key_nonce_of ?frame = nonce" "key_data_of ?frame = kd"
    "key_data_length_of ?frame = length kd"
    using fields(1) kdl unfolding m f by (simp_all add: frame_key_def unat_of_nat take_bit_nat_eq_self)
  define fr where "fr = ?frame"
  have out: "out (wpa_send_eapol_frame info rsc (Some nonce) (Some d) keyidx encr 0 c) = out c @
      [SetEapol (addr (sm c)) WPA_EAPOL_inc_EapolFramesTx 1, SendEapol (addr (sm c)) fr (pairwise_set (sm c))]"
    unfolding send fr_def by (simp add: step_simps body(6) smc)
  have keep: "PTK (sm c') = PTK (sm c)" "PTK (sm ?c) = PTK (sm c)" "pairwise (sm ?c) = pairwise (sm c)"
    using body(4) by (simp_all add: smc)
  show ?thesis
    unfolding smx
    by (intro exI [of _ fr] conjI)
       (use out mic(3) [folded fr_def] valid [folded fr_def] iv [folded fr_def] rc [folded fr_def] ctr(2) body(7) in
        \<open>simp_all add: keep\<close>)
qed

text \<open>
  C15: The station can read what it is sent. A frame with a MIC that \<open>__wpa_send_eapol\<close> sends under
  a valid pairwise key passes \<open>wpa_verify_key_mic\<close> under the same key confirmation key, carries the
  nonce it was given and the next replay counter, which the authenticator then accepts in a reply,
  and its length field is the length of its key data. Key data that was to be encrypted comes back
  under the key encryption key: by \<open>aes_unwrap\<close>, with the padding, for a CCMP station, and by RC4
  with the IV of the frame otherwise.
\<close>

theorem wpa_sent_frame_opens:
  assumes "PTK_valid (sm c)" "length (PTK (sm c)) = 64" "length (Counter (group c)) = 32"
    and "replay_abs (key_replay (sm c)) v k" "length d < 2 ^ 15"
    and "info AND WPA_KEY_INFO_TYPE_MASK = 0" "info AND WPA_KEY_INFO_MIC \<noteq> 0"
    and "length nonce = 32" "\<And>r. rsc = Some r \<Longrightarrow> length r = 8"
  shows "\<exists>frame. out (wpa_send_eapol_frame info rsc (Some nonce) (Some d) keyidx encr 0 c) = out c @
      [SetEapol (addr (sm c)) WPA_EAPOL_inc_EapolFramesTx 1, SendEapol (addr (sm c)) frame (pairwise_set (sm c))] \<and>
    wpa_verify_key_mic (ptk_kck (PTK (sm c))) frame = 0 \<and> key_nonce_of frame = nonce \<and>
    be_val (replay_counter_of frame) = (v + 1) mod 2 ^ 64 \<and>
    wpa_replay_counter_valid (sm (wpa_send_eapol_frame info rsc (Some nonce) (Some d) keyidx encr 0 c))
      (replay_counter_of frame) \<and>
    key_data_length_of frame = length (key_data_of frame) \<and>
    (if \<not> encr then key_data_of frame = d
     else if pairwise (sm c) = WPA_CIPHER_CCMP
     then aes_unwrap (ptk_kek (PTK (sm c))) (length (pad_key_data d) div 8) (key_data_of frame) =
       Some (pad_key_data d)
     else rc4_skip (take 16 (drop 49 frame) @ ptk_kek (PTK (sm c))) 32 256 (key_data_of frame) = d)"
  using sent_frame_opens [OF assms, where keyidx = keyidx and encr = encr] unfolding key_data_opens_def by blast

theorem wpa_sent_frame_opens_witness:
  "\<exists>frame. SendEapol (replicate 6 3) frame False \<in>
       set (out (wpa_send_eapol_frame WPA_KEY_INFO_MIC None (Some (replicate 32 9)) (Some [1, 2, 3]) 1 True 0
         (ctx_of sample_world sample_sta))) \<and>
     wpa_verify_key_mic (replicate 16 1) frame = 0 \<and>
     aes_unwrap (replicate 16 1) 1 (key_data_of frame) = Some [1, 2, 3, 0xdd, 0, 0, 0, 0]"
proof -
  let ?c = "ctx_of sample_world sample_sta"
  have sta: "PTK_valid (sm ?c)" "PTK (sm ?c) = replicate 64 1" "addr (sm ?c) = replicate 6 3"
    "pairwise (sm ?c) = WPA_CIPHER_CCMP" "pairwise_set (sm ?c) = False" "length (Counter (group ?c)) = 32"
    by (simp_all add: step_simps sample_sta_def wpa_auth_sta_init_def sample_world_def wpa_group_new_def)
  have rep: "replay_abs (key_replay (sm ?c)) 2 1"
    by (simp add: step_simps replay_abs_def sample_sta_def be_val_def)
  have info: "WPA_KEY_INFO_MIC AND WPA_KEY_INFO_TYPE_MASK = 0" "WPA_KEY_INFO_MIC AND WPA_KEY_INFO_MIC \<noteq> 0"
    by (simp_all add: key_info_defs BIT_def)
  have pad: "pad_key_data [1, 2, 3] = [1, 2, 3, 0xdd, 0, 0, 0, 0]" by code_simp
  have len: "length (PTK (sm ?c)) = 64" "length ([1, 2, 3] :: bytes) < 2 ^ 15" "length (replicate 32 9 :: bytes) = 32"
    by (simp_all add: sta(2))
  obtain fr where "out (wpa_send_eapol_frame WPA_KEY_INFO_MIC None (Some (replicate 32 9)) (Some [1, 2, 3]) 1 True 0 ?c) =
      out ?c @ [SetEapol (replicate 6 3) WPA_EAPOL_inc_EapolFramesTx 1, SendEapol (replicate 6 3) fr False]"
    "wpa_verify_key_mic (replicate 16 1) fr = 0"
    "aes_unwrap (replicate 16 1) 1 (key_data_of fr) = Some (pad_key_data [1, 2, 3])"
    using wpa_sent_frame_opens [OF sta(1) len(1) sta(6) rep len(2) info len(3), of None 1 True] unfolding sta pad
    by (auto simp: ptk_kck_def ptk_kek_def)
  then show ?thesis by (intro exI [of _ fr]) (simp add: pad)
qed

end
