(* ===== verification/EapCommon.thy ===== *)
theory EapCommon
  imports EapolAuth Md5
begin

text \<open>
  EAP packets (\<^verbatim>\<open>eap_common/eap_common.c\<close>), the MD5 challenge (\<^verbatim>\<open>eap_common/chap.c\<close>) and the
  users of the integrated EAP server (\<open>hostapd_get_eap_user\<close> of \<^verbatim>\<open>ap/ap_config.c\<close> and
  \<open>ieee802_1x_get_eap_user\<close> of \<^verbatim>\<open>ap/ieee802_1x.c\<close>), in the build of \<^verbatim>\<open>defconfig\<close>, which has no
  WPS. A buffer of type \<^verbatim>\<open>struct wpabuf\<close> is the list of its used octets.
\<close>

unbundle bit_operations_syntax

subsection \<open>Packets\<close>

definition WPA_GET_BE24 :: "bytes \<Rightarrow> u32" where
  "WPA_GET_BE24 a = push_bit 16 (ucast (a ! 0)) OR push_bit 8 (ucast (a ! 1)) OR ucast (a ! 2)"

definition WPA_PUT_BE24 :: "u32 \<Rightarrow> bytes" where
  "WPA_PUT_BE24 v = [ucast (drop_bit 16 v AND 0xff), ucast (drop_bit 8 v AND 0xff), ucast (v AND 0xff)]"

definition EAP_CODE_REQUEST :: u8 where "EAP_CODE_REQUEST = 1"
definition EAP_CODE_RESPONSE :: u8 where "EAP_CODE_RESPONSE = 2"

text \<open>\<open>EapType\<close> is an unsigned integer of 32 bits; the type field of a packet is an octet of it.\<close>

definition EAP_TYPE_NONE :: u32 where "EAP_TYPE_NONE = 0"
definition TYPE_IDENTITY :: u32 where "TYPE_IDENTITY = 1"
definition EAP_TYPE_NOTIFICATION :: u32 where "EAP_TYPE_NOTIFICATION = 2"
definition EAP_TYPE_NAK :: u32 where "EAP_TYPE_NAK = 3"
definition EAP_TYPE_MD5 :: u32 where "EAP_TYPE_MD5 = 4"
definition EAP_TYPE_GTC :: u32 where "EAP_TYPE_GTC = 6"
definition EAP_TYPE_EXPANDED :: u32 where "EAP_TYPE_EXPANDED = 254"

definition EAP_VENDOR_IETF :: int where "EAP_VENDOR_IETF = 0"

lemmas eap_type_defs = EAP_TYPE_NONE_def TYPE_IDENTITY_def EAP_TYPE_NOTIFICATION_def
  EAP_TYPE_NAK_def EAP_TYPE_MD5_def EAP_TYPE_GTC_def EAP_TYPE_EXPANDED_def EAP_VENDOR_IETF_def

text \<open>The length field of the header, and the payload with its length that a type check leaves.\<close>

definition eap_length :: "bytes \<Rightarrow> nat" where
  "eap_length msg = unat (WPA_GET_BE16 (drop 2 msg))"

definition eap_hdr_validate :: "int \<Rightarrow> u32 \<Rightarrow> bytes \<Rightarrow> bytes option" where
  "eap_hdr_validate vendor eap_type msg =
     (let len = eap_length msg; pos = drop 4 msg in
      if length msg < 4 then None
      else if len < 4 + 1 \<or> len > length msg then None
      else if ucast (pos ! 0) = EAP_TYPE_EXPANDED
      then (if len < 4 + 8 then None
            else let exp_vendor = uint (WPA_GET_BE24 (drop 1 pos)); exp_type = WPA_GET_BE32 (drop 4 pos)
                 in if exp_vendor \<noteq> vendor \<or> exp_type \<noteq> eap_type then None
                    else Some (take (len - 4 - 8) (drop 8 pos)))
      else if vendor \<noteq> EAP_VENDOR_IETF \<or> ucast (pos ! 0) \<noteq> eap_type then None
      else Some (take (len - 4 - 1) (drop 1 pos)))"

text \<open>
  The buffer of a new message with its header: \<open>payload_len\<close> octets are still to be put, of which
  the header already counts the length.
\<close>

definition eap_msg_alloc :: "int \<Rightarrow> u32 \<Rightarrow> nat \<Rightarrow> u8 \<Rightarrow> u8 \<Rightarrow> bytes" where
  "eap_msg_alloc vendor type payload_len code identifier =
     (let len = 4 + (if vendor = EAP_VENDOR_IETF then 1 else 8) + payload_len
      in [code, identifier] @ WPA_PUT_BE16 (of_nat len) @
         (if vendor = EAP_VENDOR_IETF then [ucast type]
          else [ucast EAP_TYPE_EXPANDED] @ WPA_PUT_BE24 (word_of_int vendor) @ WPA_PUT_BE32 type))"

definition eap_update_len :: "bytes \<Rightarrow> bytes" where
  "eap_update_len msg =
     (if length msg < 4 then msg
      else take 2 msg @ WPA_PUT_BE16 (of_nat (length msg)) @ drop 4 msg)"

definition chap_md5 :: "u8 \<Rightarrow> bytes \<Rightarrow> bytes \<Rightarrow> bytes" where
  "chap_md5 i secret challenge = md5_vector [[i], secret, challenge]"

subsection \<open>Users\<close>

text \<open>
  \<open>eap_user\<close> is what the EAP server works with, \<open>hostapd_eap_user\<close> an entry of the configuration.
  A method is its vendor and its type.
\<close>

definition EAP_MAX_METHODS :: nat where "EAP_MAX_METHODS = 8"

record eap_user =
  eu_methods :: "(int \<times> u32) list"
  eu_password :: "bytes option"
  eu_password_hash :: bool
  eu_phase2 :: bool
  eu_force_version :: int
  eu_ttls_auth :: int

record hostapd_eap_user =
  hu_identity :: "bytes option"
  hu_methods :: "(int \<times> u32) list"
  hu_password :: "bytes option"
  hu_phase2 :: bool
  hu_force_version :: int
  hu_wildcard_prefix :: bool
  hu_password_hash :: bool
  hu_ttls_auth :: int

definition octets :: "bytes option \<Rightarrow> bytes" where
  "octets b = (case b of None \<Rightarrow> [] | Some b \<Rightarrow> b)"

text \<open>A name that is not there has length 0.\<close>

fun hostapd_get_eap_user :: "hostapd_eap_user list \<Rightarrow> bytes \<Rightarrow> bool \<Rightarrow> hostapd_eap_user option" where
  "hostapd_get_eap_user [] i phase2 = None"
| "hostapd_get_eap_user (user # users) i phase2 =
     (let name = octets (hu_identity user) in
      if \<not> phase2 \<and> hu_identity user = None then Some user
      else if hu_phase2 user = phase2 \<and> hu_wildcard_prefix user \<and> length i \<ge> length name \<and>
              take (length name) i = name then Some user
      else if hu_phase2 user = phase2 \<and> length name = length i \<and> name = i then Some user
      else hostapd_get_eap_user users i phase2)"

text \<open>
  The user that is copied from the configuration. The structure is cleared first and
  \<open>password_hash\<close> is not among the fields that are copied.
\<close>

definition ieee802_1x_get_eap_user :: "hostapd_eap_user list \<Rightarrow> bytes \<Rightarrow> bool \<Rightarrow> eap_user option" where
  "ieee802_1x_get_eap_user users i phase2 =
     map_option (\<lambda>u. \<lparr>eu_methods = hu_methods u, eu_password = hu_password u, eu_password_hash = False,
         eu_phase2 = phase2, eu_force_version = hu_force_version u, eu_ttls_auth = hu_ttls_auth u\<rparr>)
       (hostapd_get_eap_user users i phase2)"

end
