(* ===== verification/EapServer.thy ===== *)
theory EapServer
  imports EapCommon
begin

text \<open>
  The EAP server of one station (\<^verbatim>\<open>eap_server/eap_server.c\<close>): the full authenticator of RFC 4137
  with the pass-through to a backend server. The authentication methods are a table of functions,
  as in \<^verbatim>\<open>struct eap_method\<close>; a method works on its private data, of type \<open>'p\<close>, and on the part
  \<open>eap_shared\<close> of the structure, which is all that the methods under \<^verbatim>\<open>eap_server\<close> write. The
  event messages and the questions to the rest of the program are appended to \<open>eap_log\<close>. The
  result \<open>Fault\<close> stands for a dereferenced NULL pointer or a read outside a buffer. Memory
  allocations succeed.
\<close>

unbundle bit_operations_syntax

subsection \<open>State\<close>

datatype eap_st = EAP_DISABLED | EAP_INITIALIZE | EAP_IDLE | EAP_RECEIVED | EAP_INTEGRITY_CHECK
  | EAP_METHOD_RESPONSE | EAP_METHOD_REQUEST | EAP_PROPOSE_METHOD | EAP_SELECT_ACTION
  | EAP_SEND_REQUEST | EAP_DISCARD | EAP_NAK | EAP_RETRANSMIT | EAP_SUCCESS | EAP_FAILURE
  | EAP_TIMEOUT_FAILURE | EAP_PICK_UP_METHOD | EAP_INITIALIZE_PASSTHROUGH | EAP_IDLE2
  | EAP_RETRANSMIT2 | EAP_RECEIVED2 | EAP_DISCARD2 | EAP_SEND_REQUEST2 | EAP_AAA_REQUEST
  | EAP_AAA_RESPONSE | EAP_AAA_IDLE | EAP_TIMEOUT_FAILURE2 | EAP_FAILURE2 | EAP_SUCCESS2

datatype eap_method_state = METHOD_PROPOSED | METHOD_CONTINUE | METHOD_END
datatype eap_decision = DECISION_SUCCESS | DECISION_FAILURE | DECISION_CONTINUE | DECISION_PASSTHROUGH
datatype eap_pending = METHOD_PENDING_NONE | METHOD_PENDING_WAIT | METHOD_PENDING_CONT

datatype eap_out = EapStarted | EapProposedMethod "int option" u32 | EapFailureEvent | EapSuccessEvent
  | Rand | RandomBytes nat | GetEapUser bytes bool

text \<open>
  The answers of the rest of the program: \<open>rand()\<close>, \<open>random_get_bytes\<close> with the octets of the
  buffer afterwards and whether it succeeded, the callback \<open>get_eap_user\<close>, and the displayable
  text of the identity request.
\<close>

record eap_env =
  env_rand :: "eap_out list \<Rightarrow> int"
  env_random_bytes :: "eap_out list \<Rightarrow> nat \<Rightarrow> bytes \<times> bool"
  env_get_user :: "bytes \<Rightarrow> bool \<Rightarrow> eap_user option"
  env_req_id_text :: bytes

record eap_shared =
  eap_identity :: "bytes option"
  eap_usr :: "eap_user option"
  user_eap_method_index :: nat
  update_user :: bool
  method_pending :: eap_pending
  require_identity_match :: bool
  MaxRetrans :: int
  eap_log :: "eap_out list"

text \<open>\<open>None\<close> is a function pointer that is NULL; \<open>reset\<close> only frees the private data.\<close>

record 'p eap_method =
  m_vendor :: int
  m_type :: u32
  m_name :: string
  m_init :: "eap_env \<Rightarrow> eap_shared \<Rightarrow> 'p option \<times> eap_shared"
  m_initPickUp :: "(eap_env \<Rightarrow> eap_shared \<Rightarrow> 'p option \<times> eap_shared) option"
  m_buildReq :: "eap_env \<Rightarrow> u8 \<Rightarrow> 'p \<Rightarrow> eap_shared \<Rightarrow> bytes option \<times> 'p \<times> eap_shared"
  m_getTimeout :: "('p \<Rightarrow> int) option"
  m_check :: "('p \<Rightarrow> bytes \<Rightarrow> bool) option"
  m_process :: "eap_env \<Rightarrow> bytes \<Rightarrow> 'p \<Rightarrow> eap_shared \<Rightarrow> 'p \<times> eap_shared"
  m_isDone :: "'p \<Rightarrow> bool"
  m_getKey :: "('p \<Rightarrow> bytes option) option"
  m_isSuccess :: "'p \<Rightarrow> bool"

text \<open>The interface variables that the EAPOL machines do not use are fields of the server.\<close>

record 'p eap_sm =
  sh :: eap_shared
  EAP_state :: eap_st
  eap_ifc :: eap_eapol_interface
  eapRespData :: "bytes option"
  eapKeyData :: "bytes option"
  aaaEapReq :: bool
  aaaEapNoReq :: bool
  aaaSuccess :: bool
  aaaFail :: bool
  aaaEapReqData :: "bytes option"
  aaaEapKeyData :: "bytes option"
  aaaEapKeyAvailable :: bool
  aaaMethodTimeout :: int
  aaaTimeout :: bool
  currentMethod :: u32
  currentId :: int
  methodState :: eap_method_state
  retransCount :: int
  lastReqData :: "bytes option"
  methodTimeout :: int
  rxResp :: bool
  respId :: int
  respMethod :: u32
  respVendor :: int
  respVendorMethod :: u32
  ignore_resp :: bool
  decision :: eap_decision
  sm_method :: "'p eap_method option"
  eap_method_priv :: "'p option"
  lastId :: int
  backend_auth :: bool
  eap_server :: bool
  num_rounds :: int
  start_reauth :: bool
  eap_changed :: bool

datatype 'a outcome = Ret 'a | Fault | OutOfRounds

definition upd_sh :: "(eap_shared \<Rightarrow> eap_shared) \<Rightarrow> 'p eap_sm \<Rightarrow> 'p eap_sm" where
  "upd_sh f sm = sm\<lparr>sh := f (sh sm)\<rparr>"

definition upd_ifc :: "(eap_eapol_interface \<Rightarrow> eap_eapol_interface) \<Rightarrow> 'p eap_sm \<Rightarrow> 'p eap_sm" where
  "upd_ifc f sm = sm\<lparr>eap_ifc := f (eap_ifc sm)\<rparr>"

definition add_log :: "eap_out \<Rightarrow> eap_shared \<Rightarrow> eap_shared" where
  "add_log ev s = s\<lparr>eap_log := eap_log s @ [ev]\<rparr>"

definition eap_event :: "eap_out \<Rightarrow> 'p eap_sm \<Rightarrow> 'p eap_sm" where
  "eap_event ev sm = upd_sh (add_log ev) sm"

definition EAP_MAX_AUTH_ROUNDS :: int where "EAP_MAX_AUTH_ROUNDS = 50"

subsection \<open>Users and methods\<close>

text \<open>The linked list of the registered methods is a list.\<close>

fun eap_server_get_eap_method :: "'p eap_method list \<Rightarrow> int \<Rightarrow> u32 \<Rightarrow> 'p eap_method option" where
  "eap_server_get_eap_method [] vendor type = None"
| "eap_server_get_eap_method (m # ms) vendor type =
     (if m_vendor m = vendor \<and> m_type m = type then Some m
      else eap_server_get_eap_method ms vendor type)"

fun eap_server_get_type :: "'p eap_method list \<Rightarrow> string \<Rightarrow> int \<times> u32" where
  "eap_server_get_type [] name = (EAP_VENDOR_IETF, EAP_TYPE_NONE)"
| "eap_server_get_type (m # ms) name =
     (if m_name m = name then (m_vendor m, m_type m) else eap_server_get_type ms name)"

definition eap_server_method_register :: "'p eap_method \<Rightarrow> 'p eap_method list \<Rightarrow> int \<times> 'p eap_method list" where
  "eap_server_method_register m ms =
     (if \<exists>m' \<in> set ms. m_vendor m' = m_vendor m \<and> m_type m' = m_type m \<or> m_name m' = m_name m
      then (-2, ms) else (0, ms @ [m]))"

definition eap_user_get :: "eap_env \<Rightarrow> bytes \<Rightarrow> bool \<Rightarrow> eap_shared \<Rightarrow> bool \<times> eap_shared" where
  "eap_user_get env i phase2 s =
     (let s = add_log (GetEapUser i phase2) (s\<lparr>eap_usr := None\<rparr>)
      in case env_get_user env i phase2 of
           None \<Rightarrow> (False, s)
         | Some u \<Rightarrow> (True, s\<lparr>eap_usr := Some u, user_eap_method_index := 0\<rparr>))"

definition no_eap_method :: "int \<times> u32" where
  "no_eap_method = (EAP_VENDOR_IETF, EAP_TYPE_NONE)"

text \<open>
  The loop of \<open>eap_sm_process_nak\<close> over the array of methods: an entry that the peer does not ask
  for is removed and the rest moves up.
\<close>

definition remove_method :: "nat \<Rightarrow> (int \<times> u32) list \<Rightarrow> (int \<times> u32) list" where
  "remove_method i ms = take i ms @ drop (Suc i) ms @ [no_eap_method]"

lemma remove_method_count:
  assumes "i < length ms" "ms ! i \<noteq> no_eap_method"
  shows "length (filter (\<lambda>x. x \<noteq> no_eap_method) (remove_method i ms)) <
    length (filter (\<lambda>x. x \<noteq> no_eap_method) ms)" "length (remove_method i ms) = length ms"
proof -
  have "filter (\<lambda>x. x \<noteq> no_eap_method) ms =
      filter (\<lambda>x. x \<noteq> no_eap_method) (take i ms @ ms ! i # drop (Suc i) ms)"
    using assms(1) by (simp add: id_take_nth_drop [symmetric])
  then show "length (filter (\<lambda>x. x \<noteq> no_eap_method) (remove_method i ms)) <
      length (filter (\<lambda>x. x \<noteq> no_eap_method) ms)"
    using assms(2) by (simp add: remove_method_def)
  show "length (remove_method i ms) = length ms" using assms(1) by (simp add: remove_method_def)
qed

function process_nak_loop :: "bytes \<Rightarrow> nat \<Rightarrow> (int \<times> u32) list \<Rightarrow> (int \<times> u32) list" where
  "process_nak_loop nak_list i ms =
     (if i < length ms \<and> ms ! i \<noteq> no_eap_method
      then if fst (ms ! i) = EAP_VENDOR_IETF \<and> snd (ms ! i) \<in> set (map ucast nak_list)
           then process_nak_loop nak_list (Suc i) ms
           else process_nak_loop nak_list i (remove_method i ms)
      else ms)"
  by auto
termination
  by (relation "measures [\<lambda>(nak_list, i, ms). length (filter (\<lambda>x. x \<noteq> no_eap_method) ms),
      \<lambda>(nak_list, i, ms). length ms - i]") (auto simp: remove_method_count)

declare process_nak_loop.simps [simp del]

definition eap_sm_process_nak :: "bytes \<Rightarrow> eap_shared \<Rightarrow> eap_shared" where
  "eap_sm_process_nak nak_list s =
     (case eap_usr s of
        None \<Rightarrow> s
      | Some u \<Rightarrow> s\<lparr>eap_usr := Some (u\<lparr>eu_methods :=
          process_nak_loop nak_list (user_eap_method_index s) (eu_methods u)\<rparr>)\<rparr>)"

definition eap_sm_Policy_update :: "bytes option \<Rightarrow> 'p eap_sm \<Rightarrow> 'p eap_sm" where
  "eap_sm_Policy_update nak_list sm =
     (case nak_list of
        None \<Rightarrow> sm
      | Some l \<Rightarrow>
          (case eap_usr (sh sm) of
             None \<Rightarrow> sm
           | Some u \<Rightarrow> if eu_phase2 u then sm\<lparr>decision := DECISION_FAILURE\<rparr>
                       else upd_sh (eap_sm_process_nak l) sm))"

text \<open>Whether the array of the user's methods has another one at the index.\<close>

definition method_at :: "eap_shared \<Rightarrow> (int \<times> u32) option" where
  "method_at s =
     (case eap_usr s of
        None \<Rightarrow> None
      | Some u \<Rightarrow>
          if user_eap_method_index s < length (eu_methods u) \<and>
             eu_methods u ! user_eap_method_index s \<noteq> no_eap_method
          then Some (eu_methods u ! user_eap_method_index s) else None)"

definition eap_sm_Policy_getNextMethod :: "'p eap_sm \<Rightarrow> (int \<times> u32) \<times> 'p eap_sm" where
  "eap_sm_Policy_getNextMethod sm =
     (if eap_identity (sh sm) = None \<or> currentId sm = -1
      then ((EAP_VENDOR_IETF, TYPE_IDENTITY), upd_sh (\<lambda>s. s\<lparr>update_user := True\<rparr>) sm)
      else case method_at (sh sm) of
             Some next \<Rightarrow>
               (next, upd_sh (\<lambda>s. s\<lparr>user_eap_method_index := user_eap_method_index s + 1\<rparr>) sm)
           | None \<Rightarrow> ((EAP_VENDOR_IETF, EAP_TYPE_NONE), sm))"

definition identity_first :: "eap_shared \<Rightarrow> bool" where
  "identity_first s =
     (case eap_usr s of None \<Rightarrow> False | Some u \<Rightarrow> eu_methods u ! 0 = (EAP_VENDOR_IETF, TYPE_IDENTITY))"

text \<open>The end of \<open>eap_sm_Policy_getDecision\<close>, once the user is up to date.\<close>

definition decide_next :: "'p eap_sm \<Rightarrow> eap_decision \<times> 'p eap_sm" where
  "decide_next sm =
     (let sm = sm\<lparr>start_reauth := False\<rparr> in
      (if method_at (sh sm) \<noteq> None then DECISION_CONTINUE
       else if eap_identity (sh sm) = None \<or> currentId sm = -1 then DECISION_CONTINUE
       else DECISION_FAILURE, sm))"

text \<open>The middle: the user is looked up when the identity is new.\<close>

definition decide_user :: "eap_env \<Rightarrow> 'p eap_sm \<Rightarrow> eap_decision \<times> 'p eap_sm" where
  "decide_user env sm =
     (case (if (eap_usr (sh sm) = None \<or> update_user (sh sm)) \<and> \<not> start_reauth sm
            then eap_identity (sh sm) else None) of
        None \<Rightarrow> decide_next sm
      | Some i \<Rightarrow>
          let id_req = (eap_usr (sh sm) \<noteq> None \<and> currentMethod sm = TYPE_IDENTITY \<and> identity_first (sh sm));
              (found, s) = eap_user_get env i False (sh sm);
              sm = sm\<lparr>sh := s\<rparr>
          in if \<not> found then (DECISION_FAILURE, sm)
             else if id_req \<and> identity_first (sh sm)
             then (DECISION_FAILURE, upd_sh (\<lambda>s. s\<lparr>update_user := True\<rparr>) sm)
             else decide_next (upd_sh (\<lambda>s. s\<lparr>update_user := False\<rparr>) sm))"

definition eap_sm_Policy_getDecision :: "eap_env \<Rightarrow> 'p eap_sm \<Rightarrow> (eap_decision \<times> 'p eap_sm) outcome" where
  "eap_sm_Policy_getDecision env sm =
     (if \<not> eap_server sm \<and> eap_identity (sh sm) \<noteq> None \<and> \<not> start_reauth sm
      then Ret (DECISION_PASSTHROUGH, sm)
      else case sm_method sm of
             None \<Rightarrow> Ret (decide_user env sm)
           | Some m \<Rightarrow>
               (case eap_method_priv sm of
                  None \<Rightarrow> Fault
                | Some p \<Rightarrow>
                    let updated = upd_sh (\<lambda>s. s\<lparr>update_user := True\<rparr>) sm in
                    if currentMethod sm \<noteq> TYPE_IDENTITY \<and> m_isSuccess m p
                    then Ret (DECISION_SUCCESS, updated)
                    else if m_isDone m p \<and> \<not> m_isSuccess m p
                    then Ret (DECISION_FAILURE, updated)
                    else Ret (decide_user env sm)))"

definition eap_sm_Policy_doPickUp :: "u32 \<Rightarrow> bool" where
  "eap_sm_Policy_doPickUp method = (method = TYPE_IDENTITY)"

subsection \<open>Packets\<close>

text \<open>The loop of \<open>eap_sm_calculateTimeout\<close>, which doubles the timeout up to 20 seconds.\<close>

primrec rto_loop :: "nat \<Rightarrow> int \<Rightarrow> int" where
  "rto_loop 0 rto = rto"
| "rto_loop (Suc n) rto = (if rto * 2 \<ge> 20 then 20 else rto_loop n (rto * 2))"

definition eap_sm_calculateTimeout :: "int \<Rightarrow> int \<Rightarrow> int" where
  "eap_sm_calculateTimeout retrans method_timeout =
     (if method_timeout \<noteq> 0 then method_timeout else rto_loop (nat retrans) 3)"

text \<open>The type fields of a response of which \<open>plen\<close> octets are used.\<close>

definition parse_resp_type :: "bytes \<Rightarrow> nat \<Rightarrow> 'p eap_sm \<Rightarrow> 'p eap_sm" where
  "parse_resp_type resp plen sm =
     (if plen > 4
      then let sm = sm\<lparr>respMethod := ucast (resp ! 4)\<rparr>
           in if respMethod sm = EAP_TYPE_EXPANDED
              then if plen < 4 + 8 then sm
                   else sm\<lparr>respVendor := uint (WPA_GET_BE24 (drop 5 resp)),
                           respVendorMethod := WPA_GET_BE32 (drop 8 resp)\<rparr>
              else sm
      else sm)"

definition eap_sm_parseEapResp :: "'p eap_sm \<Rightarrow> 'p eap_sm" where
  "eap_sm_parseEapResp sm =
     (let sm = sm\<lparr>rxResp := False, respId := -1, respMethod := EAP_TYPE_NONE,
            respVendor := EAP_VENDOR_IETF, respVendorMethod := EAP_TYPE_NONE\<rparr>
      in case eapRespData sm of
           None \<Rightarrow> sm
         | Some resp \<Rightarrow>
             if length resp < 4 then sm
             else let plen = eap_length resp
                  in if plen > length resp then sm
                     else let sm = sm\<lparr>respId := uint (resp ! 1)\<rparr>;
                              sm = (if resp ! 0 = EAP_CODE_RESPONSE then sm\<lparr>rxResp := True\<rparr> else sm)
                          in parse_resp_type resp plen sm)"

definition eap_sm_getId :: "bytes option \<Rightarrow> int" where
  "eap_sm_getId data =
     (case data of None \<Rightarrow> -1 | Some d \<Rightarrow> if length d < 4 then -1 else uint (d ! 1))"

definition eap_sm_buildSuccess :: "u8 \<Rightarrow> bytes" where
  "eap_sm_buildSuccess i = [EAP_CODE_SUCCESS, i] @ WPA_PUT_BE16 4"

definition eap_sm_buildFailure :: "u8 \<Rightarrow> bytes" where
  "eap_sm_buildFailure i = [EAP_CODE_FAILURE, i] @ WPA_PUT_BE16 4"

definition eap_sm_nextId :: "eap_env \<Rightarrow> 'p eap_sm \<Rightarrow> int \<times> 'p eap_sm" where
  "eap_sm_nextId env sm =
     (if currentId sm < 0
      then let i = env_rand env (eap_log (sh sm)) AND 0xff; sm = eap_event Rand sm
           in if i \<noteq> lastId sm then (i, sm) else ((i + 1) AND 0xff, sm)
      else ((currentId sm + 1) AND 0xff, sm))"

subsection \<open>States\<close>

definition entry_EAP :: "eap_st \<Rightarrow> bool \<Rightarrow> 'p eap_sm \<Rightarrow> 'p eap_sm" where
  "entry_EAP st global sm =
     sm\<lparr>eap_changed := (\<not> global \<or> EAP_state sm \<noteq> st \<or> eap_changed sm), EAP_state := st\<rparr>"

text \<open>The private data of the method is freed.\<close>

definition reset_method :: "'p eap_sm \<Rightarrow> 'p eap_sm" where
  "reset_method sm =
     (if sm_method sm \<noteq> None \<and> eap_method_priv sm \<noteq> None then sm\<lparr>eap_method_priv := None\<rparr> else sm)"

definition sm_EAP_DISABLED_Enter :: "bool \<Rightarrow> 'p eap_sm \<Rightarrow> 'p eap_sm" where
  "sm_EAP_DISABLED_Enter global sm = (entry_EAP EAP_DISABLED global sm)\<lparr>num_rounds := 0\<rparr>"

definition sm_EAP_INITIALIZE_Enter :: "bool \<Rightarrow> 'p eap_sm \<Rightarrow> 'p eap_sm" where
  "sm_EAP_INITIALIZE_Enter global sm =
     (let sm = entry_EAP EAP_INITIALIZE global sm;
          sm = sm\<lparr>currentId := -1, eapKeyData := None\<rparr>;
          sm = upd_ifc (\<lambda>i. i\<lparr>eapSuccess := False, eapFail := False, eapTimeout := False,
                 eapKeyAvailable := False, eapRestart := False\<rparr>) sm;
          sm = (reset_method sm)\<lparr>sm_method := None\<rparr>;
          sm = upd_sh (\<lambda>s. s\<lparr>user_eap_method_index := 0\<rparr>) sm;
          sm = (if backend_auth sm
                then let sm = eap_sm_parseEapResp (sm\<lparr>currentMethod := EAP_TYPE_NONE\<rparr>)
                     in if rxResp sm then sm\<lparr>currentId := respId sm\<rparr> else sm
                else sm);
          sm = sm\<lparr>num_rounds := 0\<rparr>;
          sm = upd_sh (\<lambda>s. s\<lparr>method_pending := METHOD_PENDING_NONE\<rparr>) sm
      in eap_event EapStarted sm)"

text \<open>The method that was found, or none when it could not be initialised.\<close>

definition install_method :: "'p eap_method \<Rightarrow> 'p option \<times> eap_shared \<Rightarrow> 'p eap_sm \<Rightarrow> 'p eap_sm" where
  "install_method m started sm =
     (let (priv, s) = started; sm = sm\<lparr>sh := s, eap_method_priv := priv\<rparr>
      in if priv = None then sm\<lparr>sm_method := None, currentMethod := EAP_TYPE_NONE\<rparr>
         else sm\<lparr>sm_method := Some m\<rparr>)"

definition sm_EAP_PICK_UP_METHOD_Enter ::
  "'p eap_method list \<Rightarrow> eap_env \<Rightarrow> bool \<Rightarrow> 'p eap_sm \<Rightarrow> 'p eap_sm" where
  "sm_EAP_PICK_UP_METHOD_Enter ms env global sm =
     (let sm = entry_EAP EAP_PICK_UP_METHOD global sm;
          sm = (if eap_sm_Policy_doPickUp (respMethod sm)
                then let sm = reset_method (sm\<lparr>currentMethod := respMethod sm\<rparr>);
                         none = sm\<lparr>sm_method := None, currentMethod := EAP_TYPE_NONE\<rparr>
                     in case eap_server_get_eap_method ms EAP_VENDOR_IETF (currentMethod sm) of
                          None \<Rightarrow> none
                        | Some m \<Rightarrow>
                            (case m_initPickUp m of
                               None \<Rightarrow> none
                             | Some start \<Rightarrow> install_method m (start env (sh sm)) sm)
                else sm)
      in eap_event (EapProposedMethod None (currentMethod sm)) sm)"

definition enter_idle :: "eap_st \<Rightarrow> bool \<Rightarrow> 'p eap_sm \<Rightarrow> 'p eap_sm" where
  "enter_idle st global sm =
     (let sm = entry_EAP st global sm
      in upd_ifc (\<lambda>i. i\<lparr>retransWhile := eap_sm_calculateTimeout (retransCount sm) (methodTimeout sm)\<rparr>) sm)"

definition enter_retransmit :: "eap_st \<Rightarrow> bool \<Rightarrow> 'p eap_sm \<Rightarrow> 'p eap_sm" where
  "enter_retransmit st global sm =
     (let sm = entry_EAP st global sm;
          sm = sm\<lparr>retransCount := retransCount sm + 1\<rparr>
      in if retransCount sm \<le> MaxRetrans (sh sm) \<and> lastReqData sm \<noteq> None
         then upd_ifc (\<lambda>i. i\<lparr>eapReqData := lastReqData sm, eapReq := True\<rparr>) sm else sm)"

definition enter_discard :: "eap_st \<Rightarrow> bool \<Rightarrow> 'p eap_sm \<Rightarrow> 'p eap_sm" where
  "enter_discard st global sm =
     upd_ifc (\<lambda>i. i\<lparr>eapResp := False, eapNoReq := True\<rparr>) (entry_EAP st global sm)"

definition enter_send_request :: "eap_st \<Rightarrow> bool \<Rightarrow> 'p eap_sm \<Rightarrow> 'p eap_sm" where
  "enter_send_request st global sm =
     (let sm = (entry_EAP st global sm)\<lparr>retransCount := 0\<rparr>
      in case eapReqData (eap_ifc sm) of
           Some req \<Rightarrow>
             upd_ifc (\<lambda>i. i\<lparr>eapResp := False, eapReq := True\<rparr>) (sm\<lparr>lastReqData := Some req\<rparr>)
         | None \<Rightarrow> upd_ifc (\<lambda>i. i\<lparr>eapResp := False, eapReq := False, eapNoReq := True\<rparr>) sm)"

definition sm_EAP_IDLE_Enter :: "bool \<Rightarrow> 'p eap_sm \<Rightarrow> 'p eap_sm" where
  "sm_EAP_IDLE_Enter = enter_idle EAP_IDLE"

definition sm_EAP_RETRANSMIT_Enter :: "bool \<Rightarrow> 'p eap_sm \<Rightarrow> 'p eap_sm" where
  "sm_EAP_RETRANSMIT_Enter = enter_retransmit EAP_RETRANSMIT"

definition sm_EAP_RECEIVED_Enter :: "bool \<Rightarrow> 'p eap_sm \<Rightarrow> 'p eap_sm" where
  "sm_EAP_RECEIVED_Enter global sm =
     (let sm = eap_sm_parseEapResp (entry_EAP EAP_RECEIVED global sm)
      in sm\<lparr>num_rounds := num_rounds sm + 1\<rparr>)"

definition sm_EAP_DISCARD_Enter :: "bool \<Rightarrow> 'p eap_sm \<Rightarrow> 'p eap_sm" where
  "sm_EAP_DISCARD_Enter = enter_discard EAP_DISCARD"

definition sm_EAP_SEND_REQUEST_Enter :: "bool \<Rightarrow> 'p eap_sm \<Rightarrow> 'p eap_sm" where
  "sm_EAP_SEND_REQUEST_Enter = enter_send_request EAP_SEND_REQUEST"

text \<open>A method without \<open>check\<close> leaves the flag as it was.\<close>

definition sm_EAP_INTEGRITY_CHECK_Enter :: "bool \<Rightarrow> 'p eap_sm \<Rightarrow> 'p eap_sm outcome" where
  "sm_EAP_INTEGRITY_CHECK_Enter global sm =
     (let sm = entry_EAP EAP_INTEGRITY_CHECK global sm
      in case sm_method sm of
           None \<Rightarrow> Fault
         | Some m \<Rightarrow>
             (case m_check m of
                None \<Rightarrow> Ret sm
              | Some check \<Rightarrow>
                  (case (eap_method_priv sm, eapRespData sm) of
                     (Some p, Some resp) \<Rightarrow> Ret (sm\<lparr>ignore_resp := check p resp\<rparr>)
                   | _ \<Rightarrow> Fault)))"

definition sm_EAP_METHOD_REQUEST_Enter :: "eap_env \<Rightarrow> bool \<Rightarrow> 'p eap_sm \<Rightarrow> 'p eap_sm outcome" where
  "sm_EAP_METHOD_REQUEST_Enter env global sm =
     (let sm = entry_EAP EAP_METHOD_REQUEST global sm
      in case sm_method sm of
           None \<Rightarrow> Ret sm
         | Some m \<Rightarrow>
             (case eap_method_priv sm of
                None \<Rightarrow> Fault
              | Some p \<Rightarrow>
                  let (i, sm) = eap_sm_nextId env sm;
                      sm = sm\<lparr>currentId := i, lastId := i\<rparr>;
                      (req, p, s) = m_buildReq m env (word_of_int i) p (sh sm);
                      sm = upd_ifc (\<lambda>f. f\<lparr>eapReqData := req\<rparr>) (sm\<lparr>sh := s, eap_method_priv := Some p\<rparr>)
                  in Ret (sm\<lparr>methodTimeout := (case m_getTimeout m of None \<Rightarrow> 0 | Some t \<Rightarrow> t p)\<rparr>)))"

definition sm_EAP_METHOD_RESPONSE_Enter :: "eap_env \<Rightarrow> bool \<Rightarrow> 'p eap_sm \<Rightarrow> 'p eap_sm outcome" where
  "sm_EAP_METHOD_RESPONSE_Enter env global sm =
     (let sm = entry_EAP EAP_METHOD_RESPONSE global sm
      in case (sm_method sm, eap_method_priv sm, eapRespData sm) of
           (Some m, Some p, Some resp) \<Rightarrow>
             let (p, s) = m_process m env resp p (sh sm);
                 sm = sm\<lparr>sh := s, eap_method_priv := Some p\<rparr>
             in Ret (if m_isDone m p
                     then (eap_sm_Policy_update None sm)\<lparr>
                       eapKeyData := (case m_getKey m of None \<Rightarrow> None | Some key \<Rightarrow> key p),
                       methodState := METHOD_END\<rparr>
                     else sm\<lparr>methodState := METHOD_CONTINUE\<rparr>)
         | _ \<Rightarrow> Fault)"

definition sm_EAP_PROPOSE_METHOD_Enter ::
  "'p eap_method list \<Rightarrow> eap_env \<Rightarrow> bool \<Rightarrow> 'p eap_sm \<Rightarrow> 'p eap_sm" where
  "sm_EAP_PROPOSE_METHOD_Enter ms env global sm =
     (let ((vendor, type), sm) = eap_sm_Policy_getNextMethod (entry_EAP EAP_PROPOSE_METHOD global sm);
          sm = sm\<lparr>currentMethod := (if vendor = EAP_VENDOR_IETF then type else EAP_TYPE_EXPANDED)\<rparr>;
          sm = reset_method sm;
          sm = (case eap_server_get_eap_method ms vendor type of
                  None \<Rightarrow> sm\<lparr>sm_method := None\<rparr>
                | Some m \<Rightarrow> install_method m (m_init m env (sh sm)) sm);
          sm = sm\<lparr>methodState := (if currentMethod sm = TYPE_IDENTITY \<or> currentMethod sm = EAP_TYPE_NOTIFICATION
                 then METHOD_CONTINUE else METHOD_PROPOSED)\<rparr>
      in eap_event (EapProposedMethod (Some vendor) (currentMethod sm)) sm)"

text \<open>
  The list of types of a Nak: \<open>None\<close> when the type octet is another one. The length comes from the
  header and was not compared with the size of the header here.
\<close>

definition nak_types :: "bytes \<Rightarrow> bytes option outcome" where
  "nak_types resp =
     (if length resp \<le> 4 then Ret None
      else let len = min (eap_length resp) (length resp)
           in if ucast (resp ! 4) \<noteq> EAP_TYPE_NAK then Ret None
              else if len < 5 then Fault
              else Ret (Some (take (len - 5) (drop 5 resp))))"

definition sm_EAP_NAK_Enter :: "bool \<Rightarrow> 'p eap_sm \<Rightarrow> 'p eap_sm outcome" where
  "sm_EAP_NAK_Enter global sm =
     (let sm = entry_EAP EAP_NAK global sm
      in if eap_method_priv sm \<noteq> None \<and> sm_method sm = None then Fault
         else let sm = sm\<lparr>eap_method_priv := None, sm_method := None\<rparr>
              in case eapRespData sm of
                   None \<Rightarrow> Fault
                 | Some resp \<Rightarrow>
                     (case nak_types resp of
                        Ret nak_list \<Rightarrow> Ret (eap_sm_Policy_update nak_list sm)
                      | Fault \<Rightarrow> Fault | OutOfRounds \<Rightarrow> OutOfRounds))"

definition sm_EAP_SELECT_ACTION_Enter :: "eap_env \<Rightarrow> bool \<Rightarrow> 'p eap_sm \<Rightarrow> 'p eap_sm outcome" where
  "sm_EAP_SELECT_ACTION_Enter env global sm =
     (case eap_sm_Policy_getDecision env (entry_EAP EAP_SELECT_ACTION global sm) of
        Ret (d, sm) \<Rightarrow> Ret (sm\<lparr>decision := d\<rparr>)
      | Fault \<Rightarrow> Fault | OutOfRounds \<Rightarrow> OutOfRounds)"

definition sm_EAP_TIMEOUT_FAILURE_Enter :: "bool \<Rightarrow> 'p eap_sm \<Rightarrow> 'p eap_sm" where
  "sm_EAP_TIMEOUT_FAILURE_Enter global sm =
     upd_ifc (\<lambda>i. i\<lparr>eapTimeout := True\<rparr>) (entry_EAP EAP_TIMEOUT_FAILURE global sm)"

definition sm_EAP_FAILURE_Enter :: "bool \<Rightarrow> 'p eap_sm \<Rightarrow> 'p eap_sm" where
  "sm_EAP_FAILURE_Enter global sm =
     (let sm = entry_EAP EAP_FAILURE global sm;
          sm = upd_ifc (\<lambda>i. i\<lparr>eapReqData := Some (eap_sm_buildFailure (word_of_int (currentId sm))),
                 eapFail := True\<rparr>) (sm\<lparr>lastReqData := None\<rparr>)
      in eap_event EapFailureEvent sm)"

definition sm_EAP_SUCCESS_Enter :: "bool \<Rightarrow> 'p eap_sm \<Rightarrow> 'p eap_sm" where
  "sm_EAP_SUCCESS_Enter global sm =
     (let sm = entry_EAP EAP_SUCCESS global sm;
          sm = upd_ifc (\<lambda>i. i\<lparr>eapReqData := Some (eap_sm_buildSuccess (word_of_int (currentId sm))),
                 eapKeyAvailable := (eapKeyData sm \<noteq> None \<or> eapKeyAvailable i),
                 eapSuccess := True\<rparr>) (sm\<lparr>lastReqData := None\<rparr>)
      in eap_event EapSuccessEvent sm)"

end
