(* ===== verification/EapStep.thy ===== *)
theory EapStep
  imports EapServer
begin

text \<open>
  The pass-through states of the EAP server, the step of its machine and the loop around it, the
  calls of the rest of the program (\<^verbatim>\<open>eap_server/eap_server.c\<close>), and the server as the parameter
  \<open>eap_step\<close> of the EAPOL machines.
\<close>

subsection \<open>Pass-through\<close>

definition sm_EAP_INITIALIZE_PASSTHROUGH_Enter :: "bool \<Rightarrow> 'p eap_sm \<Rightarrow> 'p eap_sm" where
  "sm_EAP_INITIALIZE_PASSTHROUGH_Enter global sm =
     upd_ifc (\<lambda>i. i\<lparr>aaaEapRespData := None\<rparr>) (entry_EAP EAP_INITIALIZE_PASSTHROUGH global sm)"

definition sm_EAP_IDLE2_Enter :: "bool \<Rightarrow> 'p eap_sm \<Rightarrow> 'p eap_sm" where
  "sm_EAP_IDLE2_Enter = enter_idle EAP_IDLE2"

definition sm_EAP_RETRANSMIT2_Enter :: "bool \<Rightarrow> 'p eap_sm \<Rightarrow> 'p eap_sm" where
  "sm_EAP_RETRANSMIT2_Enter = enter_retransmit EAP_RETRANSMIT2"

definition sm_EAP_RECEIVED2_Enter :: "bool \<Rightarrow> 'p eap_sm \<Rightarrow> 'p eap_sm" where
  "sm_EAP_RECEIVED2_Enter global sm = eap_sm_parseEapResp (entry_EAP EAP_RECEIVED2 global sm)"

definition sm_EAP_DISCARD2_Enter :: "bool \<Rightarrow> 'p eap_sm \<Rightarrow> 'p eap_sm" where
  "sm_EAP_DISCARD2_Enter = enter_discard EAP_DISCARD2"

definition sm_EAP_SEND_REQUEST2_Enter :: "bool \<Rightarrow> 'p eap_sm \<Rightarrow> 'p eap_sm" where
  "sm_EAP_SEND_REQUEST2_Enter = enter_send_request EAP_SEND_REQUEST2"

text \<open>\<open>eap_copy_buf\<close>: a buffer that is not there leaves the destination.\<close>

definition eap_copy_buf :: "bytes option \<Rightarrow> bytes option \<Rightarrow> bytes option" where
  "eap_copy_buf dst src = (if src = None then dst else src)"

definition sm_EAP_AAA_REQUEST_Enter :: "bool \<Rightarrow> 'p eap_sm \<Rightarrow> 'p eap_sm" where
  "sm_EAP_AAA_REQUEST_Enter global sm =
     (let sm = entry_EAP EAP_AAA_REQUEST global sm
      in upd_ifc (\<lambda>i. i\<lparr>aaaEapRespData := eap_copy_buf (aaaEapRespData i) (eapRespData sm)\<rparr>) sm)"

definition sm_EAP_AAA_RESPONSE_Enter :: "bool \<Rightarrow> 'p eap_sm \<Rightarrow> 'p eap_sm" where
  "sm_EAP_AAA_RESPONSE_Enter global sm =
     (let sm = entry_EAP EAP_AAA_RESPONSE global sm;
          sm = upd_ifc (\<lambda>i. i\<lparr>eapReqData := eap_copy_buf (eapReqData i) (aaaEapReqData sm)\<rparr>) sm
      in sm\<lparr>currentId := eap_sm_getId (eapReqData (eap_ifc sm)), methodTimeout := aaaMethodTimeout sm\<rparr>)"

definition sm_EAP_AAA_IDLE_Enter :: "bool \<Rightarrow> 'p eap_sm \<Rightarrow> 'p eap_sm" where
  "sm_EAP_AAA_IDLE_Enter global sm =
     (let sm = (entry_EAP EAP_AAA_IDLE global sm)\<lparr>aaaFail := False, aaaSuccess := False,
            aaaEapReq := False, aaaEapNoReq := False\<rparr>
      in upd_ifc (\<lambda>i. i\<lparr>aaaEapResp := True\<rparr>) sm)"

definition sm_EAP_TIMEOUT_FAILURE2_Enter :: "bool \<Rightarrow> 'p eap_sm \<Rightarrow> 'p eap_sm" where
  "sm_EAP_TIMEOUT_FAILURE2_Enter global sm =
     upd_ifc (\<lambda>i. i\<lparr>eapTimeout := True\<rparr>) (entry_EAP EAP_TIMEOUT_FAILURE2 global sm)"

definition sm_EAP_FAILURE2_Enter :: "bool \<Rightarrow> 'p eap_sm \<Rightarrow> 'p eap_sm" where
  "sm_EAP_FAILURE2_Enter global sm =
     (let sm = entry_EAP EAP_FAILURE2 global sm
      in upd_ifc (\<lambda>i. i\<lparr>eapReqData := eap_copy_buf (eapReqData i) (aaaEapReqData sm), eapFail := True\<rparr>) sm)"

definition sm_EAP_SUCCESS2_Enter :: "bool \<Rightarrow> 'p eap_sm \<Rightarrow> 'p eap_sm" where
  "sm_EAP_SUCCESS2_Enter global sm =
     (let sm = entry_EAP EAP_SUCCESS2 global sm;
          sm = upd_ifc (\<lambda>i. i\<lparr>eapReqData := eap_copy_buf (eapReqData i) (aaaEapReqData sm),
                 eapKeyAvailable := aaaEapKeyAvailable sm, eapSuccess := True\<rparr>) sm;
          sm = sm\<lparr>eapKeyData := (if aaaEapKeyAvailable sm
                 then eap_copy_buf (eapKeyData sm) (aaaEapKeyData sm) else None)\<rparr>
      in sm\<lparr>start_reauth := True\<rparr>)"

subsection \<open>The step\<close>

definition resp_is_nak :: "'p eap_sm \<Rightarrow> bool" where
  "resp_is_nak sm \<longleftrightarrow> respMethod sm = EAP_TYPE_NAK \<or>
     respMethod sm = EAP_TYPE_EXPANDED \<and> respVendor sm = EAP_VENDOR_IETF \<and> respVendorMethod sm = EAP_TYPE_NAK"

definition resp_is_current :: "'p eap_sm \<Rightarrow> bool" where
  "resp_is_current sm \<longleftrightarrow> respMethod sm = currentMethod sm \<or>
     respMethod sm = EAP_TYPE_EXPANDED \<and> respVendor sm = EAP_VENDOR_IETF \<and>
     respVendorMethod sm = currentMethod sm"

text \<open>The transitions out of a state, below the global ones.\<close>

definition eap_state_step :: "'p eap_method list \<Rightarrow> eap_env \<Rightarrow> 'p eap_sm \<Rightarrow> 'p eap_sm outcome" where
  "eap_state_step ms env sm =
     (case EAP_state sm of
        EAP_INITIALIZE \<Rightarrow>
          (if backend_auth sm
           then if \<not> rxResp sm then sm_EAP_SELECT_ACTION_Enter env False sm
                else if resp_is_nak sm then sm_EAP_NAK_Enter False sm
                else Ret (sm_EAP_PICK_UP_METHOD_Enter ms env False sm)
           else sm_EAP_SELECT_ACTION_Enter env False sm)
      | EAP_PICK_UP_METHOD \<Rightarrow>
          (if currentMethod sm = EAP_TYPE_NONE then sm_EAP_SELECT_ACTION_Enter env False sm
           else sm_EAP_METHOD_RESPONSE_Enter env False sm)
      | EAP_DISABLED \<Rightarrow>
          Ret (if portEnabled (eap_ifc sm) then sm_EAP_INITIALIZE_Enter False sm else sm)
      | EAP_IDLE \<Rightarrow>
          Ret (if retransWhile (eap_ifc sm) = 0 then sm_EAP_RETRANSMIT_Enter False sm
               else if eapResp (eap_ifc sm) then sm_EAP_RECEIVED_Enter False sm else sm)
      | EAP_RETRANSMIT \<Rightarrow>
          Ret (if retransCount sm > MaxRetrans (sh sm) then sm_EAP_TIMEOUT_FAILURE_Enter False sm
               else sm_EAP_IDLE_Enter False sm)
      | EAP_RECEIVED \<Rightarrow>
          (if rxResp sm \<and> respId sm = currentId sm \<and> resp_is_nak sm \<and> methodState sm = METHOD_PROPOSED
           then sm_EAP_NAK_Enter False sm
           else if rxResp sm \<and> respId sm = currentId sm \<and> resp_is_current sm
           then sm_EAP_INTEGRITY_CHECK_Enter False sm
           else Ret (sm_EAP_DISCARD_Enter False sm))
      | EAP_DISCARD \<Rightarrow> Ret (sm_EAP_IDLE_Enter False sm)
      | EAP_SEND_REQUEST \<Rightarrow> Ret (sm_EAP_IDLE_Enter False sm)
      | EAP_INTEGRITY_CHECK \<Rightarrow>
          (if ignore_resp sm then Ret (sm_EAP_DISCARD_Enter False sm)
           else sm_EAP_METHOD_RESPONSE_Enter env False sm)
      | EAP_METHOD_REQUEST \<Rightarrow> Ret (sm_EAP_SEND_REQUEST_Enter False sm)
      | EAP_METHOD_RESPONSE \<Rightarrow>
          (if methodState sm = METHOD_END then sm_EAP_SELECT_ACTION_Enter env False sm
           else case method_pending (sh sm) of
                  METHOD_PENDING_WAIT \<Rightarrow> Ret sm
                | METHOD_PENDING_CONT \<Rightarrow> sm_EAP_METHOD_RESPONSE_Enter env False
                    (upd_sh (\<lambda>s. s\<lparr>method_pending := METHOD_PENDING_NONE\<rparr>) sm)
                | METHOD_PENDING_NONE \<Rightarrow> sm_EAP_METHOD_REQUEST_Enter env False sm)
      | EAP_PROPOSE_METHOD \<Rightarrow>
          (case method_pending (sh sm) of
             METHOD_PENDING_WAIT \<Rightarrow>
               Ret (upd_sh (\<lambda>s. s\<lparr>user_eap_method_index := user_eap_method_index s - 1\<rparr>) sm)
           | METHOD_PENDING_CONT \<Rightarrow> Ret (sm_EAP_PROPOSE_METHOD_Enter ms env False
               (upd_sh (\<lambda>s. s\<lparr>method_pending := METHOD_PENDING_NONE\<rparr>) sm))
           | METHOD_PENDING_NONE \<Rightarrow> sm_EAP_METHOD_REQUEST_Enter env False sm)
      | EAP_NAK \<Rightarrow> sm_EAP_SELECT_ACTION_Enter env False sm
      | EAP_SELECT_ACTION \<Rightarrow>
          (case decision sm of
             DECISION_FAILURE \<Rightarrow> Ret (sm_EAP_FAILURE_Enter False sm)
           | DECISION_SUCCESS \<Rightarrow> Ret (sm_EAP_SUCCESS_Enter False sm)
           | DECISION_PASSTHROUGH \<Rightarrow> Ret (sm_EAP_INITIALIZE_PASSTHROUGH_Enter False sm)
           | DECISION_CONTINUE \<Rightarrow> Ret (sm_EAP_PROPOSE_METHOD_Enter ms env False sm))
      | EAP_TIMEOUT_FAILURE \<Rightarrow> Ret sm
      | EAP_FAILURE \<Rightarrow> Ret sm
      | EAP_SUCCESS \<Rightarrow> Ret sm
      | EAP_INITIALIZE_PASSTHROUGH \<Rightarrow>
          Ret (if currentId sm = -1 then sm_EAP_AAA_IDLE_Enter False sm else sm_EAP_AAA_REQUEST_Enter False sm)
      | EAP_IDLE2 \<Rightarrow>
          Ret (if eapResp (eap_ifc sm) then sm_EAP_RECEIVED2_Enter False sm
               else if retransWhile (eap_ifc sm) = 0 then sm_EAP_RETRANSMIT2_Enter False sm else sm)
      | EAP_RETRANSMIT2 \<Rightarrow>
          Ret (if retransCount sm > MaxRetrans (sh sm) then sm_EAP_TIMEOUT_FAILURE2_Enter False sm
               else sm_EAP_IDLE2_Enter False sm)
      | EAP_RECEIVED2 \<Rightarrow>
          Ret (if rxResp sm \<and> respId sm = currentId sm then sm_EAP_AAA_REQUEST_Enter False sm
               else sm_EAP_DISCARD2_Enter False sm)
      | EAP_DISCARD2 \<Rightarrow> Ret (sm_EAP_IDLE2_Enter False sm)
      | EAP_SEND_REQUEST2 \<Rightarrow> Ret (sm_EAP_IDLE2_Enter False sm)
      | EAP_AAA_REQUEST \<Rightarrow> Ret (sm_EAP_AAA_IDLE_Enter False sm)
      | EAP_AAA_RESPONSE \<Rightarrow> Ret (sm_EAP_SEND_REQUEST2_Enter False sm)
      | EAP_AAA_IDLE \<Rightarrow>
          Ret (if aaaFail sm then sm_EAP_FAILURE2_Enter False sm
               else if aaaSuccess sm then sm_EAP_SUCCESS2_Enter False sm
               else if aaaEapReq sm then sm_EAP_AAA_RESPONSE_Enter False sm
               else if aaaTimeout sm then sm_EAP_TIMEOUT_FAILURE2_Enter False sm
               else sm)
      | EAP_TIMEOUT_FAILURE2 \<Rightarrow> Ret sm
      | EAP_FAILURE2 \<Rightarrow> Ret sm
      | EAP_SUCCESS2 \<Rightarrow> Ret sm)"

definition sm_EAP_Step :: "'p eap_method list \<Rightarrow> eap_env \<Rightarrow> 'p eap_sm \<Rightarrow> 'p eap_sm outcome" where
  "sm_EAP_Step ms env sm =
     (if eapRestart (eap_ifc sm) \<and> portEnabled (eap_ifc sm) then Ret (sm_EAP_INITIALIZE_Enter True sm)
      else if \<not> portEnabled (eap_ifc sm) then Ret (sm_EAP_DISABLED_Enter True sm)
      else if num_rounds sm > EAP_MAX_AUTH_ROUNDS
      then Ret (if num_rounds sm = EAP_MAX_AUTH_ROUNDS + 1
                then sm_EAP_FAILURE_Enter True (sm\<lparr>num_rounds := num_rounds sm + 1\<rparr>) else sm)
      else eap_state_step ms env sm)"

text \<open>The loop with the value that is returned, whether any round changed the state.\<close>

primrec eap_step_loop ::
  "nat \<Rightarrow> 'p eap_method list \<Rightarrow> eap_env \<Rightarrow> bool \<Rightarrow> 'p eap_sm \<Rightarrow> (bool \<times> 'p eap_sm) outcome" where
  "eap_step_loop 0 ms env res sm = OutOfRounds"
| "eap_step_loop (Suc n) ms env res sm =
     (case sm_EAP_Step ms env (sm\<lparr>eap_changed := False\<rparr>) of
        Fault \<Rightarrow> Fault | OutOfRounds \<Rightarrow> OutOfRounds
      | Ret sm \<Rightarrow> if eap_changed sm then eap_step_loop n ms env True sm else Ret (res, sm))"

definition eap_server_sm_step ::
  "nat \<Rightarrow> 'p eap_method list \<Rightarrow> eap_env \<Rightarrow> 'p eap_sm \<Rightarrow> (bool \<times> 'p eap_sm) outcome" where
  "eap_server_sm_step n ms env sm = eap_step_loop n ms env False sm"

subsection \<open>The calls of the rest of the program\<close>

record eap_config =
  conf_backend_auth :: bool
  conf_eap_server :: bool

text \<open>The structure after \<open>os_zalloc\<close>: a field of an enumeration is its first member.\<close>

definition eap_server_sm_init :: "eap_config \<Rightarrow> 'p eap_sm" where
  "eap_server_sm_init cf =
     \<lparr>sh = \<lparr>eap_identity = None, eap_usr = None, user_eap_method_index = 0, update_user = False,
        method_pending = METHOD_PENDING_NONE, require_identity_match = False, MaxRetrans = 5, eap_log = []\<rparr>,
      EAP_state = EAP_DISABLED,
      eap_ifc = \<lparr>eapResp = False, portEnabled = False, retransWhile = 0, eapRestart = False,
        eapReq = False, eapNoReq = False, eapSuccess = False, eapFail = False, eapTimeout = False,
        eapReqData = None, eapKeyAvailable = False, aaaEapResp = False, aaaEapRespData = None\<rparr>,
      eapRespData = None, eapKeyData = None, aaaEapReq = False, aaaEapNoReq = False,
      aaaSuccess = False, aaaFail = False, aaaEapReqData = None, aaaEapKeyData = None,
      aaaEapKeyAvailable = False, aaaMethodTimeout = 0, aaaTimeout = False,
      currentMethod = EAP_TYPE_NONE, currentId = 0, methodState = METHOD_PROPOSED, retransCount = 0,
      lastReqData = None, methodTimeout = 0, rxResp = False, respId = 0, respMethod = EAP_TYPE_NONE,
      respVendor = EAP_VENDOR_IETF, respVendorMethod = EAP_TYPE_NONE, ignore_resp = False,
      decision = DECISION_SUCCESS, sm_method = None, eap_method_priv = None, lastId = 0,
      backend_auth = conf_backend_auth cf, eap_server = conf_eap_server cf, num_rounds = 0,
      start_reauth = False, eap_changed = False\<rparr>"

definition eap_sm_notify_cached :: "'p eap_sm \<Rightarrow> 'p eap_sm" where
  "eap_sm_notify_cached sm = sm\<lparr>EAP_state := EAP_SUCCESS\<rparr>"

definition eap_sm_pending_cb :: "'p eap_sm \<Rightarrow> 'p eap_sm" where
  "eap_sm_pending_cb sm =
     (if method_pending (sh sm) = METHOD_PENDING_WAIT
      then upd_sh (\<lambda>s. s\<lparr>method_pending := METHOD_PENDING_CONT\<rparr>) sm else sm)"

definition eap_sm_method_pending :: "'p eap_sm \<Rightarrow> bool" where
  "eap_sm_method_pending sm = (method_pending (sh sm) = METHOD_PENDING_WAIT)"

definition eap_server_clear_identity :: "'p eap_sm \<Rightarrow> 'p eap_sm" where
  "eap_server_clear_identity sm = upd_sh (\<lambda>s. s\<lparr>eap_identity := None\<rparr>) sm"

text \<open>
  The server as the EAPOL machines call it: they hold the interface variables that they use. A
  fault ends the program, so nothing changes any more.
\<close>

definition eap_server_for_port ::
  "nat \<Rightarrow> 'p eap_method list \<Rightarrow> eap_env \<Rightarrow> 'p eap_sm \<Rightarrow> eap_eapol_interface \<Rightarrow>
   'p eap_sm \<times> eap_eapol_interface \<times> bool" where
  "eap_server_for_port n ms env e i =
     (case eap_server_sm_step n ms env (e\<lparr>eap_ifc := i\<rparr>) of
        Ret (res, sm) \<Rightarrow> (sm, eap_ifc sm, res)
      | Fault \<Rightarrow> (e, i, False) | OutOfRounds \<Rightarrow> (e, i, False))"

end
