(* ===== verification/EapMethods.thy ===== *)
theory EapMethods
  imports EapStep WpaCommon
begin

text \<open>
  Three authentication methods: Identity, MD5-Challenge and GTC
  (\<^verbatim>\<open>eap_server/eap_server_identity.c\<close>, \<^verbatim>\<open>eap_server/eap_server_md5.c\<close>,
  \<^verbatim>\<open>eap_server/eap_server_gtc.c\<close>, the last without EAP-FAST), and their registration. The private data
  is a datatype with a constructor for each method; \<open>Other_data\<close> is for the methods that are not
  modelled.
\<close>

datatype method_result = CONTINUE | SUCCESS | FAILURE

record eap_identity_data =
  id_state :: method_result
  pick_up :: bool

record eap_md5_data =
  challenge :: bytes
  md5_state :: method_result

record eap_gtc_data =
  gtc_state :: method_result

datatype 'x eap_data = Identity_data eap_identity_data | Md5_data eap_md5_data | Gtc_data eap_gtc_data
  | Other_data 'x

text \<open>A function of a method on its private data; the pointer always is of the method's type.\<close>

definition no_call :: "'x eap_data \<Rightarrow> eap_shared \<Rightarrow> 'x eap_data \<times> eap_shared" where
  "no_call p s = (p, s)"

subsection \<open>Identity\<close>

definition eap_identity_init :: "eap_env \<Rightarrow> eap_shared \<Rightarrow> 'x eap_data option \<times> eap_shared" where
  "eap_identity_init env s = (Some (Identity_data \<lparr>id_state = CONTINUE, pick_up = False\<rparr>), s)"

definition eap_identity_initPickUp :: "eap_env \<Rightarrow> eap_shared \<Rightarrow> 'x eap_data option \<times> eap_shared" where
  "eap_identity_initPickUp env s = (Some (Identity_data \<lparr>id_state = CONTINUE, pick_up = True\<rparr>), s)"

definition eap_identity_buildReq ::
  "eap_env \<Rightarrow> u8 \<Rightarrow> 'x eap_data \<Rightarrow> eap_shared \<Rightarrow> bytes option \<times> 'x eap_data \<times> eap_shared" where
  "eap_identity_buildReq env i p s =
     (Some (eap_msg_alloc EAP_VENDOR_IETF TYPE_IDENTITY (length (env_req_id_text env)) EAP_CODE_REQUEST i @
        env_req_id_text env), p, s)"

definition eap_identity_check :: "'x eap_data \<Rightarrow> bytes \<Rightarrow> bool" where
  "eap_identity_check p resp = (eap_hdr_validate EAP_VENDOR_IETF TYPE_IDENTITY resp = None)"

text \<open>The identity that a valid response carries becomes the one of the station.\<close>

definition take_identity :: "bytes \<Rightarrow> eap_shared \<Rightarrow> eap_shared" where
  "take_identity i s =
     (let s = (if eap_identity s \<noteq> None then s\<lparr>update_user := True\<rparr> else s)
      in s\<lparr>eap_identity := Some i\<rparr>)"

definition eap_identity_process ::
  "eap_env \<Rightarrow> bytes \<Rightarrow> 'x eap_data \<Rightarrow> eap_shared \<Rightarrow> 'x eap_data \<times> eap_shared" where
  "eap_identity_process env resp p s =
     (case p of
        Identity_data d \<Rightarrow>
          if pick_up d \<and> eap_identity_check p resp then (Identity_data (d\<lparr>id_state := FAILURE\<rparr>), s)
          else let d = d\<lparr>pick_up := False\<rparr>
               in (case eap_hdr_validate EAP_VENDOR_IETF TYPE_IDENTITY resp of
                     None \<Rightarrow> (Identity_data d, s)
                   | Some pos \<Rightarrow> (Identity_data (d\<lparr>id_state := SUCCESS\<rparr>), take_identity pos s))
      | _ \<Rightarrow> no_call p s)"

definition eap_identity_isDone :: "'x eap_data \<Rightarrow> bool" where
  "eap_identity_isDone p = (case p of Identity_data d \<Rightarrow> id_state d \<noteq> CONTINUE | _ \<Rightarrow> False)"

definition eap_identity_isSuccess :: "'x eap_data \<Rightarrow> bool" where
  "eap_identity_isSuccess p = (case p of Identity_data d \<Rightarrow> id_state d = SUCCESS | _ \<Rightarrow> False)"

definition eap_identity_method :: "'x eap_data eap_method" where
  "eap_identity_method =
     \<lparr>m_vendor = EAP_VENDOR_IETF, m_type = TYPE_IDENTITY, m_name = ''Identity'',
      m_init = eap_identity_init, m_initPickUp = Some eap_identity_initPickUp,
      m_buildReq = eap_identity_buildReq, m_getTimeout = None, m_check = Some eap_identity_check,
      m_process = eap_identity_process, m_isDone = eap_identity_isDone, m_getKey = None,
      m_isSuccess = eap_identity_isSuccess\<rparr>"

subsection \<open>MD5-Challenge\<close>

definition CHALLENGE_LEN :: nat where "CHALLENGE_LEN = 16"
definition CHAP_MD5_LEN :: nat where "CHAP_MD5_LEN = 16"

definition eap_md5_init :: "eap_env \<Rightarrow> eap_shared \<Rightarrow> 'x eap_data option \<times> eap_shared" where
  "eap_md5_init env s =
     (Some (Md5_data \<lparr>challenge = replicate CHALLENGE_LEN 0, md5_state = CONTINUE\<rparr>), s)"

definition eap_md5_buildReq ::
  "eap_env \<Rightarrow> u8 \<Rightarrow> 'x eap_data \<Rightarrow> eap_shared \<Rightarrow> bytes option \<times> 'x eap_data \<times> eap_shared" where
  "eap_md5_buildReq env i p s =
     (case p of
        Md5_data d \<Rightarrow>
          let (buf, ok) = env_random_bytes env (eap_log s) CHALLENGE_LEN;
              s = add_log (RandomBytes CHALLENGE_LEN) s;
              d = d\<lparr>challenge := buf\<rparr>
          in if \<not> ok then (None, Md5_data (d\<lparr>md5_state := FAILURE\<rparr>), s)
             else (Some (eap_msg_alloc EAP_VENDOR_IETF EAP_TYPE_MD5 (1 + CHALLENGE_LEN) EAP_CODE_REQUEST i @
                     of_nat CHALLENGE_LEN # challenge d), Md5_data (d\<lparr>md5_state := CONTINUE\<rparr>), s)
      | _ \<Rightarrow> (None, p, s))"

definition eap_md5_check :: "'x eap_data \<Rightarrow> bytes \<Rightarrow> bool" where
  "eap_md5_check p resp =
     (case eap_hdr_validate EAP_VENDOR_IETF EAP_TYPE_MD5 resp of
        None \<Rightarrow> True
      | Some pos \<Rightarrow> length pos < 1 \<or> unat (pos ! 0) \<noteq> CHAP_MD5_LEN \<or> 1 + CHAP_MD5_LEN > length pos)"

text \<open>A plaintext password, the only kind that these methods can use.\<close>

definition plain_password :: "eap_shared \<Rightarrow> bytes option" where
  "plain_password s =
     (case eap_usr s of None \<Rightarrow> None | Some u \<Rightarrow> if eu_password_hash u then None else eu_password u)"

definition eap_md5_process ::
  "eap_env \<Rightarrow> bytes \<Rightarrow> 'x eap_data \<Rightarrow> eap_shared \<Rightarrow> 'x eap_data \<times> eap_shared" where
  "eap_md5_process env resp p s =
     (case p of
        Md5_data d \<Rightarrow>
          (case plain_password s of
             None \<Rightarrow> (Md5_data (d\<lparr>md5_state := FAILURE\<rparr>), s)
           | Some password \<Rightarrow>
               (case eap_hdr_validate EAP_VENDOR_IETF EAP_TYPE_MD5 resp of
                  None \<Rightarrow> (p, s)
                | Some pos \<Rightarrow>
                    if unat (pos ! 0) \<noteq> CHAP_MD5_LEN \<or> length pos < 1 + CHAP_MD5_LEN then (p, s)
                    else let hash = chap_md5 (eap_get_id resp) password (challenge d)
                         in (Md5_data (d\<lparr>md5_state :=
                               (if os_memcmp hash (drop 1 pos) CHAP_MD5_LEN = 0 then SUCCESS else FAILURE)\<rparr>), s)))
      | _ \<Rightarrow> no_call p s)"

definition eap_md5_isDone :: "'x eap_data \<Rightarrow> bool" where
  "eap_md5_isDone p = (case p of Md5_data d \<Rightarrow> md5_state d \<noteq> CONTINUE | _ \<Rightarrow> False)"

definition eap_md5_isSuccess :: "'x eap_data \<Rightarrow> bool" where
  "eap_md5_isSuccess p = (case p of Md5_data d \<Rightarrow> md5_state d = SUCCESS | _ \<Rightarrow> False)"

definition eap_md5_method :: "'x eap_data eap_method" where
  "eap_md5_method =
     \<lparr>m_vendor = EAP_VENDOR_IETF, m_type = EAP_TYPE_MD5, m_name = ''MD5'',
      m_init = eap_md5_init, m_initPickUp = None, m_buildReq = eap_md5_buildReq, m_getTimeout = None,
      m_check = Some eap_md5_check, m_process = eap_md5_process, m_isDone = eap_md5_isDone,
      m_getKey = None, m_isSuccess = eap_md5_isSuccess\<rparr>"

subsection \<open>GTC\<close>

definition eap_gtc_init :: "eap_env \<Rightarrow> eap_shared \<Rightarrow> 'x eap_data option \<times> eap_shared" where
  "eap_gtc_init env s = (Some (Gtc_data \<lparr>gtc_state = CONTINUE\<rparr>), s)"

definition eap_gtc_buildReq ::
  "eap_env \<Rightarrow> u8 \<Rightarrow> 'x eap_data \<Rightarrow> eap_shared \<Rightarrow> bytes option \<times> 'x eap_data \<times> eap_shared" where
  "eap_gtc_buildReq env i p s =
     (let msg = c_str ''Password''
      in (Some (eap_msg_alloc EAP_VENDOR_IETF EAP_TYPE_GTC (length msg) EAP_CODE_REQUEST i @ msg),
          Gtc_data \<lparr>gtc_state = CONTINUE\<rparr>, s))"

definition eap_gtc_check :: "'x eap_data \<Rightarrow> bytes \<Rightarrow> bool" where
  "eap_gtc_check p resp =
     (case eap_hdr_validate EAP_VENDOR_IETF EAP_TYPE_GTC resp of None \<Rightarrow> True | Some pos \<Rightarrow> length pos < 1)"

definition eap_gtc_process ::
  "eap_env \<Rightarrow> bytes \<Rightarrow> 'x eap_data \<Rightarrow> eap_shared \<Rightarrow> 'x eap_data \<times> eap_shared" where
  "eap_gtc_process env resp p s =
     (case eap_hdr_validate EAP_VENDOR_IETF EAP_TYPE_GTC resp of
        None \<Rightarrow> (p, s)
      | Some pos \<Rightarrow>
          if length pos < 1 then (p, s)
          else (case plain_password s of
                  None \<Rightarrow> (Gtc_data \<lparr>gtc_state = FAILURE\<rparr>, s)
                | Some password \<Rightarrow>
                    if length pos \<noteq> length password \<or> os_memcmp pos password (length pos) \<noteq> 0
                    then (Gtc_data \<lparr>gtc_state = FAILURE\<rparr>, s)
                    else (Gtc_data \<lparr>gtc_state = SUCCESS\<rparr>, s)))"

definition eap_gtc_isDone :: "'x eap_data \<Rightarrow> bool" where
  "eap_gtc_isDone p = (case p of Gtc_data d \<Rightarrow> gtc_state d \<noteq> CONTINUE | _ \<Rightarrow> False)"

definition eap_gtc_isSuccess :: "'x eap_data \<Rightarrow> bool" where
  "eap_gtc_isSuccess p = (case p of Gtc_data d \<Rightarrow> gtc_state d = SUCCESS | _ \<Rightarrow> False)"

definition eap_gtc_method :: "'x eap_data eap_method" where
  "eap_gtc_method =
     \<lparr>m_vendor = EAP_VENDOR_IETF, m_type = EAP_TYPE_GTC, m_name = ''GTC'',
      m_init = eap_gtc_init, m_initPickUp = None, m_buildReq = eap_gtc_buildReq, m_getTimeout = None,
      m_check = Some eap_gtc_check, m_process = eap_gtc_process, m_isDone = eap_gtc_isDone,
      m_getKey = None, m_isSuccess = eap_gtc_isSuccess\<rparr>"

subsection \<open>Registration\<close>

text \<open>
  The registration of the three methods, in the order of \<open>eap_server_register_methods\<close>
  (\<^verbatim>\<open>hostapd/eap_register.c\<close>).
\<close>

definition eap_server_register_methods :: "'x eap_data eap_method list" where
  "eap_server_register_methods =
     foldl (\<lambda>ms m. snd (eap_server_method_register m ms)) []
       [eap_identity_method, eap_md5_method, eap_gtc_method]"

lemma registered_methods:
  "eap_server_register_methods = [eap_identity_method, eap_md5_method, eap_gtc_method]"
  by (simp add: eap_server_register_methods_def eap_server_method_register_def eap_identity_method_def
      eap_md5_method_def eap_gtc_method_def eap_type_defs)

end
