(* ===== verification/EapFlow.thy ===== *)
theory EapFlow
  imports EapMethods
begin

text \<open>
  The loop of the EAP server ends. What each state changes and what it leaves alone
  (\<open>frame_simps\<close>, \<open>moved_simps\<close>), and a rank that every round that changes the state makes smaller,
  so \<open>EAP_ROUNDS\<close>, 19 rounds, are enough for every call.
\<close>

text \<open>What the parts of the states leave alone.\<close>

lemma parse_frame [frame_simps]:
  fixes sm :: "'p eap_sm"
  defines "t \<equiv> eap_sm_parseEapResp sm"
  shows "sh t = sh sm" "EAP_state t = EAP_state sm" "eap_ifc t = eap_ifc sm" "eapRespData t = eapRespData sm"
    "eapKeyData t = eapKeyData sm" "num_rounds t = num_rounds sm" "sm_method t = sm_method sm"
    "eap_method_priv t = eap_method_priv sm" "currentMethod t = currentMethod sm" "currentId t = currentId sm"
    "methodState t = methodState sm" "retransCount t = retransCount sm" "lastReqData t = lastReqData sm"
    "methodTimeout t = methodTimeout sm" "decision t = decision sm" "backend_auth t = backend_auth sm"
    "eap_server t = eap_server sm" "start_reauth t = start_reauth sm" "eap_changed t = eap_changed sm"
    "aaaEapReq t = aaaEapReq sm" "aaaSuccess t = aaaSuccess sm" "aaaFail t = aaaFail sm" "aaaTimeout t = aaaTimeout sm"
  unfolding t_def
  by (simp_all add: eap_sm_parseEapResp_def parse_resp_type_def Let_def split: option.split)

lemma entry_frame [frame_simps]:
  "sh (entry_EAP st global sm) = sh sm" "EAP_state (entry_EAP st global sm) = st"
  "eap_ifc (entry_EAP st global sm) = eap_ifc sm" "eapRespData (entry_EAP st global sm) = eapRespData sm"
  "eapKeyData (entry_EAP st global sm) = eapKeyData sm" "num_rounds (entry_EAP st global sm) = num_rounds sm"
  "sm_method (entry_EAP st global sm) = sm_method sm"
  "eap_method_priv (entry_EAP st global sm) = eap_method_priv sm"
  "currentMethod (entry_EAP st global sm) = currentMethod sm" "currentId (entry_EAP st global sm) = currentId sm"
  "methodState (entry_EAP st global sm) = methodState sm" "retransCount (entry_EAP st global sm) = retransCount sm"
  "lastReqData (entry_EAP st global sm) = lastReqData sm" "methodTimeout (entry_EAP st global sm) = methodTimeout sm"
  "decision (entry_EAP st global sm) = decision sm" "backend_auth (entry_EAP st global sm) = backend_auth sm"
  "eap_server (entry_EAP st global sm) = eap_server sm" "start_reauth (entry_EAP st global sm) = start_reauth sm"
  "rxResp (entry_EAP st global sm) = rxResp sm" "respId (entry_EAP st global sm) = respId sm"
  "respMethod (entry_EAP st global sm) = respMethod sm" "respVendor (entry_EAP st global sm) = respVendor sm"
  "respVendorMethod (entry_EAP st global sm) = respVendorMethod sm" "lastId (entry_EAP st global sm) = lastId sm"
  "ignore_resp (entry_EAP st global sm) = ignore_resp sm" "aaaEapReq (entry_EAP st global sm) = aaaEapReq sm"
  "aaaSuccess (entry_EAP st global sm) = aaaSuccess sm" "aaaFail (entry_EAP st global sm) = aaaFail sm"
  "aaaTimeout (entry_EAP st global sm) = aaaTimeout sm" "aaaEapReqData (entry_EAP st global sm) = aaaEapReqData sm"
  "aaaMethodTimeout (entry_EAP st global sm) = aaaMethodTimeout sm"
  "aaaEapKeyAvailable (entry_EAP st global sm) = aaaEapKeyAvailable sm"
  "eap_changed (entry_EAP st False sm)" "EAP_state sm \<noteq> st \<Longrightarrow> eap_changed (entry_EAP st True sm)"
  "eap_changed (entry_EAP st True sm) = (EAP_state sm \<noteq> st \<or> eap_changed sm)"
  by (simp_all add: entry_EAP_def)

text \<open>The policy looks at the rest of the structure but changes only the shared part and a flag.\<close>

lemma user_get_frame [frame_simps]:
  "method_pending (snd (eap_user_get env i ph s)) = method_pending s"
  "eap_identity (snd (eap_user_get env i ph s)) = eap_identity s"
  by (simp_all add: eap_user_get_def add_log_def Let_def split: option.split)

definition policy_only :: "'p eap_sm \<Rightarrow> 'p eap_sm \<Rightarrow> bool" where
  "policy_only sm t \<longleftrightarrow> t = sm\<lparr>sh := sh t, start_reauth := start_reauth t\<rparr> \<and>
     method_pending (sh t) = method_pending (sh sm) \<and> eap_identity (sh t) = eap_identity (sh sm)"

lemma policy_only_upd:
  "method_pending s = method_pending (sh sm) \<Longrightarrow> eap_identity s = eap_identity (sh sm) \<Longrightarrow>
   policy_only sm (sm\<lparr>sh := s\<rparr>)"
  "method_pending s = method_pending (sh sm) \<Longrightarrow> eap_identity s = eap_identity (sh sm) \<Longrightarrow>
   policy_only sm (sm\<lparr>sh := s, start_reauth := b\<rparr>)"
  "policy_only sm (sm\<lparr>start_reauth := b\<rparr>)" "policy_only sm sm"
  by (cases sm, simp add: policy_only_def)+

lemma decide_next_frame: "policy_only sm (snd (decide_next sm))"
  by (simp add: decide_next_def Let_def policy_only_upd)

lemma user_get_fields:
  "eap_user_get env i ph s = (found, s') \<Longrightarrow>
     method_pending s' = method_pending s \<and> eap_identity s' = eap_identity s"
  using user_get_frame [of env i ph s] by simp

lemma decide_user_frame: "policy_only sm (snd (decide_user env sm))"
  by (auto simp: decide_user_def decide_next_def upd_sh_def Let_def policy_only_upd
      dest: user_get_fields intro!: policy_only_upd split: option.split prod.split)

lemma decision_frame:
  assumes "eap_sm_Policy_getDecision env sm = Ret (d, t)" shows "policy_only sm t"
proof -
  have "t = snd (decide_user env sm) \<or> t = sm \<or> t = upd_sh (\<lambda>s. s\<lparr>update_user := True\<rparr>) sm"
    using assms by (auto simp: eap_sm_Policy_getDecision_def Let_def split: if_splits option.splits)
  then show ?thesis using decide_user_frame [of sm env] by (auto simp: upd_sh_def policy_only_upd)
qed

lemma next_method_frame: "policy_only sm (snd (eap_sm_Policy_getNextMethod sm))"
  by (simp add: eap_sm_Policy_getNextMethod_def upd_sh_def policy_only_upd split: option.split)

subsection \<open>Methods that let the server go on\<close>

text \<open>
  What the loop of the server needs of the methods: none claims that its pending work is done, which
  only \<open>eap_sm_pending_cb\<close> does.
\<close>

locale eap_methods_flow =
  fixes ms :: "'p eap_method list"
  assumes flow_init: "m \<in> set ms \<Longrightarrow> method_pending (snd (m_init m env s)) = method_pending s"
    and flow_pick: "m \<in> set ms \<Longrightarrow> m_initPickUp m = Some f \<Longrightarrow> method_pending (snd (f env s)) = method_pending s"
    and flow_build: "m \<in> set ms \<Longrightarrow> method_pending (snd (snd (m_buildReq m env i p s))) = method_pending s"
    and flow_process: "m \<in> set ms \<Longrightarrow> method_pending s \<noteq> METHOD_PENDING_CONT \<Longrightarrow>
      method_pending (snd (m_process m env resp p s)) \<noteq> METHOD_PENDING_CONT"

definition method_known :: "'p eap_method list \<Rightarrow> 'p eap_sm \<Rightarrow> bool" where
  "method_known ms sm \<longleftrightarrow> (\<forall>m. sm_method sm = Some m \<longrightarrow> m \<in> set ms)"

lemma method_known_None: "sm_method sm = None \<Longrightarrow> method_known ms sm"
  by (simp add: method_known_def)

lemma get_method_in: "eap_server_get_eap_method ms vendor type = Some m \<Longrightarrow> m \<in> set ms"
  by (induction ms) (auto split: if_splits)

text \<open>
  How many rounds the loop can still make: a bound for each state, where the waiting states count
  only what is there to be handled.
\<close>

definition state_rank :: "'p eap_sm \<Rightarrow> nat" where
  "state_rank sm =
     (let i = eap_ifc sm; timer = (if retransWhile i = 0 then 2 else 0);
          pending = method_pending (sh sm) = METHOD_PENDING_CONT
      in case EAP_state sm of
           EAP_DISABLED \<Rightarrow> 17 | EAP_INITIALIZE \<Rightarrow> 16 | EAP_PICK_UP_METHOD \<Rightarrow> 15
         | EAP_IDLE \<Rightarrow> (if eapResp i then 15 else 0) + timer
         | EAP_RETRANSMIT \<Rightarrow> (if eapResp i then 15 else 0) + 1
         | EAP_RECEIVED \<Rightarrow> 14 | EAP_INTEGRITY_CHECK \<Rightarrow> 13 | EAP_NAK \<Rightarrow> 12
         | EAP_METHOD_RESPONSE \<Rightarrow> (if pending then 11 else 10)
         | EAP_SELECT_ACTION \<Rightarrow> 9 | EAP_PROPOSE_METHOD \<Rightarrow> (if pending then 8 else 7)
         | EAP_METHOD_REQUEST \<Rightarrow> 6
         | EAP_SEND_REQUEST \<Rightarrow> (if eapResp i then 15 else 0) + 1
         | EAP_DISCARD \<Rightarrow> (if eapResp i then 15 else 0) + 1
         | EAP_INITIALIZE_PASSTHROUGH \<Rightarrow> 8 | EAP_AAA_REQUEST \<Rightarrow> 7
         | EAP_AAA_IDLE \<Rightarrow> (if aaaFail sm \<or> aaaSuccess sm \<or> aaaEapReq sm \<or> aaaTimeout sm then 6 else 0)
         | EAP_AAA_RESPONSE \<Rightarrow> 5 | EAP_SEND_REQUEST2 \<Rightarrow> (if eapResp i then 15 else 0) + 1
         | EAP_DISCARD2 \<Rightarrow> (if eapResp i then 15 else 0) + 1
         | EAP_IDLE2 \<Rightarrow> (if eapResp i then 15 else 0) + timer
         | EAP_RETRANSMIT2 \<Rightarrow> (if eapResp i then 15 else 0) + 1
         | EAP_RECEIVED2 \<Rightarrow> 14
         | _ \<Rightarrow> 0)"

definition eap_rank :: "'p eap_sm \<Rightarrow> nat" where
  "eap_rank sm =
     (if eapRestart (eap_ifc sm) \<and> portEnabled (eap_ifc sm) then 18
      else if \<not> portEnabled (eap_ifc sm) then (if EAP_state sm = EAP_DISABLED then 0 else 1)
      else if num_rounds sm > EAP_MAX_AUTH_ROUNDS
      then (if num_rounds sm = EAP_MAX_AUTH_ROUNDS + 1 then 1 else 0)
      else state_rank sm)"

lemma eap_rank_bound: "eap_rank sm \<le> 18"
  by (simp add: eap_rank_def state_rank_def Let_def split: eap_st.split)

text \<open>The retransmission timeout is never 0, so the timer that was just set does not fire at once.\<close>

lemma rto_loop_bounds: "0 < rto \<Longrightarrow> rto \<le> 20 \<Longrightarrow> rto \<le> rto_loop n rto \<and> rto_loop n rto \<le> 20"
proof (induction n arbitrary: rto)
  case (Suc n)
  show ?case
  proof (cases "rto * 2 \<ge> 20")
    case False
    then have "rto * 2 \<le> rto_loop n (rto * 2) \<and> rto_loop n (rto * 2) \<le> 20" using Suc.prems by (intro Suc.IH) simp_all
    then show ?thesis using Suc.prems False by simp
  qed (use Suc.prems in simp)
qed simp

lemma timeout_nonzero [simp]: "eap_sm_calculateTimeout r t \<noteq> 0"
  using rto_loop_bounds [of 3 "nat r"] by (auto simp: eap_sm_calculateTimeout_def)

text \<open>A step within a state keeps what the global transitions look at.\<close>

definition flow_kept :: "'p eap_sm \<Rightarrow> 'p eap_sm \<Rightarrow> bool" where
  "flow_kept sm t \<longleftrightarrow> eapRestart (eap_ifc t) = eapRestart (eap_ifc sm) \<and>
     portEnabled (eap_ifc t) = portEnabled (eap_ifc sm)"

lemmas enter_defs = sm_EAP_IDLE_Enter_def sm_EAP_RETRANSMIT_Enter_def sm_EAP_RECEIVED_Enter_def
  sm_EAP_DISCARD_Enter_def sm_EAP_SEND_REQUEST_Enter_def sm_EAP_TIMEOUT_FAILURE_Enter_def
  sm_EAP_FAILURE_Enter_def sm_EAP_SUCCESS_Enter_def sm_EAP_INITIALIZE_PASSTHROUGH_Enter_def
  sm_EAP_IDLE2_Enter_def sm_EAP_RETRANSMIT2_Enter_def sm_EAP_RECEIVED2_Enter_def
  sm_EAP_DISCARD2_Enter_def sm_EAP_SEND_REQUEST2_Enter_def sm_EAP_AAA_REQUEST_Enter_def
  sm_EAP_AAA_RESPONSE_Enter_def sm_EAP_AAA_IDLE_Enter_def sm_EAP_TIMEOUT_FAILURE2_Enter_def
  sm_EAP_FAILURE2_Enter_def sm_EAP_SUCCESS2_Enter_def enter_idle_def enter_retransmit_def
  enter_discard_def enter_send_request_def

lemmas upd_defs = upd_sh_def upd_ifc_def eap_event_def add_log_def

lemma INITIALIZE_flow:
  "EAP_state (sm_EAP_INITIALIZE_Enter g sm) = EAP_INITIALIZE"
  "\<not> eapRestart (eap_ifc (sm_EAP_INITIALIZE_Enter g sm))"
  "portEnabled (eap_ifc (sm_EAP_INITIALIZE_Enter g sm)) = portEnabled (eap_ifc sm)"
  "num_rounds (sm_EAP_INITIALIZE_Enter g sm) = 0" "sm_method (sm_EAP_INITIALIZE_Enter g sm) = None"
  "eap_method_priv sm = None \<or> sm_method sm \<noteq> None \<Longrightarrow> eap_method_priv (sm_EAP_INITIALIZE_Enter g sm) = None"
  by (auto simp: sm_EAP_INITIALIZE_Enter_def Let_def upd_defs frame_simps reset_method_def)

lemma policy_update_frame [frame_simps]:
  fixes sm :: "'p eap_sm" and l
  defines "t \<equiv> eap_sm_Policy_update l sm"
  shows "EAP_state t = EAP_state sm" "eap_ifc t = eap_ifc sm" "num_rounds t = num_rounds sm"
    "method_pending (sh t) = method_pending (sh sm)" "sm_method t = sm_method sm"
    "eap_changed t = eap_changed sm" "eap_method_priv t = eap_method_priv sm"
    "eap_identity (sh t) = eap_identity (sh sm)" "currentId t = currentId sm"
    "backend_auth t = backend_auth sm" "eap_server t = eap_server sm" "eapRespData t = eapRespData sm"
    "lastReqData t = lastReqData sm"
  unfolding t_def
  by (simp_all add: eap_sm_Policy_update_def eap_sm_process_nak_def upd_sh_def split: option.split)

lemma next_id_frame [frame_simps]:
  fixes sm :: "'p eap_sm" and env
  defines "t \<equiv> snd (eap_sm_nextId env sm)"
  shows "EAP_state t = EAP_state sm" "eap_ifc t = eap_ifc sm" "num_rounds t = num_rounds sm"
    "method_pending (sh t) = method_pending (sh sm)" "sm_method t = sm_method sm"
    "eap_changed t = eap_changed sm" "eap_method_priv t = eap_method_priv sm"
    "eap_usr (sh t) = eap_usr (sh sm)" "backend_auth t = backend_auth sm" "eap_server t = eap_server sm"
    "eapRespData t = eapRespData sm" "lastReqData t = lastReqData sm"
  unfolding t_def by (simp_all add: eap_sm_nextId_def Let_def upd_defs)

lemma policy_onlyD:
  assumes "policy_only sm t"
  shows "EAP_state t = EAP_state sm" "eap_ifc t = eap_ifc sm" "num_rounds t = num_rounds sm"
    "method_pending (sh t) = method_pending (sh sm)" "sm_method t = sm_method sm"
    "eap_changed t = eap_changed sm" "eap_method_priv t = eap_method_priv sm"
    "eap_identity (sh t) = eap_identity (sh sm)" "currentId t = currentId sm"
    "backend_auth t = backend_auth sm" "eap_server t = eap_server sm" "eapRespData t = eapRespData sm"
    "lastReqData t = lastReqData sm" "currentMethod t = currentMethod sm"
proof -
  have t: "t = sm\<lparr>sh := sh t, start_reauth := start_reauth t\<rparr>" and
    s: "method_pending (sh t) = method_pending (sh sm)" "eap_identity (sh t) = eap_identity (sh sm)"
    using assms by (simp_all add: policy_only_def)
  show "method_pending (sh t) = method_pending (sh sm)" "eap_identity (sh t) = eap_identity (sh sm)" by (fact s)+
  show "EAP_state t = EAP_state sm" "eap_ifc t = eap_ifc sm" "num_rounds t = num_rounds sm"
    "sm_method t = sm_method sm" "eap_changed t = eap_changed sm" "eap_method_priv t = eap_method_priv sm"
    "currentId t = currentId sm" "backend_auth t = backend_auth sm" "eap_server t = eap_server sm"
    "eapRespData t = eapRespData sm" "lastReqData t = lastReqData sm" "currentMethod t = currentMethod sm"
    by (subst t, simp)+
qed

text \<open>The states that call a method or the policy: where they lead and what they keep.\<close>

definition entered :: "eap_st \<Rightarrow> 'p eap_sm \<Rightarrow> 'p eap_sm \<Rightarrow> bool" where
  "entered st sm t \<longleftrightarrow> EAP_state t = st \<and> eap_ifc t = eap_ifc sm \<and> num_rounds t = num_rounds sm \<and>
     eap_changed t"

lemma SELECT_entered:
  assumes "sm_EAP_SELECT_ACTION_Enter env False sm = Ret t"
  shows "entered EAP_SELECT_ACTION sm t" "sm_method t = sm_method sm"
    "method_pending (sh t) = method_pending (sh sm)"
proof -
  obtain d u where u: "eap_sm_Policy_getDecision env (entry_EAP EAP_SELECT_ACTION False sm) = Ret (d, u)"
    and t: "t = u\<lparr>decision := d\<rparr>"
    using assms by (auto simp: sm_EAP_SELECT_ACTION_Enter_def split: outcome.splits)
  have p: "policy_only (entry_EAP EAP_SELECT_ACTION False sm) u" by (rule decision_frame [OF u])
  show "entered EAP_SELECT_ACTION sm t" "sm_method t = sm_method sm"
    "method_pending (sh t) = method_pending (sh sm)"
    using policy_onlyD [OF p] by (simp_all add: t entered_def frame_simps)
qed

lemma NAK_entered:
  assumes "sm_EAP_NAK_Enter False sm = Ret t"
  shows "entered EAP_NAK sm t" "sm_method t = None"
  using assms
  by (auto simp: sm_EAP_NAK_Enter_def Let_def entered_def frame_simps split: if_splits option.splits outcome.splits)

lemma INTEGRITY_entered:
  assumes "sm_EAP_INTEGRITY_CHECK_Enter False sm = Ret t"
  shows "entered EAP_INTEGRITY_CHECK sm t" "sm_method t = sm_method sm"
  using assms
  by (auto simp: sm_EAP_INTEGRITY_CHECK_Enter_def Let_def entered_def frame_simps split: option.splits)

text \<open>What the states that call nothing leave behind.\<close>

lemma flow_kept_ifc [frame_simps]: "flow_kept sm (entry_EAP st g sm)" "flow_kept sm sm"
  by (simp_all add: flow_kept_def frame_simps)

named_theorems moved_simps

lemma enter_not_out:
  "sm_EAP_SELECT_ACTION_Enter env g sm \<noteq> OutOfRounds" "sm_EAP_NAK_Enter g sm \<noteq> OutOfRounds"
  "sm_EAP_INTEGRITY_CHECK_Enter g sm \<noteq> OutOfRounds" "sm_EAP_METHOD_REQUEST_Enter env g sm \<noteq> OutOfRounds"
  "sm_EAP_METHOD_RESPONSE_Enter env g sm \<noteq> OutOfRounds"
proof -
  have "eap_sm_Policy_getDecision env s \<noteq> OutOfRounds" for s :: "'a eap_sm"
    by (simp add: eap_sm_Policy_getDecision_def Let_def split: option.split)
  then show "sm_EAP_SELECT_ACTION_Enter env g sm \<noteq> OutOfRounds"
    by (auto simp: sm_EAP_SELECT_ACTION_Enter_def split: outcome.split)
  have "nak_types r \<noteq> OutOfRounds" for r by (simp add: nak_types_def Let_def)
  then show "sm_EAP_NAK_Enter g sm \<noteq> OutOfRounds"
    by (auto simp: sm_EAP_NAK_Enter_def Let_def split: option.split outcome.split)
  show "sm_EAP_INTEGRITY_CHECK_Enter g sm \<noteq> OutOfRounds" "sm_EAP_METHOD_REQUEST_Enter env g sm \<noteq> OutOfRounds"
    "sm_EAP_METHOD_RESPONSE_Enter env g sm \<noteq> OutOfRounds"
    by (auto simp: sm_EAP_INTEGRITY_CHECK_Enter_def sm_EAP_METHOD_REQUEST_Enter_def
        sm_EAP_METHOD_RESPONSE_Enter_def Let_def split: option.split prod.split)
qed

lemma step_not_out: "sm_EAP_Step ms env sm \<noteq> OutOfRounds"
proof -
  have "eap_state_step ms env sm \<noteq> OutOfRounds"
    by (cases "EAP_state sm")
      (simp_all add: eap_state_step_def enter_not_out split: eap_pending.split eap_decision.split)
  then show ?thesis by (simp add: sm_EAP_Step_def)
qed

lemma idle_moved [moved_simps]:
  "EAP_state (enter_idle st g sm) = st" "flow_kept sm (enter_idle st g sm)"
  "num_rounds (enter_idle st g sm) = num_rounds sm" "sm_method (enter_idle st g sm) = sm_method sm"
  "eapResp (eap_ifc (enter_idle st g sm)) = eapResp (eap_ifc sm)"
  "retransWhile (eap_ifc (enter_idle st g sm)) \<noteq> 0" "sh (enter_idle st g sm) = sh sm"
  by (simp_all add: enter_idle_def upd_ifc_def frame_simps flow_kept_def Let_def)

lemma retransmit_moved [moved_simps]:
  "EAP_state (enter_retransmit st g sm) = st" "flow_kept sm (enter_retransmit st g sm)"
  "num_rounds (enter_retransmit st g sm) = num_rounds sm" "sm_method (enter_retransmit st g sm) = sm_method sm"
  "eapResp (eap_ifc (enter_retransmit st g sm)) = eapResp (eap_ifc sm)" "sh (enter_retransmit st g sm) = sh sm"
  by (simp_all add: enter_retransmit_def upd_ifc_def frame_simps flow_kept_def Let_def)

lemma discard_moved [moved_simps]:
  "EAP_state (enter_discard st g sm) = st" "flow_kept sm (enter_discard st g sm)"
  "num_rounds (enter_discard st g sm) = num_rounds sm" "sm_method (enter_discard st g sm) = sm_method sm"
  "\<not> eapResp (eap_ifc (enter_discard st g sm))" "sh (enter_discard st g sm) = sh sm"
  by (simp_all add: enter_discard_def upd_ifc_def frame_simps flow_kept_def Let_def)

lemma send_request_moved [moved_simps]:
  "EAP_state (enter_send_request st g sm) = st" "flow_kept sm (enter_send_request st g sm)"
  "num_rounds (enter_send_request st g sm) = num_rounds sm" "sm_method (enter_send_request st g sm) = sm_method sm"
  "\<not> eapResp (eap_ifc (enter_send_request st g sm))" "sh (enter_send_request st g sm) = sh sm"
  by (simp_all add: enter_send_request_def upd_ifc_def frame_simps flow_kept_def Let_def split: option.split)

lemma final_moved [moved_simps]:
  "EAP_state (sm_EAP_TIMEOUT_FAILURE_Enter g sm) = EAP_TIMEOUT_FAILURE" "flow_kept sm (sm_EAP_TIMEOUT_FAILURE_Enter g sm)"
  "num_rounds (sm_EAP_TIMEOUT_FAILURE_Enter g sm) = num_rounds sm"
  "sm_method (sm_EAP_TIMEOUT_FAILURE_Enter g sm) = sm_method sm"
  "EAP_state (sm_EAP_FAILURE_Enter g sm) = EAP_FAILURE" "flow_kept sm (sm_EAP_FAILURE_Enter g sm)"
  "num_rounds (sm_EAP_FAILURE_Enter g sm) = num_rounds sm" "sm_method (sm_EAP_FAILURE_Enter g sm) = sm_method sm"
  "EAP_state (sm_EAP_SUCCESS_Enter g sm) = EAP_SUCCESS" "flow_kept sm (sm_EAP_SUCCESS_Enter g sm)"
  "num_rounds (sm_EAP_SUCCESS_Enter g sm) = num_rounds sm" "sm_method (sm_EAP_SUCCESS_Enter g sm) = sm_method sm"
  "EAP_state (sm_EAP_TIMEOUT_FAILURE2_Enter g sm) = EAP_TIMEOUT_FAILURE2"
  "flow_kept sm (sm_EAP_TIMEOUT_FAILURE2_Enter g sm)"
  "num_rounds (sm_EAP_TIMEOUT_FAILURE2_Enter g sm) = num_rounds sm"
  "sm_method (sm_EAP_TIMEOUT_FAILURE2_Enter g sm) = sm_method sm"
  "EAP_state (sm_EAP_FAILURE2_Enter g sm) = EAP_FAILURE2" "flow_kept sm (sm_EAP_FAILURE2_Enter g sm)"
  "num_rounds (sm_EAP_FAILURE2_Enter g sm) = num_rounds sm" "sm_method (sm_EAP_FAILURE2_Enter g sm) = sm_method sm"
  "EAP_state (sm_EAP_SUCCESS2_Enter g sm) = EAP_SUCCESS2" "flow_kept sm (sm_EAP_SUCCESS2_Enter g sm)"
  "num_rounds (sm_EAP_SUCCESS2_Enter g sm) = num_rounds sm" "sm_method (sm_EAP_SUCCESS2_Enter g sm) = sm_method sm"
  by (simp_all add: sm_EAP_TIMEOUT_FAILURE_Enter_def sm_EAP_FAILURE_Enter_def sm_EAP_SUCCESS_Enter_def
      sm_EAP_TIMEOUT_FAILURE2_Enter_def sm_EAP_FAILURE2_Enter_def sm_EAP_SUCCESS2_Enter_def
      upd_defs frame_simps flow_kept_def Let_def)

lemma passing_moved [moved_simps]:
  "EAP_state (sm_EAP_INITIALIZE_PASSTHROUGH_Enter g sm) = EAP_INITIALIZE_PASSTHROUGH"
  "flow_kept sm (sm_EAP_INITIALIZE_PASSTHROUGH_Enter g sm)"
  "num_rounds (sm_EAP_INITIALIZE_PASSTHROUGH_Enter g sm) = num_rounds sm"
  "sm_method (sm_EAP_INITIALIZE_PASSTHROUGH_Enter g sm) = sm_method sm"
  "EAP_state (sm_EAP_AAA_REQUEST_Enter g sm) = EAP_AAA_REQUEST" "flow_kept sm (sm_EAP_AAA_REQUEST_Enter g sm)"
  "num_rounds (sm_EAP_AAA_REQUEST_Enter g sm) = num_rounds sm" "sm_method (sm_EAP_AAA_REQUEST_Enter g sm) = sm_method sm"
  "EAP_state (sm_EAP_AAA_RESPONSE_Enter g sm) = EAP_AAA_RESPONSE" "flow_kept sm (sm_EAP_AAA_RESPONSE_Enter g sm)"
  "num_rounds (sm_EAP_AAA_RESPONSE_Enter g sm) = num_rounds sm" "sm_method (sm_EAP_AAA_RESPONSE_Enter g sm) = sm_method sm"
  "EAP_state (sm_EAP_AAA_IDLE_Enter g sm) = EAP_AAA_IDLE" "flow_kept sm (sm_EAP_AAA_IDLE_Enter g sm)"
  "num_rounds (sm_EAP_AAA_IDLE_Enter g sm) = num_rounds sm" "sm_method (sm_EAP_AAA_IDLE_Enter g sm) = sm_method sm"
  "\<not> aaaFail (sm_EAP_AAA_IDLE_Enter g sm)" "\<not> aaaSuccess (sm_EAP_AAA_IDLE_Enter g sm)"
  "EAP_state (sm_EAP_RECEIVED2_Enter g sm) = EAP_RECEIVED2" "flow_kept sm (sm_EAP_RECEIVED2_Enter g sm)"
  "num_rounds (sm_EAP_RECEIVED2_Enter g sm) = num_rounds sm" "sm_method (sm_EAP_RECEIVED2_Enter g sm) = sm_method sm"
  "EAP_state (sm_EAP_RECEIVED_Enter g sm) = EAP_RECEIVED" "flow_kept sm (sm_EAP_RECEIVED_Enter g sm)"
  "num_rounds (sm_EAP_RECEIVED_Enter g sm) = num_rounds sm + 1" "sm_method (sm_EAP_RECEIVED_Enter g sm) = sm_method sm"
  by (simp_all add: sm_EAP_INITIALIZE_PASSTHROUGH_Enter_def sm_EAP_AAA_REQUEST_Enter_def
      sm_EAP_AAA_RESPONSE_Enter_def sm_EAP_AAA_IDLE_Enter_def sm_EAP_RECEIVED2_Enter_def
      sm_EAP_RECEIVED_Enter_def upd_defs frame_simps flow_kept_def Let_def)

lemmas enter_plain_defs = sm_EAP_IDLE_Enter_def sm_EAP_RETRANSMIT_Enter_def sm_EAP_DISCARD_Enter_def
  sm_EAP_SEND_REQUEST_Enter_def sm_EAP_IDLE2_Enter_def sm_EAP_RETRANSMIT2_Enter_def
  sm_EAP_DISCARD2_Enter_def sm_EAP_SEND_REQUEST2_Enter_def

text \<open>The state and the method of the station afterwards decide the rank.\<close>

lemma rank_moved:
  assumes "flow_kept sm t" "portEnabled (eap_ifc sm)" "\<not> eapRestart (eap_ifc sm)"
    "num_rounds t \<le> EAP_MAX_AUTH_ROUNDS \<or> 1 < k" "state_rank t < k"
  shows "eap_rank t < k"
  using assms by (simp add: eap_rank_def flow_kept_def) linarith

context eap_methods_flow
begin

lemma RESPONSE_entered:
  assumes "sm_EAP_METHOD_RESPONSE_Enter env False sm = Ret t" "method_known ms sm"
  shows "entered EAP_METHOD_RESPONSE sm t" "sm_method t = sm_method sm"
    "method_pending (sh sm) \<noteq> METHOD_PENDING_CONT \<Longrightarrow> method_pending (sh t) \<noteq> METHOD_PENDING_CONT"
proof -
  obtain m p resp where m: "sm_method sm = Some m" "eap_method_priv sm = Some p" "eapRespData sm = Some resp"
    using assms(1)
    by (auto simp: sm_EAP_METHOD_RESPONSE_Enter_def Let_def frame_simps split: option.splits)
  obtain q s where q: "m_process m env resp p (sh sm) = (q, s)" by fastforce
  have t: "entered EAP_METHOD_RESPONSE sm t \<and> sm_method t = sm_method sm \<and> method_pending (sh t) = method_pending s"
    using assms(1) m q
    by (auto simp: sm_EAP_METHOD_RESPONSE_Enter_def Let_def entered_def frame_simps split: if_splits option.splits)
  then show "entered EAP_METHOD_RESPONSE sm t" "sm_method t = sm_method sm" by simp_all
  show "method_pending (sh t) \<noteq> METHOD_PENDING_CONT" if "method_pending (sh sm) \<noteq> METHOD_PENDING_CONT"
    using flow_process [OF _ that, of m env resp p] assms(2) m t q by (simp add: method_known_def)
qed

lemma REQUEST_entered:
  assumes "sm_EAP_METHOD_REQUEST_Enter env False sm = Ret t"
  shows "EAP_state t = EAP_METHOD_REQUEST" "flow_kept sm t" "num_rounds t = num_rounds sm"
    "eap_changed t" "sm_method t = sm_method sm"
  using assms
  by (auto simp: sm_EAP_METHOD_REQUEST_Enter_def Let_def flow_kept_def upd_ifc_def frame_simps
      split: option.splits prod.splits dest!: arg_cong [where f = snd])

lemma install_entered:
  assumes "m \<in> set ms"
  shows "EAP_state (install_method m r sm) = EAP_state sm" "eap_ifc (install_method m r sm) = eap_ifc sm"
    "num_rounds (install_method m r sm) = num_rounds sm" "eap_changed (install_method m r sm) = eap_changed sm"
    "method_known ms (install_method m r sm)" "sh (install_method m r sm) = snd r"
  using assms by (simp_all add: install_method_def method_known_def Let_def split: prod.split)

lemma reset_frame [frame_simps]:
  "EAP_state (reset_method sm) = EAP_state sm" "eap_ifc (reset_method sm) = eap_ifc sm"
  "num_rounds (reset_method sm) = num_rounds sm" "eap_changed (reset_method sm) = eap_changed sm"
  "sm_method (reset_method sm) = sm_method sm" "sh (reset_method sm) = sh sm"
  "currentMethod (reset_method sm) = currentMethod sm"
  by (simp_all add: reset_method_def)

lemma PROPOSE_entered:
  assumes "t = sm_EAP_PROPOSE_METHOD_Enter ms env False sm"
  shows "entered EAP_PROPOSE_METHOD sm t" "method_known ms t" "method_pending (sh t) = method_pending (sh sm)"
proof -
  obtain vendor type u where u: "eap_sm_Policy_getNextMethod (entry_EAP EAP_PROPOSE_METHOD False sm) = ((vendor, type), u)"
    by (metis surj_pair)
  note p = policy_onlyD [OF next_method_frame [of "entry_EAP EAP_PROPOSE_METHOD False sm"], unfolded u snd_conv]
  define v where "v = reset_method (u\<lparr>currentMethod := if vendor = EAP_VENDOR_IETF then type else EAP_TYPE_EXPANDED\<rparr>)"
  have v: "entered EAP_PROPOSE_METHOD sm v" "sh v = sh u" by (simp_all add: v_def frame_simps p entered_def)
  define w where "w = (case eap_server_get_eap_method ms vendor type of None \<Rightarrow> v\<lparr>sm_method := None\<rparr>
      | Some m \<Rightarrow> install_method m (m_init m env (sh v)) v)"
  have w: "entered EAP_PROPOSE_METHOD sm w \<and> method_known ms w \<and> method_pending (sh w) = method_pending (sh sm)"
    using v get_method_in [of ms vendor type]
    by (auto simp: w_def entered_def install_entered method_known_None flow_init p frame_simps
        split: option.split)
  have t: "t = (let x = w\<lparr>methodState := if currentMethod w = TYPE_IDENTITY \<or> currentMethod w = EAP_TYPE_NOTIFICATION
        then METHOD_CONTINUE else METHOD_PROPOSED\<rparr>
      in eap_event (EapProposedMethod (Some vendor) (currentMethod x)) x)"
    unfolding assms sm_EAP_PROPOSE_METHOD_Enter_def u Let_def prod.case v_def w_def ..
  show "entered EAP_PROPOSE_METHOD sm t" "method_known ms t" "method_pending (sh t) = method_pending (sh sm)"
    using w by (simp_all add: t upd_defs entered_def method_known_def Let_def)
qed

lemma PICK_UP_entered:
  assumes "method_known ms sm" "t = sm_EAP_PICK_UP_METHOD_Enter ms env False sm"
  shows "entered EAP_PICK_UP_METHOD sm t" "method_known ms t"
proof -
  define u where "u = reset_method ((entry_EAP EAP_PICK_UP_METHOD False sm)\<lparr>currentMethod := respMethod (entry_EAP EAP_PICK_UP_METHOD False sm)\<rparr>)"
  have u: "entered EAP_PICK_UP_METHOD sm u" by (simp add: u_def frame_simps entered_def)
  define v where "v = (case eap_server_get_eap_method ms EAP_VENDOR_IETF (currentMethod u) of
      None \<Rightarrow> u\<lparr>sm_method := None, currentMethod := EAP_TYPE_NONE\<rparr>
    | Some m \<Rightarrow> (case m_initPickUp m of None \<Rightarrow> u\<lparr>sm_method := None, currentMethod := EAP_TYPE_NONE\<rparr>
        | Some start \<Rightarrow> install_method m (start env (sh u)) u))"
  have v: "entered EAP_PICK_UP_METHOD sm v \<and> method_known ms v"
    using u get_method_in [of ms EAP_VENDOR_IETF "currentMethod u"]
    by (auto simp: v_def entered_def install_entered method_known_None split: option.split)
  have "t = (let w = (if eap_sm_Policy_doPickUp (respMethod (entry_EAP EAP_PICK_UP_METHOD False sm)) then v
        else entry_EAP EAP_PICK_UP_METHOD False sm)
      in eap_event (EapProposedMethod None (currentMethod w)) w)"
    unfolding assms(2) sm_EAP_PICK_UP_METHOD_Enter_def Let_def v_def u_def ..
  then show "entered EAP_PICK_UP_METHOD sm t" "method_known ms t"
    using v assms(1) by (simp_all add: upd_defs entered_def method_known_def frame_simps Let_def)
qed

lemma rank_entered:
  assumes "entered st sm t" "portEnabled (eap_ifc sm)" "\<not> eapRestart (eap_ifc sm)"
    "num_rounds sm \<le> EAP_MAX_AUTH_ROUNDS"
  shows "eap_rank t = state_rank t" "EAP_state t = st"
  using assms by (simp_all add: entered_def eap_rank_def)

text \<open>The transitions between the states that call nothing.\<close>

lemma plain_step_rank:
  assumes step: "eap_state_step ms env sm = Ret t" and ch: "eap_changed t" "\<not> eap_changed sm"
    and known: "method_known ms sm"
    and en: "portEnabled (eap_ifc sm)" "\<not> eapRestart (eap_ifc sm)" "num_rounds sm \<le> EAP_MAX_AUTH_ROUNDS"
    and st: "EAP_state sm \<notin> {EAP_DISABLED, EAP_INITIALIZE, EAP_PICK_UP_METHOD, EAP_RECEIVED, EAP_INTEGRITY_CHECK,
      EAP_METHOD_RESPONSE, EAP_PROPOSE_METHOD, EAP_SELECT_ACTION, EAP_NAK}"
  shows "eap_rank t < state_rank sm \<and> method_known ms t"
proof -
  have rank: "flow_kept sm t \<and> sm_method t = sm_method sm \<and>
      (num_rounds t = num_rounds sm \<or> num_rounds t = num_rounds sm + 1 \<and> 1 < state_rank sm) \<and>
      state_rank t < state_rank sm"
  proof (cases "EAP_state sm")
    case EAP_IDLE
    then have "t = enter_retransmit EAP_RETRANSMIT False sm \<and> retransWhile (eap_ifc sm) = 0 \<or> t = sm_EAP_RECEIVED_Enter False sm \<and> eapResp (eap_ifc sm) \<or> t = sm"
      using step by (simp add: eap_state_step_def enter_plain_defs split: if_splits)
    then show ?thesis using ch by (elim disjE) (simp_all add: moved_simps state_rank_def EAP_IDLE Let_def)
  next
    case EAP_METHOD_REQUEST
    then have "t = enter_send_request EAP_SEND_REQUEST False sm"
      using step by (simp add: eap_state_step_def enter_plain_defs split: if_splits)
    then show ?thesis using ch by (simp_all add: moved_simps state_rank_def EAP_METHOD_REQUEST Let_def)
  next
    case EAP_SEND_REQUEST
    then have "t = enter_idle EAP_IDLE False sm"
      using step by (simp add: eap_state_step_def enter_plain_defs split: if_splits)
    then show ?thesis using ch by (simp_all add: moved_simps state_rank_def EAP_SEND_REQUEST Let_def)
  next
    case EAP_DISCARD
    then have "t = enter_idle EAP_IDLE False sm"
      using step by (simp add: eap_state_step_def enter_plain_defs split: if_splits)
    then show ?thesis using ch by (simp_all add: moved_simps state_rank_def EAP_DISCARD Let_def)
  next
    case EAP_RETRANSMIT
    then have "t = sm_EAP_TIMEOUT_FAILURE_Enter False sm \<or> t = enter_idle EAP_IDLE False sm"
      using step by (simp add: eap_state_step_def enter_plain_defs split: if_splits)
    then show ?thesis using ch by (elim disjE) (simp_all add: moved_simps state_rank_def EAP_RETRANSMIT Let_def)
  next
    case EAP_INITIALIZE_PASSTHROUGH
    then have "t = sm_EAP_AAA_IDLE_Enter False sm \<or> t = sm_EAP_AAA_REQUEST_Enter False sm"
      using step by (simp add: eap_state_step_def enter_plain_defs split: if_splits)
    then show ?thesis using ch by (elim disjE) (simp_all add: moved_simps state_rank_def EAP_INITIALIZE_PASSTHROUGH Let_def)
  next
    case EAP_IDLE2
    then have "t = sm_EAP_RECEIVED2_Enter False sm \<and> eapResp (eap_ifc sm) \<or> t = enter_retransmit EAP_RETRANSMIT2 False sm \<and> retransWhile (eap_ifc sm) = 0 \<or> t = sm"
      using step by (simp add: eap_state_step_def enter_plain_defs split: if_splits)
    then show ?thesis using ch by (elim disjE) (simp_all add: moved_simps state_rank_def EAP_IDLE2 Let_def)
  next
    case EAP_RETRANSMIT2
    then have "t = sm_EAP_TIMEOUT_FAILURE2_Enter False sm \<or> t = enter_idle EAP_IDLE2 False sm"
      using step by (simp add: eap_state_step_def enter_plain_defs split: if_splits)
    then show ?thesis using ch by (elim disjE) (simp_all add: moved_simps state_rank_def EAP_RETRANSMIT2 Let_def)
  next
    case EAP_RECEIVED2
    then have "t = sm_EAP_AAA_REQUEST_Enter False sm \<or> t = enter_discard EAP_DISCARD2 False sm"
      using step by (simp add: eap_state_step_def enter_plain_defs split: if_splits)
    then show ?thesis using ch by (elim disjE) (simp_all add: moved_simps state_rank_def EAP_RECEIVED2 Let_def)
  next
    case EAP_DISCARD2
    then have "t = enter_idle EAP_IDLE2 False sm"
      using step by (simp add: eap_state_step_def enter_plain_defs split: if_splits)
    then show ?thesis using ch by (simp_all add: moved_simps state_rank_def EAP_DISCARD2 Let_def)
  next
    case EAP_SEND_REQUEST2
    then have "t = enter_idle EAP_IDLE2 False sm"
      using step by (simp add: eap_state_step_def enter_plain_defs split: if_splits)
    then show ?thesis using ch by (simp_all add: moved_simps state_rank_def EAP_SEND_REQUEST2 Let_def)
  next
    case EAP_AAA_REQUEST
    then have "t = sm_EAP_AAA_IDLE_Enter False sm"
      using step by (simp add: eap_state_step_def enter_plain_defs split: if_splits)
    then show ?thesis using ch by (simp_all add: moved_simps state_rank_def EAP_AAA_REQUEST Let_def)
  next
    case EAP_AAA_RESPONSE
    then have "t = enter_send_request EAP_SEND_REQUEST2 False sm"
      using step by (simp add: eap_state_step_def enter_plain_defs split: if_splits)
    then show ?thesis using ch by (simp_all add: moved_simps state_rank_def EAP_AAA_RESPONSE Let_def)
  next
    case EAP_AAA_IDLE
    then have "t = sm \<or> t = sm_EAP_FAILURE2_Enter False sm \<and> aaaFail sm \<or>
        t = sm_EAP_SUCCESS2_Enter False sm \<and> aaaSuccess sm \<or> t = sm_EAP_AAA_RESPONSE_Enter False sm \<and> aaaEapReq sm \<or>
        t = sm_EAP_TIMEOUT_FAILURE2_Enter False sm \<and> aaaTimeout sm"
      using step by (simp split: if_splits add: eap_state_step_def enter_plain_defs)
    then show ?thesis using ch by (elim disjE) (simp_all add: moved_simps state_rank_def EAP_AAA_IDLE Let_def)
  qed (use step ch st in \<open>simp_all add: eap_state_step_def\<close>)
  then show ?thesis using rank_moved [of sm t "state_rank sm"] en known by (auto simp: method_known_def)
qed

lemma state_step_rank:
  assumes "eap_state_step ms env sm = Ret t" "eap_changed t" "\<not> eap_changed sm" "method_known ms sm"
    and en: "portEnabled (eap_ifc sm)" "\<not> eapRestart (eap_ifc sm)" "num_rounds sm \<le> EAP_MAX_AUTH_ROUNDS"
  shows "eap_rank t < state_rank sm \<and> method_known ms t"
proof -
  have sel: ?thesis if "sm_EAP_SELECT_ACTION_Enter env False sm = Ret t" "9 < state_rank sm"
    using rank_entered [OF SELECT_entered(1) [OF that(1)] en] SELECT_entered(2) [OF that(1)] assms(4) that(2)
    by (simp add: state_rank_def method_known_def)
  have resp: ?thesis if "sm_EAP_METHOD_RESPONSE_Enter env False sm = Ret t" "11 < state_rank sm"
    using rank_entered [OF RESPONSE_entered(1) [OF that(1) assms(4)] en]
      RESPONSE_entered(2) [OF that(1) assms(4)] assms(4) that(2)
    by (simp add: state_rank_def method_known_def)
  have nak: ?thesis if "sm_EAP_NAK_Enter False sm = Ret t" "12 < state_rank sm"
    using rank_entered [OF NAK_entered(1) [OF that(1)] en] NAK_entered(2) [OF that(1)] that(2)
    by (simp add: state_rank_def method_known_def)
  have req: ?thesis if "sm_EAP_METHOD_REQUEST_Enter env False sm = Ret t" "6 < state_rank sm"
    using REQUEST_entered [OF that(1)] en assms(4) that(2)
    by (simp add: state_rank_def method_known_def eap_rank_def flow_kept_def)
  have propose: ?thesis if "t = sm_EAP_PROPOSE_METHOD_Enter ms env False v" "eap_ifc v = eap_ifc sm"
      "num_rounds v = num_rounds sm"
      "(if method_pending (sh v) = METHOD_PENDING_CONT then 8 else 7) < state_rank sm" for v
    using PROPOSE_entered [OF that(1)] rank_entered [OF PROPOSE_entered(1) [OF that(1)]] en that(2-4)
    by (simp add: state_rank_def)
  have disc: ?thesis if "t = sm_EAP_DISCARD_Enter False sm" "12 < state_rank sm"
    using that assms(4) rank_moved [of sm t "state_rank sm"] en
    by (simp add: sm_EAP_DISCARD_Enter_def moved_simps state_rank_def method_known_def)
  show ?thesis
  proof (cases "EAP_state sm")
    case EAP_DISABLED
    then have t: "t = sm_EAP_INITIALIZE_Enter False sm" using assms(1) en by (simp add: eap_state_step_def)
    show ?thesis using INITIALIZE_flow(1-5) [of False sm] en EAP_DISABLED
      by (simp add: t eap_rank_def state_rank_def EAP_MAX_AUTH_ROUNDS_def method_known_None)
  next
    case EAP_INITIALIZE
    then have r: "state_rank sm = 16" by (simp add: state_rank_def)
    have pick: ?thesis if "t = sm_EAP_PICK_UP_METHOD_Enter ms env False sm"
      using PICK_UP_entered [OF assms(4) that] rank_entered [OF PICK_UP_entered(1) [OF assms(4) that] en] r
      by (simp add: state_rank_def)
    show ?thesis using assms(1) sel nak pick r by (simp add: eap_state_step_def EAP_INITIALIZE split: if_splits)
  next
    case EAP_PICK_UP_METHOD
    then have r: "state_rank sm = 15" by (simp add: state_rank_def)
    show ?thesis using assms(1) sel resp r by (simp add: eap_state_step_def EAP_PICK_UP_METHOD split: if_splits)
  next
    case EAP_RECEIVED
    then have r: "state_rank sm = 14" by (simp add: state_rank_def)
    have chk: ?thesis if "sm_EAP_INTEGRITY_CHECK_Enter False sm = Ret t"
      using rank_entered [OF INTEGRITY_entered(1) [OF that] en] INTEGRITY_entered(2) [OF that] assms(4) r
      by (simp add: state_rank_def method_known_def)
    show ?thesis using assms(1) nak chk disc r by (simp add: eap_state_step_def EAP_RECEIVED split: if_splits)
  next
    case EAP_INTEGRITY_CHECK
    then have r: "state_rank sm = 13" by (simp add: state_rank_def)
    show ?thesis using assms(1) resp disc r by (simp add: eap_state_step_def EAP_INTEGRITY_CHECK split: if_splits)
  next
    case EAP_METHOD_RESPONSE
    then have r: "state_rank sm = (if method_pending (sh sm) = METHOD_PENDING_CONT then 11 else 10)"
      by (simp add: state_rank_def)
    define v where "v = upd_sh (\<lambda>s. s\<lparr>method_pending := METHOD_PENDING_NONE\<rparr>) sm"
    have v: "method_known ms v" "eap_ifc v = eap_ifc sm" "num_rounds v = num_rounds sm" "sm_method v = sm_method sm"
      "method_pending (sh v) = METHOD_PENDING_NONE" using assms(4) by (simp_all add: v_def upd_sh_def method_known_def)
    have cont: ?thesis if "sm_EAP_METHOD_RESPONSE_Enter env False v = Ret t" "method_pending (sh sm) = METHOD_PENDING_CONT"
      using rank_entered [OF RESPONSE_entered(1) [OF that(1) v(1)]] RESPONSE_entered(2,3) [OF that(1) v(1)] en v r that(2)
        assms(4) by (simp add: state_rank_def method_known_def)
    show ?thesis using assms(1-3) sel cont req r
      by (cases "method_pending (sh sm)")
        (simp_all add: eap_state_step_def EAP_METHOD_RESPONSE v_def split: if_splits)
  next
    case EAP_PROPOSE_METHOD
    then have r: "state_rank sm = (if method_pending (sh sm) = METHOD_PENDING_CONT then 8 else 7)"
      by (simp add: state_rank_def)
    define v where "v = upd_sh (\<lambda>s. s\<lparr>method_pending := METHOD_PENDING_NONE\<rparr>) sm"
    have v: "eap_ifc v = eap_ifc sm" "num_rounds v = num_rounds sm"
      "method_pending (sh v) = METHOD_PENDING_NONE" by (simp_all add: v_def upd_sh_def)
    show ?thesis using assms(1-3) propose [of v] v req r
      by (cases "method_pending (sh sm)")
        (simp_all add: eap_state_step_def EAP_PROPOSE_METHOD v_def [symmetric], auto simp: upd_sh_def)
  next
    case EAP_SELECT_ACTION
    then have r: "state_rank sm = 9" by (simp add: state_rank_def)
    have prop': ?thesis if "t = sm_EAP_PROPOSE_METHOD_Enter ms env False sm"
      using propose [OF that] r by (simp split: if_splits)
    have leaf: ?thesis if "flow_kept sm t" "sm_method t = sm_method sm" "num_rounds t = num_rounds sm" "state_rank t < 9"
      using rank_moved [of sm t 9] that en assms(4) r by (simp add: method_known_def)
    have "t = sm_EAP_PROPOSE_METHOD_Enter ms env False sm \<or> t = sm_EAP_FAILURE_Enter False sm \<or>
        t = sm_EAP_SUCCESS_Enter False sm \<or> t = sm_EAP_INITIALIZE_PASSTHROUGH_Enter False sm"
      using assms(1) by (cases "decision sm") (simp_all add: eap_state_step_def EAP_SELECT_ACTION)
    then show ?thesis
    proof (elim disjE)
      show ?thesis if "t = sm_EAP_PROPOSE_METHOD_Enter ms env False sm" using prop' [OF that] .
    qed (rule leaf; simp add: moved_simps state_rank_def)+
  next
    case EAP_NAK
    then have r: "state_rank sm = 12" by (simp add: state_rank_def)
    show ?thesis using assms(1) sel r by (simp add: eap_state_step_def EAP_NAK)
  qed (use plain_step_rank [OF assms] in simp_all)
qed

lemma step_rank:
  assumes "sm_EAP_Step ms env (sm\<lparr>eap_changed := False\<rparr>) = Ret t" "eap_changed t" "method_known ms sm"
  shows "eap_rank t < eap_rank sm \<and> method_known ms t"
proof -
  let ?s = "sm\<lparr>eap_changed := False\<rparr>"
  have same: "eap_rank ?s = eap_rank sm" "state_rank ?s = state_rank sm" "method_known ms ?s"
    using assms(3) by (simp_all add: eap_rank_def state_rank_def method_known_def)
  consider "eapRestart (eap_ifc sm)" "portEnabled (eap_ifc sm)" "t = sm_EAP_INITIALIZE_Enter True ?s"
    | "\<not> portEnabled (eap_ifc sm)" "t = sm_EAP_DISABLED_Enter True ?s"
    | "portEnabled (eap_ifc sm)" "\<not> eapRestart (eap_ifc sm)" "num_rounds sm > EAP_MAX_AUTH_ROUNDS"
      "num_rounds sm = EAP_MAX_AUTH_ROUNDS + 1" "t = sm_EAP_FAILURE_Enter True (?s\<lparr>num_rounds := num_rounds sm + 1\<rparr>)"
    | "portEnabled (eap_ifc sm)" "\<not> eapRestart (eap_ifc sm)" "num_rounds sm \<le> EAP_MAX_AUTH_ROUNDS"
      "eap_state_step ms env ?s = Ret t"
    using assms(1,2) by (auto simp: sm_EAP_Step_def split: if_splits)
  then show ?thesis
  proof cases
    case 1
    then show ?thesis using INITIALIZE_flow(1-5) [of True ?s]
      by (simp add: eap_rank_def state_rank_def EAP_MAX_AUTH_ROUNDS_def method_known_None)
  next
    case 2
    then show ?thesis using assms(2,3)
      by (auto simp: eap_rank_def sm_EAP_DISABLED_Enter_def frame_simps method_known_def)
  next
    case 3
    then show ?thesis using assms(3)
      by (simp add: eap_rank_def sm_EAP_FAILURE_Enter_def upd_defs frame_simps Let_def method_known_def)
  next
    case 4
    then show ?thesis using state_step_rank [OF 4(4) assms(2) _ same(3)] same by (simp add: eap_rank_def)
  qed
qed

lemma step_loop_returns:
  assumes "method_known ms sm" "eap_rank sm < n"
  shows "eap_step_loop n ms env res sm \<noteq> OutOfRounds" "eap_step_loop n ms env res sm = eap_step_loop (n + k) ms env res sm"
proof -
  note plain = step_not_out [of ms env]
  have "eap_step_loop n ms env res sm \<noteq> OutOfRounds \<and>
      eap_step_loop n ms env res sm = eap_step_loop (n + k) ms env res sm" for res
    using assms
  proof (induction n arbitrary: sm res)
    case (Suc n)
    show ?case
    proof (cases "sm_EAP_Step ms env (sm\<lparr>eap_changed := False\<rparr>)")
      case (Ret t)
      show ?thesis
      proof (cases "eap_changed t")
        case True
        then have "eap_rank t < n" "method_known ms t" using step_rank [OF Ret True Suc.prems(1)] Suc.prems(2) by auto
        then show ?thesis using Suc.IH [of t True] Ret True by auto
      qed (simp add: Ret)
    qed (use plain [of "sm\<lparr>eap_changed := False\<rparr>"] in simp_all)
  qed simp
  then show "eap_step_loop n ms env res sm \<noteq> OutOfRounds"
    "eap_step_loop n ms env res sm = eap_step_loop (n + k) ms env res sm" by blast+
qed

end

end
