(* ===== verification/EapSafe.thy ===== *)
theory EapSafe
  imports EapFlow
begin

text \<open>
  A server that is well formed stays well formed and meets no fault: every state finds what it
  dereferences. The laws that this needs of the methods are in \<open>eap_methods_sound\<close>; they hold for
  the methods of \<open>EapMethods\<close>.
\<close>

subsection \<open>Well-formed servers\<close>

text \<open>The methods of a user are the eight of the array and every entry that is used is registered.\<close>

definition user_ok :: "'p eap_method list \<Rightarrow> eap_user \<Rightarrow> bool" where
  "user_ok ms u \<longleftrightarrow> length (eu_methods u) = EAP_MAX_METHODS \<and>
     (\<forall>x \<in> set (eu_methods u). x = no_eap_method \<or> eap_server_get_eap_method ms (fst x) (snd x) \<noteq> None)"

definition shared_ok :: "'p eap_method list \<Rightarrow> eap_shared \<Rightarrow> bool" where
  "shared_ok ms s \<longleftrightarrow> (\<forall>u. eap_usr s = Some u \<longrightarrow> user_ok ms u)"

text \<open>What holds in every state.\<close>

definition base_ok :: "'p eap_method list \<Rightarrow> 'p eap_sm \<Rightarrow> bool" where
  "base_ok ms sm \<longleftrightarrow> method_known ms sm \<and> (sm_method sm = None \<longleftrightarrow> eap_method_priv sm = None) \<and>
     shared_ok ms (sh sm) \<and> -1 \<le> currentId sm \<and> currentId sm \<le> 255 \<and>
     0 \<le> num_rounds sm \<and> num_rounds sm \<le> EAP_MAX_AUTH_ROUNDS + 2"

text \<open>The flags of a response that was read tell about the response that is there.\<close>

definition parsed :: "'p eap_sm \<Rightarrow> bool" where
  "parsed sm \<longleftrightarrow> (rxResp sm \<longrightarrow>
     (\<exists>resp. eapRespData sm = Some resp \<and> (resp_is_nak sm \<longrightarrow> nak_types resp \<noteq> Fault)))"

definition no_pending :: "'p eap_sm \<Rightarrow> bool" where
  "no_pending sm \<longleftrightarrow> method_pending (sh sm) = METHOD_PENDING_NONE"

definition state_ok :: "'p eap_sm \<Rightarrow> bool" where
  "state_ok sm \<longleftrightarrow>
     (let method = (sm_method sm \<noteq> None); resp = (eapRespData sm \<noteq> None) in
      case EAP_state sm of
        EAP_INITIALIZE \<Rightarrow> no_pending sm \<and> \<not> method \<and> \<not> eapRestart (eap_ifc sm) \<and>
          (backend_auth sm \<longrightarrow> parsed sm \<and> currentMethod sm = EAP_TYPE_NONE)
      | EAP_PICK_UP_METHOD \<Rightarrow> no_pending sm \<and> (currentMethod sm \<noteq> EAP_TYPE_NONE \<longrightarrow> method \<and> resp)
      | EAP_SELECT_ACTION \<Rightarrow> no_pending sm \<and> (decision sm = DECISION_CONTINUE \<longrightarrow>
          eap_identity (sh sm) = None \<or> currentId sm = -1 \<or> method_at (sh sm) \<noteq> None)
      | EAP_NAK \<Rightarrow> no_pending sm
      | EAP_METHOD_RESPONSE \<Rightarrow> method \<and> resp \<and> (methodState sm = METHOD_END \<longrightarrow> no_pending sm)
      | EAP_RECEIVED \<Rightarrow> no_pending sm \<and> method \<and> parsed sm
      | EAP_INTEGRITY_CHECK \<Rightarrow> no_pending sm \<and> method \<and> resp
      | st \<Rightarrow> st \<in> {EAP_PROPOSE_METHOD, EAP_METHOD_REQUEST, EAP_SEND_REQUEST, EAP_IDLE, EAP_RETRANSMIT, EAP_DISCARD}
          \<longrightarrow> no_pending sm \<and> method)"

text \<open>The states in which a call can end; a method waits only for pending work.\<close>

definition settled :: "'p eap_sm \<Rightarrow> bool" where
  "settled sm \<longleftrightarrow> EAP_state sm = EAP_METHOD_RESPONSE \<and> \<not> no_pending sm \<or>
     EAP_state sm \<in> {EAP_DISABLED, EAP_IDLE, EAP_SUCCESS, EAP_FAILURE, EAP_TIMEOUT_FAILURE, EAP_AAA_IDLE,
       EAP_IDLE2, EAP_TIMEOUT_FAILURE2, EAP_FAILURE2, EAP_SUCCESS2}"

definition eap_ok :: "'p eap_method list \<Rightarrow> 'p eap_sm \<Rightarrow> bool" where
  "eap_ok ms sm \<longleftrightarrow> base_ok ms sm \<and> state_ok sm \<and> (num_rounds sm > EAP_MAX_AUTH_ROUNDS + 1 \<longrightarrow> settled sm)"

text \<open>A state whose entry returns a well-formed server.\<close>

definition sound :: "'p eap_method list \<Rightarrow> 'p eap_sm outcome \<Rightarrow> bool" where
  "sound ms r \<longleftrightarrow> (\<exists>t. r = Ret t \<and> eap_ok ms t)"

lemma sound_Ret [simp]: "sound ms (Ret t) \<longleftrightarrow> eap_ok ms t"
  by (simp add: sound_def)

text \<open>The rounds that are left for a state of the conversation.\<close>

definition rounds_left :: "'p eap_sm \<Rightarrow> bool" where
  "rounds_left sm \<longleftrightarrow> num_rounds sm \<le> EAP_MAX_AUTH_ROUNDS"

lemma eap_okI:
  "base_ok ms sm \<Longrightarrow> state_ok sm \<Longrightarrow> num_rounds sm \<le> EAP_MAX_AUTH_ROUNDS + 1 \<Longrightarrow> eap_ok ms sm"
  by (simp add: eap_ok_def)

lemma base_okI:
  "base_ok ms sm \<Longrightarrow> sm_method t = sm_method sm \<Longrightarrow> eap_method_priv t = eap_method_priv sm \<Longrightarrow>
   shared_ok ms (sh t) \<Longrightarrow> currentId t = currentId sm \<Longrightarrow> num_rounds t = num_rounds sm \<Longrightarrow> base_ok ms t"
  by (simp add: base_ok_def method_known_def)

lemma base_okD:
  assumes "base_ok ms sm"
  shows "method_known ms sm" "shared_ok ms (sh sm)" "-1 \<le> currentId sm" "currentId sm \<le> 255"
    "sm_method sm = None \<longleftrightarrow> eap_method_priv sm = None" "sm_method sm = Some m \<Longrightarrow> m \<in> set ms"
    "0 \<le> num_rounds sm" "num_rounds sm \<le> EAP_MAX_AUTH_ROUNDS + 2"
  using assms by (simp_all add: base_ok_def method_known_def)

lemma shared_ok_upd [simp]:
  "shared_ok ms (s\<lparr>update_user := b\<rparr>) = shared_ok ms s"
  "shared_ok ms (s\<lparr>user_eap_method_index := i\<rparr>) = shared_ok ms s"
  "shared_ok ms (s\<lparr>method_pending := x\<rparr>) = shared_ok ms s"
  "shared_ok ms (s\<lparr>eap_identity := a\<rparr>) = shared_ok ms s"
  "shared_ok ms (s\<lparr>eap_log := l\<rparr>) = shared_ok ms s"
  by (simp_all add: shared_ok_def)

subsection \<open>The user\<close>

lemma remove_method_set: "set (remove_method i xs) \<subseteq> insert no_eap_method (set xs)"
  by (auto simp: remove_method_def dest: in_set_takeD in_set_dropD)

lemma nak_loop_ok:
  "length (process_nak_loop l i xs) = length xs \<and> set (process_nak_loop l i xs) \<subseteq> insert no_eap_method (set xs)"
proof (induction l i xs rule: process_nak_loop.induct)
  case (1 l i xs)
  show ?case
  proof (cases "i < length xs \<and> xs ! i \<noteq> no_eap_method")
    case False
    then show ?thesis by (subst (1 2) process_nak_loop.simps) auto
  next
    case i: True
    show ?thesis
    proof (cases "fst (xs ! i) = EAP_VENDOR_IETF \<and> snd (xs ! i) \<in> set (map ucast l)")
      case True
      then show ?thesis using 1(1) i by (subst (1 2) process_nak_loop.simps) simp
    next
      case False
      then have "process_nak_loop l i xs = process_nak_loop l i (remove_method i xs)"
        using i by (subst process_nak_loop.simps) auto
      then show ?thesis using 1(2) [OF i False] remove_method_set [of i xs] i
        by (auto simp: remove_method_def)
    qed
  qed
qed

lemma nak_user_ok: "shared_ok ms s \<Longrightarrow> shared_ok ms (eap_sm_process_nak l s)"
  using nak_loop_ok by (force simp: shared_ok_def user_ok_def eap_sm_process_nak_def split: option.split)

lemma policy_update_ok: "shared_ok ms (sh sm) \<Longrightarrow> shared_ok ms (sh (eap_sm_Policy_update l sm))"
  by (simp add: eap_sm_Policy_update_def upd_sh_def nak_user_ok split: option.split)

lemma method_at_registered:
  assumes "shared_ok ms s" "method_at s = Some x" shows "eap_server_get_eap_method ms (fst x) (snd x) \<noteq> None"
  using assms nth_mem by (fastforce simp: shared_ok_def user_ok_def method_at_def split: option.splits if_splits)

text \<open>The answers of the rest of the program: users of registered methods only.\<close>

definition env_ok :: "'p eap_method list \<Rightarrow> eap_env \<Rightarrow> bool" where
  "env_ok ms env \<longleftrightarrow> (\<forall>i phase2 u. env_get_user env i phase2 = Some u \<longrightarrow> user_ok ms u)"

lemma user_get_ok: "env_ok ms env \<Longrightarrow> shared_ok ms (snd (eap_user_get env i ph s))"
  by (simp add: eap_user_get_def env_ok_def shared_ok_def add_log_def Let_def split: option.split)

lemma decide_next_ok:
  "fst (decide_next sm) = DECISION_CONTINUE \<Longrightarrow>
     eap_identity (sh sm) = None \<or> currentId sm = -1 \<or> method_at (sh sm) \<noteq> None"
  "fst (decide_next sm) \<noteq> DECISION_SUCCESS" "fst (decide_next sm) \<noteq> DECISION_PASSTHROUGH" "sh (snd (decide_next sm)) = sh sm"
  by (auto simp: decide_next_def Let_def split: if_splits)

definition decided :: "'p eap_method list \<Rightarrow> eap_decision \<times> 'p eap_sm \<Rightarrow> bool" where
  "decided ms r \<longleftrightarrow> shared_ok ms (sh (snd r)) \<and>
     (fst r = DECISION_CONTINUE \<longrightarrow> eap_identity (sh (snd r)) = None \<or> currentId (snd r) = -1 \<or>
        method_at (sh (snd r)) \<noteq> None)"

lemma decide_next_decided: "shared_ok ms (sh sm) \<Longrightarrow> decided ms (decide_next sm)"
  by (simp add: decided_def decide_next_def Let_def)

lemma decide_user_decided:
  assumes "env_ok ms env" "shared_ok ms (sh sm)" shows "decided ms (decide_user env sm)"
proof -
  have "decided ms (let id_req = q; (found, s) = eap_user_get env i False (sh sm); sm = sm\<lparr>sh := s\<rparr>
      in if \<not> found then (DECISION_FAILURE, sm)
         else if id_req \<and> identity_first (sh sm)
         then (DECISION_FAILURE, upd_sh (\<lambda>s. s\<lparr>update_user := True\<rparr>) sm)
         else decide_next (upd_sh (\<lambda>s. s\<lparr>update_user := False\<rparr>) sm))" for i q
  proof -
    obtain found s where r: "eap_user_get env i False (sh sm) = (found, s)" by fastforce
    have s: "shared_ok ms s" using user_get_ok [OF assms(1), of i False "sh sm"] r by simp
    then have "decided ms (decide_next (upd_sh (\<lambda>s. s\<lparr>update_user := False\<rparr>) (sm\<lparr>sh := s\<rparr>)))"
      by (intro decide_next_decided) (simp add: upd_sh_def)
    then show ?thesis using s by (simp add: r decided_def upd_sh_def Let_def)
  qed
  then show ?thesis
    using decide_next_decided [OF assms(2)] by (simp add: decide_user_def Let_def split: option.split)
qed

lemma decision_sound:
  assumes "env_ok ms env" "base_ok ms sm"
  obtains d t where "eap_sm_Policy_getDecision env sm = Ret (d, t)" "decided ms (d, t)" "policy_only sm t"
proof -
  define u where "u = upd_sh (\<lambda>s. s\<lparr>update_user := True\<rparr>) sm"
  have up: "shared_ok ms (sh u)" "shared_ok ms (sh sm)"
    using assms(2) by (simp_all add: base_ok_def u_def upd_sh_def)
  have leaf: "decided ms (DECISION_PASSTHROUGH, sm)" "decided ms (DECISION_SUCCESS, u)" "decided ms (DECISION_FAILURE, u)"
    "decided ms (decide_user env sm)"
    using up decide_user_decided [OF assms(1) up(2)] by (simp_all add: decided_def)
  have "\<exists>r. eap_sm_Policy_getDecision env sm = Ret r \<and> decided ms r"
  proof (cases "sm_method sm")
    case (Some m)
    then obtain p where "eap_method_priv sm = Some p" using assms(2) by (auto simp: base_ok_def)
    then show ?thesis using leaf Some
      by (simp add: eap_sm_Policy_getDecision_def Let_def u_def del: split_paired_Ex)
  qed (use leaf in \<open>simp add: eap_sm_Policy_getDecision_def del: split_paired_Ex\<close>)
  then show ?thesis using that decision_frame [of env sm] by (metis surj_pair)
qed

subsection \<open>Reading a response\<close>

lemma parse_parsed: "parsed (eap_sm_parseEapResp sm)"
proof (cases "eapRespData sm")
  case None
  then show ?thesis by (simp add: parsed_def eap_sm_parseEapResp_def Let_def)
next
  case (Some resp)
  have "nak_types resp \<noteq> Fault" if "eap_length resp > 4" "eap_length resp \<le> length resp"
    using that by (simp add: nak_types_def Let_def)
  then show ?thesis using Some
    by (auto simp: parsed_def eap_sm_parseEapResp_def parse_resp_type_def resp_is_nak_def eap_type_defs Let_def)
qed

lemma parse_id: "-1 \<le> respId (eap_sm_parseEapResp sm)" "respId (eap_sm_parseEapResp sm) \<le> 255"
proof -
  have u: "uint (b::u8) \<le> 255" for b using uint_lt2p [of b] by simp
  show "-1 \<le> respId (eap_sm_parseEapResp sm)" "respId (eap_sm_parseEapResp sm) \<le> 255"
    using order_trans [OF _ uint_ge_0, of "-1"]
    by (auto simp: eap_sm_parseEapResp_def parse_resp_type_def Let_def u split: option.split)
qed

lemma and_255: "0 \<le> x AND (255::int)" "x AND (255::int) \<le> 255"
  by (simp_all add: AND_upper2)

lemma next_id_bounds:
  assumes "eap_sm_nextId env sm = (i, t)" shows "0 \<le> i" "i \<le> 255"
  using assms and_255 by (auto simp: eap_sm_nextId_def Let_def split: if_splits)

lemma get_id_bounds: "-1 \<le> eap_sm_getId data" "eap_sm_getId data \<le> 255"
proof -
  have u: "uint (b::u8) \<le> 255" for b using uint_lt2p [of b] by simp
  show "-1 \<le> eap_sm_getId data" "eap_sm_getId data \<le> 255"
    using order_trans [OF _ uint_ge_0, of "-1"] by (auto simp: eap_sm_getId_def u split: option.split)
qed

subsection \<open>The states\<close>

lemma INITIALIZE_sound: "base_ok ms sm \<Longrightarrow> eap_ok ms (sm_EAP_INITIALIZE_Enter g sm)"
proof -
  assume b: "base_ok ms sm"
  define u where "u = upd_sh (\<lambda>s. s\<lparr>user_eap_method_index := 0\<rparr>) ((reset_method (upd_ifc (\<lambda>i. i\<lparr>eapSuccess := False,
      eapFail := False, eapTimeout := False, eapKeyAvailable := False, eapRestart := False\<rparr>)
      ((entry_EAP EAP_INITIALIZE g sm)\<lparr>currentId := -1, eapKeyData := None\<rparr>)))\<lparr>sm_method := None\<rparr>)"
  have u: "EAP_state u = EAP_INITIALIZE" "sm_method u = None" "eap_method_priv u = None" "shared_ok ms (sh u)"
    "currentId u = -1" "backend_auth u = backend_auth sm" "\<not> eapRestart (eap_ifc u)"
    using b by (auto simp: u_def upd_defs frame_simps reset_method_def base_ok_def)
  define v where "v = (if backend_auth u then let x = eap_sm_parseEapResp (u\<lparr>currentMethod := EAP_TYPE_NONE\<rparr>)
      in if rxResp x then x\<lparr>currentId := respId x\<rparr> else x else u)"
  have v: "EAP_state v = EAP_INITIALIZE" "sm_method v = None" "eap_method_priv v = None" "shared_ok ms (sh v)"
    "-1 \<le> currentId v" "currentId v \<le> 255" "backend_auth v \<Longrightarrow> parsed v \<and> currentMethod v = EAP_TYPE_NONE" "\<not> eapRestart (eap_ifc v)"
    using u parse_parsed [of "u\<lparr>currentMethod := EAP_TYPE_NONE\<rparr>"] parse_id [of "u\<lparr>currentMethod := EAP_TYPE_NONE\<rparr>"]
    by (auto simp: v_def frame_simps Let_def parsed_def resp_is_nak_def)
  have t: "sm_EAP_INITIALIZE_Enter g sm =
      eap_event EapStarted (upd_sh (\<lambda>s. s\<lparr>method_pending := METHOD_PENDING_NONE\<rparr>) (v\<lparr>num_rounds := 0\<rparr>))"
    unfolding sm_EAP_INITIALIZE_Enter_def v_def u_def Let_def ..
  show "eap_ok ms (sm_EAP_INITIALIZE_Enter g sm)"
    using v by (simp add: t eap_ok_def base_ok_def method_known_def state_ok_def no_pending_def parsed_def
        resp_is_nak_def upd_defs EAP_MAX_AUTH_ROUNDS_def)
qed

lemma SELECT_sound:
  assumes "env_ok ms env" "base_ok ms sm" "no_pending sm" "rounds_left sm"
  shows "sound ms (sm_EAP_SELECT_ACTION_Enter env False sm)"
proof -
  define v where "v = entry_EAP EAP_SELECT_ACTION False sm"
  have v: "base_ok ms v" "EAP_state v = EAP_SELECT_ACTION" "no_pending v" "rounds_left v"
    using assms(2-4) by (simp_all add: v_def base_ok_def method_known_def no_pending_def rounds_left_def frame_simps)
  obtain d t where t: "eap_sm_Policy_getDecision env v = Ret (d, t)" "decided ms (d, t)" "policy_only v t"
    by (rule decision_sound [OF assms(1) v(1)])
  note p = policy_onlyD [OF t(3)]
  have "eap_ok ms (t\<lparr>decision := d\<rparr>)"
    using v t(2) p by (simp add: eap_ok_def base_ok_def method_known_def state_ok_def no_pending_def decided_def rounds_left_def)
  then show ?thesis by (simp add: sm_EAP_SELECT_ACTION_Enter_def v_def [symmetric] t(1))
qed

lemma NAK_sound:
  assumes "base_ok ms sm" "no_pending sm" "rounds_left sm" "eapRespData sm = Some resp" "nak_types resp \<noteq> Fault"
  shows "sound ms (sm_EAP_NAK_Enter False sm)"
proof -
  define v where "v = (entry_EAP EAP_NAK False sm)\<lparr>eap_method_priv := None, sm_method := None\<rparr>"
  have v: "base_ok ms v" "EAP_state v = EAP_NAK" "no_pending v" "rounds_left v"
    using assms(1-3) by (simp_all add: v_def base_ok_def method_known_def no_pending_def rounds_left_def frame_simps)
  obtain l where l: "nak_types resp = Ret l"
    using assms(5) by (auto simp: nak_types_def Let_def split: if_splits)
  have "eap_ok ms (eap_sm_Policy_update l v)"
    using v policy_update_ok [of ms v l]
    by (simp add: eap_ok_def base_ok_def method_known_def state_ok_def no_pending_def rounds_left_def frame_simps)
  then show ?thesis using assms(1,4) l
    by (auto simp: sm_EAP_NAK_Enter_def Let_def frame_simps v_def base_ok_def)
qed

lemma INTEGRITY_sound:
  assumes "base_ok ms sm" "no_pending sm" "rounds_left sm" "sm_method sm \<noteq> None" "eapRespData sm \<noteq> None"
  shows "sound ms (sm_EAP_INTEGRITY_CHECK_Enter False sm)"
proof -
  obtain m p resp where "sm_method sm = Some m" "eap_method_priv sm = Some p" "eapRespData sm = Some resp"
    using assms by (auto simp: base_ok_def)
  then show ?thesis using assms(1-3)
    by (auto simp: sm_EAP_INTEGRITY_CHECK_Enter_def Let_def frame_simps eap_ok_def base_ok_def method_known_def
        state_ok_def no_pending_def rounds_left_def split: option.split)
qed

lemma RECEIVED_sound:
  assumes "base_ok ms sm" "no_pending sm" "rounds_left sm" "sm_method sm \<noteq> None"
  shows "eap_ok ms (sm_EAP_RECEIVED_Enter False sm)"
  using assms parse_parsed [of "entry_EAP EAP_RECEIVED False sm"]
  by (auto simp: sm_EAP_RECEIVED_Enter_def Let_def frame_simps eap_ok_def base_ok_def method_known_def
      state_ok_def no_pending_def rounds_left_def parsed_def resp_is_nak_def)

text \<open>A state that leaves the method and the shared part alone.\<close>

lemma keep_sound:
  assumes "base_ok ms sm" "num_rounds t \<le> EAP_MAX_AUTH_ROUNDS + 1 \<or> settled t" "0 \<le> num_rounds t" "num_rounds t \<le> EAP_MAX_AUTH_ROUNDS + 2"
    "sm_method t = sm_method sm" "eap_method_priv t = eap_method_priv sm" "shared_ok ms (sh t)"
    "-1 \<le> currentId t" "currentId t \<le> 255"
    "EAP_state t \<in> {EAP_METHOD_REQUEST, EAP_SEND_REQUEST, EAP_IDLE, EAP_RETRANSMIT, EAP_DISCARD} \<Longrightarrow>
       no_pending t \<and> sm_method sm \<noteq> None"
    "EAP_state t \<notin> {EAP_INITIALIZE, EAP_PICK_UP_METHOD, EAP_SELECT_ACTION, EAP_NAK, EAP_METHOD_RESPONSE,
       EAP_RECEIVED, EAP_INTEGRITY_CHECK, EAP_PROPOSE_METHOD}"
  shows "eap_ok ms t"
proof -
  have "state_ok t" using assms(5,10,11) by (cases "EAP_state t") (simp_all add: state_ok_def)
  then show ?thesis using assms(1-9) by (auto simp: eap_ok_def base_ok_def method_known_def)
qed

subsection \<open>Methods that do their work\<close>

text \<open>
  The contract of a method: it starts, it keeps the user well formed, it is not done while work is
  pending; and the Identity method is there.
\<close>

locale eap_methods_sound = eap_methods_flow ms for ms :: "'p eap_method list" +
  assumes sound_init: "m \<in> set ms \<Longrightarrow> fst (m_init m env s) \<noteq> None"
    and sound_pick: "m \<in> set ms \<Longrightarrow> m_initPickUp m = Some f \<Longrightarrow> fst (f env s) \<noteq> None"
    and shared_init: "m \<in> set ms \<Longrightarrow> shared_ok ms s \<Longrightarrow> shared_ok ms (snd (m_init m env s))"
    and shared_pick: "m \<in> set ms \<Longrightarrow> m_initPickUp m = Some f \<Longrightarrow> shared_ok ms s \<Longrightarrow> shared_ok ms (snd (f env s))"
    and shared_build: "m \<in> set ms \<Longrightarrow> shared_ok ms s \<Longrightarrow> shared_ok ms (snd (snd (m_buildReq m env i p s)))"
    and shared_process: "m \<in> set ms \<Longrightarrow> shared_ok ms s \<Longrightarrow> shared_ok ms (snd (m_process m env resp p s))"
    and done_process: "m \<in> set ms \<Longrightarrow> method_pending s = METHOD_PENDING_NONE \<Longrightarrow>
      m_isDone m (fst (m_process m env resp p s)) \<Longrightarrow>
      method_pending (snd (m_process m env resp p s)) = METHOD_PENDING_NONE"
    and identity_registered: "eap_server_get_eap_method ms EAP_VENDOR_IETF TYPE_IDENTITY \<noteq> None"
begin

lemma REQUEST_sound:
  assumes "base_ok ms sm" "no_pending sm" "rounds_left sm" "sm_method sm \<noteq> None"
  shows "sound ms (sm_EAP_METHOD_REQUEST_Enter env False sm)"
proof -
  obtain m p where m: "sm_method sm = Some m" "eap_method_priv sm = Some p" "m \<in> set ms"
    using assms(1,4) by (auto simp: base_ok_def method_known_def)
  define v where "v = entry_EAP EAP_METHOD_REQUEST False sm"
  obtain i w where i: "eap_sm_nextId env v = (i, w)" by fastforce
  note w = next_id_frame [of env v, unfolded i snd_conv]
  obtain req q s where r: "m_buildReq m env (word_of_int i) p (sh w) = (req, q, s)" by (metis surj_pair)
  have sw: "shared_ok ms (sh w)" "method_pending (sh w) = METHOD_PENDING_NONE"
    using w assms(1,2) by (simp_all add: v_def frame_simps base_ok_def no_pending_def shared_ok_def)
  have s: "shared_ok ms s" "method_pending s = METHOD_PENDING_NONE"
    using shared_build [OF m(3) sw(1), of env "word_of_int i" p] flow_build [OF m(3), of env "word_of_int i" p "sh w"]
    by (simp_all add: r sw(2))
  have "eap_ok ms (upd_ifc (\<lambda>f. f\<lparr>eapReqData := req\<rparr>) (w\<lparr>currentId := i, lastId := i, sh := s, eap_method_priv := Some q\<rparr>)
      \<lparr>methodTimeout := (case m_getTimeout m of None \<Rightarrow> 0 | Some t \<Rightarrow> t q)\<rparr>)"
    using s w next_id_bounds [OF i] assms(1-3) m
    by (simp add: v_def frame_simps eap_ok_def base_ok_def method_known_def state_ok_def no_pending_def rounds_left_def upd_ifc_def)
  moreover have "sm_method v = Some m" "eap_method_priv v = Some p" using m by (simp_all add: v_def frame_simps)
  ultimately show ?thesis using i r by (simp add: sm_EAP_METHOD_REQUEST_Enter_def Let_def v_def [symmetric])
qed

lemma RESPONSE_sound:
  assumes "base_ok ms sm" "no_pending sm" "rounds_left sm" "sm_method sm \<noteq> None" "eapRespData sm \<noteq> None"
  shows "sound ms (sm_EAP_METHOD_RESPONSE_Enter env False sm)"
proof -
  obtain m p resp where m: "sm_method sm = Some m" "eap_method_priv sm = Some p" "m \<in> set ms" "eapRespData sm = Some resp"
    using assms(1,4,5) by (auto simp: base_ok_def method_known_def)
  obtain q s where q: "m_process m env resp p (sh sm) = (q, s)" by fastforce
  have s: "shared_ok ms s" "m_isDone m q \<Longrightarrow> method_pending s = METHOD_PENDING_NONE"
    using shared_process [OF m(3), of "sh sm" env resp p] done_process [OF m(3), of "sh sm" env resp p] q assms(1,2)
    by (simp_all add: base_ok_def no_pending_def)
  define v where "v = (entry_EAP EAP_METHOD_RESPONSE False sm)\<lparr>sh := s, eap_method_priv := Some q\<rparr>"
  have v: "base_ok ms v" "EAP_state v = EAP_METHOD_RESPONSE" "sm_method v = Some m" "eapRespData v = Some resp"
      "m_isDone m q \<Longrightarrow> method_pending (sh v) = METHOD_PENDING_NONE" "rounds_left v"
    using s m assms(1,3) by (simp_all add: v_def base_ok_def method_known_def frame_simps rounds_left_def)
  define w where "w = (if m_isDone m q
      then (eap_sm_Policy_update None v)\<lparr>eapKeyData := (case m_getKey m of None \<Rightarrow> None | Some key \<Rightarrow> key q), methodState := METHOD_END\<rparr>
      else v\<lparr>methodState := METHOD_CONTINUE\<rparr>)"
  have "eap_ok ms w"
    using v by (simp add: w_def eap_ok_def base_ok_def method_known_def state_ok_def no_pending_def rounds_left_def
        frame_simps policy_update_ok)
  moreover have "sm_EAP_METHOD_RESPONSE_Enter env False sm = Ret w"
    using m q by (simp add: sm_EAP_METHOD_RESPONSE_Enter_def w_def v_def Let_def frame_simps)
  ultimately show ?thesis by simp
qed

lemma install_sound:
  assumes "m \<in> set ms" "fst r \<noteq> None"
  shows "sm_method (install_method m r sm) = Some m" "eap_method_priv (install_method m r sm) \<noteq> None"
    "currentId (install_method m r sm) = currentId sm" "eapRespData (install_method m r sm) = eapRespData sm"
  using assms by (auto simp: install_method_def Let_def split: prod.split)

lemma reset_sound:
  assumes "base_ok ms sm" shows "eap_method_priv (reset_method sm) = None" "currentId (reset_method sm) = currentId sm"
    "eapRespData (reset_method sm) = eapRespData sm"
  using assms by (auto simp: reset_method_def base_ok_def)

lemma PROPOSE_sound:
  assumes "base_ok ms sm" "no_pending sm" "rounds_left sm"
    and next_one: "eap_identity (sh sm) = None \<or> currentId sm = -1 \<or> method_at (sh sm) \<noteq> None"
  shows "eap_ok ms (sm_EAP_PROPOSE_METHOD_Enter ms env False sm)"
proof -
  define e where "e = entry_EAP EAP_PROPOSE_METHOD False sm"
  obtain vendor type u where u: "eap_sm_Policy_getNextMethod e = ((vendor, type), u)" by (metis surj_pair)
  note p = policy_onlyD [OF next_method_frame [of e], unfolded u snd_conv]
  have e: "base_ok ms e" "sh e = sh sm" "currentId e = currentId sm"
    using assms(1) by (simp_all add: e_def base_ok_def method_known_def frame_simps)
  have reg: "eap_server_get_eap_method ms vendor type \<noteq> None"
    using u next_one e identity_registered method_at_registered [of ms "sh sm" "(vendor, type)"] base_okD(2) [OF assms(1)]
    by (auto simp: eap_sm_Policy_getNextMethod_def split: if_splits option.splits)
  then obtain m where m: "eap_server_get_eap_method ms vendor type = Some m" by blast
  have mem: "m \<in> set ms" by (rule get_method_in [OF m])
  have us: "shared_ok ms (sh u)"
    using u base_okD(2) [OF assms(1)] e by (auto simp: eap_sm_Policy_getNextMethod_def upd_sh_def split: if_splits option.splits)
  define v where "v = reset_method (u\<lparr>currentMethod := if vendor = EAP_VENDOR_IETF then type else EAP_TYPE_EXPANDED\<rparr>)"
  have v: "sh v = sh u" "currentId v = currentId sm" "num_rounds v = num_rounds sm" "EAP_state v = EAP_PROPOSE_METHOD"
    using p e by (auto simp: v_def reset_method_def e_def frame_simps)
  define w where "w = install_method m (m_init m env (sh v)) v"
  have w: "sm_method w = Some m" "eap_method_priv w \<noteq> None" "currentId w = currentId sm" "num_rounds w = num_rounds sm"
    "EAP_state w = EAP_PROPOSE_METHOD" "shared_ok ms (sh w)" "method_pending (sh w) = METHOD_PENDING_NONE"
    using install_sound [OF mem sound_init [OF mem]] install_entered [OF mem] v shared_init [OF mem us] flow_init [OF mem]
      p e assms(2) by (simp_all add: w_def no_pending_def)
  have t: "sm_EAP_PROPOSE_METHOD_Enter ms env False sm = (let x = w\<lparr>methodState := if currentMethod w = TYPE_IDENTITY \<or>
        currentMethod w = EAP_TYPE_NOTIFICATION then METHOD_CONTINUE else METHOD_PROPOSED\<rparr>
      in eap_event (EapProposedMethod (Some vendor) (currentMethod x)) x)"
    unfolding sm_EAP_PROPOSE_METHOD_Enter_def e_def [symmetric] u Let_def prod.case v_def [symmetric] m option.case w_def ..
  show ?thesis
    using w base_okD(3,4,7) [OF assms(1)] assms(3) mem
    by (simp add: t Let_def upd_defs eap_ok_def base_ok_def method_known_def state_ok_def no_pending_def rounds_left_def)
qed

lemma PICK_UP_sound:
  assumes "base_ok ms sm" "no_pending sm" "rounds_left sm" "sm_method sm = None" "eapRespData sm \<noteq> None"
    "currentMethod sm = EAP_TYPE_NONE"
  shows "eap_ok ms (sm_EAP_PICK_UP_METHOD_Enter ms env False sm)"
proof -
  define e where "e = entry_EAP EAP_PICK_UP_METHOD False sm"
  define u where "u = reset_method (e\<lparr>currentMethod := respMethod e\<rparr>)"
  have e: "eap_method_priv e = None" "sh e = sh sm" "currentId e = currentId sm" "num_rounds e = num_rounds sm"
    "EAP_state e = EAP_PICK_UP_METHOD" "eapRespData e = eapRespData sm" "sm_method e = None" "currentMethod e = EAP_TYPE_NONE"
    using assms(1,4,6) by (simp_all add: e_def frame_simps base_ok_def)
  have u: "u = e\<lparr>currentMethod := respMethod e\<rparr>" using e by (simp add: u_def reset_method_def)
  define x where "x = u\<lparr>sm_method := None, currentMethod := EAP_TYPE_NONE\<rparr>"
  define v where "v = (case eap_server_get_eap_method ms EAP_VENDOR_IETF (currentMethod u) of None \<Rightarrow> x
    | Some m \<Rightarrow> (case m_initPickUp m of None \<Rightarrow> x | Some start \<Rightarrow> install_method m (start env (sh u)) u))"
  define w where "w = (if eap_sm_Policy_doPickUp (respMethod e) then v else e)"
  have base: "eap_ok ms (eap_event (EapProposedMethod None (currentMethod y)) y)"
    if "EAP_state y = EAP_PICK_UP_METHOD" "sm_method y = None \<longleftrightarrow> eap_method_priv y = None" "method_known ms y"
      "shared_ok ms (sh y)" "currentId y = currentId sm" "num_rounds y = num_rounds sm" "eapRespData y = eapRespData sm"
      "method_pending (sh y) = METHOD_PENDING_NONE" "currentMethod y \<noteq> EAP_TYPE_NONE \<Longrightarrow> sm_method y \<noteq> None" for y
    using that assms(3,5) base_okD(3,4,7) [OF assms(1)]
    by (auto simp: upd_defs eap_ok_def base_ok_def method_known_def state_ok_def no_pending_def rounds_left_def)
  have none: "eap_ok ms (eap_event (EapProposedMethod None (currentMethod y)) y)" if "y = x \<or> y = e" for y
    using that e assms(2) base_okD(2) [OF assms(1)]
    by (intro base) (auto simp: x_def u method_known_def no_pending_def)
  have start: "eap_ok ms (eap_event (EapProposedMethod None (currentMethod y)) y)"
    if "m \<in> set ms" "m_initPickUp m = Some f" "y = install_method m (f env (sh u)) u" for m f y
    using install_sound [OF that(1) sound_pick [OF that(1,2)], of env "sh u" u] install_entered [OF that(1), of "f env (sh u)" u]
      shared_pick [OF that(1,2)] flow_pick [OF that(1,2)] e assms(2) base_okD(2) [OF assms(1)] that(1)
    by (intro base) (simp_all add: that(3) u no_pending_def method_known_def)
  have "eap_ok ms (eap_event (EapProposedMethod None (currentMethod w)) w)"
    using none start get_method_in [of ms EAP_VENDOR_IETF "currentMethod u"]
    by (auto simp: w_def v_def split: option.split)
  moreover have "sm_EAP_PICK_UP_METHOD_Enter ms env False sm = eap_event (EapProposedMethod None (currentMethod w)) w"
    unfolding sm_EAP_PICK_UP_METHOD_Enter_def e_def [symmetric] u_def [symmetric] Let_def x_def [symmetric] v_def [symmetric] w_def ..
  ultimately show ?thesis by simp
qed

end

subsection \<open>The step\<close>

lemma changed_flag [simp]:
  "eap_ok ms (sm\<lparr>eap_changed := b\<rparr>) = eap_ok ms sm" "settled (sm\<lparr>eap_changed := b\<rparr>) = settled sm"
proof -
  have "state_ok (sm\<lparr>eap_changed := b\<rparr>) = state_ok sm"
    by (cases "EAP_state sm") (simp_all add: state_ok_def no_pending_def parsed_def resp_is_nak_def)
  then show "eap_ok ms (sm\<lparr>eap_changed := b\<rparr>) = eap_ok ms sm" "settled (sm\<lparr>eap_changed := b\<rparr>) = settled sm"
    by (simp_all add: eap_ok_def base_ok_def method_known_def settled_def no_pending_def)
qed

lemma plain_changed:
  "eap_changed (enter_idle st False sm)" "eap_changed (enter_retransmit st False sm)"
  "eap_changed (enter_discard st False sm)" "eap_changed (enter_send_request st False sm)"
  "eap_changed (sm_EAP_RECEIVED_Enter False sm)" "eap_changed (sm_EAP_TIMEOUT_FAILURE_Enter False sm)"
  "eap_changed (sm_EAP_FAILURE_Enter False sm)" "eap_changed (sm_EAP_SUCCESS_Enter False sm)"
  "eap_changed (sm_EAP_INITIALIZE_PASSTHROUGH_Enter False sm)" "eap_changed (sm_EAP_RECEIVED2_Enter False sm)"
  "eap_changed (sm_EAP_AAA_REQUEST_Enter False sm)" "eap_changed (sm_EAP_AAA_RESPONSE_Enter False sm)"
  "eap_changed (sm_EAP_AAA_IDLE_Enter False sm)" "eap_changed (sm_EAP_TIMEOUT_FAILURE2_Enter False sm)"
  "eap_changed (sm_EAP_FAILURE2_Enter False sm)" "eap_changed (sm_EAP_SUCCESS2_Enter False sm)"
  by (simp_all add: enter_defs upd_defs frame_simps Let_def split: option.split)

lemma INITIALIZE_changed: "eap_changed (sm_EAP_INITIALIZE_Enter g sm) = eap_changed (entry_EAP EAP_INITIALIZE g sm)"
  by (simp add: sm_EAP_INITIALIZE_Enter_def Let_def upd_defs frame_simps reset_method_def)

lemma plain_kept:
  "eap_method_priv (enter_idle st g sm) = eap_method_priv sm" "currentId (enter_idle st g sm) = currentId sm"
  "eap_method_priv (enter_retransmit st g sm) = eap_method_priv sm" "currentId (enter_retransmit st g sm) = currentId sm"
  "eap_method_priv (enter_discard st g sm) = eap_method_priv sm" "currentId (enter_discard st g sm) = currentId sm"
  "eap_method_priv (enter_send_request st g sm) = eap_method_priv sm" "currentId (enter_send_request st g sm) = currentId sm"
  by (simp_all add: enter_defs upd_defs frame_simps Let_def split: option.split)

lemma final_kept:
  "eap_method_priv (sm_EAP_TIMEOUT_FAILURE_Enter g sm) = eap_method_priv sm" "currentId (sm_EAP_TIMEOUT_FAILURE_Enter g sm) = currentId sm"
  "shared_ok ms (sh (sm_EAP_TIMEOUT_FAILURE_Enter g sm)) = shared_ok ms (sh sm)"
  "eap_method_priv (sm_EAP_FAILURE_Enter g sm) = eap_method_priv sm" "currentId (sm_EAP_FAILURE_Enter g sm) = currentId sm"
  "shared_ok ms (sh (sm_EAP_FAILURE_Enter g sm)) = shared_ok ms (sh sm)"
  "eap_method_priv (sm_EAP_SUCCESS_Enter g sm) = eap_method_priv sm" "currentId (sm_EAP_SUCCESS_Enter g sm) = currentId sm"
  "shared_ok ms (sh (sm_EAP_SUCCESS_Enter g sm)) = shared_ok ms (sh sm)"
  "eap_method_priv (sm_EAP_TIMEOUT_FAILURE2_Enter g sm) = eap_method_priv sm" "currentId (sm_EAP_TIMEOUT_FAILURE2_Enter g sm) = currentId sm"
  "shared_ok ms (sh (sm_EAP_TIMEOUT_FAILURE2_Enter g sm)) = shared_ok ms (sh sm)"
  "eap_method_priv (sm_EAP_FAILURE2_Enter g sm) = eap_method_priv sm" "currentId (sm_EAP_FAILURE2_Enter g sm) = currentId sm"
  "shared_ok ms (sh (sm_EAP_FAILURE2_Enter g sm)) = shared_ok ms (sh sm)"
  "eap_method_priv (sm_EAP_SUCCESS2_Enter g sm) = eap_method_priv sm" "currentId (sm_EAP_SUCCESS2_Enter g sm) = currentId sm"
  "shared_ok ms (sh (sm_EAP_SUCCESS2_Enter g sm)) = shared_ok ms (sh sm)"
  by (simp_all add: enter_defs upd_defs frame_simps Let_def)

lemma passing_kept:
  "eap_method_priv (sm_EAP_INITIALIZE_PASSTHROUGH_Enter g sm) = eap_method_priv sm" "currentId (sm_EAP_INITIALIZE_PASSTHROUGH_Enter g sm) = currentId sm"
  "sh (sm_EAP_INITIALIZE_PASSTHROUGH_Enter g sm) = sh sm"
  "eap_method_priv (sm_EAP_RECEIVED2_Enter g sm) = eap_method_priv sm" "currentId (sm_EAP_RECEIVED2_Enter g sm) = currentId sm"
  "sh (sm_EAP_RECEIVED2_Enter g sm) = sh sm"
  "eap_method_priv (sm_EAP_AAA_REQUEST_Enter g sm) = eap_method_priv sm" "currentId (sm_EAP_AAA_REQUEST_Enter g sm) = currentId sm"
  "sh (sm_EAP_AAA_REQUEST_Enter g sm) = sh sm"
  "eap_method_priv (sm_EAP_AAA_RESPONSE_Enter g sm) = eap_method_priv sm"
  "-1 \<le> currentId (sm_EAP_AAA_RESPONSE_Enter g sm)" "currentId (sm_EAP_AAA_RESPONSE_Enter g sm) \<le> 255"
  "sh (sm_EAP_AAA_RESPONSE_Enter g sm) = sh sm"
  "eap_method_priv (sm_EAP_AAA_IDLE_Enter g sm) = eap_method_priv sm" "currentId (sm_EAP_AAA_IDLE_Enter g sm) = currentId sm"
  "sh (sm_EAP_AAA_IDLE_Enter g sm) = sh sm"
  by (simp_all add: enter_defs upd_defs frame_simps Let_def get_id_bounds)

lemmas kept_simps = plain_kept final_kept passing_kept

lemma leaf_sound:
  assumes "base_ok ms sm" "rounds_left sm"
  shows "no_pending sm \<Longrightarrow> sm_method sm \<noteq> None \<Longrightarrow> eap_ok ms (enter_idle EAP_IDLE False sm)"
    "no_pending sm \<Longrightarrow> sm_method sm \<noteq> None \<Longrightarrow> eap_ok ms (enter_retransmit EAP_RETRANSMIT False sm)"
    "no_pending sm \<Longrightarrow> sm_method sm \<noteq> None \<Longrightarrow> eap_ok ms (enter_discard EAP_DISCARD False sm)"
    "no_pending sm \<Longrightarrow> sm_method sm \<noteq> None \<Longrightarrow> eap_ok ms (enter_send_request EAP_SEND_REQUEST False sm)"
    "eap_ok ms (enter_idle EAP_IDLE2 False sm)" "eap_ok ms (enter_retransmit EAP_RETRANSMIT2 False sm)"
    "eap_ok ms (enter_discard EAP_DISCARD2 False sm)" "eap_ok ms (enter_send_request EAP_SEND_REQUEST2 False sm)"
    "eap_ok ms (sm_EAP_TIMEOUT_FAILURE_Enter False sm)" "eap_ok ms (sm_EAP_FAILURE_Enter False sm)"
    "eap_ok ms (sm_EAP_SUCCESS_Enter False sm)" "eap_ok ms (sm_EAP_TIMEOUT_FAILURE2_Enter False sm)"
    "eap_ok ms (sm_EAP_FAILURE2_Enter False sm)" "eap_ok ms (sm_EAP_SUCCESS2_Enter False sm)"
    "eap_ok ms (sm_EAP_INITIALIZE_PASSTHROUGH_Enter False sm)" "eap_ok ms (sm_EAP_RECEIVED2_Enter False sm)"
    "eap_ok ms (sm_EAP_AAA_REQUEST_Enter False sm)" "eap_ok ms (sm_EAP_AAA_RESPONSE_Enter False sm)"
    "eap_ok ms (sm_EAP_AAA_IDLE_Enter False sm)"
  using base_okD(2-4,7) [OF assms(1)] assms(2)
  by (intro keep_sound [OF assms(1)]; simp add: moved_simps kept_simps rounds_left_def no_pending_def)+

lemma FAILURE_sound:
  assumes "eap_ok ms sm" "num_rounds sm = EAP_MAX_AUTH_ROUNDS + 1"
  shows "eap_ok ms (sm_EAP_FAILURE_Enter True (sm\<lparr>num_rounds := num_rounds sm + 1\<rparr>))"
proof -
  have b: "base_ok ms sm" using assms(1) by (simp add: eap_ok_def)
  show ?thesis using base_okD(2-4,7) [OF b] assms(2)
    by (intro keep_sound [OF b]) (simp_all add: moved_simps kept_simps settled_def)
qed

lemma DISABLED_sound: "base_ok ms sm \<Longrightarrow> eap_ok ms (sm_EAP_DISABLED_Enter g sm)"
  by (simp add: sm_EAP_DISABLED_Enter_def eap_ok_def base_ok_def method_known_def state_ok_def frame_simps
      EAP_MAX_AUTH_ROUNDS_def)

context eap_methods_sound
begin

lemma state_step_sound:
  assumes ok: "eap_ok ms sm" and left: "rounds_left sm" and env: "env_ok ms env"
  shows "sound ms (eap_state_step ms env sm)"
proof -
  have b: "base_ok ms sm" and st: "state_ok sm" using ok by (simp_all add: eap_ok_def)
  note leaf = leaf_sound [OF b left]
  note sel = SELECT_sound [OF env b _ left] and nak = NAK_sound [OF b _ left] and chk = INTEGRITY_sound [OF b _ left]
  define v where "v = upd_sh (\<lambda>s. s\<lparr>method_pending := METHOD_PENDING_NONE\<rparr>) sm"
  have v: "base_ok ms v" "rounds_left v" "no_pending v" "sm_method v = sm_method sm" "eapRespData v = eapRespData sm"
    using b left by (simp_all add: v_def base_ok_def method_known_def upd_sh_def rounds_left_def no_pending_def)
  show ?thesis
  proof (cases "EAP_state sm")
    case EAP_INITIALIZE
    then have s: "no_pending sm" "sm_method sm = None" "backend_auth sm \<Longrightarrow> parsed sm \<and> currentMethod sm = EAP_TYPE_NONE"
      using st by (simp_all add: state_ok_def)
    show ?thesis
    proof (cases "backend_auth sm \<and> rxResp sm")
      case True
      then obtain resp where r: "eapRespData sm = Some resp" "resp_is_nak sm \<longrightarrow> nak_types resp \<noteq> Fault"
        using s(3) by (auto simp: parsed_def)
      show ?thesis using True nak [OF s(1) r(1)] r PICK_UP_sound [OF b s(1) left s(2)] s(3)
        by (simp add: eap_state_step_def EAP_INITIALIZE)
    qed (use sel [OF s(1)] in \<open>auto simp: eap_state_step_def EAP_INITIALIZE\<close>)
  next
    case EAP_PICK_UP_METHOD
    then show ?thesis using st sel RESPONSE_sound [OF b _ left] by (auto simp: eap_state_step_def state_ok_def)
  next
    case EAP_RECEIVED
    then have s: "no_pending sm" "sm_method sm \<noteq> None" "parsed sm" using st by (simp_all add: state_ok_def)
    show ?thesis
    proof (cases "rxResp sm")
      case True
      then obtain resp where r: "eapRespData sm = Some resp" "resp_is_nak sm \<longrightarrow> nak_types resp \<noteq> Fault"
        using s(3) by (auto simp: parsed_def)
      show ?thesis using nak [OF s(1) r(1)] r chk [OF s(1,2)] leaf(3) [OF s(1,2)]
        by (simp add: eap_state_step_def EAP_RECEIVED sm_EAP_DISCARD_Enter_def)
    qed (use leaf(3) [OF s(1,2)] in \<open>simp add: eap_state_step_def EAP_RECEIVED sm_EAP_DISCARD_Enter_def\<close>)
  next
    case EAP_INTEGRITY_CHECK
    then show ?thesis using st RESPONSE_sound [OF b _ left] leaf(3)
      by (simp add: eap_state_step_def state_ok_def sm_EAP_DISCARD_Enter_def)
  next
    case EAP_METHOD_RESPONSE
    then have s: "sm_method sm \<noteq> None" "eapRespData sm \<noteq> None" "methodState sm = METHOD_END \<Longrightarrow> no_pending sm"
      using st by (simp_all add: state_ok_def)
    have w: "no_pending sm" if "method_pending (sh sm) = METHOD_PENDING_NONE" using that by (simp add: no_pending_def)
    show ?thesis using sel s REQUEST_sound [OF b w left s(1)] RESPONSE_sound [OF v(1,3,2)] v ok
      by (cases "method_pending (sh sm)") (simp_all add: eap_state_step_def EAP_METHOD_RESPONSE v_def)
  next
    case EAP_PROPOSE_METHOD
    then show ?thesis using st REQUEST_sound [OF b _ left] by (simp add: eap_state_step_def state_ok_def no_pending_def)
  next
    case EAP_SELECT_ACTION
    then have s: "no_pending sm" "decision sm = DECISION_CONTINUE \<Longrightarrow>
        eap_identity (sh sm) = None \<or> currentId sm = -1 \<or> method_at (sh sm) \<noteq> None"
      using st by (simp_all add: state_ok_def)
    show ?thesis using leaf PROPOSE_sound [OF b s(1) left s(2)]
      by (cases "decision sm") (simp_all add: eap_state_step_def EAP_SELECT_ACTION)
  next
    case EAP_NAK
    then show ?thesis using st sel by (simp add: eap_state_step_def state_ok_def)
  next
    case EAP_DISABLED
    then show ?thesis using ok INITIALIZE_sound [OF b] by (simp add: eap_state_step_def)
  next
    case EAP_IDLE
    then have s: "no_pending sm" "sm_method sm \<noteq> None" using st by (simp_all add: state_ok_def)
    show ?thesis using leaf(2) [OF s] RECEIVED_sound [OF b s(1) left s(2)] ok
      by (simp add: eap_state_step_def EAP_IDLE sm_EAP_RETRANSMIT_Enter_def)
  qed (use st ok leaf in \<open>simp_all add: eap_state_step_def state_ok_def enter_plain_defs\<close>)
qed

lemma step_sound:
  assumes ok: "eap_ok ms sm" and env: "env_ok ms env"
  shows "sound ms (sm_EAP_Step ms env sm)"
proof -
  have b: "base_ok ms sm" using ok by (simp add: eap_ok_def)
  show ?thesis
    using INITIALIZE_sound [OF b] DISABLED_sound [OF b] FAILURE_sound [OF ok] ok state_step_sound [OF ok _ env]
    by (simp add: sm_EAP_Step_def rounds_left_def)
qed

end

context eap_methods_sound
begin

lemma state_step_settles:
  assumes ok: "eap_ok ms sm" and step: "eap_state_step ms env sm = Ret t" and ch: "\<not> eap_changed t"
    and en: "portEnabled (eap_ifc sm)"
  shows "settled t"
proof -
  have st: "state_ok sm" and known: "method_known ms sm" using ok by (simp_all add: eap_ok_def base_ok_def)
  have sel: "\<not> sm_EAP_SELECT_ACTION_Enter env False u = Ret t" for u
    using SELECT_entered(1) [of env u t] ch by (auto simp: entered_def)
  have nak: "\<not> sm_EAP_NAK_Enter False u = Ret t" for u using NAK_entered(1) [of u t] ch by (auto simp: entered_def)
  have chk: "\<not> sm_EAP_INTEGRITY_CHECK_Enter False u = Ret t" for u
    using INTEGRITY_entered(1) [of u t] ch by (auto simp: entered_def)
  have req: "\<not> sm_EAP_METHOD_REQUEST_Enter env False u = Ret t" for u using REQUEST_entered(4) [of env u t] ch by auto
  have resp: "\<not> sm_EAP_METHOD_RESPONSE_Enter env False u = Ret t" if "method_known ms u" for u
    using RESPONSE_entered(1) [of env u t] that ch by (auto simp: entered_def)
  have propose: "t \<noteq> sm_EAP_PROPOSE_METHOD_Enter ms env False u" for u
    using PROPOSE_entered(1) [of t env u] ch by (auto simp: entered_def)
  have pick: "t \<noteq> sm_EAP_PICK_UP_METHOD_Enter ms env False sm"
    using PICK_UP_entered(1) [OF known, of t env] ch by (auto simp: entered_def)
  have ini: "eap_changed (sm_EAP_INITIALIZE_Enter False sm)" by (simp add: INITIALIZE_changed frame_simps)
  have v: "method_known ms (upd_sh f sm)" for f using known by (simp add: method_known_def upd_sh_def)
  note no = sel nak chk req resp [OF known] resp [OF v] propose [symmetric] pick [symmetric] enter_plain_defs
  have plain: "u \<noteq> t" if "eap_changed u" for u using that ch by blast
  note leaf = plain_changed [THEN plain] ini [THEN plain]
  show ?thesis
  proof (cases "EAP_state sm")
    case EAP_METHOD_RESPONSE
    then show ?thesis using step no leaf
      by (cases "method_pending (sh sm)") (auto simp: eap_state_step_def settled_def no_pending_def split: if_splits)
  next
    case EAP_PROPOSE_METHOD
    then show ?thesis using step no st by (simp add: eap_state_step_def state_ok_def no_pending_def)
  next
    case EAP_SELECT_ACTION
    then show ?thesis using step no leaf by (cases "decision sm") (simp_all add: eap_state_step_def)
  qed (use step no leaf en in \<open>auto simp: eap_state_step_def settled_def enter_plain_defs split: if_splits\<close>)
qed

lemma step_settles:
  assumes ok: "eap_ok ms sm" and step: "sm_EAP_Step ms env (sm\<lparr>eap_changed := False\<rparr>) = Ret t" and ch: "\<not> eap_changed t"
  shows "settled t"
proof -
  define v where "v = sm\<lparr>eap_changed := False\<rparr>"
  have v: "eap_ok ms v" "eap_ifc v = eap_ifc sm" "num_rounds v = num_rounds sm" "EAP_state v = EAP_state sm" "\<not> eap_changed v"
    using ok by (simp_all add: v_def)
  note step = step [folded v_def]
  show ?thesis
  proof (cases "portEnabled (eap_ifc v)")
    case False
    then have "t = sm_EAP_DISABLED_Enter True v" using step by (simp add: sm_EAP_Step_def)
    then show ?thesis by (simp add: settled_def sm_EAP_DISABLED_Enter_def frame_simps)
  next
    case en: True
    show ?thesis
    proof (cases "eapRestart (eap_ifc v)")
      case True
      then have "t = sm_EAP_INITIALIZE_Enter True v" using step en by (simp add: sm_EAP_Step_def)
      then have "EAP_state v = EAP_INITIALIZE" using ch by (simp add: INITIALIZE_changed frame_simps)
      then show ?thesis using v(1) True by (simp add: eap_ok_def state_ok_def)
    next
      case no_restart: False
      show ?thesis
      proof (cases "num_rounds v > EAP_MAX_AUTH_ROUNDS")
        case True
        then have "t = sm_EAP_FAILURE_Enter True (v\<lparr>num_rounds := num_rounds v + 1\<rparr>) \<or>
            t = v \<and> num_rounds v > EAP_MAX_AUTH_ROUNDS + 1"
          using step en no_restart by (simp add: sm_EAP_Step_def split: if_splits)
        then show ?thesis using v(1) by (auto simp: settled_def moved_simps eap_ok_def)
      next
        case False
        then have "eap_state_step ms env v = Ret t" using step en no_restart by (simp add: sm_EAP_Step_def)
        then show ?thesis by (rule state_step_settles [OF v(1) _ ch en])
      qed
    qed
  qed
qed

lemma step_loop_sound:
  assumes "eap_ok ms sm" "env_ok ms env"
  shows "eap_step_loop n ms env res sm \<noteq> Fault"
    "eap_step_loop n ms env res sm = Ret (r, t) \<Longrightarrow> eap_ok ms t \<and> settled t"
proof -
  have "eap_step_loop n ms env res sm \<noteq> Fault \<and>
      (eap_step_loop n ms env res sm = Ret (r, t) \<longrightarrow> eap_ok ms t \<and> settled t)"
    using assms(1)
  proof (induction n arbitrary: sm res)
    case (Suc n)
    obtain u where u: "sm_EAP_Step ms env (sm\<lparr>eap_changed := False\<rparr>) = Ret u" "eap_ok ms u"
      using step_sound [of "sm\<lparr>eap_changed := False\<rparr>" env] Suc.prems assms(2) by (auto simp: sound_def)
    show ?case using Suc.IH [OF u(2), of True] step_settles [OF Suc.prems u(1)] u by auto
  qed simp
  then show "eap_step_loop n ms env res sm \<noteq> Fault"
    "eap_step_loop n ms env res sm = Ret (r, t) \<Longrightarrow> eap_ok ms t \<and> settled t" by blast+
qed

text \<open>A call of the loop on a well-formed server returns, and leaves a well-formed server that waits.\<close>

lemma step_returns:
  assumes "eap_ok ms sm" "env_ok ms env" "18 < n"
  obtains r t where "eap_step_loop n ms env res sm = Ret (r, t)" "eap_ok ms t" "settled t"
proof -
  have "method_known ms sm" using assms(1) by (simp add: eap_ok_def base_ok_def)
  moreover have "eap_rank sm < n" using eap_rank_bound [of sm] assms(3) by linarith
  ultimately have "eap_step_loop n ms env res sm \<noteq> OutOfRounds" by (rule step_loop_returns(1))
  then obtain x where "eap_step_loop n ms env res sm = Ret x"
    using step_loop_sound(1) [OF assms(1,2)] by (cases "eap_step_loop n ms env res sm") auto
  then show ?thesis using that step_loop_sound(2) [OF assms(1,2)] by (cases x) blast
qed

end

end
