(* ===== verification/EapRun.thy ===== *)
theory EapRun
  imports EapSafe
begin

text \<open>
  The EAP server with the methods of \<open>EapMethods\<close> in a run: what holds between two calls, that every
  call returns, and what it takes to make the server report success.
\<close>

subsection \<open>The methods keep their contract\<close>

lemmas method_defs = eap_identity_method_def eap_md5_method_def eap_gtc_method_def eap_identity_init_def
  eap_identity_initPickUp_def eap_identity_buildReq_def eap_md5_init_def eap_gtc_init_def eap_gtc_buildReq_def

lemma identity_keeps:
  "eap_usr (snd (eap_identity_process env resp p s)) = eap_usr s"
  "method_pending (snd (eap_identity_process env resp p s)) = method_pending s"
  by (simp_all add: eap_identity_process_def take_identity_def no_call_def Let_def split: eap_data.split option.split)

lemma md5_keeps:
  "eap_usr (snd (eap_md5_process env resp p s)) = eap_usr s"
  "method_pending (snd (eap_md5_process env resp p s)) = method_pending s"
  "eap_usr (snd (snd (eap_md5_buildReq env i p s))) = eap_usr s"
  "method_pending (snd (snd (eap_md5_buildReq env i p s))) = method_pending s"
  by (simp_all add: eap_md5_process_def eap_md5_buildReq_def no_call_def add_log_def Let_def
      split: eap_data.split option.split prod.split)

lemma gtc_keeps:
  "eap_usr (snd (eap_gtc_process env resp p s)) = eap_usr s"
  "method_pending (snd (eap_gtc_process env resp p s)) = method_pending s"
  by (simp_all add: eap_gtc_process_def Let_def split: option.split)

lemmas method_keeps = identity_keeps md5_keeps gtc_keeps

lemma shared_ok_usr: "eap_usr s' = eap_usr s \<Longrightarrow> shared_ok ms s' = shared_ok ms s"
  by (simp add: shared_ok_def)

interpretation eap_srv: eap_methods_sound eap_server_register_methods
proof unfold_locales
  fix m :: "'a eap_data eap_method" and env s f i p resp
  assume "m \<in> set eap_server_register_methods"
  then have m: "m = eap_identity_method \<or> m = eap_md5_method \<or> m = eap_gtc_method" by (simp add: registered_methods)
  show "method_pending (snd (m_init m env s)) = method_pending s" "fst (m_init m env s) \<noteq> None"
    "method_pending (snd (snd (m_buildReq m env i p s))) = method_pending s"
    using m by (auto simp: method_defs method_keeps Let_def)
  show "method_pending (snd (f env s)) = method_pending s" "fst (f env s) \<noteq> None" if "m_initPickUp m = Some f"
    using m that by (auto simp: method_defs)
  have process: "method_pending (snd (m_process m env resp p s)) = method_pending s"
    "eap_usr (snd (m_process m env resp p s)) = eap_usr s"
    using m by (auto simp: method_defs method_keeps)
  show "method_pending (snd (m_process m env resp p s)) \<noteq> METHOD_PENDING_CONT"
    if "method_pending s \<noteq> METHOD_PENDING_CONT" using process that by simp
  show "method_pending (snd (m_process m env resp p s)) = METHOD_PENDING_NONE"
    if "method_pending s = METHOD_PENDING_NONE" using process that by simp
  have usr: "eap_usr (snd (m_init m env s)) = eap_usr s" "eap_usr (snd (snd (m_buildReq m env i p s))) = eap_usr s"
    using m by (auto simp: method_defs method_keeps Let_def)
  let ?ms = "eap_server_register_methods :: 'a eap_data eap_method list"
  show "shared_ok ?ms (snd (m_init m env s))"
    "shared_ok ?ms (snd (snd (m_buildReq m env i p s)))"
    "shared_ok ?ms (snd (m_process m env resp p s))"
    if "shared_ok ?ms s"
    using that usr process by (simp_all add: shared_ok_def)
  show "shared_ok ?ms (snd (f env s))"
    if "m_initPickUp m = Some f" "shared_ok ?ms s"
    using m that by (auto simp: method_defs)
qed (simp add: registered_methods method_defs)

subsection \<open>Runs\<close>

text \<open>\<open>EAP_ROUNDS\<close> is one more than the rank that a server can have.\<close>

definition EAP_ROUNDS :: nat where "EAP_ROUNDS = 19"

text \<open>
  The server of one station from its creation: it is called, the EAPOL machines write the variables
  of the interface, a response arrives, the backend server answers, and the remaining entry points.
  Nothing is assumed of what the others write; \<open>E\<close> tells which answers the calls get.
\<close>

inductive eap_reach :: "(eap_env \<Rightarrow> bool) \<Rightarrow> eap_config \<Rightarrow> 'x eap_data eap_sm \<Rightarrow> bool" for E cf where
  eap_new: "eap_reach E cf (eap_server_sm_init cf)"
| eap_called: "eap_reach E cf sm \<Longrightarrow> E env \<Longrightarrow>
    eap_server_sm_step EAP_ROUNDS eap_server_register_methods env sm = Ret (res, t) \<Longrightarrow> eap_reach E cf t"
| eap_port: "eap_reach E cf sm \<Longrightarrow> eap_reach E cf (sm\<lparr>eap_ifc := i\<rparr>)"
| eap_response: "eap_reach E cf sm \<Longrightarrow> eap_reach E cf (sm\<lparr>eapRespData := Some resp\<rparr>)"
| eap_backend: "eap_reach E cf sm \<Longrightarrow>
    eap_reach E cf (sm\<lparr>aaaEapReq := a, aaaSuccess := b, aaaFail := c, aaaEapReqData := d, aaaEapKeyData := e,
      aaaEapKeyAvailable := f, aaaMethodTimeout := g, aaaTimeout := h, aaaEapNoReq := n\<rparr>)"
| eap_pending_done: "eap_reach E cf sm \<Longrightarrow> eap_reach E cf (eap_sm_pending_cb sm)"
| eap_cached: "eap_reach E cf sm \<Longrightarrow> eap_reach E cf (eap_sm_notify_cached sm)"
| eap_forgotten: "eap_reach E cf sm \<Longrightarrow> eap_reach E cf (eap_server_clear_identity sm)"

text \<open>
  The configured users have only methods that are registered, as \<open>hostapd_config_read_eap_user\<close>
  ensures; the callback for the users is \<open>ieee802_1x_get_eap_user\<close>.
\<close>

definition eap_users_ok :: "hostapd_eap_user list \<Rightarrow> bool" where
  "eap_users_ok users = list_all (\<lambda>u. length (hu_methods u) = EAP_MAX_METHODS \<and>
     set (hu_methods u) \<subseteq> {no_eap_method, (EAP_VENDOR_IETF, TYPE_IDENTITY), (EAP_VENDOR_IETF, EAP_TYPE_MD5),
       (EAP_VENDOR_IETF, EAP_TYPE_GTC)}) users"

definition answers_from :: "hostapd_eap_user list \<Rightarrow> eap_env \<Rightarrow> bool" where
  "answers_from users env \<longleftrightarrow> env_get_user env = ieee802_1x_get_eap_user users"

lemma get_eap_user_in: "hostapd_get_eap_user users i phase2 = Some u \<Longrightarrow> u \<in> set users"
  by (induction users) (auto simp: Let_def split: if_splits)

lemma configured_env_ok:
  assumes "eap_users_ok users" "answers_from users env"
  shows "env_ok (eap_server_register_methods :: 'x eap_data eap_method list) env"
proof -
  have "user_ok (eap_server_register_methods :: 'x eap_data eap_method list) u"
    if u: "ieee802_1x_get_eap_user users i phase2 = Some u" for i phase2 u
  proof -
    obtain v where v: "v \<in> set users" "eu_methods u = hu_methods v"
      using u get_eap_user_in by (fastforce simp: ieee802_1x_get_eap_user_def)
    have "x = no_eap_method \<or> eap_server_get_eap_method (eap_server_register_methods :: 'x eap_data eap_method list)
        (fst x) (snd x) \<noteq> None" if "x \<in> set (eu_methods u)" for x
    proof -
      have "x \<in> {no_eap_method, (EAP_VENDOR_IETF, TYPE_IDENTITY), (EAP_VENDOR_IETF, EAP_TYPE_MD5),
          (EAP_VENDOR_IETF, EAP_TYPE_GTC)}"
        using assms(1) v that by (auto simp: eap_users_ok_def list_all_iff)
      then show ?thesis
        by (auto simp: registered_methods eap_identity_method_def eap_md5_method_def eap_gtc_method_def)
    qed
    then show ?thesis using assms(1) v by (auto simp: eap_users_ok_def user_ok_def list_all_iff)
  qed
  then show ?thesis using assms(2) by (simp add: env_ok_def answers_from_def)
qed

lemma settled_ok:
  "eap_ok ms sm \<and> settled sm \<longleftrightarrow> base_ok ms sm \<and> settled sm \<and>
     (EAP_state sm = EAP_IDLE \<longrightarrow> no_pending sm \<and> sm_method sm \<noteq> None) \<and>
     (EAP_state sm = EAP_METHOD_RESPONSE \<longrightarrow> sm_method sm \<noteq> None \<and> eapRespData sm \<noteq> None \<and> methodState sm \<noteq> METHOD_END)"
  by (cases "EAP_state sm") (auto simp: eap_ok_def state_ok_def settled_def)

text \<open>What the others do to a server that waits leaves it well formed.\<close>

lemma outside_ok:
  assumes "eap_ok ms sm \<and> settled sm" and "sm_method t = sm_method sm" "eap_method_priv t = eap_method_priv sm"
    "currentId t = currentId sm" "num_rounds t = num_rounds sm" "methodState t = methodState sm"
    "EAP_state t = EAP_state sm \<or> EAP_state t = EAP_SUCCESS" "eap_usr (sh t) = eap_usr (sh sm)"
    "no_pending t = no_pending sm" "eapRespData sm \<noteq> None \<Longrightarrow> eapRespData t \<noteq> None"
  shows "eap_ok ms t \<and> settled t"
proof -
  have "base_ok ms t" using assms(1-5) assms(8) by (simp add: settled_ok base_ok_def method_known_def shared_ok_def)
  moreover have "settled t" using assms(1,7,9) by (auto simp: settled_def)
  ultimately show ?thesis using assms unfolding settled_ok by auto
qed

lemma reach_ok:
  fixes sm :: "'x eap_data eap_sm"
  assumes "eap_reach E cf sm" "\<And>env. E env \<Longrightarrow> env_ok (eap_server_register_methods :: 'x eap_data eap_method list) env"
  shows "eap_ok eap_server_register_methods sm \<and> settled sm"
  using assms(1)
proof induction
  case eap_new
  show ?case by (simp add: eap_server_sm_init_def eap_ok_def base_ok_def method_known_def shared_ok_def state_ok_def
        settled_def EAP_MAX_AUTH_ROUNDS_def)
next
  case (eap_called sm env res t)
  then show ?case using eap_srv.step_loop_sound(2) [of sm env] assms(2) by (simp add: eap_server_sm_step_def)
next
  case (eap_pending_done sm)
  show ?case by (rule outside_ok [OF eap_pending_done.IH]) (auto simp: eap_sm_pending_cb_def upd_sh_def no_pending_def)
next
  case (eap_cached sm)
  show ?case by (rule outside_ok [OF eap_cached.IH]) (simp_all add: eap_sm_notify_cached_def no_pending_def)
next
  case (eap_forgotten sm)
  show ?case by (rule outside_ok [OF eap_forgotten.IH]) (simp_all add: eap_server_clear_identity_def upd_sh_def no_pending_def)
qed (erule outside_ok; simp add: no_pending_def)+

end
