(* ===== verification/EapTalk.thy ===== *)
theory EapTalk
  imports EapRun
begin

text \<open>
  What a conversation of the EAP server carries from round to round (\<open>talk\<close>): the private data is of
  its method, the request that was sent is the one that the method will check, and a method that
  has succeeded was given an answer that shows the password. \<open>sm0\<close> is the server at the beginning of
  the call.
\<close>

subsection \<open>What a conversation carries\<close>

text \<open>The private data of a method that has accepted the peer.\<close>

definition proving :: "'x eap_data \<Rightarrow> bool" where
  "proving p \<longleftrightarrow> (case p of Md5_data d \<Rightarrow> md5_state d = SUCCESS | Gtc_data d \<Rightarrow> gtc_state d = SUCCESS | _ \<Rightarrow> False)"

definition fresh :: "'x eap_data eap_sm \<Rightarrow> bool" where
  "fresh sm \<longleftrightarrow> (\<forall>p. eap_method_priv sm = Some p \<longrightarrow> \<not> proving p)"

text \<open>The private data is of the method's own type.\<close>

definition data_of :: "'x eap_data eap_method \<Rightarrow> 'x eap_data \<Rightarrow> bool" where
  "data_of m p \<longleftrightarrow> (case p of Identity_data d \<Rightarrow> m = eap_identity_method | Md5_data d \<Rightarrow> m = eap_md5_method
     | Gtc_data d \<Rightarrow> m = eap_gtc_method | Other_data x \<Rightarrow> False)"

definition data_ok :: "'x eap_data eap_sm \<Rightarrow> bool" where
  "data_ok sm \<longleftrightarrow> (\<forall>m p. sm_method sm = Some m \<longrightarrow> eap_method_priv sm = Some p \<longrightarrow>
     data_of m p \<and> currentMethod sm = m_type m)"

text \<open>A request asks for what the method will check, under the current identifier.\<close>

definition asks :: "'x eap_data eap_sm \<Rightarrow> bytes \<Rightarrow> bool" where
  "asks sm req \<longleftrightarrow> uint (eap_get_id req) = currentId sm \<and>
     (case eap_method_priv sm of
        Some (Md5_data d) \<Rightarrow> length (challenge d) = CHALLENGE_LEN \<and>
          eap_hdr_validate EAP_VENDOR_IETF EAP_TYPE_MD5 req = Some (of_nat CHALLENGE_LEN # challenge d)
      | Some (Gtc_data d) \<Rightarrow> eap_hdr_validate EAP_VENDOR_IETF EAP_TYPE_GTC req = Some (c_str ''Password'')
      | _ \<Rightarrow> True)"

text \<open>\<open>r\<close> tells whether the random octets always come.\<close>

definition asked :: "bool \<Rightarrow> 'x eap_data eap_sm \<Rightarrow> bool" where
  "asked r sm \<longleftrightarrow> fresh sm \<and> (r \<longrightarrow> (\<exists>req. lastReqData sm = Some req \<and> asks sm req))"

text \<open>A response to a request that shows the knowledge of the password.\<close>

definition md5_answer :: "bytes \<Rightarrow> bytes \<Rightarrow> bytes \<Rightarrow> bool" where
  "md5_answer req pw resp \<longleftrightarrow>
     (case (eap_hdr_validate EAP_VENDOR_IETF EAP_TYPE_MD5 req, eap_hdr_validate EAP_VENDOR_IETF EAP_TYPE_MD5 resp) of
        (Some (n # chal), Some (k # answer)) \<Rightarrow> unat n = 16 \<and> length chal = 16 \<and> unat k = 16 \<and>
          take 16 answer = md5_vector [[eap_get_id req], pw, chal]
      | _ \<Rightarrow> False)"

definition gtc_answer :: "bytes \<Rightarrow> bytes \<Rightarrow> bytes \<Rightarrow> bool" where
  "gtc_answer req pw resp \<longleftrightarrow>
     eap_hdr_validate EAP_VENDOR_IETF EAP_TYPE_GTC req = Some (c_str ''Password'') \<and>
     eap_hdr_validate EAP_VENDOR_IETF EAP_TYPE_GTC resp = Some pw"

definition answered :: "bool \<Rightarrow> 'x eap_data eap_sm \<Rightarrow> bool" where
  "answered r sm \<longleftrightarrow> (\<exists>resp pw. eapRespData sm = Some resp \<and> plain_password (sh sm) = Some pw \<and>
     (r \<longrightarrow> (\<exists>req. lastReqData sm = Some req \<and> eap_get_id resp = eap_get_id req \<and>
        (md5_answer req pw resp \<or> gtc_answer req pw resp))))"

text \<open>The user comes from the configuration.\<close>

definition user_from :: "(bytes \<Rightarrow> bool \<Rightarrow> eap_user option) \<Rightarrow> eap_shared \<Rightarrow> bool" where
  "user_from L s \<longleftrightarrow> (\<forall>u. eap_usr s = Some u \<longrightarrow> (\<exists>i v. L i False = Some v \<and> eu_password v = eu_password u))"

text \<open>What a round keeps from the server \<open>sm0\<close> at the beginning of the call.\<close>

definition same :: "'x eap_data eap_sm \<Rightarrow> 'x eap_data eap_sm \<Rightarrow> bool" where
  "same sm0 sm \<longleftrightarrow> eap_method_priv sm = eap_method_priv sm0 \<and> currentId sm = currentId sm0 \<and>
     lastReqData sm = lastReqData sm0 \<and> plain_password (sh sm) = plain_password (sh sm0)"

definition heard :: "'x eap_data eap_sm \<Rightarrow> int \<Rightarrow> bool" where
  "heard sm i \<longleftrightarrow> (\<exists>resp. eapRespData sm = Some resp \<and> uint (eap_get_id resp) = i)"

definition talk_base :: "bool \<Rightarrow> (bytes \<Rightarrow> bool \<Rightarrow> eap_user option) \<Rightarrow> 'x eap_data eap_sm \<Rightarrow> 'x eap_data eap_sm \<Rightarrow> bool" where
  "talk_base r L sm0 sm \<longleftrightarrow> data_ok sm \<and> no_pending sm \<and> user_from L (sh sm) \<and>
     (sm_method sm = None \<longleftrightarrow> eap_method_priv sm = None) \<and> eapRespData sm = eapRespData sm0 \<and>
     eap_server sm = eap_server sm0 \<and>
     (eap_server sm \<longrightarrow> eapSuccess (eap_ifc sm) \<longrightarrow> eapSuccess (eap_ifc sm0) \<or> answered r sm0)"

definition talk_state :: "bool \<Rightarrow> 'x eap_data eap_sm \<Rightarrow> 'x eap_data eap_sm \<Rightarrow> bool" where
  "talk_state r sm0 sm \<longleftrightarrow>
     (let proved = (\<forall>p. eap_method_priv sm = Some p \<longrightarrow> proving p \<longrightarrow> answered r sm0) in
      case EAP_state sm of
        EAP_INITIALIZE \<Rightarrow> sm_method sm = None
      | EAP_NAK \<Rightarrow> sm_method sm = None
      | EAP_PICK_UP_METHOD \<Rightarrow> fresh sm \<and> (\<forall>p. eap_method_priv sm = Some p \<longrightarrow> (\<exists>d. p = Identity_data d))
      | EAP_PROPOSE_METHOD \<Rightarrow> fresh sm
      | EAP_METHOD_REQUEST \<Rightarrow> fresh sm \<and> (r \<longrightarrow> sm_method sm \<noteq> None \<longrightarrow>
          (\<exists>req. eapReqData (eap_ifc sm) = Some req \<and> asks sm req))
      | EAP_SEND_REQUEST \<Rightarrow> \<not> eapResp (eap_ifc sm) \<and> (sm_method sm \<noteq> None \<longrightarrow> asked r sm)
      | EAP_DISCARD \<Rightarrow> \<not> eapResp (eap_ifc sm) \<and> (sm_method sm \<noteq> None \<longrightarrow> asked r sm)
      | EAP_IDLE \<Rightarrow> (sm_method sm \<noteq> None \<longrightarrow> asked r sm) \<and> (eapResp (eap_ifc sm) \<longrightarrow> same sm0 sm)
      | EAP_RETRANSMIT \<Rightarrow> (sm_method sm \<noteq> None \<longrightarrow> asked r sm) \<and> (eapResp (eap_ifc sm) \<longrightarrow> same sm0 sm)
      | EAP_RECEIVED \<Rightarrow> (sm_method sm \<noteq> None \<longrightarrow> asked r sm) \<and> same sm0 sm \<and> (rxResp sm \<longrightarrow> heard sm (respId sm))
      | EAP_INTEGRITY_CHECK \<Rightarrow> (sm_method sm \<noteq> None \<longrightarrow> asked r sm) \<and> same sm0 sm \<and> heard sm (currentId sm)
      | EAP_METHOD_RESPONSE \<Rightarrow> proved \<and> (methodState sm \<noteq> METHOD_END \<longrightarrow> fresh sm)
      | EAP_SELECT_ACTION \<Rightarrow> proved \<and> (decision sm = DECISION_SUCCESS \<longrightarrow> answered r sm0) \<and>
          (decision sm = DECISION_PASSTHROUGH \<longrightarrow> \<not> eap_server sm)
      | st \<Rightarrow> st \<in> {EAP_DISABLED, EAP_SUCCESS, EAP_FAILURE, EAP_TIMEOUT_FAILURE} \<or> \<not> eap_server sm)"

definition talk :: "bool \<Rightarrow> (bytes \<Rightarrow> bool \<Rightarrow> eap_user option) \<Rightarrow> 'x eap_data eap_sm \<Rightarrow> 'x eap_data eap_sm \<Rightarrow> bool" where
  "talk r L sm0 sm \<longleftrightarrow> talk_base r L sm0 sm \<and> talk_state r sm0 sm"

text \<open>The answers of the others that the conversation rests on.\<close>

definition random_ok :: "eap_env \<Rightarrow> bool" where
  "random_ok env \<longleftrightarrow> (\<forall>log n. length (fst (env_random_bytes env log n)) = n \<and> snd (env_random_bytes env log n))"

definition talk_env :: "bool \<Rightarrow> (bytes \<Rightarrow> bool \<Rightarrow> eap_user option) \<Rightarrow> eap_env \<Rightarrow> bool" where
  "talk_env r L env \<longleftrightarrow> env_get_user env = L \<and> (r \<longrightarrow> random_ok env)"

subsection \<open>Requests and answers\<close>

lemma be16_len: "n < 2 ^ 16 \<Longrightarrow> eap_length (a # b # WPA_PUT_BE16 (of_nat n) @ xs) = n"
  by (simp add: eap_length_def codec_simps unat_of_nat)

text \<open>A message that was allocated with a payload is valid, and gives the payload back.\<close>

lemma alloc_id: "eap_get_id (eap_msg_alloc EAP_VENDOR_IETF type n code i @ payload) = i"
  by (simp add: eap_get_id_def eap_msg_alloc_def WPA_PUT_BE16_def Let_def)

lemma validate_alloc:
  assumes "length payload = n" "n + 5 < 2 ^ 16" "type < 254"
  shows "eap_hdr_validate EAP_VENDOR_IETF type (eap_msg_alloc EAP_VENDOR_IETF type n code i @ payload) = Some payload"
proof -
  define msg where "msg = eap_msg_alloc EAP_VENDOR_IETF type n code i @ payload"
  have m: "msg = code # i # WPA_PUT_BE16 (of_nat (n + 5)) @ (ucast type # payload)"
    by (simp add: msg_def eap_msg_alloc_def Let_def add.commute)
  have len: "eap_length msg = n + 5" unfolding m by (rule be16_len) (use assms in simp)
  have two: "length (WPA_PUT_BE16 v) = 2" for v by (simp add: WPA_PUT_BE16_def)
  have l: "length msg = n + 5" using assms by (simp add: m two)
  have d: "drop 4 msg = ucast type # payload" by (simp add: m two)
  have t: "ucast (ucast type :: u8) = type"
    using assms(3) by (simp add: word_unat_eq_iff word_less_nat_alt unsigned_ucast_eq unsigned_take_bit_eq take_bit_nat_eq_self)
  have "type \<noteq> EAP_TYPE_EXPANDED" using assms(3) by (auto simp: EAP_TYPE_EXPANDED_def)
  then show ?thesis
    using assms by (simp add: eap_hdr_validate_def Let_def msg_def [symmetric] len l d t)
qed

subsection \<open>What the methods do with the data\<close>

lemma data_of_cases:
  assumes "data_of m p"
  obtains d where "p = Identity_data d" "m = eap_identity_method"
    | d where "p = Md5_data d" "m = eap_md5_method" | d where "p = Gtc_data d" "m = eap_gtc_method"
  using assms by (cases p) (auto simp: data_of_def)

lemma process_data: "data_of m p \<Longrightarrow> data_of m (fst (m_process m env resp p s))"
  by (erule data_of_cases)
    (auto simp: data_of_def eap_identity_method_def eap_md5_method_def eap_gtc_method_def eap_identity_process_def
      eap_md5_process_def eap_gtc_process_def Let_def split: option.split)

lemma not_done_fresh: "data_of m q \<Longrightarrow> \<not> m_isDone m q \<Longrightarrow> \<not> proving q"
  by (erule data_of_cases)
    (auto simp: proving_def eap_identity_method_def eap_md5_method_def eap_gtc_method_def eap_md5_isDone_def eap_gtc_isDone_def)

lemma success_proves: "data_of m q \<Longrightarrow> m_isSuccess m q \<Longrightarrow> m_type m \<noteq> TYPE_IDENTITY \<Longrightarrow> proving q"
  by (erule data_of_cases)
    (auto simp: proving_def eap_identity_method_def eap_md5_method_def eap_gtc_method_def eap_md5_isSuccess_def
      eap_gtc_isSuccess_def)

text \<open>A method turns to success only on an answer that shows the password.\<close>

lemma md5_process_answer:
  assumes "eap_md5_process env resp (Md5_data d) s = (Md5_data e, s')" "md5_state d \<noteq> SUCCESS" "md5_state e = SUCCESS"
  obtains pw pos where "plain_password s = Some pw" "eap_hdr_validate EAP_VENDOR_IETF EAP_TYPE_MD5 resp = Some pos"
    "unat (pos ! 0) = 16" "17 \<le> length pos" "take 16 (drop 1 pos) = md5_vector [[eap_get_id resp], pw, challenge d]"
proof -
  obtain pw where pw: "plain_password s = Some pw"
    using assms by (cases "plain_password s") (auto simp: eap_md5_process_def)
  obtain pos where pos: "eap_hdr_validate EAP_VENDOR_IETF EAP_TYPE_MD5 resp = Some pos"
    using assms pw by (cases "eap_hdr_validate EAP_VENDOR_IETF EAP_TYPE_MD5 resp") (auto simp: eap_md5_process_def)
  define hash where "hash = chap_md5 (eap_get_id resp) pw (challenge d)"
  have ok: "unat (pos ! 0) = 16" "17 \<le> length pos" "os_memcmp hash (drop 1 pos) 16 = 0"
    using assms pw pos by (auto simp: eap_md5_process_def CHAP_MD5_LEN_def hash_def Let_def split: if_splits)
  have h: "hash = md5_vector [[eap_get_id resp], pw, challenge d]" "length hash = 16"
    by (simp_all add: hash_def chap_md5_def length_md5_vector)
  have "take 16 hash = take 16 (drop 1 pos)"
    using ok(2,3) h(2) by (simp add: os_memcmp_def memcmp_zero)
  then have "take 16 (drop 1 pos) = md5_vector [[eap_get_id resp], pw, challenge d]" using h by simp
  with that pw pos ok show ?thesis by blast
qed

lemma gtc_process_answer:
  assumes "eap_gtc_process env resp (Gtc_data d) s = (Gtc_data e, s')" "gtc_state d \<noteq> SUCCESS" "gtc_state e = SUCCESS"
  obtains pw where "plain_password s = Some pw" "eap_hdr_validate EAP_VENDOR_IETF EAP_TYPE_GTC resp = Some pw"
proof -
  obtain pos where pos: "eap_hdr_validate EAP_VENDOR_IETF EAP_TYPE_GTC resp = Some pos"
    using assms by (cases "eap_hdr_validate EAP_VENDOR_IETF EAP_TYPE_GTC resp") (auto simp: eap_gtc_process_def)
  obtain pw where pw: "plain_password s = Some pw"
    using assms pos by (cases "plain_password s") (auto simp: eap_gtc_process_def split: if_splits)
  have "length pos = length pw" "os_memcmp pos pw (length pos) = 0"
    using assms pos pw by (auto simp: eap_gtc_process_def split: if_splits)
  then have "pos = pw" by (simp add: os_memcmp_def memcmp_zero)
  with that pw pos show ?thesis by simp
qed

lemma process_answer:
  assumes "data_of m p" "m_process m env resp p s = (q, s')" "\<not> proving p" "proving q"
  obtains d pw pos where "p = Md5_data d" "plain_password s = Some pw"
      "eap_hdr_validate EAP_VENDOR_IETF EAP_TYPE_MD5 resp = Some pos" "unat (pos ! 0) = 16" "17 \<le> length pos"
      "take 16 (drop 1 pos) = md5_vector [[eap_get_id resp], pw, challenge d]"
    | d pw where "p = Gtc_data d" "plain_password s = Some pw" "eap_hdr_validate EAP_VENDOR_IETF EAP_TYPE_GTC resp = Some pw"
  using assms(1)
proof (cases rule: data_of_cases)
  case (1 d)
  then have "eap_identity_process env resp p s = (q, s')" using assms(2) by (simp add: eap_identity_method_def)
  then have "\<exists>e. q = Identity_data e" using 1
    by (auto simp: eap_identity_process_def Let_def split: if_splits option.splits)
  then show ?thesis using assms(4) by (auto simp: proving_def)
next
  case (2 d)
  then have r: "eap_md5_process env resp (Md5_data d) s = (q, s')" using assms(2) by (simp add: eap_md5_method_def)
  then obtain e where "q = Md5_data e"
    by (auto simp: eap_md5_process_def Let_def split: option.splits if_splits)
  with r md5_process_answer [of env resp d s e s'] that(1) 2 assms(3,4) show ?thesis by (auto simp: proving_def)
next
  case (3 d)
  then have r: "eap_gtc_process env resp (Gtc_data d) s = (q, s')" using assms(2) by (simp add: eap_gtc_method_def)
  then obtain e where "q = Gtc_data e" by (auto simp: eap_gtc_process_def split: option.splits if_splits)
  with r gtc_process_answer [of env resp d s e s'] that(2) 3 assms(3,4) show ?thesis by (auto simp: proving_def)
qed

lemma answered_by:
  assumes "asked r sm" "same sm0 sm" "heard sm (currentId sm)" "eapRespData sm = eapRespData sm0"
    and p: "data_of m p" "eap_method_priv sm = Some p" and resp: "eapRespData sm = Some resp"
    and q: "m_process m env resp p (sh sm) = (q, s')" "proving q"
  shows "answered r sm0"
proof -
  have np: "\<not> proving p" using assms(1) p(2) by (simp add: asked_def fresh_def)
  have id: "uint (eap_get_id resp) = currentId sm" using assms(3) resp by (simp add: heard_def)
  have same: "eapRespData sm0 = Some resp" "plain_password (sh sm) = plain_password (sh sm0)"
    using assms(2,4) resp by (simp_all add: same_def)
  have req: "\<exists>req. lastReqData sm0 = Some req \<and> eap_get_id resp = eap_get_id req \<and> asks sm req" if r
    using assms(1,2) id that by (auto simp: asked_def same_def asks_def word_uint_eq_iff)
  show ?thesis
    using p(1) q(1) np q(2)
  proof (cases rule: process_answer)
    case (1 d pw pos)
    then obtain k answer where pos: "pos = k # answer" by (cases pos) auto
    have "md5_answer req pw resp" if "asks sm req" "eap_get_id resp = eap_get_id req" for req
      using that 1 p(2) pos by (simp add: asks_def md5_answer_def CHALLENGE_LEN_def)
    then have "\<exists>req. lastReqData sm0 = Some req \<and> eap_get_id resp = eap_get_id req \<and>
        (md5_answer req pw resp \<or> gtc_answer req pw resp)" if r using req [OF that] by blast
    then show ?thesis using 1(2) same by (simp add: answered_def)
  next
    case (2 d pw)
    have "gtc_answer req pw resp" if "asks sm req" for req
      using that 2 p(2) by (simp add: asks_def gtc_answer_def)
    then have "\<exists>req. lastReqData sm0 = Some req \<and> eap_get_id resp = eap_get_id req \<and>
        (md5_answer req pw resp \<or> gtc_answer req pw resp)" if r using req [OF that] by blast
    then show ?thesis using 2(2) same by (simp add: answered_def)
  qed
qed

subsection \<open>The states of a conversation\<close>

lemma talk_baseI:
  assumes "talk_base r L sm0 sm" "sm_method t = sm_method sm" "eap_method_priv t = eap_method_priv sm"
    "currentMethod t = currentMethod sm" "no_pending t" "eap_usr (sh t) = eap_usr (sh sm)"
    "eapRespData t = eapRespData sm" "eap_server t = eap_server sm" "eapSuccess (eap_ifc t) \<Longrightarrow> eapSuccess (eap_ifc sm)"
  shows "talk_base r L sm0 t"
  using assms by (auto simp: talk_base_def data_ok_def user_from_def)

lemma talkI: "talk_base r L sm0 t \<Longrightarrow> talk_state r sm0 t \<Longrightarrow> talk r L sm0 t"
  by (simp add: talk_def)

lemma user_from_get:
  "env_get_user env = L \<Longrightarrow> user_from L (snd (eap_user_get env i False s))"
  by (auto simp: eap_user_get_def user_from_def add_log_def Let_def split: option.split)

lemma user_from_got: "eap_user_get env i False s = (found, s') \<Longrightarrow> user_from (env_get_user env) s'"
  using user_from_get [of env "env_get_user env" i s] by simp

lemma user_from_upd [simp]:
  "user_from L (s\<lparr>update_user := b\<rparr>) = user_from L s" "user_from L (s\<lparr>user_eap_method_index := i\<rparr>) = user_from L s"
  "user_from L (s\<lparr>method_pending := x\<rparr>) = user_from L s" "user_from L (s\<lparr>eap_log := l\<rparr>) = user_from L s"
  "user_from L (s\<lparr>eap_identity := a\<rparr>) = user_from L s"
  by (simp_all add: user_from_def)

lemma decide_user_from:
  assumes "env_get_user env = L" "user_from L (sh sm)"
  shows "user_from L (sh (snd (decide_user env sm)))" "fst (decide_user env sm) \<in> {DECISION_CONTINUE, DECISION_FAILURE}"
proof -
  have n: "user_from L (sh (snd (decide_next x))) = user_from L (sh x)" "fst (decide_next x) \<in> {DECISION_CONTINUE, DECISION_FAILURE}"
    for x :: "'a eap_sm" by (simp_all add: decide_next_def Let_def)
  have "user_from L (sh (snd (decide_user env sm))) \<and> fst (decide_user env sm) \<in> {DECISION_CONTINUE, DECISION_FAILURE}"
    using assms n by (auto simp: decide_user_def upd_sh_def Let_def split: option.split prod.split dest!: user_from_got)
  then show "user_from L (sh (snd (decide_user env sm)))" "fst (decide_user env sm) \<in> {DECISION_CONTINUE, DECISION_FAILURE}"
    by blast+
qed

lemma decision_talk:
  assumes d: "eap_sm_Policy_getDecision env sm = Ret (d, t)" and env: "env_get_user env = L" and b: "talk_base r L sm0 sm"
  shows "user_from L (sh t)" "d = DECISION_SUCCESS \<Longrightarrow> \<exists>p. eap_method_priv sm = Some p \<and> proving p"
    "d = DECISION_PASSTHROUGH \<Longrightarrow> \<not> eap_server sm"
proof -
  note du = decide_user_from [OF env, of sm]
  have u: "user_from L (sh sm)" and dat: "data_ok sm" using b by (simp_all add: talk_base_def)
  have "user_from L (sh t) \<and> (d = DECISION_SUCCESS \<longrightarrow> (\<exists>p. eap_method_priv sm = Some p \<and> proving p)) \<and>
      (d = DECISION_PASSTHROUGH \<longrightarrow> \<not> eap_server sm)"
  proof (cases "eap_sm_Policy_getDecision env sm = Ret (decide_user env sm)")
    case True
    then have "(d, t) = decide_user env sm" using d by simp
    then show ?thesis using du [OF u] by (cases "decide_user env sm") auto
  next
    case False
    show ?thesis
    proof (cases "sm_method sm")
      case None
      then show ?thesis using d False u by (auto simp: eap_sm_Policy_getDecision_def split: if_splits)
    next
      case (Some m)
      then show ?thesis using d False u dat success_proves [of m]
        by (auto simp: eap_sm_Policy_getDecision_def upd_sh_def data_ok_def Let_def split: if_splits option.splits)
    qed
  qed
  then show "user_from L (sh t)" "d = DECISION_SUCCESS \<Longrightarrow> \<exists>p. eap_method_priv sm = Some p \<and> proving p"
    "d = DECISION_PASSTHROUGH \<Longrightarrow> \<not> eap_server sm" by blast+
qed

lemma SELECT_talk:
  assumes "sm_EAP_SELECT_ACTION_Enter env False sm = Ret t" "talk_base r L sm0 sm" "talk_env r L env"
    "\<And>p. eap_method_priv sm = Some p \<Longrightarrow> proving p \<Longrightarrow> answered r sm0"
  shows "talk r L sm0 t"
proof -
  define v where "v = entry_EAP EAP_SELECT_ACTION False sm"
  have v: "talk_base r L sm0 v" by (rule talk_baseI [OF assms(2)])
      (use assms(2) in \<open>simp_all add: v_def frame_simps no_pending_def talk_base_def\<close>)
  obtain d u where u: "eap_sm_Policy_getDecision env v = Ret (d, u)" and t: "t = u\<lparr>decision := d\<rparr>"
    using assms(1) by (auto simp: sm_EAP_SELECT_ACTION_Enter_def v_def split: outcome.splits)
  note p = policy_onlyD [OF decision_frame [OF u]]
  have L: "env_get_user env = L" using assms(3) by (simp add: talk_env_def)
  note d = decision_talk [OF u L v]
  have pv: "eap_method_priv v = eap_method_priv sm" "EAP_state v = EAP_SELECT_ACTION" "eap_server v = eap_server sm"
    by (simp_all add: v_def frame_simps)
  have "talk_base r L sm0 t"
    using v d(1) p by (simp add: t talk_base_def data_ok_def no_pending_def)
  moreover have "talk_state r sm0 t" using d(2,3) p pv assms(4) by (auto simp: t talk_state_def)
  ultimately show ?thesis by (rule talkI)
qed

lemma policy_update_more:
  "eap_server (eap_sm_Policy_update l sm) = eap_server sm" "currentMethod (eap_sm_Policy_update l sm) = currentMethod sm"
  "user_from L (sh sm) \<Longrightarrow> user_from L (sh (eap_sm_Policy_update l sm))"
  by (auto simp: eap_sm_Policy_update_def eap_sm_process_nak_def upd_sh_def user_from_def split: option.split)

lemma NAK_talk:
  assumes "sm_EAP_NAK_Enter False sm = Ret t" "talk_base r L sm0 sm"
  shows "talk r L sm0 t"
proof -
  define v where "v = (entry_EAP EAP_NAK False sm)\<lparr>eap_method_priv := None, sm_method := None\<rparr>"
  obtain l where t: "t = eap_sm_Policy_update l v"
    using assms(1) by (auto simp: sm_EAP_NAK_Enter_def Let_def v_def split: if_splits option.splits outcome.splits)
  have v: "talk_base r L sm0 v" "EAP_state v = EAP_NAK" "sm_method v = None"
    using assms(2) by (auto simp: v_def talk_base_def data_ok_def no_pending_def frame_simps)
  then have "talk_base r L sm0 t"
    by (simp add: t talk_base_def data_ok_def no_pending_def frame_simps policy_update_more)
  then show ?thesis using v by (simp add: talk_def talk_state_def t frame_simps)
qed

lemma INTEGRITY_talk:
  assumes "sm_EAP_INTEGRITY_CHECK_Enter False sm = Ret t" "talk_base r L sm0 sm" "asked r sm" "same sm0 sm"
    "heard sm (currentId sm)"
  shows "talk r L sm0 t"
proof -
  have t: "t = entry_EAP EAP_INTEGRITY_CHECK False sm \<or> (\<exists>b. t = (entry_EAP EAP_INTEGRITY_CHECK False sm)\<lparr>ignore_resp := b\<rparr>)"
    using assms(1) by (auto simp: sm_EAP_INTEGRITY_CHECK_Enter_def Let_def split: option.splits)
  have "talk_base r L sm0 t" by (rule talk_baseI [OF assms(2)])
      (use t assms(2) in \<open>auto simp: frame_simps no_pending_def talk_base_def\<close>)
  moreover have "talk_state r sm0 t"
    using t assms(3-5) by (auto simp: talk_state_def frame_simps asked_def asks_def fresh_def same_def heard_def)
  ultimately show ?thesis by (rule talkI)
qed

lemma parse_heard: "rxResp (eap_sm_parseEapResp sm) \<Longrightarrow> heard (eap_sm_parseEapResp sm) (respId (eap_sm_parseEapResp sm))"
  by (auto simp: eap_sm_parseEapResp_def parse_resp_type_def heard_def eap_get_id_def Let_def
      split: option.splits if_splits)

lemma RECEIVED_talk:
  assumes "talk_base r L sm0 sm" "sm_method sm \<noteq> None \<Longrightarrow> asked r sm" "same sm0 sm"
  shows "talk r L sm0 (sm_EAP_RECEIVED_Enter False sm)"
proof -
  define t where "t = sm_EAP_RECEIVED_Enter False sm"
  have "talk_base r L sm0 t" by (rule talk_baseI [OF assms(1)])
      (use assms(1) in \<open>auto simp: t_def sm_EAP_RECEIVED_Enter_def frame_simps no_pending_def talk_base_def Let_def\<close>)
  moreover have "talk_state r sm0 t"
    using assms(2,3) parse_heard [of "entry_EAP EAP_RECEIVED False sm"]
    by (simp add: t_def sm_EAP_RECEIVED_Enter_def talk_state_def frame_simps asked_def asks_def fresh_def same_def heard_def Let_def)
  ultimately show ?thesis unfolding t_def by (rule talkI)
qed

lemma INITIALIZE_talk:
  assumes "talk_base r L sm0 sm" shows "talk r L sm0 (sm_EAP_INITIALIZE_Enter g sm)"
proof -
  define t where "t = sm_EAP_INITIALIZE_Enter g sm"
  have t: "EAP_state t = EAP_INITIALIZE" "sm_method t = None" "eap_method_priv t = None" "no_pending t"
    "eap_usr (sh t) = eap_usr (sh sm)" "eapRespData t = eapRespData sm" "eap_server t = eap_server sm"
    "\<not> eapSuccess (eap_ifc t)"
    using assms by (auto simp: t_def sm_EAP_INITIALIZE_Enter_def upd_defs frame_simps reset_method_def no_pending_def
        talk_base_def Let_def)
  then show ?thesis using assms
    by (simp add: t_def [symmetric] talk_def talk_base_def data_ok_def user_from_def talk_state_def)
qed

lemma process_keeps:
  assumes "data_of m p"
  shows "eap_usr (snd (m_process m env resp p s)) = eap_usr s"
    "method_pending (snd (m_process m env resp p s)) = method_pending s"
  using assms by (auto elim!: data_of_cases
      simp: eap_identity_method_def eap_md5_method_def eap_gtc_method_def method_keeps)

lemma RESPONSE_talk:
  assumes "sm_EAP_METHOD_RESPONSE_Enter env False sm = Ret t" "talk_base r L sm0 sm" "fresh sm"
    "\<And>p. eap_method_priv sm = Some p \<Longrightarrow> (\<exists>d. p = Identity_data d) \<or> asked r sm \<and> same sm0 sm \<and> heard sm (currentId sm)"
  shows "talk r L sm0 t"
proof -
  obtain m p resp where m: "sm_method sm = Some m" "eap_method_priv sm = Some p" "eapRespData sm = Some resp"
    using assms(1) by (auto simp: sm_EAP_METHOD_RESPONSE_Enter_def Let_def frame_simps split: option.splits)
  have b: "data_of m p" "currentMethod sm = m_type m" "eapRespData sm = eapRespData sm0" "no_pending sm" "user_from L (sh sm)"
    using assms(2) m by (simp_all add: talk_base_def data_ok_def)
  obtain q s where q: "m_process m env resp p (sh sm) = (q, s)" by fastforce
  have dq: "data_of m q" using process_data [OF b(1), of env resp "sh sm"] q by simp
  have keep: "eap_usr s = eap_usr (sh sm)" "method_pending s = method_pending (sh sm)"
    using process_keeps [OF b(1), of env resp "sh sm"] q by simp_all
  have idp: "\<not> proving q" if "p = Identity_data d" for d
    using dq b(1) that by (auto simp: data_of_def proving_def eap_identity_method_def eap_md5_method_def
        eap_gtc_method_def eap_type_defs split: eap_data.splits)
  have proof_q: "answered r sm0" if "proving q"
    using assms(4) [OF m(2)] idp that answered_by [OF _ _ _ b(3) b(1) m(2,3) q that] by blast
  define v where "v = (entry_EAP EAP_METHOD_RESPONSE False sm)\<lparr>sh := s, eap_method_priv := Some q\<rparr>"
  have t: "t = (if m_isDone m q
      then (eap_sm_Policy_update None v)\<lparr>eapKeyData := (case m_getKey m of None \<Rightarrow> None | Some key \<Rightarrow> key q), methodState := METHOD_END\<rparr>
      else v\<lparr>methodState := METHOD_CONTINUE\<rparr>)"
    using assms(1) m q by (auto simp: sm_EAP_METHOD_RESPONSE_Enter_def v_def Let_def frame_simps)
  have "eap_sm_Policy_update None v = v" by (simp add: eap_sm_Policy_update_def)
  note t = t [unfolded this]
  have "talk_base r L sm0 t"
    using assms(2) m b dq keep
    by (auto simp: t v_def talk_base_def data_ok_def no_pending_def user_from_def frame_simps)
  moreover have "talk_state r sm0 t"
    using proof_q not_done_fresh [OF dq] by (simp add: t v_def talk_state_def frame_simps fresh_def)
  ultimately show ?thesis by (rule talkI)
qed

lemma build_data:
  assumes "data_of m p" "m_buildReq m env i p s = (req, q, s')"
  shows "data_of m q" "\<not> proving p \<Longrightarrow> \<not> proving q" "eap_usr s' = eap_usr s" "method_pending s' = method_pending s"
  using assms(2)
  by - (rule data_of_cases [OF assms(1)]; force simp: eap_identity_method_def eap_md5_method_def eap_gtc_method_def
      eap_identity_buildReq_def eap_md5_buildReq_def eap_gtc_buildReq_def data_of_def proving_def add_log_def Let_def
      split: prod.splits if_splits)+

text \<open>The request that a method builds asks for what it will check.\<close>

lemma build_asks:
  assumes "data_of m p" "m_buildReq m env (word_of_int i) p s = (req, q, s')" "random_ok env" "0 \<le> i" "i \<le> 255"
  shows "\<exists>b. req = Some b \<and> asks (sm\<lparr>currentId := i, eap_method_priv := Some q\<rparr>) b"
proof -
  have i: "uint (word_of_int i :: u8) = i" using assms(4,5) by (simp add: uint_word_of_int)
  show ?thesis
    using assms(1)
  proof (cases rule: data_of_cases)
    case (1 d)
    then show ?thesis using assms(2) i alloc_id
      by (auto simp: eap_identity_method_def eap_identity_buildReq_def asks_def)
  next
    case (2 d)
    obtain buf where buf: "env_random_bytes env (eap_log s) CHALLENGE_LEN = (buf, True)" "length buf = CHALLENGE_LEN"
      using assms(3) by (metis (full_types) prod.collapse random_ok_def)
    then show ?thesis using assms(2) 2 i alloc_id validate_alloc [of "of_nat CHALLENGE_LEN # buf" _ EAP_TYPE_MD5]
      by (auto simp: eap_md5_method_def eap_md5_buildReq_def asks_def EAP_TYPE_MD5_def CHALLENGE_LEN_def)
  next
    case (3 d)
    then show ?thesis using assms(2) i alloc_id validate_alloc [of "c_str ''Password''" _ EAP_TYPE_GTC]
      by (auto simp: eap_gtc_method_def eap_gtc_buildReq_def asks_def EAP_TYPE_GTC_def c_str_def Let_def)
  qed
qed

lemma REQUEST_talk:
  assumes "sm_EAP_METHOD_REQUEST_Enter env False sm = Ret t" "talk_base r L sm0 sm" "fresh sm" "talk_env r L env"
  shows "talk r L sm0 t"
proof -
  define v where "v = entry_EAP EAP_METHOD_REQUEST False sm"
  have vb: "talk_base r L sm0 v" by (rule talk_baseI [OF assms(2)])
      (use assms(2) in \<open>simp_all add: v_def frame_simps no_pending_def talk_base_def\<close>)
  have vs: "EAP_state v = EAP_METHOD_REQUEST" "eap_method_priv v = eap_method_priv sm" "sm_method v = sm_method sm"
    by (simp_all add: v_def frame_simps)
  show ?thesis
  proof (cases "sm_method sm")
    case None
    then have "t = v" using assms(1) by (simp add: sm_EAP_METHOD_REQUEST_Enter_def Let_def v_def [symmetric] vs)
    then show ?thesis using vb vs None assms(3) by (auto simp: talk_def talk_state_def fresh_def)
  next
    case (Some m)
    obtain p where p: "eap_method_priv sm = Some p" "data_of m p" "currentMethod sm = m_type m"
      using assms(2) Some by (auto simp: talk_base_def data_ok_def)
    obtain i w where i: "eap_sm_nextId env v = (i, w)" by fastforce
    note w = next_id_frame [of env v, unfolded i snd_conv]
    obtain req q s where b: "m_buildReq m env (word_of_int i) p (sh w) = (req, q, s)" by (metis surj_pair)
    note bd = build_data [OF p(2) b]
    have cw: "currentMethod w = currentMethod sm"
      using i by (auto simp: eap_sm_nextId_def upd_defs v_def frame_simps Let_def split: if_splits)
    have t: "t = upd_ifc (\<lambda>f. f\<lparr>eapReqData := req\<rparr>) (w\<lparr>currentId := i, lastId := i, sh := s, eap_method_priv := Some q\<rparr>)
        \<lparr>methodTimeout := (case m_getTimeout m of None \<Rightarrow> 0 | Some f \<Rightarrow> f q)\<rparr>"
      using assms(1) i b Some p by (simp add: sm_EAP_METHOD_REQUEST_Enter_def Let_def v_def [symmetric] vs)
    have np: "\<not> proving q" using bd(2) assms(3) p by (simp add: fresh_def)
    have "talk_base r L sm0 t"
      using vb p Some bd w cw vs by (auto simp: t upd_ifc_def talk_base_def data_ok_def no_pending_def user_from_def)
    moreover have "\<exists>b. req = Some b \<and> asks (w\<lparr>currentId := i, eap_method_priv := Some q\<rparr>) b" if r
      using build_asks [OF p(2) b] next_id_bounds [OF i] assms(4) that by (simp add: talk_env_def)
    then have "talk_state r sm0 t"
      using np w vs by (auto simp: t upd_ifc_def talk_state_def fresh_def asks_def)
    ultimately show ?thesis by (rule talkI)
  qed
qed

lemma registered_vendor:
  assumes "eap_server_get_eap_method (eap_server_register_methods :: 'x eap_data eap_method list) vendor type = Some m"
  shows "vendor = EAP_VENDOR_IETF" "m_type m = type" "fst (m_init m env s) = Some p \<Longrightarrow> data_of m p \<and> \<not> proving p"
    "eap_usr (snd (m_init m env s)) = eap_usr s" "method_pending (snd (m_init m env s)) = method_pending s"
    "fst (m_init m env s) \<noteq> None"
  using assms by (auto simp: registered_methods method_defs data_of_def proving_def split: if_splits)

lemma PROPOSE_talk:
  assumes "talk_base r L sm0 sm"
  shows "talk r L sm0 (sm_EAP_PROPOSE_METHOD_Enter eap_server_register_methods env False sm)"
proof -
  define e where "e = entry_EAP EAP_PROPOSE_METHOD False sm"
  obtain vendor type u where u: "eap_sm_Policy_getNextMethod e = ((vendor, type), u)" by (metis surj_pair)
  note p = policy_onlyD [OF next_method_frame [of e], unfolded u snd_conv]
  have us: "eap_usr (sh u) = eap_usr (sh e)"
    using u by (auto simp: eap_sm_Policy_getNextMethod_def upd_sh_def split: if_splits option.splits)
  have e: "talk_base r L sm0 e" "EAP_state e = EAP_PROPOSE_METHOD" by (rule talk_baseI [OF assms])
      (use assms in \<open>simp_all add: e_def frame_simps no_pending_def talk_base_def\<close>)
  define v where "v = reset_method (u\<lparr>currentMethod := if vendor = EAP_VENDOR_IETF then type else EAP_TYPE_EXPANDED\<rparr>)"
  have v: "sh v = sh u" "EAP_state v = EAP_PROPOSE_METHOD" "eap_method_priv v = None" "eapRespData v = eapRespData u"
    "eap_server v = eap_server u" "eap_ifc v = eap_ifc u" "vendor = EAP_VENDOR_IETF \<Longrightarrow> currentMethod v = type"
    using p e by (auto simp: v_def reset_method_def talk_base_def)
  define w where "w = (case eap_server_get_eap_method eap_server_register_methods vendor type of None \<Rightarrow> v\<lparr>sm_method := None\<rparr>
      | Some m \<Rightarrow> install_method m (m_init m env (sh v)) v)"
  have w: "talk_base r L sm0 w \<and> fresh w \<and> EAP_state w = EAP_PROPOSE_METHOD"
  proof (cases "eap_server_get_eap_method (eap_server_register_methods :: 'a eap_data eap_method list) vendor type")
    case None
    then show ?thesis using e v p us
      by (auto simp: w_def talk_base_def data_ok_def no_pending_def user_from_def fresh_def)
  next
    case (Some m)
    note reg = registered_vendor [OF Some]
    obtain q s where q: "m_init m env (sh v) = (Some q, s)" using reg(6) [of env "sh v"]
      by (cases "m_init m env (sh v)") auto
    have "data_of m q" "\<not> proving q" "eap_usr s = eap_usr (sh v)" "method_pending s = method_pending (sh v)"
      using reg(3) [of env "sh v" q] reg(4,5) [of env "sh v"] q by simp_all
    then show ?thesis using e v p us reg(1,2) Some q
      by (auto simp: w_def install_method_def talk_base_def data_ok_def no_pending_def user_from_def fresh_def)
  qed
  have t: "sm_EAP_PROPOSE_METHOD_Enter eap_server_register_methods env False sm = (let x = w\<lparr>methodState := if currentMethod w = TYPE_IDENTITY \<or>
        currentMethod w = EAP_TYPE_NOTIFICATION then METHOD_CONTINUE else METHOD_PROPOSED\<rparr>
      in eap_event (EapProposedMethod (Some vendor) (currentMethod x)) x)"
    unfolding sm_EAP_PROPOSE_METHOD_Enter_def e_def [symmetric] u Let_def prod.case v_def [symmetric] w_def ..
  show ?thesis
    using w by (simp add: t Let_def upd_defs talk_def talk_base_def data_ok_def no_pending_def fresh_def talk_state_def)
qed

lemma PICK_UP_talk:
  assumes "talk_base r L sm0 sm" "sm_method sm = None"
  shows "talk r L sm0 (sm_EAP_PICK_UP_METHOD_Enter eap_server_register_methods env False sm)"
proof -
  define e where "e = entry_EAP EAP_PICK_UP_METHOD False sm"
  define u where "u = reset_method (e\<lparr>currentMethod := respMethod e\<rparr>)"
  define x where "x = u\<lparr>sm_method := None, currentMethod := EAP_TYPE_NONE\<rparr>"
  define v where "v = (case eap_server_get_eap_method eap_server_register_methods EAP_VENDOR_IETF (currentMethod u) of None \<Rightarrow> x
    | Some m \<Rightarrow> (case m_initPickUp m of None \<Rightarrow> x | Some start \<Rightarrow> install_method m (start env (sh u)) u))"
  define w where "w = (if eap_sm_Policy_doPickUp (respMethod e) then v else e)"
  have e: "talk_base r L sm0 e" by (rule talk_baseI [OF assms(1)])
      (use assms in \<open>simp_all add: e_def frame_simps no_pending_def talk_base_def\<close>)
  have em: "sm_method e = None" "EAP_state e = EAP_PICK_UP_METHOD" "eap_method_priv e = None"
    using assms(2) e by (auto simp: e_def frame_simps talk_base_def)
  have "w = e \<or> w = x \<or> w = u\<lparr>eap_method_priv := Some (Identity_data \<lparr>id_state = CONTINUE, pick_up = True\<rparr>),
      sm_method := Some eap_identity_method\<rparr> \<and> currentMethod u = TYPE_IDENTITY"
    by (auto simp: w_def v_def registered_methods install_method_def method_defs)
  then have w: "talk_base r L sm0 w \<and> EAP_state w = EAP_PICK_UP_METHOD \<and> fresh w \<and>
      (\<forall>p. eap_method_priv w = Some p \<longrightarrow> (\<exists>d. p = Identity_data d))"
    using e em by (auto simp: x_def u_def reset_method_def talk_base_def data_ok_def no_pending_def fresh_def proving_def data_of_def
        eap_identity_method_def)
  have t: "sm_EAP_PICK_UP_METHOD_Enter eap_server_register_methods env False sm = eap_event (EapProposedMethod None (currentMethod w)) w"
    unfolding sm_EAP_PICK_UP_METHOD_Enter_def e_def [symmetric] u_def [symmetric] Let_def x_def [symmetric] v_def [symmetric] w_def ..
  show ?thesis
    using w by (simp add: t upd_defs talk_def talk_base_def data_ok_def no_pending_def fresh_def talk_state_def)
qed

subsection \<open>A call\<close>

lemma asked_cong:
  "eap_method_priv t = eap_method_priv sm \<Longrightarrow> currentId t = currentId sm \<Longrightarrow> lastReqData t = lastReqData sm \<Longrightarrow>
   asked r t = asked r sm"
  by (simp add: asked_def asks_def fresh_def)

lemma plain_more:
  "lastReqData (enter_idle st g sm) = lastReqData sm" "lastReqData (enter_retransmit st g sm) = lastReqData sm"
  "lastReqData (enter_discard st g sm) = lastReqData sm"
  "currentMethod (enter_idle st g sm) = currentMethod sm" "currentMethod (enter_retransmit st g sm) = currentMethod sm"
  "currentMethod (enter_discard st g sm) = currentMethod sm" "currentMethod (enter_send_request st g sm) = currentMethod sm"
  "eapRespData (enter_idle st g sm) = eapRespData sm" "eapRespData (enter_retransmit st g sm) = eapRespData sm"
  "eapRespData (enter_discard st g sm) = eapRespData sm" "eapRespData (enter_send_request st g sm) = eapRespData sm"
  "eap_server (enter_idle st g sm) = eap_server sm" "eap_server (enter_retransmit st g sm) = eap_server sm"
  "eap_server (enter_discard st g sm) = eap_server sm" "eap_server (enter_send_request st g sm) = eap_server sm"
  "eapSuccess (eap_ifc (enter_idle st g sm)) = eapSuccess (eap_ifc sm)"
  "eapSuccess (eap_ifc (enter_retransmit st g sm)) = eapSuccess (eap_ifc sm)"
  "eapSuccess (eap_ifc (enter_discard st g sm)) = eapSuccess (eap_ifc sm)"
  "eapSuccess (eap_ifc (enter_send_request st g sm)) = eapSuccess (eap_ifc sm)"
  by (simp_all add: enter_defs upd_defs frame_simps Let_def split: option.split)

lemma enter_base:
  assumes "talk_base r L sm0 sm"
  shows "talk_base r L sm0 (enter_idle st False sm)" "talk_base r L sm0 (enter_retransmit st False sm)"
    "talk_base r L sm0 (enter_discard st False sm)" "talk_base r L sm0 (enter_send_request st False sm)"
  using assms by (intro talk_baseI [OF assms]; simp add: moved_simps kept_simps plain_more no_pending_def talk_base_def)+

lemma send_request_asked:
  assumes "fresh sm" "r \<longrightarrow> (\<exists>req. eapReqData (eap_ifc sm) = Some req \<and> asks sm req)"
  shows "asked r (enter_send_request st False sm)"
  using assms by (auto simp: asked_def asks_def fresh_def enter_send_request_def frame_simps upd_ifc_def Let_def
      split: option.split)

lemma waiting_talk:
  assumes b: "talk_base r L sm0 sm" and a: "sm_method sm \<noteq> None \<longrightarrow> asked r sm"
  shows "(eapResp (eap_ifc sm) \<Longrightarrow> same sm0 sm) \<Longrightarrow> talk r L sm0 (enter_idle EAP_IDLE False sm)"
    "(eapResp (eap_ifc sm) \<Longrightarrow> same sm0 sm) \<Longrightarrow> talk r L sm0 (enter_retransmit EAP_RETRANSMIT False sm)"
    "talk r L sm0 (enter_discard EAP_DISCARD False sm)"
proof -
  have e: "asked r (enter_idle st False sm) = asked r sm" "asked r (enter_retransmit st False sm) = asked r sm"
    "asked r (enter_discard st False sm) = asked r sm" for st
    by (rule asked_cong; simp add: plain_kept plain_more)+
  show "talk r L sm0 (enter_idle EAP_IDLE False sm)" if "eapResp (eap_ifc sm) \<Longrightarrow> same sm0 sm"
    using that a by (intro talkI enter_base b) (simp add: talk_state_def moved_simps e, simp add: same_def plain_kept plain_more moved_simps)
  show "talk r L sm0 (enter_retransmit EAP_RETRANSMIT False sm)" if "eapResp (eap_ifc sm) \<Longrightarrow> same sm0 sm"
    using that a by (intro talkI enter_base b) (simp add: talk_state_def moved_simps e, simp add: same_def plain_kept plain_more moved_simps)
  show "talk r L sm0 (enter_discard EAP_DISCARD False sm)"
    using a by (intro talkI enter_base b) (simp add: talk_state_def moved_simps e)
qed

text \<open>The last states; the server reports success on its own only from \<open>SELECT_ACTION\<close>.\<close>

lemma final_talk:
  assumes b: "talk_base r L sm0 sm"
  shows "talk r L sm0 (sm_EAP_FAILURE_Enter g sm)" "talk r L sm0 (sm_EAP_TIMEOUT_FAILURE_Enter g sm)"
    "talk r L sm0 (sm_EAP_DISABLED_Enter g sm)" "answered r sm0 \<Longrightarrow> talk r L sm0 (sm_EAP_SUCCESS_Enter g sm)"
  using b by (auto simp: talk_def talk_base_def talk_state_def data_ok_def no_pending_def sm_EAP_FAILURE_Enter_def sm_EAP_SUCCESS_Enter_def
      sm_EAP_TIMEOUT_FAILURE_Enter_def sm_EAP_DISABLED_Enter_def upd_defs frame_simps Let_def user_from_def)

lemma passing_base:
  assumes b: "talk_base r L sm0 sm" and ns: "\<not> eap_server sm"
  shows "talk_base r L sm0 (sm_EAP_INITIALIZE_PASSTHROUGH_Enter False sm)" "talk_base r L sm0 (sm_EAP_RECEIVED2_Enter False sm)"
    "talk_base r L sm0 (sm_EAP_AAA_REQUEST_Enter False sm)" "talk_base r L sm0 (sm_EAP_AAA_RESPONSE_Enter False sm)"
    "talk_base r L sm0 (sm_EAP_AAA_IDLE_Enter False sm)" "talk_base r L sm0 (sm_EAP_TIMEOUT_FAILURE2_Enter False sm)"
    "talk_base r L sm0 (sm_EAP_FAILURE2_Enter False sm)" "talk_base r L sm0 (sm_EAP_SUCCESS2_Enter False sm)"
  using assms by (simp_all add: talk_base_def data_ok_def no_pending_def enter_defs upd_defs frame_simps Let_def user_from_def)

lemma passing_server:
  "eap_server (sm_EAP_INITIALIZE_PASSTHROUGH_Enter False sm) = eap_server sm" "eap_server (sm_EAP_RECEIVED2_Enter False sm) = eap_server sm"
  "eap_server (sm_EAP_AAA_REQUEST_Enter False sm) = eap_server sm" "eap_server (sm_EAP_AAA_RESPONSE_Enter False sm) = eap_server sm"
  "eap_server (sm_EAP_AAA_IDLE_Enter False sm) = eap_server sm" "eap_server (sm_EAP_TIMEOUT_FAILURE2_Enter False sm) = eap_server sm"
  "eap_server (sm_EAP_FAILURE2_Enter False sm) = eap_server sm" "eap_server (sm_EAP_SUCCESS2_Enter False sm) = eap_server sm"
  by (simp_all add: enter_defs upd_defs frame_simps Let_def)

text \<open>Without its own methods the server is left out of the account.\<close>

lemma passing_talk:
  assumes "talk_base r L sm0 sm" "\<not> eap_server sm"
  shows "talk r L sm0 (sm_EAP_INITIALIZE_PASSTHROUGH_Enter False sm)" "talk r L sm0 (sm_EAP_RECEIVED2_Enter False sm)"
    "talk r L sm0 (sm_EAP_AAA_REQUEST_Enter False sm)" "talk r L sm0 (sm_EAP_AAA_RESPONSE_Enter False sm)"
    "talk r L sm0 (sm_EAP_AAA_IDLE_Enter False sm)" "talk r L sm0 (sm_EAP_TIMEOUT_FAILURE2_Enter False sm)"
    "talk r L sm0 (sm_EAP_FAILURE2_Enter False sm)" "talk r L sm0 (sm_EAP_SUCCESS2_Enter False sm)"
    "talk r L sm0 (enter_idle EAP_IDLE2 False sm)" "talk r L sm0 (enter_retransmit EAP_RETRANSMIT2 False sm)"
    "talk r L sm0 (enter_discard EAP_DISCARD2 False sm)" "talk r L sm0 (enter_send_request EAP_SEND_REQUEST2 False sm)"
  using assms
  by (intro talkI passing_base enter_base assms; simp add: talk_state_def moved_simps passing_server plain_more)+

lemma state_step_talk:
  assumes step: "eap_state_step eap_server_register_methods env sm = Ret t" and tk: "talk r L sm0 sm" and env: "talk_env r L env"
  shows "talk r L sm0 t"
proof -
  have b: "talk_base r L sm0 sm" and st: "talk_state r sm0 sm" using tk by (simp_all add: talk_def)
  have np: "method_pending (sh sm) = METHOD_PENDING_NONE" using b by (simp add: talk_base_def no_pending_def)
  have id: "\<exists>d. p = Identity_data d" if "EAP_state sm = EAP_PICK_UP_METHOD" "eap_method_priv sm = Some p" for p
    using st that by (simp add: talk_state_def)
  note sel = SELECT_talk [OF _ b env] and nak = NAK_talk [OF _ b] and resp = RESPONSE_talk [OF _ b] and wait = waiting_talk [OF b]
    and req = REQUEST_talk [OF _ b _ env] and pass = passing_talk [OF b] and fin = final_talk [OF b]
  have priv: "sm_method sm = None \<Longrightarrow> eap_method_priv sm = None" using b by (simp add: talk_base_def)
  show ?thesis
  proof (cases "EAP_state sm")
    case EAP_INITIALIZE
    then have m: "sm_method sm = None" using st by (simp add: talk_state_def)
    show ?thesis using step sel nak PICK_UP_talk [OF b m] priv [OF m]
      by (auto simp: eap_state_step_def EAP_INITIALIZE split: if_splits)
  next
    case EAP_PICK_UP_METHOD
    then have f: "fresh sm" using st by (simp add: talk_state_def)
    show ?thesis using step sel resp f id [OF EAP_PICK_UP_METHOD]
      by (auto simp: eap_state_step_def EAP_PICK_UP_METHOD fresh_def split: if_splits)
  next
    case EAP_IDLE
    then show ?thesis using step st tk wait(2) RECEIVED_talk [OF b]
      by (auto simp: eap_state_step_def talk_state_def enter_plain_defs split: if_splits)
  next
    case EAP_RECEIVED
    then have s: "sm_method sm \<noteq> None \<longrightarrow> asked r sm" "same sm0 sm" "rxResp sm \<longrightarrow> heard sm (respId sm)"
      using st by (simp_all add: talk_state_def)
    have chk: "talk r L sm0 t" if "sm_EAP_INTEGRITY_CHECK_Enter False sm = Ret t" "heard sm (currentId sm)"
    proof -
      have "sm_method sm \<noteq> None"
        using that(1) by (auto simp: sm_EAP_INTEGRITY_CHECK_Enter_def Let_def frame_simps split: option.splits)
      with INTEGRITY_talk [OF that(1) b _ s(2) that(2)] s(1) show ?thesis by simp
    qed
    show ?thesis using step nak chk wait(3) [OF s(1)] s(3)
      by (simp add: eap_state_step_def EAP_RECEIVED enter_plain_defs split: if_splits)
  next
    case EAP_INTEGRITY_CHECK
    then have s: "sm_method sm \<noteq> None \<longrightarrow> asked r sm" "same sm0 sm" "heard sm (currentId sm)"
      using st by (simp_all add: talk_state_def)
    have "talk r L sm0 t" if r: "sm_EAP_METHOD_RESPONSE_Enter env False sm = Ret t"
    proof -
      have "sm_method sm \<noteq> None"
        using r by (auto simp: sm_EAP_METHOD_RESPONSE_Enter_def Let_def frame_simps split: option.splits)
      then have "asked r sm" using s(1) by simp
      then show ?thesis using resp [OF r] s by (simp add: asked_def)
    qed
    then show ?thesis using step wait(3) [OF s(1)]
      by (auto simp: eap_state_step_def EAP_INTEGRITY_CHECK enter_plain_defs split: if_splits)
  next
    case EAP_METHOD_RESPONSE
    then show ?thesis using step st np sel req by (auto simp: eap_state_step_def talk_state_def split: if_splits)
  next
    case EAP_PROPOSE_METHOD
    then show ?thesis using step st np req by (auto simp: eap_state_step_def talk_state_def)
  next
    case EAP_METHOD_REQUEST
    then have f: "fresh sm" "sm_method sm \<noteq> None \<Longrightarrow> asked r (enter_send_request EAP_SEND_REQUEST False sm)"
      using st send_request_asked [of sm r] by (auto simp: talk_state_def)
    have "talk_state r sm0 (enter_send_request EAP_SEND_REQUEST False sm)"
      using f(2) by (auto simp: talk_state_def moved_simps)
    moreover have "t = enter_send_request EAP_SEND_REQUEST False sm"
      using step by (simp add: eap_state_step_def EAP_METHOD_REQUEST enter_plain_defs)
    ultimately show ?thesis using enter_base(4) [OF b] by (simp add: talkI)
  next
    case EAP_SELECT_ACTION
    then show ?thesis using step st fin pass PROPOSE_talk [OF b]
      by (cases "decision sm") (auto simp: eap_state_step_def talk_state_def)
  next
    case EAP_NAK
    then have m: "sm_method sm = None" using st by (simp add: talk_state_def)
    show ?thesis using step sel priv [OF m] by (simp add: eap_state_step_def EAP_NAK)
  next
    case EAP_DISABLED
    then show ?thesis using step tk INITIALIZE_talk [OF b] by (auto simp: eap_state_step_def split: if_splits)
  next
    case EAP_RETRANSMIT
    then show ?thesis using step st wait fin
      by (auto simp: eap_state_step_def talk_state_def enter_plain_defs split: if_splits)
  next
    case EAP_SEND_REQUEST
    then show ?thesis using step st wait(1) by (auto simp: eap_state_step_def talk_state_def enter_plain_defs)
  next
    case EAP_DISCARD
    then show ?thesis using step st wait(1) by (auto simp: eap_state_step_def talk_state_def enter_plain_defs)
  qed (use step st tk pass in \<open>auto simp: eap_state_step_def talk_state_def enter_plain_defs split: if_splits\<close>)
qed

lemma talk_flag [simp]: "talk r L sm0 (sm\<lparr>eap_changed := c\<rparr>) = talk r L sm0 sm"
proof -
  have "talk_state r sm0 (sm\<lparr>eap_changed := c\<rparr>) = talk_state r sm0 sm"
    by (cases "EAP_state sm") (simp_all add: talk_state_def fresh_def asked_def asks_def same_def heard_def)
  then show ?thesis by (simp add: talk_def talk_base_def data_ok_def no_pending_def)
qed

lemma step_talk:
  assumes step: "sm_EAP_Step eap_server_register_methods env sm = Ret t" and tk: "talk r L sm0 sm" and env: "talk_env r L env"
  shows "talk r L sm0 t"
proof -
  have b: "talk_base r L sm0 sm" using tk by (simp add: talk_def)
  have n: "talk_base r L sm0 (sm\<lparr>num_rounds := k\<rparr>)" for k
    using b by (simp add: talk_base_def data_ok_def no_pending_def)
  show ?thesis
    using step tk INITIALIZE_talk [OF b] final_talk(3) [OF b] final_talk(1) [OF n] state_step_talk [OF _ tk env]
    by (simp add: sm_EAP_Step_def split: if_splits) auto
qed

lemma step_loop_talk:
  "eap_step_loop n eap_server_register_methods env res sm = Ret (b, t) \<Longrightarrow> talk r L sm0 sm \<Longrightarrow> talk_env r L env \<Longrightarrow>
   talk r L sm0 t"
proof (induction n arbitrary: sm res)
  case (Suc n)
  obtain u where u: "sm_EAP_Step eap_server_register_methods env (sm\<lparr>eap_changed := False\<rparr>) = Ret u"
    using Suc.prems(1) by (auto split: outcome.splits)
  have "talk r L sm0 u" by (rule step_talk [OF u]) (use Suc.prems in simp_all)
  then show ?case using Suc.IH [of True u] Suc.prems u by (auto split: if_splits)
qed simp

lemma talk_again: "talk r L sm0 t \<Longrightarrow> settled t \<Longrightarrow> talk r L t t"
  by (cases "EAP_state t") (auto simp: talk_def talk_base_def talk_state_def settled_def same_def)

text \<open>What the others do to a server that waits keeps the conversation.\<close>

lemma outside_talk:
  assumes "talk r L sm sm" "settled sm" and "sm_method t = sm_method sm" "eap_method_priv t = eap_method_priv sm"
    "currentId t = currentId sm" "currentMethod t = currentMethod sm" "lastReqData t = lastReqData sm"
    "EAP_state t = EAP_state sm \<or> EAP_state t = EAP_SUCCESS" "eap_usr (sh t) = eap_usr (sh sm)"
    "no_pending t = no_pending sm" "eap_server t = eap_server sm"
  shows "talk r L t t"
proof -
  have b: "talk_base r L sm sm" and st: "talk_state r sm sm" using assms(1) by (simp_all add: talk_def)
  have "talk_base r L t t" using b assms(3-11) by (simp add: talk_base_def data_ok_def user_from_def)
  moreover have "EAP_state sm \<noteq> EAP_METHOD_RESPONSE" using b assms(2) by (auto simp: settled_def talk_base_def)
  then have "talk_state r t t"
    using st assms(2) asked_cong [OF assms(4,5,7), of r] assms(3,8,11)
    by (cases "EAP_state t") (auto simp: talk_state_def settled_def same_def)
  ultimately show ?thesis by (rule talkI)
qed

lemma reach_mono: "eap_reach E cf sm \<Longrightarrow> (\<And>env. E env \<Longrightarrow> F env) \<Longrightarrow> eap_reach F cf sm"
  by (induction rule: eap_reach.induct) (auto intro: eap_reach.intros)

lemma reach_talk:
  fixes sm :: "'x eap_data eap_sm"
  assumes "eap_reach E cf sm" "\<And>env. E env \<Longrightarrow> env_ok (eap_server_register_methods :: 'x eap_data eap_method list) env"
    "\<And>env. E env \<Longrightarrow> talk_env r L env"
  shows "talk r L sm sm \<and> eap_server sm = conf_eap_server cf"
  using assms(1)
proof induction
  case eap_new
  show ?case by (simp add: eap_server_sm_init_def talk_def talk_base_def talk_state_def data_ok_def no_pending_def user_from_def)
next
  case (eap_called sm env res t)
  have t: "talk r L sm t"
    using eap_called step_loop_talk [of EAP_ROUNDS env False sm res t r L sm] assms(3) by (simp add: eap_server_sm_step_def)
  have "settled t" using reach_ok [OF eap_reach.eap_called [OF eap_called.hyps] assms(2)] by simp
  then show ?case using talk_again [OF t] t eap_called.IH by (simp add: talk_def talk_base_def)
next
  case (eap_pending_done sm)
  have "settled sm" using reach_ok [OF eap_pending_done.hyps assms(2)] by simp
  then show ?case using outside_talk [of r L sm "eap_sm_pending_cb sm"] eap_pending_done.IH
    by (auto simp: eap_sm_pending_cb_def upd_sh_def no_pending_def)
next
  case (eap_cached sm)
  have "settled sm" using reach_ok [OF eap_cached.hyps assms(2)] by simp
  then show ?case using outside_talk [of r L sm "eap_sm_notify_cached sm"] eap_cached.IH
    by (simp add: eap_sm_notify_cached_def no_pending_def)
next
  case (eap_forgotten sm)
  have "settled sm" using reach_ok [OF eap_forgotten.hyps assms(2)] by simp
  then show ?case using outside_talk [of r L sm "eap_server_clear_identity sm"] eap_forgotten.IH
    by (simp add: eap_server_clear_identity_def upd_sh_def no_pending_def)
next
  case (eap_port sm i)
  have "settled sm" using reach_ok [OF eap_port.hyps assms(2)] by simp
  then show ?case using outside_talk [of r L sm "sm\<lparr>eap_ifc := i\<rparr>"] eap_port.IH by (simp add: no_pending_def)
next
  case (eap_response sm resp)
  have "settled sm" using reach_ok [OF eap_response.hyps assms(2)] by simp
  then show ?case using outside_talk [of r L sm "sm\<lparr>eapRespData := Some resp\<rparr>"] eap_response.IH by (simp add: no_pending_def)
next
  case (eap_backend sm n h g f e d c b a)
  have "settled sm" using reach_ok [OF eap_backend.hyps assms(2)] by simp
  then show ?case using outside_talk [of r L sm "sm\<lparr>aaaEapReq := a, aaaSuccess := b, aaaFail := c, aaaEapReqData := d,
      aaaEapKeyData := e, aaaEapKeyAvailable := f, aaaMethodTimeout := g, aaaTimeout := h, aaaEapNoReq := n\<rparr>"] eap_backend.IH
    by (simp add: no_pending_def)
qed

text \<open>The server after a call.\<close>

definition after_call :: "eap_env \<Rightarrow> 'x eap_data eap_sm \<Rightarrow> 'x eap_data eap_sm" where
  "after_call env sm =
     (case eap_server_sm_step EAP_ROUNDS eap_server_register_methods env sm of Ret (res, t) \<Rightarrow> t | _ \<Rightarrow> sm)"

lemma call_returns:
  fixes sm :: "'x eap_data eap_sm"
  assumes "eap_reach E cf sm" "\<And>env. E env \<Longrightarrow> env_ok (eap_server_register_methods :: 'x eap_data eap_method list) env" "E env"
  obtains res where "eap_server_sm_step EAP_ROUNDS eap_server_register_methods env sm = Ret (res, after_call env sm)"
    "eap_reach E cf (after_call env sm)"
proof -
  have ok: "eap_ok eap_server_register_methods sm" using reach_ok [OF assms(1,2)] by simp
  obtain res t where "eap_server_sm_step EAP_ROUNDS eap_server_register_methods env sm = Ret (res, t)"
    by (rule eap_srv.step_returns [OF ok assms(2) [OF assms(3)], of EAP_ROUNDS False])
      (simp_all add: eap_server_sm_step_def EAP_ROUNDS_def)
  with that eap_reach.eap_called [OF assms(1,3)] show ?thesis by (auto simp: after_call_def)
qed

end
