(* ===== verification/EapolPort.thy ===== *)
theory EapolPort
  imports EapolFrame
begin

text \<open>
  Who gets through the port: invariants of every state the port of a station can reach. What the
  machines must keep is the interface \<open>port_invariant\<close>; three predicates implement it. The quiet
  period of a station that failed rests on the part of it that a single run of the loop needs.
\<close>


subsection \<open>Invariants of everything that happens to a port\<close>

text \<open>
  The states of one port: it is allocated, then its machines are run and its timers tick, and in
  between the rest of the program changes it, as far as \<open>env\<close> allows; the state of the EAP
  server may change with it.
\<close>

inductive port_reach ::
  "(eapol_sm \<Rightarrow> eapol_sm \<Rightarrow> bool) \<Rightarrow> (eapol_out list \<Rightarrow> bool) \<Rightarrow>
   ('e \<Rightarrow> eap_eapol_interface \<Rightarrow> 'e \<times> eap_eapol_interface \<times> bool) \<Rightarrow> eapol_auth_config \<Rightarrow> u32 \<Rightarrow>
   eap_eapol_interface \<Rightarrow> eapol_sm \<Rightarrow> 'e \<Rightarrow> bool"
  for env alive eap_step conf fl i
where
  port_alloc: "eapol_auth_alloc alive eap_step conf fl (Some (e0, i)) = Some (sm, e) \<Longrightarrow>
    port_reach env alive eap_step conf fl i sm e"
| port_run: "port_reach env alive eap_step conf fl i sm e \<Longrightarrow>
    eapol_sm_step_run alive eap_step sm e = (sm', e') \<Longrightarrow>
    port_reach env alive eap_step conf fl i sm' e'"
| port_tick: "port_reach env alive eap_step conf fl i sm e \<Longrightarrow>
    eapol_port_timers_tick alive eap_step sm e = (sm', e') \<Longrightarrow>
    port_reach env alive eap_step conf fl i sm' e'"
| port_env: "port_reach env alive eap_step conf fl i sm e \<Longrightarrow> env sm sm' \<Longrightarrow>
    port_reach env alive eap_step conf fl i sm' e'"

text \<open>
  A predicate that the machine steps and the server keep; then one that the timers and the
  initialisation keep too, which holds of every state reached if the changes made outside the
  machines keep it.
\<close>

locale machine_invariant =
  fixes I :: "eapol_sm \<Rightarrow> bool" and eap_step :: "'e \<Rightarrow> eap_eapol_interface \<Rightarrow> 'e \<times> eap_eapol_interface \<times> bool"
  assumes I_pae: "I sm \<Longrightarrow> I (sm_AUTH_PAE_Step sm)"
    and I_be: "I sm \<Longrightarrow> I (sm_BE_AUTH_Step sm)"
    and I_reauth: "I sm \<Longrightarrow> I (sm_REAUTH_TIMER_Step sm)"
    and I_key_tx: "I sm \<Longrightarrow> I (sm_AUTH_KEY_TX_Step sm)"
    and I_key_rx: "I sm \<Longrightarrow> I (sm_KEY_RX_Step sm)"
    and I_ctrl_dir: "I sm \<Longrightarrow> I (sm_CTRL_DIR_Step sm)"
    and I_server: "I sm \<Longrightarrow> I (sm\<lparr>eap_if := fst (snd (eap_step e (eap_if sm)))\<rparr>)"
    and I_aaa: "I sm \<Longrightarrow> I (sm\<lparr>eap_if := (eap_if sm)\<lparr>aaaEapResp := x\<rparr>\<rparr>)"
    and I_emit: "I sm \<Longrightarrow> \<forall>b. SetPort b \<noteq> o1 \<Longrightarrow> I (emit o1 sm)"
begin

lemma I_pass: "I sm \<Longrightarrow> I (sm_pass alive sm)"
  by (simp add: sm_pass_def Let_def whenb_def I_pae I_be I_reauth I_key_tx I_key_rx I_ctrl_dir)

lemma I_after: "I sm \<Longrightarrow> I (fst (sm_after_pass alive eap_step sm e))"
proof -
  assume sm: "I sm"
  obtain e1 i1 again where s: "eap_step e (eap_if sm) = (e1, i1, again)"
    by (cases "eap_step e (eap_if sm)")
  with I_server [OF sm, of e] have "I (sm\<lparr>eap_if := i1\<rparr>)" by simp
  from this I_aaa [OF this, of False] show ?thesis
    using sm s by (auto simp: sm_after_pass_def Let_def whenb_def intro!: I_emit split: option.split)
qed

lemma I_loop: "I sm \<Longrightarrow> I (fst (step_run_loop alive eap_step n sm e))"
proof (induction n arbitrary: sm e)
  case 0
  then show ?case by (simp add: eapol_auth_step_def I_emit)
next
  case (Suc n)
  then have p: "I (sm_pass alive sm)" by (simp add: I_pass)
  obtain sm' e' b where a: "sm_after_pass alive eap_step (sm_pass alive sm) e = (sm', e', b)"
    by (cases "sm_after_pass alive eap_step (sm_pass alive sm) e")
  then have "I sm'" using I_after [OF p, of alive e] by simp
  then show ?case using p a Suc.IH by (simp add: Let_def)
qed

lemma I_run: "I sm \<Longrightarrow> I (fst (eapol_sm_step_run alive eap_step sm e))"
  by (simp add: eapol_sm_step_run_def I_loop)

end

locale port_invariant = machine_invariant +
  assumes I_timers: "I sm \<Longrightarrow> I (sm\<lparr>aWhile := w, quietWhile := q, reAuthWhen := r\<rparr>)"
    and I_retrans: "I sm \<Longrightarrow> I (sm\<lparr>eap_if := (eap_if sm)\<lparr>retransWhile := w\<rparr>\<rparr>)"
    and I_init: "I sm \<Longrightarrow> I (sm\<lparr>initialize := b\<rparr>)" "I sm \<Longrightarrow> I (sm\<lparr>initializing := b\<rparr>)"
begin

lemma I_tick: "I sm \<Longrightarrow> I (fst (eapol_port_timers_tick alive eap_step sm e))"
proof -
  assume sm: "I sm"
  define t where "t = sm\<lparr>aWhile := tick_down (aWhile sm), quietWhile := tick_down (quietWhile sm),
    reAuthWhen := tick_down (reAuthWhen sm)\<rparr>"
  have "I t" unfolding t_def by (rule I_timers [OF sm])
  from I_run [OF I_retrans [OF this, of "tick_down (retransWhile (eap_if t))"], of alive e]
  show ?thesis
    by (auto simp: eapol_port_timers_tick_def Let_def t_def intro!: I_emit split: prod.split)
qed

lemma I_initialize: "I sm \<Longrightarrow> I (fst (eapol_auth_initialize alive eap_step sm e))"
proof -
  assume sm: "I sm"
  obtain s1 e1 where r1: "eapol_sm_step_run alive eap_step (sm\<lparr>initializing := True, initialize := True\<rparr>) e
      = (s1, e1)" by fastforce
  have "I (s1\<lparr>initialize := False\<rparr>)"
    using I_run [OF I_init(1) [OF I_init(2) [OF sm, of True], of True], of alive e] r1 by (simp add: I_init)
  moreover obtain s2 e2 where r2: "eapol_sm_step_run alive eap_step (s1\<lparr>initialize := False\<rparr>) e1 = (s2, e2)"
    by fastforce
  ultimately have "I (s2\<lparr>initializing := False\<rparr>)"
    using I_run [of "s1\<lparr>initialize := False\<rparr>" alive e1] by (simp add: I_init)
  then show ?thesis using r1 r2 by (simp add: eapol_auth_initialize_def Let_def I_emit)
qed

lemma I_reach:
  assumes "port_reach env alive eap_step conf fl i sm e"
    and "I (eapol_sm_new conf fl i)"
    and "\<And>s t. I s \<Longrightarrow> env s t \<Longrightarrow> I t"
  shows "I sm"
  using assms(1)
proof induction
  case (port_alloc e0 sm e)
  then show ?case
    using I_initialize [OF assms(2), of alive e0] by (simp add: eapol_auth_alloc_def)
next
  case (port_run sm e sm' e')
  then show ?case using I_run [of sm alive e] by simp
next
  case (port_tick sm e sm' e')
  then show ?case using I_tick [of sm alive e] by simp
next
  case (port_env sm e sm' e')
  then show ?case by (blast intro: assms(3))
qed

end

subsection \<open>The port the driver is told is the port of the machines\<close>

text \<open>The last call of \<open>set_port_authorized\<close>.\<close>

definition port_of :: "eapol_out list \<Rightarrow> PortState" where
  "port_of os = foldl (\<lambda>p o1. case o1 of SetPort b \<Rightarrow> if b then Authorized else Unauthorized | _ \<Rightarrow> p)
     PortState_0 os"

lemma port_of_simps [simp]:
  "port_of [] = PortState_0"
  "port_of (os @ [SetPort b]) = (if b then Authorized else Unauthorized)"
  by (simp_all add: port_of_def)

lemma port_of_other: "\<forall>o1 \<in> set es. \<forall>b. SetPort b \<noteq> o1 \<Longrightarrow> port_of (os @ es) = port_of os"
  by (induction es rule: rev_induct) (auto simp: port_of_def split: eapol_out.split)

lemma port_of_set: "\<forall>o1 \<in> set es. \<forall>c. SetPort c \<noteq> o1 \<Longrightarrow>
   port_of (os @ SetPort b # es) = (if b then Authorized else Unauthorized)"
  using port_of_other [of es "os @ [SetPort b]"] by simp

definition port_inv :: "eapol_sm \<Rightarrow> bool" where
  "port_inv sm \<longleftrightarrow> port_of (outputs sm) = authPortStatus sm \<and>
     (auth_pae_state sm \<in> {AUTH_PAE_AUTHENTICATED, AUTH_PAE_FORCE_AUTH} \<longrightarrow>
      authPortStatus sm = Authorized) \<and>
     (auth_pae_state sm \<in> {AUTH_PAE_DISCONNECTED, AUTH_PAE_HELD, AUTH_PAE_FORCE_UNAUTH} \<longrightarrow>
      authPortStatus sm = Unauthorized)"

lemma tx_req_no_port: "\<forall>o1 \<in> set (tx_req_out sm). \<forall>b. SetPort b \<noteq> o1"
  by (auto simp: tx_req_out_def split: option.split)

lemma be_response_outputs [frame_simps]:
  "outputs (be_response sm) = outputs sm" "authPortStatus (be_response sm) = authPortStatus sm"
  by (simp_all add: be_response_def frame_simps)

lemma port_inv_pae: "port_inv sm \<Longrightarrow> port_inv (sm_AUTH_PAE_Step sm)"
  using pae_step_trans [of sm]
  by (cases rule: pae_trans.cases) (auto simp: port_inv_def frame_simps port_of_set)

lemma port_inv_keep:
  "port_inv s \<Longrightarrow> auth_pae_state t = auth_pae_state s \<Longrightarrow> authPortStatus t = authPortStatus s \<Longrightarrow>
   outputs t = outputs s @ es \<Longrightarrow> \<forall>o1 \<in> set es. \<forall>b. SetPort b \<noteq> o1 \<Longrightarrow> port_inv t"
  by (simp add: port_inv_def port_of_other)

lemma be_step_keep:
  "auth_pae_state (sm_BE_AUTH_Step sm) = auth_pae_state sm"
  "authPortStatus (sm_BE_AUTH_Step sm) = authPortStatus sm"
  "\<exists>es. outputs (sm_BE_AUTH_Step sm) = outputs sm @ es \<and> (\<forall>o1 \<in> set es. \<forall>b. SetPort b \<noteq> o1)"
  using be_step_trans [of sm]
  by (cases rule: be_trans.cases; simp add: frame_simps be_response_def tx_req_no_port)+

lemma reauth_step_keep:
  "auth_pae_state (sm_REAUTH_TIMER_Step sm) = auth_pae_state sm"
  "authPortStatus (sm_REAUTH_TIMER_Step sm) = authPortStatus sm"
  "\<exists>es. outputs (sm_REAUTH_TIMER_Step sm) = outputs sm @ es \<and> (\<forall>o1 \<in> set es. \<forall>b. SetPort b \<noteq> o1)"
  using reauth_step_forms [of sm] by (auto simp: frame_simps)

lemma key_tx_step_keep:
  "auth_pae_state (sm_AUTH_KEY_TX_Step sm) = auth_pae_state sm"
  "authPortStatus (sm_AUTH_KEY_TX_Step sm) = authPortStatus sm"
  "\<exists>es. outputs (sm_AUTH_KEY_TX_Step sm) = outputs sm @ es \<and> (\<forall>o1 \<in> set es. \<forall>b. SetPort b \<noteq> o1)"
  using key_tx_step_forms [of sm] by (auto simp: frame_simps)

lemma key_rx_step_keep:
  "auth_pae_state (sm_KEY_RX_Step sm) = auth_pae_state sm"
  "authPortStatus (sm_KEY_RX_Step sm) = authPortStatus sm"
  "\<exists>es. outputs (sm_KEY_RX_Step sm) = outputs sm @ es \<and> (\<forall>o1 \<in> set es. \<forall>b. SetPort b \<noteq> o1)"
  using key_rx_step_forms [of sm] by (auto simp: frame_simps)

lemma ctrl_dir_step_keep:
  "auth_pae_state (sm_CTRL_DIR_Step sm) = auth_pae_state sm"
  "authPortStatus (sm_CTRL_DIR_Step sm) = authPortStatus sm"
  "\<exists>es. outputs (sm_CTRL_DIR_Step sm) = outputs sm @ es \<and> (\<forall>o1 \<in> set es. \<forall>b. SetPort b \<noteq> o1)"
  using ctrl_dir_step_forms [of sm] by (auto simp: frame_simps)

interpretation port_inv: port_invariant port_inv eap_step for eap_step
proof unfold_locales
  fix sm assume sm: "port_inv sm"
  show "port_inv (sm_AUTH_PAE_Step sm)" by (rule port_inv_pae [OF sm])
  show "port_inv (sm_BE_AUTH_Step sm)" using be_step_keep [of sm] port_inv_keep [OF sm] by blast
  show "port_inv (sm_REAUTH_TIMER_Step sm)" "port_inv (sm_AUTH_KEY_TX_Step sm)"
    "port_inv (sm_KEY_RX_Step sm)" "port_inv (sm_CTRL_DIR_Step sm)"
    using reauth_step_keep [of sm] key_tx_step_keep [of sm] key_rx_step_keep [of sm]
      ctrl_dir_step_keep [of sm] port_inv_keep [OF sm] by blast+
  show "port_inv (emit o1 sm)" if "\<forall>b. SetPort b \<noteq> o1" for o1
    by (rule port_inv_keep [OF sm, of _ "[o1]"]) (use that in \<open>simp_all add: emit_def\<close>)
qed (simp_all add: port_inv_def)

text \<open>
  C25: The driver's port is the port of the machines. In every state a port can reach, with any
  EAP server and any outside changes that leave the PAE state, the port status and the outputs
  alone, the last port state the driver was told is \<open>authPortStatus\<close>; it is open in the states
  AUTHENTICATED and FORCE_AUTH and closed in DISCONNECTED, HELD and FORCE_UNAUTH.
\<close>

theorem driver_port_agrees:
  assumes "port_reach env alive eap_step conf fl i sm e"
    and "\<And>s t. env s t \<Longrightarrow> auth_pae_state t = auth_pae_state s \<and>
      authPortStatus t = authPortStatus s \<and> outputs t = outputs s"
  shows "port_of (outputs sm) = authPortStatus sm \<and>
    (auth_pae_state sm \<in> {AUTH_PAE_AUTHENTICATED, AUTH_PAE_FORCE_AUTH} \<longrightarrow>
     authPortStatus sm = Authorized) \<and>
    (auth_pae_state sm \<in> {AUTH_PAE_DISCONNECTED, AUTH_PAE_HELD, AUTH_PAE_FORCE_UNAUTH} \<longrightarrow>
     authPortStatus sm = Unauthorized)"
proof -
  have "port_inv sm"
  proof (rule port_inv.I_reach [OF assms(1)])
    show "port_inv (eapol_sm_new conf fl i)" by (simp add: port_inv_def eapol_sm_new_def)
    show "port_inv t" if "port_inv s" "env s t" for s t
      using that(1) assms(2) [OF that(2)] by (simp add: port_inv_def)
  qed
  then show ?thesis unfolding port_inv_def .
qed

text \<open>A port to try the theorems on: WPA, an idle EAP server, and no outside changes.\<close>

definition sample_if :: eap_eapol_interface where
  "sample_if = \<lparr>eapResp = False, portEnabled = False, retransWhile = 0, eapRestart = False,
     eapReq = False, eapNoReq = False, eapSuccess = False, eapFail = False, eapTimeout = False,
     eapReqData = None, eapKeyAvailable = False, aaaEapResp = False, aaaEapRespData = None\<rparr>"

definition sample_conf :: eapol_auth_config where
  "sample_conf = \<lparr>conf_wpa = True, conf_eap_reauth_period = 3600, conf_default_wep_key = False,
     conf_individual_wep_key_len = 0\<rparr>"

definition sample_server :: "unit \<Rightarrow> eap_eapol_interface \<Rightarrow> unit \<times> eap_eapol_interface \<times> bool" where
  "sample_server e i = (e, i\<lparr>eapSuccess := False\<rparr>, False)"

definition sample_port :: eapol_sm where
  "sample_port = fst (the (eapol_auth_alloc (\<lambda>_. True) sample_server sample_conf 4
     (Some ((), sample_if))))"

lemma sample_port_reach:
  "port_reach (\<lambda>_ _. False) (\<lambda>_. True) sample_server sample_conf 4 sample_if sample_port ()"
  by (rule port_alloc [of _ _ _ _ "()"]) (simp add: sample_port_def eapol_auth_alloc_def prod_eq_iff)

theorem driver_port_agrees_witness:
  "port_of (outputs sample_port) = authPortStatus sample_port"
  using driver_port_agrees [OF sample_port_reach] by simp

subsection \<open>The port opens only after success, and with keys\<close>

definition port_shut :: "eapol_sm \<Rightarrow> bool" where
  "port_shut sm \<longleftrightarrow> portControl sm = Auto \<and>
     auth_pae_state sm \<notin> {AUTH_PAE_AUTHENTICATED, AUTH_PAE_FORCE_AUTH} \<and>
     authPortStatus sm \<noteq> Authorized \<and> SetPort True \<notin> set (outputs sm)"

definition no_success :: "eapol_sm \<Rightarrow> bool" where
  "no_success sm \<longleftrightarrow> \<not> authSuccess sm \<and> \<not> eapSuccess (eap_if sm)"

lemma port_shut_pae:
  "port_shut sm \<Longrightarrow> \<not> authSuccess sm \<or> \<not> portValid sm \<Longrightarrow> port_shut (sm_AUTH_PAE_Step sm)"
  using pae_step_trans [of sm]
  by (cases rule: pae_trans.cases) (auto simp: port_shut_def frame_simps)

lemma port_shut_keep:
  "port_shut s \<Longrightarrow> portControl t = portControl s \<Longrightarrow> auth_pae_state t = auth_pae_state s \<Longrightarrow>
   authPortStatus t = authPortStatus s \<Longrightarrow>
   \<exists>es. outputs t = outputs s @ es \<and> (\<forall>o1 \<in> set es. \<forall>b. SetPort b \<noteq> o1) \<Longrightarrow> port_shut t"
  by (auto simp: port_shut_def)

lemma be_guard_frame:
  "portControl (sm_BE_AUTH_Step sm) = portControl sm" "portValid (sm_BE_AUTH_Step sm) = portValid sm"
  using be_step_trans [of sm] by (cases rule: be_trans.cases; simp add: frame_simps be_response_def)+

lemma reauth_guard_frame:
  "portControl (sm_REAUTH_TIMER_Step sm) = portControl sm" "portValid (sm_REAUTH_TIMER_Step sm) = portValid sm"
  using reauth_step_forms [of sm] by (auto simp: frame_simps)

lemma key_tx_guard_frame:
  "portControl (sm_AUTH_KEY_TX_Step sm) = portControl sm" "portValid (sm_AUTH_KEY_TX_Step sm) = portValid sm"
  using key_tx_step_forms [of sm] by (auto simp: frame_simps)

lemma key_rx_guard_frame:
  "portControl (sm_KEY_RX_Step sm) = portControl sm" "portValid (sm_KEY_RX_Step sm) = portValid sm"
  using key_rx_step_forms [of sm] by (auto simp: frame_simps)

lemma ctrl_dir_guard_frame:
  "portControl (sm_CTRL_DIR_Step sm) = portControl sm" "portValid (sm_CTRL_DIR_Step sm) = portValid sm"
  using ctrl_dir_step_forms [of sm] by (auto simp: frame_simps)

lemmas guard_frame = be_guard_frame reauth_guard_frame key_tx_guard_frame key_rx_guard_frame
  ctrl_dir_guard_frame

lemma port_shut_others:
  assumes "port_shut sm"
  shows "port_shut (sm_BE_AUTH_Step sm)" "port_shut (sm_REAUTH_TIMER_Step sm)"
    "port_shut (sm_AUTH_KEY_TX_Step sm)" "port_shut (sm_KEY_RX_Step sm)"
    "port_shut (sm_CTRL_DIR_Step sm)"
  by (rule port_shut_keep [OF assms];
      simp add: guard_frame be_step_keep reauth_step_keep key_tx_step_keep key_rx_step_keep ctrl_dir_step_keep)+

lemma no_success_step:
  assumes "no_success sm"
  shows "no_success (sm_AUTH_PAE_Step sm)" "no_success (sm_BE_AUTH_Step sm)"
    "no_success (sm_REAUTH_TIMER_Step sm)" "no_success (sm_AUTH_KEY_TX_Step sm)"
    "no_success (sm_KEY_RX_Step sm)" "no_success (sm_CTRL_DIR_Step sm)"
proof -
  show "no_success (sm_AUTH_PAE_Step sm)"
    using pae_step_trans [of sm] assms
    by (cases rule: pae_trans.cases) (auto simp: no_success_def frame_simps)
  show "no_success (sm_BE_AUTH_Step sm)"
    using be_step_trans [of sm] assms
    by (cases rule: be_trans.cases) (auto simp: no_success_def frame_simps be_response_def)
  show "no_success (sm_REAUTH_TIMER_Step sm)"
    using reauth_step_forms [of sm] assms by (auto simp: no_success_def frame_simps)
  show "no_success (sm_AUTH_KEY_TX_Step sm)"
    using key_tx_step_forms [of sm] assms by (auto simp: no_success_def frame_simps)
  show "no_success (sm_KEY_RX_Step sm)"
    using key_rx_step_forms [of sm] assms by (auto simp: no_success_def frame_simps)
  show "no_success (sm_CTRL_DIR_Step sm)"
    using ctrl_dir_step_forms [of sm] assms by (auto simp: no_success_def frame_simps)
qed

text \<open>An EAP server that never accepts the peer, made from any server.\<close>

definition never_succeeds ::
  "('e \<Rightarrow> eap_eapol_interface \<Rightarrow> 'e \<times> eap_eapol_interface \<times> bool) \<Rightarrow>
   'e \<Rightarrow> eap_eapol_interface \<Rightarrow> 'e \<times> eap_eapol_interface \<times> bool" where
  "never_succeeds eap_step e i =
     (case eap_step e i of (e', i', again) \<Rightarrow> (e', i'\<lparr>eapSuccess := False\<rparr>, again))"

lemma never_succeeds_id:
  assumes "\<And>e i. \<not> eapSuccess (fst (snd (eap_step e i)))"
  shows "never_succeeds eap_step = eap_step"
proof (intro ext)
  fix e i
  obtain e' i' b where s: "eap_step e i = (e', i', b)" by (cases "eap_step e i")
  with assms [of e i] show "never_succeeds eap_step e i = eap_step e i"
    by (cases i') (simp add: never_succeeds_def)
qed

interpretation shut_fail: port_invariant "\<lambda>sm. port_shut sm \<and> no_success sm" "never_succeeds eap_step"
  for eap_step
proof unfold_locales
  fix sm assume "port_shut sm \<and> no_success sm"
  then have sm: "port_shut sm" "no_success sm" "\<not> authSuccess sm \<or> \<not> portValid sm"
    by (simp_all add: no_success_def)
  show "port_shut (sm_AUTH_PAE_Step sm) \<and> no_success (sm_AUTH_PAE_Step sm)"
    using sm port_shut_pae no_success_step(1) by blast
  show "port_shut (sm_BE_AUTH_Step sm) \<and> no_success (sm_BE_AUTH_Step sm)"
    "port_shut (sm_REAUTH_TIMER_Step sm) \<and> no_success (sm_REAUTH_TIMER_Step sm)"
    "port_shut (sm_AUTH_KEY_TX_Step sm) \<and> no_success (sm_AUTH_KEY_TX_Step sm)"
    "port_shut (sm_KEY_RX_Step sm) \<and> no_success (sm_KEY_RX_Step sm)"
    "port_shut (sm_CTRL_DIR_Step sm) \<and> no_success (sm_CTRL_DIR_Step sm)"
    using port_shut_others [OF sm(1)] no_success_step [OF sm(2)] by simp_all
  show "port_shut (sm\<lparr>eap_if := fst (snd (never_succeeds eap_step e (eap_if sm)))\<rparr>) \<and>
      no_success (sm\<lparr>eap_if := fst (snd (never_succeeds eap_step e (eap_if sm)))\<rparr>)" for e
    using sm by (cases "eap_step e (eap_if sm)") (simp add: port_shut_def no_success_def never_succeeds_def)
qed (auto simp: port_shut_def no_success_def emit_def)

interpretation shut_keys: port_invariant "\<lambda>sm. port_shut sm \<and> \<not> portValid sm" eap_step for eap_step
proof unfold_locales
  fix sm assume "port_shut sm \<and> \<not> portValid sm"
  then have sm: "port_shut sm" "\<not> portValid sm" by simp_all
  have "portValid (sm_AUTH_PAE_Step sm) = portValid sm"
    using pae_step_trans [of sm] by (cases rule: pae_trans.cases) (simp_all add: frame_simps)
  then show "port_shut (sm_AUTH_PAE_Step sm) \<and> \<not> portValid (sm_AUTH_PAE_Step sm)"
    using sm port_shut_pae by blast
  show "port_shut (sm_BE_AUTH_Step sm) \<and> \<not> portValid (sm_BE_AUTH_Step sm)"
    "port_shut (sm_REAUTH_TIMER_Step sm) \<and> \<not> portValid (sm_REAUTH_TIMER_Step sm)"
    "port_shut (sm_AUTH_KEY_TX_Step sm) \<and> \<not> portValid (sm_AUTH_KEY_TX_Step sm)"
    "port_shut (sm_KEY_RX_Step sm) \<and> \<not> portValid (sm_KEY_RX_Step sm)"
    "port_shut (sm_CTRL_DIR_Step sm) \<and> \<not> portValid (sm_CTRL_DIR_Step sm)"
    using port_shut_others [OF sm(1)] sm(2) by (simp_all add: guard_frame)
qed (auto simp: port_shut_def emit_def)

lemma port_shut_new: "port_shut (eapol_sm_new conf fl i)"
  by (simp add: port_shut_def eapol_sm_new_def)

text \<open>
  No access without authentication. If the EAP server never reports success for a station,
  and nothing outside sets the port control, the success flags, the PAE state or the port status,
  then the driver is never told to open the port, in any state the port can reach.
\<close>

lemma no_success_no_port:
  assumes "port_reach env alive eap_step conf fl i sm e"
    and "\<And>e i. \<not> eapSuccess (fst (snd (eap_step e i)))" and "\<not> eapSuccess i"
    and "\<And>s t. env s t \<Longrightarrow> portControl t = portControl s \<and> authSuccess t = authSuccess s \<and>
      \<not> eapSuccess (eap_if t) \<and> auth_pae_state t = auth_pae_state s \<and>
      authPortStatus t = authPortStatus s \<and> outputs t = outputs s"
  shows "SetPort True \<notin> set (outputs sm) \<and> authPortStatus sm \<noteq> Authorized"
proof -
  have "port_reach env alive (never_succeeds eap_step) conf fl i sm e"
    using assms(1) never_succeeds_id [of eap_step, OF assms(2)] by simp
  then have "port_shut sm \<and> no_success sm"
  proof (rule shut_fail.I_reach)
    show "port_shut (eapol_sm_new conf fl i) \<and> no_success (eapol_sm_new conf fl i)"
      using assms(3) by (simp add: port_shut_new no_success_def) (simp add: eapol_sm_new_def)
    show "port_shut t \<and> no_success t" if "port_shut s \<and> no_success s" "env s t" for s t
      using that(1) assms(4) [OF that(2)] by (simp add: port_shut_def no_success_def)
  qed
  then show ?thesis by (simp add: port_shut_def)
qed

theorem no_success_no_port_witness:
  "SetPort True \<notin> set (outputs sample_port) \<and> authPortStatus sample_port \<noteq> Authorized"
  by (rule no_success_no_port [OF sample_port_reach]) (simp_all add: sample_server_def sample_if_def)

text \<open>
  What \<^verbatim>\<open>ieee802_1x_new_station\<close> writes for a station with a key in the PMKSA cache: the machines
  continue as if EAP had just succeeded.
\<close>

definition new_station_cached :: "eapol_sm \<Rightarrow> eapol_sm" where
  "new_station_cached sm =
     sm\<lparr>keyRun := True, eap_if := (eap_if sm)\<lparr>eapKeyAvailable := True\<rparr>,
        auth_pae_state := AUTH_PAE_AUTHENTICATING, be_auth_state := BE_AUTH_SUCCESS, authSuccess := True\<rparr>"

text \<open>
  C18: No access without keys. With WPA configured the port starts with \<open>portValid\<close> unset. As
  long as nothing outside sets it, as the WPA authenticator does when the 4-way handshake is
  done, the machines never tell the driver to open the port and \<open>authPortStatus\<close> is not authorized, even if EAP
  succeeds or a cached key lets the station skip EAP. Between the runs of the machines the
  rest of the program may write what it likes, with these limits, which are those of its code: it
  may change \<open>portControl\<close> only to \<open>Auto\<close> (\<^verbatim>\<open>ap/wpa_auth_glue.c\<close>), the PAE state only to AUTHENTICATING (a
  cached key, or one of 802.11r, in \<^verbatim>\<open>ap/ieee802_1x.c\<close>), \<open>portValid\<close> only to false, and it neither writes
  \<open>authPortStatus\<close> nor calls \<open>set_port_authorized\<close> with true itself.
\<close>

theorem no_keys_no_port:
  assumes "port_reach env alive eap_step conf fl i sm e" and "conf_wpa conf"
    and "\<And>s t. env s t \<Longrightarrow> portControl t \<in> {portControl s, Auto} \<and> (portValid t \<longrightarrow> portValid s) \<and>
      auth_pae_state t \<in> {auth_pae_state s, AUTH_PAE_AUTHENTICATING} \<and> authPortStatus t = authPortStatus s \<and>
      (\<exists>es. outputs t = outputs s @ es \<and> SetPort True \<notin> set es)"
  shows "SetPort True \<notin> set (outputs sm) \<and> authPortStatus sm \<noteq> Authorized"
proof -
  have "port_shut sm \<and> \<not> portValid sm"
  proof (rule shut_keys.I_reach [OF assms(1)])
    show "port_shut (eapol_sm_new conf fl i) \<and> \<not> portValid (eapol_sm_new conf fl i)"
      using assms(2) by (simp add: port_shut_new) (simp add: eapol_sm_new_def)
    show "port_shut t \<and> \<not> portValid t" if "port_shut s \<and> \<not> portValid s" "env s t" for s t
      using that(1) assms(3) [OF that(2)] by (auto simp: port_shut_def)
  qed
  then show ?thesis by (simp add: port_shut_def)
qed

text \<open>
  A station that associates with a cached key: it counts as successful, and a run of its machines leaves
  the port closed.
\<close>

definition sample_cached :: eapol_sm where
  "sample_cached = new_station_cached (sample_port\<lparr>eap_if := (eap_if sample_port)\<lparr>portEnabled := True\<rparr>\<rparr>)"

theorem no_keys_no_port_witness:
  "let sm = fst (eapol_sm_step_run (\<lambda>_. True) sample_server sample_cached ())
   in authSuccess sample_cached \<and> auth_pae_state sample_cached = AUTH_PAE_AUTHENTICATING \<and>
      portEnabled (eap_if sample_cached) \<and> SetPort True \<notin> set (outputs sm) \<and> authPortStatus sm \<noteq> Authorized"
proof -
  let ?env = "\<lambda>s t. t = new_station_cached (s\<lparr>eap_if := (eap_if s)\<lparr>portEnabled := True\<rparr>\<rparr>)"
  have "port_reach ?env (\<lambda>_. True) sample_server sample_conf 4 sample_if sample_port ()"
    by (rule port_alloc [of _ _ _ _ "()"]) (simp add: sample_port_def eapol_auth_alloc_def prod_eq_iff)
  then have "port_reach ?env (\<lambda>_. True) sample_server sample_conf 4 sample_if sample_cached ()"
    by (rule port_env) (simp add: sample_cached_def)
  then have "port_reach ?env (\<lambda>_. True) sample_server sample_conf 4 sample_if
      (fst (eapol_sm_step_run (\<lambda>_. True) sample_server sample_cached ())) ()"
    by (rule port_run) (simp add: prod_eq_iff)
  from no_keys_no_port [OF this] show ?thesis
    by (simp add: sample_conf_def new_station_cached_def sample_cached_def)
qed

subsection \<open>The quiet period\<close>

definition held_for :: "int \<Rightarrow> eapol_sm \<Rightarrow> bool" where
  "held_for q sm \<longleftrightarrow> auth_pae_state sm = AUTH_PAE_HELD \<and> quietWhile sm = q \<and> 0 < q \<and>
     portControl sm = Auto \<and> portMode sm = Auto \<and> \<not> initialize sm \<and> portEnabled (eap_if sm) \<and>
     authPortStatus sm = Unauthorized"

text \<open>An EAP server that does not touch \<open>portEnabled\<close>, made from any server.\<close>

definition keeps_port ::
  "('e \<Rightarrow> eap_eapol_interface \<Rightarrow> 'e \<times> eap_eapol_interface \<times> bool) \<Rightarrow>
   'e \<Rightarrow> eap_eapol_interface \<Rightarrow> 'e \<times> eap_eapol_interface \<times> bool" where
  "keeps_port eap_step e i =
     (case eap_step e i of (e', i', again) \<Rightarrow> (e', i'\<lparr>portEnabled := portEnabled i\<rparr>, again))"

lemma keeps_port_id:
  assumes "\<And>e i. portEnabled (fst (snd (eap_step e i))) = portEnabled i"
  shows "keeps_port eap_step = eap_step"
proof (intro ext)
  fix e i
  obtain e' i' b where s: "eap_step e i = (e', i', b)" by (cases "eap_step e i")
  with assms [of e i] show "keeps_port eap_step e i = eap_step e i"
    by (cases i') (simp add: keeps_port_def)
qed

lemma held_pae: "held_for q sm \<Longrightarrow> sm_AUTH_PAE_Step sm = sm"
  by (simp add: held_for_def sm_AUTH_PAE_Step_def)

lemma held_others:
  assumes "held_for q sm"
  shows "held_for q (sm_BE_AUTH_Step sm)" "held_for q (sm_REAUTH_TIMER_Step sm)"
    "held_for q (sm_AUTH_KEY_TX_Step sm)" "held_for q (sm_KEY_RX_Step sm)"
    "held_for q (sm_CTRL_DIR_Step sm)"
proof -
  show "held_for q (sm_BE_AUTH_Step sm)"
    using be_step_trans [of sm] assms
    by (cases rule: be_trans.cases) (simp_all add: held_for_def frame_simps be_response_def)
  show "held_for q (sm_REAUTH_TIMER_Step sm)"
    using reauth_step_forms [of sm] assms by (auto simp: held_for_def frame_simps)
  show "held_for q (sm_AUTH_KEY_TX_Step sm)"
    using key_tx_step_forms [of sm] assms by (auto simp: held_for_def frame_simps)
  show "held_for q (sm_KEY_RX_Step sm)"
    using key_rx_step_forms [of sm] assms by (auto simp: held_for_def frame_simps)
  show "held_for q (sm_CTRL_DIR_Step sm)"
    using ctrl_dir_step_forms [of sm] assms by (auto simp: held_for_def frame_simps)
qed

interpretation held: machine_invariant "held_for q" "keeps_port eap_step" for q eap_step
proof unfold_locales
  fix sm e assume sm: "held_for q sm"
  show "held_for q (sm_AUTH_PAE_Step sm)" using sm by (simp add: held_pae)
  show "held_for q (sm_BE_AUTH_Step sm)" "held_for q (sm_REAUTH_TIMER_Step sm)"
    "held_for q (sm_AUTH_KEY_TX_Step sm)" "held_for q (sm_KEY_RX_Step sm)"
    "held_for q (sm_CTRL_DIR_Step sm)"
    by (rule held_others [OF sm])+
  show "held_for q (sm\<lparr>eap_if := fst (snd (keeps_port eap_step e (eap_if sm)))\<rparr>)"
    using sm by (cases "eap_step e (eap_if sm)") (simp add: held_for_def keeps_port_def)
qed (auto simp: held_for_def emit_def)

lemma held_tick:
  assumes "held_for q sm" and "1 < q"
  shows "held_for (q - 1) (fst (eapol_port_timers_tick alive (keeps_port eap_step) sm e))"
proof -
  define t where "t = sm\<lparr>aWhile := tick_down (aWhile sm), quietWhile := tick_down (quietWhile sm),
    reAuthWhen := tick_down (reAuthWhen sm),
    eap_if := (eap_if sm)\<lparr>retransWhile := tick_down (retransWhile (eap_if sm))\<rparr>\<rparr>"
  have "held_for (q - 1) t" using assms by (simp add: held_for_def t_def tick_down_def)
  from held.I_run [OF this, of alive eap_step e] show ?thesis
    by (auto simp: eapol_port_timers_tick_def Let_def t_def intro!: held.I_emit split: prod.split)
qed

lemma held_ticks:
  assumes "held_for q sm" and "int n < q"
  shows "held_for (q - int n)
    (fst (((\<lambda>(s, e). eapol_port_timers_tick alive (keeps_port eap_step) s e) ^^ n) (sm, e)))"
  using assms(2)
proof (induction n)
  case 0
  then show ?case using assms(1) by simp
next
  case (Suc n)
  obtain s e' where s: "((\<lambda>(s, e). eapol_port_timers_tick alive (keeps_port eap_step) s e) ^^ n) (sm, e) = (s, e')"
    by fastforce
  with Suc have "held_for (q - int n) s" by simp
  from held_tick [OF this, of alive eap_step e'] show ?case using Suc.prems s by (simp add: diff_diff_eq add.commute)
qed

text \<open>
  The quiet period. A station that fails enters HELD with its port closed, and for every
  number of one second ticks below \<open>quietPeriod\<close> it is still in HELD with its port closed,
  whatever the EAP server does: it cannot try again before the period is over.
\<close>

lemma held_for_quiet_period:
  assumes "portControl s = Auto" "portMode s = Auto" "\<not> initialize s" "portEnabled (eap_if s)"
    and "\<And>e i. portEnabled (fst (snd (eap_step e i))) = portEnabled i"
    and "int n < sint (quietPeriod s)"
  shows "let t = fst (((\<lambda>(s, e). eapol_port_timers_tick alive eap_step s e) ^^ n)
      (sm_AUTH_PAE_HELD_Enter g s, e))
    in auth_pae_state t = AUTH_PAE_HELD \<and> authPortStatus t = Unauthorized \<and>
       quietWhile t = sint (quietPeriod s) - int n"
proof -
  have "held_for (sint (quietPeriod s)) (sm_AUTH_PAE_HELD_Enter g s)"
    using assms(1-4,6) by (simp add: held_for_def frame_simps)
  from held_ticks [OF this assms(6), of alive eap_step e]
  show ?thesis by (simp add: keeps_port_id [of eap_step, OF assms(5)] held_for_def Let_def)
qed

theorem held_for_quiet_period_witness:
  "auth_pae_state (fst (((\<lambda>(s, e). eapol_port_timers_tick (\<lambda>_. True) sample_server s e) ^^ 59)
     (sm_AUTH_PAE_HELD_Enter False ((eapol_sm_new sample_conf 4 (sample_if\<lparr>portEnabled := True\<rparr>))\<lparr>portMode := Auto\<rparr>), ())))
   = AUTH_PAE_HELD"
proof -
  let ?s = "(eapol_sm_new sample_conf 4 (sample_if\<lparr>portEnabled := True\<rparr>))\<lparr>portMode := Auto\<rparr>"
  have "int 59 < sint (quietPeriod ?s)" by (simp add: eapol_sm_new_def)
  then show ?thesis
    using held_for_quiet_period [of ?s sample_server 59 "\<lambda>_. True" False "()"]
    by (simp add: eapol_sm_new_def sample_server_def sample_if_def Let_def)
qed

end
