(* ===== verification/EapServe.thy ===== *)
theory EapServe
  imports EapTalk EapolPort
begin

text \<open>
  What the EAP server of \<open>EapMethods\<close> promises in every run, with runs of it, and the EAPOL port that
  is served by it.
\<close>

subsection \<open>A run to try the theorems on\<close>

definition sample_user :: "u8 \<Rightarrow> u32 \<Rightarrow> bytes \<Rightarrow> hostapd_eap_user" where
  "sample_user name type password =
     \<lparr>hu_identity = Some [name], hu_methods = (EAP_VENDOR_IETF, type) # replicate 7 no_eap_method,
      hu_password = Some password, hu_phase2 = False, hu_force_version = -1, hu_wildcard_prefix = False,
      hu_password_hash = False, hu_ttls_auth = 0\<rparr>"

definition sample_users :: "hostapd_eap_user list" where
  "sample_users = [sample_user 0x61 EAP_TYPE_GTC [1, 2, 3], sample_user 0x62 EAP_TYPE_GTC [4, 5]]"

definition sample_eap_env :: eap_env where
  "sample_eap_env = \<lparr>env_rand = (\<lambda>log. 7), env_random_bytes = (\<lambda>log n. (replicate n 9, True)),
     env_get_user = ieee802_1x_get_eap_user sample_users, env_req_id_text = []\<rparr>"

definition sample_eap_conf :: eap_config where
  "sample_eap_conf = \<lparr>conf_backend_auth = True, conf_eap_server = True\<rparr>"

text \<open>A response comes in, and the EAPOL machines tell the server about it.\<close>

definition hear :: "bytes \<Rightarrow> 'x eap_data eap_sm \<Rightarrow> 'x eap_data eap_sm" where
  "hear resp sm = (sm\<lparr>eapRespData := Some resp\<rparr>)\<lparr>eap_ifc := (eap_ifc sm)\<lparr>eapResp := True\<rparr>\<rparr>"

definition enabled :: "'x eap_data eap_sm \<Rightarrow> 'x eap_data eap_sm" where
  "enabled sm = sm\<lparr>eap_ifc := (eap_ifc sm)\<lparr>portEnabled := True\<rparr>\<rparr>"

text \<open>The station tells its identity, and then its password.\<close>

definition sample_asking :: "unit eap_data eap_sm" where
  "sample_asking = after_call sample_eap_env (enabled (eap_server_sm_init sample_eap_conf))"

definition sample_named :: "unit eap_data eap_sm" where
  "sample_named = after_call sample_eap_env (hear [2, 7, 0, 6, 1, 0x61] sample_asking)"

definition sample_answer :: "unit eap_data eap_sm" where
  "sample_answer = hear [2, 8, 0, 8, 6, 1, 2, 3] sample_named"

lemma sample_env_ok:
  "eap_users_ok sample_users" "answers_from sample_users sample_eap_env" "random_ok sample_eap_env"
  by (simp_all add: eap_users_ok_def sample_users_def sample_user_def answers_from_def sample_eap_env_def random_ok_def
      EAP_MAX_METHODS_def)

lemma reach_hear: "eap_reach E cf sm \<Longrightarrow> eap_reach E cf (hear resp sm)"
  unfolding hear_def by (intro eap_reach.eap_port eap_reach.eap_response)

lemma reach_enabled: "eap_reach E cf sm \<Longrightarrow> eap_reach E cf (enabled sm)"
  unfolding enabled_def by (rule eap_reach.eap_port)

definition serving :: "hostapd_eap_user list \<Rightarrow> eap_env \<Rightarrow> bool" where
  "serving users env \<longleftrightarrow> answers_from users env \<and> random_ok env"

lemma reach_after:
  assumes "eap_reach (serving users) cf (sm :: 'x eap_data eap_sm)" "eap_users_ok users" "serving users env"
  shows "eap_reach (serving users) cf (after_call env sm)"
proof -
  have ok: "env_ok (eap_server_register_methods :: 'x eap_data eap_method list) e" if "serving users e" for e
    using that by (auto simp: serving_def intro: configured_env_ok [OF assms(2)])
  show ?thesis by (rule call_returns [OF assms(1) ok assms(3)])
qed

lemma sample_eap_reach:
  "eap_reach (serving sample_users) sample_eap_conf sample_asking"
  "eap_reach (serving sample_users) sample_eap_conf sample_named"
  "eap_reach (serving sample_users) sample_eap_conf sample_answer"
proof -
  have s: "serving sample_users sample_eap_env" by (simp add: serving_def sample_env_ok)
  show a: "eap_reach (serving sample_users) sample_eap_conf sample_asking"
    unfolding sample_asking_def by (intro reach_after reach_enabled eap_reach.eap_new sample_env_ok s)
  show b: "eap_reach (serving sample_users) sample_eap_conf sample_named"
    unfolding sample_named_def by (intro reach_after reach_hear a sample_env_ok s)
  show "eap_reach (serving sample_users) sample_eap_conf sample_answer"
    unfolding sample_answer_def by (intro reach_hear b)
qed

subsection \<open>The server is well formed and returns\<close>

lemma users_env_ok:
  assumes "eap_users_ok users"
  shows "answers_from users env \<Longrightarrow> env_ok (eap_server_register_methods :: 'x eap_data eap_method list) env"
    "serving users env \<Longrightarrow> env_ok (eap_server_register_methods :: 'x eap_data eap_method list) env"
  by (auto simp: serving_def intro: configured_env_ok [OF assms])

text \<open>
  C24: The types of the EAP server. In every run with configured users whose methods are registered,
  between any two calls: a selected method is registered, its private data is there and is of the
  method's own type, and the current method is the type of it; the private data is gone with the
  method; the user has eight method entries, all registered or empty; the identifier is -1 or an
  octet; at most 52 rounds are counted; and the machine is in a state that waits, in \<open>IDLE\<close> with a
  method.
\<close>

theorem eap_server_well_formed:
  fixes sm :: "'x eap_data eap_sm"
  assumes "eap_users_ok users" and "eap_reach (answers_from users) cf sm"
  shows "(case sm_method sm of
            None \<Rightarrow> eap_method_priv sm = None
          | Some m \<Rightarrow> m \<in> set eap_server_register_methods \<and> currentMethod sm = m_type m \<and>
              (\<exists>p. eap_method_priv sm = Some p \<and> data_of m p)) \<and>
    (\<forall>u. eap_usr (sh sm) = Some u \<longrightarrow> user_ok (eap_server_register_methods :: 'x eap_data eap_method list) u) \<and>
    -1 \<le> currentId sm \<and> currentId sm \<le> 255 \<and> 0 \<le> num_rounds sm \<and> num_rounds sm \<le> 52 \<and>
    settled sm \<and> (EAP_state sm = EAP_IDLE \<longrightarrow> sm_method sm \<noteq> None)"
proof -
  note env = users_env_ok(1) [OF assms(1)]
  have "talk_env False (ieee802_1x_get_eap_user users) e" if "answers_from users e" for e
    using that by (simp add: talk_env_def answers_from_def)
  from reach_talk [OF assms(2) env this] have d: "data_ok sm" by (simp add: talk_def talk_base_def)
  have ok: "base_ok eap_server_register_methods sm" "settled sm" "EAP_state sm = EAP_IDLE \<longrightarrow> sm_method sm \<noteq> None"
    using reach_ok [OF assms(2) env] unfolding settled_ok by simp_all
  show ?thesis using d ok base_okD [OF ok(1)]
    by (auto simp: data_ok_def shared_ok_def EAP_MAX_AUTH_ROUNDS_def split: option.split)
qed

theorem eap_server_well_formed_witness:
  "sm_method sample_named \<noteq> None \<and> EAP_state sample_named = EAP_IDLE \<and> settled sample_named"
proof -
  have "eap_reach (answers_from sample_users) sample_eap_conf sample_named"
    by (rule reach_mono [OF sample_eap_reach(2)]) (simp add: serving_def)
  moreover have "EAP_state sample_named = EAP_IDLE" by code_simp
  ultimately show ?thesis using eap_server_well_formed [OF sample_env_ok(1), of sample_eap_conf sample_named] by simp
qed

text \<open>
  C8: The server returns. Every call of \<open>eap_server_sm_step\<close> in every run ends within \<open>EAP_ROUNDS\<close>, 19,
  rounds of its loop, which has no bound in the code, and never dereferences a NULL pointer or
  reads outside a packet; more rounds change nothing. The methods of the users have to be
  registered and to start, as those of \<open>eap_server_register_methods\<close> do.
\<close>

theorem eap_server_step_returns:
  fixes sm :: "'x eap_data eap_sm"
  assumes "eap_users_ok users" and "eap_reach (answers_from users) cf sm" and "answers_from users env"
  shows "\<exists>res t. eap_server_sm_step EAP_ROUNDS eap_server_register_methods env sm = Ret (res, t) \<and>
    (\<forall>k. eap_server_sm_step (EAP_ROUNDS + k) eap_server_register_methods env sm = Ret (res, t))"
proof -
  obtain res where res: "eap_server_sm_step EAP_ROUNDS eap_server_register_methods env sm = Ret (res, after_call env sm)"
    by (rule call_returns [OF assms(2) users_env_ok(1) [OF assms(1)] assms(3)])
  have "method_known eap_server_register_methods sm"
    using reach_ok [OF assms(2) users_env_ok(1) [OF assms(1)]] by (simp add: eap_ok_def base_ok_def)
  then have "eap_server_sm_step EAP_ROUNDS eap_server_register_methods env sm =
      eap_server_sm_step (EAP_ROUNDS + k) eap_server_register_methods env sm" for k
    using eap_srv.step_loop_returns(2) [of sm EAP_ROUNDS env False k] eap_rank_bound [of sm]
    by (simp add: eap_server_sm_step_def EAP_ROUNDS_def)
  with res show ?thesis by simp
qed

theorem eap_server_step_returns_witness:
  "\<exists>res t. eap_server_sm_step 19 eap_server_register_methods sample_eap_env sample_answer = Ret (res, t)"
proof -
  have "eap_reach (answers_from sample_users) sample_eap_conf sample_answer"
    by (rule reach_mono [OF sample_eap_reach(3)]) (simp add: serving_def)
  from eap_server_step_returns [OF sample_env_ok(1) this sample_env_ok(2)] show ?thesis by (auto simp: EAP_ROUNDS_def)
qed

subsection \<open>Success needs the password\<close>

text \<open>
  The response at hand answers the last request with the password of a configured user.
\<close>

definition right_answer :: "hostapd_eap_user list \<Rightarrow> 'x eap_data eap_sm \<Rightarrow> bool" where
  "right_answer users sm \<longleftrightarrow>
     (case (eapRespData sm, lastReqData sm) of
        (Some resp, Some req) \<Rightarrow> eap_get_id resp = eap_get_id req \<and>
          list_ex (\<lambda>u. case hu_password u of
              None \<Rightarrow> False
            | Some pw \<Rightarrow> md5_answer req pw resp \<or> gtc_answer req pw resp) users
      | _ \<Rightarrow> False)"

lemma answered_right:
  assumes "answered True sm" "user_from (ieee802_1x_get_eap_user users) (sh sm)"
  shows "right_answer users sm"
proof -
  obtain resp pw req where a: "eapRespData sm = Some resp" "plain_password (sh sm) = Some pw" "lastReqData sm = Some req"
    "eap_get_id resp = eap_get_id req" "md5_answer req pw resp \<or> gtc_answer req pw resp"
    using assms(1) by (auto simp: answered_def)
  obtain u where u: "eap_usr (sh sm) = Some u" "eu_password u = Some pw"
    using a(2) by (auto simp: plain_password_def split: option.splits if_splits)
  then obtain i v where "ieee802_1x_get_eap_user users i False = Some v" "eu_password v = Some pw"
    using assms(2) by (force simp: user_from_def)
  then obtain c where c: "c \<in> set users" "hu_password c = Some pw"
    using get_eap_user_in by (fastforce simp: ieee802_1x_get_eap_user_def)
  then show ?thesis using a by (auto simp: right_answer_def list_ex_iff intro!: bexI [of _ c])
qed

lemma serving_talk: "serving users env \<Longrightarrow> talk_env True (ieee802_1x_get_eap_user users) env"
  by (simp add: serving_def talk_env_def answers_from_def)

lemma success_right:
  fixes sm :: "'x eap_data eap_sm"
  assumes "eap_users_ok users" "conf_eap_server cf" "eap_reach (serving users) cf sm" "serving users env"
    "eap_server_sm_step EAP_ROUNDS eap_server_register_methods env sm = Ret (res, t)"
    "\<not> eapSuccess (eap_ifc sm)" "eapSuccess (eap_ifc t)"
  shows "right_answer users sm"
proof -
  have start: "talk True (ieee802_1x_get_eap_user users) sm sm" "eap_server sm"
    using reach_talk [OF assms(3) users_env_ok(2) [OF assms(1)] serving_talk] assms(2) by simp_all
  have "talk True (ieee802_1x_get_eap_user users) sm t"
    using step_loop_talk [OF assms(5) [unfolded eap_server_sm_step_def] start(1) serving_talk [OF assms(4)]] .
  then have "answered True sm" using assms(6,7) start(2) by (simp add: talk_def talk_base_def)
  moreover have "user_from (ieee802_1x_get_eap_user users) (sh sm)" using start(1) by (simp add: talk_def talk_base_def)
  ultimately show ?thesis by (rule answered_right)
qed

text \<open>
  C4: No success without the password. With the integrated server, a call that turns \<open>eapSuccess\<close> on
  finds a response at hand that carries the identifier of the last request and answers it with the
  password of a configured user: an MD5-Challenge response is the MD5 hash of the identifier, the
  password and the challenge of that request, a GTC response is the password itself. This holds in
  every run, whatever the EAPOL machines, the station and the backend write in between.
\<close>

theorem eap_success_needs_password:
  fixes sm :: "'x eap_data eap_sm"
  assumes "eap_users_ok users" and "conf_eap_server cf" and "eap_reach (serving users) cf sm" and "serving users env"
    and "eap_server_sm_step EAP_ROUNDS eap_server_register_methods env sm = Ret (res, t)"
    and "\<not> eapSuccess (eap_ifc sm)" and "eapSuccess (eap_ifc t)"
  shows "\<exists>resp req u pw. eapRespData sm = Some resp \<and> lastReqData sm = Some req \<and>
    eap_get_id resp = eap_get_id req \<and> u \<in> set users \<and> hu_password u = Some pw \<and>
    (md5_answer req pw resp \<or> gtc_answer req pw resp)"
  using success_right [OF assms]
  by (fastforce simp: right_answer_def list_ex_iff split: option.splits)

theorem eap_success_needs_password_witness:
  "eapSuccess (eap_ifc (after_call sample_eap_env sample_answer)) \<and>
   (\<exists>req u pw. lastReqData sample_answer = Some req \<and> u \<in> set sample_users \<and> hu_password u = Some pw \<and>
     gtc_answer req pw [2, 8, 0, 8, 6, 1, 2, 3])"
proof -
  have s: "serving sample_users sample_eap_env" by (simp add: serving_def sample_env_ok)
  obtain res where r: "eap_server_sm_step EAP_ROUNDS eap_server_register_methods sample_eap_env sample_answer =
      Ret (res, after_call sample_eap_env sample_answer)"
    by (rule call_returns [OF sample_eap_reach(3) users_env_ok(2) [OF sample_env_ok(1)] s])
  have ok: "eapSuccess (eap_ifc (after_call sample_eap_env sample_answer))" by code_simp
  have no: "\<not> eapSuccess (eap_ifc sample_answer)" "eapRespData sample_answer = Some [2, 8, 0, 8, 6, 1, 2, 3]"
    by code_simp+
  have gtc: "\<not> md5_answer req pw [2, 8, 0, 8, 6, 1, 2, 3]" for req pw
  proof -
    have "eap_hdr_validate EAP_VENDOR_IETF EAP_TYPE_MD5 [2, 8, 0, 8, 6, 1, 2, 3] = None" by code_simp
    then show ?thesis by (simp add: md5_answer_def split: option.split list.split)
  qed
  have "conf_eap_server sample_eap_conf" by (simp add: sample_eap_conf_def)
  from eap_success_needs_password [OF sample_env_ok(1) this sample_eap_reach(3) s r no(1) ok] show ?thesis
    using ok gtc no(2) by auto
qed

subsection \<open>Two runs that go wrong\<close>

text \<open>
  A response to the wrong identifier is discarded but stays at hand, and a station that starts over
  has its identity forgotten but not its user. So a station that knows the password of one user
  is accepted while the server holds the name of another.
\<close>

definition sample_renamed :: "unit eap_data eap_sm" where
  "sample_renamed =
     (let sm = after_call sample_eap_env (hear [2, 99, 0, 6, 1, 0x62] sample_named);
          sm = eap_server_clear_identity sm
      in after_call sample_eap_env (sm\<lparr>eap_ifc := (eap_ifc sm)\<lparr>eapRestart := True\<rparr>\<rparr>))"

lemma accepted_under_another_name:
  "let sm = after_call sample_eap_env (hear [2, 100, 0, 8, 6, 1, 2, 3] sample_renamed)
   in eapSuccess (eap_ifc sm) \<and> eap_identity (sh sm) = Some [0x62] \<and>
      map_option hu_password (hostapd_get_eap_user sample_users [0x62] False) = Some (Some [4, 5])"
  by code_simp

text \<open>
  A method that cannot start leaves no method and the current method \<open>EAP_TYPE_NONE\<close>, the last request
  is sent again, and a response of type 0 to it makes the integrity check call through NULL.
\<close>

definition broken_method :: "unit eap_data eap_method" where
  "broken_method = eap_gtc_method\<lparr>m_init := (\<lambda>env s. (None, s))\<rparr>"

lemma failed_start_faults:
  "case eap_server_sm_step EAP_ROUNDS [eap_identity_method, broken_method] sample_eap_env
       (hear [2, 7, 0, 6, 1, 0x61] sample_asking) of
     Ret (res, sm) \<Rightarrow> EAP_state sm = EAP_IDLE \<and>
       (case eap_server_sm_step EAP_ROUNDS [eap_identity_method, broken_method] sample_eap_env (hear [2, 7, 0, 5, 0] sm) of
          Fault \<Rightarrow> True | _ \<Rightarrow> False)
   | _ \<Rightarrow> False"
  by code_simp

subsection \<open>The port that is served\<close>

text \<open>
  A predicate on the port together with its server. What the machines and the server must keep is
  \<open>served_port\<close>, the joint form of \<open>port_invariant\<close>.
\<close>

locale served_port =
  fixes J :: "eapol_sm \<Rightarrow> 'e \<Rightarrow> bool" and eap_step :: "'e \<Rightarrow> eap_eapol_interface \<Rightarrow> 'e \<times> eap_eapol_interface \<times> bool"
  assumes J_pass: "J sm e \<Longrightarrow> J (sm_pass alive sm) e"
    and J_call: "J sm e \<Longrightarrow> eap_step e (eap_if sm) = (e', i', again) \<Longrightarrow> J (sm\<lparr>eap_if := i'\<rparr>) e'"
    and J_aaa: "J sm e \<Longrightarrow> J (sm\<lparr>eap_if := (eap_if sm)\<lparr>aaaEapResp := x\<rparr>\<rparr>) e"
    and J_emit: "J sm e \<Longrightarrow> \<forall>b. SetPort b \<noteq> o1 \<Longrightarrow> J (emit o1 sm) e"
    and J_timers: "J sm e \<Longrightarrow> J (sm\<lparr>aWhile := w, quietWhile := q, reAuthWhen := r\<rparr>) e"
    and J_retrans: "J sm e \<Longrightarrow> J (sm\<lparr>eap_if := (eap_if sm)\<lparr>retransWhile := w\<rparr>\<rparr>) e"
    and J_init: "J sm e \<Longrightarrow> J (sm\<lparr>initialize := b\<rparr>) e" "J sm e \<Longrightarrow> J (sm\<lparr>initializing := b\<rparr>) e"
begin

lemma J_after:
  assumes "J sm e" "sm_after_pass alive eap_step sm e = (sm', e', again)" shows "J sm' e'"
proof -
  obtain e1 i1 a where s: "eap_step e (eap_if sm) = (e1, i1, a)" by (cases "eap_step e (eap_if sm)")
  have c: "J (sm\<lparr>eap_if := i1\<rparr>) e1" by (rule J_call [OF assms(1) s])
  show ?thesis using assms s c J_aaa [OF c, of False]
    by (auto simp: sm_after_pass_def Let_def whenb_def intro!: J_emit split: if_splits option.splits)
qed

lemma J_loop: "J sm e \<Longrightarrow> step_run_loop alive eap_step n sm e = (sm', e') \<Longrightarrow> J sm' e'"
proof (induction n arbitrary: sm e)
  case 0
  then show ?case by (auto simp: eapol_auth_step_def J_emit)
next
  case (Suc n)
  then have p: "J (sm_pass alive sm) e" by (simp add: J_pass)
  obtain u f b where a: "sm_after_pass alive eap_step (sm_pass alive sm) e = (u, f, b)"
    by (cases "sm_after_pass alive eap_step (sm_pass alive sm) e")
  show ?case using Suc.prems(2) p J_after [OF p a] a Suc.IH by (auto simp: Let_def split: if_splits)
qed

lemma J_run: "J sm e \<Longrightarrow> eapol_sm_step_run alive eap_step sm e = (sm', e') \<Longrightarrow> J sm' e'"
  by (simp add: eapol_sm_step_run_def J_loop)

lemma J_tick:
  assumes "J sm e" "eapol_port_timers_tick alive eap_step sm e = (sm', e')" shows "J sm' e'"
proof -
  define t where "t = sm\<lparr>aWhile := tick_down (aWhile sm), quietWhile := tick_down (quietWhile sm),
    reAuthWhen := tick_down (reAuthWhen sm)\<rparr>"
  have "J t e" unfolding t_def by (rule J_timers [OF assms(1)])
  from J_retrans [OF this, of "tick_down (retransWhile (eap_if t))"] J_run show ?thesis
    using assms(2)
    by (auto simp: eapol_port_timers_tick_def Let_def t_def intro!: J_emit split: prod.splits)
qed

lemma J_initialize:
  assumes "J sm e" "eapol_auth_initialize alive eap_step sm e = (sm', e')" shows "J sm' e'"
proof -
  obtain s1 e1 where r1: "eapol_sm_step_run alive eap_step (sm\<lparr>initializing := True, initialize := True\<rparr>) e
      = (s1, e1)" by fastforce
  have "J s1 e1" by (rule J_run [OF J_init(1) [OF J_init(2) [OF assms(1)]] r1])
  moreover obtain s2 e2 where r2: "eapol_sm_step_run alive eap_step (s1\<lparr>initialize := False\<rparr>) e1 = (s2, e2)"
    by fastforce
  ultimately have "J s2 e2" using J_run [OF J_init(1)] by blast
  then show ?thesis using assms(2) r1 r2 by (auto simp: eapol_auth_initialize_def Let_def J_emit J_init)
qed

end

text \<open>
  The server of a station with a note whether some call so far found a right answer at hand; the note
  changes nothing that the server does.
\<close>

definition noting_server ::
  "hostapd_eap_user list \<Rightarrow> eap_env \<Rightarrow> 'x eap_data eap_sm \<times> bool \<Rightarrow> eap_eapol_interface \<Rightarrow>
   ('x eap_data eap_sm \<times> bool) \<times> eap_eapol_interface \<times> bool" where
  "noting_server users env ew i =
     (case eap_server_for_port EAP_ROUNDS eap_server_register_methods env (fst ew) i of
        (e, i', again) \<Rightarrow> ((e, snd ew \<or> right_answer users (fst ew)), i', again))"

text \<open>The entry points of the server that the rest of the program uses besides the calls.\<close>

inductive server_entry :: "'x eap_data eap_sm \<Rightarrow> 'x eap_data eap_sm \<Rightarrow> bool" where
  entry_none: "server_entry e e"
| entry_response: "server_entry e (e\<lparr>eapRespData := Some resp\<rparr>)"
| entry_backend: "server_entry e (e\<lparr>aaaEapReq := a, aaaSuccess := b, aaaFail := c, aaaEapReqData := d,
    aaaEapKeyData := k, aaaEapKeyAvailable := f, aaaMethodTimeout := g, aaaTimeout := h, aaaEapNoReq := n\<rparr>)"
| entry_pending: "server_entry e (eap_sm_pending_cb e)"
| entry_cached: "server_entry e (eap_sm_notify_cached e)"
| entry_forget: "server_entry e (eap_server_clear_identity e)"

text \<open>
  A station: its port is allocated, the machines run and the timers tick with the integrated server,
  and the rest of the program changes port and server as \<open>out\<close> allows.
\<close>

inductive station_reach ::
  "(eapol_sm \<Rightarrow> eapol_sm \<Rightarrow> bool) \<Rightarrow> (eapol_out list \<Rightarrow> bool) \<Rightarrow> hostapd_eap_user list \<Rightarrow> eap_env \<Rightarrow>
   eapol_auth_config \<Rightarrow> u32 \<Rightarrow> eap_config \<Rightarrow> eapol_sm \<Rightarrow> 'x eap_data eap_sm \<times> bool \<Rightarrow> bool"
  for out alive users env conf fl cf
where
  station_alloc: "eapol_auth_alloc alive (noting_server users env) conf fl
      (Some ((eap_server_sm_init cf, False), eap_ifc (eap_server_sm_init cf :: 'x eap_data eap_sm))) = Some (sm, ew) \<Longrightarrow>
    station_reach out alive users env conf fl cf sm ew"
| station_run: "station_reach out alive users env conf fl cf sm ew \<Longrightarrow>
    eapol_sm_step_run alive (noting_server users env) sm ew = (sm', ew') \<Longrightarrow>
    station_reach out alive users env conf fl cf sm' ew'"
| station_tick: "station_reach out alive users env conf fl cf sm ew \<Longrightarrow>
    eapol_port_timers_tick alive (noting_server users env) sm ew = (sm', ew') \<Longrightarrow>
    station_reach out alive users env conf fl cf sm' ew'"
| station_out: "station_reach out alive users env conf fl cf sm (e, w) \<Longrightarrow> out sm sm' \<Longrightarrow> server_entry e e' \<Longrightarrow>
    station_reach out alive users env conf fl cf sm' (e', w)"

definition guarded :: "hostapd_eap_user list \<Rightarrow> eap_config \<Rightarrow> eapol_sm \<Rightarrow> 'x eap_data eap_sm \<times> bool \<Rightarrow> bool" where
  "guarded users cf sm ew \<longleftrightarrow> eap_reach (serving users) cf (fst ew) \<and> (snd ew \<or> port_shut sm \<and> no_success sm)"

text \<open>The integrated server with configured users, as it serves a port; else one that never answers.\<close>

definition trusted :: "hostapd_eap_user list \<Rightarrow> eap_env \<Rightarrow> eap_config \<Rightarrow> bool" where
  "trusted users env cf \<longleftrightarrow> eap_users_ok users \<and> serving users env \<and> conf_eap_server cf"

lemma server_entry_reach: "server_entry e f \<Longrightarrow> eap_reach E cf e \<Longrightarrow> eap_reach E cf f"
  by (induction rule: server_entry.induct) (auto intro: eap_reach.intros)

lemma guarded_call:
  assumes tr: "trusted users env cf" and g: "guarded users cf sm ew"
    and c: "noting_server users env ew (eap_if sm) = (ew', i', again)"
  shows "guarded users cf (sm\<lparr>eap_if := i'\<rparr>) ew'"
proof -
  obtain e w where ew: "ew = (e, w)" by fastforce
  define s where "s = e\<lparr>eap_ifc := eap_if sm\<rparr>"
  have r: "eap_reach (serving users) cf s" using g by (simp add: guarded_def ew s_def eap_reach.eap_port)
  obtain res where res: "eap_server_sm_step EAP_ROUNDS eap_server_register_methods env s = Ret (res, after_call env s)"
      and ra: "eap_reach (serving users) cf (after_call env s)"
    using tr by (auto simp: trusted_def intro: call_returns [OF r users_env_ok(2)])
  have out: "ew' = (after_call env s, w \<or> right_answer users e)" "i' = eap_ifc (after_call env s)"
    using c res by (auto simp: noting_server_def eap_server_for_port_def ew s_def)
  have "right_answer users s = right_answer users e" by (simp add: right_answer_def s_def)
  then have "right_answer users e" if "\<not> eapSuccess (eap_if sm)" "eapSuccess i'"
    using success_right [OF _ _ r _ res] tr that out by (simp add: trusted_def s_def)
  then show ?thesis using g ra out by (auto simp: guarded_def ew port_shut_def no_success_def)
qed

interpretation guarded_port: served_port "\<lambda>sm ew. guarded users cf sm ew \<and> trusted users env cf" "noting_server users env"
  for users cf env
proof unfold_locales
  fix sm ew e' i' again alive
  assume "guarded users cf sm ew \<and> trusted users env cf"
  then have g: "guarded users cf sm ew" and tr: "trusted users env cf" by blast+
  show "guarded users cf (sm_pass alive sm) ew \<and> trusted users env cf"
    using g tr shut_fail.I_pass [of sm alive] by (auto simp: guarded_def)
  show "guarded users cf (sm\<lparr>eap_if := i'\<rparr>) e' \<and> trusted users env cf"
    if "noting_server users env ew (eap_if sm) = (e', i', again)"
    using guarded_call [OF tr g that] tr by simp
qed (auto simp: guarded_def port_shut_def no_success_def emit_def)

lemma station_guarded:
  fixes ew :: "'x eap_data eap_sm \<times> bool"
  assumes "trusted users env cf" and "station_reach out alive users env conf fl cf sm ew"
    and out: "\<And>s t. out s t \<Longrightarrow> portControl t = portControl s \<and> authSuccess t = authSuccess s \<and>
      (eapSuccess (eap_if t) \<longrightarrow> eapSuccess (eap_if s)) \<and> auth_pae_state t = auth_pae_state s \<and>
      authPortStatus t = authPortStatus s \<and> outputs t = outputs s"
  shows "guarded users cf sm ew"
  using assms(2)
proof induction
  case (station_alloc sm ew)
  let ?i = "eap_ifc (eap_server_sm_init cf :: 'x eap_data eap_sm)"
  have new: "guarded users cf (eapol_sm_new conf fl ?i) (eap_server_sm_init cf, False)"
    by (simp add: guarded_def eap_reach.eap_new port_shut_new no_success_def)
      (simp add: eapol_sm_new_def eap_server_sm_init_def)
  have "eapol_auth_initialize alive (noting_server users env) (eapol_sm_new conf fl ?i) (eap_server_sm_init cf, False) = (sm, ew)"
    using station_alloc by (simp add: eapol_auth_alloc_def)
  from guarded_port.J_initialize [OF conjI [OF new assms(1)] this] show ?case by simp
next
  case (station_run sm ew sm' ew')
  then show ?case using guarded_port.J_run [OF conjI [OF station_run.IH assms(1)]] by blast
next
  case (station_tick sm ew sm' ew')
  then show ?case using guarded_port.J_tick [OF conjI [OF station_tick.IH assms(1)]] by blast
next
  case (station_out sm e w sm' e')
  then show ?case using out [OF station_out.hyps(2)] server_entry_reach [OF station_out.hyps(3)]
    by (auto simp: guarded_def port_shut_def no_success_def)
qed

text \<open>
  C3: No access without the password. A station whose port is run by the EAPOL machines together with
  the integrated EAP server, in any run of both, with any responses, restarts, timer ticks and
  changes from outside that leave the port control, the PAE state, the port status, the outputs and
  \<open>authSuccess\<close> alone and do not turn \<open>eapSuccess\<close> on: if the driver was ever told to open the port,
  then some call of the server had a response at hand that answers the server's last request with the
  password of a configured user. The note \<open>w\<close> of \<open>noting_server\<close> records whether there was such a call.
\<close>

theorem port_opens_only_for_password:
  fixes e :: "'x eap_data eap_sm"
  assumes "eap_users_ok users" and "serving users env" and "conf_eap_server cf"
    and "station_reach out alive users env conf fl cf sm (e, w)"
    and "\<And>s t. out s t \<Longrightarrow> portControl t = portControl s \<and> authSuccess t = authSuccess s \<and>
      (eapSuccess (eap_if t) \<longrightarrow> eapSuccess (eap_if s)) \<and> auth_pae_state t = auth_pae_state s \<and>
      authPortStatus t = authPortStatus s \<and> outputs t = outputs s"
    and "SetPort True \<in> set (outputs sm) \<or> authPortStatus sm = Authorized"
  shows w
proof -
  have "trusted users env cf" using assms(1-3) by (simp add: trusted_def)
  from station_guarded [OF this assms(4) assms(5)] show ?thesis
    using assms(6) by (auto simp: guarded_def port_shut_def)
qed

text \<open>A station without WPA that is let in: it is enabled, and tells its identity and then its password.\<close>

definition sample_open_conf :: eapol_auth_config where
  "sample_open_conf = \<lparr>conf_wpa = False, conf_eap_reauth_period = 0, conf_default_wep_key = False,
     conf_individual_wep_key_len = 0\<rparr>"

definition run_station :: "eapol_sm \<times> unit eap_data eap_sm \<times> bool \<Rightarrow> eapol_sm \<times> unit eap_data eap_sm \<times> bool" where
  "run_station x = eapol_sm_step_run (\<lambda>_. True) (noting_server sample_users sample_eap_env) (fst x) (snd x)"

definition hear_station :: "bytes \<Rightarrow> eapol_sm \<times> unit eap_data eap_sm \<times> bool \<Rightarrow> eapol_sm \<times> unit eap_data eap_sm \<times> bool" where
  "hear_station resp x = (case x of (sm, e, w) \<Rightarrow> (sm\<lparr>eapolEap := True\<rparr>, e\<lparr>eapRespData := Some resp\<rparr>, w))"

definition enable_station :: "eapol_sm \<times> unit eap_data eap_sm \<times> bool \<Rightarrow> eapol_sm \<times> unit eap_data eap_sm \<times> bool" where
  "enable_station x = (case x of (sm, ew) \<Rightarrow> (sm\<lparr>eap_if := (eap_if sm)\<lparr>portEnabled := True\<rparr>\<rparr>, ew))"

definition sample_station :: "eapol_sm \<times> unit eap_data eap_sm \<times> bool" where
  "sample_station = the (eapol_auth_alloc (\<lambda>_. True) (noting_server sample_users sample_eap_env) sample_open_conf 0
     (Some ((eap_server_sm_init sample_eap_conf, False), eap_ifc (eap_server_sm_init sample_eap_conf :: unit eap_data eap_sm))))"

definition sample_let_in :: "eapol_sm \<times> unit eap_data eap_sm \<times> bool" where
  "sample_let_in = run_station (hear_station [2, 8, 0, 8, 6, 1, 2, 3]
     (run_station (hear_station [2, 7, 0, 6, 1, 0x61] (run_station (enable_station sample_station)))))"

text \<open>What happens outside in that run.\<close>

definition sample_out :: "eapol_sm \<Rightarrow> eapol_sm \<Rightarrow> bool" where
  "sample_out s t \<longleftrightarrow> t = s\<lparr>eapolEap := True\<rparr> \<or> t = s\<lparr>eap_if := (eap_if s)\<lparr>portEnabled := True\<rparr>\<rparr>"

definition sample_stations :: "eapol_sm \<times> unit eap_data eap_sm \<times> bool \<Rightarrow> bool" where
  "sample_stations x = station_reach sample_out (\<lambda>_. True) sample_users sample_eap_env sample_open_conf 0 sample_eap_conf (fst x) (snd x)"

lemma sample_stations_intros:
  "sample_stations sample_station" "sample_stations x \<Longrightarrow> sample_stations (run_station x)"
  "sample_stations x \<Longrightarrow> sample_stations (hear_station resp x)" "sample_stations x \<Longrightarrow> sample_stations (enable_station x)"
proof -
  show "sample_stations sample_station"
    unfolding sample_stations_def
    by (rule station_alloc) (simp add: sample_station_def eapol_auth_alloc_def)
  show "sample_stations (run_station x)" if "sample_stations x"
    using that unfolding sample_stations_def by (rule station_run) (simp add: run_station_def)
  obtain sm e w where x: "x = (sm, e, w)" by (cases x)
  show "sample_stations (hear_station resp x)" if "sample_stations x"
    using that station_out [of sample_out _ _ _ _ _ _ sm e w _ "e\<lparr>eapRespData := Some resp\<rparr>"]
    by (auto simp: sample_stations_def hear_station_def x sample_out_def server_entry.intros)
  show "sample_stations (enable_station x)" if "sample_stations x"
    using that station_out [of sample_out _ _ _ _ _ _ sm e w _ e]
    by (auto simp: sample_stations_def enable_station_def x sample_out_def server_entry.intros)
qed

theorem port_opens_only_for_password_witness:
  "SetPort True \<in> set (outputs (fst sample_let_in)) \<and> snd (snd sample_let_in)"
proof -
  have st: "sample_stations sample_let_in" unfolding sample_let_in_def by (intro sample_stations_intros)
  obtain sm e w where x: "sample_let_in = (sm, e, w)" by (cases sample_let_in)
  have "List.member (outputs (fst sample_let_in)) (SetPort True)" by code_simp
  then have opened: "SetPort True \<in> set (outputs sm)" by (simp add: x)
  have serve: "serving sample_users sample_eap_env" "conf_eap_server sample_eap_conf"
    by (simp_all add: serving_def sample_env_ok sample_eap_conf_def)
  have reach: "station_reach sample_out (\<lambda>_. True) sample_users sample_eap_env sample_open_conf 0 sample_eap_conf sm (e, w)"
    using st by (simp add: sample_stations_def x)
  have w
  proof (rule port_opens_only_for_password [OF sample_env_ok(1) serve reach])
    show "portControl t = portControl s \<and> authSuccess t = authSuccess s \<and> (eapSuccess (eap_if t) \<longrightarrow> eapSuccess (eap_if s)) \<and>
        auth_pae_state t = auth_pae_state s \<and> authPortStatus t = authPortStatus s \<and> outputs t = outputs s"
      if "sample_out s t" for s t using that by (auto simp: sample_out_def)
  qed (use opened in simp)
  then show ?thesis using opened by (simp add: x)
qed

end
