(* ===== verification/RadiusMsg.thy ===== *)
theory RadiusMsg
  imports EapCommon WpaCommon
begin

text \<open>
  RADIUS messages (\<^verbatim>\<open>radius/radius.c\<close>, \<^verbatim>\<open>radius/radius.h\<close>). A
  \<open>struct radius_msg\<close> is its buffer, the used entries of the array of attribute positions and the
  size of that array; \<open>hdr\<close> always points to the start of the buffer, so it is the first 20 octets.
  A position is the number of octets from the start of the buffer to the header of an attribute.
  The functions that print a message are left out.
\<close>

subsection \<open>The message and its header\<close>

definition RADIUS_HDR_LEN :: nat where "RADIUS_HDR_LEN = 20"
definition MD5_MAC_LEN :: nat where "MD5_MAC_LEN = 16"
definition RADIUS_MAX_ATTR_LEN :: nat where "RADIUS_MAX_ATTR_LEN = 253"
definition RADIUS_DEFAULT_ATTR_COUNT :: nat where "RADIUS_DEFAULT_ATTR_COUNT = 16"

definition RADIUS_CODE_ACCESS_REQUEST :: u8 where "RADIUS_CODE_ACCESS_REQUEST = 1"
definition RADIUS_CODE_ACCESS_ACCEPT :: u8 where "RADIUS_CODE_ACCESS_ACCEPT = 2"
definition RADIUS_CODE_ACCESS_REJECT :: u8 where "RADIUS_CODE_ACCESS_REJECT = 3"
definition RADIUS_CODE_ACCOUNTING_REQUEST :: u8 where "RADIUS_CODE_ACCOUNTING_REQUEST = 4"
definition RADIUS_CODE_ACCOUNTING_RESPONSE :: u8 where "RADIUS_CODE_ACCOUNTING_RESPONSE = 5"
definition RADIUS_CODE_ACCESS_CHALLENGE :: u8 where "RADIUS_CODE_ACCESS_CHALLENGE = 11"

definition RADIUS_ATTR_USER_NAME :: u8 where "RADIUS_ATTR_USER_NAME = 1"
definition RADIUS_ATTR_USER_PASSWORD :: u8 where "RADIUS_ATTR_USER_PASSWORD = 2"
definition RADIUS_ATTR_STATE :: u8 where "RADIUS_ATTR_STATE = 24"
definition RADIUS_ATTR_CLASS :: u8 where "RADIUS_ATTR_CLASS = 25"
definition RADIUS_ATTR_VENDOR_SPECIFIC :: u8 where "RADIUS_ATTR_VENDOR_SPECIFIC = 26"
definition RADIUS_ATTR_SESSION_TIMEOUT :: u8 where "RADIUS_ATTR_SESSION_TIMEOUT = 27"
definition RADIUS_ATTR_TERMINATION_ACTION :: u8 where "RADIUS_ATTR_TERMINATION_ACTION = 29"
definition RADIUS_ATTR_TUNNEL_TYPE :: u8 where "RADIUS_ATTR_TUNNEL_TYPE = 64"
definition RADIUS_ATTR_TUNNEL_MEDIUM_TYPE :: u8 where "RADIUS_ATTR_TUNNEL_MEDIUM_TYPE = 65"
definition RADIUS_ATTR_EAP_MESSAGE :: u8 where "RADIUS_ATTR_EAP_MESSAGE = 79"
definition RADIUS_ATTR_MESSAGE_AUTHENTICATOR :: u8 where "RADIUS_ATTR_MESSAGE_AUTHENTICATOR = 80"
definition RADIUS_ATTR_TUNNEL_PRIVATE_GROUP_ID :: u8 where "RADIUS_ATTR_TUNNEL_PRIVATE_GROUP_ID = 81"
definition RADIUS_ATTR_ACCT_INTERIM_INTERVAL :: u8 where "RADIUS_ATTR_ACCT_INTERIM_INTERVAL = 85"

definition RADIUS_VENDOR_ID_CISCO :: u32 where "RADIUS_VENDOR_ID_CISCO = 9"
definition RADIUS_CISCO_AV_PAIR :: u8 where "RADIUS_CISCO_AV_PAIR = 1"
definition RADIUS_VENDOR_ID_MICROSOFT :: u32 where "RADIUS_VENDOR_ID_MICROSOFT = 311"
definition RADIUS_VENDOR_ATTR_MS_MPPE_SEND_KEY :: u8 where "RADIUS_VENDOR_ATTR_MS_MPPE_SEND_KEY = 16"
definition RADIUS_VENDOR_ATTR_MS_MPPE_RECV_KEY :: u8 where "RADIUS_VENDOR_ATTR_MS_MPPE_RECV_KEY = 17"

lemmas radius_len_defs = RADIUS_HDR_LEN_def MD5_MAC_LEN_def RADIUS_MAX_ATTR_LEN_def
  RADIUS_DEFAULT_ATTR_COUNT_def
lemmas radius_attr_defs = RADIUS_ATTR_USER_NAME_def RADIUS_ATTR_USER_PASSWORD_def RADIUS_ATTR_STATE_def
  RADIUS_ATTR_CLASS_def RADIUS_ATTR_VENDOR_SPECIFIC_def RADIUS_ATTR_SESSION_TIMEOUT_def
  RADIUS_ATTR_TERMINATION_ACTION_def RADIUS_ATTR_TUNNEL_TYPE_def RADIUS_ATTR_TUNNEL_MEDIUM_TYPE_def
  RADIUS_ATTR_EAP_MESSAGE_def RADIUS_ATTR_MESSAGE_AUTHENTICATOR_def
  RADIUS_ATTR_TUNNEL_PRIVATE_GROUP_ID_def RADIUS_ATTR_ACCT_INTERIM_INTERVAL_def
lemmas radius_vendor_defs = RADIUS_VENDOR_ID_CISCO_def RADIUS_CISCO_AV_PAIR_def
  RADIUS_VENDOR_ID_MICROSOFT_def RADIUS_VENDOR_ATTR_MS_MPPE_SEND_KEY_def
  RADIUS_VENDOR_ATTR_MS_MPPE_RECV_KEY_def

record radius_msg =
  rm_buf :: bytes
  attr_pos :: "nat list"
  attr_size :: nat

text \<open>The fields of \<open>struct radius_hdr\<close> and of \<open>struct radius_attr_hdr\<close>.\<close>

definition hdr_code :: "radius_msg \<Rightarrow> u8" where "hdr_code msg = rm_buf msg ! 0"
definition hdr_identifier :: "radius_msg \<Rightarrow> u8" where "hdr_identifier msg = rm_buf msg ! 1"
definition hdr_authenticator :: "radius_msg \<Rightarrow> bytes" where
  "hdr_authenticator msg = take 16 (drop 4 (rm_buf msg))"

definition set_hdr_length :: "radius_msg \<Rightarrow> radius_msg" where
  "set_hdr_length msg =
     msg\<lparr>rm_buf := memcpy_at (rm_buf msg) 2 (WPA_PUT_BE16 (of_nat (length (rm_buf msg))))\<rparr>"

definition set_hdr_authenticator :: "bytes \<Rightarrow> radius_msg \<Rightarrow> radius_msg" where
  "set_hdr_authenticator a msg = msg\<lparr>rm_buf := memcpy_at (rm_buf msg) 4 a\<rparr>"

definition attr_type :: "radius_msg \<Rightarrow> nat \<Rightarrow> u8" where
  "attr_type msg pos = rm_buf msg ! pos"

definition attr_length :: "radius_msg \<Rightarrow> nat \<Rightarrow> nat" where
  "attr_length msg pos = unat (rm_buf msg ! (pos + 1))"

text \<open>The \<open>attr_length - sizeof(*attr)\<close> octets at \<open>attr + 1\<close>.\<close>

definition attr_value :: "radius_msg \<Rightarrow> nat \<Rightarrow> bytes" where
  "attr_value msg pos = take (attr_length msg pos - 2) (drop (pos + 2) (rm_buf msg))"

definition radius_msg_set_hdr :: "radius_msg \<Rightarrow> u8 \<Rightarrow> u8 \<Rightarrow> radius_msg" where
  "radius_msg_set_hdr msg code identifier =
     msg\<lparr>rm_buf := (rm_buf msg)[0 := code, 1 := identifier]\<rparr>"

definition radius_msg_initialize :: "radius_msg \<Rightarrow> radius_msg" where
  "radius_msg_initialize msg = msg\<lparr>attr_pos := [], attr_size := RADIUS_DEFAULT_ATTR_COUNT\<rparr>"

text \<open>\<open>wpabuf_alloc\<close> clears the structure and the octets it allocates with it.\<close>

definition radius_msg_new :: "u8 \<Rightarrow> u8 \<Rightarrow> radius_msg" where
  "radius_msg_new code identifier =
     radius_msg_set_hdr
       (radius_msg_initialize \<lparr>rm_buf = replicate RADIUS_HDR_LEN 0, attr_pos = [], attr_size = 0\<rparr>)
       code identifier"

subsection \<open>Building and finishing a message\<close>

definition radius_msg_add_attr_to_array :: "radius_msg \<Rightarrow> nat \<Rightarrow> radius_msg" where
  "radius_msg_add_attr_to_array msg pos =
     (let msg = (if attr_size msg \<le> length (attr_pos msg)
                 then msg\<lparr>attr_size := attr_size msg * 2\<rparr> else msg)
      in msg\<lparr>attr_pos := attr_pos msg @ [pos]\<rparr>)"

text \<open>The position of the new attribute and the message; \<open>None\<close> is the NULL for data that is too long.\<close>

definition radius_msg_add_attr :: "radius_msg \<Rightarrow> u8 \<Rightarrow> bytes \<Rightarrow> (nat \<times> radius_msg) option" where
  "radius_msg_add_attr msg type data =
     (if length data > RADIUS_MAX_ATTR_LEN then None
      else let attr = length (rm_buf msg);
               msg = msg\<lparr>rm_buf := rm_buf msg @ [type, of_nat (2 + length data)] @ data\<rparr>
           in Some (attr, radius_msg_add_attr_to_array msg attr))"

definition radius_msg_add_attr_int32 :: "radius_msg \<Rightarrow> u8 \<Rightarrow> u32 \<Rightarrow> (nat \<times> radius_msg) option" where
  "radius_msg_add_attr_int32 msg type value = radius_msg_add_attr msg type (WPA_PUT_BE32 value)"

text \<open>
  \<open>hmac_md5\<close> over the message into the 16 octets at \<open>pos\<close>. It fails only for more than five
  buffers, and then it has written nothing.
\<close>

definition put_hmac_md5 :: "bytes \<Rightarrow> radius_msg \<Rightarrow> nat \<Rightarrow> radius_msg" where
  "put_hmac_md5 secret msg pos =
     (case hmac_md5 secret (rm_buf msg) of
        None \<Rightarrow> msg | Some mac \<Rightarrow> msg\<lparr>rm_buf := memcpy_at (rm_buf msg) pos mac\<rparr>)"

text \<open>\<open>secret = None\<close> is the NULL secret. The result is the return value and the message.\<close>

definition radius_msg_finish :: "radius_msg \<Rightarrow> bytes option \<Rightarrow> int \<times> radius_msg" where
  "radius_msg_finish msg secret =
     (case (case secret of
              None \<Rightarrow> Some (set_hdr_length msg)
            | Some key \<Rightarrow>
                map_option (\<lambda>(attr, msg). put_hmac_md5 key (set_hdr_length msg) (attr + 2))
                  (radius_msg_add_attr msg RADIUS_ATTR_MESSAGE_AUTHENTICATOR (replicate MD5_MAC_LEN 0))) of
        None \<Rightarrow> (-1, msg)
      | Some msg \<Rightarrow> (if length (rm_buf msg) > 0xffff then -1 else 0, msg))"

definition radius_msg_finish_srv :: "radius_msg \<Rightarrow> bytes \<Rightarrow> bytes \<Rightarrow> int \<times> radius_msg" where
  "radius_msg_finish_srv msg secret req_authenticator =
     (case radius_msg_add_attr msg RADIUS_ATTR_MESSAGE_AUTHENTICATOR (replicate MD5_MAC_LEN 0) of
        None \<Rightarrow> (-1, msg)
      | Some (attr, msg) \<Rightarrow>
          let msg = set_hdr_length msg;
              msg = set_hdr_authenticator (take 16 req_authenticator) msg;
              msg = put_hmac_md5 secret msg (attr + 2);
              addr = [take 4 (rm_buf msg), take MD5_MAC_LEN req_authenticator,
                      drop RADIUS_HDR_LEN (rm_buf msg), secret];
              msg = set_hdr_authenticator (md5_vector addr) msg
          in (if length (rm_buf msg) > 0xffff then -1 else 0, msg))"

definition radius_msg_finish_acct :: "radius_msg \<Rightarrow> bytes \<Rightarrow> radius_msg" where
  "radius_msg_finish_acct msg secret =
     (let msg = set_hdr_length msg;
          msg = set_hdr_authenticator (replicate MD5_MAC_LEN 0) msg
      in set_hdr_authenticator (md5_vector [rm_buf msg, secret]) msg)"

text \<open>\<open>tv\<close> and \<open>l\<close> are the octets of the current time and of a random long.\<close>

definition radius_msg_make_authenticator :: "radius_msg \<Rightarrow> bytes \<Rightarrow> bytes \<Rightarrow> bytes \<Rightarrow> radius_msg" where
  "radius_msg_make_authenticator msg data tv l = set_hdr_authenticator (md5_vector [tv, data, l]) msg"

subsection \<open>Parsing\<close>

function parse_attrs :: "nat \<Rightarrow> radius_msg \<Rightarrow> radius_msg option" where
  "parse_attrs pos msg =
     (let stop = length (rm_buf msg) in
      if \<not> pos < stop then Some msg
      else if stop - pos < 2 then None
      else if pos + attr_length msg pos > stop \<or> attr_length msg pos < 2 then None
      else parse_attrs (pos + attr_length msg pos) (radius_msg_add_attr_to_array msg pos))"
  by pat_completeness auto
termination
  by (relation "measure (\<lambda>(pos, msg). length (rm_buf msg) - pos)")
     (auto simp: radius_msg_add_attr_to_array_def Let_def)

declare parse_attrs.simps [simp del]

definition radius_msg_parse :: "bytes \<Rightarrow> radius_msg option" where
  "radius_msg_parse data =
     (if length data < RADIUS_HDR_LEN then None
      else let msg_len = unat (WPA_GET_BE16 (drop 2 data)) in
           if msg_len < RADIUS_HDR_LEN \<or> msg_len > length data then None
           else parse_attrs RADIUS_HDR_LEN
                  (radius_msg_initialize \<lparr>rm_buf = take msg_len data, attr_pos = [], attr_size = 0\<rparr>))"

subsection \<open>EAP messages\<close>

function add_eap_loop :: "bytes \<Rightarrow> radius_msg \<Rightarrow> int \<times> radius_msg" where
  "add_eap_loop pos msg =
     (if \<not> 0 < length pos then (1, msg)
      else let len = (if length pos > RADIUS_MAX_ATTR_LEN then RADIUS_MAX_ATTR_LEN else length pos)
           in case radius_msg_add_attr msg RADIUS_ATTR_EAP_MESSAGE (take len pos) of
                None \<Rightarrow> (0, msg)
              | Some (_, msg) \<Rightarrow> add_eap_loop (drop len pos) msg)"
  by pat_completeness auto
termination
  by (relation "measure (\<lambda>(pos, _). length pos)") (auto simp: radius_len_defs split: if_splits)

declare add_eap_loop.simps [simp del]

definition radius_msg_add_eap :: "radius_msg \<Rightarrow> bytes \<Rightarrow> int \<times> radius_msg" where
  "radius_msg_add_eap msg data = add_eap_loop data msg"

definition radius_msg_get_eap :: "radius_msg \<Rightarrow> bytes option" where
  "radius_msg_get_eap msg =
     (let attrs = filter (\<lambda>pos. attr_type msg pos = RADIUS_ATTR_EAP_MESSAGE) (attr_pos msg);
          len = sum_list (map (\<lambda>pos. attr_length msg pos - 2) attrs)
      in if len = 0 then None else Some (concat (map (attr_value msg) attrs)))"

subsection \<open>Checking a message\<close>

text \<open>
  The check of the Message-Authenticator works on 16 octets after the attribute header whatever the
  length of the attribute is: \<open>None\<close> is reading and writing behind the end of the buffer. It
  puts every octet it has changed back.
\<close>

fun find_msg_auth :: "radius_msg \<Rightarrow> nat option \<Rightarrow> nat list \<Rightarrow> (int, nat option) sum" where
  "find_msg_auth msg attr [] = Inr attr"
| "find_msg_auth msg attr (tmp # ps) =
     (if attr_type msg tmp = RADIUS_ATTR_MESSAGE_AUTHENTICATOR
      then (if attr \<noteq> None then Inl 1 else find_msg_auth msg (Some tmp) ps)
      else find_msg_auth msg attr ps)"

definition radius_msg_verify_msg_auth ::
  "radius_msg \<Rightarrow> bytes \<Rightarrow> bytes option \<Rightarrow> (int \<times> radius_msg) option" where
  "radius_msg_verify_msg_auth msg secret req_auth =
     (case find_msg_auth msg None (attr_pos msg) of
        Inl r \<Rightarrow> Some (r, msg)
      | Inr None \<Rightarrow> Some (1, msg)
      | Inr (Some attr) \<Rightarrow>
          if length (rm_buf msg) < attr + 2 + MD5_MAC_LEN then None
          else let orig = take MD5_MAC_LEN (drop (attr + 2) (rm_buf msg));
                   orig_authenticator = hdr_authenticator msg;
                   msg = msg\<lparr>rm_buf := memcpy_at (rm_buf msg) (attr + 2) (replicate MD5_MAC_LEN 0)\<rparr>;
                   msg = (case req_auth of None \<Rightarrow> msg | Some a \<Rightarrow> set_hdr_authenticator (take 16 a) msg);
                   auth = hmac_md5 secret (rm_buf msg);
                   msg = msg\<lparr>rm_buf := memcpy_at (rm_buf msg) (attr + 2) orig\<rparr>;
                   msg = (case req_auth of None \<Rightarrow> msg
                          | Some _ \<Rightarrow> set_hdr_authenticator orig_authenticator msg)
               in map_option (\<lambda>auth. (if os_memcmp orig auth MD5_MAC_LEN \<noteq> 0 then 1 else 0, msg)) auth)"

definition response_authenticator :: "radius_msg \<Rightarrow> bytes \<Rightarrow> bytes \<Rightarrow> bytes" where
  "response_authenticator msg secret req_authenticator =
     md5_vector [take 4 (rm_buf msg), take MD5_MAC_LEN req_authenticator,
                 drop RADIUS_HDR_LEN (rm_buf msg), secret]"

definition radius_msg_verify ::
  "radius_msg \<Rightarrow> bytes \<Rightarrow> radius_msg option \<Rightarrow> bool \<Rightarrow> (int \<times> radius_msg) option" where
  "radius_msg_verify msg secret sent_msg auth =
     (case sent_msg of
        None \<Rightarrow> Some (1, msg)
      | Some sent \<Rightarrow>
          (case (if auth then radius_msg_verify_msg_auth msg secret (Some (hdr_authenticator sent))
                 else Some (0, msg)) of
             None \<Rightarrow> None
           | Some (r, msg) \<Rightarrow>
               if r \<noteq> 0 then Some (1, msg)
               else let hash = response_authenticator msg secret (hdr_authenticator sent)
                    in Some (if os_memcmp hash (hdr_authenticator msg) MD5_MAC_LEN \<noteq> 0 then 1 else 0, msg)))"

subsection \<open>Reading attributes\<close>

fun copy_attr_loop :: "radius_msg \<Rightarrow> u8 \<Rightarrow> radius_msg \<Rightarrow> int \<Rightarrow> nat list \<Rightarrow> int \<times> radius_msg" where
  "copy_attr_loop src type dst n [] = (n, dst)"
| "copy_attr_loop src type dst n (attr # ps) =
     (if attr_type src attr = type
      then (case radius_msg_add_attr dst type (attr_value src attr) of
              None \<Rightarrow> (-1, dst)
            | Some (_, dst) \<Rightarrow> copy_attr_loop src type dst (n + 1) ps)
      else copy_attr_loop src type dst n ps)"

definition radius_msg_copy_attr :: "radius_msg \<Rightarrow> radius_msg \<Rightarrow> u8 \<Rightarrow> int \<times> radius_msg" where
  "radius_msg_copy_attr dst src type = copy_attr_loop src type dst 0 (attr_pos src)"

definition find_attr :: "radius_msg \<Rightarrow> u8 \<Rightarrow> nat option" where
  "find_attr msg type = find (\<lambda>tmp. attr_type msg tmp = type) (attr_pos msg)"

text \<open>The length of the attribute, -1 if there is none, and what is copied to a buffer of \<open>len\<close> octets.\<close>

definition radius_msg_get_attr :: "radius_msg \<Rightarrow> u8 \<Rightarrow> nat \<Rightarrow> int \<times> bytes" where
  "radius_msg_get_attr msg type len =
     (case find_attr msg type of
        None \<Rightarrow> (-1, [])
      | Some attr \<Rightarrow> let dlen = attr_length msg attr - 2
                     in (int dlen, take (if dlen > len then len else dlen) (drop (attr + 2) (rm_buf msg))))"

definition radius_msg_get_attr_int32 :: "radius_msg \<Rightarrow> u8 \<Rightarrow> u32 option" where
  "radius_msg_get_attr_int32 msg type =
     (let (res, val) = radius_msg_get_attr msg type 4
      in if res \<noteq> 4 then None else Some (WPA_GET_BE32 val))"

text \<open>The position and the length of the data of the first attribute after \<open>start\<close>.\<close>

definition radius_msg_get_attr_ptr :: "radius_msg \<Rightarrow> u8 \<Rightarrow> nat option \<Rightarrow> (nat \<times> nat) option" where
  "radius_msg_get_attr_ptr msg type start =
     map_option (\<lambda>attr. (attr + 2, attr_length msg attr - 2))
       (find (\<lambda>tmp. attr_type msg tmp = type \<and> (case start of None \<Rightarrow> True | Some s \<Rightarrow> s < tmp))
         (attr_pos msg))"

definition radius_msg_count_attr :: "radius_msg \<Rightarrow> u8 \<Rightarrow> nat \<Rightarrow> nat" where
  "radius_msg_count_attr msg type min_len =
     length (filter (\<lambda>attr. attr_type msg attr = type \<and> attr_length msg attr \<ge> 2 + min_len) (attr_pos msg))"

text \<open>
  The first vendor attribute of the type: the outer loop is over the attributes, the inner one over
  the vendor attributes that one of them holds.
\<close>

function vendor_loop :: "u8 \<Rightarrow> bytes \<Rightarrow> bytes option" where
  "vendor_loop subtype pos =
     (if \<not> 2 \<le> length pos then None
      else let vendor_length = unat (pos ! 1) in
           if vendor_length > length pos \<or> vendor_length < 2 then None
           else if pos ! 0 \<noteq> subtype then vendor_loop subtype (drop vendor_length pos)
           else Some (take (vendor_length - 2) (drop 2 pos)))"
  by pat_completeness auto
termination
  by (relation "measure (\<lambda>(_, pos). length pos)") auto

declare vendor_loop.simps [simp del]

fun get_vendor_loop :: "radius_msg \<Rightarrow> u32 \<Rightarrow> u8 \<Rightarrow> nat list \<Rightarrow> bytes option" where
  "get_vendor_loop msg vendor subtype [] = None"
| "get_vendor_loop msg vendor subtype (attr # ps) =
     (let pos = attr_value msg attr in
      if attr_type msg attr \<noteq> RADIUS_ATTR_VENDOR_SPECIFIC then get_vendor_loop msg vendor subtype ps
      else if length pos < 4 then get_vendor_loop msg vendor subtype ps
      else if WPA_GET_BE32 pos \<noteq> vendor then get_vendor_loop msg vendor subtype ps
      else case vendor_loop subtype (drop 4 pos) of
             Some data \<Rightarrow> Some data
           | None \<Rightarrow> get_vendor_loop msg vendor subtype ps)"

definition radius_msg_get_vendor_attr :: "radius_msg \<Rightarrow> u32 \<Rightarrow> u8 \<Rightarrow> bytes option" where
  "radius_msg_get_vendor_attr msg vendor subtype = get_vendor_loop msg vendor subtype (attr_pos msg)"

subsection \<open>Keys and passwords\<close>

text \<open>
  A key stream of MD5 hashes: the first block hides with a hash of \<open>seed\<close>, each further one with a
  hash of the hidden block before it. \<open>ms_key_seed\<close> is what the first hash of a Microsoft key is
  taken over, next to the secret.
\<close>

definition ms_key_seed :: "bytes \<Rightarrow> bytes \<Rightarrow> bytes list" where
  "ms_key_seed req_authenticator salt = [take MD5_MAC_LEN req_authenticator, take 2 salt]"

function decrypt_ms_loop :: "bytes \<Rightarrow> bytes list \<Rightarrow> bytes \<Rightarrow> bytes" where
  "decrypt_ms_loop secret seed pos =
     (if \<not> 0 < length pos then []
      else let hash = md5_vector (secret # seed)
           in map2 (XOR) (take 16 pos) hash @ decrypt_ms_loop secret [take 16 pos] (drop 16 pos))"
  by pat_completeness auto
termination
  by (relation "measure (\<lambda>(_, _, pos). length pos)") auto

declare decrypt_ms_loop.simps [simp del]

definition decrypt_ms_key :: "bytes \<Rightarrow> bytes \<Rightarrow> bytes \<Rightarrow> bytes option" where
  "decrypt_ms_key key req_authenticator secret =
     (if length key < 2 + 16 then None
      else let pos = drop 2 key in
           if length pos mod 16 \<noteq> 0 then None
           else let plain = decrypt_ms_loop secret (ms_key_seed req_authenticator key) pos;
                    n = unat (plain ! 0)
                in if n = 0 \<or> n > length pos - 1 then None
                   else Some (take n (drop 1 plain)))"

function encrypt_ms_loop :: "bytes \<Rightarrow> bytes list \<Rightarrow> bytes \<Rightarrow> bytes" where
  "encrypt_ms_loop secret seed pos =
     (if \<not> 0 < length pos then []
      else let hash = md5_vector (secret # seed);
               block = map2 (XOR) (take 16 pos) hash
           in block @ encrypt_ms_loop secret [block] (drop 16 pos))"
  by pat_completeness auto
termination
  by (relation "measure (\<lambda>(_, _, pos). length pos)") auto

declare encrypt_ms_loop.simps [simp del]

text \<open>
  \<open>cap\<close> is the number of octets allocated behind \<open>ebuf\<close>: \<open>None\<close> is a write past it. The
  length is computed in an \<open>int\<close>; \<open>len & 0xf0\<close> loses what a length of 256 or more has above.
\<close>

definition encrypt_ms_len :: "nat \<Rightarrow> nat" where
  "encrypt_ms_len key_len =
     (let len = 1 + key_len in if len mod 16 \<noteq> 0 then len mod 256 div 16 * 16 + 16 else len)"

definition encrypt_ms_key :: "nat \<Rightarrow> bytes \<Rightarrow> u16 \<Rightarrow> bytes \<Rightarrow> bytes \<Rightarrow> bytes option" where
  "encrypt_ms_key cap key salt req_authenticator secret =
     (let len = encrypt_ms_len (length key) in
      if len > cap \<or> 1 + length key > cap then None
      else let ebuf = take len ((of_nat (length key) # key) @ replicate len 0)
           in Some (encrypt_ms_loop secret (ms_key_seed req_authenticator (WPA_PUT_BE16 salt)) ebuf))"

record radius_ms_mppe_keys =
  mppe_send :: "bytes option"
  mppe_recv :: "bytes option"

definition radius_msg_get_ms_keys :: "radius_msg \<Rightarrow> radius_msg \<Rightarrow> bytes \<Rightarrow> radius_ms_mppe_keys" where
  "radius_msg_get_ms_keys msg sent_msg secret =
     (let key_of = (\<lambda>subtype. Option.bind
            (radius_msg_get_vendor_attr msg RADIUS_VENDOR_ID_MICROSOFT subtype)
            (\<lambda>key. decrypt_ms_key key (hdr_authenticator sent_msg) secret))
      in \<lparr>mppe_send = key_of RADIUS_VENDOR_ATTR_MS_MPPE_SEND_KEY,
          mppe_recv = key_of RADIUS_VENDOR_ATTR_MS_MPPE_RECV_KEY\<rparr>)"

definition radius_msg_get_cisco_keys :: "radius_msg \<Rightarrow> radius_msg \<Rightarrow> bytes \<Rightarrow> radius_ms_mppe_keys" where
  "radius_msg_get_cisco_keys msg sent_msg secret =
     \<lparr>mppe_send = None,
      mppe_recv =
        (case radius_msg_get_vendor_attr msg RADIUS_VENDOR_ID_CISCO RADIUS_CISCO_AV_PAIR of
           None \<Rightarrow> None
         | Some key \<Rightarrow>
             if length key = 51 \<and> os_memcmp key (c_str ''leap:session-key='') 17 = 0
             then decrypt_ms_key (drop 17 key) (hdr_authenticator sent_msg) secret
             else None)\<rparr>"

text \<open>
  One of the two key attributes. The buffers of both are allocated with the length of the send key.
\<close>

definition add_mppe_key ::
  "radius_msg \<Rightarrow> nat \<Rightarrow> u8 \<Rightarrow> u16 \<Rightarrow> bytes \<Rightarrow> bytes \<Rightarrow> bytes \<Rightarrow> (int \<times> radius_msg) option" where
  "add_mppe_key msg send_key_len vendor_type salt req_authenticator secret key =
     (case encrypt_ms_key (send_key_len + 16) key salt req_authenticator secret of
        None \<Rightarrow> None
      | Some ebuf \<Rightarrow>
          let hlen = 4 + 2 + 2;
              vendor_length = of_nat (hlen + length ebuf - 4);
              b = WPA_PUT_BE32 RADIUS_VENDOR_ID_MICROSOFT @ [vendor_type, vendor_length] @
                    WPA_PUT_BE16 salt @ ebuf
          in case radius_msg_add_attr msg RADIUS_ATTR_VENDOR_SPECIFIC b of
               None \<Rightarrow> Some (0, msg)
             | Some (_, msg) \<Rightarrow> Some (1, msg))"

text \<open>\<open>rnd\<close> is the value of \<open>os_random\<close>.\<close>

definition radius_msg_add_mppe_keys ::
  "radius_msg \<Rightarrow> u16 \<Rightarrow> bytes \<Rightarrow> bytes \<Rightarrow> bytes \<Rightarrow> bytes \<Rightarrow> (int \<times> radius_msg) option" where
  "radius_msg_add_mppe_keys msg rnd req_authenticator secret send_key recv_key =
     (let salt = rnd OR 0x8000 in
      case add_mppe_key msg (length send_key) RADIUS_VENDOR_ATTR_MS_MPPE_SEND_KEY salt
             req_authenticator secret send_key of
        None \<Rightarrow> None
      | Some (r, msg) \<Rightarrow>
          if r = 0 then Some (0, msg)
          else add_mppe_key msg (length send_key) RADIUS_VENDOR_ATTR_MS_MPPE_RECV_KEY (salt XOR 1)
                 req_authenticator secret recv_key)"

text \<open>
  The hidden password: no octets at all for an empty one, since only \<open>buf_len\<close> octets of the
  local buffer go into the attribute.
\<close>

definition radius_msg_add_attr_user_password ::
  "radius_msg \<Rightarrow> bytes \<Rightarrow> bytes \<Rightarrow> (nat \<times> radius_msg) option" where
  "radius_msg_add_attr_user_password msg data secret =
     (if length data > 128 then None
      else let padlen = (if length data mod 16 = 0 then 0 else 16 - length data mod 16)
           in radius_msg_add_attr msg RADIUS_ATTR_USER_PASSWORD
                (encrypt_ms_loop secret [hdr_authenticator msg] (data @ replicate padlen 0)))"

subsection \<open>Tunnel attributes and classes\<close>

record radius_tunnel_attrs =
  tag_used :: int
  tun_type :: u32
  medium_type :: u32
  vlanid :: int

text \<open>\<open>atoi\<close> on a string that a NUL ends, of at most nine octets: the number is below \<open>2 ^ 31\<close>.\<close>

definition is_space :: "u8 \<Rightarrow> bool" where
  "is_space c \<longleftrightarrow> c = 32 \<or> 9 \<le> c \<and> c \<le> 13"

fun atoi_digits :: "int \<Rightarrow> bytes \<Rightarrow> int" where
  "atoi_digits n [] = n"
| "atoi_digits n (c # cs) = (if 48 \<le> c \<and> c \<le> 57 then atoi_digits (10 * n + (uint c - 48)) cs else n)"

definition atoi :: "bytes \<Rightarrow> int" where
  "atoi s =
     (case dropWhile is_space s of
        [] \<Rightarrow> 0
      | c # cs \<Rightarrow> if c = 45 then - atoi_digits 0 cs
                  else if c = 43 then atoi_digits 0 cs else atoi_digits 0 (c # cs))"

definition tunnel_attr :: "radius_msg \<Rightarrow> radius_tunnel_attrs list \<Rightarrow> nat \<Rightarrow> radius_tunnel_attrs list" where
  "tunnel_attr msg tunnel attr =
     (let data = attr_value msg attr;
          tag = unat (data ! 0);
          i = (if tag \<ge> 32 then 0 else tag);
          tun = tunnel ! i;
          used = tun\<lparr>tag_used := tag_used tun + 1\<rparr> in
      if attr_length msg attr < 3 then tunnel
      else if attr_type msg attr = RADIUS_ATTR_TUNNEL_TYPE
      then (if attr_length msg attr \<noteq> 6 then tunnel
            else tunnel[i := used\<lparr>tun_type := WPA_GET_BE24 (drop 1 data)\<rparr>])
      else if attr_type msg attr = RADIUS_ATTR_TUNNEL_MEDIUM_TYPE
      then (if attr_length msg attr \<noteq> 6 then tunnel
            else tunnel[i := used\<lparr>medium_type := WPA_GET_BE24 (drop 1 data)\<rparr>])
      else if attr_type msg attr = RADIUS_ATTR_TUNNEL_PRIVATE_GROUP_ID
      then (let data = (if tag < 32 then drop 1 data else data)
            in if length data \<ge> 10 then tunnel else tunnel[i := used\<lparr>vlanid := atoi data\<rparr>])
      else tunnel)"

definition radius_msg_get_vlanid :: "radius_msg \<Rightarrow> int" where
  "radius_msg_get_vlanid msg =
     (let tunnel = foldl (tunnel_attr msg)
            (replicate 32 \<lparr>tag_used = 0, tun_type = 0, medium_type = 0, vlanid = 0\<rparr>) (attr_pos msg)
      in case find (\<lambda>tun. tag_used tun \<noteq> 0 \<and> tun_type tun = 13 \<and> medium_type tun = 6 \<and> vlanid tun > 0)
                tunnel of
           None \<Rightarrow> -1 | Some tun \<Rightarrow> vlanid tun)"

text \<open>A list of classes is NULL or the data of its attributes; the copy replaces what \<open>dst\<close> had.\<close>

type_synonym radius_class_data = "bytes list option"

definition radius_free_class :: "radius_class_data \<Rightarrow> radius_class_data" where
  "radius_free_class c = None"

definition radius_copy_class :: "radius_class_data \<Rightarrow> radius_class_data \<Rightarrow> radius_class_data" where
  "radius_copy_class dst src = (case src of None \<Rightarrow> dst | Some cs \<Rightarrow> Some cs)"

subsection \<open>The message as a header and a list of attributes\<close>

text \<open>
  \<open>radius_rep h as msg\<close>: the buffer is the header \<open>h\<close> and the attributes \<open>as\<close>, each a type
  and its data, and the array holds their positions. The size of the array is doubled when it is full.
\<close>

type_synonym radius_attrs = "(u8 \<times> bytes) list"

definition attr_wire :: "u8 \<times> bytes \<Rightarrow> bytes" where
  "attr_wire a = [fst a, of_nat (2 + length (snd a))] @ snd a"

definition attrs_wire :: "radius_attrs \<Rightarrow> bytes" where
  "attrs_wire as = concat (map attr_wire as)"

fun attr_offsets :: "nat \<Rightarrow> radius_attrs \<Rightarrow> nat list" where
  "attr_offsets pos [] = []"
| "attr_offsets pos (a # as) = pos # attr_offsets (pos + 2 + length (snd a)) as"

primrec array_size :: "nat \<Rightarrow> nat" where
  "array_size 0 = 16"
| "array_size (Suc n) = (if array_size n \<le> n then array_size n * 2 else array_size n)"

definition attr_at :: "radius_msg \<Rightarrow> nat \<Rightarrow> u8 \<times> bytes" where
  "attr_at msg pos = (attr_type msg pos, attr_value msg pos)"

definition small_attrs :: "radius_attrs \<Rightarrow> bool" where
  "small_attrs as \<longleftrightarrow> (\<forall>a \<in> set as. length (snd a) \<le> 253)"

definition radius_rep :: "bytes \<Rightarrow> radius_attrs \<Rightarrow> radius_msg \<Rightarrow> bool" where
  "radius_rep h as msg \<longleftrightarrow> length h = 20 \<and> small_attrs as \<and> rm_buf msg = h @ attrs_wire as \<and>
     attr_pos msg = attr_offsets 20 as \<and> attr_size msg = array_size (length as)"

lemma attrs_wire_simps [simp]:
  "attrs_wire [] = []" "attrs_wire (a # as) = attr_wire a @ attrs_wire as"
  "attrs_wire (as @ bs) = attrs_wire as @ attrs_wire bs"
  by (simp_all add: attrs_wire_def)

lemma length_attr_wire [simp]: "length (attr_wire a) = 2 + length (snd a)"
  by (simp add: attr_wire_def)

lemma small_attrs_simps [simp]:
  "small_attrs []" "small_attrs (a # as) \<longleftrightarrow> length (snd a) \<le> 253 \<and> small_attrs as"
  "small_attrs (as @ bs) \<longleftrightarrow> small_attrs as \<and> small_attrs bs"
  by (auto simp: small_attrs_def)

lemma attr_offsets_append:
  "attr_offsets pos (as @ bs) = attr_offsets pos as @ attr_offsets (pos + length (attrs_wire as)) bs"
  by (induction as arbitrary: pos) (simp_all add: ac_simps)

lemma length_attr_offsets [simp]: "length (attr_offsets pos as) = length as"
  by (induction as arbitrary: pos) simp_all

lemma unat_of_nat_small: "n < 256 \<Longrightarrow> unat (of_nat n :: u8) = n"
  by (simp add: unsigned_of_nat take_bit_nat_eq_self)

lemma attr_in_buf:
  assumes "rm_buf msg = pre @ attr_wire a @ post" and "length (snd a) \<le> 253"
  shows "attr_type msg (length pre) = fst a" "attr_length msg (length pre) = 2 + length (snd a)"
    "attr_value msg (length pre) = snd a"
proof -
  have n: "unat (of_nat (2 + length (snd a)) :: u8) = 2 + length (snd a)"
    by (rule unat_of_nat_small) (use assms(2) in simp)
  then show l: "attr_length msg (length pre) = 2 + length (snd a)"
    by (simp add: attr_length_def assms(1) attr_wire_def nth_append)
  show "attr_type msg (length pre) = fst a"
    by (simp add: attr_type_def assms(1) attr_wire_def nth_append)
  show "attr_value msg (length pre) = snd a"
    by (simp add: attr_value_def l assms(1) attr_wire_def)
qed

lemma attrs_at_offsets:
  assumes "rm_buf msg = pre @ attrs_wire as @ post" and "small_attrs as"
  shows "map (attr_at msg) (attr_offsets (length pre) as) = as \<and>
    (\<forall>p \<in> set (attr_offsets (length pre) as). attr_length msg p = 2 + length (attr_value msg p))"
  using assms
proof (induction as arbitrary: pre)
  case (Cons a as)
  have "rm_buf msg = (pre @ attr_wire a) @ attrs_wire as @ post" using Cons.prems by simp
  from Cons.IH [OF this] Cons.prems
  have "map (attr_at msg) (attr_offsets (length pre + 2 + length (snd a)) as) = as \<and>
    (\<forall>p \<in> set (attr_offsets (length pre + 2 + length (snd a)) as).
       attr_length msg p = 2 + length (attr_value msg p))"
    by (simp add: ac_simps)
  moreover have "rm_buf msg = pre @ attr_wire a @ (attrs_wire as @ post)" using Cons.prems by simp
  from attr_in_buf [OF this] Cons.prems
  have "attr_type msg (length pre) = fst a" "attr_length msg (length pre) = 2 + length (snd a)"
    "attr_value msg (length pre) = snd a" by simp_all
  ultimately show ?case by (simp add: attr_at_def [of msg "length pre"])
qed simp

lemma rep_attrs:
  assumes "radius_rep h as msg"
  shows "map (attr_at msg) (attr_pos msg) = as"
    "p \<in> set (attr_pos msg) \<Longrightarrow> attr_length msg p = 2 + length (attr_value msg p)"
  using attrs_at_offsets [of msg h as "[]"] assms by (auto simp: radius_rep_def)

lemma rep_header:
  assumes "radius_rep h as msg"
  shows "hdr_code msg = h ! 0" "hdr_identifier msg = h ! 1" "hdr_authenticator msg = drop 4 h"
    "take 4 (rm_buf msg) = take 4 h" "drop 20 (rm_buf msg) = attrs_wire as"
  using assms
  by (simp_all add: radius_rep_def hdr_code_def hdr_identifier_def hdr_authenticator_def nth_append)

lemma rep_new: "radius_rep ([code, i] @ replicate 18 0) [] (radius_msg_new code i)"
  by (simp add: radius_rep_def radius_msg_new_def radius_msg_set_hdr_def radius_msg_initialize_def
      radius_len_defs numeral_eq_Suc)

lemma add_to_array:
  assumes "attr_size msg = array_size (length (attr_pos msg))"
  shows "radius_msg_add_attr_to_array msg pos =
    msg\<lparr>attr_pos := attr_pos msg @ [pos], attr_size := array_size (Suc (length (attr_pos msg)))\<rparr>"
  using assms by (simp add: radius_msg_add_attr_to_array_def)

lemma rep_add_attr:
  assumes "radius_rep h as msg" and "length data \<le> 253"
  obtains m where "radius_msg_add_attr msg type data = Some (20 + length (attrs_wire as), m)"
    and "radius_rep h (as @ [(type, data)]) m"
  using assms
  by (auto simp: radius_msg_add_attr_def radius_rep_def radius_len_defs add_to_array attr_wire_def
      attr_offsets_append Let_def)

lemma rep_set_authenticator:
  assumes "radius_rep h as msg" and "length a = 16"
  shows "radius_rep (take 4 h @ a) as (set_hdr_authenticator a msg)"
  using assms by (simp add: radius_rep_def set_hdr_authenticator_def memcpy_at_def)

lemma rep_set_length:
  assumes "radius_rep h as msg"
  shows "radius_rep (take 2 h @ WPA_PUT_BE16 (of_nat (20 + length (attrs_wire as))) @ drop 4 h) as
    (set_hdr_length msg)"
  using assms by (simp add: radius_rep_def set_hdr_length_def memcpy_at_def len_simps)

text \<open>Overwriting the data of an attribute.\<close>

lemma rep_memcpy:
  assumes "radius_rep h (as @ (t, d) # bs) msg" and "length d' = length d"
  shows "radius_rep h (as @ (t, d') # bs)
    (msg\<lparr>rm_buf := memcpy_at (rm_buf msg) (22 + length (attrs_wire as)) d'\<rparr>)"
  using assms
  by (auto simp: radius_rep_def memcpy_at_def attr_wire_def attr_offsets_append simp del: of_nat_Suc)

subsection \<open>Parsing\<close>

lemma parse_attrs_wire:
  assumes "rm_buf msg = pre @ attrs_wire as" and "small_attrs as"
    and "attr_size msg = array_size (length (attr_pos msg))"
  shows "parse_attrs (length pre) msg = Some (msg\<lparr>attr_pos := attr_pos msg @ attr_offsets (length pre) as,
    attr_size := array_size (length (attr_pos msg) + length as)\<rparr>)"
  using assms
proof (induction as arbitrary: pre msg)
  case (Cons a as)
  let ?n = "radius_msg_add_attr_to_array msg (length pre)"
  have n: "?n = msg\<lparr>attr_pos := attr_pos msg @ [length pre],
      attr_size := array_size (Suc (length (attr_pos msg)))\<rparr>"
    by (rule add_to_array [OF Cons.prems(3)])
  have "rm_buf msg = pre @ attr_wire a @ attrs_wire as" using Cons.prems by simp
  note a = attr_in_buf [OF this]
  have "rm_buf ?n = (pre @ attr_wire a) @ attrs_wire as" using Cons.prems by (simp add: n)
  from Cons.IH [OF this] Cons.prems
  have "parse_attrs (length pre + (2 + length (snd a))) ?n = Some (msg\<lparr>attr_pos := attr_pos msg @
      attr_offsets (length pre) (a # as), attr_size := array_size (length (attr_pos msg) + length (a # as))\<rparr>)"
    by (simp add: n ac_simps del: array_size.simps)
  then show ?case
    using a Cons.prems by (subst parse_attrs.simps) (simp del: array_size.simps)
qed (subst parse_attrs.simps, simp)

lemma parse_attrs_inv:
  assumes "parse_attrs pos msg = Some m" and "pos \<le> length (rm_buf msg)"
    and "attr_size msg = array_size (length (attr_pos msg))"
  shows "\<exists>as. small_attrs as \<and> drop pos (rm_buf msg) = attrs_wire as"
  using assms
proof (induction pos msg rule: parse_attrs.induct)
  case (1 pos msg)
  let ?l = "attr_length msg pos"
  show ?case
  proof (cases "pos < length (rm_buf msg)")
    case True
    have fits: "2 \<le> length (rm_buf msg) - pos" "pos + ?l \<le> length (rm_buf msg)" "2 \<le> ?l"
      using "1.prems"(1) True by (simp_all add: parse_attrs.simps [of pos] Let_def not_less split: if_splits)
    have next_: "parse_attrs (pos + ?l) (radius_msg_add_attr_to_array msg pos) = Some m"
      using "1.prems"(1) True fits by (simp add: parse_attrs.simps [of pos] Let_def split: if_splits)
    obtain as where as: "small_attrs as" "drop (pos + ?l) (rm_buf msg) = attrs_wire as"
      using "1.IH" [OF refl _ _ _ next_] True fits
      by (auto simp: add_to_array [OF "1.prems"(3)])
    let ?a = "(rm_buf msg ! pos, take (?l - 2) (drop (pos + 2) (rm_buf msg)))"
    have d: "drop pos (rm_buf msg) = [rm_buf msg ! pos, rm_buf msg ! (pos + 1)] @ drop (pos + 2) (rm_buf msg)"
      using True fits by (simp add: Cons_nth_drop_Suc)
    have len: "length (take (?l - 2) (drop (pos + 2) (rm_buf msg))) = ?l - 2" using fits by simp
    have l: "of_nat (2 + (?l - 2)) = rm_buf msg ! (pos + 1)"
      using fits(3) by (simp add: attr_length_def)
    have "drop (pos + 2) (rm_buf msg) = take (?l - 2) (drop (pos + 2) (rm_buf msg)) @
      drop (?l - 2) (drop (pos + 2) (rm_buf msg))" by (rule append_take_drop_id [symmetric])
    moreover have "?l - 2 + (pos + 2) = pos + ?l" using fits(3) by simp
    then have "drop (?l - 2) (drop (pos + 2) (rm_buf msg)) = attrs_wire as"
      using as(2) by (simp only: drop_drop)
    ultimately have "drop pos (rm_buf msg) = attrs_wire (?a # as)"
      using d l len by (simp add: attr_wire_def)
    moreover have "?l - 2 \<le> 253"
      unfolding attr_length_def using unat_u8_less [of "rm_buf msg ! (pos + 1)"] by linarith
    then have "small_attrs (?a # as)" using as(1) by (simp add: min.coboundedI2)
    ultimately show ?thesis by blast
  next
    case False
    then show ?thesis using "1.prems"(2) by (intro exI [of _ "[]"]) simp
  qed
qed

definition hdr_length_field :: "bytes \<Rightarrow> nat" where
  "hdr_length_field h = unat (WPA_GET_BE16 (drop 2 h))"

lemma be16_pre: "4 \<le> length h \<Longrightarrow> WPA_GET_BE16 (drop 2 (h @ r)) = WPA_GET_BE16 (drop 2 h)"
  by (simp add: WPA_GET_BE16_def nth_append less_diff_conv)

lemma init_msg [simp]:
  "radius_msg_initialize \<lparr>rm_buf = b, attr_pos = ps, attr_size = n\<rparr> = \<lparr>rm_buf = b, attr_pos = [], attr_size = 16\<rparr>"
  by (simp add: radius_msg_initialize_def radius_len_defs)

lemma parse_rep:
  assumes "radius_rep h as m" and "hdr_length_field h = length (rm_buf m)"
  shows "radius_msg_parse (rm_buf m @ rest) = Some m"
proof -
  let ?m = "radius_msg_initialize \<lparr>rm_buf = rm_buf m, attr_pos = [], attr_size = 0\<rparr>"
  note rep = assms(1) [unfolded radius_rep_def]
  have "parse_attrs (length h) ?m =
      Some (?m\<lparr>attr_pos := attr_pos ?m @ attr_offsets (length h) as,
        attr_size := array_size (length (attr_pos ?m) + length as)\<rparr>)"
    by (rule parse_attrs_wire) (use rep in simp_all)
  also have "\<dots> = Some m" using rep by simp
  finally have p: "parse_attrs 20 ?m = Some m" using rep by simp
  have len: "unat (WPA_GET_BE16 (drop 2 (rm_buf m @ rest))) = length (rm_buf m)"
    using assms(2) rep be16_pre [of h "attrs_wire as @ rest"] by (simp add: hdr_length_field_def)
  show ?thesis unfolding radius_msg_parse_def Let_def len RADIUS_HDR_LEN_def using rep p by simp
qed

lemma parse_inv:
  assumes "radius_msg_parse data = Some m"
  obtains h as rest where "radius_rep h as m" and "data = rm_buf m @ rest"
    and "hdr_length_field h = length (rm_buf m)"
proof -
  let ?n = "unat (WPA_GET_BE16 (drop 2 data))"
  let ?m = "radius_msg_initialize \<lparr>rm_buf = take ?n data, attr_pos = [], attr_size = 0\<rparr>"
  have b: "20 \<le> length data" "20 \<le> ?n" "?n \<le> length data" and p: "parse_attrs 20 ?m = Some m"
    using assms by (auto simp: radius_msg_parse_def radius_len_defs Let_def split: if_splits)
  obtain as where as: "small_attrs as" "drop 20 (take ?n data) = attrs_wire as"
    using parse_attrs_inv [OF p] b by auto
  let ?h = "take 20 data"
  have buf: "take ?n data = ?h @ attrs_wire as"
    using as(2) b by (metis append_take_drop_id min_absorb1 take_take)
  have "parse_attrs (length ?h) ?m = Some (?m\<lparr>attr_pos := attr_pos ?m @ attr_offsets (length ?h) as,
      attr_size := array_size (length (attr_pos ?m) + length as)\<rparr>)"
    by (rule parse_attrs_wire) (use as buf in simp_all)
  then have m: "m = \<lparr>rm_buf = take ?n data, attr_pos = attr_offsets 20 as, attr_size = array_size (length as)\<rparr>"
    using p b by simp
  show thesis
  proof (rule that)
    show "radius_rep ?h as m" using m as b buf by (simp add: radius_rep_def)
    show "data = rm_buf m @ drop ?n data" by (simp add: m)
    show "hdr_length_field ?h = length (rm_buf m)"
      using b be16_pre [of ?h "drop 20 data"] by (simp add: m hdr_length_field_def)
  qed
qed

subsection \<open>EAP messages in attributes\<close>

definition radius_data :: "u8 \<Rightarrow> radius_attrs \<Rightarrow> bytes list" where
  "radius_data t as = map snd (filter (\<lambda>a. fst a = t) as)"

lemma radius_data_simps [simp]:
  "radius_data t [] = []" "radius_data t (as @ bs) = radius_data t as @ radius_data t bs"
  "radius_data t ((u, d) # as) = (if u = t then d # radius_data t as else radius_data t as)"
  by (simp_all add: radius_data_def)

lemma radius_data_rep:
  assumes "radius_rep h as msg"
  shows "map (attr_value msg) (filter (\<lambda>pos. attr_type msg pos = t) (attr_pos msg)) = radius_data t as"
  by (subst rep_attrs(1) [OF assms, symmetric])
     (simp add: radius_data_def filter_map o_def attr_at_def)

lemma get_eap_rep:
  assumes "radius_rep h as msg"
  shows "radius_msg_get_eap msg =
    (let eap = concat (radius_data RADIUS_ATTR_EAP_MESSAGE as) in if eap = [] then None else Some eap)"
proof -
  let ?ps = "filter (\<lambda>pos. attr_type msg pos = RADIUS_ATTR_EAP_MESSAGE) (attr_pos msg)"
  have "map (\<lambda>pos. attr_length msg pos - 2) ?ps = map length (map (attr_value msg) ?ps)"
    using rep_attrs(2) [OF assms] by simp
  then have "sum_list (map (\<lambda>pos. attr_length msg pos - 2) ?ps) =
      length (concat (radius_data RADIUS_ATTR_EAP_MESSAGE as))"
    by (simp only: radius_data_rep [OF assms] length_concat)
  then have "sum_list (map (\<lambda>pos. attr_length msg pos - 2) ?ps) = 0 \<longleftrightarrow>
      concat (radius_data RADIUS_ATTR_EAP_MESSAGE as) = []"
    by (simp only: length_0_conv)
  then show ?thesis
    by (simp only: radius_msg_get_eap_def Let_def radius_data_rep [OF assms])
qed

lemma rep_add_eap_loop:
  assumes "radius_rep h as msg"
  shows "\<exists>bs m. add_eap_loop pos msg = (1, m) \<and> radius_rep h (as @ bs) m \<and>
    (\<forall>b \<in> set bs. fst b = RADIUS_ATTR_EAP_MESSAGE \<and> snd b \<noteq> []) \<and> concat (map snd bs) = pos"
  using assms
proof (induction pos msg arbitrary: as rule: add_eap_loop.induct)
  case (1 pos msg)
  show ?case
  proof (cases "pos = []")
    case False
    let ?l = "if length pos > RADIUS_MAX_ATTR_LEN then RADIUS_MAX_ATTR_LEN else length pos"
    obtain m where m: "radius_msg_add_attr msg RADIUS_ATTR_EAP_MESSAGE (take ?l pos) =
        Some (20 + length (attrs_wire as), m)"
      "radius_rep h (as @ [(RADIUS_ATTR_EAP_MESSAGE, take ?l pos)]) m"
      by (rule rep_add_attr [OF "1.prems", of "take ?l pos" RADIUS_ATTR_EAP_MESSAGE])
         (auto simp: radius_len_defs)
    from "1.IH" [OF _ refl m(1) refl m(2)] False obtain bs k where
      "add_eap_loop (drop ?l pos) m = (1, k)"
      "radius_rep h ((as @ [(RADIUS_ATTR_EAP_MESSAGE, take ?l pos)]) @ bs) k"
      "\<forall>b \<in> set bs. fst b = RADIUS_ATTR_EAP_MESSAGE \<and> snd b \<noteq> []" "concat (map snd bs) = drop ?l pos"
      by auto
    moreover have "take ?l pos \<noteq> []" using False by (simp add: radius_len_defs)
    ultimately show ?thesis
      using False m(1)
      by (intro exI [of _ "(RADIUS_ATTR_EAP_MESSAGE, take ?l pos) # bs"] exI [of _ k])
         (subst add_eap_loop.simps, simp add: Let_def)
  next
    case True
    then show ?thesis
      using "1.prems" by (intro exI [of _ "[]"] exI [of _ msg]) (simp add: add_eap_loop.simps)
  qed
qed

lemma rep_add_eap:
  assumes "radius_rep h as msg"
  obtains bs m where "radius_msg_add_eap msg data = (1, m)" and "radius_rep h (as @ bs) m"
    and "\<forall>b \<in> set bs. fst b = RADIUS_ATTR_EAP_MESSAGE" and "concat (map snd bs) = data"
    and "\<forall>b \<in> set bs. snd b \<noteq> []"
  using rep_add_eap_loop [OF assms, of data] by (auto simp: radius_msg_add_eap_def)

text \<open>
  C23: Parsing is exact. A datagram is accepted precisely when it starts with a message that consists of
  a header of 20 octets, whose length field is the length of the message, and of attributes that each
  have a type, a length octet and up to 253 octets of data, one after the other up to the end; then the
  message holds exactly these octets and the positions of exactly these attributes, and what follows
  in the datagram is ignored. Everything else is rejected.
\<close>

theorem radius_parse_exact:
  "radius_msg_parse data = Some m \<longleftrightarrow>
   (\<exists>h as rest. radius_rep h as m \<and> data = rm_buf m @ rest \<and> hdr_length_field h = length (rm_buf m))"
  by (metis parse_rep parse_inv)

end
