(* ===== verification/RadiusClient.thy ===== *)
theory RadiusClient
  imports RadiusMsg
begin

text \<open>
  The RADIUS client (\<^verbatim>\<open>radius/radius_client.c\<close>, \<^verbatim>\<open>radius/radius_client.h\<close>): the servers with their
  counters, the list of the requests that wait for a response, the timers, the sockets and the
  handlers of the responses. A pointer into an array of servers is an index. What the operating
  system answers is a parameter, one stream for each call of it, indexed by the number of calls so
  far; an operation is given the time once. What goes to the network and to the event loop is
  appended to \<open>rc_out\<close>. \<open>None\<close> as the result of an operation is a NULL or dangling pointer that is
  used. The state may be extended by the rest of the program, which the handlers work on.
\<close>

subsection \<open>State\<close>

datatype RadiusType = RADIUS_AUTH | RADIUS_ACCT | RADIUS_ACCT_INTERIM

datatype RadiusRxResult = RADIUS_RX_PROCESSED | RADIUS_RX_QUEUED | RADIUS_RX_UNKNOWN
  | RADIUS_RX_INVALID_AUTHENTICATOR

definition RADIUS_CLIENT_FIRST_WAIT :: int where "RADIUS_CLIENT_FIRST_WAIT = 3"
definition RADIUS_CLIENT_MAX_WAIT :: int where "RADIUS_CLIENT_MAX_WAIT = 120"
definition RADIUS_CLIENT_MAX_RETRIES :: int where "RADIUS_CLIENT_MAX_RETRIES = 10"
definition RADIUS_CLIENT_MAX_ENTRIES :: int where "RADIUS_CLIENT_MAX_ENTRIES = 30"
definition RADIUS_CLIENT_NUM_FAILOVER :: int where "RADIUS_CLIENT_NUM_FAILOVER = 4"

lemmas radius_client_consts = RADIUS_CLIENT_FIRST_WAIT_def RADIUS_CLIENT_MAX_WAIT_def
  RADIUS_CLIENT_MAX_RETRIES_def RADIUS_CLIENT_MAX_ENTRIES_def RADIUS_CLIENT_NUM_FAILOVER_def

datatype hostapd_ip_addr = AF_INET bytes | AF_INET6 bytes | AF_OTHER

record hostapd_radius_server =
  rs_addr :: hostapd_ip_addr
  rs_port :: int
  shared_secret :: bytes
  round_trip_time :: int
  requests :: u32
  retransmissions :: u32
  access_accepts :: u32
  access_rejects :: u32
  access_challenges :: u32
  responses :: u32
  malformed_responses :: u32
  bad_authenticators :: u32
  timeouts :: u32
  unknown_types :: u32

record hostapd_radius_servers =
  auth_servers :: "hostapd_radius_server list"
  auth_server :: "nat option"
  acct_servers :: "hostapd_radius_server list"
  acct_server :: "nat option"
  retry_primary_interval :: int
  client_addr :: hostapd_ip_addr
  force_client_addr :: bool

text \<open>Times are seconds, and seconds with microseconds.\<close>

record radius_msg_list =
  ml_addr :: bytes
  ml_msg :: radius_msg
  msg_type :: RadiusType
  first_try :: int
  next_try :: int
  attempts :: int
  next_wait :: int
  last_attempt :: "int \<times> int"
  ml_secret :: bytes

datatype radius_out = SendTo int bytes | CloseSock int | UnregisterRead int | RegisterRead int RadiusType

text \<open>\<open>client_timers\<close> and \<open>retry_timers\<close> are the registered timeouts with the time they are due.\<close>

record 'h radius_client_data =
  rc_conf :: hostapd_radius_servers
  auth_serv_sock :: int
  acct_serv_sock :: int
  auth_serv_sock6 :: int
  acct_serv_sock6 :: int
  auth_sock :: int
  acct_sock :: int
  auth_handlers :: "'h list"
  acct_handlers :: "'h list"
  msgs :: "radius_msg_list list"
  num_msgs :: int
  next_radius_identifier :: u8
  client_timers :: "int list"
  retry_timers :: "int list"
  sys_calls :: nat
  rc_out :: "radius_out list"

text \<open>
  The operating system: \<open>send\<close> gives the number of octets or fails, with an \<open>errno\<close> that makes
  the client connect again or another one; the other calls succeed or not.
\<close>

datatype send_answer = Sent int | SendFailed bool

record sys_answers =
  sys_send :: "nat \<Rightarrow> send_answer"
  sys_socket :: "nat \<Rightarrow> int"
  sys_bind :: "nat \<Rightarrow> bool"
  sys_connect :: "nat \<Rightarrow> bool"
  sys_register :: "nat \<Rightarrow> bool"
  sys_terminated :: "nat \<Rightarrow> bool"

type_synonym now = "int \<times> int"

definition called :: "('h, 'z) radius_client_data_scheme \<Rightarrow> ('h, 'z) radius_client_data_scheme" where
  "called c = c\<lparr>sys_calls := sys_calls c + 1\<rparr>"

definition rc_emit :: "radius_out \<Rightarrow> ('h, 'z) radius_client_data_scheme \<Rightarrow> ('h, 'z) radius_client_data_scheme" where
  "rc_emit ev c = c\<lparr>rc_out := rc_out c @ [ev]\<rparr>"

definition is_acct :: "RadiusType \<Rightarrow> bool" where
  "is_acct t \<longleftrightarrow> t = RADIUS_ACCT \<or> t = RADIUS_ACCT_INTERIM"

text \<open>The current server of a kind, and the change of its counters.\<close>

definition current_server :: "bool \<Rightarrow> hostapd_radius_servers \<Rightarrow> nat option" where
  "current_server acct conf = (if acct then acct_server conf else auth_server conf)"

definition servers_of :: "bool \<Rightarrow> hostapd_radius_servers \<Rightarrow> hostapd_radius_server list" where
  "servers_of acct conf = (if acct then acct_servers conf else auth_servers conf)"

definition upd_server ::
  "bool \<Rightarrow> nat \<Rightarrow> (hostapd_radius_server \<Rightarrow> hostapd_radius_server) \<Rightarrow> hostapd_radius_servers \<Rightarrow> hostapd_radius_servers"
where
  "upd_server acct i f conf =
     (if acct then conf\<lparr>acct_servers := (acct_servers conf)[i := f (acct_servers conf ! i)]\<rparr>
      else conf\<lparr>auth_servers := (auth_servers conf)[i := f (auth_servers conf ! i)]\<rparr>)"

definition upd_conf ::
  "(hostapd_radius_servers \<Rightarrow> hostapd_radius_servers) \<Rightarrow>
   ('h, 'z) radius_client_data_scheme \<Rightarrow> ('h, 'z) radius_client_data_scheme" where
  "upd_conf f c = c\<lparr>rc_conf := f (rc_conf c)\<rparr>"

text \<open>\<open>eloop_register_timeout\<close> and \<open>eloop_cancel_timeout\<close> for the retransmission timer.\<close>

definition register_timer :: "now \<Rightarrow> int \<Rightarrow> ('h, 'z) radius_client_data_scheme \<Rightarrow> ('h, 'z) radius_client_data_scheme" where
  "register_timer now secs c = c\<lparr>client_timers := client_timers c @ [fst now + secs]\<rparr>"

definition cancel_timer :: "('h, 'z) radius_client_data_scheme \<Rightarrow> ('h, 'z) radius_client_data_scheme" where
  "cancel_timer c = c\<lparr>client_timers := []\<rparr>"

subsection \<open>Flushing and changing the server\<close>

definition radius_client_register ::
  "RadiusType \<Rightarrow> 'h \<Rightarrow> ('h, 'z) radius_client_data_scheme \<Rightarrow> ('h, 'z) radius_client_data_scheme" where
  "radius_client_register t handler c =
     (if t = RADIUS_ACCT then c\<lparr>acct_handlers := acct_handlers c @ [handler]\<rparr>
      else c\<lparr>auth_handlers := auth_handlers c @ [handler]\<rparr>)"

text \<open>Removing the entries that satisfy \<open>P\<close>, each with \<open>num_msgs--\<close>.\<close>

fun remove_entries ::
  "(radius_msg_list \<Rightarrow> bool) \<Rightarrow> radius_msg_list list \<Rightarrow> int \<Rightarrow> radius_msg_list list \<times> int" where
  "remove_entries P [] n = ([], n)"
| "remove_entries P (entry # es) n =
     (if P entry then remove_entries P es (n - 1)
      else let (es, n) = remove_entries P es n in (entry # es, n))"

definition remove_msgs ::
  "(radius_msg_list \<Rightarrow> bool) \<Rightarrow> ('h, 'z) radius_client_data_scheme \<Rightarrow> ('h, 'z) radius_client_data_scheme" where
  "remove_msgs P c =
     (let (es, n) = remove_entries P (msgs c) (num_msgs c) in c\<lparr>msgs := es, num_msgs := n\<rparr>)"

definition radius_client_flush ::
  "bool \<Rightarrow> ('h, 'z) radius_client_data_scheme \<Rightarrow> ('h, 'z) radius_client_data_scheme" where
  "radius_client_flush only_auth c =
     (let c = remove_msgs (\<lambda>entry. \<not> only_auth \<or> msg_type entry = RADIUS_AUTH) c
      in if msgs c = [] then cancel_timer c else c)"

definition radius_client_flush_auth ::
  "bytes \<Rightarrow> ('h, 'z) radius_client_data_scheme \<Rightarrow> ('h, 'z) radius_client_data_scheme" where
  "radius_client_flush_auth addr c =
     remove_msgs (\<lambda>entry. msg_type entry = RADIUS_AUTH \<and> os_memcmp (ml_addr entry) addr 6 = 0) c"

definition radius_client_list_del ::
  "RadiusType \<Rightarrow> bytes option \<Rightarrow> ('h, 'z) radius_client_data_scheme \<Rightarrow> ('h, 'z) radius_client_data_scheme" where
  "radius_client_list_del t addr c =
     (case addr of None \<Rightarrow> c
      | Some a \<Rightarrow> remove_msgs (\<lambda>entry. msg_type entry = t \<and> os_memcmp (ml_addr entry) a 6 = 0) c)"

definition radius_client_update_acct_msgs ::
  "bytes \<Rightarrow> ('h, 'z) radius_client_data_scheme \<Rightarrow> ('h, 'z) radius_client_data_scheme" where
  "radius_client_update_acct_msgs secret c =
     c\<lparr>msgs := map (\<lambda>entry. if msg_type entry = RADIUS_ACCT
         then entry\<lparr>ml_secret := secret, ml_msg := radius_msg_finish_acct (ml_msg entry) secret\<rparr>
         else entry) (msgs c)\<rparr>"

text \<open>The retry counters for the new server; interim accounting messages keep theirs.\<close>

definition reset_retries :: "bool \<Rightarrow> radius_msg_list \<Rightarrow> radius_msg_list" where
  "reset_retries auth entry =
     (if (auth \<and> msg_type entry \<noteq> RADIUS_AUTH) \<or> (\<not> auth \<and> msg_type entry \<noteq> RADIUS_ACCT) then entry
      else entry\<lparr>next_try := first_try entry + RADIUS_CLIENT_FIRST_WAIT, attempts := 0,
             next_wait := RADIUS_CLIENT_FIRST_WAIT * 2\<rparr>)"

definition radius_change_server ::
  "sys_answers \<Rightarrow> now \<Rightarrow> hostapd_radius_server \<Rightarrow> hostapd_radius_server option \<Rightarrow> int \<Rightarrow> int \<Rightarrow> bool \<Rightarrow>
   ('h, 'z) radius_client_data_scheme \<Rightarrow> int \<times> ('h, 'z) radius_client_data_scheme" where
  "radius_change_server sys now nserv oserv sock sock6 auth c =
     (let secret = shared_secret nserv;
          differ = (case oserv of None \<Rightarrow> True
            | Some old \<Rightarrow> length secret \<noteq> length (shared_secret old) \<or>
                os_memcmp secret (shared_secret old) (length secret) \<noteq> 0);
          c = (if \<not> differ then c
               else if auth then radius_client_flush True c
               else radius_client_update_acct_msgs secret c);
          c = c\<lparr>msgs := map (reset_retries auth) (msgs c)\<rparr>;
          c = (if msgs c \<noteq> [] then register_timer now RADIUS_CLIENT_FIRST_WAIT (cancel_timer c) else c);
          finish = (\<lambda>sel_sock c.
            let connected = sys_connect sys (sys_calls c); c = called c
            in if \<not> connected then (-1, c)
               else (0, if auth then c\<lparr>auth_sock := sel_sock\<rparr> else c\<lparr>acct_sock := sel_sock\<rparr>));
          use = (\<lambda>sel_sock.
            if force_client_addr (rc_conf c)
            then (if client_addr (rc_conf c) = AF_OTHER then (-1, c)
                  else let bound = sys_bind sys (sys_calls c); c = called c
                       in if \<not> bound then (-1, c) else finish sel_sock c)
            else finish sel_sock c)
      in case rs_addr nserv of AF_INET _ \<Rightarrow> use sock | AF_INET6 _ \<Rightarrow> use sock6 | AF_OTHER \<Rightarrow> (-1, c))"

text \<open>
  The sockets of a kind: an IPv4 and an IPv6 one, whose creation may fail; then the current server
  is connected, with no old server to compare with, and the sockets are given to the event loop.
\<close>

definition register_read ::
  "sys_answers \<Rightarrow> int \<Rightarrow> RadiusType \<Rightarrow> ('h, 'z) radius_client_data_scheme \<Rightarrow> bool \<times> ('h, 'z) radius_client_data_scheme" where
  "register_read sys s t c =
     (if s < 0 then (True, c)
      else let ok = sys_register sys (sys_calls c); c = called c
           in (ok, if ok then rc_emit (RegisterRead s t) c else c))"

definition radius_client_init_kind ::
  "sys_answers \<Rightarrow> now \<Rightarrow> bool \<Rightarrow> ('h, 'z) radius_client_data_scheme \<Rightarrow> (int \<times> ('h, 'z) radius_client_data_scheme) option" where
  "radius_client_init_kind sys now acct c =
     (let s4 = sys_socket sys (sys_calls c); c = called c;
          s6 = sys_socket sys (sys_calls c); c = called c;
          c = (if acct then c\<lparr>acct_serv_sock := s4, acct_serv_sock6 := s6\<rparr>
               else c\<lparr>auth_serv_sock := s4, auth_serv_sock6 := s6\<rparr>);
          t = (if acct then RADIUS_ACCT else RADIUS_AUTH)
      in if s4 < 0 \<and> s6 < 0 then Some (-1, c)
         else case current_server acct (rc_conf c) of
           None \<Rightarrow> None
         | Some i \<Rightarrow>
             let (_, c) = radius_change_server sys now (servers_of acct (rc_conf c) ! i) None s4 s6 (\<not> acct) c;
                 (ok, c) = register_read sys s4 t c
             in if \<not> ok then Some (-1, c)
                else let (ok, c) = register_read sys s6 t c in Some (if ok then 0 else -1, c))"

definition radius_client_init_auth ::
  "sys_answers \<Rightarrow> now \<Rightarrow> ('h, 'z) radius_client_data_scheme \<Rightarrow> (int \<times> ('h, 'z) radius_client_data_scheme) option" where
  "radius_client_init_auth sys now c = radius_client_init_kind sys now False c"

definition radius_client_init_acct ::
  "sys_answers \<Rightarrow> now \<Rightarrow> ('h, 'z) radius_client_data_scheme \<Rightarrow> (int \<times> ('h, 'z) radius_client_data_scheme) option" where
  "radius_client_init_acct sys now c = radius_client_init_kind sys now True c"

subsection \<open>Sending and retransmitting\<close>

definition radius_client_handle_send_error ::
  "sys_answers \<Rightarrow> now \<Rightarrow> int \<Rightarrow> RadiusType \<Rightarrow> bool \<Rightarrow> ('h, 'z) radius_client_data_scheme \<Rightarrow>
   ('h, 'z) radius_client_data_scheme option" where
  "radius_client_handle_send_error sys now s t again c =
     (if \<not> again then Some c
      else let c = rc_emit (CloseSock s) (rc_emit (UnregisterRead s) c)
           in map_option snd (if is_acct t then radius_client_init_acct sys now c
                              else radius_client_init_auth sys now c))"

text \<open>\<open>send\<close> with its result; an error is handled at once.\<close>

definition rc_send ::
  "sys_answers \<Rightarrow> now \<Rightarrow> int \<Rightarrow> RadiusType \<Rightarrow> bytes \<Rightarrow> ('h, 'z) radius_client_data_scheme \<Rightarrow>
   (int \<times> ('h, 'z) radius_client_data_scheme) option" where
  "rc_send sys now s t buf c =
     (let answer = sys_send sys (sys_calls c); c = rc_emit (SendTo s buf) (called c)
      in case answer of
           Sent n \<Rightarrow> Some (n, c)
         | SendFailed again \<Rightarrow> map_option (Pair (-1)) (radius_client_handle_send_error sys now s t again c))"

definition upd_entry ::
  "nat \<Rightarrow> (radius_msg_list \<Rightarrow> radius_msg_list) \<Rightarrow> ('h, 'z) radius_client_data_scheme \<Rightarrow> ('h, 'z) radius_client_data_scheme"
where
  "upd_entry i f c = c\<lparr>msgs := (msgs c)[i := f (msgs c ! i)]\<rparr>"

text \<open>
  The retransmission of entry \<open>i\<close>. Connecting again after a failed send flushes the entries for
  authentication, this one with them, and the function goes on to use it: then the result is \<open>None\<close>.
\<close>

definition radius_client_retransmit ::
  "sys_answers \<Rightarrow> now \<Rightarrow> nat \<Rightarrow> ('h, 'z) radius_client_data_scheme \<Rightarrow>
   (bool \<times> ('h, 'z) radius_client_data_scheme) option" where
  "radius_client_retransmit sys now i c =
     (let entry = msgs c ! i; acct = is_acct (msg_type entry);
          s = (if acct then acct_sock c else auth_sock c)
      in case current_server acct (rc_conf c) of
        None \<Rightarrow> None
      | Some k \<Rightarrow>
          let c = upd_conf (upd_server acct k (\<lambda>sv. if attempts entry = 0
                then sv\<lparr>requests := requests sv + 1\<rparr>
                else sv\<lparr>timeouts := timeouts sv + 1, retransmissions := retransmissions sv + 1\<rparr>)) c;
              c = upd_entry i (\<lambda>e. e\<lparr>attempts := attempts e + 1, last_attempt := now\<rparr>) c;
              n = length (msgs c)
          in case rc_send sys now s (msg_type entry) (rm_buf (ml_msg entry)) c of
               None \<Rightarrow> None
             | Some (_, c) \<Rightarrow>
                 if length (msgs c) \<noteq> n then None
                 else let c = upd_entry i (\<lambda>e. e\<lparr>next_try := fst now + next_wait e,
                        next_wait := (if next_wait e * 2 > RADIUS_CLIENT_MAX_WAIT
                                      then RADIUS_CLIENT_MAX_WAIT else next_wait e * 2)\<rparr>) c
                      in Some (attempts (msgs c ! i) \<ge> RADIUS_CLIENT_MAX_RETRIES, c))"

definition unlink_entry :: "nat \<Rightarrow> ('h, 'z) radius_client_data_scheme \<Rightarrow> ('h, 'z) radius_client_data_scheme" where
  "unlink_entry i c = c\<lparr>msgs := take i (msgs c) @ drop (Suc i) (msgs c), num_msgs := num_msgs c - 1\<rparr>"

text \<open>
  The loop of the timer over the list from entry \<open>i\<close> on, with the earliest time and the numbers of
  entries that call for another server. Nothing is added to the list, so its length at the beginning
  bounds the rounds.
\<close>

definition earlier :: "int \<Rightarrow> radius_msg_list \<Rightarrow> int" where
  "earlier first entry = (if first = 0 \<or> next_try entry < first then next_try entry else first)"

primrec timer_loop ::
  "sys_answers \<Rightarrow> now \<Rightarrow> nat \<Rightarrow> nat \<Rightarrow> int \<times> nat \<times> nat \<Rightarrow> ('h, 'z) radius_client_data_scheme \<Rightarrow>
   ((int \<times> nat \<times> nat) \<times> ('h, 'z) radius_client_data_scheme) option" where
  "timer_loop sys now 0 i acc c = Some (acc, c)"
| "timer_loop sys now (Suc n) i acc c =
     (if \<not> i < length (msgs c) then Some (acc, c)
      else case (if fst now \<ge> next_try (msgs c ! i) then radius_client_retransmit sys now i c
                 else Some (False, c)) of
        None \<Rightarrow> None
      | Some (True, c) \<Rightarrow> timer_loop sys now n i acc (unlink_entry i c)
      | Some (False, c) \<Rightarrow>
          let entry = msgs c ! i;
              (first, auth_failover, acct_failover) = acc;
              over = attempts entry > RADIUS_CLIENT_NUM_FAILOVER
          in timer_loop sys now n (Suc i)
               (earlier first entry,
                if over \<and> \<not> is_acct (msg_type entry) then auth_failover + 1 else auth_failover,
                if over \<and> is_acct (msg_type entry) then acct_failover + 1 else acct_failover) c)"

text \<open>Another server becomes the current one of a kind.\<close>

definition select_server :: "bool \<Rightarrow> nat \<Rightarrow> hostapd_radius_servers \<Rightarrow> hostapd_radius_servers" where
  "select_server acct k conf = (if acct then conf\<lparr>acct_server := Some k\<rparr> else conf\<lparr>auth_server := Some k\<rparr>)"

text \<open>Going on to the next server, cyclically; the entries that wait count as timeouts of the old one.\<close>

definition failover ::
  "sys_answers \<Rightarrow> now \<Rightarrow> bool \<Rightarrow> ('h, 'z) radius_client_data_scheme \<Rightarrow> ('h, 'z) radius_client_data_scheme option" where
  "failover sys now acct c =
     (case current_server acct (rc_conf c) of
        None \<Rightarrow> None
      | Some old \<Rightarrow>
          let n = length (filter (\<lambda>e. if acct then is_acct (msg_type e) else msg_type e = RADIUS_AUTH) (msgs c));
              c = upd_conf (upd_server acct old (\<lambda>sv. sv\<lparr>timeouts := timeouts sv + of_nat n\<rparr>)) c;
              nindex = (if old + 1 > length (servers_of acct (rc_conf c)) - 1 then 0 else old + 1);
              oserv = servers_of acct (rc_conf c) ! old;
              c = upd_conf (select_server acct nindex) c
          in Some (snd (radius_change_server sys now (servers_of acct (rc_conf c) ! nindex) (Some oserv)
               (if acct then acct_serv_sock c else auth_serv_sock c)
               (if acct then acct_serv_sock6 c else auth_serv_sock6 c) (\<not> acct) c)))"

definition radius_client_timer ::
  "sys_answers \<Rightarrow> now \<Rightarrow> ('h, 'z) radius_client_data_scheme \<Rightarrow> ('h, 'z) radius_client_data_scheme option" where
  "radius_client_timer sys now c =
     (if msgs c = [] then Some c
      else case timer_loop sys now (length (msgs c)) 0 (0, 0, 0) c of
        None \<Rightarrow> None
      | Some ((first, auth_failover, acct_failover), c) \<Rightarrow>
          let c = (if msgs c \<noteq> []
                   then register_timer now ((if first < fst now then fst now else first) - fst now) c else c)
          in Option.bind
               (if auth_failover \<noteq> 0 \<and> length (auth_servers (rc_conf c)) > 1
                then failover sys now False c else Some c)
               (\<lambda>c. if acct_failover \<noteq> 0 \<and> length (acct_servers (rc_conf c)) > 1
                    then failover sys now True c else Some c))"

definition radius_client_update_timeout ::
  "now \<Rightarrow> ('h, 'z) radius_client_data_scheme \<Rightarrow> ('h, 'z) radius_client_data_scheme" where
  "radius_client_update_timeout now c =
     (let c = cancel_timer c
      in if msgs c = [] then c
         else let first = foldl earlier 0 (msgs c)
              in register_timer now ((if first < fst now then fst now else first) - fst now) c)"

text \<open>
  A request enters the list at its head. When there are too many entries the last one is dropped,
  unless it is the new one.
\<close>

definition radius_client_list_add ::
  "sys_answers \<Rightarrow> now \<Rightarrow> radius_msg \<Rightarrow> RadiusType \<Rightarrow> bytes \<Rightarrow> bytes option \<Rightarrow>
   ('h, 'z) radius_client_data_scheme \<Rightarrow> ('h, 'z) radius_client_data_scheme" where
  "radius_client_list_add sys now msg t secret addr c =
     (let terminated = sys_terminated sys (sys_calls c); c = called c
      in if terminated then c
         else let entry = \<lparr>ml_addr = (case addr of None \<Rightarrow> replicate 6 0 | Some a \<Rightarrow> take 6 a),
                    ml_msg = msg, msg_type = t, first_try = fst now,
                    next_try = fst now + RADIUS_CLIENT_FIRST_WAIT, attempts = 1,
                    next_wait = RADIUS_CLIENT_FIRST_WAIT * 2, last_attempt = now, ml_secret = secret\<rparr>;
                  c = c\<lparr>msgs := entry # msgs c\<rparr>;
                  c = radius_client_update_timeout now c
              in if num_msgs c \<ge> RADIUS_CLIENT_MAX_ENTRIES
                 then (if length (msgs c) > 1 then c\<lparr>msgs := butlast (msgs c)\<rparr> else c)
                 else c\<lparr>num_msgs := num_msgs c + 1\<rparr>)"

definition radius_client_send ::
  "sys_answers \<Rightarrow> now \<Rightarrow> radius_msg \<Rightarrow> RadiusType \<Rightarrow> bytes option \<Rightarrow> ('h, 'z) radius_client_data_scheme \<Rightarrow>
   (int \<times> ('h, 'z) radius_client_data_scheme) option" where
  "radius_client_send sys now msg t addr c =
     (let c = (if t = RADIUS_ACCT_INTERIM then radius_client_list_del t addr c else c);
          acct = is_acct t
      in case current_server acct (rc_conf c) of
        None \<Rightarrow> Some (-1, c)
      | Some i \<Rightarrow>
          let secret = shared_secret (servers_of acct (rc_conf c) ! i);
              msg = (if acct then radius_msg_finish_acct msg secret
                     else snd (radius_msg_finish msg (Some secret)));
              s = (if acct then acct_sock c else auth_sock c);
              c = upd_conf (upd_server acct i (\<lambda>sv. sv\<lparr>requests := requests sv + 1\<rparr>)) c
          in case rc_send sys now s t (rm_buf msg) c of
               None \<Rightarrow> None
             | Some (res, c) \<Rightarrow> Some (res, radius_client_list_add sys now msg t secret addr c))"

subsection \<open>Receiving\<close>

text \<open>The division of C rounds to zero.\<close>

definition c_div :: "int \<Rightarrow> int \<Rightarrow> int" where
  "c_div a b = (if a < 0 then - ((- a) div b) else a div b)"

fun find_request :: "RadiusType \<Rightarrow> u8 \<Rightarrow> radius_msg_list list \<Rightarrow> nat option" where
  "find_request t i [] = None"
| "find_request t i (req # es) =
     (if (msg_type req = t \<or> (msg_type req = RADIUS_ACCT_INTERIM \<and> t = RADIUS_ACCT)) \<and>
         hdr_identifier (ml_msg req) = i then Some 0
      else map_option Suc (find_request t i es))"

text \<open>
  The handlers are called in order until one takes the message; \<open>call\<close> runs a handler. The result
  says whether one took it, and how many found a wrong authenticator.
\<close>

fun call_handlers ::
  "('h \<Rightarrow> radius_msg \<Rightarrow> radius_msg \<Rightarrow> bytes \<Rightarrow> ('h, 'z) radius_client_data_scheme \<Rightarrow>
     (RadiusRxResult \<times> ('h, 'z) radius_client_data_scheme) option) \<Rightarrow>
   radius_msg \<Rightarrow> radius_msg_list \<Rightarrow> 'h list \<Rightarrow> nat \<Rightarrow> ('h, 'z) radius_client_data_scheme \<Rightarrow>
   (bool \<times> nat \<times> ('h, 'z) radius_client_data_scheme) option" where
  "call_handlers call msg req [] invalid c = Some (False, invalid, c)"
| "call_handlers call msg req (h # hs) invalid c =
     (case call h msg (ml_msg req) (ml_secret req) c of
        None \<Rightarrow> None
      | Some (res, c) \<Rightarrow>
          (case res of
             RADIUS_RX_PROCESSED \<Rightarrow> Some (True, invalid, c)
           | RADIUS_RX_QUEUED \<Rightarrow> Some (True, invalid, c)
           | RADIUS_RX_INVALID_AUTHENTICATOR \<Rightarrow> call_handlers call msg req hs (invalid + 1) c
           | RADIUS_RX_UNKNOWN \<Rightarrow> call_handlers call msg req hs invalid c))"

definition count_response :: "u8 \<Rightarrow> hostapd_radius_server \<Rightarrow> hostapd_radius_server" where
  "count_response code sv =
     (if code = RADIUS_CODE_ACCESS_ACCEPT then sv\<lparr>access_accepts := access_accepts sv + 1\<rparr>
      else if code = RADIUS_CODE_ACCESS_REJECT then sv\<lparr>access_rejects := access_rejects sv + 1\<rparr>
      else if code = RADIUS_CODE_ACCESS_CHALLENGE then sv\<lparr>access_challenges := access_challenges sv + 1\<rparr>
      else sv\<lparr>responses := responses sv + 1\<rparr>)"

definition counted_codes :: "u8 list" where
  "counted_codes = [RADIUS_CODE_ACCESS_ACCEPT, RADIUS_CODE_ACCESS_REJECT, RADIUS_CODE_ACCESS_CHALLENGE,
     RADIUS_CODE_ACCOUNTING_RESPONSE]"

text \<open>Writing to the server that \<open>rconf\<close> points to.\<close>

definition write_server ::
  "bool \<Rightarrow> nat option \<Rightarrow> (hostapd_radius_server \<Rightarrow> hostapd_radius_server) \<Rightarrow>
   ('h, 'z) radius_client_data_scheme \<Rightarrow> ('h, 'z) radius_client_data_scheme option" where
  "write_server acct rconf f c = map_option (\<lambda>k. upd_conf (upd_server acct k f) c) rconf"

text \<open>What happens once the pending request \<open>i\<close> has been found for the message.\<close>

definition take_response ::
  "('h \<Rightarrow> radius_msg \<Rightarrow> radius_msg \<Rightarrow> bytes \<Rightarrow> ('h, 'z) radius_client_data_scheme \<Rightarrow>
     (RadiusRxResult \<times> ('h, 'z) radius_client_data_scheme) option) \<Rightarrow>
   now \<Rightarrow> bool \<Rightarrow> nat option \<Rightarrow> 'h list \<Rightarrow> radius_msg \<Rightarrow> nat \<Rightarrow> ('h, 'z) radius_client_data_scheme \<Rightarrow>
   ('h, 'z) radius_client_data_scheme option" where
  "take_response call now acct rconf handlers msg i c =
     (let req = msgs c ! i;
          roundtrip = (fst now - fst (last_attempt req)) * 100 +
            c_div (snd now - snd (last_attempt req)) 10000
      in case write_server acct rconf (\<lambda>sv. sv\<lparr>round_trip_time := roundtrip\<rparr>) c of
           None \<Rightarrow> None
         | Some c \<Rightarrow>
             (case call_handlers call msg req handlers 0 (unlink_entry i c) of
                None \<Rightarrow> None
              | Some (taken, invalid, c) \<Rightarrow>
                  if taken then Some c
                  else write_server acct rconf (\<lambda>sv. if invalid \<noteq> 0
                         then sv\<lparr>bad_authenticators := bad_authenticators sv + 1\<rparr>
                         else sv\<lparr>unknown_types := unknown_types sv + 1\<rparr>) c))"

text \<open>\<open>received\<close> is what \<open>recv\<close> gives, \<open>None\<close> for an error; the buffer has 3000 octets.\<close>

definition radius_client_receive ::
  "('h \<Rightarrow> radius_msg \<Rightarrow> radius_msg \<Rightarrow> bytes \<Rightarrow> ('h, 'z) radius_client_data_scheme \<Rightarrow>
     (RadiusRxResult \<times> ('h, 'z) radius_client_data_scheme) option) \<Rightarrow>
   now \<Rightarrow> RadiusType \<Rightarrow> bytes option \<Rightarrow> ('h, 'z) radius_client_data_scheme \<Rightarrow>
   ('h, 'z) radius_client_data_scheme option" where
  "radius_client_receive call now t received c =
     (let acct = (t = RADIUS_ACCT);
          handlers = (if acct then acct_handlers c else auth_handlers c);
          rconf = current_server acct (rc_conf c)
      in case received of
        None \<Rightarrow> Some c
      | Some buf \<Rightarrow>
          if length buf \<ge> 3000 then Some c
          else case radius_msg_parse buf of
            None \<Rightarrow> write_server acct rconf
              (\<lambda>sv. sv\<lparr>malformed_responses := malformed_responses sv + 1\<rparr>) c
          | Some msg \<Rightarrow>
              (case (if hdr_code msg \<in> set counted_codes
                     then write_server acct rconf (count_response (hdr_code msg)) c else Some c) of
                 None \<Rightarrow> None
               | Some c \<Rightarrow>
                   (case find_request t (hdr_identifier msg) (msgs c) of
                      None \<Rightarrow> Some c
                    | Some i \<Rightarrow> take_response call now acct rconf handlers msg i c)))"

subsection \<open>Identifiers, the primary server, creation\<close>

text \<open>The pending messages with the identifier go, but they stay in \<open>num_msgs\<close>.\<close>

definition radius_client_get_id ::
  "('h, 'z) radius_client_data_scheme \<Rightarrow> u8 \<times> ('h, 'z) radius_client_data_scheme" where
  "radius_client_get_id c =
     (let i = next_radius_identifier c
      in (i, c\<lparr>next_radius_identifier := i + 1,
               msgs := filter (\<lambda>entry. hdr_identifier (ml_msg entry) \<noteq> i) (msgs c)\<rparr>))"

definition back_to_primary ::
  "sys_answers \<Rightarrow> now \<Rightarrow> bool \<Rightarrow> ('h, 'z) radius_client_data_scheme \<Rightarrow> ('h, 'z) radius_client_data_scheme option" where
  "back_to_primary sys now acct c =
     (if \<not> ((if acct then acct_sock c else auth_sock c) \<ge> 0 \<and> servers_of acct (rc_conf c) \<noteq> [] \<and>
            current_server acct (rc_conf c) \<noteq> Some 0) then Some c
      else let oserv = map_option (\<lambda>k. servers_of acct (rc_conf c) ! k) (current_server acct (rc_conf c));
               c = upd_conf (select_server acct 0) c
           in Some (snd (radius_change_server sys now (servers_of acct (rc_conf c) ! 0) oserv
                (if acct then acct_serv_sock c else auth_serv_sock c)
                (if acct then acct_serv_sock6 c else auth_serv_sock6 c) (\<not> acct) c)))"

definition radius_retry_primary_timer ::
  "sys_answers \<Rightarrow> now \<Rightarrow> ('h, 'z) radius_client_data_scheme \<Rightarrow> ('h, 'z) radius_client_data_scheme option" where
  "radius_retry_primary_timer sys now c =
     Option.bind (back_to_primary sys now False c) (\<lambda>c.
       Option.bind (back_to_primary sys now True c) (\<lambda>c.
         Some (if retry_primary_interval (rc_conf c) \<noteq> 0
               then c\<lparr>retry_timers := retry_timers c @ [fst now + retry_primary_interval (rc_conf c)]\<rparr>
               else c)))"

definition radius_client_new ::
  "hostapd_radius_servers \<Rightarrow> ('h, 'z) radius_client_data_scheme \<Rightarrow> ('h, 'z) radius_client_data_scheme" where
  "radius_client_new conf c =
     c\<lparr>rc_conf := conf, auth_serv_sock := -1, acct_serv_sock := -1, auth_serv_sock6 := -1,
       acct_serv_sock6 := -1, auth_sock := -1, acct_sock := -1, auth_handlers := [], acct_handlers := [],
       msgs := [], num_msgs := 0, next_radius_identifier := 0, client_timers := [], retry_timers := []\<rparr>"

definition radius_client_deinit ::
  "('h, 'z) radius_client_data_scheme \<Rightarrow> ('h, 'z) radius_client_data_scheme" where
  "radius_client_deinit c =
     (let unreg = (\<lambda>s c. if s \<ge> 0 then rc_emit (UnregisterRead s) c else c);
          c = unreg (auth_serv_sock c) c; c = unreg (acct_serv_sock c) c;
          c = unreg (auth_serv_sock6 c) c; c = unreg (acct_serv_sock6 c) c;
          c = radius_client_flush False (c\<lparr>retry_timers := []\<rparr>)
      in c\<lparr>auth_handlers := [], acct_handlers := []\<rparr>)"

text \<open>The creation of the client; the Boolean says whether it succeeded.\<close>

definition radius_client_init ::
  "sys_answers \<Rightarrow> now \<Rightarrow> hostapd_radius_servers \<Rightarrow> ('h, 'z) radius_client_data_scheme \<Rightarrow>
   (bool \<times> ('h, 'z) radius_client_data_scheme) option" where
  "radius_client_init sys now conf c =
     (let c = radius_client_new conf c;
          init = (\<lambda>acct c. if current_server acct (rc_conf c) \<noteq> None
                  then radius_client_init_kind sys now acct c else Some (0, c))
      in case init False c of
           None \<Rightarrow> None
         | Some (r, c) \<Rightarrow>
             if r \<noteq> 0 then Some (False, radius_client_deinit c)
             else (case init True c of
               None \<Rightarrow> None
             | Some (r, c) \<Rightarrow>
                 if r \<noteq> 0 then Some (False, radius_client_deinit c)
                 else Some (True, if retry_primary_interval conf \<noteq> 0
                   then c\<lparr>retry_timers := retry_timers c @ [fst now + retry_primary_interval conf]\<rparr>
                   else c)))"

definition radius_client_reconfig ::
  "hostapd_radius_servers \<Rightarrow> ('h, 'z) radius_client_data_scheme \<Rightarrow> ('h, 'z) radius_client_data_scheme" where
  "radius_client_reconfig conf c = c\<lparr>rc_conf := conf\<rparr>"

text \<open>The number of pending requests that \<open>radius_client_get_mib\<close> reports for the current server.\<close>

definition pending_requests :: "bool \<Rightarrow> ('h, 'z) radius_client_data_scheme \<Rightarrow> nat" where
  "pending_requests acct c =
     length (filter (\<lambda>m. if acct then is_acct (msg_type m) else msg_type m = RADIUS_AUTH) (msgs c))"

end
