(* ===== verification/RadiusCheck.thy ===== *)
theory RadiusCheck
  imports RadiusMsg
begin

text \<open>
  What the functions of \<^theory_text>\<open>RadiusMsg\<close> achieve: the check of a response is exactly the two
  authenticators of the RFCs, and what a server puts into a reply is what the access point reads.
\<close>

subsection \<open>What the authenticators are\<close>

text \<open>
  RFC 2865, section 3, and RFC 2869, section 5.14: both are taken over the message with the
  authenticator of the request in its header, the second over attributes in which the
  Message-Authenticator is cleared.
\<close>

definition clear_auth :: "radius_attrs \<Rightarrow> radius_attrs" where
  "clear_auth as = map (\<lambda>(t, d). (t, if t = RADIUS_ATTR_MESSAGE_AUTHENTICATOR
     then replicate (length d) 0 else d)) as"

definition rfc2869_authenticator :: "bytes \<Rightarrow> bytes \<Rightarrow> bytes \<Rightarrow> radius_attrs \<Rightarrow> bytes" where
  "rfc2869_authenticator secret ra code_id_len as =
     rfc2104_hmac rfc1321_md5 secret (code_id_len @ ra @ attrs_wire (clear_auth as))"

definition rfc2865_response_authenticator :: "bytes \<Rightarrow> bytes \<Rightarrow> bytes \<Rightarrow> radius_attrs \<Rightarrow> bytes" where
  "rfc2865_response_authenticator secret ra code_id_len as =
     rfc1321_md5 (code_id_len @ ra @ attrs_wire as @ secret)"

lemma clear_auth_simps [simp]:
  "clear_auth [] = []" "clear_auth (as @ bs) = clear_auth as @ clear_auth bs"
  "clear_auth ((t, d) # as) = (t, if t = RADIUS_ATTR_MESSAGE_AUTHENTICATOR
     then replicate (length d) 0 else d) # clear_auth as"
  by (simp_all add: clear_auth_def)

lemma clear_auth_other: "radius_data RADIUS_ATTR_MESSAGE_AUTHENTICATOR as = [] \<Longrightarrow> clear_auth as = as"
  by (induction as) (auto split: if_splits)

lemma length_wire_clear [simp]: "length (attrs_wire (clear_auth as)) = length (attrs_wire as)"
  by (induction as) auto

lemma rep_unique: "radius_rep h as m \<Longrightarrow> radius_rep h as n \<Longrightarrow> m = n"
  by (simp add: radius_rep_def)

lemma find_msg_auth_filter:
  "find_msg_auth msg (Some q) ps =
     (if filter (\<lambda>p. attr_type msg p = RADIUS_ATTR_MESSAGE_AUTHENTICATOR) ps = [] then Inr (Some q) else Inl 1)"
  "find_msg_auth msg None ps =
     (case filter (\<lambda>p. attr_type msg p = RADIUS_ATTR_MESSAGE_AUTHENTICATOR) ps of
        [] \<Rightarrow> Inr None | [p] \<Rightarrow> Inr (Some p) | _ \<Rightarrow> Inl 1)"
proof -
  show some: "find_msg_auth msg (Some q) ps =
      (if filter (\<lambda>p. attr_type msg p = RADIUS_ATTR_MESSAGE_AUTHENTICATOR) ps = []
       then Inr (Some q) else Inl 1)" for q ps
    by (induction ps) auto
  show "find_msg_auth msg None ps =
     (case filter (\<lambda>p. attr_type msg p = RADIUS_ATTR_MESSAGE_AUTHENTICATOR) ps of
        [] \<Rightarrow> Inr None | [p] \<Rightarrow> Inr (Some p) | _ \<Rightarrow> Inl 1)"
    by (induction ps) (auto simp: some split: list.split)
qed

lemma filter_type_empty:
  assumes "radius_rep h as msg"
  shows "filter (\<lambda>p. attr_type msg p = t) (attr_pos msg) = [] \<longleftrightarrow> radius_data t as = []"
  by (simp add: radius_data_rep [OF assms, symmetric])

text \<open>The positions of the type, when one attribute has it.\<close>

lemma filter_type_one:
  assumes rep: "radius_rep h (xs @ (t, d) # ys) msg" and "radius_data t xs = []" and "radius_data t ys = []"
  shows "filter (\<lambda>p. attr_type msg p = t) (attr_pos msg) = [20 + length (attrs_wire xs)]"
proof -
  note r = rep [unfolded radius_rep_def]
  have f: "filter (\<lambda>p. attr_type msg p = t) (attr_offsets (length pre) as) = []"
    if "rm_buf msg = pre @ attrs_wire as @ post" "small_attrs as" "radius_data t as = []" for pre as post
  proof -
    have "attr_at msg p \<in> set as" if "p \<in> set (attr_offsets (length pre) as)" for p
      using attrs_at_offsets [OF \<open>rm_buf msg = _\<close> \<open>small_attrs as\<close>] that by (metis image_eqI list.set_map)
    then show ?thesis
      using that(3) by (force simp: radius_data_def attr_at_def filter_empty_conv)
  qed
  have "attr_type msg (length (h @ attrs_wire xs)) = t"
    using attr_in_buf(1) [of msg "h @ attrs_wire xs" "(t, d)" "attrs_wire ys"] r by simp
  moreover have "filter (\<lambda>p. attr_type msg p = t) (attr_offsets 20 xs) = []"
    using f [of h xs "attrs_wire ((t, d) # ys)"] r assms(2) by simp
  moreover have "filter (\<lambda>p. attr_type msg p = t)
      (attr_offsets (length (h @ attrs_wire xs @ attr_wire (t, d))) ys) = []"
    using f [of "h @ attrs_wire xs @ attr_wire (t, d)" ys "[]"] r assms(3) by simp
  ultimately show ?thesis using r by (simp add: attr_offsets_append ac_simps)
qed

lemma radius_data_one:
  assumes "radius_data t as = [d]"
  obtains xs ys where "as = xs @ (t, d) # ys" and "radius_data t xs = []" and "radius_data t ys = []"
proof -
  have "filter (\<lambda>a. fst a = t) as = [(t, d)]"
    using assms by (auto simp: radius_data_def map_eq_Cons_conv dest!: filter_eq_ConsD)
  then obtain xs ys where "as = xs @ (t, d) # ys" "\<forall>x \<in> set xs. fst x \<noteq> t" "filter (\<lambda>a. fst a = t) ys = []"
    by (auto simp: filter_eq_Cons_iff)
  then show thesis by (intro that [of xs ys]) (auto simp: radius_data_def)
qed

subsection \<open>The check of a response\<close>

lemma rep_clear_one:
  assumes "radius_rep h (xs @ (RADIUS_ATTR_MESSAGE_AUTHENTICATOR, d) # ys) msg" and "length d = 16"
    and "radius_data RADIUS_ATTR_MESSAGE_AUTHENTICATOR xs = []"
    and "radius_data RADIUS_ATTR_MESSAGE_AUTHENTICATOR ys = []" and "length ra = 16"
  defines "cleared \<equiv> set_hdr_authenticator ra (msg\<lparr>rm_buf := memcpy_at (rm_buf msg)
      (22 + length (attrs_wire xs)) (replicate 16 0)\<rparr>)"
  shows "rm_buf cleared = take 4 h @ ra @
      attrs_wire (clear_auth (xs @ (RADIUS_ATTR_MESSAGE_AUTHENTICATOR, d) # ys))"
    and "set_hdr_authenticator (drop 4 h) (cleared\<lparr>rm_buf := memcpy_at (rm_buf cleared)
      (22 + length (attrs_wire xs)) d\<rparr>) = msg"
proof -
  let ?t = RADIUS_ATTR_MESSAGE_AUTHENTICATOR
  have "radius_rep h (xs @ (?t, replicate 16 0) # ys) (msg\<lparr>rm_buf := memcpy_at (rm_buf msg)
      (22 + length (attrs_wire xs)) (replicate 16 0)\<rparr>)"
    by (rule rep_memcpy [OF assms(1)]) (simp add: assms(2))
  from rep_set_authenticator [OF this assms(5)]
  have c: "radius_rep (take 4 h @ ra) (xs @ (?t, replicate 16 0) # ys) cleared" by (simp add: cleared_def)
  then show "rm_buf cleared = take 4 h @ ra @ attrs_wire (clear_auth (xs @ (?t, d) # ys))"
    using assms(2-4) by (simp add: radius_rep_def clear_auth_other)
  have "radius_rep (take 4 h @ ra) (xs @ (?t, d) # ys) (cleared\<lparr>rm_buf := memcpy_at (rm_buf cleared)
      (22 + length (attrs_wire xs)) d\<rparr>)"
    by (rule rep_memcpy [OF c]) (simp add: assms(2))
  from rep_set_authenticator [OF this, of "drop 4 h"] assms(1)
  have "radius_rep h (xs @ (?t, d) # ys) (set_hdr_authenticator (drop 4 h) (cleared\<lparr>rm_buf :=
      memcpy_at (rm_buf cleared) (22 + length (attrs_wire xs)) d\<rparr>))"
    by (simp add: radius_rep_def)
  then show "set_hdr_authenticator (drop 4 h) (cleared\<lparr>rm_buf := memcpy_at (rm_buf cleared)
      (22 + length (attrs_wire xs)) d\<rparr>) = msg"
    by (rule rep_unique) (rule assms(1))
qed

lemma verify_msg_auth_rep:
  assumes rep: "radius_rep h as msg" and len: "\<forall>d \<in> set (radius_data RADIUS_ATTR_MESSAGE_AUTHENTICATOR as). length d = 16"
    and ra: "length ra = 16" and short: "length (rm_buf msg) < 2 ^ 32" "length secret < 2 ^ 32"
  shows "radius_msg_verify_msg_auth msg secret (Some ra) =
    Some (if radius_data RADIUS_ATTR_MESSAGE_AUTHENTICATOR as =
            [rfc2869_authenticator secret ra (take 4 h) as] then 0 else 1, msg)"
proof -
  let ?t = RADIUS_ATTR_MESSAGE_AUTHENTICATOR
  let ?ps = "filter (\<lambda>p. attr_type msg p = ?t) (attr_pos msg)"
  have l: "length ?ps = length (radius_data ?t as)"
    by (simp add: radius_data_rep [OF rep, symmetric])
  show ?thesis
  proof (cases "\<exists>d. radius_data ?t as = [d]")
    case True
    then obtain d where d: "radius_data ?t as = [d]" by blast
    then have d16: "length d = 16" using len by simp
    obtain xs ys where as: "as = xs @ (?t, d) # ys" and none: "radius_data ?t xs = []" "radius_data ?t ys = []"
      using radius_data_one [OF d] .
    let ?p = "20 + length (attrs_wire xs)"
    have ps: "?ps = [?p]" using filter_type_one none rep as by simp
    note r = rep [unfolded as]
    have orig: "take 16 (drop (22 + length (attrs_wire xs)) (rm_buf msg)) = d"
      using r d16 by (simp add: radius_rep_def attr_wire_def)
    have fit: "\<not> length (rm_buf msg) < 38 + length (attrs_wire xs)"
      using r d16 by (simp add: radius_rep_def)
    note c = rep_clear_one(1) [OF r d16 none ra, folded as] rep_clear_one(2) [OF r d16 none ra]
    note c = c(1) c(2) [unfolded c(1)]
    have m: "hmac_md5 secret (take 4 h @ ra @ attrs_wire (clear_auth as)) =
        Some (rfc2869_authenticator secret ra (take 4 h) as)"
      using short rep ra unfolding rfc2869_authenticator_def
      by (intro hmac_md5_eq) (simp_all add: radius_rep_def)
    have l16: "length (rfc2869_authenticator secret ra (take 4 h) as) = 16"
      by (simp add: rfc2869_authenticator_def md5.length_hmac)
    show ?thesis
      using ps fit m d16 l16
      by (simp add: radius_msg_verify_msg_auth_def find_msg_auth_filter MD5_MAC_LEN_def Let_def
          orig ra rep_header(3) [OF rep] c os_memcmp_zero d)
  next
    case False
    then have "length ?ps \<noteq> 1" by (auto simp: l length_Suc_conv)
    then show ?thesis
      using False
      by (auto simp: radius_msg_verify_msg_auth_def find_msg_auth_filter split: list.split)
  qed
qed

lemma response_rep:
  assumes rep: "radius_rep h as msg" and ra: "length ra = 16"
    and short: "length (rm_buf msg) < 2 ^ 32" "length secret < 2 ^ 32"
  shows "response_authenticator msg secret ra = rfc2865_response_authenticator secret ra (take 4 h) as"
  using assms md5.hash_concat [of "[take 4 h, ra, attrs_wire as, secret]"]
  by (simp add: response_authenticator_def rfc2865_response_authenticator_def rep_header [OF rep]
      radius_len_defs radius_rep_def)

definition sent_ok :: "radius_msg \<Rightarrow> bool" where
  "sent_ok sent \<longleftrightarrow> 20 \<le> length (rm_buf sent)"

lemma length_sent [simp]: "sent_ok sent \<Longrightarrow> length (hdr_authenticator sent) = 16"
  by (simp add: sent_ok_def hdr_authenticator_def)

lemma parsed_short:
  assumes "radius_msg_parse data = Some m"
  shows "length (rm_buf m) < 2 ^ 16"
proof -
  obtain h where "hdr_length_field h = length (rm_buf m)" using parse_inv [OF assms] by metis
  then show ?thesis
    using unsigned_less [of "WPA_GET_BE16 (drop 2 h)", where 'a=nat] by (simp add: hdr_length_field_def)
qed

text \<open>
  C6: The check of a RADIUS response is exact. For a received message whose Message-Authenticator
  attributes have 16 octets, the check with the pending request and the shared secret succeeds exactly
  when there is one such attribute, it is the HMAC-MD5 of RFC 2869 under the authenticator of the
  request, and the authenticator of the message is the one of RFC 2865 - and the message, which the
  check modifies on the way, is left as it was received.
\<close>

theorem radius_verify_exact:
  assumes "radius_msg_parse data = Some m" and "radius_rep h as m" and "sent_ok sent"
    and "\<forall>d \<in> set (radius_data RADIUS_ATTR_MESSAGE_AUTHENTICATOR as). length d = 16"
    and "length secret < 2 ^ 32"
  shows "radius_msg_verify m secret (Some sent) True =
    Some (if radius_data RADIUS_ATTR_MESSAGE_AUTHENTICATOR as =
               [rfc2869_authenticator secret (hdr_authenticator sent) (take 4 h) as] \<and>
             drop 4 h = rfc2865_response_authenticator secret (hdr_authenticator sent) (take 4 h) as
          then 0 else 1, m)"
proof -
  let ?ra = "hdr_authenticator sent"
  have short: "length (rm_buf m) < 2 ^ 32" using parsed_short [OF assms(1)] by simp
  note v = verify_msg_auth_rep [OF assms(2,4) length_sent [OF assms(3)] short assms(5)]
  note r = response_rep [OF assms(2) length_sent [OF assms(3)] short assms(5)]
  have l: "length (drop 4 h) = 16" using assms(2) by (simp add: radius_rep_def)
  have "length (rfc2865_response_authenticator secret ?ra (take 4 h) as) = 16"
    by (simp add: rfc2865_response_authenticator_def length_rfc1321_md5)
  then show ?thesis
    using l by (auto simp: radius_msg_verify_def v r rep_header [OF assms(2)] os_memcmp_zero MD5_MAC_LEN_def)
qed

subsection \<open>The keys\<close>

lemma ms_loop_nil [simp]: "encrypt_ms_loop secret seed [] = []" "decrypt_ms_loop secret seed [] = []"
  by (simp_all add: encrypt_ms_loop.simps decrypt_ms_loop.simps)

lemma ms_loop_inverse:
  "length pos mod 16 = 0 \<Longrightarrow>
   length (encrypt_ms_loop secret seed pos) = length pos \<and>
   decrypt_ms_loop secret seed (encrypt_ms_loop secret seed pos) = pos"
proof (induction secret seed pos rule: encrypt_ms_loop.induct)
  case (1 secret seed pos)
  show ?case
  proof (cases "pos = []")
    case False
    then have l: "16 \<le> length pos" using "1.prems" by (cases "length pos < 16") auto
    let ?b = "map2 (XOR) (take 16 pos) (md5_vector (secret # seed))"
    have b: "length ?b = 16" using l by (simp add: length_md5_vector)
    have e: "encrypt_ms_loop secret seed pos = ?b @ encrypt_ms_loop secret [?b] (drop 16 pos)"
      using False by (subst encrypt_ms_loop.simps) (simp add: Let_def)
    have ih: "length (encrypt_ms_loop secret [?b] (drop 16 pos)) = length (drop 16 pos)"
      "decrypt_ms_loop secret [?b] (encrypt_ms_loop secret [?b] (drop 16 pos)) = drop 16 pos"
      using "1.IH" [OF _ refl refl] False l "1.prems" by (auto simp: le_mod_geq)
    have "map2 (XOR) ?b (md5_vector (secret # seed)) = take 16 pos"
      by (rule map2_xor_cancel) (use l in \<open>simp add: length_md5_vector\<close>)
    then have "decrypt_ms_loop secret seed (?b @ encrypt_ms_loop secret [?b] (drop 16 pos)) = pos"
      using b l ih(2) by (subst decrypt_ms_loop.simps) (auto simp: Let_def)
    then show ?thesis using e ih(1) b l by simp
  qed simp
qed

lemma encrypt_ms_len_small:
  assumes "n < 255"
  shows "encrypt_ms_len n mod 16 = 0" "1 + n \<le> encrypt_ms_len n"
  using assms by (simp_all add: encrypt_ms_len_def Let_def) presburger+

lemma length_encrypt_ms_key:
  assumes "encrypt_ms_key cap key salt ra secret = Some ebuf" and "length key < 255"
  shows "length ebuf = encrypt_ms_len (length key)"
  using assms(1) ms_loop_inverse encrypt_ms_len_small [OF assms(2)]
  by (auto simp: encrypt_ms_key_def Let_def split: if_splits)

lemma ms_key_roundtrip:
  assumes e: "encrypt_ms_key cap key salt ra secret = Some ebuf" and k: "key \<noteq> []" "length key < 255"
  shows "decrypt_ms_key (WPA_PUT_BE16 salt @ ebuf) ra secret = Some key"
proof -
  let ?n = "length key"
  let ?l = "encrypt_ms_len ?n"
  note l = encrypt_ms_len_small [OF k(2)]
  let ?p = "take ?l (of_nat ?n # key @ replicate ?l 0)"
  let ?seed = "ms_key_seed ra (WPA_PUT_BE16 salt)"
  have eb: "ebuf = encrypt_ms_loop secret ?seed ?p"
    using e by (simp add: encrypt_ms_key_def Let_def split: if_splits)
  have p: "length ?p = ?l" by simp
  note inv = ms_loop_inverse [of ?p secret ?seed]
  have len: "length ebuf = ?l" by (rule length_encrypt_ms_key [OF e k(2)])
  have p0: "?p ! 0 = of_nat ?n" and p1: "take ?n (drop (Suc 0) ?p) = key"
    using l k by (simp_all add: take_Cons' min_def)
  have seed: "ms_key_seed ra (WPA_PUT_BE16 salt @ ebuf) = ?seed"
    by (simp add: ms_key_seed_def len_simps)
  have d: "decrypt_ms_loop secret ?seed ebuf = ?p" using inv l p eb by simp
  have n: "unat (of_nat ?n :: u8) = ?n" using k(2) by (simp add: unat_of_nat_small)
  have "16 \<le> ?l" using l by (cases "?l < 16") auto
  moreover have "\<not> ?l - Suc 0 < ?n" using l by simp
  ultimately show ?thesis
    using l len k unfolding decrypt_ms_key_def Let_def seed
    by (simp add: len_simps d p0 p1 n del: take_append)
qed

fun first_vendor :: "u32 \<Rightarrow> u8 \<Rightarrow> radius_attrs \<Rightarrow> bytes option" where
  "first_vendor vendor subtype [] = None"
| "first_vendor vendor subtype ((t, d) # as) =
     (if t \<noteq> RADIUS_ATTR_VENDOR_SPECIFIC \<or> length d < 4 \<or> WPA_GET_BE32 d \<noteq> vendor
      then first_vendor vendor subtype as
      else case vendor_loop subtype (drop 4 d) of
             Some r \<Rightarrow> Some r | None \<Rightarrow> first_vendor vendor subtype as)"

lemma get_vendor_rep:
  assumes "radius_rep h as msg"
  shows "radius_msg_get_vendor_attr msg vendor subtype = first_vendor vendor subtype as"
proof -
  have "get_vendor_loop msg vendor subtype ps = first_vendor vendor subtype (map (attr_at msg) ps)" for ps
    by (induction ps) (auto simp: attr_at_def Let_def split: option.split)
  then show ?thesis by (simp add: radius_msg_get_vendor_attr_def rep_attrs(1) [OF assms])
qed

lemma first_vendor_other:
  "\<forall>a \<in> set as. fst a \<noteq> RADIUS_ATTR_VENDOR_SPECIFIC \<Longrightarrow>
   first_vendor vendor subtype (as @ bs) = first_vendor vendor subtype bs"
  by (induction as) auto

definition ms_attr :: "u8 \<Rightarrow> bytes \<Rightarrow> u8 \<times> bytes" where
  "ms_attr vendor_type key = (RADIUS_ATTR_VENDOR_SPECIFIC,
     WPA_PUT_BE32 RADIUS_VENDOR_ID_MICROSOFT @ [vendor_type, of_nat (2 + length key)] @ key)"

lemma first_vendor_ms:
  assumes "length key \<le> 253"
  shows "first_vendor RADIUS_VENDOR_ID_MICROSOFT subtype (ms_attr t key # as) =
    (if t = subtype then Some key else first_vendor RADIUS_VENDOR_ID_MICROSOFT subtype as)"
proof -
  have n: "unat (2 + of_nat (length key) :: u8) = 2 + length key"
    using unat_of_nat_small [of "2 + length key"] assms by simp
  have "vendor_loop subtype ([t, of_nat (2 + length key)] @ key) = (if t = subtype then Some key else None)"
    using n by (subst vendor_loop.simps) (auto simp: Let_def vendor_loop.simps [of _ "[]"])
  then show ?thesis by (simp add: ms_attr_def len_simps codec_simps)
qed

text \<open>A key that fits its attribute is added as one Microsoft attribute.\<close>

lemma rep_add_mppe_key:
  assumes "radius_rep h as msg"
    and "add_mppe_key msg n t salt ra secret key = Some (1, m)" and "key \<noteq> []" and "length key < 255"
  obtains ebuf where "radius_rep h (as @ [ms_attr t (WPA_PUT_BE16 salt @ ebuf)]) m"
    and "decrypt_ms_key (WPA_PUT_BE16 salt @ ebuf) ra secret = Some key"
    and "length (WPA_PUT_BE16 salt @ ebuf) \<le> 253"
proof -
  obtain ebuf where e: "encrypt_ms_key (n + 16) key salt ra secret = Some ebuf"
    using assms(2) by (auto simp: add_mppe_key_def split: option.splits)
  let ?a = "ms_attr t (WPA_PUT_BE16 salt @ ebuf)"
  have b: "snd ?a = WPA_PUT_BE32 RADIUS_VENDOR_ID_MICROSOFT @ [t, of_nat (4 + 2 + 2 + length ebuf - 4)] @
      WPA_PUT_BE16 salt @ ebuf"
    by (simp add: ms_attr_def len_simps)
  obtain pos where add: "radius_msg_add_attr msg RADIUS_ATTR_VENDOR_SPECIFIC (snd ?a) = Some (pos, m)"
    using assms(2) by (auto simp: add_mppe_key_def e b Let_def split: option.splits)
  then have l: "length (snd ?a) \<le> 253"
    by (simp add: radius_msg_add_attr_def radius_len_defs split: if_splits)
  from rep_add_attr [OF assms(1) l] add have "radius_rep h (as @ [(RADIUS_ATTR_VENDOR_SPECIFIC, snd ?a)]) m"
    by (metis option.inject snd_conv)
  moreover have "(RADIUS_ATTR_VENDOR_SPECIFIC, snd ?a) = ?a" by (simp add: ms_attr_def)
  ultimately show thesis
    using that ms_key_roundtrip [OF e assms(3,4)] l by (simp add: ms_attr_def len_simps)
qed

text \<open>What is hidden as a User-Password is the password with the padding of RFC 2865, section 5.2.\<close>

lemma user_password_hidden:
  assumes "radius_rep h as msg" and "length data \<le> 128"
  obtains pos m d n where "radius_msg_add_attr_user_password msg data secret = Some (pos, m)"
    and "radius_rep h (as @ [(RADIUS_ATTR_USER_PASSWORD, d)]) m"
    and "decrypt_ms_loop secret [hdr_authenticator msg] d = data @ replicate n 0" and "n < 16"
proof -
  let ?n = "if length data mod 16 = 0 then 0 else 16 - length data mod 16"
  let ?p = "data @ replicate ?n 0"
  have p: "length ?p mod 16 = 0"
    by (cases "length data mod 16 = 0") (simp_all, presburger)
  have l: "length (encrypt_ms_loop secret [hdr_authenticator msg] ?p) \<le> 253"
  proof -
    have "?n \<le> 16" by simp
    then have "length ?p \<le> 253" unfolding length_append length_replicate using assms(2) by linarith
    then show ?thesis using ms_loop_inverse [OF p, of secret "[hdr_authenticator msg]"] by simp
  qed
  note e = ms_loop_inverse [OF p, of secret "[hdr_authenticator msg]"]
  obtain m where "radius_msg_add_attr msg RADIUS_ATTR_USER_PASSWORD
      (encrypt_ms_loop secret [hdr_authenticator msg] ?p) = Some (20 + length (attrs_wire as), m)"
    "radius_rep h (as @ [(RADIUS_ATTR_USER_PASSWORD, encrypt_ms_loop secret [hdr_authenticator msg] ?p)]) m"
    by (rule rep_add_attr [OF assms(1), of "encrypt_ms_loop secret [hdr_authenticator msg] ?p"]) (rule l)
  then show thesis
    using e assms(2) by (intro that [of _ m _ ?n]) (auto simp: radius_msg_add_attr_user_password_def Let_def)
qed

subsection \<open>What a server sends passes the check\<close>

lemma length_hmac_md5: "hmac_md5 key data = Some mac \<Longrightarrow> length mac = 16"
  by (auto simp: hmac_md5_def hmac_md5_vector_def hmac_vector_def length_md5_vector Let_def)

lemma unat_of_nat16_small: "n < 65536 \<Longrightarrow> unat (of_nat n :: u16) = n"
  by (simp add: unsigned_of_nat take_bit_nat_eq_self)

lemma finish_srv_rep:
  assumes rep: "radius_rep h as msg" and none: "radius_data RADIUS_ATTR_MESSAGE_AUTHENTICATOR as = []"
    and ra: "length ra = 16" and small: "38 + length (attrs_wire as) \<le> 0xffff"
    and short: "length secret < 2 ^ 32"
  obtains h' mac m where "radius_msg_finish_srv msg secret ra = (0, m)"
    and "radius_rep h' (as @ [(RADIUS_ATTR_MESSAGE_AUTHENTICATOR, mac)]) m"
    and "take 2 h' = take 2 h" and "hdr_length_field h' = length (rm_buf m)" and "length mac = 16"
    and "mac = rfc2869_authenticator secret ra (take 4 h')
      (as @ [(RADIUS_ATTR_MESSAGE_AUTHENTICATOR, mac)])"
    and "drop 4 h' = rfc2865_response_authenticator secret ra (take 4 h')
      (as @ [(RADIUS_ATTR_MESSAGE_AUTHENTICATOR, mac)])"
proof -
  let ?t = RADIUS_ATTR_MESSAGE_AUTHENTICATOR
  let ?z = "[(?t, replicate 16 0)] :: radius_attrs"
  let ?n = "38 + length (attrs_wire as)"
  let ?h4 = "take 2 h @ WPA_PUT_BE16 (of_nat ?n)"
  obtain m1 where add: "radius_msg_add_attr msg ?t (replicate 16 0) = Some (20 + length (attrs_wire as), m1)"
    and r1: "radius_rep h (as @ ?z) m1"
    by (rule rep_add_attr [OF rep, of "replicate 16 0" ?t]) simp
  have h: "length h = 20" using rep by (simp add: radius_rep_def)
  define m3 where "m3 = set_hdr_authenticator ra (set_hdr_length m1)"
  have r3: "radius_rep (?h4 @ ra) (as @ ?z) m3"
    using rep_set_authenticator [OF rep_set_length [OF r1] ra] h by (simp add: m3_def len_simps)
  then have b3: "rm_buf m3 = ?h4 @ ra @ attrs_wire (as @ ?z)" by (simp add: radius_rep_def)
  have step: "radius_msg_finish_srv msg secret ra =
      (let m4 = put_hmac_md5 secret m3 (22 + length (attrs_wire as));
           m5 = set_hdr_authenticator (response_authenticator m4 secret ra) m4
       in (if length (rm_buf m5) > 0xffff then -1 else 0, m5))"
    using ra by (simp add: radius_msg_finish_srv_def MD5_MAC_LEN_def add m3_def Let_def response_authenticator_def)
  have l4: "length (rm_buf (put_hmac_md5 secret m3 (22 + length (attrs_wire as)))) = ?n" if "length (rm_buf m3) = ?n"
    using that by (auto simp: put_hmac_md5_def len_simps dest!: length_hmac_md5 split: option.split)
  have n3: "length (rm_buf m3) = ?n" using h ra by (simp add: b3 len_simps)
  define mac where "mac = rfc2104_hmac rfc1321_md5 secret (rm_buf m3)"
  have mac16: "length mac = 16" by (simp add: mac_def md5.length_hmac)
  have "hmac_md5 secret (rm_buf m3) = Some mac"
    unfolding mac_def by (rule hmac_md5_eq) (use n3 small short in simp_all)
  then have r4: "radius_rep (?h4 @ ra) (as @ [(?t, mac)]) (put_hmac_md5 secret m3 (22 + length (attrs_wire as)))"
    using rep_memcpy [OF r3 [unfolded append_Nil2], of mac] mac16 by (simp add: put_hmac_md5_def)
  let ?m4 = "put_hmac_md5 secret m3 (22 + length (attrs_wire as))"
  let ?resp = "response_authenticator ?m4 secret ra"
  have h4: "length ?h4 = 4" using h by (simp add: len_simps)
  have resp: "?resp = rfc2865_response_authenticator secret ra ?h4 (as @ [(?t, mac)])"
    using response_rep [OF r4 ra _ short] l4 [OF n3] small h4 by simp
  define m where "m = set_hdr_authenticator ?resp ?m4"
  have r5: "radius_rep (?h4 @ ?resp) (as @ [(?t, mac)]) m"
    using rep_set_authenticator [OF r4, of ?resp] h4
    by (simp add: m_def response_authenticator_def length_md5_vector)
  have lm: "length (rm_buf m) = ?n"
    using r5 h mac16 by (simp add: radius_rep_def len_simps response_authenticator_def length_md5_vector)
  have "radius_msg_finish_srv msg secret ra = (0, m)"
    unfolding step Let_def m_def [symmetric] using lm small by simp
  then show thesis
  proof (rule that [OF _ r5])
    show "take 2 (?h4 @ ?resp) = take 2 h" using h by simp
    have "unat (of_nat ?n :: u16) = ?n" by (rule unat_of_nat16_small) (use small in simp)
    then show "hdr_length_field (?h4 @ ?resp) = length (rm_buf m)"
      using r5 h mac16 by (simp add: hdr_length_field_def codec_simps radius_rep_def len_simps
          response_authenticator_def length_md5_vector)
    show "mac = rfc2869_authenticator secret ra (take 4 (?h4 @ ?resp)) (as @ [(?t, mac)])"
      using h4 none mac16 by (simp add: mac_def [unfolded b3] rfc2869_authenticator_def clear_auth_other b3)
    show "drop 4 (?h4 @ ?resp) = rfc2865_response_authenticator secret ra (take 4 (?h4 @ ?resp)) (as @ [(?t, mac)])"
      using h4 resp by simp
  qed (rule mac16)
qed

lemma first_vendor_end:
  "\<forall>a \<in> set as. fst a \<noteq> RADIUS_ATTR_VENDOR_SPECIFIC \<Longrightarrow> first_vendor vendor subtype as = None"
  by (induction as) auto

lemma radius_data_other:
  "\<forall>a \<in> set as. fst a = u \<Longrightarrow> radius_data t as = (if t = u then map snd as else [])"
  by (induction as) (auto simp: radius_data_def)

lemma encrypt_ms_len_bound: "n < 255 \<Longrightarrow> encrypt_ms_len n \<le> n + 16"
  by (simp add: encrypt_ms_len_def Let_def) presburger

lemma add_mppe_key_succeeds:
  assumes "length key \<le> n" and "n \<le> 229"
  obtains m where "add_mppe_key msg n t salt ra secret key = Some (1, m)"
proof -
  have l: "encrypt_ms_len (length key) \<le> n + 16" "length key < 255"
    using encrypt_ms_len_bound [of "length key"] assms by simp_all
  then obtain ebuf where e: "encrypt_ms_key (n + 16) key salt ra secret = Some ebuf"
    using assms by (simp add: encrypt_ms_key_def Let_def)
  have "length ebuf \<le> n + 16" using length_encrypt_ms_key [OF e l(2)] l(1) by simp
  then show thesis
    using that assms(2) by (simp add: add_mppe_key_def e Let_def radius_msg_add_attr_def radius_len_defs len_simps)
qed

lemma eap_wire_bound:
  "\<forall>b \<in> set bs. snd b \<noteq> [] \<Longrightarrow> length (attrs_wire bs) \<le> 3 * length (concat (map snd bs))"
proof (induction bs)
  case (Cons b bs)
  then have "1 \<le> length (snd b)" by (cases "snd b") auto
  then show ?case using Cons by simp
qed simp

text \<open>A message that a server has finished is parsed, verified and has the header it was made with.\<close>

lemma finished_reply:
  assumes rep: "radius_rep ([code, ident] @ replicate 18 0) as msg"
    and none: "radius_data RADIUS_ATTR_MESSAGE_AUTHENTICATOR as = []"
    and small: "38 + length (attrs_wire as) \<le> 0xffff" and sent: "sent_ok sent" and short: "length secret < 2 ^ 32"
  obtains h mac m where "radius_msg_finish_srv msg secret (hdr_authenticator sent) = (0, m)"
    and "radius_rep h (as @ [(RADIUS_ATTR_MESSAGE_AUTHENTICATOR, mac)]) m" and "length mac = 16"
    and "\<And>rest. radius_msg_parse (rm_buf m @ rest) = Some m" and "hdr_code m = code" and "hdr_identifier m = ident"
    and "radius_msg_verify m secret (Some sent) True = Some (0, m)"
proof -
  let ?t = RADIUS_ATTR_MESSAGE_AUTHENTICATOR and ?h = "[code, ident] @ replicate 18 0" and ?ra = "hdr_authenticator sent"
  obtain h mac m where fin: "radius_msg_finish_srv msg secret ?ra = (0, m)" and m: "radius_rep h (as @ [(?t, mac)]) m" "take 2 h = take 2 ?h"
      "hdr_length_field h = length (rm_buf m)" "length mac = 16"
      "mac = rfc2869_authenticator secret (hdr_authenticator sent) (take 4 h) (as @ [(?t, mac)])"
      "drop 4 h = rfc2865_response_authenticator secret (hdr_authenticator sent) (take 4 h) (as @ [(?t, mac)])"
    using finish_srv_rep [OF rep none length_sent [OF sent] small short] .
  have p: "radius_msg_parse (rm_buf m @ rest) = Some m" for rest by (rule parse_rep [OF m(1,3)])
  have h01: "h ! 0 = code" "h ! 1 = ident"
    using m(2) by (metis nth_take [of 0 2 h] nth_Cons_0 append_Cons take_Suc_Cons numeral_2_eq_2 zero_less_Suc,
        metis nth_take [of 1 2 h] nth_Cons_0 nth_Cons_Suc append_Cons take_Suc_Cons numeral_2_eq_2 One_nat_def lessI)
  then have h: "hdr_code m = code" "hdr_identifier m = ident" by (simp_all add: rep_header [OF m(1)])
  have one: "radius_data ?t (as @ [(?t, mac)]) = [mac]" using none by (simp add: radius_attr_defs)
  have len: "length (rm_buf m) < 2 ^ 32" using parsed_short [OF p [of "[]"]] by simp
  have l16: "\<forall>d \<in> set (radius_data ?t (as @ [(?t, mac)])). length d = 16" unfolding one using m(4) by simp
  have "radius_msg_verify_msg_auth m secret (Some ?ra) = Some (0, m)"
    unfolding verify_msg_auth_rep [OF m(1) l16 length_sent [OF sent] len short] one
    by (simp only: m(5) [symmetric]) simp
  moreover have "response_authenticator m secret ?ra = hdr_authenticator m"
    using response_rep [OF m(1) length_sent [OF sent] len short] m(6) rep_header(3) [OF m(1)] by simp
  ultimately have "radius_msg_verify m secret (Some sent) True = Some (0, m)"
    by (simp add: radius_msg_verify_def os_memcmp_zero)
  then show thesis using that [OF fin m(1,4) p h] by simp
qed

text \<open>A reply with an EAP message and two keys, and a bound of its length.\<close>

lemma server_reply:
  assumes "sent_ok sent" and "length secret < 2 ^ 32" and "eap \<noteq> []" and "length eap \<le> 20000"
    and "sk \<noteq> []" and "rk \<noteq> []" and "length rk \<le> length sk" and "length sk \<le> 229"
  obtains m1 m2 m where "radius_msg_add_eap (radius_msg_new code ident) eap = (1, m1)"
    "radius_msg_add_mppe_keys m1 rnd (hdr_authenticator sent) secret sk rk = Some (1, m2)"
    "radius_msg_finish_srv m2 secret (hdr_authenticator sent) = (0, m)"
    "\<And>rest. radius_msg_parse (rm_buf m @ rest) = Some m" "hdr_code m = code" "hdr_identifier m = ident"
    "radius_msg_verify m secret (Some sent) True = Some (0, m)" "radius_msg_get_eap m = Some eap"
    "radius_msg_get_ms_keys m sent secret = \<lparr>mppe_send = Some sk, mppe_recv = Some rk\<rparr>"
    "length (rm_buf m) \<le> 3 * length eap + 1000"
proof -
  let ?t = RADIUS_ATTR_MESSAGE_AUTHENTICATOR
  let ?s = RADIUS_VENDOR_ATTR_MS_MPPE_SEND_KEY and ?r = RADIUS_VENDOR_ATTR_MS_MPPE_RECV_KEY
  let ?h = "[code, ident] @ replicate 18 0"
  let ?ra = "hdr_authenticator sent"
  let ?salt = "rnd OR 0x8000" and ?salt' = "(rnd OR 0x8000) XOR 1"
  obtain bs m1 where n: "radius_msg_add_eap (radius_msg_new code ident) eap = (1, m1)"
      "radius_rep ?h ([] @ bs) m1" and bs: "\<forall>b \<in> set bs. fst b = RADIUS_ATTR_EAP_MESSAGE"
      "concat (map snd bs) = eap" "\<forall>b \<in> set bs. snd b \<noteq> []"
    using rep_add_eap [OF rep_new] .
  then have r1: "radius_rep ?h bs m1" by simp
  obtain k where k: "add_mppe_key m1 (length sk) ?s ?salt ?ra secret sk = Some (1, k)"
    using add_mppe_key_succeeds [OF order_refl assms(8)] .
  obtain m2 where k2: "add_mppe_key k (length sk) ?r ?salt' ?ra secret rk = Some (1, m2)"
    using add_mppe_key_succeeds [OF assms(7,8)] .
  have add: "radius_msg_add_mppe_keys m1 rnd ?ra secret sk rk = Some (1, m2)"
    by (simp add: radius_msg_add_mppe_keys_def Let_def k k2)
  have ls: "length sk < 255" "length rk < 255" using assms(7,8) by simp_all
  obtain e1 where r2: "radius_rep ?h (bs @ [ms_attr ?s e1]) k" and l1: "length e1 \<le> 253"
      and d1: "decrypt_ms_key e1 ?ra secret = Some sk"
    using rep_add_mppe_key [OF r1 k assms(5) ls(1)] by metis
  obtain e2 where r3: "radius_rep ?h ((bs @ [ms_attr ?s e1]) @ [ms_attr ?r e2]) m2" and l2: "length e2 \<le> 253"
      and d2: "decrypt_ms_key e2 ?ra secret = Some rk"
    using rep_add_mppe_key [OF r2 k2 assms(6) ls(2)] by metis
  let ?as = "bs @ [ms_attr ?s e1, ms_attr ?r e2]"
  have r3: "radius_rep ?h ?as m2" using r3 by simp
  have none: "radius_data ?t ?as = []"
    using radius_data_other [OF bs(1), of ?t] by (simp add: ms_attr_def radius_attr_defs)
  have small: "38 + length (attrs_wire ?as) \<le> 0xffff"
    using eap_wire_bound [OF bs(3)] bs(2) assms(4) l1 l2 by (simp add: ms_attr_def len_simps)
  obtain m h mac where fin: "radius_msg_finish_srv m2 secret ?ra = (0, m)"
      and m: "radius_rep h (?as @ [(?t, mac)]) m" "length mac = 16"
      and p: "\<And>rest. radius_msg_parse (rm_buf m @ rest) = Some m" and h: "hdr_code m = code" "hdr_identifier m = ident"
      and v: "radius_msg_verify m secret (Some sent) True = Some (0, m)"
    by (rule finished_reply [OF r3 none small assms(1,2)]) blast
  have "concat (radius_data RADIUS_ATTR_EAP_MESSAGE (?as @ [(?t, mac)])) = eap"
    using radius_data_other [OF bs(1), of RADIUS_ATTR_EAP_MESSAGE] bs(2) by (simp add: ms_attr_def radius_attr_defs)
  then have e: "radius_msg_get_eap m = Some eap" using assms(3) by (simp only: get_eap_rep [OF m(1)]) simp
  have novs: "\<forall>b \<in> set bs. fst b \<noteq> RADIUS_ATTR_VENDOR_SPECIFIC" using bs(1) by (auto simp: radius_attr_defs)
  have diff: "?s \<noteq> ?r" by (simp add: radius_vendor_defs)
  have "radius_msg_get_vendor_attr m RADIUS_VENDOR_ID_MICROSOFT ?s = Some e1"
    "radius_msg_get_vendor_attr m RADIUS_VENDOR_ID_MICROSOFT ?r = Some e2"
    using diff by (simp_all add: get_vendor_rep [OF m(1)] first_vendor_other [OF novs] first_vendor_ms l1 l2)
  then have keys: "radius_msg_get_ms_keys m sent secret = \<lparr>mppe_send = Some sk, mppe_recv = Some rk\<rparr>"
    using d1 d2 by (simp add: radius_msg_get_ms_keys_def)
  have "length (attrs_wire bs) \<le> 3 * length eap" using eap_wire_bound [OF bs(3)] bs(2) by simp
  then have "length (rm_buf m) \<le> 3 * length eap + 1000"
    using m l1 l2 by (simp add: radius_rep_def ms_attr_def len_simps)
  then show thesis using that n(1) add fin p h v e keys by blast
qed

text \<open>
  C22: A reply of the RADIUS server arrives whole. A server can put any EAP message of up to 20000
  octets and two session keys into a new message and finish it for a request; then, whatever octets
  follow it in the datagram, the access point parses exactly that message, its check with the pending
  request succeeds, and what it reads out is the EAP message and the two keys - through the splitting
  in attributes of 253 octets, the hiding of the keys and both authenticators. The keys have at most
  229 octets, and the second one is not longer than the first, for whose length both buffers are
  allocated.
\<close>

theorem radius_reply_arrives:
  assumes "sent_ok sent" and "length secret < 2 ^ 32" and "eap \<noteq> []" and "length eap \<le> 20000"
    and "sk \<noteq> []" and "rk \<noteq> []" and "length rk \<le> length sk" and "length sk \<le> 229"
  shows "\<exists>m1 m2 m. radius_msg_add_eap (radius_msg_new code ident) eap = (1, m1) \<and>
    radius_msg_add_mppe_keys m1 rnd (hdr_authenticator sent) secret sk rk = Some (1, m2) \<and>
    radius_msg_finish_srv m2 secret (hdr_authenticator sent) = (0, m) \<and>
    radius_msg_parse (rm_buf m @ rest) = Some m \<and> hdr_code m = code \<and> hdr_identifier m = ident \<and>
    radius_msg_verify m secret (Some sent) True = Some (0, m) \<and>
    radius_msg_get_eap m = Some eap \<and>
    radius_msg_get_ms_keys m sent secret = \<lparr>mppe_send = Some sk, mppe_recv = Some rk\<rparr>"
  by (rule server_reply [OF assms, of code ident rnd]) blast

text \<open>An Access-Request of the access point, on which the statements are tried.\<close>

definition sample_sent :: radius_msg where
  "sample_sent = set_hdr_authenticator (replicate 16 7) (radius_msg_new RADIUS_CODE_ACCESS_REQUEST 5)"

lemma sample_sent_ok: "sent_ok sample_sent"
  by code_simp

theorem radius_reply_arrives_witness:
  "\<exists>m1 m2 m. radius_msg_add_eap (radius_msg_new RADIUS_CODE_ACCESS_ACCEPT 5) [3, 9, 0, 4] = (1, m1) \<and>
    radius_msg_add_mppe_keys m1 77 (hdr_authenticator sample_sent) [1, 2, 3] [4, 4, 4] [5, 5] = Some (1, m2) \<and>
    radius_msg_finish_srv m2 [1, 2, 3] (hdr_authenticator sample_sent) = (0, m) \<and>
    radius_msg_verify m [1, 2, 3] (Some sample_sent) True = Some (0, m) \<and>
    radius_msg_get_eap m = Some [3, 9, 0, 4] \<and>
    radius_msg_get_ms_keys m sample_sent [1, 2, 3] = \<lparr>mppe_send = Some [4, 4, 4], mppe_recv = Some [5, 5]\<rparr>"
  using radius_reply_arrives [OF sample_sent_ok, of "[1, 2, 3]" "[3, 9, 0, 4]" "[4, 4, 4]" "[5, 5]"
      RADIUS_CODE_ACCESS_ACCEPT 5 77] by simp blast

theorem radius_verify_exact_witness:
  "radius_msg_verify (radius_msg_new RADIUS_CODE_ACCESS_ACCEPT 5 \<lparr>rm_buf := [2, 5, 0, 20] @ replicate 16 0\<rparr>)
     [1, 2, 3] (Some sample_sent) True =
   Some (1, radius_msg_new RADIUS_CODE_ACCESS_ACCEPT 5 \<lparr>rm_buf := [2, 5, 0, 20] @ replicate 16 0\<rparr>)"
proof -
  let ?m = "radius_msg_new RADIUS_CODE_ACCESS_ACCEPT 5 \<lparr>rm_buf := [2, 5, 0, 20] @ replicate 16 0\<rparr>"
  have "radius_msg_parse ([2, 5, 0, 20] @ replicate 16 0) = Some ?m" by code_simp
  moreover have "radius_rep ([2, 5, 0, 20] @ replicate 16 0) [] ?m"
    using rep_new [of RADIUS_CODE_ACCESS_ACCEPT 5] by (simp add: radius_rep_def)
  ultimately show ?thesis
    using radius_verify_exact [OF _ _ sample_sent_ok, of _ ?m _ "[]" "[1, 2, 3]"] by simp
qed

text \<open>
  A Message-Authenticator of fewer than 16 octets at the end of a message: the check works on octets
  behind the buffer of the message, before any authenticator is compared.
\<close>

lemma short_message_authenticator_overruns:
  "Option.bind (radius_msg_parse ([2, 5, 0, 22] @ replicate 16 0 @ [80, 2]))
     (\<lambda>m. radius_msg_verify m secret (Some sample_sent) True) = None \<and>
   radius_msg_parse ([2, 5, 0, 22] @ replicate 16 0 @ [80, 2]) \<noteq> None"
proof -
  have p: "radius_msg_parse ([2, 5, 0, 22] @ replicate 16 0 @ [80, 2]) =
      Some \<lparr>rm_buf = [2, 5, 0, 22] @ replicate 16 0 @ [80, 2], attr_pos = [20], attr_size = 16\<rparr>"
    by code_simp
  show ?thesis
    unfolding p
    by (simp add: radius_msg_verify_def radius_msg_verify_msg_auth_def attr_type_def
        radius_attr_defs MD5_MAC_LEN_def nth_append)
qed

end
