(* ===== verification/RadiusPool.thy ===== *)
theory RadiusPool
  imports RadiusClient RadiusCheck
begin

text \<open>
  What holds of the RADIUS client's list of pending requests between two events, and that sending,
  retransmitting and the change of the server keep it.
\<close>

subsection \<open>The client between two events\<close>

text \<open>
  An entry of the list: it has been tried fewer than ten times, waits for at most two minutes, and its
  message has a header. The list: no two entries have the same identifier, and each has a server.
\<close>

definition tried_below :: "int \<Rightarrow> radius_msg_list \<Rightarrow> bool" where
  "tried_below b e \<longleftrightarrow> 0 \<le> attempts e \<and> attempts e < b \<and>
     0 < next_wait e \<and> next_wait e \<le> RADIUS_CLIENT_MAX_WAIT \<and> 20 \<le> length (rm_buf (ml_msg e))"

abbreviation entry_ok :: "radius_msg_list \<Rightarrow> bool" where
  "entry_ok e \<equiv> tried_below RADIUS_CLIENT_MAX_RETRIES e"

abbreviation entry_id :: "radius_msg_list \<Rightarrow> u8" where
  "entry_id e \<equiv> hdr_identifier (ml_msg e)"

abbreviation ids :: "('h, 'z) radius_client_data_scheme \<Rightarrow> u8 set" where
  "ids c \<equiv> entry_id ` set (msgs c)"

definition entries_ok :: "hostapd_radius_servers \<Rightarrow> radius_msg_list list \<Rightarrow> bool" where
  "entries_ok conf es \<longleftrightarrow> list_all entry_ok es \<and> distinct (map entry_id es) \<and>
     list_all (\<lambda>e. current_server (is_acct (msg_type e)) conf \<noteq> None) es"

definition servers_ok :: "hostapd_radius_servers \<Rightarrow> bool" where
  "servers_ok conf \<longleftrightarrow> (\<forall>acct i. current_server acct conf = Some i \<longrightarrow> i < length (servers_of acct conf))"

text \<open>
  \<open>client_ok\<close> holds between two events: besides, \<open>num_msgs\<close> is at least the length of the list
  and at most 30, and a timer is registered when a request waits.
\<close>

definition pool_ok :: "('h, 'z) radius_client_data_scheme \<Rightarrow> bool" where
  "pool_ok c \<longleftrightarrow> entries_ok (rc_conf c) (msgs c) \<and> servers_ok (rc_conf c) \<and>
     int (length (msgs c)) \<le> num_msgs c \<and> num_msgs c \<le> RADIUS_CLIENT_MAX_ENTRIES"

definition client_ok :: "('h, 'z) radius_client_data_scheme \<Rightarrow> bool" where
  "client_ok c \<longleftrightarrow> pool_ok c \<and> (msgs c \<noteq> [] \<longrightarrow> client_timers c \<noteq> [])"

lemma entries_ok_simps [simp]:
  "entries_ok conf []"
  "entries_ok conf (e # es) \<longleftrightarrow> entry_ok e \<and> entry_id e \<notin> entry_id ` set es \<and>
     current_server (is_acct (msg_type e)) conf \<noteq> None \<and> entries_ok conf es"
  by (auto simp: entries_ok_def)

lemma entries_ok_filter: "entries_ok conf es \<Longrightarrow> entries_ok conf (filter P es)"
  by (induction es) auto

lemma entries_ok_append:
  "entries_ok conf (as @ bs) \<longleftrightarrow> entries_ok conf as \<and> entries_ok conf bs \<and>
     entry_id ` set as \<inter> entry_id ` set bs = {}"
  by (auto simp: entries_ok_def)

text \<open>A change of the entries one by one.\<close>

definition keeps_entry :: "(radius_msg_list \<Rightarrow> radius_msg_list) \<Rightarrow> radius_msg_list \<Rightarrow> bool" where
  "keeps_entry f e \<longleftrightarrow> (\<forall>b > 0. tried_below b e \<longrightarrow>
     tried_below b (f e) \<and> entry_id (f e) = entry_id e \<and> msg_type (f e) = msg_type e)"

lemma keeps_entryD: "keeps_entry f e \<Longrightarrow> entry_ok e \<Longrightarrow>
    entry_ok (f e) \<and> entry_id (f e) = entry_id e \<and> msg_type (f e) = msg_type e"
  unfolding keeps_entry_def by (drule spec [of _ RADIUS_CLIENT_MAX_RETRIES]) (simp add: radius_client_consts)

lemma entries_ok_map:
  assumes "entries_ok conf es" and "\<And>e. keeps_entry f e"
  shows "entries_ok conf (map f es)"
proof -
  have k: "entry_ok (f e) \<and> entry_id (f e) = entry_id e \<and> msg_type (f e) = msg_type e" if "e \<in> set es" for e
    using assms that by (intro keeps_entryD) (auto simp: entries_ok_def list_all_iff)
  then have eq: "map entry_id (map f es) = map entry_id es" by simp
  have "distinct (map entry_id (map f es))" unfolding eq using assms(1) by (simp add: entries_ok_def)
  then show ?thesis
    using assms(1) k unfolding entries_ok_def by (auto simp: list_all_iff)
qed

lemma entries_ok_conf:
  "entries_ok conf es \<Longrightarrow> (\<And>acct. current_server acct conf \<noteq> None \<Longrightarrow> current_server acct conf' \<noteq> None) \<Longrightarrow>
   entries_ok conf' es"
  by (induction es) auto

lemma upd_server_simps [simp]:
  "current_server a (upd_server acct k f conf) = current_server a conf"
  "length (servers_of a (upd_server acct k f conf)) = length (servers_of a conf)"
  "retry_primary_interval (upd_server acct k f conf) = retry_primary_interval conf"
  "length (auth_servers (upd_server acct k f conf)) = length (auth_servers conf)"
  "length (acct_servers (upd_server acct k f conf)) = length (acct_servers conf)"
  by (simp_all add: current_server_def upd_server_def servers_of_def)

lemma entries_ok_upd_server [simp]:
  "entries_ok (upd_server acct k f conf) es = entries_ok conf es"
  "servers_ok (upd_server acct k f conf) = servers_ok conf"
  by (simp_all add: entries_ok_def servers_ok_def)

lemma remove_entries_eq:
  "remove_entries P es n = (filter (\<lambda>e. \<not> P e) es, n - int (length (filter P es)))"
  by (induction P es n rule: remove_entries.induct) auto

lemma remove_msgs_simps [simp]:
  "msgs (remove_msgs P c) = filter (\<lambda>e. \<not> P e) (msgs c)"
  "num_msgs (remove_msgs P c) = num_msgs c - int (length (filter P (msgs c)))"
  "rc_conf (remove_msgs P c) = rc_conf c" "client_timers (remove_msgs P c) = client_timers c"
  by (simp_all add: remove_msgs_def remove_entries_eq)

lemma pool_ok_remove: "pool_ok c \<Longrightarrow> pool_ok (remove_msgs P c)"
  using sum_length_filter_compl [of P "msgs c"]
  by (auto simp: pool_ok_def intro: entries_ok_filter)

lemma remove_client_ok: "client_ok c \<Longrightarrow> client_ok (remove_msgs P c)"
  by (auto simp: client_ok_def pool_ok_remove)

lemma flush_simps [simp]:
  "rc_conf (radius_client_flush b c) = rc_conf c"
  "pool_ok c \<Longrightarrow> pool_ok (radius_client_flush b c)"
  "client_ok c \<Longrightarrow> client_ok (radius_client_flush b c)"
  using pool_ok_remove [of c "\<lambda>entry. \<not> b \<or> msg_type entry = RADIUS_AUTH"]
  by (auto simp: radius_client_flush_def Let_def cancel_timer_def client_ok_def pool_ok_def)

lemma finish_acct_keeps:
  assumes "20 \<le> length (rm_buf m)"
  shows "hdr_identifier (radius_msg_finish_acct m s) = hdr_identifier m"
    "length (rm_buf (radius_msg_finish_acct m s)) = length (rm_buf m)"
proof -
  obtain a b r where "rm_buf m = a # b # r" "18 \<le> length r"
    using assms by (cases "rm_buf m"; cases "tl (rm_buf m)") auto
  then show "hdr_identifier (radius_msg_finish_acct m s) = hdr_identifier m"
    "length (rm_buf (radius_msg_finish_acct m s)) = length (rm_buf m)"
    by (simp_all add: radius_msg_finish_acct_def Let_def set_hdr_length_def set_hdr_authenticator_def
        hdr_identifier_def memcpy_at_def len_simps length_md5_vector radius_len_defs)
qed

lemma keeps_acct: "keeps_entry (\<lambda>e. if msg_type e = RADIUS_ACCT
    then e\<lparr>ml_secret := s, ml_msg := radius_msg_finish_acct (ml_msg e) s\<rparr> else e) e"
  by (auto simp: keeps_entry_def tried_below_def finish_acct_keeps)

lemma keeps_reset: "keeps_entry (reset_retries auth) e"
  by (auto simp: keeps_entry_def tried_below_def reset_retries_def radius_client_consts)

text \<open>
  What connecting to a server may do to the list: entries change one by one, and those for
  authentication may be gone.
\<close>

definition reshaped ::
  "bool \<Rightarrow> ('h, 'z) radius_client_data_scheme \<Rightarrow> ('h, 'z) radius_client_data_scheme \<Rightarrow> bool" where
  "reshaped auth c c' \<longleftrightarrow> rc_conf c' = rc_conf c \<and>
     (\<exists>g. (\<forall>e. keeps_entry g e) \<and>
        (msgs c' = map g (msgs c) \<and> num_msgs c' = num_msgs c \<or>
         auth \<and> msgs c' = map g (filter (\<lambda>e. msg_type e \<noteq> RADIUS_AUTH) (msgs c)) \<and>
         num_msgs c' = num_msgs c - int (length (filter (\<lambda>e. msg_type e = RADIUS_AUTH) (msgs c))))) \<and>
     (msgs c' = [] \<or> client_timers c' = client_timers c \<or> client_timers c' \<noteq> [])"

lemma keeps_id: "keeps_entry (\<lambda>e. e) e"
  by (simp add: keeps_entry_def)

lemma keeps_comp: "(\<And>e. keeps_entry f e) \<Longrightarrow> (\<And>e. keeps_entry g e) \<Longrightarrow> keeps_entry (f \<circ> g) e"
  by (simp add: keeps_entry_def)

lemma reshaped_same:
  "rc_conf c' = rc_conf c \<Longrightarrow> msgs c' = msgs c \<Longrightarrow> num_msgs c' = num_msgs c \<Longrightarrow> client_timers c' = client_timers c \<Longrightarrow>
   reshaped auth c c'"
  unfolding reshaped_def using keeps_id by (auto intro: exI [of _ "\<lambda>e. e"])

lemma reshaped_cong:
  "reshaped auth c c' \<Longrightarrow> rc_conf d = rc_conf c \<Longrightarrow> msgs d = msgs c \<Longrightarrow> num_msgs d = num_msgs c \<Longrightarrow>
   client_timers d = client_timers c \<Longrightarrow> rc_conf d' = rc_conf c' \<Longrightarrow> msgs d' = msgs c' \<Longrightarrow>
   num_msgs d' = num_msgs c' \<Longrightarrow> client_timers d' = client_timers c' \<Longrightarrow> reshaped auth d d'"
  by (simp add: reshaped_def)

lemma reshaped_ok:
  assumes "reshaped auth c c'"
  shows "pool_ok c \<Longrightarrow> pool_ok c'" "client_ok c \<Longrightarrow> client_ok c'" "rc_conf c' = rc_conf c"
proof -
  show c: "rc_conf c' = rc_conf c" using assms by (simp add: reshaped_def)
  obtain g where g: "\<And>e. keeps_entry g e" and
    m: "msgs c' = map g (msgs c) \<and> num_msgs c' = num_msgs c \<or>
      msgs c' = map g (filter (\<lambda>e. msg_type e \<noteq> RADIUS_AUTH) (msgs c)) \<and>
      num_msgs c' = num_msgs c - int (length (filter (\<lambda>e. msg_type e = RADIUS_AUTH) (msgs c)))"
    using assms by (auto simp: reshaped_def)
  note l = sum_length_filter_compl [of "\<lambda>e. msg_type e = RADIUS_AUTH" "msgs c"]
  show p: "pool_ok c'" if "pool_ok c"
    using m
  proof
    assume "msgs c' = map g (msgs c) \<and> num_msgs c' = num_msgs c"
    then show ?thesis using that c entries_ok_map [OF _ g] by (simp add: pool_ok_def)
  next
    assume "msgs c' = map g (filter (\<lambda>e. msg_type e \<noteq> RADIUS_AUTH) (msgs c)) \<and>
      num_msgs c' = num_msgs c - int (length (filter (\<lambda>e. msg_type e = RADIUS_AUTH) (msgs c)))"
    then show ?thesis using that c l entries_ok_map [OF entries_ok_filter g] by (simp add: pool_ok_def)
  qed
  have "msgs c = [] \<Longrightarrow> msgs c' = []" using m by auto
  then show "client_ok c'" if "client_ok c"
    using that p assms by (auto simp: client_ok_def reshaped_def)
qed

lemma reshaped_ids:
  assumes "reshaped auth c c'" "pool_ok c"
  shows "ids c' \<subseteq> ids c"
proof -
  obtain g where g: "\<And>e. keeps_entry g e" and
    m: "msgs c' = map g (msgs c) \<or> msgs c' = map g (filter (\<lambda>e. msg_type e \<noteq> RADIUS_AUTH) (msgs c))"
    using assms(1) by (auto simp: reshaped_def)
  have "entry_id (g e) = entry_id e" if "e \<in> set (msgs c)" for e
    using keeps_entryD [OF g, of e] assms(2) that by (auto simp: pool_ok_def entries_ok_def list_all_iff)
  then show ?thesis using m by auto
qed

text \<open>Changing the server; with no old server the entries for authentication always go.\<close>

lemma change_server_reshaped:
  assumes "radius_change_server sys now nserv oserv s s6 auth c = (r, c')"
  shows "reshaped auth c c'" "msgs c' \<noteq> [] \<longrightarrow> client_timers c' \<noteq> []"
    "oserv = None \<Longrightarrow> auth \<Longrightarrow> \<forall>e \<in> set (msgs c'). msg_type e \<noteq> RADIUS_AUTH"
proof -
  define differ where "differ = (case oserv of None \<Rightarrow> True | Some old \<Rightarrow>
    length (shared_secret nserv) \<noteq> length (shared_secret old) \<or>
    os_memcmp (shared_secret nserv) (shared_secret old) (length (shared_secret nserv)) \<noteq> 0)"
  define cs where "cs = (if \<not> differ then c else if auth then radius_client_flush True c
    else radius_client_update_acct_msgs (shared_secret nserv) c)"
  have c': "rc_conf c' = rc_conf cs" "msgs c' = map (reset_retries auth) (msgs cs)" "num_msgs c' = num_msgs cs"
    "msgs c' \<noteq> [] \<longrightarrow> client_timers c' \<noteq> []"
    using assms unfolding radius_change_server_def differ_def [symmetric] cs_def [symmetric] Let_def
    by (auto simp: register_timer_def cancel_timer_def called_def split: hostapd_ip_addr.splits if_splits)
  then show "msgs c' \<noteq> [] \<longrightarrow> client_timers c' \<noteq> []" by simp
  let ?acct = "\<lambda>e. if msg_type e = RADIUS_ACCT then e\<lparr>ml_secret := shared_secret nserv,
      ml_msg := radius_msg_finish_acct (ml_msg e) (shared_secret nserv)\<rparr> else e"
  have flush: "msgs (radius_client_flush True c) = filter (\<lambda>e. msg_type e \<noteq> RADIUS_AUTH) (msgs c)"
    "num_msgs (radius_client_flush True c) = num_msgs c - int (length (filter (\<lambda>e. msg_type e = RADIUS_AUTH) (msgs c)))"
    by (simp_all add: radius_client_flush_def Let_def cancel_timer_def)
  have k1: "\<And>e. keeps_entry (reset_retries auth) e" by (rule keeps_reset)
  have k2: "\<And>e. keeps_entry (reset_retries auth \<circ> ?acct) e" by (rule keeps_comp [OF keeps_reset keeps_acct])
  have conf: "rc_conf cs = rc_conf c" by (simp add: cs_def radius_client_update_acct_msgs_def)
  have upd: "msgs (radius_client_update_acct_msgs (shared_secret nserv) c) = map ?acct (msgs c)"
    "num_msgs (radius_client_update_acct_msgs (shared_secret nserv) c) = num_msgs c"
    by (simp_all add: radius_client_update_acct_msgs_def)
  show "reshaped auth c c'"
  proof (cases "differ \<and> \<not> auth")
    case True
    then have "msgs c' = map (reset_retries auth \<circ> ?acct) (msgs c)" "num_msgs c' = num_msgs c"
      using c' upd by (simp_all add: cs_def)
    then show ?thesis using c' conf k2 unfolding reshaped_def
      by (intro conjI exI [of _ "reset_retries auth \<circ> ?acct"]) auto
  next
    case False
    then have "msgs c' = map (reset_retries auth) (msgs c) \<and> num_msgs c' = num_msgs c \<or>
      auth \<and> msgs c' = map (reset_retries auth) (filter (\<lambda>e. msg_type e \<noteq> RADIUS_AUTH) (msgs c)) \<and>
      num_msgs c' = num_msgs c - int (length (filter (\<lambda>e. msg_type e = RADIUS_AUTH) (msgs c)))"
      using c' flush by (auto simp: cs_def)
    then show ?thesis using c' conf k1 unfolding reshaped_def
      by (intro conjI exI [of _ "reset_retries auth"]) auto
  qed
  have t: "msg_type (reset_retries a e) = msg_type e" for a e by (simp add: reset_retries_def)
  show "\<forall>e \<in> set (msgs c'). msg_type e \<noteq> RADIUS_AUTH" if "oserv = None" "auth"
    using that c' flush by (auto simp: cs_def differ_def t)
qed

text \<open>The same for the calls that lead there. A failure for accounting keeps the whole list.\<close>

lemma register_read_simps [simp]:
  "msgs (snd (register_read sys s t c)) = msgs c" "rc_conf (snd (register_read sys s t c)) = rc_conf c"
  "num_msgs (snd (register_read sys s t c)) = num_msgs c"
  "client_timers (snd (register_read sys s t c)) = client_timers c"
  by (simp_all add: register_read_def Let_def called_def rc_emit_def)

lemma init_kind_reshaped:
  assumes "radius_client_init_kind sys now acct c = Some (r, c')"
  shows "reshaped (\<not> acct) c c'"
proof -
  define s4 where "s4 = sys_socket sys (sys_calls c)"
  define s6 where "s6 = sys_socket sys (sys_calls (called c))"
  define t where "t = (if acct then RADIUS_ACCT else RADIUS_AUTH)"
  define c1 where "c1 = (if acct then (called (called c))\<lparr>acct_serv_sock := s4, acct_serv_sock6 := s6\<rparr>
    else (called (called c))\<lparr>auth_serv_sock := s4, auth_serv_sock6 := s6\<rparr>)"
  have c1: "rc_conf c1 = rc_conf c" "msgs c1 = msgs c" "num_msgs c1 = num_msgs c" "client_timers c1 = client_timers c"
    by (simp_all add: c1_def called_def)
  note e = assms [unfolded radius_client_init_kind_def Let_def,
      folded s4_def s6_def, folded t_def, folded c1_def]
  show ?thesis
  proof (cases "s4 < 0 \<and> s6 < 0")
    case True
    then show ?thesis using e c1 by (simp add: reshaped_same)
  next
    case False
    then obtain i where "current_server acct (rc_conf c) = Some i" using e c1 by (auto split: option.splits)
    define c2 where "c2 = snd (radius_change_server sys now (servers_of acct (rc_conf c1) ! i) None s4 s6 (\<not> acct) c1)"
    have r: "reshaped (\<not> acct) c1 c2"
      unfolding c2_def by (rule change_server_reshaped(1)) (rule prod.collapse [symmetric])
    define c3 where "c3 = snd (register_read sys s4 t c2)"
    define c4 where "c4 = snd (register_read sys s6 t c3)"
    have "c' = c3 \<or> c' = c4"
      using e False c1 \<open>current_server acct (rc_conf c) = Some i\<close>
      by (auto simp: c4_def c3_def c2_def split: prod.splits if_splits)
    moreover have "msgs c3 = msgs c2" "msgs c4 = msgs c2" "rc_conf c3 = rc_conf c2" "rc_conf c4 = rc_conf c2"
      "num_msgs c3 = num_msgs c2" "num_msgs c4 = num_msgs c2" "client_timers c3 = client_timers c2"
      "client_timers c4 = client_timers c2"
      by (simp_all add: c3_def c4_def)
    ultimately show ?thesis by (auto intro: reshaped_cong [OF r] simp: c1)
  qed
qed

subsection \<open>Sending\<close>

lemma rc_send_reshaped:
  assumes "rc_send sys now s t buf c = Some (r, c')"
  shows "reshaped (\<not> is_acct t) c c'"
proof -
  define d where "d = rc_emit (SendTo s buf) (called c)"
  have d: "rc_conf d = rc_conf c" "msgs d = msgs c" "num_msgs d = num_msgs c" "client_timers d = client_timers c"
    by (simp_all add: d_def rc_emit_def called_def)
  have again: "reshaped (\<not> is_acct t) c c'" if "radius_client_handle_send_error sys now s t again d = Some c'" for again
  proof (cases again)
    case True
    define d2 where "d2 = rc_emit (CloseSock s) (rc_emit (UnregisterRead s) d)"
    have "\<exists>q. radius_client_init_kind sys now (is_acct t) d2 = Some (q, c')"
      using that True unfolding radius_client_handle_send_error_def d2_def [symmetric] Let_def
      by (auto simp: radius_client_init_acct_def radius_client_init_auth_def split: if_splits)
    then have "reshaped (\<not> is_acct t) d2 c'" by (auto dest: init_kind_reshaped)
    then show ?thesis by (rule reshaped_cong) (simp_all add: d2_def rc_emit_def d)
  next
    case False
    then show ?thesis using that d by (auto simp: radius_client_handle_send_error_def intro: reshaped_same)
  qed
  show ?thesis
    using assms again d unfolding rc_send_def d_def [symmetric] Let_def
    by (auto split: send_answer.splits intro: reshaped_same)
qed

lemma entries_ok_update:
  assumes "entries_ok conf es" "i < length es" "entry_ok y" "entry_id y = entry_id (es ! i)"
    "msg_type y = msg_type (es ! i)"
  shows "entries_ok conf (es[i := y])"
proof -
  have "map entry_id (es[i := y]) = map entry_id es"
    using assms by (simp add: map_update list_update_same_conv)
  moreover have "current_server (is_acct (msg_type (es ! i))) conf \<noteq> None"
    using assms by (simp add: entries_ok_def list_all_length)
  ultimately show ?thesis
    using assms set_update_subset_insert [of es i y] unfolding entries_ok_def list_all_iff by (metis insertE subsetD)
qed

lemma entries_ok_unlink:
  "entries_ok conf es \<Longrightarrow> i < length es \<Longrightarrow> entries_ok conf (take i es @ drop (Suc i) es)"
  by (subst (asm) (1) id_take_nth_drop [of i es]) (auto simp: entries_ok_append)

lemma unlink_simps [simp]:
  "rc_conf (unlink_entry i c) = rc_conf c" "client_timers (unlink_entry i c) = client_timers c"
  "num_msgs (unlink_entry i c) = num_msgs c - 1"
  "i < length (msgs c) \<Longrightarrow> length (msgs (unlink_entry i c)) = length (msgs c) - 1"
  by (simp_all add: unlink_entry_def)

lemma pool_ok_unlink: "pool_ok c \<Longrightarrow> i < length (msgs c) \<Longrightarrow> pool_ok (unlink_entry i c)"
  using entries_ok_unlink [of "rc_conf c" "msgs c" i]
  by (auto simp: pool_ok_def) (simp add: unlink_entry_def)

text \<open>
  One retransmission: the list keeps its length and every entry its identifier; the entry tried is
  either still below the limit, or it is reported and leaves the list.
\<close>

lemma retransmit_ok:
  assumes run: "radius_client_retransmit sys now i c = Some (b, c')" and i: "i < length (msgs c)"
    and pool: "pool_ok c"
  shows "map entry_id (msgs c') = map entry_id (msgs c)" "b \<Longrightarrow> pool_ok (unlink_entry i c')" "\<not> b \<Longrightarrow> pool_ok c'"
    "num_msgs c' = num_msgs c"
proof -
  let ?e = "msgs c ! i"
  define acct where "acct = is_acct (msg_type ?e)"
  obtain k where k: "current_server acct (rc_conf c) = Some k"
    using run by (auto simp: radius_client_retransmit_def acct_def Let_def split: option.splits)
  define c1 where "c1 = upd_entry i (\<lambda>e. e\<lparr>attempts := attempts e + 1, last_attempt := now\<rparr>)
     (upd_conf (upd_server acct k (\<lambda>sv. if attempts ?e = 0 then sv\<lparr>requests := requests sv + 1\<rparr>
        else sv\<lparr>timeouts := timeouts sv + 1, retransmissions := retransmissions sv + 1\<rparr>)) c)"
  define e1 where "e1 = ?e\<lparr>attempts := attempts ?e + 1, last_attempt := now\<rparr>"
  have c1: "msgs c1 = (msgs c)[i := e1]" "num_msgs c1 = num_msgs c"
    "entries_ok (rc_conf c1) = entries_ok (rc_conf c)" "servers_ok (rc_conf c1) = servers_ok (rc_conf c)"
    by (simp_all add: c1_def upd_entry_def upd_conf_def e1_def fun_eq_iff)
  define f where "f = (\<lambda>e::radius_msg_list. e\<lparr>next_try := fst now + next_wait e,
     next_wait := (if next_wait e * 2 > RADIUS_CLIENT_MAX_WAIT then RADIUS_CLIENT_MAX_WAIT else next_wait e * 2)\<rparr>)"
  have r: "(case rc_send sys now (if acct then acct_sock c else auth_sock c) (msg_type ?e) (rm_buf (ml_msg ?e)) c1 of
      None \<Rightarrow> None
    | Some (_, c2) \<Rightarrow> if length (msgs c2) \<noteq> length (msgs c1) then None
        else Some (attempts (msgs (upd_entry i f c2) ! i) \<ge> RADIUS_CLIENT_MAX_RETRIES, upd_entry i f c2)) = Some (b, c')"
    using run unfolding radius_client_retransmit_def Let_def acct_def [symmetric] k option.case
    unfolding c1_def [symmetric] f_def [symmetric] .
  obtain q c2 where s: "rc_send sys now (if acct then acct_sock c else auth_sock c) (msg_type ?e) (rm_buf (ml_msg ?e)) c1
      = Some (q, c2)" and same: "length (msgs c2) = length (msgs c1)"
    and c': "c' = upd_entry i f c2" "b = (attempts (msgs c' ! i) \<ge> RADIUS_CLIENT_MAX_RETRIES)"
    using r by (cases "rc_send sys now (if acct then acct_sock c else auth_sock c) (msg_type ?e)
      (rm_buf (ml_msg ?e)) c1") (auto split: if_splits)
  obtain g where g: "\<And>e. keeps_entry g e" and c2: "rc_conf c2 = rc_conf c1" and
    m: "msgs c2 = map g (msgs c1) \<and> num_msgs c2 = num_msgs c1 \<or>
      \<not> acct \<and> msgs c2 = map g (filter (\<lambda>e. msg_type e \<noteq> RADIUS_AUTH) (msgs c1))"
    using rc_send_reshaped [OF s] by (auto simp: reshaped_def acct_def)
  have e: "entry_ok ?e" using pool i by (auto simp: pool_ok_def entries_ok_def list_all_length)
  have "\<not> (\<not> acct \<and> msgs c2 = map g (filter (\<lambda>e. msg_type e \<noteq> RADIUS_AUTH) (msgs c1)))"
  proof
    assume a: "\<not> acct \<and> msgs c2 = map g (filter (\<lambda>e. msg_type e \<noteq> RADIUS_AUTH) (msgs c1))"
    have "msg_type e1 = RADIUS_AUTH" using a by (cases "msg_type ?e") (auto simp: acct_def is_acct_def e1_def)
    moreover have "e1 \<in> set (msgs c1)" using i by (simp add: c1 set_update_memI)
    ultimately have "length (filter (\<lambda>e. msg_type e \<noteq> RADIUS_AUTH) (msgs c1)) < length (msgs c1)"
      by (intro length_filter_less [of e1]) auto
    then show False using a same by simp
  qed
  with m have m: "msgs c2 = map g (msgs c1)" "num_msgs c2 = num_msgs c1" by auto
  define y where "y = f (g e1)"
  have "tried_below (RADIUS_CLIENT_MAX_RETRIES + 1) e1" using e by (simp add: tried_below_def e1_def)
  then have "tried_below (RADIUS_CLIENT_MAX_RETRIES + 1) (g e1)" and y: "entry_id y = entry_id ?e" "msg_type y = msg_type ?e"
    using g [of e1] unfolding keeps_entry_def
    by (auto dest!: spec [of _ "RADIUS_CLIENT_MAX_RETRIES + 1"] simp: y_def f_def e1_def radius_client_consts)
  then have yb: "tried_below (RADIUS_CLIENT_MAX_RETRIES + 1) y"
    by (auto simp: y_def f_def tried_below_def radius_client_consts)
  have ms: "msgs c' = (map g (msgs c))[i := y]" "rc_conf c' = rc_conf c1" "num_msgs c' = num_msgs c"
    using i by (simp_all add: c' upd_entry_def m c1 c2 map_update y_def)
  show "num_msgs c' = num_msgs c" using ms by simp
  have "entry_id (g d) = entry_id d" if "d \<in> set (msgs c)" for d
    using keeps_entryD [OF g, of d] pool that by (auto simp: pool_ok_def entries_ok_def list_all_iff)
  then have gid: "map entry_id (map g (msgs c)) = map entry_id (msgs c)" by simp
  show "map entry_id (msgs c') = map entry_id (msgs c)"
    unfolding ms map_update gid using y i by (simp add: list_update_same_conv)
  have ok: "entries_ok (rc_conf c) (map g (msgs c))"
    using pool g by (auto simp: pool_ok_def intro: entries_ok_map)
  have same: "entry_id ((map g (msgs c)) ! i) = entry_id ?e" "msg_type ((map g (msgs c)) ! i) = msg_type ?e"
    using keeps_entryD [OF g e] i by simp_all
  have len: "int (length (msgs c)) \<le> num_msgs c" "num_msgs c \<le> RADIUS_CLIENT_MAX_ENTRIES" "servers_ok (rc_conf c)"
    using pool by (auto simp: pool_ok_def)
  show "pool_ok c'" if "\<not> b"
  proof -
    have "entry_ok y" using yb that i by (auto simp: c' tried_below_def ms(1) [unfolded c'])
    then have "entries_ok (rc_conf c) ((map g (msgs c))[i := y])"
      using i y same by (intro entries_ok_update [OF ok]) simp_all
    then show ?thesis using ms len c1 by (simp add: pool_ok_def)
  qed
  show "pool_ok (unlink_entry i c')"
    using ms len c1 i entries_ok_unlink [OF ok, of i]
    by (simp add: pool_ok_def) (simp add: unlink_entry_def of_nat_diff)
qed

subsection \<open>The timer\<close>

lemma map_ids: "map entry_id (msgs c') = map entry_id (msgs c) \<Longrightarrow>
    length (msgs c') = length (msgs c) \<and> ids c' = ids c"
  by (metis length_map set_map)

lemma unlink_ids_subset: "ids (unlink_entry i c) \<subseteq> ids c"
  by (auto simp: unlink_entry_def dest: in_set_takeD in_set_dropD)

lemma timer_loop_ok:
  "timer_loop sys now n i acc c = Some (acc', c') \<Longrightarrow> pool_ok c \<Longrightarrow> pool_ok c' \<and> ids c' \<subseteq> ids c"
proof (induction n arbitrary: i acc c)
  case (Suc n)
  show ?case
  proof (cases "i < length (msgs c)")
    case True
    define r where "r = (if fst now \<ge> next_try (msgs c ! i) then radius_client_retransmit sys now i c
      else Some (False, c))"
    obtain b c2 where rb: "r = Some (b, c2)"
      using Suc.prems(1) True by (cases r) (auto simp: r_def [symmetric])
    define d where "d = (if b then unlink_entry i c2 else c2)"
    have "pool_ok d \<and> ids d \<subseteq> ids c"
    proof (cases "fst now \<ge> next_try (msgs c ! i)")
      case due: True
      then have "radius_client_retransmit sys now i c = Some (b, c2)" using rb by (simp add: r_def)
      note rt = retransmit_ok [OF this True Suc.prems(2)]
      then have "pool_ok d" by (simp add: d_def)
      moreover have "ids c2 = ids c" using map_ids [OF rt(1)] by simp
      then have "ids d \<subseteq> ids c" using unlink_ids_subset [of i c2] by (simp only: d_def split: if_split) simp
      ultimately show ?thesis ..
    next
      case False
      then show ?thesis using rb Suc.prems(2) by (auto simp: r_def d_def)
    qed
    note d = this
    have "\<exists>j acc2. timer_loop sys now n j acc2 d = Some (acc', c')"
    proof (cases b)
      case b: True
      then have "timer_loop sys now n i acc d = Some (acc', c')"
        using Suc.prems(1) True rb by (simp add: r_def [symmetric] d_def)
      then show ?thesis by blast
    next
      case b: False
      obtain x y z where acc: "acc = (x, y, z)" by (cases acc)
      show ?thesis
        using Suc.prems(1) True rb b by (simp add: r_def [symmetric] d_def Let_def acc) blast
    qed
    then obtain j acc2 where "timer_loop sys now n j acc2 d = Some (acc', c')" by blast
    from Suc.IH [OF this] d show ?thesis by (meson subset_trans)
  qed (use Suc.prems in auto)
qed simp

lemma register_timer_simps [simp]:
  "msgs (register_timer now s c) = msgs c" "num_msgs (register_timer now s c) = num_msgs c"
  "rc_conf (register_timer now s c) = rc_conf c" "client_timers (register_timer now s c) \<noteq> []"
  by (simp_all add: register_timer_def)

lemma cancel_timer_simps [simp]:
  "msgs (cancel_timer c) = msgs c" "num_msgs (cancel_timer c) = num_msgs c"
  "rc_conf (cancel_timer c) = rc_conf c" "client_timers (cancel_timer c) = []"
  by (simp_all add: cancel_timer_def)

lemma pool_ok_cong:
  "msgs d = msgs c \<Longrightarrow> num_msgs d = num_msgs c \<Longrightarrow> entries_ok (rc_conf d) (msgs c) = entries_ok (rc_conf c) (msgs c) \<Longrightarrow>
   servers_ok (rc_conf d) = servers_ok (rc_conf c) \<Longrightarrow> pool_ok d = pool_ok c"
  by (simp add: pool_ok_def)

lemma client_ok_upd_conf [simp]:
  "pool_ok (upd_conf (upd_server acct k f) c) = pool_ok c"
  "client_ok (upd_conf (upd_server acct k f) c) = client_ok c"
  by (simp_all add: client_ok_def pool_ok_def upd_conf_def)

lemma select_server_simps [simp]:
  "servers_of a (select_server acct k conf) = servers_of a conf"
  "current_server a (select_server acct k conf) = (if a = acct then Some k else current_server a conf)"
  by (auto simp: select_server_def servers_of_def current_server_def)

lemma select_server_ok:
  assumes "client_ok c" "k < length (servers_of acct (rc_conf c))"
  shows "client_ok (upd_conf (select_server acct k) c)" proof -
  have "entries_ok (select_server acct k (rc_conf c)) (msgs c)"
    by (rule entries_ok_conf [of "rc_conf c"]) (use assms in \<open>auto simp: client_ok_def pool_ok_def\<close>)
  moreover have "servers_ok (select_server acct k (rc_conf c))"
    using assms by (auto simp: client_ok_def pool_ok_def servers_ok_def split: if_splits)
  ultimately show ?thesis using assms(1) by (simp add: client_ok_def pool_ok_def upd_conf_def)
qed

lemma upd_conf_simps [simp]:
  "msgs (upd_conf f c) = msgs c" "rc_conf (upd_conf f c) = f (rc_conf c)"
  by (simp_all add: upd_conf_def)

lemma change_server_ok:
  assumes "client_ok c"
  shows "client_ok (snd (radius_change_server sys now nserv oserv s s6 auth c))"
    "ids (snd (radius_change_server sys now nserv oserv s s6 auth c)) \<subseteq> ids c"
proof -
  have r: "reshaped auth c (snd (radius_change_server sys now nserv oserv s s6 auth c))"
    by (rule change_server_reshaped(1)) (rule prod.collapse [symmetric])
  show "client_ok (snd (radius_change_server sys now nserv oserv s s6 auth c))"
    using reshaped_ok(2) [OF r] assms .
  show "ids (snd (radius_change_server sys now nserv oserv s s6 auth c)) \<subseteq> ids c"
    by (rule reshaped_ids [OF r]) (use assms in \<open>simp add: client_ok_def\<close>)
qed

lemma failover_ok:
  assumes "failover sys now acct c = Some c'" "client_ok c" "length (servers_of acct (rc_conf c)) > 1"
  shows "client_ok c' \<and> ids c' \<subseteq> ids c"
proof -
  obtain old where old: "current_server acct (rc_conf c) = Some old"
    using assms(1) by (auto simp: failover_def split: option.splits)
  define w where "w = upd_conf (upd_server acct old (\<lambda>sv. sv\<lparr>timeouts := timeouts sv +
    of_nat (length (filter (\<lambda>e. if acct then is_acct (msg_type e) else msg_type e = RADIUS_AUTH) (msgs c)))\<rparr>)) c"
  define nindex where "nindex = (if old + 1 > length (servers_of acct (rc_conf w)) - 1 then 0 else old + 1)"
  have w: "client_ok w" "length (servers_of acct (rc_conf w)) = length (servers_of acct (rc_conf c))"
    using assms(2) by (simp_all add: w_def)
  have "nindex < length (servers_of acct (rc_conf w))"
    using w(2) assms(3) by (auto simp: nindex_def)
  then have ok: "client_ok (upd_conf (select_server acct nindex) w)" using w by (rule_tac select_server_ok)
  have "\<exists>oserv s s6. c' = snd (radius_change_server sys now (servers_of acct (rc_conf w) ! nindex) oserv s s6
    (\<not> acct) (upd_conf (select_server acct nindex) w))"
    using assms(1) unfolding failover_def Let_def old option.case w_def [symmetric] nindex_def [symmetric]
    by auto
  moreover have "ids (upd_conf (select_server acct nindex) w) = ids c" by (simp add: w_def)
  ultimately show ?thesis using change_server_ok [OF ok] by metis
qed

lemma timer_ok:
  assumes "radius_client_timer sys now c = Some c'" "pool_ok c"
  shows "client_ok c' \<and> ids c' \<subseteq> ids c"
proof (cases "msgs c = []")
  case False
  then obtain first af cf c2 where l: "timer_loop sys now (length (msgs c)) 0 (0, 0, 0) c = Some ((first, af, cf), c2)"
    using assms(1) by (auto simp: radius_client_timer_def split: option.splits)
  define c3 where "c3 = (if msgs c2 \<noteq> []
     then register_timer now ((if first < fst now then fst now else first) - fst now) c2 else c2)"
  have "pool_ok c2 \<and> ids c2 \<subseteq> ids c" using timer_loop_ok [OF l] assms(2) by simp
  then have c3: "client_ok c3" "ids c3 \<subseteq> ids c" by (auto simp: c3_def client_ok_def pool_ok_cong [of "register_timer _ _ c2" c2])
  define f where "f acct n c = (if n \<noteq> 0 \<and> length (servers_of acct (rc_conf c)) > 1
    then failover sys now acct c else Some c)" for acct and n :: nat and c :: "('a, 'b) radius_client_data_scheme"
  have f: "f acct n d = Some d' \<Longrightarrow> client_ok d \<Longrightarrow> client_ok d' \<and> ids d' \<subseteq> ids d" for acct n d d'
    using failover_ok [of sys now acct d d'] by (auto simp: f_def split: if_splits)
  have "Option.bind (f False af c3) (f True cf) = Some c'"
    using assms(1) False unfolding radius_client_timer_def Let_def l option.case prod.case c3_def [symmetric]
    by (simp add: f_def [abs_def] servers_of_def)
  then obtain d where "f False af c3 = Some d" "f True cf d = Some c'" by (auto simp: bind_eq_Some_conv)
  then show ?thesis using c3 f by (meson subset_trans)
qed (use assms in \<open>auto simp: radius_client_timer_def client_ok_def\<close>)

subsection \<open>A new request\<close>

lemma update_timeout_simps [simp]:
  "msgs (radius_client_update_timeout now c) = msgs c" "num_msgs (radius_client_update_timeout now c) = num_msgs c"
  "rc_conf (radius_client_update_timeout now c) = rc_conf c"
  "msgs c \<noteq> [] \<Longrightarrow> client_timers (radius_client_update_timeout now c) \<noteq> []"
  by (simp_all add: radius_client_update_timeout_def Let_def)

lemma list_add_ok:
  assumes ok: "client_ok c" and id: "hdr_identifier msg \<notin> entry_id ` set (msgs c)" and len: "20 \<le> length (rm_buf msg)"
    and server: "current_server (is_acct t) (rc_conf c) \<noteq> None"
  shows "client_ok (radius_client_list_add sys now msg t secret addr c)"
proof (cases "sys_terminated sys (sys_calls c)")
  case True
  then show ?thesis using ok
    by (simp add: radius_client_list_add_def Let_def called_def client_ok_def pool_ok_def)
next
  case False
  define entry where "entry = \<lparr>ml_addr = (case addr of None \<Rightarrow> replicate 6 0 | Some a \<Rightarrow> take 6 a),
     ml_msg = msg, msg_type = t, first_try = fst now,
     next_try = fst now + RADIUS_CLIENT_FIRST_WAIT, attempts = 1,
     next_wait = RADIUS_CLIENT_FIRST_WAIT * 2, last_attempt = now, ml_secret = secret\<rparr>"
  define d where "d = radius_client_update_timeout now ((called c)\<lparr>msgs := entry # msgs c\<rparr>)"
  have d: "msgs d = entry # msgs c" "num_msgs d = num_msgs c" "rc_conf d = rc_conf c" "client_timers d \<noteq> []"
    by (simp_all add: d_def called_def)
  have es: "entries_ok (rc_conf c) (entry # msgs c)"
    using ok id len server by (auto simp: client_ok_def pool_ok_def entry_def tried_below_def radius_client_consts)
  have bl: "entries_ok (rc_conf c) (butlast (entry # msgs c))"
    using es by (metis entries_ok_append append_butlast_last_id list.distinct(1))
  have "radius_client_list_add sys now msg t secret addr c =
    (if num_msgs d \<ge> RADIUS_CLIENT_MAX_ENTRIES
     then (if length (msgs d) > 1 then d\<lparr>msgs := butlast (msgs d)\<rparr> else d)
     else d\<lparr>num_msgs := num_msgs d + 1\<rparr>)"
    using False by (simp add: radius_client_list_add_def Let_def called_def d_def entry_def)
  then show ?thesis
    using ok es bl d by (auto simp: client_ok_def pool_ok_def radius_client_consts)
qed

lemma memcpy_keeps:
  assumes "Suc 0 < p" "p + length d \<le> length b"
  shows "memcpy_at b p d ! Suc 0 = b ! Suc 0" "length (memcpy_at b p d) = length b"
  using assms by (auto simp: memcpy_at_def nth_append)

lemma finish_keeps:
  assumes "20 \<le> length (rm_buf m)"
  shows "hdr_identifier (snd (radius_msg_finish m secret)) = hdr_identifier m"
    "20 \<le> length (rm_buf (snd (radius_msg_finish m secret)))"
proof -
  have p: "hdr_identifier (put_hmac_md5 key m' pos) = hdr_identifier m'"
    "length (rm_buf (put_hmac_md5 key m' pos)) = length (rm_buf m')"
    if "Suc 0 < pos" "pos + 16 \<le> length (rm_buf m')" for key m' pos
    using that by (auto simp: put_hmac_md5_def hdr_identifier_def memcpy_keeps length_hmac_md5 split: option.splits)
  have l: "hdr_identifier (set_hdr_length m') = hdr_identifier m'"
    "length (rm_buf (set_hdr_length m')) = length (rm_buf m')" if "20 \<le> length (rm_buf m')" for m'
    using that by (simp_all add: set_hdr_length_def hdr_identifier_def memcpy_keeps len_simps)
  have a: "hdr_identifier m' = hdr_identifier m \<and> attr = length (rm_buf m) \<and> length (rm_buf m') = attr + 18"
    if "radius_msg_add_attr m t (replicate MD5_MAC_LEN 0) = Some (attr, m')" for t attr m'
    using that assms by (auto simp: radius_msg_add_attr_def Let_def radius_msg_add_attr_to_array_def
        hdr_identifier_def nth_append radius_len_defs split: if_splits)
  show "hdr_identifier (snd (radius_msg_finish m secret)) = hdr_identifier m"
    "20 \<le> length (rm_buf (snd (radius_msg_finish m secret)))"
    using assms by (auto simp: radius_msg_finish_def p l dest!: a split: option.splits)
qed

lemma send_ok:
  assumes run: "radius_client_send sys now msg t addr c = Some (r, c')" and ok: "client_ok c"
    and id: "hdr_identifier msg \<notin> entry_id ` set (msgs c)" and len: "20 \<le> length (rm_buf msg)"
  shows "client_ok c'"
proof -
  define d where "d = (if t = RADIUS_ACCT_INTERIM then radius_client_list_del t addr c else c)"
  have d: "client_ok d" "entry_id ` set (msgs d) \<subseteq> entry_id ` set (msgs c)" "rc_conf d = rc_conf c"
    using ok by (auto simp: d_def radius_client_list_del_def remove_client_ok split: option.splits)
  show ?thesis
  proof (cases "current_server (is_acct t) (rc_conf d)")
    case None
    then show ?thesis using run d by (simp add: radius_client_send_def Let_def d_def [symmetric])
  next
    case (Some k)
    define secret where "secret = shared_secret (servers_of (is_acct t) (rc_conf d) ! k)"
    define m where "m = (if is_acct t then radius_msg_finish_acct msg secret else snd (radius_msg_finish msg (Some secret)))"
    define e where "e = upd_conf (upd_server (is_acct t) k (\<lambda>sv. sv\<lparr>requests := requests sv + 1\<rparr>)) d"
    have e: "client_ok e" "msgs e = msgs d" "current_server (is_acct t) (rc_conf e) = Some k"
      using d Some by (simp_all add: e_def)
    have m: "hdr_identifier m = hdr_identifier msg" "20 \<le> length (rm_buf m)"
      using len by (simp_all add: m_def finish_acct_keeps finish_keeps)
    obtain c2 where s: "rc_send sys now (if is_acct t then acct_sock d else auth_sock d) t (rm_buf m) e = Some (r, c2)"
      and c': "c' = radius_client_list_add sys now m t secret addr c2"
      using run Some by (auto simp: radius_client_send_def Let_def d_def [symmetric] secret_def [symmetric]
          m_def [symmetric] e_def [symmetric] split: option.splits)
    note r = rc_send_reshaped [OF s]
    have "entry_id ` set (msgs c2) \<subseteq> entry_id ` set (msgs e)"
      by (rule reshaped_ids [OF r]) (use e in \<open>simp add: client_ok_def\<close>)
    then show ?thesis
      unfolding c' using reshaped_ok(2,3) [OF r] d e m id by (intro list_add_ok) auto
  qed
qed

end
