(* ===== verification/RadiusRun.thy ===== *)
theory RadiusRun
  imports RadiusPool
begin

text \<open>
  The RADIUS client as it runs: the events of the event loop and the calls of the authenticators, the
  invariant they keep, what a response can do, and when a retransmission uses a freed entry.
\<close>

subsection \<open>The counters of the answers\<close>

text \<open>
  What an answer that belongs to no request leaves in the configuration: the counter of its code
  in the server that is current is one higher, and nothing else is different.
\<close>

definition answer_counted :: "bool \<Rightarrow> u8 \<Rightarrow> hostapd_radius_servers \<Rightarrow> hostapd_radius_servers" where
  "answer_counted acct code conf =
     (let count_in = (\<lambda>svs k. svs[k := (svs ! k)
            \<lparr>access_accepts := access_accepts (svs ! k) + of_bool (code = RADIUS_CODE_ACCESS_ACCEPT),
             access_rejects := access_rejects (svs ! k) + of_bool (code = RADIUS_CODE_ACCESS_REJECT),
             access_challenges := access_challenges (svs ! k) + of_bool (code = RADIUS_CODE_ACCESS_CHALLENGE),
             responses := responses (svs ! k) + of_bool (code = RADIUS_CODE_ACCOUNTING_RESPONSE)\<rparr>])
      in case if acct then acct_server conf else auth_server conf of
           None \<Rightarrow> conf
         | Some k \<Rightarrow> if acct then conf\<lparr>acct_servers := count_in (acct_servers conf) k\<rparr>
                     else conf\<lparr>auth_servers := count_in (auth_servers conf) k\<rparr>)"

subsection \<open>The handlers of the responses\<close>

text \<open>What the client needs of a handler: it may change the rest of the program, not the client.\<close>

locale radius_handlers =
  fixes call :: "'h \<Rightarrow> radius_msg \<Rightarrow> radius_msg \<Rightarrow> bytes \<Rightarrow> ('h, 'z) radius_client_data_scheme \<Rightarrow>
      (RadiusRxResult \<times> ('h, 'z) radius_client_data_scheme) option"
  assumes leaves_client: "call h msg req secret c = Some (res, c') \<Longrightarrow>
      radius_client_data.truncate c' = radius_client_data.truncate c"
begin

lemma call_handlers_client:
  "call_handlers call msg req hs n c = Some (taken, k, c') \<Longrightarrow>
   radius_client_data.truncate c' = radius_client_data.truncate c"
proof (induction hs arbitrary: n c)
  case (Cons h hs)
  then obtain res d where "call h msg (ml_msg req) (ml_secret req) c = Some (res, d)"
    by (auto split: option.splits)
  then show ?case using Cons leaves_client by (cases res) auto
qed simp

lemma take_response_run:
  assumes "take_response call now acct rconf hs msg i c = Some c'"
  obtains k f taken n e where
    "call_handlers call msg (msgs c ! i) hs 0 (unlink_entry i (upd_conf (upd_server acct k f) c)) = Some (taken, n, e)"
    "c' = e \<or> (\<exists>f. c' = upd_conf (upd_server acct k f) e)"
proof -
  define w where "w = (\<lambda>sv. sv\<lparr>round_trip_time := (fst now - fst (last_attempt (msgs c ! i))) * 100 +
    c_div (snd now - snd (last_attempt (msgs c ! i))) 10000\<rparr> :: hostapd_radius_server)"
  obtain k where k: "rconf = Some k"
    using assms by (cases rconf) (simp_all add: take_response_def write_server_def Let_def)
  define d where "d = unlink_entry i (upd_conf (upd_server acct k w) c)"
  define v :: "nat \<Rightarrow> hostapd_radius_server \<Rightarrow> hostapd_radius_server" where "v n = (\<lambda>sv. if n \<noteq> 0
      then sv\<lparr>bad_authenticators := bad_authenticators sv + 1\<rparr>
      else sv\<lparr>unknown_types := unknown_types sv + 1\<rparr>)" for n
  have t: "(case call_handlers call msg (msgs c ! i) hs 0 d of None \<Rightarrow> None
    | Some (taken, n, e) \<Rightarrow> if taken then Some e else Some (upd_conf (upd_server acct k (v n)) e)) = Some c'"
    using assms unfolding take_response_def Let_def write_server_def k option.map option.case
      w_def [symmetric] d_def [symmetric] v_def [symmetric] .
  obtain taken n e where h: "call_handlers call msg (msgs c ! i) hs 0 d = Some (taken, n, e)"
    using t by (cases "call_handlers call msg (msgs c ! i) hs 0 d") auto
  have c': "c' = e \<or> (\<exists>f. c' = upd_conf (upd_server acct k f) e)"
    using t unfolding h by (cases taken) auto
  show thesis using that [of k w taken n e] h c' unfolding d_def by blast
qed

text \<open>A response that is taken loses its request, whatever the handlers say of it.\<close>

lemma take_response_client:
  assumes "take_response call now acct rconf hs msg i c = Some c'"
  shows "msgs c' = msgs (unlink_entry i c)" "num_msgs c' = num_msgs c - 1" "client_timers c' = client_timers c"
    "entries_ok (rc_conf c') = entries_ok (rc_conf c)" "servers_ok (rc_conf c') = servers_ok (rc_conf c)"
    "auth_handlers c' = auth_handlers c" "acct_handlers c' = acct_handlers c"
proof -
  obtain k w taken n e where
    h: "call_handlers call msg (msgs c ! i) hs 0 (unlink_entry i (upd_conf (upd_server acct k w) c)) = Some (taken, n, e)"
    and c': "c' = e \<or> (\<exists>f. c' = upd_conf (upd_server acct k f) e)"
    using take_response_run [OF assms] .
  define d where "d = unlink_entry i (upd_conf (upd_server acct k w) c)"
  have "radius_client_data.truncate e = radius_client_data.truncate d" using call_handlers_client [OF h] by (simp add: d_def)
  then have e: "msgs e = msgs d" "num_msgs e = num_msgs d" "client_timers e = client_timers d" "rc_conf e = rc_conf d"
    "auth_handlers e = auth_handlers d" "acct_handlers e = acct_handlers d"
    by (simp_all add: radius_client_data.truncate_def)
  have d: "msgs d = msgs (unlink_entry i c)" "num_msgs d = num_msgs c - 1" "client_timers d = client_timers c"
    "rc_conf d = upd_server acct k w (rc_conf c)" "auth_handlers d = auth_handlers c" "acct_handlers d = acct_handlers c"
    by (simp_all add: d_def upd_conf_def unlink_entry_def)
  show "msgs c' = msgs (unlink_entry i c)" "num_msgs c' = num_msgs c - 1" "client_timers c' = client_timers c"
    "entries_ok (rc_conf c') = entries_ok (rc_conf c)" "servers_ok (rc_conf c') = servers_ok (rc_conf c)"
    "auth_handlers c' = auth_handlers c" "acct_handlers c' = acct_handlers c"
    using c' e d by (auto simp: upd_conf_def fun_eq_iff)
qed

text \<open>A datagram removes at most one request, the one it has the identifier of.\<close>

lemma receive_cases:
  assumes "radius_client_receive call now t received c = Some c'"
  obtains (counted) conf where "c' = c\<lparr>rc_conf := conf\<rparr>" "entries_ok conf = entries_ok (rc_conf c)"
      "servers_ok conf = servers_ok (rc_conf c)"
      "\<And>buf msg. received = Some buf \<Longrightarrow> length buf < 3000 \<Longrightarrow> radius_msg_parse buf = Some msg \<Longrightarrow>
         find_request t (hdr_identifier msg) (msgs c) = None"
  | (taken) buf msg i conf where "received = Some buf" "radius_msg_parse buf = Some msg"
      "find_request t (hdr_identifier msg) (msgs c) = Some i"
      "entries_ok conf = entries_ok (rc_conf c)" "servers_ok conf = servers_ok (rc_conf c)"
      "take_response call now (t = RADIUS_ACCT) (current_server (t = RADIUS_ACCT) (rc_conf c))
         (if t = RADIUS_ACCT then acct_handlers c else auth_handlers c) msg i (c\<lparr>rc_conf := conf\<rparr>) = Some c'"
proof -
  let ?acct = "t = RADIUS_ACCT"
  let ?rconf = "current_server ?acct (rc_conf c)"
  have w: "\<exists>conf. d = c\<lparr>rc_conf := conf\<rparr> \<and> entries_ok conf = entries_ok (rc_conf c) \<and>
      servers_ok conf = servers_ok (rc_conf c)"
    if wr: "write_server ?acct ?rconf f c = Some d \<or> d = c" for f d
  proof (cases "d = c")
    case True
    then show ?thesis by (intro exI [of _ "rc_conf c"]) simp
  next
    case False
    then obtain k where "d = upd_conf (upd_server ?acct k f) c" using wr by (auto simp: write_server_def)
    then show ?thesis by (intro exI [of _ "upd_server ?acct k f (rc_conf c)"]) (simp add: upd_conf_def fun_eq_iff)
  qed
  consider (early) "received = None" | (long) buf where "received = Some buf" "length buf \<ge> 3000"
    | (bad) buf where "received = Some buf" "length buf < 3000" "radius_msg_parse buf = None"
    | (good) buf msg where "received = Some buf" "length buf < 3000" "radius_msg_parse buf = Some msg"
    by (cases received; cases "radius_msg_parse (the received)") (force simp: not_le [symmetric])+
  then show thesis
  proof cases
    case early
    then have "c' = c" using assms by (simp add: radius_client_receive_def)
    with early show thesis by (intro counted [of "rc_conf c"]) auto
  next
    case long
    then have "c' = c" using assms by (simp add: radius_client_receive_def)
    with long show thesis by (intro counted [of "rc_conf c"]) auto
  next
    case bad
    then have "write_server ?acct ?rconf (\<lambda>sv. sv\<lparr>malformed_responses := malformed_responses sv + 1\<rparr>) c = Some c'"
      using assms by (simp add: radius_client_receive_def Let_def)
    then obtain conf where "c' = c\<lparr>rc_conf := conf\<rparr>" "entries_ok conf = entries_ok (rc_conf c)"
      "servers_ok conf = servers_ok (rc_conf c)" using w by blast
    with bad show thesis by (intro counted [of conf]) auto
  next
    case good
    define cnt where "cnt = (if hdr_code msg \<in> set counted_codes
      then write_server ?acct ?rconf (count_response (hdr_code msg)) c else Some c)"
    have r: "(case cnt of None \<Rightarrow> None | Some d \<Rightarrow> (case find_request t (hdr_identifier msg) (msgs d) of None \<Rightarrow> Some d
        | Some i \<Rightarrow> take_response call now ?acct ?rconf (if ?acct then acct_handlers c else auth_handlers c) msg i d))
      = Some c'"
      using assms good by (simp add: radius_client_receive_def Let_def cnt_def)
    then obtain d where cd: "cnt = Some d" by (cases cnt) auto
    then have d: "write_server ?acct ?rconf (count_response (hdr_code msg)) c = Some d \<or> d = c"
      by (auto simp: cnt_def split: if_splits)
    have c': "(case find_request t (hdr_identifier msg) (msgs d) of None \<Rightarrow> Some d
      | Some i \<Rightarrow> take_response call now ?acct ?rconf (if ?acct then acct_handlers c else auth_handlers c) msg i d) = Some c'"
      using r cd by simp
    from d obtain conf where conf: "d = c\<lparr>rc_conf := conf\<rparr>" "entries_ok conf = entries_ok (rc_conf c)"
      "servers_ok conf = servers_ok (rc_conf c)" using w by blast
    show thesis
    proof (cases "find_request t (hdr_identifier msg) (msgs c)")
      case None
      then show thesis using c' conf good by (intro counted [of conf]) auto
    next
      case (Some i)
      then show thesis using c' conf good by (intro taken [of buf msg i conf]) auto
    qed
  qed
qed

lemma find_request_bound:
  "find_request t n es = Some i \<Longrightarrow> i < length es \<and> entry_id (es ! i) = n"
  by (induction t n es arbitrary: i rule: find_request.induct) (auto split: if_splits)

lemma receive_ok:
  assumes "radius_client_receive call now t received c = Some c'" "client_ok c"
  shows "client_ok c'"
  using assms(1)
proof (cases rule: receive_cases)
  case (counted conf)
  then show ?thesis using assms(2) by (simp add: client_ok_def pool_ok_def)
next
  case (taken buf msg i conf)
  let ?d = "c\<lparr>rc_conf := conf\<rparr>"
  note r = take_response_client [OF taken(6)]
  have "i < length (msgs ?d)" using find_request_bound taken by auto
  moreover have "pool_ok ?d" using assms(2) taken by (simp add: client_ok_def pool_ok_def)
  ultimately have p: "pool_ok (unlink_entry i ?d)" by (rule pool_ok_unlink [rotated])
  then have "pool_ok c'" using r by (simp add: pool_ok_def)
  moreover have "msgs c' \<noteq> [] \<Longrightarrow> msgs c \<noteq> []" using r taken by (auto simp: unlink_entry_def)
  ultimately show ?thesis using assms(2) r taken by (auto simp: client_ok_def)
qed

lemma receive_ids:
  assumes "radius_client_receive call now t received c = Some c'"
  shows "ids c' \<subseteq> ids c"
  using assms
proof (cases rule: receive_cases)
  case (taken buf msg i conf)
  then show ?thesis using take_response_client(1) [OF taken(6)]
    by (auto simp: unlink_entry_def dest: in_set_takeD in_set_dropD)
qed simp

text \<open>After a datagram that parses, no request with its identifier waits that it could match.\<close>

lemma unlink_ids:
  "distinct (map f es) \<Longrightarrow> i < length es \<Longrightarrow> f (es ! i) \<notin> f ` set (take i es @ drop (Suc i) es)"
  by (subst (asm) (1) id_take_nth_drop [of i es]) auto

lemma receive_matches_once:
  assumes run: "radius_client_receive call now t (Some buf) c = Some c'" and ok: "client_ok c"
    and msg: "radius_msg_parse buf = Some msg" "find_request t (hdr_identifier msg) (msgs c) \<noteq> None" "length buf < 3000"
  shows "hdr_identifier msg \<notin> ids c'"
  using run
proof (cases rule: receive_cases)
  case (counted conf)
  then show ?thesis using msg by simp
next
  case (taken buf2 msg2 i conf)
  have m: "msgs c' = take i (msgs c) @ drop (Suc i) (msgs c)"
    using take_response_client(1) [OF taken(6)] taken by (simp add: unlink_entry_def)
  have "entry_id (msgs c ! i) \<notin> ids c'"
    unfolding m using find_request_bound [OF taken(3)] ok
    by (intro unlink_ids) (auto simp: client_ok_def pool_ok_def entries_ok_def)
  then show ?thesis using find_request_bound [OF taken(3)] taken msg by simp
qed

lemma receive_without_request:
  assumes "radius_client_receive call now t (Some buf) c = Some c'" and "length buf < 3000"
    and "radius_msg_parse buf = Some msg" and "find_request t (hdr_identifier msg) (msgs c) = None"
  shows "c' = c\<lparr>rc_conf := answer_counted (t = RADIUS_ACCT) (hdr_code msg) (rc_conf c)\<rparr>"
proof (cases "hdr_code msg \<in> set counted_codes")
  case True
  then obtain k where k: "current_server (t = RADIUS_ACCT) (rc_conf c) = Some k"
    and c': "c' = upd_conf (upd_server (t = RADIUS_ACCT) k (count_response (hdr_code msg))) c"
    using assms by (auto simp: radius_client_receive_def Let_def write_server_def upd_conf_def split: option.splits)
  show ?thesis
    unfolding c' using True
    by (auto simp: answer_counted_def Let_def k [unfolded current_server_def] upd_conf_def upd_server_def count_response_def counted_codes_def
        RADIUS_CODE_ACCESS_ACCEPT_def RADIUS_CODE_ACCESS_REJECT_def RADIUS_CODE_ACCESS_CHALLENGE_def
        RADIUS_CODE_ACCOUNTING_RESPONSE_def)
next
  case False
  then have "c' = c" using assms by (simp add: radius_client_receive_def Let_def)
  moreover have "answer_counted (t = RADIUS_ACCT) (hdr_code msg) (rc_conf c) = rc_conf c"
    using False by (auto simp: answer_counted_def Let_def counted_codes_def split: option.split)
  ultimately show ?thesis by simp
qed

end

subsection \<open>The other operations\<close>

lemma get_id_ok:
  assumes "radius_client_get_id c = (i, c')" "client_ok c"
  shows "client_ok c'" "i \<notin> ids c'" "ids c' \<subseteq> ids c"
proof -
  have c': "msgs c' = filter (\<lambda>e. entry_id e \<noteq> i) (msgs c)" "rc_conf c' = rc_conf c" "num_msgs c' = num_msgs c"
    "client_timers c' = client_timers c"
    using assms(1) by (auto simp: radius_client_get_id_def Let_def)
  show "client_ok c'"
    using assms(2) c' by (auto simp: client_ok_def pool_ok_def intro: entries_ok_filter order_trans [OF _ length_filter_le])
      (meson dual_order.trans length_filter_le of_nat_mono)
  show "i \<notin> ids c'" "ids c' \<subseteq> ids c" using c' by auto
qed

lemma back_to_primary_ok:
  assumes "back_to_primary sys now acct c = Some c'" "client_ok c"
  shows "client_ok c' \<and> ids c' \<subseteq> ids c"
proof (cases "(if acct then acct_sock c else auth_sock c) \<ge> 0 \<and> servers_of acct (rc_conf c) \<noteq> [] \<and>
    current_server acct (rc_conf c) \<noteq> Some 0")
  case True
  then have ok: "client_ok (upd_conf (select_server acct 0) c)" using assms(2) by (intro select_server_ok) auto
  have "\<exists>nserv oserv s s6. c' = snd (radius_change_server sys now nserv oserv s s6 (\<not> acct)
     (upd_conf (select_server acct 0) c))"
    using assms(1) True unfolding back_to_primary_def Let_def by (simp only: simp_thms if_False option.inject) blast
  moreover have "ids (upd_conf (select_server acct 0) c) = ids c" by simp
  ultimately show ?thesis using change_server_ok [OF ok] by metis
next
  case False
  then have "c' = c" using assms(1) unfolding back_to_primary_def by simp
  then show ?thesis using assms(2) by simp
qed

lemma retry_primary_ok:
  assumes "radius_retry_primary_timer sys now c = Some c'" "client_ok c"
  shows "client_ok c' \<and> ids c' \<subseteq> ids c"
proof -
  obtain d e where d: "back_to_primary sys now False c = Some d" "back_to_primary sys now True d = Some e"
    and c': "c' = (if retry_primary_interval (rc_conf e) \<noteq> 0
       then e\<lparr>retry_timers := retry_timers e @ [fst now + retry_primary_interval (rc_conf e)]\<rparr> else e)"
    using assms(1) by (auto simp: radius_retry_primary_timer_def bind_eq_Some_conv)
  have "client_ok e \<and> ids e \<subseteq> ids c"
    using back_to_primary_ok [OF d(1) assms(2)] back_to_primary_ok [OF d(2)] by (meson subset_trans)
  then show ?thesis by (simp add: c' client_ok_def pool_ok_def)
qed

lemma flush_ids: "ids (radius_client_flush b c) \<subseteq> ids c" "ids (radius_client_flush_auth a c) \<subseteq> ids c"
  by (auto simp: radius_client_flush_def radius_client_flush_auth_def Let_def)

lemma init_kind_empty:
  "radius_client_init_kind sys now acct c = Some (r, c') \<Longrightarrow> msgs c = [] \<Longrightarrow> num_msgs c = 0 \<Longrightarrow>
   msgs c' = [] \<and> num_msgs c' = 0 \<and> rc_conf c' = rc_conf c"
  by (auto dest!: init_kind_reshaped simp: reshaped_def)

lemma init_ok:
  assumes "radius_client_init sys now conf c = Some (ok, c')" "servers_ok conf"
  shows "client_ok c'"
proof -
  define init where "init acct c = (if current_server acct (rc_conf c) \<noteq> None
    then radius_client_init_kind sys now acct c else Some (0, c))" for acct and c :: "('a, 'b) radius_client_data_scheme"
  define E where "E c \<longleftrightarrow> msgs c = [] \<and> num_msgs c = 0 \<and> rc_conf c = conf"
    for c :: "('a, 'b) radius_client_data_scheme"
  have s: "init acct d = Some (r, d') \<Longrightarrow> E d \<Longrightarrow> E d'" for acct d r d'
    using init_kind_empty [of sys now acct d r d'] by (auto simp: init_def E_def split: if_splits)
  have n: "E (radius_client_new conf c)" by (simp add: E_def radius_client_new_def)
  have de: "E d \<Longrightarrow> E (radius_client_deinit d)" for d
    by (simp add: E_def radius_client_deinit_def Let_def radius_client_flush_def rc_emit_def)
  have u: "(case init False (radius_client_new conf c) of None \<Rightarrow> None
    | Some (r, c) \<Rightarrow> if r \<noteq> 0 then Some (False, radius_client_deinit c)
        else (case init True c of None \<Rightarrow> None
          | Some (r, c) \<Rightarrow> if r \<noteq> 0 then Some (False, radius_client_deinit c)
              else Some (True, if retry_primary_interval conf \<noteq> 0
                then c\<lparr>retry_timers := retry_timers c @ [fst now + retry_primary_interval conf]\<rparr> else c))) = Some (ok, c')"
    using assms(1) unfolding radius_client_init_def Let_def init_def .
  obtain r d where d: "init False (radius_client_new conf c) = Some (r, d)"
    using u by (cases "init False (radius_client_new conf c)") auto
  have "E c'"
  proof (cases "r = 0")
    case True
    then obtain r2 e where e: "init True d = Some (r2, e)" using u d by (cases "init True d") auto
    have "E e" using s [OF e s [OF d n]] .
    moreover have "c' = e \<or> c' = radius_client_deinit e \<or> c' = e\<lparr>retry_timers := retry_timers e @ [fst now + retry_primary_interval conf]\<rparr>"
      using u d e True by (simp split: if_splits)
    ultimately show ?thesis using de [of e] by (elim disjE) (simp_all add: E_def)
  next
    case False
    then show ?thesis using u d de [OF s [OF d n]] by simp
  qed
  then show ?thesis using assms(2) by (simp add: E_def client_ok_def pool_ok_def radius_client_consts)
qed

subsection \<open>The client in the program\<close>

text \<open>
  A step of the program that involves the client. The Boolean is true for a new request, which takes
  an identifier and sends a message with it at once. A timeout is due at its time, and fires once.
  Before the configuration changes the pending requests are flushed (\<^verbatim>\<open>ap/hostapd.c\<close>).
\<close>

inductive radius_step ::
  "('h \<Rightarrow> radius_msg \<Rightarrow> radius_msg \<Rightarrow> bytes \<Rightarrow> ('h, 'z) radius_client_data_scheme \<Rightarrow>
     (RadiusRxResult \<times> ('h, 'z) radius_client_data_scheme) option) \<Rightarrow>
   bool \<Rightarrow> ('h, 'z) radius_client_data_scheme \<Rightarrow> ('h, 'z) radius_client_data_scheme \<Rightarrow> bool"
  for call
where
  request: "radius_client_get_id c = (i, d) \<Longrightarrow> hdr_identifier msg = i \<Longrightarrow> 20 \<le> length (rm_buf msg) \<Longrightarrow>
    radius_client_send sys now msg t addr d = Some (r, c') \<Longrightarrow> radius_step call True c c'"
| unused_id: "radius_client_get_id c = (i, c') \<Longrightarrow> radius_step call False c c'"
| response: "radius_client_receive call now t received c = Some c' \<Longrightarrow> radius_step call False c c'"
| timer: "due \<in> set (client_timers c) \<Longrightarrow> due \<le> fst now \<Longrightarrow>
    radius_client_timer sys now (c\<lparr>client_timers := remove1 due (client_timers c)\<rparr>) = Some c' \<Longrightarrow>
    radius_step call False c c'"
| retry_timer: "due \<in> set (retry_timers c) \<Longrightarrow> due \<le> fst now \<Longrightarrow>
    radius_retry_primary_timer sys now (c\<lparr>retry_timers := remove1 due (retry_timers c)\<rparr>) = Some c' \<Longrightarrow>
    radius_step call False c c'"
| flush: "radius_step call False c (radius_client_flush only_auth c)"
| flush_auth: "radius_step call False c (radius_client_flush_auth addr c)"
| register: "radius_step call False c (radius_client_register t h c)"
| reconfig: "servers_ok conf \<Longrightarrow>
    radius_step call False c (radius_client_reconfig conf (radius_client_flush False c))"
| other: "radius_client_data.truncate c' = radius_client_data.truncate c \<Longrightarrow> radius_step call False c c'"

inductive radius_reach for call where
  start: "radius_client_init sys now conf c0 = Some (True, c) \<Longrightarrow> servers_ok conf \<Longrightarrow> radius_reach call c"
| step: "radius_reach call c \<Longrightarrow> radius_step call new c c' \<Longrightarrow> radius_reach call c'"

text \<open>Steps without a new request.\<close>

inductive radius_quiet for call where
  refl: "radius_quiet call c c"
| step: "radius_quiet call c d \<Longrightarrow> radius_step call False d e \<Longrightarrow> radius_quiet call c e"

context radius_handlers
begin

lemma step_ok:
  assumes "radius_step call new c c'" "client_ok c"
  shows "client_ok c'" "\<not> new \<Longrightarrow> ids c' \<subseteq> ids c"
proof -
  have "client_ok c' \<and> (\<not> new \<longrightarrow> ids c' \<subseteq> ids c)"
    using assms(1)
  proof (cases rule: radius_step.cases)
    case (request i d msg sys now t addr r)
    then show ?thesis using get_id_ok [OF request(2) assms(2)] send_ok [OF request(5)] by auto
  next
    case (unused_id i)
    then show ?thesis using get_id_ok [OF unused_id(2) assms(2)] by auto
  next
    case (response now t received)
    then show ?thesis using receive_ok [OF response(2) assms(2)] receive_ids [OF response(2)] by auto
  next
    case (timer due now sys)
    have "pool_ok (c\<lparr>client_timers := remove1 due (client_timers c)\<rparr>)"
      using assms(2) by (simp add: client_ok_def pool_ok_def)
    then show ?thesis using timer_ok [OF timer(4)] timer by simp
  next
    case (retry_timer due now sys)
    have "client_ok (c\<lparr>retry_timers := remove1 due (retry_timers c)\<rparr>)"
      using assms(2) by (simp add: client_ok_def pool_ok_def)
    then show ?thesis using retry_primary_ok [OF retry_timer(4)] retry_timer by simp
  next
    case (flush only_auth)
    then show ?thesis using assms(2) flush_ids(1) [of only_auth c] by simp
  next
    case (flush_auth addr)
    then show ?thesis using assms(2) flush_ids(2) [of addr c] remove_client_ok
      by (auto simp: radius_client_flush_auth_def)
  next
    case (register t h)
    then show ?thesis using assms(2) by (auto simp: radius_client_register_def client_ok_def pool_ok_def)
  next
    case (reconfig conf)
    have "msgs (radius_client_flush False c) = []" "pool_ok (radius_client_flush False c)"
      using assms(2) by (simp_all add: client_ok_def) (simp add: radius_client_flush_def Let_def)
    then show ?thesis using reconfig by (auto simp: radius_client_reconfig_def client_ok_def pool_ok_def)
  next
    case other
    then have "msgs c' = msgs c" "num_msgs c' = num_msgs c" "client_timers c' = client_timers c" "rc_conf c' = rc_conf c"
      by (simp_all add: radius_client_data.truncate_def)
    then show ?thesis using assms(2) by (simp add: client_ok_def pool_ok_def)
  qed
  then show "client_ok c'" "\<not> new \<Longrightarrow> ids c' \<subseteq> ids c" by auto
qed

lemma client_reach_ok: "radius_reach call c \<Longrightarrow> client_ok c"
  by (induction rule: radius_reach.induct) (auto intro: init_ok step_ok)

lemma quiet_ids: "radius_quiet call c d \<Longrightarrow> client_ok c \<Longrightarrow> client_ok d \<and> ids d \<subseteq> ids c"
proof (induction rule: radius_quiet.induct)
  case (step c d e)
  then have "client_ok d" "ids d \<subseteq> ids c" by simp_all
  moreover have "client_ok e" "ids e \<subseteq> ids d" using step_ok [OF step.hyps(2) \<open>client_ok d\<close>] by simp_all
  ultimately show ?case by (meson subset_trans)
qed simp

text \<open>A response that comes again before the next request changes only the counter of its code.\<close>

lemma response_used_once:
  assumes c: "radius_reach call c" and first: "radius_client_receive call now t (Some buf) c = Some d"
    and msg: "radius_msg_parse buf = Some msg" "find_request t (hdr_identifier msg) (msgs c) \<noteq> None" "length buf < 3000"
    and quiet: "radius_quiet call d e" and again: "radius_client_receive call now' t' (Some buf) e = Some f"
  shows "f = e\<lparr>rc_conf := answer_counted (t' = RADIUS_ACCT) (hdr_code msg) (rc_conf e)\<rparr>"
proof (rule receive_without_request [OF again msg(3,1)])
  have "hdr_identifier msg \<notin> ids e"
    using receive_matches_once [OF first client_reach_ok [OF c] msg] quiet_ids [OF quiet receive_ok [OF first client_reach_ok [OF c]]] by blast
  then show "find_request t' (hdr_identifier msg) (msgs e) = None"
    using find_request_bound [of t' "hdr_identifier msg" "msgs e"] nth_mem [of _ "msgs e"]
    by (cases "find_request t' (hdr_identifier msg) (msgs e)") (simp, metis imageI option.inject)
qed

end

subsection \<open>When a freed entry is used\<close>

lemma init_kind_total:
  "current_server acct (rc_conf c) \<noteq> None \<Longrightarrow> radius_client_init_kind sys now acct c \<noteq> None"
  by (auto simp: radius_client_init_kind_def Let_def called_def split: prod.splits)

lemma init_auth_flushes:
  assumes run: "radius_client_init_kind sys now False c = Some (r, c')" and
    socket: "sys_socket sys (sys_calls c) \<ge> 0 \<or> sys_socket sys (sys_calls c + 1) \<ge> 0"
  shows "\<forall>e \<in> set (msgs c'). msg_type e \<noteq> RADIUS_AUTH"
proof -
  define s4 where "s4 = sys_socket sys (sys_calls c)"
  define s6 where "s6 = sys_socket sys (sys_calls (called c))"
  define c1 where "c1 = (called (called c))\<lparr>auth_serv_sock := s4, auth_serv_sock6 := s6\<rparr>"
  have "\<not> (s4 < 0 \<and> s6 < 0)" using socket by (auto simp: s4_def s6_def called_def)
  then obtain i where run: "(let (_, c) = radius_change_server sys now (servers_of False (rc_conf c1) ! i) None s4 s6 True c1;
      (ok, c) = register_read sys s4 RADIUS_AUTH c
    in if \<not> ok then Some (-1, c) else let (ok, c) = register_read sys s6 RADIUS_AUTH c in Some (if ok then 0 else -1, c))
    = Some (r, c')"
    using run unfolding radius_client_init_kind_def Let_def s4_def [symmetric] s6_def [symmetric] if_False
      c1_def [symmetric] by (auto split: option.splits)
  define c2 where "c2 = snd (radius_change_server sys now (servers_of False (rc_conf c1) ! i) None s4 s6 True c1)"
  have "\<forall>e \<in> set (msgs c2). msg_type e \<noteq> RADIUS_AUTH"
    unfolding c2_def by (rule change_server_reshaped(3) [OF prod.collapse [symmetric]]) simp_all
  moreover have "msgs c' = msgs c2"
    using run register_read_simps(1) [of sys s4 RADIUS_AUTH c2]
      register_read_simps(1) [of sys s6 RADIUS_AUTH "snd (register_read sys s4 RADIUS_AUTH c2)"]
    by (auto simp: c2_def [symmetric] case_prod_beta split: if_splits)
  ultimately show ?thesis by simp
qed

text \<open>The state in which a retransmission sends, and what it does with the answer.\<close>

definition at_send :: "now \<Rightarrow> nat \<Rightarrow> nat \<Rightarrow> ('h, 'z) radius_client_data_scheme \<Rightarrow> ('h, 'z) radius_client_data_scheme" where
  "at_send now i k c = upd_entry i (\<lambda>e. e\<lparr>attempts := attempts e + 1, last_attempt := now\<rparr>)
     (upd_conf (upd_server (is_acct (msg_type (msgs c ! i))) k (\<lambda>sv. if attempts (msgs c ! i) = 0
        then sv\<lparr>requests := requests sv + 1\<rparr>
        else sv\<lparr>timeouts := timeouts sv + 1, retransmissions := retransmissions sv + 1\<rparr>)) c)"

lemma at_send_simps [simp]:
  "length (msgs (at_send now i k c)) = length (msgs c)"
  "sys_calls (at_send now i k c) = sys_calls c"
  "current_server acct (rc_conf (at_send now i k c)) = current_server acct (rc_conf c)"
  by (simp_all add: at_send_def upd_entry_def upd_conf_def)

lemma retransmit_none:
  assumes "current_server (is_acct (msg_type (msgs c ! i))) (rc_conf c) = Some k"
  shows "radius_client_retransmit sys now i c = None \<longleftrightarrow>
    (\<forall>q d. rc_send sys now (if is_acct (msg_type (msgs c ! i)) then acct_sock c else auth_sock c)
       (msg_type (msgs c ! i)) (rm_buf (ml_msg (msgs c ! i))) (at_send now i k c) = Some (q, d) \<longrightarrow>
       length (msgs d) \<noteq> length (msgs c))"
  unfolding radius_client_retransmit_def Let_def assms option.case at_send_def [symmetric] at_send_simps
  by (cases "rc_send sys now (if is_acct (msg_type (msgs c ! i)) then acct_sock c else auth_sock c)
       (msg_type (msgs c ! i)) (rm_buf (ml_msg (msgs c ! i))) (at_send now i k c)") (auto split: if_splits)

lemma rc_send_reconnects:
  assumes "sys_send sys (sys_calls c) = SendFailed True"
  shows "rc_send sys now s t buf c = map_option (Pair (-1)) (map_option snd (radius_client_init_kind sys now (is_acct t)
    (rc_emit (CloseSock s) (rc_emit (UnregisterRead s) (rc_emit (SendTo s buf) (called c))))))"
  using assms by (simp add: rc_send_def Let_def radius_client_handle_send_error_def
      radius_client_init_acct_def radius_client_init_auth_def)

lemma retransmit_faults:
  assumes pool: "pool_ok c" and i: "i < length (msgs c)"
  shows "radius_client_retransmit sys now i c = None \<longleftrightarrow>
    msg_type (msgs c ! i) = RADIUS_AUTH \<and> sys_send sys (sys_calls c) = SendFailed True \<and>
    (sys_socket sys (sys_calls c + 1) \<ge> 0 \<or> sys_socket sys (sys_calls c + 2) \<ge> 0)" (is "?f \<longleftrightarrow> ?r")
proof -
  let ?t = "msg_type (msgs c ! i)"
  obtain k where k: "current_server (is_acct ?t) (rc_conf c) = Some k"
    using pool i by (auto simp: pool_ok_def entries_ok_def list_all_length)
  note none = retransmit_none [OF k, of sys now]
  let ?s = "if is_acct ?t then acct_sock c else auth_sock c" and ?buf = "rm_buf (ml_msg (msgs c ! i))"
  let ?d = "at_send now i k c"
  define d2 where "d2 = rc_emit (CloseSock ?s) (rc_emit (UnregisterRead ?s) (rc_emit (SendTo ?s ?buf) (called ?d)))"
  have d2: "msgs d2 = msgs ?d" "rc_conf d2 = rc_conf ?d" "sys_calls d2 = Suc (sys_calls c)"
    by (simp_all add: d2_def rc_emit_def called_def)
  show ?thesis
  proof (cases "sys_send sys (sys_calls c) = SendFailed True")
    case False
    then have "\<exists>q e. rc_send sys now ?s ?t ?buf ?d = Some (q, e) \<and> msgs e = msgs ?d"
      by (auto simp: rc_send_def Let_def radius_client_handle_send_error_def rc_emit_def called_def
          split: send_answer.splits)
    then show ?thesis using none False by auto
  next
    case True
    obtain q e where init: "radius_client_init_kind sys now (is_acct ?t) d2 = Some (q, e)"
      using init_kind_total [of "is_acct ?t" d2 sys now] k d2 by auto
    then have send: "rc_send sys now ?s ?t ?buf ?d = Some (-1, e)"
      using True by (simp add: rc_send_reconnects d2_def)
    then have f: "?f \<longleftrightarrow> length (msgs e) \<noteq> length (msgs c)" using none by simp
    note r = init_kind_reshaped [OF init]
    consider (acct) "is_acct ?t" | (nosock) "?t = RADIUS_AUTH" "\<not> ?r" | (auth) "?t = RADIUS_AUTH" ?r
      by (cases ?t) (auto simp: is_acct_def)
    then show ?thesis
    proof cases
      case acct
      then have "length (msgs e) = length (msgs d2)" using r by (auto simp: reshaped_def)
      then have "length (msgs e) = length (msgs c)" by (simp add: d2)
      then show ?thesis using f acct by (auto simp: is_acct_def)
    next
      case nosock
      then have "msgs e = msgs d2"
        using init True d2 by (auto simp: radius_client_init_kind_def Let_def called_def is_acct_def)
      then have "length (msgs e) = length (msgs c)" by (simp add: d2)
      then show ?thesis using f nosock(2) by blast
    next
      case auth
      have gone: "\<forall>x \<in> set (msgs e). msg_type x \<noteq> RADIUS_AUTH"
        by (rule init_auth_flushes [of sys now d2 q e]) (use init auth d2 in \<open>auto simp: is_acct_def\<close>)
      obtain g where g: "\<And>x. keeps_entry g x" and
        m: "msgs e = map g (msgs d2) \<or> msgs e = map g (filter (\<lambda>x. msg_type x \<noteq> RADIUS_AUTH) (msgs d2))"
        using r by (auto simp: reshaped_def)
      define x where "x = msgs d2 ! i"
      have xm: "x \<in> set (msgs d2)" using i d2 by (simp add: x_def)
      have x: "tried_below (RADIUS_CLIENT_MAX_RETRIES + 1) x" "msg_type x = RADIUS_AUTH"
        using pool i auth by (auto simp: x_def d2 at_send_def upd_entry_def upd_conf_def pool_ok_def entries_ok_def
            list_all_length tried_below_def)
      have "msg_type (g x) = RADIUS_AUTH"
        using g [of x] x unfolding keeps_entry_def
        by (auto dest!: spec [of _ "RADIUS_CLIENT_MAX_RETRIES + 1"] simp: radius_client_consts)
      then have "msgs e \<noteq> map g (msgs d2)" using gone xm by auto
      with m have "length (msgs e) = length (filter (\<lambda>x. msg_type x \<noteq> RADIUS_AUTH) (msgs d2))" by simp
      also have "\<dots> < length (msgs d2)" using xm x by (intro length_filter_less [of x]) auto
      finally have "length (msgs e) \<noteq> length (msgs c)" by (simp add: d2)
      then show ?thesis using f auth(2) by blast
    qed
  qed
qed

text \<open>So the timer is safe while no send fails with an error that makes the client connect again.\<close>

lemma timer_loop_total:
  "pool_ok c \<Longrightarrow> \<forall>n. sys_send sys n \<noteq> SendFailed True \<Longrightarrow> timer_loop sys now n i acc c \<noteq> None"
proof (induction n arbitrary: i acc c)
  case (Suc n)
  show ?case
  proof (cases "i < length (msgs c)")
    case True
    obtain x y z where acc: "acc = (x, y, z)" by (cases acc)
    define r where "r = (if fst now \<ge> next_try (msgs c ! i) then radius_client_retransmit sys now i c
      else Some (False, c))"
    have "r \<noteq> None"
      using retransmit_faults [OF Suc.prems(1) True, of sys now] Suc.prems(2)
      by (cases "fst now \<ge> next_try (msgs c ! i)") (simp_all add: r_def)
    then obtain b d where rb: "r = Some (b, d)" by (cases r) auto
    have "b \<Longrightarrow> pool_ok (unlink_entry i d)" "\<not> b \<Longrightarrow> pool_ok d"
      using rb True Suc.prems(1) by (auto simp: r_def split: if_splits dest: retransmit_ok)
    then show ?thesis using Suc.IH Suc.prems(2) True rb acc by (cases b) (simp_all add: r_def [symmetric] Let_def)
  qed simp
qed simp

end
