(* ===== verification/Ieee8021x.thy ===== *)
theory Ieee8021x
  imports RadiusRun EapServe
begin

text \<open>
  The IEEE 802.1X glue between the stations and the RADIUS client (\<^verbatim>\<open>ap/ieee802_1x.c\<close>,
  \<^verbatim>\<open>accounting_receive\<close> of \<^verbatim>\<open>ap/accounting.c\<close>): a station's EAP packets go into Access-Requests and the
  answers of the RADIUS server back to the EAP server of the station. The state is that of the RADIUS
  client extended by the list of the stations. \<open>None\<close> as the result of an operation is a NULL or
  freed pointer that is used.
\<close>

unbundle bit_operations_syntax

subsection \<open>State\<close>

definition RADIUS_ATTR_NAS_IP_ADDRESS :: u8 where "RADIUS_ATTR_NAS_IP_ADDRESS = 4"
definition RADIUS_ATTR_NAS_PORT :: u8 where "RADIUS_ATTR_NAS_PORT = 5"
definition RADIUS_ATTR_FRAMED_MTU :: u8 where "RADIUS_ATTR_FRAMED_MTU = 12"
definition RADIUS_ATTR_CALLED_STATION_ID :: u8 where "RADIUS_ATTR_CALLED_STATION_ID = 30"
definition RADIUS_ATTR_CALLING_STATION_ID :: u8 where "RADIUS_ATTR_CALLING_STATION_ID = 31"
definition RADIUS_ATTR_NAS_IDENTIFIER :: u8 where "RADIUS_ATTR_NAS_IDENTIFIER = 32"
definition RADIUS_ATTR_NAS_PORT_TYPE :: u8 where "RADIUS_ATTR_NAS_PORT_TYPE = 61"
definition RADIUS_ATTR_CONNECT_INFO :: u8 where "RADIUS_ATTR_CONNECT_INFO = 77"
definition RADIUS_ATTR_NAS_IPV6_ADDRESS :: u8 where "RADIUS_ATTR_NAS_IPV6_ADDRESS = 95"
definition RADIUS_TERMINATION_ACTION_RADIUS_REQUEST :: u32 where "RADIUS_TERMINATION_ACTION_RADIUS_REQUEST = 1"
definition RADIUS_NAS_PORT_TYPE_IEEE_802_11 :: u32 where "RADIUS_NAS_PORT_TYPE_IEEE_802_11 = 19"

datatype rx_handler = Ieee8021x_receive_auth | Accounting_receive

datatype vlan_mode = DYNAMIC_VLAN_DISABLED | DYNAMIC_VLAN_OPTIONAL | DYNAMIC_VLAN_REQUIRED

datatype hw_mode = HOSTAPD_MODE_IEEE80211A | HOSTAPD_MODE_IEEE80211G | HOSTAPD_MODE_IEEE80211B

text \<open>
  The fields of \<open>struct eapol_state_machine\<close> that the glue adds to those of the machines, with the
  machines (\<open>x_port\<close>) and the EAP server (\<open>x_eap\<close>) themselves. \<open>eapol_key_crypt\<close> is not
  among them: nothing in the program sets it, so it is always NULL.
\<close>

record 'p eapol_1x =
  x_port :: eapol_sm
  x_eap :: "'p eap_sm"
  radius_identifier :: int
  last_recv_radius :: "radius_msg option"
  x_identity :: "bytes option"
  radius_class :: radius_class_data
  eap_type_authsrv :: u8
  eap_type_supp :: u8
  dot1xAuthEapolRespIdFramesRx :: u32
  dot1xAuthEapolRespFramesRx :: u32

text \<open>\<open>sta_rsn\<close>: the station has a WPA state machine, and that one uses WPA2.\<close>

record 'p sta_info =
  sta_addr :: bytes
  sta_aid :: u16
  sta_preauth :: bool
  supported_rates :: bytes
  dynamic_vlan :: vlan_mode
  vlan_id :: int
  sta_acct_interim :: u32
  sta_rsn :: bool
  sta_1x :: "'p eapol_1x option"

datatype hapd_out = BindVlan bytes int | SessionTimeout bytes u32 | Disconnect bytes

record 'p hostapd_data = "rx_handler radius_client_data" +
  sta_list :: "'p sta_info list"
  hapd_calls :: nat
  hapd_out :: "hapd_out list"

text \<open>
  The configuration, and the answers of the rest of the program: whether a VLAN has an interface,
  whether binding a station to its VLAN succeeds, the octets of time, station and random number that
  make the authenticator of a request.
\<close>

record hapd_conf =
  conf_acct_interim :: int
  own_ip_addr :: hostapd_ip_addr
  nas_identifier :: "bytes option"
  conf_ssid :: bytes
  own_addr :: bytes
  conf_hw_mode :: hw_mode
  has_vlan_ifname :: "int \<Rightarrow> bool"
  bind_vlan_ok :: "nat \<Rightarrow> bool"
  random_octets :: "nat \<Rightarrow> bytes \<times> bytes \<times> bytes"

definition upd_sta :: "nat \<Rightarrow> ('p sta_info \<Rightarrow> 'p sta_info) \<Rightarrow> 'p hostapd_data \<Rightarrow> 'p hostapd_data" where
  "upd_sta i f c = c\<lparr>sta_list := (sta_list c)[i := f (sta_list c ! i)]\<rparr>"

definition upd_1x :: "nat \<Rightarrow> ('p eapol_1x \<Rightarrow> 'p eapol_1x) \<Rightarrow> 'p hostapd_data \<Rightarrow> 'p hostapd_data" where
  "upd_1x i f c = upd_sta i (\<lambda>sta. sta\<lparr>sta_1x := map_option f (sta_1x sta)\<rparr>) c"

definition upd_eap :: "('p eap_sm \<Rightarrow> 'p eap_sm) \<Rightarrow> 'p eapol_1x \<Rightarrow> 'p eapol_1x" where
  "upd_eap f x = x\<lparr>x_eap := f (x_eap x)\<rparr>"

definition hapd_emit :: "hapd_out \<Rightarrow> 'p hostapd_data \<Rightarrow> 'p hostapd_data" where
  "hapd_emit ev c = c\<lparr>hapd_out := hapd_out c @ [ev]\<rparr>"

subsection \<open>From the station to the RADIUS server\<close>

definition radius_mode_txt :: "hw_mode \<Rightarrow> bytes" where
  "radius_mode_txt m = (case m of HOSTAPD_MODE_IEEE80211A \<Rightarrow> c_str ''802.11a''
     | HOSTAPD_MODE_IEEE80211G \<Rightarrow> c_str ''802.11g'' | HOSTAPD_MODE_IEEE80211B \<Rightarrow> c_str ''802.11b'')"

fun radius_sta_rate :: "u8 \<Rightarrow> bytes \<Rightarrow> u8" where
  "radius_sta_rate rate [] = rate"
| "radius_sta_rate rate (r # rs) =
     radius_sta_rate (if r AND 0x7f > rate then r AND 0x7f else rate) rs"

text \<open>The texts that \<open>os_snprintf\<close> writes: an address with \<open>%02X\<close>, a number with \<open>%d\<close>.\<close>

definition mac_digit :: "u8 \<Rightarrow> u8" where "mac_digit n = (if n < 10 then 48 + n else 55 + n)"

fun mac_text :: "bytes \<Rightarrow> bytes" where
  "mac_text [] = []"
| "mac_text [b] = [mac_digit (drop_bit 4 b), mac_digit (b AND 15)]"
| "mac_text (b # bs) = [mac_digit (drop_bit 4 b), mac_digit (b AND 15), 45] @ mac_text bs"

fun dec_text :: "nat \<Rightarrow> bytes" where
  "dec_text n = (if n < 10 then [of_nat (48 + n)] else dec_text (n div 10) @ [of_nat (48 + n mod 10)])"

declare dec_text.simps [simp del]

definition connect_info :: "hapd_conf \<Rightarrow> 'p sta_info \<Rightarrow> bytes" where
  "connect_info conf sta =
     (if sta_preauth sta then c_str ''IEEE 802.11i Pre-Authentication''
      else let rate = radius_sta_rate 0 (supported_rates sta)
           in take 127 (c_str ''CONNECT '' @ dec_text (unat rate div 2) @
                (if rate AND 1 \<noteq> 0 then c_str ''.5'' else []) @ c_str ''Mbps '' @
                radius_mode_txt (conf_hw_mode conf)))"

definition ieee802_1x_learn_identity :: "bytes \<Rightarrow> 'p eapol_1x \<Rightarrow> 'p eapol_1x" where
  "ieee802_1x_learn_identity eap x =
     (if length eap \<le> 4 \<or> eap ! 4 \<noteq> EAP_TYPE_IDENTITY then x
      else case eap_identity (sh (x_eap x)) of
        None \<Rightarrow> x
      | Some identity \<Rightarrow> x\<lparr>x_identity := Some identity,
          dot1xAuthEapolRespIdFramesRx := dot1xAuthEapolRespIdFramesRx x + 1\<rparr>)"

text \<open>
  The attributes of an Access-Request in their order; the first one that is too long ends the
  construction.
\<close>

definition request_attrs :: "hapd_conf \<Rightarrow> 'p sta_info \<Rightarrow> 'p eapol_1x \<Rightarrow> (u8 \<times> bytes) list" where
  "request_attrs conf sta x =
     (case x_identity x of None \<Rightarrow> [] | Some identity \<Rightarrow> [(RADIUS_ATTR_USER_NAME, identity)]) @
     (case own_ip_addr conf of
        AF_INET a \<Rightarrow> [(RADIUS_ATTR_NAS_IP_ADDRESS, take 4 a)]
      | AF_INET6 a \<Rightarrow> [(RADIUS_ATTR_NAS_IPV6_ADDRESS, take 16 a)]
      | AF_OTHER \<Rightarrow> []) @
     (case nas_identifier conf of None \<Rightarrow> [] | Some n \<Rightarrow> [(RADIUS_ATTR_NAS_IDENTIFIER, n)]) @
     [(RADIUS_ATTR_NAS_PORT, WPA_PUT_BE32 (ucast (sta_aid sta))),
      (RADIUS_ATTR_CALLED_STATION_ID, take 127 (mac_text (take 6 (own_addr conf)) @ [58] @ conf_ssid conf)),
      (RADIUS_ATTR_CALLING_STATION_ID, mac_text (take 6 (sta_addr sta))),
      (RADIUS_ATTR_FRAMED_MTU, WPA_PUT_BE32 1400),
      (RADIUS_ATTR_NAS_PORT_TYPE, WPA_PUT_BE32 RADIUS_NAS_PORT_TYPE_IEEE_802_11),
      (RADIUS_ATTR_CONNECT_INFO, connect_info conf sta)]"

fun add_attrs :: "(u8 \<times> bytes) list \<Rightarrow> radius_msg \<Rightarrow> radius_msg option" where
  "add_attrs [] msg = Some msg"
| "add_attrs ((t, d) # as) msg =
     (case radius_msg_add_attr msg t d of None \<Rightarrow> None | Some (_, msg) \<Rightarrow> add_attrs as msg)"

text \<open>The request, \<open>None\<close> when it is given up.\<close>

definition access_request ::
  "hapd_conf \<Rightarrow> 'p sta_info \<Rightarrow> 'p eapol_1x \<Rightarrow> bytes \<times> bytes \<times> bytes \<Rightarrow> u8 \<Rightarrow> bytes \<Rightarrow> radius_msg option" where
  "access_request conf sta x rnd identifier eap =
     (let (tv, data, l) = rnd;
          msg = radius_msg_new RADIUS_CODE_ACCESS_REQUEST identifier;
          msg = radius_msg_make_authenticator msg data tv l
      in case add_attrs (request_attrs conf sta x) msg of
           None \<Rightarrow> None
         | Some msg \<Rightarrow>
             let (added, msg) = radius_msg_add_eap msg eap
             in if added = 0 then None
                else case last_recv_radius x of
                  None \<Rightarrow> Some msg
                | Some last_msg \<Rightarrow>
                    if hdr_code last_msg \<noteq> RADIUS_CODE_ACCESS_CHALLENGE then Some msg
                    else let (res, msg) = radius_msg_copy_attr msg last_msg RADIUS_ATTR_STATE
                         in if res < 0 then None else Some msg)"

text \<open>
  A message that \<open>radius_client_send\<close> could not send is freed although it is in the list of the
  client; only without an authentication server it is not there.
\<close>

definition ieee802_1x_encapsulate_radius ::
  "sys_answers \<Rightarrow> now \<Rightarrow> hapd_conf \<Rightarrow> nat \<Rightarrow> bytes \<Rightarrow> 'p hostapd_data \<Rightarrow> 'p hostapd_data option" where
  "ieee802_1x_encapsulate_radius sys now conf i eap c =
     (case sta_1x (sta_list c ! i) of
        None \<Rightarrow> Some c
      | Some _ \<Rightarrow>
          let c = upd_1x i (ieee802_1x_learn_identity eap) c;
              (identifier, c) = radius_client_get_id c;
              c = upd_1x i (\<lambda>x. x\<lparr>radius_identifier := uint identifier\<rparr>) c;
              rnd = random_octets conf (hapd_calls c);
              c = c\<lparr>hapd_calls := hapd_calls c + 1\<rparr>;
              sta = sta_list c ! i
          in case access_request conf sta (the (sta_1x sta)) rnd identifier eap of
               None \<Rightarrow> Some c
             | Some msg \<Rightarrow>
                 (case radius_client_send sys now msg RADIUS_AUTH (Some (sta_addr sta)) c of
                    None \<Rightarrow> None
                  | Some (res, c) \<Rightarrow>
                      if res < 0 \<and> current_server False (rc_conf c) \<noteq> None then None else Some c))"

subsection \<open>From the station to its EAP server\<close>

definition handle_eap_response :: "bytes \<Rightarrow> 'p eapol_1x \<Rightarrow> 'p eapol_1x" where
  "handle_eap_response eap x =
     (if length eap < 5 then x
      else upd_eap (\<lambda>e. e\<lparr>eapRespData := Some eap\<rparr>)
             (x\<lparr>eap_type_supp := eap ! 4, dot1xAuthEapolRespFramesRx := dot1xAuthEapolRespFramesRx x + 1,
                x_port := (x_port x)\<lparr>eapolEap := True\<rparr>\<rparr>))"

definition handle_eap :: "bytes \<Rightarrow> 'p eapol_1x \<Rightarrow> 'p eapol_1x" where
  "handle_eap buf x =
     (if length buf < 4 then x
      else let eap_len = unat (WPA_GET_BE16 (drop 2 buf))
           in if eap_len < 4 \<or> eap_len > length buf then x
              else if buf ! 0 = EAP_CODE_RESPONSE then handle_eap_response (take eap_len buf) x else x)"

subsection \<open>From the RADIUS server to the station\<close>

definition ieee802_1x_decapsulate_radius :: "'p eapol_1x \<Rightarrow> 'p eapol_1x" where
  "ieee802_1x_decapsulate_radius x =
     (case Option.bind (last_recv_radius x) radius_msg_get_eap of
        None \<Rightarrow> upd_eap (\<lambda>e. e\<lparr>aaaEapNoReq := True\<rparr>) x
      | Some eap \<Rightarrow>
          if length eap < 4 then upd_eap (\<lambda>e. e\<lparr>aaaEapNoReq := True\<rparr>) x
          else let x = (if eap ! 0 = EAP_CODE_REQUEST \<and> length eap > 4
                        then x\<lparr>eap_type_authsrv := eap ! 4\<rparr> else x)
               in upd_eap (\<lambda>e. e\<lparr>aaaEapReq := True, aaaEapReqData := Some eap\<rparr>) x)"

definition ieee802_1x_get_keys :: "radius_msg \<Rightarrow> radius_msg \<Rightarrow> bytes \<Rightarrow> 'p eapol_1x \<Rightarrow> 'p eapol_1x" where
  "ieee802_1x_get_keys msg req secret x =
     (let keys = radius_msg_get_ms_keys msg req secret
      in case (mppe_send keys, mppe_recv keys) of
           (Some send, Some recv) \<Rightarrow>
             upd_eap (\<lambda>e. e\<lparr>aaaEapKeyData := Some (recv @ send), aaaEapKeyAvailable := True\<rparr>) x
         | _ \<Rightarrow> x)"

text \<open>
  The next Class attribute that is not empty, and where the search stands: position and length of
  the data. Each round goes on to a later attribute, so their number bounds the rounds.
\<close>

primrec next_class :: "nat \<Rightarrow> radius_msg \<Rightarrow> (nat \<times> nat) option \<Rightarrow> bool \<times> (nat \<times> nat) option" where
  "next_class 0 msg cur = (False, cur)"
| "next_class (Suc n) msg cur =
     (case radius_msg_get_attr_ptr msg RADIUS_ATTR_CLASS (map_option fst cur) of
        None \<Rightarrow> (False, cur)
      | Some (pos, len) \<Rightarrow>
          if len < 1 then next_class n msg (Some (pos, len)) else (True, Some (pos, len)))"

text \<open>When the attributes run out, what the search stands at is stored once more.\<close>

primrec class_loop :: "nat \<Rightarrow> radius_msg \<Rightarrow> (nat \<times> nat) option \<Rightarrow> bytes list \<Rightarrow> bytes list" where
  "class_loop 0 msg cur nclass = nclass"
| "class_loop (Suc n) msg cur nclass =
     (let (found, cur) = next_class (Suc (length (attr_pos msg))) msg cur;
          nclass = nclass @ [case cur of None \<Rightarrow> [] | Some (pos, len) \<Rightarrow> take len (drop pos (rm_buf msg))]
      in if found then class_loop n msg cur nclass else nclass)"

definition ieee802_1x_store_radius_class :: "bool \<Rightarrow> radius_msg \<Rightarrow> 'p eapol_1x \<Rightarrow> 'p eapol_1x" where
  "ieee802_1x_store_radius_class has_acct_server msg x =
     (if \<not> has_acct_server then x
      else let x = x\<lparr>radius_class := radius_free_class (radius_class x)\<rparr>;
               n = radius_msg_count_attr msg RADIUS_ATTR_CLASS 1
           in if n = 0 then x else x\<lparr>radius_class := Some (class_loop n msg None [])\<rparr>)"

definition ieee802_1x_update_sta_identity :: "radius_msg \<Rightarrow> 'p eapol_1x \<Rightarrow> 'p eapol_1x" where
  "ieee802_1x_update_sta_identity msg x =
     (case radius_msg_get_attr_ptr msg RADIUS_ATTR_USER_NAME None of
        None \<Rightarrow> x
      | Some (pos, len) \<Rightarrow> x\<lparr>x_identity := Some (take len (drop pos (rm_buf msg)))\<rparr>)"

definition ieee802_1x_select_radius_identifier :: "u8 \<Rightarrow> 'p sta_info \<Rightarrow> bool" where
  "ieee802_1x_select_radius_identifier identifier sta =
     (case sta_1x sta of None \<Rightarrow> False
      | Some x \<Rightarrow> radius_identifier x \<ge> 0 \<and> radius_identifier x = uint identifier)"

fun ieee802_1x_search_radius_identifier :: "'p sta_info list \<Rightarrow> u8 \<Rightarrow> nat option" where
  "ieee802_1x_search_radius_identifier [] identifier = None"
| "ieee802_1x_search_radius_identifier (sta # stas) identifier =
     (if ieee802_1x_select_radius_identifier identifier sta then Some 0
      else map_option Suc (ieee802_1x_search_radius_identifier stas identifier))"

text \<open>
  An Access-Accept. The result says whether it reached the success (\<open>override_eapReq\<close>). The PMK of
  the PMKSA cache entry would be read through the NULL pointer \<open>eapol_key_crypt\<close>.
\<close>

definition receive_accept ::
  "hapd_conf \<Rightarrow> nat \<Rightarrow> radius_msg \<Rightarrow> radius_msg \<Rightarrow> bytes \<Rightarrow> 'p hostapd_data \<Rightarrow> (bool \<times> 'p hostapd_data) option" where
  "receive_accept conf i msg req secret c =
     (let sta = sta_list c ! i;
          session_timeout = radius_msg_get_attr_int32 msg RADIUS_ATTR_SESSION_TIMEOUT;
          termination_action = (case radius_msg_get_attr_int32 msg RADIUS_ATTR_TERMINATION_ACTION of
             None \<Rightarrow> 0 | Some a \<Rightarrow> a);
          vlan = (if dynamic_vlan sta = DYNAMIC_VLAN_DISABLED then 0 else radius_msg_get_vlanid msg);
          old_vlanid = (if dynamic_vlan sta = DYNAMIC_VLAN_DISABLED then 0 else vlan_id sta);
          c = upd_sta i (\<lambda>sta. sta\<lparr>vlan_id := vlan\<rparr>) c
      in if \<not> (vlan > 0 \<and> has_vlan_ifname conf vlan) \<and> dynamic_vlan sta = DYNAMIC_VLAN_REQUIRED
         then Some (False, upd_1x i (\<lambda>x. x\<lparr>x_port := (x_port x)\<lparr>authFail := True\<rparr>\<rparr>) c)
         else let bound = bind_vlan_ok conf (hapd_calls c);
                  c = hapd_emit (BindVlan (sta_addr sta) old_vlanid) (c\<lparr>hapd_calls := hapd_calls c + 1\<rparr>)
              in if \<not> bound then Some (False, c)
                 else let c = (case session_timeout of None \<Rightarrow> c
                            | Some t \<Rightarrow>
                                if termination_action = RADIUS_TERMINATION_ACTION_RADIUS_REQUEST
                                then upd_1x i (\<lambda>x. x\<lparr>x_port := (x_port x)\<lparr>reAuthPeriod := t\<rparr>\<rparr>) c
                                else hapd_emit (SessionTimeout (sta_addr sta) t) c);
                          c = upd_1x i (upd_eap (\<lambda>e. e\<lparr>aaaSuccess := True\<rparr>)) c;
                          c = upd_1x i (ieee802_1x_get_keys msg req secret) c;
                          c = upd_1x i (ieee802_1x_store_radius_class
                                (current_server True (rc_conf c) \<noteq> None) msg) c;
                          c = upd_1x i (ieee802_1x_update_sta_identity msg) c
                      in if eapKeyAvailable (eap_if (x_port (the (sta_1x (sta_list c ! i))))) \<and> sta_rsn sta
                         then None else Some (True, c))"

definition receive_challenge :: "radius_msg \<Rightarrow> 'p eapol_1x \<Rightarrow> 'p eapol_1x" where
  "receive_challenge msg =
     upd_eap (\<lambda>e. e\<lparr>aaaEapReq := True,
       aaaMethodTimeout := (case radius_msg_get_attr_int32 msg RADIUS_ATTR_SESSION_TIMEOUT of
          None \<Rightarrow> 0 | Some t \<Rightarrow> sint t)\<rparr>)"

text \<open>The interval between interim accounting updates, when the configuration leaves it to the server.\<close>

definition receive_interim :: "hapd_conf \<Rightarrow> nat \<Rightarrow> radius_msg \<Rightarrow> 'p hostapd_data \<Rightarrow> 'p hostapd_data" where
  "receive_interim conf i msg c =
     (if conf_acct_interim conf = 0 \<and> hdr_code msg = RADIUS_CODE_ACCESS_ACCEPT
      then (case radius_msg_get_attr_int32 msg RADIUS_ATTR_ACCT_INTERIM_INTERVAL of
              None \<Rightarrow> c
            | Some t \<Rightarrow> if t < 60 then c else upd_sta i (\<lambda>sta. sta\<lparr>sta_acct_interim := t\<rparr>) c)
      else c)"

text \<open>A message that has passed the checks, for station \<open>i\<close>.\<close>

definition take_message ::
  "hapd_conf \<Rightarrow> nat \<Rightarrow> radius_msg \<Rightarrow> radius_msg \<Rightarrow> bytes \<Rightarrow> 'p hostapd_data \<Rightarrow> 'p hostapd_data option" where
  "take_message conf i msg req secret c =
     (let c = upd_1x i (\<lambda>x. x\<lparr>radius_identifier := -1, last_recv_radius := Some msg\<rparr>) c;
          c = receive_interim conf i msg c
      in case (if hdr_code msg = RADIUS_CODE_ACCESS_ACCEPT then receive_accept conf i msg req secret c
               else if hdr_code msg = RADIUS_CODE_ACCESS_REJECT
               then Some (True, upd_1x i (upd_eap (\<lambda>e. e\<lparr>aaaFail := True\<rparr>)) c)
               else Some (False, upd_1x i (receive_challenge msg) c)) of
           None \<Rightarrow> None
         | Some (override_eapReq, c) \<Rightarrow>
             let c = upd_1x i ieee802_1x_decapsulate_radius c;
                 c = (if override_eapReq then upd_1x i (upd_eap (\<lambda>e. e\<lparr>aaaEapReq := False\<rparr>)) c else c)
             in Some (upd_1x i (\<lambda>x. x\<lparr>x_port := eapol_auth_step (x_port x)\<rparr>) c))"

definition ieee802_1x_receive_auth ::
  "hapd_conf \<Rightarrow> radius_msg \<Rightarrow> radius_msg \<Rightarrow> bytes \<Rightarrow> 'p hostapd_data \<Rightarrow>
   (RadiusRxResult \<times> 'p hostapd_data) option" where
  "ieee802_1x_receive_auth conf msg req secret c =
     (case ieee802_1x_search_radius_identifier (sta_list c) (hdr_identifier msg) of
        None \<Rightarrow> Some (RADIUS_RX_UNKNOWN, c)
      | Some i \<Rightarrow>
          (case (if hdr_code msg = RADIUS_CODE_ACCESS_REJECT \<and>
                    fst (radius_msg_get_attr msg RADIUS_ATTR_MESSAGE_AUTHENTICATOR 0) < 0 \<and>
                    fst (radius_msg_get_attr msg RADIUS_ATTR_EAP_MESSAGE 0) < 0
                 then Some (0, msg) else radius_msg_verify msg secret (Some req) True) of
             None \<Rightarrow> None
           | Some (wrong, msg) \<Rightarrow>
               if wrong \<noteq> 0 then Some (RADIUS_RX_INVALID_AUTHENTICATOR, c)
               else if hdr_code msg \<notin> {RADIUS_CODE_ACCESS_ACCEPT, RADIUS_CODE_ACCESS_REJECT,
                         RADIUS_CODE_ACCESS_CHALLENGE}
               then Some (RADIUS_RX_UNKNOWN, c)
               else map_option (Pair RADIUS_RX_QUEUED) (take_message conf i msg req secret c)))"

definition accounting_receive ::
  "radius_msg \<Rightarrow> radius_msg \<Rightarrow> bytes \<Rightarrow> 'p hostapd_data \<Rightarrow> (RadiusRxResult \<times> 'p hostapd_data) option" where
  "accounting_receive msg req secret c =
     (if hdr_code msg \<noteq> RADIUS_CODE_ACCOUNTING_RESPONSE then Some (RADIUS_RX_UNKNOWN, c)
      else case radius_msg_verify msg secret (Some req) False of
        None \<Rightarrow> None
      | Some (wrong, _) \<Rightarrow>
          Some (if wrong \<noteq> 0 then RADIUS_RX_INVALID_AUTHENTICATOR else RADIUS_RX_PROCESSED, c))"

definition run_handler ::
  "hapd_conf \<Rightarrow> rx_handler \<Rightarrow> radius_msg \<Rightarrow> radius_msg \<Rightarrow> bytes \<Rightarrow> 'p hostapd_data \<Rightarrow>
   (RadiusRxResult \<times> 'p hostapd_data) option" where
  "run_handler conf h msg req secret c =
     (case h of Ieee8021x_receive_auth \<Rightarrow> ieee802_1x_receive_auth conf msg req secret c
      | Accounting_receive \<Rightarrow> accounting_receive msg req secret c)"

text \<open>Giving up: an EAP server that timed out has the station disconnected.\<close>

definition ieee802_1x_abort_auth :: "nat \<Rightarrow> 'p hostapd_data \<Rightarrow> 'p hostapd_data" where
  "ieee802_1x_abort_auth i c =
     (case sta_1x (sta_list c ! i) of
        None \<Rightarrow> c
      | Some x \<Rightarrow>
          let c = upd_1x i (\<lambda>x. x\<lparr>last_recv_radius := None\<rparr>) c
          in if eapTimeout (eap_if (x_port x))
             then hapd_emit (Disconnect (sta_addr (sta_list c ! i)))
                    (upd_1x i (\<lambda>x. x\<lparr>x_port := (x_port x)\<lparr>eap_if := (eap_if (x_port x))\<lparr>portEnabled := False\<rparr>\<rparr>\<rparr>) c)
             else c)"

end
