(* ===== verification/RadiusBackend.thy ===== *)
theory RadiusBackend
  imports Ieee8021x
begin

text \<open>
  The handlers of the access point with the RADIUS client: what a response may do to a station, the
  check of a message leaves it as it was, and where the input of an EAP server comes from.
\<close>

subsection \<open>What the check of a message leaves\<close>

lemma memcpy_at_append:
  "length pre = p \<Longrightarrow> length x = length d \<Longrightarrow> memcpy_at (pre @ x @ post) p d = pre @ d @ post"
  by (simp add: memcpy_at_def)

lemma offsets_from: "p \<in> set (attr_offsets n as) \<Longrightarrow> n \<le> p"
  by (induction as arbitrary: n) (auto, fastforce)

lemma find_msg_auth_in:
  "find_msg_auth msg a ps = Inr (Some attr) \<Longrightarrow> a = Some attr \<or> attr \<in> set ps"
  by (induction msg a ps rule: find_msg_auth.induct) (auto split: if_splits)

lemma restore_buffer:
  assumes p: "20 \<le> p" "p + 16 \<le> length b" and a: "length a = 16"
  shows "memcpy_at (memcpy_at (memcpy_at (memcpy_at b p (replicate 16 0)) 4 a) p (take 16 (drop p b))) 4
    (take 16 (drop 4 b)) = b"
proof -
  define h where "h = take 4 b"
  define x where "x = take 16 (drop 4 b)"
  define m where "m = take (p - 20) (drop 20 b)"
  define d where "d = take 16 (drop p b)"
  define r where "r = drop (p + 16) b"
  have len: "length h = 4" "length x = 16" "length m = p - 20" "length d = 16"
    using p by (simp_all add: h_def x_def m_def d_def)
  have "drop 4 b = x @ drop 20 b" using append_take_drop_id [of 16 "drop 4 b"] by (simp add: x_def)
  moreover have "drop 20 b = m @ drop p b" using append_take_drop_id [of "p - 20" "drop 20 b"] p by (simp add: m_def)
  moreover have "drop p b = d @ r" using append_take_drop_id [of 16 "drop p b"] by (simp add: d_def r_def add.commute)
  ultimately have b: "b = h @ x @ m @ d @ r" using append_take_drop_id [of 4 b] by (simp add: h_def)
  have 1: "memcpy_at b p (replicate 16 0) = h @ x @ m @ replicate 16 0 @ r"
    using memcpy_at_append [of "h @ x @ m" p d "replicate 16 0" r] len p by (subst b) simp
  have 2: "memcpy_at (h @ x @ m @ replicate 16 0 @ r) 4 a = h @ a @ m @ replicate 16 0 @ r"
    using len a by (intro memcpy_at_append) simp_all
  have 3: "memcpy_at (h @ a @ m @ replicate 16 0 @ r) p d = h @ a @ m @ d @ r"
    using memcpy_at_append [of "h @ a @ m" p "replicate 16 0" d r] len p a by simp
  have 4: "memcpy_at (h @ a @ m @ d @ r) 4 x = h @ x @ m @ d @ r"
    using len a by (intro memcpy_at_append) simp_all
  show ?thesis unfolding 1 2 d_def [symmetric] 3 x_def [symmetric] 4 by (rule b [symmetric])
qed

lemma verify_restores:
  assumes parsed: "radius_msg_parse buf = Some msg" and sent: "sent_ok sent"
    and run: "radius_msg_verify msg secret (Some sent) auth = Some (r, m)"
  shows "m = msg"
proof -
  obtain h as where rep: "radius_rep h as msg" using parse_inv [OF parsed] by metis
  have pos: "20 \<le> p" if "p \<in> set (attr_pos msg)" for p
    using that rep by (auto simp: radius_rep_def dest: offsets_from)
  have "m' = msg" if "radius_msg_verify_msg_auth msg secret (Some (hdr_authenticator sent)) = Some (q, m')" for q m'
  proof -
    note u = that [unfolded radius_msg_verify_msg_auth_def]
    consider (err) e where "find_msg_auth msg None (attr_pos msg) = Inl e"
      | (none) "find_msg_auth msg None (attr_pos msg) = Inr None"
      | (attr) attr where "find_msg_auth msg None (attr_pos msg) = Inr (Some attr)"
      by (cases "find_msg_auth msg None (attr_pos msg)"; cases "projr (find_msg_auth msg None (attr_pos msg))") auto
    then show ?thesis
    proof cases
      case attr
      have a: "20 \<le> attr" using find_msg_auth_in [OF attr] pos by simp
      have fit: "attr + 18 \<le> length (rm_buf msg)"
        using u by (auto simp: attr MD5_MAC_LEN_def split: if_splits)
      have "m' = msg\<lparr>rm_buf := memcpy_at (memcpy_at (memcpy_at (memcpy_at (rm_buf msg) (attr + 2) (replicate 16 0)) 4
          (hdr_authenticator sent)) (attr + 2) (take 16 (drop (attr + 2) (rm_buf msg)))) 4 (take 16 (drop 4 (rm_buf msg)))\<rparr>"
        using u fit length_sent [OF sent]
        by (auto simp: attr MD5_MAC_LEN_def Let_def set_hdr_authenticator_def hdr_authenticator_def)
      also have "\<dots> = msg" using a fit length_sent [OF sent] by (subst restore_buffer) simp_all
      finally show ?thesis .
    qed (use u in auto)
  qed
  then show ?thesis
    using run by (auto simp: radius_msg_verify_def Let_def split: option.splits if_splits)
qed

lemma get_attr_absent: "fst (radius_msg_get_attr msg t n) < 0 \<longleftrightarrow> find_attr msg t = None"
  by (simp add: radius_msg_get_attr_def Let_def split: option.split)

lemma get_eap_absent: "find_attr msg RADIUS_ATTR_EAP_MESSAGE = None \<Longrightarrow> radius_msg_get_eap msg = None"
  by (simp add: radius_msg_get_eap_def find_attr_def find_None_iff filter_empty_conv [THEN iffD2])

subsection \<open>The handlers and the client\<close>

lemma upd_client [simp]:
  "radius_client_data.truncate (upd_sta i f c) = radius_client_data.truncate c"
  "radius_client_data.truncate (upd_1x i g c) = radius_client_data.truncate c"
  "radius_client_data.truncate (hapd_emit ev c) = radius_client_data.truncate c"
  "radius_client_data.truncate (c\<lparr>hapd_calls := n\<rparr>) = radius_client_data.truncate c"
  by (simp_all add: upd_sta_def upd_1x_def hapd_emit_def radius_client_data.truncate_def)

text \<open>
  A step of the glue that works on station \<open>i\<close>: the client and the other stations stay as they
  are, and the authentication of station \<open>i\<close> changes as \<open>R\<close> allows.
\<close>

definition on_station ::
  "nat \<Rightarrow> ('p eapol_1x \<Rightarrow> 'p eapol_1x \<Rightarrow> bool) \<Rightarrow> 'p hostapd_data \<Rightarrow> 'p hostapd_data \<Rightarrow> bool" where
  "on_station i R c c' \<longleftrightarrow> radius_client_data.truncate c' = radius_client_data.truncate c \<and>
     length (sta_list c') = length (sta_list c) \<and>
     (\<forall>j < length (sta_list c).
        rel_option (if j = i then R else (=)) (sta_1x (sta_list c ! j)) (sta_1x (sta_list c' ! j)))"

lemma rel_option_comp:
  "(\<And>x y z. R x y \<Longrightarrow> S y z \<Longrightarrow> T x z) \<Longrightarrow> rel_option R a b \<Longrightarrow> rel_option S b c \<Longrightarrow> rel_option T a c"
  by (cases a; cases b; cases c) auto

lemma on_station_comp:
  assumes "\<And>x y z. R x y \<Longrightarrow> S y z \<Longrightarrow> T x z"
    and "on_station i R c d" "on_station i S d e"
  shows "on_station i T c e"
proof -
  have "rel_option (if j = i then T else (=)) (sta_1x (sta_list c ! j)) (sta_1x (sta_list e ! j))"
    if "j < length (sta_list c)" for j
    by (rule rel_option_comp [where b = "sta_1x (sta_list d ! j)" and R = "if j = i then R else (=)"
        and S = "if j = i then S else (=)"])
      (use assms that in \<open>auto simp: on_station_def split: if_splits\<close>)
  then show ?thesis using assms(2,3) by (simp add: on_station_def)
qed

lemma on_station_refl: "(\<And>x. R x x) \<Longrightarrow> on_station i R c c"
  by (auto simp: on_station_def intro: option.rel_refl)

lemma on_station_1x: "(\<And>x. R x (f x)) \<Longrightarrow> on_station i R c (upd_1x i f c)"
  by (auto simp: on_station_def) (auto simp: upd_1x_def upd_sta_def nth_list_update option.rel_map intro: option.rel_refl)

lemma on_station_sta:
  "(\<And>x. R x x) \<Longrightarrow> (\<And>sta. sta_1x (f sta) = sta_1x sta) \<Longrightarrow> on_station i R c (upd_sta i f c)"
  by (auto simp: on_station_def) (auto simp: upd_sta_def nth_list_update intro: option.rel_refl)

lemma on_station_out:
  "(\<And>x. R x x) \<Longrightarrow> on_station i R c (hapd_emit ev c)"
  "(\<And>x. R x x) \<Longrightarrow> on_station i R c (c\<lparr>hapd_calls := n\<rparr>)"
  by (auto simp: on_station_def) (auto simp: hapd_emit_def intro: option.rel_refl)

text \<open>What the EAP server has got from the backend, with the rest of it.\<close>

definition without_aaa :: "'p eap_sm \<Rightarrow> 'p eap_sm" where
  "without_aaa e = e\<lparr>aaaEapReq := False, aaaEapNoReq := False, aaaSuccess := False, aaaFail := False,
     aaaEapReqData := None, aaaEapKeyData := None, aaaEapKeyAvailable := False, aaaMethodTimeout := 0,
     aaaTimeout := False\<rparr>"

lemma without_aaa_entry:
  assumes "without_aaa e' = without_aaa e"
  shows "server_entry e e'"
proof -
  have "e' = e\<lparr>aaaEapReq := aaaEapReq e', aaaSuccess := aaaSuccess e', aaaFail := aaaFail e',
    aaaEapReqData := aaaEapReqData e', aaaEapKeyData := aaaEapKeyData e', aaaEapKeyAvailable := aaaEapKeyAvailable e',
    aaaMethodTimeout := aaaMethodTimeout e', aaaTimeout := aaaTimeout e', aaaEapNoReq := aaaEapNoReq e'\<rparr>"
    using assms by (cases e; cases e') (simp add: without_aaa_def)
  then show ?thesis using server_entry.entry_backend by metis
qed

text \<open>What of the EAP server and of the machines of the port no message changes.\<close>

definition glue_frame :: "'p eapol_1x \<Rightarrow> 'p eapol_1x \<Rightarrow> bool" where
  "glue_frame x y \<longleftrightarrow>
     without_aaa (x_eap y) = without_aaa (x_eap x) \<and>
     (x_port y)\<lparr>authFail := False, reAuthPeriod := 0, outputs := []\<rparr> =
       (x_port x)\<lparr>authFail := False, reAuthPeriod := 0, outputs := []\<rparr>"

definition takes :: "radius_msg \<Rightarrow> 'p eapol_1x \<Rightarrow> 'p eapol_1x \<Rightarrow> bool" where
  "takes msg x y \<longleftrightarrow>
     (last_recv_radius x = Some msg \<longrightarrow> last_recv_radius y = Some msg \<and> glue_frame x y)"

lemma glue_frame_refl: "glue_frame x x"
  by (simp add: glue_frame_def)

lemma glue_frame_trans:
  "glue_frame x y \<Longrightarrow> glue_frame y z \<Longrightarrow> glue_frame x z"
  unfolding glue_frame_def by (elim conjE, intro conjI) (metis | auto)+

lemma takes_refl: "takes msg x x"
  by (simp add: takes_def glue_frame_refl)

lemma takes_trans: "takes msg x y \<Longrightarrow> takes msg y z \<Longrightarrow> takes msg x z"
  by (auto simp: takes_def intro: glue_frame_trans)

lemma takes_decapsulate: "takes msg x (ieee802_1x_decapsulate_radius x)"
  by (auto simp: takes_def ieee802_1x_decapsulate_radius_def glue_frame_def upd_eap_def without_aaa_def Let_def
      split: option.split)

lemma takes_keys:
  "takes msg x (ieee802_1x_get_keys msg req secret x)"
  by (cases "radius_msg_get_ms_keys msg req secret")
    (auto simp: takes_def ieee802_1x_get_keys_def glue_frame_def upd_eap_def without_aaa_def Let_def
      split: option.split)

lemma takes_rest:
  "takes msg x (ieee802_1x_store_radius_class b m x)"
  "takes msg x (ieee802_1x_update_sta_identity m x)"
  "takes msg x (receive_challenge m x)"
  "takes msg x (upd_eap (\<lambda>e. e\<lparr>aaaFail := True\<rparr>) x)"
  "takes msg x (upd_eap (\<lambda>e. e\<lparr>aaaEapReq := False\<rparr>) x)"
  "takes msg x (x\<lparr>x_port := (x_port x)\<lparr>authFail := True\<rparr>\<rparr>)"
  "takes msg x (x\<lparr>x_port := (x_port x)\<lparr>reAuthPeriod := p\<rparr>\<rparr>)"
  "takes msg x (x\<lparr>x_port := eapol_auth_step (x_port x)\<rparr>)"
  "takes msg x (upd_eap (\<lambda>e. e\<lparr>aaaSuccess := True\<rparr>) x)"
  by (auto simp: takes_def glue_frame_def upd_eap_def without_aaa_def receive_challenge_def
      ieee802_1x_store_radius_class_def ieee802_1x_update_sta_identity_def eapol_auth_step_def emit_def Let_def
      split: option.split)

text \<open>The whole of a message that has passed the checks.\<close>

lemmas takes_steps = on_station_1x on_station_sta on_station_out

lemma on_station_takes:
  assumes "on_station i (takes msg) c d" "on_station i (takes msg) d e"
  shows "on_station i (takes msg) c e"
  using takes_trans assms by (rule on_station_comp)

lemma accept_station:
  assumes run: "receive_accept conf i msg req secret c = Some (b, c')"
  shows "on_station i (takes msg) c c'"
proof -
  let ?R = "takes msg" and ?sta = "sta_list c ! i"
  note T = on_station_takes
  define vlan where "vlan = (if dynamic_vlan ?sta = DYNAMIC_VLAN_DISABLED then 0 else radius_msg_get_vlanid msg)"
  define old where "old = (if dynamic_vlan ?sta = DYNAMIC_VLAN_DISABLED then 0 else vlan_id ?sta)"
  define act where "act = (case radius_msg_get_attr_int32 msg RADIUS_ATTR_TERMINATION_ACTION of None \<Rightarrow> 0 | Some a \<Rightarrow> a)"
  define c1 where "c1 = upd_sta i (\<lambda>sta. sta\<lparr>vlan_id := vlan\<rparr>) c"
  define c2 where "c2 = hapd_emit (BindVlan (sta_addr ?sta) old) (c1\<lparr>hapd_calls := hapd_calls c1 + 1\<rparr>)"
  define c3 where "c3 = (case radius_msg_get_attr_int32 msg RADIUS_ATTR_SESSION_TIMEOUT of None \<Rightarrow> c2
    | Some t \<Rightarrow> if act = RADIUS_TERMINATION_ACTION_RADIUS_REQUEST
        then upd_1x i (\<lambda>x. x\<lparr>x_port := (x_port x)\<lparr>reAuthPeriod := t\<rparr>\<rparr>) c2
        else hapd_emit (SessionTimeout (sta_addr ?sta) t) c2)"
  define c4 where "c4 = upd_1x i (upd_eap (\<lambda>e. e\<lparr>aaaSuccess := True\<rparr>)) c3"
  define c5 where "c5 = upd_1x i (ieee802_1x_get_keys msg req secret) c4"
  define c6 where "c6 = upd_1x i (ieee802_1x_store_radius_class (current_server True (rc_conf c5) \<noteq> None) msg) c5"
  define c7 where "c7 = upd_1x i (ieee802_1x_update_sta_identity msg) c6"
  have s1: "on_station i ?R c c1" unfolding c1_def by (rule on_station_sta [OF takes_refl]) simp
  have s2: "on_station i ?R c c2" unfolding c2_def
    by (rule T [OF T [OF s1 on_station_out(2)] on_station_out(1)]) (rule takes_refl)+
  have s3: "on_station i ?R c2 c3" unfolding c3_def
    by (auto intro!: on_station_1x on_station_out on_station_refl takes_refl takes_rest split: option.split)
  have s4: "on_station i ?R c3 c4" unfolding c4_def by (rule on_station_1x) (rule takes_rest)
  have s5: "on_station i ?R c4 c5" unfolding c5_def by (rule on_station_1x) (rule takes_keys)
  have s6: "on_station i ?R c5 c6" unfolding c6_def by (rule on_station_1x) (rule takes_rest)
  have s7: "on_station i ?R c6 c7" unfolding c7_def by (rule on_station_1x) (rule takes_rest)
  have "on_station i ?R c (upd_1x i (\<lambda>x. x\<lparr>x_port := (x_port x)\<lparr>authFail := True\<rparr>\<rparr>) c1)"
    by (rule T [OF s1 on_station_1x]) (rule takes_rest)
  moreover have "on_station i ?R c c7" by (rule T [OF T [OF T [OF T [OF T [OF s2 s3] s4] s5] s6] s7])
  moreover have "c' = upd_1x i (\<lambda>x. x\<lparr>x_port := (x_port x)\<lparr>authFail := True\<rparr>\<rparr>) c1 \<or> c' = c2 \<or> c' = c7"
    using run unfolding receive_accept_def Let_def vlan_def [symmetric] old_def [symmetric] act_def [symmetric]
      c1_def [symmetric]
    unfolding c2_def [symmetric]
    unfolding c3_def [symmetric] c4_def [symmetric] c5_def [symmetric] c6_def [symmetric] c7_def [symmetric]
    by (simp split: if_splits)
  ultimately show ?thesis using s2 by blast
qed

lemma take_message_station:
  assumes run: "take_message conf i msg req secret c = Some c'"
  shows "on_station i glue_frame c c'"
proof -
  let ?R = "takes msg"
  note T = on_station_takes
  define c1 where "c1 = upd_1x i (\<lambda>x. x\<lparr>radius_identifier := -1, last_recv_radius := Some msg\<rparr>) c"
  define c2 where "c2 = receive_interim conf i msg c1"
  have "on_station i (\<lambda>x y. last_recv_radius y = Some msg \<and> x_eap y = x_eap x \<and> x_port y = x_port x) c c1"
    unfolding c1_def by (rule on_station_1x) simp
  moreover have s2: "on_station i ?R c1 c2"
    unfolding c2_def receive_interim_def by (auto intro!: on_station_sta on_station_refl takes_refl split: option.split)
  obtain b c3 where r: "(if hdr_code msg = RADIUS_CODE_ACCESS_ACCEPT then receive_accept conf i msg req secret c2
      else if hdr_code msg = RADIUS_CODE_ACCESS_REJECT
      then Some (True, upd_1x i (upd_eap (\<lambda>e. e\<lparr>aaaFail := True\<rparr>)) c2)
      else Some (False, upd_1x i (receive_challenge msg) c2)) = Some (b, c3)"
    and c': "c' = upd_1x i (\<lambda>x. x\<lparr>x_port := eapol_auth_step (x_port x)\<rparr>)
      (if b then upd_1x i (upd_eap (\<lambda>e. e\<lparr>aaaEapReq := False\<rparr>)) (upd_1x i ieee802_1x_decapsulate_radius c3)
       else upd_1x i ieee802_1x_decapsulate_radius c3)"
    using run unfolding take_message_def Let_def c1_def [symmetric] c2_def [symmetric]
    by (force split: option.splits)
  have s3: "on_station i ?R c2 c3"
    using r by (auto split: if_splits intro: accept_station on_station_1x takes_rest)
  have s4: "on_station i ?R c3 (upd_1x i ieee802_1x_decapsulate_radius c3)"
    by (rule on_station_1x) (rule takes_decapsulate)
  have s5: "on_station i ?R d (if b then upd_1x i (upd_eap (\<lambda>e. e\<lparr>aaaEapReq := False\<rparr>)) d else d)" for d
    by (auto intro!: on_station_1x on_station_refl takes_rest takes_refl)
  have "on_station i ?R c1 c'" unfolding c'
    by (rule T [OF T [OF T [OF T [OF s2 s3] s4] s5] on_station_1x]) (rule takes_rest)
  ultimately show ?thesis by (rule on_station_comp [rotated]) (auto simp: takes_def glue_frame_def)
qed

subsection \<open>The handlers with the client\<close>

lemma receive_auth_cases:
  assumes "ieee802_1x_receive_auth conf msg req secret c = Some (res, c')"
  obtains (same) "c' = c" "res \<noteq> RADIUS_RX_QUEUED"
  | (reject) i where "ieee802_1x_search_radius_identifier (sta_list c) (hdr_identifier msg) = Some i"
      "hdr_code msg = RADIUS_CODE_ACCESS_REJECT" "radius_msg_get_eap msg = None"
      "take_message conf i msg req secret c = Some c'" "find_attr msg RADIUS_ATTR_MESSAGE_AUTHENTICATOR = None"
  | (verified) i m where "ieee802_1x_search_radius_identifier (sta_list c) (hdr_identifier msg) = Some i"
      "radius_msg_verify msg secret (Some req) True = Some (0, m)" "take_message conf i m req secret c = Some c'"
      "hdr_code m \<in> {RADIUS_CODE_ACCESS_ACCEPT, RADIUS_CODE_ACCESS_REJECT, RADIUS_CODE_ACCESS_CHALLENGE}"
proof -
  let ?bare = "hdr_code msg = RADIUS_CODE_ACCESS_REJECT \<and>
    fst (radius_msg_get_attr msg RADIUS_ATTR_MESSAGE_AUTHENTICATOR 0) < 0 \<and>
    fst (radius_msg_get_attr msg RADIUS_ATTR_EAP_MESSAGE 0) < 0"
  consider (none) "ieee802_1x_search_radius_identifier (sta_list c) (hdr_identifier msg) = None"
    | (some) i where "ieee802_1x_search_radius_identifier (sta_list c) (hdr_identifier msg) = Some i"
    by (cases "ieee802_1x_search_radius_identifier (sta_list c) (hdr_identifier msg)") auto
  then show thesis
  proof cases
    case none
    then show thesis using assms same by (simp add: ieee802_1x_receive_auth_def)
  next
    case some
    show thesis
    proof (cases ?bare)
      case True
      then have "take_message conf i msg req secret c = Some c'"
        using assms some by (auto simp: ieee802_1x_receive_auth_def)
      then show thesis using reject some True get_eap_absent by (simp add: get_attr_absent)
    next
      case False
      obtain r m where v: "radius_msg_verify msg secret (Some req) True = Some (r, m)"
        using assms some False by (cases "radius_msg_verify msg secret (Some req) True")
          (auto simp: ieee802_1x_receive_auth_def)
      have "(if r \<noteq> 0 then Some (RADIUS_RX_INVALID_AUTHENTICATOR, c)
        else if hdr_code m \<notin> {RADIUS_CODE_ACCESS_ACCEPT, RADIUS_CODE_ACCESS_REJECT, RADIUS_CODE_ACCESS_CHALLENGE}
        then Some (RADIUS_RX_UNKNOWN, c)
        else map_option (Pair RADIUS_RX_QUEUED) (take_message conf i m req secret c)) = Some (res, c')"
        using assms unfolding ieee802_1x_receive_auth_def some option.case if_not_P [OF False] v prod.case .
      then show thesis using same verified [OF some] v by (auto split: if_splits)
    qed
  qed
qed

lemma run_handler_client:
  "run_handler conf h msg req secret c = Some (res, c') \<Longrightarrow>
   radius_client_data.truncate c' = radius_client_data.truncate c"
proof (cases h)
  case Ieee8021x_receive_auth
  assume "run_handler conf h msg req secret c = Some (res, c')"
  then have "ieee802_1x_receive_auth conf msg req secret c = Some (res, c')"
    by (simp add: run_handler_def Ieee8021x_receive_auth)
  then show ?thesis
    by (cases rule: receive_auth_cases) (auto dest!: take_message_station simp: on_station_def)
next
  case Accounting_receive
  assume "run_handler conf h msg req secret c = Some (res, c')"
  then show ?thesis
    by (auto simp: run_handler_def Accounting_receive accounting_receive_def split: option.splits if_splits)
qed

interpretation rx: radius_handlers "run_handler conf" for conf :: hapd_conf
  by unfold_locales (rule run_handler_client)

text \<open>Of all the handlers at most one changes the state, by taking the message.\<close>

lemma handlers_take_once:
  "call_handlers (run_handler conf) msg req hs n c = Some (taken, k, c') \<Longrightarrow>
   c' = c \<or> (\<exists>res. ieee802_1x_receive_auth conf msg (ml_msg req) (ml_secret req) c = Some (res, c') \<and>
     res = RADIUS_RX_QUEUED)"
proof (induction hs arbitrary: n)
  case (Cons h hs)
  then obtain res d where h: "run_handler conf h msg (ml_msg req) (ml_secret req) c = Some (res, d)"
    by (auto split: option.splits)
  show ?case
  proof (cases "res = RADIUS_RX_QUEUED")
    case True
    have "h = Ieee8021x_receive_auth"
      using h True by (cases h) (auto simp: run_handler_def accounting_receive_def split: option.splits if_splits)
    then show ?thesis using Cons.prems h True by (auto simp: run_handler_def)
  next
    case False
    have "d = c"
    proof (cases h)
      case Ieee8021x_receive_auth
      then have "ieee802_1x_receive_auth conf msg (ml_msg req) (ml_secret req) c = Some (res, d)"
        using h by (simp add: run_handler_def)
      then have "res = RADIUS_RX_QUEUED \<or> d = c"
        by (auto simp: ieee802_1x_receive_auth_def split: option.splits if_splits)
      then show ?thesis using False by simp
    next
      case Accounting_receive
      then show ?thesis using h
        by (auto simp: run_handler_def accounting_receive_def split: option.splits if_splits)
    qed
    then show ?thesis using Cons h False by (cases res) auto
  qed
qed simp

lemma receive_stations:
  assumes "radius_client_receive (run_handler conf) now t received c = Some c'"
  obtains (none) "sta_list c' = sta_list c"
  | (one) buf msg i d e where "received = Some buf" "radius_msg_parse buf = Some msg"
      "find_request t (hdr_identifier msg) (msgs c) = Some i" "sta_list d = sta_list c"
      "ieee802_1x_receive_auth conf msg (ml_msg (msgs c ! i)) (ml_secret (msgs c ! i)) d
         = Some (RADIUS_RX_QUEUED, e)" "sta_list c' = sta_list e" "hapd_calls d = hapd_calls c"
  using assms
proof (cases rule: rx.receive_cases)
  case (counted rconf)
  then show thesis using none by simp
next
  case (taken buf msg i rconf)
  note taken_facts = taken
  show thesis
    using taken(6)
  proof (cases rule: rx.take_response_run)
    case (1 k f taken n e)
    let ?d = "unlink_entry i (upd_conf (upd_server (t = RADIUS_ACCT) k f) (c\<lparr>rc_conf := rconf\<rparr>))"
    have d: "sta_list ?d = sta_list c" "hapd_calls ?d = hapd_calls c"
      by (simp_all add: unlink_entry_def upd_conf_def)
    have c': "sta_list c' = sta_list e" using 1(2) by (auto simp: upd_conf_def)
    from handlers_take_once [OF 1(1)] show thesis
    proof
      assume "e = ?d"
      then show thesis using none c' d by simp
    next
      assume "\<exists>res. ieee802_1x_receive_auth conf msg (ml_msg (msgs (c\<lparr>rc_conf := rconf\<rparr>) ! i))
        (ml_secret (msgs (c\<lparr>rc_conf := rconf\<rparr>) ! i)) ?d = Some (res, e) \<and> res = RADIUS_RX_QUEUED"
      then show thesis using taken_facts d c' by (intro one [of buf msg i ?d e]) simp_all
    qed
  qed
qed

subsection \<open>Who reaches the EAP server\<close>

lemma search_bound:
  "ieee802_1x_search_radius_identifier stas n = Some i \<Longrightarrow>
   i < length stas \<and> ieee802_1x_select_radius_identifier n (stas ! i)"
  by (induction stas n arbitrary: i rule: ieee802_1x_search_radius_identifier.induct) (auto split: if_splits)

lemma on_station_case:
  assumes "on_station i R c c'" "j < length (sta_list c)" "sta_1x (sta_list c ! j) = Some x"
  obtains (other) "j \<noteq> i" "sta_1x (sta_list c' ! j) = Some x"
  | (mine) y where "j = i" "sta_1x (sta_list c' ! j) = Some y" "R x y"
proof -
  have r: "rel_option (if j = i then R else (=)) (Some x) (sta_1x (sta_list c' ! j))"
    using assms(1,2) by (auto simp: on_station_def assms(3) [symmetric])
  show thesis
  proof (cases "j = i")
    case True
    then show thesis using r mine by (cases "sta_1x (sta_list c' ! j)") auto
  next
    case False
    then show thesis using r other by (cases "sta_1x (sta_list c' ! j)") auto
  qed
qed

text \<open>
  What a message does to the EAP server: an Access-Accept that binds the station to its VLAN is a success
  and may carry the keys, an Access-Reject is a failure, an Access-Challenge a request with its timeout.
  Whatever the code, an EAP packet of at least four octets is passed on; it counts as a request unless the
  message was an accepted Accept or a Reject.
\<close>

definition usable_eap :: "radius_msg \<Rightarrow> bytes option" where
  "usable_eap msg = (case radius_msg_get_eap msg of None \<Rightarrow> None | Some eap \<Rightarrow> if length eap < 4 then None else Some eap)"

definition vlan_granted :: "hapd_conf \<Rightarrow> radius_msg \<Rightarrow> 'p sta_info \<Rightarrow> nat \<Rightarrow> bool" where
  "vlan_granted conf msg sta n \<longleftrightarrow>
     (dynamic_vlan sta = DYNAMIC_VLAN_REQUIRED \<longrightarrow>
        radius_msg_get_vlanid msg > 0 \<and> has_vlan_ifname conf (radius_msg_get_vlanid msg)) \<and> bind_vlan_ok conf n"

definition accepted_keys :: "radius_msg \<Rightarrow> radius_msg \<Rightarrow> bytes \<Rightarrow> bytes option" where
  "accepted_keys msg req secret =
     (let keys = radius_msg_get_ms_keys msg req secret
      in case (mppe_send keys, mppe_recv keys) of (Some send, Some recv) \<Rightarrow> Some (recv @ send) | _ \<Rightarrow> None)"

definition backend_result :: "radius_msg \<Rightarrow> radius_msg \<Rightarrow> bytes \<Rightarrow> bool \<Rightarrow> 'p eap_sm \<Rightarrow> 'p eap_sm" where
  "backend_result msg req secret granted e =
     (let accept = (hdr_code msg = RADIUS_CODE_ACCESS_ACCEPT \<and> granted);
          reject = (hdr_code msg = RADIUS_CODE_ACCESS_REJECT);
          challenge = (hdr_code msg = RADIUS_CODE_ACCESS_CHALLENGE);
          keys = (if accept then accepted_keys msg req secret else None)
      in e\<lparr>aaaSuccess := aaaSuccess e \<or> accept,
           aaaFail := aaaFail e \<or> reject,
           aaaEapReq := \<not> accept \<and> \<not> reject \<and> (challenge \<or> usable_eap msg \<noteq> None \<or> aaaEapReq e),
           aaaEapNoReq := aaaEapNoReq e \<or> usable_eap msg = None,
           aaaEapReqData := (case usable_eap msg of None \<Rightarrow> aaaEapReqData e | Some eap \<Rightarrow> Some eap),
           aaaEapKeyData := (case keys of None \<Rightarrow> aaaEapKeyData e | Some k \<Rightarrow> Some k),
           aaaEapKeyAvailable := aaaEapKeyAvailable e \<or> keys \<noteq> None,
           aaaMethodTimeout := (if \<not> challenge then aaaMethodTimeout e
             else case radius_msg_get_attr_int32 msg RADIUS_ATTR_SESSION_TIMEOUT of None \<Rightarrow> 0 | Some t \<Rightarrow> sint t)\<rparr>)"

lemma sta_upd_1x:
  "i < length (sta_list c) \<Longrightarrow> sta_1x (sta_list (upd_1x i f c) ! i) = map_option f (sta_1x (sta_list c ! i))"
  "length (sta_list (upd_1x i f c)) = length (sta_list c)"
  by (simp_all add: upd_1x_def upd_sta_def)

lemma sta_upd_sta:
  "i < length (sta_list c) \<Longrightarrow> sta_list (upd_sta i f c) ! i = f (sta_list c ! i)"
  "length (sta_list (upd_sta i f c)) = length (sta_list c)" "hapd_calls (upd_sta i f c) = hapd_calls c"
  by (simp_all add: upd_sta_def)

lemma glue_calls [simp]:
  "sta_list (hapd_emit ev c) = sta_list c" "sta_list (c\<lparr>hapd_calls := n\<rparr>) = sta_list c"
  "hapd_calls (upd_1x i f c) = hapd_calls c"
  by (simp_all add: hapd_emit_def upd_1x_def upd_sta_def)

text \<open>The steps that do not touch the EAP server.\<close>

lemma class_identity_eap:
  "x_eap (ieee802_1x_store_radius_class b msg x) = x_eap x" "x_eap (ieee802_1x_update_sta_identity msg x) = x_eap x"
  "last_recv_radius (ieee802_1x_store_radius_class b msg x) = last_recv_radius x"
  "last_recv_radius (ieee802_1x_update_sta_identity msg x) = last_recv_radius x"
  "radius_identifier (ieee802_1x_store_radius_class b msg x) = radius_identifier x"
  "radius_identifier (ieee802_1x_update_sta_identity msg x) = radius_identifier x"
  by (auto simp: ieee802_1x_store_radius_class_def ieee802_1x_update_sta_identity_def Let_def split: option.split)

lemma get_keys_eap:
  "ieee802_1x_get_keys msg req secret x = x\<lparr>x_eap := (case accepted_keys msg req secret of None \<Rightarrow> x_eap x
     | Some k \<Rightarrow> (x_eap x)\<lparr>aaaEapKeyData := Some k, aaaEapKeyAvailable := True\<rparr>)\<rparr>"
  by (cases "radius_msg_get_ms_keys msg req secret")
    (auto simp: ieee802_1x_get_keys_def accepted_keys_def Let_def upd_eap_def split: option.split)

lemma decapsulate_eap:
  "last_recv_radius x = Some msg \<Longrightarrow> x_eap (ieee802_1x_decapsulate_radius x) =
     (case usable_eap msg of None \<Rightarrow> (x_eap x)\<lparr>aaaEapNoReq := True\<rparr>
      | Some eap \<Rightarrow> (x_eap x)\<lparr>aaaEapReq := True, aaaEapReqData := Some eap\<rparr>)"
  "last_recv_radius (ieee802_1x_decapsulate_radius x) = last_recv_radius x"
  "radius_identifier (ieee802_1x_decapsulate_radius x) = radius_identifier x"
  by (auto simp: ieee802_1x_decapsulate_radius_def usable_eap_def upd_eap_def Let_def split: option.split)

text \<open>What stays of a station while its message is taken, with the EAP server it ends with.\<close>

definition taken_as :: "radius_msg \<Rightarrow> 'p eap_sm \<Rightarrow> 'p hostapd_data \<Rightarrow> nat \<Rightarrow> bool" where
  "taken_as msg e c i \<longleftrightarrow> i < length (sta_list c) \<and>
     (\<exists>y. sta_1x (sta_list c ! i) = Some y \<and> last_recv_radius y = Some msg \<and> radius_identifier y = -1 \<and> x_eap y = e)"

lemma taken_1x:
  "taken_as msg e c i \<Longrightarrow>
   (\<And>y. last_recv_radius y = Some msg \<Longrightarrow> radius_identifier y = -1 \<Longrightarrow> x_eap y = e \<Longrightarrow>
      last_recv_radius (f y) = Some msg \<and> radius_identifier (f y) = -1 \<and> x_eap (f y) = e') \<Longrightarrow>
   taken_as msg e' (upd_1x i f c) i"
  by (auto simp: taken_as_def sta_upd_1x)

lemma taken_other:
  "taken_as msg e c i \<Longrightarrow> (\<And>sta. sta_1x (f sta) = sta_1x sta) \<Longrightarrow> taken_as msg e (upd_sta i f c) i"
  "taken_as msg e (hapd_emit ev c) i = taken_as msg e c i" "taken_as msg e (c\<lparr>hapd_calls := n\<rparr>) i = taken_as msg e c i"
  by (auto simp: taken_as_def sta_upd_sta)

lemma accept_result:
  assumes run: "receive_accept conf i msg req secret c = Some (b, c')" and t: "taken_as msg e c i"
  shows "b = vlan_granted conf msg (sta_list c ! i) (hapd_calls c)"
    and "taken_as msg (if b then case accepted_keys msg req secret of None \<Rightarrow> e\<lparr>aaaSuccess := True\<rparr>
        | Some k \<Rightarrow> e\<lparr>aaaSuccess := True, aaaEapKeyData := Some k, aaaEapKeyAvailable := True\<rparr> else e) c' i"
proof -
  let ?sta = "sta_list c ! i"
  define vlan where "vlan = (if dynamic_vlan ?sta = DYNAMIC_VLAN_DISABLED then 0 else radius_msg_get_vlanid msg)"
  define old where "old = (if dynamic_vlan ?sta = DYNAMIC_VLAN_DISABLED then 0 else vlan_id ?sta)"
  define act where "act = (case radius_msg_get_attr_int32 msg RADIUS_ATTR_TERMINATION_ACTION of None \<Rightarrow> 0 | Some a \<Rightarrow> a)"
  define c1 where "c1 = upd_sta i (\<lambda>sta. sta\<lparr>vlan_id := vlan\<rparr>) c"
  define c2 where "c2 = hapd_emit (BindVlan (sta_addr ?sta) old) (c1\<lparr>hapd_calls := hapd_calls c1 + 1\<rparr>)"
  define c3 where "c3 = (case radius_msg_get_attr_int32 msg RADIUS_ATTR_SESSION_TIMEOUT of None \<Rightarrow> c2
    | Some t \<Rightarrow> if act = RADIUS_TERMINATION_ACTION_RADIUS_REQUEST
        then upd_1x i (\<lambda>x. x\<lparr>x_port := (x_port x)\<lparr>reAuthPeriod := t\<rparr>\<rparr>) c2
        else hapd_emit (SessionTimeout (sta_addr ?sta) t) c2)"
  define c4 where "c4 = upd_1x i (upd_eap (\<lambda>e. e\<lparr>aaaSuccess := True\<rparr>)) c3"
  define c5 where "c5 = upd_1x i (ieee802_1x_get_keys msg req secret) c4"
  define c6 where "c6 = upd_1x i (ieee802_1x_store_radius_class (current_server True (rc_conf c5) \<noteq> None) msg) c5"
  define c7 where "c7 = upd_1x i (ieee802_1x_update_sta_identity msg) c6"
  define r where "r = upd_1x i (\<lambda>x. x\<lparr>x_port := (x_port x)\<lparr>authFail := True\<rparr>\<rparr>) c1"
  let ?e5 = "case accepted_keys msg req secret of None \<Rightarrow> e\<lparr>aaaSuccess := True\<rparr>
        | Some k \<Rightarrow> e\<lparr>aaaSuccess := True, aaaEapKeyData := Some k, aaaEapKeyAvailable := True\<rparr>"
  have 1: "taken_as msg e c1 i" unfolding c1_def by (rule taken_other(1) [OF t]) simp
  have 2: "taken_as msg e c2 i" unfolding c2_def taken_other(2,3) by (rule 1)
  have 3: "taken_as msg e c3 i" unfolding c3_def
    using 2 by (auto simp: taken_other(2) split: option.split intro: taken_1x)
  have 4: "taken_as msg (e\<lparr>aaaSuccess := True\<rparr>) c4 i" unfolding c4_def by (rule taken_1x [OF 3]) (simp add: upd_eap_def)
  have 5: "taken_as msg ?e5 c5 i" unfolding c5_def by (rule taken_1x [OF 4]) (simp add: get_keys_eap split: option.split)
  have 6: "taken_as msg ?e5 c6 i" unfolding c6_def by (rule taken_1x [OF 5]) (simp add: class_identity_eap)
  have 7: "taken_as msg ?e5 c7 i" unfolding c7_def by (rule taken_1x [OF 6]) (simp add: class_identity_eap)
  have 8: "taken_as msg e r i" unfolding r_def by (rule taken_1x [OF 1]) simp
  have c1: "hapd_calls c1 = hapd_calls c" by (simp add: c1_def sta_upd_sta)
  have g: "vlan_granted conf msg ?sta (hapd_calls c) \<longleftrightarrow>
      \<not> (\<not> (vlan > 0 \<and> has_vlan_ifname conf vlan) \<and> dynamic_vlan ?sta = DYNAMIC_VLAN_REQUIRED) \<and> bind_vlan_ok conf (hapd_calls c1)"
    by (auto simp: vlan_granted_def vlan_def c1)
  have "\<not> vlan_granted conf msg ?sta (hapd_calls c) \<and> \<not> b \<and> (c' = r \<or> c' = c2) \<or>
      vlan_granted conf msg ?sta (hapd_calls c) \<and> b \<and> c' = c7"
    using run unfolding receive_accept_def Let_def vlan_def [symmetric] old_def [symmetric] act_def [symmetric]
      c1_def [symmetric]
    unfolding c2_def [symmetric] r_def [symmetric]
    unfolding c3_def [symmetric] c4_def [symmetric] c5_def [symmetric] c6_def [symmetric] c7_def [symmetric] g
    by (simp split: if_splits)
  then show "b = vlan_granted conf msg (sta_list c ! i) (hapd_calls c)"
    "taken_as msg (if b then ?e5 else e) c' i" using 2 7 8 by auto
qed

lemma taken_end:
  assumes "taken_as msg e c i"
  shows "taken_as msg (let e = (case usable_eap msg of None \<Rightarrow> e\<lparr>aaaEapNoReq := True\<rparr>
        | Some eap \<Rightarrow> e\<lparr>aaaEapReq := True, aaaEapReqData := Some eap\<rparr>) in if b then e\<lparr>aaaEapReq := False\<rparr> else e)
     (upd_1x i (\<lambda>x. x\<lparr>x_port := eapol_auth_step (x_port x)\<rparr>)
       (if b then upd_1x i (upd_eap (\<lambda>e. e\<lparr>aaaEapReq := False\<rparr>)) (upd_1x i ieee802_1x_decapsulate_radius c)
        else upd_1x i ieee802_1x_decapsulate_radius c)) i"
proof -
  let ?e = "case usable_eap msg of None \<Rightarrow> e\<lparr>aaaEapNoReq := True\<rparr>
      | Some eap \<Rightarrow> e\<lparr>aaaEapReq := True, aaaEapReqData := Some eap\<rparr>" and ?c = "upd_1x i ieee802_1x_decapsulate_radius c"
  have d: "taken_as msg ?e ?c i"
    by (rule taken_1x [OF assms]) (simp add: decapsulate_eap split: option.split)
  have "taken_as msg (?e\<lparr>aaaEapReq := False\<rparr>) (upd_1x i (upd_eap (\<lambda>e. e\<lparr>aaaEapReq := False\<rparr>)) ?c) i"
    by (rule taken_1x [OF d]) (simp add: upd_eap_def)
  with d have "taken_as msg (if b then ?e\<lparr>aaaEapReq := False\<rparr> else ?e)
      (if b then upd_1x i (upd_eap (\<lambda>e. e\<lparr>aaaEapReq := False\<rparr>)) ?c else ?c) i" by simp
  from taken_1x [OF this] show ?thesis unfolding Let_def by simp
qed

lemma take_message_result:
  assumes run: "take_message conf i msg req secret c = Some c'"
    and code: "hdr_code msg \<in> {RADIUS_CODE_ACCESS_ACCEPT, RADIUS_CODE_ACCESS_REJECT, RADIUS_CODE_ACCESS_CHALLENGE}"
    and x: "i < length (sta_list c)" "sta_1x (sta_list c ! i) = Some x"
  shows "taken_as msg (backend_result msg req secret (vlan_granted conf msg (sta_list c ! i) (hapd_calls c)) (x_eap x)) c' i"
proof -
  let ?g = "vlan_granted conf msg (sta_list c ! i) (hapd_calls c)" and ?e = "x_eap x"
  define c1 where "c1 = upd_1x i (\<lambda>x. x\<lparr>radius_identifier := -1, last_recv_radius := Some msg\<rparr>) c"
  define c2 where "c2 = receive_interim conf i msg c1"
  have 1: "taken_as msg ?e c1 i" using x by (simp add: taken_as_def c1_def sta_upd_1x)
  have 2: "taken_as msg ?e c2 i" unfolding c2_def receive_interim_def
    using 1 by (auto split: option.split intro: taken_other(1))
  have same: "dynamic_vlan (sta_list c2 ! i) = dynamic_vlan (sta_list c ! i)" "hapd_calls c2 = hapd_calls c"
    using x by (auto simp: c2_def c1_def receive_interim_def upd_1x_def sta_upd_sta split: option.split)
  have g: "vlan_granted conf msg (sta_list c2 ! i) (hapd_calls c2) = ?g"
    by (simp add: vlan_granted_def same)
  obtain b c3 where r: "(if hdr_code msg = RADIUS_CODE_ACCESS_ACCEPT then receive_accept conf i msg req secret c2
      else if hdr_code msg = RADIUS_CODE_ACCESS_REJECT
      then Some (True, upd_1x i (upd_eap (\<lambda>e. e\<lparr>aaaFail := True\<rparr>)) c2)
      else Some (False, upd_1x i (receive_challenge msg) c2)) = Some (b, c3)"
    and c': "c' = upd_1x i (\<lambda>x. x\<lparr>x_port := eapol_auth_step (x_port x)\<rparr>)
      (if b then upd_1x i (upd_eap (\<lambda>e. e\<lparr>aaaEapReq := False\<rparr>)) (upd_1x i ieee802_1x_decapsulate_radius c3)
       else upd_1x i ieee802_1x_decapsulate_radius c3)"
    using run unfolding take_message_def Let_def c1_def [symmetric] c2_def [symmetric]
    by (force split: option.splits)
  have codes: "RADIUS_CODE_ACCESS_ACCEPT \<noteq> RADIUS_CODE_ACCESS_REJECT" "RADIUS_CODE_ACCESS_ACCEPT \<noteq> RADIUS_CODE_ACCESS_CHALLENGE"
    "RADIUS_CODE_ACCESS_REJECT \<noteq> RADIUS_CODE_ACCESS_CHALLENGE"
    by (simp_all add: RADIUS_CODE_ACCESS_ACCEPT_def RADIUS_CODE_ACCESS_REJECT_def RADIUS_CODE_ACCESS_CHALLENGE_def)
  note last = taken_end [where b = b and i = i and c = c3, folded c']
  from code consider "hdr_code msg = RADIUS_CODE_ACCESS_ACCEPT" | "hdr_code msg = RADIUS_CODE_ACCESS_REJECT"
    | "hdr_code msg = RADIUS_CODE_ACCESS_CHALLENGE" by blast
  then show ?thesis
  proof cases
    case 1
    then have "receive_accept conf i msg req secret c2 = Some (b, c3)" using r by simp
    note a = accept_result [OF this 2, unfolded g]
    from last [OF a(2)] show ?thesis
      by (rule back_subst [where P = "\<lambda>e. taken_as msg e c' i"], use 1 codes a(1) in
          \<open>cases b; cases "usable_eap msg"; cases "accepted_keys msg req secret"\<close>;
          intro eap_sm.equality; simp add: backend_result_def Let_def)
  next
    case 2
    then have b: "b" "c3 = upd_1x i (upd_eap (\<lambda>e. e\<lparr>aaaFail := True\<rparr>)) c2" using r codes by auto
    from this have "taken_as msg (?e\<lparr>aaaFail := True\<rparr>) c3 i"
      using \<open>taken_as msg ?e c2 i\<close> by (auto intro!: taken_1x simp: upd_eap_def)
    from last [OF this] show ?thesis
      by (rule back_subst [where P = "\<lambda>e. taken_as msg e c' i"], use 2 codes b in \<open>cases "usable_eap msg"\<close>;
          intro eap_sm.equality; simp add: backend_result_def Let_def)
  next
    case 3
    then have b: "\<not> b" "c3 = upd_1x i (receive_challenge msg) c2" using r codes by auto
    from this have "taken_as msg (?e\<lparr>aaaEapReq := True, aaaMethodTimeout :=
        (case radius_msg_get_attr_int32 msg RADIUS_ATTR_SESSION_TIMEOUT of None \<Rightarrow> 0 | Some t \<Rightarrow> sint t)\<rparr>) c3 i"
      using \<open>taken_as msg ?e c2 i\<close> by (auto intro!: taken_1x simp: upd_eap_def receive_challenge_def)
    from last [OF this] show ?thesis
      by (rule back_subst [where P = "\<lambda>e. taken_as msg e c' i"], use 3 codes b in \<open>cases "usable_eap msg"\<close>;
          intro eap_sm.equality; simp add: backend_result_def Let_def)
  qed
qed

definition first_request :: "RadiusType \<Rightarrow> radius_msg \<Rightarrow> 'p hostapd_data \<Rightarrow> radius_msg_list option" where
  "first_request t msg c = map_option (\<lambda>i. msgs c ! i) (find_request t (hdr_identifier msg) (msgs c))"

text \<open>
  C5: What reaches the EAP server of a station comes from the RADIUS server. If the arrival of a
  datagram, or of anything else on the socket, changes the EAP server of a station, then the datagram
  parses, a request with its identifier is pending, and the station is the first one that waits for a response with
  this identifier. The message passes the check of both authenticators under the secret of that
  request, or it is a bare Access-Reject, without Message-Authenticator and EAP-Message, which is not
  checked. The server then has exactly the input that \<open>backend_result\<close> reads from the message:
  a success only from an Access-Accept whose VLAN is granted, a failure only from an Access-Reject, a
  request only from an Access-Challenge or an Accept whose VLAN is refused, the EAP packet of the message, and the keys that the secret
  decrypts only with a success; nothing else of it changes, the machines of the port get at most
  \<open>authFail\<close>, a new reauthentication period and a request to run, and the
  station no longer waits. The identifier is all that ties the response to the station: that the pending request
  is the station's own is not checked by the code.
\<close>

theorem backend_input_authentic:
  assumes "radius_client_receive (run_handler conf) now t received c = Some c'"
    and "radius_reach (run_handler conf) c"
    and "j < length (sta_list c)" and "sta_1x (sta_list c ! j) = Some x"
  shows "\<exists>y. sta_1x (sta_list c' ! j) = Some y \<and> (x_eap y \<noteq> x_eap x \<longrightarrow>
    (\<exists>buf msg req. received = Some buf \<and> radius_msg_parse buf = Some msg \<and>
       first_request t msg c = Some req \<and>
       ieee802_1x_search_radius_identifier (sta_list c) (hdr_identifier msg) = Some j \<and>
       radius_identifier x = uint (hdr_identifier msg) \<and>
       (radius_msg_verify msg (ml_secret req) (Some (ml_msg req)) True = Some (0, msg) \<and>
          hdr_code msg \<in> {RADIUS_CODE_ACCESS_ACCEPT, RADIUS_CODE_ACCESS_REJECT, RADIUS_CODE_ACCESS_CHALLENGE} \<or>
        hdr_code msg = RADIUS_CODE_ACCESS_REJECT \<and>
          find_attr msg RADIUS_ATTR_MESSAGE_AUTHENTICATOR = None \<and> radius_msg_get_eap msg = None) \<and>
       x_eap y = backend_result msg (ml_msg req) (ml_secret req)
         (vlan_granted conf msg (sta_list c ! j) (hapd_calls c)) (x_eap x) \<and>
       (x_port y)\<lparr>authFail := False, reAuthPeriod := 0, outputs := []\<rparr> =
         (x_port x)\<lparr>authFail := False, reAuthPeriod := 0, outputs := []\<rparr> \<and>
       radius_identifier y = -1 \<and> last_recv_radius y = Some msg))"
  using assms(1)
proof (cases rule: receive_stations)
  case none
  then show ?thesis using assms(4) by simp
next
  case (one buf msg i d e)
  define req where "req = msgs c ! i"
  have ok: "client_ok c" by (rule rx.client_reach_ok [OF assms(2)])
  have bound: "i < length (msgs c)" using rx.find_request_bound one(3) by simp
  have sent: "sent_ok (ml_msg req)"
    using ok bound by (auto simp: client_ok_def pool_ok_def entries_ok_def list_all_length tried_below_def
        sent_ok_def req_def)
  have first: "first_request t msg c = Some req" by (simp add: first_request_def one(3) req_def)
  have x: "j < length (sta_list d)" "sta_1x (sta_list d ! j) = Some x" using assms(3,4) one(4) by simp_all
  show ?thesis
  proof (cases "sta_1x (sta_list c' ! j) = Some x")
    case True
    then show ?thesis by simp
  next
    case changed: False
    have result: "\<exists>y. sta_1x (sta_list c' ! j) = Some y \<and> last_recv_radius y = Some msg \<and> radius_identifier y = -1 \<and>
        x_eap y = backend_result msg (ml_msg req) (ml_secret req)
          (vlan_granted conf msg (sta_list c ! j) (hapd_calls c)) (x_eap x) \<and> glue_frame x y \<and> k = j"
      if run: "take_message conf k msg (ml_msg req) (ml_secret req) d = Some e"
        and code: "hdr_code msg \<in> {RADIUS_CODE_ACCESS_ACCEPT, RADIUS_CODE_ACCESS_REJECT, RADIUS_CODE_ACCESS_CHALLENGE}" for k
      using take_message_station [OF run] x
    proof (cases rule: on_station_case)
      case other
      then show ?thesis using changed one(6) by simp
    next
      case (mine y)
      then show ?thesis using take_message_result [OF run code] x one(4,6,7) by (auto simp: taken_as_def)
    qed
    have sel: "radius_identifier x = uint (hdr_identifier msg)"
      if "ieee802_1x_search_radius_identifier (sta_list d) (hdr_identifier msg) = Some j"
      using search_bound [OF that] x by (simp add: ieee802_1x_select_radius_identifier_def)
    from one(5) [folded req_def] show ?thesis
    proof (cases rule: receive_auth_cases)
      case same
      then show ?thesis using changed x one(6) by simp
    next
      case (reject k)
      obtain y where y: "sta_1x (sta_list c' ! j) = Some y" "last_recv_radius y = Some msg" "radius_identifier y = -1"
          "x_eap y = backend_result msg (ml_msg req) (ml_secret req)
             (vlan_granted conf msg (sta_list c ! j) (hapd_calls c)) (x_eap x)" "glue_frame x y" "k = j"
        using result [OF reject(4)] reject(2) by auto
      show ?thesis using y one(1,2,4) first reject sel
        by (intro exI [of _ y] conjI impI exI [of _ buf] exI [of _ msg] exI [of _ req] disjI2) (simp_all add: glue_frame_def)
    next
      case (verified k m)
      have m: "m = msg" by (rule verify_restores [OF one(2) sent verified(2)])
      obtain y where y: "sta_1x (sta_list c' ! j) = Some y" "last_recv_radius y = Some msg" "radius_identifier y = -1"
          "x_eap y = backend_result msg (ml_msg req) (ml_secret req)
             (vlan_granted conf msg (sta_list c ! j) (hapd_calls c)) (x_eap x)" "glue_frame x y" "k = j"
        using result [OF verified(3,4) [unfolded m]] by auto
      show ?thesis using y one(1,2,4) first verified(1,2,4) [unfolded m] sel
        by (intro exI [of _ y] conjI impI exI [of _ buf] exI [of _ msg] exI [of _ req] disjI1) (simp_all add: glue_frame_def)
    qed
  qed
qed

subsection \<open>The stations' side\<close>

text \<open>A message is only extended while it is built, so its header stays.\<close>

definition grows :: "radius_msg \<Rightarrow> radius_msg \<Rightarrow> bool" where
  "grows msg m \<longleftrightarrow> (\<exists>r. rm_buf m = rm_buf msg @ r)"

lemma grows_refl: "grows msg msg"
  by (simp add: grows_def)

lemma grows_trans: "grows a b \<Longrightarrow> grows b c \<Longrightarrow> grows a c"
  by (auto simp: grows_def)

lemma add_attr_grows: "radius_msg_add_attr msg t d = Some (p, m) \<Longrightarrow> grows msg m"
  by (auto simp: grows_def radius_msg_add_attr_def Let_def radius_msg_add_attr_to_array_def split: if_splits)

lemma add_attrs_grows: "add_attrs as msg = Some m \<Longrightarrow> grows msg m"
proof (induction as msg rule: add_attrs.induct)
  case (2 t d as msg)
  then obtain p n where n: "radius_msg_add_attr msg t d = Some (p, n)" "add_attrs as n = Some m"
    by (auto split: option.splits)
  have "grows n m" by (rule 2(1) [OF n(1) _ n(2)]) simp
  with add_attr_grows [OF n(1)] show ?case by (rule grows_trans)
qed (simp add: grows_refl)

lemma add_eap_grows: "add_eap_loop eap msg = (r, m) \<Longrightarrow> grows msg m"
proof (induction eap msg rule: add_eap_loop.induct)
  case (1 pos msg)
  define len where "len = (if length pos > RADIUS_MAX_ATTR_LEN then RADIUS_MAX_ATTR_LEN else length pos)"
  show ?case
  proof (cases "0 < length pos \<and> radius_msg_add_attr msg RADIUS_ATTR_EAP_MESSAGE (take len pos) \<noteq> None")
    case True
    then obtain p n where n: "radius_msg_add_attr msg RADIUS_ATTR_EAP_MESSAGE (take len pos) = Some (p, n)" by auto
    have "add_eap_loop (drop len pos) n = (r, m)"
      using 1(2) True n by (subst (asm) add_eap_loop.simps) (simp add: Let_def len_def [symmetric])
    then have "grows n m" using True n by (intro 1(1) [OF _ len_def n]) simp_all
    with add_attr_grows [OF n] show ?thesis by (rule grows_trans)
  next
    case False
    then have "m = msg" using 1(2)
      by (subst (asm) add_eap_loop.simps)
        (auto simp: Let_def len_def [symmetric] split: if_splits option.splits)
    then show ?thesis by (simp add: grows_refl)
  qed
qed

lemma copy_attr_grows: "copy_attr_loop src t dst n ps = (r, m) \<Longrightarrow> grows dst m"
proof (induction ps arbitrary: dst n)
  case (Cons p ps)
  show ?case
  proof (cases "attr_type src p = t")
    case True
    then show ?thesis
      using Cons grows_refl grows_trans [OF add_attr_grows] by (auto split: option.splits)
  qed (use Cons in auto)
qed (simp add: grows_refl)

lemma access_request_header:
  assumes "access_request conf sta x rnd i eap = Some m"
  shows "hdr_identifier m = i" "20 \<le> length (rm_buf m)"
proof -
  obtain tv data l where rnd: "rnd = (tv, data, l)" by (cases rnd)
  define n where "n = radius_msg_make_authenticator (radius_msg_new RADIUS_CODE_ACCESS_REQUEST i) data tv l"
  have n: "hdr_identifier n = i" "length (rm_buf n) = 20"
    by (simp_all add: n_def radius_msg_make_authenticator_def set_hdr_authenticator_def hdr_identifier_def
        memcpy_keeps length_md5_vector radius_msg_new_def radius_msg_set_hdr_def radius_len_defs)
  obtain m1 where m1: "add_attrs (request_attrs conf sta x) n = Some m1"
    using assms by (auto simp: access_request_def rnd n_def split: option.splits)
  obtain r m2 where m2: "radius_msg_add_eap m1 eap = (r, m2)" by fastforce
  have "m = m2 \<or> (\<exists>s q. radius_msg_copy_attr m2 s RADIUS_ATTR_STATE = (q, m))"
    using assms m1 m2 by (auto simp: access_request_def rnd n_def [symmetric] split: if_splits option.splits prod.splits)
  then have "grows m2 m" by (auto simp: radius_msg_copy_attr_def grows_refl dest: copy_attr_grows)
  moreover have "grows m1 m2" using m2 add_eap_grows by (auto simp: radius_msg_add_eap_def)
  ultimately have "grows n m" using add_attrs_grows [OF m1] grows_trans by blast
  then show "hdr_identifier m = i" "20 \<le> length (rm_buf m)" using n by (auto simp: grows_def hdr_identifier_def nth_append)
qed

text \<open>Sending a station's packet is a step of the client, as the runs allow it.\<close>

lemma get_id_commutes:
  "radius_client_get_id c = (i, d) \<Longrightarrow> radius_client_data.truncate e = radius_client_data.truncate d \<Longrightarrow>
   \<exists>c'. radius_client_data.truncate c' = radius_client_data.truncate c \<and> radius_client_get_id c' = (i, e)"
proof -
  assume g: "radius_client_get_id c = (i, d)" and t: "radius_client_data.truncate e = radius_client_data.truncate d"
  define c' where "c' = e\<lparr>msgs := msgs c, next_radius_identifier := next_radius_identifier c\<rparr>"
  have d: "d = c\<lparr>next_radius_identifier := i + 1, msgs := filter (\<lambda>x. entry_id x \<noteq> i) (msgs c)\<rparr>"
    "i = next_radius_identifier c"
    using g by (auto simp: radius_client_get_id_def Let_def)
  have "radius_client_data.truncate c' = radius_client_data.truncate c"
    using t by (simp add: c'_def d radius_client_data.truncate_def)
  moreover have "e\<lparr>next_radius_identifier := i + 1, msgs := filter (\<lambda>x. entry_id x \<noteq> i) (msgs c)\<rparr> = e"
    using t by (cases e) (simp add: d(1) radius_client_data.truncate_def)
  then have "radius_client_get_id c' = (i, e)"
    by (simp add: radius_client_get_id_def Let_def c'_def d(2))
  ultimately show ?thesis by blast
qed

lemma encapsulate_reach:
  assumes "radius_reach call c" "ieee802_1x_encapsulate_radius sys now conf j eap c = Some c'"
  shows "radius_reach call c'"
proof (cases "sta_1x (sta_list c ! j)")
  case (Some x)
  define c1 where "c1 = upd_1x j (ieee802_1x_learn_identity eap) c"
  obtain i d where g: "radius_client_get_id c1 = (i, d)" by fastforce
  define d2 where "d2 = upd_1x j (\<lambda>x. x\<lparr>radius_identifier := uint i\<rparr>) d"
  define e where "e = d2\<lparr>hapd_calls := hapd_calls d2 + 1\<rparr>"
  have c1: "radius_reach call c1"
    by (rule radius_reach.step [OF assms(1) radius_step.other]) (simp add: c1_def)
  have e: "radius_client_data.truncate e = radius_client_data.truncate d" by (simp add: e_def d2_def)
  obtain c0 where c0: "radius_client_data.truncate c0 = radius_client_data.truncate c1" "radius_client_get_id c0 = (i, e)"
    using get_id_commutes [OF g e] by blast
  have r0: "radius_reach call c0" by (rule radius_reach.step [OF c1 radius_step.other]) (rule c0)
  define sta where "sta = sta_list e ! j"
  note run = assms(2) [unfolded ieee802_1x_encapsulate_radius_def Some option.case Let_def, folded c1_def,
      unfolded g prod.case, folded d2_def, folded e_def, folded sta_def]
  show ?thesis
  proof (cases "access_request conf sta (the (sta_1x sta)) (random_octets conf (hapd_calls d2)) i eap")
    case None
    then have "c' = e" using run by simp
    then show ?thesis using radius_reach.step [OF r0 radius_step.unused_id [OF c0(2)]] by simp
  next
    case (Some msg)
    then obtain res where "radius_client_send sys now msg RADIUS_AUTH (Some (sta_addr sta)) e = Some (res, c')"
      using run by (auto split: option.splits if_splits)
    with access_request_header [OF Some] show ?thesis
      by (intro radius_reach.step [OF r0 radius_step.request [OF c0(2)]])
  qed
qed (use assms in \<open>simp add: ieee802_1x_encapsulate_radius_def\<close>)

lemma handle_eap_entry: "server_entry (x_eap x) (x_eap (handle_eap buf x))"
  by (auto simp: handle_eap_def handle_eap_response_def upd_eap_def Let_def
      intro: server_entry.entry_none server_entry.entry_response)

subsection \<open>The client in the access point\<close>

text \<open>
  C19: The queue of the RADIUS client is bounded and unambiguous. In every state that the access point
  can reach, whatever the network and the operating system answer, at most 30 requests wait, no two
  of them with the same identifier, each with an attempt counter below ten, which a change of the server
  sets back, and with at most two minutes to wait; while a request waits a timer is registered.
\<close>

theorem radius_queue_bounded:
  assumes "radius_reach (run_handler conf) c"
  shows "length (msgs c) \<le> 30 \<and> distinct (map (\<lambda>e. hdr_identifier (ml_msg e)) (msgs c)) \<and>
    (\<forall>e \<in> set (msgs c). attempts e < 10 \<and> 0 < next_wait e \<and> next_wait e \<le> 120) \<and>
    (msgs c \<noteq> [] \<longrightarrow> client_timers c \<noteq> [])"
  using rx.client_reach_ok [OF assms]
  by (auto simp: client_ok_def pool_ok_def entries_ok_def list_all_iff tried_below_def radius_client_consts)

text \<open>
  C20: A response counts once. After a datagram has been matched with a pending request, the same
  datagram does nothing but add one to the counter of its code in the server that is then current - secrets, addresses, the
  choice of the server, the pending requests, the stations and their EAP servers stay as they are -
  whatever happens in between except that a new request takes an identifier.
\<close>

theorem radius_response_counts_once:
  assumes "radius_reach (run_handler conf) c"
    and "radius_client_receive (run_handler conf) now t (Some buf) c = Some d"
    and "radius_msg_parse buf = Some msg" "first_request t msg c = Some req" "length buf < 3000"
    and "radius_quiet (run_handler conf) d e"
    and "radius_client_receive (run_handler conf) now' t' (Some buf) e = Some f"
  shows "f = e\<lparr>rc_conf := answer_counted (t' = RADIUS_ACCT) (hdr_code msg) (rc_conf e)\<rparr>"
  by (rule rx.response_used_once [OF assms(1-3) _ assms(5-7)])
     (use assms(4) in \<open>auto simp: first_request_def\<close>)

text \<open>
  C21: When a retransmission uses a freed entry. In a reachable state the retransmission of a
  pending request goes wrong exactly when it is a request for authentication, its send fails with an
  error that makes the client connect again, and a socket can be created: connecting flushes the
  requests for authentication, the one that is being sent with them. In all other cases it succeeds.
\<close>

theorem radius_retransmit_faults_exactly:
  assumes "radius_reach (run_handler conf) c" and "i < length (msgs c)"
  shows "radius_client_retransmit sys now i c = None \<longleftrightarrow>
    msg_type (msgs c ! i) = RADIUS_AUTH \<and> sys_send sys (sys_calls c) = SendFailed True \<and>
    (sys_socket sys (sys_calls c + 1) \<ge> 0 \<or> sys_socket sys (sys_calls c + 2) \<ge> 0)"
  by (rule retransmit_faults) (use rx.client_reach_ok [OF assms(1)] assms(2) in \<open>auto simp: client_ok_def\<close>)

text \<open>
  The access point is an allowed environment of its EAP servers: whatever arrives from the RADIUS
  server, each station keeps its place, and its EAP server makes a step that the runs of
  \<^theory_text>\<open>EapServe\<close> allow the rest of the program to make.
\<close>

lemma radius_step_is_server_entry:
  assumes "radius_client_receive (run_handler conf) now t received c = Some c'"
    and "j < length (sta_list c)" "sta_1x (sta_list c ! j) = Some x"
  shows "\<exists>y. sta_1x (sta_list c' ! j) = Some y \<and> server_entry (x_eap x) (x_eap y)"
  using assms(1)
proof (cases rule: receive_stations)
  case none
  then show ?thesis using assms(3) server_entry.entry_none by auto
next
  case (one buf msg i d e)
  have x: "j < length (sta_list d)" "sta_1x (sta_list d ! j) = Some x" using assms(2,3) one(4) by simp_all
  have "\<exists>y. sta_1x (sta_list e ! j) = Some y \<and> without_aaa (x_eap y) = without_aaa (x_eap x)"
    if "take_message conf k m req secret d = Some e" for k m req secret
    using take_message_station [OF that] x
    by (cases rule: on_station_case) (auto simp: glue_frame_def)
  then have t: "\<exists>y. sta_1x (sta_list c' ! j) = Some y \<and> server_entry (x_eap x) (x_eap y)"
    if "take_message conf k m req secret d = Some e" for k m req secret
    using that one(6) without_aaa_entry by metis
  from one(5) show ?thesis by (cases rule: receive_auth_cases) (simp, (erule t)+)
qed

subsection \<open>A station with a pending request\<close>

definition sample_sys :: sys_answers where
  "sample_sys = \<lparr>sys_send = (\<lambda>_. Sent 1), sys_socket = (\<lambda>_. 5), sys_bind = (\<lambda>_. True), sys_connect = (\<lambda>_. True),
     sys_register = (\<lambda>_. True), sys_terminated = (\<lambda>_. False)\<rparr>"

definition sample_servers :: hostapd_radius_servers where
  "sample_servers = \<lparr>auth_servers = [\<lparr>rs_addr = AF_INET [10, 0, 0, 1], rs_port = 1812, shared_secret = [1, 2, 3],
       round_trip_time = 0, requests = 0, retransmissions = 0, access_accepts = 0, access_rejects = 0,
       access_challenges = 0, responses = 0, malformed_responses = 0, bad_authenticators = 0, timeouts = 0,
       unknown_types = 0\<rparr>], auth_server = Some 0, acct_servers = [], acct_server = None,
     retry_primary_interval = 0, client_addr = AF_OTHER, force_client_addr = False\<rparr>"

definition sample_hapd :: "'p eapol_1x \<Rightarrow> 'p hostapd_data" where
  "sample_hapd x = \<lparr>rc_conf = sample_servers, auth_serv_sock = 0, acct_serv_sock = 0, auth_serv_sock6 = 0,
     acct_serv_sock6 = 0, auth_sock = 0, acct_sock = 0, auth_handlers = [], acct_handlers = [], msgs = [],
     num_msgs = 0, next_radius_identifier = 0, client_timers = [], retry_timers = [], sys_calls = 0, rc_out = [],
     sta_list = [\<lparr>sta_addr = [2, 0, 0, 0, 0, 1], sta_aid = 1, sta_preauth = False, supported_rates = [],
       dynamic_vlan = DYNAMIC_VLAN_DISABLED, vlan_id = 0, sta_acct_interim = 0, sta_rsn = False, sta_1x = Some x\<rparr>],
     hapd_calls = 0, hapd_out = []\<rparr>"

definition sample_request :: radius_msg where
  "sample_request = snd (radius_msg_finish (radius_msg_new RADIUS_CODE_ACCESS_REQUEST 0) (Some [1, 2, 3]))"

text \<open>The state after the client is created, a handler is registered and one request is sent.\<close>

definition sample_entry :: radius_msg_list where
  "sample_entry = \<lparr>ml_addr = replicate 6 0, ml_msg = sample_request, msg_type = RADIUS_AUTH, first_try = 7, next_try = 10,
     attempts = 1, next_wait = 6, last_attempt = (7, 0), ml_secret = [1, 2, 3]\<rparr>"

definition sample_ready :: "'p eapol_1x \<Rightarrow> 'p hostapd_data" where
  "sample_ready x = radius_client_register RADIUS_AUTH Ieee8021x_receive_auth
     (snd (the (radius_client_init sample_sys (7, 0) sample_servers (sample_hapd x))))"

definition sample_state :: "'p eapol_1x \<Rightarrow> 'p hostapd_data" where
  "sample_state x = snd (the (radius_client_send sample_sys (7, 0) (radius_msg_new RADIUS_CODE_ACCESS_REQUEST 0)
     RADIUS_AUTH None (snd (radius_client_get_id (sample_ready x)))))"

lemma sample_init:
  "\<exists>c. radius_client_init sample_sys (7, 0) sample_servers (sample_hapd x) = Some (True, c) \<and>
     msgs c = [] \<and> next_radius_identifier c = 0 \<and> auth_handlers c = [] \<and> num_msgs c = 0 \<and> rc_conf c = sample_servers \<and>
     sys_calls c = 5 \<and> sta_list c = sta_list (sample_hapd x)"
  by (simp add: radius_client_init_def Let_def radius_client_new_def sample_servers_def sample_sys_def sample_hapd_def
      radius_client_init_kind_def called_def current_server_def radius_change_server_def servers_of_def
      radius_client_flush_def remove_msgs_def cancel_timer_def register_read_def rc_emit_def)

lemma sample_request_facts: "hdr_identifier sample_request = 0" "20 \<le> length (rm_buf sample_request)"
proof -
  have "20 \<le> length (rm_buf (radius_msg_new RADIUS_CODE_ACCESS_REQUEST 0))" by code_simp
  moreover have "hdr_identifier (radius_msg_new RADIUS_CODE_ACCESS_REQUEST 0) = 0" by code_simp
  ultimately show "hdr_identifier sample_request = 0" "20 \<le> length (rm_buf sample_request)"
    using finish_keeps [of "radius_msg_new RADIUS_CODE_ACCESS_REQUEST 0"] by (simp_all add: sample_request_def)
qed

lemma sample_ready_facts:
  "radius_reach (run_handler conf) (sample_ready x)" "msgs (sample_ready x) = []" "num_msgs (sample_ready x) = 0"
  "next_radius_identifier (sample_ready x) = 0" "auth_handlers (sample_ready x) = [Ieee8021x_receive_auth]"
  "rc_conf (sample_ready x) = sample_servers" "sys_calls (sample_ready x) = 5"
  "sta_list (sample_ready x) = sta_list (sample_hapd x)"
proof -
  obtain c where c: "radius_client_init sample_sys (7, 0) sample_servers (sample_hapd x) = Some (True, c)"
    and f: "msgs c = []" "next_radius_identifier c = 0" "auth_handlers c = []" "num_msgs c = 0"
      "rc_conf c = sample_servers" "sys_calls c = 5" "sta_list c = sta_list (sample_hapd x)"
    using sample_init by blast
  have r: "sample_ready x = radius_client_register RADIUS_AUTH Ieee8021x_receive_auth c"
    by (simp add: sample_ready_def c)
  have "servers_ok sample_servers"
    by (simp add: servers_ok_def current_server_def servers_of_def sample_servers_def)
  then have "radius_reach (run_handler conf) c" using c by (rule_tac radius_reach.start)
  then show "radius_reach (run_handler conf) (sample_ready x)"
    unfolding r by (rule radius_reach.step [OF _ radius_step.register])
  show "msgs (sample_ready x) = []" "num_msgs (sample_ready x) = 0" "next_radius_identifier (sample_ready x) = 0"
    "auth_handlers (sample_ready x) = [Ieee8021x_receive_auth]" "rc_conf (sample_ready x) = sample_servers"
    "sys_calls (sample_ready x) = 5" "sta_list (sample_ready x) = sta_list (sample_hapd x)"
    using f by (simp_all add: r radius_client_register_def)
qed

lemma sample_send:
  "\<exists>c r. radius_client_send sample_sys (7, 0) (radius_msg_new RADIUS_CODE_ACCESS_REQUEST 0) RADIUS_AUTH None
     (snd (radius_client_get_id (sample_ready x))) = Some (r, c) \<and> msgs c = [sample_entry] \<and>
     auth_handlers c = [Ieee8021x_receive_auth] \<and> auth_server (rc_conf c) = Some 0 \<and> sys_calls c = 7 \<and>
     sta_list c = sta_list (sample_hapd x)"
  using sample_ready_facts(2-) [of x]
  by (simp add: radius_client_send_def Let_def is_acct_def current_server_def servers_of_def radius_client_get_id_def
      sample_servers_def rc_send_def sample_sys_def called_def rc_emit_def radius_client_list_add_def
      radius_client_consts radius_client_update_timeout_def register_timer_def cancel_timer_def upd_conf_def
      upd_server_def sample_request_def sample_entry_def)

lemma sample_state_facts:
  "radius_reach (run_handler conf) (sample_state x)" "msgs (sample_state x) = [sample_entry]"
  "auth_handlers (sample_state x) = [Ieee8021x_receive_auth]" "auth_server (rc_conf (sample_state x)) = Some 0"
  "sys_calls (sample_state x) = 7" "sta_list (sample_state x) = sta_list (sample_hapd x)"
proof -
  obtain c r where c: "radius_client_send sample_sys (7, 0) (radius_msg_new RADIUS_CODE_ACCESS_REQUEST 0) RADIUS_AUTH None
      (snd (radius_client_get_id (sample_ready x))) = Some (r, c)" and f: "msgs c = [sample_entry]"
    "auth_handlers c = [Ieee8021x_receive_auth]" "auth_server (rc_conf c) = Some 0" "sys_calls c = 7"
    "sta_list c = sta_list (sample_hapd x)"
    using sample_send by blast
  have s: "sample_state x = c" by (simp add: sample_state_def c)
  have "radius_step (run_handler conf) True (sample_ready x) c"
  proof (rule radius_step.request)
    show "radius_client_get_id (sample_ready x) = (0, snd (radius_client_get_id (sample_ready x)))"
      by (simp add: radius_client_get_id_def Let_def sample_ready_facts)
    show "hdr_identifier (radius_msg_new RADIUS_CODE_ACCESS_REQUEST 0) = 0" by code_simp
    show "20 \<le> length (rm_buf (radius_msg_new RADIUS_CODE_ACCESS_REQUEST 0))" by code_simp
  qed (rule c)
  then show "radius_reach (run_handler conf) (sample_state x)"
    unfolding s by (rule radius_reach.step [OF sample_ready_facts(1)])
  show "msgs (sample_state x) = [sample_entry]" "auth_handlers (sample_state x) = [Ieee8021x_receive_auth]"
    "auth_server (rc_conf (sample_state x)) = Some 0" "sys_calls (sample_state x) = 7"
    "sta_list (sample_state x) = sta_list (sample_hapd x)"
    using f by (simp_all add: s)
qed

text \<open>A bare Access-Reject for the pending request.\<close>

definition sample_reject :: bytes where "sample_reject = [3, 0, 0, 20] @ replicate 16 0"

definition sample_reject_msg :: radius_msg where
  "sample_reject_msg = \<lparr>rm_buf = sample_reject, attr_pos = [], attr_size = 16\<rparr>"

lemma sample_reject_facts:
  "radius_msg_parse sample_reject = Some sample_reject_msg" "hdr_identifier sample_reject_msg = 0"
  "hdr_code sample_reject_msg = RADIUS_CODE_ACCESS_REJECT" "length sample_reject = 20"
  "find_attr sample_reject_msg t = None" "radius_msg_get_eap sample_reject_msg = None"
  by (code_simp, code_simp, code_simp, code_simp, simp add: find_attr_def sample_reject_msg_def, code_simp)

lemma sample_receive:
  "\<exists>c' y. radius_client_receive (run_handler conf) (8, 0) RADIUS_AUTH (Some sample_reject) (sample_state (x\<lparr>radius_identifier := 0\<rparr>))
     = Some c' \<and> sta_1x (sta_list c' ! 0) = Some y \<and> aaaFail (x_eap y) \<and> msgs c' = [] \<and> auth_server (rc_conf c') = Some 0"
  by (simp add: radius_client_receive_def Let_def sample_state_facts sample_reject_facts current_server_def write_server_def
      counted_codes_def take_response_def run_handler_def ieee802_1x_receive_auth_def unlink_entry_def upd_conf_def
      upd_server_def sample_entry_def sample_request_facts get_attr_absent sample_hapd_def ieee802_1x_select_radius_identifier_def
      take_message_def receive_interim_def upd_1x_def upd_sta_def ieee802_1x_decapsulate_radius_def upd_eap_def
      RADIUS_CODE_ACCESS_REJECT_def RADIUS_CODE_ACCESS_ACCEPT_def)

lemma sample_again:
  "msgs c = [] \<Longrightarrow> auth_server (rc_conf c) = Some 0 \<Longrightarrow>
   \<exists>f. radius_client_receive (run_handler conf) (9, 0) RADIUS_AUTH (Some sample_reject) c = Some f"
  by (simp add: radius_client_receive_def Let_def sample_reject_facts current_server_def write_server_def)

lemma sample_first: "first_request RADIUS_AUTH sample_reject_msg (sample_state x) = Some sample_entry"
  by (simp add: first_request_def sample_state_facts sample_reject_facts)
    (simp add: sample_entry_def sample_request_facts)

lemma sample_state_station:
  "sta_1x (sta_list (sample_state x) ! 0) = Some x" "0 < length (sta_list (sample_state x))"
  by (simp_all add: sample_state_facts sample_hapd_def)

subsection \<open>The statements at work\<close>

theorem radius_queue_bounded_witness:
  "\<forall>conf x. radius_reach (run_handler conf) (sample_state x) \<and> length (msgs (sample_state x)) = 1 \<and>
     length (msgs (sample_state x)) \<le> 30 \<and> client_timers (sample_state x) \<noteq> []"
proof (intro allI)
  fix conf :: hapd_conf and x :: "'p eapol_1x"
  show "radius_reach (run_handler conf) (sample_state x) \<and> length (msgs (sample_state x)) = 1 \<and>
     length (msgs (sample_state x)) \<le> 30 \<and> client_timers (sample_state x) \<noteq> []"
    using radius_queue_bounded [OF sample_state_facts(1) [of conf x]] sample_state_facts(1) [of conf x]
    by (simp add: sample_state_facts(2))
qed

theorem radius_response_counts_once_witness:
  "\<forall>conf x. \<exists>d f.
     radius_client_receive (run_handler conf) (8, 0) RADIUS_AUTH (Some sample_reject)
       (sample_state (x\<lparr>radius_identifier := 0\<rparr>)) = Some d \<and>
     radius_client_receive (run_handler conf) (9, 0) RADIUS_AUTH (Some sample_reject) d = Some f \<and>
     f = d\<lparr>rc_conf := answer_counted False RADIUS_CODE_ACCESS_REJECT (rc_conf d)\<rparr> \<and> sta_list f = sta_list d"
proof (intro allI)
  fix conf :: hapd_conf and x :: "'p eapol_1x"
  let ?x = "x\<lparr>radius_identifier := 0\<rparr>"
  obtain d where d: "radius_client_receive (run_handler conf) (8, 0) RADIUS_AUTH (Some sample_reject)
      (sample_state ?x) = Some d" and "msgs d = []" "auth_server (rc_conf d) = Some 0"
    using sample_receive by blast
  then obtain f where f: "radius_client_receive (run_handler conf) (9, 0) RADIUS_AUTH (Some sample_reject) d = Some f"
    using sample_again by blast
  have "length sample_reject < 3000" by (simp add: sample_reject_facts)
  from radius_response_counts_once [OF sample_state_facts(1) d sample_reject_facts(1) sample_first this
      radius_quiet.refl f] d f
  show "\<exists>d f. radius_client_receive (run_handler conf) (8, 0) RADIUS_AUTH (Some sample_reject)
       (sample_state ?x) = Some d \<and>
     radius_client_receive (run_handler conf) (9, 0) RADIUS_AUTH (Some sample_reject) d = Some f \<and>
     f = d\<lparr>rc_conf := answer_counted False RADIUS_CODE_ACCESS_REJECT (rc_conf d)\<rparr> \<and> sta_list f = sta_list d"
    by (simp add: sample_reject_facts)
qed

theorem radius_retransmit_faults_exactly_witness:
  "\<forall>x. radius_client_retransmit (sample_sys\<lparr>sys_send := (\<lambda>_. SendFailed True)\<rparr>) (10, 0) 0 (sample_state x) = None \<and>
     radius_client_retransmit sample_sys (10, 0) 0 (sample_state x) \<noteq> None"
proof
  fix x :: "'p eapol_1x"
  have "0 < length (msgs (sample_state x))" by (simp add: sample_state_facts)
  note f = radius_retransmit_faults_exactly [OF sample_state_facts(1) this]
  show "radius_client_retransmit (sample_sys\<lparr>sys_send := (\<lambda>_. SendFailed True)\<rparr>) (10, 0) 0 (sample_state x) = None \<and>
     radius_client_retransmit sample_sys (10, 0) 0 (sample_state x) \<noteq> None"
    unfolding f by (simp add: sample_state_facts sample_entry_def sample_sys_def)
qed

text \<open>
  An Access-Accept of the RADIUS server for the pending request, with an EAP-Success and two keys, and the
  station that waits for it.
\<close>

definition sample_1x :: "'p eapol_1x \<Rightarrow> 'p eapol_1x" where
  "sample_1x x = x\<lparr>x_eap := (x_eap x)\<lparr>aaaSuccess := False\<rparr>, radius_identifier := 0\<rparr>"

definition sample_hapd_conf :: hapd_conf where
  "sample_hapd_conf = \<lparr>conf_acct_interim = 0, own_ip_addr = AF_OTHER, nas_identifier = None, conf_ssid = [],
     own_addr = replicate 6 0, conf_hw_mode = HOSTAPD_MODE_IEEE80211G, has_vlan_ifname = (\<lambda>_. False),
     bind_vlan_ok = (\<lambda>_. True), random_octets = (\<lambda>_. ([], [], []))\<rparr>"

lemma accept_succeeds:
  "\<not> sta_rsn (sta_list c ! i) \<Longrightarrow> receive_accept conf i m req secret c \<noteq> None"
  by (simp add: receive_accept_def Let_def ex_bool_eq)

lemma sample_take:
  assumes "sta_list d = sta_list (sample_hapd (sample_1x x))" and "hdr_code m = RADIUS_CODE_ACCESS_ACCEPT"
  shows "\<exists>e. take_message sample_hapd_conf 0 m req secret d = Some e"
proof -
  define c where "c = receive_interim sample_hapd_conf 0 m
    (upd_1x 0 (\<lambda>x. x\<lparr>radius_identifier := -1, last_recv_radius := Some m\<rparr>) d)"
  have "\<not> sta_rsn (sta_list c ! 0)"
    using assms by (auto simp: c_def receive_interim_def upd_1x_def upd_sta_def sample_hapd_def split: option.split)
  then obtain b e where "receive_accept sample_hapd_conf 0 m req secret c = Some (b, e)"
    using accept_succeeds by fastforce
  then show ?thesis
    unfolding take_message_def Let_def c_def [symmetric] by (simp add: assms(2))
qed

lemma sample_accept:
  obtains m where "radius_msg_parse (rm_buf m) = Some m" "hdr_code m = RADIUS_CODE_ACCESS_ACCEPT"
    "hdr_identifier m = 0" "radius_msg_verify m [1, 2, 3] (Some sample_request) True = Some (0, m)"
    "usable_eap m = Some [3, 0, 0, 4]" "accepted_keys m sample_request [1, 2, 3] = Some [5, 5, 4, 4, 4]"
    "length (rm_buf m) < 3000"
proof -
  have "sent_ok sample_request" using sample_request_facts(2) by (simp add: sent_ok_def)
  then obtain m1 m2 m where m: "\<And>rest. radius_msg_parse (rm_buf m @ rest) = Some m"
      "hdr_code m = RADIUS_CODE_ACCESS_ACCEPT" "hdr_identifier m = 0"
      "radius_msg_verify m [1, 2, 3] (Some sample_request) True = Some (0, m)" "radius_msg_get_eap m = Some [3, 0, 0, 4]"
      "radius_msg_get_ms_keys m sample_request [1, 2, 3] = \<lparr>mppe_send = Some [4, 4, 4], mppe_recv = Some [5, 5]\<rparr>"
      "length (rm_buf m) \<le> 3 * length [3, 0, 0, 4 :: u8] + 1000"
    by (rule server_reply [of sample_request "[1, 2, 3]" "[3, 0, 0, 4]" "[4, 4, 4]" "[5, 5]" RADIUS_CODE_ACCESS_ACCEPT 0 77])
      auto
  have "radius_msg_parse (rm_buf m) = Some m" using m(1) [of "[]"] by simp
  then show thesis using m(2-) by (intro that [of m]) (simp_all add: usable_eap_def accepted_keys_def)
qed

lemma sample_accepted:
  assumes m: "radius_msg_parse (rm_buf m) = Some m" "hdr_code m = RADIUS_CODE_ACCESS_ACCEPT" "hdr_identifier m = 0"
    "radius_msg_verify m [1, 2, 3] (Some sample_request) True = Some (0, m)" "length (rm_buf m) < 3000"
  obtains c' y where "radius_client_receive (run_handler sample_hapd_conf) (8, 0) RADIUS_AUTH (Some (rm_buf m))
      (sample_state (sample_1x x)) = Some c'" "sta_1x (sta_list c' ! 0) = Some y" "aaaSuccess (x_eap y)"
proof -
  let ?c = "sample_state (sample_1x x)"
  have code: "hdr_code m \<noteq> RADIUS_CODE_ACCESS_REJECT" "hdr_code m \<in> set counted_codes"
    using m(2) by (simp_all add: counted_codes_def RADIUS_CODE_ACCESS_ACCEPT_def RADIUS_CODE_ACCESS_REJECT_def)
  have auth: "\<exists>e. ieee802_1x_receive_auth sample_hapd_conf m sample_request [1, 2, 3] d = Some (RADIUS_RX_QUEUED, e) \<and>
      (\<exists>y. sta_1x (sta_list e ! 0) = Some y \<and> aaaSuccess (x_eap y))"
    if d: "sta_list d = sta_list (sample_hapd (sample_1x x))" for d
  proof -
    have search: "ieee802_1x_search_radius_identifier (sta_list d) (hdr_identifier m) = Some 0"
      by (simp add: d m(3) sample_hapd_def ieee802_1x_select_radius_identifier_def sample_1x_def)
    obtain e where e: "take_message sample_hapd_conf 0 m sample_request [1, 2, 3] d = Some e"
      using sample_take [OF d m(2)] by blast
    have x: "0 < length (sta_list d)" "sta_1x (sta_list d ! 0) = Some (sample_1x x)" by (simp_all add: d sample_hapd_def)
    have g: "vlan_granted sample_hapd_conf m (sta_list d ! 0) n" for n
      by (simp add: d vlan_granted_def sample_hapd_def sample_hapd_conf_def)
    have "taken_as m (backend_result m sample_request [1, 2, 3] True (x_eap (sample_1x x))) e 0"
      using take_message_result [OF e _ x] m(2) g by simp
    then have "\<exists>y. sta_1x (sta_list e ! 0) = Some y \<and> aaaSuccess (x_eap y)"
      using m(2) by (auto simp: taken_as_def backend_result_def Let_def)
    then show ?thesis using search e m(2,4) code by (simp add: ieee802_1x_receive_auth_def)
  qed
  define d where "d = unlink_entry 0 (upd_conf (upd_server False 0 (\<lambda>sv. sv\<lparr>round_trip_time := 100\<rparr>))
    (upd_conf (upd_server False 0 (count_response (hdr_code m))) ?c))"
  have "sta_list d = sta_list (sample_hapd (sample_1x x))"
    by (simp add: d_def unlink_entry_def upd_conf_def sample_state_facts)
  from auth [OF this] obtain e y where e: "ieee802_1x_receive_auth sample_hapd_conf m sample_request [1, 2, 3] d
      = Some (RADIUS_RX_QUEUED, e)" "sta_1x (sta_list e ! 0) = Some y" "aaaSuccess (x_eap y)" by blast
  have "radius_client_receive (run_handler sample_hapd_conf) (8, 0) RADIUS_AUTH (Some (rm_buf m)) ?c = Some e"
    using m(1,5) e(1) code(2)
    by (simp add: radius_client_receive_def Let_def sample_state_facts current_server_def write_server_def m(3)
        take_response_def run_handler_def sample_entry_def sample_request_facts d_def upd_conf_def c_div_def)
  then show thesis by (rule that [OF _ e(2,3)])
qed

theorem backend_input_authentic_witness:
  "\<forall>x. \<exists>m c' y.
     radius_client_receive (run_handler sample_hapd_conf) (8, 0) RADIUS_AUTH (Some (rm_buf m))
       (sample_state (sample_1x x)) = Some c' \<and>
     radius_msg_verify m [1, 2, 3] (Some sample_request) True = Some (0, m) \<and>
     sta_1x (sta_list c' ! 0) = Some y \<and> radius_identifier y = -1 \<and> aaaSuccess (x_eap y) \<and>
     aaaEapReqData (x_eap y) = Some [3, 0, 0, 4] \<and> aaaEapKeyData (x_eap y) = Some [5, 5, 4, 4, 4]"
proof
  fix x :: "'p eapol_1x"
  obtain m where m: "radius_msg_parse (rm_buf m) = Some m" "hdr_code m = RADIUS_CODE_ACCESS_ACCEPT"
    "hdr_identifier m = 0" "radius_msg_verify m [1, 2, 3] (Some sample_request) True = Some (0, m)"
    "usable_eap m = Some [3, 0, 0, 4]" "accepted_keys m sample_request [1, 2, 3] = Some [5, 5, 4, 4, 4]"
    "length (rm_buf m) < 3000" by (rule sample_accept)
  obtain c' y where c': "radius_client_receive (run_handler sample_hapd_conf) (8, 0) RADIUS_AUTH (Some (rm_buf m))
      (sample_state (sample_1x x)) = Some c'" "sta_1x (sta_list c' ! 0) = Some y" "aaaSuccess (x_eap y)"
    by (rule sample_accepted [OF m(1-4,7)])
  have "x_eap y \<noteq> x_eap (sample_1x x)" using c'(3) by (auto simp: sample_1x_def)
  moreover have "first_request RADIUS_AUTH m (sample_state (sample_1x x)) = Some sample_entry"
    by (simp add: first_request_def sample_state_facts m(3)) (simp add: sample_entry_def sample_request_facts)
  ultimately have y: "x_eap y = backend_result m sample_request [1, 2, 3]
      (vlan_granted sample_hapd_conf m (sta_list (sample_state (sample_1x x)) ! 0) (hapd_calls (sample_state (sample_1x x))))
      (x_eap (sample_1x x))" "radius_identifier y = -1"
    using backend_input_authentic [OF c'(1) sample_state_facts(1) sample_state_station(2,1)] m(1) c'(2)
    by (auto simp: sample_entry_def)
  have "vlan_granted sample_hapd_conf m (sta_list (sample_state (sample_1x x)) ! 0) n" for n
    by (simp add: vlan_granted_def sample_state_facts sample_hapd_def sample_hapd_conf_def)
  then have "aaaEapReqData (x_eap y) = Some [3, 0, 0, 4]" "aaaEapKeyData (x_eap y) = Some [5, 5, 4, 4, 4]"
    using m(2,5,6) by (simp_all add: y(1) backend_result_def Let_def)
  then show "\<exists>m c' y. radius_client_receive (run_handler sample_hapd_conf) (8, 0) RADIUS_AUTH (Some (rm_buf m))
       (sample_state (sample_1x x)) = Some c' \<and>
     radius_msg_verify m [1, 2, 3] (Some sample_request) True = Some (0, m) \<and>
     sta_1x (sta_list c' ! 0) = Some y \<and> radius_identifier y = -1 \<and> aaaSuccess (x_eap y) \<and>
     aaaEapReqData (x_eap y) = Some [3, 0, 0, 4] \<and> aaaEapKeyData (x_eap y) = Some [5, 5, 4, 4, 4]"
    using c' m(4) y(2) by blast
qed

end
