(* ===== verification/Spec2Isabelle.thy ===== *)
theory Spec2Isabelle
  imports EapolLoop WpaHandshake EapServe RadiusBackend
begin

text \<open>
  The access point authentication of the firmware: the part of \<^verbatim>\<open>hostapd/src\<close> that decides
  whether a wireless station may use the port of the access point and under which keys. The
  development models the C code function by function; file names are relative to
  \<^verbatim>\<open>hostapd/src\<close>.

  \<^bold>\<open>The program and its parts.\<close> A station associates, its RSN or WPA element is checked
  (\<^verbatim>\<open>ap/wpa_auth_ie.c\<close>), the IEEE 802.1X machines of its port run the authentication
  (\<^verbatim>\<open>eapol_auth/eapol_auth_sm.c\<close>) with the integrated EAP server (\<^verbatim>\<open>eap_server/eap_server.c\<close>)
  and its methods or, through \<^verbatim>\<open>ap/ieee802_1x.c\<close> and the RADIUS client
  (\<^verbatim>\<open>radius/radius_client.c\<close>, \<^verbatim>\<open>radius/radius.c\<close>), with an authentication server, the WPA
  authenticator runs the four-way handshake and the group key handshake (\<^verbatim>\<open>ap/wpa_auth.c\<close>) with keys from the PMKSA cache (\<^verbatim>\<open>ap/pmksa_cache_auth.c\<close>), the
  configured pre-shared keys or the EAP server, and at the end the driver gets the keys and opens
  the port. The keys and the protection of the frames come from \<^verbatim>\<open>common/wpa_common.c\<close> over
  \<^verbatim>\<open>crypto\<close>. The modelled build is the one without 802.11r, 802.11w and PeerKey.

  \<^bold>\<open>The theories.\<close>
  \<^item> \<open>Prelude\<close>: words, buffers and the collections \<open>len_simps\<close>, \<open>frame_simps\<close>, \<open>codec_simps\<close>.
  \<^item> \<open>Common\<close>: \<^verbatim>\<open>utils/common.c\<close>, byte order, hexadecimal text, addresses, counters.
  \<^item> \<open>Rc4\<close>, \<open>Aes_Tables\<close>, \<open>Aes\<close>, \<open>AesWrap\<close>, \<open>HashBase\<close>, \<open>Sha1\<close>, \<open>Md5\<close>: the primitives of \<^verbatim>\<open>crypto\<close>
    with their reference definitions (FIPS 180, RFC 1321, RFC 2104, PKCS 5) and round trips.
  \<^item> \<open>EapolAuth\<close>: the six machines of a port and their loop; \<open>EapolFrame\<close> what each state changes,
    \<open>EapolLoop\<close> that the loop rests, \<open>EapolPort\<close> who gets through the port.
  \<^item> \<open>EapCommon\<close>: EAP packets, the MD5 challenge and the users; \<open>EapServer\<close>, \<open>EapStep\<close>: the states of the
    EAP server, its step, loop and entry points; \<open>EapMethods\<close>: the methods Identity, MD5 and GTC.
  \<^item> \<open>EapFlow\<close>: the rank that bounds the loop of the server; \<open>EapSafe\<close>: well-formed servers meet no
    fault; \<open>EapRun\<close>: runs of the server (\<open>eap_reach\<close>); \<open>EapTalk\<close>: what a conversation carries from a
    request to the answer; \<open>EapServe\<close>: what the server promises, and the port that it serves
    (\<open>station_reach\<close>).
  \<^item> \<open>RadiusMsg\<close>: RADIUS messages, and what it means that a message consists of given attributes
    (\<open>radius_rep\<close>); \<open>RadiusCheck\<close>: the two authenticators, the hidden keys and passwords;
    \<open>RadiusClient\<close>: the client's list of requests, its timers, sockets and servers; \<open>RadiusPool\<close>: its
    invariant \<open>client_ok\<close>; \<open>RadiusRun\<close>: runs of the client (\<open>radius_reach\<close>) for any registered handlers
    that leave the client alone (locale \<open>radius_handlers\<close>).
  \<^item> \<open>Ieee8021x\<close>: from the EAP packet of a station to the Access-Request and from the response to its
    EAP server; \<open>RadiusBackend\<close>: the handlers of the access point keep the law of the locale
    (interpretation \<open>rx\<close>), and what the client, the glue and the EAP server achieve together.
  \<^item> \<open>WpaCommon\<close>: key derivation, MIC and frame layout; \<open>PmksaCache\<close>: the cache, whose specification
    is a finite map; \<open>WpaTypes\<close>: the records of \<^verbatim>\<open>ap/wpa_auth_i.h\<close>; \<open>WpaIe\<close>: elements, key data and
    the negotiation.
  \<^item> \<open>WpaGroup\<close>: calls out of the authenticator and group keys; \<open>WpaSend\<close>: sending of EAPOL-Key
    frames; \<open>WpaPtk\<close>: the two machines of a station; \<open>WpaLoop\<close>: the group machine, the step loop,
    timers, stations and events; \<open>WpaReceive\<close>: reception of EAPOL-Key frames.
  \<^item> \<open>WpaFrame\<close>, \<open>WpaCalm\<close>, \<open>WpaGood\<close>, \<open>WpaEvents\<close>: what each operation changes, that the loop of a
    station rests, the invariant \<open>good\<close> of the authenticator with all its stations, and that every
    entry point keeps it; \<open>WpaRun\<close>: runs from \<open>wpa_init\<close> (\<open>wpa_reach\<close>) and what holds in all of
    them; \<open>WpaHandshake\<close>: the steps of a handshake one by one.

  \<^bold>\<open>State.\<close> A C structure is a record with its fields, a buffer is a list of octets, an integer is a
  word of its width or, where the code stays far from the limits, \<open>int\<close> or \<open>nat\<close>. A pointer that
  may be NULL is an option. \<open>wpa_world\<close> is the authenticator with its group and its list of stations,
  an entry that is \<open>None\<close> is a freed one; \<open>wpa_ctx\<close> is what the functions of one station reach. A
  call into the rest of the program that changes something (the driver, the event loop, the
  station table) is an output, appended to a list in the order of the calls; a call that answers
  is a field of \<open>wpa_env\<close> that may depend on the outputs so far. The callbacks do not call back
  into the machines: hostapd defers a disconnection to its event loop. One writes to them:
  \<open>ieee802_1x_abort_auth\<close>, which the backend machine calls when it is initialized, clears \<open>portEnabled\<close>
  after an EAP timeout; it is modelled in \<open>Ieee8021x\<close>, and in the machines the call is an output only,
  its effect a write of the environment between two runs. The EAP server is \<open>eap_sm\<close>; its
  methods are a table of functions on private data and on \<open>eap_shared\<close>, the part of the server that
  methods write. A NULL pointer that is dereferenced and a read outside a packet are the result
  \<open>Fault\<close>. The EAPOL machines call the server through \<open>eap_server_for_port\<close> and share the interface
  variables with it. The RADIUS client is \<open>radius_client_data\<close>, a record that \<open>hostapd_data\<close> extends by the
  list of stations, so the client's functions carry the stations along without reading them. What the
  operating system answers (\<open>send\<close>, \<open>socket\<close>, \<open>bind\<close>, \<open>connect\<close>) comes from the streams of \<open>sys_answers\<close>;
  a NULL or freed pointer that is used, or memory past a message, is the result \<open>None\<close>.

  \<^bold>\<open>Loops.\<close> The EAPOL loop has the hundred rounds of the code; its rank is at most 48 when the EAP
  server is idle. The loop of \<open>wpa_sm_step\<close> has no bound in the code; the model gives it fuel, and
  \<open>STEP_ROUNDS\<close>, 62 rounds, is proved to be enough for every event of every run, nested steps of a
  group rekeying included. The loop of \<open>eap_server_sm_step\<close> gets fuel too, and \<open>EAP_ROUNDS\<close>, 19 rounds,
  is enough for every call, as its rank is at most 18. The lookup of opportunistic keys may really not return; its model
  returns \<open>None\<close> exactly then.

  \<^bold>\<open>What is shown.\<close> Nothing opens a port or installs a pairwise key without a verified message 4/4
  (\<open>wpa_opens_only_after_handshake\<close>), and on the EAPOL side without EAP success
  (\<open>no_success_no_port\<close>) and without valid keys, even for a station with a cached key
  (\<open>no_keys_no_port\<close>); with the integrated EAP server not without a right
  answer to its last request under the password of a configured user
  (\<open>port_opens_only_for_password\<close>, \<open>eap_success_needs_password\<close>), and the server itself always returns,
  never faults and keeps its types (\<open>eap_server_step_returns\<close>, \<open>eap_server_well_formed\<close>) as long as its
  methods start; two runs show what goes wrong otherwise (\<open>failed_start_faults\<close>) and how a user keeps
  an old conversation under a new name (\<open>accepted_under_another_name\<close>); with a
  RADIUS server, the EAP server of a station learns exactly what a verified response to a pending request
  with the identifier the station waits for says, a bare Access-Reject, which is not verified, apart
  (\<open>backend_input_authentic\<close>), and each such input is a step that
  the runs of \<open>EapServe\<close> allow (\<open>radius_step_is_server_entry\<close>); the check of a response is the one of RFC
  2865 and RFC 2869 (\<open>radius_verify_exact\<close>), what a server puts into a reply arrives
  (\<open>radius_reply_arrives\<close>), the parser accepts exactly the well-formed messages
  (\<open>radius_parse_exact\<close>), the list of requests is bounded and unambiguous (\<open>radius_queue_bounded\<close>), a
  response counts once (\<open>radius_response_counts_once\<close>), and a retransmission touches a freed entry in
  exactly one situation (\<open>radius_retransmit_faults_exactly\<close>); a right message 4/4 opens the port
  (\<open>handshake_completes\<close>); all
  events return and leave the machines at rest; replay counters are a window; frames that fail a
  check change nothing; the keys are those of the standard, the same at both ends; leaving wipes
  them; the elements written are the elements parsed; the parsers stay inside their buffers; the
  cache is a map that evicts one entry when it is full; the primitives are the standard ones and can be inverted.

  \<^bold>\<open>Not modelled.\<close> Memory allocation succeeds except where a function returns an error that the
  model shows. Logging, the text of the management information base, the freeing of everything at
  shutdown and the groups of VLANs are left out: they have no part in the keys and ports above or,
  for the VLAN groups, repeat one group. The EAP methods that rest on TLS or MSCHAPv2 are inputs: any
  table of methods with the laws of \<open>eap_methods_sound\<close>. Of the RADIUS client the text of its counters
  and the options of its sockets are left out, of \<^verbatim>\<open>ap/ieee802_1x.c\<close> the WEP keys and the frames from and to
  the driver; the messages of accounting, the lists of allowed stations (\<^verbatim>\<open>ap/ieee802_11_auth.c\<close>) and the
  RADIUS server of hostapd, which the default configuration does not build, are not modelled. The
  station table and the management frames (\<^verbatim>\<open>ap/sta_info.c\<close>, \<^verbatim>\<open>ap/ieee802_11.c\<close>), the random pool and the
  driver interface are parts of the environment: stations come and go as the events of the runs, random
  octets are arbitrary. The rest of the firmware (kernel configuration, web pages, client programs) is
  outside the development.
\<close>

end
